(* ===== verification/Prelude.thy ===== *)
theory Prelude
  imports Main "HOL-Library.Word"
begin

text \<open>
  Shared ground of the development: the machine types of the 32-bit Windows target, the ways the
  code fails as values of a sum type, byte memory with explicit out-of-range accesses, C strings,
  and the little-endian layout of the integers that cross the wire. The locale at the end is the
  interface every fixed-width encoding offers to the packet layers above it.
\<close>

unbundle bit_operations_syntax

section \<open>Machine types\<close>

type_synonym u8 = "8 word"
type_synonym u16 = "16 word"
type_synonym u32 = "32 word"

text \<open>
  The header layout of the repository is pinned by a static assertion to 12 bytes, which fixes
  \<open>size_t\<close> at four bytes (x86).
\<close>

type_synonym size_t = "32 word"
type_synonym bytes = "u8 list"

section \<open>Failures as values\<close>

text \<open>
  \<open>Nettik_Exception\<close> is the exception macro of the networking code, \<open>Fatal_Exception\<close> the
  \<open>CFatalException\<close> of the mathematics, \<open>Runtime_Error\<close> a
  \<open>std::runtime_error\<close>, \<open>Out_Of_Range\<close> the exception of the checked \<open>at\<close> accessors, and
  \<open>Undefined\<close> an access the language leaves undefined (a read or write outside a block, a
  null dereference): the model stops there instead of choosing a value.
\<close>

datatype fault = Nettik_Exception | Fatal_Exception | Runtime_Error | Out_Of_Range | Undefined

type_synonym 'a res = "fault + 'a"

definition res_bind :: "'a res \<Rightarrow> ('a \<Rightarrow> 'b res) \<Rightarrow> 'b res" where
  "res_bind m f = (case m of Inl e \<Rightarrow> Inl e | Inr x \<Rightarrow> f x)"

lemma res_bind_simps [simp]:
  "res_bind (Inl e) f = Inl e"
  "res_bind (Inr x) f = f x"
  by (simp_all add: res_bind_def)

lemma res_bind_Inr_iff:
  "res_bind m f = Inr y \<longleftrightarrow> (\<exists>x. m = Inr x \<and> f x = Inr y)"
  by (cases m) auto

lemma res_bind_assoc: "res_bind (res_bind m f) g = res_bind m (\<lambda>x. res_bind (f x) g)"
  by (cases m) auto

definition res_map :: "('a \<Rightarrow> 'b) \<Rightarrow> 'a res \<Rightarrow> 'b res" where
  "res_map f r = res_bind r (\<lambda>x. Inr (f x))"

lemma res_map_simps [simp]: "res_map f (Inl e) = Inl e" "res_map f (Inr x) = Inr (f x)"
  by (simp_all add: res_map_def)

section \<open>Collections of rewrite rules\<close>

named_theorems wire_simps \<open>layout and length facts of the wire format\<close>
named_theorems frame_simps \<open>which fields an operation leaves alone\<close>

section \<open>Byte memory\<close>

definition peek :: "bytes \<Rightarrow> nat \<Rightarrow> u8 res" where
  "peek mem i = (if i < length mem then Inr (mem ! i) else Inl Undefined)"

definition poke :: "bytes \<Rightarrow> nat \<Rightarrow> u8 \<Rightarrow> bytes res" where
  "poke mem i b = (if i < length mem then Inr (mem[i := b]) else Inl Undefined)"

text \<open>Loops that read or write one byte per iteration at consecutive addresses.\<close>

fun peeks :: "bytes \<Rightarrow> nat \<Rightarrow> nat \<Rightarrow> bytes res" where
  "peeks mem i 0 = Inr []"
| "peeks mem i (Suc n) =
     res_bind (peek mem i) (\<lambda>b. res_bind (peeks mem (Suc i) n) (\<lambda>bs. Inr (b # bs)))"

fun pokes :: "bytes \<Rightarrow> nat \<Rightarrow> bytes \<Rightarrow> bytes res" where
  "pokes mem i [] = Inr mem"
| "pokes mem i (b # bs) = res_bind (poke mem i b) (\<lambda>mem'. pokes mem' (Suc i) bs)"

lemma peek_in [simp]: "i < length mem \<Longrightarrow> peek mem i = Inr (mem ! i)"
  by (simp add: peek_def)

lemma peek_Inr_iff: "peek mem i = Inr b \<longleftrightarrow> i < length mem \<and> b = mem ! i"
  by (auto simp: peek_def)

lemma poke_in [simp]: "i < length mem \<Longrightarrow> poke mem i b = Inr (mem[i := b])"
  by (simp add: poke_def)

lemma peeks_in: "i + n \<le> length mem \<Longrightarrow> peeks mem i n = Inr (take n (drop i mem))"
proof (induction n arbitrary: i)
  case (Suc n)
  then have "i < length mem" and "peeks mem (Suc i) n = Inr (take n (drop (Suc i) mem))"
    by simp_all
  then show ?case
    by (simp add: Cons_nth_drop_Suc [symmetric])
qed simp

lemma peeks_out: "length mem < i + n \<Longrightarrow> 0 < n \<Longrightarrow> peeks mem i n = Inl Undefined"
proof (induction n arbitrary: i)
  case (Suc n)
  show ?case
  proof (cases "i < length mem \<and> 0 < n")
    case True
    with Suc.prems have "peeks mem (Suc i) n = Inl Undefined"
      by (intro Suc.IH) auto
    with True show ?thesis by simp
  next
    case False
    with Suc.prems show ?thesis by (auto simp: peek_def)
  qed
qed simp

lemma pokes_in:
  "i + length bs \<le> length mem \<Longrightarrow>
   pokes mem i bs = Inr (take i mem @ bs @ drop (i + length bs) mem)"
proof (induction bs arbitrary: mem i)
  case (Cons b bs)
  then have i: "i < length mem" by simp
  with Cons have "pokes (mem[i := b]) (Suc i) bs =
      Inr (take (Suc i) (mem[i := b]) @ bs @ drop (Suc i + length bs) (mem[i := b]))"
    by (intro Cons.IH) simp
  with i show ?case
    by (simp add: take_Suc_conv_app_nth)
qed simp

lemma pokes_out:
  "length mem < i + length bs \<Longrightarrow> bs \<noteq> [] \<Longrightarrow> pokes mem i bs = Inl Undefined"
proof (induction bs arbitrary: mem i)
  case (Cons b bs)
  show ?case
  proof (cases "i < length mem \<and> bs \<noteq> []")
    case True
    with Cons.prems have "pokes (mem[i := b]) (Suc i) bs = Inl Undefined"
      by (intro Cons.IH) auto
    with True show ?thesis by simp
  next
    case False
    with Cons.prems show ?thesis by (auto simp: poke_def)
  qed
qed simp

lemma pokes_length: "pokes mem i bs = Inr mem' \<Longrightarrow> length mem' = length mem"
  by (induction bs arbitrary: mem i) (auto simp: res_bind_Inr_iff poke_def split: if_splits)

text \<open>The same facts about a block inside a larger one.\<close>

lemma take_drop_append [simp]: "take n xs @ drop n xs @ ys = xs @ ys"
  by (simp flip: append_assoc)

lemma peek_block: "length pre = i \<Longrightarrow> peek (pre @ b # post) i = Inr b"
  by (auto simp: peek_def)

lemma poke_block: "length pre = i \<Longrightarrow> poke (pre @ a # post) i b = Inr (pre @ b # post)"
  by (auto simp: poke_def)

lemma peeks_block: "length pre = i \<Longrightarrow> length mid = n \<Longrightarrow> peeks (pre @ mid @ post) i n = Inr mid"
  by (auto simp: peeks_in)

lemma pokes_block:
  "length pre = i \<Longrightarrow> length old = length new \<Longrightarrow>
   pokes (pre @ old @ post) i new = Inr (pre @ new @ post)"
  by (auto simp: pokes_in)

section \<open>C strings\<close>

text \<open>\<open>strlen\<close> walks to the first zero byte; without one it leaves the block.\<close>

fun c_strlen :: "bytes \<Rightarrow> nat res" where
  "c_strlen [] = Inl Undefined"
| "c_strlen (b # bs) = (if b = 0 then Inr 0 else res_bind (c_strlen bs) (\<lambda>n. Inr (Suc n)))"

definition c_str :: "bytes \<Rightarrow> bytes res" where
  "c_str bs = res_bind (c_strlen bs) (\<lambda>n. Inr (take n bs))"

lemma c_strlen_app: "0 \<notin> set s \<Longrightarrow> c_strlen (s @ 0 # rest) = Inr (length s)"
  by (induction s) auto

lemma c_str_app: "0 \<notin> set s \<Longrightarrow> c_str (s @ 0 # rest) = Inr s"
  by (simp add: c_str_def c_strlen_app)

lemma c_strlen_Inr:
  "c_strlen bs = Inr n \<Longrightarrow> n < length bs \<and> bs ! n = 0 \<and> 0 \<notin> set (take n bs)"
  by (induction bs arbitrary: n) (auto simp: res_bind_Inr_iff split: if_splits)

section \<open>Counts as machine integers\<close>

lemma unat_of_nat_small:
  "n < 2 ^ 16 \<Longrightarrow> unat (of_nat n :: u16) = n"
  "n < 2 ^ 32 \<Longrightarrow> unat (of_nat n :: u32) = n"
  by (simp_all add: unat_of_nat)

lemma of_nat_u16_nonzero: "0 < n \<Longrightarrow> n < 2 ^ 16 \<Longrightarrow> (of_nat n :: u16) \<noteq> 0"
  by (metis unat_of_nat_small(1) unsigned_0 less_irrefl)

lemma of_nat_size_inject: "a < 2 ^ 32 \<Longrightarrow> b < 2 ^ 32 \<Longrightarrow> (of_nat a :: 32 word) = of_nat b \<longleftrightarrow> a = b"
  by (metis unat_of_nat_small(2))

section \<open>Little-endian integers\<close>

definition le16 :: "u16 \<Rightarrow> bytes" where
  "le16 w = [ucast w, ucast (drop_bit 8 w)]"

definition of_le16 :: "bytes \<Rightarrow> u16" where
  "of_le16 bs = ucast (bs ! 0) OR push_bit 8 (ucast (bs ! 1))"

definition le32 :: "u32 \<Rightarrow> bytes" where
  "le32 w = [ucast w, ucast (drop_bit 8 w), ucast (drop_bit 16 w), ucast (drop_bit 24 w)]"

definition of_le32 :: "bytes \<Rightarrow> u32" where
  "of_le32 bs = ucast (bs ! 0) OR push_bit 8 (ucast (bs ! 1))
     OR push_bit 16 (ucast (bs ! 2)) OR push_bit 24 (ucast (bs ! 3))"

lemma length_le [simp, wire_simps]: "length (le16 a) = 2" "length (le32 b) = 4"
  by (simp_all add: le16_def le32_def)

lemma of_le16_le16: "of_le16 (le16 w) = w"
  by (rule bit_eqI) (auto simp: of_le16_def le16_def bit_simps)

lemma of_le32_le32: "of_le32 (le32 w) = w"
proof (rule bit_eqI)
  fix n
  assume "possible_bit TYPE(32 word) n"
  then have "n < 32" by simp
  define k m where "k = n div 8" and "m = n mod 8"
  then have n: "n = 8 * k + m" and "m < 8" by simp_all
  with \<open>n < 32\<close> have "k < 4" by linarith
  then consider "k = 0" | "k = 1" | "k = 2" | "k = 3" by linarith
  then show "bit (of_le32 (le32 w)) n = bit w n"
    using \<open>m < 8\<close> by cases (simp_all add: n of_le32_def le32_def bit_simps)
qed

lemma le16_of_le16: "length bs = 2 \<Longrightarrow> le16 (of_le16 bs) = bs"
proof -
  have bytes: "ucast (of_le16 [a, b]) = a" "ucast (drop_bit 8 (of_le16 [a, b])) = b" for a b
    by (rule bit_eqI, auto simp: of_le16_def bit_simps dest: bit_imp_le_length)+
  assume "length bs = 2"
  then obtain a b where "bs = [a, b]"
    by (auto simp: length_Suc_conv numeral_2_eq_2)
  then show ?thesis
    by (simp add: le16_def bytes)
qed

lemma of_le32_byte:
  "ucast (of_le32 [a, b, c, d]) = a"
  "ucast (drop_bit 8 (of_le32 [a, b, c, d])) = b"
  "ucast (drop_bit 16 (of_le32 [a, b, c, d])) = c"
  "ucast (drop_bit 24 (of_le32 [a, b, c, d])) = d"
  by (rule bit_eqI, auto simp: of_le32_def bit_simps dest: bit_imp_le_length)+

lemma le32_of_le32: "length bs = 4 \<Longrightarrow> le32 (of_le32 bs) = bs"
proof -
  assume "length bs = 4"
  then obtain a b c d where "bs = [a, b, c, d]"
    by (auto simp: length_Suc_conv eval_nat_numeral)
  then show ?thesis
    by (simp add: le32_def of_le32_byte)
qed

section \<open>Fixed-width encodings\<close>

text \<open>
  What every fixed-width field of a packet promises: a constant width, decoding undoes encoding,
  and every byte string of that width is the encoding of what it decodes to. The laws the packet
  layers use, about an encoding placed inside a larger buffer, follow once and for all.
\<close>

locale byte_codec =
  fixes width :: nat
    and enc :: "'a \<Rightarrow> bytes"
    and dec :: "bytes \<Rightarrow> 'a"
  assumes enc_width: "length (enc x) = width"
    and dec_enc: "dec (enc x) = x"
    and enc_dec: "length bs = width \<Longrightarrow> enc (dec bs) = bs"
begin

lemma enc_inj: "enc x = enc y \<longleftrightarrow> x = y"
  using dec_enc by metis

lemma dec_at_front: "dec (take width (enc x @ rest)) = x"
  by (simp add: enc_width dec_enc)

lemma rest_after: "drop width (enc x @ rest) = rest"
  by (simp add: enc_width)

lemma dec_inside:
  "length pre = k \<Longrightarrow> dec (take width (drop k (pre @ enc x @ rest))) = x"
  by (simp add: enc_width dec_enc)

lemma read_inside:
  "length pre = k \<Longrightarrow> peeks (pre @ enc x @ rest) k width = Inr (enc x)"
  by (simp add: peeks_in enc_width)

lemma enc_covers: "length bs = width \<Longrightarrow> \<exists>x. enc x = bs"
  using enc_dec by blast

end

interpretation le16: byte_codec 2 le16 of_le16
  by unfold_locales (simp_all add: of_le16_le16 le16_of_le16)

interpretation le32: byte_codec 4 le32 of_le32
  by unfold_locales (simp_all add: of_le32_le32 le32_of_le32)

end
