(* ===== verification/Snapshot_Stream.thy ===== *)
theory Snapshot_Stream
  imports Prelude
begin

text \<open>
  \<open>SnapshotStream\<close> (SnapshotStream.h): the outgoing buffer of a snapshot. Entry 0 is the header
  stream, each further entry one update frame. \<open>result\<close> folds the frames into the header once and
  remembers that it did. A reference into the collection is the index of the entry it denotes.
\<close>

section \<open>State and operations\<close>

record stream =
  strm_data :: "bytes list"
  strm_Finished :: bool

definition stream_new :: stream where
  "stream_new = \<lparr>strm_data = [[]], strm_Finished = False\<rparr>"

text \<open>\<open>create\<close> appends an empty stream and returns the reference to it.\<close>

definition stream_create :: "stream \<Rightarrow> nat \<times> stream" where
  "stream_create s = (length (strm_data s), s\<lparr>strm_data := strm_data s @ [[]]\<rparr>)"

definition stream_header :: "stream \<Rightarrow> bytes res" where
  "stream_header s = (case strm_data s of [] \<Rightarrow> Inl Out_Of_Range | h # _ \<Rightarrow> Inr h)"

text \<open>Writing through the reference that \<open>header\<close> or \<open>create\<close> returned.\<close>

definition stream_set :: "stream \<Rightarrow> nat \<Rightarrow> bytes \<Rightarrow> stream" where
  "stream_set s i b = s\<lparr>strm_data := (strm_data s)[i := b]\<rparr>"

text \<open>\<open>get()->push_back(b)\<close>, the way the entity managers add a finished frame.\<close>

definition stream_push :: "stream \<Rightarrow> bytes \<Rightarrow> stream" where
  "stream_push s b = s\<lparr>strm_data := strm_data s @ [b]\<rparr>"

fun emplace_all :: "bytes \<Rightarrow> bytes \<Rightarrow> bytes" where
  "emplace_all header [] = header"
| "emplace_all header (b # bs) = emplace_all (header @ [b]) bs"

fun result_loop :: "bytes \<Rightarrow> bytes list \<Rightarrow> bytes" where
  "result_loop header [] = header"
| "result_loop header (s # ss) = result_loop (emplace_all header s) ss"

definition stream_result :: "stream \<Rightarrow> (bytes \<times> stream) res" where
  "stream_result s =
     (case strm_data s of
        [] \<Rightarrow> Inl Out_Of_Range
      | header # frames \<Rightarrow>
          (if strm_Finished s then Inr (header, s)
           else let header' = result_loop header frames
                in Inr (header', \<lparr>strm_data = header' # frames, strm_Finished = True\<rparr>)))"

definition stream_clear :: "stream \<Rightarrow> stream" where
  "stream_clear s = \<lparr>strm_data = [[]], strm_Finished = False\<rparr>"

definition stream_modified :: "stream \<Rightarrow> bool" where
  "stream_modified s \<longleftrightarrow> 1 < length (strm_data s)"

section \<open>Behaviour\<close>

text \<open>The header entry exists from construction on and no operation removes it.\<close>

definition stream_ok :: "stream \<Rightarrow> bool" where
  "stream_ok s \<longleftrightarrow> strm_data s \<noteq> []"

lemma emplace_all_append [simp]: "emplace_all h bs = h @ bs"
  by (induction bs arbitrary: h) auto

lemma result_loop_concat [simp]: "result_loop h ss = h @ concat ss"
  by (induction ss arbitrary: h) auto

lemma stream_ok_intros [simp, intro]:
  "stream_ok stream_new"
  "stream_ok (stream_clear s)"
  "stream_ok (snd (stream_create s))"
  "stream_ok (stream_push s b)"
  "stream_ok s \<Longrightarrow> stream_ok (stream_set s i b)"
  by (auto simp: stream_ok_def stream_new_def stream_clear_def stream_create_def stream_push_def
      stream_set_def)

lemma stream_okE:
  assumes "stream_ok s"
  obtains h fs where "strm_data s = h # fs"
  using assms by (cases "strm_data s") (auto simp: stream_ok_def)

lemma stream_result_ok: "stream_result s = Inr (b, s') \<Longrightarrow> stream_ok s'"
  by (auto simp: stream_result_def stream_ok_def Let_def split: list.splits if_splits)

lemma stream_result_total: "stream_ok s \<Longrightarrow> \<exists>b s'. stream_result s = Inr (b, s')"
  by (erule stream_okE) (auto simp: stream_result_def Let_def)

lemma stream_result_first:
  "strm_data s = h # fs \<Longrightarrow> \<not> strm_Finished s \<Longrightarrow>
   stream_result s =
     Inr (h @ concat fs, \<lparr>strm_data = (h @ concat fs) # fs, strm_Finished = True\<rparr>)"
  by (simp add: stream_result_def Let_def)

lemma stream_result_again:
  "stream_result s = Inr (b, s') \<Longrightarrow> stream_result s' = Inr (b, s')"
  by (auto simp: stream_result_def Let_def split: list.splits if_splits)

lemma stream_result_finished:
  "strm_data s = h # fs \<Longrightarrow> strm_Finished s \<Longrightarrow> stream_result s = Inr (h, s)"
  by (simp add: stream_result_def)

lemma stream_modified_iff:
  "strm_data s = h # fs \<Longrightarrow> stream_modified s \<longleftrightarrow> fs \<noteq> []"
  by (cases fs) (auto simp: stream_modified_def)

lemma stream_data_simps [frame_simps]:
  "strm_data (stream_push s b) = strm_data s @ [b]"
  "strm_Finished (stream_push s b) = strm_Finished s"
  "strm_data (snd (stream_create s)) = strm_data s @ [[]]"
  "strm_Finished (snd (stream_create s)) = strm_Finished s"
  "fst (stream_create s) = length (strm_data s)"
  "strm_data (stream_set s i b) = (strm_data s)[i := b]"
  "strm_Finished (stream_set s i b) = strm_Finished s"
  by (simp_all add: stream_push_def stream_create_def stream_set_def)

lemma create_then_write:
  "stream_set (snd (stream_create s)) (fst (stream_create s)) b = stream_push s b"
  by (simp add: stream_push_def stream_create_def stream_set_def)

end
