(* ===== verification/Snapshot_Header.thy ===== *)
theory Snapshot_Header
  imports Snapshot_Stream
begin

text \<open>
  \<open>SnapshotHeader\<close> (SnapshotHeader.h, SnapshotHeader.cpp): the 12-byte header in front of a
  snapshot packet, its byte image in the x86 layout of \<open>SnapshotHeaderData\<close>, the two \<open>read\<close>
  overloads, and \<open>Generate\<close>, which writes the header into entry 0 of a stream and pads every
  frame to the announced maximum.
\<close>

section \<open>Reserved codes\<close>

text \<open>\<open>NETID_Reserved::RTTI_Object\<close> (NETIDReserved.h).\<close>

definition OBJECT_FRAME :: u16 where "OBJECT_FRAME = 0xFFFA"
definition CLIENT_OWNERSHIP :: u16 where "CLIENT_OWNERSHIP = 0xFFFB"

section \<open>Header data\<close>

record header_data =
  hd_message_code :: u16
  hd_count :: u16
  hd_sequence :: u32
  hd_max_message_length :: size_t

definition header_data_new :: header_data where
  "header_data_new = \<lparr>hd_message_code = 0, hd_count = 0, hd_sequence = 0, hd_max_message_length = 0\<rparr>"

definition sizeof_header :: nat where "sizeof_header = 12"

text \<open>The bytes of the structure, \<open>(unsigned char*)&m_data\<close>, in member order.\<close>

definition header_image :: "header_data \<Rightarrow> bytes" where
  "header_image d = le16 (hd_message_code d) @ le16 (hd_count d) @ le32 (hd_sequence d) @
     le32 (hd_max_message_length d)"

definition header_of_image :: "bytes \<Rightarrow> header_data" where
  "header_of_image bs =
     \<lparr>hd_message_code = of_le16 (take 2 bs), hd_count = of_le16 (take 2 (drop 2 bs)),
      hd_sequence = of_le32 (take 4 (drop 4 bs)),
      hd_max_message_length = of_le32 (take 4 (drop 8 bs))\<rparr>"

section \<open>Operations\<close>

fun push_image :: "bytes \<Rightarrow> header_data \<Rightarrow> nat \<Rightarrow> nat \<Rightarrow> bytes" where
  "push_image header d i 0 = header"
| "push_image header d i (Suc n) = push_image (header @ [header_image d ! i]) d (Suc i) n"

definition header_write :: "bytes \<Rightarrow> header_data \<Rightarrow> bytes" where
  "header_write header d = push_image header d 0 sizeof_header"

text \<open>
  \<open>read(stream, stream_len)\<close>: the pointer is the memory from the stream's start on, the length
  what the caller says it is.
\<close>

definition header_read :: "bytes \<Rightarrow> size_t \<Rightarrow> header_data res" where
  "header_read mem stream_len =
     (if unat stream_len < sizeof_header then Inl Nettik_Exception
      else res_bind (peeks mem 0 sizeof_header) (\<lambda>image. Inr (header_of_image image)))"

definition header_read_stream :: "bytes \<Rightarrow> header_data res" where
  "header_read_stream data =
     (if length data \<noteq> sizeof_header then Inl Nettik_Exception
      else header_read data (of_nat (length data)))"

definition set_code :: "u16 \<Rightarrow> header_data \<Rightarrow> header_data" where
  "set_code code d = d\<lparr>hd_message_code := code\<rparr>"

definition set_header_sequence :: "u32 \<Rightarrow> header_data \<Rightarrow> header_data" where
  "set_header_sequence sq d = d\<lparr>hd_sequence := sq\<rparr>"

definition set_count :: "u16 \<Rightarrow> header_data \<Rightarrow> header_data" where
  "set_count n d = d\<lparr>hd_count := n\<rparr>"

definition set_max :: "size_t \<Rightarrow> header_data \<Rightarrow> header_data" where
  "set_max m d = d\<lparr>hd_max_message_length := m\<rparr>"

definition vsize :: "bytes \<Rightarrow> size_t" where
  "vsize bs = of_nat (length bs)"

fun push_zeros :: "nat \<Rightarrow> bytes \<Rightarrow> bytes" where
  "push_zeros 0 buffer = buffer"
| "push_zeros (Suc n) buffer = push_zeros n (buffer @ [0])"

definition pad_buffer :: "size_t \<Rightarrow> bytes \<Rightarrow> bytes" where
  "pad_buffer padding buffer =
     (if vsize buffer < padding
      then let padsize = padding - vsize buffer in push_zeros (unat padsize) buffer
      else buffer)"

text \<open>
  \<open>copy_from\<close> compares the unsigned collection size with zero, which never returns early, and
  then pads the frames from \<open>begin() + 1\<close> on; on an empty collection that iterator is past the end.
\<close>

definition copy_from :: "stream \<Rightarrow> size_t \<Rightarrow> stream res" where
  "copy_from s padding =
     (case strm_data s of
        [] \<Rightarrow> Inl Undefined
      | h # frames \<Rightarrow> Inr (s\<lparr>strm_data := h # map (pad_buffer padding) frames\<rparr>))"

definition header_generate :: "stream \<Rightarrow> u32 \<Rightarrow> u16 \<Rightarrow> size_t \<Rightarrow> stream res" where
  "header_generate s seq_no updates mx =
     res_bind (stream_header s) (\<lambda>header.
       let d = set_max mx (set_count updates (set_header_sequence seq_no
                 (set_code OBJECT_FRAME header_data_new)));
           s1 = stream_set s 0 (header_write header d)
       in copy_from s1 mx)"

section \<open>Layout facts\<close>

lemma header_image_length [simp, wire_simps]: "length (header_image d) = 12"
  by (simp add: header_image_def)

lemma header_of_image_image: "header_of_image (header_image d) = d"
  by (simp add: header_of_image_def header_image_def of_le16_le16 of_le32_le32)

lemma header_image_of_image:
  assumes "length bs = 12"
  shows "header_image (header_of_image bs) = bs"
proof -
  have "le16 (of_le16 (take 2 bs)) = take 2 bs"
    and "le16 (of_le16 (take 2 (drop 2 bs))) = take 2 (drop 2 bs)"
    and "le32 (of_le32 (take 4 (drop 4 bs))) = take 4 (drop 4 bs)"
    and "le32 (of_le32 (take 4 (drop 8 bs))) = drop 8 bs"
    using assms by (simp_all add: le16_of_le16 le32_of_le32)
  moreover have "take 4 (drop 4 bs) @ drop 8 bs = drop 4 bs"
    and "take 2 (drop 2 bs) @ drop 4 bs = drop 2 bs"
    using append_take_drop_id [of 4 "drop 4 bs"] append_take_drop_id [of 2 "drop 2 bs"]
    by simp_all
  ultimately show ?thesis
    by (simp add: header_image_def header_of_image_def)
qed

interpretation hdr: byte_codec 12 header_image header_of_image
  by unfold_locales (simp_all add: header_of_image_image header_image_of_image)

lemma push_image_append:
  "i + n \<le> 12 \<Longrightarrow> push_image h d i n = h @ take n (drop i (header_image d))"
proof (induction n arbitrary: h i)
  case (Suc n)
  then show ?case
    by (simp add: Cons_nth_drop_Suc [symmetric])
qed simp

lemma header_write_eq [simp]: "header_write h d = h @ header_image d"
  by (simp add: header_write_def push_image_append sizeof_header_def)

lemma push_zeros_append [simp]: "push_zeros n b = b @ replicate n 0"
  by (induction n arbitrary: b) (auto simp: replicate_append_same)

lemma header_read_at_front:
  "12 \<le> unat n \<Longrightarrow> header_read (header_image d @ rest) n = Inr d"
  using hdr.read_inside [of "[]" 0 d rest]
  by (simp add: header_read_def sizeof_header_def header_of_image_image)

lemma header_read_short: "unat n < 12 \<Longrightarrow> header_read mem n = Inl Nettik_Exception"
  by (simp add: header_read_def sizeof_header_def)

section \<open>Padding\<close>

lemma unat_vsize: "length b < 2 ^ 32 \<Longrightarrow> unat (vsize b) = length b"
  by (simp add: vsize_def unat_of_nat)

lemma pad_buffer_append:
  assumes "length b < 2 ^ 32"
  shows "pad_buffer mx b = b @ replicate (unat mx - length b) 0"
proof (cases "vsize b < mx")
  case True
  then have "unat (mx - vsize b) = unat mx - length b"
    using unat_vsize [OF assms] by (simp add: unat_sub less_imp_le)
  with True show ?thesis by (simp add: pad_buffer_def)
next
  case False
  then have "unat mx \<le> length b"
    using unat_vsize [OF assms] by (simp add: not_less word_le_nat_alt)
  with False show ?thesis by (simp add: pad_buffer_def)
qed

lemma pad_buffer_length:
  "length b < 2 ^ 32 \<Longrightarrow> length (pad_buffer mx b) = max (length b) (unat mx)"
  by (simp add: pad_buffer_append)

lemma header_generate_eq:
  "strm_data s = h # fs \<Longrightarrow>
   header_generate s sq n mx =
     Inr (s\<lparr>strm_data := (h @ header_image \<lparr>hd_message_code = OBJECT_FRAME, hd_count = n,
            hd_sequence = sq, hd_max_message_length = mx\<rparr>) # map (pad_buffer mx) fs\<rparr>)"
  by (simp add: header_generate_def stream_header_def copy_from_def stream_set_def Let_def
      set_max_def set_count_def set_header_sequence_def set_code_def header_data_new_def)

section \<open>The packet a generated stream sends\<close>

definition padded_to :: "size_t \<Rightarrow> bytes list \<Rightarrow> bool" where
  "padded_to mx fs \<longleftrightarrow> (\<forall>f \<in> set fs. length f = unat mx)"

lemma padded_pad:
  assumes "\<forall>f \<in> set fs. length f \<le> unat mx"
  shows "padded_to mx (map (pad_buffer mx) fs)"
proof -
  have "length (pad_buffer mx f) = unat mx" if "f \<in> set fs" for f
  proof -
    from assms that have "length f \<le> unat mx" by blast
    moreover have "unat mx < 2 ^ 32" using unsigned_less [of mx] by simp
    ultimately show ?thesis by (simp add: pad_buffer_length)
  qed
  then show ?thesis by (simp add: padded_to_def)
qed

lemma padded_concat_length: "padded_to mx fs \<Longrightarrow> length (concat fs) = length fs * unat mx"
  by (induction fs) (auto simp: padded_to_def)

lemma padded_frame_at:
  "padded_to mx fs \<Longrightarrow> i < length fs \<Longrightarrow>
   take (unat mx) (drop (i * unat mx) (concat fs)) = fs ! i"
proof (induction fs arbitrary: i)
  case (Cons f fs)
  then show ?case by (cases i) (auto simp: padded_to_def)
qed simp

lemma padded_drop:
  "padded_to mx fs \<Longrightarrow> i \<le> length fs \<Longrightarrow>
   drop (i * unat mx) (concat fs) = concat (drop i fs)"
proof (induction fs arbitrary: i)
  case (Cons f fs)
  then show ?case by (cases i) (auto simp: padded_to_def)
qed simp

lemma generated_packet:
  assumes "strm_data s = [] # fs" and "\<not> strm_Finished s"
  shows "res_bind (header_generate s sq n mx) stream_result =
    Inr (header_image \<lparr>hd_message_code = OBJECT_FRAME, hd_count = n, hd_sequence = sq,
           hd_max_message_length = mx\<rparr> @ concat (map (pad_buffer mx) fs),
         \<lparr>strm_data = (header_image \<lparr>hd_message_code = OBJECT_FRAME, hd_count = n,
             hd_sequence = sq, hd_max_message_length = mx\<rparr> @ concat (map (pad_buffer mx) fs)) #
             map (pad_buffer mx) fs, strm_Finished = True\<rparr>)"
  using assms by (simp add: header_generate_eq stream_result_first)

end
