(* ===== verification/Snapshot_Entry.thy ===== *)
theory Snapshot_Entry
  imports Snapshot_Header
begin

text \<open>
  \<open>SnapshotEntList\<close> (SnapshotEntList.h): one update frame. The member structure
  \<open>SnapshotEntListDataEntry\<close> is modelled as the 212 bytes it occupies, in the x86 layout the
  static assertion pins, because the code reads and writes it both by member and by raw pointer:
  the name loop may run past the name array, and \<open>read_data\<close> always stores one byte past the data
  array (into a padding member). An access outside the 212 bytes is \<open>Undefined\<close>.
\<close>

section \<open>Constants and layout\<close>

text \<open>Constraints.h, ControllerFlags.h and the frame types.\<close>

definition max_entvar_name :: nat where "max_entvar_name = 64"
definition max_entvar_data :: nat where "max_entvar_data = 128"
definition max_entmgr_name :: nat where "max_entmgr_name = 16"

definition NET_CONTROLLER_LOCAL :: u32 where "NET_CONTROLLER_LOCAL = 256"
definition NET_CONTROLLER_NONE :: u32 where "NET_CONTROLLER_NONE = 512"

definition kFRAME_Data :: u32 where "kFRAME_Data = 0xDADADADA"
definition kFRAME_Alloc :: u32 where "kFRAME_Alloc = 0xACACACAC"
definition kFRAME_Dealloc :: u32 where "kFRAME_Dealloc = 0xDEDEDEDE"

text \<open>Member offsets of \<open>SnapshotEntListDataEntry\<close>.\<close>

definition off_frameType :: nat where "off_frameType = 0"
definition off_netID :: nat where "off_netID = 4"
definition off_controller :: nat where "off_controller = 8"
definition off_sequence :: nat where "off_sequence = 12"
definition off_forced :: nat where "off_forced = 16"
definition off_name :: nat where "off_name = 17"
definition off_data :: nat where "off_data = 81"
definition sizeof_entry :: nat where "sizeof_entry = 212"

lemmas offsets = off_frameType_def off_netID_def off_controller_def off_sequence_def
  off_forced_def off_name_def off_data_def sizeof_entry_def max_entvar_name_def
  max_entvar_data_def sizeof_header_def

section \<open>State\<close>

text \<open>
  \<open>ent_dataPointer\<close> is the offset from the stream that \<open>m_dataPointer\<close> points to, \<open>None\<close> before
  \<open>read_data\<close>: the constructor leaves the pointer and the frame type uninitialised, so the
  frame type of a new object is an argument of the model.
\<close>

record entry =
  ent_mem :: bytes
  ent_typesize :: size_t
  ent_dataPointer :: "nat option"

definition entry_new :: "u32 \<Rightarrow> entry" where
  "entry_new junk =
     \<lparr>ent_mem = le32 junk @ le32 0 @ le32 NET_CONTROLLER_NONE @ le32 0 @ [0] @
        replicate max_entvar_name 0 @ replicate max_entvar_data 0 @ [0, 0, 0],
      ent_typesize = 0, ent_dataPointer = None\<rparr>"

section \<open>Accessors\<close>

text \<open>Member accesses through the structure are always inside it.\<close>

definition get_u32 :: "nat \<Rightarrow> entry \<Rightarrow> u32" where
  "get_u32 off e = of_le32 (take 4 (drop off (ent_mem e)))"

definition set_u32 :: "nat \<Rightarrow> u32 \<Rightarrow> entry \<Rightarrow> entry" where
  "set_u32 off v e = e\<lparr>ent_mem := take off (ent_mem e) @ le32 v @ drop (off + 4) (ent_mem e)\<rparr>"

definition get_forced :: "entry \<Rightarrow> bool" where
  "get_forced e = (ent_mem e ! off_forced \<noteq> 0)"

definition set_forced :: "bool \<Rightarrow> entry \<Rightarrow> entry" where
  "set_forced val e = e\<lparr>ent_mem := (ent_mem e)[off_forced := (if val then 1 else 0)]\<rparr>"

definition get_netid :: "entry \<Rightarrow> u32" where "get_netid e = get_u32 off_netID e"
definition get_controller :: "entry \<Rightarrow> u32" where "get_controller e = get_u32 off_controller e"
definition get_frametype :: "entry \<Rightarrow> u32" where "get_frametype e = get_u32 off_frameType e"
definition get_sequence :: "entry \<Rightarrow> u32" where "get_sequence e = get_u32 off_sequence e"

definition set_netid :: "u32 \<Rightarrow> entry \<Rightarrow> entry" where "set_netid v e = set_u32 off_netID v e"
definition set_controller :: "u32 \<Rightarrow> entry \<Rightarrow> entry" where
  "set_controller v e = set_u32 off_controller v e"
definition set_frametype :: "u32 \<Rightarrow> entry \<Rightarrow> entry" where
  "set_frametype v e = set_u32 off_frameType v e"
definition set_sequence :: "u32 \<Rightarrow> entry \<Rightarrow> entry" where
  "set_sequence v e = set_u32 off_sequence v e"

text \<open>
  \<open>get_name\<close> and \<open>get_data\<close> return pointers into the structure: the memory from there to its end.
\<close>

definition get_name :: "entry \<Rightarrow> bytes" where "get_name e = drop off_name (ent_mem e)"
definition get_data :: "entry \<Rightarrow> bytes" where "get_data e = drop off_data (ent_mem e)"

definition typesize :: "entry \<Rightarrow> size_t" where "typesize e = ent_typesize e"

section \<open>Setters that loop\<close>

text \<open>\<open>set_name\<close> stores the characters and then a zero at \<open>size() + 1\<close>, one past the terminator.\<close>

definition set_name :: "bytes \<Rightarrow> entry \<Rightarrow> entry res" where
  "set_name str e =
     res_bind (pokes (ent_mem e) off_name str) (\<lambda>mem.
     res_bind (poke mem (off_name + (length str + 1)) 0) (\<lambda>mem'.
       Inr (e\<lparr>ent_mem := mem'\<rparr>)))"

text \<open>\<open>dst[i] = src[i]\<close> for \<open>n\<close> bytes, reading and storing alternately.\<close>

fun copy_loop :: "bytes \<Rightarrow> nat \<Rightarrow> bytes \<Rightarrow> nat \<Rightarrow> nat \<Rightarrow> bytes res" where
  "copy_loop dst d src i 0 = Inr dst"
| "copy_loop dst d src i (Suc n) =
     res_bind (peek src i) (\<lambda>b. res_bind (poke dst d b) (\<lambda>dst'. copy_loop dst' (Suc d) src (Suc i) n))"

definition set_data :: "bytes \<Rightarrow> size_t \<Rightarrow> entry \<Rightarrow> entry res" where
  "set_data src sz e =
     res_bind (copy_loop (ent_mem e) off_data src 0 (unat sz)) (\<lambda>mem.
       Inr (e\<lparr>ent_mem := mem, ent_typesize := sz\<rparr>))"

definition set_data_null :: "entry \<Rightarrow> entry" where
  "set_data_null e =
     e\<lparr>ent_typesize := 2, ent_mem := (ent_mem e)[off_data := 1, off_data + 1 := 0]\<rparr>"

section \<open>Serialisation\<close>

text \<open>
  \<open>write\<close> appends the fixed members, the name with its terminator and the data, then zeros up to
  the maximal data size.
\<close>

definition entry_write :: "entry \<Rightarrow> bytes \<Rightarrow> bytes res" where
  "entry_write e data =
     res_bind (peeks (ent_mem e) off_frameType 4) (\<lambda>ft.
     res_bind (peeks (ent_mem e) off_netID 4) (\<lambda>nid.
     res_bind (peeks (ent_mem e) off_controller 4) (\<lambda>ctl.
     res_bind (peeks (ent_mem e) off_sequence 4) (\<lambda>sq.
     res_bind (peek (ent_mem e) off_forced) (\<lambda>fc.
     res_bind (c_strlen (drop off_name (ent_mem e))) (\<lambda>name_length.
     res_bind (peeks (ent_mem e) off_name (name_length + 1)) (\<lambda>nm.
     res_bind (peeks (ent_mem e) off_data (unat (ent_typesize e))) (\<lambda>dt.
       Inr (push_zeros (max_entvar_data - unat (ent_typesize e))
              (data @ ft @ nid @ ctl @ sq @ [fc] @ nm @ dt))))))))))"

text \<open>
  \<open>read_data\<close>: \<open>stream\<close> is the memory from the pointer to the end of the packet and
  \<open>stream_len\<close> the length the caller passes, which is what the guard looks at.
\<close>

fun read_name :: "nat \<Rightarrow> nat \<Rightarrow> bytes \<Rightarrow> bytes \<Rightarrow> nat \<Rightarrow> (bytes \<times> nat) res" where
  "read_name 0 i mem stream cur = Inr (mem, cur)"
| "read_name (Suc n) i mem stream cur =
     res_bind (peek stream cur) (\<lambda>b.
       if b = 0 then Inr (mem, cur)
       else res_bind (poke mem (off_name + i) b) (\<lambda>mem'.
              read_name n (Suc i) mem' stream (Suc cur)))"

definition read_data :: "entry \<Rightarrow> bytes \<Rightarrow> size_t \<Rightarrow> entry res" where
  "read_data e stream stream_len =
     (if unat stream_len < 4 + 4 + 1 + 1 \<or> sizeof_entry + sizeof_header < unat stream_len
      then Inl Nettik_Exception
      else
        res_bind (peeks stream 0 4) (\<lambda>ft.
        res_bind (pokes (ent_mem e) off_frameType ft) (\<lambda>m1.
        res_bind (peeks stream 4 4) (\<lambda>nid.
        res_bind (pokes m1 off_netID nid) (\<lambda>m2.
        res_bind (peeks stream 8 4) (\<lambda>ctl.
        res_bind (pokes m2 off_controller ctl) (\<lambda>m3.
        res_bind (peeks stream 12 4) (\<lambda>sq.
        res_bind (pokes m3 off_sequence sq) (\<lambda>m4.
        res_bind (peek stream 16) (\<lambda>fc.
        res_bind (poke m4 off_forced fc) (\<lambda>m5.
        res_bind (read_name max_entvar_name 0 m5 stream 17) (\<lambda>(m6, cur).
        res_bind (copy_loop m6 off_data stream (Suc cur) max_entvar_data) (\<lambda>m7.
        res_bind (poke m7 (off_data + (max_entvar_data + 1)) 0) (\<lambda>m8.
          Inr (e\<lparr>ent_mem := m8,
                 ent_dataPointer := Some (Suc cur + max_entvar_data + 1)\<rparr>)))))))))))))))"

definition read_data_stream :: "entry \<Rightarrow> bytes \<Rightarrow> entry res" where
  "read_data_stream e data =
     res_bind (peek data 0) (\<lambda>_. read_data e data (vsize data))"

end
