(* ===== verification/Frame_Codec.thy ===== *)
theory Frame_Codec
  imports Snapshot_Entry
begin

text \<open>
  What the entry operations do, stated over the members instead of offsets: the view of an entry
  as its members, the effect of every setter on it, the bytes \<open>write\<close> appends and what
  \<open>read_data\<close> makes of them. The reference encoding \<open>frame_image\<close> says in one line what an
  update frame looks like on the wire.
\<close>

section \<open>The members of an entry\<close>

definition layout :: "u32 \<Rightarrow> u32 \<Rightarrow> u32 \<Rightarrow> u32 \<Rightarrow> u8 \<Rightarrow> bytes \<Rightarrow> bytes \<Rightarrow> bytes \<Rightarrow> bytes" where
  "layout ft nid ctl sq fc nm dt pd =
     le32 ft @ le32 nid @ le32 ctl @ le32 sq @ [fc] @ nm @ dt @ pd"

definition sized :: "bytes \<Rightarrow> bytes \<Rightarrow> bytes \<Rightarrow> bool" where
  "sized nm dt pd \<longleftrightarrow> length nm = 64 \<and> length dt = 128 \<and> length pd = 3"

lemma layout_length: "sized nm dt pd \<Longrightarrow> length (layout ft nid ctl sq fc nm dt pd) = 212"
  by (simp add: layout_def sized_def)

lemma layout_exists:
  assumes "length mem = 212"
  obtains ft nid ctl sq fc nm dt pd
  where "mem = layout ft nid ctl sq fc nm dt pd" and "sized nm dt pd"
proof
  let ?m = "\<lambda>i n. take n (drop i mem)"
  have split: "drop i mem = ?m i n @ drop (i + n) mem" for i n
    by (metis append_take_drop_id add.commute drop_drop)
  have "mem = ?m 0 4 @ ?m 4 4 @ ?m 8 4 @ ?m 12 4 @ ?m 16 1 @ ?m 17 64 @ ?m 81 128 @ ?m 209 3"
    using assms split [of 0 4] split [of 4 4] split [of 8 4] split [of 12 4] split [of 16 1]
      split [of 17 64] split [of 81 128] split [of 209 3] by simp
  moreover have "?m 16 1 = [mem ! 16]"
    using assms by (simp add: take_Suc_conv_app_nth Cons_nth_drop_Suc [symmetric])
  ultimately show "mem = layout (of_le32 (?m 0 4)) (of_le32 (?m 4 4)) (of_le32 (?m 8 4))
      (of_le32 (?m 12 4)) (mem ! 16) (?m 17 64) (?m 81 128) (?m 209 3)"
    using assms by (simp add: layout_def le32_of_le32)
  show "sized (?m 17 64) (?m 81 128) (?m 209 3)"
    using assms by (simp add: sized_def)
qed

definition entry_ok :: "entry \<Rightarrow> bool" where
  "entry_ok e \<longleftrightarrow> length (ent_mem e) = sizeof_entry"

lemma entry_new_layout:
  "ent_mem (entry_new j) =
     layout j 0 NET_CONTROLLER_NONE 0 0 (replicate 64 0) (replicate 128 0) [0, 0, 0]"
  by (simp add: entry_new_def layout_def max_entvar_name_def max_entvar_data_def)

lemma sized_new [simp]: "sized (replicate 64 0) (replicate 128 0) [0, 0, 0]"
  by (simp add: sized_def)

lemma entry_new_ok [simp]: "entry_ok (entry_new j)"
  by (simp add: entry_ok_def entry_new_layout layout_length sizeof_entry_def)

section \<open>Member accesses\<close>

lemma get_members:
  assumes "ent_mem e = layout ft nid ctl sq fc nm dt pd" and "sized nm dt pd"
  shows "get_frametype e = ft" and "get_netid e = nid" and "get_controller e = ctl"
    and "get_sequence e = sq" and "get_forced e \<longleftrightarrow> fc \<noteq> 0"
    and "get_name e = nm @ dt @ pd" and "get_data e = dt @ pd"
  using assms
  by (simp_all add: get_frametype_def get_netid_def get_controller_def get_sequence_def
      get_forced_def get_name_def get_data_def get_u32_def layout_def sized_def offsets
      of_le32_le32 nth_append)

lemma set_members:
  assumes "ent_mem e = layout ft nid ctl sq fc nm dt pd" and "sized nm dt pd"
  shows "ent_mem (set_frametype v e) = layout v nid ctl sq fc nm dt pd"
    and "ent_mem (set_netid v e) = layout ft v ctl sq fc nm dt pd"
    and "ent_mem (set_controller v e) = layout ft nid v sq fc nm dt pd"
    and "ent_mem (set_sequence v e) = layout ft nid ctl v fc nm dt pd"
    and "ent_mem (set_forced b e) = layout ft nid ctl sq (if b then 1 else 0) nm dt pd"
  using assms
  by (simp_all add: set_frametype_def set_netid_def set_controller_def set_sequence_def
      set_forced_def set_u32_def layout_def sized_def offsets list_update_append)

lemma set_members_typesize [frame_simps]:
  "ent_typesize (set_frametype v e) = ent_typesize e"
  "ent_typesize (set_netid v e) = ent_typesize e"
  "ent_typesize (set_controller v e) = ent_typesize e"
  "ent_typesize (set_sequence v e) = ent_typesize e"
  "ent_typesize (set_forced b e) = ent_typesize e"
  by (simp_all add: set_frametype_def set_netid_def set_controller_def set_sequence_def
      set_forced_def set_u32_def)

section \<open>Loops as block moves\<close>

lemma copy_loop_pokes:
  "i + n \<le> length src \<Longrightarrow> copy_loop dst d src i n = pokes dst d (take n (drop i src))"
proof (induction n arbitrary: dst d i)
  case (Suc n)
  then have i: "i < length src" by simp
  with Suc show ?case
    by (cases "poke dst d (src ! i)") (simp_all add: Cons_nth_drop_Suc [symmetric])
qed simp

lemma copy_loop_short:
  "length src < i + n \<Longrightarrow> 0 < n \<Longrightarrow> copy_loop dst d src i n = Inl Undefined"
proof (induction n arbitrary: dst d i)
  case (Suc n)
  show ?case
  proof (cases "i < length src \<and> 0 < n")
    case True
    with Suc.prems have "copy_loop dst' d' src (Suc i) n = Inl Undefined" for dst' d'
      by (intro Suc.IH) auto
    with True show ?thesis by (simp add: poke_def)
  next
    case False
    with Suc.prems show ?thesis by (auto simp: peek_def)
  qed
qed simp

lemma copy_loop_length: "copy_loop dst d src i n = Inr dst' \<Longrightarrow> length dst' = length dst"
  by (induction n arbitrary: dst d i) (auto simp: res_bind_Inr_iff poke_def split: if_splits)

lemma read_name_string:
  assumes "0 \<notin> set str" and "length str \<le> n" and "length old = length str"
    and "length mpre = off_name + i" and "length spre = cur"
  shows "read_name n i (mpre @ old @ mpost) (spre @ str @ 0 # rest) cur =
    Inr (mpre @ str @ mpost, cur + length str)"
  using assms
proof (induction str arbitrary: n i mpre old spre cur)
  case Nil
  then show ?case by (cases n) (simp_all add: peek_block del: peek_in)
next
  case (Cons b str)
  then obtain m o1 old' where n: "n = Suc m" and old: "old = o1 # old'"
    by (cases n; cases old) auto
  have "read_name m (Suc i) ((mpre @ [b]) @ old' @ mpost) ((spre @ [b]) @ str @ 0 # rest) (Suc cur) =
      Inr ((mpre @ [b]) @ str @ mpost, Suc cur + length str)"
    using Cons.prems n old by (intro Cons.IH) auto
  then show ?case
    using Cons.prems n old by (simp add: peek_block poke_block del: peek_in poke_in)
qed

lemma read_name_length:
  "read_name n i mem stream cur = Inr (mem', cur') \<Longrightarrow>
   length mem' = length mem \<and> cur \<le> cur' \<and> cur' \<le> cur + n"
proof (induction n arbitrary: i mem cur)
  case (Suc n)
  from Suc.prems obtain b where b: "peek stream cur = Inr b"
    by (auto simp: res_bind_Inr_iff)
  show ?case
  proof (cases "b = 0")
    case True
    with Suc.prems b show ?thesis by simp
  next
    case False
    with Suc.prems b obtain m where "poke mem (off_name + i) b = Inr m"
      and "read_name n (Suc i) m stream (Suc cur) = Inr (mem', cur')"
      by (auto simp: res_bind_Inr_iff)
    with Suc.IH [of "Suc i" m "Suc cur"] show ?thesis
      by (auto simp: poke_def split: if_splits)
  qed
qed simp

lemma read_name_total:
  assumes "cur + n \<le> length stream" and "off_name + i + n \<le> length mem"
  shows "\<exists>mem' cur'. read_name n i mem stream cur = Inr (mem', cur')"
  using assms by (induction n arbitrary: i mem cur) auto

section \<open>Setters on a fresh frame\<close>

text \<open>
  A new entry has zero name and data members; the generators set the name first. Names up to 63
  bytes leave a terminator, and the stray store at \<open>size() + 1\<close> then only writes a zero over a
  zero.
\<close>

lemma set_name_fresh:
  assumes mem: "ent_mem e = layout ft nid ctl sq fc (replicate 64 0) (replicate 128 0) pd"
    and pd: "length pd = 3" and len: "length str \<le> 63"
  shows "set_name str e = Inr (e\<lparr>ent_mem :=
    layout ft nid ctl sq fc (str @ replicate (64 - length str) 0) (replicate 128 0) pd\<rparr>)"
proof -
  let ?k = "length str"
  let ?pre = "le32 ft @ le32 nid @ le32 ctl @ le32 sq @ [fc]"
  have zeros: "replicate 64 0 @ replicate 128 0 = replicate ?k (0::u8) @ replicate (192 - ?k) 0"
    and zeros'': "replicate (192 - ?k) (0::u8) = replicate (64 - ?k) 0 @ replicate 128 0"
    using len by (simp_all add: replicate_add [symmetric])
  have "192 - ?k = Suc (Suc (190 - ?k))" using len by simp
  then have zeros': "replicate (192 - ?k) (0::u8) = [0] @ 0 # replicate (190 - ?k) 0"
    by simp
  have e: "ent_mem e = ?pre @ replicate ?k 0 @ replicate (192 - ?k) 0 @ pd"
    using mem zeros by (simp add: layout_def)
  have "pokes (ent_mem e) off_name str = Inr (?pre @ str @ replicate (192 - ?k) 0 @ pd)"
    unfolding e by (rule pokes_block) (simp_all add: off_name_def)
  moreover have "poke (?pre @ str @ replicate (192 - ?k) 0 @ pd) (off_name + (?k + 1)) 0 =
      Inr (?pre @ str @ replicate (192 - ?k) 0 @ pd)"
    using poke_block [of "?pre @ str @ [0]" "off_name + (?k + 1)" 0 "replicate (190 - ?k) 0 @ pd" 0]
    by (simp add: zeros' off_name_def)
  ultimately show ?thesis
    by (simp add: set_name_def layout_def zeros'')
qed

lemma set_data_layout:
  assumes mem: "ent_mem e = layout ft nid ctl sq fc nm dt pd" and sz: "sized nm dt pd"
    and n: "unat n \<le> length src" "unat n \<le> 128"
  shows "set_data src n e = Inr (e\<lparr>ent_mem :=
    layout ft nid ctl sq fc nm (take (unat n) src @ drop (unat n) dt) pd, ent_typesize := n\<rparr>)"
proof -
  let ?pre = "le32 ft @ le32 nid @ le32 ctl @ le32 sq @ [fc] @ nm"
  have e: "ent_mem e = ?pre @ take (unat n) dt @ drop (unat n) dt @ pd"
    using mem by (simp add: layout_def)
  have "copy_loop (ent_mem e) off_data src 0 (unat n) =
      pokes (ent_mem e) off_data (take (unat n) src)"
    using n by (simp add: copy_loop_pokes)
  also have "\<dots> = Inr (?pre @ take (unat n) src @ drop (unat n) dt @ pd)"
    unfolding e using n sz by (intro pokes_block) (simp_all add: off_data_def sized_def)
  finally show ?thesis by (simp add: set_data_def layout_def)
qed

section \<open>The wire image of a frame\<close>

definition frame_image :: "u32 \<Rightarrow> u32 \<Rightarrow> u32 \<Rightarrow> u32 \<Rightarrow> u8 \<Rightarrow> bytes \<Rightarrow> bytes \<Rightarrow> bytes" where
  "frame_image ft nid ctl sq fc name dt =
     le32 ft @ le32 nid @ le32 ctl @ le32 sq @ [fc] @ name @ [0] @ dt"

lemma frame_image_length [wire_simps]:
  "length (frame_image ft nid ctl sq fc name dt) = 18 + length name + length dt"
  by (simp add: frame_image_def)

lemma entry_write_image:
  assumes mem: "ent_mem e = layout ft nid ctl sq fc (name @ 0 # z) dt pd"
    and sz: "sized (name @ 0 # z) dt pd" and nz: "0 \<notin> set name"
    and n: "unat (ent_typesize e) \<le> 128"
  shows "entry_write e data = Inr (data @ frame_image ft nid ctl sq fc name
           (take (unat (ent_typesize e)) dt @ replicate (128 - unat (ent_typesize e)) 0))"
proof -
  let ?m = "layout ft nid ctl sq fc (name @ 0 # z) dt pd"
  let ?n = "unat (ent_typesize e)"
  let ?h = "le32 ft @ le32 nid @ le32 ctl @ le32 sq"
  have dt: "dt = take ?n dt @ drop ?n dt" by simp
  have "peeks ?m 0 4 = Inr (le32 ft)"
    using peeks_block [of "[]"] by (simp add: layout_def)
  moreover have "peeks ?m 4 4 = Inr (le32 nid)"
    unfolding layout_def by (rule peeks_block) simp_all
  moreover have "peeks ?m 8 4 = Inr (le32 ctl)"
    using peeks_block [of "le32 ft @ le32 nid"] by (simp add: layout_def)
  moreover have "peeks ?m 12 4 = Inr (le32 sq)"
    using peeks_block [of "le32 ft @ le32 nid @ le32 ctl"] by (simp add: layout_def)
  moreover have "peek ?m 16 = Inr fc"
    using peek_block [of ?h] by (simp add: layout_def)
  moreover have "c_strlen (drop 17 ?m) = Inr (length name)"
    using nz by (simp add: layout_def c_strlen_app)
  moreover have "peeks ?m 17 (length name + 1) = Inr (name @ [0])"
    using peeks_block [of "?h @ [fc]" 17 "name @ [0]" "length name + 1" "z @ dt @ pd"]
    by (simp add: layout_def)
  moreover have "peeks ?m 81 ?n = Inr (take ?n dt)"
    using n sz peeks_block [of "?h @ [fc] @ name @ 0 # z" 81 "take ?n dt" ?n "drop ?n dt @ pd"]
    by (simp add: layout_def sized_def)
  ultimately show ?thesis
    by (simp add: entry_write_def mem offsets frame_image_def)
qed

lemma read_data_image:
  assumes dt: "length dt = 128" and nz: "0 \<notin> set name" and name: "length name \<le> 64"
    and len: "10 \<le> unat n" "unat n \<le> 224"
    and mem: "ent_mem e = layout ft0 nid0 ctl0 sq0 fc0 nm0 dt0 pd0"
    and sz: "sized nm0 dt0 pd0"
  shows "read_data e (frame_image ft nid ctl sq fc name dt @ rest) n =
    Inr (e\<lparr>ent_mem := layout ft nid ctl sq fc (name @ drop (length name) nm0) dt (pd0[1 := 0]),
           ent_dataPointer := Some (147 + length name)\<rparr>)"
proof -
  let ?s = "frame_image ft nid ctl sq fc name dt @ rest"
  let ?h = "le32 ft @ le32 nid @ le32 ctl @ le32 sq"
  let ?nm = "name @ drop (length name) nm0"
  have s: "?s = le32 ft @ le32 nid @ le32 ctl @ le32 sq @ fc # name @ 0 # dt @ rest"
    by (simp add: frame_image_def)
  have peek1: "peeks ?s 0 4 = Inr (le32 ft)"
    using peeks_block [of "[]"] by (simp add: s)
  have peek2: "peeks ?s 4 4 = Inr (le32 nid)"
    unfolding s by (rule peeks_block) simp_all
  have peek3: "peeks ?s 8 4 = Inr (le32 ctl)"
    using peeks_block [of "le32 ft @ le32 nid"] by (simp add: s)
  have peek4: "peeks ?s 12 4 = Inr (le32 sq)"
    using peeks_block [of "le32 ft @ le32 nid @ le32 ctl"] by (simp add: s)
  have peek5: "peek ?s 16 = Inr fc"
    using peek_block [of ?h] by (simp add: s)
  have poke1: "pokes (layout ft0 nid0 ctl0 sq0 fc0 nm0 dt0 pd0) 0 (le32 ft) =
      Inr (layout ft nid0 ctl0 sq0 fc0 nm0 dt0 pd0)"
    using pokes_block [of "[]" 0 "le32 ft0" "le32 ft"] by (simp add: layout_def)
  have poke2: "pokes (layout ft nid0 ctl0 sq0 fc0 nm0 dt0 pd0) 4 (le32 nid) =
      Inr (layout ft nid ctl0 sq0 fc0 nm0 dt0 pd0)"
    unfolding layout_def by (rule pokes_block) simp_all
  have poke3: "pokes (layout ft nid ctl0 sq0 fc0 nm0 dt0 pd0) 8 (le32 ctl) =
      Inr (layout ft nid ctl sq0 fc0 nm0 dt0 pd0)"
    using pokes_block [of "le32 ft @ le32 nid" 8 "le32 ctl0" "le32 ctl"] by (simp add: layout_def)
  have poke4: "pokes (layout ft nid ctl sq0 fc0 nm0 dt0 pd0) 12 (le32 sq) =
      Inr (layout ft nid ctl sq fc0 nm0 dt0 pd0)"
    using pokes_block [of "le32 ft @ le32 nid @ le32 ctl" 12 "le32 sq0" "le32 sq"]
    by (simp add: layout_def)
  have poke5: "poke (layout ft nid ctl sq fc0 nm0 dt0 pd0) 16 fc =
      Inr (layout ft nid ctl sq fc nm0 dt0 pd0)"
    using poke_block [of ?h] by (simp add: layout_def)
  have name6: "read_name 64 0 (layout ft nid ctl sq fc nm0 dt0 pd0) ?s 17 =
      Inr (layout ft nid ctl sq fc ?nm dt0 pd0, 17 + length name)"
    using read_name_string [OF nz name, of "take (length name) nm0" "?h @ [fc]" 0 "?h @ [fc]" 17
        "drop (length name) nm0 @ dt0 @ pd0" "dt @ rest"] name sz
    by (simp add: s layout_def sized_def off_name_def)
  have "take 128 (drop (18 + length name) ?s) = dt"
    using dt by (simp add: s)
  then have data7: "copy_loop (layout ft nid ctl sq fc ?nm dt0 pd0) 81 ?s
      (18 + length name) 128 = pokes (layout ft nid ctl sq fc ?nm dt0 pd0) 81 dt"
    using dt by (subst copy_loop_pokes) (simp_all add: s)
  have poke7: "pokes (layout ft nid ctl sq fc ?nm dt0 pd0) 81 dt =
      Inr (layout ft nid ctl sq fc ?nm dt pd0)"
    using pokes_block [of "?h @ [fc] @ ?nm" 81 dt0 dt pd0] dt name sz
    by (simp add: layout_def sized_def)
  obtain p0 p1 p2 where pd0: "pd0 = [p0, p1, p2]"
    using sz by (auto simp: sized_def length_Suc_conv eval_nat_numeral)
  have poke8: "poke (layout ft nid ctl sq fc ?nm dt pd0) 210 0 =
      Inr (layout ft nid ctl sq fc ?nm dt (pd0[1 := 0]))"
    using poke_block [of "?h @ [fc] @ ?nm @ dt @ [p0]" 210 p1 "[p2]" 0] dt name sz
    by (simp add: layout_def sized_def pd0)
  show ?thesis
    using len
    by (simp add: read_data_def mem offsets peek1 peek2 peek3 peek4 peek5 poke1 poke2 poke3 poke4
        poke5 name6 data7 poke7 poke8)
qed

lemma read_data_guard:
  "unat n < 10 \<or> 224 < unat n \<Longrightarrow> read_data e stream n = Inl Nettik_Exception"
  by (auto simp: read_data_def offsets)

lemma pokes_length_ok: "i + n \<le> length mem \<Longrightarrow>
   \<exists>mem'. pokes mem i (take n xs) = Inr mem' \<and> length mem' = length mem"
  by (simp add: pokes_in)

text \<open>
  A frame read never leaves the packet when 210 bytes follow the pointer: 17 fixed bytes, at most
  64 of name, the terminator and 128 of data. The length the caller announces does not matter.
\<close>

lemma read_data_safe:
  assumes e: "entry_ok e" and s: "210 \<le> length stream" and n: "10 \<le> unat n" "unat n \<le> 224"
  shows "\<exists>e'. read_data e stream n = Inr e' \<and> entry_ok e' \<and> ent_typesize e' = ent_typesize e"
proof -
  let ?b = "\<lambda>i. take 4 (drop i stream)"
  have len: "length (ent_mem e) = 212" using e by (simp add: entry_ok_def sizeof_entry_def)
  have peeks: "peeks stream i 4 = Inr (?b i)" if "i \<le> 12" for i
    using s that by (simp add: peeks_in)
  obtain m1 where m1: "pokes (ent_mem e) 0 (take 4 stream) = Inr m1" "length m1 = 212"
    using pokes_length_ok [of 0 4 "ent_mem e" stream] len by auto
  obtain m2 where m2: "pokes m1 4 (?b 4) = Inr m2" "length m2 = 212"
    using pokes_length_ok [of 4 4 m1 "drop 4 stream"] m1 by auto
  obtain m3 where m3: "pokes m2 8 (?b 8) = Inr m3" "length m3 = 212"
    using pokes_length_ok [of 8 4 m2 "drop 8 stream"] m2 by auto
  obtain m4 where m4: "pokes m3 12 (?b 12) = Inr m4" "length m4 = 212"
    using pokes_length_ok [of 12 4 m3 "drop 12 stream"] m3 by auto
  let ?m5 = "m4[16 := stream ! 16]"
  obtain m6 cur where m6: "read_name 64 0 ?m5 stream 17 = Inr (m6, cur)"
    using read_name_total [of 17 64 stream 0 ?m5] s m4 by (auto simp: off_name_def)
  then have cur: "length m6 = 212" "cur \<le> 81"
    using read_name_length [OF m6] m4 by auto
  obtain m7 where m7: "copy_loop m6 81 stream (Suc cur) 128 = Inr m7" "length m7 = 212"
    using cur s pokes_length_ok [of 81 128 m6 "drop (Suc cur) stream"]
    by (auto simp: copy_loop_pokes)
  have p5: "peek stream 16 = Inr (stream ! 16)" using s by simp
  have q5: "poke m4 16 (stream ! 16) = Inr ?m5" using m4 by simp
  have q8: "poke m7 210 0 = Inr (m7[210 := 0])" using m7 by simp
  have "read_data e stream n = Inr (e\<lparr>ent_mem := m7[210 := 0],
      ent_dataPointer := Some (Suc cur + 128 + 1)\<rparr>)"
    using n by (simp add: read_data_def offsets peeks m1 m2 m3 m4 m6 m7 p5 q5 q8)
  then show ?thesis
    using m7 by (simp add: entry_ok_def sizeof_entry_def)
qed

section \<open>Reading too little\<close>

text \<open>Memory accesses fail in one way only.\<close>

definition only_undefined :: "'a res \<Rightarrow> bool" where
  "only_undefined x \<longleftrightarrow> (\<forall>f. x = Inl f \<longrightarrow> f = Undefined)"

lemma only_undefined_Inr [simp]: "only_undefined (Inr x)"
  by (simp add: only_undefined_def)

lemma only_undefined_bind:
  "only_undefined x \<Longrightarrow> (\<And>y. x = Inr y \<Longrightarrow> only_undefined (g y)) \<Longrightarrow> only_undefined (res_bind x g)"
  by (cases x) (auto simp: only_undefined_def)

lemma only_undefined_access [simp]:
  "only_undefined (peek mem i)" "only_undefined (poke mem i b)"
  by (simp_all add: only_undefined_def peek_def poke_def)

lemma only_undefined_peeks [simp]: "only_undefined (peeks mem i n)"
  by (induction n arbitrary: i) (auto intro!: only_undefined_bind)

lemma only_undefined_pokes [simp]: "only_undefined (pokes mem i bs)"
  by (induction bs arbitrary: mem i) (auto intro!: only_undefined_bind)

lemma only_undefined_copy_loop [simp]: "only_undefined (copy_loop dst d src i n)"
  by (induction n arbitrary: dst d i) (auto intro!: only_undefined_bind)

lemma only_undefined_read_name [simp]: "only_undefined (read_name n i mem stream cur)"
  by (induction n arbitrary: mem i cur) (auto intro!: only_undefined_bind)

lemma read_data_faults:
  "10 \<le> unat n \<Longrightarrow> unat n \<le> 224 \<Longrightarrow> only_undefined (read_data e stream n)"
  by (auto simp: read_data_def offsets intro!: only_undefined_bind split: prod.splits)

text \<open>A successful read has consumed 17 fixed bytes, the terminator and 128 bytes of data.\<close>

lemma copy_loop_source: "copy_loop dst d src i n = Inr dst' \<Longrightarrow> 0 < n \<Longrightarrow> i + n \<le> length src"
  using copy_loop_short [of src i n dst d] by (cases "length src < i + n") auto

lemma read_data_needs: "read_data e stream n = Inr e' \<Longrightarrow> 146 \<le> length stream"
  by (auto simp: read_data_def offsets res_bind_Inr_iff split: if_splits
      dest!: copy_loop_source read_name_length)

end
