(* ===== verification/Net_Var.thy ===== *)
theory Net_Var
  imports Frame_Codec
begin

text \<open>
  Network variables: \<open>NetVar\<close> (NetVar.h, NetVar.cpp), the template \<open>CNetVarBase\<close>
  (CNetVarBase.h) over a fixed-size value type, and the character array \<open>CNetVarString\<close>
  (cnetvarstring.h). A variable's value is its object representation, the bytes of \<open>m_Data\<close>;
  \<open>sizeof(VarType)\<close> is their number. The comparison of the value type belongs to the
  application's type and is an argument where the code uses it.
\<close>

section \<open>State\<close>

record netvar =
  nv_Changes :: size_t
  nv_SequenceID :: u32
  nv_Name :: bytes
  nv_Reliable :: bool
  nv_CheckSequence :: bool
  nv_Changed :: bool
  nv_Locked :: bool
  nv_ChangeForced :: bool
  nv_Data :: bytes

text \<open>
  The constructors of \<open>NetVar\<close> and \<open>CNetVarBase\<close>. The base constructor registers the variable in
  the parent's list under the parent's mutex; \<open>lock_ok\<close> is the outcome of \<open>try_lock\<close>, and no
  parent is \<open>None\<close>. The template fills the value with zero bytes.
\<close>

definition netvar_construct ::
  "netvar list option \<Rightarrow> bool \<Rightarrow> bytes \<Rightarrow> bool \<Rightarrow> nat \<Rightarrow> (netvar \<times> netvar list option) res" where
  "netvar_construct vars lock_ok name reliable size_of =
     (let v = \<lparr>nv_Changes = 0, nv_SequenceID = 0, nv_Name = name, nv_Reliable = reliable,
               nv_CheckSequence = False, nv_Changed = True, nv_Locked = False,
               nv_ChangeForced = False, nv_Data = replicate size_of 0\<rparr>
      in case vars of
           None \<Rightarrow> Inr (v, None)
         | Some vs \<Rightarrow> if lock_ok then Inr (v, Some (vs @ [v])) else Inl Nettik_Exception)"

text \<open>
  The destructor finds the variable by its address, here its position in the parent's list, and
  erases it; it skips the erase when the mutex is taken.
\<close>

definition netvar_destroy :: "netvar list option \<Rightarrow> bool \<Rightarrow> nat \<Rightarrow> netvar list option" where
  "netvar_destroy vars lock_ok i =
     (case vars of
        None \<Rightarrow> None
      | Some vs \<Rightarrow>
          if lock_ok \<and> i < length vs then Some (take i vs @ drop (Suc i) vs) else Some vs)"

section \<open>Counters and sequence numbers\<close>

definition GetChanges :: "netvar \<Rightarrow> size_t" where "GetChanges v = nv_Changes v"
definition ClearChanges :: "netvar \<Rightarrow> netvar" where "ClearChanges v = v\<lparr>nv_Changes := 0\<rparr>"
definition InvalidateChanges :: "netvar \<Rightarrow> netvar" where
  "InvalidateChanges v = v\<lparr>nv_Changes := nv_Changes v + 1\<rparr>"

definition SetSequenceCheck :: "bool \<Rightarrow> netvar \<Rightarrow> netvar" where
  "SetSequenceCheck b v = v\<lparr>nv_CheckSequence := b\<rparr>"

definition CheckSequence :: "netvar \<Rightarrow> u32 \<Rightarrow> bool" where
  "CheckSequence v sequence_id \<longleftrightarrow> \<not> nv_CheckSequence v \<or> nv_SequenceID v \<le> sequence_id"

definition SetSequence :: "u32 \<Rightarrow> netvar \<Rightarrow> netvar" where
  "SetSequence sequence_id v = v\<lparr>nv_SequenceID := sequence_id\<rparr>"

definition GetSequence :: "netvar \<Rightarrow> u32" where "GetSequence v = nv_SequenceID v"

section \<open>CNetVarBase\<close>

definition Lock :: "netvar \<Rightarrow> netvar" where "Lock v = v\<lparr>nv_Locked := True\<rparr>"
definition Unlock :: "netvar \<Rightarrow> netvar" where "Unlock v = v\<lparr>nv_Locked := False\<rparr>"

definition Invalidate :: "netvar \<Rightarrow> netvar" where
  "Invalidate v = v\<lparr>nv_Changed := True, nv_ChangeForced := True\<rparr>"

text \<open>
  \<open>TakeVariableSnapshot\<close>: nothing when the variable is unchanged and the snapshot not forced;
  otherwise one more stream with one written frame. The parent's identifier is read through the
  parent pointer (\<open>None\<close> is null); \<open>junk\<close> is the frame type of the uninitialised generator.
\<close>

definition TakeVariableSnapshot ::
  "u32 \<Rightarrow> u32 option \<Rightarrow> netvar \<Rightarrow> stream \<Rightarrow> bool \<Rightarrow> (size_t \<times> netvar \<times> stream) res" where
  "TakeVariableSnapshot junk parent v buffers bForced =
     (if \<not> bForced \<and> \<not> nv_Changed v then Inr (0, v, buffers)
      else
        let (ref, buffers1) = stream_create buffers;
            g1 = set_frametype kFRAME_Data (entry_new junk)
        in res_bind (set_name (nv_Name v) g1) (\<lambda>g2.
           res_bind (case parent of None \<Rightarrow> Inl Undefined | Some nid \<Rightarrow> Inr nid) (\<lambda>nid.
           let g3 = set_netid nid g2
           in res_bind (set_data (nv_Data v) (of_nat (length (nv_Data v))) g3) (\<lambda>g4.
              let v1 = v\<lparr>nv_SequenceID := nv_SequenceID v + 1\<rparr>;
                  g5 = set_sequence (nv_SequenceID v1) g4;
                  g6 = set_forced (nv_ChangeForced v1 \<or> bForced) g5
              in res_bind (entry_write g6 []) (\<lambda>buffer.
                   Inr (vsize buffer, v1\<lparr>nv_Changed := False, nv_ChangeForced := False\<rparr>,
                        stream_set buffers1 ref buffer))))))"

text \<open>\<open>Set(ptr, size, pWho)\<close>: the raw copy of a remote update; \<open>pWho\<close> is not used.\<close>

definition Set_raw :: "bytes \<Rightarrow> size_t \<Rightarrow> netvar \<Rightarrow> netvar res" where
  "Set_raw ptr sz v =
     (if nv_Locked v then Inr v
      else
        let n = (if sz = 0 then length (nv_Data v) else unat sz)
        in res_bind (copy_loop (nv_Data v) 0 ptr 0 n) (\<lambda>data.
             Inr (v\<lparr>nv_Data := data, nv_Changes := nv_Changes v + 1, nv_Changed := True\<rparr>)))"

text \<open>
  \<open>SetGuard\<close> and the typed \<open>Set\<close>. \<open>parent\<close> is \<open>None\<close> for a null parent and otherwise the
  parent's active flag; \<open>veq\<close> is the value type's \<open>==\<close>.
\<close>

definition SetGuard :: "bool option \<Rightarrow> (bytes \<Rightarrow> bytes \<Rightarrow> bool) \<Rightarrow> bytes \<Rightarrow> netvar \<Rightarrow> bool \<times> netvar" where
  "SetGuard parent veq data v =
     (if parent = Some False then (False, v)
      else if veq (nv_Data v) data then (False, v)
      else (True, v\<lparr>nv_Changed := True, nv_ChangeForced := True\<rparr>))"

definition Set_typed :: "bool option \<Rightarrow> (bytes \<Rightarrow> bytes \<Rightarrow> bool) \<Rightarrow> bytes \<Rightarrow> netvar \<Rightarrow> netvar" where
  "Set_typed parent veq data v =
     (let (ok, v1) = SetGuard parent veq data v
      in if \<not> ok then v1
         else v1\<lparr>nv_Data := data, nv_Changes := nv_Changes v1 + 1, nv_ChangeForced := True\<rparr>)"

section \<open>CNetVarVector\<close>

text \<open>
  A vector is its three floats one after another, each given by the word of its bits. This \<open>Set\<close>
  hides those of the template.
\<close>

definition vector_bytes :: "u32 \<Rightarrow> u32 \<Rightarrow> u32 \<Rightarrow> bytes" where
  "vector_bytes x y z = le32 x @ le32 y @ le32 z"

definition netvector_construct ::
  "netvar list option \<Rightarrow> bool \<Rightarrow> bytes \<Rightarrow> bool \<Rightarrow> (netvar \<times> netvar list option) res" where
  "netvector_construct vars lock_ok name reliable = netvar_construct vars lock_ok name reliable 12"

definition netvector_Set :: "bool option \<Rightarrow> (bytes \<Rightarrow> bytes \<Rightarrow> bool) \<Rightarrow> u32 \<Rightarrow> u32 \<Rightarrow> u32 \<Rightarrow> netvar \<Rightarrow> netvar" where
  "netvector_Set parent veq x y z v =
     (let compose = vector_bytes x y z; (ok, v1) = SetGuard parent veq compose v
      in if \<not> ok then v1 else v1\<lparr>nv_Data := compose\<rparr>)"

text \<open>It does what the template's \<open>Set\<close> does, but does not count the change.\<close>

lemma netvector_Set_uncounted:
  "netvector_Set parent veq x y z v = (Set_typed parent veq (vector_bytes x y z) v)\<lparr>nv_Changes := nv_Changes v\<rparr>"
  by (simp add: netvector_Set_def Set_typed_def SetGuard_def Let_def)

lemma length_vector_bytes [simp]: "length (vector_bytes x y z) = 12"
  by (simp add: vector_bytes_def)

section \<open>CNetVarString over char\<close>

text \<open>
  \<open>Set\<close> truncates to \<open>N - 1\<close> characters, clears the array, copies and invalidates. The loops
  index the array \<open>m_Data\<close> of \<open>N\<close> characters.
\<close>

definition string_set :: "bytes \<Rightarrow> netvar \<Rightarrow> netvar res" where
  "string_set str v =
     (let N = length (nv_Data v);
          str1 = (if length str + 1 > N then take (N - 1) str else str)
      in res_bind (pokes (nv_Data v) 0 (replicate N 0)) (\<lambda>cleared.
         res_bind (pokes cleared 0 str1) (\<lambda>data.
           Inr (Invalidate (v\<lparr>nv_Data := data\<rparr>)))))"

section \<open>Well-formed variables\<close>

text \<open>
  What the declaration macros guarantee: the name is a C string, and the static assertion bounds
  the value's size. Names up to 63 bytes fit the name member with their terminator.
\<close>

definition nv_ok :: "netvar \<Rightarrow> bool" where
  "nv_ok v \<longleftrightarrow> 0 \<notin> set (nv_Name v) \<and> length (nv_Name v) \<le> 63 \<and> length (nv_Data v) < max_entvar_data"

text \<open>The bytes of the data member of a frame that carries \<open>v\<close>.\<close>

definition padded_data :: "netvar \<Rightarrow> bytes" where
  "padded_data v = nv_Data v @ replicate (128 - length (nv_Data v)) 0"

definition var_frame :: "u32 \<Rightarrow> netvar \<Rightarrow> bool \<Rightarrow> bytes" where
  "var_frame nid v bForced =
     frame_image kFRAME_Data nid NET_CONTROLLER_NONE (nv_SequenceID v + 1)
       (if nv_ChangeForced v \<or> bForced then 1 else 0) (nv_Name v) (padded_data v)"

lemma padded_data_length: "nv_ok v \<Longrightarrow> length (padded_data v) = 128"
  by (simp add: padded_data_def nv_ok_def max_entvar_data_def)

lemma var_frame_length: "nv_ok v \<Longrightarrow> length (var_frame nid v f) = 146 + length (nv_Name v)"
  by (simp add: var_frame_def wire_simps padded_data_length)

lemma snapshot_unchanged:
  "\<not> nv_Changed v \<Longrightarrow> TakeVariableSnapshot junk parent v s False = Inr (0, v, s)"
  by (simp add: TakeVariableSnapshot_def)

text \<open>The snapshot of a well-formed variable is its frame, whatever the generator held before.\<close>

lemma snapshot_frame:
  assumes ok: "nv_ok v" and due: "bForced \<or> nv_Changed v"
  shows "TakeVariableSnapshot junk (Some nid) v s bForced =
    Inr (of_nat (146 + length (nv_Name v)),
         v\<lparr>nv_SequenceID := nv_SequenceID v + 1, nv_Changed := False, nv_ChangeForced := False\<rparr>,
         stream_push s (var_frame nid v bForced))"
proof -
  let ?n = "length (nv_Name v)" and ?d = "length (nv_Data v)"
  let ?nm = "nv_Name v @ replicate (64 - ?n) 0"
  let ?fc = "if nv_ChangeForced v \<or> bForced then 1 else 0 :: u8"
  have n: "?n \<le> 63" "0 \<notin> set (nv_Name v)" and d: "?d < 128"
    using ok by (simp_all add: nv_ok_def max_entvar_data_def)
  have ud: "unat (of_nat ?d :: size_t) = ?d" using d by (simp add: unat_of_nat)
  have sized: "sized ?nm x [0, 0, 0]" if "length x = 128" for x
    using n that by (simp add: sized_def)
  define g1 where "g1 = set_frametype kFRAME_Data (entry_new junk)"
  have g1: "ent_mem g1 = layout kFRAME_Data 0 NET_CONTROLLER_NONE 0 0 (replicate 64 0) (replicate 128 0) [0, 0, 0]"
    unfolding g1_def by (rule set_members [OF entry_new_layout]) simp
  define g2 where "g2 = g1\<lparr>ent_mem := layout kFRAME_Data 0 NET_CONTROLLER_NONE 0 0 ?nm (replicate 128 0) [0, 0, 0]\<rparr>"
  have s2: "set_name (nv_Name v) g1 = Inr g2"
    unfolding g2_def by (rule set_name_fresh [OF g1]) (use n in simp_all)
  define g3 where "g3 = set_netid nid g2"
  have g3: "ent_mem g3 = layout kFRAME_Data nid NET_CONTROLLER_NONE 0 0 ?nm (replicate 128 0) [0, 0, 0]"
    unfolding g3_def by (rule set_members) (simp_all add: g2_def sized)
  define g4 where "g4 = g3\<lparr>ent_mem := layout kFRAME_Data nid NET_CONTROLLER_NONE 0 0 ?nm (padded_data v) [0, 0, 0],
     ent_typesize := of_nat ?d\<rparr>"
  have s4: "set_data (nv_Data v) (of_nat ?d) g3 = Inr g4"
    using set_data_layout [OF g3 sized, of "of_nat ?d" "nv_Data v"] d
    by (simp add: g4_def ud padded_data_def)
  define g6 where "g6 = set_forced (nv_ChangeForced v \<or> bForced) (set_sequence (nv_SequenceID v + 1) g4)"
  have pd: "length (padded_data v) = 128" using ok by (rule padded_data_length)
  have "ent_mem (set_sequence (nv_SequenceID v + 1) g4) =
      layout kFRAME_Data nid NET_CONTROLLER_NONE (nv_SequenceID v + 1) 0 ?nm (padded_data v) [0, 0, 0]"
    by (rule set_members) (simp_all add: g4_def sized pd)
  then have g6: "ent_mem g6 =
      layout kFRAME_Data nid NET_CONTROLLER_NONE (nv_SequenceID v + 1) ?fc ?nm (padded_data v) [0, 0, 0]"
    unfolding g6_def by (rule set_members) (simp_all add: sized pd)
  have "64 - ?n = Suc (63 - ?n)" using n by simp
  then have nm: "?nm = nv_Name v @ 0 # replicate (63 - ?n) 0" by simp
  have "ent_typesize g6 = of_nat ?d"
    by (simp add: g6_def frame_simps g4_def)
  then have w: "entry_write g6 [] = Inr (var_frame nid v bForced)"
    using entry_write_image [OF g6 [unfolded nm] sized [OF pd, unfolded nm]] n d ud
    by (simp add: var_frame_def padded_data_def)
  have "vsize (var_frame nid v bForced) = of_nat (146 + ?n)"
    using var_frame_length [OF ok] by (simp add: vsize_def)
  then show ?thesis
    using due s2 s4 w create_then_write [of s "var_frame nid v bForced"]
    by (auto simp: TakeVariableSnapshot_def Let_def g1_def [symmetric] g3_def [symmetric]
        g6_def [symmetric] split: prod.splits)
qed

section \<open>Receiving\<close>

lemma Set_raw_locked: "nv_Locked v \<Longrightarrow> Set_raw ptr n v = Inr v"
  by (simp add: Set_raw_def)

text \<open>\<open>Set(frame.get_data(), 0, owner)\<close> takes the leading \<open>sizeof(VarType)\<close> bytes of the frame.\<close>

lemma Set_raw_whole:
  assumes "\<not> nv_Locked v" and "length (nv_Data v) \<le> length ptr"
  shows "Set_raw ptr 0 v = Inr (v\<lparr>nv_Data := take (length (nv_Data v)) ptr,
    nv_Changes := nv_Changes v + 1, nv_Changed := True\<rparr>)"
  using assms by (simp add: Set_raw_def copy_loop_pokes pokes_in)

text \<open>Every update keeps the name, the size and the reliability of a variable.\<close>

definition same_shape :: "netvar \<Rightarrow> netvar \<Rightarrow> bool" where
  "same_shape v w \<longleftrightarrow> nv_Name w = nv_Name v \<and> length (nv_Data w) = length (nv_Data v) \<and>
     nv_Reliable w = nv_Reliable v \<and> nv_CheckSequence w = nv_CheckSequence v"

lemma same_shape_ok: "same_shape v w \<Longrightarrow> nv_ok w = nv_ok v"
  by (simp add: same_shape_def nv_ok_def)

lemma Set_raw_shape: "Set_raw ptr n v = Inr w \<Longrightarrow> same_shape v w"
  by (auto simp: Set_raw_def same_shape_def Let_def res_bind_Inr_iff dest: copy_loop_length
      split: if_splits)

lemma update_shapes:
  "same_shape v (ClearChanges v)" "same_shape v (InvalidateChanges v)"
  "same_shape v (SetSequence q v)" "same_shape v (Lock v)" "same_shape v (Unlock v)"
  "same_shape v (Invalidate v)"
  "length data = length (nv_Data v) \<Longrightarrow> same_shape v (Set_typed parent veq data v)"
  by (auto simp: same_shape_def ClearChanges_def InvalidateChanges_def SetSequence_def Lock_def
      Unlock_def Invalidate_def Set_typed_def SetGuard_def Let_def)

lemma snapshot_shape:
  "TakeVariableSnapshot junk parent v s f = Inr (n, w, s') \<Longrightarrow> same_shape v w"
  by (auto simp: TakeVariableSnapshot_def same_shape_def Let_def res_bind_Inr_iff
      split: if_splits prod.splits option.splits)

section \<open>Life of a variable\<close>

text \<open>
  Every state the variable of a value type of \<open>n\<close> bytes can be in: constructed, then changed by the
  application (with values of its type, or the components of a vector), by peers (with any bytes) and by the snapshots.
\<close>

inductive var_reach :: "nat \<Rightarrow> bytes \<Rightarrow> bool \<Rightarrow> netvar \<Rightarrow> bool" for n name rel where
  construct: "netvar_construct vars lock_ok name rel n = Inr (v, vars') \<Longrightarrow> var_reach n name rel v"
| typed: "var_reach n name rel v \<Longrightarrow> length data = n \<Longrightarrow> var_reach n name rel (Set_typed parent veq data v)"
| vector: "var_reach n name rel v \<Longrightarrow> n = 12 \<Longrightarrow> var_reach n name rel (netvector_Set parent veq x y z v)"
| raw: "var_reach n name rel v \<Longrightarrow> Set_raw ptr sz v = Inr w \<Longrightarrow> var_reach n name rel w"
| chars: "var_reach n name rel v \<Longrightarrow> string_set str v = Inr w \<Longrightarrow> var_reach n name rel w"
| snapshot: "var_reach n name rel v \<Longrightarrow> TakeVariableSnapshot junk parent v s f = Inr (k, w, s') \<Longrightarrow>
    var_reach n name rel w"
| count: "var_reach n name rel v \<Longrightarrow> w \<in> {ClearChanges v, InvalidateChanges v, Invalidate v, Lock v, Unlock v} \<Longrightarrow>
    var_reach n name rel w"
| sequence: "var_reach n name rel v \<Longrightarrow> w \<in> {SetSequence q v, SetSequenceCheck b v} \<Longrightarrow> var_reach n name rel w"

lemma string_set_length: "string_set str v = Inr w \<Longrightarrow> nv_Name w = nv_Name v \<and>
    nv_Reliable w = nv_Reliable v \<and> length (nv_Data w) = length (nv_Data v)"
  by (auto simp: string_set_def Let_def res_bind_Inr_iff Invalidate_def dest!: pokes_length)

lemma var_reach_shape:
  "var_reach n name rel v \<Longrightarrow> length (nv_Data v) = n \<and> nv_Name v = name \<and> nv_Reliable v = rel"
proof (induction rule: var_reach.induct)
  case (construct vars lock_ok v vars')
  then show ?case
    by (auto simp: netvar_construct_def Let_def split: option.splits if_splits)
next
  case (typed v data parent veq)
  then show ?case
    using update_shapes(7) [of data v parent veq] by (simp add: same_shape_def)
next
  case (vector v parent veq x y z)
  then show ?case
    using update_shapes(7) [of "vector_bytes x y z" v parent veq] by (simp add: same_shape_def netvector_Set_uncounted)
next
  case (raw v ptr sz w)
  then show ?case
    using Set_raw_shape [OF raw(2)] by (simp add: same_shape_def)
next
  case (chars v str w)
  then show ?case
    using string_set_length [OF chars(2)] by simp
next
  case (snapshot v junk parent s f k w s')
  then show ?case
    using snapshot_shape [OF snapshot(2)] by (simp add: same_shape_def)
next
  case (count v w)
  then show ?case
    by (auto simp: ClearChanges_def InvalidateChanges_def Invalidate_def Lock_def Unlock_def)
next
  case (sequence v w q b)
  then show ?case
    by (auto simp: SetSequence_def SetSequenceCheck_def)
qed

text \<open>
  C13. A network variable keeps its type: whatever the application, peers and snapshots do, it holds as
  many bytes as its value type, under its own name and reliability, so that an update of that many bytes
  from a peer is always stored, and a snapshot of a well-named variable is always its frame.
\<close>

theorem variable_keeps_type:
  assumes "var_reach n name rel v"
    and "n < max_entvar_data" and "0 \<notin> set name" and "length name \<le> 63" and "n \<le> length ptr"
  shows "length (nv_Data v) = n \<and> nv_Name v = name \<and> nv_Reliable v = rel \<and>
    (\<exists>w. Set_raw ptr 0 v = Inr w \<and> (nv_Locked v \<or> nv_Data w = take n ptr)) \<and>
    (\<exists>k w. TakeVariableSnapshot junk (Some nid) v s True = Inr (k, w, stream_push s (var_frame nid v True)))"
proof -
  have v: "length (nv_Data v) = n" "nv_Name v = name" "nv_Reliable v = rel"
    using var_reach_shape [OF assms(1)] by simp_all
  then have "nv_ok v"
    using assms(2-4) by (simp add: nv_ok_def)
  from snapshot_frame [OF this, of True junk nid s] show ?thesis
    using v assms(5) Set_raw_locked [of v ptr 0] Set_raw_whole [of v ptr] by (cases "nv_Locked v") auto
qed

theorem variable_keeps_type_witness:
  "\<exists>v w v'. netvar_construct None True [112] True 2 = Inr (v, None) \<and> Set_raw [7, 8, 9] 0 v = Inr w \<and>
     Set_raw [3, 4, 5] 0 w = Inr v' \<and> nv_Data v' = [3, 4]"
proof -
  let ?v = "\<lparr>nv_Changes = 0, nv_SequenceID = 0, nv_Name = [112], nv_Reliable = True,
    nv_CheckSequence = False, nv_Changed = True, nv_Locked = False, nv_ChangeForced = False,
    nv_Data = [0, 0]\<rparr>"
  have v: "netvar_construct None True [112] True 2 = Inr (?v, None)"
    by (simp add: netvar_construct_def numeral_2_eq_2)
  from Set_raw_whole [of ?v "[7, 8, 9]"]
  obtain w where w: "Set_raw [7, 8, 9] 0 ?v = Inr w" "\<not> nv_Locked w"
    by auto
  from variable_keeps_type [OF var_reach.raw [OF var_reach.construct [OF v] w(1)], of "[3, 4, 5]"] w v
  show ?thesis
    by (auto simp: max_entvar_data_def)
qed

end
