(* ===== verification/World.thy ===== *)
theory World
  imports Net_Var
begin

text \<open>
  The state the network controller works on: networked objects in a heap (shared pointers are
  references into it), entity managers and virtual instances, the controller's own fields, and the
  calls made to the transport so far. Unordered maps of the code are association lists with
  distinct keys; their order is the iteration order of the container. Peers are numbers, and a
  null peer pointer is \<open>None\<close>.
\<close>

section \<open>Association lists as the code's unordered maps\<close>

definition amap :: "'k \<Rightarrow> ('v \<Rightarrow> 'v) \<Rightarrow> ('k \<times> 'v) list \<Rightarrow> ('k \<times> 'v) list" where
  "amap k f xs = map (\<lambda>(k', v). (k', if k' = k then f v else v)) xs"

definition adel :: "'k \<Rightarrow> ('k \<times> 'v) list \<Rightarrow> ('k \<times> 'v) list" where
  "adel k xs = filter (\<lambda>(k', v). k' \<noteq> k) xs"

text \<open>\<open>m[k] = v\<close>: overwrite in place, or insert.\<close>

definition aput :: "'k \<Rightarrow> 'v \<Rightarrow> ('k \<times> 'v) list \<Rightarrow> ('k \<times> 'v) list" where
  "aput k v xs = (if map_of xs k = None then xs @ [(k, v)] else amap k (\<lambda>_. v) xs)"

lemma map_of_amap [simp]:
  "map_of (amap k f xs) k' = (if k' = k then map_option f (map_of xs k) else map_of xs k')"
  by (induction xs) (auto simp: amap_def)

lemma keys_amap [simp]: "map fst (amap k f xs) = map fst xs"
  by (induction xs) (auto simp: amap_def)

lemma amap_Nil [simp]: "amap k f [] = []"
  by (simp add: amap_def)

lemma amap_Cons [simp]:
  "amap k f ((k', v) # xs) = (k', if k' = k then f v else v) # amap k f xs"
  by (simp add: amap_def)

lemma length_amap [simp]: "length (amap k f xs) = length xs"
  by (simp add: amap_def)

lemma map_of_adel [simp]: "map_of (adel k xs) = (map_of xs)(k := None)"
  by (induction xs) (auto simp: adel_def)

lemma keys_adel: "set (map fst (adel k xs)) = set (map fst xs) - {k}"
  by (auto simp: adel_def)

lemma distinct_adel: "distinct (map fst xs) \<Longrightarrow> distinct (map fst (adel k xs))"
  by (induction xs) (auto simp: adel_def)

lemma map_of_aput [simp]: "map_of (aput k v xs) = (map_of xs)(k \<mapsto> v)"
  by (auto simp: aput_def map_add_def fun_eq_iff split: option.splits)

lemma distinct_aput: "distinct (map fst xs) \<Longrightarrow> distinct (map fst (aput k v xs))"
  by (auto simp: aput_def map_of_eq_None_iff)

section \<open>Reliable messages and packets\<close>

type_synonym peer = nat

text \<open>The messages of EntityMessages.proto; an unset target object is \<open>None\<close>.\<close>

record assoc_object =
  ao_instance_name :: bytes
  ao_manager_name :: bytes
  ao_network_code :: u32

definition assoc_default :: assoc_object where
  "assoc_default = \<lparr>ao_instance_name = [], ao_manager_name = [], ao_network_code = 0\<rparr>"

datatype proto_msg =
    INetworkMapAdd "assoc_object option" u32 bytes u32
  | INetworkMapUpdate "assoc_object option" u32 bytes u32
  | INetworkMapRemove "assoc_object option" u32 u32

datatype packet_status = kPacket_Pending | kPacket_Disabled | kPacket_Dispatched

record packet =
  pk_msg :: proto_msg
  pk_Code :: u16
  pk_Status :: packet_status
  pk_Channel :: u8
  pk_Flags :: u32
  pk_PeerList :: "peer option list"

section \<open>Networked lists\<close>

datatype list_event =
  kListEvent_Add | kListEvent_Update | kListEvent_Remove | kListEvent_ScheduleCheck

text \<open>
  The callbacks a list holds: the three forwarders its constructor binds, and the application's,
  which are numbered.
\<close>

datatype list_cb = Forward_Remove | Forward_Add | Forward_Update | User_cb nat

record netlist =
  nl_DataSize :: nat
  nl_ListID :: u32
  nl_Data :: "(u32 \<times> bytes) list"
  nl_UpdateQueue :: "(packet \<times> peer option) list"
  nl_Callbacks :: "(list_event \<times> list_cb list) list"
  nl_QueuedEvents :: "(u32 \<times> list_cb) list"

section \<open>Objects, managers, instances\<close>

text \<open>
  \<open>NetObject\<close>: the instance pointer is the name the instance is registered under, the manager
  pointer that name and the manager's. Variables and lists are members of the object.
\<close>

record net_object =
  no_Peer :: "peer option"
  no_Instance :: "bytes option"
  no_Manager :: "(bytes \<times> bytes) option"
  no_IsReplicated :: bool
  no_Active :: bool
  no_NetCode :: u32
  no_RealmID :: u32
  no_Controller :: u32
  no_Vars :: "netvar list"
  no_MapList :: "netlist list"

type_synonym oref = nat

text \<open>\<open>mg_Type\<close> stands for the template argument of \<open>CEntities\<close>.\<close>

record manager =
  mg_Name :: bytes
  mg_Objects :: "oref list"
  mg_Local :: "oref list"
  mg_Type :: nat
  mg_cbCreate :: "nat option"
  mg_cbDelete :: "nat option"

text \<open>A pending delete is the iterator \<open>find\<close> returned: a key, or \<open>end()\<close>.\<close>

record vinstance =
  vi_Name :: bytes
  vi_EntManagers :: "(bytes \<times> manager) list"
  vi_SequenceID :: u32
  vi_PendingDeletes :: "bytes option list"

section \<open>The controller\<close>

text \<open>The calls the controller makes to ENet, in order.\<close>

datatype transport_call =
    Peer_Send peer bytes u32 u8
  | Host_Broadcast bytes u32 u8
  | Peer_Disconnect_Now peer u32
  | Host_Destroy

datatype handler =
    H_List_Add | H_List_Update | H_List_Remove
  | H_EntSnapshot | H_EntOwnership | H_ClientEntSnapshot
  | H_User nat

datatype event_type = EVENT_CONNECT | EVENT_DISCONNECT | EVENT_RECEIVE

datatype event_handler = EH_SendWorld | EH_Stop | EH_User nat

section \<open>The threads of a controller\<close>

text \<open>\<open>INetworkThread\<close> (INetworkThread.h, INetworkThread.cpp): whether a system thread was created and is marked as running.\<close>

record net_thread =
  nt_bRunning :: bool
  nt_hThread :: bool
  nt_Procedure :: bool

definition thread_new :: "bool \<Rightarrow> net_thread" where
  "thread_new proc = \<lparr>nt_bRunning = False, nt_hThread = False, nt_Procedure = proc\<rparr>"

text \<open>The first component says whether a thread was created; \<open>created\<close> is whether the system did so.\<close>

definition thread_Start :: "bool \<Rightarrow> net_thread \<Rightarrow> bool \<times> net_thread" where
  "thread_Start created t =
     (if nt_hThread t \<or> nt_bRunning t then (False, t)
      else (created, t\<lparr>nt_bRunning := True, nt_hThread := created\<rparr>))"

text \<open>The end of \<open>_staticProc\<close>, after the procedure, if there is one, has returned.\<close>

definition thread_finish :: "net_thread \<Rightarrow> net_thread" where
  "thread_finish t = t\<lparr>nt_bRunning := False\<rparr>"

text \<open>The destructor: whether it terminates the thread.\<close>

definition thread_destroy :: "net_thread \<Rightarrow> bool \<times> net_thread" where
  "thread_destroy t =
     (if nt_hThread t \<and> nt_bRunning t then (True, t\<lparr>nt_bRunning := False\<rparr>) else (False, t))"

record world =
  w_heap :: "oref \<Rightarrow> net_object option"
  w_extern :: "oref \<Rightarrow> nat"
  w_Instances :: "(bytes \<times> vinstance) list"
  w_Controlled :: "(u32 \<times> oref) list"
  w_Running :: bool
  w_Server :: bool
  w_Connected :: bool
  w_ShuttingDown :: bool
  w_Host :: bool
  w_Thread :: "net_thread option"
  w_SyncThread :: "net_thread option"
  w_PeerList :: "peer list"
  w_Callbacks :: "(u16 \<times> handler list) list"
  w_EventCallbacks :: "(event_type \<times> event_handler list) list"
  w_TotalEntities :: u32
  w_NextRef :: oref
  w_Out :: "transport_call list"

text \<open>
  The application: the object its type's constructor builds, its callbacks as state changes, the
  serialisation of a message by the Protocol Buffers library, and the uninitialised bytes of a
  frame generator.
\<close>

record app =
  ap_junk :: u32
  ap_construct :: "nat \<Rightarrow> net_object"
  ap_create :: "nat \<Rightarrow> oref \<Rightarrow> world \<Rightarrow> world"
  ap_delete :: "nat \<Rightarrow> oref option \<Rightarrow> world \<Rightarrow> world"
  ap_initialize :: "oref \<Rightarrow> world \<Rightarrow> world"
  ap_network_update :: "oref \<Rightarrow> bool \<Rightarrow> bool \<Rightarrow> world \<Rightarrow> world"
  ap_post_update :: "world \<Rightarrow> world"
  ap_list_cb :: "nat \<Rightarrow> u32 \<Rightarrow> bytes option \<Rightarrow> bool \<times> bytes"
  ap_handler :: "nat \<Rightarrow> bytes \<Rightarrow> peer option \<Rightarrow> world \<Rightarrow> world"
  ap_event :: "nat \<Rightarrow> peer option \<Rightarrow> world \<Rightarrow> world"
  ap_serialize :: "proto_msg \<Rightarrow> bytes"
  ap_parse :: "bytes \<Rightarrow> proto_msg \<Rightarrow> proto_msg"

section \<open>Access paths\<close>

definition get_instance :: "world \<Rightarrow> bytes \<Rightarrow> vinstance option" where
  "get_instance w name = map_of (w_Instances w) name"

definition get_manager :: "vinstance \<Rightarrow> bytes \<Rightarrow> manager option" where
  "get_manager vi name = map_of (vi_EntManagers vi) name"

definition find_manager :: "world \<Rightarrow> bytes \<Rightarrow> bytes \<Rightarrow> manager option" where
  "find_manager w iname mname = Option.bind (get_instance w iname) (\<lambda>vi. get_manager vi mname)"

definition upd_instance :: "bytes \<Rightarrow> (vinstance \<Rightarrow> vinstance) \<Rightarrow> world \<Rightarrow> world" where
  "upd_instance iname f w = w\<lparr>w_Instances := amap iname f (w_Instances w)\<rparr>"

definition upd_manager :: "bytes \<Rightarrow> bytes \<Rightarrow> (manager \<Rightarrow> manager) \<Rightarrow> world \<Rightarrow> world" where
  "upd_manager iname mname f w =
     upd_instance iname (\<lambda>vi. vi\<lparr>vi_EntManagers := amap mname f (vi_EntManagers vi)\<rparr>) w"

text \<open>Dereferencing a shared pointer that is not null.\<close>

definition deref :: "world \<Rightarrow> oref \<Rightarrow> net_object res" where
  "deref w r = (case w_heap w r of None \<Rightarrow> Inl Undefined | Some ob \<Rightarrow> Inr ob)"

definition upd_object :: "oref \<Rightarrow> (net_object \<Rightarrow> net_object) \<Rightarrow> world \<Rightarrow> world" where
  "upd_object r f w = w\<lparr>w_heap := (w_heap w)(r := map_option f (w_heap w r))\<rparr>"

definition IsNetworkLocal :: "net_object \<Rightarrow> bool" where
  "IsNetworkLocal ob \<longleftrightarrow> no_Controller ob = NET_CONTROLLER_LOCAL"

definition IsNetworkRemote :: "net_object \<Rightarrow> bool" where
  "IsNetworkRemote ob \<longleftrightarrow> no_Controller ob \<noteq> NET_CONTROLLER_LOCAL"

lemma find_manager_upd_object [simp]:
  "find_manager (upd_object r f w) i m = find_manager w i m"
  "get_instance (upd_object r f w) i = get_instance w i"
  by (simp_all add: find_manager_def get_instance_def upd_object_def)

lemma find_manager_upd_manager:
  "find_manager (upd_manager i m f w) i' m' =
     (if i' = i \<and> m' = m then map_option f (find_manager w i m) else find_manager w i' m')"
  by (cases "map_of (w_Instances w) i")
    (auto simp: find_manager_def get_instance_def upd_manager_def upd_instance_def get_manager_def)

lemma heap_upd_object [simp]:
  "w_heap (upd_object r f w) r' = (if r' = r then map_option f (w_heap w r) else w_heap w r')"
  by (simp add: upd_object_def)

lemma upd_object_fields [frame_simps]:
  "w_extern (upd_object r f w) = w_extern w"
  "w_Instances (upd_object r f w) = w_Instances w"
  "w_Controlled (upd_object r f w) = w_Controlled w"
  "w_Running (upd_object r f w) = w_Running w"
  "w_Server (upd_object r f w) = w_Server w"
  "w_PeerList (upd_object r f w) = w_PeerList w"
  "w_Out (upd_object r f w) = w_Out w"
  "w_NextRef (upd_object r f w) = w_NextRef w"
  by (simp_all add: upd_object_def)

lemma upd_manager_fields [frame_simps]:
  "w_heap (upd_manager i m f w) = w_heap w"
  "w_extern (upd_manager i m f w) = w_extern w"
  "w_Controlled (upd_manager i m f w) = w_Controlled w"
  "w_Running (upd_manager i m f w) = w_Running w"
  "w_Server (upd_manager i m f w) = w_Server w"
  "w_PeerList (upd_manager i m f w) = w_PeerList w"
  "w_Out (upd_manager i m f w) = w_Out w"
  "w_NextRef (upd_manager i m f w) = w_NextRef w"
  by (simp_all add: upd_manager_def upd_instance_def)

end
