(* ===== verification/Transport.thy ===== *)
theory Transport
  imports World
begin

text \<open>
  The sending half of \<open>NetSystem\<close> (NetSystem.cpp): \<open>Send\<close>, \<open>Broadcast\<close> and their stream variants.
  A call into ENet is appended to the controller's record of transport calls.
\<close>

definition PACKET_FLAG_RELIABLE :: u32 where "PACKET_FLAG_RELIABLE = 1"
definition PACKET_FLAG_UNSEQUENCED :: u32 where "PACKET_FLAG_UNSEQUENCED = 2"

definition GetFirstPeer :: "world \<Rightarrow> peer option" where
  "GetFirstPeer w = (case w_PeerList w of [] \<Rightarrow> None | p # _ \<Rightarrow> Some p)"

definition transport :: "transport_call \<Rightarrow> world \<Rightarrow> world" where
  "transport c w = w\<lparr>w_Out := w_Out w @ [c]\<rparr>"

definition Send :: "bytes \<Rightarrow> peer option \<Rightarrow> u32 \<Rightarrow> u8 \<Rightarrow> world \<Rightarrow> world" where
  "Send data pr flags channel w =
     (case pr of
        None \<Rightarrow> w
      | Some p \<Rightarrow> if \<not> w_Running w then w else transport (Peer_Send p data flags channel) w)"

definition Send_first :: "bytes \<Rightarrow> u32 \<Rightarrow> u8 \<Rightarrow> world \<Rightarrow> world" where
  "Send_first data flags channel w = Send data (GetFirstPeer w) flags channel w"

definition Broadcast :: "bytes \<Rightarrow> u32 \<Rightarrow> u8 \<Rightarrow> world \<Rightarrow> world" where
  "Broadcast data flags channel w =
     (if \<not> w_Running w then w else transport (Host_Broadcast data flags channel) w)"

text \<open>
  The stream variants take the address of the first byte of the result, which exists only for a
  non-empty result; they hand back the stream because \<open>result\<close> changes it.
\<close>

definition stream_bytes :: "stream \<Rightarrow> (bytes \<times> stream) res" where
  "stream_bytes s =
     res_bind (stream_result s) (\<lambda>(data, s').
       if data = [] then Inl Undefined else Inr (data, s'))"

definition BroadcastStream :: "stream \<Rightarrow> bool \<Rightarrow> world \<Rightarrow> (stream \<times> world) res" where
  "BroadcastStream s reliable w =
     (let flags = (if reliable then PACKET_FLAG_RELIABLE else PACKET_FLAG_UNSEQUENCED)
      in res_bind (stream_bytes s) (\<lambda>(data, s'). Inr (s', Broadcast data flags 0 w)))"

definition SendStream :: "stream \<Rightarrow> bool \<Rightarrow> peer option \<Rightarrow> world \<Rightarrow> (stream \<times> world) res" where
  "SendStream s reliable pr w =
     (let flags = (if reliable then PACKET_FLAG_RELIABLE else PACKET_FLAG_UNSEQUENCED);
          pr' = (if pr = None then GetFirstPeer w else pr)
      in res_bind (stream_bytes s) (\<lambda>(data, s').
           Inr (s', Send data pr' flags (if reliable then 1 else 0) w)))"

section \<open>What sending changes\<close>

text \<open>
  Sending only appends to the record of calls. The relation says so for everything built from the
  functions above; it is reflexive and transitive, so a whole handler inherits it.
\<close>

definition only_sends :: "world \<Rightarrow> world \<Rightarrow> bool" where
  "only_sends w w' \<longleftrightarrow> (\<exists>cs. w' = w\<lparr>w_Out := w_Out w @ cs\<rparr>)"

lemma only_sends_refl [simp, intro]: "only_sends w w"
  unfolding only_sends_def by (rule exI [of _ "[]"]) simp

lemma only_sends_trans [trans]: "only_sends w v \<Longrightarrow> only_sends v u \<Longrightarrow> only_sends w u"
  by (auto simp: only_sends_def)

lemma only_sends_fields [frame_simps]:
  assumes "only_sends w w'"
  shows "w_heap w' = w_heap w" and "w_extern w' = w_extern w"
    and "w_Instances w' = w_Instances w" and "w_Controlled w' = w_Controlled w"
    and "w_Running w' = w_Running w" and "w_Server w' = w_Server w"
    and "w_PeerList w' = w_PeerList w" and "w_NextRef w' = w_NextRef w"
    and "w_TotalEntities w' = w_TotalEntities w"
  using assms by (auto simp: only_sends_def)

lemma only_sends_transport [intro]: "only_sends w (transport c w)"
  by (auto simp: only_sends_def transport_def)

lemma only_sends_Send [simp, intro]: "only_sends w (Send data pr flags ch w)"
  by (auto simp: Send_def split: option.splits)

lemma only_sends_Broadcast [simp, intro]: "only_sends w (Broadcast data flags ch w)"
  by (auto simp: Broadcast_def)

lemma only_sends_streams:
  "BroadcastStream s r w = Inr (s', w') \<Longrightarrow> only_sends w w'"
  "SendStream s r pr w = Inr (s', w') \<Longrightarrow> only_sends w w'"
  by (auto simp: BroadcastStream_def SendStream_def Let_def res_bind_Inr_iff split: prod.splits)

lemma transport_stopped:
  "\<not> w_Running w \<Longrightarrow> Send data pr flags ch w = w"
  "\<not> w_Running w \<Longrightarrow> Broadcast data flags ch w = w"
  by (simp_all add: Send_def Broadcast_def split: option.splits)

lemma BroadcastStream_eq:
  "stream_result s = Inr (data, s') \<Longrightarrow> data \<noteq> [] \<Longrightarrow>
   BroadcastStream s reliable w = Inr (s', Broadcast data
     (if reliable then PACKET_FLAG_RELIABLE else PACKET_FLAG_UNSEQUENCED) 0 w)"
  by (simp add: BroadcastStream_def stream_bytes_def)

lemma SendStream_eq:
  "stream_result s = Inr (data, s') \<Longrightarrow> data \<noteq> [] \<Longrightarrow>
   SendStream s reliable pr w = Inr (s', Send data (if pr = None then GetFirstPeer w else pr)
     (if reliable then PACKET_FLAG_RELIABLE else PACKET_FLAG_UNSEQUENCED)
     (if reliable then 1 else 0) w)"
  by (simp add: SendStream_def stream_bytes_def)

end
