(* ===== verification/Net_Object.thy ===== *)
theory Net_Object
  imports Transport
begin

text \<open>
  \<open>NetObject\<close> (NetObject.h, NetObject.cpp) and \<open>ReplicationInfo\<close> (ReplicationInfo.h): the snapshot
  of an object's variables, invalidation, and what an object is told about its role.
\<close>

section \<open>Snapshots of an object\<close>

text \<open>
  The loop of \<open>TakeObjectSnapshot\<close> over \<open>m_Vars\<close>: variables of the other reliability are skipped,
  unchanged ones write nothing, every written frame raises the maximum and counts one update.
\<close>

fun take_vars ::
  "u32 \<Rightarrow> u32 \<Rightarrow> bool \<Rightarrow> bool \<Rightarrow> netvar list \<Rightarrow> size_t \<Rightarrow> u16 \<Rightarrow> stream \<Rightarrow>
   (netvar list \<times> size_t \<times> u16 \<times> stream) res" where
  "take_vars junk nid rel forced [] mx n s = Inr ([], mx, n, s)"
| "take_vars junk nid rel forced (v # vs) mx n s =
     (if nv_Reliable v \<noteq> rel
      then res_bind (take_vars junk nid rel forced vs mx n s) (\<lambda>(vs', mx', n', s').
             Inr (v # vs', mx', n', s'))
      else
        res_bind (TakeVariableSnapshot junk (Some nid) v s forced) (\<lambda>(max_size, v', s1).
          if max_size = 0
          then res_bind (take_vars junk nid rel forced vs mx n s1) (\<lambda>(vs', mx', n', s').
                 Inr (v' # vs', mx', n', s'))
          else res_bind (take_vars junk nid rel forced vs
                 (if max_size > mx then max_size else mx) (n + 1) s1) (\<lambda>(vs', mx', n', s').
                 Inr (v' # vs', mx', n', s'))))"

definition TakeObjectSnapshot ::
  "u32 \<Rightarrow> net_object \<Rightarrow> size_t \<Rightarrow> u16 \<Rightarrow> stream \<Rightarrow> bool \<Rightarrow> bool \<Rightarrow>
   (net_object \<times> size_t \<times> u16 \<times> stream) res" where
  "TakeObjectSnapshot junk ob mx n s rel forced =
     res_bind (take_vars junk (no_NetCode ob) rel forced (no_Vars ob) mx n s)
       (\<lambda>(vs, mx', n', s'). Inr (ob\<lparr>no_Vars := vs\<rparr>, mx', n', s'))"

section \<open>Replication roles\<close>

record replication_info =
  ri_Broadcast :: bool
  ri_Replicate :: bool

definition ReplicationInfo :: "bool \<Rightarrow> peer option \<Rightarrow> u32 \<Rightarrow> replication_info" where
  "ReplicationInfo server pPeer controller =
     \<lparr>ri_Broadcast = ((server \<and> pPeer = None) \<or> (\<not> server \<and> controller = NET_CONTROLLER_LOCAL)),
      ri_Replicate = ((server \<and> pPeer \<noteq> None) \<or> (\<not> server \<and> controller \<noteq> NET_CONTROLLER_LOCAL))\<rparr>"

section \<open>Accessors\<close>

definition GetNetID :: "net_object \<Rightarrow> u32" where "GetNetID ob = no_NetCode ob"
definition SetNetID :: "u32 \<Rightarrow> net_object \<Rightarrow> net_object" where
  "SetNetID code ob = ob\<lparr>no_NetCode := code\<rparr>"
definition GetRealmID :: "net_object \<Rightarrow> u32" where "GetRealmID ob = no_RealmID ob"
definition SetRealmID :: "u32 \<Rightarrow> net_object \<Rightarrow> net_object" where
  "SetRealmID code ob = ob\<lparr>no_RealmID := code\<rparr>"
definition GetController :: "net_object \<Rightarrow> u32" where "GetController ob = no_Controller ob"
definition SetController :: "u32 \<Rightarrow> net_object \<Rightarrow> net_object" where
  "SetController c ob = ob\<lparr>no_Controller := c\<rparr>"
definition SetIsReplicated :: "bool \<Rightarrow> net_object \<Rightarrow> net_object" where
  "SetIsReplicated b ob = ob\<lparr>no_IsReplicated := b\<rparr>"

section \<open>What a snapshot of variables does\<close>

text \<open>A variable takes part when it has the asked reliability and is forced or changed.\<close>

definition due :: "bool \<Rightarrow> bool \<Rightarrow> netvar \<Rightarrow> bool" where
  "due rel forced v \<longleftrightarrow> nv_Reliable v = rel \<and> (forced \<or> nv_Changed v)"

definition sent :: "netvar \<Rightarrow> netvar" where
  "sent v = v\<lparr>nv_SequenceID := nv_SequenceID v + 1, nv_Changed := False, nv_ChangeForced := False\<rparr>"

definition after_snapshot :: "bool \<Rightarrow> bool \<Rightarrow> netvar \<Rightarrow> netvar" where
  "after_snapshot rel forced v = (if due rel forced v then sent v else v)"

definition due_frames :: "u32 \<Rightarrow> bool \<Rightarrow> bool \<Rightarrow> netvar list \<Rightarrow> bytes list" where
  "due_frames nid rel forced vs = map (\<lambda>v. var_frame nid v forced) (filter (due rel forced) vs)"

fun raise_max :: "size_t \<Rightarrow> bytes list \<Rightarrow> size_t" where
  "raise_max mx [] = mx"
| "raise_max mx (f # fs) = raise_max (if vsize f > mx then vsize f else mx) fs"

lemma stream_push_many: "stream_push (s\<lparr>strm_data := strm_data s @ fs\<rparr>) f =
    s\<lparr>strm_data := strm_data s @ fs @ [f]\<rparr>"
  by (simp add: stream_push_def)

definition stream_extend :: "stream \<Rightarrow> bytes list \<Rightarrow> stream" where
  "stream_extend s fs = s\<lparr>strm_data := strm_data s @ fs\<rparr>"

lemma stream_extend_simps [simp]:
  "stream_extend s [] = s"
  "stream_extend (stream_push s f) fs = stream_extend s (f # fs)"
  "stream_extend (stream_extend s fs) gs = stream_extend s (fs @ gs)"
  "strm_data (stream_extend s fs) = strm_data s @ fs"
  "strm_Finished (stream_extend s fs) = strm_Finished s"
  by (simp_all add: stream_extend_def stream_push_def)

lemma vsize_var_frame:
  assumes "nv_ok v"
  shows "vsize (var_frame nid v f) = of_nat (146 + length (nv_Name v))"
    and "vsize (var_frame nid v f) \<noteq> 0"
proof -
  show *: "vsize (var_frame nid v f) = of_nat (146 + length (nv_Name v))"
    using var_frame_length [OF assms] by (simp add: vsize_def)
  have "unat (of_nat (146 + length (nv_Name v)) :: size_t) = 146 + length (nv_Name v)"
    using assms by (simp only: unat_of_nat) (simp add: nv_ok_def)
  then show "vsize (var_frame nid v f) \<noteq> 0"
    unfolding * by (metis add_is_0 unsigned_0 zero_neq_numeral)
qed

lemma take_vars_eq:
  assumes "\<forall>v \<in> set vs. nv_ok v"
  shows "take_vars junk nid rel forced vs mx n s =
    Inr (map (after_snapshot rel forced) vs, raise_max mx (due_frames nid rel forced vs),
         n + of_nat (length (due_frames nid rel forced vs)),
         stream_extend s (due_frames nid rel forced vs))"
  using assms
proof (induction vs arbitrary: mx n s)
  case Nil
  then show ?case by (simp add: due_frames_def)
next
  case (Cons v vs)
  then have ok: "nv_ok v" and IH: "\<And>mx n s. take_vars junk nid rel forced vs mx n s =
    Inr (map (after_snapshot rel forced) vs, raise_max mx (due_frames nid rel forced vs),
         n + of_nat (length (due_frames nid rel forced vs)),
         stream_extend s (due_frames nid rel forced vs))"
    by simp_all
  consider "nv_Reliable v \<noteq> rel" | "nv_Reliable v = rel" "\<not> (forced \<or> nv_Changed v)"
    | "nv_Reliable v = rel" "forced \<or> nv_Changed v" by blast
  then show ?case
  proof cases
    case 1
    then show ?thesis by (simp add: IH due_frames_def after_snapshot_def due_def)
  next
    case 2
    then have "TakeVariableSnapshot junk (Some nid) v s forced = Inr (0, v, s)"
      by (simp add: snapshot_unchanged)
    with 2 IH [of mx n s] show ?thesis by (simp add: due_frames_def after_snapshot_def due_def)
  next
    case 3
    have "TakeVariableSnapshot junk (Some nid) v s forced =
        Inr (vsize (var_frame nid v forced), sent v, stream_push s (var_frame nid v forced))"
      using snapshot_frame [OF ok 3(2)] by (simp add: vsize_var_frame [OF ok] sent_def)
    with 3 show ?thesis
      using vsize_var_frame(2) [OF ok]
      by (simp add: IH due_frames_def after_snapshot_def due_def add.assoc)
  qed
qed

definition object_ok :: "net_object \<Rightarrow> bool" where
  "object_ok ob \<longleftrightarrow> (\<forall>v \<in> set (no_Vars ob). nv_ok v)"

lemma TakeObjectSnapshot_eq:
  "object_ok ob \<Longrightarrow> TakeObjectSnapshot junk ob mx n s rel forced =
    Inr (ob\<lparr>no_Vars := map (after_snapshot rel forced) (no_Vars ob)\<rparr>,
         raise_max mx (due_frames (no_NetCode ob) rel forced (no_Vars ob)),
         n + of_nat (length (due_frames (no_NetCode ob) rel forced (no_Vars ob))),
         stream_extend s (due_frames (no_NetCode ob) rel forced (no_Vars ob)))"
  by (simp add: TakeObjectSnapshot_def object_ok_def take_vars_eq)

lemma sent_shape: "same_shape v (sent v)" "same_shape v (after_snapshot r f v)"
  by (simp_all add: same_shape_def sent_def after_snapshot_def)

lemma after_snapshot_ok [simp]: "nv_ok (after_snapshot r f v) = nv_ok v"
  by (rule same_shape_ok [OF sent_shape(2)])

text \<open>A snapshot consumes the changes: right after it nothing of that reliability is due.\<close>

lemma after_snapshot_not_due: "\<not> due rel False (after_snapshot rel forced v)"
  by (auto simp: due_def after_snapshot_def sent_def)

lemma raise_max_upper: "mx \<le> raise_max mx fs \<and> (\<forall>f \<in> set fs. vsize f \<le> raise_max mx fs)"
proof (induction fs arbitrary: mx)
  case (Cons f fs)
  have "mx \<le> (if vsize f > mx then vsize f else mx)"
    and "vsize f \<le> (if vsize f > mx then vsize f else mx)" by auto
  with Cons.IH [of "if vsize f > mx then vsize f else mx"] show ?case
    by (auto simp del: if_split intro: order_trans)
qed simp

lemma raise_max_cases: "raise_max mx fs = mx \<or> raise_max mx fs \<in> vsize ` set fs"
proof (induction fs arbitrary: mx)
  case (Cons f fs)
  from Cons.IH [of "if vsize f > mx then vsize f else mx"] show ?case
    by (auto split: if_splits)
qed simp

lemma due_frames_length: "\<forall>v \<in> set vs. nv_ok v \<Longrightarrow> f \<in> set (due_frames nid r fc vs) \<Longrightarrow>
    146 \<le> length f \<and> length f \<le> 209"
  by (auto simp: due_frames_def var_frame_length nv_ok_def)

end
