(* ===== verification/Packet_Factory.thy ===== *)
theory Packet_Factory
  imports Transport
begin

text \<open>
  \<open>IPacketFactory\<close> (INetworkPacketFactory.hpp, INetworkPacketFactory.cpp): reliable messages as
  packets that collect their target peers, choose a default peer when they have none, and send
  themselves when they are destroyed while still pending. The message serialisation is the
  Protocol Buffers library's and comes from the application record.
\<close>

section \<open>Codes\<close>

definition internal_evt_list_add :: u16 where "internal_evt_list_add = - 1"
definition internal_evt_list_data :: u16 where "internal_evt_list_data = - 2"
definition internal_evt_list_remove :: u16 where "internal_evt_list_remove = - 3"

section \<open>Streams\<close>

fun push_code :: "bytes \<Rightarrow> u16 \<Rightarrow> nat \<Rightarrow> nat \<Rightarrow> bytes" where
  "push_code stream code i 0 = stream"
| "push_code stream code i (Suc n) = push_code (stream @ [le16 code ! i]) code (Suc i) n"

definition GenerateStream :: "app \<Rightarrow> bytes \<Rightarrow> proto_msg \<Rightarrow> u16 \<Rightarrow> bytes \<times> size_t" where
  "GenerateStream A stream msg code =
     (let stream1 = push_code stream code 0 2;
          tmp = ap_serialize A msg
      in (stream1 @ tmp, of_nat (length tmp) + 2))"

definition GenerateRaw :: "bytes \<Rightarrow> bytes \<Rightarrow> u16 \<Rightarrow> bytes \<times> size_t" where
  "GenerateRaw stream buffer code =
     (let stream1 = push_code stream code 0 2
      in (stream1 @ buffer, of_nat (length buffer) + 2))"

text \<open>
  \<open>GetCode\<close> stores each character through \<open>(&result)[i]\<close>, an array of 16-bit elements over the
  two bytes of \<open>result\<close>: element \<open>i\<close> occupies the bytes from \<open>2 * i\<close>. A \<open>char\<close> is signed.
\<close>

fun get_code_loop :: "bytes \<Rightarrow> bytes \<Rightarrow> nat \<Rightarrow> nat \<Rightarrow> bytes res" where
  "get_code_loop result data i 0 = Inr result"
| "get_code_loop result data i (Suc n) =
     (if length data \<le> i then Inl Out_Of_Range
      else res_bind (pokes result (2 * i) (le16 (scast (data ! i)))) (\<lambda>result'.
             get_code_loop result' data (Suc i) n))"

definition GetCode :: "u16 \<Rightarrow> bytes \<Rightarrow> u16 res" where
  "GetCode junk data =
     res_bind (get_code_loop (le16 junk) data 0 2) (\<lambda>result. Inr (of_le16 result))"

section \<open>Dispatching\<close>

text \<open>\<open>Send(stream.c_str(), stream_len, ...)\<close> sends the first \<open>stream_len\<close> bytes.\<close>

definition DispatchPacket ::
  "app \<Rightarrow> proto_msg \<Rightarrow> u16 \<Rightarrow> peer option \<Rightarrow> u32 \<Rightarrow> u8 \<Rightarrow> world \<Rightarrow> world" where
  "DispatchPacket A msg code pr flags channel w =
     (let (stream, stream_len) = GenerateStream A [] msg code
      in Send (take (unat stream_len) stream) pr flags channel w)"

definition DispatchRaw ::
  "bytes \<Rightarrow> u16 \<Rightarrow> peer option \<Rightarrow> u32 \<Rightarrow> u8 \<Rightarrow> world \<Rightarrow> world" where
  "DispatchRaw buffer code pr flags channel w =
     (let (stream, stream_len) = GenerateRaw [] buffer code
      in Send buffer pr flags channel w)"

section \<open>Packets\<close>

definition packet_new :: "proto_msg \<Rightarrow> u16 \<Rightarrow> packet" where
  "packet_new msg code =
     \<lparr>pk_msg = msg, pk_Code = code, pk_Status = kPacket_Pending, pk_Channel = 0, pk_Flags = 0,
      pk_PeerList = []\<rparr>"

definition SetReliable :: "packet \<Rightarrow> packet" where
  "SetReliable p =
     (let p1 = p\<lparr>pk_Flags := pk_Flags p OR PACKET_FLAG_RELIABLE\<rparr>
      in if pk_Channel p1 = 0 then p1\<lparr>pk_Channel := 1\<rparr> else p1)"

definition SetUnsequenced :: "packet \<Rightarrow> packet" where
  "SetUnsequenced p =
     (let p1 = p\<lparr>pk_Flags := pk_Flags p OR PACKET_FLAG_UNSEQUENCED\<rparr>
      in if pk_Channel p1 = 1 then p1\<lparr>pk_Channel := 0\<rparr> else p1)"

definition AddPeer :: "peer option \<Rightarrow> packet \<Rightarrow> packet" where
  "AddPeer pr p = p\<lparr>pk_PeerList := pk_PeerList p @ [pr]\<rparr>"

definition SetPeer :: "peer option \<Rightarrow> packet \<Rightarrow> packet" where
  "SetPeer pr p = AddPeer pr (p\<lparr>pk_PeerList := []\<rparr>)"

definition Disable :: "packet \<Rightarrow> packet" where
  "Disable p = p\<lparr>pk_Status := kPacket_Disabled\<rparr>"

definition GenerateToString :: "app \<Rightarrow> bytes \<Rightarrow> packet \<Rightarrow> bytes \<times> packet" where
  "GenerateToString A out p =
     (let p1 = Disable p in (fst (GenerateStream A out (pk_msg p1) (pk_Code p1)), p1))"

definition AllocateDefaultPeer :: "world \<Rightarrow> packet \<Rightarrow> packet" where
  "AllocateDefaultPeer w p =
     (if pk_PeerList p \<noteq> [] then p else p\<lparr>pk_PeerList := pk_PeerList p @ [GetFirstPeer w]\<rparr>)"

fun dispatch_loop ::
  "app \<Rightarrow> packet \<Rightarrow> peer option list \<Rightarrow> world \<Rightarrow> world" where
  "dispatch_loop A p [] w = w"
| "dispatch_loop A p (pr # prs) w =
     dispatch_loop A p prs
       (DispatchPacket A (pk_msg p) (pk_Code p) pr (pk_Flags p) (pk_Channel p) w)"

definition Dispatch :: "app \<Rightarrow> packet \<Rightarrow> world \<Rightarrow> packet \<times> world" where
  "Dispatch A p w =
     (let p1 = AllocateDefaultPeer w p
      in (p1\<lparr>pk_Status := kPacket_Dispatched\<rparr>, dispatch_loop A p1 (pk_PeerList p1) w))"

text \<open>The destructor.\<close>

definition packet_destroy :: "app \<Rightarrow> packet \<Rightarrow> world \<Rightarrow> world" where
  "packet_destroy A p w = (if pk_Status p = kPacket_Pending then snd (Dispatch A p w) else w)"

text \<open>
  The constructor from received data: disabled, parsed from behind the network code. A length below
  two would wrap the remaining length; the receive path rules it out before.
\<close>

definition packet_read :: "app \<Rightarrow> proto_msg \<Rightarrow> bytes \<Rightarrow> packet res" where
  "packet_read A blank data =
     (if length data < 2 then Inl Undefined
      else Inr (Disable \<lparr>pk_msg = ap_parse A (drop 2 data) blank, pk_Code = 0,
             pk_Status = kPacket_Disabled, pk_Channel = 0, pk_Flags = 0, pk_PeerList = []\<rparr>))"

section \<open>Behaviour\<close>

lemma push_code_eq: "push_code s code 0 2 = s @ le16 code"
  by (simp add: numeral_2_eq_2 le16_def)

lemma GenerateStream_eq:
  "GenerateStream A s msg code =
     (s @ le16 code @ ap_serialize A msg, of_nat (length (ap_serialize A msg)) + 2)"
  by (simp add: GenerateStream_def push_code_eq Let_def)

definition wire_packet :: "app \<Rightarrow> proto_msg \<Rightarrow> u16 \<Rightarrow> bytes" where
  "wire_packet A msg code = le16 code @ ap_serialize A msg"

lemma DispatchPacket_eq:
  assumes "length (ap_serialize A msg) + 2 < 2 ^ 32"
  shows "DispatchPacket A msg code pr flags ch w = Send (wire_packet A msg code) pr flags ch w"
proof -
  have "unat (of_nat (length (ap_serialize A msg)) + 2 :: size_t) = length (ap_serialize A msg) + 2"
  proof -
    have "(of_nat (length (ap_serialize A msg)) + 2 :: size_t) = of_nat (length (ap_serialize A msg) + 2)"
      by simp
    then show ?thesis
      using assms by (simp only: unat_of_nat) simp
  qed
  then show ?thesis
    by (simp add: DispatchPacket_def GenerateStream_eq wire_packet_def)
qed

lemma only_sends_DispatchPacket [simp]: "only_sends w (DispatchPacket A msg code pr flags ch w)"
  by (simp add: DispatchPacket_def Let_def split: prod.splits)

lemma only_sends_dispatch_loop [simp]: "only_sends w (dispatch_loop A p prs w)"
  proof (induction prs arbitrary: w)
  case (Cons pr prs)
  show ?case
    using only_sends_trans [OF only_sends_DispatchPacket Cons.IH] by simp
qed simp

lemma only_sends_Dispatch [simp]: "only_sends w (snd (Dispatch A p w))"
  by (simp add: Dispatch_def Let_def)

lemma only_sends_packet_destroy [simp]: "only_sends w (packet_destroy A p w)"
  by (simp add: packet_destroy_def)

text \<open>The calls a pending packet makes: one send per target that is not null.\<close>

definition packet_calls :: "app \<Rightarrow> packet \<Rightarrow> peer option list \<Rightarrow> transport_call list" where
  "packet_calls A p prs =
     map (\<lambda>q. Peer_Send q (wire_packet A (pk_msg p) (pk_Code p)) (pk_Flags p) (pk_Channel p))
       (concat (map (\<lambda>pr. case pr of None \<Rightarrow> [] | Some q \<Rightarrow> [q]) prs))"

definition sent_whole :: "app \<Rightarrow> packet \<Rightarrow> bool" where
  "sent_whole A p \<longleftrightarrow> length (ap_serialize A (pk_msg p)) + 2 < 2 ^ 32"

definition serialize_small :: "app \<Rightarrow> bool" where
  "serialize_small A \<longleftrightarrow> (\<forall>msg. length (ap_serialize A msg) + 2 < 2 ^ 32)"

lemma small_sent_whole: "serialize_small A \<Longrightarrow> sent_whole A p"
  by (simp add: serialize_small_def sent_whole_def)

lemma dispatch_loop_whole:
  assumes "sent_whole A p" and "w_Running w"
  shows "dispatch_loop A p prs w = w\<lparr>w_Out := w_Out w @ packet_calls A p prs\<rparr>"
  using assms(2)
proof (induction prs arbitrary: w)
  case Nil
  then show ?case by (simp add: packet_calls_def)
next
  case (Cons pr prs)
  have "DispatchPacket A (pk_msg p) (pk_Code p) pr (pk_Flags p) (pk_Channel p) w =
      w\<lparr>w_Out := w_Out w @ packet_calls A p [pr]\<rparr>"
    using assms(1) Cons.prems
    by (simp add: sent_whole_def DispatchPacket_eq Send_def transport_def packet_calls_def
        split: option.splits)
  moreover have "packet_calls A p (pr # prs) = packet_calls A p [pr] @ packet_calls A p prs"
    by (simp add: packet_calls_def)
  ultimately show ?case
    using Cons by simp
qed

lemma packet_destroy_whole:
  assumes "sent_whole A p" and "w_Running w"
  shows "packet_destroy A p w = w\<lparr>w_Out := w_Out w @
    (if pk_Status p = kPacket_Pending
     then packet_calls A p (if pk_PeerList p = [] then [GetFirstPeer w] else pk_PeerList p)
     else [])\<rparr>"
  using assms
  by (simp add: packet_destroy_def Dispatch_def AllocateDefaultPeer_def Let_def dispatch_loop_whole
      sent_whole_def packet_calls_def)

lemmas packet_destroy_out = packet_destroy_whole [OF small_sent_whole]

lemma get_code_undefined: "2 \<le> length data \<Longrightarrow> GetCode junk data = Inl Undefined"
  by (auto simp: GetCode_def numeral_2_eq_2 le16_def poke_def)

lemma get_code_short: "length data < 2 \<Longrightarrow> GetCode junk data = Inl Out_Of_Range"
  by (auto simp: GetCode_def numeral_2_eq_2 le16_def poke_def)

end
