(* ===== verification/Net_List.thy ===== *)
theory Net_List
  imports Packet_Factory
begin

text \<open>
  \<open>CNetVarList\<close> (CNetVarList.h): a keyed list that reports its changes as reliable packets instead
  of snapshots. Local changes queue packets, \<open>SendDelta\<close> adds the targets and \<open>Flush\<close> sends them;
  remote changes run the list's callbacks, which queue the forwarding packets. The operations take
  the owning object where the code goes through \<open>m_pParent\<close>.
\<close>

section \<open>Construction\<close>

definition bind :: "list_event \<Rightarrow> list_cb \<Rightarrow> netlist \<Rightarrow> netlist" where
  "bind evt callback nl =
     (let cbs = (if map_of (nl_Callbacks nl) evt = None then aput evt [] (nl_Callbacks nl)
                 else nl_Callbacks nl)
      in nl\<lparr>nl_Callbacks := amap evt (\<lambda>l. l @ [callback]) cbs\<rparr>)"

definition list_construct ::
  "netlist list option \<Rightarrow> bool \<Rightarrow> u32 \<Rightarrow> nat \<Rightarrow> (netlist \<times> netlist list option) res" where
  "list_construct mlists lock_ok junk size_of =
     (let nl = \<lparr>nl_DataSize = size_of, nl_ListID = junk, nl_Data = [], nl_UpdateQueue = [],
                nl_Callbacks = [], nl_QueuedEvents = []\<rparr>
      in case mlists of
           None \<Rightarrow> Inr (nl, None)
         | Some ls \<Rightarrow>
             let nl1 = bind kListEvent_Update Forward_Update
                         (bind kListEvent_Add Forward_Add (bind kListEvent_Remove Forward_Remove nl))
             in if lock_ok
                then let nl2 = nl1\<lparr>nl_ListID := of_nat (length ls)\<rparr> in Inr (nl2, Some (ls @ [nl2]))
                else Inl Nettik_Exception)"

definition list_destroy :: "netlist list option \<Rightarrow> bool \<Rightarrow> nat \<Rightarrow> netlist list option" where
  "list_destroy mlists lock_ok i =
     (case mlists of
        None \<Rightarrow> None
      | Some ls \<Rightarrow>
          if lock_ok \<and> i < length ls then Some (take i ls @ drop (Suc i) ls) else Some ls)"

section \<open>Packets of a list\<close>

definition construct_protoadd :: "assoc_object option \<Rightarrow> u32 \<Rightarrow> bytes \<Rightarrow> u32 \<Rightarrow> packet" where
  "construct_protoadd obj key val list_id =
     SetReliable (packet_new (INetworkMapAdd obj key val list_id) internal_evt_list_add)"

definition construct_protoupdate :: "assoc_object option \<Rightarrow> u32 \<Rightarrow> bytes \<Rightarrow> u32 \<Rightarrow> packet" where
  "construct_protoupdate obj key val list_id =
     SetReliable (packet_new (INetworkMapUpdate obj key val list_id) internal_evt_list_data)"

definition construct_protoremove :: "assoc_object option \<Rightarrow> u32 \<Rightarrow> u32 \<Rightarrow> packet" where
  "construct_protoremove obj key list_id =
     SetReliable (packet_new (INetworkMapRemove obj key list_id) internal_evt_list_remove)"

text \<open>
  The reference to the owning object, refused when the object has no manager or instance. Every
  operation builds it the same way.
\<close>

definition parent_ref :: "net_object \<Rightarrow> assoc_object res" where
  "parent_ref ob =
     (case (no_Manager ob, no_Instance ob) of
        (Some m, Some i) \<Rightarrow>
          Inr \<lparr>ao_instance_name = i, ao_manager_name = snd m, ao_network_code = no_NetCode ob\<rparr>
      | _ \<Rightarrow> Inl Nettik_Exception)"

definition queue_packet :: "packet \<Rightarrow> peer option \<Rightarrow> netlist \<Rightarrow> netlist" where
  "queue_packet p filter_peer nl = nl\<lparr>nl_UpdateQueue := nl_UpdateQueue nl @ [(p, filter_peer)]\<rparr>"

section \<open>Players\<close>

fun collect_peers :: "world \<Rightarrow> oref list \<Rightarrow> peer list res" where
  "collect_peers w [] = Inr []"
| "collect_peers w (r # rs) =
     res_bind (deref w r) (\<lambda>ob. res_bind (collect_peers w rs) (\<lambda>ps.
       Inr ((case no_Peer ob of None \<Rightarrow> [] | Some p \<Rightarrow> [p]) @ ps)))"

definition get_players :: "world \<Rightarrow> (bytes \<times> bytes) option \<Rightarrow> peer list res" where
  "get_players w pManager =
     (case pManager of
        None \<Rightarrow> Inl Undefined
      | Some (i, m) \<Rightarrow>
          (case find_manager w i m of
             None \<Rightarrow> Inl Undefined
           | Some mg \<Rightarrow> collect_peers w (mg_Objects mg)))"

section \<open>Local modification\<close>

definition list_create :: "net_object \<Rightarrow> u32 \<Rightarrow> bytes \<Rightarrow> netlist \<Rightarrow> netlist res" where
  "list_create ob element_key data nl =
     (case map_of (nl_Data nl) element_key of
        Some _ \<Rightarrow> Inr nl
      | None \<Rightarrow>
          let nl1 = nl\<lparr>nl_Data := nl_Data nl @ [(element_key, data)]\<rparr>
          in res_bind (parent_ref ob) (\<lambda>object_ref.
               Inr (queue_packet
                 (construct_protoadd (Some object_ref) element_key data (nl_ListID nl1)) None nl1)))"

definition list_remove_it :: "net_object \<Rightarrow> u32 \<Rightarrow> netlist \<Rightarrow> netlist res" where
  "list_remove_it ob element_key nl =
     (let nl1 = nl\<lparr>nl_Data := adel element_key (nl_Data nl)\<rparr>
      in res_bind (parent_ref ob) (\<lambda>object_ref.
           Inr (queue_packet
             (construct_protoremove (Some object_ref) element_key (nl_ListID nl1)) None nl1)))"

definition list_remove :: "net_object \<Rightarrow> u32 \<Rightarrow> netlist \<Rightarrow> (bool \<times> netlist) res" where
  "list_remove ob element_key nl =
     (case map_of (nl_Data nl) element_key of
        None \<Rightarrow> Inr (False, nl)
      | Some _ \<Rightarrow> res_bind (list_remove_it ob element_key nl) (\<lambda>nl'. Inr (True, nl')))"

fun remove_keys :: "net_object \<Rightarrow> u32 list \<Rightarrow> netlist \<Rightarrow> netlist res" where
  "remove_keys ob [] nl = Inr nl"
| "remove_keys ob (k # ks) nl =
     res_bind (list_remove ob k nl) (\<lambda>(_, nl'). remove_keys ob ks nl')"

definition remove_all :: "net_object \<Rightarrow> netlist \<Rightarrow> netlist res" where
  "remove_all ob nl = remove_keys ob (map fst (nl_Data nl)) nl"

lemma remove_it_shorter:
  assumes "nl_Data nl = (k, v) # kvs" and "list_remove_it ob k nl = Inr nl'"
  shows "length (nl_Data nl') < Suc (length kvs)"
proof -
  have "nl_Data nl' = adel k ((k, v) # kvs)"
    using assms by (auto simp: list_remove_it_def queue_packet_def res_bind_Inr_iff Let_def)
  with assms(1) show ?thesis
    by (simp add: adel_def le_imp_less_Suc)
qed

function list_clear :: "net_object \<Rightarrow> netlist \<Rightarrow> netlist res" where
  "list_clear ob nl =
     (case nl_Data nl of
        [] \<Rightarrow> Inr nl
      | (k, v) # _ \<Rightarrow>
          (case list_remove_it ob k nl of Inl e \<Rightarrow> Inl e | Inr nl' \<Rightarrow> list_clear ob nl'))"
  by pat_completeness auto
termination
  by (relation "measure (\<lambda>(ob, nl). length (nl_Data nl))") (auto intro: remove_it_shorter)

declare list_clear.simps [simp del]

definition list_set :: "net_object \<Rightarrow> u32 \<Rightarrow> bytes \<Rightarrow> netlist \<Rightarrow> netlist res" where
  "list_set ob element_key data nl =
     (case map_of (nl_Data nl) element_key of
        None \<Rightarrow> Inr nl
      | Some _ \<Rightarrow>
          let nl1 = nl\<lparr>nl_Data := aput element_key data (nl_Data nl)\<rparr>
          in res_bind (parent_ref ob) (\<lambda>object_ref.
               Inr (queue_packet
                 (construct_protoupdate (Some object_ref) element_key data (nl_ListID nl1)) None nl1)))"

definition list_get :: "u32 \<Rightarrow> netlist \<Rightarrow> bytes option" where
  "list_get element_key nl = map_of (nl_Data nl) element_key"

definition get_list_copy :: "netlist \<Rightarrow> (u32 \<times> bytes) list" where
  "get_list_copy nl = nl_Data nl"

section \<open>Sending\<close>

fun send_items ::
  "app \<Rightarrow> assoc_object \<Rightarrow> u32 \<Rightarrow> peer \<Rightarrow> (u32 \<times> bytes) list \<Rightarrow> world \<Rightarrow> world" where
  "send_items A obj list_id p [] w = w"
| "send_items A obj list_id p ((k, d) # items) w =
     send_items A obj list_id p items
       (snd (Dispatch A (AddPeer (Some p) (construct_protoadd (Some obj) k d list_id)) w))"

definition SendContents_peer ::
  "app \<Rightarrow> net_object \<Rightarrow> netlist \<Rightarrow> peer option \<Rightarrow> world \<Rightarrow> world res" where
  "SendContents_peer A ob nl pPeer w =
     (case pPeer of
        None \<Rightarrow> Inl Nettik_Exception
      | Some p \<Rightarrow> res_bind (parent_ref ob) (\<lambda>obj.
          Inr (send_items A obj (nl_ListID nl) p (nl_Data nl) w)))"

fun send_to_all ::
  "app \<Rightarrow> net_object \<Rightarrow> netlist \<Rightarrow> peer list \<Rightarrow> world \<Rightarrow> world res" where
  "send_to_all A ob nl [] w = Inr w"
| "send_to_all A ob nl (p # ps) w =
     res_bind (SendContents_peer A ob nl (Some p) w) (\<lambda>w'. send_to_all A ob nl ps w')"

definition SendContents_manager ::
  "app \<Rightarrow> net_object \<Rightarrow> netlist \<Rightarrow> (bytes \<times> bytes) option \<Rightarrow> world \<Rightarrow> world res" where
  "SendContents_manager A ob nl pManager w =
     res_bind (get_players w pManager) (\<lambda>targets. send_to_all A ob nl targets w)"

fun add_targets :: "peer list \<Rightarrow> peer option \<Rightarrow> packet \<Rightarrow> packet" where
  "add_targets [] flt p = p"
| "add_targets (t # ts) flt p =
     add_targets ts flt (if Some t \<noteq> flt then AddPeer (Some t) p else p)"

definition SendDelta :: "world \<Rightarrow> (bytes \<times> bytes) option \<Rightarrow> netlist \<Rightarrow> netlist res" where
  "SendDelta w pManager nl =
     res_bind (get_players w pManager) (\<lambda>targets.
       Inr (nl\<lparr>nl_UpdateQueue :=
         map (\<lambda>(p, flt). (add_targets targets flt p, flt)) (nl_UpdateQueue nl)\<rparr>))"

fun destroy_packets :: "app \<Rightarrow> (packet \<times> peer option) list \<Rightarrow> world \<Rightarrow> world" where
  "destroy_packets A [] w = w"
| "destroy_packets A ((p, _) # ps) w = destroy_packets A ps (packet_destroy A p w)"

definition Flush :: "app \<Rightarrow> netlist \<Rightarrow> world \<Rightarrow> netlist \<times> world" where
  "Flush A nl w =
     (nl\<lparr>nl_UpdateQueue := []\<rparr>, destroy_packets A (nl_UpdateQueue nl) w)"

section \<open>Access for the remote handlers\<close>

definition get_at :: "u32 \<Rightarrow> netlist \<Rightarrow> (bytes \<times> nat) res" where
  "get_at index nl =
     (case map_of (nl_Data nl) index of
        None \<Rightarrow> Inl Runtime_Error
      | Some d \<Rightarrow> Inr (d, nl_DataSize nl))"

definition build_at :: "u32 \<Rightarrow> netlist \<Rightarrow> (netlist \<times> bytes \<times> nat) res" where
  "build_at index nl =
     (case map_of (nl_Data nl) index of
        Some d \<Rightarrow> Inr (nl, d, nl_DataSize nl)
      | None \<Rightarrow>
          let d = replicate (nl_DataSize nl) 0
          in Inr (nl\<lparr>nl_Data := nl_Data nl @ [(index, d)]\<rparr>, d, nl_DataSize nl))"

definition remove_at :: "u32 \<Rightarrow> netlist \<Rightarrow> netlist res" where
  "remove_at index nl =
     (case map_of (nl_Data nl) index of
        None \<Rightarrow> Inl Runtime_Error
      | Some _ \<Rightarrow> Inr (nl\<lparr>nl_Data := adel index (nl_Data nl)\<rparr>))"

text \<open>Writing through the pointer that \<open>get_at\<close> or \<open>build_at\<close> returned, byte by byte.\<close>

definition write_item :: "u32 \<Rightarrow> bytes \<Rightarrow> netlist \<Rightarrow> netlist res" where
  "write_item index val nl =
     (case map_of (nl_Data nl) index of
        None \<Rightarrow> Inl Undefined
      | Some d \<Rightarrow> res_bind (copy_loop d 0 val 0 (length val)) (\<lambda>d'.
          Inr (nl\<lparr>nl_Data := amap index (\<lambda>_. d') (nl_Data nl)\<rparr>)))"

section \<open>Callbacks\<close>

text \<open>\<open>&m_Data[key]\<close> inserts a value-initialised element when the key is missing.\<close>

definition data_ref :: "u32 \<Rightarrow> netlist \<Rightarrow> netlist" where
  "data_ref key nl =
     (if map_of (nl_Data nl) key = None
      then nl\<lparr>nl_Data := nl_Data nl @ [(key, replicate (nl_DataSize nl) 0)]\<rparr> else nl)"

definition data_at :: "u32 \<Rightarrow> netlist \<Rightarrow> bytes" where
  "data_at key nl = (case map_of (nl_Data nl) key of None \<Rightarrow> [] | Some d \<Rightarrow> d)"

text \<open>
  The three lambdas the constructor binds differ in the packet. They forward nothing on a side
  with at most one player, and filter the owner of the object from the forwarding.
\<close>

definition forward ::
  "world \<Rightarrow> net_object \<Rightarrow> (assoc_object \<Rightarrow> netlist \<Rightarrow> netlist \<times> packet) \<Rightarrow> netlist \<Rightarrow>
   (bool \<times> netlist) res" where
  "forward w ob mk nl =
     res_bind (parent_ref ob) (\<lambda>object_ref.
     res_bind (get_players w (no_Manager ob)) (\<lambda>players.
       if length players \<le> 1 then Inr (True, nl)
       else let (nl1, p) = mk object_ref nl in Inr (True, queue_packet p (no_Peer ob) nl1)))"

text \<open>
  A callback of the application is called with the key and a pointer to the element, and it is through
  the pointer that it acts here: it may change that element and nothing else.
\<close>

fun run_callback ::
  "app \<Rightarrow> world \<Rightarrow> net_object \<Rightarrow> list_cb \<Rightarrow> u32 \<Rightarrow> netlist \<Rightarrow> (bool \<times> netlist) res" where
  "run_callback A w ob Forward_Remove key nl =
     forward w ob (\<lambda>obj nl. (nl, construct_protoremove (Some obj) key (nl_ListID nl))) nl"
| "run_callback A w ob Forward_Add key nl =
     forward w ob (\<lambda>obj nl. let nl1 = data_ref key nl in
       (nl1, construct_protoadd (Some obj) key (data_at key nl1) (nl_ListID nl1))) nl"
| "run_callback A w ob Forward_Update key nl =
     forward w ob (\<lambda>obj nl. let nl1 = data_ref key nl in
       (nl1, construct_protoupdate (Some obj) key (data_at key nl1) (nl_ListID nl1))) nl"
| "run_callback A w ob (User_cb n) key nl =
     (let (ok, d) = ap_list_cb A n key (Some (data_at key nl))
      in Inr (ok, nl\<lparr>nl_Data := amap key (\<lambda>_. d) (nl_Data nl)\<rparr>))"

text \<open>The call \<open>callback(key, &m_Data[key])\<close>: the reference first, then the callback.\<close>

definition call_with_data ::
  "app \<Rightarrow> world \<Rightarrow> net_object \<Rightarrow> list_cb \<Rightarrow> u32 \<Rightarrow> netlist \<Rightarrow> (bool \<times> netlist) res" where
  "call_with_data A w ob cb key nl = run_callback A w ob cb key (data_ref key nl)"

definition needs_scheduling ::
  "app \<Rightarrow> world \<Rightarrow> net_object \<Rightarrow> u32 \<Rightarrow> list_cb \<Rightarrow> netlist \<Rightarrow> (bool \<times> netlist) res" where
  "needs_scheduling A w ob key dest nl =
     (case map_of (nl_Callbacks nl) kListEvent_ScheduleCheck of
        None \<Rightarrow> Inr (False, nl)
      | Some [] \<Rightarrow> Inl Out_Of_Range
      | Some (check # _) \<Rightarrow>
          res_bind (call_with_data A w ob check key nl) (\<lambda>(ok, nl1).
            if \<not> ok then Inr (True, nl1\<lparr>nl_QueuedEvents := nl_QueuedEvents nl1 @ [(key, dest)]\<rparr>)
            else Inr (False, nl1)))"

fun dispatch_list ::
  "app \<Rightarrow> world \<Rightarrow> net_object \<Rightarrow> u32 \<Rightarrow> list_cb list \<Rightarrow> netlist \<Rightarrow> netlist res" where
  "dispatch_list A w ob key [] nl = Inr nl"
| "dispatch_list A w ob key (cb # cbs) nl =
     res_bind (needs_scheduling A w ob key cb nl) (\<lambda>(later, nl1).
       if later then dispatch_list A w ob key cbs nl1
       else res_bind (call_with_data A w ob cb key nl1) (\<lambda>(_, nl2).
              dispatch_list A w ob key cbs nl2))"

definition dispatch_event ::
  "list_event \<Rightarrow> app \<Rightarrow> world \<Rightarrow> net_object \<Rightarrow> u32 \<Rightarrow> netlist \<Rightarrow> netlist res" where
  "dispatch_event evt A w ob key nl =
     (case map_of (nl_Callbacks nl) evt of
        None \<Rightarrow> Inr nl
      | Some cbs \<Rightarrow> dispatch_list A w ob key cbs nl)"

definition dispatch_add :: "app \<Rightarrow> world \<Rightarrow> net_object \<Rightarrow> u32 \<Rightarrow> netlist \<Rightarrow> netlist res" where
  "dispatch_add = dispatch_event kListEvent_Add"
definition dispatch_update :: "app \<Rightarrow> world \<Rightarrow> net_object \<Rightarrow> u32 \<Rightarrow> netlist \<Rightarrow> netlist res" where
  "dispatch_update = dispatch_event kListEvent_Update"
definition dispatch_remove :: "app \<Rightarrow> world \<Rightarrow> net_object \<Rightarrow> u32 \<Rightarrow> netlist \<Rightarrow> netlist res" where
  "dispatch_remove = dispatch_event kListEvent_Remove"

fun run_queued ::
  "app \<Rightarrow> world \<Rightarrow> net_object \<Rightarrow> (u32 \<times> list_cb) list \<Rightarrow> netlist \<Rightarrow> netlist res" where
  "run_queued A w ob [] nl = Inr nl"
| "run_queued A w ob ((key, dest) # evs) nl =
     res_bind (call_with_data A w ob dest key nl) (\<lambda>(_, nl1). run_queued A w ob evs nl1)"

text \<open>
  \<open>dispatcher_think\<close> asks the schedule check with key 0 and a null element before it runs the
  queued events. A forwarder bound as schedule check ignores the element.
\<close>

definition check_now ::
  "app \<Rightarrow> world \<Rightarrow> net_object \<Rightarrow> list_cb \<Rightarrow> netlist \<Rightarrow> (bool \<times> netlist) res" where
  "check_now A w ob check nl =
     (case check of
        User_cb n \<Rightarrow> Inr (fst (ap_list_cb A n 0 None), nl)
      | _ \<Rightarrow> run_callback A w ob check 0 nl)"

definition dispatcher_think :: "app \<Rightarrow> world \<Rightarrow> net_object \<Rightarrow> netlist \<Rightarrow> netlist res" where
  "dispatcher_think A w ob nl =
     (case map_of (nl_Callbacks nl) kListEvent_ScheduleCheck of
        None \<Rightarrow> Inr nl
      | Some [] \<Rightarrow> Inl Out_Of_Range
      | Some (check # _) \<Rightarrow>
          res_bind (check_now A w ob check nl) (\<lambda>(ok, nl1).
            if \<not> ok then Inr nl1
            else let events = nl_QueuedEvents nl1
                 in run_queued A w ob events (nl1\<lparr>nl_QueuedEvents := []\<rparr>)))"

fun add_each ::
  "app \<Rightarrow> world \<Rightarrow> net_object \<Rightarrow> u32 list \<Rightarrow> netlist \<Rightarrow> netlist res" where
  "add_each A w ob [] nl = Inr nl"
| "add_each A w ob (k # ks) nl =
     res_bind (dispatch_add A w ob k nl) (\<lambda>nl1. add_each A w ob ks nl1)"

definition invalidate_ents :: "app \<Rightarrow> world \<Rightarrow> net_object \<Rightarrow> netlist \<Rightarrow> netlist res" where
  "invalidate_ents A w ob nl = add_each A w ob (map fst (nl_Data nl)) nl"

end
