(* ===== verification/Net_List_Laws.thy ===== *)
theory Net_List_Laws
  imports Net_List
begin

text \<open>
  What a networked list promises. The locale is the pure virtual interface of \<open>NetVarListBase\<close>
  (NetVarListBase.h) through which the remote handlers reach a list, with the laws they rely on;
  it is interpreted on \<open>CNetVarList\<close>. The rest states the effect of the local operations and of the
  update queue.
\<close>

section \<open>The interface of the remote handlers\<close>

locale remote_store =
  fixes item :: "'l \<Rightarrow> u32 \<Rightarrow> bytes option"
    and width :: "'l \<Rightarrow> nat"
    and inv :: "'l \<Rightarrow> bool"
    and lookup :: "u32 \<Rightarrow> 'l \<Rightarrow> (bytes \<times> nat) res"
    and build :: "u32 \<Rightarrow> 'l \<Rightarrow> ('l \<times> bytes \<times> nat) res"
    and delete :: "u32 \<Rightarrow> 'l \<Rightarrow> 'l res"
    and store :: "u32 \<Rightarrow> bytes \<Rightarrow> 'l \<Rightarrow> 'l res"
  assumes item_width: "inv l \<Longrightarrow> item l k = Some d \<Longrightarrow> length d = width l"
    and lookup_law: "lookup k l =
      (case item l k of None \<Rightarrow> Inl Runtime_Error | Some d \<Rightarrow> Inr (d, width l))"
    and build_law: "inv l \<Longrightarrow> \<exists>l'. build k l =
        Inr (l', (case item l k of None \<Rightarrow> replicate (width l) 0 | Some d \<Rightarrow> d), width l) \<and>
      inv l' \<and> width l' = width l \<and> item l' = (item l)(k \<mapsto>
        (case item l k of None \<Rightarrow> replicate (width l) 0 | Some d \<Rightarrow> d))"
    and delete_absent: "item l k = None \<Longrightarrow> delete k l = Inl Runtime_Error"
    and delete_present: "inv l \<Longrightarrow> item l k \<noteq> None \<Longrightarrow> \<exists>l'. delete k l = Inr l' \<and> inv l' \<and>
      width l' = width l \<and> item l' = (item l)(k := None)"
    and store_law: "inv l \<Longrightarrow> item l k \<noteq> None \<Longrightarrow> length v = width l \<Longrightarrow>
      \<exists>l'. store k v l = Inr l' \<and> inv l' \<and> width l' = width l \<and> item l' = (item l)(k \<mapsto> v)"
begin

lemma build_then_store:
  assumes "inv l" and "length v = width l"
  obtains l1 d l2 where "build k l = Inr (l1, d, width l)" and "store k v l1 = Inr l2"
    and "inv l2" and "width l2 = width l" and "item l2 = (item l)(k \<mapsto> v)"
proof -
  from build_law [OF assms(1), of k] obtain l1 d where l1: "build k l = Inr (l1, d, width l)"
    "inv l1" "width l1 = width l" "item l1 = (item l)(k \<mapsto> d)" by blast
  with store_law [OF l1(2), of k v] assms(2) obtain l2 where "store k v l1 = Inr l2" "inv l2"
    "width l2 = width l" "item l2 = (item l)(k \<mapsto> v)" by auto
  with l1(1) show thesis by (rule that)
qed

lemma lookup_then_store:
  assumes "inv l" and "lookup k l = Inr (d, n)" and "length v = n"
  obtains l' where "store k v l = Inr l'" and "inv l'" and "width l' = width l"
    and "item l' = (item l)(k \<mapsto> v)"
  using assms store_law [OF assms(1), of k v]
  by (auto simp: lookup_law split: option.splits)

lemma build_then_delete:
  assumes "inv l" and "build k l = Inr (l1, d, n)" and "item l k = None"
  obtains l2 where "delete k l1 = Inr l2" and "inv l2" and "item l2 = item l"
proof -
  from build_law [OF assms(1), of k] assms(2) have "inv l1" "item l1 k \<noteq> None"
    and i: "(item l1)(k := None) = item l"
    using assms(3) by (auto simp: fun_upd_idem)
  with delete_present [of l1 k] obtain l2 where "delete k l1 = Inr l2" "inv l2"
    "item l2 = (item l1)(k := None)" by auto
  with i show thesis by (auto intro: that [of l2])
qed

lemma lookup_absent_iff: "lookup k l = Inl Runtime_Error \<longleftrightarrow> item l k = None"
  by (simp add: lookup_law split: option.splits)

end

section \<open>Well-formed lists\<close>

definition list_ok :: "netlist \<Rightarrow> bool" where
  "list_ok nl \<longleftrightarrow> distinct (map fst (nl_Data nl)) \<and>
     (\<forall>(k, d) \<in> set (nl_Data nl). length d = nl_DataSize nl)"

definition items :: "netlist \<Rightarrow> u32 \<Rightarrow> bytes option" where
  "items nl = map_of (nl_Data nl)"

lemma list_ok_item: "list_ok nl \<Longrightarrow> items nl k = Some d \<Longrightarrow> length d = nl_DataSize nl"
  by (auto simp: list_ok_def items_def dest!: map_of_SomeD)

lemma items_append_new:
  "items nl k = None \<Longrightarrow> items (nl\<lparr>nl_Data := nl_Data nl @ [(k, d)]\<rparr>) = (items nl)(k \<mapsto> d)"
  by (auto simp: items_def map_add_def fun_eq_iff split: option.splits)

lemma list_ok_append_new:
  "list_ok nl \<Longrightarrow> items nl k = None \<Longrightarrow> length d = nl_DataSize nl \<Longrightarrow>
   list_ok (nl\<lparr>nl_Data := nl_Data nl @ [(k, d)]\<rparr>)"
  by (auto simp: list_ok_def items_def map_of_eq_None_iff)

lemma list_ok_amap:
  "list_ok nl \<Longrightarrow> length d = nl_DataSize nl \<Longrightarrow>
   list_ok (nl\<lparr>nl_Data := amap k (\<lambda>_. d) (nl_Data nl)\<rparr>)"
  by (auto simp: list_ok_def) (auto simp: amap_def)

lemma list_ok_adel: "list_ok nl \<Longrightarrow> list_ok (nl\<lparr>nl_Data := adel k (nl_Data nl)\<rparr>)"
  by (auto simp: list_ok_def distinct_adel) (auto simp: adel_def)

interpretation netlist: remote_store items nl_DataSize list_ok get_at build_at remove_at write_item
proof unfold_locales
  fix nl k d assume "list_ok nl" and "items nl k = Some d"
  then show "length d = nl_DataSize nl" by (rule list_ok_item)
next
  fix nl k
  show "get_at k nl =
      (case items nl k of None \<Rightarrow> Inl Runtime_Error | Some d \<Rightarrow> Inr (d, nl_DataSize nl))"
    by (simp add: get_at_def items_def)
next
  fix nl k assume "list_ok nl"
  then show "\<exists>l'. build_at k nl = Inr (l', (case items nl k of
        None \<Rightarrow> replicate (nl_DataSize nl) 0 | Some d \<Rightarrow> d), nl_DataSize nl) \<and>
      list_ok l' \<and> nl_DataSize l' = nl_DataSize nl \<and> items l' = (items nl)(k \<mapsto>
        (case items nl k of None \<Rightarrow> replicate (nl_DataSize nl) 0 | Some d \<Rightarrow> d))"
    by (cases "items nl k")
      (auto simp: build_at_def Let_def list_ok_append_new items_append_new fun_upd_idem
        simp flip: items_def)
next
  fix nl :: netlist and k assume "items nl k = None"
  then show "remove_at k nl = Inl Runtime_Error"
    by (simp add: remove_at_def items_def)
next
  fix nl k assume "list_ok nl" and "items nl k \<noteq> None"
  then show "\<exists>l'. remove_at k nl = Inr l' \<and> list_ok l' \<and> nl_DataSize l' = nl_DataSize nl \<and>
      items l' = (items nl)(k := None)"
    by (auto simp: remove_at_def items_def list_ok_adel)
next
  fix nl k and v :: bytes
  assume ok: "list_ok nl" and "items nl k \<noteq> None" and v: "length v = nl_DataSize nl"
  then obtain d where d: "map_of (nl_Data nl) k = Some d" by (auto simp: items_def)
  have "length d = nl_DataSize nl"
    using ok d by (auto simp: items_def intro: list_ok_item)
  then have "copy_loop d 0 v 0 (length v) = Inr v"
    using v by (simp add: copy_loop_pokes pokes_in)
  then show "\<exists>l'. write_item k v nl = Inr l' \<and> list_ok l' \<and> nl_DataSize l' = nl_DataSize nl \<and>
      items l' = (items nl)(k \<mapsto> v)"
    using ok d v by (auto simp: write_item_def items_def list_ok_amap fun_eq_iff)
qed

section \<open>Local operations\<close>

definition parented :: "net_object \<Rightarrow> bool" where
  "parented ob \<longleftrightarrow> no_Manager ob \<noteq> None \<and> no_Instance ob \<noteq> None"

lemma parent_ref_parented: "parented ob \<Longrightarrow> \<exists>a. parent_ref ob = Inr a"
  by (auto simp: parented_def parent_ref_def)

lemma parent_ref_orphan: "\<not> parented ob \<Longrightarrow> parent_ref ob = Inl Nettik_Exception"
  by (auto simp: parented_def parent_ref_def split: option.splits)

lemma queue_packet_simps [simp]:
  "nl_Data (queue_packet p f nl) = nl_Data nl"
  "nl_DataSize (queue_packet p f nl) = nl_DataSize nl"
  "nl_ListID (queue_packet p f nl) = nl_ListID nl"
  "nl_Callbacks (queue_packet p f nl) = nl_Callbacks nl"
  "nl_QueuedEvents (queue_packet p f nl) = nl_QueuedEvents nl"
  "nl_UpdateQueue (queue_packet p f nl) = nl_UpdateQueue nl @ [(p, f)]"
  "items (queue_packet p f nl) = items nl"
  "list_ok (queue_packet p f nl) = list_ok nl"
  by (simp_all add: queue_packet_def items_def list_ok_def)

lemma list_create_present: "items nl k \<noteq> None \<Longrightarrow> list_create ob k d nl = Inr nl"
  by (auto simp: list_create_def items_def)

lemma list_create_absent:
  assumes "items nl k = None" and "parent_ref ob = Inr a"
  shows "list_create ob k d nl = Inr (queue_packet (construct_protoadd (Some a) k d (nl_ListID nl))
           None (nl\<lparr>nl_Data := nl_Data nl @ [(k, d)]\<rparr>))"
  using assms by (simp add: list_create_def items_def)

lemma list_set_present:
  assumes "items nl k \<noteq> None" and "parent_ref ob = Inr a"
  shows "list_set ob k d nl = Inr (queue_packet (construct_protoupdate (Some a) k d (nl_ListID nl))
           None (nl\<lparr>nl_Data := amap k (\<lambda>_. d) (nl_Data nl)\<rparr>))"
  using assms by (auto simp: list_set_def items_def aput_def)

lemma list_set_absent: "items nl k = None \<Longrightarrow> list_set ob k d nl = Inr nl"
  by (simp add: list_set_def items_def)

lemma list_remove_present:
  assumes "items nl k \<noteq> None" and "parent_ref ob = Inr a"
  shows "list_remove ob k nl = Inr (True,
    queue_packet (construct_protoremove (Some a) k (nl_ListID nl)) None
      (nl\<lparr>nl_Data := adel k (nl_Data nl)\<rparr>))"
  using assms by (auto simp: list_remove_def list_remove_it_def items_def)

lemma list_remove_absent: "items nl k = None \<Longrightarrow> list_remove ob k nl = Inr (False, nl)"
  by (simp add: list_remove_def items_def)

lemma items_adel [simp]: "items (nl\<lparr>nl_Data := adel k (nl_Data nl)\<rparr>) = (items nl)(k := None)"
  by (simp add: items_def)

lemma items_amap:
  "items nl k \<noteq> None \<Longrightarrow> items (nl\<lparr>nl_Data := amap k (\<lambda>_. d) (nl_Data nl)\<rparr>) = (items nl)(k \<mapsto> d)"
  by (auto simp: items_def fun_eq_iff)

section \<open>Emptying a list\<close>

definition removal_queue :: "assoc_object \<Rightarrow> u32 \<Rightarrow> u32 list \<Rightarrow> (packet \<times> peer option) list" where
  "removal_queue a list_id ks = map (\<lambda>k. (construct_protoremove (Some a) k list_id, None)) ks"

lemma adel_head_distinct:
  "distinct (map fst ((k, v) # xs)) \<Longrightarrow> adel k ((k, v) # xs) = xs"
  by (induction xs) (auto simp: adel_def filter_id_conv)

lemma list_clear_eq:
  assumes "parent_ref ob = Inr a" and "distinct (map fst (nl_Data nl))"
  shows "list_clear ob nl = Inr (nl\<lparr>nl_Data := [], nl_UpdateQueue :=
    nl_UpdateQueue nl @ removal_queue a (nl_ListID nl) (map fst (nl_Data nl))\<rparr>)"
  using assms(2)
proof (induction "nl_Data nl" arbitrary: nl)
  case Nil
  then have "nl = nl\<lparr>nl_Data := []\<rparr>" by (cases nl) simp
  with Nil show ?case by (subst list_clear.simps) (simp add: removal_queue_def)
next
  case (Cons kv xs)
  obtain k v where kv: "kv = (k, v)" by (cases kv)
  let ?nl' = "queue_packet (construct_protoremove (Some a) k (nl_ListID nl)) None
    (nl\<lparr>nl_Data := adel k (nl_Data nl)\<rparr>)"
  have data: "nl_Data nl = (k, v) # xs" using Cons.hyps(2) kv by simp
  then have adel: "adel k (nl_Data nl) = xs"
    using Cons.prems adel_head_distinct [of k v xs] by simp
  have "list_remove_it ob k nl = Inr ?nl'"
    using assms(1) by (simp add: list_remove_it_def)
  then have "list_clear ob nl = list_clear ob ?nl'"
    using data by (subst list_clear.simps) simp
  also have "\<dots> = Inr (?nl'\<lparr>nl_Data := [], nl_UpdateQueue :=
      nl_UpdateQueue ?nl' @ removal_queue a (nl_ListID ?nl') (map fst (nl_Data ?nl'))\<rparr>)"
    using Cons.prems data adel by (intro Cons.hyps(1)) auto
  finally show ?case
    using data adel by (simp add: queue_packet_def removal_queue_def)
qed

lemma remove_keys_eq:
  assumes "parent_ref ob = Inr a" and "distinct (map fst (nl_Data nl))"
  shows "remove_keys ob (map fst (nl_Data nl)) nl = Inr (nl\<lparr>nl_Data := [], nl_UpdateQueue :=
    nl_UpdateQueue nl @ removal_queue a (nl_ListID nl) (map fst (nl_Data nl))\<rparr>)"
  using assms(2)
proof (induction "nl_Data nl" arbitrary: nl)
  case Nil
  then have "nl = nl\<lparr>nl_Data := []\<rparr>" by (cases nl) simp
  with Nil show ?case by (simp add: removal_queue_def)
next
  case (Cons kv xs)
  obtain k v where kv: "kv = (k, v)" by (cases kv)
  let ?nl' = "queue_packet (construct_protoremove (Some a) k (nl_ListID nl)) None
    (nl\<lparr>nl_Data := adel k (nl_Data nl)\<rparr>)"
  have data: "nl_Data nl = (k, v) # xs" using Cons.hyps(2) kv by simp
  then have adel: "adel k (nl_Data nl) = xs"
    using Cons.prems adel_head_distinct [of k v xs] by simp
  have "list_remove ob k nl = Inr (True, ?nl')"
    using assms(1) data by (intro list_remove_present) (auto simp: items_def)
  moreover have "remove_keys ob (map fst (nl_Data ?nl')) ?nl' = Inr (?nl'\<lparr>nl_Data := [],
      nl_UpdateQueue := nl_UpdateQueue ?nl' @
        removal_queue a (nl_ListID ?nl') (map fst (nl_Data ?nl'))\<rparr>)"
    using Cons.prems data adel by (intro Cons.hyps(1)) auto
  ultimately show ?case
    using data adel by (simp add: queue_packet_def removal_queue_def)
qed

section \<open>The update queue\<close>

lemma add_targets_eq:
  "add_targets ts flt p = p\<lparr>pk_PeerList := pk_PeerList p @ map Some (filter (\<lambda>t. Some t \<noteq> flt) ts)\<rparr>"
proof (induction ts arbitrary: p)
  case (Cons t ts)
  then show ?case by (simp add: AddPeer_def)
qed simp

lemma only_sends_destroy_packets [simp]: "only_sends w (destroy_packets A ps w)"
proof (induction A ps w rule: destroy_packets.induct)
  case (2 A p u ps w)
  then show ?case using only_sends_trans [OF only_sends_packet_destroy] by simp
qed simp

definition queue_calls ::
  "app \<Rightarrow> peer option \<Rightarrow> (packet \<times> peer option) list \<Rightarrow> transport_call list" where
  "queue_calls A first ps = concat (map (\<lambda>(p, _).
     if pk_Status p = kPacket_Pending
     then packet_calls A p (if pk_PeerList p = [] then [first] else pk_PeerList p) else []) ps)"

lemma destroy_packets_whole:
  assumes "\<forall>q \<in> set ps. sent_whole A (fst q)" and "w_Running w"
  shows "destroy_packets A ps w = w\<lparr>w_Out := w_Out w @ queue_calls A (GetFirstPeer w) ps\<rparr>"
  using assms
proof (induction ps arbitrary: w)
  case Nil
  then show ?case by (simp add: queue_calls_def)
next
  case (Cons q ps)
  obtain p flt where q: "q = (p, flt)" by (cases q)
  have "GetFirstPeer (w\<lparr>w_Out := cs\<rparr>) = GetFirstPeer w" for cs
    by (simp add: GetFirstPeer_def)
  then show ?case
    using Cons.prems
    by (simp add: q packet_destroy_whole Cons.IH queue_calls_def)
qed

lemma destroy_packets_out:
  assumes "serialize_small A" and "w_Running w"
  shows "destroy_packets A ps w = w\<lparr>w_Out := w_Out w @ queue_calls A (GetFirstPeer w) ps\<rparr>"
  using assms by (intro destroy_packets_whole) (simp_all add: small_sent_whole)

end
