(* ===== verification/List_Remote.thy ===== *)
theory List_Remote
  imports Net_List_Laws
begin

text \<open>
  Object lookup (\<open>CEntities::GetByNetID\<close>, \<open>GetByPeerID\<close>, \<open>VirtualInstance::FindObject\<close>) and the
  remote handlers of \<open>NetVarListBase\<close> (NetVarListBase.cpp) that apply a peer's list changes, with
  the list operations of \<open>NetObject\<close> (NetObject.cpp).
\<close>

section \<open>Lookup\<close>

fun find_netid :: "world \<Rightarrow> oref list \<Rightarrow> u32 \<Rightarrow> oref option res" where
  "find_netid w [] nid = Inr None"
| "find_netid w (r # rs) nid =
     res_bind (deref w r) (\<lambda>ob. if no_NetCode ob = nid then Inr (Some r) else find_netid w rs nid)"

definition GetByNetID :: "world \<Rightarrow> manager \<Rightarrow> u32 \<Rightarrow> oref option res" where
  "GetByNetID w mg nid = find_netid w (mg_Objects mg) nid"

fun find_peer :: "world \<Rightarrow> oref list \<Rightarrow> peer option \<Rightarrow> oref option res" where
  "find_peer w [] pr = Inr None"
| "find_peer w (r # rs) pr =
     res_bind (deref w r) (\<lambda>ob. if no_Peer ob = pr then Inr (Some r) else find_peer w rs pr)"

definition GetByPeerID :: "world \<Rightarrow> manager \<Rightarrow> peer option \<Rightarrow> oref option res" where
  "GetByPeerID w mg pr = find_peer w (mg_Objects mg) pr"

fun find_in_managers :: "world \<Rightarrow> (bytes \<times> manager) list \<Rightarrow> u32 \<Rightarrow> oref option res" where
  "find_in_managers w [] nid = Inr None"
| "find_in_managers w ((_, mg) # ms) nid =
     res_bind (GetByNetID w mg nid) (\<lambda>entry.
       case entry of Some r \<Rightarrow> Inr (Some r) | None \<Rightarrow> find_in_managers w ms nid)"

definition FindObject :: "world \<Rightarrow> vinstance \<Rightarrow> u32 \<Rightarrow> oref option res" where
  "FindObject w vi nid = find_in_managers w (vi_EntManagers vi) nid"

fun find_in_instances :: "world \<Rightarrow> (bytes \<times> vinstance) list \<Rightarrow> u32 \<Rightarrow> oref option res" where
  "find_in_instances w [] nid = Inr None"
| "find_in_instances w ((_, vi) # is) nid =
     res_bind (FindObject w vi nid) (\<lambda>target.
       case target of Some r \<Rightarrow> Inr (Some r) | None \<Rightarrow> find_in_instances w is nid)"

section \<open>Decoding the target of a list message\<close>

fun target_object :: "proto_msg \<Rightarrow> assoc_object" where
  "target_object (INetworkMapAdd obj _ _ _) = (case obj of None \<Rightarrow> assoc_default | Some a \<Rightarrow> a)"
| "target_object (INetworkMapUpdate obj _ _ _) = (case obj of None \<Rightarrow> assoc_default | Some a \<Rightarrow> a)"
| "target_object (INetworkMapRemove obj _ _) = (case obj of None \<Rightarrow> assoc_default | Some a \<Rightarrow> a)"

fun msg_key :: "proto_msg \<Rightarrow> u32" where
  "msg_key (INetworkMapAdd _ k _ _) = k"
| "msg_key (INetworkMapUpdate _ k _ _) = k"
| "msg_key (INetworkMapRemove _ k _) = k"

fun msg_value :: "proto_msg \<Rightarrow> bytes" where
  "msg_value (INetworkMapAdd _ _ v _) = v"
| "msg_value (INetworkMapUpdate _ _ v _) = v"
| "msg_value (INetworkMapRemove _ _ _) = []"

fun msg_list_id :: "proto_msg \<Rightarrow> u32" where
  "msg_list_id (INetworkMapAdd _ _ _ i) = i"
| "msg_list_id (INetworkMapUpdate _ _ _ i) = i"
| "msg_list_id (INetworkMapRemove _ _ i) = i"

definition DecodeObject :: "world \<Rightarrow> assoc_object \<Rightarrow> oref option res" where
  "DecodeObject w obj =
     (case get_instance w (ao_instance_name obj) of
        None \<Rightarrow> Inl Runtime_Error
      | Some vi \<Rightarrow>
          (case get_manager vi (ao_manager_name obj) of
             None \<Rightarrow> Inl Runtime_Error
           | Some mg \<Rightarrow> GetByNetID w mg (ao_network_code obj)))"

text \<open>
  \<open>FetchObjectList\<close>: the checked access throws inside a handler that turns the exception into a
  null pointer; \<open>lock_ok\<close> is the outcome of \<open>try_lock\<close>. The result is the list's position.
\<close>

definition FetchObjectList :: "net_object \<Rightarrow> bool \<Rightarrow> u32 \<Rightarrow> nat option res" where
  "FetchObjectList ob lock_ok index =
     (if lock_ok
      then Inr (if unat index < length (no_MapList ob) then Some (unat index) else None)
      else Inl Nettik_Exception)"

definition HasWritePermission :: "world \<Rightarrow> peer option \<Rightarrow> net_object option \<Rightarrow> bool" where
  "HasWritePermission w pCallee pCheckObject =
     (if w_Server w then True
      else case (pCallee, pCheckObject) of
             (Some p, Some ob) \<Rightarrow> no_Peer ob = Some p
           | _ \<Rightarrow> False)"

section \<open>Remote handlers\<close>

definition upd_list :: "oref \<Rightarrow> nat \<Rightarrow> netlist \<Rightarrow> world \<Rightarrow> world" where
  "upd_list r j nl w = upd_object r (\<lambda>ob. ob\<lparr>no_MapList := (no_MapList ob)[j := nl]\<rparr>) w"

text \<open>
  The common prefix of the three handlers: decode the target, catching the runtime errors of the
  lookup, and fetch the list. \<open>None\<close> is the early return.
\<close>

definition remote_target :: "bool \<Rightarrow> proto_msg \<Rightarrow> world \<Rightarrow> (oref \<times> net_object \<times> nat) option res" where
  "remote_target lock_ok msg w =
     (case DecodeObject w (target_object msg) of
        Inl Runtime_Error \<Rightarrow> Inr None
      | Inl e \<Rightarrow> Inl e
      | Inr None \<Rightarrow> Inr None
      | Inr (Some r) \<Rightarrow>
          res_bind (deref w r) (\<lambda>ob.
          res_bind (FetchObjectList ob lock_ok (msg_list_id msg)) (\<lambda>l.
            Inr (map_option (\<lambda>j. (r, ob, j)) l))))"

definition on_remote_update ::
  "app \<Rightarrow> bool \<Rightarrow> peer option \<Rightarrow> proto_msg \<Rightarrow> world \<Rightarrow> world res" where
  "on_remote_update A lock_ok pPeer msg w =
     res_bind (remote_target lock_ok msg w) (\<lambda>t.
       case t of
         None \<Rightarrow> Inr w
       | Some (r, ob, j) \<Rightarrow>
           (case get_at (msg_key msg) (no_MapList ob ! j) of
              Inl e \<Rightarrow> Inr w
            | Inr (d, iItemSize) \<Rightarrow>
                if iItemSize \<noteq> length (msg_value msg) then Inr w
                else res_bind (write_item (msg_key msg) (msg_value msg) (no_MapList ob ! j)) (\<lambda>nl1.
                     res_bind (dispatch_update A w ob (msg_key msg) nl1) (\<lambda>nl2.
                       Inr (upd_list r j nl2 w)))))"

text \<open>The removal callbacks run first, then the erase, whose failure is only reported.\<close>

definition on_remote_remove ::
  "app \<Rightarrow> bool \<Rightarrow> peer option \<Rightarrow> proto_msg \<Rightarrow> world \<Rightarrow> world res" where
  "on_remote_remove A lock_ok pPeer msg w =
     res_bind (remote_target lock_ok msg w) (\<lambda>t.
       case t of
         None \<Rightarrow> Inr w
       | Some (r, ob, j) \<Rightarrow>
           res_bind (dispatch_remove A w ob (msg_key msg) (no_MapList ob ! j)) (\<lambda>nl1.
             case remove_at (msg_key msg) nl1 of
               Inl e \<Rightarrow> Inr (upd_list r j nl1 w)
             | Inr nl2 \<Rightarrow> Inr (upd_list r j nl2 w)))"

definition on_remote_add ::
  "app \<Rightarrow> bool \<Rightarrow> peer option \<Rightarrow> proto_msg \<Rightarrow> world \<Rightarrow> world res" where
  "on_remote_add A lock_ok pPeer msg w =
     res_bind (remote_target lock_ok msg w) (\<lambda>t.
       case t of
         None \<Rightarrow> Inr w
       | Some (r, ob, j) \<Rightarrow>
           (case build_at (msg_key msg) (no_MapList ob ! j) of
              Inl e \<Rightarrow> Inr w
            | Inr (nl1, d, iItemSize) \<Rightarrow>
                if iItemSize \<noteq> length (msg_value msg) then Inr (upd_list r j nl1 w)
                else res_bind (write_item (msg_key msg) (msg_value msg) nl1) (\<lambda>nl2.
                     res_bind (dispatch_add A w ob (msg_key msg) nl2) (\<lambda>nl3.
                       Inr (upd_list r j nl3 w)))))"

section \<open>List operations of an object\<close>

fun update_lists ::
  "app \<Rightarrow> net_object \<Rightarrow> netlist list \<Rightarrow> world \<Rightarrow> (netlist list \<times> world) res" where
  "update_lists A ob [] w = Inr ([], w)"
| "update_lists A ob (nl # nls) w =
     res_bind (SendDelta w (no_Manager ob) nl) (\<lambda>nl1.
       let (nl2, w1) = Flush A nl1 w
       in res_bind (dispatcher_think A w1 ob nl2) (\<lambda>nl3.
          res_bind (update_lists A ob nls w1) (\<lambda>(rest, w2). Inr (nl3 # rest, w2))))"

definition UpdateListDelta :: "app \<Rightarrow> oref \<Rightarrow> world \<Rightarrow> world res" where
  "UpdateListDelta A r w =
     res_bind (deref w r) (\<lambda>ob.
     res_bind (update_lists A ob (no_MapList ob) w) (\<lambda>(nls, w1).
       Inr (upd_object r (\<lambda>ob. ob\<lparr>no_MapList := nls\<rparr>) w1)))"

fun send_lists ::
  "app \<Rightarrow> net_object \<Rightarrow> netlist list \<Rightarrow> peer option \<Rightarrow> world \<Rightarrow> world res" where
  "send_lists A ob [] pr w = Inr w"
| "send_lists A ob (nl # nls) pr w =
     res_bind (SendContents_peer A ob nl pr w) (\<lambda>w1. send_lists A ob nls pr w1)"

definition SendLists :: "app \<Rightarrow> oref \<Rightarrow> peer option \<Rightarrow> world \<Rightarrow> world res" where
  "SendLists A r pRemotePeer w =
     res_bind (deref w r) (\<lambda>ob. send_lists A ob (no_MapList ob) pRemotePeer w)"

fun send_lists_manager ::
  "app \<Rightarrow> net_object \<Rightarrow> netlist list \<Rightarrow> world \<Rightarrow> world res" where
  "send_lists_manager A ob [] w = Inr w"
| "send_lists_manager A ob (nl # nls) w =
     res_bind (SendContents_manager A ob nl (no_Manager ob) w) (\<lambda>w1.
       send_lists_manager A ob nls w1)"

definition InvalidateVars :: "app \<Rightarrow> oref \<Rightarrow> world \<Rightarrow> world res" where
  "InvalidateVars A r w =
     res_bind (deref w r) (\<lambda>ob.
       let w1 = upd_object r (\<lambda>ob. ob\<lparr>no_Vars := map InvalidateChanges (no_Vars ob)\<rparr>) w
       in send_lists_manager A ob (no_MapList ob) w1)"

section \<open>Lookup laws\<close>

text \<open>\<open>live\<close>: every reference of a manager denotes an object, as shared pointers guarantee.\<close>

definition live :: "world \<Rightarrow> oref list \<Rightarrow> bool" where
  "live w rs \<longleftrightarrow> (\<forall>r \<in> set rs. w_heap w r \<noteq> None)"

lemma live_simps [simp]:
  "live w []" "live w (r # rs) \<longleftrightarrow> w_heap w r \<noteq> None \<and> live w rs"
  by (auto simp: live_def)

lemma deref_heap: "w_heap w r = Some ob \<Longrightarrow> deref w r = Inr ob"
  by (simp add: deref_def)

lemma deref_Inr: "deref w r = Inr ob \<longleftrightarrow> w_heap w r = Some ob"
  by (simp add: deref_def split: option.splits)

definition has_netid :: "world \<Rightarrow> u32 \<Rightarrow> oref \<Rightarrow> bool" where
  "has_netid w nid r \<longleftrightarrow> (case w_heap w r of None \<Rightarrow> False | Some ob \<Rightarrow> no_NetCode ob = nid)"

text \<open>The lookup loop is the search for the first reference with that identifier.\<close>

lemma find_netid_eq: "live w rs \<Longrightarrow> find_netid w rs nid = Inr (find (has_netid w nid) rs)"
  by (induction rs) (auto simp: deref_def has_netid_def)

lemma find_netid_Some:
  "find_netid w rs nid = Inr (Some r) \<Longrightarrow>
   r \<in> set rs \<and> (\<exists>ob. w_heap w r = Some ob \<and> no_NetCode ob = nid)"
  by (induction rs) (auto simp: res_bind_Inr_iff deref_Inr split: if_splits)

lemma collect_peers_total: "live w rs \<Longrightarrow> \<exists>ps. collect_peers w rs = Inr ps"
  by (induction rs) (auto simp: deref_def)

lemma find_in_managers_Some:
  "find_in_managers w ms nid = Inr (Some r) \<Longrightarrow>
   \<exists>ob. w_heap w r = Some ob \<and> no_NetCode ob = nid"
proof (induction ms)
  case (Cons m ms)
  then show ?case
    by (cases m)
      (auto simp: res_bind_Inr_iff GetByNetID_def split: option.splits dest: find_netid_Some)
qed simp

lemma find_in_instances_Some:
  "find_in_instances w is nid = Inr (Some r) \<Longrightarrow>
   \<exists>ob. w_heap w r = Some ob \<and> no_NetCode ob = nid"
proof (induction "is")
  case (Cons i "is")
  then show ?case
    by (cases i)
      (auto simp: res_bind_Inr_iff FindObject_def split: option.splits dest: find_in_managers_Some)
qed simp

lemma DecodeObject_Some:
  "DecodeObject w obj = Inr (Some r) \<Longrightarrow>
   \<exists>ob. w_heap w r = Some ob \<and> no_NetCode ob = ao_network_code obj"
  by (auto simp: DecodeObject_def GetByNetID_def split: option.splits dest: find_netid_Some)

end
