(* ===== verification/Ent_Manager.thy ===== *)
theory Ent_Manager
  imports Net_Object List_Remote
begin

text \<open>
  Entity managers: \<open>IEntityManager\<close> (IEntityManager.h, IEntityManager.cpp) and the template
  \<open>CEntities\<close> (CEntities.h). A manager is named by the instance it belongs to and its own key; an
  instance is registered under its own name. Shared pointers are counted: the references a manager
  list, the client's controlled objects or the application hold. \<open>Build\<close> takes snapshots of the
  whole instance and is with it, in \<open>Virtual_Instance\<close>.
\<close>

section \<open>Names and counters\<close>

definition SetName :: "bytes \<Rightarrow> manager \<Rightarrow> manager res" where
  "SetName nm mg =
     (if max_entmgr_name < length nm then Inl Nettik_Exception else Inr (mg\<lparr>mg_Name := nm\<rparr>))"

definition GetNextID :: "world \<Rightarrow> u32 \<times> world" where
  "GetNextID w = (w_TotalEntities w, w\<lparr>w_TotalEntities := w_TotalEntities w + 1\<rparr>)"

definition Count :: "manager \<Rightarrow> nat" where "Count mg = length (mg_Objects mg)"
definition CountMaintained :: "manager \<Rightarrow> nat" where "CountMaintained mg = length (mg_Local mg)"

fun get_controlled :: "world \<Rightarrow> oref list \<Rightarrow> u32 \<Rightarrow> u32 \<Rightarrow> oref option res" where
  "get_controlled w [] current_index index = Inr None"
| "get_controlled w (r # rs) current_index index =
     res_bind (deref w r) (\<lambda>ob.
       if IsNetworkLocal ob \<and> current_index = index then Inr (Some r)
       else get_controlled w rs (current_index + 1) index)"

definition GetControlled :: "world \<Rightarrow> manager \<Rightarrow> u32 \<Rightarrow> oref option res" where
  "GetControlled w mg index = get_controlled w (mg_Local mg) 0 index"

section \<open>Reference counts\<close>

definition manager_refs :: "oref \<Rightarrow> manager \<Rightarrow> nat" where
  "manager_refs r mg = count_list (mg_Objects mg) r + count_list (mg_Local mg) r"

definition instance_refs :: "oref \<Rightarrow> vinstance \<Rightarrow> nat" where
  "instance_refs r vi = sum_list (map (\<lambda>(_, mg). manager_refs r mg) (vi_EntManagers vi))"

definition use_count :: "world \<Rightarrow> oref \<Rightarrow> nat" where
  "use_count w r = w_extern w r + count_list (map snd (w_Controlled w)) r +
     sum_list (map (\<lambda>(_, vi). instance_refs r vi) (w_Instances w))"

definition hold :: "oref \<Rightarrow> world \<Rightarrow> world" where
  "hold r w = w\<lparr>w_extern := (w_extern w)(r := w_extern w r + 1)\<rparr>"

definition unhold :: "oref \<Rightarrow> world \<Rightarrow> world" where
  "unhold r w = w\<lparr>w_extern := (w_extern w)(r := w_extern w r - 1)\<rparr>"

section \<open>Destruction\<close>

text \<open>
  \<open>FreeEntity\<close> of a manager that is alive; a call through a dangling manager pointer is
  \<open>Undefined\<close>. \<open>target\<close> is what the dynamic cast hands to the callback: null when the call comes
  from the destructor of \<open>NetObject\<close>, whose derived part is gone.
\<close>

definition FreeEntity ::
  "app \<Rightarrow> bytes \<Rightarrow> bytes \<Rightarrow> u32 \<Rightarrow> oref option \<Rightarrow> world \<Rightarrow> (bool \<times> world) res" where
  "FreeEntity A i m nid target w =
     (case find_manager w i m of
        None \<Rightarrow> Inl Undefined
      | Some mg \<Rightarrow>
          if \<not> w_Server w then Inr (False, w)
          else
            let g1 = set_frametype kFRAME_Dealloc (entry_new (ap_junk A))
            in res_bind (set_name (mg_Name mg) g1) (\<lambda>g2.
               let g3 = set_netid nid g2
               in res_bind (set_data (i @ [0]) (of_nat (length i + 1)) g3) (\<lambda>deletionUpdate.
                  let w1 = (case mg_cbDelete mg of None \<Rightarrow> w | Some n \<Rightarrow> ap_delete A n target w)
                  in res_bind (entry_write deletionUpdate []) (\<lambda>deletionStream.
                     res_bind (header_generate (stream_push stream_new deletionStream) 0 1
                                 (vsize deletionStream)) (\<lambda>reliableStream.
                     res_bind (BroadcastStream reliableStream True w1) (\<lambda>(_, w2).
                       Inr (True, w2)))))))"

definition DestroyNetworkedEntity :: "app \<Rightarrow> oref option \<Rightarrow> net_object \<Rightarrow> world \<Rightarrow> world res" where
  "DestroyNetworkedEntity A target ob w =
     (case no_Manager ob of
        None \<Rightarrow> Inl Undefined
      | Some (i, m) \<Rightarrow>
          res_bind (FreeEntity A i m (no_NetCode ob) target w) (\<lambda>(_, w1). Inr w1))"

text \<open>The destructor of \<open>NetObject\<close>, then the memory is gone.\<close>

definition destroy_object :: "app \<Rightarrow> oref \<Rightarrow> world \<Rightarrow> world res" where
  "destroy_object A r w =
     res_bind (deref w r) (\<lambda>ob.
       if no_Manager ob \<noteq> None
       then res_bind (DestroyNetworkedEntity A None ob w) (\<lambda>w1.
              Inr (w1\<lparr>w_heap := (w_heap w1)(r := None)\<rparr>))
       else Inr (w\<lparr>w_heap := (w_heap w)(r := None)\<rparr>))"

text \<open>A shared pointer to \<open>r\<close> went away: the last one destroys the object.\<close>

definition release :: "app \<Rightarrow> oref \<Rightarrow> world \<Rightarrow> world res" where
  "release A r w = (if use_count w r = 0 then destroy_object A r w else Inr w)"

section \<open>Erasing from the lists\<close>

text \<open>
  \<open>FreeListEnt\<close> on one of the manager's two lists, given by its reader and its writer. The entry
  the loop erases is the first with the identifier, which is the first occurrence of its reference.
\<close>

definition FreeListEnt ::
  "app \<Rightarrow> bytes \<Rightarrow> bytes \<Rightarrow> (manager \<Rightarrow> oref list) \<Rightarrow> (oref list \<Rightarrow> manager \<Rightarrow> manager) \<Rightarrow> u32 \<Rightarrow>
   world \<Rightarrow> world res" where
  "FreeListEnt A i m rd wr nid w =
     (case find_manager w i m of
        None \<Rightarrow> Inl Undefined
      | Some mg \<Rightarrow>
          res_bind (find_netid w (rd mg) nid) (\<lambda>obj_it.
            case obj_it of
              None \<Rightarrow> Inr w
            | Some r \<Rightarrow> release A r (upd_manager i m (\<lambda>mg. wr (remove1 r (rd mg)) mg) w)))"

definition FreeLocal :: "app \<Rightarrow> bytes \<Rightarrow> bytes \<Rightarrow> u32 \<Rightarrow> world \<Rightarrow> world res" where
  "FreeLocal A i m nid w =
     res_bind (FreeListEnt A i m mg_Objects (\<lambda>rs mg. mg\<lparr>mg_Objects := rs\<rparr>) nid w) (\<lambda>w1.
       FreeListEnt A i m mg_Local (\<lambda>rs mg. mg\<lparr>mg_Local := rs\<rparr>) nid w1)"

section \<open>Creation on a client\<close>

text \<open>Storing a new object in the manager's lists, before the callbacks.\<close>

definition insert_object ::
  "app \<Rightarrow> bytes \<Rightarrow> bytes \<Rightarrow> u32 \<Rightarrow> u32 \<Rightarrow> world \<Rightarrow> (oref \<times> world) res" where
  "insert_object A i m nid controller w =
     (case find_manager w i m of
        None \<Rightarrow> Inl Undefined
      | Some mg \<Rightarrow>
          let r = w_NextRef w;
              ob = SetIsReplicated True (SetController controller
                     ((SetNetID nid (ap_construct A (mg_Type mg)))
                        \<lparr>no_Instance := Some i, no_Manager := Some (i, m)\<rparr>));
              w1 = w\<lparr>w_heap := (w_heap w)(r := Some ob), w_NextRef := r + 1\<rparr>;
              w2 = upd_manager i m (\<lambda>mg. mg\<lparr>mg_Objects := mg_Objects mg @ [r]\<rparr>) w1;
              w3 = (if IsNetworkLocal ob
                    then upd_manager i m (\<lambda>mg. mg\<lparr>mg_Local := mg_Local mg @ [r]\<rparr>) w2 else w2)
          in Inr (r, w3))"

definition BuildLocal ::
  "app \<Rightarrow> bytes \<Rightarrow> bytes \<Rightarrow> u32 \<Rightarrow> u32 \<Rightarrow> world \<Rightarrow> (oref \<times> world) res" where
  "BuildLocal A i m nid controller w =
     res_bind (insert_object A i m nid controller w) (\<lambda>(r, w1).
       case find_manager w1 i m of
         None \<Rightarrow> Inl Undefined
       | Some mg \<Rightarrow>
           let w2 = (case mg_cbCreate mg of None \<Rightarrow> w1 | Some n \<Rightarrow> ap_create A n r w1)
           in Inr (r, ap_initialize A r w2))"

section \<open>Snapshots of a manager\<close>

fun snapshot_objects ::
  "app \<Rightarrow> oref list \<Rightarrow> size_t \<Rightarrow> u16 \<Rightarrow> stream \<Rightarrow> bool \<Rightarrow> bool \<Rightarrow> world \<Rightarrow>
   (size_t \<times> u16 \<times> stream \<times> world) res" where
  "snapshot_objects A [] mx n s rel forced w = Inr (mx, n, s, w)"
| "snapshot_objects A (r # rs) mx n s rel forced w =
     res_bind (deref w r) (\<lambda>ob.
       if IsNetworkLocal ob
       then res_bind (TakeObjectSnapshot (ap_junk A) ob mx n s rel forced) (\<lambda>(ob', mx', n', s').
              snapshot_objects A rs mx' n' s' rel forced (upd_object r (\<lambda>_. ob') w))
       else snapshot_objects A rs mx n s rel forced w)"

definition GetSnapshot ::
  "app \<Rightarrow> manager \<Rightarrow> size_t \<Rightarrow> u16 \<Rightarrow> stream \<Rightarrow> bool \<Rightarrow> bool \<Rightarrow> world \<Rightarrow>
   (size_t \<times> u16 \<times> stream \<times> world) res" where
  "GetSnapshot A mg mx n s rel forced w =
     (if \<not> w_Running w then Inr (mx, n, s, w)
      else snapshot_objects A (mg_Objects mg) mx n s rel forced w)"

section \<open>Updates\<close>

text \<open>
  \<open>PostUpdate\<close>: a server erases the objects only its list still refers to; the others are told
  their role. The loop runs over the list as it was at its start.
\<close>

fun post_update_objects ::
  "app \<Rightarrow> bytes \<Rightarrow> bytes \<Rightarrow> oref list \<Rightarrow> world \<Rightarrow> world res" where
  "post_update_objects A i m [] w = Inr w"
| "post_update_objects A i m (r # rs) w =
     res_bind (deref w r) (\<lambda>ob.
       let info = ReplicationInfo (w_Server w) (no_Peer ob) (GetController ob)
       in if use_count w r = 1 \<and> w_Server w
          then res_bind (release A r
                 (upd_manager i m (\<lambda>mg. mg\<lparr>mg_Objects := remove1 r (mg_Objects mg)\<rparr>) w)) (\<lambda>w1.
                 post_update_objects A i m rs w1)
          else post_update_objects A i m rs
                 (ap_network_update A r (ri_Broadcast info) (ri_Replicate info) w))"

definition ent_PostUpdate :: "app \<Rightarrow> bytes \<Rightarrow> bytes \<Rightarrow> world \<Rightarrow> world res" where
  "ent_PostUpdate A i m w =
     (if \<not> w_Running w then Inr w
      else case find_manager w i m of
             None \<Rightarrow> Inl Undefined
           | Some mg \<Rightarrow> post_update_objects A i m (mg_Objects mg) w)"

section \<open>Announcing existing objects to a peer\<close>

fun send_object_lists ::
  "app \<Rightarrow> entry \<Rightarrow> peer option \<Rightarrow> oref list \<Rightarrow> world \<Rightarrow> world res" where
  "send_object_lists A creationUpdate pOwner [] w = Inr w"
| "send_object_lists A creationUpdate pOwner (r # rs) w =
     res_bind (deref w r) (\<lambda>netObj.
       let controllerStatus = (if pOwner \<noteq> None \<and> no_Peer netObj = pOwner
                               then NET_CONTROLLER_LOCAL else NET_CONTROLLER_NONE);
           update = set_controller controllerStatus (set_netid (GetNetID netObj) creationUpdate)
       in res_bind (entry_write update []) (\<lambda>existing.
          res_bind (header_generate (stream_push stream_new existing) 0 1 (vsize existing)) (\<lambda>s.
          res_bind (SendStream s True pOwner w) (\<lambda>(_, w1).
          res_bind (SendLists A r pOwner w1) (\<lambda>w2.
            send_object_lists A update pOwner rs w2)))))"

definition SendObjectLists :: "app \<Rightarrow> bytes \<Rightarrow> manager \<Rightarrow> peer option \<Rightarrow> world \<Rightarrow> world res" where
  "SendObjectLists A i mg pOwner w =
     res_bind (set_name (mg_Name mg) (set_frametype kFRAME_Alloc (entry_new (ap_junk A)))) (\<lambda>g2.
     res_bind (set_data (i @ [0]) (of_nat (length i + 1)) g2) (\<lambda>creationUpdate.
       send_object_lists A creationUpdate pOwner (mg_Objects mg) w))"

section \<open>The end of a manager\<close>

fun release_all ::
  "app \<Rightarrow> bytes \<Rightarrow> bytes \<Rightarrow> (oref \<Rightarrow> manager \<Rightarrow> manager) \<Rightarrow> oref list \<Rightarrow> world \<Rightarrow> world res" where
  "release_all A i m rm [] w = Inr w"
| "release_all A i m rm (r # rs) w =
     res_bind (release A r (upd_manager i m (rm r) w)) (\<lambda>w1. release_all A i m rm rs w1)"

definition manager_destroy :: "app \<Rightarrow> bytes \<Rightarrow> bytes \<Rightarrow> world \<Rightarrow> world res" where
  "manager_destroy A i m w =
     (case find_manager w i m of
        None \<Rightarrow> Inl Undefined
      | Some mg \<Rightarrow>
          res_bind (release_all A i m (\<lambda>r mg. mg\<lparr>mg_Objects := remove1 r (mg_Objects mg)\<rparr>)
                      (mg_Objects mg) w) (\<lambda>w1.
            release_all A i m (\<lambda>r mg. mg\<lparr>mg_Local := remove1 r (mg_Local mg)\<rparr>)
              (mg_Local mg) w1))"

end
