(* ===== verification/Ent_Laws.thy ===== *)
theory Ent_Laws
  imports Ent_Manager
begin

text \<open>
  The contract of an entity manager as the controller uses it: objects are looked up, added and
  freed by their network identifier. The locale states the contract, the interpretation discharges
  it for the manager of \<open>Ent_Manager\<close> on a client.
\<close>

section \<open>The interface\<close>

locale entity_store =
  fixes look :: "'w \<Rightarrow> u32 \<Rightarrow> oref option res"
    and add :: "u32 \<Rightarrow> u32 \<Rightarrow> 'w \<Rightarrow> (oref \<times> 'w) res"
    and free :: "u32 \<Rightarrow> 'w \<Rightarrow> 'w res"
    and inv :: "'w \<Rightarrow> bool"
  assumes look_total: "inv w \<Longrightarrow> \<exists>x. look w nid = Inr x"
    and add_law: "inv w \<Longrightarrow> look w nid = Inr None \<Longrightarrow>
      \<exists>r w'. add nid c w = Inr (r, w') \<and> inv w' \<and> look w' nid = Inr (Some r) \<and>
        (\<forall>nid'. nid' \<noteq> nid \<longrightarrow> look w' nid' = look w nid')"
    and free_law: "inv w \<Longrightarrow>
      \<exists>w'. free nid w = Inr w' \<and> inv w' \<and> look w' nid = Inr None \<and>
        (\<forall>nid'. nid' \<noteq> nid \<longrightarrow> look w' nid' = look w nid')"
begin

text \<open>Adding only when the identifier is unknown, the guard of a creation frame.\<close>

definition add_once :: "u32 \<Rightarrow> u32 \<Rightarrow> 'w \<Rightarrow> 'w res" where
  "add_once nid c w = res_bind (look w nid) (\<lambda>x.
     case x of Some _ \<Rightarrow> Inr w | None \<Rightarrow> res_bind (add nid c w) (\<lambda>(_, w'). Inr w'))"

lemma add_once_present: "look w nid = Inr (Some r) \<Longrightarrow> add_once nid c w = Inr w"
  by (simp add: add_once_def)

lemma add_once_law:
  assumes "inv w"
  shows "\<exists>w' r. add_once nid c w = Inr w' \<and> inv w' \<and> look w' nid = Inr (Some r) \<and>
    (\<forall>nid'. nid' \<noteq> nid \<longrightarrow> look w' nid' = look w nid')"
proof -
  obtain x where x: "look w nid = Inr x" using look_total [OF assms] by blast
  show ?thesis
  proof (cases x)
    case None
    with x have "look w nid = Inr None" by simp
    from add_law [OF assms this, of c] show ?thesis
      by (auto simp: add_once_def x None)
  next
    case (Some r)
    with x assms show ?thesis by (auto simp: add_once_def)
  qed
qed

lemma add_once_twice:
  assumes "inv w" and "add_once nid c w = Inr w'"
  shows "add_once nid c' w' = Inr w'"
  using add_once_law [OF assms(1), of nid c] assms(2) by (auto intro: add_once_present)

lemma add_then_free:
  assumes "inv w" and "look w nid = Inr None"
  shows "\<exists>r w1 w2. add nid c w = Inr (r, w1) \<and> free nid w1 = Inr w2 \<and> inv w2 \<and>
    (\<forall>nid'. look w2 nid' = look w nid')"
proof -
  from add_law [OF assms, of c] obtain r w1 where 1: "add nid c w = Inr (r, w1)" "inv w1"
    and o1: "\<forall>nid'. nid' \<noteq> nid \<longrightarrow> look w1 nid' = look w nid'" by blast
  from free_law [OF 1(2), of nid] obtain w2 where 2: "free nid w1 = Inr w2" "inv w2"
    "look w2 nid = Inr None" and o2: "\<forall>nid'. nid' \<noteq> nid \<longrightarrow> look w2 nid' = look w1 nid'" by blast
  have "look w2 nid' = look w nid'" for nid'
    using assms(2) 2(3) o1 o2 by (cases "nid' = nid") auto
  with 1(1) 2(1,2) show ?thesis by blast
qed

lemma free_twice:
  assumes "inv w"
  shows "\<exists>w1 w2. free nid w = Inr w1 \<and> free nid w1 = Inr w2 \<and> (\<forall>nid'. look w2 nid' = look w1 nid')"
proof -
  from free_law [OF assms, of nid] obtain w1 where 1: "free nid w = Inr w1" "inv w1"
    "look w1 nid = Inr None" by blast
  from free_law [OF 1(2), of nid] obtain w2 where 2: "free nid w1 = Inr w2"
    "look w2 nid = Inr None" and o2: "\<forall>nid'. nid' \<noteq> nid \<longrightarrow> look w2 nid' = look w1 nid'" by blast
  have "look w2 nid' = look w1 nid'" for nid'
    using 1(3) 2(2) o2 by (cases "nid' = nid") auto
  with 1(1) 2(1) show ?thesis by blast
qed

end

section \<open>Manager updates\<close>

lemma upd_manager_comp: "upd_manager i m f (upd_manager i m g w) = upd_manager i m (f \<circ> g) w"
proof -
  have "amap k f' (amap k g' xs) = amap k (f' \<circ> g') xs" for k :: bytes and f' g' and
    xs :: "(bytes \<times> 'b) list"
    by (induction xs) auto
  then show ?thesis
    by (simp add: upd_manager_def upd_instance_def comp_def amap_def case_prod_unfold)
qed

lemma find_manager_heap [simp]:
  "find_manager (w\<lparr>w_heap := h\<rparr>) i m = find_manager w i m"
  "find_manager (w\<lparr>w_heap := h, w_NextRef := n\<rparr>) i m = find_manager w i m"
  by (simp_all add: find_manager_def get_instance_def)

text \<open>The count of a reference as seen from one manager.\<close>

lemma sum_list_ge: "(x::nat) \<in> set xs \<Longrightarrow> x \<le> sum_list xs"
  by (simp add: member_le_sum_list)

lemma use_count_manager:
  assumes "find_manager w i m = Some mg"
  shows "manager_refs r mg \<le> use_count w r"
proof -
  from assms obtain vi where vi: "map_of (w_Instances w) i = Some vi"
    and mg: "map_of (vi_EntManagers vi) m = Some mg"
    by (auto simp: find_manager_def get_instance_def get_manager_def bind_eq_Some_conv)
  have "manager_refs r mg \<le> instance_refs r vi"
    unfolding instance_refs_def using map_of_SomeD [OF mg]
    by (intro sum_list_ge) force
  also have "\<dots> \<le> sum_list (map (\<lambda>(_, vi). instance_refs r vi) (w_Instances w))"
    using map_of_SomeD [OF vi] by (intro sum_list_ge) force
  finally show ?thesis by (simp add: use_count_def)
qed

section \<open>Releasing a reference on a client\<close>

lemma release_client:
  assumes "\<not> w_Server w" and "w_heap w r = Some ob" and "no_Manager ob = Some (i, m)"
    and "find_manager w i m = Some mg"
  shows "release A r w = Inr (if use_count w r = 0 then w\<lparr>w_heap := (w_heap w)(r := None)\<rparr> else w)"
  using assms
  by (simp add: release_def destroy_object_def deref_def DestroyNetworkedEntity_def FreeEntity_def)

section \<open>The manager of a client\<close>

definition netid_of :: "world \<Rightarrow> oref \<Rightarrow> u32 option" where
  "netid_of w r = map_option no_NetCode (w_heap w r)"

lemma has_netid_of: "has_netid w nid r \<longleftrightarrow> netid_of w r = Some nid"
  by (auto simp: has_netid_def netid_of_def split: option.splits)

definition object_lookup :: "bytes \<Rightarrow> bytes \<Rightarrow> world \<Rightarrow> u32 \<Rightarrow> oref option res" where
  "object_lookup i m w nid =
     (case find_manager w i m of None \<Rightarrow> Inl Undefined | Some mg \<Rightarrow> GetByNetID w mg nid)"

definition object_in :: "bytes \<Rightarrow> bytes \<Rightarrow> world \<Rightarrow> oref \<Rightarrow> bool" where
  "object_in i m w r \<longleftrightarrow> r < w_NextRef w \<and>
     (case w_heap w r of None \<Rightarrow> False | Some ob \<Rightarrow> no_Manager ob = Some (i, m))"

definition lists_ok :: "bytes \<Rightarrow> bytes \<Rightarrow> world \<Rightarrow> oref list \<Rightarrow> oref list \<Rightarrow> bool" where
  "lists_ok i m w rs ls \<longleftrightarrow> (\<forall>r \<in> set rs. object_in i m w r) \<and> distinct (map (netid_of w) rs) \<and>
     distinct ls \<and> set ls \<subseteq> set rs"

definition client_store :: "bytes \<Rightarrow> bytes \<Rightarrow> world \<Rightarrow> bool" where
  "client_store i m w \<longleftrightarrow> \<not> w_Server w \<and>
     (case find_manager w i m of None \<Rightarrow> False | Some mg \<Rightarrow> lists_ok i m w (mg_Objects mg) (mg_Local mg))"

lemma client_storeE:
  assumes "client_store i m w"
  obtains mg where "find_manager w i m = Some mg" and "\<not> w_Server w"
    and "lists_ok i m w (mg_Objects mg) (mg_Local mg)"
  using assms by (auto simp: client_store_def split: option.splits)

lemma lists_ok_live: "lists_ok i m w rs ls \<Longrightarrow> live w rs \<and> live w ls"
  by (auto simp: lists_ok_def live_def object_in_def split: option.splits)

lemma lists_ok_distinct: "lists_ok i m w rs ls \<Longrightarrow> distinct rs"
  by (simp add: lists_ok_def distinct_map)

lemma lookup_client:
  assumes "find_manager w i m = Some mg" and "lists_ok i m w (mg_Objects mg) ls"
  shows "object_lookup i m w nid = Inr (find (\<lambda>r. netid_of w r = Some nid) (mg_Objects mg))"
  using assms lists_ok_live [OF assms(2)]
  by (simp add: object_lookup_def GetByNetID_def find_netid_eq has_netid_of [abs_def])

text \<open>Searching a list with distinct identifiers is a map.\<close>

lemma find_distinct:
  "distinct (map f xs) \<Longrightarrow> find (\<lambda>x. f x = y) xs = Some x \<longleftrightarrow> x \<in> set xs \<and> f x = y"
  by (induction xs) (auto simp: image_iff)

lemma find_remove1:
  assumes "distinct (map f xs)" and "x \<in> set xs"
  shows "find (\<lambda>a. f a = y) (remove1 x xs) = (if y = f x then None else find (\<lambda>a. f a = y) xs)"
  using assms by (induction xs) (auto simp: image_iff find_None_iff)

lemma find_cong_set: "(\<And>x. x \<in> set xs \<Longrightarrow> P x = Q x) \<Longrightarrow> find P xs = find Q xs"
  by (induction xs) auto

section \<open>Adding\<close>

lemma insert_object_shape:
  assumes "find_manager w i m = Some mg"
  shows "\<exists>w' mg' ob. insert_object A i m nid c w = Inr (w_NextRef w, w') \<and>
    find_manager w' i m = Some mg' \<and> mg_Objects mg' = mg_Objects mg @ [w_NextRef w] \<and>
    mg_Local mg' = (if c = NET_CONTROLLER_LOCAL then mg_Local mg @ [w_NextRef w] else mg_Local mg) \<and>
    w_heap w' = (w_heap w)(w_NextRef w \<mapsto> ob) \<and> w_NextRef w' = w_NextRef w + 1 \<and>
    w_Server w' = w_Server w \<and> no_NetCode ob = nid \<and> no_Manager ob = Some (i, m) \<and>
    no_Controller ob = c \<and> no_IsReplicated ob"
  by (cases "c = NET_CONTROLLER_LOCAL"; simp add: assms insert_object_def Let_def IsNetworkLocal_def
      find_manager_upd_manager frame_simps SetNetID_def SetController_def SetIsReplicated_def)
    (rule exI, rule conjI, rule refl, simp)+

lemma insert_object_law:
  assumes ok: "client_store i m w" and new: "object_lookup i m w nid = Inr None"
  shows "\<exists>r w'. insert_object A i m nid c w = Inr (r, w') \<and> client_store i m w' \<and>
    object_lookup i m w' nid = Inr (Some r) \<and>
    (\<forall>nid'. nid' \<noteq> nid \<longrightarrow> object_lookup i m w' nid' = object_lookup i m w nid')"
proof -
  from ok obtain mg where mg: "find_manager w i m = Some mg" and srv: "\<not> w_Server w"
    and l: "lists_ok i m w (mg_Objects mg) (mg_Local mg)" by (rule client_storeE)
  let ?r = "w_NextRef w"
  obtain w' mg' ob where ins: "insert_object A i m nid c w = Inr (?r, w')"
    and mg': "find_manager w' i m = Some mg'" "mg_Objects mg' = mg_Objects mg @ [?r]"
      "mg_Local mg' = mg_Local mg \<or> mg_Local mg' = mg_Local mg @ [?r]"
    and w': "w_heap w' = (w_heap w)(?r \<mapsto> ob)" "w_NextRef w' = ?r + 1" "w_Server w' = w_Server w"
    and ob: "no_NetCode ob = nid" "no_Manager ob = Some (i, m)"
    using insert_object_shape [OF mg, of A nid c] by (auto split: if_splits)
  have old: "netid_of w' r = netid_of w r" "object_in i m w' r" if "r \<in> set (mg_Objects mg)" for r
    using that l w' by (auto simp: lists_ok_def object_in_def netid_of_def)
  have nr: "netid_of w' ?r = Some nid" using w' ob by (simp add: netid_of_def)
  have fresh: "\<forall>r \<in> set (mg_Objects mg). netid_of w r \<noteq> Some nid"
    using new by (simp add: lookup_client [OF mg l] find_None_iff)
  have notin: "?r \<notin> set (mg_Objects mg)"
    using l by (auto simp: lists_ok_def object_in_def)
  have d: "distinct (map (netid_of w') (mg_Objects mg @ [?r]))"
    using l old fresh nr by (auto simp: lists_ok_def distinct_map inj_on_def)
  have l': "lists_ok i m w' (mg_Objects mg') (mg_Local mg')"
    using l mg'(2,3) old d w' ob notin
    by (auto simp: lists_ok_def object_in_def)
  have look: "object_lookup i m w' x = Inr (find (\<lambda>r. netid_of w' r = Some x) (mg_Objects mg @ [?r]))" for x
    using lookup_client [OF mg'(1) l'] by (simp add: mg'(2))
  have "find (\<lambda>r. netid_of w' r = Some x) (mg_Objects mg) =
      find (\<lambda>r. netid_of w r = Some x) (mg_Objects mg)" for x
    by (rule find_cong_set) (simp add: old)
  moreover have "find P (xs @ [y]) = (case find P xs of None \<Rightarrow> if P y then Some y else None | Some z \<Rightarrow> Some z)"
    for P and xs :: "oref list" and y
    by (induction xs) auto
  ultimately have look': "object_lookup i m w' x = Inr (case find (\<lambda>r. netid_of w r = Some x) (mg_Objects mg) of
      None \<Rightarrow> if x = nid then Some ?r else None | Some z \<Rightarrow> Some z)" for x
    by (simp add: look nr eq_commute split: option.splits)
  have "client_store i m w'"
    using mg'(1) l' srv w'(3) by (simp add: client_store_def)
  moreover have "object_lookup i m w' nid = Inr (Some ?r)"
    using new by (simp add: look' lookup_client [OF mg l])
  moreover have "object_lookup i m w' x = object_lookup i m w x" if "x \<noteq> nid" for x
    using that by (simp add: look' lookup_client [OF mg l] split: option.splits)
  ultimately show ?thesis using ins by blast
qed

section \<open>Freeing\<close>

lemma find_manager_same: "find_manager w i m = Some mg \<Longrightarrow>
   find_manager (upd_manager i m f w) i m = Some (f mg)"
  by (simp add: find_manager_upd_manager)

text \<open>
  What freeing does on a client: the object leaves both lists, and its memory goes exactly when
  nothing else refers to it.
\<close>

lemma FreeLocal_absent:
  assumes "client_store i m w" and "object_lookup i m w nid = Inr None"
  shows "FreeLocal A i m nid w = Inr w"
proof -
  from assms(1) obtain mg where mg: "find_manager w i m = Some mg"
    and l: "lists_ok i m w (mg_Objects mg) (mg_Local mg)" by (rule client_storeE)
  have "\<forall>r \<in> set (mg_Objects mg). \<not> has_netid w nid r"
    using assms(2) by (auto simp: lookup_client [OF mg l] find_None_iff has_netid_of)
  moreover have "set (mg_Local mg) \<subseteq> set (mg_Objects mg)" using l by (simp add: lists_ok_def)
  ultimately have "find (has_netid w nid) (mg_Objects mg) = None"
    and "find (has_netid w nid) (mg_Local mg) = None" by (auto simp: find_None_iff)
  then show ?thesis
    using lists_ok_live [OF l] by (simp add: FreeLocal_def FreeListEnt_def mg find_netid_eq)
qed

lemma FreeLocal_present:
  assumes ok: "client_store i m w" and mg: "find_manager w i m = Some mg"
    and r: "object_lookup i m w nid = Inr (Some r)"
  shows "\<exists>w'. FreeLocal A i m nid w = Inr w' \<and> find_manager w' i m = Some
      (mg\<lparr>mg_Objects := remove1 r (mg_Objects mg), mg_Local := remove1 r (mg_Local mg)\<rparr>) \<and>
    (\<forall>x. x \<noteq> r \<longrightarrow> w_heap w' x = w_heap w x) \<and> w_NextRef w' = w_NextRef w \<and>
    w_Server w' = w_Server w \<and> w_extern w' = w_extern w \<and> w_Controlled w' = w_Controlled w \<and>
    (0 < w_extern w r \<longrightarrow> w_heap w' r = w_heap w r)"
proof -
  from ok mg have srv: "\<not> w_Server w" and l: "lists_ok i m w (mg_Objects mg) (mg_Local mg)"
    by (auto elim!: client_storeE)
  have fr: "find (has_netid w nid) (mg_Objects mg) = Some r"
    using r by (simp add: lookup_client [OF mg l] has_netid_of [abs_def])
  then have rin: "r \<in> set (mg_Objects mg)" and rn: "has_netid w nid r"
    by (auto simp: find_Some_iff)
  then obtain ob where ob: "w_heap w r = Some ob" "no_Manager ob = Some (i, m)"
    using l by (auto simp: lists_ok_def object_in_def split: option.splits)
  define w1 where "w1 = upd_manager i m (\<lambda>mg. mg\<lparr>mg_Objects := remove1 r (mg_Objects mg)\<rparr>) w"
  have mg1: "find_manager w1 i m = Some (mg\<lparr>mg_Objects := remove1 r (mg_Objects mg)\<rparr>)"
    by (simp add: w1_def find_manager_same [OF mg])
  have h1: "w_heap w1 = w_heap w" "w_Server w1 = w_Server w" by (simp_all add: w1_def frame_simps)
  define w2 where "w2 = (if use_count w1 r = 0 then w1\<lparr>w_heap := (w_heap w1)(r := None)\<rparr> else w1)"
  have rel1: "release A r w1 = Inr w2"
    unfolding w2_def by (rule release_client) (use ob srv h1 mg1 in auto)
  have lv: "live w (mg_Objects mg)" "live w (mg_Local mg)" using lists_ok_live [OF l] by simp_all
  have first: "FreeListEnt A i m mg_Objects (\<lambda>rs mg. mg\<lparr>mg_Objects := rs\<rparr>) nid w = Inr w2"
    using fr rel1 by (simp add: FreeListEnt_def mg find_netid_eq [OF lv(1)] w1_def)
  have mg2: "find_manager w2 i m = Some (mg\<lparr>mg_Objects := remove1 r (mg_Objects mg)\<rparr>)"
    by (simp add: w2_def mg1)
  have h2: "\<forall>x. x \<noteq> r \<longrightarrow> w_heap w2 x = w_heap w x" "w_NextRef w2 = w_NextRef w" "\<not> w_Server w2"
    "w_extern w2 = w_extern w" "w_Controlled w2 = w_Controlled w"
    using srv by (simp_all add: w2_def h1) (simp_all add: w1_def frame_simps)
  have held: "use_count w' r \<noteq> 0" if "0 < w_extern w r" "w_extern w' = w_extern w" for w'
    using that by (simp add: use_count_def)
  have x1: "w_extern w1 = w_extern w" by (simp add: w1_def frame_simps)
  have h2r: "0 < w_extern w r \<longrightarrow> w_heap w2 r = w_heap w r"
    using held [OF _ x1] by (auto simp: w2_def h1)
  have others: "\<not> has_netid w nid x" if "x \<in> set (mg_Objects mg)" "x \<noteq> r" for x
  proof
    assume "has_netid w nid x"
    with rn have "netid_of w x = netid_of w r" by (simp add: has_netid_of)
    then show False
      using l that rin by (auto simp: lists_ok_def distinct_map dest: inj_onD)
  qed
  show ?thesis
  proof (cases "r \<in> set (mg_Local mg)")
    case False
    have "live w2 (mg_Local mg)"
      using lv(2) False by (auto simp: live_def w2_def h1)
    moreover have "find (has_netid w2 nid) (mg_Local mg) = None"
    proof -
      have "\<not> has_netid w2 nid x" if x: "x \<in> set (mg_Local mg)" for x
      proof -
        have ne: "x \<noteq> r" using False x by blast
        then have "has_netid w2 nid x = has_netid w nid x" using h2(1) by (simp add: has_netid_def)
        moreover have "x \<in> set (mg_Objects mg)" using x l by (auto simp: lists_ok_def)
        ultimately show ?thesis using others ne by simp
      qed
      then show ?thesis by (simp add: find_None_iff)
    qed
    ultimately have "FreeLocal A i m nid w = Inr w2"
      by (simp add: FreeLocal_def first) (simp add: FreeListEnt_def mg2 find_netid_eq)
    then show ?thesis
      using mg2 h2 h2r srv False by (simp add: remove1_idem)
  next
    case True
    have "1 \<le> count_list (mg_Local mg) r" using True count_list_0_iff [of "mg_Local mg" r] by (cases "count_list (mg_Local mg) r") auto
    then have "use_count w1 r \<noteq> 0"
      using use_count_manager [OF mg1, of r] by (simp add: manager_refs_def)
    then have w2: "w2 = w1" by (simp add: w2_def)
    have fl: "find (has_netid w nid) (mg_Local mg) = Some r"
    proof -
      obtain y where y: "find (has_netid w nid) (mg_Local mg) = Some y"
        using True rn by (cases "find (has_netid w nid) (mg_Local mg)") (auto simp: find_None_iff)
      then have "y \<in> set (mg_Objects mg)" "has_netid w nid y"
        using l by (auto simp: find_Some_iff lists_ok_def)
      with others y show ?thesis by blast
    qed
    define w3 where "w3 = upd_manager i m (\<lambda>mg. mg\<lparr>mg_Local := remove1 r (mg_Local mg)\<rparr>) w1"
    have mg3: "find_manager w3 i m = Some
        (mg\<lparr>mg_Objects := remove1 r (mg_Objects mg), mg_Local := remove1 r (mg_Local mg)\<rparr>)"
      by (simp add: w3_def find_manager_same [OF mg1])
    have h3: "w_heap w3 = w_heap w" "w_NextRef w3 = w_NextRef w" "w_Server w3 = w_Server w"
      "w_extern w3 = w_extern w" "w_Controlled w3 = w_Controlled w"
      by (simp_all add: w3_def w1_def frame_simps)
    define w4 where "w4 = (if use_count w3 r = 0 then w3\<lparr>w_heap := (w_heap w3)(r := None)\<rparr> else w3)"
    have rel3: "release A r w3 = Inr w4"
      unfolding w4_def by (rule release_client) (use ob srv h3 mg3 in auto)
    have "live w1 (mg_Local mg)" using lv(2) by (simp add: live_def h1)
    moreover have "find (has_netid w1 nid) (mg_Local mg) = Some r"
      using fl by (simp add: has_netid_of [abs_def] netid_of_def [abs_def] h1)
    ultimately have "FreeLocal A i m nid w = Inr w4"
      using rel3 by (simp add: FreeLocal_def first w2) (simp add: FreeListEnt_def mg1 find_netid_eq w3_def)
    moreover have "find_manager w4 i m = find_manager w3 i m" "w_NextRef w4 = w_NextRef w"
      "w_Server w4 = w_Server w" "\<forall>x. x \<noteq> r \<longrightarrow> w_heap w4 x = w_heap w x"
      "w_extern w4 = w_extern w" "w_Controlled w4 = w_Controlled w"
      "0 < w_extern w r \<longrightarrow> w_heap w4 r = w_heap w r"
      using held [OF _ h3(4)] by (auto simp: w4_def h3)
    ultimately show ?thesis using mg3 by simp
  qed
qed

lemma FreeLocal_law:
  assumes ok: "client_store i m w"
  shows "\<exists>w'. FreeLocal A i m nid w = Inr w' \<and> client_store i m w' \<and>
    object_lookup i m w' nid = Inr None \<and>
    (\<forall>nid'. nid' \<noteq> nid \<longrightarrow> object_lookup i m w' nid' = object_lookup i m w nid')"
proof -
  from ok obtain mg where mg: "find_manager w i m = Some mg" and srv: "\<not> w_Server w"
    and l: "lists_ok i m w (mg_Objects mg) (mg_Local mg)" by (rule client_storeE)
  show ?thesis
  proof (cases "find (\<lambda>r. netid_of w r = Some nid) (mg_Objects mg)")
    case None
    then have "object_lookup i m w nid = Inr None" by (simp add: lookup_client [OF mg l])
    with FreeLocal_absent [OF ok this] ok show ?thesis by blast
  next
    case (Some r)
    then have "object_lookup i m w nid = Inr (Some r)" by (simp add: lookup_client [OF mg l])
    from FreeLocal_present [OF ok mg this, of A] obtain w' where f: "FreeLocal A i m nid w = Inr w'"
      and mg': "find_manager w' i m = Some
        (mg\<lparr>mg_Objects := remove1 r (mg_Objects mg), mg_Local := remove1 r (mg_Local mg)\<rparr>)"
      and h: "\<forall>x. x \<noteq> r \<longrightarrow> w_heap w' x = w_heap w x"
      and n: "w_NextRef w' = w_NextRef w" "w_Server w' = w_Server w" by blast
    have rin: "r \<in> set (mg_Objects mg)" and rn: "netid_of w r = Some nid"
      using Some by (auto simp: find_Some_iff)
    have d: "distinct (mg_Objects mg)" using lists_ok_distinct [OF l] .
    have same: "netid_of w' x = netid_of w x" "object_in i m w' x = object_in i m w x"
      if "x \<noteq> r" for x
      using h that n by (simp_all add: netid_of_def object_in_def)
    have ne: "x \<noteq> r" if "x \<in> set (remove1 r (mg_Objects mg))" for x
      using that d by auto
    have dn: "distinct (map (netid_of w) (mg_Objects mg))" using l by (simp add: lists_ok_def)
    have mm: "map (netid_of w') (remove1 r (mg_Objects mg)) = map (netid_of w) (remove1 r (mg_Objects mg))"
      by (rule map_cong [OF refl]) (simp add: same(1) [OF ne])
    have dm: "distinct (map (netid_of w) (remove1 r (mg_Objects mg)))"
      using dn d by (auto simp: distinct_map intro: inj_on_subset)
    have l': "lists_ok i m w' (remove1 r (mg_Objects mg)) (remove1 r (mg_Local mg))"
      using l d dm unfolding lists_ok_def mm by (auto simp: same)
    have look: "object_lookup i m w' y =
        Inr (find (\<lambda>x. netid_of w' x = Some y) (remove1 r (mg_Objects mg)))" for y
      using lookup_client [OF mg'] l' by simp
    have "find (\<lambda>x. netid_of w' x = Some y) (remove1 r (mg_Objects mg)) =
        (if y = nid then None else find (\<lambda>x. netid_of w x = Some y) (mg_Objects mg))" for y
    proof -
      have "find (\<lambda>x. netid_of w' x = Some y) (remove1 r (mg_Objects mg)) =
          find (\<lambda>x. netid_of w x = Some y) (remove1 r (mg_Objects mg))"
        by (rule find_cong_set) (simp add: same(1) [OF ne])
      then show ?thesis using find_remove1 [OF dn rin, of "Some y"] rn by simp
    qed
    moreover have "client_store i m w'"
      using mg' l' srv n by (simp add: client_store_def)
    ultimately show ?thesis
      using f by (auto simp: look lookup_client [OF mg l])
  qed
qed

interpretation entities: entity_store "object_lookup i m" "insert_object A i m" "FreeLocal A i m"
    "client_store i m" for A i m
proof unfold_locales
  fix w nid assume "client_store i m w"
  then show "\<exists>x. object_lookup i m w nid = Inr x"
    by (auto elim!: client_storeE simp: lookup_client)
next
  fix w nid c assume "client_store i m w" and "object_lookup i m w nid = Inr None"
  then show "\<exists>r w'. insert_object A i m nid c w = Inr (r, w') \<and> client_store i m w' \<and>
      object_lookup i m w' nid = Inr (Some r) \<and>
      (\<forall>nid'. nid' \<noteq> nid \<longrightarrow> object_lookup i m w' nid' = object_lookup i m w nid')"
    by (rule insert_object_law)
next
  fix w nid assume "client_store i m w"
  then show "\<exists>w'. FreeLocal A i m nid w = Inr w' \<and> client_store i m w' \<and>
      object_lookup i m w' nid = Inr None \<and>
      (\<forall>nid'. nid' \<noteq> nid \<longrightarrow> object_lookup i m w' nid' = object_lookup i m w nid')"
    by (rule FreeLocal_law)
qed

end
