(* ===== verification/Virtual_Instance.thy ===== *)
theory Virtual_Instance
  imports Ent_Laws
begin

text \<open>
  Virtual instances (VirtualInstance.h, VirtualInstance.cpp): the managers of one world, its
  snapshot, its updates, and \<open>CEntities::Build\<close> (CEntities.h), which creates an object on the
  server and announces it with a snapshot of the instance.
\<close>

section \<open>Managers\<close>

definition instance_new :: "bytes \<Rightarrow> vinstance" where
  "instance_new nm =
     \<lparr>vi_Name = nm, vi_EntManagers = [], vi_SequenceID = 0, vi_PendingDeletes = []\<rparr>"

definition manager_new :: "nat \<Rightarrow> manager" where
  "manager_new T = \<lparr>mg_Name = [], mg_Objects = [], mg_Local = [], mg_Type = T, mg_cbCreate = None,
     mg_cbDelete = None\<rparr>"

text \<open>
  \<open>CreateManager\<close>: \<open>insert\<close> leaves an existing manager of that name in place; the new one is then
  reachable by nobody but the caller.
\<close>

definition CreateManager ::
  "nat \<Rightarrow> bytes \<Rightarrow> nat option \<Rightarrow> nat option \<Rightarrow> vinstance \<Rightarrow> (manager \<times> vinstance) res" where
  "CreateManager T nm callbackCreate callbackDelete vi =
     res_bind (SetName nm (manager_new T)) (\<lambda>mgr.
       let mgr1 = mgr\<lparr>mg_cbCreate := callbackCreate, mg_cbDelete := callbackDelete\<rparr>
       in Inr (mgr1,
            if get_manager vi nm = None
            then vi\<lparr>vi_EntManagers := vi_EntManagers vi @ [(nm, mgr1)]\<rparr> else vi))"

text \<open>\<open>DestroyEntityManager\<close> keeps the iterator \<open>find\<close> returned, also when it is \<open>end()\<close>.\<close>

definition DestroyEntityManager :: "bytes \<Rightarrow> vinstance \<Rightarrow> vinstance" where
  "DestroyEntityManager nm vi =
     vi\<lparr>vi_PendingDeletes := vi_PendingDeletes vi @
          [if get_manager vi nm = None then None else Some nm]\<rparr>"

section \<open>Snapshot of an instance\<close>

fun max_value_loop :: "size_t \<Rightarrow> bytes list \<Rightarrow> size_t" where
  "max_value_loop max_value [] = max_value"
| "max_value_loop max_value (b # bs) =
     max_value_loop (if max_value < vsize b then vsize b else max_value) bs"

fun snapshot_managers ::
  "app \<Rightarrow> (bytes \<times> manager) list \<Rightarrow> size_t \<Rightarrow> u16 \<Rightarrow> stream \<Rightarrow> bool \<Rightarrow> bool \<Rightarrow> world \<Rightarrow>
   (size_t \<times> u16 \<times> stream \<times> world) res" where
  "snapshot_managers A [] mx n s rel forced w = Inr (mx, n, s, w)"
| "snapshot_managers A ((_, mg) # ms) mx n s rel forced w =
     res_bind (GetSnapshot A mg mx n s rel forced w) (\<lambda>(mx1, n1, s1, w1).
       snapshot_managers A ms mx1 n1 s1 rel forced w1)"

definition DoSnapshot ::
  "app \<Rightarrow> bytes \<Rightarrow> stream \<Rightarrow> bool \<Rightarrow> bool \<Rightarrow> world \<Rightarrow> (stream \<times> world) res" where
  "DoSnapshot A i s rel forced w =
     (case get_instance w i of
        None \<Rightarrow> Inl Undefined
      | Some vi \<Rightarrow>
          let max_value = (if 1 < length (strm_data s) then max_value_loop 0 (strm_data s) else 0);
              num_updates = (of_nat (length (strm_data s)) :: u16) - 1
          in res_bind (snapshot_managers A (vi_EntManagers vi) max_value num_updates s rel forced w)
               (\<lambda>(mx, n, s1, w1).
                 if n = 0 then Inr (s1, w1)
                 else res_bind (header_generate s1 (vi_SequenceID vi) n mx) (\<lambda>s2. Inr (s2, w1))))"

section \<open>Updates of an instance\<close>

fun update_list_deltas :: "app \<Rightarrow> oref list \<Rightarrow> world \<Rightarrow> world res" where
  "update_list_deltas A [] w = Inr w"
| "update_list_deltas A (r # rs) w =
     res_bind (UpdateListDelta A r w) (\<lambda>w1. update_list_deltas A rs w1)"

definition all_refs :: "vinstance \<Rightarrow> oref list" where
  "all_refs vi = concat (map (\<lambda>(_, mg). mg_Objects mg) (vi_EntManagers vi))"

definition DoListUpdate :: "app \<Rightarrow> bytes \<Rightarrow> world \<Rightarrow> world res" where
  "DoListUpdate A i w =
     (case get_instance w i of
        None \<Rightarrow> Inl Undefined
      | Some vi \<Rightarrow> update_list_deltas A (all_refs vi) w)"

text \<open>
  Pending deletes: the manager is deleted, then its entry. Dereferencing \<open>end()\<close>, or an iterator
  whose entry is gone, is \<open>Undefined\<close>.
\<close>

fun process_deletes :: "app \<Rightarrow> bytes \<Rightarrow> bytes option list \<Rightarrow> world \<Rightarrow> world res" where
  "process_deletes A i [] w = Inr w"
| "process_deletes A i (None # ds) w = Inl Undefined"
| "process_deletes A i (Some nm # ds) w =
     res_bind (manager_destroy A i nm w) (\<lambda>w1.
       process_deletes A i ds
         (upd_instance i (\<lambda>vi. vi\<lparr>vi_EntManagers := adel nm (vi_EntManagers vi),
                                    vi_PendingDeletes := drop 1 (vi_PendingDeletes vi)\<rparr>) w1))"

fun post_update_managers :: "app \<Rightarrow> bytes \<Rightarrow> bytes list \<Rightarrow> world \<Rightarrow> world res" where
  "post_update_managers A i [] w = Inr w"
| "post_update_managers A i (nm # nms) w =
     res_bind (ent_PostUpdate A i nm w) (\<lambda>w1. post_update_managers A i nms w1)"

definition manager_names :: "world \<Rightarrow> bytes \<Rightarrow> bytes list" where
  "manager_names w i =
     (case get_instance w i of None \<Rightarrow> [] | Some vi \<Rightarrow> map fst (vi_EntManagers vi))"

definition DoPostUpdate :: "app \<Rightarrow> bytes \<Rightarrow> world \<Rightarrow> world res" where
  "DoPostUpdate A i w =
     res_bind (DoListUpdate A i w) (\<lambda>w1.
       case get_instance w1 i of
         None \<Rightarrow> Inl Undefined
       | Some vi \<Rightarrow>
           res_bind (process_deletes A i (vi_PendingDeletes vi) w1) (\<lambda>w2.
             post_update_managers A i (manager_names w2 i) w2))"

fun send_all_lists ::
  "app \<Rightarrow> bytes \<Rightarrow> (bytes \<times> manager) list \<Rightarrow> peer option \<Rightarrow> world \<Rightarrow> world res" where
  "send_all_lists A i [] pOwner w = Inr w"
| "send_all_lists A i ((_, mg) # ms) pOwner w =
     res_bind (SendObjectLists A i mg pOwner w) (\<lambda>w1. send_all_lists A i ms pOwner w1)"

definition SendAllObjectLists :: "app \<Rightarrow> bytes \<Rightarrow> peer option \<Rightarrow> world \<Rightarrow> world res" where
  "SendAllObjectLists A i pOwner w =
     (case get_instance w i of
        None \<Rightarrow> Inl Undefined
      | Some vi \<Rightarrow> send_all_lists A i (vi_EntManagers vi) pOwner w)"

fun instance_destroy_managers :: "app \<Rightarrow> bytes \<Rightarrow> bytes list \<Rightarrow> world \<Rightarrow> world res" where
  "instance_destroy_managers A i [] w = Inr w"
| "instance_destroy_managers A i (nm # nms) w =
     res_bind (manager_destroy A i nm w) (\<lambda>w1.
       instance_destroy_managers A i nms
         (upd_instance i (\<lambda>vi. vi\<lparr>vi_EntManagers := adel nm (vi_EntManagers vi)\<rparr>) w1))"

definition instance_destroy :: "app \<Rightarrow> bytes \<Rightarrow> world \<Rightarrow> world res" where
  "instance_destroy A i w = instance_destroy_managers A i (manager_names w i) w"

section \<open>Building an object on the server\<close>

definition send_if_modified :: "stream \<Rightarrow> peer option \<Rightarrow> world \<Rightarrow> (stream \<times> world) res" where
  "send_if_modified s pr w =
     (if stream_modified s then SendStream s True pr w else Inr (s, w))"

definition broadcast_if_modified :: "stream \<Rightarrow> bool \<Rightarrow> world \<Rightarrow> (stream \<times> world) res" where
  "broadcast_if_modified s reliable w =
     (if stream_modified s then BroadcastStream s reliable w else Inr (s, w))"

text \<open>The creation frame \<open>Build\<close> puts in front of the reliable snapshot.\<close>

definition creation_frame :: "app \<Rightarrow> bytes \<Rightarrow> manager \<Rightarrow> u32 \<Rightarrow> bytes res" where
  "creation_frame A i mg nid =
     res_bind (set_name (mg_Name mg) (set_frametype kFRAME_Alloc (entry_new (ap_junk A)))) (\<lambda>g2.
     res_bind (set_data (i @ [0]) (of_nat (length i + 1))
                 (set_controller NET_CONTROLLER_NONE (set_netid nid g2))) (\<lambda>creationUpdate.
       entry_write creationUpdate []))"

text \<open>
  \<open>Build\<close>. The identifier is consumed before the server check; the object that is then dropped is
  destroyed on a client, where \<open>FreeEntity\<close> does nothing. While the caller holds the result the
  object has an external reference.
\<close>

definition Build ::
  "app \<Rightarrow> bytes \<Rightarrow> bytes \<Rightarrow> peer option \<Rightarrow> world \<Rightarrow> (oref option \<times> world) res" where
  "Build A i m pOwner w =
     (case find_manager w i m of
        None \<Rightarrow> Inl Undefined
      | Some mg \<Rightarrow>
          let (nid, w1) = GetNextID w;
              ob = (SetController NET_CONTROLLER_LOCAL (SetNetID nid (ap_construct A (mg_Type mg))))
                     \<lparr>no_Instance := Some i, no_Manager := Some (i, m), no_Peer := pOwner\<rparr>
          in if \<not> w_Server w then Inr (None, w1)
             else
               let r = w_NextRef w1;
                   w2 = hold r (w1\<lparr>w_heap := (w_heap w1)(r := Some ob), w_NextRef := r + 1\<rparr>)
               in res_bind (creation_frame A i mg nid) (\<lambda>creationStreamNewObject.
                  res_bind (DoSnapshot A i (stream_push stream_new creationStreamNewObject) True False w2)
                    (\<lambda>(reliableStream, w3).
                  res_bind (DoSnapshot A i stream_new False False w3) (\<lambda>(unreliableStream, w4).
                  let w5 = upd_manager i m (\<lambda>mg. mg\<lparr>mg_Objects := mg_Objects mg @ [r]\<rparr>) w4
                  in res_bind (case pOwner of
                         None \<Rightarrow> Inr w5
                       | Some _ \<Rightarrow> SendObjectLists A i (mg\<lparr>mg_Objects := mg_Objects mg @ [r]\<rparr>) pOwner w5)
                     (\<lambda>w6.
                  res_bind (broadcast_if_modified reliableStream True w6) (\<lambda>(_, w7).
                  res_bind (broadcast_if_modified unreliableStream False w7) (\<lambda>(_, w8).
                  res_bind (case pOwner of
                      None \<Rightarrow> Inr w8
                    | Some p \<Rightarrow>
                        res_bind (DoSnapshot A i stream_new True True w8) (\<lambda>(rs, w9).
                        res_bind (DoSnapshot A i stream_new False True w9) (\<lambda>(us, w10).
                        res_bind (send_if_modified rs (Some p) w10) (\<lambda>(_, w11).
                        res_bind (send_if_modified us (Some p) w11) (\<lambda>(_, w12). Inr w12)))))
                    (\<lambda>w13.
                  let w14 = (case mg_cbCreate mg of None \<Rightarrow> w13 | Some n \<Rightarrow> ap_create A n r w13)
                  in Inr (Some r, ap_initialize A r w14)))))))))"

end
