(* ===== verification/Snapshot_Laws.thy ===== *)
theory Snapshot_Laws
  imports Virtual_Instance
begin

text \<open>
  What a snapshot of an instance is: the due frames of the local objects, manager by manager, in
  list order, behind the frames the stream already holds; their number and largest size; and the
  objects with their variables marked as sent. The functional description of the object snapshot in
  \<open>Net_Object\<close> is lifted to managers, instances and the packet.
\<close>

section \<open>Frames and state of a list of objects\<close>

definition obj_frames :: "bool \<Rightarrow> bool \<Rightarrow> net_object \<Rightarrow> bytes list" where
  "obj_frames rel forced ob =
     (if IsNetworkLocal ob then due_frames (no_NetCode ob) rel forced (no_Vars ob) else [])"

definition snap_obj :: "bool \<Rightarrow> bool \<Rightarrow> net_object \<Rightarrow> net_object" where
  "snap_obj rel forced ob =
     (if IsNetworkLocal ob then ob\<lparr>no_Vars := map (after_snapshot rel forced) (no_Vars ob)\<rparr> else ob)"

definition ref_frames :: "world \<Rightarrow> bool \<Rightarrow> bool \<Rightarrow> oref list \<Rightarrow> bytes list" where
  "ref_frames w rel forced rs =
     concat (map (\<lambda>r. case w_heap w r of None \<Rightarrow> [] | Some ob \<Rightarrow> obj_frames rel forced ob) rs)"

definition snap_world :: "oref list \<Rightarrow> bool \<Rightarrow> bool \<Rightarrow> world \<Rightarrow> world" where
  "snap_world rs rel forced w = w\<lparr>w_heap := (\<lambda>r.
     if r \<in> set rs then map_option (snap_obj rel forced) (w_heap w r) else w_heap w r)\<rparr>"

definition objects_ok :: "world \<Rightarrow> oref list \<Rightarrow> bool" where
  "objects_ok w rs \<longleftrightarrow> distinct rs \<and>
     (\<forall>r \<in> set rs. case w_heap w r of None \<Rightarrow> False | Some ob \<Rightarrow> object_ok ob)"

lemma snap_world_fields [frame_simps]:
  "w_Instances (snap_world rs rel f w) = w_Instances w"
  "w_Running (snap_world rs rel f w) = w_Running w"
  "w_Server (snap_world rs rel f w) = w_Server w"
  "w_PeerList (snap_world rs rel f w) = w_PeerList w"
  "w_Out (snap_world rs rel f w) = w_Out w"
  "w_NextRef (snap_world rs rel f w) = w_NextRef w"
  "w_Controlled (snap_world rs rel f w) = w_Controlled w"
  "w_extern (snap_world rs rel f w) = w_extern w"
  by (simp_all add: snap_world_def)

lemma snap_world_Nil [simp]: "snap_world [] rel f w = w"
  by (simp add: snap_world_def)

lemma snap_world_append:
  "set rs \<inter> set qs = {} \<Longrightarrow>
   snap_world qs rel f (snap_world rs rel f w) = snap_world (rs @ qs) rel f w"
  by (rule world.equality) (auto simp: snap_world_def fun_eq_iff)

lemma heap_snap_world:
  "w_heap (snap_world rs rel f w) r =
     (if r \<in> set rs then map_option (snap_obj rel f) (w_heap w r) else w_heap w r)"
  by (simp add: snap_world_def)

lemma snap_obj_ok [simp]: "object_ok (snap_obj rel f ob) = object_ok ob"
  by (simp add: snap_obj_def object_ok_def)

lemma snap_obj_kept [simp]:
  "no_NetCode (snap_obj rel f ob) = no_NetCode ob"
  "no_Controller (snap_obj rel f ob) = no_Controller ob"
  "no_Peer (snap_obj rel f ob) = no_Peer ob"
  "no_Manager (snap_obj rel f ob) = no_Manager ob"
  "no_Instance (snap_obj rel f ob) = no_Instance ob"
  "no_MapList (snap_obj rel f ob) = no_MapList ob"
  "IsNetworkLocal (snap_obj rel f ob) = IsNetworkLocal ob"
  by (simp_all add: snap_obj_def IsNetworkLocal_def)

lemma objects_ok_append:
  "objects_ok w (rs @ qs) \<longleftrightarrow> objects_ok w rs \<and> objects_ok w qs \<and> set rs \<inter> set qs = {}"
  by (auto simp: objects_ok_def)

lemma objects_ok_snap:
  "objects_ok w qs \<Longrightarrow> objects_ok (snap_world rs rel f w) qs"
  by (auto simp: objects_ok_def heap_snap_world split: option.splits)

lemma ref_frames_append: "ref_frames w rel f (rs @ qs) = ref_frames w rel f rs @ ref_frames w rel f qs"
  by (simp add: ref_frames_def)

lemma ref_frames_snap:
  assumes "set rs \<inter> set qs = {}"
  shows "ref_frames (snap_world rs rel f w) rel' f' qs = ref_frames w rel' f' qs"
proof -
  have "w_heap (snap_world rs rel f w) r = w_heap w r" if "r \<in> set qs" for r
    using assms that by (auto simp: heap_snap_world)
  then show ?thesis unfolding ref_frames_def by (auto intro!: arg_cong [of _ _ concat])
qed

lemma raise_max_append: "raise_max mx (fs @ gs) = raise_max (raise_max mx fs) gs"
  by (induction fs arbitrary: mx) auto

section \<open>Managers\<close>

lemma snapshot_objects_eq:
  assumes "objects_ok w rs"
  shows "snapshot_objects A rs mx n s rel forced w =
    Inr (raise_max mx (ref_frames w rel forced rs), n + of_nat (length (ref_frames w rel forced rs)),
         stream_extend s (ref_frames w rel forced rs), snap_world rs rel forced w)"
  using assms
proof (induction rs arbitrary: mx n s w)
  case Nil
  then show ?case by (simp add: ref_frames_def)
next
  case (Cons r rs)
  then obtain ob where ob: "w_heap w r = Some ob" "object_ok ob"
    by (auto simp: objects_ok_def split: option.splits)
  have tail: "objects_ok w rs" and r: "r \<notin> set rs" using Cons.prems by (auto simp: objects_ok_def)
  let ?w = "snap_world [r] rel forced w"
  have one: "ref_frames w rel forced (r # rs) = obj_frames rel forced ob @ ref_frames w rel forced rs"
    by (simp add: ref_frames_def ob)
  have w': "snap_world (r # rs) rel forced w = snap_world rs rel forced ?w"
    using snap_world_append [of "[r]" rs rel forced w] r by simp
  have fr: "ref_frames ?w rel forced rs = ref_frames w rel forced rs"
    using r by (intro ref_frames_snap) simp
  have IH: "snapshot_objects A rs mx n s rel forced ?w =
      Inr (raise_max mx (ref_frames w rel forced rs), n + of_nat (length (ref_frames w rel forced rs)),
        stream_extend s (ref_frames w rel forced rs), snap_world (r # rs) rel forced w)" for mx n s
    using Cons.IH [OF objects_ok_snap [OF tail, of "[r]" rel forced]] by (simp add: fr w')
  show ?case
  proof (cases "IsNetworkLocal ob")
    case True
    have "upd_object r (\<lambda>_. ob\<lparr>no_Vars := map (after_snapshot rel forced) (no_Vars ob)\<rparr>) w = ?w"
      using ob True by (intro world.equality) (auto simp: snap_world_def upd_object_def fun_eq_iff snap_obj_def)
    with True ob IH show ?thesis
      by (simp add: deref_def TakeObjectSnapshot_eq one obj_frames_def raise_max_append add.assoc)
  next
    case False
    have "?w = w" using ob False by (intro world.equality) (auto simp: snap_world_def snap_obj_def fun_eq_iff)
    with False ob IH show ?thesis by (simp add: deref_def one obj_frames_def)
  qed
qed

lemma snapshot_managers_eq:
  assumes "w_Running w" and "objects_ok w (concat (map (\<lambda>(_, mg). mg_Objects mg) ms))"
  shows "snapshot_managers A ms mx n s rel forced w =
    (let rs = concat (map (\<lambda>(_, mg). mg_Objects mg) ms); fs = ref_frames w rel forced rs
     in Inr (raise_max mx fs, n + of_nat (length fs), stream_extend s fs, snap_world rs rel forced w))"
  using assms
proof (induction ms arbitrary: mx n s w)
  case Nil
  then show ?case by (simp add: ref_frames_def)
next
  case (Cons m ms)
  obtain nm mg where m: "m = (nm, mg)" by (cases m)
  let ?qs = "concat (map (\<lambda>(_, mg). mg_Objects mg) ms)"
  from Cons.prems m have ok: "objects_ok w (mg_Objects mg)" "objects_ok w ?qs"
    and dj: "set (mg_Objects mg) \<inter> set ?qs = {}"
    by (simp_all add: objects_ok_append)
  show ?case
    using Cons.IH [of "snap_world (mg_Objects mg) rel forced w"] Cons.prems(1)
    by (simp add: m GetSnapshot_def snapshot_objects_eq [OF ok(1)] objects_ok_snap [OF ok(2)]
        frame_simps ref_frames_snap [OF dj] snap_world_append [OF dj] ref_frames_append
        raise_max_append add.assoc Let_def)
qed

lemma snapshot_stopped:
  "\<not> w_Running w \<Longrightarrow> snapshot_managers A ms mx n s rel forced w = Inr (mx, n, s, w)"
  by (induction ms) (auto simp: GetSnapshot_def)

section \<open>Instances\<close>

lemma max_value_loop_eq: "max_value_loop mx bs = raise_max mx bs"
  by (induction bs arbitrary: mx) auto

definition stream_max :: "stream \<Rightarrow> size_t" where
  "stream_max s = (if 1 < length (strm_data s) then raise_max 0 (strm_data s) else 0)"

definition instance_frames :: "world \<Rightarrow> bool \<Rightarrow> bool \<Rightarrow> vinstance \<Rightarrow> bytes list" where
  "instance_frames w rel forced vi = ref_frames w rel forced (all_refs vi)"

lemma DoSnapshot_eq:
  assumes "get_instance w i = Some vi" and "w_Running w" and "objects_ok w (all_refs vi)"
  shows "DoSnapshot A i s rel forced w =
    (let fs = instance_frames w rel forced vi;
         n = (of_nat (length (strm_data s)) :: u16) - 1 + of_nat (length fs);
         s' = stream_extend s fs; w' = snap_world (all_refs vi) rel forced w
     in if n = 0 then Inr (s', w')
        else res_bind (header_generate s' (vi_SequenceID vi) n (raise_max (stream_max s) fs))
               (\<lambda>s2. Inr (s2, w')))"
  using assms
  by (simp add: DoSnapshot_def snapshot_managers_eq all_refs_def instance_frames_def Let_def
      stream_max_def max_value_loop_eq)

text \<open>
  The packet of a fresh stream: the header announces the number of frames and the size each of them
  is padded to.
\<close>

definition snapshot_packet :: "u32 \<Rightarrow> size_t \<Rightarrow> bytes list \<Rightarrow> bytes" where
  "snapshot_packet sq mx fs =
     header_image \<lparr>hd_message_code = OBJECT_FRAME, hd_count = of_nat (length fs), hd_sequence = sq,
        hd_max_message_length = mx\<rparr> @ concat (map (pad_buffer mx) fs)"

lemma DoSnapshot_fresh:
  assumes "get_instance w i = Some vi" and "w_Running w" and "objects_ok w (all_refs vi)"
    and fs: "instance_frames w rel forced vi = fs" "fs \<noteq> []" "length fs < 2 ^ 16"
  shows "\<exists>s'. DoSnapshot A i stream_new rel forced w = Inr (s', snap_world (all_refs vi) rel forced w) \<and>
    stream_modified s' \<and> \<not> strm_Finished s' \<and>
    stream_result s' = Inr (snapshot_packet (vi_SequenceID vi) (raise_max 0 fs) fs,
      \<lparr>strm_data = snapshot_packet (vi_SequenceID vi) (raise_max 0 fs) fs #
         map (pad_buffer (raise_max 0 fs)) fs, strm_Finished = True\<rparr>)"
proof -
  have n: "(of_nat (length fs) :: u16) \<noteq> 0"
    using fs(2,3) by (intro of_nat_u16_nonzero) simp_all
  let ?s = "stream_extend stream_new fs"
  have data: "strm_data ?s = [] # fs" "\<not> strm_Finished ?s"
    by (simp_all add: stream_new_def)
  let ?mx = "raise_max 0 fs"
  let ?h = "header_image \<lparr>hd_message_code = OBJECT_FRAME, hd_count = of_nat (length fs),
      hd_sequence = vi_SequenceID vi, hd_max_message_length = ?mx\<rparr>"
  have gen: "header_generate ?s (vi_SequenceID vi) (of_nat (length fs)) ?mx =
      Inr (?s\<lparr>strm_data := ?h # map (pad_buffer ?mx) fs\<rparr>)"
    using header_generate_eq [OF data(1)] by simp
  have "stream_max stream_new = 0" by (simp add: stream_max_def stream_new_def)
  then have "DoSnapshot A i stream_new rel forced w =
      Inr (?s\<lparr>strm_data := ?h # map (pad_buffer ?mx) fs\<rparr>, snap_world (all_refs vi) rel forced w)"
    using DoSnapshot_eq [OF assms(1-3), of A stream_new rel forced] n gen
    by (simp add: fs(1) Let_def stream_new_def)
  moreover have "stream_modified (?s\<lparr>strm_data := ?h # map (pad_buffer ?mx) fs\<rparr>)"
    using fs(2) by (cases fs) (simp_all add: stream_modified_def)
  ultimately show ?thesis
    using data(2) by (simp add: stream_result_first snapshot_packet_def)
qed

text \<open>Nothing is sent when nothing is due.\<close>

lemma DoSnapshot_quiet:
  assumes "get_instance w i = Some vi" and "w_Running w" and "objects_ok w (all_refs vi)"
    and "instance_frames w rel forced vi = []"
  shows "DoSnapshot A i stream_new rel forced w = Inr (stream_new, snap_world (all_refs vi) rel forced w)"
  using DoSnapshot_eq [OF assms(1-3), of A stream_new rel forced] assms(4)
  by (simp add: Let_def stream_new_def)

text \<open>After a snapshot of one reliability no variable of that reliability is due.\<close>

lemma instance_frames_after:
  assumes "set (all_refs vi) \<subseteq> set rs"
  shows "instance_frames (snap_world rs rel forced w) rel False vi = []"
proof -
  have "obj_frames rel False (snap_obj rel forced ob) = []" for ob
    by (auto simp: obj_frames_def snap_obj_def due_frames_def filter_empty_conv after_snapshot_not_due
        IsNetworkLocal_def)
  then show ?thesis
    using assms by (auto simp: instance_frames_def ref_frames_def heap_snap_world split: option.splits)
qed

end
