(* ===== verification/Net_System.thy ===== *)
theory Net_System
  imports Snapshot_Laws
begin

text \<open>
  \<open>NetSystem\<close> (NetSystem.h, NetSystem.cpp): the controller both sides share. The events ENet
  delivers are the input of the network loop; the handlers of the two sides come in as arguments
  and are tied together in \<open>Net_Sides\<close>.
\<close>

section \<open>Construction and callbacks\<close>

definition on :: "u16 \<Rightarrow> handler \<Rightarrow> world \<Rightarrow> world" where
  "on code callback w =
     (let cbs = (if map_of (w_Callbacks w) code = None then aput code [] (w_Callbacks w)
                 else w_Callbacks w)
      in w\<lparr>w_Callbacks := amap code (\<lambda>l. l @ [callback]) cbs\<rparr>)"

definition on_enet :: "event_type \<Rightarrow> event_handler \<Rightarrow> world \<Rightarrow> world" where
  "on_enet evt callback w =
     (let cbs = (if map_of (w_EventCallbacks w) evt = None then aput evt [] (w_EventCallbacks w)
                 else w_EventCallbacks w)
      in w\<lparr>w_EventCallbacks := amap evt (\<lambda>l. l @ [callback]) cbs\<rparr>)"

definition bind_controller :: "world \<Rightarrow> world" where
  "bind_controller w =
     on internal_evt_list_remove H_List_Remove
       (on internal_evt_list_data H_List_Update (on internal_evt_list_add H_List_Add w))"

text \<open>
  The constructor; \<open>server\<close> is what the subclass sets, \<open>tot\<close> the process-wide counter. No initialiser sets
  \<open>m_pHost\<close>: \<open>host\<close> is whether the memory it occupies happens to hold something else than null.
\<close>

definition NetSystem_new :: "bool \<Rightarrow> bool \<Rightarrow> u32 \<Rightarrow> world" where
  "NetSystem_new host server tot = bind_controller
     \<lparr>w_heap = (\<lambda>_. None), w_extern = (\<lambda>_. 0), w_Instances = [], w_Controlled = [],
      w_Running = False, w_Server = server, w_Connected = False, w_ShuttingDown = False,
      w_Host = host, w_Thread = Some (thread_new True), w_SyncThread = Some (thread_new True), w_PeerList = [], w_Callbacks = [], w_EventCallbacks = [],
      w_TotalEntities = tot, w_NextRef = 0, w_Out = []\<rparr>"

section \<open>Instances\<close>

definition DeleteInstance :: "app \<Rightarrow> bytes \<Rightarrow> world \<Rightarrow> world res" where
  "DeleteInstance A nm w =
     (case get_instance w nm of
        None \<Rightarrow> Inr w
      | Some _ \<Rightarrow> res_bind (instance_destroy A nm w) (\<lambda>w1.
          Inr (w1\<lparr>w_Instances := adel nm (w_Instances w1)\<rparr>)))"

text \<open>\<open>m_Instances[name] = ...\<close> destroys an instance that had the name.\<close>

definition CreateInstance :: "app \<Rightarrow> bytes \<Rightarrow> world \<Rightarrow> world res" where
  "CreateInstance A nm w =
     res_bind (case get_instance w nm of None \<Rightarrow> Inr w | Some _ \<Rightarrow> instance_destroy A nm w) (\<lambda>w1.
       Inr (w1\<lparr>w_Instances := aput nm (instance_new nm) (w_Instances w1)\<rparr>))"

definition GetInstance :: "bytes \<Rightarrow> world \<Rightarrow> vinstance option" where
  "GetInstance nm w = get_instance w nm"

definition GetInstances :: "world \<Rightarrow> (bytes \<times> vinstance) list" where
  "GetInstances w = w_Instances w"

section \<open>Receiving an update frame\<close>

text \<open>\<open>strcmp(a, b) == 0\<close> over the memory behind two pointers.\<close>

fun strcmp_equal :: "bytes \<Rightarrow> bytes \<Rightarrow> bool res" where
  "strcmp_equal (a # as) (b # bs) =
     (if a \<noteq> b then Inr False else if a = 0 then Inr True else strcmp_equal as bs)"
| "strcmp_equal [] _ = Inl Undefined"
| "strcmp_equal _ [] = Inl Undefined"

fun find_var :: "netvar list \<Rightarrow> bytes \<Rightarrow> nat \<Rightarrow> nat option res" where
  "find_var [] nm j = Inr None"
| "find_var (v # vs) nm j =
     res_bind (strcmp_equal (nv_Name v @ [0]) nm) (\<lambda>eq.
       if eq then Inr (Some j) else find_var vs nm (Suc j))"

definition ReadEntityUpdate :: "entry \<Rightarrow> peer option \<Rightarrow> world \<Rightarrow> world res" where
  "ReadEntityUpdate frame owner w =
     (let queryID = get_netid frame
      in res_bind (find_in_instances w (w_Instances w) queryID) (\<lambda>target.
         case target of
           None \<Rightarrow> Inr w
         | Some r \<Rightarrow>
             res_bind (deref w r) (\<lambda>ob.
               if owner \<noteq> None \<and> no_Peer ob \<noteq> owner then Inr w
               else res_bind (find_var (no_Vars ob) (get_name frame) 0) (\<lambda>pVar.
                 case pVar of
                   None \<Rightarrow> Inr w
                 | Some j \<Rightarrow>
                     if IsNetworkLocal ob \<and> \<not> get_forced frame then Inr w
                     else
                       let sequence_id = get_sequence frame; v = no_Vars ob ! j
                       in if CheckSequence v sequence_id
                          then res_bind (Set_raw (get_data frame) 0 (SetSequence sequence_id v)) (\<lambda>v1.
                                 Inr (upd_object r (\<lambda>ob. ob\<lparr>no_Vars := (no_Vars ob)[j := v1]\<rparr>) w))
                          else Inr w))))"

section \<open>Snapshots and updates\<close>

definition send_snapshot :: "stream \<Rightarrow> world \<Rightarrow> (stream \<times> world) res" where
  "send_snapshot s w =
     (if stream_modified s
      then if w_Server w then BroadcastStream s True w else SendStream s True None w
      else Inr (s, w))"

text \<open>The first loop of \<open>SnapshotUpdate\<close>: one pair of streams serves every instance.\<close>

fun snapshot_instances :: "app \<Rightarrow> bytes list \<Rightarrow> stream \<Rightarrow> stream \<Rightarrow> world \<Rightarrow> world res" where
  "snapshot_instances A [] reliableStream unreliableStream w = Inr w"
| "snapshot_instances A (i # is) reliableStream unreliableStream w =
     res_bind (DoSnapshot A i reliableStream True False w) (\<lambda>(r1, w1).
     res_bind (DoSnapshot A i unreliableStream False False w1) (\<lambda>(u1, w2).
     res_bind (send_snapshot r1 w2) (\<lambda>(r2, w3).
     res_bind (send_snapshot u1 w3) (\<lambda>(u2, w4).
       snapshot_instances A is r2 u2 w4))))"

fun post_update_instances :: "app \<Rightarrow> bytes list \<Rightarrow> world \<Rightarrow> world res" where
  "post_update_instances A [] w = Inr w"
| "post_update_instances A (i # is) w =
     res_bind (DoPostUpdate A i w) (\<lambda>w1. post_update_instances A is w1)"

definition SnapshotUpdate :: "app \<Rightarrow> world \<Rightarrow> world res" where
  "SnapshotUpdate A w =
     res_bind (snapshot_instances A (map fst (w_Instances w)) stream_new stream_new w) (\<lambda>w1.
     res_bind (post_update_instances A (map fst (w_Instances w1)) w1) (\<lambda>w2.
       Inr (ap_post_update A w2)))"

text \<open>\<open>ControllerUpdate\<close> has the same body on the client and on the server.\<close>

definition ControllerUpdate :: "app \<Rightarrow> world \<Rightarrow> world res" where
  "ControllerUpdate A w =
     res_bind (post_update_instances A (map fst (w_Instances w)) w) (\<lambda>w1. Inr (ap_post_update A w1))"

definition Update :: "app \<Rightarrow> world \<Rightarrow> world res" where
  "Update A w =
     (if \<not> w_Running w then Inr w
      else res_bind (SnapshotUpdate A w) (\<lambda>w1. ControllerUpdate A w1))"

section \<open>Starting and stopping\<close>

text \<open>\<open>net\<close> and \<open>sync\<close> are whether the system creates the two threads.\<close>

definition Start :: "bool \<Rightarrow> bool \<Rightarrow> world \<Rightarrow> world" where
  "Start net sync w =
     (let w1 = w\<lparr>w_Running := True\<rparr>;
          w2 = w1\<lparr>w_Thread := map_option (\<lambda>t. snd (thread_Start net t)) (w_Thread w1)\<rparr>
      in w2\<lparr>w_SyncThread := map_option (\<lambda>t. snd (thread_Start sync t)) (w_SyncThread w2)\<rparr>)"

definition NETTIK_DISCONNECT_SHUTDOWN :: u32 where "NETTIK_DISCONNECT_SHUTDOWN = 0xFFFF"

fun disconnect_all :: "peer list \<Rightarrow> world \<Rightarrow> world" where
  "disconnect_all [] w = w"
| "disconnect_all (p # ps) w =
     disconnect_all ps ((transport (Peer_Disconnect_Now p NETTIK_DISCONNECT_SHUTDOWN) w)
       \<lparr>w_PeerList := ps\<rparr>)"

text \<open>
  \<open>delete\<close> of a thread object, by a caller that runs on that very thread or not: the destructor terminates
  the thread, and with it a caller on it, before the memory is freed and the pointer is reset. The first
  component says whether the caller goes on.
\<close>

definition delete_thread :: "bool \<Rightarrow> net_thread option \<Rightarrow> bool \<times> net_thread option" where
  "delete_thread own p =
     (case p of
        None \<Rightarrow> (True, None)
      | Some t \<Rightarrow>
          let (terminated, t') = thread_destroy t
          in if terminated \<and> own then (False, Some t') else (True, None))"

text \<open>\<open>Stop\<close>, called from one of the controller's two threads or from elsewhere.\<close>

datatype calling_thread = Network_Thread | Sync_Thread | Elsewhere

definition Stop_on :: "calling_thread \<Rightarrow> world \<Rightarrow> bool \<times> world" where
  "Stop_on c w =
     (if \<not> w_Running w then (True, w)
      else
        let w1 = w\<lparr>w_ShuttingDown := True\<rparr>;
            (on1, t1) = delete_thread (c = Network_Thread) (w_Thread w1);
            w2 = w1\<lparr>w_Thread := t1\<rparr>
        in if \<not> on1 then (False, w2)
           else
             let (on2, t2) = delete_thread (c = Sync_Thread) (w_SyncThread w2);
                 w3 = w2\<lparr>w_SyncThread := t2\<rparr>
             in if \<not> on2 then (False, w3)
                else
                  let w4 = w3\<lparr>w_Running := False, w_Connected := False\<rparr>;
                      w5 = disconnect_all (w_PeerList w4) w4;
                      w6 = (if w_Host w5 then (transport Host_Destroy w5)\<lparr>w_Host := False\<rparr> else w5)
                  in (True, w6\<lparr>w_ShuttingDown := False\<rparr>))"

definition Stop :: "world \<Rightarrow> world" where
  "Stop w = snd (Stop_on Elsewhere w)"

lemma delete_thread_elsewhere [simp]: "delete_thread False p = (True, None)"
  by (simp add: delete_thread_def split: option.split prod.split)

section \<open>The network loop\<close>

fun run_handlers ::
  "(handler \<Rightarrow> bytes \<Rightarrow> peer option \<Rightarrow> world \<Rightarrow> world res) \<Rightarrow> handler list \<Rightarrow> bytes \<Rightarrow>
   peer option \<Rightarrow> world \<Rightarrow> world res" where
  "run_handlers run [] data pr w = Inr w"
| "run_handlers run (h # hs) data pr w =
     res_bind (run h data pr w) (\<lambda>w1. run_handlers run hs data pr w1)"

definition ProcessRecv ::
  "(handler \<Rightarrow> bytes \<Rightarrow> peer option \<Rightarrow> world \<Rightarrow> world res) \<Rightarrow> bytes \<Rightarrow> peer option \<Rightarrow> world \<Rightarrow>
   world res" where
  "ProcessRecv run data pr w =
     (if \<not> w_Running w then Inr w
      else if length data < 2 then Inl Nettik_Exception
      else case map_of (w_Callbacks w) (of_le16 (take 2 data)) of
             None \<Rightarrow> Inr w
           | Some hs \<Rightarrow> run_handlers run hs data pr w)"

fun run_event_handlers ::
  "(event_handler \<Rightarrow> peer option \<Rightarrow> world \<Rightarrow> (bool \<times> world) res) \<Rightarrow> event_handler list \<Rightarrow>
   peer option \<Rightarrow> world \<Rightarrow> (bool \<times> world) res" where
  "run_event_handlers run [] pr w = Inr (True, w)"
| "run_event_handlers run (h # hs) pr w =
     res_bind (run h pr w) (\<lambda>(alive, w1).
       if \<not> alive then Inr (False, w1) else run_event_handlers run hs pr w1)"

definition FireEvent ::
  "(event_handler \<Rightarrow> peer option \<Rightarrow> world \<Rightarrow> (bool \<times> world) res) \<Rightarrow> event_type \<Rightarrow> peer option \<Rightarrow>
   world \<Rightarrow> (bool \<times> world) res" where
  "FireEvent run evt pr w =
     (if \<not> w_Running w then Inr (True, w)
      else case map_of (w_EventCallbacks w) evt of
             None \<Rightarrow> Inr (True, w)
           | Some hs \<Rightarrow> run_event_handlers run hs pr w)"

text \<open>An event of \<open>enet_host_service\<close>: its type, its peer and the packet's bytes.\<close>

record net_event =
  ev_type :: event_type
  ev_peer :: peer
  ev_data :: bytes

definition process_event ::
  "(handler \<Rightarrow> bytes \<Rightarrow> peer option \<Rightarrow> world \<Rightarrow> world res) \<Rightarrow> net_event \<Rightarrow> world \<Rightarrow> world res" where
  "process_event run e w =
     (case ev_type e of
        EVENT_CONNECT \<Rightarrow> Inr (w\<lparr>w_PeerList := w_PeerList w @ [ev_peer e], w_Connected := True\<rparr>)
      | EVENT_DISCONNECT \<Rightarrow>
          Inr (w\<lparr>w_PeerList := remove1 (ev_peer e) (w_PeerList w), w_Connected := False\<rparr>)
      | EVENT_RECEIVE \<Rightarrow> ProcessRecv run (ev_data e) (Some (ev_peer e)) w)"

fun process_events ::
  "(handler \<Rightarrow> bytes \<Rightarrow> peer option \<Rightarrow> world \<Rightarrow> world res) \<Rightarrow>
   (event_handler \<Rightarrow> peer option \<Rightarrow> world \<Rightarrow> (bool \<times> world) res) \<Rightarrow> net_event list \<Rightarrow> world \<Rightarrow>
   (bool \<times> world) res" where
  "process_events run runev [] w = Inr (True, w)"
| "process_events run runev (e # es) w =
     (if \<not> (w_Host w \<and> w_Running w) then Inr (True, w)
      else res_bind (FireEvent runev (ev_type e) (Some (ev_peer e)) w) (\<lambda>(alive, w1).
             if \<not> alive then Inr (False, w1)
             else res_bind (process_event run e w1) (\<lambda>w2. process_events run runev es w2)))"

definition ProcessNetStack ::
  "(handler \<Rightarrow> bytes \<Rightarrow> peer option \<Rightarrow> world \<Rightarrow> world res) \<Rightarrow>
   (event_handler \<Rightarrow> peer option \<Rightarrow> world \<Rightarrow> (bool \<times> world) res) \<Rightarrow> net_event list \<Rightarrow> world \<Rightarrow>
   (bool \<times> world) res" where
  "ProcessNetStack run runev events w =
     (if \<not> w_Running w then Inr (True, w) else process_events run runev events w)"

section \<open>The end of the controller\<close>

fun destroy_instances :: "app \<Rightarrow> bytes list \<Rightarrow> world \<Rightarrow> world res" where
  "destroy_instances A [] w = Inr w"
| "destroy_instances A (i # is) w =
     res_bind (DeleteInstance A i w) (\<lambda>w1. destroy_instances A is w1)"

definition NetSystem_destroy :: "app \<Rightarrow> world \<Rightarrow> world res" where
  "NetSystem_destroy A w =
     destroy_instances A (map fst (w_Instances w))
       (w\<lparr>w_Callbacks := [], w_EventCallbacks := []\<rparr>)"

end
