(* ===== verification/Net_Sides.thy ===== *)
theory Net_Sides
  imports Net_System
begin

text \<open>
  The two sides: \<open>NetSystemClient\<close> (NetSystemClient.h, NetSystemClient.cpp) and
  \<open>NetSystemServer\<close> (NetSystemServer.h, NetSystemServer.cpp), their handlers of received packets,
  and the dispatch that ties the callbacks of \<open>NetSystem\<close> to them.
\<close>

section \<open>Creation and deletion frames\<close>

text \<open>The manager a creation or deletion frame names.\<close>

definition frame_manager :: "entry \<Rightarrow> world \<Rightarrow> (bytes \<times> bytes \<times> manager) res" where
  "frame_manager frame w =
     res_bind (c_str (get_data frame)) (\<lambda>instance_name.
       case get_instance w instance_name of
         None \<Rightarrow> Inl Nettik_Exception
       | Some vi \<Rightarrow>
           res_bind (c_str (get_name frame)) (\<lambda>manager_name.
             case get_manager vi manager_name of
               None \<Rightarrow> Inl Nettik_Exception
             | Some mg \<Rightarrow> Inr (instance_name, manager_name, mg)))"

text \<open>\<open>m_ControlledObjects[netID] = instance\<close> lets go of what the entry held before.\<close>

definition set_controlled :: "app \<Rightarrow> u32 \<Rightarrow> oref \<Rightarrow> world \<Rightarrow> world res" where
  "set_controlled A netID r w =
     (let old = map_of (w_Controlled w) netID;
          w1 = w\<lparr>w_Controlled := aput netID r (w_Controlled w)\<rparr>
      in case old of None \<Rightarrow> Inr w1 | Some q \<Rightarrow> release A q w1)"

definition EntAllocate :: "app \<Rightarrow> entry \<Rightarrow> world \<Rightarrow> world res" where
  "EntAllocate A frame w =
     (let netID = get_netid frame; controller = get_controller frame
      in res_bind (frame_manager frame w) (\<lambda>(i, m, manager).
         res_bind (GetByNetID w manager netID) (\<lambda>known.
           case known of
             Some _ \<Rightarrow> Inr w
           | None \<Rightarrow>
               res_bind (BuildLocal A i m netID controller w) (\<lambda>(r, w1).
                 if controller = NET_CONTROLLER_LOCAL then set_controlled A netID r w1 else Inr w1))))"

text \<open>The found object is held by the handler until it returns.\<close>

definition EntDeallocate :: "app \<Rightarrow> entry \<Rightarrow> world \<Rightarrow> world res" where
  "EntDeallocate A frame w =
     (let netID = get_netid frame
      in res_bind (frame_manager frame w) (\<lambda>(i, m, manager).
         res_bind (GetByNetID w manager netID) (\<lambda>object.
           case object of
             None \<Rightarrow> Inr w
           | Some r \<Rightarrow>
               res_bind (deref w r) (\<lambda>ob.
               let w1 = hold r w;
                   erased = IsNetworkLocal ob \<and> map_of (w_Controlled w1) netID \<noteq> None;
                   old = map_of (w_Controlled w1) netID;
                   w2 = (if erased then w1\<lparr>w_Controlled := adel netID (w_Controlled w1)\<rparr> else w1)
               in res_bind (case (erased, old) of
                      (True, Some q) \<Rightarrow> release A q w2
                    | _ \<Rightarrow> Inr w2) (\<lambda>w3.
                  res_bind (FreeLocal A i m netID w3) (\<lambda>w4.
                    release A r (unhold r w4)))))))"

section \<open>Received snapshots\<close>

definition snapshot_header :: "bytes \<Rightarrow> header_data res" where
  "snapshot_header data = header_read data (vsize data)"

definition sizes_match :: "header_data \<Rightarrow> bytes \<Rightarrow> bool" where
  "sizes_match h data \<longleftrightarrow>
     vsize data - of_nat sizeof_header = ucast (hd_count h) * hd_max_message_length h"

definition client_frame :: "app \<Rightarrow> entry \<Rightarrow> world \<Rightarrow> world res" where
  "client_frame A frame w =
     (if get_frametype frame = kFRAME_Data then ReadEntityUpdate frame None w
      else if get_frametype frame = kFRAME_Alloc then EntAllocate A frame w
      else if get_frametype frame = kFRAME_Dealloc then EntDeallocate A frame w
      else Inl Nettik_Exception)"

definition server_frame :: "peer option \<Rightarrow> entry \<Rightarrow> world \<Rightarrow> world res" where
  "server_frame pr frame w =
     (if get_frametype frame = kFRAME_Data then ReadEntityUpdate frame pr w else Inr w)"

text \<open>
  The loop over the announced number of frames, each \<open>max_size\<close> bytes further; \<open>memory\<close> is the
  packet's memory, \<open>cursor\<close> the offset of \<open>partition\<close> in it.
\<close>

fun frame_loop ::
  "u32 \<Rightarrow> (entry \<Rightarrow> world \<Rightarrow> world res) \<Rightarrow> bytes \<Rightarrow> nat \<Rightarrow> size_t \<Rightarrow> nat \<Rightarrow> world \<Rightarrow> world res" where
  "frame_loop junk f memory cursor max_size 0 w = Inr w"
| "frame_loop junk f memory cursor max_size (Suc n) w =
     res_bind (read_data (entry_new junk) (drop cursor memory) max_size) (\<lambda>frame.
     res_bind (f frame w) (\<lambda>w1.
       frame_loop junk f memory (cursor + unat max_size) max_size n w1))"

definition HandleEntSnapshot :: "app \<Rightarrow> bytes \<Rightarrow> world \<Rightarrow> world res" where
  "HandleEntSnapshot A data w =
     res_bind (snapshot_header data) (\<lambda>header.
       if \<not> sizes_match header data then Inr w
       else frame_loop (ap_junk A) (client_frame A) data sizeof_header
              (hd_max_message_length header) (unat (hd_count header)) w)"

definition HandleClientEntSnapshot :: "app \<Rightarrow> bytes \<Rightarrow> peer option \<Rightarrow> world \<Rightarrow> world res" where
  "HandleClientEntSnapshot A data pr w =
     res_bind (snapshot_header data) (\<lambda>header.
       if \<not> sizes_match header data then Inr w
       else frame_loop (ap_junk A) (server_frame pr) data sizeof_header
              (hd_max_message_length header) (unat (hd_count header)) w)"

text \<open>The ownership list is read, one byte of each identifier, and not used.\<close>

fun read_ownership :: "bytes \<Rightarrow> nat \<Rightarrow> nat \<Rightarrow> u32 list res" where
  "read_ownership memory cursor 0 = Inr []"
| "read_ownership memory cursor (Suc n) =
     res_bind (peek memory cursor) (\<lambda>b.
     res_bind (read_ownership memory (cursor + 4) n) (\<lambda>rest. Inr (ucast b # rest)))"

definition HandleEntOwnership :: "bytes \<Rightarrow> world \<Rightarrow> world res" where
  "HandleEntOwnership data w =
     res_bind (snapshot_header data) (\<lambda>header.
       if (4 :: size_t) * ucast (hd_count header) \<noteq> vsize data - of_nat sizeof_header then Inr w
       else res_bind (read_ownership data sizeof_header (unat (hd_count header))) (\<lambda>_. Inr w))"

section \<open>Welcoming a peer\<close>

text \<open>The handler \<open>Listen\<close> binds to the connect event, over the instances with shared streams.\<close>

fun send_world ::
  "app \<Rightarrow> peer option \<Rightarrow> bytes list \<Rightarrow> stream \<Rightarrow> stream \<Rightarrow> world \<Rightarrow> world res" where
  "send_world A pr [] reliableStream unreliableStream w = Inr w"
| "send_world A pr (i # is) reliableStream unreliableStream w =
     res_bind (SendAllObjectLists A i pr w) (\<lambda>w1.
     res_bind (DoSnapshot A i reliableStream True True w1) (\<lambda>(r1, w2).
     res_bind (DoSnapshot A i unreliableStream False True w2) (\<lambda>(u1, w3).
     res_bind (send_if_modified r1 pr w3) (\<lambda>(r2, w4).
     res_bind (send_if_modified u1 pr w4) (\<lambda>(u2, w5).
       send_world A pr is r2 u2 w5)))))"

definition SendWorld :: "app \<Rightarrow> peer option \<Rightarrow> world \<Rightarrow> world res" where
  "SendWorld A pr w = send_world A pr (map fst (w_Instances w)) stream_new stream_new w"

section \<open>Dispatch\<close>

definition H_blank :: "handler \<Rightarrow> proto_msg" where
  "H_blank h = (case h of
     H_List_Update \<Rightarrow> INetworkMapUpdate None 0 [] 0
   | H_List_Remove \<Rightarrow> INetworkMapRemove None 0 0
   | _ \<Rightarrow> INetworkMapAdd None 0 [] 0)"

definition run_handler ::
  "app \<Rightarrow> bool \<Rightarrow> handler \<Rightarrow> bytes \<Rightarrow> peer option \<Rightarrow> world \<Rightarrow> world res" where
  "run_handler A lock_ok h data pr w =
     (case h of
        H_List_Add \<Rightarrow> res_bind (packet_read A (H_blank h) data) (\<lambda>p. on_remote_add A lock_ok pr (pk_msg p) w)
      | H_List_Update \<Rightarrow> res_bind (packet_read A (H_blank h) data) (\<lambda>p. on_remote_update A lock_ok pr (pk_msg p) w)
      | H_List_Remove \<Rightarrow> res_bind (packet_read A (H_blank h) data) (\<lambda>p. on_remote_remove A lock_ok pr (pk_msg p) w)
      | H_EntSnapshot \<Rightarrow> HandleEntSnapshot A data w
      | H_EntOwnership \<Rightarrow> HandleEntOwnership data w
      | H_ClientEntSnapshot \<Rightarrow> HandleClientEntSnapshot A data pr w
      | H_User n \<Rightarrow> Inr (ap_handler A n data pr w))"

definition run_event_handler ::
  "app \<Rightarrow> event_handler \<Rightarrow> peer option \<Rightarrow> world \<Rightarrow> (bool \<times> world) res" where
  "run_event_handler A h pr w =
     (case h of
        EH_SendWorld \<Rightarrow> res_bind (SendWorld A pr w) (\<lambda>w1. Inr (True, w1))
      | EH_Stop \<Rightarrow> Inr (Stop_on Network_Thread w)
      | EH_User n \<Rightarrow> Inr (True, ap_event A n pr w))"

section \<open>Construction of the sides\<close>

definition NetSystemServer_new :: "bool \<Rightarrow> u32 \<Rightarrow> world" where
  "NetSystemServer_new host tot = on OBJECT_FRAME H_ClientEntSnapshot (NetSystem_new host True tot)"

text \<open>\<open>host_ok\<close> is whether ENet created the host, which the client's constructor assigns.\<close>

definition NetSystemClient_new :: "bool \<Rightarrow> u32 \<Rightarrow> world res" where
  "NetSystemClient_new host_ok tot =
     (if \<not> host_ok then Inl Nettik_Exception
      else Inr ((NetSystem_new False False tot)\<lparr>w_Host := True\<rparr>))"

definition Listen :: "bool \<Rightarrow> world \<Rightarrow> bool \<times> world" where
  "Listen host_ok w =
     (if \<not> host_ok then (False, w\<lparr>w_Host := False\<rparr>)
      else (True, on_enet EVENT_CONNECT EH_SendWorld (w\<lparr>w_Host := True, w_Connected := True\<rparr>)))"

text \<open>
  \<open>Connect\<close>: \<open>peer\<close> is what \<open>enet_host_connect\<close> returned, \<open>event\<close> whether the service call
  delivered the connect event in time.
\<close>

definition Connect :: "app \<Rightarrow> peer option \<Rightarrow> bool \<Rightarrow> world \<Rightarrow> (bool \<times> world) res" where
  "Connect A pr event w =
     (case pr of
        None \<Rightarrow> Inl Nettik_Exception
      | Some p \<Rightarrow>
          let w1 = on CLIENT_OWNERSHIP H_EntOwnership (on OBJECT_FRAME H_EntSnapshot
                     (on_enet EVENT_DISCONNECT EH_Stop w))
          in if event
             then res_bind (FireEvent (run_event_handler A) EVENT_CONNECT (Some p)
                              (w1\<lparr>w_PeerList := w_PeerList w1 @ [p]\<rparr>)) (\<lambda>(_, w2).
                    Inr (True, w2\<lparr>w_Connected := True\<rparr>))
             else Inr (False, w1))"

definition client_server_step ::
  "app \<Rightarrow> bool \<Rightarrow> net_event list \<Rightarrow> world \<Rightarrow> (bool \<times> world) res" where
  "client_server_step A lock_ok events w =
     ProcessNetStack (run_handler A lock_ok) (run_event_handler A) events w"

end
