(* ===== verification/Replication.thy ===== *)
theory Replication
  imports Net_Sides
begin

text \<open>
  From a variable on one side to the same variable on the other: the frames of a snapshot packet
  decode to what was written, the receive loop applies them one after the other, and each applied
  update stores the sender's value. The view of a side is the value of a variable as a function of
  the object's identifier and the variable's name.
\<close>

section \<open>Decoding the frames of a packet\<close>

definition decodes :: "u32 \<Rightarrow> size_t \<Rightarrow> bytes \<Rightarrow> entry \<Rightarrow> bool" where
  "decodes junk mx p e \<longleftrightarrow> (\<forall>rest. read_data (entry_new junk) (p @ rest) mx = Inr e)"

definition frame_entry :: "u32 \<Rightarrow> u32 \<Rightarrow> u32 \<Rightarrow> u32 \<Rightarrow> u8 \<Rightarrow> bytes \<Rightarrow> bytes \<Rightarrow> entry" where
  "frame_entry ft nid ctl sq fc nm dt =
     \<lparr>ent_mem = layout ft nid ctl sq fc (nm @ replicate (64 - length nm) 0) dt [0, 0, 0],
      ent_typesize = 0, ent_dataPointer = Some (147 + length nm)\<rparr>"

lemma frame_decodes:
  assumes "length dt = 128" and "0 \<notin> set nm" and "length nm \<le> 63"
    and "10 \<le> unat mx" and "unat mx \<le> 224"
  shows "decodes junk mx (pad_buffer mx (frame_image ft nid ctl sq fc nm dt))
    (frame_entry ft nid ctl sq fc nm dt)"
proof -
  have "length (frame_image ft nid ctl sq fc nm dt) < 2 ^ 32"
    using assms by (simp add: wire_simps)
  then have pad: "\<exists>z. pad_buffer mx (frame_image ft nid ctl sq fc nm dt) = frame_image ft nid ctl sq fc nm dt @ z"
    using pad_buffer_append by blast
  have "read_data (entry_new junk) (frame_image ft nid ctl sq fc nm dt @ rest) mx =
      Inr (frame_entry ft nid ctl sq fc nm dt)" for rest
    using read_data_image [OF assms(1,2) _ assms(4,5) entry_new_layout sized_new] assms(3)
    by (simp add: frame_entry_def entry_new_def)
  with pad show ?thesis unfolding decodes_def by (metis append.assoc)
qed

lemma frame_entry_members:
  assumes "length dt = 128" and "length nm \<le> 63"
  shows "get_frametype (frame_entry ft nid ctl sq fc nm dt) = ft"
    and "get_netid (frame_entry ft nid ctl sq fc nm dt) = nid"
    and "get_controller (frame_entry ft nid ctl sq fc nm dt) = ctl"
    and "get_sequence (frame_entry ft nid ctl sq fc nm dt) = sq"
    and "get_forced (frame_entry ft nid ctl sq fc nm dt) \<longleftrightarrow> fc \<noteq> 0"
    and "\<exists>z. get_name (frame_entry ft nid ctl sq fc nm dt) = nm @ 0 # z"
    and "get_data (frame_entry ft nid ctl sq fc nm dt) = dt @ [0, 0, 0]"
proof -
  have m: "ent_mem (frame_entry ft nid ctl sq fc nm dt) =
      layout ft nid ctl sq fc (nm @ replicate (64 - length nm) 0) dt [0, 0, 0]"
    by (simp add: frame_entry_def)
  have s: "sized (nm @ replicate (64 - length nm) 0) dt [0, 0, 0]"
    using assms by (simp add: sized_def)
  note g = get_members [OF m s]
  have "64 - length nm = Suc (63 - length nm)" using assms(2) by simp
  then have "get_name (frame_entry ft nid ctl sq fc nm dt) =
      nm @ 0 # replicate (63 - length nm) 0 @ dt @ [0, 0, 0]"
    by (simp add: g(6))
  then show "\<exists>z. get_name (frame_entry ft nid ctl sq fc nm dt) = nm @ 0 # z" by blast
  show "get_frametype (frame_entry ft nid ctl sq fc nm dt) = ft" by (rule g(1))
  show "get_netid (frame_entry ft nid ctl sq fc nm dt) = nid" by (rule g(2))
  show "get_controller (frame_entry ft nid ctl sq fc nm dt) = ctl" by (rule g(3))
  show "get_sequence (frame_entry ft nid ctl sq fc nm dt) = sq" by (rule g(4))
  show "get_forced (frame_entry ft nid ctl sq fc nm dt) \<longleftrightarrow> fc \<noteq> 0" by (rule g(5))
  show "get_data (frame_entry ft nid ctl sq fc nm dt) = dt @ [0, 0, 0]" by (rule g(7))
qed

section \<open>The receive loop as a fold\<close>

fun apply_frames :: "(entry \<Rightarrow> world \<Rightarrow> world res) \<Rightarrow> entry list \<Rightarrow> world \<Rightarrow> world res" where
  "apply_frames f [] w = Inr w"
| "apply_frames f (e # es) w = res_bind (f e w) (\<lambda>w1. apply_frames f es w1)"

lemma frame_loop_apply:
  assumes "list_all2 (decodes junk mx) ps es" and "padded_to mx ps" and "length pre = c"
  shows "frame_loop junk f (pre @ concat ps) c mx (length ps) w = apply_frames f es w"
  using assms
proof (induction ps es arbitrary: pre c w rule: list_all2_induct)
  case Nil
  then show ?case by simp
next
  case (Cons p ps e es)
  have len: "length p = unat mx" and pad: "padded_to mx ps"
    using Cons.prems(1) by (simp_all add: padded_to_def)
  have "frame_loop junk f ((pre @ p) @ concat ps) (c + unat mx) mx (length ps) = apply_frames f es"
    using len Cons.prems(2) by (intro ext Cons.IH pad) simp
  moreover have "read_data (entry_new junk) (drop c (pre @ p @ concat ps)) mx = Inr e"
    using Cons.hyps(1) Cons.prems(2) by (simp add: decodes_def)
  ultimately show ?case by simp
qed

text \<open>
  A packet with at most 65535 frames of at most 224 bytes announces sizes that fit the 32-bit
  comparison, and is taken apart frame by frame.
\<close>

lemma packet_header:
  assumes n: "length fs < 2 ^ 16" and mx: "unat mx \<le> 224" and pad: "padded_to mx (map (pad_buffer mx) fs)"
  shows "snapshot_header (snapshot_packet sq mx fs) =
      Inr \<lparr>hd_message_code = OBJECT_FRAME, hd_count = of_nat (length fs), hd_sequence = sq,
           hd_max_message_length = mx\<rparr>"
    and "sizes_match \<lparr>hd_message_code = OBJECT_FRAME, hd_count = of_nat (length fs), hd_sequence = sq,
           hd_max_message_length = mx\<rparr> (snapshot_packet sq mx fs)"
proof -
  let ?body = "concat (map (pad_buffer mx) fs)"
  have body: "length ?body = length fs * unat mx"
    using padded_concat_length [OF pad] by simp
  have "length fs * unat mx \<le> 65535 * 224"
    using n mx by (intro mult_le_mono) simp_all
  then have small: "12 + length fs * unat mx < 2 ^ 32" by simp
  have len: "length (snapshot_packet sq mx fs) = 12 + length fs * unat mx"
    by (simp add: snapshot_packet_def body)
  then have "unat (vsize (snapshot_packet sq mx fs)) = 12 + length fs * unat mx"
    using small by (simp add: unat_vsize)
  then show "snapshot_header (snapshot_packet sq mx fs) =
      Inr \<lparr>hd_message_code = OBJECT_FRAME, hd_count = of_nat (length fs), hd_sequence = sq,
           hd_max_message_length = mx\<rparr>"
    by (simp add: snapshot_header_def snapshot_packet_def header_read_at_front)
  have "unat (of_nat (length fs) :: u16) = length fs"
    using n by (simp add: unat_of_nat)
  then have "(ucast (of_nat (length fs) :: u16) :: size_t) = of_nat (length fs)"
    by (metis of_nat_unat)
  then have "ucast (of_nat (length fs) :: u16) * mx = (of_nat (length fs * unat mx) :: size_t)"
    by simp
  moreover have "vsize (snapshot_packet sq mx fs) - of_nat sizeof_header = (of_nat (length fs * unat mx) :: size_t)"
    by (simp add: vsize_def len sizeof_header_def)
  ultimately show "sizes_match \<lparr>hd_message_code = OBJECT_FRAME, hd_count = of_nat (length fs), hd_sequence = sq,
           hd_max_message_length = mx\<rparr> (snapshot_packet sq mx fs)"
    by (simp add: sizes_match_def)
qed

text \<open>Anything behind the last frame makes the receiver drop the packet.\<close>

lemma longer_packet_dropped:
  assumes n: "length fs < 2 ^ 16" and mx: "unat mx \<le> 224" and pad: "padded_to mx (map (pad_buffer mx) fs)"
    and q: "0 < length q" "length q < 2 ^ 16"
  shows "HandleEntSnapshot A (snapshot_packet sq mx fs @ q) w = Inr w"
proof -
  have body: "length (concat (map (pad_buffer mx) fs)) = length fs * unat mx"
    using padded_concat_length [OF pad] by simp
  have le: "length fs * unat mx \<le> 65535 * 224"
    using n mx by (intro mult_le_mono) simp_all
  have len: "length (snapshot_packet sq mx fs @ q) = 12 + (length fs * unat mx + length q)"
    by (simp add: snapshot_packet_def body)
  let ?h = "\<lparr>hd_message_code = OBJECT_FRAME, hd_count = of_nat (length fs), hd_sequence = sq,
           hd_max_message_length = mx\<rparr>"
  have "unat (vsize (snapshot_packet sq mx fs @ q)) = length (snapshot_packet sq mx fs @ q)"
    using le q by (intro unat_vsize) (simp only: len, simp)
  then have hdr: "snapshot_header (snapshot_packet sq mx fs @ q) = Inr ?h"
    by (simp add: snapshot_header_def len) (simp add: snapshot_packet_def header_read_at_front)
  have "vsize (snapshot_packet sq mx fs @ q) - of_nat sizeof_header = of_nat (length fs * unat mx + length q)"
    by (simp add: vsize_def len sizeof_header_def del: length_append)
  moreover have "ucast (hd_count ?h) * mx = (of_nat (length fs * unat mx) :: size_t)"
  proof -
    have "unat (of_nat (length fs) :: u16) = length fs" using n by (simp add: unat_of_nat)
    then have "(ucast (of_nat (length fs) :: u16) :: size_t) = of_nat (length fs)" by (metis of_nat_unat)
    then show ?thesis by simp
  qed
  moreover have "(of_nat (length fs * unat mx + length q) :: size_t) \<noteq> of_nat (length fs * unat mx)"
    using le q by (subst of_nat_size_inject) simp_all
  ultimately have "\<not> sizes_match ?h (snapshot_packet sq mx fs @ q)"
    by (simp only: sizes_match_def header_data.simps) simp
  with hdr show ?thesis by (simp add: HandleEntSnapshot_def)
qed

lemma receive_packet:
  assumes n: "length fs < 2 ^ 16" and mx: "unat mx \<le> 224"
    and small: "\<forall>f \<in> set fs. length f \<le> unat mx"
    and dec: "list_all2 (decodes (ap_junk A) mx) (map (pad_buffer mx) fs) es"
  shows "HandleEntSnapshot A (snapshot_packet sq mx fs) w = apply_frames (client_frame A) es w"
    and "HandleClientEntSnapshot A (snapshot_packet sq mx fs) pr w = apply_frames (server_frame pr) es w"
proof -
  have pad: "padded_to mx (map (pad_buffer mx) fs)" using small by (rule padded_pad)
  have cnt: "unat (of_nat (length fs) :: u16) = length (map (pad_buffer mx) fs)"
    using n by (simp add: unat_of_nat)
  note loop = frame_loop_apply [OF dec pad, where c = 12]
  show "HandleEntSnapshot A (snapshot_packet sq mx fs) w = apply_frames (client_frame A) es w"
    using packet_header [OF n mx pad] loop [of "header_image _"] cnt
    by (simp add: HandleEntSnapshot_def sizeof_header_def snapshot_packet_def)
  show "HandleClientEntSnapshot A (snapshot_packet sq mx fs) pr w = apply_frames (server_frame pr) es w"
    using packet_header [OF n mx pad] loop [of "header_image _"] cnt
    by (simp add: HandleClientEntSnapshot_def sizeof_header_def snapshot_packet_def)
qed

section \<open>Finding the variable of a frame\<close>

fun var_pos :: "netvar list \<Rightarrow> bytes \<Rightarrow> nat option" where
  "var_pos [] nm = None"
| "var_pos (v # vs) nm = (if nv_Name v = nm then Some 0 else map_option Suc (var_pos vs nm))"

lemma strcmp_equal_names:
  "0 \<notin> set a \<Longrightarrow> 0 \<notin> set b \<Longrightarrow> strcmp_equal (a @ [0]) (b @ 0 # z) = Inr (a = b)"
proof (induction a arbitrary: b)
  case Nil
  then show ?case by (cases b) auto
next
  case (Cons x a)
  then show ?case by (cases b) auto
qed

lemma find_var_pos:
  assumes "\<forall>v \<in> set vs. 0 \<notin> set (nv_Name v)" and "0 \<notin> set nm"
  shows "find_var vs (nm @ 0 # z) k = Inr (map_option ((+) k) (var_pos vs nm))"
  using assms(1)
proof (induction vs arbitrary: k)
  case (Cons v vs)
  then show ?case
    by (cases "var_pos vs nm") (simp_all add: strcmp_equal_names assms(2))
qed simp

lemma var_pos_Some: "var_pos vs nm = Some j \<Longrightarrow> j < length vs \<and> nv_Name (vs ! j) = nm"
  by (induction vs arbitrary: j) (auto split: if_splits)

lemma var_pos_update:
  "nv_Name v = nv_Name (vs ! j) \<Longrightarrow> var_pos (vs[j := v]) nm = var_pos vs nm"
  by (induction vs arbitrary: j) (auto split: nat.splits)

section \<open>The view of a side\<close>

definition find_object :: "world \<Rightarrow> u32 \<Rightarrow> oref option res" where
  "find_object w nid = find_in_instances w (w_Instances w) nid"

definition object_var :: "net_object \<Rightarrow> bytes \<Rightarrow> netvar option" where
  "object_var ob nm = map_option ((!) (no_Vars ob)) (var_pos (no_Vars ob) nm)"

definition view_var :: "world \<Rightarrow> u32 \<Rightarrow> bytes \<Rightarrow> netvar option" where
  "view_var w nid nm =
     (case find_object w nid of
        Inr (Some r) \<Rightarrow> (case w_heap w r of None \<Rightarrow> None | Some ob \<Rightarrow> object_var ob nm)
      | _ \<Rightarrow> None)"

definition view :: "world \<Rightarrow> u32 \<Rightarrow> bytes \<Rightarrow> bytes option" where
  "view w nid nm = map_option nv_Data (view_var w nid nm)"

text \<open>
  A side is ready for a frame of \<open>v\<close> when it has the object with a variable of that name and size
  that is not locked and accepts the sequence number, and an object it owns itself only takes
  forced frames.
\<close>

definition accepts :: "net_object \<Rightarrow> netvar \<Rightarrow> bool \<Rightarrow> netvar \<Rightarrow> bool" where
  "accepts ob v forced u \<longleftrightarrow> \<not> nv_Locked u \<and> length (nv_Data u) = length (nv_Data v) \<and>
     CheckSequence u (nv_SequenceID v + 1) \<and>
     (IsNetworkLocal ob \<longrightarrow> nv_ChangeForced v \<or> forced)"

definition ready :: "world \<Rightarrow> u32 \<Rightarrow> netvar \<Rightarrow> bool \<Rightarrow> bool" where
  "ready w nid v forced \<longleftrightarrow>
     (\<exists>r ob u. find_object w nid = Inr (Some r) \<and> w_heap w r = Some ob \<and>
        (\<forall>x \<in> set (no_Vars ob). 0 \<notin> set (nv_Name x)) \<and>
        object_var ob (nv_Name v) = Some u \<and> accepts ob v forced u)"

text \<open>What an accepted frame makes of the receiving variable.\<close>

definition received :: "netvar \<Rightarrow> netvar \<Rightarrow> netvar" where
  "received v u = u\<lparr>nv_SequenceID := nv_SequenceID v + 1, nv_Data := nv_Data v,
     nv_Changes := nv_Changes u + 1, nv_Changed := True\<rparr>"

lemma received_same: "length (nv_Data u) = length (nv_Data v) \<Longrightarrow> same_shape u (received v u)"
  by (simp add: same_shape_def received_def)

definition var_entry :: "u32 \<Rightarrow> netvar \<Rightarrow> bool \<Rightarrow> entry" where
  "var_entry nid v forced = frame_entry kFRAME_Data nid NET_CONTROLLER_NONE (nv_SequenceID v + 1)
     (if nv_ChangeForced v \<or> forced then 1 else 0) (nv_Name v) (padded_data v)"

lemma find_netid_code:
  assumes "\<And>r. map_option no_NetCode (w_heap w' r) = map_option no_NetCode (w_heap w r)"
  shows "find_netid w' rs nid = find_netid w rs nid"
proof (induction rs)
  case (Cons r rs)
  with assms [of r] show ?case
    by (cases "w_heap w r"; cases "w_heap w' r") (auto simp: deref_def)
qed simp

lemma find_object_code:
  assumes "\<And>r. map_option no_NetCode (w_heap w' r) = map_option no_NetCode (w_heap w r)"
    and "w_Instances w' = w_Instances w"
  shows "find_object w' nid = find_object w nid"
proof -
  have "find_in_managers w' ms nid = find_in_managers w ms nid" for ms
    by (induction ms) (auto simp: GetByNetID_def find_netid_code [OF assms(1)])
  then have "find_in_instances w' is nid = find_in_instances w is nid" for "is"
    by (induction "is") (auto simp: FindObject_def)
  then show ?thesis by (simp add: find_object_def assms(2))
qed

lemma find_object_unique:
  assumes "find_object w a = Inr (Some r)" and "find_object w b = Inr (Some r)"
  shows "a = b"
  using assms by (auto simp: find_object_def dest!: find_in_instances_Some)

section \<open>One frame\<close>

text \<open>The world after an accepted frame.\<close>

definition store_var :: "oref \<Rightarrow> nat \<Rightarrow> netvar \<Rightarrow> world \<Rightarrow> world" where
  "store_var r j u w = upd_object r (\<lambda>ob. ob\<lparr>no_Vars := (no_Vars ob)[j := u]\<rparr>) w"

lemma find_object_store [simp]: "find_object (store_var r j u w) nid = find_object w nid"
  by (rule find_object_code)
    (auto simp: store_var_def upd_object_fields option.map_comp comp_def)

lemma ReadEntityUpdate_accepted:
  assumes v: "nv_ok v" and "find_object w nid = Inr (Some r)" and "w_heap w r = Some ob"
    and names: "\<forall>x \<in> set (no_Vars ob). 0 \<notin> set (nv_Name x)"
    and j: "var_pos (no_Vars ob) (nv_Name v) = Some j" and acc: "accepts ob v forced (no_Vars ob ! j)"
    and own: "owner = None \<or> no_Peer ob = owner"
  shows "ReadEntityUpdate (var_entry nid v forced) owner w =
    Inr (store_var r j (received v (no_Vars ob ! j)) w)"
proof -
  let ?e = "var_entry nid v forced" and ?u = "no_Vars ob ! j"
  have d: "length (padded_data v) = 128" "length (nv_Name v) \<le> 63" "0 \<notin> set (nv_Name v)"
    using v by (simp_all add: padded_data_length) (simp_all add: nv_ok_def)
  note m = frame_entry_members [OF d(1,2)]
  obtain z where z: "get_name ?e = nv_Name v @ 0 # z" using m(6) unfolding var_entry_def by blast
  have len: "length (nv_Data ?u) = length (nv_Data v)" "\<not> nv_Locked ?u"
    and chk: "CheckSequence ?u (nv_SequenceID v + 1)"
    using acc by (simp_all add: accepts_def)
  have "get_data ?e = padded_data v @ [0, 0, 0]" by (simp only: var_entry_def m(7))
  then have "Set_raw (get_data ?e) 0 (SetSequence (nv_SequenceID v + 1) ?u) = Inr (received v ?u)"
    using len by (simp add: Set_raw_whole SetSequence_def received_def padded_data_def)
  moreover have "IsNetworkLocal ob \<longrightarrow> get_forced ?e"
    using acc by (simp add: accepts_def var_entry_def m(5))
  ultimately show ?thesis
    using assms(2,3) own chk find_var_pos [OF names d(3), of z 0]
    by (auto simp: ReadEntityUpdate_def Let_def find_object_def var_entry_def m(2,4) z deref_def j
        store_var_def z [unfolded var_entry_def])
qed

lemma object_var_update:
  assumes "var_pos (no_Vars ob) nm = Some j" and "nv_Name u = nm"
  shows "object_var (ob\<lparr>no_Vars := (no_Vars ob)[j := u]\<rparr>) nm' =
    (if nm' = nm then Some u else object_var ob nm')"
proof -
  have p: "var_pos ((no_Vars ob)[j := u]) x = var_pos (no_Vars ob) x" for x
    using var_pos_Some [OF assms(1)] assms(2) by (intro var_pos_update) simp
  have other: "k \<noteq> j" if "var_pos (no_Vars ob) nm' = Some k" "nm' \<noteq> nm" for k
    using var_pos_Some [OF that(1)] var_pos_Some [OF assms(1)] that(2) by auto
  show ?thesis
    using other var_pos_Some [OF assms(1)] assms(1)
    by (cases "var_pos (no_Vars ob) nm'") (auto simp: object_var_def p)
qed

lemma view_var_store:
  assumes "find_object w nid = Inr (Some r)" and "w_heap w r = Some ob"
    and "var_pos (no_Vars ob) nm = Some j" and "nv_Name u = nm"
  shows "view_var (store_var r j u w) nid' nm' =
    (if nid' = nid \<and> nm' = nm then Some u else view_var w nid' nm')"
proof (cases "find_object w nid' = Inr (Some r)")
  case True
  then have "nid' = nid" using find_object_unique assms(1) by blast
  moreover have "view_var (store_var r j u w) nid' nm' =
      object_var (ob\<lparr>no_Vars := (no_Vars ob)[j := u]\<rparr>) nm'"
    using True assms(2) by (simp add: view_var_def) (simp add: store_var_def)
  moreover have "view_var w nid' nm' = object_var ob nm'"
    using True assms(2) by (simp add: view_var_def)
  ultimately show ?thesis by (simp add: object_var_update [OF assms(3,4)])
next
  case False
  have "w_heap (store_var r j u w) r' = w_heap w r'" if "r' \<noteq> r" for r'
    using that by (simp add: store_var_def)
  moreover have "nid' \<noteq> nid" using False assms(1) by auto
  ultimately show ?thesis
    using False by (auto simp: view_var_def split: sum.splits option.splits)
qed

lemma ready_store:
  assumes "find_object w nid = Inr (Some r)" and "w_heap w r = Some ob"
    and "var_pos (no_Vars ob) nm = Some j" and "nv_Name u = nm"
    and "(nid', nv_Name v') \<noteq> (nid, nm)" and "ready w nid' v' f'"
  shows "ready (store_var r j u w) nid' v' f'"
proof -
  from assms(6) obtain r' ob' u' where r': "find_object w nid' = Inr (Some r')" "w_heap w r' = Some ob'"
    "\<forall>x \<in> set (no_Vars ob'). 0 \<notin> set (nv_Name x)" "object_var ob' (nv_Name v') = Some u'"
    "accepts ob' v' f' u'" unfolding ready_def by blast
  show ?thesis
  proof (cases "r' = r")
    case False
    then have "w_heap (store_var r j u w) r' = Some ob'" using r'(2) by (simp add: store_var_def)
    with r' show ?thesis unfolding ready_def by auto
  next
    case True
    let ?ob = "ob\<lparr>no_Vars := (no_Vars ob)[j := u]\<rparr>"
    have ob': "ob' = ob" and n: "nid' = nid"
      using True r'(1,2) assms(1,2) find_object_unique by auto
    have "w_heap (store_var r j u w) r' = Some ?ob" using True assms(2) by (simp add: store_var_def)
    moreover have "0 \<notin> set (nv_Name u)"
      using r'(3) ob' var_pos_Some [OF assms(3)] assms(4) by (metis nth_mem)
    then have "\<forall>x \<in> set (no_Vars ?ob). 0 \<notin> set (nv_Name x)"
      using r'(3) ob' by (auto dest!: subsetD [OF set_update_subset_insert])
    moreover have "object_var ?ob (nv_Name v') = Some u'"
      using r'(4) ob' n assms(5) by (simp add: object_var_update [OF assms(3,4)])
    moreover have "accepts ?ob v' f' u'"
      using r'(5) ob' by (simp add: accepts_def IsNetworkLocal_def)
    ultimately show ?thesis using r'(1) unfolding ready_def by auto
  qed
qed

lemma client_frame_var:
  assumes v: "nv_ok v" and rdy: "ready w nid v forced"
  shows "\<exists>w'. client_frame A (var_entry nid v forced) w = Inr w' \<and>
    view w' nid (nv_Name v) = Some (nv_Data v) \<and>
    (\<forall>nid' nm'. (nid', nm') \<noteq> (nid, nv_Name v) \<longrightarrow> view w' nid' nm' = view w nid' nm') \<and>
    (\<forall>nid' v' f'. (nid', nv_Name v') \<noteq> (nid, nv_Name v) \<longrightarrow> ready w nid' v' f' \<longrightarrow> ready w' nid' v' f')"
proof -
  from rdy obtain r ob u where r: "find_object w nid = Inr (Some r)" "w_heap w r = Some ob"
    and names: "\<forall>x \<in> set (no_Vars ob). 0 \<notin> set (nv_Name x)"
    and u: "object_var ob (nv_Name v) = Some u" and acc: "accepts ob v forced u"
    unfolding ready_def by blast
  from u obtain j where j: "var_pos (no_Vars ob) (nv_Name v) = Some j" and uj: "u = no_Vars ob ! j"
    by (auto simp: object_var_def)
  let ?w = "store_var r j (received v u) w"
  have ft: "get_frametype (var_entry nid v forced) = kFRAME_Data"
    using v by (simp add: var_entry_def frame_entry_members padded_data_length nv_ok_def)
  have nm: "nv_Name (received v u) = nv_Name v"
    using var_pos_Some [OF j] by (simp add: received_def uj)
  have "client_frame A (var_entry nid v forced) w = Inr ?w"
    using ReadEntityUpdate_accepted [OF v r names j acc [unfolded uj], of None] ft
    by (simp add: client_frame_def uj)
  moreover have "view ?w nid (nv_Name v) = Some (nv_Data v)"
    by (simp add: view_def view_var_store [OF r j nm]) (simp add: received_def)
  moreover have "view ?w nid' nm' = view w nid' nm'" if "(nid', nm') \<noteq> (nid, nv_Name v)" for nid' nm'
    using that by (auto simp: view_def view_var_store [OF r j nm])
  moreover have "ready ?w nid' v' f'"
    if "(nid', nv_Name v') \<noteq> (nid, nv_Name v)" "ready w nid' v' f'" for nid' v' f'
    by (rule ready_store [OF r j nm that])
  ultimately show ?thesis by blast
qed

section \<open>All frames of a snapshot\<close>

type_synonym update = "u32 \<times> netvar"

definition update_key :: "update \<Rightarrow> u32 \<times> bytes" where
  "update_key x = (fst x, nv_Name (snd x))"

definition update_frames :: "bool \<Rightarrow> update list \<Rightarrow> bytes list" where
  "update_frames forced us = map (\<lambda>(nid, v). var_frame nid v forced) us"

lemma apply_updates:
  assumes "\<forall>(nid, v) \<in> set us. nv_ok v \<and> ready w nid v forced" and "distinct (map update_key us)"
  shows "\<exists>w'. apply_frames (client_frame A) (map (\<lambda>(nid, v). var_entry nid v forced) us) w = Inr w' \<and>
    (\<forall>(nid, v) \<in> set us. view w' nid (nv_Name v) = Some (nv_Data v)) \<and>
    (\<forall>k. k \<notin> update_key ` set us \<longrightarrow> view w' (fst k) (snd k) = view w (fst k) (snd k))"
  using assms
proof (induction us arbitrary: w)
  case Nil
  then show ?case by simp
next
  case (Cons x us)
  obtain nid v where x: "x = (nid, v)" by (cases x)
  from Cons.prems x have v: "nv_ok v" and rdy: "ready w nid v forced" by simp_all
  from client_frame_var [OF v rdy, of A] obtain w1 where
    w1: "client_frame A (var_entry nid v forced) w = Inr w1"
    and here: "view w1 nid (nv_Name v) = Some (nv_Data v)"
    and there: "\<And>nid' nm'. (nid', nm') \<noteq> (nid, nv_Name v) \<Longrightarrow> view w1 nid' nm' = view w nid' nm'"
    and keep: "\<And>nid' v' f'. (nid', nv_Name v') \<noteq> (nid, nv_Name v) \<Longrightarrow> ready w nid' v' f' \<Longrightarrow> ready w1 nid' v' f'"
    by blast
  have fresh: "update_key y \<noteq> (nid, nv_Name v)" if "y \<in> set us" for y
    using Cons.prems(2) that x by (auto simp: update_key_def)
  have "\<forall>(nid, v) \<in> set us. nv_ok v \<and> ready w1 nid v forced"
    using Cons.prems(1) fresh keep by (force simp: update_key_def)
  moreover have "distinct (map update_key us)" using Cons.prems(2) by simp
  ultimately obtain w2 where w2: "apply_frames (client_frame A) (map (\<lambda>(nid, v). var_entry nid v forced) us) w1 = Inr w2"
    and all: "\<forall>(nid, v) \<in> set us. view w2 nid (nv_Name v) = Some (nv_Data v)"
    and rest: "\<forall>k. k \<notin> update_key ` set us \<longrightarrow> view w2 (fst k) (snd k) = view w1 (fst k) (snd k)"
    using Cons.IH by blast
  have "(nid, nv_Name v) \<notin> update_key ` set us" using fresh by force
  with rest here have "view w2 nid (nv_Name v) = Some (nv_Data v)" by force
  moreover have "view w2 (fst k) (snd k) = view w (fst k) (snd k)" if "k \<notin> update_key ` set (x # us)" for k
    using that rest there [of "fst k" "snd k"] by (auto simp: x update_key_def)
  ultimately show ?case
    using w1 w2 all by (auto simp: x)
qed

section \<open>A snapshot packet from end to end\<close>

text \<open>The updates a side has to send: the due variables of its local objects, in order.\<close>

definition due_updates :: "world \<Rightarrow> bool \<Rightarrow> bool \<Rightarrow> oref list \<Rightarrow> update list" where
  "due_updates w rel forced rs = concat (map (\<lambda>r. case w_heap w r of
       None \<Rightarrow> []
     | Some ob \<Rightarrow> if IsNetworkLocal ob
         then map (\<lambda>v. (no_NetCode ob, v)) (filter (due rel forced) (no_Vars ob)) else []) rs)"

lemma update_frames_due:
  "ref_frames w rel forced rs = update_frames forced (due_updates w rel forced rs)"
  by (induction rs)
    (auto simp: ref_frames_def due_updates_def update_frames_def obj_frames_def due_frames_def
      split: option.splits)

lemma due_updates_ok:
  assumes "objects_ok w rs" and "(nid, v) \<in> set (due_updates w rel forced rs)"
  shows "nv_ok v"
  using assms by (auto simp: due_updates_def objects_ok_def object_ok_def split: option.splits if_splits)

lemma frames_max:
  assumes "\<forall>(nid, v) \<in> set us. nv_ok v" and "us \<noteq> []"
  shows "146 \<le> unat (raise_max 0 (update_frames forced us))"
    and "unat (raise_max 0 (update_frames forced us)) \<le> 209"
    and "\<forall>f \<in> set (update_frames forced us). length f \<le> unat (raise_max 0 (update_frames forced us))"
proof -
  let ?fs = "update_frames forced us" let ?m = "raise_max 0 ?fs"
  have len: "146 \<le> length f \<and> length f \<le> 209" if "f \<in> set ?fs" for f
    using assms(1) that by (auto simp: update_frames_def var_frame_length nv_ok_def)
  have us: "unat (vsize f) = length f" if "f \<in> set ?fs" for f
    using len [OF that] by (intro unat_vsize) simp
  have le: "length f \<le> unat ?m" if "f \<in> set ?fs" for f
  proof -
    have "vsize f \<le> ?m" using raise_max_upper [of 0 ?fs] that by blast
    then show ?thesis using us [OF that] by (simp add: word_le_nat_alt)
  qed
  then show "\<forall>f \<in> set ?fs. length f \<le> unat ?m" by blast
  obtain f where f: "f \<in> set ?fs" using assms(2) by (cases us) (auto simp: update_frames_def)
  then show "146 \<le> unat ?m" using le len by (meson order_trans)
  from raise_max_cases [of 0 ?fs] have "?m = 0 \<or> (\<exists>g \<in> set ?fs. ?m = vsize g)" by auto
  then show "unat ?m \<le> 209" using us len by auto
qed

lemma updates_decode:
  assumes "\<forall>(nid, v) \<in> set us. nv_ok v" and "146 \<le> unat mx" and "unat mx \<le> 209"
  shows "list_all2 (decodes junk mx) (map (pad_buffer mx) (update_frames forced us))
    (map (\<lambda>(nid, v). var_entry nid v forced) us)"
proof -
  have "decodes junk mx (pad_buffer mx (var_frame nid v forced)) (var_entry nid v forced)"
    if "nv_ok v" for nid v
    using that assms(2,3) unfolding var_frame_def var_entry_def
    by (intro frame_decodes) (simp_all add: padded_data_length nv_ok_def)
  with assms(1) show ?thesis
    by (auto simp: update_frames_def list_all2_map1 list_all2_map2 list_all2_same)
qed

lemma replicate_updates:
  assumes ok: "\<forall>(nid, v) \<in> set us. nv_ok v" and us: "us \<noteq> []" "length us < 2 ^ 16"
    and rdy: "\<forall>(nid, v) \<in> set us. ready wc nid v forced" and d: "distinct (map update_key us)"
    and mx: "mx = raise_max 0 (update_frames forced us)"
  shows "\<exists>wc'. HandleEntSnapshot A (snapshot_packet sq mx (update_frames forced us)) wc = Inr wc' \<and>
    (\<forall>(nid, v) \<in> set us. view wc' nid (nv_Name v) = Some (nv_Data v)) \<and>
    (\<forall>k. k \<notin> update_key ` set us \<longrightarrow> view wc' (fst k) (snd k) = view wc (fst k) (snd k))"
proof -
  note m = frames_max [OF ok us(1), of forced, folded mx]
  have n: "length (update_frames forced us) < 2 ^ 16" using us(2) by (simp add: update_frames_def)
  have "\<forall>(nid, v) \<in> set us. nv_ok v \<and> ready wc nid v forced" using ok rdy by fast
  from apply_updates [OF this d] show ?thesis
    using receive_packet(1) [OF n _ m(3) updates_decode [OF ok m(1,2)]] m(2) by simp
qed

end
