(* ===== verification/Samples.thy ===== *)
theory Samples
  imports Replication
begin

text \<open>
  Small concrete states on which the properties are evaluated: a variable, a list, objects of two
  players under one manager, a server and a client with them, and an application whose callbacks
  do nothing.
\<close>

definition sample_var :: netvar where
  "sample_var = \<lparr>nv_Changes = 0, nv_SequenceID = 5, nv_Name = [120], nv_Reliable = True,
     nv_CheckSequence = True, nv_Changed = True, nv_Locked = False, nv_ChangeForced = False,
     nv_Data = [1, 2, 3, 4]\<rparr>"

lemma sample_var_ok: "nv_ok sample_var"
  by (simp add: nv_ok_def sample_var_def max_entvar_data_def)

text \<open>A list of two-byte elements with the callbacks its constructor binds.\<close>

definition sample_list :: netlist where
  "sample_list = \<lparr>nl_DataSize = 2, nl_ListID = 0, nl_Data = [(7, [1, 1]), (8, [2, 2])],
     nl_UpdateQueue = [], nl_Callbacks = [(kListEvent_Remove, [Forward_Remove]),
       (kListEvent_Add, [Forward_Add]), (kListEvent_Update, [Forward_Update])],
     nl_QueuedEvents = []\<rparr>"

definition sample_object :: net_object where
  "sample_object = \<lparr>no_Peer = Some 1, no_Instance = Some [119], no_Manager = Some ([119], [112]),
     no_IsReplicated = False, no_Active = True, no_NetCode = 3, no_RealmID = 0,
     no_Controller = NET_CONTROLLER_LOCAL, no_Vars = [sample_var], no_MapList = [sample_list]\<rparr>"

lemma sample_object_ok: "object_ok sample_object"
  by (simp add: object_ok_def sample_object_def sample_var_ok)

definition sample_manager :: "oref list \<Rightarrow> oref list \<Rightarrow> manager" where
  "sample_manager rs ls = \<lparr>mg_Name = [112], mg_Objects = rs, mg_Local = ls, mg_Type = 0,
     mg_cbCreate = None, mg_cbDelete = None\<rparr>"

definition sample_instance :: "manager \<Rightarrow> vinstance" where
  "sample_instance mg = (instance_new [119])\<lparr>vi_EntManagers := [([112], mg)]\<rparr>"

definition sample_app :: app where
  "sample_app = \<lparr>ap_junk = 0, ap_construct = (\<lambda>_. sample_object\<lparr>no_MapList := []\<rparr>),
     ap_create = (\<lambda>_ _ w. w), ap_delete = (\<lambda>_ _ w. w), ap_initialize = (\<lambda>_ w. w),
     ap_network_update = (\<lambda>_ _ _ w. w), ap_post_update = (\<lambda>w. w),
     ap_list_cb = (\<lambda>_ _ d. (True, case d of None \<Rightarrow> [] | Some x \<Rightarrow> x)),
     ap_handler = (\<lambda>_ _ _ w. w), ap_event = (\<lambda>_ _ w. w), ap_serialize = (\<lambda>_. [42]),
     ap_parse = (\<lambda>_ m. m)\<rparr>"

text \<open>The server: object 0 of peer 1 and object 1 of peer 2. The client: remote copies of both.\<close>

definition sample_server :: world where
  "sample_server = (NetSystem_new False True 10)\<lparr>w_Running := True, w_PeerList := [1, 2],
     w_heap := [0 \<mapsto> sample_object, 1 \<mapsto> sample_object\<lparr>no_Peer := Some 2, no_NetCode := 4, no_Vars := []\<rparr>],
     w_NextRef := 2, w_extern := (\<lambda>r. if r < 2 then 1 else 0),
     w_Instances := [([119], sample_instance (sample_manager [0, 1] []))]\<rparr>"

definition sample_client :: world where
  "sample_client = (NetSystem_new False False 0)\<lparr>w_Running := True,
     w_heap := [0 \<mapsto> sample_object\<lparr>no_Peer := None, no_Controller := NET_CONTROLLER_NONE,
                       no_Vars := [sample_var\<lparr>nv_Data := [9, 9, 9, 9]\<rparr>]\<rparr>,
                1 \<mapsto> sample_object\<lparr>no_Peer := None, no_NetCode := 4,
                       no_Controller := NET_CONTROLLER_NONE\<rparr>],
     w_NextRef := 2, w_Instances := [([119], sample_instance (sample_manager [0, 1] []))]\<rparr>"

lemmas sample_worlds = sample_server_def sample_client_def NetSystem_new_def bind_controller_def
  on_def Let_def sample_instance_def instance_new_def sample_manager_def

lemma sample_server_fields [simp]:
  "w_Running sample_server" "w_Server sample_server" "w_PeerList sample_server = [1, 2]"
  "w_Instances sample_server = [([119], sample_instance (sample_manager [0, 1] []))]"
  "w_heap sample_server 0 = Some sample_object" "w_NextRef sample_server = 2"
  "w_Out sample_server = []"
  by (simp_all add: sample_server_def NetSystem_new_def bind_controller_def on_def Let_def)

lemma sample_client_fields [simp]:
  "w_Running sample_client" "\<not> w_Server sample_client"
  "w_Instances sample_client = [([119], sample_instance (sample_manager [0, 1] []))]"
  "w_NextRef sample_client = 2"
  by (simp_all add: sample_client_def NetSystem_new_def bind_controller_def on_def Let_def)

text \<open>A server with two instances, each with one object that has something to send.\<close>

definition sample_two :: world where
  "sample_two = sample_server\<lparr>
     w_heap := [0 \<mapsto> sample_object, 1 \<mapsto> sample_object\<lparr>no_NetCode := 4\<rparr>],
     w_Instances := [([119], sample_instance (sample_manager [0] [])),
                     ([118], sample_instance (sample_manager [1] []))]\<rparr>"

lemma sample_refs [simp]: "all_refs (sample_instance mg) = mg_Objects mg"
  "mg_Objects (sample_manager rs ls) = rs"
  by (simp_all add: all_refs_def sample_instance_def sample_manager_def)

end
