(* ===== verification/Wire_Properties.thy ===== *)
theory Wire_Properties
  imports Samples
begin

text \<open>
  Properties of the wire format and of the variables: headers, frames, packets, streams, snapshots
  of a variable and of an object.
\<close>

section \<open>Frames\<close>

lemma entry_new_typesize [simp]: "ent_typesize (entry_new j) = 0"
  by (simp add: entry_new_def)

text \<open>
  C7. Round trip of a frame: what \<open>entry_write\<close> appends for an entry with a name of at most 63
  characters and at most 128 bytes of data is read back by \<open>read_data\<close>, whatever follows it in the
  packet, as the same type, identifier, controller, sequence number, forced flag, name and data.
\<close>

theorem frame_round_trip:
  assumes mem: "ent_mem e = layout ft nid ctl sq fc (nm @ replicate (64 - length nm) 0) dt pd"
    and sz: "length dt = 128" "length pd = 3" and nm: "0 \<notin> set nm" "length nm \<le> 63"
    and n: "unat (ent_typesize e) \<le> 128" and len: "10 \<le> unat mx" "unat mx \<le> 224"
  shows "\<exists>f e' z. entry_write e [] = Inr f \<and> read_data (entry_new junk) (f @ rest) mx = Inr e' \<and>
    get_frametype e' = ft \<and> get_netid e' = nid \<and> get_controller e' = ctl \<and> get_sequence e' = sq \<and>
    (get_forced e' \<longleftrightarrow> fc \<noteq> 0) \<and> c_str (get_name e') = Inr nm \<and>
    get_data e' = take (unat (ent_typesize e)) dt @ replicate (128 - unat (ent_typesize e)) 0 @ z"
proof -
  let ?n = "unat (ent_typesize e)"
  let ?dt = "take ?n dt @ replicate (128 - ?n) 0"
  have "64 - length nm = Suc (63 - length nm)" using nm by simp
  then have r: "nm @ replicate (64 - length nm) 0 = nm @ 0 # replicate (63 - length nm) 0" by simp
  have "sized (nm @ 0 # replicate (63 - length nm) 0) dt pd" using sz nm by (simp add: sized_def)
  then have w: "entry_write e [] = Inr (frame_image ft nid ctl sq fc nm ?dt)"
    using entry_write_image [OF mem [unfolded r] _ nm(1) n, of "[]"] by simp
  have d: "length ?dt = 128" using n sz by simp
  have "read_data (entry_new junk) (frame_image ft nid ctl sq fc nm ?dt @ rest) mx =
      Inr (frame_entry ft nid ctl sq fc nm ?dt)"
    using read_data_image [OF d nm(1) _ len entry_new_layout sized_new] nm(2)
    by (simp add: frame_entry_def entry_new_def)
  with w frame_entry_members [OF d nm(2), of ft nid ctl sq fc] nm(1) show ?thesis
    by (auto simp: c_str_app)
qed

theorem frame_round_trip_witness:
  "\<exists>f e' z. entry_write (set_netid 9 (entry_new 3)) [] = Inr f \<and>
    read_data (entry_new 5) (f @ [1, 2]) 150 = Inr e' \<and> get_frametype e' = 3 \<and> get_netid e' = 9 \<and>
    get_controller e' = NET_CONTROLLER_NONE \<and> get_sequence e' = 0 \<and>
    (get_forced e' \<longleftrightarrow> (0::u8) \<noteq> 0) \<and> c_str (get_name e') = Inr [] \<and>
    get_data e' = take (unat (ent_typesize (set_netid 9 (entry_new 3)))) (replicate 128 0) @
      replicate (128 - unat (ent_typesize (set_netid 9 (entry_new 3)))) 0 @ z"
  by (rule frame_round_trip [where pd = "[0, 0, 0]"])
    (simp_all add: set_members(2) [OF entry_new_layout sized_new] frame_simps)

text \<open>
  Reading a frame is memory safe when 210 bytes follow the pointer: with an announced length
  the guard admits, every access of \<open>read_data\<close> stays inside the packet and inside the structure.
\<close>

lemma read_data_in_bounds:
  assumes "210 \<le> length stream" and "10 \<le> unat n" and "unat n \<le> 224"
  shows "\<exists>e. read_data (entry_new junk) stream n = Inr e \<and> length (ent_mem e) = 212"
  using read_data_safe [OF entry_new_ok assms] by (auto simp: entry_ok_def sizeof_entry_def)

text \<open>
  The guard of \<open>read_data\<close> does not protect the packet: it accepts an announced length of ten
  bytes, but the reader always consumes at least 146, so every packet shorter than that makes it
  read past the end.
\<close>

lemma read_data_overread:
  assumes "length stream < 146" and "10 \<le> unat n" and "unat n \<le> 224"
  shows "read_data (entry_new junk) stream n = Inl Undefined"
  using read_data_faults [OF assms(2,3), of "entry_new junk" stream]
    read_data_needs [of "entry_new junk" stream n] assms(1)
  by (cases "read_data (entry_new junk) stream n") (auto simp: only_undefined_def)

section \<open>Headers and packets\<close>

text \<open>
  Round trip of the snapshot header: the 12 bytes \<open>write\<close> appends are read back as the same
  code, count, sequence number and maximal length, for every packet length of at least 12.
\<close>

lemma header_round_trip:
  assumes "12 \<le> unat n"
  shows "header_read (header_write [] d @ rest) n = Inr d \<and> length (header_write h d) = length h + 12"
  using assms by (simp add: header_read_at_front)

text \<open>
  The packet \<open>Generate\<close> and \<open>result\<close> produce from a fresh stream has the announced shape: the
  header with the given count, sequence and maximum, then every frame in order at a multiple of
  the maximum, zero-padded to it, and nothing else.
\<close>

lemma generated_packet_shape:
  assumes "strm_data s = [] # fs" and "\<not> strm_Finished s" and "\<forall>f \<in> set fs. length f \<le> unat mx"
  shows "\<exists>p s'. res_bind (header_generate s sq n mx) stream_result = Inr (p, s') \<and>
    length p = 12 + length fs * unat mx \<and>
    header_of_image (take 12 p) = \<lparr>hd_message_code = OBJECT_FRAME, hd_count = n, hd_sequence = sq,
      hd_max_message_length = mx\<rparr> \<and>
    (\<forall>i < length fs. take (unat mx) (drop (12 + i * unat mx) p) =
       fs ! i @ replicate (unat mx - length (fs ! i)) 0)"
proof -
  let ?h = "\<lparr>hd_message_code = OBJECT_FRAME, hd_count = n, hd_sequence = sq, hd_max_message_length = mx\<rparr>"
  let ?ps = "map (pad_buffer mx) fs"
  have pad: "padded_to mx ?ps" using assms(3) by (rule padded_pad)
  have small: "length (fs ! i) < 2 ^ 32" if "i < length fs" for i
  proof -
    have "length (fs ! i) \<le> unat mx" using assms(3) that by simp
    moreover have "unat mx < 2 ^ 32" using unsigned_less [of mx] by simp
    ultimately show ?thesis by simp
  qed
  have "take (unat mx) (drop (12 + i * unat mx) (header_image ?h @ concat ?ps)) =
      fs ! i @ replicate (unat mx - length (fs ! i)) 0" if "i < length fs" for i
    using padded_frame_at [OF pad, of i] that small [OF that]
    by (simp add: pad_buffer_append add.commute)
  moreover have "length (concat ?ps) = length fs * unat mx"
    using padded_concat_length [OF pad] by simp
  ultimately show ?thesis
    by (simp add: generated_packet [OF assms(1,2)] header_of_image_image)
qed

text \<open>
  \<open>result\<close> folds the frames into the header exactly once: the second call, which
  \<open>BroadcastStream\<close> and \<open>SendStream\<close> make for the length, returns the same bytes and leaves the
  stream as it is.
\<close>

lemma result_once:
  assumes "strm_data s = h # fs"
  shows "\<exists>b s'. stream_result s = Inr (b, s') \<and> stream_result s' = Inr (b, s') \<and>
    b = (if strm_Finished s then h else h @ concat fs)"
proof (cases "strm_Finished s")
  case True
  then show ?thesis using assms by (simp add: stream_result_finished)
next
  case False
  note first = stream_result_first [OF assms False]
  with stream_result_again [OF first] False show ?thesis by simp
qed

section \<open>Variables\<close>

text \<open>
  C12. Delta compression: a changed variable contributes exactly one frame, whose size is returned,
  and advances its sequence number by one; right after that an unforced snapshot contributes
  nothing and changes nothing.
\<close>

theorem snapshot_then_quiet:
  assumes "nv_ok v" and "nv_Changed v"
  shows "\<exists>v' f. TakeVariableSnapshot junk (Some nid) v s False = Inr (vsize f, v', stream_push s f) \<and>
    length f = 146 + length (nv_Name v) \<and> nv_SequenceID v' = nv_SequenceID v + 1 \<and>
    nv_Data v' = nv_Data v \<and>
    TakeVariableSnapshot junk (Some nid) v' t False = Inr (0, v', t)"
proof -
  let ?v = "v\<lparr>nv_SequenceID := nv_SequenceID v + 1, nv_Changed := False, nv_ChangeForced := False\<rparr>"
  have "TakeVariableSnapshot junk (Some nid) v s False =
      Inr (vsize (var_frame nid v False), ?v, stream_push s (var_frame nid v False))"
    using snapshot_frame [OF assms(1), of False junk nid s] assms(2)
    by (simp add: vsize_var_frame [OF assms(1)])
  moreover have "TakeVariableSnapshot junk (Some nid) ?v t False = Inr (0, ?v, t)"
    by (rule snapshot_unchanged) simp
  ultimately show ?thesis
    using var_frame_length [OF assms(1), of nid False] by (intro exI conjI) (assumption | simp)+
qed

theorem snapshot_then_quiet_witness:
  "\<exists>v' f. TakeVariableSnapshot 0 (Some 3) sample_var stream_new False =
      Inr (vsize f, v', stream_push stream_new f) \<and>
    length f = 146 + length (nv_Name sample_var) \<and> nv_SequenceID v' = nv_SequenceID sample_var + 1 \<and>
    nv_Data v' = nv_Data sample_var \<and>
    TakeVariableSnapshot 0 (Some 3) v' stream_new False = Inr (0, v', stream_new)"
  by (rule snapshot_then_quiet) (simp_all add: sample_var_ok, simp add: sample_var_def)

text \<open>
  A remote update stores exactly the leading bytes of the frame's data, as many as the value
  has, marks the variable changed and counts the change; a locked variable is left as it is, and
  no update changes a variable's name, size or reliability.
\<close>

lemma remote_set:
  assumes "length (nv_Data v) \<le> length ptr"
  shows "\<exists>v'. Set_raw ptr 0 v = Inr v' \<and> same_shape v v' \<and>
    (if nv_Locked v then v' = v
     else nv_Data v' = take (length (nv_Data v)) ptr \<and> nv_Changed v' \<and>
          nv_Changes v' = nv_Changes v + 1 \<and> nv_SequenceID v' = nv_SequenceID v)"
proof (cases "nv_Locked v")
  case True
  then show ?thesis by (simp add: Set_raw_locked same_shape_def)
next
  case False
  then show ?thesis using assms by (simp add: Set_raw_whole same_shape_def)
qed

text \<open>
  A character array variable always holds a terminated string that fits: after \<open>Set\<close> with a
  text without zero characters, reading it as a C string gives the text, cut to one character less
  than the array.
\<close>

lemma string_set_terminated:
  assumes "nv_Data v \<noteq> []" and "0 \<notin> set str"
  shows "\<exists>v'. string_set str v = Inr v' \<and> length (nv_Data v') = length (nv_Data v) \<and>
    c_str (nv_Data v') = Inr (take (length (nv_Data v) - 1) str) \<and> nv_Changed v' \<and> nv_ChangeForced v'"
proof -
  let ?N = "length (nv_Data v)"
  let ?t = "take (?N - 1) str"
  have N: "0 < ?N" using assms(1) by simp
  have t: "(if length str + 1 > ?N then take (?N - 1) str else str) = ?t"
    using N by (cases "length str + 1 > ?N") auto
  have lt: "length ?t < ?N" using N by (cases "nv_Data v") (auto simp: min_def)
  then obtain k where k: "?N = length ?t + Suc k" using less_iff_Suc_add by auto
  then have z: "replicate ?N (0::u8) = replicate (length ?t) 0 @ 0 # replicate k 0"
    by (metis replicate_Suc replicate_add)
  have clear: "pokes (nv_Data v) 0 (replicate ?N 0) = Inr (replicate ?N 0)"
    by (simp add: pokes_in)
  have fill: "pokes (replicate ?N 0) 0 ?t = Inr (?t @ 0 # replicate k 0)"
    unfolding z using pokes_block [of "[]" 0 "replicate (length ?t) 0" ?t "0 # replicate k 0"] by simp
  have "0 \<notin> set ?t" using assms(2) by (auto dest: in_set_takeD)
  then have "c_str (?t @ 0 # replicate k 0) = Inr ?t" by (rule c_str_app)
  moreover have "string_set str v = Inr (Invalidate (v\<lparr>nv_Data := ?t @ 0 # replicate k 0\<rparr>))"
    unfolding string_set_def Let_def t clear by (simp only: res_bind_simps fill)
  moreover have "length (?t @ 0 # replicate k 0) = ?N" using k by simp
  ultimately show ?thesis by (simp add: Invalidate_def)
qed

section \<open>Objects\<close>

text \<open>
  C14. The snapshot of an object contributes one frame per variable that has the asked reliability
  and is changed or forced, in declaration order; it adds their number to the count and raises the
  maximum to the largest of them, so the maximum bounds every frame of the object.
\<close>

theorem object_snapshot:
  assumes "object_ok ob"
  shows "\<exists>ob' mx' s'. TakeObjectSnapshot junk ob mx n s rel forced =
      Inr (ob', mx', n + of_nat (length (filter (due rel forced) (no_Vars ob))), s') \<and>
    strm_data s' = strm_data s @
      map (\<lambda>v. var_frame (no_NetCode ob) v forced) (filter (due rel forced) (no_Vars ob)) \<and>
    mx \<le> mx' \<and> (\<forall>v \<in> set (filter (due rel forced) (no_Vars ob)).
      vsize (var_frame (no_NetCode ob) v forced) \<le> mx') \<and>
    filter (due rel False) (no_Vars ob') = [] \<and>
    map nv_Data (no_Vars ob') = map nv_Data (no_Vars ob)"
proof -
  let ?fs = "due_frames (no_NetCode ob) rel forced (no_Vars ob)"
  have "vsize (var_frame (no_NetCode ob) v forced) \<le> raise_max mx ?fs"
    if "v \<in> set (filter (due rel forced) (no_Vars ob))" for v
    using raise_max_upper [of mx ?fs] that by (auto simp: due_frames_def)
  moreover have "filter (due rel False) (map (after_snapshot rel forced) (no_Vars ob)) = []"
    by (auto simp: filter_empty_conv after_snapshot_not_due)
  moreover have "nv_Data (after_snapshot rel forced v) = nv_Data v" for v
    by (simp add: after_snapshot_def sent_def)
  ultimately show ?thesis
    using raise_max_upper [of mx ?fs]
    by (simp add: TakeObjectSnapshot_eq [OF assms] due_frames_def comp_def)
qed

theorem object_snapshot_witness:
  "\<exists>ob' mx' s'. TakeObjectSnapshot 0 sample_object 0 0 stream_new True False =
      Inr (ob', mx', 0 + of_nat (length (filter (due True False) (no_Vars sample_object))), s') \<and>
    strm_data s' = strm_data stream_new @
      map (\<lambda>v. var_frame (no_NetCode sample_object) v False) (filter (due True False) (no_Vars sample_object)) \<and>
    0 \<le> mx' \<and> (\<forall>v \<in> set (filter (due True False) (no_Vars sample_object)).
      vsize (var_frame (no_NetCode sample_object) v False) \<le> mx') \<and>
    filter (due True False) (no_Vars ob') = [] \<and>
    map nv_Data (no_Vars ob') = map nv_Data (no_Vars sample_object)"
  by (rule object_snapshot [OF sample_object_ok])

text \<open>
  Every object has exactly one role on a tick: it broadcasts its state or it replicates
  another's, never both and never neither.
\<close>

lemma one_role:
  "ri_Broadcast (ReplicationInfo server pr controller) \<noteq> ri_Replicate (ReplicationInfo server pr controller)"
  by (auto simp: ReplicationInfo_def)

end
