(* ===== verification/List_Properties.thy ===== *)
theory List_Properties
  imports Wire_Properties
begin

text \<open>
  Properties of networked lists: local changes and the messages they queue, the targets and the
  sending of the queue, and what a peer's list messages do.
\<close>

section \<open>Local changes\<close>

text \<open>The messages an operation queued, in order.\<close>

definition queued :: "netlist \<Rightarrow> netlist \<Rightarrow> proto_msg list" where
  "queued nl nl' = map (\<lambda>(p, _). pk_msg p) (drop (length (nl_UpdateQueue nl)) (nl_UpdateQueue nl'))"

lemma construct_msg [simp]:
  "pk_msg (construct_protoadd obj k d i) = INetworkMapAdd obj k d i"
  "pk_msg (construct_protoupdate obj k d i) = INetworkMapUpdate obj k d i"
  "pk_msg (construct_protoremove obj k i) = INetworkMapRemove obj k i"
  by (simp_all add: construct_protoadd_def construct_protoupdate_def construct_protoremove_def
      SetReliable_def packet_new_def Let_def)

lemma queued_simps [simp]:
  "queued nl nl = []"
  "queued nl (queue_packet p f (nl\<lparr>nl_Data := ds\<rparr>)) = [pk_msg p]"
  by (simp_all add: queued_def)

lemma items_queue [simp]: "items (queue_packet p f nl) = items nl"
  by (simp add: items_def)

text \<open>
  C15. Creating, changing and removing an element of a list behaves like a finite map and queues
  exactly one message for a change that happened and none otherwise: \<open>create\<close> never overwrites,
  \<open>set\<close> never inserts, \<open>remove\<close> reports whether there was an element.
\<close>

theorem list_operations:
  assumes a: "parent_ref ob = Inr a"
  shows "(\<exists>nl1. list_create ob k d nl = Inr nl1 \<and>
      items nl1 = (if items nl k = None then (items nl)(k \<mapsto> d) else items nl) \<and>
      queued nl nl1 = (if items nl k = None then [INetworkMapAdd (Some a) k d (nl_ListID nl)] else [])) \<and>
    (\<exists>nl2. list_set ob k d nl = Inr nl2 \<and>
      items nl2 = (if items nl k = None then items nl else (items nl)(k \<mapsto> d)) \<and>
      queued nl nl2 = (if items nl k = None then [] else [INetworkMapUpdate (Some a) k d (nl_ListID nl)])) \<and>
    (\<exists>nl3. list_remove ob k nl = Inr (items nl k \<noteq> None, nl3) \<and>
      items nl3 = (items nl)(k := None) \<and>
      queued nl nl3 = (if items nl k = None then [] else [INetworkMapRemove (Some a) k (nl_ListID nl)]))"
proof (cases "items nl k")
  case None
  then show ?thesis
    by (simp add: list_create_absent [OF None a] list_set_absent list_remove_absent
        items_append_new fun_upd_idem)
next
  case (Some x)
  then have "items nl k \<noteq> None" by simp
  then show ?thesis
    by (simp add: list_create_present list_set_present [OF _ a] list_remove_present [OF _ a] items_amap Some)
qed

lemma sample_parent: "parent_ref sample_object =
    Inr \<lparr>ao_instance_name = [119], ao_manager_name = [112], ao_network_code = 3\<rparr>"
  by (simp add: parent_ref_def sample_object_def)

theorem list_operations_witness:
  "(\<exists>nl1. list_create sample_object 7 [3, 3] sample_list = Inr nl1 \<and>
      items nl1 = (if items sample_list 7 = None then (items sample_list)(7 \<mapsto> [3, 3]) else items sample_list) \<and>
      queued sample_list nl1 = (if items sample_list 7 = None then [INetworkMapAdd (Some
        \<lparr>ao_instance_name = [119], ao_manager_name = [112], ao_network_code = 3\<rparr>) 7 [3, 3] (nl_ListID sample_list)] else [])) \<and>
    (\<exists>nl2. list_set sample_object 7 [3, 3] sample_list = Inr nl2 \<and>
      items nl2 = (if items sample_list 7 = None then items sample_list else (items sample_list)(7 \<mapsto> [3, 3])) \<and>
      queued sample_list nl2 = (if items sample_list 7 = None then [] else [INetworkMapUpdate (Some
        \<lparr>ao_instance_name = [119], ao_manager_name = [112], ao_network_code = 3\<rparr>) 7 [3, 3] (nl_ListID sample_list)])) \<and>
    (\<exists>nl3. list_remove sample_object 7 sample_list = Inr (items sample_list 7 \<noteq> None, nl3) \<and>
      items nl3 = (items sample_list)(7 := None) \<and>
      queued sample_list nl3 = (if items sample_list 7 = None then [] else [INetworkMapRemove (Some
        \<lparr>ao_instance_name = [119], ao_manager_name = [112], ao_network_code = 3\<rparr>) 7 (nl_ListID sample_list)]))"
  by (rule list_operations [OF sample_parent])

text \<open>
  \<open>clear\<close> and \<open>remove_all\<close> are the same operation, although one restarts the iteration at
  the front and the other walks over the keys: both empty the list and queue one removal message
  per element, in the order of the elements.
\<close>

lemma clear_is_remove_all:
  assumes "parent_ref ob = Inr a" and "list_ok nl"
  shows "list_clear ob nl = remove_all ob nl \<and>
    (\<exists>nl'. list_clear ob nl = Inr nl' \<and> nl_Data nl' = [] \<and>
      queued nl nl' = map (\<lambda>k. INetworkMapRemove (Some a) k (nl_ListID nl)) (map fst (nl_Data nl)))"
proof -
  have d: "distinct (map fst (nl_Data nl))" using assms(2) by (simp add: list_ok_def)
  show ?thesis
    by (simp add: list_clear_eq [OF assms(1) d] remove_all_def remove_keys_eq [OF assms(1) d]
        queued_def removal_queue_def comp_def)
qed

lemma sample_list_ok: "list_ok sample_list"
  by (simp add: list_ok_def sample_list_def)

section \<open>Sending the queue\<close>

text \<open>
  \<open>SendDelta\<close> adds to every queued packet exactly the players of the manager except the one
  the packet is filtered for, in list order and after the targets it had, and changes nothing else.
\<close>

lemma delta_targets:
  assumes "get_players w mref = Inr players"
  shows "\<exists>nl'. SendDelta w mref nl = Inr nl' \<and>
    nl_UpdateQueue nl' = map (\<lambda>(p, flt). (p\<lparr>pk_PeerList := pk_PeerList p @
      map Some (filter (\<lambda>t. Some t \<noteq> flt) players)\<rparr>, flt)) (nl_UpdateQueue nl) \<and>
    nl_Data nl' = nl_Data nl"
  using assms by (simp add: SendDelta_def add_targets_eq)

lemma sample_players: "get_players sample_server (Some ([119], [112])) = Inr [1, 2]"
  by (simp add: get_players_def find_manager_def get_instance_def get_manager_def
      sample_instance_def sample_manager_def deref_def)
    (simp add: sample_server_def sample_object_def)

text \<open>
  \<open>Flush\<close> empties the queue and sends every pending packet, in order, once to each of its
  targets that is a peer, with the packet's own flags and channel; a packet without targets goes to
  the first connected peer. Nothing else of the world changes.
\<close>

lemma flush_sends:
  assumes "serialize_small A" and "w_Running w"
  shows "Flush A nl w = (nl\<lparr>nl_UpdateQueue := []\<rparr>, w\<lparr>w_Out := w_Out w @
    concat (map (\<lambda>(p, _). if pk_Status p = kPacket_Pending
      then packet_calls A p (if pk_PeerList p = [] then [GetFirstPeer w] else pk_PeerList p) else [])
      (nl_UpdateQueue nl))\<rparr>)"
  by (simp add: Flush_def destroy_packets_out [OF assms] queue_calls_def)

lemma sample_small: "serialize_small sample_app"
  by (simp add: serialize_small_def sample_app_def)

text \<open>
  The default peer defeats the filter: when the only player is the one a forwarded packet is
  filtered for, its target list stays empty after \<open>SendDelta\<close>, so destroying it sends the update
  to the first connected peer after all.
\<close>

lemma filtered_packet_still_sent:
  assumes "serialize_small A" and "w_Running w" and "w_PeerList w = q # qs"
    and "pk_Status p = kPacket_Pending" and "pk_PeerList p = []"
  shows "add_targets [q] (Some q) p = p \<and>
    packet_destroy A (add_targets [q] (Some q) p) w = w\<lparr>w_Out := w_Out w @
      [Peer_Send q (wire_packet A (pk_msg p) (pk_Code p)) (pk_Flags p) (pk_Channel p)]\<rparr>"
  using assms by (simp add: packet_destroy_out packet_calls_def GetFirstPeer_def)

section \<open>A peer's changes\<close>

text \<open>A list with just the callbacks its constructor bound, on an object under a manager.\<close>

definition constructed :: "netlist \<Rightarrow> bool" where
  "constructed nl \<longleftrightarrow> nl_Callbacks nl = [(kListEvent_Remove, [Forward_Remove]),
     (kListEvent_Add, [Forward_Add]), (kListEvent_Update, [Forward_Update])]"

lemma list_construct_constructed:
  "list_construct (Some ls) True junk n = Inr (nl, out) \<Longrightarrow> constructed nl"
  by (auto simp: list_construct_def Let_def bind_def constructed_def aput_def)

text \<open>The forwarded packet, when there is more than one player.\<close>

definition forwarded :: "peer list \<Rightarrow> packet \<Rightarrow> peer option \<Rightarrow> netlist \<Rightarrow> netlist" where
  "forwarded players p owner nl = (if length players \<le> 1 then nl else queue_packet p owner nl)"

lemma data_ref_present: "items nl k \<noteq> None \<Longrightarrow> data_ref k nl = nl"
  by (simp add: data_ref_def items_def)

lemma dispatch_constructed:
  assumes c: "constructed nl" and k: "items nl k = Some d"
    and a: "parent_ref ob = Inr a" and ps: "get_players w (no_Manager ob) = Inr players"
  shows "dispatch_add A w ob k nl =
      Inr (forwarded players (construct_protoadd (Some a) k d (nl_ListID nl)) (no_Peer ob) nl)"
    and "dispatch_update A w ob k nl =
      Inr (forwarded players (construct_protoupdate (Some a) k d (nl_ListID nl)) (no_Peer ob) nl)"
    and "dispatch_remove A w ob k nl =
      Inr (forwarded players (construct_protoremove (Some a) k (nl_ListID nl)) (no_Peer ob) nl)"
proof -
  have ref: "data_ref k nl = nl" using k by (simp add: data_ref_present)
  have at: "data_at k nl = d" using k by (simp add: data_at_def items_def)
  note defs = dispatch_add_def dispatch_update_def dispatch_remove_def dispatch_event_def
    needs_scheduling_def call_with_data_def forward_def forwarded_def
  show "dispatch_add A w ob k nl =
      Inr (forwarded players (construct_protoadd (Some a) k d (nl_ListID nl)) (no_Peer ob) nl)"
    "dispatch_update A w ob k nl =
      Inr (forwarded players (construct_protoupdate (Some a) k d (nl_ListID nl)) (no_Peer ob) nl)"
    "dispatch_remove A w ob k nl =
      Inr (forwarded players (construct_protoremove (Some a) k (nl_ListID nl)) (no_Peer ob) nl)"
    using c by (simp_all add: defs constructed_def ref at a ps Let_def)
qed

lemma upd_list_at:
  assumes "w_heap w r = Some ob" and "j < length (no_MapList ob)"
  shows "\<exists>ob'. w_heap (upd_list r j nl w) r = Some ob' \<and> no_MapList ob' ! j = nl \<and>
    (\<forall>r' \<noteq> r. w_heap (upd_list r j nl w) r' = w_heap w r')"
  using assms by (simp add: upd_list_def)

lemma remote_target_Some:
  "remote_target lock_ok msg w = Inr (Some (r, ob, j)) \<Longrightarrow>
   w_heap w r = Some ob \<and> j < length (no_MapList ob) \<and> no_NetCode ob = ao_network_code (target_object msg)"
  by (auto simp: remote_target_def FetchObjectList_def deref_Inr res_bind_Inr_iff
      split: sum.splits fault.splits option.splits if_splits dest!: DecodeObject_Some)

lemma forwarded_simps [simp]:
  "items (forwarded players p f nl) = items nl"
  "list_ok (forwarded players p f nl) = list_ok nl"
  "nl_DataSize (forwarded players p f nl) = nl_DataSize nl"
  "constructed (forwarded players p f nl) = constructed nl"
  by (simp_all add: forwarded_def constructed_def)

lemma write_item_constructed: "write_item k v nl = Inr nl' \<Longrightarrow> constructed nl' = constructed nl"
  by (auto simp: write_item_def constructed_def res_bind_Inr_iff split: option.splits)

lemma build_at_constructed: "build_at k nl = Inr (nl', d, n) \<Longrightarrow> constructed nl' = constructed nl"
  by (auto simp: build_at_def constructed_def Let_def split: option.splits)

text \<open>
  What each handler does with a message that is well formed for its list: one object changes, in one
  list, which stays well formed.
\<close>

lemma add_taken:
  assumes t: "remote_target lock_ok msg w = Inr (Some (r, ob, j))"
    and nl: "no_MapList ob ! j = nl" "list_ok nl" "constructed nl"
    and a: "parent_ref ob = Inr a" and ps: "get_players w (no_Manager ob) = Inr players"
    and v: "length (msg_value msg) = nl_DataSize nl"
  obtains nl' where "on_remote_add A lock_ok pr msg w = Inr (upd_list r j nl' w)"
    and "list_ok nl'" and "constructed nl'" and "nl_DataSize nl' = nl_DataSize nl"
    and "items nl' = (items nl)(msg_key msg \<mapsto> msg_value msg)"
proof -
  let ?k = "msg_key msg" and ?v = "msg_value msg"
  from netlist.build_then_store [OF nl(2) v, of ?k] obtain nl1 d nl2 where
    b: "build_at ?k nl = Inr (nl1, d, nl_DataSize nl)" "write_item ?k ?v nl1 = Inr nl2"
    and nl2: "list_ok nl2" "nl_DataSize nl2 = nl_DataSize nl" "items nl2 = (items nl)(?k \<mapsto> ?v)" .
  have c: "constructed nl2"
    using nl(3) write_item_constructed [OF b(2)] build_at_constructed [OF b(1)] by simp
  have "items nl2 ?k = Some ?v" by (simp add: nl2(3))
  from dispatch_constructed(1) [OF c this a ps] show ?thesis
    using t v b nl2 c nl(1)
    by (intro that [of "forwarded players (construct_protoadd (Some a) ?k ?v (nl_ListID nl2)) (no_Peer ob) nl2"])
      (simp_all add: on_remote_add_def)
qed

lemma update_taken:
  assumes t: "remote_target lock_ok msg w = Inr (Some (r, ob, j))"
    and nl: "no_MapList ob ! j = nl" "list_ok nl" "constructed nl"
    and a: "parent_ref ob = Inr a" and ps: "get_players w (no_Manager ob) = Inr players"
    and v: "items nl (msg_key msg) \<noteq> None" "length (msg_value msg) = nl_DataSize nl"
  obtains nl' where "\<And>pr. on_remote_update A lock_ok pr msg w = Inr (upd_list r j nl' w)"
    and "list_ok nl'" and "constructed nl'" and "nl_DataSize nl' = nl_DataSize nl"
    and "items nl' = (items nl)(msg_key msg \<mapsto> msg_value msg)"
proof -
  let ?k = "msg_key msg" and ?v = "msg_value msg"
  from netlist.store_law [OF nl(2) v] obtain nl2 where s: "write_item ?k ?v nl = Inr nl2"
    and nl2: "list_ok nl2" "nl_DataSize nl2 = nl_DataSize nl" "items nl2 = (items nl)(?k \<mapsto> ?v)" by blast
  have c: "constructed nl2"
    using nl(3) write_item_constructed [OF s] by simp
  obtain d where d: "items nl ?k = Some d"
    using v(1) by blast
  have "items nl2 ?k = Some ?v" by (simp add: nl2(3))
  from dispatch_constructed(2) [OF c this a ps] show ?thesis
    using t v d s nl2 c nl(1)
    by (intro that [of "forwarded players (construct_protoupdate (Some a) ?k ?v (nl_ListID nl2)) (no_Peer ob) nl2"])
      (simp_all add: on_remote_update_def netlist.lookup_law)
qed

lemma update_refused:
  assumes "remote_target lock_ok msg w = Inr (Some (r, ob, j))" and "no_MapList ob ! j = nl"
    and "items nl (msg_key msg) = None \<or> length (msg_value msg) \<noteq> nl_DataSize nl"
  shows "on_remote_update A lock_ok pr msg w = Inr w"
  using assms by (auto simp: on_remote_update_def netlist.lookup_law split: option.splits)

lemma remove_taken:
  assumes t: "remote_target lock_ok msg w = Inr (Some (r, ob, j))"
    and nl: "no_MapList ob ! j = nl" "list_ok nl" "constructed nl"
    and a: "parent_ref ob = Inr a" and ps: "get_players w (no_Manager ob) = Inr players"
  obtains nl' where "on_remote_remove A lock_ok pr msg w = Inr (upd_list r j nl' w)"
    and "list_ok nl'" and "constructed nl'" and "nl_DataSize nl' = nl_DataSize nl"
    and "items nl' = (items nl)(msg_key msg := None)"
    and "queued nl nl' = (if length players \<le> 1 then []
      else [INetworkMapRemove (Some a) (msg_key msg) (nl_ListID nl)])"
proof -
  let ?k = "msg_key msg"
  let ?n = "data_ref ?k nl"
  have n: "constructed ?n" "nl_ListID ?n = nl_ListID nl" "nl_UpdateQueue ?n = nl_UpdateQueue nl"
    "nl_DataSize ?n = nl_DataSize nl" "list_ok ?n"
    using nl(2, 3) list_ok_append_new [OF nl(2), of ?k "replicate (nl_DataSize nl) 0"]
    by (simp_all add: data_ref_def constructed_def items_def)
  have it: "items ?n ?k \<noteq> None" "(items ?n)(?k := None) = (items nl)(?k := None)"
    by (auto simp: data_ref_def items_def map_add_def fun_eq_iff split: option.splits)
  then obtain d where d: "items ?n ?k = Some d" by blast
  have ref: "data_ref ?k ?n = ?n" using it(1) by (rule data_ref_present)
  have "dispatch_remove A w ob ?k nl = dispatch_remove A w ob ?k ?n"
    using nl(3) n(1) ref
    by (simp add: dispatch_remove_def dispatch_event_def constructed_def needs_scheduling_def
        call_with_data_def)
  then have disp: "dispatch_remove A w ob ?k nl =
      Inr (forwarded players (construct_protoremove (Some a) ?k (nl_ListID nl)) (no_Peer ob) ?n)"
    using dispatch_constructed(3) [OF n(1) d a ps] by (simp add: n(2))
  let ?f = "forwarded players (construct_protoremove (Some a) ?k (nl_ListID nl)) (no_Peer ob) ?n"
  let ?g = "?f\<lparr>nl_Data := adel ?k (nl_Data ?f)\<rparr>"
  have "map_of (nl_Data ?f) ?k = Some d"
    using d forwarded_simps(1) by (metis items_def)
  then have "on_remote_remove A lock_ok pr msg w = Inr (upd_list r j ?g w)"
    by (simp add: on_remote_remove_def t nl(1) disp remove_at_def)
  moreover have "items ?g = (items nl)(?k := None)"
    by (simp add: it(2))
  moreover have "queued nl ?g = (if length players \<le> 1 then []
      else [INetworkMapRemove (Some a) ?k (nl_ListID nl)])"
    by (simp add: queued_def forwarded_def n(3))
  moreover have "list_ok ?g" "nl_DataSize ?g = nl_DataSize nl"
    using n by (simp_all add: list_ok_adel)
  moreover have "constructed ?g"
    using n(1) forwarded_simps(4) [of players _ _ ?n] unfolding constructed_def by simp
  ultimately show ?thesis by (intro that)
qed

text \<open>
  C16. A peer's addition reaches the list: a value of the element size is stored under the key,
  replacing what was there, and is forwarded to the other players when there are any; a value of
  another size is not stored, but a zeroed element appears under a key that was free.
\<close>

theorem remote_add:
  assumes t: "remote_target lock_ok msg w = Inr (Some (r, ob, j))"
    and nl: "no_MapList ob ! j = nl" "list_ok nl" "constructed nl"
    and a: "parent_ref ob = Inr a" and ps: "get_players w (no_Manager ob) = Inr players"
  shows "\<exists>w' ob' nl'. on_remote_add A lock_ok pr msg w = Inr w' \<and> w_heap w' r = Some ob' \<and>
    no_MapList ob' ! j = nl' \<and> (\<forall>r' \<noteq> r. w_heap w' r' = w_heap w r') \<and>
    (if length (msg_value msg) = nl_DataSize nl
     then items nl' = (items nl)(msg_key msg \<mapsto> msg_value msg)
     else items nl' = (if items nl (msg_key msg) = None
                       then (items nl)(msg_key msg \<mapsto> replicate (nl_DataSize nl) 0) else items nl))"
proof -
  let ?k = "msg_key msg"
  note at = upd_list_at [OF conjunct1 [OF remote_target_Some [OF t]]]
  have ob: "j < length (no_MapList ob)" using remote_target_Some [OF t] by simp
  show ?thesis
  proof (cases "length (msg_value msg) = nl_DataSize nl")
    case True
    from add_taken [OF t nl a ps True] obtain nl' where
      "on_remote_add A lock_ok pr msg w = Inr (upd_list r j nl' w)"
      "items nl' = (items nl)(?k \<mapsto> msg_value msg)" .
    with True at [OF ob, of nl'] show ?thesis by auto
  next
    case False
    from netlist.build_law [OF nl(2), of ?k] obtain nl1 where b: "build_at ?k nl = Inr (nl1,
        (case items nl ?k of None \<Rightarrow> replicate (nl_DataSize nl) 0 | Some d \<Rightarrow> d), nl_DataSize nl)"
      "items nl1 = (items nl)(?k \<mapsto>
        (case items nl ?k of None \<Rightarrow> replicate (nl_DataSize nl) 0 | Some d \<Rightarrow> d))" by blast
    then have "on_remote_add A lock_ok pr msg w = Inr (upd_list r j nl1 w)"
      using False by (simp add: on_remote_add_def t nl(1))
    moreover have "items nl1 = (if items nl ?k = None then (items nl)(?k \<mapsto> replicate (nl_DataSize nl) 0) else items nl)"
      using b(2) by (auto simp: fun_upd_idem)
    ultimately show ?thesis using False at [OF ob, of nl1] by auto
  qed
qed

text \<open>
  C17. A peer's update changes exactly the addressed element of the addressed list, and only when
  the element exists and the value has its size; otherwise the world stays as it is. No check of
  the peer's rights is made: the result is the same for every peer, also for one that
  \<open>HasWritePermission\<close> would refuse.
\<close>

theorem remote_update:
  assumes t: "remote_target lock_ok msg w = Inr (Some (r, ob, j))"
    and nl: "no_MapList ob ! j = nl" "list_ok nl" "constructed nl"
    and a: "parent_ref ob = Inr a" and ps: "get_players w (no_Manager ob) = Inr players"
  shows "\<exists>w'. (\<forall>pr. on_remote_update A lock_ok pr msg w = Inr w') \<and>
    (if items nl (msg_key msg) = None \<or> length (msg_value msg) \<noteq> nl_DataSize nl then w' = w
     else (\<exists>ob' nl'. w_heap w' r = Some ob' \<and> no_MapList ob' ! j = nl' \<and>
             items nl' = (items nl)(msg_key msg \<mapsto> msg_value msg)) \<and>
          (\<forall>r' \<noteq> r. w_heap w' r' = w_heap w r'))"
proof (cases "items nl (msg_key msg) = None \<or> length (msg_value msg) \<noteq> nl_DataSize nl")
  case True
  with update_refused [OF t nl(1)] show ?thesis by auto
next
  case False
  with update_taken [OF t nl a ps] obtain nl' where
    u: "\<And>pr. on_remote_update A lock_ok pr msg w = Inr (upd_list r j nl' w)"
      "items nl' = (items nl)(msg_key msg \<mapsto> msg_value msg)" by blast
  from remote_target_Some [OF t] upd_list_at [of w r ob j nl'] u False show ?thesis by auto
qed

text \<open>
  C18. A peer's removal takes the element out of the list. Removing a key that is not there is never
  reported as a failed lookup: the callbacks run first, \<open>&m_Data[key]\<close> creates the element for
  them, and the removal is forwarded to the other players like any other.
\<close>

theorem remote_remove:
  assumes t: "remote_target lock_ok msg w = Inr (Some (r, ob, j))"
    and nl: "no_MapList ob ! j = nl" "list_ok nl" "constructed nl"
    and a: "parent_ref ob = Inr a" and ps: "get_players w (no_Manager ob) = Inr players"
  shows "\<exists>w' ob' nl'. on_remote_remove A lock_ok pr msg w = Inr w' \<and> w_heap w' r = Some ob' \<and>
    no_MapList ob' ! j = nl' \<and> items nl' = (items nl)(msg_key msg := None) \<and>
    (\<forall>r' \<noteq> r. w_heap w' r' = w_heap w r') \<and>
    queued nl nl' = (if length players \<le> 1 then []
      else [INetworkMapRemove (Some a) (msg_key msg) (nl_ListID nl)])"
proof -
  from remove_taken [OF t nl a ps] obtain nl' where
    "on_remote_remove A lock_ok pr msg w = Inr (upd_list r j nl' w)"
    "items nl' = (items nl)(msg_key msg := None)"
    "queued nl nl' = (if length players \<le> 1 then []
      else [INetworkMapRemove (Some a) (msg_key msg) (nl_ListID nl)])" .
  with remote_target_Some [OF t] upd_list_at [of w r ob j nl'] show ?thesis by metis
qed

text \<open>The evaluated instance: a message about the list of the first object.\<close>

definition sample_ref :: assoc_object where
  "sample_ref = \<lparr>ao_instance_name = [119], ao_manager_name = [112], ao_network_code = 3\<rparr>"

lemma sample_target:
  "target_object msg = sample_ref \<Longrightarrow> msg_list_id msg = 0 \<Longrightarrow>
   remote_target True msg sample_server = Inr (Some (0, sample_object, 0))"
  by (simp add: remote_target_def DecodeObject_def sample_ref_def get_instance_def get_manager_def
      sample_instance_def sample_manager_def GetByNetID_def deref_def FetchObjectList_def)
    (simp add: sample_object_def)

lemma sample_target_list:
  "no_MapList sample_object ! 0 = sample_list" "constructed sample_list"
  "get_players sample_server (no_Manager sample_object) = Inr [1, 2]"
  using sample_players by (simp_all add: sample_object_def constructed_def sample_list_def)

theorem remote_add_witness:
  "\<exists>w' ob' nl'. on_remote_add sample_app True (Some 2) (INetworkMapAdd (Some sample_ref) 9 [5, 6] 0) sample_server = Inr w' \<and>
    w_heap w' 0 = Some ob' \<and> no_MapList ob' ! 0 = nl' \<and> (\<forall>r' \<noteq> 0. w_heap w' r' = w_heap sample_server r') \<and>
    (if length (msg_value (INetworkMapAdd (Some sample_ref) 9 [5, 6] 0)) = nl_DataSize sample_list
     then items nl' = (items sample_list)(msg_key (INetworkMapAdd (Some sample_ref) 9 [5, 6] 0) \<mapsto>
       msg_value (INetworkMapAdd (Some sample_ref) 9 [5, 6] 0))
     else items nl' = (if items sample_list (msg_key (INetworkMapAdd (Some sample_ref) 9 [5, 6] 0)) = None
        then (items sample_list)(msg_key (INetworkMapAdd (Some sample_ref) 9 [5, 6] 0) \<mapsto>
          replicate (nl_DataSize sample_list) 0) else items sample_list))"
  by (rule remote_add [OF sample_target sample_target_list(1) sample_list_ok sample_target_list(2)
        sample_parent sample_target_list(3)]) simp_all

theorem remote_update_witness:
  "\<exists>w'. (\<forall>pr. on_remote_update sample_app True pr (INetworkMapUpdate (Some sample_ref) 7 [5, 6] 0) sample_server = Inr w') \<and>
    (if items sample_list (msg_key (INetworkMapUpdate (Some sample_ref) 7 [5, 6] 0)) = None \<or>
        length (msg_value (INetworkMapUpdate (Some sample_ref) 7 [5, 6] 0)) \<noteq> nl_DataSize sample_list
     then w' = sample_server
     else (\<exists>ob' nl'. w_heap w' 0 = Some ob' \<and> no_MapList ob' ! 0 = nl' \<and>
             items nl' = (items sample_list)(msg_key (INetworkMapUpdate (Some sample_ref) 7 [5, 6] 0) \<mapsto>
               msg_value (INetworkMapUpdate (Some sample_ref) 7 [5, 6] 0))) \<and>
          (\<forall>r' \<noteq> 0. w_heap w' r' = w_heap sample_server r'))"
  by (rule remote_update [OF sample_target sample_target_list(1) sample_list_ok sample_target_list(2)
        sample_parent sample_target_list(3)]) simp_all

theorem remote_remove_witness:
  "\<exists>w' ob' nl'. on_remote_remove sample_app True (Some 2) (INetworkMapRemove (Some sample_ref) 5 0) sample_server = Inr w' \<and>
    w_heap w' 0 = Some ob' \<and> no_MapList ob' ! 0 = nl' \<and>
    items nl' = (items sample_list)(msg_key (INetworkMapRemove (Some sample_ref) 5 0) := None) \<and>
    (\<forall>r' \<noteq> 0. w_heap w' r' = w_heap sample_server r') \<and>
    queued sample_list nl' = (if length [1, 2 :: peer] \<le> 1 then []
      else [INetworkMapRemove (Some \<lparr>ao_instance_name = [119], ao_manager_name = [112], ao_network_code = 3\<rparr>)
        (msg_key (INetworkMapRemove (Some sample_ref) 5 0)) (nl_ListID sample_list)])"
  by (rule remote_remove [OF sample_target sample_target_list(1) sample_list_ok sample_target_list(2)
        sample_parent sample_target_list(3)]) simp_all

end
