(* ===== verification/System_Properties.thy ===== *)
theory System_Properties
  imports List_Properties
begin

text \<open>
  Properties of the controller and its two sides: what a peer's packets may change, which packets
  are read out of bounds, object creation and deletion on a client, and shutting down.
\<close>

section \<open>What an update frame may change\<close>

text \<open>
  \<open>peer_changes q w w'\<close>: only values inside variables of objects of peer \<open>q\<close> differ; the
  variables keep their names, sizes and reliability.
\<close>

definition vars_changed :: "net_object \<Rightarrow> net_object \<Rightarrow> bool" where
  "vars_changed ob ob' \<longleftrightarrow> ob' = ob\<lparr>no_Vars := no_Vars ob'\<rparr> \<and>
     list_all2 same_shape (no_Vars ob) (no_Vars ob')"

definition peer_changes :: "peer \<Rightarrow> world \<Rightarrow> world \<Rightarrow> bool" where
  "peer_changes q w w' \<longleftrightarrow> w' = w\<lparr>w_heap := w_heap w'\<rparr> \<and>
     (\<forall>r. w_heap w' r = w_heap w r \<or>
        (\<exists>ob ob'. w_heap w r = Some ob \<and> no_Peer ob = Some q \<and> w_heap w' r = Some ob' \<and>
           vars_changed ob ob'))"

lemma same_shape_refl [simp]: "same_shape v v"
  by (simp add: same_shape_def)

lemma vars_changed_trans: "vars_changed a b \<Longrightarrow> vars_changed b c \<Longrightarrow> vars_changed a c"
proof -
  assume 1: "vars_changed a b" and 2: "vars_changed b c"
  then have "list_all2 same_shape (no_Vars a) (no_Vars c)"
    unfolding vars_changed_def
    by (elim conjE, rule_tac list_all2_trans [of same_shape same_shape]) (auto simp: same_shape_def)
  moreover have "c = a\<lparr>no_Vars := no_Vars c\<rparr>"
    using 1 2 unfolding vars_changed_def by (metis net_object.update_convs(9) net_object.surjective)
  ultimately show "vars_changed a c" by (simp add: vars_changed_def)
qed

lemma peer_changes_refl [simp]: "peer_changes q w w"
  by (simp add: peer_changes_def)

lemma vars_changed_peer: "vars_changed ob ob' \<Longrightarrow> no_Peer ob' = no_Peer ob"
  unfolding vars_changed_def by (metis net_object.ext_inject net_object.surjective net_object.update_convs(9))

lemma peer_changes_trans:
  assumes "peer_changes q w v" and "peer_changes q v u"
  shows "peer_changes q w u"
proof -
  have "u = w\<lparr>w_heap := w_heap u\<rparr>"
  proof -
    have "v = w\<lparr>w_heap := w_heap v\<rparr>" and "u = v\<lparr>w_heap := w_heap u\<rparr>"
      using assms by (simp_all add: peer_changes_def)
    then have "u = w\<lparr>w_heap := w_heap v, w_heap := w_heap u\<rparr>" by simp
    then show ?thesis by simp
  qed
  moreover have "w_heap u r = w_heap w r \<or> (\<exists>ob ob'. w_heap w r = Some ob \<and> no_Peer ob = Some q \<and>
      w_heap u r = Some ob' \<and> vars_changed ob ob')" for r
  proof -
    have 1: "w_heap v r = w_heap w r \<or> (\<exists>ob ob'. w_heap w r = Some ob \<and> no_Peer ob = Some q \<and>
        w_heap v r = Some ob' \<and> vars_changed ob ob')"
      and 2: "w_heap u r = w_heap v r \<or> (\<exists>ob ob'. w_heap v r = Some ob \<and> no_Peer ob = Some q \<and>
        w_heap u r = Some ob' \<and> vars_changed ob ob')"
      using assms by (simp_all add: peer_changes_def)
    show ?thesis
    proof (cases "w_heap v r = w_heap w r \<or> w_heap u r = w_heap v r")
      case True
      with 1 2 show ?thesis by auto
    next
      case False
      with 1 2 show ?thesis by (auto intro: vars_changed_trans)
    qed
  qed
  ultimately show ?thesis by (simp add: peer_changes_def)
qed

lemma list_all2_same_update:
  "j < length vs \<Longrightarrow> same_shape (vs ! j) v \<Longrightarrow> list_all2 same_shape vs (vs[j := v])"
  by (auto simp: list_all2_conv_all_nth nth_list_update)

lemma find_var_bound: "find_var vs nm k = Inr (Some j) \<Longrightarrow> k \<le> j \<and> j < k + length vs"
  by (induction vs arbitrary: k) (force simp: res_bind_Inr_iff split: if_splits)+

lemma ReadEntityUpdate_changes:
  assumes "ReadEntityUpdate frame (Some q) w = Inr w'"
  shows "peer_changes q w w'"
proof (cases "w' = w")
  case False
  with assms obtain r ob j v where r: "w_heap w r = Some ob" "no_Peer ob = Some q"
    and j: "find_var (no_Vars ob) (get_name frame) 0 = Inr (Some j)"
    and v: "Set_raw (get_data frame) 0 (SetSequence (get_sequence frame) (no_Vars ob ! j)) = Inr v"
    and w': "w' = upd_object r (\<lambda>ob. ob\<lparr>no_Vars := (no_Vars ob)[j := v]\<rparr>) w"
    by (auto simp: ReadEntityUpdate_def Let_def res_bind_Inr_iff deref_Inr split: option.splits if_splits)
  have "same_shape (no_Vars ob ! j) v"
    using Set_raw_shape [OF v] by (simp add: same_shape_def SetSequence_def)
  then have "vars_changed ob (ob\<lparr>no_Vars := (no_Vars ob)[j := v]\<rparr>)"
    using find_var_bound [OF j] by (simp add: vars_changed_def list_all2_same_update)
  then show ?thesis
    using r w' by (auto simp: peer_changes_def upd_object_def)
qed simp

lemma frame_loop_changes:
  "frame_loop junk (server_frame (Some q)) data c mx n w = Inr w' \<Longrightarrow> peer_changes q w w'"
proof (induction n arbitrary: c w)
  case (Suc n)
  then obtain e w1 where e: "server_frame (Some q) e w = Inr w1"
    and rest: "frame_loop junk (server_frame (Some q)) data (c + unat mx) mx n w1 = Inr w'"
    by (auto simp: res_bind_Inr_iff)
  have "peer_changes q w w1"
    using e by (auto simp: server_frame_def intro: ReadEntityUpdate_changes split: if_splits)
  with Suc.IH [OF rest] show ?case by (rule peer_changes_trans [rotated])
qed simp

text \<open>
  C4. A peer's snapshot can only touch the peer's own objects: whatever bytes a peer sends to the
  server's snapshot handler, every object that belongs to another peer or to no peer is as before,
  the peer's own objects change in the contents of their variables only (not in names, sizes,
  reliability, controller or identifier), and nothing else of the controller changes.
\<close>

theorem server_snapshot_permission:
  assumes "HandleClientEntSnapshot A data (Some q) w = Inr w'"
  shows "w' = w\<lparr>w_heap := w_heap w'\<rparr> \<and>
    (\<forall>r ob. w_heap w r = Some ob \<longrightarrow>
       (if no_Peer ob \<noteq> Some q then w_heap w' r = Some ob
        else \<exists>vs. w_heap w' r = Some (ob\<lparr>no_Vars := vs\<rparr>) \<and> list_all2 same_shape (no_Vars ob) vs))"
proof -
  have pc: "peer_changes q w w'"
    using assms by (auto simp: HandleClientEntSnapshot_def res_bind_Inr_iff intro: frame_loop_changes
        split: if_splits)
  have "if no_Peer ob \<noteq> Some q then w_heap w' r = Some ob
        else \<exists>vs. w_heap w' r = Some (ob\<lparr>no_Vars := vs\<rparr>) \<and> list_all2 same_shape (no_Vars ob) vs"
    if r: "w_heap w r = Some ob" for r ob
  proof (cases "w_heap w' r = w_heap w r")
    case True
    have "list_all2 same_shape (no_Vars ob) (no_Vars ob)" by (simp add: list_all2_same)
    moreover have "ob\<lparr>no_Vars := no_Vars ob\<rparr> = ob" by simp
    ultimately show ?thesis using True r by metis
  next
    case False
    with pc r obtain ob' where "no_Peer ob = Some q" "w_heap w' r = Some ob'" "vars_changed ob ob'"
      unfolding peer_changes_def by fastforce
    then show ?thesis unfolding vars_changed_def by metis
  qed
  with pc show ?thesis by (simp add: peer_changes_def)
qed

text \<open>Peer 1 sends a forced frame for the variable of its object, which the server takes.\<close>

definition sample_update :: bytes where
  "sample_update = snapshot_packet 0 147 [var_frame 3 (sample_var\<lparr>nv_Data := [7, 7, 7, 7]\<rparr>) True]"

lemma sample_update_taken:
  "HandleClientEntSnapshot sample_app sample_update (Some 1) sample_server =
   Inr (store_var 0 0 (received (sample_var\<lparr>nv_Data := [7, 7, 7, 7]\<rparr>) sample_var) sample_server)"
proof -
  let ?v = "sample_var\<lparr>nv_Data := [7, 7, 7, 7]\<rparr>"
  have v: "nv_ok ?v" by (simp add: nv_ok_def sample_var_def max_entvar_data_def)
  have len: "length (var_frame 3 ?v True) = 147"
    using var_frame_length [OF v] by (simp add: sample_var_def)
  have dec: "list_all2 (decodes (ap_junk sample_app) 147) (map (pad_buffer 147) [var_frame 3 ?v True]) [var_entry 3 ?v True]"
    using updates_decode [of "[(3, ?v)]" 147 _ True] v by (simp add: update_frames_def)
  have fo: "find_object sample_server 3 = Inr (Some 0)"
    by (simp add: find_object_def sample_instance_def instance_new_def sample_manager_def
        FindObject_def GetByNetID_def deref_def)
      (simp add: sample_object_def)
  have ft: "get_frametype (var_entry 3 ?v True) = kFRAME_Data"
    using v by (simp add: var_entry_def frame_entry_members padded_data_length nv_ok_def)
  have "ReadEntityUpdate (var_entry 3 ?v True) (Some 1) sample_server =
      Inr (store_var 0 0 (received ?v (no_Vars sample_object ! 0)) sample_server)"
    by (rule ReadEntityUpdate_accepted [OF v fo])
      (simp_all add: sample_object_def sample_var_def accepts_def CheckSequence_def)
  then have "apply_frames (server_frame (Some 1)) [var_entry 3 ?v True] sample_server =
      Inr (store_var 0 0 (received ?v sample_var) sample_server)"
    using ft by (simp add: server_frame_def sample_object_def)
  then show ?thesis
    unfolding sample_update_def using receive_packet(2) [OF _ _ _ dec] len by simp
qed

theorem server_snapshot_permission_witness:
  "\<exists>w'. HandleClientEntSnapshot sample_app sample_update (Some 1) sample_server = Inr w' \<and>
    w' = sample_server\<lparr>w_heap := w_heap w'\<rparr> \<and>
    (\<forall>r ob. w_heap sample_server r = Some ob \<longrightarrow>
       (if no_Peer ob \<noteq> Some 1 then w_heap w' r = Some ob
        else \<exists>vs. w_heap w' r = Some (ob\<lparr>no_Vars := vs\<rparr>) \<and> list_all2 same_shape (no_Vars ob) vs))"
  using server_snapshot_permission [OF sample_update_taken] sample_update_taken by blast

section \<open>Reading packets\<close>

text \<open>The states the rest of the controller keeps: live references and variables within bounds.\<close>

definition world_ok :: "world \<Rightarrow> bool" where
  "world_ok w \<longleftrightarrow>
     (\<forall>(_, vi) \<in> set (w_Instances w). \<forall>(_, mg) \<in> set (vi_EntManagers vi). live w (mg_Objects mg)) \<and>
     (\<forall>r ob. w_heap w r = Some ob \<longrightarrow> object_ok ob)"

lemma find_in_managers_total:
  "\<forall>(_, mg) \<in> set ms. live w (mg_Objects mg) \<Longrightarrow> \<exists>x. find_in_managers w ms nid = Inr x"
proof (induction ms)
  case (Cons m ms)
  then show ?case
    by (cases m) (auto simp: GetByNetID_def find_netid_eq split: option.splits)
qed simp

lemma find_in_instances_total:
  "\<forall>(_, vi) \<in> set is. \<forall>(_, mg) \<in> set (vi_EntManagers vi). live w (mg_Objects mg) \<Longrightarrow>
   \<exists>x. find_in_instances w is nid = Inr x"
proof (induction "is")
  case (Cons i "is")
  obtain nm vi where i: "i = (nm, vi)" by (cases i)
  with Cons.prems have "\<forall>(_, mg) \<in> set (vi_EntManagers vi). live w (mg_Objects mg)" by simp
  from find_in_managers_total [OF this] obtain x where "FindObject w vi nid = Inr x"
    unfolding FindObject_def by blast
  with Cons i show ?case by (auto split: option.splits)
qed simp

lemma strcmp_equal_total: "0 \<in> set b \<Longrightarrow> \<exists>x. strcmp_equal (a @ [0]) b = Inr x"
proof (induction b arbitrary: a)
  case (Cons y b)
  then show ?case by (cases a) auto
qed simp

lemma find_var_total: "0 \<in> set nm \<Longrightarrow> \<exists>x. find_var vs nm k = Inr x"
proof (induction vs arbitrary: k)
  case (Cons v vs)
  then obtain x where "strcmp_equal (nv_Name v @ [0]) nm = Inr x" using strcmp_equal_total by blast
  with Cons show ?case by auto
qed simp

definition frame_read :: "entry \<Rightarrow> bool" where
  "frame_read e \<longleftrightarrow> length (ent_mem e) = 212 \<and> ent_mem e ! 210 = 0"

lemma poke_Inr: "poke mem i b = Inr m \<longleftrightarrow> i < length mem \<and> m = mem[i := b]"
  by (auto simp: poke_def)

lemma read_data_frame:
  assumes "entry_ok e" and "read_data e stream n = Inr e'"
  shows "frame_read e'"
  using assms
  by (auto simp: read_data_def offsets res_bind_Inr_iff entry_ok_def frame_read_def poke_Inr
      split: if_splits dest!: pokes_length copy_loop_length read_name_length)

lemma frame_read_name:
  assumes "frame_read e"
  shows "0 \<in> set (get_name e)" and "length (get_data e) = 131"
proof -
  have "get_name e ! 193 = 0" and "193 < length (get_name e)"
    using assms by (simp_all add: frame_read_def get_name_def off_name_def)
  then show "0 \<in> set (get_name e)" by (metis nth_mem)
  show "length (get_data e) = 131" using assms by (simp add: frame_read_def get_data_def off_data_def)
qed

lemma ReadEntityUpdate_total:
  assumes w: "world_ok w" and e: "frame_read e"
  shows "\<exists>w'. ReadEntityUpdate e owner w = Inr w' \<and> world_ok w'"
proof (cases "\<exists>w'. ReadEntityUpdate e owner w = Inr w' \<and> w' = w")
  case False
  obtain x where x: "find_in_instances w (w_Instances w) (get_netid e) = Inr x"
    using find_in_instances_total [of "w_Instances w" w "get_netid e"] w by (auto simp: world_ok_def)
  with False obtain r where xr: "x = Some r" by (cases x) (simp_all add: ReadEntityUpdate_def)
  obtain ob where ob: "w_heap w r = Some ob"
    using find_in_instances_Some x xr by blast
  have ok: "object_ok ob" using w ob by (auto simp: world_ok_def)
  obtain y where y: "find_var (no_Vars ob) (get_name e) 0 = Inr y"
    using find_var_total [OF frame_read_name(1) [OF e]] by blast
  from False x xr ob y obtain j where j: "y = Some j"
    by (cases y) (auto simp: ReadEntityUpdate_def deref_def split: if_splits)
  let ?u = "no_Vars ob ! j" let ?v = "SetSequence (get_sequence e) ?u"
  have jl: "j < length (no_Vars ob)" using find_var_bound y j by fastforce
  then have uok: "nv_ok ?u" using ok by (simp add: object_ok_def)
  have "\<exists>v'. Set_raw (get_data e) 0 ?v = Inr v'"
  proof (cases "nv_Locked ?v")
    case True then show ?thesis by (simp add: Set_raw_locked)
  next
    case False
    have "length (nv_Data ?v) \<le> length (get_data e)"
      using uok frame_read_name(2) [OF e] by (simp add: nv_ok_def SetSequence_def max_entvar_data_def)
    with False show ?thesis by (simp add: Set_raw_whole)
  qed
  then obtain v' where v': "Set_raw (get_data e) 0 ?v = Inr v'" by blast
  then have "same_shape ?v v'" by (rule Set_raw_shape)
  then have vok: "nv_ok v'" using uok same_shape_ok by (simp add: nv_ok_def same_shape_def SetSequence_def)
  let ?w = "upd_object r (\<lambda>ob. ob\<lparr>no_Vars := (no_Vars ob)[j := v']\<rparr>) w"
  have "ReadEntityUpdate e owner w = Inr ?w"
    using False x xr ob y j v' by (auto simp: ReadEntityUpdate_def deref_def Let_def split: if_splits)
  moreover have "live ?w rs = live w rs" for rs by (auto simp: live_def)
  then have "world_ok ?w"
    using w ob ok vok unfolding world_ok_def
    by (auto simp: upd_object_fields object_ok_def dest!: subsetD [OF set_update_subset_insert])
  ultimately show ?thesis by blast
qed (use w in blast)

text \<open>The comparison of the sizes is exact for frames within the guard.\<close>

lemma unat_count_size:
  fixes n :: u16 and mx :: size_t
  assumes "unat mx \<le> 224"
  shows "unat (ucast n * mx) = unat n * unat mx"
proof -
  have "unat n < 2 ^ 16" using unsigned_less [of n] by simp
  then have "unat n * unat mx \<le> 65535 * 224" using assms by (intro mult_le_mono) simp_all
  then have "unat n * unat mx < 2 ^ 32" by simp
  moreover have "unat n < 2 ^ 32" using \<open>unat n < 2 ^ 16\<close> by simp
  then have "unat (ucast n :: size_t) = unat n"
    by (simp add: unsigned_ucast_eq take_bit_nat_eq_self)
  ultimately show ?thesis by (simp add: unat_word_ariths)
qed

lemma sizes_match_exact:
  assumes "sizes_match h data" and "length data < 2 ^ 32" and "12 \<le> length data"
    and "unat (hd_max_message_length h) \<le> 224"
  shows "length data = 12 + unat (hd_count h) * unat (hd_max_message_length h)"
proof -
  have "unat (vsize data - of_nat sizeof_header) = length data - 12"
    using assms(2,3) unat_vsize [OF assms(2)]
    by (simp add: sizeof_header_def unat_sub word_le_nat_alt)
  then show ?thesis
    using assms(1,3) unat_count_size [OF assms(4), of "hd_count h"] by (simp add: sizes_match_def)
qed

lemma snapshot_header_length:
  "snapshot_header data = Inr h \<Longrightarrow> length data < 2 ^ 32 \<Longrightarrow> 12 \<le> length data"
  by (auto simp: snapshot_header_def header_read_def sizeof_header_def unat_vsize split: if_splits)

lemma server_frames_safe:
  assumes "210 \<le> unat mx" and "unat mx \<le> 224"
  shows "c + n * unat mx \<le> length data \<Longrightarrow> world_ok w \<Longrightarrow>
    \<exists>w'. frame_loop j (server_frame pr) data c mx n w = Inr w' \<and> world_ok w'"
proof (induction n arbitrary: c w)
  case (Suc n)
  have "210 \<le> length (drop c data)" using Suc.prems(1) assms(1) by simp
  from read_data_safe [OF entry_new_ok this, of mx j] assms obtain e where
    e: "read_data (entry_new j) (drop c data) mx = Inr e" by auto
  have fr: "frame_read e" using read_data_frame [OF entry_new_ok e] .
  obtain w1 where w1: "server_frame pr e w = Inr w1" "world_ok w1"
    using ReadEntityUpdate_total [OF Suc.prems(2) fr, of pr] Suc.prems(2)
    by (cases "get_frametype e = kFRAME_Data") (auto simp: server_frame_def)
  show ?case using Suc.IH [of "c + unat mx" w1] Suc.prems(1) w1 e by (simp add: add.assoc)
qed simp

text \<open>
  C6. Snapshot packets whose frames are at least 210 bytes long are handled without any access
  outside the packet: from a state with live references and bounded variables the server's handler
  ends in such a state again or in the exception for a bad frame length, for every packet content.
\<close>

theorem server_snapshot_memory_safe:
  assumes w: "world_ok w" and len: "length data < 2 ^ 32"
    and hdr: "snapshot_header data = Inr h" and mx: "210 \<le> unat (hd_max_message_length h)"
  shows "case HandleClientEntSnapshot A data pr w of
      Inl f \<Rightarrow> f = Nettik_Exception \<and> 224 < unat (hd_max_message_length h)
    | Inr w' \<Rightarrow> world_ok w'"
proof (cases "sizes_match h data")
  case False
  then show ?thesis using w by (simp add: HandleClientEntSnapshot_def hdr)
next
  case True
  show ?thesis
  proof (cases "unat (hd_max_message_length h) \<le> 224")
    case False
    then have "read_data e s (hd_max_message_length h) = Inl Nettik_Exception" for e s
      by (intro read_data_guard) simp
    then show ?thesis
      using False True w by (cases "unat (hd_count h)") (simp_all add: HandleClientEntSnapshot_def hdr)
  next
    case small: True
    have "length data = 12 + unat (hd_count h) * unat (hd_max_message_length h)"
      using sizes_match_exact [OF True len snapshot_header_length [OF hdr len] small] .
    with server_frames_safe [OF mx small, of 12 "unat (hd_count h)" data w "ap_junk A" pr] w True
    show ?thesis by (auto simp: HandleClientEntSnapshot_def hdr sizeof_header_def)
  qed
qed

lemma sample_server_ok: "world_ok sample_server"
  by (auto simp: world_ok_def sample_instance_def instance_new_def sample_manager_def)
    (use sample_object_ok in \<open>auto simp: sample_server_def object_ok_def split: if_splits\<close>)

theorem server_snapshot_memory_safe_witness:
  "case HandleClientEntSnapshot sample_app (header_image \<lparr>hd_message_code = OBJECT_FRAME, hd_count = 1,
       hd_sequence = 0, hd_max_message_length = 210\<rparr> @ replicate 210 255) (Some 1) sample_server of
      Inl f \<Rightarrow> f = Nettik_Exception \<and> 224 < unat (hd_max_message_length \<lparr>hd_message_code = OBJECT_FRAME,
       hd_count = 1, hd_sequence = 0, hd_max_message_length = 210\<rparr>)
    | Inr w' \<Rightarrow> world_ok w'"
  by (rule server_snapshot_memory_safe [OF sample_server_ok])
    (simp_all add: snapshot_header_def header_read_at_front vsize_def)

text \<open>
  C32. Shorter frames are read out of bounds: one frame of 10 to 145 arbitrary bytes in an otherwise
  well-formed packet makes both sides' handlers read past the end of the packet.
\<close>

theorem short_frame_overread:
  assumes "10 \<le> length f" and "length f < 146"
  shows "HandleClientEntSnapshot A (snapshot_packet sq (vsize f) [f]) pr w = Inl Undefined \<and>
    HandleEntSnapshot A (snapshot_packet sq (vsize f) [f]) w = Inl Undefined"
proof -
  have u: "unat (vsize f) = length f" using assms(2) by (intro unat_vsize) simp
  have p: "pad_buffer (vsize f) f = f" by (simp add: pad_buffer_def)
  have pad: "padded_to (vsize f) (map (pad_buffer (vsize f)) [f])"
    using u by (intro padded_pad) simp
  note hd = packet_header [of "[f]", OF _ _ pad, of sq]
  have "drop 12 (snapshot_packet sq (vsize f) [f]) = f" by (simp add: snapshot_packet_def p)
  moreover have "read_data (entry_new (ap_junk A)) f (vsize f) = Inl Undefined"
  proof -
    have "only_undefined (read_data (entry_new (ap_junk A)) f (vsize f))"
      using assms u by (intro read_data_faults) simp_all
    then show ?thesis
      using read_data_needs [of "entry_new (ap_junk A)" f "vsize f"] assms(2)
      by (cases "read_data (entry_new (ap_junk A)) f (vsize f)") (auto simp: only_undefined_def)
  qed
  moreover have "unat (1 :: u16) = Suc 0" by simp
  ultimately show ?thesis
    using hd u assms
    by (simp add: HandleClientEntSnapshot_def HandleEntSnapshot_def sizeof_header_def del: unsigned_1)
qed

theorem short_frame_overread_witness:
  "HandleClientEntSnapshot sample_app (snapshot_packet 0 (vsize (replicate 10 1)) [replicate 10 1]) (Some 1) sample_server = Inl Undefined \<and>
    HandleEntSnapshot sample_app (snapshot_packet 0 (vsize (replicate 10 1)) [replicate 10 1]) sample_server = Inl Undefined"
  by (rule short_frame_overread) simp_all

end
