(* ===== verification/Entity_Properties.thy ===== *)
theory Entity_Properties
  imports System_Properties
begin

text \<open>
  Properties of object creation and deletion on a client and of the controller's life cycle.
\<close>

section \<open>Creation and deletion frames on a client\<close>

text \<open>An application whose creation callbacks leave the controller alone.\<close>

definition quiet :: "app \<Rightarrow> bool" where
  "quiet A \<longleftrightarrow> (\<forall>n r w. ap_create A n r w = w) \<and> (\<forall>r w. ap_initialize A r w = w)"

lemma client_store_same:
  assumes "w_heap w' = w_heap w" and "w_NextRef w' = w_NextRef w" and "w_Server w' = w_Server w"
    and "w_Instances w' = w_Instances w"
  shows "client_store i m w' = client_store i m w" and "object_lookup i m w' = object_lookup i m w"
proof -
  have f: "find_manager w' i m = find_manager w i m"
    by (simp add: find_manager_def get_instance_def assms)
  have "netid_of w' = netid_of w" and "object_in i m w' = object_in i m w"
    by (auto simp: fun_eq_iff netid_of_def object_in_def assms)
  then show "client_store i m w' = client_store i m w"
    by (simp add: client_store_def f lists_ok_def assms cong: option.case_cong)
  have "find_netid w' rs x = find_netid w rs x" for rs x
    by (rule find_netid_code) (simp add: assms)
  then show "object_lookup i m w' = object_lookup i m w"
    by (simp add: fun_eq_iff object_lookup_def f GetByNetID_def split: option.splits)
qed

lemma client_store_fields [simp]:
  "client_store i m (w\<lparr>w_Controlled := c\<rparr>) = client_store i m w"
  "object_lookup i m (w\<lparr>w_Controlled := c\<rparr>) = object_lookup i m w"
  "client_store i m (hold r w) = client_store i m w"
  "object_lookup i m (hold r w) = object_lookup i m w"
  "client_store i m (unhold r w) = client_store i m w"
  "object_lookup i m (unhold r w) = object_lookup i m w"
  by (rule client_store_same; simp add: hold_def unhold_def)+

lemma frame_manager_Inr:
  "frame_manager e w = Inr (i, m, mg) \<longleftrightarrow> c_str (get_data e) = Inr i \<and> c_str (get_name e) = Inr m \<and>
     find_manager w i m = Some mg"
proof
  show "c_str (get_data e) = Inr i \<and> c_str (get_name e) = Inr m \<and> find_manager w i m = Some mg \<Longrightarrow>
      frame_manager e w = Inr (i, m, mg)"
    by (auto simp: frame_manager_def find_manager_def bind_eq_Some_conv)
qed (auto simp: frame_manager_def find_manager_def res_bind_Inr_iff split: option.splits)

lemma BuildLocal_quiet:
  assumes "quiet A" and "insert_object A i m nid c w = Inr (r, w')" and "client_store i m w'"
  shows "BuildLocal A i m nid c w = Inr (r, w')"
  using assms by (auto simp: BuildLocal_def quiet_def elim!: client_storeE split: option.splits)

lemma EntAllocate_new:
  assumes A: "quiet A" and fm: "frame_manager e w = Inr (i, m, mg)" and ok: "client_store i m w"
    and free: "object_lookup i m w (get_netid e) = Inr None" "map_of (w_Controlled w) (get_netid e) = None"
  shows "\<exists>w' r. EntAllocate A e w = Inr w' \<and> client_store i m w' \<and>
    object_lookup i m w' (get_netid e) = Inr (Some r) \<and>
    (\<forall>nid. nid \<noteq> get_netid e \<longrightarrow> object_lookup i m w' nid = object_lookup i m w nid) \<and>
    map_of (w_Controlled w') (get_netid e) =
      (if get_controller e = NET_CONTROLLER_LOCAL then Some r else None) \<and>
    EntAllocate A e w' = Inr w'"
proof -
  let ?nid = "get_netid e" and ?c = "get_controller e"
  from fm have mg: "find_manager w i m = Some mg" by (simp add: frame_manager_Inr)
  have known: "GetByNetID w mg ?nid = Inr None"
    using free(1) mg by (simp add: object_lookup_def)
  from entities.add_law [OF ok free(1), of A ?c] obtain r w1 where
    ins: "insert_object A i m ?nid ?c w = Inr (r, w1)" and ok1: "client_store i m w1"
    and look: "object_lookup i m w1 ?nid = Inr (Some r)"
      "\<forall>nid. nid \<noteq> ?nid \<longrightarrow> object_lookup i m w1 nid = object_lookup i m w nid" by blast
  have ctl: "w_Controlled w1 = w_Controlled w"
    using ins mg by (auto simp: insert_object_def Let_def frame_simps split: if_splits)
  let ?w = "if ?c = NET_CONTROLLER_LOCAL
    then w1\<lparr>w_Controlled := aput ?nid r (w_Controlled w1)\<rparr> else w1"
  have step: "EntAllocate A e w = Inr ?w"
    using BuildLocal_quiet [OF A ins ok1] free(2)
    by (simp add: EntAllocate_def fm known ctl set_controlled_def)
  have ok': "client_store i m ?w" and look': "object_lookup i m ?w nid = object_lookup i m w1 nid" for nid
    using ok1 by simp_all
  obtain mg' where mg': "find_manager ?w i m = Some mg'" using ok' by (rule client_storeE)
  then have "frame_manager e ?w = Inr (i, m, mg')" using fm by (simp add: frame_manager_Inr)
  moreover have "GetByNetID ?w mg' ?nid = Inr (Some r)"
    using look(1) look' [of ?nid] mg' unfolding object_lookup_def by simp
  ultimately have "EntAllocate A e ?w = Inr ?w" by (simp add: EntAllocate_def)
  moreover have "map_of (w_Controlled ?w) ?nid = (if ?c = NET_CONTROLLER_LOCAL then Some r else None)"
    using free(2) by (simp add: ctl)
  ultimately show ?thesis
    using step ok' look look' by (intro exI [of _ ?w] exI [of _ r]) simp
qed

text \<open>
  A creation frame creates the object once: afterwards the identifier is found in the named
  manager, every other identifier is looked up as before, the object is entered as controlled
  exactly when the frame says so, and the same frame again changes nothing.
\<close>

lemma client_allocates:
  assumes A: "quiet A" and fm: "frame_manager e w = Inr (i, m, mg)" and ok: "client_store i m w"
    and free: "object_lookup i m w (get_netid e) = Inr None" "map_of (w_Controlled w) (get_netid e) = None"
  shows "\<exists>w' r. EntAllocate A e w = Inr w' \<and> client_store i m w' \<and>
    object_lookup i m w' (get_netid e) = Inr (Some r) \<and>
    (\<forall>nid. nid \<noteq> get_netid e \<longrightarrow> object_lookup i m w' nid = object_lookup i m w nid) \<and>
    map_of (w_Controlled w') (get_netid e) =
      (if get_controller e = NET_CONTROLLER_LOCAL then Some r else None) \<and>
    EntAllocate A e w' = Inr w'"
  using assms by (rule EntAllocate_new)

text \<open>A creation frame for the manager of the sample world, and its client as a store.\<close>

definition sample_frame :: "u32 \<Rightarrow> u32 \<Rightarrow> u32 \<Rightarrow> entry" where
  "sample_frame ft nid ctl = frame_entry ft nid ctl 0 0 [112] (119 # replicate 127 0)"

lemma sample_frame_members [simp]:
  "get_frametype (sample_frame ft nid ctl) = ft" "get_netid (sample_frame ft nid ctl) = nid"
  "get_controller (sample_frame ft nid ctl) = ctl"
  "c_str (get_name (sample_frame ft nid ctl)) = Inr [112]"
  "c_str (get_data (sample_frame ft nid ctl)) = Inr [119]"
proof -
  have d: "length (119 # replicate 127 (0::u8)) = 128" and n: "length [112 :: u8] \<le> 63" by simp_all
  note m = frame_entry_members [OF d n, of ft nid ctl 0 0, folded sample_frame_def]
  show "get_frametype (sample_frame ft nid ctl) = ft" "get_netid (sample_frame ft nid ctl) = nid"
    "get_controller (sample_frame ft nid ctl) = ctl"
    by (rule m)+
  obtain z where "get_name (sample_frame ft nid ctl) = [112] @ 0 # z" using m(6) by blast
  then show "c_str (get_name (sample_frame ft nid ctl)) = Inr [112]"
    using c_str_app [of "[112]" z] by simp
  have "replicate 127 (0::u8) = 0 # replicate 126 0" by (simp add: eval_nat_numeral)
  then have "get_data (sample_frame ft nid ctl) = [119] @ 0 # replicate 126 0 @ [0, 0, 0]"
    using m(7) by simp
  then show "c_str (get_data (sample_frame ft nid ctl)) = Inr [119]"
    using c_str_app [of "[119]"] by simp
qed

lemma sample_frame_manager:
  "frame_manager (sample_frame ft nid ctl) sample_client = Inr ([119], [112], sample_manager [0, 1] [])"
  by (simp add: frame_manager_Inr find_manager_def get_instance_def get_manager_def sample_instance_def)

lemma sample_client_manager:
  "find_manager sample_client [119] [112] = Some (sample_manager [0, 1] [])"
  by (simp add: find_manager_def get_instance_def get_manager_def sample_instance_def)

lemma sample_client_ids: "netid_of sample_client 0 = Some 3" "netid_of sample_client 1 = Some 4"
  by (simp_all add: netid_of_def sample_client_def sample_object_def)

lemma sample_client_lists: "lists_ok [119] [112] sample_client [0, 1] []"
  using sample_client_ids
  by (simp add: lists_ok_def object_in_def) (simp add: sample_client_def sample_object_def)

lemma sample_client_store: "client_store [119] [112] sample_client"
  using sample_client_lists sample_client_manager by (simp add: client_store_def sample_manager_def)

lemma sample_client_lookup:
  "object_lookup [119] [112] sample_client nid =
     Inr (if nid = 3 then Some 0 else if nid = 4 then Some 1 else None)"
  using lookup_client [OF sample_client_manager, of "[]" nid] sample_client_lists sample_client_ids
  by (auto simp: sample_manager_def)

lemma sample_quiet: "quiet sample_app"
  by (simp add: quiet_def sample_app_def)

text \<open>Letting go of an object the manager no longer lists does not show in its lookups.\<close>

lemma release_unlisted:
  assumes ok: "client_store i m w" and mg: "find_manager w i m = Some mg"
    and out: "r \<notin> set (mg_Objects mg)" and ob: "w_heap w r = Some ob" "no_Manager ob = Some (i, m)"
  shows "\<exists>w'. release A r w = Inr w' \<and> client_store i m w' \<and> object_lookup i m w' = object_lookup i m w"
proof -
  from ok mg have srv: "\<not> w_Server w" and l: "lists_ok i m w (mg_Objects mg) (mg_Local mg)"
    by (auto elim!: client_storeE)
  define w' where "w' = (if use_count w r = 0 then w\<lparr>w_heap := (w_heap w)(r := None)\<rparr> else w)"
  have rel: "release A r w = Inr w'"
    unfolding w'_def by (rule release_client [OF srv ob mg])
  have f: "find_manager w' i m = Some mg" "w_Server w' = w_Server w" "w_NextRef w' = w_NextRef w"
    using mg by (simp_all add: w'_def)
  have at: "netid_of w' y = netid_of w y \<and> object_in i m w' y = object_in i m w y"
    if "y \<in> set (mg_Objects mg)" for y
  proof -
    have "y \<noteq> r" using out that by metis
    then show ?thesis by (simp add: w'_def netid_of_def object_in_def)
  qed
  then have ids: "map (netid_of w') (mg_Objects mg) = map (netid_of w) (mg_Objects mg)" by simp
  have l': "lists_ok i m w' (mg_Objects mg) (mg_Local mg)"
    using l at unfolding lists_ok_def ids by simp
  have "find (\<lambda>y. netid_of w' y = Some nid) (mg_Objects mg) = find (\<lambda>y. netid_of w y = Some nid) (mg_Objects mg)" for nid
    by (rule find_cong_set) (simp add: at)
  then have "object_lookup i m w' nid = object_lookup i m w nid" for nid
    using lookup_client [OF f(1) l'] lookup_client [OF mg l] by simp
  moreover have "client_store i m w'" using f l' srv by (simp add: client_store_def)
  ultimately show ?thesis using rel by (auto simp: fun_eq_iff)
qed

text \<open>
  What a deletion leaves of the object \<open>r\<close> it removes: a controlled entry goes when the object is
  controlled here, and its memory is freed unless somebody else still refers to it.
\<close>

definition removed_from :: "world \<Rightarrow> u32 \<Rightarrow> oref \<Rightarrow> world \<Rightarrow> bool" where
  "removed_from w nid r w' \<longleftrightarrow> (case w_heap w r of None \<Rightarrow> False | Some ob \<Rightarrow>
     w_Controlled w' = (if IsNetworkLocal ob then adel nid (w_Controlled w) else w_Controlled w) \<and>
     w_extern w' = w_extern w \<and> w_heap w' = (if use_count w' r = 0 then (w_heap w)(r := None) else w_heap w))"

lemma adel_absent: "map_of xs k = None \<Longrightarrow> adel k xs = xs"
  by (force simp: adel_def map_of_eq_None_iff intro!: filter_True)

lemma EntDeallocate_effect:
  assumes fm: "frame_manager e w = Inr (i, m, mg)" and ok: "client_store i m w"
    and ctl: "map_of (w_Controlled w) (get_netid e) = None \<or>
      (\<exists>r. map_of (w_Controlled w) (get_netid e) = Some r \<and> object_lookup i m w (get_netid e) = Inr (Some r))"
  shows "\<exists>w'. EntDeallocate A e w = Inr w' \<and> client_store i m w' \<and>
    object_lookup i m w' (get_netid e) = Inr None \<and>
    (\<forall>nid. nid \<noteq> get_netid e \<longrightarrow> object_lookup i m w' nid = object_lookup i m w nid) \<and>
    (case object_lookup i m w (get_netid e) of
       Inr (Some r) \<Rightarrow> removed_from w (get_netid e) r w' | _ \<Rightarrow> w' = w)"
proof -
  let ?nid = "get_netid e"
  from fm have mg: "find_manager w i m = Some mg" by (simp add: frame_manager_Inr)
  obtain x where x: "object_lookup i m w ?nid = Inr x" using entities.look_total [OF ok] by blast
  then have look: "GetByNetID w mg ?nid = Inr x" using mg by (simp add: object_lookup_def)
  show ?thesis
  proof (cases x)
    case None
    with x ok show ?thesis by (intro exI [of _ w]) (simp add: EntDeallocate_def fm look)
  next
    case (Some r)
    from ok mg have srv: "\<not> w_Server w" and l: "lists_ok i m w (mg_Objects mg) (mg_Local mg)"
      by (auto elim!: client_storeE)
    from x Some lookup_client [OF mg l] have rin: "r \<in> set (mg_Objects mg)"
      by (auto simp: find_Some_iff)
    then obtain ob where ob: "w_heap w r = Some ob" "no_Manager ob = Some (i, m)"
      using l by (auto simp: lists_ok_def object_in_def split: option.splits)
    let ?w1 = "hold r w"
    define w2 where "w2 = (if IsNetworkLocal ob \<and> map_of (w_Controlled w) ?nid \<noteq> None
      then ?w1\<lparr>w_Controlled := adel ?nid (w_Controlled w)\<rparr> else ?w1)"
    have w2: "client_store i m w2" "object_lookup i m w2 = object_lookup i m w" "0 < w_extern w2 r"
      "w_heap w2 = w_heap w" "w_Server w2 = w_Server w" "find_manager w2 i m = Some mg"
      using ok mg by (auto simp: w2_def) (simp_all add: hold_def find_manager_def get_instance_def)
    have held: "release A r w2 = Inr w2"
      using w2(3) by (simp add: release_def use_count_def)
    have "object_lookup i m w2 ?nid = Inr (Some r)" using x Some w2(2) by simp
    from FreeLocal_present [OF w2(1,6) this, of A] obtain w4 where
      free: "FreeLocal A i m ?nid w2 = Inr w4" and mg4: "find_manager w4 i m = Some
        (mg\<lparr>mg_Objects := remove1 r (mg_Objects mg), mg_Local := remove1 r (mg_Local mg)\<rparr>)"
      and w4: "w_Server w4 = w_Server w2" "w_heap w4 r = w_heap w2 r" "w_Controlled w4 = w_Controlled w2"
        "w_extern w4 = w_extern w2" "\<forall>x. x \<noteq> r \<longrightarrow> w_heap w4 x = w_heap w2 x" using w2(3) by blast
    from FreeLocal_law [OF w2(1), of A ?nid] free have ok4: "client_store i m w4"
      and gone: "object_lookup i m w4 ?nid = Inr None"
      and rest: "\<forall>nid. nid \<noteq> ?nid \<longrightarrow> object_lookup i m w4 nid = object_lookup i m w nid"
      by (auto simp: w2(2))
    have u: "client_store i m (unhold r w4)" "w_heap (unhold r w4) r = Some ob"
      "find_manager (unhold r w4) i m = find_manager w4 i m"
      using ok4 w4 w2(4) ob(1) by simp_all (simp_all add: unhold_def find_manager_def get_instance_def)
    from u release_unlisted [of i m "unhold r w4" _ r ob A] lists_ok_distinct [OF l] mg4 ob(2)
    obtain w6 where last: "release A r (unhold r w4) = Inr w6" and ok6: "client_store i m w6"
      and look6: "object_lookup i m w6 = object_lookup i m w4" by auto
    have "EntDeallocate A e w = Inr w6"
    proof -
      have c1: "w_Controlled ?w1 = w_Controlled w" by (simp add: hold_def)
      have "map_of (w_Controlled w) ?nid = None \<or> map_of (w_Controlled w) ?nid = Some r"
        using ctl x Some by auto
      then show ?thesis
        using held free last Some
        by (auto simp: EntDeallocate_def fm look deref_def ob c1 Let_def w2_def split: if_splits)
    qed
    moreover have "w_heap w4 = w_heap w" using w4(2,5) w2(4) by (auto simp: fun_eq_iff)
    moreover have "w_extern w4 = (w_extern w)(r := w_extern w r + 1)" using w4(4) by (simp add: w2_def hold_def)
    moreover have "w_Controlled w4 = (if IsNetworkLocal ob then adel ?nid (w_Controlled w) else w_Controlled w)"
      using w4(3) by (simp add: w2_def hold_def adel_absent)
    moreover have "w6 = (if use_count (unhold r w4) r = 0 then (unhold r w4)\<lparr>w_heap := (w_heap w4)(r := None)\<rparr> else unhold r w4)"
      using release_client [of "unhold r w4" r ob i m _ A] last u(2,3) mg4 ob(2) w4(1) w2(5) srv by (simp add: unhold_def)
    moreover have "use_count ((unhold r w4)\<lparr>w_heap := h\<rparr>) = use_count (unhold r w4)" for h
      by (simp add: fun_eq_iff use_count_def)
    moreover have "w_extern (unhold r w4) = (w_extern w4)(r := w_extern w4 r - 1)" "w_heap (unhold r w4) = w_heap w4"
      "w_Controlled (unhold r w4) = w_Controlled w4" by (simp_all add: unhold_def)
    ultimately have "removed_from w ?nid r w6"
      by (cases "use_count (unhold r w4) r = 0") (simp_all add: removed_from_def ob(1))
    with \<open>EntDeallocate A e w = Inr w6\<close> show ?thesis
      using ok6 look6 gone rest x Some by simp
  qed
qed

lemma EntDeallocate_known:
  assumes fm: "frame_manager e w = Inr (i, m, mg)" and ok: "client_store i m w"
    and ctl: "map_of (w_Controlled w) (get_netid e) = None \<or>
      (\<exists>r. map_of (w_Controlled w) (get_netid e) = Some r \<and> object_lookup i m w (get_netid e) = Inr (Some r))"
  shows "\<exists>w'. EntDeallocate A e w = Inr w' \<and> client_store i m w' \<and>
    object_lookup i m w' (get_netid e) = Inr None \<and>
    (\<forall>nid. nid \<noteq> get_netid e \<longrightarrow> object_lookup i m w' nid = object_lookup i m w nid) \<and>
    (object_lookup i m w (get_netid e) = Inr None \<longrightarrow> w' = w)"
  using EntDeallocate_effect [OF assms, of A] by (elim exE) (auto split: sum.splits option.splits)

text \<open>
  C11. A deletion frame deletes exactly the named object: afterwards the identifier is unknown to
  the manager and every other identifier is looked up as before. If the client controls the object, its
  entry among the controlled objects is erased, and no other entry is touched; the object's memory is
  freed exactly when no other reference to it is left, and no other object changes. A frame for an
  unknown identifier changes nothing. The handler's own reference keeps the object alive to the end,
  so no step uses it after it was freed.
\<close>

theorem client_deallocates:
  assumes fm: "frame_manager e w = Inr (i, m, mg)" and ok: "client_store i m w"
    and ctl: "map_of (w_Controlled w) (get_netid e) = None \<or>
      (\<exists>r. map_of (w_Controlled w) (get_netid e) = Some r \<and> object_lookup i m w (get_netid e) = Inr (Some r))"
  shows "\<exists>w'. EntDeallocate A e w = Inr w' \<and> client_store i m w' \<and>
    object_lookup i m w' (get_netid e) = Inr None \<and>
    (\<forall>nid. nid \<noteq> get_netid e \<longrightarrow> object_lookup i m w' nid = object_lookup i m w nid) \<and>
    (case object_lookup i m w (get_netid e) of
       Inr (Some r) \<Rightarrow> \<exists>ob. w_heap w r = Some ob \<and>
         w_Controlled w' = (if IsNetworkLocal ob then adel (get_netid e) (w_Controlled w) else w_Controlled w) \<and>
         w_heap w' = (if use_count w' r = 0 then (w_heap w)(r := None) else w_heap w)
     | _ \<Rightarrow> w' = w)"
proof -
  from EntDeallocate_effect [OF assms, of A] obtain w' where
    w': "EntDeallocate A e w = Inr w'" "client_store i m w'" "object_lookup i m w' (get_netid e) = Inr None"
      "\<forall>nid. nid \<noteq> get_netid e \<longrightarrow> object_lookup i m w' nid = object_lookup i m w nid"
    and r: "case object_lookup i m w (get_netid e) of
       Inr (Some r) \<Rightarrow> removed_from w (get_netid e) r w' | _ \<Rightarrow> w' = w" by blast
  show ?thesis
    using r by (intro exI [of _ w'] conjI w') (auto simp: removed_from_def split: sum.splits option.splits)
qed

text \<open>A client that controls the object it is told to delete: the object and its entry are gone, the other object stays.\<close>

definition controlling_client :: world where
  "controlling_client = sample_client\<lparr>
     w_heap := (w_heap sample_client)(0 \<mapsto> sample_object\<lparr>no_Peer := None, no_Controller := NET_CONTROLLER_LOCAL\<rparr>),
     w_Instances := [([119], sample_instance (sample_manager [0, 1] [0]))], w_Controlled := [(3, 0)]\<rparr>"

lemma controlling_client_manager: "find_manager controlling_client [119] [112] = Some (sample_manager [0, 1] [0])"
  by (simp add: controlling_client_def find_manager_def get_instance_def get_manager_def sample_instance_def)

lemma controlling_client_lists: "lists_ok [119] [112] controlling_client [0, 1] [0]"
  using sample_client_lists
  by (auto simp: lists_ok_def object_in_def netid_of_def controlling_client_def sample_worlds sample_object_def split: option.splits)

lemma controlling_client_store: "client_store [119] [112] controlling_client"
  using controlling_client_lists controlling_client_manager
  by (simp add: client_store_def sample_manager_def) (simp add: controlling_client_def)

lemma controlling_client_lookup:
  "object_lookup [119] [112] controlling_client nid = Inr (if nid = 3 then Some 0 else if nid = 4 then Some 1 else None)"
  using lookup_client [OF controlling_client_manager, of "[0]" nid] controlling_client_lists
  by (auto simp: sample_manager_def netid_of_def controlling_client_def sample_worlds sample_object_def)

theorem client_deallocates_witness:
  "\<exists>w'. EntDeallocate sample_app (sample_frame kFRAME_Dealloc 3 0) controlling_client = Inr w' \<and>
    w_Controlled controlling_client = [(3, 0)] \<and> w_Controlled w' = [] \<and>
    object_lookup [119] [112] w' 3 = Inr None \<and> object_lookup [119] [112] w' 4 = Inr (Some 1)"
proof -
  let ?e = "sample_frame kFRAME_Dealloc 3 0"
  have e: "get_netid ?e = 3" by (rule sample_frame_members)
  have fm: "frame_manager ?e controlling_client = Inr ([119], [112], sample_manager [0, 1] [0])"
    by (simp add: frame_manager_Inr sample_frame_members controlling_client_manager)
  have "map_of (w_Controlled controlling_client) (get_netid ?e) = Some 0" by (simp add: e controlling_client_def)
  then have ctl: "map_of (w_Controlled controlling_client) (get_netid ?e) = None \<or>
      (\<exists>r. map_of (w_Controlled controlling_client) (get_netid ?e) = Some r \<and>
        object_lookup [119] [112] controlling_client (get_netid ?e) = Inr (Some r))"
    by (simp add: e controlling_client_lookup)
  have ob: "w_heap controlling_client 0 = Some (sample_object\<lparr>no_Peer := None, no_Controller := NET_CONTROLLER_LOCAL\<rparr>)"
    "w_Controlled controlling_client = [(3, 0)]" by (simp_all add: controlling_client_def)
  from client_deallocates [OF fm controlling_client_store ctl, of sample_app] obtain w' where
    "EntDeallocate sample_app ?e controlling_client = Inr w'" "object_lookup [119] [112] w' 3 = Inr None"
    "\<forall>nid. nid \<noteq> 3 \<longrightarrow> object_lookup [119] [112] w' nid = object_lookup [119] [112] controlling_client nid"
    "w_Controlled w' = []"
    by (auto simp: e controlling_client_lookup ob IsNetworkLocal_def adel_def)
  then show ?thesis by (intro exI [of _ w']) (simp add: controlling_client_lookup ob(2))
qed

section \<open>Shutting down\<close>

lemma disconnect_all_eq:
  "w_PeerList w = ps \<Longrightarrow> disconnect_all ps w = w\<lparr>w_PeerList := [], w_Out := w_Out w @
     map (\<lambda>p. Peer_Disconnect_Now p NETTIK_DISCONNECT_SHUTDOWN) ps\<rparr>"
  by (induction ps arbitrary: w) (auto simp: transport_def)

text \<open>
  C30. \<open>Stop\<close> disconnects every connected peer once, in order, destroys the host last, and leaves a
  controller that is neither running, connected nor shutting down, has no peers and no host; a
  second call does nothing, and from then on nothing is sent any more.
\<close>

theorem stop_stops:
  assumes "w_Running w"
  shows "w_Out (Stop w) = w_Out w @ map (\<lambda>p. Peer_Disconnect_Now p NETTIK_DISCONNECT_SHUTDOWN) (w_PeerList w)
      @ (if w_Host w then [Host_Destroy] else []) \<and>
    \<not> w_Running (Stop w) \<and> \<not> w_Connected (Stop w) \<and> \<not> w_ShuttingDown (Stop w) \<and>
    w_PeerList (Stop w) = [] \<and> \<not> w_Host (Stop w) \<and> Stop (Stop w) = Stop w \<and>
    Send data pr flags ch (Stop w) = Stop w \<and> Broadcast data flags ch (Stop w) = Stop w"
proof -
  have s: "Stop w = w\<lparr>w_ShuttingDown := False, w_Thread := None, w_SyncThread := None, w_Running := False,
      w_Connected := False, w_PeerList := [], w_Host := False, w_Out := w_Out w @
      map (\<lambda>p. Peer_Disconnect_Now p NETTIK_DISCONNECT_SHUTDOWN) (w_PeerList w)
      @ (if w_Host w then [Host_Destroy] else [])\<rparr>"
    using assms by (simp add: Stop_def Stop_on_def disconnect_all_eq transport_def)
  then have "\<not> w_Running (Stop w)" by simp
  then have "Stop (Stop w) = Stop w" and "Send data pr flags ch (Stop w) = Stop w"
    and "Broadcast data flags ch (Stop w) = Stop w"
    by (simp_all add: transport_stopped) (simp add: Stop_def Stop_on_def)
  with s show ?thesis by simp
qed

theorem stop_stops_witness:
  "w_Out (Stop sample_server) = w_Out sample_server @
      map (\<lambda>p. Peer_Disconnect_Now p NETTIK_DISCONNECT_SHUTDOWN) (w_PeerList sample_server)
      @ (if w_Host sample_server then [Host_Destroy] else []) \<and>
    \<not> w_Running (Stop sample_server) \<and> \<not> w_Connected (Stop sample_server) \<and>
    \<not> w_ShuttingDown (Stop sample_server) \<and>
    w_PeerList (Stop sample_server) = [] \<and> \<not> w_Host (Stop sample_server) \<and>
    Stop (Stop sample_server) = Stop sample_server \<and>
    Send [1] (Some 1) 0 0 (Stop sample_server) = Stop sample_server \<and>
    Broadcast [1] 0 0 (Stop sample_server) = Stop sample_server"
  by (rule stop_stops) simp

text \<open>
  C33. A client that loses its server does not shut down. The disconnect handler calls \<open>Stop\<close> on the
  network thread, and deleting the thread object, which comes before everything else \<open>Stop\<close> does,
  terminates that very thread: the controller stays marked as running and as shutting down, with its
  host open, the lost peer in its list and both thread objects in place, nothing is sent, and none of
  the events behind the disconnection is processed. Called from any thread but the two of the
  controller, \<open>Stop\<close> would have stopped it, and such a call still does afterwards: it disconnects the
  peers, destroys the host and leaves no thread object.
\<close>

theorem client_disconnect:
  assumes "w_Running w" and "w_Host w" and t: "w_Thread w = Some t" "nt_hThread t" "nt_bRunning t"
    and "map_of (w_EventCallbacks w) EVENT_DISCONNECT = Some (EH_Stop # hs)"
  shows "\<exists>w'. client_server_step A lock_ok (\<lparr>ev_type = EVENT_DISCONNECT, ev_peer = p, ev_data = d\<rparr> # events) w = Inr (False, w') \<and>
    w' = w\<lparr>w_ShuttingDown := True, w_Thread := Some (t\<lparr>nt_bRunning := False\<rparr>)\<rparr> \<and>
    (\<forall>u \<in> {w, w'}. \<exists>v. Stop_on Elsewhere u = (True, v) \<and> \<not> w_Running v \<and> \<not> w_ShuttingDown v \<and> \<not> w_Host v \<and>
       w_PeerList v = [] \<and> w_Thread v = None \<and> w_SyncThread v = None \<and>
       w_Out v = w_Out w @ map (\<lambda>p. Peer_Disconnect_Now p NETTIK_DISCONNECT_SHUTDOWN) (w_PeerList w) @ [Host_Destroy])"
proof -
  have dies: "delete_thread True (w_Thread w) = (False, Some (t\<lparr>nt_bRunning := False\<rparr>))"
    using t by (simp add: delete_thread_def thread_destroy_def)
  have "\<exists>v. Stop_on Elsewhere u = (True, v) \<and> \<not> w_Running v \<and> \<not> w_ShuttingDown v \<and> \<not> w_Host v \<and>
      w_PeerList v = [] \<and> w_Thread v = None \<and> w_SyncThread v = None \<and>
      w_Out v = w_Out u @ map (\<lambda>p. Peer_Disconnect_Now p NETTIK_DISCONNECT_SHUTDOWN) (w_PeerList u) @ [Host_Destroy]"
    if "w_Running u" "w_Host u" for u
    using that by (simp add: Stop_on_def disconnect_all_eq transport_def)
  from this [of w] this [of "w\<lparr>w_ShuttingDown := True, w_Thread := Some (t\<lparr>nt_bRunning := False\<rparr>)\<rparr>"] show ?thesis
    using assms(1,2,6) by (simp add: client_server_step_def ProcessNetStack_def FireEvent_def run_event_handler_def Stop_on_def dies)
qed

text \<open>A client after \<open>Start\<close> and \<open>Connect\<close>, as the handler finds it.\<close>

theorem client_disconnect_witness:
  "\<exists>w c w'. NetSystemClient_new True 0 = Inr c \<and>
    Connect sample_app (Some 9) True (Start True True c) = Inr (True, w) \<and> w_PeerList w = [9] \<and>
    client_server_step sample_app True (\<lparr>ev_type = EVENT_DISCONNECT, ev_peer = 9, ev_data = []\<rparr> # []) w = Inr (False, w') \<and>
    w_Running w' \<and> w_PeerList w' = [9] \<and>
    (\<exists>v. Stop_on Elsewhere w' = (True, v) \<and> \<not> w_Running v \<and>
       w_Out v = [Peer_Disconnect_Now 9 NETTIK_DISCONNECT_SHUTDOWN, Host_Destroy])"
proof -
  define c where "c = (NetSystem_new False False 0)\<lparr>w_Host := True\<rparr>"
  define w where "w = (on CLIENT_OWNERSHIP H_EntOwnership (on OBJECT_FRAME H_EntSnapshot
    (on_enet EVENT_DISCONNECT EH_Stop (Start True True c))))\<lparr>w_PeerList := [9], w_Connected := True\<rparr>"
  have "Connect sample_app (Some 9) True (Start True True c) = Inr (True, w)"
    by (simp add: Connect_def w_def c_def NetSystem_new_def bind_controller_def on_def on_enet_def
        Let_def Start_def FireEvent_def aput_def)
  moreover have "NetSystemClient_new True 0 = Inr c" by (simp add: NetSystemClient_new_def c_def)
  moreover have w: "w_PeerList w = [9]" "w_Running w" "w_Host w" "w_Out w = []"
    "w_Thread w = Some \<lparr>nt_bRunning = True, nt_hThread = True, nt_Procedure = True\<rparr>"
    "map_of (w_EventCallbacks w) EVENT_DISCONNECT = Some [EH_Stop]"
    by (simp_all add: w_def c_def NetSystem_new_def bind_controller_def on_def on_enet_def Let_def Start_def aput_def
        thread_Start_def thread_new_def)
  moreover obtain w' v where
    "client_server_step sample_app True (\<lparr>ev_type = EVENT_DISCONNECT, ev_peer = 9, ev_data = []\<rparr> # []) w = Inr (False, w')"
    "w_Running w'" "w_PeerList w' = [9]" "Stop_on Elsewhere w' = (True, v)" "\<not> w_Running v"
    "w_Out v = [Peer_Disconnect_Now 9 NETTIK_DISCONNECT_SHUTDOWN, Host_Destroy]"
    using client_disconnect [OF w(2,3,5) _ _ w(6), of sample_app True 9 "[]" "[]"] w by auto
  ultimately show ?thesis by blast
qed

end
