(* ===== verification/Creation.thy ===== *)
theory Creation
  imports Entity_Properties
begin

text \<open>
  The packets that announce the creation and the deletion of an object: the frames the server
  writes, the packets they travel in, and what a client makes of them.
\<close>

section \<open>Frames that name a manager\<close>

text \<open>The data member of such a frame: the instance's name, zero-filled.\<close>

definition name_data :: "bytes \<Rightarrow> bytes" where
  "name_data i = i @ replicate (128 - length i) 0"

definition names_fit :: "bytes \<Rightarrow> bytes \<Rightarrow> bool" where
  "names_fit i nm \<longleftrightarrow> 0 \<notin> set i \<and> length i \<le> 127 \<and> 0 \<notin> set nm \<and> length nm \<le> 63"

lemma name_frame:
  assumes "length nm \<le> 63"
  shows "\<exists>g. set_name nm (set_frametype ft (entry_new junk)) = Inr g \<and> ent_typesize g = 0 \<and>
    ent_mem g = layout ft 0 NET_CONTROLLER_NONE 0 0 (nm @ replicate (64 - length nm) 0) (replicate 128 0) [0, 0, 0]"
proof -
  have "ent_mem (set_frametype ft (entry_new junk)) =
      layout ft 0 NET_CONTROLLER_NONE 0 0 (replicate 64 0) (replicate 128 0) [0, 0, 0]"
    by (rule set_members [OF entry_new_layout]) simp
  from set_name_fresh [OF this _ assms] show ?thesis by (simp add: frame_simps)
qed

lemma data_frame:
  assumes fit: "names_fit i nm"
    and g: "ent_mem g = layout ft nid ctl 0 0 (nm @ replicate (64 - length nm) 0) (replicate 128 0) [0, 0, 0]"
  shows "\<exists>g'. set_data (i @ [0]) (of_nat (length i + 1)) g = Inr g' \<and>
    entry_write g' [] = Inr (frame_image ft nid ctl 0 0 nm (name_data i))"
proof -
  let ?k = "length i" let ?nm = "nm @ replicate (64 - length nm) 0"
  have i: "?k \<le> 127" and nm: "0 \<notin> set nm" "length nm \<le> 63" using fit by (simp_all add: names_fit_def)
  have u: "unat (of_nat (?k + 1) :: size_t) = ?k + 1" using i by (intro unat_of_nat_small) simp
  have sz: "sized ?nm x [0, 0, 0]" if "length x = 128" for x using nm that by (simp add: sized_def)
  have r: "replicate (128 - ?k) (0::u8) = 0 # replicate (127 - ?k) 0"
    using i by (simp add: Suc_diff_le flip: replicate_Suc)
  have dt: "take (?k + 1) (i @ [0]) @ drop (?k + 1) (replicate 128 0) = name_data i"
    by (simp add: name_data_def r)
  have d: "length (name_data i) = 128" using i by (simp add: name_data_def)
  let ?g = "g\<lparr>ent_mem := layout ft nid ctl 0 0 ?nm (name_data i) [0, 0, 0], ent_typesize := of_nat (?k + 1)\<rparr>"
  have s: "set_data (i @ [0]) (of_nat (?k + 1)) g = Inr ?g"
    using set_data_layout [OF g sz, of "of_nat (?k + 1)" "i @ [0]"] i by (simp only: u dt) simp
  have "64 - length nm = Suc (63 - length nm)" using nm by simp
  then have n0: "?nm = nm @ 0 # replicate (63 - length nm) 0" by simp
  have mem: "ent_mem ?g = layout ft nid ctl 0 0 (nm @ 0 # replicate (63 - length nm) 0) (name_data i) [0, 0, 0]"
    by (simp add: n0)
  have "take (?k + 1) (name_data i) @ replicate (128 - (?k + 1)) 0 = name_data i"
    by (simp add: name_data_def r)
  then have "entry_write ?g [] = Inr (frame_image ft nid ctl 0 0 nm (name_data i))"
    using entry_write_image [OF mem sz [OF d, unfolded n0] nm(1), of "[]"] u i by simp
  with s show ?thesis by blast
qed

lemma creation_frame_image:
  assumes "names_fit i (mg_Name mg)"
  shows "creation_frame A i mg nid =
    Inr (frame_image kFRAME_Alloc nid NET_CONTROLLER_NONE 0 0 (mg_Name mg) (name_data i))"
proof -
  have "length (mg_Name mg) \<le> 63" using assms by (simp add: names_fit_def)
  from name_frame [OF this, of kFRAME_Alloc "ap_junk A"] obtain g where
    g: "set_name (mg_Name mg) (set_frametype kFRAME_Alloc (entry_new (ap_junk A))) = Inr g"
    "ent_mem g = layout kFRAME_Alloc 0 NET_CONTROLLER_NONE 0 0
       (mg_Name mg @ replicate (64 - length (mg_Name mg)) 0) (replicate 128 0) [0, 0, 0]" by blast
  have sz: "sized (mg_Name mg @ replicate (64 - length (mg_Name mg)) 0) (replicate 128 0) [0, 0, 0]"
    using assms by (simp add: sized_def names_fit_def)
  let ?g = "set_controller NET_CONTROLLER_NONE (set_netid nid g)"
  have "ent_mem ?g = layout kFRAME_Alloc nid NET_CONTROLLER_NONE 0 0
      (mg_Name mg @ replicate (64 - length (mg_Name mg)) 0) (replicate 128 0) [0, 0, 0]"
    by (rule set_members(3) [OF set_members(2) [OF g(2) sz] sz])
  from data_frame [OF assms this] g(1) show ?thesis by (auto simp: creation_frame_def)
qed

section \<open>One frame in a packet\<close>

text \<open>The packet of a single frame, sent under the frame's own size.\<close>

lemma single_frame_packet:
  assumes "length f < 2 ^ 32"
  shows "\<exists>s. header_generate (stream_push stream_new f) sq 1 (vsize f) = Inr s \<and> stream_modified s \<and>
    (\<exists>s'. stream_result s = Inr (snapshot_packet sq (vsize f) [f], s'))"
proof -
  have d: "strm_data (stream_push stream_new f) = [] # [f]" "\<not> strm_Finished (stream_push stream_new f)"
    by (simp_all add: stream_push_def stream_new_def)
  let ?h = "header_image \<lparr>hd_message_code = OBJECT_FRAME, hd_count = 1, hd_sequence = sq,
      hd_max_message_length = vsize f\<rparr>"
  have "header_generate (stream_push stream_new f) sq 1 (vsize f) =
      Inr ((stream_push stream_new f)\<lparr>strm_data := ?h # [pad_buffer (vsize f) f]\<rparr>)"
    using header_generate_eq [OF d(1)] by simp
  then show ?thesis
    using d(2) by (simp add: stream_result_first snapshot_packet_def stream_modified_def)
qed

lemma packet_nonempty: "snapshot_packet sq mx fs \<noteq> []"
  by (simp add: snapshot_packet_def header_image_def le16_def)

lemma receive_single:
  assumes f: "f = frame_image ft nid ctl sq fc nm dt" "length dt = 128" "0 \<notin> set nm" "length nm \<le> 63"
  shows "HandleEntSnapshot A (snapshot_packet q (vsize f) [f]) w =
    client_frame A (frame_entry ft nid ctl sq fc nm dt) w"
proof -
  have len: "length f = 146 + length nm" using f by (simp add: wire_simps)
  then have u: "unat (vsize f) = 146 + length nm" using f(4) by (simp add: unat_vsize)
  have "list_all2 (decodes (ap_junk A) (vsize f)) (map (pad_buffer (vsize f)) [f])
      [frame_entry ft nid ctl sq fc nm dt]"
    using frame_decodes [OF f(2-4), of "vsize f"] u f(4) by (simp add: f(1))
  from receive_packet(1) [OF _ _ _ this] show ?thesis
    using u f(4) len by (cases "client_frame A (frame_entry ft nid ctl sq fc nm dt) w") simp_all
qed

lemma manager_frame_received:
  assumes fit: "names_fit i nm"
  shows "get_frametype (frame_entry ft nid ctl 0 0 nm (name_data i)) = ft"
    and "get_netid (frame_entry ft nid ctl 0 0 nm (name_data i)) = nid"
    and "get_controller (frame_entry ft nid ctl 0 0 nm (name_data i)) = ctl"
    and "frame_manager (frame_entry ft nid ctl 0 0 nm (name_data i)) w = Inr (i, nm, mg) \<longleftrightarrow>
      find_manager w i nm = Some mg"
proof -
  have d: "length (name_data i) = 128" and n: "length nm \<le> 63"
    using fit by (simp_all add: name_data_def names_fit_def)
  note m = frame_entry_members [OF d n, of ft nid ctl 0 0]
  show "get_frametype (frame_entry ft nid ctl 0 0 nm (name_data i)) = ft"
    "get_netid (frame_entry ft nid ctl 0 0 nm (name_data i)) = nid"
    "get_controller (frame_entry ft nid ctl 0 0 nm (name_data i)) = ctl" by (rule m)+
  from m(6) obtain z where "get_name (frame_entry ft nid ctl 0 0 nm (name_data i)) = nm @ 0 # z" by blast
  then have nm: "c_str (get_name (frame_entry ft nid ctl 0 0 nm (name_data i))) = Inr nm"
    using fit by (simp add: c_str_app names_fit_def)
  have "128 - length i = Suc (127 - length i)" using fit by (auto simp: names_fit_def)
  then have "get_data (frame_entry ft nid ctl 0 0 nm (name_data i)) = i @ 0 # replicate (127 - length i) 0 @ [0, 0, 0]"
    by (simp add: m(7)) (simp add: name_data_def)
  then have "c_str (get_data (frame_entry ft nid ctl 0 0 nm (name_data i))) = Inr i"
    using fit by (simp add: c_str_app names_fit_def)
  with nm show "frame_manager (frame_entry ft nid ctl 0 0 nm (name_data i)) w = Inr (i, nm, mg) \<longleftrightarrow>
      find_manager w i nm = Some mg"
    by (simp add: frame_manager_Inr)
qed

section \<open>A snapshot with nothing due\<close>

lemma snap_obj_idle: "obj_frames rel f ob = [] \<Longrightarrow> snap_obj rel f ob = ob"
proof -
  assume e: "obj_frames rel f ob = []"
  have "map (after_snapshot rel f) (no_Vars ob) = no_Vars ob" if "IsNetworkLocal ob"
  proof -
    have "filter (due rel f) (no_Vars ob) = []"
      using e that by (simp add: obj_frames_def due_frames_def)
    then show ?thesis by (auto simp: filter_empty_conv after_snapshot_def intro!: map_idI)
  qed
  then show ?thesis by (cases "IsNetworkLocal ob") (simp_all add: snap_obj_def)
qed

lemma snap_world_idle:
  assumes "ref_frames w rel f rs = []"
  shows "snap_world rs rel f w = w"
proof -
  have "(if r \<in> set rs then map_option (snap_obj rel f) (w_heap w r) else w_heap w r) = w_heap w r" for r
  proof (cases "r \<in> set rs")
    case True
    then have "(case w_heap w r of None \<Rightarrow> [] | Some ob \<Rightarrow> obj_frames rel f ob) = []"
      using assms by (auto simp: ref_frames_def)
    then show ?thesis by (cases "w_heap w r") (auto simp: snap_obj_idle)
  qed simp
  then show ?thesis by (simp add: snap_world_def)
qed

lemma ref_frames_heap:
  assumes "\<And>r. r \<in> set rs \<Longrightarrow> w_heap w' r = w_heap w r"
  shows "ref_frames w' rel f rs = ref_frames w rel f rs"
  unfolding ref_frames_def by (rule arg_cong [of _ _ concat], rule map_cong) (simp_all add: assms)

lemma objects_ok_heap:
  assumes "\<And>r. r \<in> set rs \<Longrightarrow> w_heap w' r = w_heap w r"
  shows "objects_ok w' rs = objects_ok w rs"
  using assms by (auto simp: objects_ok_def)

section \<open>Building and freeing on the server\<close>

text \<open>A server that has nothing to send for an instance whose references are all in use.\<close>

definition idle_instance :: "bytes \<Rightarrow> vinstance \<Rightarrow> world \<Rightarrow> bool" where
  "idle_instance i vi w \<longleftrightarrow> w_Server w \<and> w_Running w \<and> get_instance w i = Some vi \<and>
     objects_ok w (all_refs vi) \<and> (\<forall>r \<in> set (all_refs vi). r < w_NextRef w) \<and>
     ref_frames w True False (all_refs vi) = [] \<and> ref_frames w False False (all_refs vi) = []"

lemma DoSnapshot_one_frame:
  assumes "get_instance w i = Some vi" and "w_Running w" and "objects_ok w (all_refs vi)"
    and idle: "ref_frames w rel False (all_refs vi) = []" and f: "0 < length f" "length f < 2 ^ 32"
  shows "DoSnapshot A i (stream_push stream_new f) rel False w =
    res_bind (header_generate (stream_push stream_new f) (vi_SequenceID vi) 1 (vsize f)) (\<lambda>s. Inr (s, w))"
proof -
  have d: "strm_data (stream_push stream_new f) = [[], f]" by (simp add: stream_push_def stream_new_def)
  have "0 < vsize f" using f unat_vsize [OF f(2)] by (simp add: word_less_nat_alt)
  then have "stream_max (stream_push stream_new f) = vsize f"
    by (simp add: stream_max_def d vsize_def)
  moreover have "stream_extend stream_new [f] = stream_push stream_new f"
    by (simp add: stream_extend_def stream_push_def)
  ultimately show ?thesis
    using DoSnapshot_eq [OF assms(1-3), of A "stream_push stream_new f" rel False]
    by (simp add: instance_frames_def idle snap_world_idle d Let_def)
qed

lemma Build_idle:
  assumes A: "quiet A" and idle: "idle_instance i vi w" and mg: "find_manager w i m = Some mg"
    and fit: "names_fit i (mg_Name mg)"
    and f: "f = frame_image kFRAME_Alloc (w_TotalEntities w) NET_CONTROLLER_NONE 0 0 (mg_Name mg) (name_data i)"
  shows "\<exists>w'. Build A i m None w = Inr (Some (w_NextRef w), w') \<and>
    w_Out w' = w_Out w @ [Host_Broadcast (snapshot_packet (vi_SequenceID vi) (vsize f) [f]) PACKET_FLAG_RELIABLE 0] \<and>
    find_manager w' i m = Some (mg\<lparr>mg_Objects := mg_Objects mg @ [w_NextRef w]\<rparr>) \<and>
    w_TotalEntities w' = w_TotalEntities w + 1"
proof -
  let ?r = "w_NextRef w"
  define ob where "ob = (SetController NET_CONTROLLER_LOCAL (SetNetID (w_TotalEntities w) (ap_construct A (mg_Type mg))))
      \<lparr>no_Instance := Some i, no_Manager := Some (i, m), no_Peer := None\<rparr>"
  define w2 where "w2 = hold ?r (w\<lparr>w_TotalEntities := w_TotalEntities w + 1, w_heap := (w_heap w)(?r := Some ob), w_NextRef := Suc ?r\<rparr>)"
  note ii = idle [unfolded idle_instance_def]
  have len: "0 < length f" "length f < 2 ^ 32"
    using fit by (simp_all add: f wire_simps name_data_def names_fit_def)
  have h2: "w_heap w2 r = w_heap w r" if "r \<in> set (all_refs vi)" for r
    using that ii by (auto simp: w2_def hold_def)
  have fields: "get_instance w2 i = Some vi" "w_Running w2" "w_Server w2" "w_Out w2 = w_Out w"
    "w_TotalEntities w2 = w_TotalEntities w + 1" "find_manager w2 i m = Some mg"
    using ii mg by (simp_all add: w2_def hold_def get_instance_def find_manager_def)
  have ok2: "objects_ok w2 (all_refs vi)" using ii objects_ok_heap [OF h2] by simp
  have due2: "ref_frames w2 rel False (all_refs vi) = []" for rel
    using ii ref_frames_heap [OF h2, where rel = rel] by (cases rel) simp_all
  from single_frame_packet [OF len(2)] obtain s s' where
    s: "header_generate (stream_push stream_new f) (vi_SequenceID vi) 1 (vsize f) = Inr s" "stream_modified s"
      "stream_result s = Inr (snapshot_packet (vi_SequenceID vi) (vsize f) [f], s')" by blast
  have rs: "DoSnapshot A i (stream_push stream_new f) True False w2 = Inr (s, w2)"
    using DoSnapshot_one_frame [OF fields(1,2) ok2 due2 len] s(1) by simp
  have us: "DoSnapshot A i stream_new False False w2 = Inr (stream_new, w2)"
    using DoSnapshot_quiet [OF fields(1,2) ok2, of False False A] due2
    by (simp add: instance_frames_def snap_world_idle)
  have nm: "\<not> stream_modified stream_new" by (simp add: stream_modified_def stream_new_def)
  define w5 where "w5 = upd_manager i m (\<lambda>mg. mg\<lparr>mg_Objects := mg_Objects mg @ [?r]\<rparr>) w2"
  have w5: "w_Running w5" "w_Out w5 = w_Out w" "w_TotalEntities w5 = w_TotalEntities w + 1"
    "find_manager w5 i m = Some (mg\<lparr>mg_Objects := mg_Objects mg @ [?r]\<rparr>)"
    using fields find_manager_same [OF fields(6)]
    by (simp_all add: w5_def frame_simps) (simp add: upd_manager_def upd_instance_def)
  note bc = BroadcastStream_eq [OF s(3) packet_nonempty, of True w5]
  have "Build A i m None w = Inr (Some ?r, transport (Host_Broadcast
      (snapshot_packet (vi_SequenceID vi) (vsize f) [f]) PACKET_FLAG_RELIABLE 0) w5)"
    using ii A s(2) bc w5(1)
    by (simp add: Build_def mg GetNextID_def Let_def creation_frame_image [OF fit] f [symmetric]
        ob_def [symmetric] w2_def [symmetric] rs us nm broadcast_if_modified_def w5_def [symmetric]
        Broadcast_def quiet_def split: option.splits)
  moreover have "find_manager (transport c w5) i m = find_manager w5 i m" for c
    by (simp add: transport_def find_manager_def get_instance_def)
  ultimately show ?thesis using w5 by (simp add: transport_def)
qed

text \<open>A server that deletes an object calls back, then broadcasts the deletion frame.\<close>

lemma FreeEntity_called_back:
  assumes "w_Server w" and "w_Running w1" and mg: "find_manager w i m = Some mg"
    and w1: "w1 = (case mg_cbDelete mg of None \<Rightarrow> w | Some n \<Rightarrow> ap_delete A n t w)" and fit: "names_fit i (mg_Name mg)"
    and f: "f = frame_image kFRAME_Dealloc nid NET_CONTROLLER_NONE 0 0 (mg_Name mg) (name_data i)"
  shows "FreeEntity A i m nid t w = Inr (True, w1\<lparr>w_Out := w_Out w1 @
    [Host_Broadcast (snapshot_packet 0 (vsize f) [f]) PACKET_FLAG_RELIABLE 0]\<rparr>)"
proof -
  have nm: "length (mg_Name mg) \<le> 63" using fit by (simp add: names_fit_def)
  from name_frame [OF nm, of kFRAME_Dealloc "ap_junk A"] obtain g where
    g: "set_name (mg_Name mg) (set_frametype kFRAME_Dealloc (entry_new (ap_junk A))) = Inr g"
    "ent_mem g = layout kFRAME_Dealloc 0 NET_CONTROLLER_NONE 0 0
       (mg_Name mg @ replicate (64 - length (mg_Name mg)) 0) (replicate 128 0) [0, 0, 0]" by blast
  have sz: "sized (mg_Name mg @ replicate (64 - length (mg_Name mg)) 0) (replicate 128 0) [0, 0, 0]"
    using nm by (simp add: sized_def)
  from data_frame [OF fit set_members(2) [OF g(2) sz, of nid]] obtain g' where
    g': "set_data (i @ [0]) (of_nat (length i + 1)) (set_netid nid g) = Inr g'" "entry_write g' [] = Inr f"
    unfolding f by blast
  have "length f < 2 ^ 32" using fit by (simp add: f wire_simps name_data_def names_fit_def)
  from single_frame_packet [OF this] obtain s s' where
    s: "header_generate (stream_push stream_new f) 0 1 (vsize f) = Inr s"
      "stream_result s = Inr (snapshot_packet 0 (vsize f) [f], s')" by blast
  show ?thesis
    using BroadcastStream_eq [OF s(2) packet_nonempty, of True w1] assms(1,2)
    by (simp add: FreeEntity_def mg g(1) g' [simplified] s(1) w1 [symmetric] Let_def Broadcast_def transport_def)
qed

lemma FreeEntity_server:
  assumes "w_Server w" and "w_Running w" and mg: "find_manager w i m = Some mg"
    and cb: "mg_cbDelete mg = None" and fit: "names_fit i (mg_Name mg)"
    and f: "f = frame_image kFRAME_Dealloc nid NET_CONTROLLER_NONE 0 0 (mg_Name mg) (name_data i)"
  shows "FreeEntity A i m nid t w = Inr (True, w\<lparr>w_Out := w_Out w @
    [Host_Broadcast (snapshot_packet 0 (vsize f) [f]) PACKET_FLAG_RELIABLE 0]\<rparr>)"
  using FreeEntity_called_back [OF assms(1,2) mg _ fit f] cb by simp

end
