(* ===== verification/Session.thy ===== *)
theory Session
  imports System_Properties
begin

text \<open>
  A running server over time: the packets peers send, in any number and order and with any bytes, and
  between them the server's own snapshots and list updates. A step relation over these operations
  has as its invariant that the state stays well formed, that every object stays the object it
  was, and that the values of a peer's objects change through that peer's packets only.
\<close>

section \<open>What a step keeps\<close>

definition contents :: "net_object \<Rightarrow> bytes list" where
  "contents ob = map nv_Data (no_Vars ob)"

text \<open>An object apart from its variables and lists, the controller apart from the objects and what it sent.\<close>

definition identity_part :: "net_object \<Rightarrow> net_object" where
  "identity_part ob = ob\<lparr>no_Vars := [], no_MapList := []\<rparr>"

definition control_part :: "world \<Rightarrow> world" where
  "control_part w = w\<lparr>w_heap := Map.empty, w_Out := []\<rparr>"

definition same_object :: "net_object \<Rightarrow> net_object \<Rightarrow> bool" where
  "same_object ob ob' \<longleftrightarrow> identity_part ob' = identity_part ob \<and> list_all2 same_shape (no_Vars ob) (no_Vars ob')"

definition kept_object :: "peer set \<Rightarrow> net_object \<Rightarrow> net_object \<Rightarrow> bool" where
  "kept_object P ob ob' \<longleftrightarrow> same_object ob ob' \<and> (no_Peer ob \<notin> Some ` P \<longrightarrow> contents ob' = contents ob)"

definition kept :: "peer set \<Rightarrow> world \<Rightarrow> world \<Rightarrow> bool" where
  "kept P w w' \<longleftrightarrow> control_part w' = control_part w \<and>
     (\<forall>r. case w_heap w r of None \<Rightarrow> w_heap w' r = None
        | Some ob \<Rightarrow> (\<exists>ob'. w_heap w' r = Some ob' \<and> kept_object P ob ob'))"

lemma same_object_refl [simp]: "same_object ob ob"
  by (simp add: same_object_def list_all2_same)

lemma identity_fields:
  assumes "identity_part ob' = identity_part ob"
  shows "no_Peer ob' = no_Peer ob" "no_NetCode ob' = no_NetCode ob" "no_Controller ob' = no_Controller ob"
proof -
  have "no_Peer (identity_part ob') = no_Peer (identity_part ob)" "no_NetCode (identity_part ob') = no_NetCode (identity_part ob)"
    "no_Controller (identity_part ob') = no_Controller (identity_part ob)" using assms by simp_all
  then show "no_Peer ob' = no_Peer ob" "no_NetCode ob' = no_NetCode ob" "no_Controller ob' = no_Controller ob"
    by (simp_all add: identity_part_def)
qed

lemma control_fields:
  assumes "control_part w' = control_part w"
  shows "w_Instances w' = w_Instances w" "w_Running w' = w_Running w" "w_PeerList w' = w_PeerList w"
proof -
  have "w_Instances (control_part w') = w_Instances (control_part w)" "w_Running (control_part w') = w_Running (control_part w)"
    "w_PeerList (control_part w') = w_PeerList (control_part w)" using assms by simp_all
  then show "w_Instances w' = w_Instances w" "w_Running w' = w_Running w" "w_PeerList w' = w_PeerList w"
    by (simp_all add: control_part_def)
qed

lemma same_shape_trans: "same_shape a b \<Longrightarrow> same_shape b c \<Longrightarrow> same_shape a c"
  by (simp add: same_shape_def)

lemma same_object_trans: "same_object a b \<Longrightarrow> same_object b c \<Longrightarrow> same_object a c"
  unfolding same_object_def by (elim conjE, rule conjI, simp) (rule list_all2_trans [of same_shape same_shape]; auto intro: same_shape_trans)

lemma related_sets:
  "list_all2 R xs ys \<Longrightarrow> (\<And>x y. R x y \<Longrightarrow> Q y = Q x) \<Longrightarrow> (\<forall>y \<in> set ys. Q y) = (\<forall>x \<in> set xs. Q x)"
proof (induction xs arbitrary: ys)
  case (Cons x xs)
  then show ?case by (cases ys) auto
qed simp

lemma same_object_ok: "same_object ob ob' \<Longrightarrow> object_ok ob' = object_ok ob"
  unfolding same_object_def object_ok_def by (elim conjE, rule related_sets, assumption) (rule same_shape_ok)

lemma kept_object_refl [simp]: "kept_object P ob ob"
  by (simp add: kept_object_def)

lemma kept_object_trans: "kept_object P a b \<Longrightarrow> kept_object P b c \<Longrightarrow> kept_object P a c"
  unfolding kept_object_def by (metis same_object_trans same_object_def identity_fields(1))

lemma kept_refl [simp]: "kept P w w"
  by (simp add: kept_def split: option.split)

lemma kept_mono: "kept P w w' \<Longrightarrow> P \<subseteq> Q \<Longrightarrow> kept Q w w'"
  unfolding kept_def kept_object_def by (fastforce split: option.splits)

lemma kept_trans:
  assumes "kept P w v" "kept P v u"
  shows "kept P w u"
proof -
  have "case w_heap w r of None \<Rightarrow> w_heap u r = None
    | Some ob \<Rightarrow> (\<exists>ob'. w_heap u r = Some ob' \<and> kept_object P ob ob')" for r
    using assms [unfolded kept_def, THEN conjunct2, rule_format, of r]
    by (auto split: option.splits intro: kept_object_trans)
  then show ?thesis using assms by (simp add: kept_def)
qed

text \<open>A change of one object that keeps it, and any number of calls to the transport.\<close>

lemma kept_upd_object:
  assumes "\<And>ob. w_heap w r = Some ob \<Longrightarrow> kept_object P ob (f ob)"
  shows "kept P w (upd_object r f w)"
  using assms by (auto simp: kept_def control_part_def upd_object_def split: option.split)

lemma kept_only_sends: "only_sends w w' \<Longrightarrow> kept P w w'"
  by (auto simp: kept_def control_part_def only_sends_def split: option.split)

lemma kept_lists: "kept P w (upd_object r (\<lambda>ob. ob\<lparr>no_MapList := f ob\<rparr>) w)"
  by (rule kept_upd_object)
    (simp add: kept_object_def same_object_def identity_part_def contents_def list_all2_same)

section \<open>The operations keep it\<close>

lemma peer_changes_kept: "peer_changes q w w' \<Longrightarrow> kept {q} w w'"
proof -
  assume pc: "peer_changes q w w'"
  have "control_part w' = control_part w"
  proof -
    have "w' = w\<lparr>w_heap := w_heap w'\<rparr>" using pc by (simp add: peer_changes_def)
    then have "control_part w' = control_part (w\<lparr>w_heap := w_heap w'\<rparr>)" by simp
    then show ?thesis by (simp add: control_part_def)
  qed
  moreover have "kept_object {q} ob ob'" if "vars_changed ob ob'" "no_Peer ob = Some q" for ob ob'
  proof -
    have ob': "ob' = ob\<lparr>no_Vars := no_Vars ob'\<rparr>" using that by (simp add: vars_changed_def)
    have "identity_part ob' = identity_part ob" by (subst ob') (simp add: identity_part_def)
    then show ?thesis using that by (simp add: kept_object_def same_object_def vars_changed_def)
  qed
  moreover have "case w_heap w r of None \<Rightarrow> w_heap w' r = None
    | Some ob \<Rightarrow> \<exists>ob'. w_heap w' r = Some ob' \<and> kept_object {q} ob ob'" for r
  proof (cases "w_heap w' r = w_heap w r")
    case True
    then show ?thesis by (simp split: option.split)
  next
    case False
    with pc obtain ob ob' where "w_heap w r = Some ob" "no_Peer ob = Some q" "w_heap w' r = Some ob'" "vars_changed ob ob'"
      unfolding peer_changes_def by blast
    with calculation(2) show ?thesis by simp
  qed
  ultimately show ?thesis by (simp add: kept_def)
qed

lemma snap_world_kept: "kept P w (snap_world rs rel forced w)"
proof -
  have "kept_object P ob (snap_obj rel forced ob)" for ob
    by (auto simp: kept_object_def same_object_def identity_part_def contents_def snap_obj_def
      after_snapshot_def sent_def same_shape_def list_all2_conv_all_nth)
  then show ?thesis by (auto simp: kept_def control_part_def snap_world_def split: option.split)
qed

text \<open>What a peer's message about a list changes: the list it addresses, if anything.\<close>

definition one_list :: "world \<Rightarrow> world \<Rightarrow> bool" where
  "one_list w w' \<longleftrightarrow> w' = w \<or> (\<exists>r j nl. w' = upd_list r j nl w)"

lemma one_listI [simp]: "one_list w w" "one_list w (upd_list r j nl w)"
  by (auto simp: one_list_def)

lemma remote_lists_change:
  "on_remote_add A lk pr msg w = Inr w' \<Longrightarrow> one_list w w'"
  "on_remote_update A lk pr msg w = Inr w' \<Longrightarrow> one_list w w'"
  "on_remote_remove A lk pr msg w = Inr w' \<Longrightarrow> one_list w w'"
proof -
  have target: "\<exists>t. remote_target lk msg w = Inr t \<and> (t = None \<or> (\<exists>r ob j. t = Some (r, ob, j)))"
    if "res_bind (remote_target lk msg w) f = Inr w'" for f :: "_ \<Rightarrow> world res"
    using that by (cases "remote_target lk msg w") (auto, metis option.exhaust prod_cases3)
  have case_sum_eq: "case_sum f g x = Inr w' \<longleftrightarrow> (\<exists>e. x = Inl e \<and> f e = Inr w') \<or> (\<exists>y. x = Inr y \<and> g y = Inr w')"
    for f :: "_ \<Rightarrow> world res" and g and x :: "_ res" by (cases x) auto
  show "one_list w w'" if "on_remote_add A lk pr msg w = Inr w'"
    using that target [OF that [unfolded on_remote_add_def]]
    by (auto simp: on_remote_add_def res_bind_Inr_iff split: sum.splits if_splits)
  show "one_list w w'" if "on_remote_update A lk pr msg w = Inr w'"
    using that target [OF that [unfolded on_remote_update_def]]
    by (auto simp: on_remote_update_def res_bind_Inr_iff split: sum.splits if_splits)
  show "one_list w w'" if "on_remote_remove A lk pr msg w = Inr w'"
    using that target [OF that [unfolded on_remote_remove_def]]
    by (auto simp: on_remote_remove_def res_bind_Inr_iff case_sum_eq)
qed

lemma upd_list_kept: "kept P w (upd_list r j nl w)"
  unfolding upd_list_def by (rule kept_lists)

lemma remote_lists_kept:
  "on_remote_add A lk pr msg w = Inr w' \<Longrightarrow> kept P w w'"
  "on_remote_update A lk pr msg w = Inr w' \<Longrightarrow> kept P w w'"
  "on_remote_remove A lk pr msg w = Inr w' \<Longrightarrow> kept P w w'"
  by (auto dest!: remote_lists_change simp: one_list_def upd_list_kept)

lemma Flush_sends: "Flush A nl w = (nl', w') \<Longrightarrow> only_sends w w'"
  by (auto simp: Flush_def Let_def)

lemma update_lists_sends: "update_lists A ob nls w = Inr (nls', w') \<Longrightarrow> only_sends w w'"
proof (induction nls arbitrary: nls' w)
  case (Cons nl nls)
  then obtain nl1 rest where rest: "update_lists A ob nls (snd (Flush A nl1 w)) = Inr (rest, w')"
    by (auto simp: res_bind_Inr_iff Let_def split_beta)
  have "only_sends w (snd (Flush A nl1 w))" by (rule Flush_sends) (rule prod.collapse [symmetric])
  then show ?case using Cons.IH [OF rest] by (rule only_sends_trans)
qed auto

lemma UpdateListDelta_kept: "UpdateListDelta A r w = Inr w' \<Longrightarrow> kept P w w'"
  by (auto simp: UpdateListDelta_def res_bind_Inr_iff intro: kept_trans [OF kept_only_sends kept_lists] dest!: update_lists_sends)

section \<open>Sessions\<close>

text \<open>
  A step is labelled with the peer whose packet it handles, or with \<open>None\<close> for the server's own steps.
  A packet whose handling ends in a fault is not a step.
\<close>

definition peer_handlers :: "handler set" where
  "peer_handlers = {H_ClientEntSnapshot, H_List_Add, H_List_Update, H_List_Remove}"

inductive session_step :: "app \<Rightarrow> peer option \<Rightarrow> world \<Rightarrow> world \<Rightarrow> bool" for A where
  packet: "h \<in> peer_handlers \<Longrightarrow> run_handler A lock_ok h data (Some p) w = Inr w' \<Longrightarrow> session_step A (Some p) w w'"
| snapshot: "w_Running w \<Longrightarrow> DoSnapshot A i s reliable forced w = Inr (s', w') \<Longrightarrow> session_step A None w w'"
| lists: "UpdateListDelta A r w = Inr w' \<Longrightarrow> session_step A None w w'"

inductive session :: "app \<Rightarrow> peer option list \<Rightarrow> world \<Rightarrow> world \<Rightarrow> bool" for A where
  idle: "session A [] w w"
| step: "session A ps w v \<Longrightarrow> session_step A p v u \<Longrightarrow> session A (ps @ [p]) w u"

definition session_ok :: "world \<Rightarrow> bool" where
  "session_ok w \<longleftrightarrow> world_ok w \<and> (\<forall>(i, vi) \<in> set (w_Instances w). distinct (all_refs vi))"

lemma session_ok_objects:
  assumes "session_ok w" "get_instance w i = Some vi"
  shows "objects_ok w (all_refs vi)"
proof -
  have vi: "(i, vi) \<in> set (w_Instances w)" using assms(2) by (simp add: get_instance_def map_of_SomeD)
  then have "\<forall>r \<in> set (all_refs vi). w_heap w r \<noteq> None"
    using assms(1) by (fastforce simp: session_ok_def world_ok_def all_refs_def live_def)
  then show ?thesis
    using assms(1) vi by (auto simp: objects_ok_def session_ok_def world_ok_def split: option.split)
qed

lemma kept_session_ok:
  assumes "kept P w w'" "session_ok w"
  shows "session_ok w'"
proof -
  have heap: "case w_heap w r of None \<Rightarrow> w_heap w' r = None
      | Some ob \<Rightarrow> (\<exists>ob'. w_heap w' r = Some ob' \<and> kept_object P ob ob')" for r
    using assms(1) by (simp add: kept_def)
  have dom: "w_heap w' r = None \<longleftrightarrow> w_heap w r = None" for r using heap [of r] by (cases "w_heap w r") auto
  have ok: "object_ok ob'" if "w_heap w' r = Some ob'" for r ob'
    using heap [of r] that assms(2)
    by (auto simp: session_ok_def world_ok_def kept_object_def same_object_ok split: option.splits)
  have "w_Instances w' = w_Instances w" using control_fields(1) assms(1) unfolding kept_def by blast
  moreover have "live w' = live w" by (rule ext) (simp only: live_def dom)
  moreover have "\<forall>r ob. w_heap w' r = Some ob \<longrightarrow> object_ok ob" using ok by blast
  ultimately show ?thesis
    using assms(2) unfolding session_ok_def world_ok_def by (elim conjE, intro conjI) (simp_all only:)
qed

definition senders :: "peer option list \<Rightarrow> peer set" where
  "senders ps = {p. Some p \<in> set ps}"

lemma session_step_kept:
  assumes "session_step A p w w'" "session_ok w"
  shows "kept (senders [p]) w w'"
  using assms(1)
proof cases
  case (packet h lock_ok data q)
  have "kept {q} w w'" if "HandleClientEntSnapshot A data (Some q) w = Inr w'"
    using that by (auto simp: HandleClientEntSnapshot_def res_bind_Inr_iff intro: peer_changes_kept frame_loop_changes
      split: if_splits)
  then show ?thesis
    using packet by (auto simp: senders_def peer_handlers_def run_handler_def res_bind_Inr_iff intro: remote_lists_kept)
next
  case (snapshot i s reliable forced s')
  then obtain vi where vi: "get_instance w i = Some vi" by (auto simp: DoSnapshot_def split: option.splits)
  have "w' = snap_world (all_refs vi) reliable forced w"
    using snapshot(3) unfolding DoSnapshot_eq [OF vi snapshot(2) session_ok_objects [OF assms(2) vi]]
    by (auto simp: Let_def res_bind_Inr_iff split: if_splits)
  then show ?thesis by (simp add: snap_world_kept)
next
  case (lists r)
  then show ?thesis by (simp add: UpdateListDelta_kept)
qed

lemma session_kept:
  "session A ps w w' \<Longrightarrow> session_ok w \<Longrightarrow> session_ok w' \<and> kept (senders ps) w w'"
proof (induction rule: session.induct)
  case (step ps w v p u)
  then have v: "session_ok v" "kept (senders ps) w v" by simp_all
  from session_step_kept [OF step.hyps(2) v(1)] have "kept (senders [p]) v u" .
  then have "kept (senders (ps @ [p])) v u" "session_ok u"
    using kept_session_ok v(1) by (auto elim!: kept_mono simp: senders_def)
  moreover have "kept (senders (ps @ [p])) w v" using v(2) by (rule kept_mono) (auto simp: senders_def)
  ultimately show ?case using kept_trans by blast
qed simp


text \<open>Peer 1 sends a frame for its own object, which takes the new value and stays what it was otherwise.\<close>

lemma sample_session_ok: "session_ok sample_server"
  using sample_server_ok by (simp add: session_ok_def)


end
