(* ===== verification/Player_Realm.thy ===== *)
theory Player_Realm
  imports Samples
begin

text \<open>
  \<open>CPlayerRealm\<close> (CPlayerRealm.h, CPlayerRealm.cpp): the application's table of players by a small
  identifier, with a list of identifiers to use again. \<open>std::map\<close> is an association list sorted by
  key, so its iteration order is the order of the list. The shared pointers of the table count as
  references of the application.
\<close>

section \<open>The ordered map\<close>

fun smap_put :: "u32 \<Rightarrow> 'v \<Rightarrow> (u32 \<times> 'v) list \<Rightarrow> (u32 \<times> 'v) list" where
  "smap_put k v [] = [(k, v)]"
| "smap_put k v ((k', v') # m) =
     (if k < k' then (k, v) # (k', v') # m
      else if k = k' then (k, v) # m else (k', v') # smap_put k v m)"

section \<open>The realm and its operations\<close>

record realm =
  rl_PlayerList :: "(u32 \<times> oref) list"
  rl_FreeList :: "u32 list"
  rl_DeletionQueue :: "u32 list"

definition realm_new :: realm where
  "realm_new = \<lparr>rl_PlayerList = [], rl_FreeList = [], rl_DeletionQueue = []\<rparr>"

definition GetFreeID :: "realm \<Rightarrow> u32 \<times> realm" where
  "GetFreeID rl =
     (case rl_FreeList rl of
        [] \<Rightarrow> (of_nat (length (rl_PlayerList rl)), rl)
      | i # ids \<Rightarrow> (i, rl\<lparr>rl_FreeList := ids\<rparr>))"

text \<open>A shared pointer of the table goes away.\<close>

definition drop_ref :: "app \<Rightarrow> oref \<Rightarrow> world \<Rightarrow> world res" where
  "drop_ref A r w = release A r (unhold r w)"

definition realm_Add :: "app \<Rightarrow> oref \<Rightarrow> peer option \<Rightarrow> realm \<Rightarrow> world \<Rightarrow> (realm \<times> world) res" where
  "realm_Add A r peer rl w =
     res_bind (deref w r) (\<lambda>_.
       let (new_ID, rl1) = GetFreeID rl;
           w1 = hold r (upd_object r (\<lambda>ob. (SetRealmID new_ID ob)\<lparr>no_Peer := peer\<rparr>) w);
           rl2 = rl1\<lparr>rl_PlayerList := smap_put new_ID r (rl_PlayerList rl1)\<rparr>
       in case map_of (rl_PlayerList rl1) new_ID of
            None \<Rightarrow> Inr (rl2, w1)
          | Some old \<Rightarrow> res_bind (drop_ref A old w1) (\<lambda>w2. Inr (rl2, w2)))"

fun process_realm_deletes ::
  "app \<Rightarrow> u32 list \<Rightarrow> (u32 \<times> oref) list \<Rightarrow> world \<Rightarrow> ((u32 \<times> oref) list \<times> world) res" where
  "process_realm_deletes A [] m w = Inr (m, w)"
| "process_realm_deletes A (k # ks) m w =
     (case map_of m k of
        None \<Rightarrow> process_realm_deletes A ks m w
      | Some r \<Rightarrow> res_bind (drop_ref A r w) (\<lambda>w1. process_realm_deletes A ks (adel k m) w1))"

definition ProcessRealmDeletes :: "app \<Rightarrow> realm \<Rightarrow> world \<Rightarrow> (realm \<times> world) res" where
  "ProcessRealmDeletes A rl w =
     res_bind (process_realm_deletes A (rl_DeletionQueue rl) (rl_PlayerList rl) w) (\<lambda>(m, w1).
       Inr (rl\<lparr>rl_PlayerList := m, rl_DeletionQueue := []\<rparr>, w1))"

text \<open>\<open>Remove\<close> gives back the identifier the object carries, not the key it was found under.\<close>

definition realm_Remove :: "app \<Rightarrow> u32 \<Rightarrow> realm \<Rightarrow> world \<Rightarrow> (bool \<times> realm \<times> world) res" where
  "realm_Remove A k rl w =
     (case map_of (rl_PlayerList rl) k of
        None \<Rightarrow> Inr (False, rl, w)
      | Some r \<Rightarrow>
          res_bind (deref w r) (\<lambda>ob.
          res_bind (drop_ref A r w) (\<lambda>w1.
            Inr (True, rl\<lparr>rl_FreeList := rl_FreeList rl @ [GetRealmID ob],
                          rl_PlayerList := adel k (rl_PlayerList rl)\<rparr>, w1))))"

text \<open>The three loops over the table differ in the test.\<close>

fun find_player ::
  "(net_object \<Rightarrow> bool) \<Rightarrow> world \<Rightarrow> (u32 \<times> oref) list \<Rightarrow> (u32 \<times> oref) option res" where
  "find_player P w [] = Inr None"
| "find_player P w ((k, r) # m) =
     res_bind (deref w r) (\<lambda>ob. if P ob then Inr (Some (k, r)) else find_player P w m)"

definition RemoveByNetID :: "app \<Rightarrow> u32 \<Rightarrow> realm \<Rightarrow> world \<Rightarrow> (bool \<times> realm \<times> world) res" where
  "RemoveByNetID A nid rl w =
     res_bind (find_player (\<lambda>ob. GetNetID ob = nid) w (rl_PlayerList rl)) (\<lambda>it.
       case it of
         None \<Rightarrow> Inr (False, rl, w)
       | Some (k, r) \<Rightarrow>
           res_bind (deref w r) (\<lambda>ob.
           res_bind (drop_ref A r w) (\<lambda>w1.
             Inr (True, rl\<lparr>rl_FreeList := rl_FreeList rl @ [GetRealmID ob],
                           rl_PlayerList := adel k (rl_PlayerList rl)\<rparr>, w1))))"

definition GetPlayer :: "u32 \<Rightarrow> realm \<Rightarrow> oref option" where
  "GetPlayer k rl = map_of (rl_PlayerList rl) k"

definition GetPlayerByNetID :: "world \<Rightarrow> u32 \<Rightarrow> realm \<Rightarrow> oref option res" where
  "GetPlayerByNetID w nid rl =
     res_bind (find_player (\<lambda>ob. GetNetID ob = nid) w (rl_PlayerList rl)) (\<lambda>it.
       Inr (map_option snd it))"

definition GetPlayer_peer :: "world \<Rightarrow> peer option \<Rightarrow> realm \<Rightarrow> oref option res" where
  "GetPlayer_peer w peer rl =
     res_bind (find_player (\<lambda>ob. no_Peer ob = peer) w (rl_PlayerList rl)) (\<lambda>it.
       Inr (map_option snd it))"

section \<open>Laws of the ordered map\<close>

abbreviation keys :: "('k \<times> 'v) list \<Rightarrow> 'k set" where
  "keys m \<equiv> fst ` set m"

lemma below_head: "\<forall>x \<in> set m. a < fst x \<Longrightarrow> k \<le> a \<Longrightarrow> (k, v) \<notin> set (m :: (u32 \<times> 'v) list)"
  by (force dest: bspec)

lemma set_smap_put: "sorted_wrt (<) (map fst m) \<Longrightarrow>
  set (smap_put k v m) = insert (k, v) {x \<in> set m. fst x \<noteq> k}"
  by (induction m) (auto simp: below_head less_imp_le split: if_splits)

lemma sorted_smap_put:
  "sorted_wrt (<) (map fst m) \<Longrightarrow> sorted_wrt (<) (map fst (smap_put k v m))"
proof (induction m)
  case (Cons a m)
  obtain k' v' where a: "a = (k', v')" by force
  from Cons.prems a have le: "\<forall>x \<in> set m. k' < fst x" and m: "sorted_wrt (<) (map fst m)" by simp_all
  show ?case
  proof (cases k k' rule: linorder_cases)
    case less
    with le have "\<forall>x \<in> set m. k < fst x" by (meson less_trans)
    with less Cons a show ?thesis by simp
  next
    case equal
    with Cons a show ?thesis by simp
  next
    case greater
    with le m Cons a show ?thesis by (auto simp: set_smap_put dest: less_not_sym)
  qed
qed simp

lemma map_of_smap_put:
  "sorted_wrt (<) (map fst m) \<Longrightarrow> map_of (smap_put k v m) = (map_of m)(k \<mapsto> v)"
proof (induction m)
  case (Cons a m)
  obtain k' v' where a: "a = (k', v')" by force
  have "k < k' \<Longrightarrow> k \<notin> keys m" using Cons.prems a by force
  then show ?case using Cons a by (auto simp: fun_upd_twist)
qed simp

lemma length_smap_put:
  "sorted_wrt (<) (map fst m) \<Longrightarrow> length (smap_put k v m) = (if k \<in> keys m then length m else Suc (length m))"
proof (induction m)
  case (Cons a m)
  obtain k' v' where a: "a = (k', v')" by force
  have "k < k' \<Longrightarrow> k \<notin> keys m" using Cons.prems a by force
  then show ?case using Cons a by auto
qed simp

lemma sorted_adel: "sorted_wrt (<) (map fst m) \<Longrightarrow> sorted_wrt (<) (map fst (adel k m))"
  by (induction m) (auto simp: adel_def)

lemma sorted_distinct: "sorted_wrt (<) (map fst m) \<Longrightarrow> distinct (map fst (m :: (u32 \<times> 'v) list))"
  by (induction m) auto

lemma length_adel: "sorted_wrt (<) (map fst m) \<Longrightarrow> k \<in> keys m \<Longrightarrow>
  Suc (length (adel k m)) = length (m :: (u32 \<times> 'v) list)"
proof (induction m)
  case (Cons a m)
  have "k = fst a \<Longrightarrow> adel k m = m" using Cons.prems(1)
    by (auto simp: adel_def filter_id_conv)
  then show ?case using Cons by (auto simp: adel_def)
qed simp

section \<open>Dropping references\<close>

text \<open>An application whose deletion callbacks leave the state alone.\<close>

definition delete_quiet :: "app \<Rightarrow> bool" where
  "delete_quiet A \<longleftrightarrow> (\<forall>n t w. ap_delete A n t w = w)"

lemma BroadcastStream_heap: "BroadcastStream s rel w = Inr (x, w') \<Longrightarrow> w_heap w' = w_heap w"
  by (auto simp: BroadcastStream_def Broadcast_def transport_def res_bind_Inr_iff split: if_splits prod.splits)

lemma FreeEntity_heap:
  "delete_quiet A \<Longrightarrow> FreeEntity A i m nid t w = Inr (b, w') \<Longrightarrow> w_heap w' = w_heap w"
  by (auto simp: FreeEntity_def res_bind_Inr_iff Let_def delete_quiet_def
      split: option.splits if_splits dest!: BroadcastStream_heap)

lemma destroy_object_heap:
  assumes "delete_quiet A" and "destroy_object A r w = Inr w'"
  shows "w_heap w' = (w_heap w)(r := None)"
proof -
  from assms(2) obtain w1 where "w' = w1\<lparr>w_heap := (w_heap w1)(r := None)\<rparr>" "w_heap w1 = w_heap w"
    by (auto simp: destroy_object_def DestroyNetworkedEntity_def res_bind_Inr_iff
        split: if_splits option.splits dest!: FreeEntity_heap [OF assms(1)])
  then show ?thesis by simp
qed

lemma drop_ref_heap:
  assumes "delete_quiet A" and "drop_ref A r w = Inr w'"
  shows "w_heap w' = w_heap w \<or> w_heap w' = (w_heap w)(r := None)"
  using assms
  by (auto simp: drop_ref_def release_def unhold_def split: if_splits dest!: destroy_object_heap)

lemma drop_ref_other:
  "delete_quiet A \<Longrightarrow> drop_ref A r w = Inr w' \<Longrightarrow> q \<noteq> r \<Longrightarrow> w_heap w' q = w_heap w q"
  using drop_ref_heap [of A r w w'] by auto

section \<open>The invariant\<close>

text \<open>
  Live and free identifiers are disjoint and together an initial segment, and every player carries
  the identifier it is stored under. Nothing in the program adds to the deletion queue.
\<close>

definition realm_ok :: "realm \<Rightarrow> world \<Rightarrow> bool" where
  "realm_ok rl w \<longleftrightarrow>
     sorted_wrt (<) (map fst (rl_PlayerList rl)) \<and> distinct (rl_FreeList rl) \<and>
     set (rl_FreeList rl) \<inter> keys (rl_PlayerList rl) = {} \<and>
     set (rl_FreeList rl) \<union> keys (rl_PlayerList rl) =
       of_nat ` {..<length (rl_PlayerList rl) + length (rl_FreeList rl)} \<and>
     length (rl_PlayerList rl) + length (rl_FreeList rl) \<le> 2 ^ 32 \<and>
     (\<forall>(k, r) \<in> set (rl_PlayerList rl). map_option no_RealmID (w_heap w r) = Some k) \<and>
     rl_DeletionQueue rl = []"

definition realm_room :: "realm \<Rightarrow> bool" where
  "realm_room rl \<longleftrightarrow> length (rl_PlayerList rl) < 2 ^ 32"

lemma realm_new_ok: "realm_ok realm_new w"
  by (simp add: realm_ok_def realm_new_def)

lemma of_nat_notin_below: "n < 2 ^ 32 \<Longrightarrow> (of_nat n :: u32) \<notin> of_nat ` {..<n}"
  by (auto simp: of_nat_size_inject)

lemma GetFreeID_fresh:
  assumes ok: "realm_ok rl w" and room: "realm_room rl"
    and get: "GetFreeID rl = (k, rl1)"
  shows "k \<notin> keys (rl_PlayerList rl) \<and> rl_PlayerList rl1 = rl_PlayerList rl \<and>
    k \<notin> set (rl_FreeList rl1) \<and> rl_DeletionQueue rl1 = rl_DeletionQueue rl \<and>
    distinct (rl_FreeList rl1) \<and> set (rl_FreeList rl1) \<inter> keys (rl_PlayerList rl) = {} \<and>
    insert k (set (rl_FreeList rl1) \<union> keys (rl_PlayerList rl)) =
      of_nat ` {..<Suc (length (rl_PlayerList rl) + length (rl_FreeList rl1))} \<and>
    Suc (length (rl_PlayerList rl) + length (rl_FreeList rl1)) \<le> 2 ^ 32"
proof (cases "rl_FreeList rl")
  case Nil
  with ok get room of_nat_notin_below [OF room [unfolded realm_room_def]] show ?thesis
    by (auto simp: GetFreeID_def realm_ok_def lessThan_Suc realm_room_def)
next
  case (Cons i ids)
  with ok get show ?thesis by (clarsimp simp: GetFreeID_def realm_ok_def)
qed

lemma realm_Add_eq:
  assumes ok: "realm_ok rl w" and room: "realm_room rl"
    and r: "w_heap w r = Some ob" and get: "GetFreeID rl = (k, rl1)"
  shows "realm_Add A r p rl w = Inr (rl1\<lparr>rl_PlayerList := smap_put k r (rl_PlayerList rl)\<rparr>,
    hold r (upd_object r (\<lambda>ob. (SetRealmID k ob)\<lparr>no_Peer := p\<rparr>) w))"
proof -
  have "map_of (rl_PlayerList rl1) k = None" "rl_PlayerList rl1 = rl_PlayerList rl"
    using GetFreeID_fresh [OF ok room get] by (auto simp: map_of_eq_None_iff)
  then show ?thesis using r get by (simp add: realm_Add_def deref_def)
qed

lemma realm_Add_ok:
  assumes ok: "realm_ok rl w" and room: "realm_room rl"
    and new: "r \<notin> snd ` set (rl_PlayerList rl)" and add: "realm_Add A r p rl w = Inr (rl', w')"
  shows "realm_ok rl' w'"
proof -
  obtain k rl1 where get: "GetFreeID rl = (k, rl1)" by fastforce
  from add obtain ob where ob: "w_heap w r = Some ob"
    by (auto simp: realm_Add_def deref_def split: option.splits)
  note f = GetFreeID_fresh [OF ok room get]
  from realm_Add_eq [OF ok room ob get] add
  have rl': "rl' = rl1\<lparr>rl_PlayerList := smap_put k r (rl_PlayerList rl)\<rparr>"
    and w': "w' = hold r (upd_object r (\<lambda>ob. (SetRealmID k ob)\<lparr>no_Peer := p\<rparr>) w)" by simp_all
  from ok have srt: "sorted_wrt (<) (map fst (rl_PlayerList rl))" by (simp add: realm_ok_def)
  have set': "set (rl_PlayerList rl') = insert (k, r) (set (rl_PlayerList rl))"
    using f rl' set_smap_put [OF srt] by fastforce
  have ids: "map_option no_RealmID (w_heap w' q) = Some k'" if "(k', q) \<in> set (rl_PlayerList rl')" for k' q
  proof (cases "q = r")
    case True
    with that set' new have "k' = k" by force
    with True ob w' show ?thesis by (simp add: hold_def upd_object_def SetRealmID_def)
  next
    case False
    with that set' have "(k', q) \<in> set (rl_PlayerList rl)" by auto
    with ok have "map_option no_RealmID (w_heap w q) = Some k'" by (auto simp: realm_ok_def)
    with False w' show ?thesis by (simp add: hold_def upd_object_def)
  qed
  have len: "length (rl_PlayerList rl') = Suc (length (rl_PlayerList rl))"
    using f rl' length_smap_put [OF srt] by simp
  have keys': "keys (rl_PlayerList rl') = insert k (keys (rl_PlayerList rl))" using set' by simp
  have "sorted_wrt (<) (map fst (rl_PlayerList rl'))" using rl' sorted_smap_put [OF srt] by simp
  with f ok ids rl' len show ?thesis
    unfolding realm_ok_def keys' by (auto simp: Un_insert_right)
qed

text \<open>Erasing the entry of a player and giving its identifier back.\<close>

lemma erase_player_ok:
  assumes A: "delete_quiet A" and ok: "realm_ok rl w" and kr: "(k, r) \<in> set (rl_PlayerList rl)"
    and ob: "w_heap w r = Some ob" and drop: "drop_ref A r w = Inr w'"
  shows "realm_ok (rl\<lparr>rl_FreeList := rl_FreeList rl @ [GetRealmID ob],
    rl_PlayerList := adel k (rl_PlayerList rl)\<rparr>) w'"
proof -
  have k: "GetRealmID ob = k" using ok kr ob by (auto simp: realm_ok_def GetRealmID_def)
  from ok have srt: "sorted_wrt (<) (map fst (rl_PlayerList rl))" by (simp add: realm_ok_def)
  have len: "length (rl_PlayerList rl) = Suc (length (adel k (rl_PlayerList rl)))"
    using length_adel [OF srt, of k] kr by force
  have sub: "(k', q) \<in> set (adel k (rl_PlayerList rl)) \<longleftrightarrow> (k', q) \<in> set (rl_PlayerList rl) \<and> k' \<noteq> k" for k' q
    by (auto simp: adel_def)
  have ids: "map_option no_RealmID (w_heap w' q) = Some k'"
    if "(k', q) \<in> set (adel k (rl_PlayerList rl))" for k' q
  proof -
    have q: "map_option no_RealmID (w_heap w q) = Some k'" "k' \<noteq> k"
      using that sub ok by (auto simp: realm_ok_def)
    have "map_option no_RealmID (w_heap w r) = Some k" using kr ok by (auto simp: realm_ok_def)
    with q have "q \<noteq> r" by auto
    with q drop_ref_other [OF A drop] show ?thesis by simp
  qed
  have keys': "keys (adel k (rl_PlayerList rl)) = keys (rl_PlayerList rl) - {k}"
    by (auto simp: adel_def image_iff split_beta)
  have kin: "k \<in> keys (rl_PlayerList rl)" using kr by force
  have "k \<notin> set (rl_FreeList rl)" using kin ok by (auto simp: realm_ok_def)
  then have "distinct (rl_FreeList rl @ [k])"
    and "set (rl_FreeList rl @ [k]) \<inter> (keys (rl_PlayerList rl) - {k}) = {}"
    using ok by (auto simp: realm_ok_def)
  moreover have cnt: "length (adel k (rl_PlayerList rl)) + length (rl_FreeList rl @ [k]) =
      length (rl_PlayerList rl) + length (rl_FreeList rl)" using len by simp
  moreover have "set (rl_FreeList rl @ [k]) \<union> (keys (rl_PlayerList rl) - {k}) =
      set (rl_FreeList rl) \<union> keys (rl_PlayerList rl)" using kin by auto
  then have "set (rl_FreeList rl @ [k]) \<union> (keys (rl_PlayerList rl) - {k}) =
      of_nat ` {..<length (adel k (rl_PlayerList rl)) + length (rl_FreeList rl @ [k])}"
    unfolding cnt using ok unfolding realm_ok_def by metis
  moreover have "length (adel k (rl_PlayerList rl)) + length (rl_FreeList rl @ [k]) \<le> 2 ^ 32"
    unfolding cnt using ok unfolding realm_ok_def by metis
  moreover have "rl_DeletionQueue rl = []" using ok by (simp add: realm_ok_def)
  ultimately show ?thesis
    using ids sorted_adel [OF srt]
    unfolding realm_ok_def by (simp del: length_append set_append distinct_append add: keys' k case_prod_unfold)
qed

lemma find_player_SomeD:
  "find_player P w m = Inr (Some (k, r)) \<Longrightarrow>
     (k, r) \<in> set m \<and> (\<exists>ob. w_heap w r = Some ob \<and> P ob)"
  by (induction m) (auto simp: res_bind_Inr_iff deref_def split: if_splits option.splits)

lemma realm_Remove_ok:
  assumes "delete_quiet A" and "realm_ok rl w" and "realm_Remove A k rl w = Inr (b, rl', w')"
  shows "realm_ok rl' w'"
  using assms erase_player_ok [OF assms(1,2)]
  by (auto simp: realm_Remove_def res_bind_Inr_iff deref_def split: option.splits dest!: map_of_SomeD)

lemma RemoveByNetID_ok:
  assumes "delete_quiet A" and "realm_ok rl w" and "RemoveByNetID A nid rl w = Inr (b, rl', w')"
  shows "realm_ok rl' w'"
  using assms(2,3) erase_player_ok [OF assms(1,2)]
  by (clarsimp simp: RemoveByNetID_def res_bind_Inr_iff deref_def split: option.splits)
    (fastforce dest: find_player_SomeD)

lemma ProcessRealmDeletes_ok:
  "realm_ok rl w \<Longrightarrow> ProcessRealmDeletes A rl w = Inr (rl', w') \<Longrightarrow> rl' = rl \<and> w' = w"
  by (cases rl) (simp add: ProcessRealmDeletes_def realm_ok_def)

section \<open>Reachable realms\<close>

text \<open>
  The operations in any order, and in between anything else that keeps the players alive and their
  realm identifiers. An object is added only while it is not a player.
\<close>

inductive realm_step :: "app \<Rightarrow> realm \<times> world \<Rightarrow> realm \<times> world \<Rightarrow> bool" for A where
  add: "r \<notin> snd ` set (rl_PlayerList rl) \<Longrightarrow> realm_room rl \<Longrightarrow>
    realm_Add A r p rl w = Inr (rl', w') \<Longrightarrow> realm_step A (rl, w) (rl', w')"
| remove: "realm_Remove A k rl w = Inr (b, rl', w') \<Longrightarrow> realm_step A (rl, w) (rl', w')"
| remove_net: "RemoveByNetID A nid rl w = Inr (b, rl', w') \<Longrightarrow> realm_step A (rl, w) (rl', w')"
| deletes: "ProcessRealmDeletes A rl w = Inr (rl', w') \<Longrightarrow> realm_step A (rl, w) (rl', w')"
| other: "\<forall>(k, r) \<in> set (rl_PlayerList rl).
    map_option no_RealmID (w_heap w' r) = map_option no_RealmID (w_heap w r) \<Longrightarrow>
    realm_step A (rl, w) (rl, w')"

inductive_cases realm_stepE: "realm_step A (rl, w) (rl', w')"

lemma realm_other_ok:
  "realm_ok rl w \<Longrightarrow> \<forall>(k, r) \<in> set (rl_PlayerList rl).
     map_option no_RealmID (w_heap w' r) = map_option no_RealmID (w_heap w r) \<Longrightarrow> realm_ok rl w'"
  by (fastforce simp: realm_ok_def)

lemma realm_step_ok:
  assumes "delete_quiet A" and "realm_ok rl w" and "realm_step A (rl, w) (rl', w')"
  shows "realm_ok rl' w'"
  using assms(3)
  by (elim realm_stepE)
    (auto intro: assms(1,2) realm_Add_ok realm_Remove_ok RemoveByNetID_ok realm_other_ok
      dest: ProcessRealmDeletes_ok [OF assms(2)])

lemma realm_reachable_ok:
  assumes "delete_quiet A" and "(realm_step A)\<^sup>*\<^sup>* (realm_new, w0) (rl, w)"
  shows "realm_ok rl w"
proof -
  have "realm_ok (fst s) (snd s)" if "(realm_step A)\<^sup>*\<^sup>* (realm_new, w0) s" for s
    using that
  proof (induction rule: rtranclp_induct)
    case base
    show ?case by (simp add: realm_new_ok)
  next
    case (step s t)
    then show ?case using realm_step_ok [OF assms(1)] by (metis prod.collapse)
  qed
  from this [OF assms(2)] show ?thesis by simp
qed

section \<open>Properties\<close>

text \<open>
  C34. A realm never hands out an identifier that is in use: in every state its operations can
  reach, a new player is stored under an identifier nobody has, carries that identifier, and every
  other identifier refers to the same player as before.
\<close>

theorem realm_add_fresh:
  assumes A: "delete_quiet A" and re: "(realm_step A)\<^sup>*\<^sup>* (realm_new, w0) (rl, w)"
    and room: "realm_room rl" and r: "w_heap w r = Some ob"
  shows "\<exists>k rl' w'. realm_Add A r p rl w = Inr (rl', w') \<and>
    GetPlayer k rl = None \<and> GetPlayer k rl' = Some r \<and>
    (\<forall>k'. k' \<noteq> k \<longrightarrow> GetPlayer k' rl' = GetPlayer k' rl) \<and>
    w_heap w' r = Some ((SetRealmID k ob)\<lparr>no_Peer := p\<rparr>)"
proof -
  have ok: "realm_ok rl w" using realm_reachable_ok [OF A re] .
  obtain k rl1 where get: "GetFreeID rl = (k, rl1)" by fastforce
  from ok have srt: "sorted_wrt (<) (map fst (rl_PlayerList rl))" by (simp add: realm_ok_def)
  have "GetPlayer k rl = None"
    using GetFreeID_fresh [OF ok room get] by (simp add: GetPlayer_def map_of_eq_None_iff)
  with realm_Add_eq [OF ok room r get, of A p] map_of_smap_put [OF srt] r show ?thesis
    by (intro exI [of _ k]) (simp add: GetPlayer_def hold_def upd_object_def)
qed

lemma sample_delete_quiet: "delete_quiet sample_app"
  by (simp add: delete_quiet_def sample_app_def)

definition sample_realm :: realm where
  "sample_realm = realm_new\<lparr>rl_PlayerList := [(0, 0)]\<rparr>"

definition sample_realm_world :: world where
  "sample_realm_world = hold 0 (upd_object 0 (\<lambda>ob. (SetRealmID 0 ob)\<lparr>no_Peer := Some 1\<rparr>) sample_server)"

lemma sample_realm_reachable:
  "(realm_step sample_app)\<^sup>*\<^sup>* (realm_new, sample_server) (sample_realm, sample_realm_world)"
proof (rule r_into_rtranclp, rule realm_step.add)
  show "realm_Add sample_app 0 (Some 1) realm_new sample_server = Inr (sample_realm, sample_realm_world)"
    by (simp add: realm_Add_def deref_def GetFreeID_def realm_new_def sample_realm_def sample_realm_world_def)
qed (simp_all add: realm_new_def realm_room_def)

theorem realm_add_fresh_witness:
  "\<exists>k rl' w'. realm_Add sample_app 1 (Some 2) sample_realm sample_realm_world = Inr (rl', w') \<and>
    GetPlayer k sample_realm = None \<and> GetPlayer k rl' = Some 1 \<and>
    (\<forall>k'. k' \<noteq> k \<longrightarrow> GetPlayer k' rl' = GetPlayer k' sample_realm) \<and>
    w_heap w' 1 = Some ((SetRealmID k (sample_object\<lparr>no_Peer := Some 2, no_NetCode := 4, no_Vars := []\<rparr>))\<lparr>no_Peer := Some 2\<rparr>)"
  by (rule realm_add_fresh [OF sample_delete_quiet sample_realm_reachable])
    (simp_all add: realm_room_def sample_realm_def realm_new_def sample_realm_world_def hold_def
      upd_object_def sample_server_def)

text \<open>
  Adding an object that is a player already breaks this: after adding it twice and removing its
  first entry, its live second identifier is on the free list, so the next player replaces it.
\<close>

lemma realm_same_object_twice:
  assumes "w_heap w r = Some ob" and "w_heap w q = Some ob'" and "q \<noteq> r" and "0 < w_extern w r"
  shows "\<exists>rl1 w1 rl2 w2 rl3 w3 rl4 w4. realm_Add A r p realm_new w = Inr (rl1, w1) \<and>
    realm_Add A r p rl1 w1 = Inr (rl2, w2) \<and> realm_Remove A 0 rl2 w2 = Inr (True, rl3, w3) \<and>
    GetPlayer 1 rl3 = Some r \<and> realm_Add A q p' rl3 w3 = Inr (rl4, w4) \<and>
    GetPlayer 1 rl4 = Some q \<and> (\<forall>k. GetPlayer k rl4 \<noteq> Some r)"
  using assms
  by (simp add: realm_Add_def realm_Remove_def realm_new_def GetFreeID_def deref_def GetPlayer_def
      hold_def unhold_def upd_object_def SetRealmID_def GetRealmID_def drop_ref_def release_def
      use_count_def adel_def)

end
