(* ===== verification/Base_Math.thy ===== *)
theory Base_Math
  imports Complex_Main Prelude "HOL-Library.Signed_Division"
begin

text \<open>
  BaseMath.h and BaseMath.cpp. Integers are 32-bit words with the conversions of the language: an
  operation of a signed and an unsigned operand is unsigned, and a signed result out of range is
  \<open>Undefined\<close>. The float types are idealised as real numbers, here and in the geometry built on
  this theory: what is proved is about exact arithmetic; the rounding of the float operations, their
  overflow, infinities and values that are not a number are not modelled. The comparison on the bits of a float is modelled on the words themselves.
\<close>

type_synonym float32 = real

section \<open>Rounding methods and constants\<close>

datatype rounding_method =
  kRoundNearest | kRoundUp | kRoundDown | kRoundTowards0 | kRoundAwayFrom0

datatype rotation_order = kXYZ | kXZY | kYZX | kYXZ | kZXY | kZYX

definition kfPi :: float32 where "kfPi = 31415926535897932384626433832795 / 10 ^ 31"
definition kfEpsilon :: float32 where "kfEpsilon = 5 / 10 ^ 7"

section \<open>Signed integers\<close>

definition s32 :: "int \<Rightarrow> u32 res" where
  "s32 i = (if - (2 ^ 31) \<le> i \<and> i < 2 ^ 31 then Inr (word_of_int i) else Inl Undefined)"

definition Abs_int :: "u32 \<Rightarrow> u32 res" where
  "Abs_int x = s32 \<bar>sint x\<bar>"

definition Mod_int :: "u32 \<Rightarrow> u32 \<Rightarrow> u32 res" where
  "Mod_int x y = (if y = 0 then Inl Undefined else s32 (sint x smod sint y))"

text \<open>
  \<open>Round\<close> on integers. \<open>iPosMultipleOf\<close> is unsigned, so every quotient by it is unsigned; in the
  last branch all operands are signed. The shift of a negative value is arithmetic.
\<close>

definition Round_int :: "u32 \<Rightarrow> rounding_method \<Rightarrow> u32 \<Rightarrow> u32 res" where
  "Round_int iValue eRounding iMultipleOf =
     (if iMultipleOf = 0 then Inl Fatal_Exception
      else res_bind (Abs_int iMultipleOf) (\<lambda>iPosMultipleOf.
        case eRounding of
          kRoundTowards0 \<Rightarrow> Inr (iPosMultipleOf * (iValue div iPosMultipleOf))
        | kRoundDown \<Rightarrow>
            if 0 \<le> sint iValue then Inr (iPosMultipleOf * (iValue div iPosMultipleOf))
            else Inr (iPosMultipleOf * ((iValue - iPosMultipleOf + 1) div iPosMultipleOf))
        | kRoundAwayFrom0 \<Rightarrow>
            if 0 \<le> sint iValue
            then Inr (iPosMultipleOf * ((iValue + iPosMultipleOf - 1) div iPosMultipleOf))
            else Inr (iPosMultipleOf * ((iValue - iPosMultipleOf + 1) div iPosMultipleOf))
        | kRoundUp \<Rightarrow>
            if 0 \<le> sint iValue
            then Inr (iPosMultipleOf * ((iValue + iPosMultipleOf - 1) div iPosMultipleOf))
            else Inr (iPosMultipleOf * (iValue div iPosMultipleOf))
        | kRoundNearest \<Rightarrow>
            if 0 \<le> sint iValue
            then Inr (iPosMultipleOf * ((iValue + (drop_bit 1 iPosMultipleOf)) div iMultipleOf))
            else res_bind (s32 (sint iValue - drop_bit 1 (sint iMultipleOf))) (\<lambda>t.
                 res_bind (s32 (sint t sdiv sint iMultipleOf)) (\<lambda>q.
                   s32 (sint iMultipleOf * sint q)))))"

section \<open>Comparison of floats\<close>

text \<open>
  \<open>AreEqual\<close> reinterprets two floats as 32-bit integers. \<open>0x80000000 - xInt\<close> is unsigned and
  becomes signed again by the assignment; the final difference is signed.
\<close>

definition ordered_bits :: "u32 \<Rightarrow> u32" where
  "ordered_bits x = (if sint x < 0 then 0x80000000 - x else x)"

definition AreEqual_bits :: "u32 \<Rightarrow> u32 \<Rightarrow> u32 \<Rightarrow> bool res" where
  "AreEqual_bits x y iEpsilonFrac =
     res_bind (s32 (sint (ordered_bits x) - sint (ordered_bits y))) (\<lambda>d.
     res_bind (Abs_int d) (\<lambda>a. Inr (a < iEpsilonFrac)))"

text \<open>
  On the idealised floats the comparison goes through the bit pattern of the nearest float: the
  exponent is at least -126 (below that the number is denormal), the significand has 24 bits.
\<close>

definition float_mag :: "float32 \<Rightarrow> int" where
  "float_mag x = (if x = 0 then 0
     else let e = max (- 126) \<lfloor>log 2 x\<rfloor> in (e + 126) * 2 ^ 23 + round (x * 2 powr (23 - of_int e)))"

definition float_bits :: "float32 \<Rightarrow> u32" where
  "float_bits x = word_of_int ((if x < 0 then 2 ^ 31 else 0) + float_mag \<bar>x\<bar>)"

definition AreEqual :: "float32 \<Rightarrow> float32 \<Rightarrow> bool res" where
  "AreEqual x y = AreEqual_bits (float_bits x) (float_bits y) 4"

definition IsZero :: "float32 \<Rightarrow> bool" where
  "IsZero x \<longleftrightarrow> \<bar>x\<bar> < kfEpsilon"

definition AreEqualAbsolute :: "float32 \<Rightarrow> float32 \<Rightarrow> float32 \<Rightarrow> bool" where
  "AreEqualAbsolute x y fEpsilon \<longleftrightarrow> \<bar>x - y\<bar> < fEpsilon"

definition AreEqualRelative :: "float32 \<Rightarrow> float32 \<Rightarrow> float32 \<Rightarrow> bool" where
  "AreEqualRelative x y fEpsilon =
     (if 0 \<le> x \<and> 0 \<le> y
      then if y < x then x * (1 - fEpsilon) < y else y * (1 - fEpsilon) < x
      else if x < 0 \<and> y < 0
      then if x < y then y < x * (1 - fEpsilon) else x < y * (1 - fEpsilon)
      else False)"

section \<open>Floats\<close>

definition InvSqrt :: "float32 \<Rightarrow> float32" where "InvSqrt x = 1 / sqrt x"
definition SinCos :: "float32 \<Rightarrow> float32 \<times> float32" where "SinCos x = (sin x, cos x)"
definition ToDegrees :: "float32 \<Rightarrow> float32" where "ToDegrees r = (r * 180) / kfPi"
definition ToRadians :: "float32 \<Rightarrow> float32" where "ToRadians d = (d * kfPi) / 180"

definition Min :: "'a::ord \<Rightarrow> 'a \<Rightarrow> 'a" where "Min a b = (if b < a then b else a)"
definition Max :: "'a::ord \<Rightarrow> 'a \<Rightarrow> 'a" where "Max a b = (if \<not> b < a then b else a)"

definition Round_float :: "float32 \<Rightarrow> rounding_method \<Rightarrow> float32 \<Rightarrow> float32 res" where
  "Round_float fValue eRounding fMultipleOf =
     (let fPosMultipleOf = \<bar>fMultipleOf\<bar> in
      if fPosMultipleOf = 1 then
        Inr (of_int (case eRounding of
            kRoundNearest \<Rightarrow> \<lfloor>fValue + 1 / 2\<rfloor>
          | kRoundTowards0 \<Rightarrow> if 0 \<le> fValue then \<lfloor>fValue\<rfloor> else \<lceil>fValue\<rceil>
          | kRoundDown \<Rightarrow> \<lfloor>fValue\<rfloor>
          | kRoundAwayFrom0 \<Rightarrow> if 0 \<le> fValue then \<lceil>fValue\<rceil> else \<lfloor>fValue\<rfloor>
          | kRoundUp \<Rightarrow> \<lceil>fValue\<rceil>))
      else if fMultipleOf = 0 then Inl Fatal_Exception
      else
        Inr (fPosMultipleOf * of_int (case eRounding of
            kRoundNearest \<Rightarrow> \<lfloor>(fValue + 1 / 2) / fPosMultipleOf\<rfloor>
          | kRoundTowards0 \<Rightarrow> if 0 \<le> fValue then \<lfloor>fValue / fPosMultipleOf\<rfloor> else \<lceil>fValue / fPosMultipleOf\<rceil>
          | kRoundDown \<Rightarrow> \<lfloor>fValue / fPosMultipleOf\<rfloor>
          | kRoundAwayFrom0 \<Rightarrow> if 0 \<le> fValue then \<lceil>fValue / fPosMultipleOf\<rceil> else \<lfloor>fValue / fPosMultipleOf\<rfloor>
          | kRoundUp \<Rightarrow> \<lceil>fValue / fPosMultipleOf\<rceil>)))"

section \<open>Words as integers\<close>

lemma unat_u32: "unat (x :: u32) < 4294967296"
  using unsigned_less [of x, where 'a = nat] by simp

lemma wrap_signed: "0 \<le> i \<Longrightarrow> i < 4294967296 \<Longrightarrow>
  (i + 2147483648) mod 4294967296 - 2147483648 = (if i < 2147483648 then i else i - 4294967296)" for i :: int
proof (cases "i < 2147483648")
  case False
  moreover assume "i < 4294967296"
  moreover have "(i + 2147483648) mod 4294967296 = (i - 2147483648) mod 4294967296"
    using mod_add_self2 [of "i - 2147483648" 4294967296] by (simp add: add.commute)
  ultimately show ?thesis by simp
qed simp

lemma sint_u32: "sint (x :: u32) = (if unat x < 2147483648 then int (unat x) else int (unat x) - 4294967296)"
proof -
  have "sint x = (int (unat x) + 2147483648) mod 4294967296 - 2147483648"
    using int_word_sint [where 'a = 32, of "uint x"] by (simp add: add.commute)
  with wrap_signed [of "int (unat x)"] unat_u32 [of x] show ?thesis by (simp del: of_nat_unat)
qed

lemma sint_nonneg_u32: "0 \<le> sint (x :: u32) \<longleftrightarrow> unat x < 2147483648"
  using unat_u32 [of x] unfolding sint_u32 by (simp del: of_nat_unat)

lemma sint_unat: "0 \<le> sint (x :: u32) \<Longrightarrow> sint x = int (unat x)"
  unfolding sint_nonneg_u32 by (simp only: sint_u32 if_True)

lemma s32_sint [simp]: "s32 (sint x) = Inr x"
  using sint_ge [of x] sint_lt [of x] by (simp add: s32_def)

lemma Abs_int_pos: "0 \<le> sint m \<Longrightarrow> Abs_int m = Inr m"
  by (simp add: Abs_int_def)

lemma unat_mult_div: "unat (m * (x div m)) = unat m * (unat x div unat m)" for m x :: u32
  by (metis div_times_less_eq_dividend mult.commute unat_div unat_mult_lem unsigned_less order_le_less_trans)

lemma unat_add_small: "unat a + unat b < 4294967296 \<Longrightarrow> unat (a + b) = unat a + unat b" for a b :: u32
  by (simp add: unat_plus_if_size word_size)

lemma unat_add_pred:
  fixes v m :: u32
  assumes "0 \<le> sint v" and "0 < sint m"
  shows "unat (v + m - 1) = unat v + unat m - 1"
proof -
  from assms have l: "unat v < 2147483648" "unat m < 2147483648"
    using sint_nonneg_u32 [of v] sint_nonneg_u32 [of m] by simp_all
  have um: "0 < unat m" using assms(2) sint_unat [of m] by (simp del: of_nat_unat)
  then have m: "1 \<le> m" by (simp add: word_le_nat_alt)
  have "v + m - 1 = v + (m - 1)" by simp
  moreover have p: "unat (m - 1) = unat m - 1" using m by (simp add: unat_sub)
  moreover have "unat (v + (m - 1)) = unat v + unat (m - 1)" using l p by (intro unat_add_small) simp
  ultimately have "unat (v + m - 1) = unat v + (unat m - 1)" by metis
  then show ?thesis using um by simp
qed

lemma up_multiple:
  fixes v m :: nat
  assumes "0 < m"
  shows "v \<le> m * ((v + m - 1) div m) \<and> m * ((v + m - 1) div m) < v + m"
proof -
  have "(v + m - 1) mod m < m" using assms by simp
  moreover have "m * ((v + m - 1) div m) + (v + m - 1) mod m = v + m - 1" by simp
  ultimately show ?thesis using assms by linarith
qed

lemma down_multiple: "0 < m \<Longrightarrow> m * (v div m) \<le> v \<and> v < m * (v div m) + m" for v m :: nat
  using mult_div_mod_eq [of m v] mod_less_divisor [of m v] by linarith

lemma near_multiple: "0 < m \<Longrightarrow> 2 * (m * ((v + m div 2) div m)) \<le> 2 * v + m \<and> 2 * v \<le> 2 * (m * ((v + m div 2) div m)) + m" for v m :: nat
  using down_multiple [of m "v + m div 2"] by linarith

section \<open>Laws of the comparison\<close>

lemma AreEqual_refl [simp]: "AreEqual x x = Inr True"
  by (simp add: AreEqual_def AreEqual_bits_def s32_def Abs_int_def)

lemma float_mag_bounds:
  assumes "0 \<le> x" and "x \<le> 1"
  shows "0 \<le> float_mag x \<and> float_mag x \<le> 127 * 2 ^ 23"
proof (cases "x = 0 \<or> x = 1")
  case False
  with assms have x: "0 < x" "x < 1" by simp_all
  define e where "e = max (- 126) \<lfloor>log 2 x\<rfloor>"
  have mag: "float_mag x = (e + 126) * 2 ^ 23 + round (x * 2 powr (23 - of_int e))"
    using x by (simp add: float_mag_def e_def Let_def)
  have "log 2 x < 0" using x by simp
  then have e1: "- 126 \<le> e" "e \<le> - 1" by (simp_all add: e_def) linarith
  have "log 2 x < of_int (e + 1)" unfolding e_def by linarith
  then have "x < 2 powr of_int (e + 1)" using x by (simp add: log_less_iff)
  then have "x * 2 powr (23 - of_int e) < 2 powr of_int (e + 1) * 2 powr (23 - of_int e)" by simp
  also have "\<dots> = 2 powr 24" by (simp flip: powr_add)
  also have "\<dots> = 2 ^ 24" by (simp flip: powr_realpow)
  finally have "round (x * 2 powr (23 - of_int e)) \<le> round (2 ^ 24 :: real)" by (intro round_mono) simp
  also have "\<dots> = 2 ^ 24" using round_of_int [of "2 ^ 24", where 'a = real] by simp
  finally have "round (x * 2 powr (23 - of_int e)) \<le> 2 ^ 24" .
  moreover have "round (0 :: real) \<le> round (x * 2 powr (23 - of_int e))" using x by (intro round_mono) simp
  ultimately show ?thesis using e1 mag by simp
qed (auto simp: float_mag_def powr_numeral)

lemma sint_word_of_int: "- (2 ^ 31) \<le> i \<Longrightarrow> i < 2 ^ 31 \<Longrightarrow> sint (word_of_int i :: u32) = i"
  by (simp add: sint_sbintrunc' signed_take_bit_int_eq_self)

text \<open>The ordered bits of a float between -1 and 1, as an integer.\<close>

definition float_order :: "float32 \<Rightarrow> int" where
  "float_order x = (if x < 0 then - float_mag \<bar>x\<bar> else float_mag \<bar>x\<bar>)"

lemma ordered_bits_negative:
  assumes "0 \<le> i" and "i < 2 ^ 31"
  shows "sint (ordered_bits (word_of_int (2 ^ 31 + i))) = - i"
proof -
  define w :: u32 where "w = word_of_int (2 ^ 31 + i)"
  have "w = word_of_int (i - 2 ^ 31)" unfolding w_def by (simp add: word_of_int_eq_iff)
  then have "sint w = i - 2 ^ 31" using assms by (simp only: sint_word_of_int)
  moreover have "0x80000000 - w = word_of_int (- i)" by (simp add: w_def)
  moreover have "sint (word_of_int (- i) :: u32) = - i" using assms by (intro sint_word_of_int) simp_all
  ultimately show ?thesis using assms unfolding ordered_bits_def w_def [symmetric] by simp
qed

lemma ordered_bits_positive: "0 \<le> i \<Longrightarrow> i < 2 ^ 31 \<Longrightarrow> sint (ordered_bits (word_of_int i)) = i"
  by (simp add: ordered_bits_def sint_word_of_int)

lemma ordered_float_bits: "\<bar>x\<bar> \<le> 1 \<Longrightarrow> sint (ordered_bits (float_bits x)) = float_order x"
  unfolding float_bits_def float_order_def
  using float_mag_bounds [of "\<bar>x\<bar>"] ordered_bits_negative [of "float_mag \<bar>x\<bar>"]
    ordered_bits_positive [of "float_mag \<bar>x\<bar>"] by (cases "x < 0") (simp_all only: if_True if_False, simp_all)

lemma word_less_4: "0 \<le> d \<Longrightarrow> d < 2 ^ 31 \<Longrightarrow> (word_of_int d :: u32) < 4 \<longleftrightarrow> d < 4"
  by (simp add: word_less_def unsigned_of_int take_bit_int_eq_self)

lemma close_words:
  "\<bar>d\<bar> < 2 ^ 31 \<Longrightarrow> res_bind (s32 d) (\<lambda>t. res_bind (Abs_int t) (\<lambda>a. Inr (a < 4))) = Inr (\<bar>d\<bar> < 4)"
  by (cases "0 \<le> d") (simp_all add: s32_def Abs_int_def sint_word_of_int word_less_4 del: of_int_minus)

lemma AreEqual_unit:
  assumes "\<bar>x\<bar> \<le> 1" and "\<bar>y\<bar> \<le> 1"
  shows "AreEqual x y = Inr (\<bar>float_order x - float_order y\<bar> < 4)"
proof -
  have "\<bar>float_order x\<bar> \<le> 127 * 2 ^ 23" "\<bar>float_order y\<bar> \<le> 127 * 2 ^ 23"
    using float_mag_bounds [of "\<bar>x\<bar>"] float_mag_bounds [of "\<bar>y\<bar>"] assms by (auto simp: float_order_def)
  then have "\<bar>float_order x - float_order y\<bar> < 2 ^ 31"
    by (simp add: abs_le_iff abs_less_iff)
  from close_words [OF this] show ?thesis using assms
    by (simp add: AreEqual_def AreEqual_bits_def ordered_float_bits)
qed

section \<open>Properties of the integer rounding\<close>

text \<open>
  Rounding a non-negative integer to a multiple of a positive one gives a multiple within one
  step on the side the method names, and within half a step for \<open>kRoundNearest\<close>; no intermediate
  result overflows.
\<close>

lemma round_int_positive:
  assumes "0 \<le> sint v" and "0 < sint m"
  shows "\<exists>r k. Round_int v rm m = Inr r \<and> unat r = unat m * k \<and>
    (case rm of
       kRoundDown \<Rightarrow> unat r \<le> unat v \<and> unat v < unat r + unat m
     | kRoundTowards0 \<Rightarrow> unat r \<le> unat v \<and> unat v < unat r + unat m
     | kRoundUp \<Rightarrow> unat v \<le> unat r \<and> unat r < unat v + unat m
     | kRoundAwayFrom0 \<Rightarrow> unat v \<le> unat r \<and> unat r < unat v + unat m
     | kRoundNearest \<Rightarrow> 2 * unat r \<le> 2 * unat v + unat m \<and> 2 * unat v \<le> 2 * unat r + unat m)"
proof -
  from assms have l: "unat v < 2147483648" "unat m < 2147483648"
    using sint_nonneg_u32 [of v] sint_nonneg_u32 [of m] by simp_all
  have um: "0 < unat m" using assms(2) sint_unat [of m] by (simp del: of_nat_unat)
  have m: "m \<noteq> 0" "Abs_int m = Inr m" using um Abs_int_pos assms(2) by auto
  have half: "unat (v + drop_bit (Suc 0) m) = unat v + unat m div 2"
    using l unat_add_small [of v "drop_bit (Suc 0) m"] by (simp add: drop_bit_eq_div unat_div)
  show ?thesis
    using assms(1) m down_multiple [OF um, of "unat v"] up_multiple [OF um, of "unat v"] near_multiple [OF um, of "unat v"]
    by (cases rm) (auto simp: Round_int_def unat_mult_div half unat_add_pred [OF assms])
qed

text \<open>
  Rounding a negative integer towards zero or up is wrong for every step that is not a power of
  two: the quotient is taken of the unsigned representation, and the result, read as the signed
  number it stands for, is not a multiple of the step at all.
\<close>

lemma round_int_negative:
  assumes v: "sint v < 0" and m: "0 < sint m" "- 2147483648 \<le> sint v - sint m" "\<not> sint m dvd 4294967296"
  shows "\<exists>r. Round_int v kRoundTowards0 m = Inr r \<and> Round_int v kRoundUp m = Inr r \<and>
    \<not> sint m dvd sint r"
proof -
  let ?r = "m * (v div m)"
  have sv: "sint v = int (unat v) - 4294967296" using v sint_u32 [of v] by (simp del: of_nat_unat split: if_splits)
  have sm: "sint m = int (unat m)" using m(1) sint_unat [of m] by simp
  have m0: "m \<noteq> 0" using m(1) by auto
  have um: "0 < unat m" using m(1) sm by (simp del: of_nat_unat)
  have r: "unat ?r = unat m * (unat v div unat m)" by (rule unat_mult_div)
  have "unat v < unat ?r + unat m" using down_multiple [OF um] r by metis
  with m(2) sv sm have "2147483648 \<le> unat ?r" by linarith
  then have sr: "sint ?r = int (unat ?r) - 4294967296" using sint_u32 [of ?r] by (simp del: of_nat_unat)
  have d: "sint m dvd int (unat ?r)" unfolding sm r by simp
  have "\<not> sint m dvd sint ?r"
  proof
    assume "sint m dvd sint ?r"
    with d have "sint m dvd int (unat ?r) - sint ?r" by (rule dvd_diff)
    with sr m(3) show False by simp
  qed
  moreover have "Abs_int m = Inr m" using m(1) by (simp add: Abs_int_pos)
  ultimately show ?thesis using m0 v by (simp add: Round_int_def)
qed

section \<open>Properties of the float rounding\<close>

lemma floor_multiple: "0 < p \<Longrightarrow> of_int \<lfloor>v / p\<rfloor> * p \<le> v \<and> v < of_int \<lfloor>v / p\<rfloor> * p + p" for p v :: real
  using floor_divide_lower [of p v] floor_divide_upper [of p v] by (simp add: algebra_simps)

lemma ceiling_multiple: "0 < p \<Longrightarrow> v \<le> of_int \<lceil>v / p\<rceil> * p \<and> of_int \<lceil>v / p\<rceil> * p < v + p" for p v :: real
  using ceiling_divide_upper [of p v] ceiling_divide_lower [of p v] by (simp add: algebra_simps)

text \<open>
  Rounding a real number down, up, towards zero or away from zero gives the multiple of the
  step that the method names, for steps of either sign; so does rounding to the nearest integer.
\<close>

lemma round_float_multiple:
  assumes "x \<noteq> 0" and "rm \<noteq> kRoundNearest \<or> \<bar>x\<bar> = 1"
  shows "\<exists>k :: int. Round_float v rm x = Inr (of_int k * \<bar>x\<bar>) \<and>
    (let r = of_int k * \<bar>x\<bar> in
     case rm of
       kRoundDown \<Rightarrow> r \<le> v \<and> v < r + \<bar>x\<bar>
     | kRoundUp \<Rightarrow> v \<le> r \<and> r < v + \<bar>x\<bar>
     | kRoundTowards0 \<Rightarrow> \<bar>r\<bar> \<le> \<bar>v\<bar> \<and> \<bar>v\<bar> < \<bar>r\<bar> + \<bar>x\<bar>
     | kRoundAwayFrom0 \<Rightarrow> \<bar>v\<bar> \<le> \<bar>r\<bar> \<and> \<bar>r\<bar> < \<bar>v\<bar> + \<bar>x\<bar>
     | kRoundNearest \<Rightarrow> \<bar>r - v\<bar> \<le> 1 / 2)"
proof -
  let ?p = "\<bar>x\<bar>"
  have p: "0 < ?p" using assms(1) by simp
  have fl: "of_int \<lfloor>v / ?p\<rfloor> * ?p \<le> v \<and> v < of_int \<lfloor>v / ?p\<rfloor> * ?p + ?p" by (rule floor_multiple [OF p])
  have ce: "v \<le> of_int \<lceil>v / ?p\<rceil> * ?p \<and> of_int \<lceil>v / ?p\<rceil> * ?p < v + ?p" by (rule ceiling_multiple [OF p])
  have pos: "0 \<le> v \<Longrightarrow> 0 \<le> of_int \<lfloor>v / ?p\<rfloor> * ?p" using p by simp
  have neg: "v < 0 \<Longrightarrow> of_int \<lceil>v / ?p\<rceil> * ?p \<le> 0"
    using p by (simp add: mult_nonpos_nonneg divide_nonpos_nonneg ceiling_le_zero)
  show ?thesis
  proof (cases rm)
    case kRoundNearest
    with assms(2) have one: "?p = 1" by simp
    have "\<bar>of_int \<lfloor>v + 1 / 2\<rfloor> - v\<bar> \<le> 1 / 2" by linarith
    with kRoundNearest one show ?thesis
      by (intro exI [of _ "\<lfloor>v + 1 / 2\<rfloor>"]) (simp add: Round_float_def)
  next
    case kRoundDown
    with fl p assms(1) show ?thesis
      by (intro exI [of _ "\<lfloor>v / ?p\<rfloor>"]) (auto simp: Round_float_def Let_def mult.commute)
  next
    case kRoundUp
    with ce p assms(1) show ?thesis
      by (intro exI [of _ "\<lceil>v / ?p\<rceil>"]) (auto simp: Round_float_def Let_def mult.commute)
  next
    case kRoundTowards0
    let ?k = "if 0 \<le> v then \<lfloor>v / ?p\<rfloor> else \<lceil>v / ?p\<rceil>"
    have "\<bar>of_int ?k * ?p\<bar> \<le> \<bar>v\<bar> \<and> \<bar>v\<bar> < \<bar>of_int ?k * ?p\<bar> + ?p"
    proof (cases "0 \<le> v")
      case True
      then have "?k = \<lfloor>v / ?p\<rfloor>" by simp
      then show ?thesis using fl pos [OF True] True by (simp only:) linarith
    next
      case False
      then have v: "v < 0" and k: "?k = \<lceil>v / ?p\<rceil>" by simp_all
      show ?thesis unfolding k using ce neg [OF v] v by linarith
    qed
    with kRoundTowards0 p assms(1) show ?thesis
      by (intro exI [of _ ?k]) (auto simp: Round_float_def Let_def mult.commute)
  next
    case kRoundAwayFrom0
    let ?k = "if 0 \<le> v then \<lceil>v / ?p\<rceil> else \<lfloor>v / ?p\<rfloor>"
    have "\<bar>v\<bar> \<le> \<bar>of_int ?k * ?p\<bar> \<and> \<bar>of_int ?k * ?p\<bar> < \<bar>v\<bar> + ?p"
    proof (cases "0 \<le> v")
      case True
      then have "?k = \<lceil>v / ?p\<rceil>" by simp
      then show ?thesis using ce True by (simp only:) linarith
    next
      case False
      then have v: "v < 0" and k: "?k = \<lfloor>v / ?p\<rfloor>" by simp_all
      show ?thesis unfolding k using fl v by linarith
    qed
    with kRoundAwayFrom0 p assms(1) show ?thesis
      by (intro exI [of _ ?k]) (auto simp: Round_float_def Let_def mult.commute)
  qed
qed

text \<open>
  Rounding to the nearest multiple of another step adds half of one instead of half of the
  step: for every step above one, a value between the middle and half a unit below the next
  multiple is rounded to the lower multiple although the upper one is nearer.
\<close>

lemma round_float_nearest_wrong:
  assumes "1 < x" and "x / 2 < d" and "d < x - 1 / 2"
  shows "Round_float (of_int k * x + d) kRoundNearest x = Inr (of_int k * x) \<and>
    \<bar>of_int (k + 1) * x - (of_int k * x + d)\<bar> < \<bar>of_int k * x - (of_int k * x + d)\<bar>"
proof -
  have "\<lfloor>(of_int k * x + d + 1 / 2) / x\<rfloor> = k"
    using assms by (intro floor_unique) (simp_all add: field_simps)
  then show ?thesis using assms by (simp add: Round_float_def Let_def algebra_simps abs_if)
qed

end
