(* ===== verification/Vectors.thy ===== *)
theory Vectors
  imports Base_Math
begin

text \<open>
  \<open>CVector3\<close> (CVector3.h, CVector3.cpp). The operators are definitions of their own; the type is made
  an instance of the class of real vector spaces with them, so that the algebra of the library
  applies. A pointer to floats is the list of the floats behind it. A division by zero has no value
  in the idealisation: the laws of \<open>vec_div\<close> and of the lengths ask for a non-zero divisor.
\<close>

named_theorems vec_simps \<open>component definitions of the vector operations\<close>

section \<open>The type\<close>

datatype vector3 = CVector3 (v_x: float32) (v_y: float32) (v_z: float32)

definition kZero :: vector3 where "kZero = CVector3 0 0 0"

definition vec_set :: "float32 list \<Rightarrow> vector3 res" where
  "vec_set pfElts =
     (case pfElts of x # y # z # _ \<Rightarrow> Inr (CVector3 x y z) | _ \<Rightarrow> Inl Undefined)"

definition vec_between :: "vector3 \<Rightarrow> vector3 \<Rightarrow> vector3" where
  "vec_between p1 p2 = CVector3 (v_x p2 - v_x p1) (v_y p2 - v_y p1) (v_z p2 - v_z p1)"

definition vec_index :: "vector3 \<Rightarrow> nat \<Rightarrow> float32 res" where
  "vec_index v i = (let xs = [v_x v, v_y v, v_z v] in
     if i < length xs then Inr (xs ! i) else Inl Undefined)"

section \<open>Operators\<close>

definition vec_eq :: "vector3 \<Rightarrow> vector3 \<Rightarrow> bool" where
  "vec_eq v1 v2 \<longleftrightarrow> v_x v1 = v_x v2 \<and> v_y v1 = v_y v2 \<and> v_z v1 = v_z v2"

definition vec_add :: "vector3 \<Rightarrow> vector3 \<Rightarrow> vector3" where
  "vec_add v1 v2 = CVector3 (v_x v1 + v_x v2) (v_y v1 + v_y v2) (v_z v1 + v_z v2)"

definition vec_sub :: "vector3 \<Rightarrow> vector3 \<Rightarrow> vector3" where
  "vec_sub v1 v2 = CVector3 (v_x v1 - v_x v2) (v_y v1 - v_y v2) (v_z v1 - v_z v2)"

definition vec_neg :: "vector3 \<Rightarrow> vector3" where
  "vec_neg v = CVector3 (- v_x v) (- v_y v) (- v_z v)"

definition vec_scale :: "float32 \<Rightarrow> vector3 \<Rightarrow> vector3" where
  "vec_scale s v = CVector3 (v_x v * s) (v_y v * s) (v_z v * s)"

definition vec_div :: "vector3 \<Rightarrow> float32 \<Rightarrow> vector3" where
  "vec_div v s = CVector3 (v_x v / s) (v_y v / s) (v_z v / s)"

definition Dot :: "vector3 \<Rightarrow> vector3 \<Rightarrow> float32" where
  "Dot v1 v2 = v_x v1 * v_x v2 + v_y v1 * v_y v2 + v_z v1 * v_z v2"

definition Cross :: "vector3 \<Rightarrow> vector3 \<Rightarrow> vector3" where
  "Cross v1 v2 = CVector3 (v_y v1 * v_z v2 - v_z v1 * v_y v2)
     (v_z v1 * v_x v2 - v_x v1 * v_z v2) (v_x v1 * v_y v2 - v_y v1 * v_x v2)"

section \<open>Lengths\<close>

definition LengthSquared :: "vector3 \<Rightarrow> float32" where
  "LengthSquared v = v_x v * v_x v + v_y v * v_y v + v_z v * v_z v"

definition Length :: "vector3 \<Rightarrow> float32" where
  "Length v = sqrt (v_x v * v_x v + v_y v * v_y v + v_z v * v_z v)"

definition vec_IsZero :: "vector3 \<Rightarrow> bool" where
  "vec_IsZero v \<longleftrightarrow> IsZero (v_x v * v_x v + v_y v * v_y v + v_z v * v_z v)"

definition vec_IsUnit :: "vector3 \<Rightarrow> bool" where
  "vec_IsUnit v \<longleftrightarrow> IsZero (v_x v * v_x v + v_y v * v_y v + v_z v * v_z v - 1)"

definition vec_Normalise :: "vector3 \<Rightarrow> vector3" where
  "vec_Normalise v =
     (let lengthSq = v_x v * v_x v + v_y v * v_y v + v_z v * v_z v in
      if lengthSq = 0 then CVector3 0 0 0
      else let invLength = 1 / sqrt lengthSq in
        CVector3 (v_x v * invLength) (v_y v * invLength) (v_z v * invLength))"

definition DistanceToSquared :: "vector3 \<Rightarrow> vector3 \<Rightarrow> float32" where
  "DistanceToSquared v p =
     (let distX = v_x p - v_x v; distY = v_y p - v_y v; distZ = v_z p - v_z v
      in distX * distX + distY * distY + distZ * distZ)"

definition DistanceTo :: "vector3 \<Rightarrow> vector3 \<Rightarrow> float32" where
  "DistanceTo v p =
     (let distX = v_x p - v_x v; distY = v_y p - v_y v; distZ = v_z p - v_z v
      in sqrt (distX * distX + distY * distY + distZ * distZ))"

definition Distance :: "vector3 \<Rightarrow> vector3 \<Rightarrow> float32" where
  "Distance p1 p2 =
     (let distX = v_x p1 - v_x p2; distY = v_y p1 - v_y p2; distZ = v_z p1 - v_z p2
      in sqrt (distX * distX + distY * distY + distZ * distZ))"

definition DistanceSquared :: "vector3 \<Rightarrow> vector3 \<Rightarrow> float32" where
  "DistanceSquared p1 p2 =
     (let distX = v_x p1 - v_x p2; distY = v_y p1 - v_y p2; distZ = v_z p1 - v_z p2
      in distX * distX + distY * distY + distZ * distZ)"

section \<open>A real vector space\<close>

lemma vector3_eqI: "v_x a = v_x b \<Longrightarrow> v_y a = v_y b \<Longrightarrow> v_z a = v_z b \<Longrightarrow> a = b"
  by (cases a; cases b) simp

lemma vec_components [vec_simps]:
  "v_x (vec_add a b) = v_x a + v_x b" "v_y (vec_add a b) = v_y a + v_y b" "v_z (vec_add a b) = v_z a + v_z b"
  "v_x (vec_sub a b) = v_x a - v_x b" "v_y (vec_sub a b) = v_y a - v_y b" "v_z (vec_sub a b) = v_z a - v_z b"
  "v_x (vec_neg a) = - v_x a" "v_y (vec_neg a) = - v_y a" "v_z (vec_neg a) = - v_z a"
  "v_x (vec_scale s a) = v_x a * s" "v_y (vec_scale s a) = v_y a * s" "v_z (vec_scale s a) = v_z a * s"
  "v_x (vec_div a s) = v_x a / s" "v_y (vec_div a s) = v_y a / s" "v_z (vec_div a s) = v_z a / s"
  by (simp_all add: vec_add_def vec_sub_def vec_neg_def vec_scale_def vec_div_def)

instantiation vector3 :: real_vector
begin

definition zero_vector3 :: vector3 where "zero_vector3 = kZero"
definition plus_vector3 :: "vector3 \<Rightarrow> vector3 \<Rightarrow> vector3" where "plus_vector3 = vec_add"
definition minus_vector3 :: "vector3 \<Rightarrow> vector3 \<Rightarrow> vector3" where "minus_vector3 = vec_sub"
definition uminus_vector3 :: "vector3 \<Rightarrow> vector3" where "uminus_vector3 = vec_neg"
definition scaleR_vector3 :: "real \<Rightarrow> vector3 \<Rightarrow> vector3" where "scaleR_vector3 = vec_scale"

instance
  by standard (rule vector3_eqI; simp add: vec_simps plus_vector3_def minus_vector3_def
    uminus_vector3_def zero_vector3_def scaleR_vector3_def kZero_def algebra_simps)+

end

lemmas vec_class [vec_simps] = plus_vector3_def minus_vector3_def uminus_vector3_def
  scaleR_vector3_def zero_vector3_def

lemma kZero_components [simp]: "v_x kZero = 0" "v_y kZero = 0" "v_z kZero = 0"
  by (simp_all add: kZero_def)

lemma cross_components [vec_simps]:
  "v_x (Cross a b) = v_y a * v_z b - v_z a * v_y b"
  "v_y (Cross a b) = v_z a * v_x b - v_x a * v_z b"
  "v_z (Cross a b) = v_x a * v_y b - v_y a * v_x b"
  by (simp_all add: Cross_def)

section \<open>Laws\<close>

lemma vec_eq_iff: "vec_eq a b \<longleftrightarrow> a = b"
  by (auto simp: vec_eq_def intro: vector3_eqI)

lemma Dot_linear:
  "Dot (vec_add a b) c = Dot a c + Dot b c" "Dot (vec_scale s a) c = s * Dot a c"
  "Dot a b = Dot b a"
  by (simp_all add: Dot_def vec_simps algebra_simps)

lemma LengthSquared_Dot: "LengthSquared v = Dot v v"
  by (simp add: LengthSquared_def Dot_def)

lemma Length_sqrt: "Length v = sqrt (LengthSquared v)"
  by (simp add: Length_def LengthSquared_def)

lemma LengthSquared_nonneg [simp]: "0 \<le> LengthSquared v"
  by (simp add: LengthSquared_def)

lemma LengthSquared_zero [simp]: "LengthSquared v = 0 \<longleftrightarrow> v = kZero"
proof
  assume "LengthSquared v = 0"
  then have "v_x v = 0" "v_y v = 0" "v_z v = 0"
    by (simp_all add: LengthSquared_def add_nonneg_eq_0_iff)
  then show "v = kZero" by (auto intro: vector3_eqI)
qed (simp add: LengthSquared_def)

lemma Length_nonneg [simp]: "0 \<le> Length v"
  by (simp add: Length_sqrt)

lemma LengthSquared_scale: "LengthSquared (vec_scale s v) = s\<^sup>2 * LengthSquared v"
  by (simp add: LengthSquared_def vec_simps algebra_simps power2_eq_square)

lemma Length_scale: "Length (vec_scale s v) = \<bar>s\<bar> * Length v"
  by (simp add: Length_sqrt LengthSquared_scale real_sqrt_mult)

lemma vec_neg_scale: "vec_neg v = vec_scale (- 1) v"
  by (simp add: vec_neg_def vec_scale_def)

lemma Length_neg [simp]: "Length (vec_neg v) = Length v"
  by (simp add: vec_neg_scale Length_scale)

lemma cross_orthogonal: "Dot a (Cross a b) = 0" "Dot b (Cross a b) = 0"
  by (simp_all add: Dot_def vec_simps algebra_simps)

lemma lagrange_identity:
  "LengthSquared (Cross a b) = LengthSquared a * LengthSquared b - (Dot a b)\<^sup>2"
  by (simp add: LengthSquared_def Dot_def vec_simps algebra_simps power2_eq_square)

lemma DistanceTo_Length: "DistanceTo a b = Length (vec_sub b a)"
  by (simp add: DistanceTo_def Length_def vec_sub_def Let_def)

lemma Distance_DistanceTo: "Distance a b = DistanceTo a b"
  by (simp add: Distance_def DistanceTo_def Let_def algebra_simps)

lemma DistanceTo_squared: "(DistanceTo a b)\<^sup>2 = DistanceToSquared a b"
  by (simp add: DistanceTo_def DistanceToSquared_def Let_def)

lemma Normalise_scale:
  "v \<noteq> kZero \<Longrightarrow> vec_Normalise v = vec_scale (1 / Length v) v"
  by (cases v)
    (auto simp: vec_Normalise_def vec_scale_def Length_def Let_def kZero_def add_nonneg_eq_0_iff)

lemma Normalise_unit: "v \<noteq> kZero \<Longrightarrow> Length (vec_Normalise v) = 1"
  by (simp add: Normalise_scale Length_sqrt LengthSquared_scale power_divide)

end
