(* ===== verification/Quaternions.thy ===== *)
theory Quaternions
  imports Vectors
begin

text \<open>
  \<open>CQuaternion\<close> (CQuaternion.h, CQuaternion.cpp). The product of the code is the Hamilton product
  with the factors exchanged, so that rotations compose from left to right; with it and the code's
  sums the type is a ring, and the laws of rotation are proved by its algebra.
\<close>

named_theorems quat_simps \<open>component definitions of the quaternion operations\<close>

section \<open>The type\<close>

datatype quaternion = CQuaternion (q_w: float32) (q_x: float32) (q_y: float32) (q_z: float32)

definition quat_zero :: quaternion where "quat_zero = CQuaternion 0 0 0 0"
definition quat_identity :: quaternion where "quat_identity = CQuaternion 1 0 0 0"

definition quat_parts :: "float32 \<Rightarrow> vector3 \<Rightarrow> quaternion" where
  "quat_parts w v = CQuaternion w (v_x v) (v_y v) (v_z v)"

definition quat_vector :: "vector3 \<Rightarrow> quaternion" where
  "quat_vector v = CQuaternion 0 (v_x v) (v_y v) (v_z v)"

definition quat_set :: "float32 list \<Rightarrow> quaternion res" where
  "quat_set p = (case p of w # x # y # z # _ \<Rightarrow> Inr (CQuaternion w x y z) | _ \<Rightarrow> Inl Undefined)"

definition Vector :: "quaternion \<Rightarrow> vector3" where
  "Vector q = CVector3 (q_x q) (q_y q) (q_z q)"

section \<open>Comparisons\<close>

definition quat_IsZero :: "quaternion \<Rightarrow> bool" where
  "quat_IsZero q \<longleftrightarrow> IsZero (q_w q * q_w q + q_x q * q_x q + q_y q * q_y q + q_z q * q_z q)"

definition quat_IsUnit :: "quaternion \<Rightarrow> bool" where
  "quat_IsUnit q \<longleftrightarrow> IsZero (q_w q * q_w q + q_x q * q_x q + q_y q * q_y q + q_z q * q_z q - 1)"

definition quat_IsIdentity :: "quaternion \<Rightarrow> bool res" where
  "quat_IsIdentity q = res_bind (AreEqual (q_w q) 1) (\<lambda>e.
     Inr (e \<and> IsZero (q_x q) \<and> IsZero (q_y q) \<and> IsZero (q_z q)))"

text \<open>\<open>&&\<close> stops at the first comparison that fails.\<close>

definition quat_eq :: "quaternion \<Rightarrow> quaternion \<Rightarrow> bool res" where
  "quat_eq a b =
     res_bind (AreEqual (q_w a) (q_w b)) (\<lambda>e0. if \<not> e0 then Inr False else
     res_bind (AreEqual (q_x a) (q_x b)) (\<lambda>e1. if \<not> e1 then Inr False else
     res_bind (AreEqual (q_y a) (q_y b)) (\<lambda>e2. if \<not> e2 then Inr False else
     AreEqual (q_z a) (q_z b))))"

section \<open>Operators\<close>

definition quat_add :: "quaternion \<Rightarrow> quaternion \<Rightarrow> quaternion" where
  "quat_add a b = CQuaternion (q_w a + q_w b) (q_x a + q_x b) (q_y a + q_y b) (q_z a + q_z b)"

definition quat_sub :: "quaternion \<Rightarrow> quaternion \<Rightarrow> quaternion" where
  "quat_sub a b = CQuaternion (q_w a - q_w b) (q_x a - q_x b) (q_y a - q_y b) (q_z a - q_z b)"

definition quat_neg :: "quaternion \<Rightarrow> quaternion" where
  "quat_neg q = CQuaternion (- q_w q) (- q_x q) (- q_y q) (- q_z q)"

definition quat_scale :: "float32 \<Rightarrow> quaternion \<Rightarrow> quaternion" where
  "quat_scale s q = CQuaternion (q_w q * s) (q_x q * s) (q_y q * s) (q_z q * s)"

definition quat_div :: "quaternion \<Rightarrow> float32 \<Rightarrow> quaternion" where
  "quat_div q s = CQuaternion (q_w q / s) (q_x q / s) (q_y q / s) (q_z q / s)"

definition quat_mul :: "quaternion \<Rightarrow> quaternion \<Rightarrow> quaternion" where
  "quat_mul q1 q2 =
     (let v1 = Vector q1; v2 = Vector q2
      in quat_parts (q_w q1 * q_w q2 - Dot v1 v2)
           (vec_add (vec_add (vec_scale (q_w q1) v2) (vec_scale (q_w q2) v1)) (Cross v2 v1)))"

definition quat_Dot :: "quaternion \<Rightarrow> quaternion \<Rightarrow> float32" where
  "quat_Dot a b = q_w a * q_w b + q_x a * q_x b + q_y a * q_y b + q_z a * q_z b"

section \<open>Lengths, inverse, rotation\<close>

definition NormSquared :: "quaternion \<Rightarrow> float32" where
  "NormSquared q = q_w q * q_w q + q_x q * q_x q + q_y q * q_y q + q_z q * q_z q"

definition Norm :: "quaternion \<Rightarrow> float32" where
  "Norm q = sqrt (q_w q * q_w q + q_x q * q_x q + q_y q * q_y q + q_z q * q_z q)"

definition quat_Normalise :: "quaternion \<Rightarrow> quaternion" where
  "quat_Normalise q =
     (let fNormSquared = q_w q * q_w q + q_x q * q_x q + q_y q * q_y q + q_z q * q_z q in
      if IsZero fNormSquared then CQuaternion 0 0 0 0
      else let fInvLength = InvSqrt fNormSquared in
        CQuaternion (q_w q * fInvLength) (q_x q * fInvLength) (q_y q * fInvLength) (q_z q * fInvLength))"

definition quat_Inverse :: "quaternion \<Rightarrow> quaternion" where
  "quat_Inverse q = CQuaternion (q_w q) (- q_x q) (- q_y q) (- q_z q)"

definition Rotate :: "quaternion \<Rightarrow> vector3 \<Rightarrow> vector3" where
  "Rotate q p =
     (let v = Vector q; tmp = 2 * q_w q
      in vec_add (vec_add (vec_scale (tmp * q_w q - 1) p) (vec_scale (2 * Dot v p) v))
           (vec_scale tmp (Cross v p)))"

definition quat_DistanceTo :: "quaternion \<Rightarrow> quaternion \<Rightarrow> float32" where
  "quat_DistanceTo a b = \<bar>q_w b - q_w a\<bar>"

section \<open>Interpolation\<close>

text \<open>
  The argument of \<open>ACos\<close> is the product of two quaternions; outside [-1, 1] the function has no
  value, so the laws of \<open>Slerp\<close> are about quaternions of length one.
\<close>

definition Lerp :: "quaternion \<Rightarrow> quaternion \<Rightarrow> float32 \<Rightarrow> quaternion" where
  "Lerp q0 q1 t = quat_add (quat_scale (1 - t) q0) (quat_scale t q1)"

definition NLerp :: "quaternion \<Rightarrow> quaternion \<Rightarrow> float32 \<Rightarrow> quaternion" where
  "NLerp q0 q1 t = quat_Normalise (Lerp q0 q1 t)"

definition Slerp :: "quaternion \<Rightarrow> quaternion \<Rightarrow> float32 \<Rightarrow> quaternion res" where
  "Slerp p q t =
     (let cosTheta = quat_Dot p q; t_inv = 1 - t in
      res_bind
        (if 0 \<le> cosTheta then
           res_bind (AreEqual cosTheta 1) (\<lambda>e.
             if \<not> e then
               let theta = arccos cosTheta in
               Inr (quat_add (quat_scale (sin t_inv * theta) p)
                      (quat_div (quat_scale (sin (t * theta)) q) (sin theta)))
             else Inr (Lerp p q t))
         else
           let t_for = t - 1 in
           res_bind (AreEqual cosTheta (- 1)) (\<lambda>e.
             if \<not> e then
               let theta = arccos (- cosTheta) in
               Inr (quat_add (quat_scale (sin (t - 1) * theta) p)
                      (quat_div (quat_scale (sin (t * theta)) q) (sin theta)))
             else Inr (quat_add (quat_scale t_for p) (quat_scale t q))))
        (\<lambda>slerp. Inr (quat_Normalise slerp)))"

section \<open>A ring\<close>

lemma quaternion_eqI:
  "q_w a = q_w b \<Longrightarrow> q_x a = q_x b \<Longrightarrow> q_y a = q_y b \<Longrightarrow> q_z a = q_z b \<Longrightarrow> a = b"
  by (cases a; cases b) simp

lemma quat_components [quat_simps]:
  "q_w (quat_add a b) = q_w a + q_w b" "q_x (quat_add a b) = q_x a + q_x b"
  "q_y (quat_add a b) = q_y a + q_y b" "q_z (quat_add a b) = q_z a + q_z b"
  "q_w (quat_sub a b) = q_w a - q_w b" "q_x (quat_sub a b) = q_x a - q_x b"
  "q_y (quat_sub a b) = q_y a - q_y b" "q_z (quat_sub a b) = q_z a - q_z b"
  "q_w (quat_neg a) = - q_w a" "q_x (quat_neg a) = - q_x a"
  "q_y (quat_neg a) = - q_y a" "q_z (quat_neg a) = - q_z a"
  "q_w (quat_scale s a) = q_w a * s" "q_x (quat_scale s a) = q_x a * s"
  "q_y (quat_scale s a) = q_y a * s" "q_z (quat_scale s a) = q_z a * s"
  "q_w (quat_Inverse a) = q_w a" "q_x (quat_Inverse a) = - q_x a"
  "q_y (quat_Inverse a) = - q_y a" "q_z (quat_Inverse a) = - q_z a"
  "q_w (quat_vector p) = 0" "q_x (quat_vector p) = v_x p" "q_y (quat_vector p) = v_y p"
  "q_z (quat_vector p) = v_z p"
  by (simp_all add: quat_add_def quat_sub_def quat_neg_def quat_scale_def quat_Inverse_def quat_vector_def)

lemma mul_components [quat_simps]:
  "q_w (quat_mul a b) = q_w a * q_w b - (q_x a * q_x b + q_y a * q_y b + q_z a * q_z b)"
  "q_x (quat_mul a b) = q_w a * q_x b + q_w b * q_x a + (q_y b * q_z a - q_z b * q_y a)"
  "q_y (quat_mul a b) = q_w a * q_y b + q_w b * q_y a + (q_z b * q_x a - q_x b * q_z a)"
  "q_z (quat_mul a b) = q_w a * q_z b + q_w b * q_z a + (q_x b * q_y a - q_y b * q_x a)"
  by (simp_all add: quat_mul_def quat_parts_def Vector_def Dot_def vec_simps Let_def)

instantiation quaternion :: ring_1
begin

definition zero_quaternion :: quaternion where "zero_quaternion = quat_zero"
definition one_quaternion :: quaternion where "one_quaternion = quat_identity"
definition plus_quaternion :: "quaternion \<Rightarrow> quaternion \<Rightarrow> quaternion" where "plus_quaternion = quat_add"
definition minus_quaternion :: "quaternion \<Rightarrow> quaternion \<Rightarrow> quaternion" where "minus_quaternion = quat_sub"
definition uminus_quaternion :: "quaternion \<Rightarrow> quaternion" where "uminus_quaternion = quat_neg"
definition times_quaternion :: "quaternion \<Rightarrow> quaternion \<Rightarrow> quaternion" where "times_quaternion = quat_mul"

instance
proof
  show "(0 :: quaternion) \<noteq> 1"
    by (simp add: zero_quaternion_def one_quaternion_def quat_zero_def quat_identity_def)
qed (rule quaternion_eqI; simp add: quat_simps plus_quaternion_def minus_quaternion_def
    uminus_quaternion_def times_quaternion_def zero_quaternion_def one_quaternion_def quat_zero_def
    quat_identity_def algebra_simps)+

end

lemmas quat_class [quat_simps] = plus_quaternion_def minus_quaternion_def uminus_quaternion_def
  times_quaternion_def

lemma quat_constants [quat_simps]:
  "q_w 0 = 0" "q_x 0 = 0" "q_y 0 = 0" "q_z 0 = 0" "q_w 1 = 1" "q_x 1 = 0" "q_y 1 = 0" "q_z 1 = 0"
  by (simp_all add: zero_quaternion_def one_quaternion_def quat_zero_def quat_identity_def)

section \<open>Norms\<close>

lemma NormSquared_Dot: "NormSquared q = quat_Dot q q"
  by (simp add: NormSquared_def quat_Dot_def)

lemma NormSquared_nonneg [simp]: "0 \<le> NormSquared q"
  by (simp add: NormSquared_def)

lemma NormSquared_mul: "NormSquared (a * b) = NormSquared a * NormSquared b"
  by (simp add: NormSquared_def quat_simps algebra_simps)

lemma NormSquared_simps [simp]:
  "NormSquared (quat_Inverse q) = NormSquared q" "NormSquared (quat_neg q) = NormSquared q"
  "NormSquared 1 = 1" "NormSquared (quat_vector p) = LengthSquared p"
  "NormSquared (quat_scale s q) = s\<^sup>2 * NormSquared q"
  by (simp_all add: NormSquared_def LengthSquared_def quat_simps power2_eq_square algebra_simps)

lemma inverse_anti: "quat_Inverse (a * b) = quat_Inverse b * quat_Inverse a"
  by (rule quaternion_eqI) (simp_all add: quat_simps algebra_simps)

lemma mul_inverse:
  assumes "NormSquared q = 1"
  shows "q * quat_Inverse q = 1" "quat_Inverse q * q = 1"
  using assms by (auto intro!: quaternion_eqI simp: quat_simps NormSquared_def algebra_simps)

section \<open>Rotation\<close>

text \<open>The rotated vector is the vector part of a conjugation, whose real part vanishes.\<close>

lemma rotate_components [quat_simps]:
  "v_x (Rotate q p) = (2 * q_w q * q_w q - 1) * v_x p +
     2 * (q_x q * v_x p + q_y q * v_y p + q_z q * v_z p) * q_x q + 2 * q_w q * (q_y q * v_z p - q_z q * v_y p)"
  "v_y (Rotate q p) = (2 * q_w q * q_w q - 1) * v_y p +
     2 * (q_x q * v_x p + q_y q * v_y p + q_z q * v_z p) * q_y q + 2 * q_w q * (q_z q * v_x p - q_x q * v_z p)"
  "v_z (Rotate q p) = (2 * q_w q * q_w q - 1) * v_z p +
     2 * (q_x q * v_x p + q_y q * v_y p + q_z q * v_z p) * q_z q + 2 * q_w q * (q_x q * v_y p - q_y q * v_x p)"
  by (simp_all add: Rotate_def Vector_def Dot_def vec_simps Let_def algebra_simps)

lemma unit_square: "NormSquared q = 1 \<Longrightarrow> q_w q * q_w q = 1 - (q_x q * q_x q + q_y q * q_y q + q_z q * q_z q)"
  by (simp add: NormSquared_def)

lemma rotate_conjugation:
  assumes "NormSquared q = 1"
  shows "quat_vector (Rotate q p) = quat_Inverse q * quat_vector p * q"
proof -
  have w: "q_w q * (q_w q * r) = r - (q_x q * (q_x q * r) + q_y q * (q_y q * r) + q_z q * (q_z q * r))" for r
    using arg_cong [OF unit_square [OF assms], of "\<lambda>s. s * r"] by (simp add: algebra_simps)
  show ?thesis
    by (rule quaternion_eqI) (simp_all add: quat_simps algebra_simps w)
qed

lemma quat_vector_inj: "quat_vector a = quat_vector b \<longleftrightarrow> a = b"
  by (auto simp: quat_vector_def intro: vector3_eqI)

lemma rotate_mul:
  assumes "NormSquared q1 = 1" "NormSquared q2 = 1"
  shows "Rotate (quat_mul q1 q2) p = Rotate q2 (Rotate q1 p)"
proof -
  have "NormSquared (q1 * q2) = 1" using assms by (simp add: NormSquared_mul)
  then have "quat_vector (Rotate (q1 * q2) p) = quat_vector (Rotate q2 (Rotate q1 p))"
    using assms by (simp add: rotate_conjugation inverse_anti mult.assoc)
  then show ?thesis by (simp add: quat_vector_inj times_quaternion_def)
qed

lemma rotate_length: "NormSquared q = 1 \<Longrightarrow> LengthSquared (Rotate q p) = LengthSquared p"
  using NormSquared_simps(4) [of "Rotate q p"]
  by (simp add: rotate_conjugation NormSquared_mul)

lemma rotate_add: "Rotate q (vec_add a b) = vec_add (Rotate q a) (Rotate q b)"
  by (rule vector3_eqI) (simp_all add: quat_simps vec_simps algebra_simps)

lemma Dot_polar: "2 * Dot a b = LengthSquared (vec_add a b) - LengthSquared a - LengthSquared b"
  by (simp add: Dot_def LengthSquared_def vec_simps algebra_simps)

lemma rotate_Dot: "NormSquared q = 1 \<Longrightarrow> Dot (Rotate q a) (Rotate q b) = Dot a b"
  using Dot_polar [of "Rotate q a" "Rotate q b"] Dot_polar [of a b]
  by (simp add: rotate_length flip: rotate_add)

lemma vector_product:
  "quat_vector a * quat_vector b = quat_parts (- Dot a b) (Cross b a)"
  by (rule quaternion_eqI) (simp_all add: quat_simps quat_parts_def Dot_def vec_simps)

lemma scale_mul: "quat_scale r a * b = quat_scale r (a * b)" "a * quat_scale r b = quat_scale r (a * b)"
  by (rule quaternion_eqI; simp add: quat_simps algebra_simps)+

lemma cross_product: "quat_vector (Cross b a) = quat_vector a * quat_vector b + quat_scale (Dot a b) 1"
  by (rule quaternion_eqI) (simp_all add: quat_simps Dot_def vec_simps)

lemma rotate_Cross:
  assumes "NormSquared q = 1"
  shows "Rotate q (Cross b a) = Cross (Rotate q b) (Rotate q a)"
proof -
  let ?c = "\<lambda>x. quat_Inverse q * x * q"
  have "?c (x * y) = ?c x * ?c y" for x y
    using mul_inverse(1) [OF assms] by (simp add: mult.assoc) (simp flip: mult.assoc)
  moreover have "?c (quat_scale r 1) = quat_scale r 1" for r
    using mul_inverse(2) [OF assms] by (simp add: scale_mul)
  ultimately have "quat_vector (Rotate q (Cross b a)) = quat_vector (Cross (Rotate q b) (Rotate q a))"
    using assms
    by (simp add: rotate_conjugation cross_product rotate_Dot distrib_left distrib_right)
  then show ?thesis by (simp add: quat_vector_inj)
qed

section \<open>Interpolation between unit quaternions\<close>

lemma Dot_conjugation: "quat_Dot p q = q_w (p * quat_Inverse q)"
  by (simp add: quat_Dot_def quat_simps)

lemma w_square_le: "(q_w q)\<^sup>2 \<le> NormSquared q"
  by (simp add: NormSquared_def power2_eq_square)

lemma Dot_unit:
  assumes "NormSquared p = 1" "NormSquared q = 1"
  shows "\<bar>quat_Dot p q\<bar> \<le> 1"
proof -
  have "(quat_Dot p q)\<^sup>2 \<le> 1"
    using w_square_le [of "p * quat_Inverse q"] assms by (simp add: Dot_conjugation NormSquared_mul)
  then show ?thesis by (simp add: abs_square_le_1)
qed

lemma Normalise_scaled:
  assumes "NormSquared p = 1"
  shows "quat_Normalise (quat_scale s p) =
    (if s\<^sup>2 < kfEpsilon then quat_zero else quat_scale (sgn s) p)"
proof -
  have n: "q_w (quat_scale s p) * q_w (quat_scale s p) + q_x (quat_scale s p) * q_x (quat_scale s p) +
      q_y (quat_scale s p) * q_y (quat_scale s p) + q_z (quat_scale s p) * q_z (quat_scale s p) = s\<^sup>2"
    using assms NormSquared_simps(5) [of s p] by (simp add: NormSquared_def)
  have "s * (1 / \<bar>s\<bar>) = sgn s" by (simp add: sgn_real_def)
  then show ?thesis unfolding quat_Normalise_def n
    by (auto simp: IsZero_def InvSqrt_def quat_zero_def quat_simps mult.assoc intro!: quaternion_eqI)
qed

lemma scale_laws [simp]:
  "quat_add (quat_scale 0 p) q = q" "quat_add q (quat_scale 0 p) = q" "quat_div (quat_scale 0 p) s = quat_scale 0 p"
  "quat_scale 1 p = p" "quat_scale (- 1) p = quat_neg p" "s \<noteq> 0 \<Longrightarrow> quat_div (quat_scale s p) s = p"
  by (rule quaternion_eqI; simp add: quat_simps quat_div_def)+

lemma Normalise_unit_quat: "NormSquared p = 1 \<Longrightarrow> quat_Normalise p = p"
  using Normalise_scaled [of p 1] by (simp add: kfEpsilon_def)

text \<open>The comparison that takes the linear branch, by the product's distance from its pole.\<close>

definition short_angle :: "float32 \<Rightarrow> bool" where
  "short_angle c \<longleftrightarrow> \<bar>float_order \<bar>c\<bar> - float_order 1\<bar> < 4"

lemma AreEqual_pole:
  assumes "\<bar>c\<bar> \<le> 1"
  shows "0 \<le> c \<Longrightarrow> AreEqual c 1 = Inr (short_angle c)"
    and "c < 0 \<Longrightarrow> AreEqual c (- 1) = Inr (short_angle c)"
  using assms by (auto simp: AreEqual_unit short_angle_def float_order_def)

lemma long_angle: "\<bar>c\<bar> \<le> 1 \<Longrightarrow> \<not> short_angle c \<Longrightarrow> sin (arccos c) \<noteq> 0"
  by (auto simp: sin_arccos_abs power2_eq_1_iff short_angle_def)

definition sign_of :: "float32 \<Rightarrow> float32" where "sign_of c = (if 0 \<le> c then 1 else - 1)"

lemma Slerp_1:
  assumes "NormSquared p = 1" "NormSquared q = 1"
  shows "Slerp p q 1 = Inr q"
  using Dot_unit [OF assms] long_angle [of "quat_Dot p q"] long_angle [of "- quat_Dot p q"]
  by (auto simp: Slerp_def Let_def AreEqual_pole Lerp_def Normalise_unit_quat assms short_angle_def)

lemma Slerp_0:
  assumes "NormSquared p = 1" "NormSquared q = 1"
  defines "c \<equiv> quat_Dot p q"
  shows "Slerp p q 0 = Inr (if \<not> short_angle c \<and> (sin 1 * arccos \<bar>c\<bar>)\<^sup>2 < kfEpsilon then quat_zero
    else quat_scale (sign_of c) p)"
proof -
  have u: "\<bar>c\<bar> \<le> 1" using Dot_unit [OF assms(1,2)] by (simp add: c_def)
  have "\<bar>c\<bar> = 1 \<or> arccos \<bar>c\<bar> > 0" using u arccos_lt_bounded [of "\<bar>c\<bar>"] by fastforce
  moreover have "sin (1 :: real) > 0" by (rule sin_gt_zero_02) simp_all
  ultimately have "\<not> short_angle c \<Longrightarrow> sgn (sin 1 * arccos \<bar>c\<bar>) = 1"
    by (auto simp: short_angle_def sgn_mult)
  then show ?thesis using u
    by (auto simp: Slerp_def Let_def AreEqual_pole Lerp_def Normalise_unit_quat assms(1,2)
      Normalise_scaled sign_of_def simp flip: c_def)
qed

lemma angle_bounds:
  assumes "0 < c" and "c < 1"
  shows "1 - c\<^sup>2 \<le> (arccos c)\<^sup>2" and "(arccos c)\<^sup>2 * c\<^sup>2 \<le> 1 - c\<^sup>2"
proof -
  let ?t = "arccos c"
  have t: "0 < ?t" "?t < pi" "cos ?t = c" using assms arccos_lt_bounded [of c] by simp_all
  have s: "(sin ?t)\<^sup>2 = 1 - c\<^sup>2" using t(3) by (simp add: sin_squared_eq)
  have s0: "0 \<le> sin ?t" using t by (intro sin_ge_zero) simp_all
  from t(1) sin_x_le_x [of ?t] have "(sin ?t)\<^sup>2 \<le> ?t\<^sup>2" using s0 by (intro power_mono) simp_all
  with s show "1 - c\<^sup>2 \<le> ?t\<^sup>2" by simp
  from MVT2 [OF t(1), of sin cos] obtain z where z: "0 < z" "z < ?t" "sin ?t = ?t * cos z"
    by (auto intro: DERIV_sin)
  have "c \<le> cos z" using cos_monotone_0_pi_le [of z ?t] z t by simp
  then have "?t * c \<le> sin ?t" using z t by simp
  moreover have "0 \<le> ?t * c" using t assms by simp
  ultimately have "(?t * c)\<^sup>2 \<le> (sin ?t)\<^sup>2" by (rule power_mono)
  with s show "?t\<^sup>2 * c\<^sup>2 \<le> 1 - c\<^sup>2" by (simp add: power_mult_distrib)
qed

lemma sin_1_half: "1 / 2 \<le> sin (1 :: real)"
proof -
  have "pi / 6 \<le> 1" "1 \<le> pi / 2" using pi_less_4 pi_ge_two by simp_all
  then have "sin (pi / 6) \<le> sin 1" by (intro sin_monotone_2pi_le) simp_all
  then show ?thesis by (simp add: sin_30)
qed

lemma near_pole: "\<not> short_angle (1 - 1 / 2 ^ 22)"
proof -
  have "\<lfloor>log 2 (1 - 1 / 2 ^ 22 :: real)\<rfloor> = - 1"
    by (simp add: floor_eq_iff le_log_iff powr_minus)
  moreover have "(2 :: real) powr 24 = 2 ^ 24" by (simp flip: powr_realpow)
  ultimately have "float_mag (1 - 1 / 2 ^ 22) = 125 * 2 ^ 23 + round (2 ^ 24 - 4 :: real)"
    by (simp add: float_mag_def)
  also have "round (2 ^ 24 - 4 :: real) = 2 ^ 24 - 4" using round_of_int [of "2 ^ 24 - 4", where 'a = real] by simp
  finally show ?thesis by (simp add: short_angle_def float_order_def) (simp add: float_mag_def)
qed

lemma Slerp_apart:
  assumes "NormSquared p = 1" "NormSquared q = 1" and "\<bar>quat_Dot p q\<bar> \<le> 1 - 1 / 2 ^ 18"
  shows "Slerp p q 0 = Inr (if 0 \<le> quat_Dot p q then p else quat_neg p) \<and> Slerp p q 1 = Inr q"
proof -
  let ?c = "\<bar>quat_Dot p q\<bar>"
  have "kfEpsilon \<le> (sin 1 * arccos ?c)\<^sup>2"
  proof (cases "?c = 0")
    case False
    then have "0 < ?c" "?c < 1" using assms(3) by simp_all
    from angle_bounds(1) [OF this] have "1 - ?c\<^sup>2 \<le> (arccos ?c)\<^sup>2" .
    moreover have "?c\<^sup>2 \<le> ?c * 1" unfolding power2_eq_square using \<open>?c < 1\<close> by (intro mult_left_mono) simp_all
    ultimately have "1 / 2 ^ 18 \<le> (arccos ?c)\<^sup>2" using assms(3) by linarith
    moreover have "(1 / 2)\<^sup>2 \<le> (sin (1 :: real))\<^sup>2" using sin_1_half by (intro power_mono) simp_all
    ultimately have "(1 / 2)\<^sup>2 * (1 / 2 ^ 18) \<le> (sin 1)\<^sup>2 * (arccos ?c)\<^sup>2"
      by (intro mult_mono) simp_all
    then have "1 / 2 ^ 20 \<le> (sin 1 * arccos ?c)\<^sup>2" by (simp add: power_mult_distrib power_divide)
    moreover have "kfEpsilon \<le> 1 / 2 ^ 20" by (simp add: kfEpsilon_def)
    ultimately show ?thesis by linarith
  next
    case True
    have "1 \<le> pi / 2" using pi_ge_two by simp
    then have "(1 / 2) * 1 \<le> sin 1 * (pi / 2)" using sin_1_half by (intro mult_mono) simp_all
    then have "(1 / 2)\<^sup>2 \<le> (sin 1 * (pi / 2))\<^sup>2" by (intro power_mono) simp_all
    then show ?thesis using True by (simp add: kfEpsilon_def power_divide)
  qed
  then show ?thesis using assms(1,2)
    by (auto simp: Slerp_0 Slerp_1 sign_of_def)
qed

section \<open>Properties\<close>

text \<open>
  A unit quaternion rotates: \<open>Rotate\<close> keeps lengths, angles and orientation, the inverse turns
  back, and the product of two quaternions is the first rotation followed by the second.
\<close>

lemma quaternion_rotation:
  assumes "NormSquared q1 = 1" "NormSquared q2 = 1"
  shows "Dot (Rotate q1 a) (Rotate q1 b) = Dot a b \<and>
    Cross (Rotate q1 a) (Rotate q1 b) = Rotate q1 (Cross a b) \<and>
    Rotate (quat_Inverse q1) (Rotate q1 a) = a \<and>
    Rotate (quat_mul q1 q2) a = Rotate q2 (Rotate q1 a)"
proof -
  have "Rotate (quat_Inverse q1) (Rotate q1 a) = Rotate (quat_mul q1 (quat_Inverse q1)) a"
    using assms by (simp add: rotate_mul)
  also have "\<dots> = Rotate 1 a" using mul_inverse(1) [OF assms(1)] by (simp add: times_quaternion_def)
  also have "\<dots> = a" by (rule vector3_eqI) (simp_all add: quat_simps)
  finally show ?thesis using assms by (simp add: rotate_Dot rotate_Cross rotate_mul)
qed

text \<open>
  The ends of \<open>Slerp\<close>: between two unit quaternions at least a small angle apart, parameter 1
  gives the second exactly, and parameter 0 gives the first, or its negative, which is the same
  rotation, when the short way round needs it.
\<close>

lemma slerp_ends:
  assumes "NormSquared p = 1" "NormSquared q = 1" and "\<bar>quat_Dot p q\<bar> \<le> 1 - 1 / 2 ^ 18"
  shows "Slerp p q 0 = Inr (if 0 \<le> quat_Dot p q then p else quat_neg p) \<and> Slerp p q 1 = Inr q"
  using assms by (rule Slerp_apart)

text \<open>
  \<open>Slerp\<close> collapses: because the angle is a factor of the first term instead of its sine, two unit
  quaternions with product 1 - 2 to the power -22 give a blend so short that \<open>Normalise\<close> takes it for
  zero, and parameter 0 returns the zero quaternion instead of the first one.
\<close>

lemma slerp_collapse:
  assumes "NormSquared p = 1" "NormSquared q = 1" and "quat_Dot p q = 1 - 1 / 2 ^ 22"
  shows "Slerp p q 0 = Inr quat_zero"
proof -
  let ?c = "1 - 1 / 2 ^ 22 :: real"
  have "(arccos ?c)\<^sup>2 * ?c\<^sup>2 \<le> 1 - ?c\<^sup>2" by (rule angle_bounds) simp_all
  then have a: "(arccos ?c)\<^sup>2 < kfEpsilon" by (simp add: kfEpsilon_def power2_eq_square field_simps)
  have "(sin 1)\<^sup>2 * (arccos ?c)\<^sup>2 \<le> 1 * (arccos ?c)\<^sup>2"
    by (intro mult_right_mono) (simp_all add: abs_square_le_1)
  with a have "(sin 1 * arccos ?c)\<^sup>2 < kfEpsilon" by (simp add: power_mult_distrib)
  with near_pole show ?thesis using Slerp_0 [OF assms(1,2)] unfolding assms(3) by simp
qed

end
