(* ===== verification/Buffered_Var.thy ===== *)
theory Buffered_Var
  imports World Quaternions
begin

text \<open>
  Interpolated variables: \<open>NetVarBufferBase\<close> (NetVarBufferBase.h, NetVarBufferBase.cpp) and its
  instances \<open>CNetVarBufferedVector\<close> and \<open>CNetVarBufferedQuat\<close> (.h, .cpp). The last updates are kept in
  a ring of four values; a reader is given a point between the one before the last and the last,
  by the time that has passed since the last update. The record holds the inherited members the
  class uses; durations are integers of milliseconds without a bound (64 bits in the code), their division
  truncates. As everywhere the floats are reals: what happens after an update that is not a number, which
  every comparison takes for near, is not covered, and the constant 1.2 is the decimal one.
\<close>

section \<open>State\<close>

record 'v bufvar =
  bv_Changes :: size_t
  bv_Changed :: bool
  bv_ChangeForced :: bool
  bv_Locked :: bool
  bv_Data :: 'v
  bv_ElapsedTime :: int
  bv_TimeFrame :: int
  bv_DataBuffers :: "'v list"
  bv_ActivePositionIndex :: size_t
  bv_CalculatedFrameTime :: bool
  bv_CalculatedPreviousFrameTime :: bool

definition kMaxInterpolationScale :: float32 where "kMaxInterpolationScale = 12 / 10"
definition kMaxInterpolationBandingDist :: float32 where "kMaxInterpolationBandingDist = 40"
definition kMaxInterpolationDistance :: float32 where "kMaxInterpolationDistance = 18"

text \<open>
  The constructor the two variables use leaves the ring and the durations as they were in memory;
  the value itself is zero-filled by the base class.
\<close>

definition bufvar_new :: "'v list \<Rightarrow> int \<Rightarrow> int \<Rightarrow> 'v \<Rightarrow> 'v bufvar" where
  "bufvar_new junk elapsed frame zero =
     \<lparr>bv_Changes = 0, bv_Changed = True, bv_ChangeForced = False, bv_Locked = False, bv_Data = zero,
      bv_ElapsedTime = elapsed, bv_TimeFrame = frame, bv_DataBuffers = junk,
      bv_ActivePositionIndex = 0, bv_CalculatedFrameTime = False,
      bv_CalculatedPreviousFrameTime = False\<rparr>"

definition mod_wrap :: "u32 \<Rightarrow> u32 \<Rightarrow> u32" where
  "mod_wrap a b = (a mod b + b) mod b"

definition buf_at :: "'v bufvar \<Rightarrow> size_t \<Rightarrow> 'v res" where
  "buf_at b i = (if unat i < length (bv_DataBuffers b) then Inr (bv_DataBuffers b ! unat i) else Inl Undefined)"

definition buf_put :: "size_t \<Rightarrow> 'v \<Rightarrow> 'v bufvar \<Rightarrow> 'v bufvar res" where
  "buf_put i v b = (if unat i < length (bv_DataBuffers b)
     then Inr (b\<lparr>bv_DataBuffers := (bv_DataBuffers b)[unat i := v]\<rparr>) else Inl Undefined)"

text \<open>The parent object, \<open>None\<close> for a null pointer.\<close>

definition parent_local :: "net_object option \<Rightarrow> bool res" where
  "parent_local parent = (case parent of None \<Rightarrow> Inl Undefined | Some ob \<Rightarrow> Inr (IsNetworkLocal ob))"

section \<open>Reading\<close>

definition buffer_GetChanges :: "'v bufvar \<Rightarrow> size_t" where "buffer_GetChanges b = 1"

definition GetLive :: "net_object option \<Rightarrow> 'v bufvar \<Rightarrow> 'v res" where
  "GetLive parent b = res_bind (parent_local parent) (\<lambda>l.
     if l then Inr (bv_Data b) else buf_at b (bv_ActivePositionIndex b))"

definition vector_GetInterpolated ::
  "net_object option \<Rightarrow> int \<Rightarrow> vector3 bufvar \<Rightarrow> (vector3 \<times> vector3 bufvar) res" where
  "vector_GetInterpolated parent dtms b =
     (if bv_Changes b \<le> 1 then res_bind (GetLive parent b) (\<lambda>v. Inr (v, b))
      else
        res_bind (buf_at b (mod_wrap (bv_ActivePositionIndex b - 1) 4)) (\<lambda>from.
        res_bind (buf_at b (bv_ActivePositionIndex b)) (\<lambda>to.
          let heading = vec_sub to from in
          if kMaxInterpolationDistance < Length heading then Inr (to, b)
          else if \<not> bv_CalculatedFrameTime b \<or> bv_TimeFrame b = 0 then Inr (to, b)
          else
            let b' = b\<lparr>bv_ElapsedTime := bv_ElapsedTime b + dtms sdiv 2\<rparr>;
                iDiff = bv_ElapsedTime b' mod 2 ^ 64;
                fDT = of_int iDiff / of_int (bv_TimeFrame b')
            in if fDT \<le> kMaxInterpolationScale then Inr (vec_add from (vec_scale fDT heading), b')
               else Inr (to, b'))))"

definition quat_GetInterpolated ::
  "net_object option \<Rightarrow> int \<Rightarrow> quaternion bufvar \<Rightarrow> (quaternion \<times> quaternion bufvar) res" where
  "quat_GetInterpolated parent dtms b =
     (if bv_Changes b \<le> 1 then res_bind (GetLive parent b) (\<lambda>v. Inr (v, b))
      else
        res_bind (buf_at b (mod_wrap (bv_ActivePositionIndex b - 1) 4)) (\<lambda>from.
        res_bind (buf_at b (bv_ActivePositionIndex b)) (\<lambda>to.
          if \<not> bv_CalculatedFrameTime b \<or> bv_TimeFrame b = 0 then Inr (to, b)
          else
            let b' = b\<lparr>bv_ElapsedTime := bv_ElapsedTime b + dtms sdiv 2\<rparr>;
                iDiff = bv_ElapsedTime b' mod 2 ^ 64;
                fDT = of_int iDiff / of_int (bv_TimeFrame b')
            in if fDT \<le> kMaxInterpolationScale
               then res_bind (Slerp from to fDT) (\<lambda>r. Inr (r, b'))
               else Inr (to, b'))))"

section \<open>Writing\<close>

text \<open>
  \<open>Set(ptr, size, pWho)\<close> over a value type: its \<open>Set(float*)\<close>, its \<open>DistanceTo\<close> and the variable's
  own \<open>GetInterpolated\<close>. The floats behind \<open>ptr\<close> are a list; \<open>size\<close> is never used, and \<open>rate\<close> is the
  network rate of the controller, \<open>None\<close> when there is none.
\<close>

definition buffer_Set ::
  "(float32 list \<Rightarrow> 'v res) \<Rightarrow> ('v \<Rightarrow> 'v \<Rightarrow> float32) \<Rightarrow>
   (net_object option \<Rightarrow> int \<Rightarrow> 'v bufvar \<Rightarrow> ('v \<times> 'v bufvar) res) \<Rightarrow>
   u32 option \<Rightarrow> net_object option \<Rightarrow> float32 list \<Rightarrow> size_t \<Rightarrow> 'v bufvar \<Rightarrow> 'v bufvar res" where
  "buffer_Set set_floats distance interpolated rate parent ptr sz b =
     (if bv_Locked b then Inr b
      else
        let index_new = mod_wrap (bv_ActivePositionIndex b + 1) 4;
            b1 = b\<lparr>bv_Changes := bv_Changes b + 1, bv_Changed := True\<rparr>
        in res_bind (parent_local parent) (\<lambda>l.
           if l then res_bind (set_floats ptr) (\<lambda>v. Inr (b1\<lparr>bv_Data := v\<rparr>))
           else
             res_bind (interpolated parent 0 b1) (\<lambda>(renderPoint, b2).
             res_bind (set_floats ptr) (\<lambda>v.
             res_bind (buf_put index_new v b2) (\<lambda>b3.
             res_bind (buf_at b3 index_new) (\<lambda>currentPoint.
             res_bind
               (if distance renderPoint currentPoint \<le> kMaxInterpolationBandingDist
                then buf_put (bv_ActivePositionIndex b3) renderPoint b3 else Inr b3) (\<lambda>b4.
             let b5 = b4\<lparr>bv_ActivePositionIndex := index_new\<rparr>
             in res_bind
                  (if bv_CalculatedPreviousFrameTime b5 then
                     (case rate of None \<Rightarrow> Inl Undefined
                      | Some r \<Rightarrow> Inr (b5\<lparr>bv_CalculatedFrameTime := True, bv_TimeFrame := uint r\<rparr>))
                   else Inr b5) (\<lambda>b6.
                Inr (b6\<lparr>bv_CalculatedPreviousFrameTime := True, bv_ElapsedTime := 0\<rparr>)))))))))"

definition vector_Set_raw ::
  "u32 option \<Rightarrow> net_object option \<Rightarrow> float32 list \<Rightarrow> size_t \<Rightarrow> vector3 bufvar \<Rightarrow> vector3 bufvar res" where
  "vector_Set_raw = buffer_Set vec_set DistanceTo vector_GetInterpolated"

definition quat_Set_raw ::
  "u32 option \<Rightarrow> net_object option \<Rightarrow> float32 list \<Rightarrow> size_t \<Rightarrow> quaternion bufvar \<Rightarrow> quaternion bufvar res" where
  "quat_Set_raw = buffer_Set quat_set quat_DistanceTo quat_GetInterpolated"

text \<open>\<open>SetGuard\<close> and the typed setters, which change the value on the owner's side.\<close>

definition buffer_SetGuard ::
  "net_object option \<Rightarrow> ('v \<Rightarrow> 'v \<Rightarrow> bool res) \<Rightarrow> 'v \<Rightarrow> 'v bufvar \<Rightarrow> (bool \<times> 'v bufvar) res" where
  "buffer_SetGuard parent veq data b =
     (if (case parent of None \<Rightarrow> False | Some ob \<Rightarrow> \<not> no_Active ob) then Inr (False, b)
      else res_bind (veq (bv_Data b) data) (\<lambda>e.
        if e then Inr (False, b)
        else Inr (True, b\<lparr>bv_Changed := True, bv_ChangeForced := True\<rparr>)))"

definition buffer_Set_typed ::
  "net_object option \<Rightarrow> ('v \<Rightarrow> 'v \<Rightarrow> bool res) \<Rightarrow> 'v \<Rightarrow> 'v bufvar \<Rightarrow> 'v bufvar res" where
  "buffer_Set_typed parent veq data b =
     res_bind (buffer_SetGuard parent veq data b) (\<lambda>(ok, b1).
       Inr (if \<not> ok then b1 else b1\<lparr>bv_Data := data\<rparr>))"

definition vector_Set ::
  "net_object option \<Rightarrow> float32 \<Rightarrow> float32 \<Rightarrow> float32 \<Rightarrow> vector3 bufvar \<Rightarrow> vector3 bufvar res" where
  "vector_Set parent x y z = buffer_Set_typed parent (\<lambda>a c. Inr (vec_eq a c)) (CVector3 x y z)"

definition quat_Set ::
  "net_object option \<Rightarrow> float32 \<Rightarrow> float32 \<Rightarrow> float32 \<Rightarrow> float32 \<Rightarrow> quaternion bufvar \<Rightarrow> quaternion bufvar res" where
  "quat_Set parent w x y z = buffer_Set_typed parent quat_eq (CQuaternion w x y z)"

definition quat_Rotate ::
  "net_object option \<Rightarrow> float32 \<Rightarrow> float32 \<Rightarrow> float32 \<Rightarrow> float32 \<Rightarrow> quaternion bufvar \<Rightarrow> quaternion bufvar res" where
  "quat_Rotate parent w x y z b =
     (let rotquat = CQuaternion w x y z; pivot = quat_Normalise (quat_mul (bv_Data b) rotquat)
      in buffer_Set_typed parent quat_eq pivot b)"

end
