(* ===== verification/Buffered_Laws.thy ===== *)
theory Buffered_Laws
  imports Buffered_Var
begin

text \<open>
  What an interpolated variable promises its reader. The two variables of \<open>Buffered_Var\<close> are one
  algorithm over a blending function; the locale states what it needs of the value type, once, and
  is interpreted on vectors (straight-line blending) and on quaternions (\<open>Slerp\<close>).
\<close>

section \<open>The ring\<close>

definition ring_ok :: "'v bufvar \<Rightarrow> bool" where
  "ring_ok b \<longleftrightarrow> length (bv_DataBuffers b) = 4 \<and> bv_ActivePositionIndex b < 4"

lemma word_below_4: "(i :: u32) < 4 \<Longrightarrow> i = 0 \<or> i = 1 \<or> i = 2 \<or> i = 3"
proof -
  assume "i < 4"
  then have "unat i < 4" by (simp add: word_less_nat_alt)
  then have "unat i = 0 \<or> unat i = 1 \<or> unat i = 2 \<or> unat i = 3" by linarith
  then show ?thesis by (simp add: word_unat_eq_iff)
qed

lemma mod_wrap_eval [simp]:
  "mod_wrap 0 4 = 0" "mod_wrap 1 4 = 1" "mod_wrap 2 4 = 2" "mod_wrap 3 4 = 3" "mod_wrap 4 4 = 0"
  "mod_wrap (- 1) 4 = 3"
  by (simp_all add: mod_wrap_def)

lemma mod_wrap_ring:
  assumes "i < 4"
  shows "mod_wrap (i + 1) 4 < 4" "mod_wrap (mod_wrap (i + 1) 4 - 1) 4 = i" "mod_wrap (i + 1) 4 \<noteq> i"
    "mod_wrap (i - 1) 4 < 4"
  using word_below_4 [OF assms] by auto

lemma buf_at_ring [simp]: "ring_ok b \<Longrightarrow> i < 4 \<Longrightarrow> buf_at b i = Inr (bv_DataBuffers b ! unat i)"
  by (simp add: ring_ok_def buf_at_def word_less_nat_alt)

lemma buf_put_ring [simp]: "ring_ok b \<Longrightarrow> i < 4 \<Longrightarrow>
  buf_put i v b = Inr (b\<lparr>bv_DataBuffers := (bv_DataBuffers b)[unat i := v]\<rparr>)"
  by (simp add: ring_ok_def buf_put_def word_less_nat_alt)

lemma ring_ok_fields [simp]:
  "ring_ok (b\<lparr>bv_ElapsedTime := e\<rparr>) = ring_ok b" "ring_ok (b\<lparr>bv_Changes := c\<rparr>) = ring_ok b"
  "ring_ok (b\<lparr>bv_Changed := x\<rparr>) = ring_ok b" "ring_ok (b\<lparr>bv_TimeFrame := t\<rparr>) = ring_ok b"
  "ring_ok (b\<lparr>bv_CalculatedFrameTime := x\<rparr>) = ring_ok b"
  "ring_ok (b\<lparr>bv_CalculatedPreviousFrameTime := x\<rparr>) = ring_ok b"
  "ring_ok (b\<lparr>bv_DataBuffers := (bv_DataBuffers b)[i := v]\<rparr>) = ring_ok b"
  by (simp_all add: ring_ok_def)

section \<open>One algorithm\<close>

definition interpolate ::
  "('v \<Rightarrow> 'v \<Rightarrow> bool) \<Rightarrow> ('v \<Rightarrow> 'v \<Rightarrow> float32 \<Rightarrow> 'v res) \<Rightarrow>
   net_object option \<Rightarrow> int \<Rightarrow> 'v bufvar \<Rightarrow> ('v \<times> 'v bufvar) res" where
  "interpolate near blend parent dtms b =
     (if bv_Changes b \<le> 1 then res_bind (GetLive parent b) (\<lambda>v. Inr (v, b))
      else
        res_bind (buf_at b (mod_wrap (bv_ActivePositionIndex b - 1) 4)) (\<lambda>from.
        res_bind (buf_at b (bv_ActivePositionIndex b)) (\<lambda>to.
          if \<not> near from to \<or> \<not> bv_CalculatedFrameTime b \<or> bv_TimeFrame b = 0 then Inr (to, b)
          else
            let e = bv_ElapsedTime b + dtms sdiv 2;
                fDT = of_int (e mod 2 ^ 64) / of_int (bv_TimeFrame b)
            in if fDT \<le> kMaxInterpolationScale
               then res_bind (blend from to fDT) (\<lambda>r. Inr (r, b\<lparr>bv_ElapsedTime := e\<rparr>))
               else Inr (to, b\<lparr>bv_ElapsedTime := e\<rparr>))))"

definition vec_near :: "vector3 \<Rightarrow> vector3 \<Rightarrow> bool" where
  "vec_near a c \<longleftrightarrow> DistanceTo a c \<le> kMaxInterpolationDistance"

definition vec_blend :: "vector3 \<Rightarrow> vector3 \<Rightarrow> float32 \<Rightarrow> vector3 res" where
  "vec_blend a c t = Inr (vec_add a (vec_scale t (vec_sub c a)))"

lemma vector_interpolate: "vector_GetInterpolated = interpolate vec_near vec_blend"
  by (auto simp: fun_eq_iff vector_GetInterpolated_def interpolate_def vec_near_def vec_blend_def
    DistanceTo_Length Let_def not_less intro!: arg_cong2 [where f = res_bind])

lemma quat_interpolate: "quat_GetInterpolated = interpolate (\<lambda>_ _. True) Slerp"
  by (auto simp: fun_eq_iff quat_GetInterpolated_def interpolate_def Let_def
    intro!: arg_cong2 [where f = res_bind])

lemma interpolate_frame:
  "interpolate near blend parent dt b = Inr (x, b') \<Longrightarrow> \<exists>e. b' = b\<lparr>bv_ElapsedTime := e\<rparr>"
  by (auto simp: interpolate_def Let_def res_bind_Inr_iff split: if_splits)
    (metis bufvar.surjective bufvar.update_convs(6))+

text \<open>Counting one more update does not disturb a reader that has seen two.\<close>

lemma interpolate_counted:
  assumes "interpolate near blend parent dt b = Inr (x, b')" and "1 < bv_Changes b" "1 < c"
  shows "interpolate near blend parent dt (b\<lparr>bv_Changes := c, bv_Changed := True\<rparr>) =
    Inr (x, b'\<lparr>bv_Changes := c, bv_Changed := True\<rparr>)"
  using assms by (auto simp: interpolate_def Let_def res_bind_Inr_iff buf_at_def not_le split: if_splits)

section \<open>Updates\<close>

lemma buffer_Set_remote:
  fixes b :: "'v bufvar"
  defines "i \<equiv> mod_wrap (bv_ActivePositionIndex b + 1) 4"
  assumes "ring_ok b" "\<not> bv_Locked b" "parent_local parent = Inr False"
    and "interp parent 0 (b\<lparr>bv_Changes := bv_Changes b + 1, bv_Changed := True\<rparr>) =
      Inr (render, b\<lparr>bv_Changes := bv_Changes b + 1, bv_Changed := True, bv_ElapsedTime := e\<rparr>)"
    and "set_floats ptr = Inr v"
  shows "buffer_Set set_floats gap interp rate parent ptr sz b =
    (if bv_CalculatedPreviousFrameTime b \<and> rate = None then Inl Undefined
     else Inr (b\<lparr>bv_Changes := bv_Changes b + 1, bv_Changed := True, bv_ElapsedTime := 0,
      bv_TimeFrame := (if bv_CalculatedPreviousFrameTime b then uint (the rate) else bv_TimeFrame b),
      bv_DataBuffers := (if gap render v \<le> kMaxInterpolationBandingDist
        then (bv_DataBuffers b)[unat i := v, unat (bv_ActivePositionIndex b) := render]
        else (bv_DataBuffers b)[unat i := v]),
      bv_ActivePositionIndex := i,
      bv_CalculatedFrameTime := bv_CalculatedFrameTime b \<or> bv_CalculatedPreviousFrameTime b,
      bv_CalculatedPreviousFrameTime := True\<rparr>))"
proof -
  from assms(2) have a: "bv_ActivePositionIndex b < 4" by (simp add: ring_ok_def)
  from mod_wrap_ring [OF this] have i: "i < 4" "i \<noteq> bv_ActivePositionIndex b" by (simp_all add: i_def)
  have "unat i < length (bv_DataBuffers b)" "unat (bv_ActivePositionIndex b) < length (bv_DataBuffers b)"
    using assms(2) a i by (simp_all add: ring_ok_def word_less_nat_alt)
  then show ?thesis using assms(3-) i
    by (cases rate) (simp_all add: buffer_Set_def Let_def buf_at_def buf_put_def flip: i_def)
qed

section \<open>The contract of the value type\<close>

lemma counted: "1 < c \<Longrightarrow> c + 1 \<noteq> 0 \<Longrightarrow> 1 < c + 1" for c :: u32
proof -
  assume "1 < c" "c + 1 \<noteq> 0"
  then have "unat (c + 1) = unat c + 1" by (metis Suc_eq_plus1 unatSuc add.commute)
  then show "1 < c + 1" using \<open>1 < c\<close> by (simp add: word_less_nat_alt)
qed

lemma interpolate_running:
  assumes "1 < bv_Changes b" "bv_CalculatedFrameTime b" "bv_TimeFrame b \<noteq> 0" "near from to"
    and "buf_at b (mod_wrap (bv_ActivePositionIndex b - 1) 4) = Inr from"
    and "buf_at b (bv_ActivePositionIndex b) = Inr to"
    and "bv_ElapsedTime b + dt sdiv 2 = e" "of_int (e mod 2 ^ 64) / of_int (bv_TimeFrame b) = t"
    and "t \<le> kMaxInterpolationScale"
  shows "interpolate near blend parent dt b = res_bind (blend from to t) (\<lambda>r. Inr (r, b\<lparr>bv_ElapsedTime := e\<rparr>))"
proof -
  have "\<not> bv_Changes b \<le> 1" using assms(1) by (simp only: not_le)
  then show ?thesis using assms(2-) by (simp add: interpolate_def Let_def)
qed

locale blending =
  fixes near :: "'v \<Rightarrow> 'v \<Rightarrow> bool" and blend :: "'v \<Rightarrow> 'v \<Rightarrow> float32 \<Rightarrow> 'v res"
    and ok :: "'v \<Rightarrow> bool" and joined same :: "'v \<Rightarrow> 'v \<Rightarrow> bool"
    and set_floats :: "float32 list \<Rightarrow> 'v res" and gap :: "'v \<Rightarrow> 'v \<Rightarrow> float32"
  assumes blend_start: "ok a \<Longrightarrow> ok c \<Longrightarrow> joined a c \<Longrightarrow> \<exists>r. blend a c 0 = Inr r \<and> same r a"
    and blend_end: "ok a \<Longrightarrow> ok c \<Longrightarrow> blend a c 1 = Inr c"
begin

abbreviation "render \<equiv> interpolate near blend"
abbreviation "receive \<equiv> buffer_Set set_floats gap render"

lemma receive_smooth:
  assumes b: "ring_ok b" "\<not> bv_Locked b" "1 < bv_Changes b" "bv_Changes b + 1 \<noteq> 0"
      "bv_CalculatedPreviousFrameTime b"
    and p: "parent_local parent = Inr False" and r: "r \<noteq> 0"
    and x: "render parent 0 b = Inr (x, b')" and v: "set_floats ptr = Inr v"
    and xv: "gap x v \<le> kMaxInterpolationBandingDist" "near x v" "joined x v" "ok x" "ok v"
  shows "\<exists>b2. receive (Some r) parent ptr sz b = Inr b2 \<and> ring_ok b2 \<and> GetLive parent b2 = Inr v \<and>
    (\<exists>y b3. render parent 0 b2 = Inr (y, b3) \<and> same y x) \<and>
    (\<forall>dt. dt sdiv 2 = uint r \<longrightarrow> (\<exists>b3. render parent dt b2 = Inr (v, b3)))"
proof -
  let ?i = "mod_wrap (bv_ActivePositionIndex b + 1) 4" and ?c = "bv_Changes b + 1"
  let ?b2 = "b\<lparr>bv_Changes := ?c, bv_Changed := True, bv_ElapsedTime := 0, bv_TimeFrame := uint r,
      bv_DataBuffers := (bv_DataBuffers b)[unat ?i := v, unat (bv_ActivePositionIndex b) := x],
      bv_ActivePositionIndex := ?i, bv_CalculatedFrameTime := True, bv_CalculatedPreviousFrameTime := True\<rparr>"
  have a: "bv_ActivePositionIndex b < 4" and l: "length (bv_DataBuffers b) = 4"
    using b(1) by (simp_all add: ring_ok_def)
  note i = mod_wrap_ring [OF a]
  have c: "1 < ?c" using counted b(3,4) .
  from interpolate_frame [OF x] obtain e where "b' = b\<lparr>bv_ElapsedTime := e\<rparr>" by blast
  with interpolate_counted [OF x b(3) c]
  have "render parent 0 (b\<lparr>bv_Changes := ?c, bv_Changed := True\<rparr>) =
      Inr (x, b\<lparr>bv_Changes := ?c, bv_Changed := True, bv_ElapsedTime := e\<rparr>)" by simp
  from buffer_Set_remote [where interp = render and rate = "Some r", OF b(1,2) p this, of set_floats ptr v] v b(5) xv(1)
  have set: "receive (Some r) parent ptr sz b = Inr ?b2" by simp
  have u: "unat ?i < 4" "unat (bv_ActivePositionIndex b) < 4" "unat ?i \<noteq> unat (bv_ActivePositionIndex b)"
    using a i(1,3) by (simp_all add: word_less_nat_alt word_unat_eq_iff)
  have ring: "ring_ok ?b2" using l i(1) by (simp add: ring_ok_def)
  have live: "GetLive parent ?b2 = Inr v" using p u l by (simp add: GetLive_def buf_at_def)
  have ends: "buf_at ?b2 (mod_wrap (?i - 1) 4) = Inr x" "buf_at ?b2 ?i = Inr v"
    using u l by (simp_all add: buf_at_def i(2))
  have r: "uint r \<noteq> 0" "uint r < 2 ^ 64" using r uint_lt2p [of r] by (simp_all add: uint_0_iff)
  have "of_int (k mod 2 ^ 64) / of_int k = (1 :: real)" if "k \<noteq> 0" "0 \<le> k" "k < 2 ^ 64" for k :: int
    using that by simp
  note t = this [OF r(1) uint_ge_0 r(2)]
  note run = interpolate_running [where b = ?b2 and near = near and blend = blend and parent = parent,
      OF _ _ _ xv(2)]
  have "render parent 0 ?b2 = res_bind (blend x v 0) (\<lambda>y. Inr (y, ?b2\<lparr>bv_ElapsedTime := 0\<rparr>))"
    using c r(1) ends by (intro run) (simp_all add: kMaxInterpolationScale_def)
  moreover have "render parent dt ?b2 = res_bind (blend x v 1) (\<lambda>y. Inr (y, ?b2\<lparr>bv_ElapsedTime := uint r\<rparr>))"
    if "dt sdiv 2 = uint r" for dt
    using c r(1) t ends that by (intro run) (simp_all add: kMaxInterpolationScale_def)
  ultimately show ?thesis using set ring live blend_start [OF xv(4,5,3)] blend_end [OF xv(4,5)] by fastforce
qed

end

section \<open>Vectors and quaternions\<close>

interpretation vecs: blending vec_near vec_blend "\<lambda>_. True" "\<lambda>_ _. True" "(=)" vec_set DistanceTo
  by unfold_locales (auto simp: vec_blend_def vec_simps intro!: vector3_eqI)

definition apart :: "quaternion \<Rightarrow> quaternion \<Rightarrow> bool" where
  "apart p q \<longleftrightarrow> \<bar>quat_Dot p q\<bar> \<le> 1 - 1 / 2 ^ 18"

interpretation quats: blending "\<lambda>_ _. True" Slerp "\<lambda>q. NormSquared q = 1" apart
    "\<lambda>a c. a = c \<or> a = quat_neg c" quat_set quat_DistanceTo
  by unfold_locales (auto simp: apart_def Slerp_apart Slerp_1)

lemma quat_distance:
  assumes "NormSquared p = 1" "NormSquared q = 1"
  shows "quat_DistanceTo p q \<le> kMaxInterpolationBandingDist"
proof -
  have "\<bar>q_w r\<bar> \<le> 1" if "NormSquared r = 1" for r
    using w_square_le [of r] that by (simp add: abs_square_le_1)
  from this [OF assms(1)] this [OF assms(2)] show ?thesis
    by (simp add: quat_DistanceTo_def kMaxInterpolationBandingDist_def)
qed

end
