(* ===== verification/Buffered_Properties.thy ===== *)
theory Buffered_Properties
  imports Buffered_Laws
begin

text \<open>
  Properties of the interpolated variables: what a reader sees when an update arrives, how far the
  shown point can be from the last update, the states a variable can reach, and the reader of an
  object under local control.
\<close>

section \<open>Samples\<close>

definition remote_parent :: net_object where
  "remote_parent = \<lparr>no_Peer = None, no_Instance = None, no_Manager = None, no_IsReplicated = True,
     no_Active = True, no_NetCode = 1, no_RealmID = 0, no_Controller = NET_CONTROLLER_NONE,
     no_Vars = [], no_MapList = []\<rparr>"

definition sample_ring :: "'v \<Rightarrow> 'v \<Rightarrow> 'v bufvar" where
  "sample_ring a c = (bufvar_new [a, c, a, a] 0 20 a)\<lparr>bv_Changes := 2, bv_ActivePositionIndex := 1,
     bv_CalculatedFrameTime := True, bv_CalculatedPreviousFrameTime := True\<rparr>"

lemma remote_parent [simp]: "\<not> IsNetworkLocal remote_parent"
  by (simp add: remote_parent_def IsNetworkLocal_def NET_CONTROLLER_NONE_def NET_CONTROLLER_LOCAL_def)

lemma sample_ring [simp]:
  "ring_ok (sample_ring a c)" "\<not> bv_Locked (sample_ring a c)" "bv_Changes (sample_ring a c) = 2"
  "bv_CalculatedPreviousFrameTime (sample_ring a c)" "bv_CalculatedFrameTime (sample_ring a c)"
  "bv_ActivePositionIndex (sample_ring a c) = 1" "bv_ElapsedTime (sample_ring a c) = 0"
  "bv_TimeFrame (sample_ring a c) = 20" "bv_DataBuffers (sample_ring a c) = [a, c, a, a]"
  by (simp_all add: sample_ring_def bufvar_new_def ring_ok_def)

lemma two_updates [simp]: "\<not> (2 :: u32) \<le> 1"
  by (simp add: word_le_nat_alt)

section \<open>Updates\<close>

lemma vec_floats: "vec_set (v_x v # v_y v # v_z v # fs) = Inr v"
  by (cases v) (simp add: vec_set_def)

lemma quat_floats: "quat_set (q_w q # q_x q # q_y q # q_z q # fs) = Inr q"
  by (cases q) (simp add: quat_set_def)

text \<open>
  An update within 18 units moves nothing at once: a variable of a remote object that has seen two updates shows the same point directly
  before and after the third arrives; the update is the live value, and the reader is exactly there when half
  the time it reports since then adds up to the network rate in milliseconds.
\<close>

lemma vector_update_smooth:
  assumes "ring_ok b" "\<not> bv_Locked b" "1 < bv_Changes b" "bv_Changes b + 1 \<noteq> 0"
      "bv_CalculatedPreviousFrameTime b" and "\<not> IsNetworkLocal ob" and "r \<noteq> 0"
    and "vector_GetInterpolated (Some ob) 0 b = Inr (x, b')"
    and "DistanceTo x v \<le> kMaxInterpolationDistance"
  shows "\<exists>b2. vector_Set_raw (Some r) (Some ob) (v_x v # v_y v # v_z v # fs) sz b = Inr b2 \<and> ring_ok b2 \<and>
    GetLive (Some ob) b2 = Inr v \<and>
    (\<exists>b3. vector_GetInterpolated (Some ob) 0 b2 = Inr (x, b3)) \<and>
    (\<forall>dt. dt sdiv 2 = uint r \<longrightarrow> (\<exists>b3. vector_GetInterpolated (Some ob) dt b2 = Inr (v, b3)))"
proof -
  have "DistanceTo x v \<le> kMaxInterpolationBandingDist"
    using assms(9) by (simp add: kMaxInterpolationBandingDist_def kMaxInterpolationDistance_def)
  from vecs.receive_smooth [OF assms(1-5) _ assms(7) assms(8) [unfolded vector_interpolate] vec_floats this]
  show ?thesis using assms(6,9)
    by (simp add: vector_Set_raw_def vector_interpolate vec_near_def parent_local_def)
qed

text \<open>
  The same for orientations of length one: when the next orientation is at least a small angle
  away, the shown one before and after the update are the same rotation, and the reader arrives at
  the update after the same time.
\<close>

lemma quat_update_smooth:
  assumes "ring_ok b" "\<not> bv_Locked b" "1 < bv_Changes b" "bv_Changes b + 1 \<noteq> 0"
      "bv_CalculatedPreviousFrameTime b" and "\<not> IsNetworkLocal ob" and "r \<noteq> 0"
    and "quat_GetInterpolated (Some ob) 0 b = Inr (x, b')"
    and "NormSquared x = 1" "NormSquared q = 1" "\<bar>quat_Dot x q\<bar> \<le> 1 - 1 / 2 ^ 18"
  shows "\<exists>b2. quat_Set_raw (Some r) (Some ob) (q_w q # q_x q # q_y q # q_z q # fs) sz b = Inr b2 \<and>
    GetLive (Some ob) b2 = Inr q \<and>
    (\<exists>y b3. quat_GetInterpolated (Some ob) 0 b2 = Inr (y, b3) \<and> (y = x \<or> y = quat_neg x)) \<and>
    (\<forall>dt. dt sdiv 2 = uint r \<longrightarrow> (\<exists>b3. quat_GetInterpolated (Some ob) dt b2 = Inr (q, b3)))"
proof -
  have "apart x q" "parent_local (Some ob) = Inr False"
    using assms(6,11) by (simp_all add: apart_def parent_local_def)
  from quats.receive_smooth [OF assms(1-5) this(2) assms(7) assms(8) [unfolded quat_interpolate] quat_floats
      quat_distance [OF assms(9,10)] TrueI this(1) assms(9,10), of fs sz]
  show ?thesis unfolding quat_Set_raw_def quat_interpolate by blast
qed

section \<open>Reachable states\<close>

definition ring_inv :: "'v bufvar \<Rightarrow> bool" where
  "ring_inv b \<longleftrightarrow> ring_ok b \<and> (bv_CalculatedFrameTime b \<longrightarrow> 0 \<le> bv_TimeFrame b)"

lemma ring_ok_put [simp]: "ring_ok b \<Longrightarrow> buf_put i v b = Inr b' \<Longrightarrow> ring_ok b'"
  by (auto simp: buf_put_def ring_ok_def split: if_splits)

lemma buf_put_fields:
  "buf_put i v b = Inr b' \<Longrightarrow> bv_TimeFrame b' = bv_TimeFrame b \<and>
    bv_CalculatedFrameTime b' = bv_CalculatedFrameTime b \<and> bv_ActivePositionIndex b' = bv_ActivePositionIndex b"
  by (auto simp: buf_put_def split: if_splits)

lemma interpolate_inv: "ring_inv b \<Longrightarrow> interpolate near blend parent dt b = Inr (x, b') \<Longrightarrow> ring_inv b'"
  by (auto simp: ring_inv_def dest!: interpolate_frame)

lemma buffer_Set_cases:
  assumes "buffer_Set sf gap interp rate parent ptr sz b = Inr b'"
  obtains "b' = b"
  | v where "b' = b\<lparr>bv_Changes := bv_Changes b + 1, bv_Changed := True, bv_Data := v\<rparr>"
  | x b2 v where "\<not> bv_Locked b" "parent_local parent = Inr False" "sf ptr = Inr v"
      "interp parent 0 (b\<lparr>bv_Changes := bv_Changes b + 1, bv_Changed := True\<rparr>) = Inr (x, b2)"
proof (cases "bv_Locked b")
  case True
  with assms that(1) show ?thesis by (simp add: buffer_Set_def)
next
  case u: False
  with assms obtain l where l: "parent_local parent = Inr l"
    by (cases "parent_local parent") (simp_all add: buffer_Set_def Let_def)
  show ?thesis
  proof (cases l)
    case True
    with assms u l that(2) show ?thesis by (auto simp: buffer_Set_def Let_def res_bind_Inr_iff)
  next
    case False
    with assms u l that(3) show ?thesis
      by (cases "interp parent 0 (b\<lparr>bv_Changes := bv_Changes b + 1, bv_Changed := True\<rparr>)"; cases "sf ptr")
        (auto simp: buffer_Set_def Let_def)
  qed
qed

lemma buffer_Set_inv:
  assumes "ring_inv b" "buffer_Set sf gap (interpolate near blend) rate parent ptr sz b = Inr b'"
  shows "ring_inv b'"
  using assms(2)
proof (cases rule: buffer_Set_cases)
  case (3 x b2 v)
  have r: "ring_ok b" using assms(1) by (simp add: ring_inv_def)
  then have i: "mod_wrap (bv_ActivePositionIndex b + 1) 4 < 4" using mod_wrap_ring(1) by (simp add: ring_ok_def)
  from interpolate_frame [OF 3(4)] obtain e where "b2 = b\<lparr>bv_Changes := bv_Changes b + 1, bv_Changed := True, bv_ElapsedTime := e\<rparr>"
    by auto
  from buffer_Set_remote [where interp = "interpolate near blend" and set_floats = sf and ptr = ptr
      and v = v and gap = gap and rate = rate and sz = sz, OF r 3(1,2) 3(4) [unfolded this] 3(3)]
  show ?thesis using assms i by (auto simp: ring_inv_def ring_ok_def split: if_splits)
qed (use assms(1) in \<open>auto simp: ring_inv_def ring_ok_def\<close>)

lemma buffer_Set_typed_inv: "ring_inv b \<Longrightarrow> buffer_Set_typed parent veq v b = Inr b' \<Longrightarrow> ring_inv b'"
  by (auto simp: buffer_Set_typed_def buffer_SetGuard_def res_bind_Inr_iff ring_inv_def ring_ok_def split: if_splits)

inductive vec_reach :: "net_object \<Rightarrow> vector3 bufvar \<Rightarrow> bool" for ob where
  new: "length junk = 4 \<Longrightarrow> vec_reach ob (bufvar_new junk elapsed frame kZero)"
| raw: "vec_reach ob b \<Longrightarrow> vector_Set_raw rate (Some ob) ptr sz b = Inr b' \<Longrightarrow> vec_reach ob b'"
| typed: "vec_reach ob b \<Longrightarrow> vector_Set (Some ob) x y z b = Inr b' \<Longrightarrow> vec_reach ob b'"
| read: "vec_reach ob b \<Longrightarrow> vector_GetInterpolated (Some ob) dt b = Inr (p, b') \<Longrightarrow> vec_reach ob b'"
| lock: "vec_reach ob b \<Longrightarrow> vec_reach ob (b\<lparr>bv_Locked := l\<rparr>)"

lemma vec_reach_inv: "vec_reach ob b \<Longrightarrow> ring_inv b"
proof (induction rule: vec_reach.induct)
  case (new junk elapsed frame)
  then show ?case by (simp add: ring_inv_def ring_ok_def bufvar_new_def)
next
  case (raw b rate ptr sz b')
  then show ?case by (auto simp: vector_Set_raw_def vector_interpolate intro: buffer_Set_inv)
next
  case (typed b x y z b')
  then show ?case by (auto simp: vector_Set_def intro: buffer_Set_typed_inv)
next
  case (read b dt p b')
  then show ?case by (auto simp: vector_interpolate intro: interpolate_inv)
qed (simp add: ring_inv_def ring_ok_def)

lemma blend_distance:
  assumes "vec_blend a c t = Inr x" "vec_near a c" "0 \<le> t" "t \<le> kMaxInterpolationScale"
  shows "vec_near x c"
proof -
  have "vec_sub c x = vec_scale (1 - t) (vec_sub c a)"
    using assms(1) by (auto simp: vec_blend_def vec_simps algebra_simps intro!: vector3_eqI)
  then have "DistanceTo x c = \<bar>1 - t\<bar> * DistanceTo a c"
    by (simp add: DistanceTo_Length Length_scale)
  moreover have "\<bar>1 - t\<bar> \<le> 1" using assms(3,4) by (simp add: kMaxInterpolationScale_def)
  moreover have "0 \<le> DistanceTo a c" by (simp add: DistanceTo_Length)
  ultimately show ?thesis using assms(2) mult_right_mono [of "\<bar>1 - t\<bar>" 1 "DistanceTo a c"]
    by (simp add: vec_near_def)
qed

lemma near_refl [simp]: "vec_near a a"
  by (simp add: vec_near_def DistanceTo_def kMaxInterpolationDistance_def)

lemma render_near:
  assumes "ring_inv b" "parent_local parent = Inr False"
  shows "\<exists>x b' live. vector_GetInterpolated parent dt b = Inr (x, b') \<and> GetLive parent b = Inr live \<and> vec_near x live"
proof -
  let ?i = "bv_ActivePositionIndex b"
  have r: "ring_ok b" and tf: "bv_CalculatedFrameTime b \<Longrightarrow> 0 \<le> bv_TimeFrame b"
    using assms(1) by (simp_all add: ring_inv_def)
  then have i: "?i < 4" "mod_wrap (?i - 1) 4 < 4" using mod_wrap_ring(4) by (simp_all add: ring_ok_def)
  let ?to = "bv_DataBuffers b ! unat ?i" and ?from = "bv_DataBuffers b ! unat (mod_wrap (?i - 1) 4)"
  let ?e = "bv_ElapsedTime b + dt sdiv 2"
  let ?t = "of_int (?e mod 2 ^ 64) / of_int (bv_TimeFrame b) :: real"
  have live: "GetLive parent b = Inr ?to" using assms(2) r i(1) by (simp add: GetLive_def)
  show ?thesis
  proof (cases "bv_Changes b \<le> 1 \<or> \<not> vec_near ?from ?to \<or> \<not> bv_CalculatedFrameTime b \<or> bv_TimeFrame b = 0
      \<or> \<not> ?t \<le> kMaxInterpolationScale")
    case True
    with r i live show ?thesis
      by (elim disjE) (simp_all add: vector_interpolate interpolate_def Let_def)
  next
    case False
    then have c: "1 < bv_Changes b" "bv_CalculatedFrameTime b" "bv_TimeFrame b \<noteq> 0" "vec_near ?from ?to"
        "?t \<le> kMaxInterpolationScale" by (simp_all add: not_le)
    then have "0 \<le> ?t" using tf by simp
    from interpolate_running [where blend = vec_blend and near = vec_near and b = b and dt = dt and parent = parent,
        OF c(1-4) buf_at_ring [OF r i(2)] buf_at_ring [OF r i(1)] refl refl c(5)]
    have "vector_GetInterpolated parent dt b =
        Inr (vec_add ?from (vec_scale ?t (vec_sub ?to ?from)), b\<lparr>bv_ElapsedTime := ?e\<rparr>)"
      by (simp only: vector_interpolate vec_blend_def res_bind_simps)
    moreover have "vec_near (vec_add ?from (vec_scale ?t (vec_sub ?to ?from))) ?to"
      by (rule blend_distance [OF vec_blend_def c(4) \<open>0 \<le> ?t\<close> c(5)])
    ultimately show ?thesis using live by blast
  qed
qed

lemma sent_live:
  assumes "ring_inv b" "\<not> bv_Locked b" "parent_local parent = Inr False"
  shows "\<exists>b'. vector_Set_raw (Some r) parent (v_x v # v_y v # v_z v # fs) sz b = Inr b' \<and> GetLive parent b' = Inr v"
proof -
  let ?b1 = "b\<lparr>bv_Changes := bv_Changes b + 1, bv_Changed := True\<rparr>" and ?i = "mod_wrap (bv_ActivePositionIndex b + 1) 4"
  have r: "ring_ok b" using assms(1) by (simp add: ring_inv_def)
  then have a: "bv_ActivePositionIndex b < 4" "length (bv_DataBuffers b) = 4" by (simp_all add: ring_ok_def)
  note i = mod_wrap_ring [OF a(1)]
  have u: "unat ?i < 4" "unat ?i \<noteq> unat (bv_ActivePositionIndex b)"
    using i(1,3) by (simp_all add: word_less_nat_alt word_unat_eq_iff)
  have "ring_inv ?b1" using assms(1) by (simp add: ring_inv_def)
  from render_near [OF this assms(3), of 0] obtain x b2 where x: "vector_GetInterpolated parent 0 ?b1 = Inr (x, b2)"
    by blast
  then obtain e where "b2 = ?b1\<lparr>bv_ElapsedTime := e\<rparr>"
    unfolding vector_interpolate by (blast dest: interpolate_frame)
  with x have "vector_GetInterpolated parent 0 ?b1 =
      Inr (x, b\<lparr>bv_Changes := bv_Changes b + 1, bv_Changed := True, bv_ElapsedTime := e\<rparr>)" by simp
  from buffer_Set_remote [where interp = vector_GetInterpolated and set_floats = vec_set and gap = DistanceTo
      and rate = "Some r" and sz = sz, OF r assms(2,3) this vec_floats [of v fs]]
  show ?thesis using assms(3) u a(2) by (auto simp: vector_Set_raw_def GetLive_def buf_at_def)
qed

text \<open>
  In exact arithmetic, no state a variable of a remote object can reach, whatever updates, settings and reads came before, breaks a
  reader: reading succeeds, the shown point is never more than 18 units from the last update, and an unlocked
  variable takes the next update of three floats and has it as its live value.
\<close>

lemma vector_never_strays:
  assumes "vec_reach ob b" and "\<not> IsNetworkLocal ob"
  shows "(\<exists>x b' live. vector_GetInterpolated (Some ob) dt b = Inr (x, b') \<and> GetLive (Some ob) b = Inr live \<and>
      DistanceTo x live \<le> kMaxInterpolationDistance) \<and>
    (\<not> bv_Locked b \<longrightarrow> (\<exists>b'. vector_Set_raw (Some r) (Some ob) (v_x v # v_y v # v_z v # fs) sz b = Inr b' \<and>
      GetLive (Some ob) b' = Inr v))"
proof -
  have "parent_local (Some ob) = Inr False" using assms(2) by (simp add: parent_local_def)
  then show ?thesis using vec_reach_inv [OF assms(1)] render_near [of b "Some ob" dt] sent_live [of b "Some ob"]
    unfolding vec_near_def by blast
qed

text \<open>
  The interpolated value of an object under local control is not its value: updates store into the
  value and leave the ring as the constructor found it in memory, but after two of them the reader is given the ring.
\<close>

lemma local_reader_sees_junk:
  assumes "IsNetworkLocal ob" and "length junk = 4"
    and "vector_Set_raw rate (Some ob) p1 n1 (bufvar_new junk e f kZero) = Inr b1"
    and "vector_Set_raw rate (Some ob) p2 n2 b1 = Inr b2"
  shows "vector_GetInterpolated (Some ob) dt b2 = Inr (junk ! 0, b2) \<and> GetLive (Some ob) b2 = vec_set p2"
proof -
  have "bv_DataBuffers b2 = junk \<and> bv_ActivePositionIndex b2 = 0 \<and> bv_Changes b2 = 2 \<and>
      \<not> bv_CalculatedFrameTime b2 \<and> Inr (bv_Data b2) = vec_set p2"
    using assms by (auto simp: vector_Set_raw_def buffer_Set_def Let_def parent_local_def bufvar_new_def res_bind_Inr_iff)
  with assms show ?thesis
    by (simp add: vector_GetInterpolated_def buf_at_def GetLive_def parent_local_def Let_def)
qed

end
