(* ===== verification/Buffered_Arrival.thy ===== *)
theory Buffered_Arrival
  imports Buffered_Properties
begin

text \<open>
  Reading an interpolated vector again and again: the shown point arrives at the live value and stays
  there, unless the reader is called every millisecond.
\<close>


section \<open>Arrival\<close>

text \<open>A reader calls \<open>GetInterpolated\<close> again and again, each time with the milliseconds it measured.\<close>

fun vector_reads ::
  "net_object option \<Rightarrow> int list \<Rightarrow> vector3 bufvar \<Rightarrow> (vector3 list \<times> vector3 bufvar) res" where
  "vector_reads parent [] b = Inr ([], b)"
| "vector_reads parent (dt # dts) b =
     res_bind (vector_GetInterpolated parent dt b) (\<lambda>(x, b1).
     res_bind (vector_reads parent dts b1) (\<lambda>(xs, b2). Inr (x # xs, b2)))"

definition steady :: "vector3 bufvar \<Rightarrow> bool" where
  "steady b \<longleftrightarrow> bv_Changes b \<le> 1 \<or> \<not> bv_CalculatedFrameTime b \<or> bv_TimeFrame b = 0 \<or>
     \<not> vec_near (bv_DataBuffers b ! unat (mod_wrap (bv_ActivePositionIndex b - 1) 4))
        (bv_DataBuffers b ! unat (bv_ActivePositionIndex b))"

lemma read_steady:
  assumes "ring_ok b" "\<not> IsNetworkLocal ob" "steady b"
  shows "\<exists>live. vector_GetInterpolated (Some ob) dt b = Inr (live, b) \<and> GetLive (Some ob) b = Inr live"
  using assms mod_wrap_ring(4) [of "bv_ActivePositionIndex b"]
  by (auto simp: steady_def vector_interpolate interpolate_def Let_def GetLive_def parent_local_def ring_ok_def)

lemma read_moving:
  assumes "ring_inv b" "\<not> IsNetworkLocal ob" "\<not> steady b"
    and e: "e = bv_ElapsedTime b + dt sdiv 2" "0 \<le> e" "e < 2 ^ 64"
  shows "\<exists>x live. vector_GetInterpolated (Some ob) dt b = Inr (x, b\<lparr>bv_ElapsedTime := e\<rparr>) \<and>
    GetLive (Some ob) b = Inr live \<and> (6 * bv_TimeFrame b < 5 * e \<longrightarrow> x = live)"
proof -
  let ?i = "bv_ActivePositionIndex b"
  have r: "ring_ok b" and tf: "0 < bv_TimeFrame b"
    using assms(1, 3) by (auto simp: ring_inv_def steady_def)
  then have i: "?i < 4" "mod_wrap (?i - 1) 4 < 4"
    using mod_wrap_ring(4) by (simp_all add: ring_ok_def)
  have "of_int e / of_int (bv_TimeFrame b) \<le> (12 / 10 :: real) \<longleftrightarrow> 5 * e \<le> 6 * bv_TimeFrame b"
    using tf by (simp add: divide_le_eq field_simps flip: of_int_mult)
      (metis of_int_le_iff of_int_mult of_int_numeral)
  then show ?thesis
    using assms(2, 3) r i e
    by (auto simp: steady_def vector_interpolate interpolate_def Let_def GetLive_def parent_local_def
        kMaxInterpolationScale_def vec_blend_def not_less)
qed

lemma half_bounds: "2 \<le> dt \<Longrightarrow> 1 \<le> dt sdiv 2 \<and> dt sdiv 2 \<le> dt" for dt :: int
  by (simp add: signed_divide_int_def) presburger

lemma times_nonneg: "\<forall>dt \<in> set dts. 2 \<le> dt \<Longrightarrow> 0 \<le> sum_list dts" for dts :: "int list"
  by (induction dts) auto

lemma reads_steady:
  assumes "ring_ok b" "\<not> IsNetworkLocal ob" "steady b" "GetLive (Some ob) b = Inr live"
  shows "vector_reads (Some ob) dts b = Inr (replicate (length dts) live, b)"
  using read_steady [OF assms(1-3)] assms(4) by (induction dts) auto

lemma GetLive_elapsed [simp]: "GetLive p (b\<lparr>bv_ElapsedTime := e\<rparr>) = GetLive p b"
  by (cases "parent_local p") (simp_all add: GetLive_def buf_at_def)

lemma reads_moving:
  assumes "ring_inv b" "\<not> IsNetworkLocal ob" "\<not> steady b" "0 \<le> bv_ElapsedTime b"
    and "\<forall>dt \<in> set dts. 2 \<le> dt" "bv_ElapsedTime b + sum_list dts < 2 ^ 63"
    and "GetLive (Some ob) b = Inr live"
  shows "\<exists>xs b'. vector_reads (Some ob) dts b = Inr (xs, b') \<and> length xs = length dts \<and>
    (\<forall>i < length xs. 6 * bv_TimeFrame b < 5 * (bv_ElapsedTime b + int i + 1) \<longrightarrow> xs ! i = live)"
  using assms
proof (induction dts arbitrary: b)
  case (Cons dt dts)
  let ?e = "bv_ElapsedTime b + dt sdiv 2"
  let ?b = "b\<lparr>bv_ElapsedTime := ?e\<rparr>"
  have half: "1 \<le> dt sdiv 2" "dt sdiv 2 \<le> dt" and pos: "0 \<le> sum_list dts"
    using Cons.prems(5) half_bounds [of dt] times_nonneg [of dts] by simp_all
  then have e: "0 \<le> ?e" "?e < 2 ^ 64" "?e + sum_list dts < 2 ^ 63"
    using Cons.prems(4, 6) by auto
  obtain x where x: "vector_GetInterpolated (Some ob) dt b = Inr (x, ?b)"
      "6 * bv_TimeFrame b < 5 * ?e \<longrightarrow> x = live"
    using read_moving [OF Cons.prems(1-3) refl e(1, 2)] Cons.prems(7) by auto
  have "ring_inv ?b" "\<not> steady ?b" "GetLive (Some ob) ?b = Inr live"
    using Cons.prems(1, 3, 7) by (auto simp: ring_inv_def ring_ok_def steady_def)
  then obtain xs b' where xs: "vector_reads (Some ob) dts ?b = Inr (xs, b')" "length xs = length dts"
      "\<forall>i < length xs. 6 * bv_TimeFrame b < 5 * (?e + int i + 1) \<longrightarrow> xs ! i = live"
    using Cons.IH [of ?b] Cons.prems(2, 5) e by auto
  have "(x # xs) ! i = live"
    if "i < length (x # xs)" "6 * bv_TimeFrame b < 5 * (bv_ElapsedTime b + int i + 1)" for i
    using that x(2) xs(3) half(1) by (cases i) auto
  with x(1) xs(1, 2) show ?case
    by auto
qed simp

text \<open>
  C35. A reader arrives: from any reachable state of a variable of a remote object, a reader that reports
  at least two milliseconds each time is shown the live value after more reads than six fifths of the
  time frame, and from then on, however the time it reports is spread over the reads.
\<close>

theorem vector_settles:
  assumes "vec_reach ob b" and "\<not> IsNetworkLocal ob" and "0 \<le> bv_ElapsedTime b"
    and "\<forall>dt \<in> set dts. 2 \<le> dt" and "bv_ElapsedTime b + sum_list dts < 2 ^ 63"
  shows "\<exists>xs b' live. vector_reads (Some ob) dts b = Inr (xs, b') \<and> length xs = length dts \<and>
    GetLive (Some ob) b = Inr live \<and>
    (\<forall>i < length xs. 6 * bv_TimeFrame b < 5 * (int i + 1) \<longrightarrow> xs ! i = live)"
proof -
  have inv: "ring_inv b" "ring_ok b"
    using vec_reach_inv [OF assms(1)] by (simp_all add: ring_inv_def)
  have "parent_local (Some ob) = Inr False"
    using assms(2) by (simp add: parent_local_def)
  from render_near [OF inv(1) this, of 0] obtain live where live: "GetLive (Some ob) b = Inr live"
    by blast
  show ?thesis
  proof (cases "steady b")
    case True
    with reads_steady [OF inv(2) assms(2) _ live] live show ?thesis
      by auto
  next
    case False
    from reads_moving [OF inv(1) assms(2) False assms(3-5) live] obtain xs b' where
      xs: "vector_reads (Some ob) dts b = Inr (xs, b')" "length xs = length dts"
      "\<forall>i < length xs. 6 * bv_TimeFrame b < 5 * (bv_ElapsedTime b + int i + 1) \<longrightarrow> xs ! i = live"
      by blast
    have "6 * bv_TimeFrame b < 5 * (bv_ElapsedTime b + int i + 1)"
      if "6 * bv_TimeFrame b < 5 * (int i + 1)" for i
      using that assms(3) by simp
    with xs live show ?thesis
      by blast
  qed
qed

text \<open>
  Half of each reported time is added in whole milliseconds, so a reader that is called every
  millisecond adds nothing and is shown the same point for ever.
\<close>

lemma fast_reader_stalls:
  assumes "vector_GetInterpolated (Some ob) 0 b = Inr (x, b')" and "\<forall>dt \<in> set dts. dt = 0 \<or> dt = 1"
  shows "\<exists>b''. vector_reads (Some ob) dts b = Inr (replicate (length dts) x, b'')"
proof -
  have half: "dt = 0 \<or> dt = 1 \<Longrightarrow> dt sdiv 2 = 0" for dt :: int
    by (auto simp: signed_divide_int_def)
  have same: "vector_GetInterpolated (Some ob) dt b = Inr (x, b)" if "dt = 0 \<or> dt = 1" for dt
    using assms(1) half [OF that] half [of 0]
    by (auto simp: vector_GetInterpolated_def Let_def res_bind_Inr_iff split: if_splits)
  from assms(2) have "vector_reads (Some ob) dts b = Inr (replicate (length dts) x, b)"
    by (induction dts) (auto simp: same)
  then show ?thesis
    by blast
qed

theorem vector_settles_witness:
  "\<exists>b' xs b'' live. vector_Set_raw None (Some remote_parent) [5, 0, 0] 12
      (bufvar_new [kZero, kZero, kZero, kZero] 7 9 kZero) = Inr b' \<and>
    vector_reads (Some remote_parent) (replicate 25 2) b' = Inr (xs, b'') \<and>
    GetLive (Some remote_parent) b' = Inr live \<and> xs ! 24 = live"
proof -
  let ?b = "bufvar_new [kZero, kZero, kZero, kZero] 7 9 kZero"
  obtain b' where b': "vector_Set_raw None (Some remote_parent) [5, 0, 0] 12 ?b = Inr b'"
      "bv_ElapsedTime b' = 0" "bv_TimeFrame b' = 9"
    by (auto simp: vector_Set_raw_def buffer_Set_def Let_def parent_local_def bufvar_new_def
      vector_GetInterpolated_def GetLive_def buf_at_def buf_put_def vec_set_def DistanceTo_def
      kMaxInterpolationBandingDist_def)
  have "vec_reach remote_parent b'"
    using vec_reach.raw [OF vec_reach.new b'(1)] by simp
  from vector_settles [OF this, of "replicate 25 2"] b' show ?thesis
    by (fastforce simp: sum_list_replicate)
qed
end
