(* ===== verification/Matrices.thy ===== *)
theory Matrices
  imports Quaternions
begin

text \<open>
  \<open>CMatrix4x4\<close> (CMatrix4x4.h, CMatrix4x4.cpp): affine transformations as 4x4 matrices for row
  vectors, so that a product applies its left factor first. An operation the code has both as a
  member that changes the matrix in place and as a function that returns a new one is two
  definitions; the in-place one follows the assignments in their order, through the temporaries.
  A failed assertion of the release build is \<open>Fatal_Exception\<close>; the assertions that only a debug
  build has are left out.
\<close>

named_theorems mat_simps \<open>element-wise definitions of the matrix operations\<close>

section \<open>The type\<close>

datatype matrix4 = CMatrix4x4
  (e00: float32) (e01: float32) (e02: float32) (e03: float32)
  (e10: float32) (e11: float32) (e12: float32) (e13: float32)
  (e20: float32) (e21: float32) (e22: float32) (e23: float32)
  (e30: float32) (e31: float32) (e32: float32) (e33: float32)

definition mat_identity :: matrix4 where
  "mat_identity = CMatrix4x4
     1 0 0 0
     0 1 0 0
     0 0 1 0
     0 0 0 1"

text \<open>Filling a matrix element by element, as the loops over \<open>mOut[i][j]\<close> do.\<close>

definition mat_fill :: "(nat \<Rightarrow> nat \<Rightarrow> float32) \<Rightarrow> matrix4" where
  "mat_fill f = CMatrix4x4
     (f 0 0) (f 0 1) (f 0 2) (f 0 3)
     (f 1 0) (f 1 1) (f 1 2) (f 1 3)
     (f 2 0) (f 2 1) (f 2 2) (f 2 3)
     (f 3 0) (f 3 1) (f 3 2) (f 3 3)"

definition mat_rows :: "matrix4 \<Rightarrow> float32 list list" where
  "mat_rows m =
     [[e00 m, e01 m, e02 m, e03 m],
      [e10 m, e11 m, e12 m, e13 m],
      [e20 m, e21 m, e22 m, e23 m],
      [e30 m, e31 m, e32 m, e33 m]]"

text \<open>\<open>m[i][j]\<close>: a row read as a vector, then a component of it.\<close>

definition mat_at :: "matrix4 \<Rightarrow> nat \<Rightarrow> nat \<Rightarrow> float32" where
  "mat_at m i j = mat_rows m ! i ! j"

definition mat_set :: "float32 list \<Rightarrow> bool \<Rightarrow> matrix4 res" where
  "mat_set pfElts bRows =
     (if length pfElts < 16 then Inl Undefined
      else if bRows then Inr (mat_fill (\<lambda>i j. pfElts ! (4 * i + j)))
      else Inr (mat_fill (\<lambda>i j. pfElts ! (4 * j + i))))"

definition mat_rows3 :: "vector3 \<Rightarrow> vector3 \<Rightarrow> vector3 \<Rightarrow> vector3 \<Rightarrow> bool \<Rightarrow> matrix4" where
  "mat_rows3 v0 v1 v2 v3 bRows =
     (if bRows then CMatrix4x4
        (v_x v0) (v_y v0) (v_z v0) 0
        (v_x v1) (v_y v1) (v_z v1) 0
        (v_x v2) (v_y v2) (v_z v2) 0
        (v_x v3) (v_y v3) (v_z v3) 1
      else CMatrix4x4
        (v_x v0) (v_x v1) (v_x v2) (v_x v3)
        (v_y v0) (v_y v1) (v_y v2) (v_y v3)
        (v_z v0) (v_z v1) (v_z v2) (v_z v3)
        0 0 0 1)"

definition GetPosition :: "matrix4 \<Rightarrow> vector3" where
  "GetPosition m = CVector3 (e30 m) (e31 m) (e32 m)"

text \<open>\<open>SetRow\<close> with a three-dimensional vector leaves the fourth element; a row beyond 3 is outside the matrix.\<close>

definition SetRow :: "nat \<Rightarrow> vector3 \<Rightarrow> matrix4 \<Rightarrow> matrix4 res" where
  "SetRow iRow v m =
     (if iRow < 4 then
        Inr (mat_fill (\<lambda>i j. if i = iRow \<and> j < 3 then [v_x v, v_y v, v_z v] ! j else mat_at m i j))
      else Inl Undefined)"

section \<open>Products\<close>

definition mat_mul :: "matrix4 \<Rightarrow> matrix4 \<Rightarrow> matrix4" where
  "mat_mul m1 m2 =
     CMatrix4x4
       (e00 m1 * e00 m2 + e01 m1 * e10 m2 + e02 m1 * e20 m2 + e03 m1 * e30 m2)
       (e00 m1 * e01 m2 + e01 m1 * e11 m2 + e02 m1 * e21 m2 + e03 m1 * e31 m2)
       (e00 m1 * e02 m2 + e01 m1 * e12 m2 + e02 m1 * e22 m2 + e03 m1 * e32 m2)
       (e00 m1 * e03 m2 + e01 m1 * e13 m2 + e02 m1 * e23 m2 + e03 m1 * e33 m2)
       (e10 m1 * e00 m2 + e11 m1 * e10 m2 + e12 m1 * e20 m2 + e13 m1 * e30 m2)
       (e10 m1 * e01 m2 + e11 m1 * e11 m2 + e12 m1 * e21 m2 + e13 m1 * e31 m2)
       (e10 m1 * e02 m2 + e11 m1 * e12 m2 + e12 m1 * e22 m2 + e13 m1 * e32 m2)
       (e10 m1 * e03 m2 + e11 m1 * e13 m2 + e12 m1 * e23 m2 + e13 m1 * e33 m2)
       (e20 m1 * e00 m2 + e21 m1 * e10 m2 + e22 m1 * e20 m2 + e23 m1 * e30 m2)
       (e20 m1 * e01 m2 + e21 m1 * e11 m2 + e22 m1 * e21 m2 + e23 m1 * e31 m2)
       (e20 m1 * e02 m2 + e21 m1 * e12 m2 + e22 m1 * e22 m2 + e23 m1 * e32 m2)
       (e20 m1 * e03 m2 + e21 m1 * e13 m2 + e22 m1 * e23 m2 + e23 m1 * e33 m2)
       (e30 m1 * e00 m2 + e31 m1 * e10 m2 + e32 m1 * e20 m2 + e33 m1 * e30 m2)
       (e30 m1 * e01 m2 + e31 m1 * e11 m2 + e32 m1 * e21 m2 + e33 m1 * e31 m2)
       (e30 m1 * e02 m2 + e31 m1 * e12 m2 + e32 m1 * e22 m2 + e33 m1 * e32 m2)
       (e30 m1 * e03 m2 + e31 m1 * e13 m2 + e32 m1 * e23 m2 + e33 m1 * e33 m2)"

text \<open>\<open>operator*=\<close>; \<open>self\<close> says that the argument is the matrix itself.\<close>

definition mat_mul_assign :: "bool \<Rightarrow> matrix4 \<Rightarrow> matrix4 \<Rightarrow> matrix4" where
  "mat_mul_assign self this m =
     (if self then mat_mul m m else
      case this of CMatrix4x4 a00 a01 a02 a03 a10 a11 a12 a13 a20 a21 a22 a23 a30 a31 a32 a33 \<Rightarrow>
       (let t0 = a00 * e00 m + a01 * e10 m + a02 * e20 m + a03 * e30 m;
           t1 = a00 * e01 m + a01 * e11 m + a02 * e21 m + a03 * e31 m;
           t2 = a00 * e02 m + a01 * e12 m + a02 * e22 m + a03 * e32 m;
           a03 = a00 * e03 m + a01 * e13 m + a02 * e23 m + a03 * e33 m;
           a00 = t0;
           a01 = t1;
           a02 = t2;
           t0 = a10 * e00 m + a11 * e10 m + a12 * e20 m + a13 * e30 m;
           t1 = a10 * e01 m + a11 * e11 m + a12 * e21 m + a13 * e31 m;
           t2 = a10 * e02 m + a11 * e12 m + a12 * e22 m + a13 * e32 m;
           a13 = a10 * e03 m + a11 * e13 m + a12 * e23 m + a13 * e33 m;
           a10 = t0;
           a11 = t1;
           a12 = t2;
           t0 = a20 * e00 m + a21 * e10 m + a22 * e20 m + a23 * e30 m;
           t1 = a20 * e01 m + a21 * e11 m + a22 * e21 m + a23 * e31 m;
           t2 = a20 * e02 m + a21 * e12 m + a22 * e22 m + a23 * e32 m;
           a23 = a20 * e03 m + a21 * e13 m + a22 * e23 m + a23 * e33 m;
           a20 = t0;
           a21 = t1;
           a22 = t2;
           t0 = a30 * e00 m + a31 * e10 m + a32 * e20 m + a33 * e30 m;
           t1 = a30 * e01 m + a31 * e11 m + a32 * e21 m + a33 * e31 m;
           t2 = a30 * e02 m + a31 * e12 m + a32 * e22 m + a33 * e32 m;
           a33 = a30 * e03 m + a31 * e13 m + a32 * e23 m + a33 * e33 m;
           a30 = t0;
           a31 = t1;
           a32 = t2
        in CMatrix4x4 a00 a01 a02 a03 a10 a11 a12 a13 a20 a21 a22 a23 a30 a31 a32 a33))"

definition MultiplyAffine :: "matrix4 \<Rightarrow> matrix4 \<Rightarrow> matrix4" where
  "MultiplyAffine m1 m2 =
     CMatrix4x4
       (e00 m1 * e00 m2 + e01 m1 * e10 m2 + e02 m1 * e20 m2)
       (e00 m1 * e01 m2 + e01 m1 * e11 m2 + e02 m1 * e21 m2)
       (e00 m1 * e02 m2 + e01 m1 * e12 m2 + e02 m1 * e22 m2)
       0
       (e10 m1 * e00 m2 + e11 m1 * e10 m2 + e12 m1 * e20 m2)
       (e10 m1 * e01 m2 + e11 m1 * e11 m2 + e12 m1 * e21 m2)
       (e10 m1 * e02 m2 + e11 m1 * e12 m2 + e12 m1 * e22 m2)
       0
       (e20 m1 * e00 m2 + e21 m1 * e10 m2 + e22 m1 * e20 m2)
       (e20 m1 * e01 m2 + e21 m1 * e11 m2 + e22 m1 * e21 m2)
       (e20 m1 * e02 m2 + e21 m1 * e12 m2 + e22 m1 * e22 m2)
       0
       (e30 m1 * e00 m2 + e31 m1 * e10 m2 + e32 m1 * e20 m2 + e30 m2)
       (e30 m1 * e01 m2 + e31 m1 * e11 m2 + e32 m1 * e21 m2 + e31 m2)
       (e30 m1 * e02 m2 + e31 m1 * e12 m2 + e32 m1 * e22 m2 + e32 m2)
       1"

definition MultiplyAffine_assign :: "bool \<Rightarrow> matrix4 \<Rightarrow> matrix4 \<Rightarrow> matrix4" where
  "MultiplyAffine_assign self this m =
     (if self then MultiplyAffine m m else
      case this of CMatrix4x4 a00 a01 a02 a03 a10 a11 a12 a13 a20 a21 a22 a23 a30 a31 a32 a33 \<Rightarrow>
       (let t0 = a00 * e00 m + a01 * e10 m + a02 * e20 m;
           t1 = a00 * e01 m + a01 * e11 m + a02 * e21 m;
           a02 = a00 * e02 m + a01 * e12 m + a02 * e22 m;
           a00 = t0;
           a01 = t1;
           t0 = a10 * e00 m + a11 * e10 m + a12 * e20 m;
           t1 = a10 * e01 m + a11 * e11 m + a12 * e21 m;
           a12 = a10 * e02 m + a11 * e12 m + a12 * e22 m;
           a10 = t0;
           a11 = t1;
           t0 = a20 * e00 m + a21 * e10 m + a22 * e20 m;
           t1 = a20 * e01 m + a21 * e11 m + a22 * e21 m;
           a22 = a20 * e02 m + a21 * e12 m + a22 * e22 m;
           a20 = t0;
           a21 = t1;
           t0 = a30 * e00 m + a31 * e10 m + a32 * e20 m + e30 m;
           t1 = a30 * e01 m + a31 * e11 m + a32 * e21 m + e31 m;
           a32 = a30 * e02 m + a31 * e12 m + a32 * e22 m + e32 m;
           a30 = t0;
           a31 = t1
        in CMatrix4x4 a00 a01 a02 a03 a10 a11 a12 a13 a20 a21 a22 a23 a30 a31 a32 a33))"

definition mat_scale :: "float32 \<Rightarrow> matrix4 \<Rightarrow> matrix4" where
  "mat_scale s m =
     CMatrix4x4
       (e00 m * s) (e01 m * s) (e02 m * s) (e03 m * s)
       (e10 m * s) (e11 m * s) (e12 m * s) (e13 m * s)
       (e20 m * s) (e21 m * s) (e22 m * s) (e23 m * s)
       (e30 m * s) (e31 m * s) (e32 m * s) (e33 m * s)"

definition mat_div :: "matrix4 \<Rightarrow> float32 \<Rightarrow> matrix4" where
  "mat_div m s =
     CMatrix4x4
       (e00 m / s) (e01 m / s) (e02 m / s) (e03 m / s)
       (e10 m / s) (e11 m / s) (e12 m / s) (e13 m / s)
       (e20 m / s) (e21 m / s) (e22 m / s) (e23 m / s)
       (e30 m / s) (e31 m / s) (e32 m / s) (e33 m / s)"

definition TransformVector :: "matrix4 \<Rightarrow> vector3 \<Rightarrow> vector3" where
  "TransformVector m v =
     CVector3
       (v_x v * e00 m + v_y v * e10 m + v_z v * e20 m)
       (v_x v * e01 m + v_y v * e11 m + v_z v * e21 m)
       (v_x v * e02 m + v_y v * e12 m + v_z v * e22 m)"

definition TransformPoint :: "matrix4 \<Rightarrow> vector3 \<Rightarrow> vector3" where
  "TransformPoint m v =
     CVector3
       (v_x v * e00 m + v_y v * e10 m + v_z v * e20 m + e30 m)
       (v_x v * e01 m + v_y v * e11 m + v_z v * e21 m + e31 m)
       (v_x v * e02 m + v_y v * e12 m + v_z v * e22 m + e32 m)"

section \<open>Transposition and inverses\<close>

definition Transpose :: "matrix4 \<Rightarrow> matrix4" where
  "Transpose m =
     CMatrix4x4
       (e00 m) (e10 m) (e20 m) (e30 m)
       (e01 m) (e11 m) (e21 m) (e31 m)
       (e02 m) (e12 m) (e22 m) (e32 m)
       (e03 m) (e13 m) (e23 m) (e33 m)"

definition Transpose_assign :: "matrix4 \<Rightarrow> matrix4" where
  "Transpose_assign this =
     (case this of CMatrix4x4 a00 a01 a02 a03 a10 a11 a12 a13 a20 a21 a22 a23 a30 a31 a32 a33 \<Rightarrow>
       (let t = a01; a01 = a10; a10 = t;
           t = a02; a02 = a20; a20 = t;
           t = a12; a12 = a21; a21 = t;
           t = a03; a03 = a30; a30 = t;
           t = a13; a13 = a31; a31 = t;
           t = a23; a23 = a32; a32 = t
        in CMatrix4x4 a00 a01 a02 a03 a10 a11 a12 a13 a20 a21 a22 a23 a30 a31 a32 a33))"

definition InverseRotTrans :: "matrix4 \<Rightarrow> matrix4" where
  "InverseRotTrans m =
     CMatrix4x4
       (e00 m) (e10 m) (e20 m) 0
       (e01 m) (e11 m) (e21 m) 0
       (e02 m) (e12 m) (e22 m) 0
       (- e30 m * e00 m - e31 m * e01 m - e32 m * e02 m)
       (- e30 m * e10 m - e31 m * e11 m - e32 m * e12 m)
       (- e30 m * e20 m - e31 m * e21 m - e32 m * e22 m)
       1"

definition InvertRotTrans :: "matrix4 \<Rightarrow> matrix4" where
  "InvertRotTrans this =
     (case this of CMatrix4x4 a00 a01 a02 a03 a10 a11 a12 a13 a20 a21 a22 a23 a30 a31 a32 a33 \<Rightarrow>
       (let t1 = a01; a01 = a10; a10 = t1;
            t1 = a02; a02 = a20; a20 = t1;
            t1 = a12; a12 = a21; a21 = t1;
            t1 = - a30 * a00 - a31 * a10 - a32 * a20;
            t2 = - a30 * a01 - a31 * a11 - a32 * a21;
            a32 = - a30 * a02 - a31 * a12 - a32 * a22;
            a30 = t1; a31 = t2
        in CMatrix4x4 a00 a01 a02 a03 a10 a11 a12 a13 a20 a21 a22 a23 a30 a31 a32 a33))"

text \<open>The locals \<open>o\<close> are the elements of \<open>mOut\<close> that the code reads back.\<close>

definition InverseRotTransScale :: "matrix4 \<Rightarrow> matrix4 res" where
  "InverseRotTransScale m =
     (let scaleSqX = e00 m * e00 m + e01 m * e01 m + e02 m * e02 m;
          scaleSqY = e10 m * e10 m + e11 m * e11 m + e12 m * e12 m;
          scaleSqZ = e20 m * e20 m + e21 m * e21 m + e22 m * e22 m
      in if \<not> (\<not> IsZero scaleSqX \<and> \<not> IsZero scaleSqY \<and> \<not> IsZero scaleSqZ) then Inl Fatal_Exception
         else
           let invScaleX = 1 / scaleSqX; invScaleY = 1 / scaleSqY; invScaleZ = 1 / scaleSqZ;
               o00 = e00 m * invScaleX; o01 = e10 m * invScaleY; o02 = e20 m * invScaleZ;
               o10 = e01 m * invScaleX; o11 = e11 m * invScaleY; o12 = e21 m * invScaleZ;
               o20 = e02 m * invScaleX; o21 = e12 m * invScaleY; o22 = e22 m * invScaleZ;
               o30 = - e30 m * o00 - e31 m * o10 - e32 m * o20;
               o31 = - e30 m * o01 - e31 m * o11 - e32 m * o21;
               o32 = - e30 m * o02 - e31 m * o12 - e32 m * o22
           in Inr (CMatrix4x4 o00 o01 o02 0 o10 o11 o12 0 o20 o21 o22 0 o30 o31 o32 1))"

definition InvertRotTransScale :: "matrix4 \<Rightarrow> matrix4 res" where
  "InvertRotTransScale this =
     (let scaleSqX = e00 this * e00 this + e01 this * e01 this + e02 this * e02 this;
          scaleSqY = e10 this * e10 this + e11 this * e11 this + e12 this * e12 this;
          scaleSqZ = e20 this * e20 this + e21 this * e21 this + e22 this * e22 this
      in if \<not> (\<not> IsZero scaleSqX \<and> \<not> IsZero scaleSqY \<and> \<not> IsZero scaleSqZ) then Inl Fatal_Exception
         else
           let invScaleX = 1 / scaleSqX; invScaleY = 1 / scaleSqY; invScaleZ = 1 / scaleSqZ
           in case this of CMatrix4x4 a00 a01 a02 a03 a10 a11 a12 a13 a20 a21 a22 a23 a30 a31 a32 a33 \<Rightarrow>
             (let a00 = a00 * invScaleX; a11 = a11 * invScaleY; a22 = a22 * invScaleZ;
                  t1 = a01; a01 = a10 * invScaleY; a10 = t1 * invScaleX;
                  t1 = a02; a02 = a20 * invScaleZ; a20 = t1 * invScaleX;
                  t1 = a12; a12 = a21 * invScaleZ; a21 = t1 * invScaleY;
                  t1 = - a30 * a00 - a31 * a10 - a32 * a20;
                  t2 = - a30 * a01 - a31 * a11 - a32 * a21;
                  a32 = - a30 * a02 - a31 * a12 - a32 * a22;
                  a30 = t1; a31 = t2
              in Inr (CMatrix4x4 a00 a01 a02 a03 a10 a11 a12 a13 a20 a21 a22 a23 a30 a31 a32 a33)))"

definition InverseAffine :: "matrix4 \<Rightarrow> matrix4 res" where
  "InverseAffine m =
     (let det0 = e11 m * e22 m - e12 m * e21 m;
          det1 = e12 m * e20 m - e10 m * e22 m;
          det2 = e10 m * e21 m - e11 m * e20 m;
          det = e00 m * det0 + e01 m * det1 + e02 m * det2
      in if IsZero det then Inl Fatal_Exception
         else
           let invDet = 1 / det;
               o00 = invDet * det0; o10 = invDet * det1; o20 = invDet * det2;
               o01 = invDet * (e21 m * e02 m - e22 m * e01 m);
               o11 = invDet * (e22 m * e00 m - e20 m * e02 m);
               o21 = invDet * (e20 m * e01 m - e21 m * e00 m);
               o02 = invDet * (e01 m * e12 m - e02 m * e11 m);
               o12 = invDet * (e02 m * e10 m - e00 m * e12 m);
               o22 = invDet * (e00 m * e11 m - e01 m * e10 m);
               o30 = - e30 m * o00 - e31 m * o10 - e32 m * o20;
               o31 = - e30 m * o01 - e31 m * o11 - e32 m * o21;
               o32 = - e30 m * o02 - e31 m * o12 - e32 m * o22
           in Inr (CMatrix4x4 o00 o01 o02 0 o10 o11 o12 0 o20 o21 o22 0 o30 o31 o32 1))"

text \<open>
  The loop of \<open>Cofactor\<close> collects the indices other than \<open>i\<close> and \<open>j\<close>; with an index above 3 it would
  write a fourth one behind the arrays.
\<close>

definition Cofactor :: "matrix4 \<Rightarrow> nat \<Rightarrow> nat \<Rightarrow> float32 res" where
  "Cofactor m i j =
     (if 4 \<le> i \<or> 4 \<le> j then Inl Undefined
      else
        let rows = filter (\<lambda>rowCol. rowCol \<noteq> i) [0, 1, 2, 3];
            cols = filter (\<lambda>rowCol. rowCol \<noteq> j) [0, 1, 2, 3];
            el = (\<lambda>r c. mat_at m (rows ! r) (cols ! c));
            det0 = el 1 1 * el 2 2 - el 1 2 * el 2 1;
            det1 = el 1 2 * el 2 0 - el 1 0 * el 2 2;
            det2 = el 1 0 * el 2 1 - el 1 1 * el 2 0;
            det = el 0 0 * det0 + el 0 1 * det1 + el 0 2 * det2
        in Inr (if even (i + j) then det else - det))"

text \<open>The two nested loops of \<open>Inverse\<close>; the indices are below 4, so \<open>Cofactor\<close> always has a value.\<close>

definition Inverse :: "matrix4 \<Rightarrow> matrix4 res" where
  "Inverse m =
     (let cofactor = (\<lambda>i j. case Cofactor m i j of Inr c \<Rightarrow> c | Inl _ \<Rightarrow> 0);
          det = e00 m * cofactor 0 0 + e01 m * cofactor 0 1 + e02 m * cofactor 0 2 + e03 m * cofactor 0 3
      in if IsZero det then Inl Fatal_Exception
         else let invDet = 1 / det in Inr (mat_fill (\<lambda>i j. invDet * cofactor j i)))"

section \<open>Rotations, scalings, translations\<close>

definition MatrixTranslation :: "vector3 \<Rightarrow> matrix4" where
  "MatrixTranslation t =
     CMatrix4x4
       1 0 0 0
       0 1 0 0
       0 0 1 0
       (v_x t) (v_y t) (v_z t) 1"

definition MatrixScaling :: "vector3 \<Rightarrow> matrix4" where
  "MatrixScaling s =
     CMatrix4x4
       (v_x s) 0 0 0
       0 (v_y s) 0 0
       0 0 (v_z s) 0
       0 0 0 1"

definition MatrixRotationX :: "float32 \<Rightarrow> matrix4" where
  "MatrixRotationX a =
     (let (s, c) = SinCos a in CMatrix4x4
       1 0 0 0
       0 c s 0
       0 (- s) c 0
       0 0 0 1)"

definition MatrixRotationY :: "float32 \<Rightarrow> matrix4" where
  "MatrixRotationY a =
     (let (s, c) = SinCos a in CMatrix4x4
       c 0 (- s) 0
       0 1 0 0
       s 0 c 0
       0 0 0 1)"

definition MatrixRotationZ :: "float32 \<Rightarrow> matrix4" where
  "MatrixRotationZ a =
     (let (s, c) = SinCos a in CMatrix4x4
       c s 0 0
       (- s) c 0 0
       0 0 1 0
       0 0 0 1)"

definition MatrixRotation :: "vector3 \<Rightarrow> rotation_order \<Rightarrow> matrix4" where
  "MatrixRotation angles eRotOrder =
     (let (sX, cX) = SinCos (v_x angles);
          (sY, cY) = SinCos (v_y angles);
          (sZ, cZ) = SinCos (v_z angles)
      in case eRotOrder of
        kZYX \<Rightarrow> CMatrix4x4
          (cZ * cY) (sZ * cX + cZ * sY * sX) (sZ * sX + (- cZ) * sY * cX) 0
          (- sZ * cY) (cZ * cX + (- sZ) * sY * sX) (cZ * sX + sZ * sY * cX) 0
          (sY) (- cY * sX) (cY * cX) 0
          0 0 0 1
      | kYZX \<Rightarrow> CMatrix4x4
          (cY * cZ) (cY * sZ * cX + sY * sX) (cY * sZ * sX + (- sY) * cX) 0
          (- sZ) (cZ * cX) (cZ * sX) 0
          (sY * cZ) (sY * sZ * cX + (- cY) * sX) (sY * sZ * sX + cY * cX) 0
          0 0 0 1
      | kXZY \<Rightarrow> CMatrix4x4
          (cZ * cY) (sZ) (- cZ * sY) 0
          (- cX * sZ * cY + sX * sY) (cX * cZ) (cX * sZ * sY + sX * cY) 0
          (sX * sZ * cY + cX * sY) (- sX * cZ) (- sX * sZ * sY + cX * cY) 0
          0 0 0 1
      | kZXY \<Rightarrow> CMatrix4x4
          (cZ * cY + sZ * sX * sY) (sZ * cX) (- cZ * sY + sZ * sX * cY) 0
          (- sZ * cY + cZ * sX * sY) (cZ * cX) (sZ * sY + cZ * sX * cY) 0
          (cX * sY) (- sX) (cX * cY) 0
          0 0 0 1
      | kYXZ \<Rightarrow> CMatrix4x4
          (cY * cZ + (- sY) * sX * sZ) (cY * sZ + sY * sX * cZ) (- sY * cX) 0
          (- cX * sZ) (cX * cZ) (sX) 0
          (sY * cZ + cY * sX * sZ) (sY * sZ + (- cY) * sX * cZ) (cY * cX) 0
          0 0 0 1
      | kXYZ \<Rightarrow> CMatrix4x4
          (cY * cZ) (cY * sZ) (- sY) 0
          (sX * sY * cZ + (- cX) * sZ) (sX * sY * sZ + cX * cZ) (sX * cY) 0
          (cX * sY * cZ + sX * sZ) (cX * sY * sZ + (- sX) * cZ) (cX * cY) 0
          0 0 0 1)"

definition MatrixRotation_axis :: "vector3 \<Rightarrow> float32 \<Rightarrow> matrix4 res" where
  "MatrixRotation_axis axis fAngle =
     (let (s, c) = SinCos fAngle; t = 1 - c; axisNorm = vec_Normalise axis
      in if vec_IsZero axisNorm then Inl Fatal_Exception
         else
           let sx = s * v_x axisNorm; sy = s * v_y axisNorm; sz = s * v_z axisNorm;
               tx = t * v_x axisNorm; ty = t * v_y axisNorm; tz = t * v_z axisNorm;
               txy = ty * v_x axisNorm; tyz = tz * v_y axisNorm; tzx = tx * v_z axisNorm
           in Inr (CMatrix4x4
                (tx * v_x axisNorm + c) (txy + sz) (tzx - sy) 0
                (txy - sz) (ty * v_y axisNorm + c) (tyz + sx) 0
                (tzx + sy) (tyz - sx) (tz * v_z axisNorm + c) 0
                0 0 0 1))"

definition mat_quaternion :: "quaternion \<Rightarrow> vector3 \<Rightarrow> vector3 \<Rightarrow> matrix4" where
  "mat_quaternion quat position scale =
     (let xx = 2 * q_x quat; yy = 2 * q_y quat; zz = 2 * q_z quat;
          xy = xx * q_y quat; yz = yy * q_z quat; zx = zz * q_x quat;
          wx = q_w quat * xx; wy = q_w quat * yy; wz = q_w quat * zz;
          xx = xx * q_x quat; yy = yy * q_y quat; zz = zz * q_z quat
      in CMatrix4x4
           (v_x scale * (1 - yy - zz)) (v_x scale * (xy + wz)) (v_x scale * (zx - wy)) 0
           (v_y scale * (xy - wz)) (v_y scale * (1 - xx - zz)) (v_y scale * (yz + wx)) 0
           (v_z scale * (zx + wy)) (v_z scale * (yz - wx)) (v_z scale * (1 - xx - yy)) 0
           (v_x position) (v_y position) (v_z position) 1)"

text \<open>The constructors from angles and from an axis scale the rows of a rotation and set the position.\<close>

definition scale_rows :: "vector3 \<Rightarrow> vector3 \<Rightarrow> matrix4 \<Rightarrow> matrix4" where
  "scale_rows position scale m = CMatrix4x4
     (e00 m * v_x scale) (e01 m * v_x scale) (e02 m * v_x scale) (e03 m)
     (e10 m * v_y scale) (e11 m * v_y scale) (e12 m * v_y scale) (e13 m)
     (e20 m * v_z scale) (e21 m * v_z scale) (e22 m * v_z scale) (e23 m)
     (v_x position) (v_y position) (v_z position) (e33 m)"

definition mat_euler :: "vector3 \<Rightarrow> vector3 \<Rightarrow> rotation_order \<Rightarrow> vector3 \<Rightarrow> matrix4" where
  "mat_euler position angles eRotOrder scale = scale_rows position scale (MatrixRotation angles eRotOrder)"

definition mat_axis_angle :: "vector3 \<Rightarrow> float32 \<Rightarrow> vector3 \<Rightarrow> vector3 \<Rightarrow> matrix4 res" where
  "mat_axis_angle axis fAngle position scale =
     res_bind (MatrixRotation_axis axis fAngle) (\<lambda>m. Inr (scale_rows position scale m))"

section \<open>Scale of a matrix\<close>

definition GetScale :: "matrix4 \<Rightarrow> vector3" where
  "GetScale m = CVector3 (sqrt (e00 m * e00 m + e01 m * e01 m + e02 m * e02 m))
     (sqrt (e10 m * e10 m + e11 m * e11 m + e12 m * e12 m))
     (sqrt (e20 m * e20 m + e21 m * e21 m + e22 m * e22 m))"

text \<open>The factor a row is multiplied by: none for a zero row. The local named a square is a length.\<close>

definition rescale_factor :: "float32 \<Rightarrow> float32 \<Rightarrow> float32 \<Rightarrow> float32 \<Rightarrow> float32" where
  "rescale_factor s a b c =
     (let scaleSq = sqrt (a * a + b * b + c * c)
      in if \<not> IsZero scaleSq then s * InvSqrt scaleSq else 1)"

definition SetScale :: "vector3 \<Rightarrow> matrix4 \<Rightarrow> matrix4" where
  "SetScale scale m =
     (let rx = rescale_factor (v_x scale) (e00 m) (e01 m) (e02 m);
          ry = rescale_factor (v_y scale) (e10 m) (e11 m) (e12 m);
          rz = rescale_factor (v_z scale) (e20 m) (e21 m) (e22 m)
      in CMatrix4x4
           (e00 m * rx) (e01 m * rx) (e02 m * rx) (e03 m)
           (e10 m * ry) (e11 m * ry) (e12 m * ry) (e13 m)
           (e20 m * rz) (e21 m * rz) (e22 m * rz) (e23 m)
           (e30 m) (e31 m) (e32 m) (e33 m))"

section \<open>Tests and orthogonalisation\<close>

definition IsIdentity :: "matrix4 \<Rightarrow> bool" where
  "IsIdentity m \<longleftrightarrow>
     IsZero (e00 m - 1) \<and> IsZero (e11 m - 1) \<and> IsZero (e22 m - 1) \<and> IsZero (e33 m - 1) \<and>
     IsZero (e01 m) \<and> IsZero (e02 m) \<and> IsZero (e03 m) \<and>
     IsZero (e10 m) \<and> IsZero (e12 m) \<and> IsZero (e13 m) \<and>
     IsZero (e20 m) \<and> IsZero (e21 m) \<and> IsZero (e23 m) \<and>
     IsZero (e30 m) \<and> IsZero (e31 m) \<and> IsZero (e32 m)"

definition IsOrthogonal3x3 :: "matrix4 \<Rightarrow> bool" where
  "IsOrthogonal3x3 m \<longleftrightarrow>
     IsZero (e00 m * e10 m + e01 m * e11 m + e02 m * e12 m) \<and>
     IsZero (e10 m * e20 m + e11 m * e21 m + e12 m * e22 m) \<and>
     IsZero (e20 m * e00 m + e21 m * e01 m + e22 m * e02 m)"

definition IsOrthonormal3x3 :: "matrix4 \<Rightarrow> bool" where
  "IsOrthonormal3x3 m \<longleftrightarrow>
     IsZero (e00 m * e00 m + e01 m * e01 m + e02 m * e02 m - 1) \<and>
     IsZero (e10 m * e10 m + e11 m * e11 m + e12 m * e12 m - 1) \<and>
     IsZero (e20 m * e20 m + e21 m * e21 m + e22 m * e22 m - 1) \<and>
     IsOrthogonal3x3 m"

definition Orthogonalise3x3 :: "matrix4 \<Rightarrow> vector3 \<Rightarrow> matrix4 res" where
  "Orthogonalise3x3 m scale =
     (let origScaleX = e00 m * e00 m + e01 m * e01 m + e02 m * e02 m
      in if IsZero origScaleX then Inl Fatal_Exception
         else
           let invOrigScaleX = InvSqrt origScaleX;
               o00 = e00 m * invOrigScaleX; o01 = e01 m * invOrigScaleX; o02 = e02 m * invOrigScaleX;
               proj10 = e10 m * o00 + e11 m * o01 + e12 m * o02;
               o10 = e10 m - proj10 * o00; o11 = e11 m - proj10 * o01; o12 = e12 m - proj10 * o02;
               origScaleY = o10 * o10 + o11 * o11 + o12 * o12
           in if IsZero origScaleY then Inl Fatal_Exception
              else
                let invOrigScaleY = InvSqrt origScaleY;
                    o10 = o10 * invOrigScaleY; o11 = o11 * invOrigScaleY; o12 = o12 * invOrigScaleY;
                    o20 = o01 * o12 - o02 * o11; o21 = o02 * o10 - o00 * o12; o22 = o00 * o11 - o01 * o10;
                    o00 = o00 * v_x scale; o01 = o01 * v_x scale; o02 = o02 * v_x scale;
                    o10 = o10 * v_y scale; o11 = o11 * v_y scale; o12 = o12 * v_y scale;
                    o20 = o20 * v_z scale; o21 = o21 * v_z scale; o22 = o22 * v_z scale
                in Inr (CMatrix4x4 o00 o01 o02 (e03 m) o10 o11 o12 (e13 m) o20 o21 o22 (e23 m)
                     (e30 m) (e31 m) (e32 m) (e33 m)))"

section \<open>Facing\<close>

text \<open>
  The three axes of the facing matrices, \<open>None\<close> for the early return when an axis has no length; the
  direction is towards the target for left-handed axes and away from it for right-handed ones.
\<close>

definition facing_axes :: "vector3 \<Rightarrow> vector3 \<Rightarrow> bool \<Rightarrow> (vector3 \<times> vector3 \<times> vector3) option" where
  "facing_axes forward up bLH =
     (if bLH then
        let axisZ = vec_Normalise forward in
        if vec_IsZero axisZ then None
        else let axisX = vec_Normalise (Cross up axisZ) in
          if vec_IsZero axisX then None else Some (axisX, Cross axisZ axisX, axisZ)
      else
        let axisZ = vec_Normalise (vec_neg forward) in
        if vec_IsZero axisZ then None
        else let axisX = vec_Normalise (Cross axisZ up) in
          if vec_IsZero axisX then None else Some (axisX, Cross axisX axisZ, axisZ))"

definition FaceDirection :: "vector3 \<Rightarrow> vector3 \<Rightarrow> bool \<Rightarrow> matrix4 \<Rightarrow> matrix4 res" where
  "FaceDirection direction up bLH m =
     (case facing_axes direction up bLH of
        None \<Rightarrow> Inr m
      | Some (axisX, axisY, axisZ) \<Rightarrow>
          let scale = GetScale m in
          res_bind (SetRow 0 (vec_scale (v_x scale) axisX) m) (\<lambda>m.
          res_bind (SetRow 1 (vec_scale (v_y scale) axisY) m) (\<lambda>m.
          SetRow 2 (vec_scale (v_z scale) axisZ) m)))"

definition FaceTarget :: "vector3 \<Rightarrow> vector3 \<Rightarrow> bool \<Rightarrow> matrix4 \<Rightarrow> matrix4 res" where
  "FaceTarget target up bLH m =
     (case facing_axes (vec_sub target (GetPosition m)) up bLH of
        None \<Rightarrow> Inr m
      | Some (axisX, axisY, axisZ) \<Rightarrow>
          let scale = GetScale m in
          res_bind (SetRow 0 (vec_scale (v_x scale) axisX) m) (\<lambda>m.
          res_bind (SetRow 1 (vec_scale (v_y scale) axisY) m) (\<lambda>m.
          SetRow 2 (vec_scale (v_z scale) axisZ) m)))"

definition MatrixFaceDirection :: "vector3 \<Rightarrow> vector3 \<Rightarrow> vector3 \<Rightarrow> bool \<Rightarrow> matrix4" where
  "MatrixFaceDirection position direction up bLH =
     (case facing_axes direction up bLH of
        None \<Rightarrow> MatrixTranslation position
      | Some (axisX, axisY, axisZ) \<Rightarrow> mat_rows3 axisX axisY axisZ position True)"

definition MatrixFaceTarget :: "vector3 \<Rightarrow> vector3 \<Rightarrow> vector3 \<Rightarrow> bool \<Rightarrow> matrix4" where
  "MatrixFaceTarget position target up bLH =
     (case facing_axes (vec_sub target position) up bLH of
        None \<Rightarrow> MatrixTranslation position
      | Some (axisX, axisY, axisZ) \<Rightarrow> mat_rows3 axisX axisY axisZ position True)"

end
