(* ===== verification/Matrix_Laws.thy ===== *)
theory Matrix_Laws
  imports Matrices
begin

text \<open>
  The algebra of the matrices: products form a monoid, the in-place operations compute what the
  value-returning ones do, the four inverses invert, and the rotations built from angles, axes and
  quaternions are the ones the products of the elementary rotations are.
\<close>

section \<open>A monoid\<close>

lemma matrix4_eqI:
  assumes "e00 a = e00 b" "e01 a = e01 b" "e02 a = e02 b" "e03 a = e03 b"
    "e10 a = e10 b" "e11 a = e11 b" "e12 a = e12 b" "e13 a = e13 b"
    "e20 a = e20 b" "e21 a = e21 b" "e22 a = e22 b" "e23 a = e23 b"
    "e30 a = e30 b" "e31 a = e31 b" "e32 a = e32 b" "e33 a = e33 b"
  shows "a = b"
  using assms by (cases a; cases b) simp

lemma mat_mul_assoc: "mat_mul (mat_mul a b) c = mat_mul a (mat_mul b c)"
  unfolding mat_mul_def by (intro matrix4.inject [THEN iffD2] conjI) (simp_all add: algebra_simps)

instantiation matrix4 :: monoid_mult
begin

definition one_matrix4 :: matrix4 where "one_matrix4 = mat_identity"
definition times_matrix4 :: "matrix4 \<Rightarrow> matrix4 \<Rightarrow> matrix4" where "times_matrix4 = mat_mul"

instance
proof
  fix a b c :: matrix4
  show "a * b * c = a * (b * c)" by (simp add: times_matrix4_def mat_mul_assoc)
  show "1 * a = a" by (cases a) (simp add: times_matrix4_def one_matrix4_def mat_mul_def mat_identity_def)
  show "a * 1 = a" by (cases a) (simp add: times_matrix4_def one_matrix4_def mat_mul_def mat_identity_def)
qed

end

section \<open>In-place operations\<close>

lemma mat_mul_assign: "mat_mul_assign self this m = mat_mul (if self then m else this) m"
  by (cases this) (simp add: mat_mul_assign_def mat_mul_def Let_def)

definition affine :: "matrix4 \<Rightarrow> bool" where
  "affine m \<longleftrightarrow> e03 m = 0 \<and> e13 m = 0 \<and> e23 m = 0 \<and> e33 m = 1"

lemma MultiplyAffine_mul: "affine a \<Longrightarrow> affine b \<Longrightarrow> MultiplyAffine a b = mat_mul a b"
  by (simp add: affine_def MultiplyAffine_def mat_mul_def)

lemma MultiplyAffine_assign: "affine this \<Longrightarrow> affine m \<Longrightarrow>
  MultiplyAffine_assign self this m = mat_mul (if self then m else this) m"
  by (cases this) (simp add: affine_def MultiplyAffine_assign_def MultiplyAffine_def mat_mul_def Let_def)

lemma Transpose_assign: "Transpose_assign m = Transpose m"
  by (cases m) (simp add: Transpose_assign_def Transpose_def Let_def)

lemma InvertRotTrans: "affine m \<Longrightarrow> InvertRotTrans m = InverseRotTrans m"
  by (cases m) (simp add: affine_def InvertRotTrans_def InverseRotTrans_def Let_def)

lemma InvertRotTransScale: "affine m \<Longrightarrow> InvertRotTransScale m = InverseRotTransScale m"
  by (cases m) (simp add: affine_def InvertRotTransScale_def InverseRotTransScale_def Let_def)

section \<open>Inverses\<close>

lemma mat_at_simps [simp]:
  "mat_at m 0 0 = e00 m" "mat_at m 0 1 = e01 m" "mat_at m 0 2 = e02 m" "mat_at m 0 3 = e03 m"
  "mat_at m 1 0 = e10 m" "mat_at m 1 1 = e11 m" "mat_at m 1 2 = e12 m" "mat_at m 1 3 = e13 m"
  "mat_at m 2 0 = e20 m" "mat_at m 2 1 = e21 m" "mat_at m 2 2 = e22 m" "mat_at m 2 3 = e23 m"
  "mat_at m 3 0 = e30 m" "mat_at m 3 1 = e31 m" "mat_at m 3 2 = e32 m" "mat_at m 3 3 = e33 m"
  by (simp_all add: mat_at_def mat_rows_def numeral_3_eq_3 numeral_2_eq_2)

definition inverse_of :: "matrix4 \<Rightarrow> matrix4 \<Rightarrow> bool" where
  "inverse_of m n \<longleftrightarrow> m * n = 1 \<and> n * m = 1"

lemma nonzero: "\<not> IsZero d \<Longrightarrow> d \<noteq> 0"
  by (auto simp: IsZero_def kfEpsilon_def)

definition det3 :: "matrix4 \<Rightarrow> float32" where
  "det3 m = e00 m * (e11 m * e22 m - e12 m * e21 m) + e01 m * (e12 m * e20 m - e10 m * e22 m) +
     e02 m * (e10 m * e21 m - e11 m * e20 m)"

text \<open>The inverse of an affine matrix from the reciprocal of its determinant.\<close>

definition adjugate :: "float32 \<Rightarrow> matrix4 \<Rightarrow> matrix4" where
  "adjugate v m =
     (case m of CMatrix4x4 a b c p d e f q g h i r x y z s \<Rightarrow> CMatrix4x4
       (v * (e * i - f * h)) (v * (h * c - i * b)) (v * (b * f - c * e)) 0
       (v * (f * g - d * i)) (v * (i * a - g * c)) (v * (c * d - a * f)) 0
       (v * (d * h - e * g)) (v * (g * b - h * a)) (v * (a * e - b * d)) 0
       (- x * (v * (e * i - f * h)) - y * (v * (f * g - d * i)) - z * (v * (d * h - e * g)))
       (- x * (v * (h * c - i * b)) - y * (v * (i * a - g * c)) - z * (v * (g * b - h * a)))
       (- x * (v * (b * f - c * e)) - y * (v * (c * d - a * f)) - z * (v * (a * e - b * d))) 1)"

lemma adjugate_inverse:
  assumes "affine m" and "v * det3 m = 1"
  shows "inverse_of m (adjugate v m)"
proof -
  obtain a b c p d e f q g h i r x y z s where m: "m = CMatrix4x4 a b c p d e f q g h i r x y z s"
    by (cases m)
  have z: "p = 0" "q = 0" "r = 0" "s = 1" using assms(1) by (simp_all add: m affine_def)
  note e = assms(2) [unfolded det3_def m matrix4.sel]
  show ?thesis
    unfolding inverse_of_def times_matrix4_def one_matrix4_def mat_mul_def mat_identity_def adjugate_def m z
      matrix4.case matrix4.sel matrix4.inject
    by (intro conjI) ((use e in \<open>algebra\<close>) | simp)+
qed

lemma InverseAffine_adjugate:
  "InverseAffine m = (if IsZero (det3 m) then Inl Fatal_Exception else Inr (adjugate (1 / det3 m) m))"
  by (cases m) (simp add: InverseAffine_def adjugate_def det3_def Let_def)

lemma InverseAffine_inverse: "affine m \<Longrightarrow> InverseAffine m = Inr n \<Longrightarrow> inverse_of m n"
  by (auto simp: InverseAffine_adjugate nonzero intro!: adjugate_inverse split: if_splits)

lemma affine_invertible: "affine m \<Longrightarrow> det3 m \<noteq> 0 \<Longrightarrow> inverse_of m (adjugate (1 / det3 m) m)"
  by (simp add: adjugate_inverse)

text \<open>A right inverse of an invertible matrix is its inverse.\<close>

lemma right_inverse: "inverse_of m k \<Longrightarrow> m * n = 1 \<Longrightarrow> inverse_of m n"
  by (metis inverse_of_def mult.assoc mult_1_left mult_1_right)

lemma det3_gram:
  fixes m :: matrix4
  defines "r0 \<equiv> CVector3 (e00 m) (e01 m) (e02 m)" and "r1 \<equiv> CVector3 (e10 m) (e11 m) (e12 m)"
    and "r2 \<equiv> CVector3 (e20 m) (e21 m) (e22 m)"
  assumes "Dot r0 r1 = 0" "Dot r1 r2 = 0" "Dot r2 r0 = 0"
  shows "(det3 m)\<^sup>2 = LengthSquared r0 * LengthSquared r1 * LengthSquared r2"
  using assms(4-) unfolding r0_def r1_def r2_def det3_def Dot_def LengthSquared_def vector3.sel power2_eq_square
  by algebra

definition orthogonal_rows :: "matrix4 \<Rightarrow> bool" where
  "orthogonal_rows m \<longleftrightarrow> e00 m * e10 m + e01 m * e11 m + e02 m * e12 m = 0 \<and>
     e10 m * e20 m + e11 m * e21 m + e12 m * e22 m = 0 \<and> e20 m * e00 m + e21 m * e01 m + e22 m * e02 m = 0"

lemma InverseRotTransScale_inverse:
  assumes "affine m" "orthogonal_rows m" and "InverseRotTransScale m = Inr n"
  shows "inverse_of m n"
proof -
  obtain a b c p d e f q g h i r x y z s where m: "m = CMatrix4x4 a b c p d e f q g h i r x y z s"
    by (cases m)
  have z: "p = 0" "q = 0" "r = 0" "s = 1" using assms(1) by (simp_all add: m affine_def)
  define X Y Z where "X = 1 / (a * a + b * b + c * c)" "Y = 1 / (d * d + e * e + f * f)" "Z = 1 / (g * g + h * h + i * i)"
  have nz: "a * a + b * b + c * c \<noteq> 0" "d * d + e * e + f * f \<noteq> 0" "g * g + h * h + i * i \<noteq> 0"
    using assms(3) by (auto simp: m InverseRotTransScale_def Let_def nonzero split: if_splits)
  then have inv: "X * (a * a + b * b + c * c) = 1" "Y * (d * d + e * e + f * f) = 1" "Z * (g * g + h * h + i * i) = 1"
    by (simp_all add: X_Y_Z_def)
  have o: "a * d + b * e + c * f = 0" "d * g + e * h + f * i = 0" "g * a + h * b + i * c = 0"
    using assms(2) by (simp_all add: orthogonal_rows_def m)
  have n: "n = CMatrix4x4 (a * X) (d * Y) (g * Z) 0 (b * X) (e * Y) (h * Z) 0 (c * X) (f * Y) (i * Z) 0
     (- x * (a * X) - y * (b * X) - z * (c * X)) (- x * (d * Y) - y * (e * Y) - z * (f * Y))
     (- x * (g * Z) - y * (h * Z) - z * (i * Z)) 1"
    using assms(3) by (auto simp: m InverseRotTransScale_def Let_def X_Y_Z_def split: if_splits)
  have "m * n = 1"
    unfolding times_matrix4_def one_matrix4_def mat_mul_def mat_identity_def n m z matrix4.sel matrix4.inject
    by (intro conjI) ((use inv o in \<open>algebra\<close>) | simp)+
  moreover have "(det3 m)\<^sup>2 = (a * a + b * b + c * c) * (d * d + e * e + f * f) * (g * g + h * h + i * i)"
    using det3_gram [of m] o by (simp add: m Dot_def LengthSquared_def)
  then have "det3 m \<noteq> 0" using nz by auto
  ultimately show ?thesis using affine_invertible [OF assms(1)] right_inverse by blast
qed

lemma InverseRotTrans_inverse:
  assumes "affine m" "orthogonal_rows m" and "GetScale m = CVector3 1 1 1"
  shows "inverse_of m (InverseRotTrans m)"
proof -
  have one: "e00 m * e00 m + e01 m * e01 m + e02 m * e02 m = 1" "e10 m * e10 m + e11 m * e11 m + e12 m * e12 m = 1"
    "e20 m * e20 m + e21 m * e21 m + e22 m * e22 m = 1"
    using assms(3) by (simp_all add: GetScale_def)
  then have "InverseRotTransScale m = Inr (InverseRotTrans m)"
    by (simp add: InverseRotTransScale_def InverseRotTrans_def Let_def IsZero_def kfEpsilon_def)
  then show ?thesis by (rule InverseRotTransScale_inverse [OF assms(1,2)])
qed

text \<open>The general inverse: the cofactors along a row give the determinant, along another row zero.\<close>

definition cof :: "matrix4 \<Rightarrow> nat \<Rightarrow> nat \<Rightarrow> float32" where
  "cof m i j = (case Cofactor m i j of Inr c \<Rightarrow> c | Inl _ \<Rightarrow> 0)"

lemma cof_values:
  "cof m 0 0 = e11 m * (e22 m * e33 m - e23 m * e32 m) + e12 m * (e23 m * e31 m - e21 m * e33 m) + e13 m * (e21 m * e32 m - e22 m * e31 m)"
  "cof m 0 1 = - (e10 m * (e22 m * e33 m - e23 m * e32 m) + e12 m * (e23 m * e30 m - e20 m * e33 m) + e13 m * (e20 m * e32 m - e22 m * e30 m))"
  "cof m 0 2 = e10 m * (e21 m * e33 m - e23 m * e31 m) + e11 m * (e23 m * e30 m - e20 m * e33 m) + e13 m * (e20 m * e31 m - e21 m * e30 m)"
  "cof m 0 3 = - (e10 m * (e21 m * e32 m - e22 m * e31 m) + e11 m * (e22 m * e30 m - e20 m * e32 m) + e12 m * (e20 m * e31 m - e21 m * e30 m))"
  "cof m 1 0 = - (e01 m * (e22 m * e33 m - e23 m * e32 m) + e02 m * (e23 m * e31 m - e21 m * e33 m) + e03 m * (e21 m * e32 m - e22 m * e31 m))"
  "cof m 1 1 = e00 m * (e22 m * e33 m - e23 m * e32 m) + e02 m * (e23 m * e30 m - e20 m * e33 m) + e03 m * (e20 m * e32 m - e22 m * e30 m)"
  "cof m 1 2 = - (e00 m * (e21 m * e33 m - e23 m * e31 m) + e01 m * (e23 m * e30 m - e20 m * e33 m) + e03 m * (e20 m * e31 m - e21 m * e30 m))"
  "cof m 1 3 = e00 m * (e21 m * e32 m - e22 m * e31 m) + e01 m * (e22 m * e30 m - e20 m * e32 m) + e02 m * (e20 m * e31 m - e21 m * e30 m)"
  "cof m 2 0 = e01 m * (e12 m * e33 m - e13 m * e32 m) + e02 m * (e13 m * e31 m - e11 m * e33 m) + e03 m * (e11 m * e32 m - e12 m * e31 m)"
  "cof m 2 1 = - (e00 m * (e12 m * e33 m - e13 m * e32 m) + e02 m * (e13 m * e30 m - e10 m * e33 m) + e03 m * (e10 m * e32 m - e12 m * e30 m))"
  "cof m 2 2 = e00 m * (e11 m * e33 m - e13 m * e31 m) + e01 m * (e13 m * e30 m - e10 m * e33 m) + e03 m * (e10 m * e31 m - e11 m * e30 m)"
  "cof m 2 3 = - (e00 m * (e11 m * e32 m - e12 m * e31 m) + e01 m * (e12 m * e30 m - e10 m * e32 m) + e02 m * (e10 m * e31 m - e11 m * e30 m))"
  "cof m 3 0 = - (e01 m * (e12 m * e23 m - e13 m * e22 m) + e02 m * (e13 m * e21 m - e11 m * e23 m) + e03 m * (e11 m * e22 m - e12 m * e21 m))"
  "cof m 3 1 = e00 m * (e12 m * e23 m - e13 m * e22 m) + e02 m * (e13 m * e20 m - e10 m * e23 m) + e03 m * (e10 m * e22 m - e12 m * e20 m)"
  "cof m 3 2 = - (e00 m * (e11 m * e23 m - e13 m * e21 m) + e01 m * (e13 m * e20 m - e10 m * e23 m) + e03 m * (e10 m * e21 m - e11 m * e20 m))"
  "cof m 3 3 = e00 m * (e11 m * e22 m - e12 m * e21 m) + e01 m * (e12 m * e20 m - e10 m * e22 m) + e02 m * (e10 m * e21 m - e11 m * e20 m)"
  by (simp_all add: cof_def Cofactor_def mat_at_simps [unfolded One_nat_def])

lemma Inverse_cof:
  "Inverse m = (let det = e00 m * cof m 0 0 + e01 m * cof m 0 1 + e02 m * cof m 0 2 + e03 m * cof m 0 3
     in if IsZero det then Inl Fatal_Exception else Inr (mat_fill (\<lambda>i j. 1 / det * cof m j i)))"
  by (simp add: Inverse_def cof_def Let_def)

lemma Inverse_inverse:
  assumes "Inverse m = Inr n"
  shows "inverse_of m n"
proof -
  obtain a b c p d e f q g h i r x y z s where m: "m = CMatrix4x4 a b c p d e f q g h i r x y z s"
    by (cases m)
  define D where "D = e00 m * cof m 0 0 + e01 m * cof m 0 1 + e02 m * cof m 0 2 + e03 m * cof m 0 3"
  define v where "v = 1 / D"
  have "\<not> IsZero D" using assms by (auto simp: Inverse_cof D_def Let_def split: if_splits)
  then have v: "v * D = 1" using nonzero by (simp add: v_def)
  have n: "n = mat_fill (\<lambda>i j. v * cof m j i)"
    using assms by (auto simp: Inverse_cof D_def v_def Let_def split: if_splits)
  note e = v [unfolded D_def cof_values m matrix4.sel]
  show ?thesis
    unfolding inverse_of_def times_matrix4_def one_matrix4_def mat_mul_def mat_identity_def n mat_fill_def
      cof_values m matrix4.sel matrix4.inject
    by (intro conjI) (use e in \<open>algebra\<close>)+
qed

section \<open>Rotations\<close>

abbreviation "origin \<equiv> CVector3 0 0 0"
abbreviation "unscaled \<equiv> CVector3 1 1 1"

text \<open>The order of the comment in the code: scale, then rotate, then move.\<close>

lemma mat_quaternion_product:
  "mat_quaternion q p s = MatrixScaling s * mat_quaternion q origin unscaled * MatrixTranslation p"
  by (simp add: mat_quaternion_def MatrixScaling_def MatrixTranslation_def times_matrix4_def mat_mul_def Let_def)

lemma unit_algebra: "NormSquared q = 1 \<longleftrightarrow> q_w q * q_w q + q_x q * q_x q + q_y q * q_y q + q_z q * q_z q = 1"
  by (simp add: NormSquared_def)

lemma mat_quaternion_mul:
  assumes "NormSquared a = 1" "NormSquared b = 1"
  shows "mat_quaternion (quat_mul a b) origin unscaled = mat_quaternion a origin unscaled * mat_quaternion b origin unscaled"
proof -
  obtain w x y z t u v r where q: "a = CQuaternion w x y z" "b = CQuaternion t u v r" by (cases a; cases b)
  have e: "w * w + x * x + y * y + z * z = 1" "t * t + u * u + v * v + r * r = 1"
    using assms by (simp_all add: NormSquared_def q)
  show ?thesis
    unfolding times_matrix4_def mat_mul_def mat_quaternion_def Let_def mul_components q quaternion.sel vector3.sel
      matrix4.sel matrix4.inject
    by (intro conjI) ((use e in \<open>algebra\<close>) | simp)+
qed

lemma mat_quaternion_rotate:
  assumes "NormSquared q = 1"
  shows "TransformVector (mat_quaternion q p unscaled) v = Rotate q v"
proof -
  obtain w x y z where q: "q = CQuaternion w x y z" by (cases q)
  have e: "w * w + x * x + y * y + z * z = 1" using assms by (simp add: NormSquared_def q)
  show ?thesis
    by (rule vector3_eqI)
      (simp_all only: TransformVector_def mat_quaternion_def Let_def rotate_components q quaternion.sel vector3.sel
        matrix4.sel; use e in algebra)+
qed

lemma MatrixRotation_products:
  "MatrixRotation a kXYZ = MatrixRotationX (v_x a) * MatrixRotationY (v_y a) * MatrixRotationZ (v_z a)"
  "MatrixRotation a kXZY = MatrixRotationX (v_x a) * MatrixRotationZ (v_z a) * MatrixRotationY (v_y a)"
  "MatrixRotation a kYZX = MatrixRotationY (v_y a) * MatrixRotationZ (v_z a) * MatrixRotationX (v_x a)"
  "MatrixRotation a kYXZ = MatrixRotationY (v_y a) * MatrixRotationX (v_x a) * MatrixRotationZ (v_z a)"
  "MatrixRotation a kZXY = MatrixRotationZ (v_z a) * MatrixRotationX (v_x a) * MatrixRotationY (v_y a)"
  "MatrixRotation a kZYX = MatrixRotationZ (v_z a) * MatrixRotationY (v_y a) * MatrixRotationX (v_x a)"
  by (simp_all add: MatrixRotation_def MatrixRotationX_def MatrixRotationY_def MatrixRotationZ_def
    SinCos_def times_matrix4_def mat_mul_def)

end
