(* ===== verification/Matrix_Decompose.thy ===== *)
theory Matrix_Decompose
  imports Matrix_Laws
begin

text \<open>
  Taking an affine matrix apart (CMatrix4x4.cpp, CQuaternion.cpp): position, scale, and the rotation
  as a quaternion or as three angles. A pointer the caller may leave null is a flag where it decides
  whether the assertion on the scale runs. The angle functions of the platform have the values of
  the real ones: \<open>atan2f\<close> is the argument of a complex number.
\<close>

section \<open>Decomposition\<close>

definition ATan :: "float32 \<Rightarrow> float32 \<Rightarrow> float32" where
  "ATan x y = Arg (Complex y x)"

text \<open>
  The rotation of a matrix whose rows have the given lengths, by the sign of the trace and the
  largest diagonal element.
\<close>

definition extract_quat :: "matrix4 \<Rightarrow> float32 \<Rightarrow> float32 \<Rightarrow> float32 \<Rightarrow> quaternion res" where
  "extract_quat m scaleX scaleY scaleZ =
     (if \<not> (\<not> IsZero scaleX \<and> \<not> IsZero scaleY \<and> \<not> IsZero scaleZ) then Inl Fatal_Exception
      else
        let invScaleX = 1 / scaleX; invScaleY = 1 / scaleY; invScaleZ = 1 / scaleZ;
            diagX = e00 m * invScaleX; diagY = e11 m * invScaleY; diagZ = e22 m * invScaleZ;
            trace = diagX + diagY + diagZ
        in Inr
          (if 0 < trace then
             let s = sqrt (trace + 1); invS = (1 / 2) / s
             in CQuaternion (s * (1 / 2))
                  ((e12 m * invScaleY - e21 m * invScaleZ) * invS)
                  ((e20 m * invScaleZ - e02 m * invScaleX) * invS)
                  ((e01 m * invScaleX - e10 m * invScaleY) * invS)
           else if diagY < diagX \<and> diagZ < diagX then
             let maxAxis = sqrt (diagX - diagY - diagZ + 1); invMaxAxis = (1 / 2) / maxAxis
             in CQuaternion ((e12 m * invScaleY - e21 m * invScaleZ) * invMaxAxis)
                  ((1 / 2) * maxAxis)
                  ((e01 m * invScaleX + e10 m * invScaleY) * invMaxAxis)
                  ((e20 m * invScaleZ + e02 m * invScaleX) * invMaxAxis)
           else if \<not> diagY < diagX \<and> diagZ < diagY then
             let maxAxis = sqrt (diagY - diagZ - diagX + 1); invMaxAxis = (1 / 2) / maxAxis
             in CQuaternion ((e20 m * invScaleZ - e02 m * invScaleX) * invMaxAxis)
                  ((e01 m * invScaleX + e10 m * invScaleY) * invMaxAxis)
                  ((1 / 2) * maxAxis)
                  ((e12 m * invScaleY + e21 m * invScaleZ) * invMaxAxis)
           else
             let maxAxis = sqrt (diagZ - diagX - diagY + 1); invMaxAxis = (1 / 2) / maxAxis
             in CQuaternion ((e01 m * invScaleX - e10 m * invScaleY) * invMaxAxis)
                  ((e20 m * invScaleZ + e02 m * invScaleX) * invMaxAxis)
                  ((e12 m * invScaleY + e21 m * invScaleZ) * invMaxAxis)
                  ((1 / 2) * maxAxis)))"

definition quat_of_matrix :: "matrix4 \<Rightarrow> quaternion res" where
  "quat_of_matrix m =
     extract_quat m (sqrt (e00 m * e00 m + e01 m * e01 m + e02 m * e02 m))
       (sqrt (e10 m * e10 m + e11 m * e11 m + e12 m * e12 m))
       (sqrt (e20 m * e20 m + e21 m * e21 m + e22 m * e22 m))"

definition DecomposeAffineQuaternion :: "matrix4 \<Rightarrow> bool \<Rightarrow> (vector3 \<times> quaternion option \<times> vector3) res" where
  "DecomposeAffineQuaternion m wantQuat =
     (let scale = GetScale m in
      if wantQuat then
        res_bind (extract_quat m (v_x scale) (v_y scale) (v_z scale)) (\<lambda>q. Inr (GetPosition m, Some q, scale))
      else Inr (GetPosition m, None, scale))"

definition DecomposeAffineEuler ::
  "matrix4 \<Rightarrow> rotation_order \<Rightarrow> bool \<Rightarrow> (vector3 \<times> vector3 option \<times> vector3) res" where
  "DecomposeAffineEuler m eRotOrder wantAngles =
     (let scale = GetScale m; scaleX = v_x scale; scaleY = v_y scale; scaleZ = v_z scale in
      if \<not> wantAngles then Inr (GetPosition m, None, scale)
      else if \<not> (\<not> IsZero scaleX \<and> \<not> IsZero scaleY \<and> \<not> IsZero scaleZ) then Inl Fatal_Exception
      else
        let invScaleX = 1 / scaleX; invScaleY = 1 / scaleY; invScaleZ = 1 / scaleZ;
            (sX, cX, sY, cY, sZ, cZ) = (case eRotOrder of
            kZYX \<Rightarrow>
              (let sY = e20 m * invScaleX; cY = sqrt (1 - sY * sY)
               in if \<not> IsZero cY then
                 (let invCY = 1 / cY;
                   sZ = - e10 m * invCY * invScaleY;
                   cZ = e00 m * invCY * invScaleX;
                   sX = - e21 m * invCY * invScaleZ;
                   cX = e22 m * invCY * invScaleZ
                  in (sX, cX, sY, cY, sZ, cZ))
               else
                 (let sZ = 0;
                   cZ = 1;
                   sX = e12 m * invScaleY;
                   cX = e11 m * invScaleY
                  in (sX, cX, sY, cY, sZ, cZ)))
          | kYZX \<Rightarrow>
              (let sZ = - e10 m * invScaleY; cZ = sqrt (1 - sZ * sZ)
               in if \<not> IsZero cZ then
                 (let invCZ = 1 / cZ;
                   sY = e20 m * invCZ * invScaleZ;
                   cY = e00 m * invCZ * invScaleX;
                   sX = e12 m * invCZ * invScaleY;
                   cX = e11 m * invCZ * invScaleY
                  in (sX, cX, sY, cY, sZ, cZ))
               else
                 (let sY = 0;
                   cY = 1;
                   sX = - e21 m * invScaleZ;
                   cX = e22 m * invScaleZ
                  in (sX, cX, sY, cY, sZ, cZ)))
          | kXZY \<Rightarrow>
              (let sZ = e01 m * invScaleX; cZ = sqrt (1 - sZ * sZ)
               in if \<not> IsZero cZ then
                 (let invCZ = 1 / cZ;
                   sX = - e21 m * invCZ * invScaleZ;
                   cX = e11 m * invCZ * invScaleY;
                   sY = - e02 m * invCZ * invScaleX;
                   cY = e00 m * invCZ * invScaleX
                  in (sX, cX, sY, cY, sZ, cZ))
               else
                 (let sX = 0;
                   cX = 1;
                   sY = e20 m * invScaleZ;
                   cY = e22 m * invScaleZ
                  in (sX, cX, sY, cY, sZ, cZ)))
          | kZXY \<Rightarrow>
              (let sX = - e21 m * invScaleZ; cX = sqrt (1 - sX * sX)
               in if \<not> IsZero cX then
                 (let invCX = 1 / cX;
                   sZ = e01 m * invCX * invScaleX;
                   cZ = e11 m * invCX * invScaleY;
                   sY = e20 m * invCX * invScaleZ;
                   cY = e22 m * invCX * invScaleZ
                  in (sX, cX, sY, cY, sZ, cZ))
               else
                 (let sZ = 0;
                   cZ = 1;
                   sY = - e02 m * invScaleX;
                   cY = e00 m * invScaleX
                  in (sX, cX, sY, cY, sZ, cZ)))
          | kYXZ \<Rightarrow>
              (let sX = e12 m * invScaleY; cX = sqrt (1 - sX * sX)
               in if \<not> IsZero cX then
                 (let invCX = 1 / cX;
                   sY = - e02 m * invCX * invScaleX;
                   cY = e22 m * invCX * invScaleZ;
                   sZ = - e10 m * invCX * invScaleY;
                   cZ = e11 m * invCX * invScaleY
                  in (sX, cX, sY, cY, sZ, cZ))
               else
                 (let sY = 0;
                   cY = 1;
                   sZ = e01 m * invScaleX;
                   cZ = e00 m * invScaleX
                  in (sX, cX, sY, cY, sZ, cZ)))
          | kXYZ \<Rightarrow>
              (let sY = - e02 m * invScaleX; cY = sqrt (1 - sY * sY)
               in if \<not> IsZero cY then
                 (let invCY = 1 / cY;
                   sX = e12 m * invCY * invScaleY;
                   cX = e22 m * invCY * invScaleZ;
                   sZ = e01 m * invCY * invScaleX;
                   cZ = e00 m * invCY * invScaleX
                  in (sX, cX, sY, cY, sZ, cZ))
               else
                 (let sX = 0;
                   cX = 1;
                   sZ = - e10 m * invScaleY;
                   cZ = e11 m * invScaleY
                  in (sX, cX, sY, cY, sZ, cZ))))
        in Inr (GetPosition m, Some (CVector3 (ATan sX cX) (ATan sY cY) (ATan sZ cZ)), scale))"

section \<open>Quaternions\<close>

lemma row_length:
  assumes "0 \<le> s" "a * a + b * b + c * c = 1"
  shows "sqrt ((s * a) * (s * a) + (s * b) * (s * b) + (s * c) * (s * c)) = s"
proof -
  have "(s * a) * (s * a) + (s * b) * (s * b) + (s * c) * (s * c) = s\<^sup>2"
    using assms(2) by algebra
  then show ?thesis using assms(1) by simp
qed

definition positive_scale :: "vector3 \<Rightarrow> bool" where
  "positive_scale s \<longleftrightarrow> kfEpsilon \<le> v_x s \<and> kfEpsilon \<le> v_y s \<and> kfEpsilon \<le> v_z s"

lemma positive_scaleD:
  assumes "positive_scale s"
  shows "0 < v_x s" "0 < v_y s" "0 < v_z s" "\<not> IsZero (v_x s)" "\<not> IsZero (v_y s)" "\<not> IsZero (v_z s)"
  using assms by (auto simp: positive_scale_def IsZero_def kfEpsilon_def)

lemma GetScale_quaternion:
  assumes "NormSquared q = 1" "positive_scale s"
  shows "GetScale (mat_quaternion q p s) = s"
proof -
  obtain w x y z where q: "q = CQuaternion w x y z" by (cases q)
  have n: "w * w + x * x + y * y + z * z = 1" using assms(1) by (simp add: NormSquared_def q)
  note pos = positive_scaleD(1-3) [OF assms(2), THEN less_imp_le]
  show ?thesis
    unfolding GetScale_def mat_quaternion_def Let_def matrix4.sel q quaternion.sel
    by (rule vector3_eqI; unfold vector3.sel; rule row_length) (use pos in simp, use n in algebra)+
qed

lemma sqrt_square4: "a = 4 * (x * x) \<Longrightarrow> sqrt a = 2 * \<bar>x :: real\<bar>"
  by (rule real_sqrt_unique) (simp_all add: power2_eq_square)

lemma half_quotient: "x \<noteq> 0 \<Longrightarrow> a = 4 * (x * b) \<Longrightarrow> a * (1 / 2 / (2 * \<bar>x\<bar>)) = (b :: real) * sgn x"
  by (simp add: sgn_if)


text \<open>The branches of \<open>extract_quat\<close> on the elements of the rotation, and the value of each.\<close>

definition branch_quat :: "float32 \<Rightarrow> float32 \<Rightarrow> float32 \<Rightarrow> float32 \<times> float32 \<Rightarrow> float32 \<times> float32 \<Rightarrow> float32 \<times> float32 \<Rightarrow> quaternion" where
  "branch_quat dx dy dz yz zx xy =
     (let w = fst yz - snd yz; v = fst zx - snd zx; u = fst xy - snd xy in
      if 0 < dx + dy + dz then
        let s = sqrt (dx + dy + dz + 1); i = (1 / 2) / s in CQuaternion (s * (1 / 2)) (w * i) (v * i) (u * i)
      else if dy < dx \<and> dz < dx then
        let s = sqrt (dx - dy - dz + 1); i = (1 / 2) / s
        in CQuaternion (w * i) ((1 / 2) * s) ((fst xy + snd xy) * i) ((fst zx + snd zx) * i)
      else if \<not> dy < dx \<and> dz < dy then
        let s = sqrt (dy - dz - dx + 1); i = (1 / 2) / s
        in CQuaternion (v * i) ((fst xy + snd xy) * i) ((1 / 2) * s) ((fst yz + snd yz) * i)
      else
        let s = sqrt (dz - dx - dy + 1); i = (1 / 2) / s
        in CQuaternion (u * i) ((fst zx + snd zx) * i) ((fst yz + snd yz) * i) ((1 / 2) * s))"

lemma extract_quat_branch:
  "\<not> IsZero a \<Longrightarrow> \<not> IsZero b \<Longrightarrow> \<not> IsZero c \<Longrightarrow> extract_quat m a b c =
   Inr (branch_quat (e00 m / a) (e11 m / b) (e22 m / c) (e12 m / b, e21 m / c) (e20 m / c, e02 m / a) (e01 m / a, e10 m / b))"
  by (simp only: extract_quat_def branch_quat_def Let_def times_divide_eq_right mult_1_right fst_conv snd_conv
    if_False not_not simp_thms)

lemma branch_quat_rotation:
  assumes e: "w * w + x * x + y * y + z * z = (1 :: real)"
  shows "\<exists>c \<in> {1, - 1}. branch_quat (1 - 2 * y * y - 2 * z * z) (1 - 2 * x * x - 2 * z * z) (1 - 2 * x * x - 2 * y * y)
    (2 * y * z + 2 * w * x, 2 * y * z - 2 * w * x) (2 * z * x + 2 * w * y, 2 * z * x - 2 * w * y)
    (2 * x * y + 2 * w * z, 2 * x * y - 2 * w * z) = quat_scale c (CQuaternion w x y z)"
    (is "\<exists>c \<in> _. branch_quat ?dx ?dy ?dz ?yz ?zx ?xy = _")
proof -
  have sgn: "a \<noteq> 0 \<Longrightarrow> sgn a \<in> {1, - 1}" for a :: real by (simp add: sgn_if)
  have less: "?dy < ?dx \<longleftrightarrow> y * y < x * x" "?dz < ?dx \<longleftrightarrow> z * z < x * x" "?dz < ?dy \<longleftrightarrow> z * z < y * y" by auto
  have roots: "sqrt (?dx + ?dy + ?dz + 1) = 2 * \<bar>w\<bar>" "sqrt (?dx - ?dy - ?dz + 1) = 2 * \<bar>x\<bar>"
    "sqrt (?dy - ?dz - ?dx + 1) = 2 * \<bar>y\<bar>" "sqrt (?dz - ?dx - ?dy + 1) = 2 * \<bar>z\<bar>"
    by (rule sqrt_square4, use e in \<open>simp add: algebra_simps\<close>)+
  have own: "1 / 2 * (2 * \<bar>a\<bar>) = a * sgn a" "2 * \<bar>a\<bar> * (1 / 2) = a * sgn a" for a :: real by (simp_all add: sgn_if)
  have w: "w \<noteq> 0" if "0 < ?dx + ?dy + ?dz" using that e by auto
  have z: "z \<noteq> 0" if "\<not> 0 < ?dx + ?dy + ?dz" "\<not> (y * y < x * x \<and> z * z < x * x)" "\<not> (\<not> y * y < x * x \<and> z * z < y * y)"
  proof
    assume "z = 0"
    with that(2,3) have "y * y \<le> 0" "x * x \<le> 0" by (auto simp: not_less)
    then have "x = 0" "y = 0" using mult_le_0_iff [of x x] mult_le_0_iff [of y y] by auto
    with that(1) \<open>z = 0\<close> show False by simp
  qed
  have goal: "P = quat_scale (sgn a) (CQuaternion w x y z) \<Longrightarrow> a \<noteq> 0 \<Longrightarrow> ?thesis"
    if "branch_quat ?dx ?dy ?dz ?yz ?zx ?xy = P" for P a using that sgn [of a] by metis
  note branch = branch_quat_def Let_def fst_conv snd_conv less roots own quat_scale_def quaternion.sel
  consider "0 < ?dx + ?dy + ?dz" | "\<not> 0 < ?dx + ?dy + ?dz" "y * y < x * x \<and> z * z < x * x"
    | "\<not> 0 < ?dx + ?dy + ?dz" "\<not> (y * y < x * x \<and> z * z < x * x)" "\<not> y * y < x * x \<and> z * z < y * y"
    | "\<not> 0 < ?dx + ?dy + ?dz" "\<not> (y * y < x * x \<and> z * z < x * x)" "\<not> (\<not> y * y < x * x \<and> z * z < y * y)" by blast
  then show ?thesis
  proof cases
    case 1
    show ?thesis
      by (rule goal [OF refl _ w [OF 1]], simp only: branch 1 if_True quaternion.inject, intro conjI refl)
        (rule half_quotient [OF w [OF 1]] mult.commute; simp)+
  next
    case 2
    then have nz: "x \<noteq> 0" by auto
    show ?thesis
      by (rule goal [OF refl _ nz], simp only: branch 2 simp_thms if_True if_False quaternion.inject, intro conjI refl)
        (rule half_quotient [OF nz]; simp)+
  next
    case 3
    then have nz: "y \<noteq> 0" by auto
    show ?thesis
      by (rule goal [OF refl _ nz], simp only: branch 3 simp_thms if_True if_False quaternion.inject, intro conjI refl)
        (rule half_quotient [OF nz]; simp)+
  next
    case 4
    show ?thesis
      by (rule goal [OF refl _ z [OF 4]], simp only: branch 4 if_True if_False quaternion.inject, intro conjI refl)
        (rule half_quotient [OF z [OF 4]]; simp)+
  qed
qed

lemma extract_quat_quaternion:
  assumes n: "NormSquared q = 1" and pos: "positive_scale s"
  shows "\<exists>c \<in> {1, - 1}. extract_quat (mat_quaternion q p s) (v_x s) (v_y s) (v_z s) = Inr (quat_scale c q)"
proof -
  obtain w x y z where q: "q = CQuaternion w x y z" by (cases q)
  have e: "w * w + x * x + y * y + z * z = 1" using n by (simp add: NormSquared_def q)
  have cancel: "v_x s * a / v_x s = a" "v_y s * a / v_y s = a" "v_z s * a / v_z s = a" for a
    using positive_scaleD [OF pos] by simp_all
  have b: "2 * y * z + w * (2 * x) = 2 * y * z + 2 * w * x" "2 * y * z - w * (2 * x) = 2 * y * z - 2 * w * x"
    "2 * z * x + w * (2 * y) = 2 * z * x + 2 * w * y" "2 * z * x - w * (2 * y) = 2 * z * x - 2 * w * y"
    "2 * x * y + w * (2 * z) = 2 * x * y + 2 * w * z" "2 * x * y - w * (2 * z) = 2 * x * y - 2 * w * z"
    by simp_all
  show ?thesis
    unfolding extract_quat_branch [OF positive_scaleD(4-6) [OF pos]] mat_quaternion_def Let_def q quaternion.sel
      matrix4.sel cancel b
    using branch_quat_rotation [OF e] by auto
qed

lemma decompose_quaternion:
  assumes "NormSquared q = 1" "positive_scale s"
  shows "\<exists>c \<in> {1, - 1}. DecomposeAffineQuaternion (mat_quaternion q p s) True = Inr (p, Some (quat_scale c q), s)"
proof -
  have "GetPosition (mat_quaternion q p s) = p" by (simp add: GetPosition_def mat_quaternion_def Let_def)
  then show ?thesis
    using extract_quat_quaternion [OF assms, of p] GetScale_quaternion [OF assms, of p]
    by (auto simp: DecomposeAffineQuaternion_def Let_def)
qed

section \<open>Angles\<close>

lemma ATan_angle: "- pi < a \<Longrightarrow> a \<le> pi \<Longrightarrow> ATan (sin a) (cos a) = a"
  using cis_Arg_unique [of "cis a" a] by (simp add: ATan_def flip: cis.ctr)

definition middle_angle :: "rotation_order \<Rightarrow> vector3 \<Rightarrow> float32" where
  "middle_angle r a = (if r \<in> {kXYZ, kZYX} then v_y a else if r \<in> {kYXZ, kZXY} then v_x a else v_z a)"

text \<open>Angles a decomposition can return: within a turn, and the middle one not at a right angle.\<close>

definition regular_angles :: "rotation_order \<Rightarrow> vector3 \<Rightarrow> bool" where
  "regular_angles r a \<longleftrightarrow> v_x a \<in> {- pi<..pi} \<and> v_y a \<in> {- pi<..pi} \<and> v_z a \<in> {- pi<..pi} \<and>
     \<bar>middle_angle r a\<bar> < pi / 2 \<and> kfEpsilon \<le> cos (middle_angle r a)"

lemma sin_cos_one: "sin t * sin t + cos t * cos t = (1 :: real)"
  by (simp flip: power2_eq_square)

lemma rotation_rows:
  fixes a :: vector3 and r :: rotation_order
  defines "m \<equiv> MatrixRotation a r"
  shows "e00 m * e00 m + e01 m * e01 m + e02 m * e02 m = 1"
    "e10 m * e10 m + e11 m * e11 m + e12 m * e12 m = 1"
    "e20 m * e20 m + e21 m * e21 m + e22 m * e22 m = 1"
proof -
  obtain sX cX sY cY sZ cZ where f: "sin (v_x a) = sX" "cos (v_x a) = cX" "sin (v_y a) = sY" "cos (v_y a) = cY"
    "sin (v_z a) = sZ" "cos (v_z a) = cZ" by blast
  note one = sin_cos_one [of "v_x a", unfolded f] sin_cos_one [of "v_y a", unfolded f] sin_cos_one [of "v_z a", unfolded f]
  show "e00 m * e00 m + e01 m * e01 m + e02 m * e02 m = 1"
    by (cases r; simp only: m_def MatrixRotation_def SinCos_def Let_def prod.case rotation_order.case matrix4.sel f;
      thin_tac "r = _"; use one in algebra)
  show "e10 m * e10 m + e11 m * e11 m + e12 m * e12 m = 1"
    by (cases r; simp only: m_def MatrixRotation_def SinCos_def Let_def prod.case rotation_order.case matrix4.sel f;
      thin_tac "r = _"; use one in algebra)
  show "e20 m * e20 m + e21 m * e21 m + e22 m * e22 m = 1"
    by (cases r; simp only: m_def MatrixRotation_def SinCos_def Let_def prod.case rotation_order.case matrix4.sel f;
      thin_tac "r = _"; use one in algebra)
qed

lemma GetScale_euler:
  assumes "positive_scale s"
  shows "GetScale (mat_euler p a r s) = s"
proof -
  have len: "0 \<le> s \<Longrightarrow> a * a + b * b + c * c = 1 \<Longrightarrow> sqrt ((a * s) * (a * s) + (b * s) * (b * s) + (c * s) * (c * s)) = s" for s a b c
    using row_length [of s a b c] by (simp add: mult.commute)
  show ?thesis
    unfolding GetScale_def mat_euler_def scale_rows_def matrix4.sel
    by (rule vector3_eqI; unfold vector3.sel; rule len)
      (use positive_scaleD(1-3) [OF assms] rotation_rows [of a r] in \<open>simp_all\<close>)
qed

lemma root_cos: "\<bar>t\<bar> < pi / 2 \<Longrightarrow> sqrt (1 - sin t * sin t) = cos t"
  by (rule real_sqrt_unique) (use cos_gt_zero_pi [of t] sin_cos_one [of t] in \<open>auto simp: power2_eq_square algebra_simps abs_less_iff less_imp_le\<close>)

lemma regular_anglesD:
  assumes "regular_angles r a"
  shows "ATan (sin (v_x a)) (cos (v_x a)) = v_x a" "ATan (sin (v_y a)) (cos (v_y a)) = v_y a"
    "ATan (sin (v_z a)) (cos (v_z a)) = v_z a"
    "sqrt (1 - sin (middle_angle r a) * sin (middle_angle r a)) = cos (middle_angle r a)"
    "\<not> IsZero (cos (middle_angle r a))" "cos (middle_angle r a) \<noteq> 0"
  using assms by (auto simp: regular_angles_def ATan_angle root_cos IsZero_def kfEpsilon_def)

lemma euler_elements:
  fixes p a s :: vector3 and r :: rotation_order
  defines "m \<equiv> mat_euler p a r s" and "d \<equiv> MatrixRotation a r"
  shows "e00 m = e00 d * v_x s" "e01 m = e01 d * v_x s" "e02 m = e02 d * v_x s"
    "e10 m = e10 d * v_y s" "e11 m = e11 d * v_y s" "e12 m = e12 d * v_y s"
    "e20 m = e20 d * v_z s" "e21 m = e21 d * v_z s" "e22 m = e22 d * v_z s" "GetPosition m = p"
  by (simp_all add: m_def d_def mat_euler_def scale_rows_def GetPosition_def)

lemma decompose_euler:
  assumes a: "regular_angles r a" and s: "positive_scale s" and r: "r = kZYX \<Longrightarrow> v_x s = v_z s"
  shows "DecomposeAffineEuler (mat_euler p a r s) r True = Inr (p, Some a, s)"
proof -
  note pos = positive_scaleD [OF s] and ang = regular_anglesD [OF a]
  show ?thesis
    using r pos ang
    by (cases r; simp add: DecomposeAffineEuler_def GetScale_euler [OF s] euler_elements Let_def MatrixRotation_def
      SinCos_def middle_angle_def)
qed

lemma ATan_root:
  assumes "- 1 \<le> t" "t \<le> 1"
  shows "ATan t (sqrt (1 - t * t)) = arcsin t"
proof -
  have "- pi < arcsin t" "arcsin t \<le> pi" using arcsin_bounded [OF assms] pi_gt_zero by linarith+
  from ATan_angle [OF this] show ?thesis using assms cos_arcsin [of t] by (simp add: power2_eq_square)
qed

lemma decompose_euler_kZYX:
  assumes s: "positive_scale s" and t: "t = sin (v_y a) * v_z s / v_x s" "- 1 \<le> t" "t \<le> 1"
  shows "\<exists>x z. DecomposeAffineEuler (mat_euler p a kZYX s) kZYX True = Inr (p, Some (CVector3 x (arcsin t) z), s)"
  using positive_scaleD(4-6) [OF s] ATan_root [OF t(2,3)]
  by (cases "IsZero (sqrt (1 - t * t))")
    (simp_all add: DecomposeAffineEuler_def GetScale_euler [OF s] euler_elements Let_def MatrixRotation_def SinCos_def flip: t(1))

end
