(* ===== verification/Matrix_Properties.thy ===== *)
theory Matrix_Properties
  imports Matrix_Decompose
begin

text \<open>
  Properties of the matrices: inverses, the agreement of the operations that compute the same thing,
  rotations, decompositions, facing a target. Before them, what the operations that set the scale or
  the axes of a matrix have in common.
\<close>

section \<open>Scale and axes\<close>

lemma InvSqrt_square: "0 < l \<Longrightarrow> (s * InvSqrt l)\<^sup>2 * l\<^sup>2 = (s * sqrt l)\<^sup>2"
  by (simp add: InvSqrt_def power_mult_distrib power_divide) (simp add: power2_eq_square)

lemma rescaled_row:
  assumes "0 \<le> s" "kfEpsilon \<le> sqrt (a * a + b * b + c * c)"
  defines "f \<equiv> rescale_factor s a b c"
  shows "sqrt ((a * f) * (a * f) + (b * f) * (b * f) + (c * f) * (c * f)) = s * sqrt (sqrt (a * a + b * b + c * c))"
proof -
  let ?l = "sqrt (a * a + b * b + c * c)"
  have l: "0 < ?l" by (rule less_le_trans [OF _ assms(2)]) (simp add: kfEpsilon_def)
  have "\<not> IsZero ?l" using assms(2) by (auto simp: IsZero_def)
  then have f: "f = s * InvSqrt ?l" by (simp add: f_def rescale_factor_def Let_def)
  have "(a * f) * (a * f) + (b * f) * (b * f) + (c * f) * (c * f) = f\<^sup>2 * ?l\<^sup>2"
    by (simp add: algebra_simps power2_eq_square add_nonneg_nonneg)
  also have "\<dots> = (s * sqrt ?l)\<^sup>2" unfolding f by (rule InvSqrt_square [OF l])
  finally show ?thesis using assms(1) by simp
qed

lemma GetScale_SetScale:
  assumes "positive_scale (GetScale m)" "0 \<le> v_x s" "0 \<le> v_y s" "0 \<le> v_z s"
  shows "GetScale (SetScale s m) = CVector3 (v_x s * sqrt (v_x (GetScale m))) (v_y s * sqrt (v_y (GetScale m)))
    (v_z s * sqrt (v_z (GetScale m)))"
  using assms by (simp add: GetScale_def SetScale_def Let_def positive_scale_def rescaled_row)

text \<open>Three vectors of length one at right angles.\<close>

definition frame3 :: "vector3 \<Rightarrow> vector3 \<Rightarrow> vector3 \<Rightarrow> bool" where
  "frame3 x y z \<longleftrightarrow> Length x = 1 \<and> Length y = 1 \<and> Length z = 1 \<and> Dot x y = 0 \<and> Dot y z = 0 \<and> Dot z x = 0"

lemma Length_1: "Length v = 1 \<longleftrightarrow> LengthSquared v = 1"
  by (simp add: Length_sqrt)

lemma nonzero_Normalise:
  assumes "\<not> vec_IsZero (vec_Normalise v)"
  shows "v \<noteq> kZero"
  using assms by (auto simp: vec_Normalise_def kZero_def vec_IsZero_def IsZero_def kfEpsilon_def)

lemma Normalise_Length: "\<not> vec_IsZero (vec_Normalise v) \<Longrightarrow> Length (vec_Normalise v) = 1"
  by (simp add: nonzero_Normalise Normalise_unit)

lemma cross_frame:
  assumes "Length a = 1" "Length b = 1" "Dot a b = 0"
  shows "Length (Cross a b) = 1"
  using assms by (simp add: Length_1 lagrange_identity)

lemma Dot_commute: "Dot a b = Dot b a"
  by (simp add: Dot_def mult.commute)

lemma Normalise_Dot: "v \<noteq> kZero \<Longrightarrow> Dot a v = 0 \<Longrightarrow> Dot a (vec_Normalise v) = 0"
  by (simp add: Normalise_scale Dot_def vec_simps flip: distrib_left distrib_right add_divide_distrib)

lemma cross_cross:
  assumes "LengthSquared x = 1 \<and> Dot z x = 0"
  shows "Cross x (Cross z x) = z" "Cross x (Cross x z) = vec_neg z"
proof -
  have e: "v_x x * v_x x + v_y x * v_y x + v_z x * v_z x = 1" "v_x z * v_x x + v_y z * v_y x + v_z z * v_z x = 0"
    using assms by (simp_all add: LengthSquared_def Dot_def)
  show "Cross x (Cross z x) = z" "Cross x (Cross x z) = vec_neg z"
    by (rule vector3_eqI; unfold vec_simps; use e in algebra)+
qed

lemma facing_axes_frame:
  assumes "facing_axes f up bLH = Some (x, y, z)"
  shows "frame3 x y z" and "z = vec_Normalise (if bLH then f else vec_neg f)"
    and "Cross x y = (if bLH then z else vec_neg z)"
proof -
  note d = assms [unfolded facing_axes_def Let_def]
  show "z = vec_Normalise (if bLH then f else vec_neg f)" using d by (auto split: if_splits)
  have z: "Length z = 1" using d by (auto split: if_splits simp: Normalise_Length)
  have x: "Length x = 1 \<and> Dot z x = 0" using d
    by (auto split: if_splits intro!: Normalise_Dot nonzero_Normalise simp: Normalise_Length cross_orthogonal)
  have y: "y = (if bLH then Cross z x else Cross x z)" using d by (auto split: if_splits)
  then show "frame3 x y z" using x z
    by (auto simp: frame3_def cross_frame Dot_commute cross_orthogonal)
  show "Cross x y = (if bLH then z else vec_neg z)"
    using x by (simp add: y Length_1 cross_cross)
qed


text \<open>Three axes at a scale as the rows of a matrix, the position and the fourth column kept.\<close>

definition scaled_rows :: "vector3 \<Rightarrow> vector3 \<Rightarrow> vector3 \<Rightarrow> vector3 \<Rightarrow> matrix4 \<Rightarrow> matrix4" where
  "scaled_rows s x y z m = CMatrix4x4
     (v_x x * v_x s) (v_y x * v_x s) (v_z x * v_x s) (e03 m)
     (v_x y * v_y s) (v_y y * v_y s) (v_z y * v_y s) (e13 m)
     (v_x z * v_z s) (v_y z * v_z s) (v_z z * v_z s) (e23 m)
     (e30 m) (e31 m) (e32 m) (e33 m)"

lemma scaled_rows_frame:
  assumes "frame3 x y z"
  shows "0 \<le> v_x s \<Longrightarrow> 0 \<le> v_y s \<Longrightarrow> 0 \<le> v_z s \<Longrightarrow> GetScale (scaled_rows s x y z m) = s"
    "GetPosition (scaled_rows s x y z m) = GetPosition m" "orthogonal_rows (scaled_rows s x y z m)"
    "TransformVector (scaled_rows s x y z m) (CVector3 0 0 1) = vec_scale (v_z s) z"
proof -
  have len: "sqrt ((v_x a * s) * (v_x a * s) + (v_y a * s) * (v_y a * s) + (v_z a * s) * (v_z a * s)) = s"
    if "Length a = 1" "0 \<le> s" for a s
    using that row_length [of s "v_x a" "v_y a" "v_z a"] by (simp add: Length_def mult.commute [of _ s])
  show "0 \<le> v_x s \<Longrightarrow> 0 \<le> v_y s \<Longrightarrow> 0 \<le> v_z s \<Longrightarrow> GetScale (scaled_rows s x y z m) = s"
    using assms by (auto simp: GetScale_def scaled_rows_def frame3_def len)
  show "GetPosition (scaled_rows s x y z m) = GetPosition m" by (simp add: GetPosition_def scaled_rows_def)
  show "TransformVector (scaled_rows s x y z m) (CVector3 0 0 1) = vec_scale (v_z s) z"
    by (simp add: TransformVector_def scaled_rows_def vec_scale_def)
  show "orthogonal_rows (scaled_rows s x y z m)"
    using assms unfolding frame3_def orthogonal_rows_def scaled_rows_def vector3.sel matrix4.sel Dot_def
    by (elim conjE; intro conjI; algebra)
qed

lemma FaceDirection_rows: "FaceDirection d up bLH m =
  Inr (case facing_axes d up bLH of None \<Rightarrow> m | Some (x, y, z) \<Rightarrow> scaled_rows (GetScale m) x y z m)"
  by (simp add: FaceDirection_def scaled_rows_def SetRow_def Let_def mat_fill_def vec_scale_def
    mat_at_simps [unfolded One_nat_def] split: option.split)

lemma FaceTarget_FaceDirection: "FaceTarget t up bLH m = FaceDirection (vec_sub t (GetPosition m)) up bLH m"
  by (simp add: FaceTarget_def FaceDirection_def)

lemma InvSqrt_inverse: "0 < l \<Longrightarrow> InvSqrt l * InvSqrt l * l = 1"
  by (simp add: InvSqrt_def)

lemma not_IsZero_pos: "\<not> IsZero l \<Longrightarrow> 0 \<le> l \<Longrightarrow> 0 < l"
  by (auto simp: IsZero_def kfEpsilon_def)

text \<open>The Gram-Schmidt steps of the code, on the first two rows and their cross product.\<close>

lemma gram_schmidt:
  fixes a b c d e f X Y :: real
  defines "p \<equiv> d * (a * X) + e * (b * X) + f * (c * X)"
  defines "u \<equiv> CVector3 (a * X) (b * X) (c * X)"
    and "v \<equiv> CVector3 ((d - p * (a * X)) * Y) ((e - p * (b * X)) * Y) ((f - p * (c * X)) * Y)"
  assumes X: "X * X * (a * a + b * b + c * c) = 1"
    and Y: "Y * Y * ((d - p * (a * X)) * (d - p * (a * X)) + (e - p * (b * X)) * (e - p * (b * X)) +
      (f - p * (c * X)) * (f - p * (c * X))) = 1"
  shows "frame3 u v (Cross u v)"
proof -
  have u: "Length u = 1" unfolding Length_1 LengthSquared_def u_def vector3.sel using X by algebra
  have v: "Length v = 1" unfolding Length_1 LengthSquared_def v_def vector3.sel using Y by algebra
  have "Dot u v = 0" unfolding Dot_def u_def v_def vector3.sel p_def using X by algebra
  then show ?thesis using u v by (simp add: frame3_def cross_frame cross_orthogonal Dot_commute)
qed

lemma Orthogonalise_frame:
  assumes "Orthogonalise3x3 m s = Inr n"
  shows "\<exists>x y. frame3 x y (Cross x y) \<and> x = vec_scale (InvSqrt (LengthSquared (CVector3 (e00 m) (e01 m) (e02 m))))
    (CVector3 (e00 m) (e01 m) (e02 m)) \<and> n = scaled_rows s x y (Cross x y) m"
proof -
  obtain a b c d e f where r: "e00 m = a" "e01 m = b" "e02 m = c" "e10 m = d" "e11 m = e" "e12 m = f" by blast
  define X where "X = InvSqrt (a * a + b * b + c * c)"
  define p where "p = d * (a * X) + e * (b * X) + f * (c * X)"
  let ?l = "(d - p * (a * X)) * (d - p * (a * X)) + (e - p * (b * X)) * (e - p * (b * X)) + (f - p * (c * X)) * (f - p * (c * X))"
  define Y where "Y = InvSqrt ?l"
  let ?u = "CVector3 (a * X) (b * X) (c * X)"
  let ?v = "CVector3 ((d - p * (a * X)) * Y) ((e - p * (b * X)) * Y) ((f - p * (c * X)) * Y)"
  note o = assms [unfolded Orthogonalise3x3_def Let_def r, folded X_def, folded p_def, folded Y_def]
  have "\<not> IsZero (a * a + b * b + c * c)" "\<not> IsZero ?l" using o by (auto split: if_splits)
  then have "X * X * (a * a + b * b + c * c) = 1" "Y * Y * ?l = 1"
    unfolding X_def Y_def by (intro InvSqrt_inverse not_IsZero_pos; simp)+
  from gram_schmidt [OF this(1), of Y d e f, folded p_def, OF this(2)] have "frame3 ?u ?v (Cross ?u ?v)" .
  moreover have "n = scaled_rows s ?u ?v (Cross ?u ?v) m"
    using o by (auto simp: scaled_rows_def Cross_def split: if_splits)
  ultimately show ?thesis by (auto simp: r LengthSquared_def vec_scale_def simp flip: X_def)
qed

section \<open>Inverses and products\<close>

lemma Inverse_det: "Inverse m = (let d = e00 m * cof m 0 0 + e01 m * cof m 0 1 + e02 m * cof m 0 2 + e03 m * cof m 0 3 in
  if IsZero d then Inl Fatal_Exception else Inr (mat_fill (\<lambda>i j. 1 / d * cof m j i)))"
  by (simp add: Inverse_def cof_def Let_def)

lemma Inverse_affine:
  assumes "affine m"
  shows "Inverse m = InverseAffine m"
proof -
  have d: "e00 m * cof m 0 0 + e01 m * cof m 0 1 + e02 m * cof m 0 2 + e03 m * cof m 0 3 = det3 m"
    unfolding cof_values det3_def using assms by (simp add: affine_def algebra_simps)
  show ?thesis
  proof (cases "IsZero (det3 m)")
    case True
    then show ?thesis unfolding Inverse_det InverseAffine_adjugate d Let_def by simp
  next
    case False
    then obtain n k where n: "Inverse m = Inr n" "InverseAffine m = Inr k"
      unfolding Inverse_det InverseAffine_adjugate d Let_def by simp
    have "inverse_of m n" "inverse_of m k"
      using Inverse_inverse [OF n(1)] InverseAffine_inverse [OF assms n(2)] by auto
    then have "n = k" by (metis inverse_of_def mult.assoc mult_1_left mult_1_right)
    then show ?thesis using n by simp
  qed
qed

text \<open>
  In exact arithmetic, whatever inverse a matrix operation returns is a two-sided inverse: the general one for every
  matrix, the affine one for affine matrices, and the two cheap ones for affine matrices with rows at
  right angles, of any length or of length one. The assertion of the
  affine one fails exactly for a determinant that is close to zero.
\<close>

lemma matrix_inverses:
  "(Inverse m = Inr n \<longrightarrow> mat_mul m n = mat_identity \<and> mat_mul n m = mat_identity) \<and>
   (affine m \<longrightarrow>
     (InverseAffine m = Inl Fatal_Exception \<longleftrightarrow> \<bar>det3 m\<bar> < kfEpsilon) \<and>
     (InverseAffine m = Inr n \<longrightarrow> mat_mul m n = mat_identity \<and> mat_mul n m = mat_identity) \<and>
     (orthogonal_rows m \<longrightarrow>
       (InverseRotTransScale m = Inr n \<longrightarrow> mat_mul m n = mat_identity \<and> mat_mul n m = mat_identity) \<and>
       (GetScale m = unscaled \<longrightarrow> mat_mul m (InverseRotTrans m) = mat_identity \<and>
          mat_mul (InverseRotTrans m) m = mat_identity)))"
  using Inverse_inverse [of m n] InverseAffine_inverse [of m n] InverseRotTransScale_inverse [of m n]
    InverseRotTrans_inverse [of m]
  by (auto simp: inverse_of_def times_matrix4_def one_matrix4_def InverseAffine_adjugate IsZero_def)

text \<open>
  The variants of an operation agree: the ones that change the matrix in place compute what the
  ones that return a new matrix do, also when the argument is the matrix itself, and on affine
  matrices the short product and the short inverse are the general ones, failures included.
\<close>

lemma matrix_variants:
  assumes "affine this" "affine m"
  shows "mat_mul_assign self this m = mat_mul (if self then m else this) m \<and>
    MultiplyAffine_assign self this m = mat_mul (if self then m else this) m \<and>
    MultiplyAffine this m = mat_mul this m \<and>
    InverseAffine m = Inverse m \<and>
    InvertRotTrans m = InverseRotTrans m \<and>
    InvertRotTransScale m = InverseRotTransScale m \<and>
    Transpose_assign m = Transpose m"
  using assms by (simp add: mat_mul_assign MultiplyAffine_assign MultiplyAffine_mul Inverse_affine InvertRotTrans
    InvertRotTransScale Transpose_assign)

section \<open>Rotations\<close>

lemma mat_euler_product: "mat_euler p a r s = MatrixScaling s * MatrixRotation a r * MatrixTranslation p"
  by (cases r; simp add: mat_euler_def scale_rows_def MatrixRotation_def MatrixScaling_def MatrixTranslation_def
    SinCos_def times_matrix4_def mat_mul_def Let_def mult.commute)

text \<open>
  The three ways to a rotation agree. The matrix of a quaternion of length one turns vectors as
  the quaternion does and products of matrices are the matrices of products; the matrix of three angles
  is, for each of the six orders, the product of the rotations about the axes in that order, and both
  constructors compose scale, rotation and translation in this order.
\<close>

lemma matrix_rotations:
  assumes "NormSquared a = 1" "NormSquared b = 1"
  shows "TransformVector (mat_quaternion a p unscaled) v = Rotate a v \<and>
    mat_quaternion (quat_mul a b) origin unscaled =
      mat_mul (mat_quaternion a origin unscaled) (mat_quaternion b origin unscaled) \<and>
    mat_quaternion a p s = mat_mul (MatrixScaling s) (mat_mul (mat_quaternion a origin unscaled) (MatrixTranslation p)) \<and>
    mat_euler p angles r s = mat_mul (MatrixScaling s) (mat_mul (MatrixRotation angles r) (MatrixTranslation p)) \<and>
    MatrixRotation angles r =
      (let x = MatrixRotationX (v_x angles); y = MatrixRotationY (v_y angles); z = MatrixRotationZ (v_z angles) in
       case r of kXYZ \<Rightarrow> mat_mul (mat_mul x y) z | kXZY \<Rightarrow> mat_mul (mat_mul x z) y | kYZX \<Rightarrow> mat_mul (mat_mul y z) x
       | kYXZ \<Rightarrow> mat_mul (mat_mul y x) z | kZXY \<Rightarrow> mat_mul (mat_mul z x) y | kZYX \<Rightarrow> mat_mul (mat_mul z y) x)"
  using mat_quaternion_mul [OF assms] mat_quaternion_rotate [OF assms(1)] mat_quaternion_product [of a p s]
    mat_euler_product [of p angles r s] MatrixRotation_products [of angles]
  by (simp add: times_matrix4_def mat_mul_assoc Let_def split: rotation_order.split)

section \<open>Decomposition\<close>

text \<open>
  In exact arithmetic, a matrix built from a position, a quaternion of length one and positive scales is taken apart
  into the same position, the same scales and the quaternion up to its sign, through whichever of the
  four branches of the extraction it goes.
\<close>

lemma quaternion_round_trip:
  assumes "NormSquared q = 1" "positive_scale s"
  shows "DecomposeAffineQuaternion (mat_quaternion q p s) True = Inr (p, Some q, s) \<or>
    DecomposeAffineQuaternion (mat_quaternion q p s) True = Inr (p, Some (quat_neg q), s)"
  using decompose_quaternion [OF assms, of p] by (cases q) (auto simp: quat_scale_def quat_neg_def)

text \<open>
  In exact arithmetic, a matrix built from a position, three angles and positive scales is taken apart into the same
  position, angles and scales, for angles within a turn whose middle one is away from the right angle.
  For the order ZYX this needs equal scales of the first and the third row: the code divides an
  element of the third row by the scale of the first, and where the third scale is the smaller one the
  second angle comes out as the arc sine of its sine times the quotient of the scales.
\<close>

lemma euler_round_trip:
  assumes "regular_angles r a" "positive_scale s"
  shows "((r = kZYX \<longrightarrow> v_x s = v_z s) \<longrightarrow> DecomposeAffineEuler (mat_euler p a r s) r True = Inr (p, Some a, s)) \<and>
    (r = kZYX \<and> v_z s < v_x s \<and> v_y a \<noteq> 0 \<longrightarrow>
      (\<exists>x y z. DecomposeAffineEuler (mat_euler p a r s) r True = Inr (p, Some (CVector3 x y z), s) \<and>
         sin y = sin (v_y a) * v_z s / v_x s \<and> y \<noteq> v_y a))"
proof (intro conjI impI)
  assume "r = kZYX \<longrightarrow> v_x s = v_z s"
  then show "DecomposeAffineEuler (mat_euler p a r s) r True = Inr (p, Some a, s)" using decompose_euler [OF assms] by simp
next
  assume r: "r = kZYX \<and> v_z s < v_x s \<and> v_y a \<noteq> 0"
  define t where "t = sin (v_y a) * v_z s / v_x s"
  note pos = positive_scaleD [OF assms(2)]
  have y: "sin (v_y a) \<noteq> 0"
    using assms(1) r sin_zero_pi_iff [of "v_y a"] pi_gt_zero by (auto simp: regular_angles_def middle_angle_def)
  have q: "v_z s / v_x s < 1" "0 < v_z s / v_x s" using r pos by simp_all
  have "\<bar>t\<bar> = \<bar>sin (v_y a)\<bar> * (v_z s / v_x s)" using pos(1,3) by (simp add: t_def abs_mult)
  also have "\<dots> \<le> 1" using q mult_mono [of "\<bar>sin (v_y a)\<bar>" 1 "v_z s / v_x s" 1] by simp
  finally have t: "- 1 \<le> t" "t \<le> 1" by auto
  have "t \<noteq> sin (v_y a)" using y q mult_cancel_left [of "sin (v_y a)" "v_z s / v_x s" 1] by (auto simp: t_def)
  then have "arcsin t \<noteq> v_y a" using sin_arcsin [OF t] by auto
  then show "\<exists>x y z. DecomposeAffineEuler (mat_euler p a r s) r True = Inr (p, Some (CVector3 x y z), s) \<and>
      sin y = sin (v_y a) * v_z s / v_x s \<and> y \<noteq> v_y a"
    using decompose_euler_kZYX [OF assms(2) t_def t, of p] r sin_arcsin [OF t] by (auto simp: t_def)
qed

section \<open>Scale\<close>

text \<open>
  \<open>SetScale\<close> does not set the scale: it multiplies each row by the reciprocal root of the
  row's length where the length itself is meant, so the scale that results is the one asked for times the
  square root of the old one, and it is right only for rows of length one.
\<close>

lemma set_scale_off:
  assumes "positive_scale (GetScale m)" "0 < v_x s" "0 < v_y s" "0 < v_z s"
  shows "GetScale (SetScale s m) = CVector3 (v_x s * sqrt (v_x (GetScale m))) (v_y s * sqrt (v_y (GetScale m)))
      (v_z s * sqrt (v_z (GetScale m))) \<and>
    (GetScale (SetScale s m) = s \<longleftrightarrow> GetScale m = unscaled)"
proof -
  have "sqrt x = 1 \<longleftrightarrow> x = 1" for x by simp
  then show ?thesis
    using assms GetScale_SetScale [OF assms(1), of s] by (cases s; cases "GetScale m") auto
qed

section \<open>Axes\<close>

text \<open>
  Turning a matrix keeps its position and its scale. Afterwards its rows are at right
  angles and its third axis points to the target, or away from it for right-handed axes, at the old
  scale; when the target is at the position, or straight above it, the matrix stays as it is.
\<close>

lemma face_target:
  "\<exists>n. FaceTarget t up bLH m = Inr n \<and> GetPosition n = GetPosition m \<and> GetScale n = GetScale m \<and>
     (case facing_axes (vec_sub t (GetPosition m)) up bLH of None \<Rightarrow> n = m
      | Some (x, y, z) \<Rightarrow> orthogonal_rows n \<and> frame3 x y z \<and> Cross x y = (if bLH then z else vec_neg z) \<and>
          TransformVector n (CVector3 0 0 1) = vec_scale (v_z (GetScale m))
            (vec_Normalise (if bLH then vec_sub t (GetPosition m) else vec_neg (vec_sub t (GetPosition m)))))"
proof (cases "facing_axes (vec_sub t (GetPosition m)) up bLH")
  case None
  then show ?thesis by (simp add: FaceTarget_FaceDirection FaceDirection_rows)
next
  case (Some axes)
  then obtain x y z where f: "facing_axes (vec_sub t (GetPosition m)) up bLH = Some (x, y, z)" by (cases axes) auto
  have pos: "0 \<le> v_x (GetScale m)" "0 \<le> v_y (GetScale m)" "0 \<le> v_z (GetScale m)" by (simp_all add: GetScale_def)
  note frame = facing_axes_frame [OF f]
  show ?thesis
    using frame scaled_rows_frame [OF frame(1)] pos by (simp add: FaceTarget_FaceDirection FaceDirection_rows f)
qed

text \<open>
  Orthogonalising a matrix gives rows that are exactly at right angles and as long as
  the scale asked for; the first keeps its direction and the position stays.
\<close>

lemma orthogonalised:
  assumes "Orthogonalise3x3 m s = Inr n" "0 \<le> v_x s" "0 \<le> v_y s" "0 \<le> v_z s"
  shows "GetScale n = s \<and> orthogonal_rows n \<and> GetPosition n = GetPosition m \<and>
    TransformVector n (CVector3 1 0 0) = vec_scale (v_x s / v_x (GetScale m)) (TransformVector m (CVector3 1 0 0))"
proof -
  from Orthogonalise_frame [OF assms(1)] obtain x y where f: "frame3 x y (Cross x y)"
    and x: "x = vec_scale (InvSqrt (LengthSquared (CVector3 (e00 m) (e01 m) (e02 m)))) (CVector3 (e00 m) (e01 m) (e02 m))"
    and n: "n = scaled_rows s x y (Cross x y) m" by blast
  have "TransformVector n (CVector3 1 0 0) = vec_scale (v_x s / v_x (GetScale m)) (TransformVector m (CVector3 1 0 0))"
    by (simp add: n x scaled_rows_def TransformVector_def vec_scale_def GetScale_def LengthSquared_def InvSqrt_def)
  then show ?thesis using scaled_rows_frame [OF f, of s m] assms(2-) n by blast
qed

end
