(* ===== verification/Matrix_Moves.thy ===== *)
theory Matrix_Moves
  imports Matrix_Properties
begin

text \<open>
  The small steps that move, scale and turn an affine matrix in place (CMatrix4x4.h), each computed
  with as few operations as the code manages, and the products of matrices they stand for. A variable
  \<open>a12\<close> is the member \<open>e12\<close> while the operation runs.
\<close>

section \<open>Moving\<close>

definition SetPosition :: "vector3 \<Rightarrow> matrix4 \<Rightarrow> matrix4" where
  "SetPosition p this =
     (case this of CMatrix4x4 a00 a01 a02 a03 a10 a11 a12 a13 a20 a21 a22 a23 a30 a31 a32 a33 \<Rightarrow>
       (let a30 = v_x p;
            a31 = v_y p;
            a32 = v_z p
        in CMatrix4x4 a00 a01 a02 a03 a10 a11 a12 a13 a20 a21 a22 a23 a30 a31 a32 a33))"

definition Move :: "vector3 \<Rightarrow> matrix4 \<Rightarrow> matrix4" where
  "Move v this =
     (case this of CMatrix4x4 a00 a01 a02 a03 a10 a11 a12 a13 a20 a21 a22 a23 a30 a31 a32 a33 \<Rightarrow>
       (let a30 = a30 + v_x v;
            a31 = a31 + v_y v;
            a32 = a32 + v_z v
        in CMatrix4x4 a00 a01 a02 a03 a10 a11 a12 a13 a20 a21 a22 a23 a30 a31 a32 a33))"

definition MoveX :: "float32 \<Rightarrow> matrix4 \<Rightarrow> matrix4" where
  "MoveX x this =
     (case this of CMatrix4x4 a00 a01 a02 a03 a10 a11 a12 a13 a20 a21 a22 a23 a30 a31 a32 a33 \<Rightarrow>
       (let a30 = a30 + x
        in CMatrix4x4 a00 a01 a02 a03 a10 a11 a12 a13 a20 a21 a22 a23 a30 a31 a32 a33))"

definition MoveY :: "float32 \<Rightarrow> matrix4 \<Rightarrow> matrix4" where
  "MoveY y this =
     (case this of CMatrix4x4 a00 a01 a02 a03 a10 a11 a12 a13 a20 a21 a22 a23 a30 a31 a32 a33 \<Rightarrow>
       (let a31 = a31 + y
        in CMatrix4x4 a00 a01 a02 a03 a10 a11 a12 a13 a20 a21 a22 a23 a30 a31 a32 a33))"

definition MoveZ :: "float32 \<Rightarrow> matrix4 \<Rightarrow> matrix4" where
  "MoveZ z this =
     (case this of CMatrix4x4 a00 a01 a02 a03 a10 a11 a12 a13 a20 a21 a22 a23 a30 a31 a32 a33 \<Rightarrow>
       (let a32 = a32 + z
        in CMatrix4x4 a00 a01 a02 a03 a10 a11 a12 a13 a20 a21 a22 a23 a30 a31 a32 a33))"

definition MoveLocal :: "vector3 \<Rightarrow> matrix4 \<Rightarrow> matrix4" where
  "MoveLocal v this =
     (case this of CMatrix4x4 a00 a01 a02 a03 a10 a11 a12 a13 a20 a21 a22 a23 a30 a31 a32 a33 \<Rightarrow>
       (let scaledX = v_x v * InvSqrt (a00 * a00 + a01 * a01 + a02 * a02);
            scaledY = v_y v * InvSqrt (a10 * a10 + a11 * a11 + a12 * a12);
            scaledZ = v_z v * InvSqrt (a20 * a20 + a21 * a21 + a22 * a22);
            a30 = a30 + scaledX * a00 + scaledY * a10 + scaledZ * a20;
            a31 = a31 + scaledX * a01 + scaledY * a11 + scaledZ * a21;
            a32 = a32 + scaledX * a02 + scaledY * a12 + scaledZ * a22
        in CMatrix4x4 a00 a01 a02 a03 a10 a11 a12 a13 a20 a21 a22 a23 a30 a31 a32 a33))"

definition MoveLocalWithScaling :: "vector3 \<Rightarrow> matrix4 \<Rightarrow> matrix4" where
  "MoveLocalWithScaling v this =
     (case this of CMatrix4x4 a00 a01 a02 a03 a10 a11 a12 a13 a20 a21 a22 a23 a30 a31 a32 a33 \<Rightarrow>
       (let a30 = a30 + v_x v * a00 + v_y v * a10 + v_z v * a20;
            a31 = a31 + v_x v * a01 + v_y v * a11 + v_z v * a21;
            a32 = a32 + v_x v * a02 + v_y v * a12 + v_z v * a22
        in CMatrix4x4 a00 a01 a02 a03 a10 a11 a12 a13 a20 a21 a22 a23 a30 a31 a32 a33))"

definition MoveLocalX :: "float32 \<Rightarrow> matrix4 \<Rightarrow> matrix4" where
  "MoveLocalX x this =
     (case this of CMatrix4x4 a00 a01 a02 a03 a10 a11 a12 a13 a20 a21 a22 a23 a30 a31 a32 a33 \<Rightarrow>
       (let scaledX = x * InvSqrt (a00 * a00 + a01 * a01 + a02 * a02);
            a30 = a30 + scaledX * a00;
            a31 = a31 + scaledX * a01;
            a32 = a32 + scaledX * a02
        in CMatrix4x4 a00 a01 a02 a03 a10 a11 a12 a13 a20 a21 a22 a23 a30 a31 a32 a33))"

definition MoveLocalXWithScaling :: "float32 \<Rightarrow> matrix4 \<Rightarrow> matrix4" where
  "MoveLocalXWithScaling x this =
     (case this of CMatrix4x4 a00 a01 a02 a03 a10 a11 a12 a13 a20 a21 a22 a23 a30 a31 a32 a33 \<Rightarrow>
       (let a30 = a30 + x * a00;
            a31 = a31 + x * a01;
            a32 = a32 + x * a02
        in CMatrix4x4 a00 a01 a02 a03 a10 a11 a12 a13 a20 a21 a22 a23 a30 a31 a32 a33))"

definition MoveLocalY :: "float32 \<Rightarrow> matrix4 \<Rightarrow> matrix4" where
  "MoveLocalY y this =
     (case this of CMatrix4x4 a00 a01 a02 a03 a10 a11 a12 a13 a20 a21 a22 a23 a30 a31 a32 a33 \<Rightarrow>
       (let scaledY = y * InvSqrt (a10 * a10 + a11 * a11 + a12 * a12);
            a30 = a30 + y * a10;
            a31 = a31 + y * a11;
            a32 = a32 + y * a12
        in CMatrix4x4 a00 a01 a02 a03 a10 a11 a12 a13 a20 a21 a22 a23 a30 a31 a32 a33))"

definition MoveLocalYWithScaling :: "float32 \<Rightarrow> matrix4 \<Rightarrow> matrix4" where
  "MoveLocalYWithScaling y this =
     (case this of CMatrix4x4 a00 a01 a02 a03 a10 a11 a12 a13 a20 a21 a22 a23 a30 a31 a32 a33 \<Rightarrow>
       (let a30 = a30 + y * a10;
            a31 = a31 + y * a11;
            a32 = a32 + y * a12
        in CMatrix4x4 a00 a01 a02 a03 a10 a11 a12 a13 a20 a21 a22 a23 a30 a31 a32 a33))"

definition MoveLocalZ :: "float32 \<Rightarrow> matrix4 \<Rightarrow> matrix4" where
  "MoveLocalZ z this =
     (case this of CMatrix4x4 a00 a01 a02 a03 a10 a11 a12 a13 a20 a21 a22 a23 a30 a31 a32 a33 \<Rightarrow>
       (let scaledZ = z * InvSqrt (a20 * a20 + a21 * a21 + a22 * a22);
            a30 = a30 + scaledZ * a20;
            a31 = a31 + scaledZ * a21;
            a32 = a32 + scaledZ * a22
        in CMatrix4x4 a00 a01 a02 a03 a10 a11 a12 a13 a20 a21 a22 a23 a30 a31 a32 a33))"

definition MoveLocalZWithScaling :: "float32 \<Rightarrow> matrix4 \<Rightarrow> matrix4" where
  "MoveLocalZWithScaling z this =
     (case this of CMatrix4x4 a00 a01 a02 a03 a10 a11 a12 a13 a20 a21 a22 a23 a30 a31 a32 a33 \<Rightarrow>
       (let a30 = a30 + z * a20;
            a31 = a31 + z * a21;
            a32 = a32 + z * a22
        in CMatrix4x4 a00 a01 a02 a03 a10 a11 a12 a13 a20 a21 a22 a23 a30 a31 a32 a33))"

section \<open>Scaling\<close>

definition ScaleX :: "float32 \<Rightarrow> matrix4 \<Rightarrow> matrix4" where
  "ScaleX x this =
     (case this of CMatrix4x4 a00 a01 a02 a03 a10 a11 a12 a13 a20 a21 a22 a23 a30 a31 a32 a33 \<Rightarrow>
       (let a00 = a00 * x;
            a01 = a01 * x;
            a02 = a02 * x
        in CMatrix4x4 a00 a01 a02 a03 a10 a11 a12 a13 a20 a21 a22 a23 a30 a31 a32 a33))"

definition ScaleY :: "float32 \<Rightarrow> matrix4 \<Rightarrow> matrix4" where
  "ScaleY y this =
     (case this of CMatrix4x4 a00 a01 a02 a03 a10 a11 a12 a13 a20 a21 a22 a23 a30 a31 a32 a33 \<Rightarrow>
       (let a10 = a10 * y;
            a11 = a11 * y;
            a12 = a12 * y
        in CMatrix4x4 a00 a01 a02 a03 a10 a11 a12 a13 a20 a21 a22 a23 a30 a31 a32 a33))"

definition ScaleZ :: "float32 \<Rightarrow> matrix4 \<Rightarrow> matrix4" where
  "ScaleZ z this =
     (case this of CMatrix4x4 a00 a01 a02 a03 a10 a11 a12 a13 a20 a21 a22 a23 a30 a31 a32 a33 \<Rightarrow>
       (let a20 = a20 * z;
            a21 = a21 * z;
            a22 = a22 * z
        in CMatrix4x4 a00 a01 a02 a03 a10 a11 a12 a13 a20 a21 a22 a23 a30 a31 a32 a33))"

definition Scale :: "vector3 \<Rightarrow> matrix4 \<Rightarrow> matrix4" where
  "Scale scale this =
     (case this of CMatrix4x4 a00 a01 a02 a03 a10 a11 a12 a13 a20 a21 a22 a23 a30 a31 a32 a33 \<Rightarrow>
       (let a00 = a00 * v_x scale;
            a01 = a01 * v_x scale;
            a02 = a02 * v_x scale;
            a10 = a10 * v_y scale;
            a11 = a11 * v_y scale;
            a12 = a12 * v_y scale;
            a20 = a20 * v_z scale;
            a21 = a21 * v_z scale;
            a22 = a22 * v_z scale
        in CMatrix4x4 a00 a01 a02 a03 a10 a11 a12 a13 a20 a21 a22 a23 a30 a31 a32 a33))"

definition Scale_uniform :: "float32 \<Rightarrow> matrix4 \<Rightarrow> matrix4" where
  "Scale_uniform fScale this =
     (case this of CMatrix4x4 a00 a01 a02 a03 a10 a11 a12 a13 a20 a21 a22 a23 a30 a31 a32 a33 \<Rightarrow>
       (let a00 = a00 * fScale;
            a01 = a01 * fScale;
            a02 = a02 * fScale;
            a10 = a10 * fScale;
            a11 = a11 * fScale;
            a12 = a12 * fScale;
            a20 = a20 * fScale;
            a21 = a21 * fScale;
            a22 = a22 * fScale
        in CMatrix4x4 a00 a01 a02 a03 a10 a11 a12 a13 a20 a21 a22 a23 a30 a31 a32 a33))"

section \<open>Rotating about a world axis\<close>

definition RotateWorldX :: "float32 \<Rightarrow> matrix4 \<Rightarrow> matrix4" where
  "RotateWorldX x this =
     (case this of CMatrix4x4 a00 a01 a02 a03 a10 a11 a12 a13 a20 a21 a22 a23 a30 a31 a32 a33 \<Rightarrow>
       (let (sX, cX) = SinCos x;
            t = a01 * sX + a02 * cX;
            a01 = a01 * cX - a02 * sX;
            a02 = t;
            t = a11 * sX + a12 * cX;
            a11 = a11 * cX - a12 * sX;
            a12 = t;
            t = a21 * sX + a22 * cX;
            a21 = a21 * cX - a22 * sX;
            a22 = t;
            t = a31 * sX + a32 * cX;
            a31 = a31 * cX - a32 * sX;
            a32 = t
        in CMatrix4x4 a00 a01 a02 a03 a10 a11 a12 a13 a20 a21 a22 a23 a30 a31 a32 a33))"

definition RotateWorldY :: "float32 \<Rightarrow> matrix4 \<Rightarrow> matrix4" where
  "RotateWorldY y this =
     (case this of CMatrix4x4 a00 a01 a02 a03 a10 a11 a12 a13 a20 a21 a22 a23 a30 a31 a32 a33 \<Rightarrow>
       (let (sY, cY) = SinCos y;
            t = a00 * cY + a02 * sY;
            a02 = a02 * cY - a00 * sY;
            a00 = t;
            t = a10 * cY + a12 * sY;
            a12 = a12 * cY - a10 * sY;
            a10 = t;
            t = a20 * cY + a22 * sY;
            a22 = a22 * cY - a20 * sY;
            a20 = t;
            t = a30 * cY + a32 * sY;
            a32 = a32 * cY - a30 * sY;
            a30 = t
        in CMatrix4x4 a00 a01 a02 a03 a10 a11 a12 a13 a20 a21 a22 a23 a30 a31 a32 a33))"

definition RotateWorldZ :: "float32 \<Rightarrow> matrix4 \<Rightarrow> matrix4" where
  "RotateWorldZ z this =
     (case this of CMatrix4x4 a00 a01 a02 a03 a10 a11 a12 a13 a20 a21 a22 a23 a30 a31 a32 a33 \<Rightarrow>
       (let (sZ, cZ) = SinCos z;
            t = a00 * sZ + a01 * cZ;
            a00 = a00 * cZ - a01 * sZ;
            a01 = t;
            t = a10 * sZ + a11 * cZ;
            a10 = a10 * cZ - a11 * sZ;
            a11 = t;
            t = a20 * sZ + a21 * cZ;
            a20 = a20 * cZ - a21 * sZ;
            a21 = t;
            t = a30 * sZ + a31 * cZ;
            a30 = a30 * cZ - a31 * sZ;
            a31 = t
        in CMatrix4x4 a00 a01 a02 a03 a10 a11 a12 a13 a20 a21 a22 a23 a30 a31 a32 a33))"

definition RotateX :: "float32 \<Rightarrow> matrix4 \<Rightarrow> matrix4" where
  "RotateX x this =
     (case this of CMatrix4x4 a00 a01 a02 a03 a10 a11 a12 a13 a20 a21 a22 a23 a30 a31 a32 a33 \<Rightarrow>
       (let (sX, cX) = SinCos x;
            t = a01 * sX + a02 * cX;
            a01 = a01 * cX - a02 * sX;
            a02 = t;
            t = a11 * sX + a12 * cX;
            a11 = a11 * cX - a12 * sX;
            a12 = t;
            t = a21 * sX + a22 * cX;
            a21 = a21 * cX - a22 * sX;
            a22 = t
        in CMatrix4x4 a00 a01 a02 a03 a10 a11 a12 a13 a20 a21 a22 a23 a30 a31 a32 a33))"

definition RotateY :: "float32 \<Rightarrow> matrix4 \<Rightarrow> matrix4" where
  "RotateY y this =
     (case this of CMatrix4x4 a00 a01 a02 a03 a10 a11 a12 a13 a20 a21 a22 a23 a30 a31 a32 a33 \<Rightarrow>
       (let (sY, cY) = SinCos y;
            t = a00 * cY + a02 * sY;
            a02 = a02 * cY - a00 * sY;
            a00 = t;
            t = a10 * cY + a12 * sY;
            a12 = a12 * cY - a10 * sY;
            a10 = t;
            t = a20 * cY + a22 * sY;
            a22 = a22 * cY - a20 * sY;
            a20 = t
        in CMatrix4x4 a00 a01 a02 a03 a10 a11 a12 a13 a20 a21 a22 a23 a30 a31 a32 a33))"

definition RotateZ :: "float32 \<Rightarrow> matrix4 \<Rightarrow> matrix4" where
  "RotateZ z this =
     (case this of CMatrix4x4 a00 a01 a02 a03 a10 a11 a12 a13 a20 a21 a22 a23 a30 a31 a32 a33 \<Rightarrow>
       (let (sZ, cZ) = SinCos z;
            t = a00 * sZ + a01 * cZ;
            a00 = a00 * cZ - a01 * sZ;
            a01 = t;
            t = a10 * sZ + a11 * cZ;
            a10 = a10 * cZ - a11 * sZ;
            a11 = t;
            t = a20 * sZ + a21 * cZ;
            a20 = a20 * cZ - a21 * sZ;
            a21 = t
        in CMatrix4x4 a00 a01 a02 a03 a10 a11 a12 a13 a20 a21 a22 a23 a30 a31 a32 a33))"

section \<open>Rotating about an axis of the matrix\<close>

definition RotateLocalX :: "float32 \<Rightarrow> matrix4 \<Rightarrow> matrix4" where
  "RotateLocalX x this =
     (case this of CMatrix4x4 a00 a01 a02 a03 a10 a11 a12 a13 a20 a21 a22 a23 a30 a31 a32 a33 \<Rightarrow>
       (let scaleSqY = a10 * a10 + a11 * a11 + a12 * a12;
            scaleSqZ = a20 * a20 + a21 * a21 + a22 * a22;
            scaleYZ = sqrt (scaleSqY) * InvSqrt (scaleSqZ);
            (sX, cX) = SinCos x;
            sXY = sX * scaleYZ;
            sXZ = sX / scaleYZ;
            t = a10 * cX + a20 * sXY;
            a20 = a20 * cX - a10 * sXZ;
            a10 = t;
            t = a11 * cX + a21 * sXY;
            a21 = a21 * cX - a11 * sXZ;
            a11 = t;
            t = a12 * cX + a22 * sXY;
            a22 = a22 * cX - a12 * sXZ;
            a12 = t
        in CMatrix4x4 a00 a01 a02 a03 a10 a11 a12 a13 a20 a21 a22 a23 a30 a31 a32 a33))"

definition RotateLocalXUnscaled :: "float32 \<Rightarrow> matrix4 \<Rightarrow> matrix4" where
  "RotateLocalXUnscaled x this =
     (case this of CMatrix4x4 a00 a01 a02 a03 a10 a11 a12 a13 a20 a21 a22 a23 a30 a31 a32 a33 \<Rightarrow>
       (let (sX, cX) = SinCos x;
            t = a10 * cX + a20 * sX;
            a20 = a20 * cX - a10 * sX;
            a10 = t;
            t = a11 * cX + a21 * sX;
            a21 = a21 * cX - a11 * sX;
            a11 = t;
            t = a12 * cX + a22 * sX;
            a22 = a22 * cX - a12 * sX;
            a12 = t
        in CMatrix4x4 a00 a01 a02 a03 a10 a11 a12 a13 a20 a21 a22 a23 a30 a31 a32 a33))"

definition RotateLocalY :: "float32 \<Rightarrow> matrix4 \<Rightarrow> matrix4" where
  "RotateLocalY y this =
     (case this of CMatrix4x4 a00 a01 a02 a03 a10 a11 a12 a13 a20 a21 a22 a23 a30 a31 a32 a33 \<Rightarrow>
       (let scaleSqX = a00 * a00 + a01 * a01 + a02 * a02;
            scaleSqZ = a20 * a20 + a21 * a21 + a22 * a22;
            scaleZX = sqrt (scaleSqZ) * InvSqrt (scaleSqX);
            (sY, cY) = SinCos y;
            sYZ = sY * scaleZX;
            sYX = sY / scaleZX;
            t = a20 * cY + a00 * sYZ;
            a00 = a00 * cY - a20 * sYX;
            a20 = t;
            t = a21 * cY + a01 * sYZ;
            a01 = a01 * cY - a21 * sYX;
            a21 = t;
            t = a22 * cY + a02 * sYZ;
            a02 = a02 * cY - a22 * sYX;
            a22 = t
        in CMatrix4x4 a00 a01 a02 a03 a10 a11 a12 a13 a20 a21 a22 a23 a30 a31 a32 a33))"

definition RotateLocalYUnscaled :: "float32 \<Rightarrow> matrix4 \<Rightarrow> matrix4" where
  "RotateLocalYUnscaled y this =
     (case this of CMatrix4x4 a00 a01 a02 a03 a10 a11 a12 a13 a20 a21 a22 a23 a30 a31 a32 a33 \<Rightarrow>
       (let (sY, cY) = SinCos y;
            t = a20 * cY + a00 * sY;
            a00 = a00 * cY - a20 * sY;
            a20 = t;
            t = a21 * cY + a01 * sY;
            a01 = a01 * cY - a21 * sY;
            a21 = t;
            t = a22 * cY + a02 * sY;
            a02 = a02 * cY - a22 * sY;
            a22 = t
        in CMatrix4x4 a00 a01 a02 a03 a10 a11 a12 a13 a20 a21 a22 a23 a30 a31 a32 a33))"

definition RotateLocalZ :: "float32 \<Rightarrow> matrix4 \<Rightarrow> matrix4" where
  "RotateLocalZ z this =
     (case this of CMatrix4x4 a00 a01 a02 a03 a10 a11 a12 a13 a20 a21 a22 a23 a30 a31 a32 a33 \<Rightarrow>
       (let scaleSqX = a00 * a00 + a01 * a01 + a02 * a02;
            scaleSqY = a10 * a10 + a11 * a11 + a12 * a12;
            scaleXY = sqrt (scaleSqX) * InvSqrt (scaleSqY);
            (sZ, cZ) = SinCos z;
            sZX = sZ * scaleXY;
            sZY = sZ / scaleXY;
            t = a00 * cZ + a10 * sZX;
            a10 = a10 * cZ - a00 * sZY;
            a00 = t;
            t = a01 * cZ + a11 * sZX;
            a11 = a11 * cZ - a01 * sZY;
            a01 = t;
            t = a02 * cZ + a12 * sZX;
            a12 = a12 * cZ - a02 * sZY;
            a02 = t
        in CMatrix4x4 a00 a01 a02 a03 a10 a11 a12 a13 a20 a21 a22 a23 a30 a31 a32 a33))"

definition RotateLocalZUnscaled :: "float32 \<Rightarrow> matrix4 \<Rightarrow> matrix4" where
  "RotateLocalZUnscaled z this =
     (case this of CMatrix4x4 a00 a01 a02 a03 a10 a11 a12 a13 a20 a21 a22 a23 a30 a31 a32 a33 \<Rightarrow>
       (let (sZ, cZ) = SinCos z;
            t = a00 * cZ + a10 * sZ;
            a10 = a10 * cZ - a00 * sZ;
            a00 = t;
            t = a01 * cZ + a11 * sZ;
            a11 = a11 * cZ - a01 * sZ;
            a01 = t;
            t = a02 * cZ + a12 * sZ;
            a12 = a12 * cZ - a02 * sZ;
            a02 = t
        in CMatrix4x4 a00 a01 a02 a03 a10 a11 a12 a13 a20 a21 a22 a23 a30 a31 a32 a33))"

section \<open>The products they are\<close>

lemma RotateWorld_products:
  "RotateWorldX a m = mat_mul m (MatrixRotationX a)"
  "RotateWorldY a m = mat_mul m (MatrixRotationY a)"
  "RotateWorldZ a m = mat_mul m (MatrixRotationZ a)"
  by (cases m; simp add: RotateWorldX_def RotateWorldY_def RotateWorldZ_def MatrixRotationX_def MatrixRotationY_def
    MatrixRotationZ_def SinCos_def mat_mul_def Let_def)+

lemma affine_cases:
  assumes "affine m"
  obtains a b c d e f g h i x y z where "m = CMatrix4x4 a b c 0 d e f 0 g h i 0 x y z 1"
  using assms by (cases m) (simp add: affine_def)

lemma RotateLocalUnscaled_products:
  assumes "affine m"
  shows "RotateLocalXUnscaled a m = mat_mul (MatrixRotationX a) m"
    "RotateLocalYUnscaled a m = mat_mul (MatrixRotationY a) m"
    "RotateLocalZUnscaled a m = mat_mul (MatrixRotationZ a) m"
  by (rule affine_cases [OF assms]; simp add: RotateLocalXUnscaled_def RotateLocalYUnscaled_def RotateLocalZUnscaled_def
    MatrixRotationX_def MatrixRotationY_def MatrixRotationZ_def SinCos_def mat_mul_def Let_def mult.commute)+

text \<open>\<open>RotateX\<close> and its siblings turn the axes and leave the position.\<close>

lemma Rotate_world:
  "RotateX a m = SetPosition (GetPosition m) (RotateWorldX a m)"
  "RotateY a m = SetPosition (GetPosition m) (RotateWorldY a m)"
  "RotateZ a m = SetPosition (GetPosition m) (RotateWorldZ a m)"
  by (cases m; simp add: RotateX_def RotateWorldX_def RotateY_def RotateWorldY_def RotateZ_def RotateWorldZ_def
    SetPosition_def GetPosition_def SinCos_def Let_def)+

lemma Scale_products:
  assumes "affine m"
  shows "Scale s m = mat_mul (MatrixScaling s) m" "Scale_uniform f m = Scale (CVector3 f f f) m"
    "ScaleX f m = Scale (CVector3 f 1 1) m" "ScaleY f m = Scale (CVector3 1 f 1) m" "ScaleZ f m = Scale (CVector3 1 1 f) m"
  by (rule affine_cases [OF assms]; simp add: Scale_def Scale_uniform_def ScaleX_def ScaleY_def ScaleZ_def
    MatrixScaling_def mat_mul_def Let_def mult.commute)+

lemma Move_products:
  assumes "affine m"
  shows "Move v m = mat_mul m (MatrixTranslation v)" "MoveLocalWithScaling v m = mat_mul (MatrixTranslation v) m"
    "MoveX f m = Move (CVector3 f 0 0) m" "MoveY f m = Move (CVector3 0 f 0) m" "MoveZ f m = Move (CVector3 0 0 f) m"
    "MoveLocalXWithScaling f m = MoveLocalWithScaling (CVector3 f 0 0) m"
    "MoveLocalYWithScaling f m = MoveLocalWithScaling (CVector3 0 f 0) m"
    "MoveLocalZWithScaling f m = MoveLocalWithScaling (CVector3 0 0 f) m"
  by (rule affine_cases [OF assms]; simp add: Move_def MoveLocalWithScaling_def MoveX_def MoveY_def MoveZ_def
    MoveLocalXWithScaling_def MoveLocalYWithScaling_def MoveLocalZWithScaling_def MatrixTranslation_def mat_mul_def Let_def)+

text \<open>A transformation built as the code assumes: scale, then rotate, then move.\<close>

definition composed :: "vector3 \<Rightarrow> matrix4 \<Rightarrow> vector3 \<Rightarrow> matrix4" where
  "composed s d p = mat_mul (MatrixScaling s) (mat_mul d (MatrixTranslation p))"

definition rotation_matrix :: "matrix4 \<Rightarrow> bool" where
  "rotation_matrix d \<longleftrightarrow> affine d \<and> GetPosition d = origin \<and> GetScale d = unscaled"

lemma composed_elements:
  assumes "rotation_matrix d"
  obtains a b c e f g h i j where "d = CMatrix4x4 a b c 0 e f g 0 h i j 0 0 0 0 1"
    and "\<And>p. composed s d p = CMatrix4x4 (v_x s * a) (v_x s * b) (v_x s * c) 0 (v_y s * e) (v_y s * f) (v_y s * g) 0
      (v_z s * h) (v_z s * i) (v_z s * j) 0 (v_x p) (v_y p) (v_z p) 1"
    and "a * a + b * b + c * c = 1" "e * e + f * f + g * g = 1" "h * h + i * i + j * j = 1"
  using assms
  by (cases d) (simp add: rotation_matrix_def affine_def GetPosition_def GetScale_def composed_def mat_mul_def
    MatrixScaling_def MatrixTranslation_def)

lemma InvSqrt_row: "0 < s \<Longrightarrow> a * a + b * b + c * c = 1 \<Longrightarrow>
  InvSqrt ((s * a) * (s * a) + (s * b) * (s * b) + (s * c) * (s * c)) = 1 / s"
  by (simp add: InvSqrt_def row_length)

lemma MoveLocal_composed:
  assumes "rotation_matrix d" "positive_scale s"
  shows "MoveLocal v (composed s d p) = composed s d (vec_add p (TransformVector d v))"
    "MoveLocalX t (composed s d p) = composed s d (vec_add p (TransformVector d (CVector3 t 0 0)))"
    "MoveLocalZ t (composed s d p) = composed s d (vec_add p (TransformVector d (CVector3 0 0 t)))"
    "MoveLocalY t (composed s d p) = composed s d (vec_add p (TransformVector d (CVector3 0 (t * v_y s) 0)))"
proof -
  note pos = positive_scaleD(1-3) [OF assms(2)]
  obtain a b c e f g h i j where d: "d = CMatrix4x4 a b c 0 e f g 0 h i j 0 0 0 0 1"
    and m: "\<And>p. composed s d p = CMatrix4x4 (v_x s * a) (v_x s * b) (v_x s * c) 0 (v_y s * e) (v_y s * f) (v_y s * g) 0
      (v_z s * h) (v_z s * i) (v_z s * j) 0 (v_x p) (v_y p) (v_z p) 1"
    and one: "a * a + b * b + c * c = 1" "e * e + f * f + g * g = 1" "h * h + i * i + j * j = 1"
    using composed_elements [OF assms(1)] by metis
  show "MoveLocal v (composed s d p) = composed s d (vec_add p (TransformVector d v))"
    "MoveLocalX t (composed s d p) = composed s d (vec_add p (TransformVector d (CVector3 t 0 0)))"
    "MoveLocalZ t (composed s d p) = composed s d (vec_add p (TransformVector d (CVector3 0 0 t)))"
    "MoveLocalY t (composed s d p) = composed s d (vec_add p (TransformVector d (CVector3 0 (t * v_y s) 0)))"
    unfolding m MoveLocal_def MoveLocalX_def MoveLocalY_def MoveLocalZ_def Let_def matrix4.case InvSqrt_row [OF pos(1) one(1)]
      InvSqrt_row [OF pos(2) one(2)] InvSqrt_row [OF pos(3) one(3)]
    using pos by (simp_all add: d TransformVector_def vec_add_def)
qed

lemma RotateLocal_composed:
  assumes "rotation_matrix d" "positive_scale s"
  shows "RotateLocalX t (composed s d p) = composed s (mat_mul (MatrixRotationX t) d) p"
    "RotateLocalY t (composed s d p) = composed s (mat_mul (MatrixRotationY t) d) p"
    "RotateLocalZ t (composed s d p) = composed s (mat_mul (MatrixRotationZ t) d) p"
proof -
  note pos = positive_scaleD(1-3) [OF assms(2)]
  obtain a b c e f g h i j where d: "d = CMatrix4x4 a b c 0 e f g 0 h i j 0 0 0 0 1"
    and m: "\<And>p. composed s d p = CMatrix4x4 (v_x s * a) (v_x s * b) (v_x s * c) 0 (v_y s * e) (v_y s * f) (v_y s * g) 0
      (v_z s * h) (v_z s * i) (v_z s * j) 0 (v_x p) (v_y p) (v_z p) 1"
    and one: "a * a + b * b + c * c = 1" "e * e + f * f + g * g = 1" "h * h + i * i + j * j = 1"
    using composed_elements [OF assms(1)] by metis
  note lengths = InvSqrt_row [OF pos(1) one(1)] InvSqrt_row [OF pos(2) one(2)] InvSqrt_row [OF pos(3) one(3)]
    row_length [OF pos(1) [THEN less_imp_le] one(1)] row_length [OF pos(2) [THEN less_imp_le] one(2)]
    row_length [OF pos(3) [THEN less_imp_le] one(3)]
  show "RotateLocalX t (composed s d p) = composed s (mat_mul (MatrixRotationX t) d) p"
    "RotateLocalY t (composed s d p) = composed s (mat_mul (MatrixRotationY t) d) p"
    "RotateLocalZ t (composed s d p) = composed s (mat_mul (MatrixRotationZ t) d) p"
    unfolding m RotateLocalX_def RotateLocalY_def RotateLocalZ_def Let_def matrix4.case lengths
    using pos by (simp_all add: d composed_def mat_mul_def MatrixRotationX_def MatrixRotationY_def MatrixRotationZ_def
      MatrixScaling_def MatrixTranslation_def SinCos_def Let_def distrib_left right_diff_distrib mult.commute mult.left_commute)
qed

section \<open>Properties\<close>

text \<open>
  The small steps are the products they stand for. Turning about a world axis multiplies from the
  right, with or without the position; scaling and moving along the axes of an affine matrix multiply
  from the left; and on a matrix composed of positive scales, a rotation and a translation the local
  turns and moves act between scale and rotation, so that the scale does not distort them. The exception
  is \<open>MoveLocalY\<close>, which computes the corrected distance and then moves by the uncorrected one: it goes as
  far as the scale says.
\<close>

lemma matrix_steps:
  assumes "affine m" and "rotation_matrix d" and "positive_scale s"
  shows "RotateWorldX t m = mat_mul m (MatrixRotationX t) \<and> RotateWorldY t m = mat_mul m (MatrixRotationY t) \<and>
    RotateWorldZ t m = mat_mul m (MatrixRotationZ t) \<and>
    RotateX t m = SetPosition (GetPosition m) (mat_mul m (MatrixRotationX t)) \<and>
    RotateY t m = SetPosition (GetPosition m) (mat_mul m (MatrixRotationY t)) \<and>
    RotateZ t m = SetPosition (GetPosition m) (mat_mul m (MatrixRotationZ t)) \<and>
    Scale v m = mat_mul (MatrixScaling v) m \<and> Move v m = mat_mul m (MatrixTranslation v) \<and>
    MoveLocalWithScaling v m = mat_mul (MatrixTranslation v) m \<and>
    RotateLocalX t (composed s d p) = composed s (mat_mul (MatrixRotationX t) d) p \<and>
    RotateLocalY t (composed s d p) = composed s (mat_mul (MatrixRotationY t) d) p \<and>
    RotateLocalZ t (composed s d p) = composed s (mat_mul (MatrixRotationZ t) d) p \<and>
    MoveLocal v (composed s d p) = composed s d (vec_add p (TransformVector d v)) \<and>
    MoveLocalX t (composed s d p) = composed s d (vec_add p (TransformVector d (CVector3 t 0 0))) \<and>
    MoveLocalY t (composed s d p) = composed s d (vec_add p (TransformVector d (CVector3 0 (t * v_y s) 0))) \<and>
    MoveLocalZ t (composed s d p) = composed s d (vec_add p (TransformVector d (CVector3 0 0 t)))"
  using Scale_products(1) [OF assms(1)] Move_products(1,2) [OF assms(1)] RotateLocal_composed [OF assms(2,3)]
    MoveLocal_composed [OF assms(2,3)]
  by (simp add: Rotate_world RotateWorld_products)

end
