(* ===== verification/Plane.thy ===== *)
theory Plane
  imports Matrix_Properties
begin

text \<open>
  Vectors and linear maps of the plane: \<open>CVector2\<close> (CVector2.h, CVector2.cpp) and \<open>CMatrix2x2\<close>
  (CMatrix2x2.h, CMatrix2x2.cpp), with the conventions of the larger matrices. A
  constructor, like every operation that fills a matrix, is given what the memory held before. A variable \<open>a01\<close> is
  the member \<open>e01\<close> while an operation runs, \<open>o01\<close> the element of a matrix under construction.
\<close>

section \<open>Vectors of the plane\<close>

datatype vector2 = CVector2 (p_x: float32) (p_y: float32)

definition vec2_set :: "float32 list \<Rightarrow> vector2 res" where
  "vec2_set pfElts = (case pfElts of x # y # _ \<Rightarrow> Inr (CVector2 x y) | _ \<Rightarrow> Inl Undefined)"

definition vec2_between :: "vector2 \<Rightarrow> vector2 \<Rightarrow> vector2" where
  "vec2_between p1 p2 = CVector2 (p_x p2 - p_x p1) (p_y p2 - p_y p1)"

definition vec2_of_vec3 :: "vector3 \<Rightarrow> vector2" where
  "vec2_of_vec3 v = CVector2 (v_x v) (v_y v)"

definition vec2_index :: "vector2 \<Rightarrow> nat \<Rightarrow> float32 res" where
  "vec2_index v index = (if index < 2 then Inr ([p_x v, p_y v] ! index) else Inl Undefined)"

text \<open>Equality is that of \<open>AreEqual\<close> on each component; \<open>&&\<close> and \<open>||\<close> stop at the first that decides.\<close>

definition res_and :: "bool res \<Rightarrow> bool res \<Rightarrow> bool res" where
  "res_and a b = res_bind a (\<lambda>x. if x then b else Inr False)"

definition res_or :: "bool res \<Rightarrow> bool res \<Rightarrow> bool res" where
  "res_or a b = res_bind a (\<lambda>x. if x then Inr True else b)"

definition differ :: "float32 \<Rightarrow> float32 \<Rightarrow> bool res" where
  "differ x y = res_bind (AreEqual x y) (\<lambda>e. Inr (\<not> e))"

definition vec2_eq :: "vector2 \<Rightarrow> vector2 \<Rightarrow> bool res" where
  "vec2_eq v1 v2 = res_and (AreEqual (p_x v1) (p_x v2)) (AreEqual (p_y v1) (p_y v2))"

definition vec2_neq :: "vector2 \<Rightarrow> vector2 \<Rightarrow> bool res" where
  "vec2_neq v1 v2 = res_or (differ (p_x v1) (p_x v2)) (differ (p_y v1) (p_y v2))"

definition vec2_add :: "vector2 \<Rightarrow> vector2 \<Rightarrow> vector2" where
  "vec2_add v1 v2 = CVector2 (p_x v1 + p_x v2) (p_y v1 + p_y v2)"

definition vec2_sub :: "vector2 \<Rightarrow> vector2 \<Rightarrow> vector2" where
  "vec2_sub v1 v2 = CVector2 (p_x v1 - p_x v2) (p_y v1 - p_y v2)"

definition vec2_neg :: "vector2 \<Rightarrow> vector2" where
  "vec2_neg v = CVector2 (- p_x v) (- p_y v)"

definition vec2_scale :: "float32 \<Rightarrow> vector2 \<Rightarrow> vector2" where
  "vec2_scale s v = CVector2 (p_x v * s) (p_y v * s)"

definition vec2_div :: "vector2 \<Rightarrow> float32 \<Rightarrow> vector2" where
  "vec2_div v s = CVector2 (p_x v / s) (p_y v / s)"

definition Perpendicular :: "vector2 \<Rightarrow> vector2" where
  "Perpendicular v = CVector2 (- p_y v) (p_x v)"

definition SetPerpendicular :: "vector2 \<Rightarrow> vector2" where
  "SetPerpendicular this =
     (case this of CVector2 x y \<Rightarrow> (let t = x; x = - y; y = t in CVector2 x y))"

definition Dot2 :: "vector2 \<Rightarrow> vector2 \<Rightarrow> float32" where
  "Dot2 v1 v2 = p_x v1 * p_x v2 + p_y v1 * p_y v2"

definition Cross3D :: "vector2 \<Rightarrow> vector2 \<Rightarrow> vector2" where
  "Cross3D v1 v2 = CVector2 (p_y v1 * p_x v2 - p_x v1 * p_y v2) (p_x v1 * p_y v2 - p_y v1 * p_x v2)"

definition Length2 :: "vector2 \<Rightarrow> float32" where
  "Length2 v = sqrt (p_x v * p_x v + p_y v * p_y v)"

definition LengthSquared2 :: "vector2 \<Rightarrow> float32" where
  "LengthSquared2 v = p_x v * p_x v + p_y v * p_y v"

definition vec2_IsZero :: "vector2 \<Rightarrow> bool" where
  "vec2_IsZero v \<longleftrightarrow> IsZero (p_x v * p_x v + p_y v * p_y v)"

definition vec2_IsUnit :: "vector2 \<Rightarrow> bool" where
  "vec2_IsUnit v \<longleftrightarrow> IsZero (p_x v * p_x v + p_y v * p_y v - 1)"

definition vec2_Normalise :: "vector2 \<Rightarrow> vector2" where
  "vec2_Normalise v =
     (let lengthSq = p_x v * p_x v + p_y v * p_y v in
      if IsZero lengthSq then CVector2 0 0
      else let invLength = InvSqrt lengthSq in CVector2 (p_x v * invLength) (p_y v * invLength))"

definition vec2_Normalise_assign :: "vector2 \<Rightarrow> vector2" where
  "vec2_Normalise_assign this =
     (case this of CVector2 x y \<Rightarrow>
       (let lengthSq = x * x + y * y in
        if IsZero lengthSq then CVector2 0 0
        else let invLength = InvSqrt lengthSq; x = x * invLength; y = y * invLength in CVector2 x y))"

definition DistanceTo2 :: "vector2 \<Rightarrow> vector2 \<Rightarrow> float32" where
  "DistanceTo2 this p =
     (let distX = p_x p - p_x this; distY = p_y p - p_y this in sqrt (distX * distX + distY * distY))"

definition DistanceToSquared2 :: "vector2 \<Rightarrow> vector2 \<Rightarrow> float32" where
  "DistanceToSquared2 this p =
     (let distX = p_x p - p_x this; distY = p_y p - p_y this in distX * distX + distY * distY)"

definition Distance2 :: "vector2 \<Rightarrow> vector2 \<Rightarrow> float32" where
  "Distance2 p1 p2 =
     (let distX = p_x p1 - p_x p2; distY = p_y p1 - p_y p2 in sqrt (distX * distX + distY * distY))"

definition DistanceSquared2 :: "vector2 \<Rightarrow> vector2 \<Rightarrow> float32" where
  "DistanceSquared2 p1 p2 =
     (let distX = p_x p1 - p_x p2; distY = p_y p1 - p_y p2 in distX * distX + distY * distY)"

section \<open>Matrices of the plane\<close>

datatype matrix2 = CMatrix2x2
  (g00: float32) (g01: float32)
  (g10: float32) (g11: float32)

definition mat2_identity :: matrix2 where
  "mat2_identity = CMatrix2x2
     1 0
     0 1"

definition mat2_set :: "float32 list \<Rightarrow> bool \<Rightarrow> matrix2 \<Rightarrow> matrix2 res" where
  "mat2_set pfElts bRows this =
     (if length pfElts < 4 then Inl Undefined else
     (case this of CMatrix2x2 a00 a01 a10 a11 \<Rightarrow>
         (let (a00, a01, a10, a11) = (if bRows then
                 (let a00 = pfElts ! 0;
                      a01 = pfElts ! 1;
                      a10 = pfElts ! 2;
                      a11 = pfElts ! 3
                  in (a00, a01, a10, a11))
                 else
                 (let a00 = pfElts ! 0;
                      a10 = pfElts ! 1;
                      a01 = pfElts ! 2;
                      a11 = pfElts ! 3
                  in (a00, a01, a10, a11)))
          in Inr (CMatrix2x2 a00 a01 a10 a11))))"

definition Set2_pointer :: "float32 list \<Rightarrow> bool \<Rightarrow> matrix2 \<Rightarrow> matrix2 res" where
  "Set2_pointer pfElts bRows this =
     (if length pfElts < 4 then Inl Undefined else
     (case this of CMatrix2x2 a00 a01 a10 a11 \<Rightarrow>
         (let (a00, a01, a10, a11) = (if bRows then
                 (let a00 = pfElts ! 0;
                      a01 = pfElts ! 1;
                      a10 = pfElts ! 2;
                      a11 = pfElts ! 3
                  in (a00, a01, a10, a11))
                 else
                 (let a00 = pfElts ! 0;
                      a10 = pfElts ! 1;
                      a01 = pfElts ! 2;
                      a11 = pfElts ! 3
                  in (a00, a01, a10, a11)))
          in Inr (CMatrix2x2 a00 a01 a10 a11))))"

definition mat2_rows :: "vector2 \<Rightarrow> vector2 \<Rightarrow> bool \<Rightarrow> matrix2 \<Rightarrow> matrix2" where
  "mat2_rows v0 v1 bRows this =
     (case this of CMatrix2x2 a00 a01 a10 a11 \<Rightarrow>
         (let (a00, a01, a10, a11) = (if bRows then
                 (let a00 = p_x v0;
                      a01 = p_y v0;
                      a10 = p_x v1;
                      a11 = p_y v1
                  in (a00, a01, a10, a11))
                 else
                 (let a00 = p_x v0;
                      a10 = p_y v0;
                      a01 = p_x v1;
                      a11 = p_y v1
                  in (a00, a01, a10, a11)))
          in CMatrix2x2 a00 a01 a10 a11))"

definition mat2_transform :: "float32 \<Rightarrow> vector2 \<Rightarrow> matrix2 \<Rightarrow> matrix2" where
  "mat2_transform fAngle scale this =
     (case this of CMatrix2x2 a00 a01 a10 a11 \<Rightarrow>
         (let (s, c) = SinCos fAngle;
              a00 = c * p_x scale;
              a01 = s * p_x scale;
              a10 = - s * p_y scale;
              a11 = c * p_y scale
          in CMatrix2x2 a00 a01 a10 a11))"

definition Set2 :: "float32 \<Rightarrow> float32 \<Rightarrow> float32 \<Rightarrow> float32 \<Rightarrow> matrix2 \<Rightarrow> matrix2" where
  "Set2 elt00 elt01 elt10 elt11 this =
     (case this of CMatrix2x2 a00 a01 a10 a11 \<Rightarrow>
         (let a00 = elt00;
              a01 = elt01;
              a10 = elt10;
              a11 = elt11
          in CMatrix2x2 a00 a01 a10 a11))"

text \<open>A row or a column beyond the second is outside the matrix.\<close>

definition GetRow2 :: "nat \<Rightarrow> matrix2 \<Rightarrow> vector2 res" where
  "GetRow2 iRow this =
     (if 2 \<le> iRow then Inl Undefined
      else Inr (if iRow = 0 then CVector2 (g00 this) (g01 this) else CVector2 (g10 this) (g11 this)))"

definition GetColumn2 :: "nat \<Rightarrow> matrix2 \<Rightarrow> vector2 res" where
  "GetColumn2 iCol this =
     (if 2 \<le> iCol then Inl Undefined
      else Inr (if iCol = 0 then CVector2 (g00 this) (g10 this) else CVector2 (g01 this) (g11 this)))"

definition SetRow2 :: "nat \<Rightarrow> vector2 \<Rightarrow> matrix2 \<Rightarrow> matrix2 res" where
  "SetRow2 iRow v this =
     (if 2 \<le> iRow then Inl Undefined
      else Inr (if iRow = 0 then CMatrix2x2 (p_x v) (p_y v) (g10 this) (g11 this)
        else CMatrix2x2 (g00 this) (g01 this) (p_x v) (p_y v)))"

definition SetColumn2 :: "nat \<Rightarrow> vector2 \<Rightarrow> matrix2 \<Rightarrow> matrix2 res" where
  "SetColumn2 iCol v this =
     (if 2 \<le> iCol then Inl Undefined
      else Inr (if iCol = 0 then CMatrix2x2 (p_x v) (g01 this) (p_y v) (g11 this)
        else CMatrix2x2 (g00 this) (p_x v) (g10 this) (p_y v)))"

definition SetRows2 :: "vector2 \<Rightarrow> vector2 \<Rightarrow> matrix2 \<Rightarrow> matrix2" where
  "SetRows2 v0 v1 this =
     (case this of CMatrix2x2 a00 a01 a10 a11 \<Rightarrow>
         (let a00 = p_x v0;
              a01 = p_y v0;
              a10 = p_x v1;
              a11 = p_y v1
          in CMatrix2x2 a00 a01 a10 a11))"

definition SetColumns2 :: "vector2 \<Rightarrow> vector2 \<Rightarrow> matrix2 \<Rightarrow> matrix2" where
  "SetColumns2 v0 v1 this =
     (case this of CMatrix2x2 a00 a01 a10 a11 \<Rightarrow>
         (let a00 = p_x v0;
              a10 = p_y v0;
              a01 = p_x v1;
              a11 = p_y v1
          in CMatrix2x2 a00 a01 a10 a11))"

section \<open>Making and taking apart\<close>

definition MakeTransform2 :: "float32 \<Rightarrow> vector2 \<Rightarrow> matrix2 \<Rightarrow> matrix2" where
  "MakeTransform2 fAngle scale this =
     (case this of CMatrix2x2 a00 a01 a10 a11 \<Rightarrow>
         (let (s, c) = SinCos fAngle;
              a00 = c * p_x scale;
              a01 = s * p_x scale;
              a10 = - s * p_y scale;
              a11 = c * p_y scale
          in CMatrix2x2 a00 a01 a10 a11))"

text \<open>The flag says whether the caller passes a pointer for the angle; without one the assertion does not run.\<close>

definition DecomposeTransform2 :: "bool \<Rightarrow> matrix2 \<Rightarrow> (float32 option \<times> vector2) res" where
  "DecomposeTransform2 wantAngle this =
     (let scaleX = sqrt (g00 this * g00 this + g01 this * g01 this);
          scaleY = sqrt (g10 this * g10 this + g11 this * g11 this)
      in if wantAngle then
           if \<not> (\<not> IsZero scaleX \<and> \<not> IsZero scaleY) then Inl Fatal_Exception
           else let invScaleX = 1 / scaleX
             in Inr (Some (ATan (g01 this * invScaleX) (g00 this * invScaleX)), CVector2 scaleX scaleY)
         else Inr (None, CVector2 scaleX scaleY))"

definition GetScale2 :: "matrix2 \<Rightarrow> vector2" where
  "GetScale2 this =
     (let scale_x = sqrt (g00 this * g00 this + g01 this * g01 this);
          scale_y = sqrt (g10 this * g10 this + g11 this * g11 this)
      in CVector2 scale_x scale_y)"

definition SetScaleX2 :: "float32 \<Rightarrow> matrix2 \<Rightarrow> matrix2" where
  "SetScaleX2 x this =
     (case this of CMatrix2x2 a00 a01 a10 a11 \<Rightarrow>
         (let scaleSq = sqrt (a00 * a00 + a01 * a01);
              (a00, a01) = (if \<not> IsZero scaleSq then
                 (let rescale = x * InvSqrt scaleSq;
                      a00 = a00 * rescale;
                      a01 = a01 * rescale
                  in (a00, a01))
                 else (a00, a01))
          in CMatrix2x2 a00 a01 a10 a11))"

definition SetScaleY2 :: "float32 \<Rightarrow> matrix2 \<Rightarrow> matrix2" where
  "SetScaleY2 y this =
     (case this of CMatrix2x2 a00 a01 a10 a11 \<Rightarrow>
         (let scaleSq = sqrt (a10 * a10 + a11 * a11);
              (a10, a11) = (if \<not> IsZero scaleSq then
                 (let rescale = y * InvSqrt scaleSq;
                      a10 = a10 * rescale;
                      a11 = a11 * rescale
                  in (a10, a11))
                 else (a10, a11))
          in CMatrix2x2 a00 a01 a10 a11))"

definition SetScale2 :: "vector2 \<Rightarrow> matrix2 \<Rightarrow> matrix2" where
  "SetScale2 scale this =
     (case this of CMatrix2x2 a00 a01 a10 a11 \<Rightarrow>
         (let scaleSq = sqrt (a00 * a00 + a01 * a01);
              (a00, a01) = (if \<not> IsZero scaleSq then
                 (let rescale = p_x scale * InvSqrt scaleSq;
                      a00 = a00 * rescale;
                      a01 = a01 * rescale
                  in (a00, a01))
                 else (a00, a01));
              scaleSq = sqrt (a10 * a10 + a11 * a11);
              (a10, a11) = (if \<not> IsZero scaleSq then
                 (let rescale = p_y scale * InvSqrt scaleSq;
                      a10 = a10 * rescale;
                      a11 = a11 * rescale
                  in (a10, a11))
                 else (a10, a11))
          in CMatrix2x2 a00 a01 a10 a11))"

definition SetScale2_uniform :: "float32 \<Rightarrow> matrix2 \<Rightarrow> matrix2" where
  "SetScale2_uniform fScale this =
     (case this of CMatrix2x2 a00 a01 a10 a11 \<Rightarrow>
         (let scaleSq = sqrt (a00 * a00 + a01 * a01);
              (a00, a01) = (if \<not> IsZero scaleSq then
                 (let rescale = fScale * InvSqrt scaleSq;
                      a00 = a00 * rescale;
                      a01 = a01 * rescale
                  in (a00, a01))
                 else (a00, a01));
              scaleSq = sqrt (a10 * a10 + a11 * a11);
              (a10, a11) = (if \<not> IsZero scaleSq then
                 (let rescale = fScale * InvSqrt scaleSq;
                      a10 = a10 * rescale;
                      a11 = a11 * rescale
                  in (a10, a11))
                 else (a10, a11))
          in CMatrix2x2 a00 a01 a10 a11))"

definition ScaleX2 :: "float32 \<Rightarrow> matrix2 \<Rightarrow> matrix2" where
  "ScaleX2 x this =
     (case this of CMatrix2x2 a00 a01 a10 a11 \<Rightarrow>
         (let a00 = a00 * x;
              a01 = a01 * x
          in CMatrix2x2 a00 a01 a10 a11))"

definition ScaleY2 :: "float32 \<Rightarrow> matrix2 \<Rightarrow> matrix2" where
  "ScaleY2 y this =
     (case this of CMatrix2x2 a00 a01 a10 a11 \<Rightarrow>
         (let a10 = a10 * y;
              a11 = a11 * y
          in CMatrix2x2 a00 a01 a10 a11))"

definition Scale2 :: "vector2 \<Rightarrow> matrix2 \<Rightarrow> matrix2" where
  "Scale2 scale this =
     (case this of CMatrix2x2 a00 a01 a10 a11 \<Rightarrow>
         (let a00 = a00 * p_x scale;
              a01 = a01 * p_x scale;
              a10 = a10 * p_y scale;
              a11 = a11 * p_y scale
          in CMatrix2x2 a00 a01 a10 a11))"

definition Scale2_uniform :: "float32 \<Rightarrow> matrix2 \<Rightarrow> matrix2" where
  "Scale2_uniform fScale this =
     (case this of CMatrix2x2 a00 a01 a10 a11 \<Rightarrow>
         (let a00 = a00 * fScale;
              a01 = a01 * fScale;
              a10 = a10 * fScale;
              a11 = a11 * fScale
          in CMatrix2x2 a00 a01 a10 a11))"

definition Rotate2 :: "float32 \<Rightarrow> matrix2 \<Rightarrow> matrix2" where
  "Rotate2 fAngle this =
     (case this of CMatrix2x2 a00 a01 a10 a11 \<Rightarrow>
         (let (s, c) = SinCos fAngle;
              t = a00 * s + a01 * c;
              a00 = a00 * c - a01 * s;
              a01 = t;
              t = a10 * s + a11 * c;
              a10 = a10 * c - a11 * s;
              a11 = t
          in CMatrix2x2 a00 a01 a10 a11))"

section \<open>Tests\<close>

definition IsIdentity2 :: "matrix2 \<Rightarrow> bool" where
  "IsIdentity2 this \<longleftrightarrow>
     IsZero (g00 this - 1) \<and>
     IsZero (g11 this - 1) \<and>
     IsZero (g01 this) \<and>
     IsZero (g10 this)"

definition IsOrthogonal2 :: "matrix2 \<Rightarrow> bool" where
  "IsOrthogonal2 this \<longleftrightarrow>
     IsZero (g00 this * g10 this + g01 this * g11 this)"

definition IsOrthonormal2 :: "matrix2 \<Rightarrow> bool" where
  "IsOrthonormal2 this \<longleftrightarrow>
     IsZero (g00 this * g00 this + g01 this * g01 this - 1) \<and>
     IsZero (g10 this * g10 this + g11 this * g11 this - 1) \<and>
     IsZero (g00 this * g10 this + g01 this * g11 this)"

definition Orthogonalise2_assign :: "vector2 \<Rightarrow> matrix2 \<Rightarrow> matrix2 res" where
  "Orthogonalise2_assign scale this =
     (case this of CMatrix2x2 a00 a01 a10 a11 \<Rightarrow>
         (let origScaleX = a00 * a00 + a01 * a01
          in if IsZero origScaleX then Inl Fatal_Exception
             else
             (let invOrigScaleX = InvSqrt origScaleX;
                  a00 = a00 * invOrigScaleX;
                  a01 = a01 * invOrigScaleX;
                  ccwPerpDot = a00 * a11 - a01 * a10;
                  (a11, a10) = (if ccwPerpDot \<ge> 0 then
                     (let a11 = a00;
                          a10 = - a01
                      in (a11, a10))
                     else
                     (let a11 = - a00;
                          a10 = a01
                      in (a11, a10)));
                  a00 = a00 * p_x scale;
                  a01 = a01 * p_x scale;
                  a10 = a10 * p_y scale;
                  a11 = a11 * p_y scale
              in Inr (CMatrix2x2 a00 a01 a10 a11))))"

definition Orthogonalise2 :: "matrix2 \<Rightarrow> vector2 \<Rightarrow> matrix2 res" where
  "Orthogonalise2 m scale =
     (let origScaleX = g00 m * g00 m + g01 m * g01 m
      in if IsZero origScaleX then Inl Fatal_Exception
         else
         (let invOrigScaleX = InvSqrt origScaleX;
              o00 = g00 m * invOrigScaleX;
              o01 = g01 m * invOrigScaleX;
              ccwPerpDot = o00 * g11 m - o01 * g10 m;
              (o11, o10) = (if ccwPerpDot \<ge> 0 then
                 (let o11 = o00;
                      o10 = - o01
                  in (o11, o10))
                 else
                 (let o11 = - o00;
                      o10 = o01
                  in (o11, o10)));
              o00 = o00 * p_x scale;
              o01 = o01 * p_x scale;
              o10 = o10 * p_y scale;
              o11 = o11 * p_y scale
          in Inr (CMatrix2x2 o00 o01 o10 o11)))"

definition mat2_eq :: "matrix2 \<Rightarrow> matrix2 \<Rightarrow> bool res" where
  "mat2_eq m1 m2 =
     res_and (AreEqual (g00 m1) (g00 m2)) (res_and (AreEqual (g01 m1) (g01 m2))
       (res_and (AreEqual (g10 m1) (g10 m2)) (AreEqual (g11 m1) (g11 m2))))"

text \<open>The second of the three connectives of \<open>operator!=\<close> is a conjunction, which binds closer than the others.\<close>

definition mat2_neq :: "matrix2 \<Rightarrow> matrix2 \<Rightarrow> bool res" where
  "mat2_neq m1 m2 =
     res_or (differ (g00 m1) (g00 m2))
       (res_or (res_and (differ (g01 m1) (g01 m2)) (differ (g10 m1) (g10 m2)))
         (differ (g11 m1) (g11 m2)))"

section \<open>Transposition and inverses\<close>

definition Transpose2_assign :: "matrix2 \<Rightarrow> matrix2" where
  "Transpose2_assign this =
     (case this of CMatrix2x2 a00 a01 a10 a11 \<Rightarrow>
         (let t = a01;
              a01 = a10;
              a10 = t
          in CMatrix2x2 a00 a01 a10 a11))"

definition Transpose2 :: "matrix2 \<Rightarrow> matrix2" where
  "Transpose2 m =
     (let o00 = g00 m;
          o01 = g10 m;
          o10 = g01 m;
          o11 = g11 m
      in CMatrix2x2 o00 o01 o10 o11)"

definition Invert2 :: "matrix2 \<Rightarrow> matrix2 res" where
  "Invert2 this =
     (case this of CMatrix2x2 a00 a01 a10 a11 \<Rightarrow>
         (let det = a00 * a11 - a01 * a10
          in if IsZero det then Inl Fatal_Exception
             else
             (let invDet = 1 / det;
                  t = invDet * a00;
                  a00 = invDet * a11;
                  a11 = t;
                  a01 = a01 * invDet;
                  a10 = a10 * invDet
              in Inr (CMatrix2x2 a00 a01 a10 a11))))"

definition Inverse2 :: "matrix2 \<Rightarrow> matrix2 res" where
  "Inverse2 m =
     (let det = g00 m * g11 m - g01 m * g10 m
      in if IsZero det then Inl Fatal_Exception
         else
         (let invDet = 1 / det;
              o00 = invDet * g11 m;
              o01 = invDet * g01 m;
              o10 = invDet * g10 m;
              o11 = invDet * g00 m
          in Inr (CMatrix2x2 o00 o01 o10 o11)))"

section \<open>Rotations and scalings\<close>

definition MakeIdentity2 :: "matrix2 \<Rightarrow> matrix2" where
  "MakeIdentity2 this =
     (case this of CMatrix2x2 a00 a01 a10 a11 \<Rightarrow>
         (let a00 = 1;
              a01 = 0;
              a10 = 0;
              a11 = 1
          in CMatrix2x2 a00 a01 a10 a11))"

definition MakeRotation2 :: "float32 \<Rightarrow> matrix2 \<Rightarrow> matrix2" where
  "MakeRotation2 fAngle this =
     (case this of CMatrix2x2 a00 a01 a10 a11 \<Rightarrow>
         (let (s, c) = SinCos fAngle;
              a00 = c;
              a01 = s;
              a10 = - s;
              a11 = c
          in CMatrix2x2 a00 a01 a10 a11))"

definition MakeScaling2 :: "vector2 \<Rightarrow> matrix2 \<Rightarrow> matrix2" where
  "MakeScaling2 scale this =
     (case this of CMatrix2x2 a00 a01 a10 a11 \<Rightarrow>
         (let a00 = p_x scale;
              a01 = 0;
              a10 = 0;
              a11 = p_y scale
          in CMatrix2x2 a00 a01 a10 a11))"

definition MakeScaling2_uniform :: "float32 \<Rightarrow> matrix2 \<Rightarrow> matrix2" where
  "MakeScaling2_uniform fScale this =
     (case this of CMatrix2x2 a00 a01 a10 a11 \<Rightarrow>
         (let a00 = fScale;
              a01 = 0;
              a10 = 0;
              a11 = fScale
          in CMatrix2x2 a00 a01 a10 a11))"

definition Matrix2x2Identity :: "matrix2" where
  "Matrix2x2Identity =
     (let o00 = 1;
          o01 = 0;
          o10 = 0;
          o11 = 1
      in CMatrix2x2 o00 o01 o10 o11)"

definition Matrix2x2Rotation :: "float32 \<Rightarrow> matrix2" where
  "Matrix2x2Rotation fAngle =
     (let (s, c) = SinCos fAngle;
          o00 = c;
          o01 = s;
          o10 = - s;
          o11 = c
      in CMatrix2x2 o00 o01 o10 o11)"

definition Matrix2x2Scaling :: "vector2 \<Rightarrow> matrix2" where
  "Matrix2x2Scaling scale =
     (let o00 = p_x scale;
          o01 = 0;
          o10 = 0;
          o11 = p_y scale
      in CMatrix2x2 o00 o01 o10 o11)"

definition Matrix2x2Scaling_uniform :: "float32 \<Rightarrow> matrix2" where
  "Matrix2x2Scaling_uniform fScale =
     (let o00 = fScale;
          o01 = 0;
          o10 = 0;
          o11 = fScale
      in CMatrix2x2 o00 o01 o10 o11)"

definition FaceDirection2 :: "vector2 \<Rightarrow> bool \<Rightarrow> bool \<Rightarrow> matrix2 \<Rightarrow> matrix2" where
  "FaceDirection2 direction bUseYAxis bLH this =
     (case this of CMatrix2x2 a00 a01 a10 a11 \<Rightarrow>
         (let axis = vec2_Normalise direction
          in if vec2_IsZero axis then CMatrix2x2 a00 a01 a10 a11
             else
             (let (a10, a11, a00, a01) = (if bUseYAxis then
                     (let a10 = p_x axis;
                          a11 = p_y axis;
                          (a00, a01) = (if bLH then
                             (let a00 = a11;
                                  a01 = - a10
                              in (a00, a01))
                             else
                             (let a00 = - a11;
                                  a01 = a10
                              in (a00, a01)))
                      in (a10, a11, a00, a01))
                     else
                     (let a00 = p_x axis;
                          a01 = p_y axis;
                          (a11, a10) = (if bLH then
                             (let a11 = - a00;
                                  a10 = a01
                              in (a11, a10))
                             else
                             (let a11 = a00;
                                  a10 = - a01
                              in (a11, a10)))
                      in (a10, a11, a00, a01)))
              in CMatrix2x2 a00 a01 a10 a11)))"

definition MatrixFaceDirection2 :: "vector2 \<Rightarrow> bool \<Rightarrow> bool \<Rightarrow> matrix2" where
  "MatrixFaceDirection2 direction bUseYAxis bLH =
     (let axis = vec2_Normalise direction
      in if vec2_IsZero axis then mat2_identity
         else
         (let (o10, o11, o00, o01) = (if bUseYAxis then
                 (let o10 = p_x axis;
                      o11 = p_y axis;
                      (o00, o01) = (if bLH then
                         (let o00 = o11;
                              o01 = - o10
                          in (o00, o01))
                         else
                         (let o00 = - o11;
                              o01 = o10
                          in (o00, o01)))
                  in (o10, o11, o00, o01))
                 else
                 (let o00 = p_x axis;
                      o01 = p_y axis;
                      (o11, o10) = (if bLH then
                         (let o11 = - o00;
                              o10 = o01
                          in (o11, o10))
                         else
                         (let o11 = o00;
                              o10 = - o01
                          in (o11, o10)))
                  in (o10, o11, o00, o01)))
          in CMatrix2x2 o00 o01 o10 o11))"

section \<open>Products\<close>

definition mat2_scale_assign :: "float32 \<Rightarrow> matrix2 \<Rightarrow> matrix2" where
  "mat2_scale_assign s this =
     (case this of CMatrix2x2 a00 a01 a10 a11 \<Rightarrow>
         (let a00 = a00 * s;
              a01 = a01 * s;
              a10 = a10 * s;
              a11 = a11 * s
          in CMatrix2x2 a00 a01 a10 a11))"

definition mat2_scale :: "matrix2 \<Rightarrow> float32 \<Rightarrow> matrix2" where
  "mat2_scale m s =
     (let o00 = g00 m * s;
          o01 = g01 m * s;
          o10 = g10 m * s;
          o11 = g11 m * s
      in CMatrix2x2 o00 o01 o10 o11)"

definition mat2_scale_left :: "float32 \<Rightarrow> matrix2 \<Rightarrow> matrix2" where
  "mat2_scale_left s m =
     (let o00 = g00 m * s;
          o01 = g01 m * s;
          o10 = g10 m * s;
          o11 = g11 m * s
      in CMatrix2x2 o00 o01 o10 o11)"

definition mat2_div_assign :: "float32 \<Rightarrow> matrix2 \<Rightarrow> matrix2" where
  "mat2_div_assign s this =
     (case this of CMatrix2x2 a00 a01 a10 a11 \<Rightarrow>
         (let a00 = a00 / s;
              a01 = a01 / s;
              a10 = a10 / s;
              a11 = a11 / s
          in CMatrix2x2 a00 a01 a10 a11))"

definition mat2_div :: "matrix2 \<Rightarrow> float32 \<Rightarrow> matrix2" where
  "mat2_div m s =
     (let o00 = g00 m / s;
          o01 = g01 m / s;
          o10 = g10 m / s;
          o11 = g11 m / s
      in CMatrix2x2 o00 o01 o10 o11)"

definition vec2_mul_mat :: "vector2 \<Rightarrow> matrix2 \<Rightarrow> vector2" where
  "vec2_mul_mat v m =
     (let vOut_x = p_x v * g00 m + p_y v * g10 m;
          vOut_y = p_x v * g01 m + p_y v * g11 m
      in CVector2 vOut_x vOut_y)"

definition mat2_mul_vec :: "matrix2 \<Rightarrow> vector2 \<Rightarrow> vector2" where
  "mat2_mul_vec m v =
     (let vOut_x = g00 m * p_x v + g01 m * p_y v;
          vOut_y = g10 m * p_x v + g11 m * p_y v
      in CVector2 vOut_x vOut_y)"

definition Transform2 :: "vector2 \<Rightarrow> matrix2 \<Rightarrow> vector2" where
  "Transform2 v this =
     (let vOut_x = p_x v * g00 this + p_y v * g10 this;
          vOut_y = p_x v * g01 this + p_y v * g11 this
      in CVector2 vOut_x vOut_y)"

definition mat2_mul :: "matrix2 \<Rightarrow> matrix2 \<Rightarrow> matrix2" where
  "mat2_mul m1 m2 =
     (let o00 = g00 m1 * g00 m2 + g01 m1 * g10 m2;
          o01 = g00 m1 * g01 m2 + g01 m1 * g11 m2;
          o10 = g10 m1 * g00 m2 + g11 m1 * g10 m2;
          o11 = g10 m1 * g01 m2 + g11 m1 * g11 m2
      in CMatrix2x2 o00 o01 o10 o11)"

text \<open>The flag \<open>self\<close> says that the argument is the matrix itself.\<close>

definition mat2_mul_assign :: "bool \<Rightarrow> matrix2 \<Rightarrow> matrix2 \<Rightarrow> matrix2" where
  "mat2_mul_assign self this m =
     (if self then mat2_mul m m else
      case this of CMatrix2x2 a00 a01 a10 a11 \<Rightarrow>
         (let t = a00 * g00 m + a01 * g10 m;
              a01 = a00 * g01 m + a01 * g11 m;
              a00 = t;
              t = a10 * g00 m + a11 * g10 m;
              a11 = a10 * g01 m + a11 * g11 m;
              a10 = t
          in CMatrix2x2 a00 a01 a10 a11))"

end
