(* ===== verification/Matrices3.thy ===== *)
theory Matrices3
  imports Plane
begin

text \<open>
  \<open>CMatrix3x3\<close> as a linear map of space (CMatrix3x3.h, CMatrix3x3.cpp), with the conventions of the
  other matrices: \<open>a12\<close> is the member \<open>e12\<close> while an operation runs, \<open>o12\<close> the element of a matrix
  under construction, and a constructor is given what the memory held before.
\<close>

section \<open>The type\<close>

datatype matrix3 = CMatrix3x3
  (f00: float32) (f01: float32) (f02: float32)
  (f10: float32) (f11: float32) (f12: float32)
  (f20: float32) (f21: float32) (f22: float32)

definition mat3_identity :: matrix3 where
  "mat3_identity = CMatrix3x3
     1 0 0
     0 1 0
     0 0 1"

definition mat3_set :: "float32 list \<Rightarrow> bool \<Rightarrow> matrix3 \<Rightarrow> matrix3 res" where
  "mat3_set pfElts bRows this =
     (if length pfElts < 9 then Inl Undefined else
     (case this of CMatrix3x3 a00 a01 a02 a10 a11 a12 a20 a21 a22 \<Rightarrow>
         (let (a00, a01, a02, a10, a11, a12, a20, a21, a22) = (if bRows then
                 (let a00 = pfElts ! 0;
                      a01 = pfElts ! 1;
                      a02 = pfElts ! 2;
                      a10 = pfElts ! 3;
                      a11 = pfElts ! 4;
                      a12 = pfElts ! 5;
                      a20 = pfElts ! 6;
                      a21 = pfElts ! 7;
                      a22 = pfElts ! 8
                  in (a00, a01, a02, a10, a11, a12, a20, a21, a22))
                 else
                 (let a00 = pfElts ! 0;
                      a10 = pfElts ! 1;
                      a20 = pfElts ! 2;
                      a01 = pfElts ! 3;
                      a11 = pfElts ! 4;
                      a21 = pfElts ! 5;
                      a02 = pfElts ! 6;
                      a12 = pfElts ! 7;
                      a22 = pfElts ! 8
                  in (a00, a01, a02, a10, a11, a12, a20, a21, a22)))
          in Inr (CMatrix3x3 a00 a01 a02 a10 a11 a12 a20 a21 a22))))"

definition Set3_pointer :: "float32 list \<Rightarrow> bool \<Rightarrow> matrix3 \<Rightarrow> matrix3 res" where
  "Set3_pointer pfElts bRows this =
     (if length pfElts < 9 then Inl Undefined else
     (case this of CMatrix3x3 a00 a01 a02 a10 a11 a12 a20 a21 a22 \<Rightarrow>
         (let (a00, a01, a02, a10, a11, a12, a20, a21, a22) = (if bRows then
                 (let a00 = pfElts ! 0;
                      a01 = pfElts ! 1;
                      a02 = pfElts ! 2;
                      a10 = pfElts ! 3;
                      a11 = pfElts ! 4;
                      a12 = pfElts ! 5;
                      a20 = pfElts ! 6;
                      a21 = pfElts ! 7;
                      a22 = pfElts ! 8
                  in (a00, a01, a02, a10, a11, a12, a20, a21, a22))
                 else
                 (let a00 = pfElts ! 0;
                      a10 = pfElts ! 1;
                      a20 = pfElts ! 2;
                      a01 = pfElts ! 3;
                      a11 = pfElts ! 4;
                      a21 = pfElts ! 5;
                      a02 = pfElts ! 6;
                      a12 = pfElts ! 7;
                      a22 = pfElts ! 8
                  in (a00, a01, a02, a10, a11, a12, a20, a21, a22)))
          in Inr (CMatrix3x3 a00 a01 a02 a10 a11 a12 a20 a21 a22))))"

definition mat3_rows :: "vector3 \<Rightarrow> vector3 \<Rightarrow> vector3 \<Rightarrow> bool \<Rightarrow> matrix3 \<Rightarrow> matrix3" where
  "mat3_rows v0 v1 v2 bRows this =
     (case this of CMatrix3x3 a00 a01 a02 a10 a11 a12 a20 a21 a22 \<Rightarrow>
         (let (a00, a01, a02, a10, a11, a12, a20, a21, a22) = (if bRows then
                 (let a00 = v_x v0;
                      a01 = v_y v0;
                      a02 = v_z v0;
                      a10 = v_x v1;
                      a11 = v_y v1;
                      a12 = v_z v1;
                      a20 = v_x v2;
                      a21 = v_y v2;
                      a22 = v_z v2
                  in (a00, a01, a02, a10, a11, a12, a20, a21, a22))
                 else
                 (let a00 = v_x v0;
                      a10 = v_y v0;
                      a20 = v_z v0;
                      a01 = v_x v1;
                      a11 = v_y v1;
                      a21 = v_z v1;
                      a02 = v_x v2;
                      a12 = v_y v2;
                      a22 = v_z v2
                  in (a00, a01, a02, a10, a11, a12, a20, a21, a22)))
          in CMatrix3x3 a00 a01 a02 a10 a11 a12 a20 a21 a22))"

definition Set3 :: "float32 \<Rightarrow> float32 \<Rightarrow> float32 \<Rightarrow> float32 \<Rightarrow> float32 \<Rightarrow> float32 \<Rightarrow> float32 \<Rightarrow> float32 \<Rightarrow> float32 \<Rightarrow> matrix3 \<Rightarrow> matrix3" where
  "Set3 elt00 elt01 elt02 elt10 elt11 elt12 elt20 elt21 elt22 this =
     (case this of CMatrix3x3 a00 a01 a02 a10 a11 a12 a20 a21 a22 \<Rightarrow>
         (let a00 = elt00;
              a01 = elt01;
              a02 = elt02;
              a10 = elt10;
              a11 = elt11;
              a12 = elt12;
              a20 = elt20;
              a21 = elt21;
              a22 = elt22
          in CMatrix3x3 a00 a01 a02 a10 a11 a12 a20 a21 a22))"

text \<open>Rows and columns by index; one beyond the third is outside the matrix.\<close>

definition mat3_at :: "matrix3 \<Rightarrow> nat \<Rightarrow> nat \<Rightarrow> float32" where
  "mat3_at m i j = [[f00 m, f01 m, f02 m], [f10 m, f11 m, f12 m], [f20 m, f21 m, f22 m]] ! i ! j"

definition mat3_fill :: "(nat \<Rightarrow> nat \<Rightarrow> float32) \<Rightarrow> matrix3" where
  "mat3_fill f = CMatrix3x3
     (f 0 0) (f 0 1) (f 0 2)
     (f 1 0) (f 1 1) (f 1 2)
     (f 2 0) (f 2 1) (f 2 2)"

definition GetRow3 :: "nat \<Rightarrow> matrix3 \<Rightarrow> vector3 res" where
  "GetRow3 iRow this =
     (if 3 \<le> iRow then Inl Undefined
      else Inr (CVector3 (mat3_at this iRow 0) (mat3_at this iRow 1) (mat3_at this iRow 2)))"

definition GetColumn3 :: "nat \<Rightarrow> matrix3 \<Rightarrow> vector3 res" where
  "GetColumn3 iCol this =
     (if 3 \<le> iCol then Inl Undefined
      else Inr (CVector3 (mat3_at this 0 iCol) (mat3_at this 1 iCol) (mat3_at this 2 iCol)))"

definition SetRow3 :: "nat \<Rightarrow> vector3 \<Rightarrow> matrix3 \<Rightarrow> matrix3 res" where
  "SetRow3 iRow v this =
     (if 3 \<le> iRow then Inl Undefined
      else Inr (mat3_fill (\<lambda>i j. if i = iRow then [v_x v, v_y v, v_z v] ! j else mat3_at this i j)))"

definition SetRow3_plane :: "nat \<Rightarrow> vector2 \<Rightarrow> matrix3 \<Rightarrow> matrix3 res" where
  "SetRow3_plane iRow v this =
     (if 3 \<le> iRow then Inl Undefined
      else Inr (mat3_fill (\<lambda>i j. if i = iRow \<and> j < 2 then [p_x v, p_y v] ! j else mat3_at this i j)))"

definition SetColumn3 :: "nat \<Rightarrow> vector3 \<Rightarrow> matrix3 \<Rightarrow> matrix3 res" where
  "SetColumn3 iCol v this =
     (if 3 \<le> iCol then Inl Undefined
      else Inr (mat3_fill (\<lambda>i j. if j = iCol then [v_x v, v_y v, v_z v] ! i else mat3_at this i j)))"

definition SetColumn3_plane :: "nat \<Rightarrow> vector2 \<Rightarrow> matrix3 \<Rightarrow> matrix3 res" where
  "SetColumn3_plane iCol v this =
     (if 3 \<le> iCol then Inl Undefined
      else Inr (mat3_fill (\<lambda>i j. if j = iCol \<and> i < 2 then [p_x v, p_y v] ! i else mat3_at this i j)))"

definition SetRows3 :: "vector3 \<Rightarrow> vector3 \<Rightarrow> vector3 \<Rightarrow> matrix3 \<Rightarrow> matrix3" where
  "SetRows3 v0 v1 v2 this =
     (case this of CMatrix3x3 a00 a01 a02 a10 a11 a12 a20 a21 a22 \<Rightarrow>
         (let a00 = v_x v0;
              a01 = v_y v0;
              a02 = v_z v0;
              a10 = v_x v1;
              a11 = v_y v1;
              a12 = v_z v1;
              a20 = v_x v2;
              a21 = v_y v2;
              a22 = v_z v2
          in CMatrix3x3 a00 a01 a02 a10 a11 a12 a20 a21 a22))"

definition SetColumns3 :: "vector3 \<Rightarrow> vector3 \<Rightarrow> vector3 \<Rightarrow> matrix3 \<Rightarrow> matrix3" where
  "SetColumns3 v0 v1 v2 this =
     (case this of CMatrix3x3 a00 a01 a02 a10 a11 a12 a20 a21 a22 \<Rightarrow>
         (let a00 = v_x v0;
              a10 = v_y v0;
              a20 = v_z v0;
              a01 = v_x v1;
              a11 = v_y v1;
              a21 = v_z v1;
              a02 = v_x v2;
              a12 = v_y v2;
              a22 = v_z v2
          in CMatrix3x3 a00 a01 a02 a10 a11 a12 a20 a21 a22))"

section \<open>Products\<close>

definition mat3_mul :: "matrix3 \<Rightarrow> matrix3 \<Rightarrow> matrix3" where
  "mat3_mul m1 m2 =
     (let o00 = f00 m1 * f00 m2 + f01 m1 * f10 m2 + f02 m1 * f20 m2;
          o01 = f00 m1 * f01 m2 + f01 m1 * f11 m2 + f02 m1 * f21 m2;
          o02 = f00 m1 * f02 m2 + f01 m1 * f12 m2 + f02 m1 * f22 m2;
          o10 = f10 m1 * f00 m2 + f11 m1 * f10 m2 + f12 m1 * f20 m2;
          o11 = f10 m1 * f01 m2 + f11 m1 * f11 m2 + f12 m1 * f21 m2;
          o12 = f10 m1 * f02 m2 + f11 m1 * f12 m2 + f12 m1 * f22 m2;
          o20 = f20 m1 * f00 m2 + f21 m1 * f10 m2 + f22 m1 * f20 m2;
          o21 = f20 m1 * f01 m2 + f21 m1 * f11 m2 + f22 m1 * f21 m2;
          o22 = f20 m1 * f02 m2 + f21 m1 * f12 m2 + f22 m1 * f22 m2
      in CMatrix3x3 o00 o01 o02 o10 o11 o12 o20 o21 o22)"

text \<open>The flag \<open>self\<close> says that the argument is the matrix itself.\<close>

definition mat3_mul_assign :: "bool \<Rightarrow> matrix3 \<Rightarrow> matrix3 \<Rightarrow> matrix3" where
  "mat3_mul_assign self this m =
     (if self then mat3_mul m m else
      case this of CMatrix3x3 a00 a01 a02 a10 a11 a12 a20 a21 a22 \<Rightarrow>
         (let t0 = a00 * f00 m + a01 * f10 m + a02 * f20 m;
              t1 = a00 * f01 m + a01 * f11 m + a02 * f21 m;
              a02 = a00 * f02 m + a01 * f12 m + a02 * f22 m;
              a00 = t0;
              a01 = t1;
              t0 = a10 * f00 m + a11 * f10 m + a12 * f20 m;
              t1 = a10 * f01 m + a11 * f11 m + a12 * f21 m;
              a12 = a10 * f02 m + a11 * f12 m + a12 * f22 m;
              a10 = t0;
              a11 = t1;
              t0 = a20 * f00 m + a21 * f10 m + a22 * f20 m;
              t1 = a20 * f01 m + a21 * f11 m + a22 * f21 m;
              a22 = a20 * f02 m + a21 * f12 m + a22 * f22 m;
              a20 = t0;
              a21 = t1
          in CMatrix3x3 a00 a01 a02 a10 a11 a12 a20 a21 a22))"

definition mat3_scale_assign :: "float32 \<Rightarrow> matrix3 \<Rightarrow> matrix3" where
  "mat3_scale_assign s this =
     (case this of CMatrix3x3 a00 a01 a02 a10 a11 a12 a20 a21 a22 \<Rightarrow>
         (let a00 = a00 * s;
              a01 = a01 * s;
              a02 = a02 * s;
              a10 = a10 * s;
              a11 = a11 * s;
              a12 = a12 * s;
              a20 = a20 * s;
              a21 = a21 * s;
              a22 = a22 * s
          in CMatrix3x3 a00 a01 a02 a10 a11 a12 a20 a21 a22))"

definition mat3_scale :: "matrix3 \<Rightarrow> float32 \<Rightarrow> matrix3" where
  "mat3_scale m s =
     (let o00 = f00 m * s;
          o01 = f01 m * s;
          o02 = f02 m * s;
          o10 = f10 m * s;
          o11 = f11 m * s;
          o12 = f12 m * s;
          o20 = f20 m * s;
          o21 = f21 m * s;
          o22 = f22 m * s
      in CMatrix3x3 o00 o01 o02 o10 o11 o12 o20 o21 o22)"

definition mat3_scale_left :: "float32 \<Rightarrow> matrix3 \<Rightarrow> matrix3" where
  "mat3_scale_left s m =
     (let o00 = f00 m * s;
          o01 = f01 m * s;
          o02 = f02 m * s;
          o10 = f10 m * s;
          o11 = f11 m * s;
          o12 = f12 m * s;
          o20 = f20 m * s;
          o21 = f21 m * s;
          o22 = f22 m * s
      in CMatrix3x3 o00 o01 o02 o10 o11 o12 o20 o21 o22)"

definition mat3_div_assign :: "float32 \<Rightarrow> matrix3 \<Rightarrow> matrix3" where
  "mat3_div_assign s this =
     (case this of CMatrix3x3 a00 a01 a02 a10 a11 a12 a20 a21 a22 \<Rightarrow>
         (let a00 = a00 / s;
              a01 = a01 / s;
              a02 = a02 / s;
              a10 = a10 / s;
              a11 = a11 / s;
              a12 = a12 / s;
              a20 = a20 / s;
              a21 = a21 / s;
              a22 = a22 / s
          in CMatrix3x3 a00 a01 a02 a10 a11 a12 a20 a21 a22))"

definition mat3_div :: "matrix3 \<Rightarrow> float32 \<Rightarrow> matrix3" where
  "mat3_div m s =
     (let o00 = f00 m / s;
          o01 = f01 m / s;
          o02 = f02 m / s;
          o10 = f10 m / s;
          o11 = f11 m / s;
          o12 = f12 m / s;
          o20 = f20 m / s;
          o21 = f21 m / s;
          o22 = f22 m / s
      in CMatrix3x3 o00 o01 o02 o10 o11 o12 o20 o21 o22)"

definition vec_mul_mat3 :: "vector3 \<Rightarrow> matrix3 \<Rightarrow> vector3" where
  "vec_mul_mat3 v m =
     (let vOut_x = v_x v * f00 m + v_y v * f10 m + v_z v * f20 m;
          vOut_y = v_x v * f01 m + v_y v * f11 m + v_z v * f21 m;
          vOut_z = v_x v * f02 m + v_y v * f12 m + v_z v * f22 m
      in CVector3 vOut_x vOut_y vOut_z)"

definition mat3_mul_vec :: "matrix3 \<Rightarrow> vector3 \<Rightarrow> vector3" where
  "mat3_mul_vec m v =
     (let vOut_x = f00 m * v_x v + f01 m * v_y v + f02 m * v_z v;
          vOut_y = f10 m * v_x v + f11 m * v_y v + f12 m * v_z v;
          vOut_z = f20 m * v_x v + f21 m * v_y v + f22 m * v_z v
      in CVector3 vOut_x vOut_y vOut_z)"

definition Transform3 :: "vector3 \<Rightarrow> matrix3 \<Rightarrow> vector3" where
  "Transform3 v this =
     (let vOut_x = v_x v * f00 this + v_y v * f10 this + v_z v * f20 this;
          vOut_y = v_x v * f01 this + v_y v * f11 this + v_z v * f21 this;
          vOut_z = v_x v * f02 this + v_y v * f12 this + v_z v * f22 this
      in CVector3 vOut_x vOut_y vOut_z)"

definition mat3_eq :: "matrix3 \<Rightarrow> matrix3 \<Rightarrow> bool res" where
  "mat3_eq m1 m2 =
     (res_and (AreEqual (f00 m1) (f00 m2)) (res_and (AreEqual (f01 m1) (f01 m2)) (
       res_and (AreEqual (f02 m1) (f02 m2)) (res_and (AreEqual (f10 m1) (f10 m2)) (
       res_and (AreEqual (f11 m1) (f11 m2)) (res_and (AreEqual (f12 m1) (f12 m2)) (
       res_and (AreEqual (f20 m1) (f20 m2)) (res_and (AreEqual (f21 m1) (f21 m2)) (
       AreEqual (f22 m1) (f22 m2))))))))))"

definition mat3_neq :: "matrix3 \<Rightarrow> matrix3 \<Rightarrow> bool res" where
  "mat3_neq m1 m2 =
     (res_or (differ (f00 m1) (f00 m2)) (res_or (differ (f01 m1) (f01 m2)) (
       res_or (differ (f02 m1) (f02 m2)) (res_or (differ (f10 m1) (f10 m2)) (
       res_or (differ (f11 m1) (f11 m2)) (res_or (differ (f12 m1) (f12 m2)) (
       res_or (differ (f20 m1) (f20 m2)) (res_or (differ (f21 m1) (f21 m2)) (
       differ (f22 m1) (f22 m2))))))))))"

section \<open>Transposition and inverses\<close>

definition Transpose3_assign :: "matrix3 \<Rightarrow> matrix3" where
  "Transpose3_assign this =
     (case this of CMatrix3x3 a00 a01 a02 a10 a11 a12 a20 a21 a22 \<Rightarrow>
         (let t = a01;
              a01 = a10;
              a10 = t;
              t = a02;
              a02 = a20;
              a20 = t;
              t = a12;
              a12 = a21;
              a21 = t
          in CMatrix3x3 a00 a01 a02 a10 a11 a12 a20 a21 a22))"

definition Transpose3 :: "matrix3 \<Rightarrow> matrix3" where
  "Transpose3 m =
     (let o00 = f00 m;
          o01 = f10 m;
          o02 = f20 m;
          o10 = f01 m;
          o11 = f11 m;
          o12 = f21 m;
          o20 = f02 m;
          o21 = f12 m;
          o22 = f22 m
      in CMatrix3x3 o00 o01 o02 o10 o11 o12 o20 o21 o22)"

definition InvertRotScale :: "matrix3 \<Rightarrow> matrix3 res" where
  "InvertRotScale this =
     (case this of CMatrix3x3 a00 a01 a02 a10 a11 a12 a20 a21 a22 \<Rightarrow>
         (let scaleSqX = a00 * a00 + a01 * a01 + a02 * a02;
              scaleSqY = a10 * a10 + a11 * a11 + a12 * a12;
              scaleSqZ = a20 * a20 + a21 * a21 + a22 * a22
          in if \<not> (\<not> IsZero scaleSqX \<and> \<not> IsZero scaleSqY \<and> \<not> IsZero scaleSqZ) then Inl Fatal_Exception
             else
             (let invScaleX = 1 / scaleSqX;
                  invScaleY = 1 / scaleSqY;
                  invScaleZ = 1 / scaleSqZ;
                  a00 = a00 * invScaleX;
                  a11 = a11 * invScaleY;
                  a22 = a22 * invScaleZ;
                  t = a01;
                  a01 = a10 * invScaleY;
                  a10 = t * invScaleX;
                  t = a02;
                  a02 = a20 * invScaleZ;
                  a20 = t * invScaleX;
                  t = a12;
                  a12 = a21 * invScaleZ;
                  a21 = t * invScaleY
              in Inr (CMatrix3x3 a00 a01 a02 a10 a11 a12 a20 a21 a22))))"

definition InverseRotScale :: "matrix3 \<Rightarrow> matrix3 res" where
  "InverseRotScale m =
     (let scaleSqX = f00 m * f00 m + f01 m * f01 m + f02 m * f02 m;
          scaleSqY = f10 m * f10 m + f11 m * f11 m + f12 m * f12 m;
          scaleSqZ = f20 m * f20 m + f21 m * f21 m + f22 m * f22 m
      in if \<not> (\<not> IsZero scaleSqX \<and> \<not> IsZero scaleSqY \<and> \<not> IsZero scaleSqZ) then Inl Fatal_Exception
         else
         (let invScaleX = 1 / scaleSqX;
              invScaleY = 1 / scaleSqY;
              invScaleZ = 1 / scaleSqZ;
              o00 = f00 m * invScaleX;
              o01 = f10 m * invScaleY;
              o02 = f20 m * invScaleZ;
              o10 = f01 m * invScaleX;
              o11 = f11 m * invScaleY;
              o12 = f21 m * invScaleZ;
              o20 = f02 m * invScaleX;
              o21 = f12 m * invScaleY;
              o22 = f22 m * invScaleZ
          in Inr (CMatrix3x3 o00 o01 o02 o10 o11 o12 o20 o21 o22)))"

definition Inverse3 :: "matrix3 \<Rightarrow> matrix3 res" where
  "Inverse3 m =
     (let det0 = f11 m * f22 m - f21 m * f12 m;
          det1 = f12 m * f20 m - f22 m * f10 m;
          det2 = f10 m * f21 m - f20 m * f11 m;
          det = f00 m * det0 + f01 m * det1 + f02 m * det2
      in if IsZero det then Inl Fatal_Exception
         else
         (let invDet = 1 / det;
              o00 = invDet * det0;
              o10 = invDet * det1;
              o20 = invDet * det2;
              o01 = invDet * (f21 m * f02 m - f01 m * f22 m);
              o11 = invDet * (f22 m * f00 m - f02 m * f20 m);
              o21 = invDet * (f20 m * f01 m - f00 m * f21 m);
              o02 = invDet * (f01 m * f12 m - f11 m * f02 m);
              o12 = invDet * (f02 m * f10 m - f12 m * f00 m);
              o22 = invDet * (f00 m * f11 m - f10 m * f01 m)
          in Inr (CMatrix3x3 o00 o01 o02 o10 o11 o12 o20 o21 o22)))"

definition Invert3 :: "matrix3 \<Rightarrow> matrix3 res" where
  "Invert3 this = Inverse3 this"

section \<open>Rotations and scalings\<close>

definition MakeIdentity3 :: "matrix3 \<Rightarrow> matrix3" where
  "MakeIdentity3 this =
     (case this of CMatrix3x3 a00 a01 a02 a10 a11 a12 a20 a21 a22 \<Rightarrow>
         (let a00 = 1;
              a01 = 0;
              a02 = 0;
              a10 = 0;
              a11 = 1;
              a12 = 0;
              a20 = 0;
              a21 = 0;
              a22 = 1
          in CMatrix3x3 a00 a01 a02 a10 a11 a12 a20 a21 a22))"

definition MakeRotationX3 :: "float32 \<Rightarrow> matrix3 \<Rightarrow> matrix3" where
  "MakeRotationX3 x this =
     (case this of CMatrix3x3 a00 a01 a02 a10 a11 a12 a20 a21 a22 \<Rightarrow>
         (let (sX, cX) = SinCos x;
              a00 = 1;
              a01 = 0;
              a02 = 0;
              a10 = 0;
              a11 = cX;
              a12 = sX;
              a20 = 0;
              a21 = - sX;
              a22 = cX
          in CMatrix3x3 a00 a01 a02 a10 a11 a12 a20 a21 a22))"

definition MakeRotationY3 :: "float32 \<Rightarrow> matrix3 \<Rightarrow> matrix3" where
  "MakeRotationY3 y this =
     (case this of CMatrix3x3 a00 a01 a02 a10 a11 a12 a20 a21 a22 \<Rightarrow>
         (let (sY, cY) = SinCos y;
              a00 = cY;
              a01 = 0;
              a02 = - sY;
              a10 = 0;
              a11 = 1;
              a12 = 0;
              a20 = sY;
              a21 = 0;
              a22 = cY
          in CMatrix3x3 a00 a01 a02 a10 a11 a12 a20 a21 a22))"

definition MakeRotationZ3 :: "float32 \<Rightarrow> matrix3 \<Rightarrow> matrix3" where
  "MakeRotationZ3 z this =
     (case this of CMatrix3x3 a00 a01 a02 a10 a11 a12 a20 a21 a22 \<Rightarrow>
         (let (sZ, cZ) = SinCos z;
              a00 = cZ;
              a01 = sZ;
              a02 = 0;
              a10 = - sZ;
              a11 = cZ;
              a12 = 0;
              a20 = 0;
              a21 = 0;
              a22 = 1
          in CMatrix3x3 a00 a01 a02 a10 a11 a12 a20 a21 a22))"

definition MakeRotation3 :: "vector3 \<Rightarrow> rotation_order \<Rightarrow> matrix3 \<Rightarrow> matrix3" where
  "MakeRotation3 angles eRotOrder this =
     (case this of CMatrix3x3 a00 a01 a02 a10 a11 a12 a20 a21 a22 \<Rightarrow>
         (let (sX, cX) = SinCos (v_x angles);
              (sY, cY) = SinCos (v_y angles);
              (sZ, cZ) = SinCos (v_z angles);
              (a00, a01, a02, a10, a11, a12, a20, a21, a22) = (case eRotOrder of
                 kZYX \<Rightarrow>
                   (let a00 = cZ * cY;
                        a01 = sZ * cX + cZ * sY * sX;
                        a02 = sZ * sX + - cZ * sY * cX;
                        a10 = - sZ * cY;
                        a11 = cZ * cX + - sZ * sY * sX;
                        a12 = cZ * sX + sZ * sY * cX;
                        a20 = sY;
                        a21 = - cY * sX;
                        a22 = cY * cX
                    in (a00, a01, a02, a10, a11, a12, a20, a21, a22))
               | kYZX \<Rightarrow>
                   (let a00 = cY * cZ;
                        a01 = cY * sZ * cX + sY * sX;
                        a02 = cY * sZ * sX + - sY * cX;
                        a10 = - sZ;
                        a11 = cZ * cX;
                        a12 = cZ * sX;
                        a20 = sY * cZ;
                        a21 = sY * sZ * cX + - cY * sX;
                        a22 = sY * sZ * sX + cY * cX
                    in (a00, a01, a02, a10, a11, a12, a20, a21, a22))
               | kXZY \<Rightarrow>
                   (let a00 = cZ * cY;
                        a01 = sZ;
                        a02 = - cZ * sY;
                        a10 = - cX * sZ * cY + sX * sY;
                        a11 = cX * cZ;
                        a12 = cX * sZ * sY + sX * cY;
                        a20 = sX * sZ * cY + cX * sY;
                        a21 = - sX * cZ;
                        a22 = - sX * sZ * sY + cX * cY
                    in (a00, a01, a02, a10, a11, a12, a20, a21, a22))
               | kZXY \<Rightarrow>
                   (let a00 = cZ * cY + sZ * sX * sY;
                        a01 = sZ * cX;
                        a02 = - cZ * sY + sZ * sX * cY;
                        a10 = - sZ * cY + cZ * sX * sY;
                        a11 = cZ * cX;
                        a12 = sZ * sY + cZ * sX * cY;
                        a20 = cX * sY;
                        a21 = - sX;
                        a22 = cX * cY
                    in (a00, a01, a02, a10, a11, a12, a20, a21, a22))
               | kYXZ \<Rightarrow>
                   (let a00 = cY * cZ + - sY * sX * sZ;
                        a01 = cY * sZ + sY * sX * cZ;
                        a02 = - sY * cX;
                        a10 = - cX * sZ;
                        a11 = cX * cZ;
                        a12 = sX;
                        a20 = sY * cZ + cY * sX * sZ;
                        a21 = sY * sZ + - cY * sX * cZ;
                        a22 = cY * cX
                    in (a00, a01, a02, a10, a11, a12, a20, a21, a22))
               | kXYZ \<Rightarrow>
                   (let a00 = cY * cZ;
                        a01 = cY * sZ;
                        a02 = - sY;
                        a10 = sX * sY * cZ + - cX * sZ;
                        a11 = sX * sY * sZ + cX * cZ;
                        a12 = sX * cY;
                        a20 = cX * sY * cZ + sX * sZ;
                        a21 = cX * sY * sZ + - sX * cZ;
                        a22 = cX * cY
                    in (a00, a01, a02, a10, a11, a12, a20, a21, a22)))
          in CMatrix3x3 a00 a01 a02 a10 a11 a12 a20 a21 a22))"

definition MakeRotation3_axis :: "vector3 \<Rightarrow> float32 \<Rightarrow> matrix3 \<Rightarrow> matrix3 res" where
  "MakeRotation3_axis axis fAngle this =
     (case this of CMatrix3x3 a00 a01 a02 a10 a11 a12 a20 a21 a22 \<Rightarrow>
         (let (s, c) = SinCos fAngle;
              t = 1 - c;
              axisNorm = vec_Normalise axis
          in if vec_IsZero axisNorm then Inl Fatal_Exception
             else
             (let sx = s * v_x axisNorm;
                  sy = s * v_y axisNorm;
                  sz = s * v_z axisNorm;
                  tx = t * v_x axisNorm;
                  ty = t * v_y axisNorm;
                  tz = t * v_z axisNorm;
                  txy = ty * v_x axisNorm;
                  tyz = tz * v_y axisNorm;
                  tzx = tx * v_z axisNorm;
                  a00 = tx * v_x axisNorm + c;
                  a01 = txy + sz;
                  a02 = tzx - sy;
                  a10 = txy - sz;
                  a11 = ty * v_y axisNorm + c;
                  a12 = tyz + sx;
                  a20 = tzx + sy;
                  a21 = tyz - sx;
                  a22 = tz * v_z axisNorm + c
              in Inr (CMatrix3x3 a00 a01 a02 a10 a11 a12 a20 a21 a22))))"

definition MakeScaling3 :: "vector3 \<Rightarrow> matrix3 \<Rightarrow> matrix3" where
  "MakeScaling3 scale this =
     (case this of CMatrix3x3 a00 a01 a02 a10 a11 a12 a20 a21 a22 \<Rightarrow>
         (let a00 = v_x scale;
              a01 = 0;
              a02 = 0;
              a10 = 0;
              a11 = v_y scale;
              a12 = 0;
              a20 = 0;
              a21 = 0;
              a22 = v_z scale
          in CMatrix3x3 a00 a01 a02 a10 a11 a12 a20 a21 a22))"

definition MakeScaling3_uniform :: "float32 \<Rightarrow> matrix3 \<Rightarrow> matrix3" where
  "MakeScaling3_uniform fScale this =
     (case this of CMatrix3x3 a00 a01 a02 a10 a11 a12 a20 a21 a22 \<Rightarrow>
         (let a00 = fScale;
              a01 = 0;
              a02 = 0;
              a10 = 0;
              a11 = fScale;
              a12 = 0;
              a20 = 0;
              a21 = 0;
              a22 = fScale
          in CMatrix3x3 a00 a01 a02 a10 a11 a12 a20 a21 a22))"

definition Matrix3x3Identity :: "matrix3" where
  "Matrix3x3Identity =
     (let o00 = 1;
          o01 = 0;
          o02 = 0;
          o10 = 0;
          o11 = 1;
          o12 = 0;
          o20 = 0;
          o21 = 0;
          o22 = 1
      in CMatrix3x3 o00 o01 o02 o10 o11 o12 o20 o21 o22)"

definition Matrix3x3RotationX :: "float32 \<Rightarrow> matrix3" where
  "Matrix3x3RotationX x =
     (let (sX, cX) = SinCos x;
          o00 = 1;
          o01 = 0;
          o02 = 0;
          o10 = 0;
          o11 = cX;
          o12 = sX;
          o20 = 0;
          o21 = - sX;
          o22 = cX
      in CMatrix3x3 o00 o01 o02 o10 o11 o12 o20 o21 o22)"

definition Matrix3x3RotationY :: "float32 \<Rightarrow> matrix3" where
  "Matrix3x3RotationY y =
     (let (sY, cY) = SinCos y;
          o00 = cY;
          o01 = 0;
          o02 = - sY;
          o10 = 0;
          o11 = 1;
          o12 = 0;
          o20 = sY;
          o21 = 0;
          o22 = cY
      in CMatrix3x3 o00 o01 o02 o10 o11 o12 o20 o21 o22)"

definition Matrix3x3RotationZ :: "float32 \<Rightarrow> matrix3" where
  "Matrix3x3RotationZ z =
     (let (sZ, cZ) = SinCos z;
          o00 = cZ;
          o01 = sZ;
          o02 = 0;
          o10 = - sZ;
          o11 = cZ;
          o12 = 0;
          o20 = 0;
          o21 = 0;
          o22 = 1
      in CMatrix3x3 o00 o01 o02 o10 o11 o12 o20 o21 o22)"

definition Matrix3x3Rotation :: "vector3 \<Rightarrow> rotation_order \<Rightarrow> matrix3" where
  "Matrix3x3Rotation angles eRotOrder =
     (let (sX, cX) = SinCos (v_x angles);
          (sY, cY) = SinCos (v_y angles);
          (sZ, cZ) = SinCos (v_z angles);
          (o00, o01, o02, o10, o11, o12, o20, o21, o22) = (case eRotOrder of
             kZYX \<Rightarrow>
               (let o00 = cZ * cY;
                    o01 = sZ * cX + cZ * sY * sX;
                    o02 = sZ * sX + - cZ * sY * cX;
                    o10 = - sZ * cY;
                    o11 = cZ * cX + - sZ * sY * sX;
                    o12 = cZ * sX + sZ * sY * cX;
                    o20 = sY;
                    o21 = - cY * sX;
                    o22 = cY * cX
                in (o00, o01, o02, o10, o11, o12, o20, o21, o22))
           | kYZX \<Rightarrow>
               (let o00 = cY * cZ;
                    o01 = cY * sZ * cX + sY * sX;
                    o02 = cY * sZ * sX + - sY * cX;
                    o10 = - sZ;
                    o11 = cZ * cX;
                    o12 = cZ * sX;
                    o20 = sY * cZ;
                    o21 = sY * sZ * cX + - cY * sX;
                    o22 = sY * sZ * sX + cY * cX
                in (o00, o01, o02, o10, o11, o12, o20, o21, o22))
           | kXZY \<Rightarrow>
               (let o00 = cZ * cY;
                    o01 = sZ;
                    o02 = - cZ * sY;
                    o10 = - cX * sZ * cY + sX * sY;
                    o11 = cX * cZ;
                    o12 = cX * sZ * sY + sX * cY;
                    o20 = sX * sZ * cY + cX * sY;
                    o21 = - sX * cZ;
                    o22 = - sX * sZ * sY + cX * cY
                in (o00, o01, o02, o10, o11, o12, o20, o21, o22))
           | kZXY \<Rightarrow>
               (let o00 = cZ * cY + sZ * sX * sY;
                    o01 = sZ * cX;
                    o02 = - cZ * sY + sZ * sX * cY;
                    o10 = - sZ * cY + cZ * sX * sY;
                    o11 = cZ * cX;
                    o12 = sZ * sY + cZ * sX * cY;
                    o20 = cX * sY;
                    o21 = - sX;
                    o22 = cX * cY
                in (o00, o01, o02, o10, o11, o12, o20, o21, o22))
           | kYXZ \<Rightarrow>
               (let o00 = cY * cZ + - sY * sX * sZ;
                    o01 = cY * sZ + sY * sX * cZ;
                    o02 = - sY * cX;
                    o10 = - cX * sZ;
                    o11 = cX * cZ;
                    o12 = sX;
                    o20 = sY * cZ + cY * sX * sZ;
                    o21 = sY * sZ + - cY * sX * cZ;
                    o22 = cY * cX
                in (o00, o01, o02, o10, o11, o12, o20, o21, o22))
           | kXYZ \<Rightarrow>
               (let o00 = cY * cZ;
                    o01 = cY * sZ;
                    o02 = - sY;
                    o10 = sX * sY * cZ + - cX * sZ;
                    o11 = sX * sY * sZ + cX * cZ;
                    o12 = sX * cY;
                    o20 = cX * sY * cZ + sX * sZ;
                    o21 = cX * sY * sZ + - sX * cZ;
                    o22 = cX * cY
                in (o00, o01, o02, o10, o11, o12, o20, o21, o22)))
      in CMatrix3x3 o00 o01 o02 o10 o11 o12 o20 o21 o22)"

definition Matrix3x3Rotation_axis :: "vector3 \<Rightarrow> float32 \<Rightarrow> matrix3 res" where
  "Matrix3x3Rotation_axis axis fAngle =
     (let (s, c) = SinCos fAngle;
          t = 1 - c;
          axisNorm = vec_Normalise axis
      in if vec_IsZero axisNorm then Inl Fatal_Exception
         else
         (let sx = s * v_x axisNorm;
              sy = s * v_y axisNorm;
              sz = s * v_z axisNorm;
              tx = t * v_x axisNorm;
              ty = t * v_y axisNorm;
              tz = t * v_z axisNorm;
              txy = ty * v_x axisNorm;
              tyz = tz * v_y axisNorm;
              tzx = tx * v_z axisNorm;
              o00 = tx * v_x axisNorm + c;
              o01 = txy + sz;
              o02 = tzx - sy;
              o10 = txy - sz;
              o11 = ty * v_y axisNorm + c;
              o12 = tyz + sx;
              o20 = tzx + sy;
              o21 = tyz - sx;
              o22 = tz * v_z axisNorm + c
          in Inr (CMatrix3x3 o00 o01 o02 o10 o11 o12 o20 o21 o22)))"

definition Matrix3x3Scaling :: "vector3 \<Rightarrow> matrix3" where
  "Matrix3x3Scaling scale =
     (let o00 = v_x scale;
          o01 = 0;
          o02 = 0;
          o10 = 0;
          o11 = v_y scale;
          o12 = 0;
          o20 = 0;
          o21 = 0;
          o22 = v_z scale
      in CMatrix3x3 o00 o01 o02 o10 o11 o12 o20 o21 o22)"

definition Matrix3x3Scaling_uniform :: "float32 \<Rightarrow> matrix3" where
  "Matrix3x3Scaling_uniform fScale =
     (let o00 = fScale;
          o01 = 0;
          o02 = 0;
          o10 = 0;
          o11 = fScale;
          o12 = 0;
          o20 = 0;
          o21 = 0;
          o22 = fScale
      in CMatrix3x3 o00 o01 o02 o10 o11 o12 o20 o21 o22)"

section \<open>Transformations\<close>

text \<open>The constructors and the members that build a transformation: first a rotation, then its rows are scaled.\<close>

definition mat3_euler ::
  "vector3 \<Rightarrow> rotation_order \<Rightarrow> vector3 \<Rightarrow> matrix3 \<Rightarrow> matrix3" where
  "mat3_euler angles eRotOrder scale this =
     (case MakeRotation3 angles eRotOrder this of CMatrix3x3 a00 a01 a02 a10 a11 a12 a20 a21 a22 \<Rightarrow>
         (let a00 = a00 * v_x scale;
              a01 = a01 * v_x scale;
              a02 = a02 * v_x scale;
              a10 = a10 * v_y scale;
              a11 = a11 * v_y scale;
              a12 = a12 * v_y scale;
              a20 = a20 * v_z scale;
              a21 = a21 * v_z scale;
              a22 = a22 * v_z scale
          in CMatrix3x3 a00 a01 a02 a10 a11 a12 a20 a21 a22))"

definition mat3_quaternion :: "quaternion \<Rightarrow> vector3 \<Rightarrow> matrix3 \<Rightarrow> matrix3" where
  "mat3_quaternion quat scale this =
     (case this of CMatrix3x3 a00 a01 a02 a10 a11 a12 a20 a21 a22 \<Rightarrow>
         (let xx = 2 * q_x quat;
              yy = 2 * q_y quat;
              zz = 2 * q_z quat;
              xy = xx * q_y quat;
              yz = yy * q_z quat;
              zx = zz * q_x quat;
              wx = q_w quat * xx;
              wy = q_w quat * yy;
              wz = q_w quat * zz;
              xx = xx * q_x quat;
              yy = yy * q_y quat;
              zz = zz * q_z quat;
              a00 = v_x scale * (1 - yy - zz);
              a01 = v_x scale * (xy + wz);
              a02 = v_x scale * (zx - wy);
              a10 = v_y scale * (xy - wz);
              a11 = v_y scale * (1 - xx - zz);
              a12 = v_y scale * (yz + wx);
              a20 = v_z scale * (zx + wy);
              a21 = v_z scale * (yz - wx);
              a22 = v_z scale * (1 - xx - yy)
          in CMatrix3x3 a00 a01 a02 a10 a11 a12 a20 a21 a22))"

definition mat3_axis_angle :: "vector3 \<Rightarrow> float32 \<Rightarrow> vector3 \<Rightarrow> matrix3 \<Rightarrow> matrix3 res" where
  "mat3_axis_angle axis fAngle scale this =
     res_bind (MakeRotation3_axis axis fAngle this) (\<lambda>m. case m of CMatrix3x3 a00 a01 a02 a10 a11 a12 a20 a21 a22 \<Rightarrow>
         (let a00 = a00 * v_x scale;
              a01 = a01 * v_x scale;
              a02 = a02 * v_x scale;
              a10 = a10 * v_y scale;
              a11 = a11 * v_y scale;
              a12 = a12 * v_y scale;
              a20 = a20 * v_z scale;
              a21 = a21 * v_z scale;
              a22 = a22 * v_z scale
          in Inr (CMatrix3x3 a00 a01 a02 a10 a11 a12 a20 a21 a22)))"

definition MakeTransformEuler ::
  "vector3 \<Rightarrow> rotation_order \<Rightarrow> vector3 \<Rightarrow> matrix3 \<Rightarrow> matrix3" where
  "MakeTransformEuler angles eRotOrder scale this =
     (case MakeRotation3 angles eRotOrder this of CMatrix3x3 a00 a01 a02 a10 a11 a12 a20 a21 a22 \<Rightarrow>
         (let a00 = a00 * v_x scale;
              a01 = a01 * v_x scale;
              a02 = a02 * v_x scale;
              a10 = a10 * v_y scale;
              a11 = a11 * v_y scale;
              a12 = a12 * v_y scale;
              a20 = a20 * v_z scale;
              a21 = a21 * v_z scale;
              a22 = a22 * v_z scale
          in CMatrix3x3 a00 a01 a02 a10 a11 a12 a20 a21 a22))"

definition MakeTransformQuaternion :: "quaternion \<Rightarrow> vector3 \<Rightarrow> matrix3 \<Rightarrow> matrix3" where
  "MakeTransformQuaternion quat scale this =
     (case this of CMatrix3x3 a00 a01 a02 a10 a11 a12 a20 a21 a22 \<Rightarrow>
         (let xx = 2 * q_x quat;
              yy = 2 * q_y quat;
              zz = 2 * q_z quat;
              xy = xx * q_y quat;
              yz = yy * q_z quat;
              zx = zz * q_x quat;
              wx = q_w quat * xx;
              wy = q_w quat * yy;
              wz = q_w quat * zz;
              xx = xx * q_x quat;
              yy = yy * q_y quat;
              zz = zz * q_z quat;
              a00 = v_x scale * (1 - yy - zz);
              a01 = v_x scale * (xy + wz);
              a02 = v_x scale * (zx - wy);
              a10 = v_y scale * (xy - wz);
              a11 = v_y scale * (1 - xx - zz);
              a12 = v_y scale * (yz + wx);
              a20 = v_z scale * (zx + wy);
              a21 = v_z scale * (yz - wx);
              a22 = v_z scale * (1 - xx - yy)
          in CMatrix3x3 a00 a01 a02 a10 a11 a12 a20 a21 a22))"

definition MakeTransformAxisAngle :: "vector3 \<Rightarrow> float32 \<Rightarrow> vector3 \<Rightarrow> matrix3 \<Rightarrow> matrix3 res" where
  "MakeTransformAxisAngle axis fAngle scale this =
     res_bind (MakeRotation3_axis axis fAngle this) (\<lambda>m. case m of CMatrix3x3 a00 a01 a02 a10 a11 a12 a20 a21 a22 \<Rightarrow>
         (let a00 = a00 * v_x scale;
              a01 = a01 * v_x scale;
              a02 = a02 * v_x scale;
              a10 = a10 * v_y scale;
              a11 = a11 * v_y scale;
              a12 = a12 * v_y scale;
              a20 = a20 * v_z scale;
              a21 = a21 * v_z scale;
              a22 = a22 * v_z scale
          in Inr (CMatrix3x3 a00 a01 a02 a10 a11 a12 a20 a21 a22)))"

section \<open>Scale\<close>

definition GetScale3 :: "matrix3 \<Rightarrow> vector3" where
  "GetScale3 this =
     (let scale_x = sqrt (f00 this * f00 this + f01 this * f01 this + f02 this * f02 this);
          scale_y = sqrt (f10 this * f10 this + f11 this * f11 this + f12 this * f12 this);
          scale_z = sqrt (f20 this * f20 this + f21 this * f21 this + f22 this * f22 this)
      in CVector3 scale_x scale_y scale_z)"

definition SetScaleX3 :: "float32 \<Rightarrow> matrix3 \<Rightarrow> matrix3" where
  "SetScaleX3 x this =
     (case this of CMatrix3x3 a00 a01 a02 a10 a11 a12 a20 a21 a22 \<Rightarrow>
         (let scaleSq = sqrt (a00 * a00 + a01 * a01 + a02 * a02);
              (a00, a01, a02) = (if \<not> IsZero scaleSq then
                 (let rescale = x * InvSqrt scaleSq;
                      a00 = a00 * rescale;
                      a01 = a01 * rescale;
                      a02 = a02 * rescale
                  in (a00, a01, a02))
                 else (a00, a01, a02))
          in CMatrix3x3 a00 a01 a02 a10 a11 a12 a20 a21 a22))"

definition SetScaleY3 :: "float32 \<Rightarrow> matrix3 \<Rightarrow> matrix3" where
  "SetScaleY3 y this =
     (case this of CMatrix3x3 a00 a01 a02 a10 a11 a12 a20 a21 a22 \<Rightarrow>
         (let scaleSq = sqrt (a10 * a10 + a11 * a11 + a12 * a12);
              (a10, a11, a12) = (if \<not> IsZero scaleSq then
                 (let rescale = y * InvSqrt scaleSq;
                      a10 = a10 * rescale;
                      a11 = a11 * rescale;
                      a12 = a12 * rescale
                  in (a10, a11, a12))
                 else (a10, a11, a12))
          in CMatrix3x3 a00 a01 a02 a10 a11 a12 a20 a21 a22))"

definition SetScaleZ3 :: "float32 \<Rightarrow> matrix3 \<Rightarrow> matrix3" where
  "SetScaleZ3 z this =
     (case this of CMatrix3x3 a00 a01 a02 a10 a11 a12 a20 a21 a22 \<Rightarrow>
         (let scaleSq = sqrt (a20 * a20 + a21 * a21 + a22 * a22);
              (a20, a21, a22) = (if \<not> IsZero scaleSq then
                 (let rescale = z * InvSqrt scaleSq;
                      a20 = a20 * rescale;
                      a21 = a21 * rescale;
                      a22 = a22 * rescale
                  in (a20, a21, a22))
                 else (a20, a21, a22))
          in CMatrix3x3 a00 a01 a02 a10 a11 a12 a20 a21 a22))"

definition SetScale3 :: "vector3 \<Rightarrow> matrix3 \<Rightarrow> matrix3" where
  "SetScale3 scale this =
     (case this of CMatrix3x3 a00 a01 a02 a10 a11 a12 a20 a21 a22 \<Rightarrow>
         (let scaleSq = sqrt (a00 * a00 + a01 * a01 + a02 * a02);
              (a00, a01, a02) = (if \<not> IsZero scaleSq then
                 (let rescale = v_x scale * InvSqrt scaleSq;
                      a00 = a00 * rescale;
                      a01 = a01 * rescale;
                      a02 = a02 * rescale
                  in (a00, a01, a02))
                 else (a00, a01, a02));
              scaleSq = sqrt (a10 * a10 + a11 * a11 + a12 * a12);
              (a10, a11, a12) = (if \<not> IsZero scaleSq then
                 (let rescale = v_y scale * InvSqrt scaleSq;
                      a10 = a10 * rescale;
                      a11 = a11 * rescale;
                      a12 = a12 * rescale
                  in (a10, a11, a12))
                 else (a10, a11, a12));
              scaleSq = sqrt (a20 * a20 + a21 * a21 + a22 * a22);
              (a20, a21, a22) = (if \<not> IsZero scaleSq then
                 (let rescale = v_z scale * InvSqrt scaleSq;
                      a20 = a20 * rescale;
                      a21 = a21 * rescale;
                      a22 = a22 * rescale
                  in (a20, a21, a22))
                 else (a20, a21, a22))
          in CMatrix3x3 a00 a01 a02 a10 a11 a12 a20 a21 a22))"

definition SetScale3_uniform :: "float32 \<Rightarrow> matrix3 \<Rightarrow> matrix3" where
  "SetScale3_uniform fScale this =
     (case this of CMatrix3x3 a00 a01 a02 a10 a11 a12 a20 a21 a22 \<Rightarrow>
         (let scaleSq = sqrt (a00 * a00 + a01 * a01 + a02 * a02);
              (a00, a01, a02) = (if \<not> IsZero scaleSq then
                 (let rescale = fScale * InvSqrt scaleSq;
                      a00 = a00 * rescale;
                      a01 = a01 * rescale;
                      a02 = a02 * rescale
                  in (a00, a01, a02))
                 else (a00, a01, a02));
              scaleSq = sqrt (a10 * a10 + a11 * a11 + a12 * a12);
              (a10, a11, a12) = (if \<not> IsZero scaleSq then
                 (let rescale = fScale * InvSqrt scaleSq;
                      a10 = a10 * rescale;
                      a11 = a11 * rescale;
                      a12 = a12 * rescale
                  in (a10, a11, a12))
                 else (a10, a11, a12));
              scaleSq = sqrt (a20 * a20 + a21 * a21 + a22 * a22);
              (a20, a21, a22) = (if \<not> IsZero scaleSq then
                 (let rescale = fScale * InvSqrt scaleSq;
                      a20 = a20 * rescale;
                      a21 = a21 * rescale;
                      a22 = a22 * rescale
                  in (a20, a21, a22))
                 else (a20, a21, a22))
          in CMatrix3x3 a00 a01 a02 a10 a11 a12 a20 a21 a22))"

section \<open>Tests\<close>

definition IsIdentity3 :: "matrix3 \<Rightarrow> bool" where
  "IsIdentity3 this \<longleftrightarrow>
     IsZero (f00 this - 1) \<and>
     IsZero (f11 this - 1) \<and>
     IsZero (f22 this - 1) \<and>
     IsZero (f01 this) \<and>
     IsZero (f02 this) \<and>
     IsZero (f10 this) \<and>
     IsZero (f12 this) \<and>
     IsZero (f20 this) \<and>
     IsZero (f21 this)"

definition IsOrthogonal3 :: "matrix3 \<Rightarrow> bool" where
  "IsOrthogonal3 this \<longleftrightarrow>
     IsZero (f00 this * f10 this + f01 this * f11 this + f02 this * f12 this) \<and>
     IsZero (f10 this * f20 this + f11 this * f21 this + f12 this * f22 this) \<and>
     IsZero (f20 this * f00 this + f21 this * f01 this + f22 this * f02 this)"

definition IsOrthonormal3 :: "matrix3 \<Rightarrow> bool" where
  "IsOrthonormal3 this \<longleftrightarrow>
     IsZero (f00 this * f00 this + f01 this * f01 this + f02 this * f02 this - 1) \<and>
     IsZero (f10 this * f10 this + f11 this * f11 this + f12 this * f12 this - 1) \<and>
     IsZero (f20 this * f20 this + f21 this * f21 this + f22 this * f22 this - 1) \<and>
     IsZero (f00 this * f10 this + f01 this * f11 this + f02 this * f12 this) \<and>
     IsZero (f10 this * f20 this + f11 this * f21 this + f12 this * f22 this) \<and>
     IsZero (f20 this * f00 this + f21 this * f01 this + f22 this * f02 this)"

definition Orthogonalise3_assign :: "vector3 \<Rightarrow> matrix3 \<Rightarrow> matrix3 res" where
  "Orthogonalise3_assign scale this =
     (case this of CMatrix3x3 a00 a01 a02 a10 a11 a12 a20 a21 a22 \<Rightarrow>
         (let origScaleX = a00 * a00 + a01 * a01 + a02 * a02
          in if IsZero origScaleX then Inl Fatal_Exception
             else
             (let invOrigScaleX = InvSqrt origScaleX;
                  a00 = a00 * invOrigScaleX;
                  a01 = a01 * invOrigScaleX;
                  a02 = a02 * invOrigScaleX;
                  proj10 = a10 * a00 + a11 * a01 + a12 * a02;
                  a10 = a10 - proj10 * a00;
                  a11 = a11 - proj10 * a01;
                  a12 = a12 - proj10 * a02;
                  origScaleY = a10 * a10 + a11 * a11 + a12 * a12
              in if IsZero origScaleY then Inl Fatal_Exception
                 else
                 (let invOrigScaleY = InvSqrt origScaleY;
                      a10 = a10 * invOrigScaleY;
                      a11 = a11 * invOrigScaleY;
                      a12 = a12 * invOrigScaleY;
                      a20 = a01 * a12 - a02 * a11;
                      a21 = a02 * a10 - a00 * a12;
                      a22 = a00 * a11 - a01 * a10;
                      a00 = a00 * v_x scale;
                      a01 = a01 * v_x scale;
                      a02 = a02 * v_x scale;
                      a10 = a10 * v_y scale;
                      a11 = a11 * v_y scale;
                      a12 = a12 * v_y scale;
                      a20 = a20 * v_z scale;
                      a21 = a21 * v_z scale;
                      a22 = a22 * v_z scale
                  in Inr (CMatrix3x3 a00 a01 a02 a10 a11 a12 a20 a21 a22)))))"

definition Orthogonalise3 :: "matrix3 \<Rightarrow> vector3 \<Rightarrow> matrix3 res" where
  "Orthogonalise3 m scale =
     (let origScaleX = f00 m * f00 m + f01 m * f01 m + f02 m * f02 m
      in if IsZero origScaleX then Inl Fatal_Exception
         else
         (let invOrigScaleX = InvSqrt origScaleX;
              o00 = f00 m * invOrigScaleX;
              o01 = f01 m * invOrigScaleX;
              o02 = f02 m * invOrigScaleX;
              proj10 = f10 m * o00 + f11 m * o01 + f12 m * o02;
              o10 = f10 m - proj10 * o00;
              o11 = f11 m - proj10 * o01;
              o12 = f12 m - proj10 * o02;
              origScaleY = o10 * o10 + o11 * o11 + o12 * o12
          in if IsZero origScaleY then Inl Fatal_Exception
             else
             (let invOrigScaleY = InvSqrt origScaleY;
                  o10 = o10 * invOrigScaleY;
                  o11 = o11 * invOrigScaleY;
                  o12 = o12 * invOrigScaleY;
                  o20 = o01 * o12 - o02 * o11;
                  o21 = o02 * o10 - o00 * o12;
                  o22 = o00 * o11 - o01 * o10;
                  o00 = o00 * v_x scale;
                  o01 = o01 * v_x scale;
                  o02 = o02 * v_x scale;
                  o10 = o10 * v_y scale;
                  o11 = o11 * v_y scale;
                  o12 = o12 * v_y scale;
                  o20 = o20 * v_z scale;
                  o21 = o21 * v_z scale;
                  o22 = o22 * v_z scale
              in Inr (CMatrix3x3 o00 o01 o02 o10 o11 o12 o20 o21 o22))))"

section \<open>Facing a direction\<close>

definition FaceDirection3 :: "vector3 \<Rightarrow> vector3 \<Rightarrow> bool \<Rightarrow> matrix3 \<Rightarrow> matrix3 res" where
  "FaceDirection3 direction up bLH this =
     (if bLH then
         (let axisZ = vec_Normalise direction
          in if vec_IsZero axisZ then Inr this
             else
             (let axisX = vec_Normalise (Cross up axisZ)
              in if vec_IsZero axisX then Inr this
                 else
                 (let axisY = Cross axisZ axisX
                  in res_bind (SetRow3 0 axisX this) (\<lambda>m.
             res_bind (SetRow3 1 axisY m) (SetRow3 2 axisZ)))))
      else
         (let axisZ = vec_Normalise (vec_neg direction)
          in if vec_IsZero axisZ then Inr this
             else
             (let axisX = vec_Normalise (Cross axisZ up)
              in if vec_IsZero axisX then Inr this
                 else
                 (let axisY = Cross axisX axisZ
                  in res_bind (SetRow3 0 axisX this) (\<lambda>m.
             res_bind (SetRow3 1 axisY m) (SetRow3 2 axisZ))))))"

definition MatrixFaceDirection3 :: "vector3 \<Rightarrow> vector3 \<Rightarrow> bool \<Rightarrow> matrix3 \<Rightarrow> matrix3" where
  "MatrixFaceDirection3 direction up bLH mOut =
     (if bLH then
         (let axisZ = vec_Normalise direction
          in if vec_IsZero axisZ then mat3_identity
             else
             (let axisX = vec_Normalise (Cross up axisZ)
              in if vec_IsZero axisX then mat3_identity
                 else
                 (let axisY = Cross axisZ axisX
                  in mat3_rows axisX axisY axisZ True mOut)))
      else
         (let axisZ = vec_Normalise (vec_neg direction)
          in if vec_IsZero axisZ then mat3_identity
             else
             (let axisX = vec_Normalise (Cross axisZ up)
              in if vec_IsZero axisX then mat3_identity
                 else
                 (let axisY = Cross axisX axisZ
                  in mat3_rows axisX axisY axisZ True mOut))))"

section \<open>Steps in place\<close>

definition ScaleX3 :: "float32 \<Rightarrow> matrix3 \<Rightarrow> matrix3" where
  "ScaleX3 x this =
     (case this of CMatrix3x3 a00 a01 a02 a10 a11 a12 a20 a21 a22 \<Rightarrow>
         (let a00 = a00 * x;
              a01 = a01 * x;
              a02 = a02 * x
          in CMatrix3x3 a00 a01 a02 a10 a11 a12 a20 a21 a22))"

definition ScaleY3 :: "float32 \<Rightarrow> matrix3 \<Rightarrow> matrix3" where
  "ScaleY3 y this =
     (case this of CMatrix3x3 a00 a01 a02 a10 a11 a12 a20 a21 a22 \<Rightarrow>
         (let a10 = a10 * y;
              a11 = a11 * y;
              a12 = a12 * y
          in CMatrix3x3 a00 a01 a02 a10 a11 a12 a20 a21 a22))"

definition ScaleZ3 :: "float32 \<Rightarrow> matrix3 \<Rightarrow> matrix3" where
  "ScaleZ3 z this =
     (case this of CMatrix3x3 a00 a01 a02 a10 a11 a12 a20 a21 a22 \<Rightarrow>
         (let a20 = a20 * z;
              a21 = a21 * z;
              a22 = a22 * z
          in CMatrix3x3 a00 a01 a02 a10 a11 a12 a20 a21 a22))"

definition Scale3 :: "vector3 \<Rightarrow> matrix3 \<Rightarrow> matrix3" where
  "Scale3 scale this =
     (case this of CMatrix3x3 a00 a01 a02 a10 a11 a12 a20 a21 a22 \<Rightarrow>
         (let a00 = a00 * v_x scale;
              a01 = a01 * v_x scale;
              a02 = a02 * v_x scale;
              a10 = a10 * v_y scale;
              a11 = a11 * v_y scale;
              a12 = a12 * v_y scale;
              a20 = a20 * v_z scale;
              a21 = a21 * v_z scale;
              a22 = a22 * v_z scale
          in CMatrix3x3 a00 a01 a02 a10 a11 a12 a20 a21 a22))"

definition Scale3_uniform :: "float32 \<Rightarrow> matrix3 \<Rightarrow> matrix3" where
  "Scale3_uniform fScale this =
     (case this of CMatrix3x3 a00 a01 a02 a10 a11 a12 a20 a21 a22 \<Rightarrow>
         (let a00 = a00 * fScale;
              a01 = a01 * fScale;
              a02 = a02 * fScale;
              a10 = a10 * fScale;
              a11 = a11 * fScale;
              a12 = a12 * fScale;
              a20 = a20 * fScale;
              a21 = a21 * fScale;
              a22 = a22 * fScale
          in CMatrix3x3 a00 a01 a02 a10 a11 a12 a20 a21 a22))"

definition RotateX3 :: "float32 \<Rightarrow> matrix3 \<Rightarrow> matrix3" where
  "RotateX3 x this =
     (case this of CMatrix3x3 a00 a01 a02 a10 a11 a12 a20 a21 a22 \<Rightarrow>
         (let (sX, cX) = SinCos x;
              t = a01 * sX + a02 * cX;
              a01 = a01 * cX - a02 * sX;
              a02 = t;
              t = a11 * sX + a12 * cX;
              a11 = a11 * cX - a12 * sX;
              a12 = t;
              t = a21 * sX + a22 * cX;
              a21 = a21 * cX - a22 * sX;
              a22 = t
          in CMatrix3x3 a00 a01 a02 a10 a11 a12 a20 a21 a22))"

definition RotateY3 :: "float32 \<Rightarrow> matrix3 \<Rightarrow> matrix3" where
  "RotateY3 y this =
     (case this of CMatrix3x3 a00 a01 a02 a10 a11 a12 a20 a21 a22 \<Rightarrow>
         (let (sY, cY) = SinCos y;
              t = a00 * cY + a02 * sY;
              a02 = a02 * cY - a00 * sY;
              a00 = t;
              t = a10 * cY + a12 * sY;
              a12 = a12 * cY - a10 * sY;
              a10 = t;
              t = a20 * cY + a22 * sY;
              a22 = a22 * cY - a20 * sY;
              a20 = t
          in CMatrix3x3 a00 a01 a02 a10 a11 a12 a20 a21 a22))"

definition RotateZ3 :: "float32 \<Rightarrow> matrix3 \<Rightarrow> matrix3" where
  "RotateZ3 z this =
     (case this of CMatrix3x3 a00 a01 a02 a10 a11 a12 a20 a21 a22 \<Rightarrow>
         (let (sZ, cZ) = SinCos z;
              t = a00 * sZ + a01 * cZ;
              a00 = a00 * cZ - a01 * sZ;
              a01 = t;
              t = a10 * sZ + a11 * cZ;
              a10 = a10 * cZ - a11 * sZ;
              a11 = t;
              t = a20 * sZ + a21 * cZ;
              a20 = a20 * cZ - a21 * sZ;
              a21 = t
          in CMatrix3x3 a00 a01 a02 a10 a11 a12 a20 a21 a22))"

definition RotateLocalX3 :: "float32 \<Rightarrow> matrix3 \<Rightarrow> matrix3" where
  "RotateLocalX3 x this =
     (case this of CMatrix3x3 a00 a01 a02 a10 a11 a12 a20 a21 a22 \<Rightarrow>
         (let scaleSqY = a10 * a10 + a11 * a11 + a12 * a12;
              scaleSqZ = a20 * a20 + a21 * a21 + a22 * a22;
              scaleYZ = sqrt scaleSqY * InvSqrt scaleSqZ;
              (sX, cX) = SinCos x;
              sXY = sX * scaleYZ;
              sXZ = sX / scaleYZ;
              t = a10 * cX + a20 * sXY;
              a20 = a20 * cX - a10 * sXZ;
              a10 = t;
              t = a11 * cX + a21 * sXY;
              a21 = a21 * cX - a11 * sXZ;
              a11 = t;
              t = a12 * cX + a22 * sXY;
              a22 = a22 * cX - a12 * sXZ;
              a12 = t
          in CMatrix3x3 a00 a01 a02 a10 a11 a12 a20 a21 a22))"

definition RotateLocalXUnscaled3 :: "float32 \<Rightarrow> matrix3 \<Rightarrow> matrix3" where
  "RotateLocalXUnscaled3 x this =
     (case this of CMatrix3x3 a00 a01 a02 a10 a11 a12 a20 a21 a22 \<Rightarrow>
         (let (sX, cX) = SinCos x;
              t = a10 * cX + a20 * sX;
              a20 = a20 * cX - a10 * sX;
              a10 = t;
              t = a11 * cX + a21 * sX;
              a21 = a21 * cX - a11 * sX;
              a11 = t;
              t = a12 * cX + a22 * sX;
              a22 = a22 * cX - a12 * sX;
              a12 = t
          in CMatrix3x3 a00 a01 a02 a10 a11 a12 a20 a21 a22))"

definition RotateLocalY3 :: "float32 \<Rightarrow> matrix3 \<Rightarrow> matrix3" where
  "RotateLocalY3 y this =
     (case this of CMatrix3x3 a00 a01 a02 a10 a11 a12 a20 a21 a22 \<Rightarrow>
         (let scaleSqX = a00 * a00 + a01 * a01 + a02 * a02;
              scaleSqZ = a20 * a20 + a21 * a21 + a22 * a22;
              scaleZX = sqrt scaleSqZ * InvSqrt scaleSqX;
              (sY, cY) = SinCos y;
              sYZ = sY * scaleZX;
              sYX = sY / scaleZX;
              t = a20 * cY + a00 * sYZ;
              a00 = a00 * cY - a20 * sYX;
              a20 = t;
              t = a21 * cY + a01 * sYZ;
              a01 = a01 * cY - a21 * sYX;
              a21 = t;
              t = a22 * cY + a02 * sYZ;
              a02 = a02 * cY - a22 * sYX;
              a22 = t
          in CMatrix3x3 a00 a01 a02 a10 a11 a12 a20 a21 a22))"

definition RotateLocalYUnscaled3 :: "float32 \<Rightarrow> matrix3 \<Rightarrow> matrix3" where
  "RotateLocalYUnscaled3 y this =
     (case this of CMatrix3x3 a00 a01 a02 a10 a11 a12 a20 a21 a22 \<Rightarrow>
         (let (sY, cY) = SinCos y;
              t = a20 * cY + a00 * sY;
              a00 = a00 * cY - a20 * sY;
              a20 = t;
              t = a21 * cY + a01 * sY;
              a01 = a01 * cY - a21 * sY;
              a21 = t;
              t = a22 * cY + a02 * sY;
              a02 = a02 * cY - a22 * sY;
              a22 = t
          in CMatrix3x3 a00 a01 a02 a10 a11 a12 a20 a21 a22))"

definition RotateLocalZ3 :: "float32 \<Rightarrow> matrix3 \<Rightarrow> matrix3" where
  "RotateLocalZ3 z this =
     (case this of CMatrix3x3 a00 a01 a02 a10 a11 a12 a20 a21 a22 \<Rightarrow>
         (let scaleSqX = a00 * a00 + a01 * a01 + a02 * a02;
              scaleSqY = a10 * a10 + a11 * a11 + a12 * a12;
              scaleXY = sqrt scaleSqX * InvSqrt scaleSqY;
              (sZ, cZ) = SinCos z;
              sZX = sZ * scaleXY;
              sZY = sZ / scaleXY;
              t = a00 * cZ + a10 * sZX;
              a10 = a10 * cZ - a00 * sZY;
              a00 = t;
              t = a01 * cZ + a11 * sZX;
              a11 = a11 * cZ - a01 * sZY;
              a01 = t;
              t = a02 * cZ + a12 * sZX;
              a12 = a12 * cZ - a02 * sZY;
              a02 = t
          in CMatrix3x3 a00 a01 a02 a10 a11 a12 a20 a21 a22))"

definition RotateLocalZUnscaled3 :: "float32 \<Rightarrow> matrix3 \<Rightarrow> matrix3" where
  "RotateLocalZUnscaled3 z this =
     (case this of CMatrix3x3 a00 a01 a02 a10 a11 a12 a20 a21 a22 \<Rightarrow>
         (let (sZ, cZ) = SinCos z;
              t = a00 * cZ + a10 * sZ;
              a10 = a10 * cZ - a00 * sZ;
              a00 = t;
              t = a01 * cZ + a11 * sZ;
              a11 = a11 * cZ - a01 * sZ;
              a01 = t;
              t = a02 * cZ + a12 * sZ;
              a12 = a12 * cZ - a02 * sZ;
              a02 = t
          in CMatrix3x3 a00 a01 a02 a10 a11 a12 a20 a21 a22))"

end
