(* ===== verification/Affine2D.thy ===== *)
theory Affine2D
  imports Matrices3
begin

text \<open>
  \<open>CMatrix3x3\<close> as an affine transformation of the plane (CMatrix3x3.h, CMatrix3x3.cpp): the upper left
  two rows hold a linear map, the last row a position, the last column is that of the identity.
\<close>

section \<open>Making and taking apart\<close>

definition mat3_rows_plane :: "vector2 \<Rightarrow> vector2 \<Rightarrow> vector2 \<Rightarrow> bool \<Rightarrow> matrix3 \<Rightarrow> matrix3" where
  "mat3_rows_plane v0 v1 v2 bRows this =
     (case this of CMatrix3x3 a00 a01 a02 a10 a11 a12 a20 a21 a22 \<Rightarrow>
         (let (a00, a01, a02, a10, a11, a12, a20, a21, a22) = (if bRows then
                 (let a00 = p_x v0;
                      a01 = p_y v0;
                      a02 = 0;
                      a10 = p_x v1;
                      a11 = p_y v1;
                      a12 = 0;
                      a20 = p_x v2;
                      a21 = p_y v2;
                      a22 = 0
                  in (a00, a01, a02, a10, a11, a12, a20, a21, a22))
                 else
                 (let a00 = p_x v0;
                      a10 = p_y v0;
                      a01 = p_x v1;
                      a11 = p_y v1;
                      a02 = p_x v2;
                      a12 = p_y v2;
                      a20 = 0;
                      a21 = 0;
                      a22 = 1
                  in (a00, a01, a02, a10, a11, a12, a20, a21, a22)))
          in CMatrix3x3 a00 a01 a02 a10 a11 a12 a20 a21 a22))"

definition mat3_position2D :: "vector2 \<Rightarrow> matrix3 \<Rightarrow> matrix3" where
  "mat3_position2D position this =
     (case this of CMatrix3x3 a00 a01 a02 a10 a11 a12 a20 a21 a22 \<Rightarrow>
         (let a00 = 1;
              a01 = 0;
              a02 = 0;
              a10 = 0;
              a11 = 1;
              a12 = 0;
              a20 = p_x position;
              a21 = p_y position;
              a22 = 1
          in CMatrix3x3 a00 a01 a02 a10 a11 a12 a20 a21 a22))"

definition mat3_affine2D :: "vector2 \<Rightarrow> float32 \<Rightarrow> vector2 \<Rightarrow> matrix3 \<Rightarrow> matrix3" where
  "mat3_affine2D position fAngle scale this =
     (case this of CMatrix3x3 a00 a01 a02 a10 a11 a12 a20 a21 a22 \<Rightarrow>
         (let (s, c) = SinCos fAngle;
              a00 = c * p_x scale;
              a01 = s * p_x scale;
              a02 = 0;
              a10 = - s * p_y scale;
              a11 = c * p_y scale;
              a12 = 0;
              a20 = p_x position;
              a21 = p_y position;
              a22 = 1
          in CMatrix3x3 a00 a01 a02 a10 a11 a12 a20 a21 a22))"

definition mat3_of_mat2 :: "matrix2 \<Rightarrow> vector2 \<Rightarrow> matrix3 \<Rightarrow> matrix3" where
  "mat3_of_mat2 m position this =
     (case this of CMatrix3x3 a00 a01 a02 a10 a11 a12 a20 a21 a22 \<Rightarrow>
         (let a00 = g00 m;
              a01 = g01 m;
              a02 = 0;
              a10 = g10 m;
              a11 = g11 m;
              a12 = 0;
              a20 = p_x position;
              a21 = p_y position;
              a22 = 1
          in CMatrix3x3 a00 a01 a02 a10 a11 a12 a20 a21 a22))"

definition SetRows3_plane :: "vector2 \<Rightarrow> vector2 \<Rightarrow> vector2 \<Rightarrow> matrix3 \<Rightarrow> matrix3" where
  "SetRows3_plane v0 v1 v2 this =
     (case this of CMatrix3x3 a00 a01 a02 a10 a11 a12 a20 a21 a22 \<Rightarrow>
         (let a00 = p_x v0;
              a01 = p_y v0;
              a02 = 0;
              a10 = p_x v1;
              a11 = p_y v1;
              a12 = 0;
              a20 = p_x v2;
              a21 = p_y v2;
              a22 = 1
          in CMatrix3x3 a00 a01 a02 a10 a11 a12 a20 a21 a22))"

definition SetColumns3_plane :: "vector2 \<Rightarrow> vector2 \<Rightarrow> vector2 \<Rightarrow> matrix3 \<Rightarrow> matrix3" where
  "SetColumns3_plane v0 v1 v2 this =
     (case this of CMatrix3x3 a00 a01 a02 a10 a11 a12 a20 a21 a22 \<Rightarrow>
         (let a00 = p_x v0;
              a10 = p_y v0;
              a01 = p_x v1;
              a11 = p_y v1;
              a02 = p_x v2;
              a12 = p_y v2;
              a20 = 0;
              a21 = 0;
              a22 = 1
          in CMatrix3x3 a00 a01 a02 a10 a11 a12 a20 a21 a22))"

definition MakeAffine2D :: "vector2 \<Rightarrow> float32 \<Rightarrow> vector2 \<Rightarrow> matrix3 \<Rightarrow> matrix3" where
  "MakeAffine2D position fAngle scale this =
     (case this of CMatrix3x3 a00 a01 a02 a10 a11 a12 a20 a21 a22 \<Rightarrow>
         (let (s, c) = SinCos fAngle;
              a00 = c * p_x scale;
              a01 = s * p_x scale;
              a02 = 0;
              a10 = - s * p_y scale;
              a11 = c * p_y scale;
              a12 = 0;
              a20 = p_x position;
              a21 = p_y position;
              a22 = 1
          in CMatrix3x3 a00 a01 a02 a10 a11 a12 a20 a21 a22))"

text \<open>The flag says whether the caller passes a pointer for the angle; without one the assertion does not run.\<close>

definition DecomposeAffine2D :: "bool \<Rightarrow> matrix3 \<Rightarrow> (vector2 \<times> float32 option \<times> vector2) res" where
  "DecomposeAffine2D wantAngle this =
     (let position = CVector2 (f20 this) (f21 this);
          scaleX = sqrt (f00 this * f00 this + f01 this * f01 this);
          scaleY = sqrt (f10 this * f10 this + f11 this * f11 this)
      in if wantAngle then
           if \<not> (\<not> IsZero scaleX \<and> \<not> IsZero scaleY) then Inl Fatal_Exception
           else let invScaleX = 1 / scaleX
             in Inr (position, Some (ATan (f01 this * invScaleX) (f00 this * invScaleX)), CVector2 scaleX scaleY)
         else Inr (position, None, CVector2 scaleX scaleY))"

definition GetPosition2D :: "matrix3 \<Rightarrow> vector2" where
  "GetPosition2D this = CVector2 (f20 this) (f21 this)"

definition GetScale2D :: "matrix3 \<Rightarrow> vector2" where
  "GetScale2D this =
     (let scale_x = sqrt (f00 this * f00 this + f01 this * f01 this);
          scale_y = sqrt (f10 this * f10 this + f11 this * f11 this)
      in CVector2 scale_x scale_y)"

section \<open>Scale\<close>

definition SetScaleX2D :: "float32 \<Rightarrow> matrix3 \<Rightarrow> matrix3" where
  "SetScaleX2D x this =
     (case this of CMatrix3x3 a00 a01 a02 a10 a11 a12 a20 a21 a22 \<Rightarrow>
         (let scaleSq = sqrt (a00 * a00 + a01 * a01);
              (a00, a01) = (if \<not> IsZero scaleSq then
                 (let rescale = x * InvSqrt scaleSq;
                      a00 = a00 * rescale;
                      a01 = a01 * rescale
                  in (a00, a01))
                 else (a00, a01))
          in CMatrix3x3 a00 a01 a02 a10 a11 a12 a20 a21 a22))"

definition SetScaleY2D :: "float32 \<Rightarrow> matrix3 \<Rightarrow> matrix3" where
  "SetScaleY2D y this =
     (case this of CMatrix3x3 a00 a01 a02 a10 a11 a12 a20 a21 a22 \<Rightarrow>
         (let scaleSq = sqrt (a10 * a10 + a11 * a11);
              (a10, a11) = (if \<not> IsZero scaleSq then
                 (let rescale = y * InvSqrt scaleSq;
                      a10 = a10 * rescale;
                      a11 = a11 * rescale
                  in (a10, a11))
                 else (a10, a11))
          in CMatrix3x3 a00 a01 a02 a10 a11 a12 a20 a21 a22))"

definition SetScale2D :: "vector2 \<Rightarrow> matrix3 \<Rightarrow> matrix3" where
  "SetScale2D scale this =
     (case this of CMatrix3x3 a00 a01 a02 a10 a11 a12 a20 a21 a22 \<Rightarrow>
         (let scaleSq = sqrt (a00 * a00 + a01 * a01);
              (a00, a01) = (if \<not> IsZero scaleSq then
                 (let rescale = p_x scale * InvSqrt scaleSq;
                      a00 = a00 * rescale;
                      a01 = a01 * rescale
                  in (a00, a01))
                 else (a00, a01));
              scaleSq = sqrt (a10 * a10 + a11 * a11);
              (a10, a11) = (if \<not> IsZero scaleSq then
                 (let rescale = p_y scale * InvSqrt scaleSq;
                      a10 = a10 * rescale;
                      a11 = a11 * rescale
                  in (a10, a11))
                 else (a10, a11))
          in CMatrix3x3 a00 a01 a02 a10 a11 a12 a20 a21 a22))"

definition SetScale2D_uniform :: "float32 \<Rightarrow> matrix3 \<Rightarrow> matrix3" where
  "SetScale2D_uniform fScale this =
     (case this of CMatrix3x3 a00 a01 a02 a10 a11 a12 a20 a21 a22 \<Rightarrow>
         (let scaleSq = sqrt (a00 * a00 + a01 * a01);
              (a00, a01) = (if \<not> IsZero scaleSq then
                 (let rescale = fScale * InvSqrt scaleSq;
                      a00 = a00 * rescale;
                      a01 = a01 * rescale
                  in (a00, a01))
                 else (a00, a01));
              scaleSq = sqrt (a10 * a10 + a11 * a11);
              (a10, a11) = (if \<not> IsZero scaleSq then
                 (let rescale = fScale * InvSqrt scaleSq;
                      a10 = a10 * rescale;
                      a11 = a11 * rescale
                  in (a10, a11))
                 else (a10, a11))
          in CMatrix3x3 a00 a01 a02 a10 a11 a12 a20 a21 a22))"

definition ScaleX2D :: "float32 \<Rightarrow> matrix3 \<Rightarrow> matrix3" where
  "ScaleX2D x this =
     (case this of CMatrix3x3 a00 a01 a02 a10 a11 a12 a20 a21 a22 \<Rightarrow>
         (let a00 = a00 * x;
              a01 = a01 * x
          in CMatrix3x3 a00 a01 a02 a10 a11 a12 a20 a21 a22))"

definition ScaleY2D :: "float32 \<Rightarrow> matrix3 \<Rightarrow> matrix3" where
  "ScaleY2D y this =
     (case this of CMatrix3x3 a00 a01 a02 a10 a11 a12 a20 a21 a22 \<Rightarrow>
         (let a10 = a10 * y;
              a11 = a11 * y
          in CMatrix3x3 a00 a01 a02 a10 a11 a12 a20 a21 a22))"

definition Scale2D :: "vector2 \<Rightarrow> matrix3 \<Rightarrow> matrix3" where
  "Scale2D scale this =
     (case this of CMatrix3x3 a00 a01 a02 a10 a11 a12 a20 a21 a22 \<Rightarrow>
         (let a00 = a00 * p_x scale;
              a01 = a01 * p_x scale;
              a10 = a10 * p_y scale;
              a11 = a11 * p_y scale
          in CMatrix3x3 a00 a01 a02 a10 a11 a12 a20 a21 a22))"

definition Scale2D_uniform :: "float32 \<Rightarrow> matrix3 \<Rightarrow> matrix3" where
  "Scale2D_uniform fScale this =
     (case this of CMatrix3x3 a00 a01 a02 a10 a11 a12 a20 a21 a22 \<Rightarrow>
         (let a00 = a00 * fScale;
              a01 = a01 * fScale;
              a10 = a10 * fScale;
              a11 = a11 * fScale
          in CMatrix3x3 a00 a01 a02 a10 a11 a12 a20 a21 a22))"

section \<open>Moving and turning\<close>

definition SetPosition2D :: "vector2 \<Rightarrow> matrix3 \<Rightarrow> matrix3" where
  "SetPosition2D p this =
     (case this of CMatrix3x3 a00 a01 a02 a10 a11 a12 a20 a21 a22 \<Rightarrow>
         (let a20 = p_x p;
              a21 = p_y p
          in CMatrix3x3 a00 a01 a02 a10 a11 a12 a20 a21 a22))"

definition SetX2D :: "float32 \<Rightarrow> matrix3 \<Rightarrow> matrix3" where
  "SetX2D x this =
     (case this of CMatrix3x3 a00 a01 a02 a10 a11 a12 a20 a21 a22 \<Rightarrow>
         (let a20 = x
          in CMatrix3x3 a00 a01 a02 a10 a11 a12 a20 a21 a22))"

definition SetY2D :: "float32 \<Rightarrow> matrix3 \<Rightarrow> matrix3" where
  "SetY2D y this =
     (case this of CMatrix3x3 a00 a01 a02 a10 a11 a12 a20 a21 a22 \<Rightarrow>
         (let a21 = y
          in CMatrix3x3 a00 a01 a02 a10 a11 a12 a20 a21 a22))"

definition Move2D :: "vector2 \<Rightarrow> matrix3 \<Rightarrow> matrix3" where
  "Move2D v this =
     (case this of CMatrix3x3 a00 a01 a02 a10 a11 a12 a20 a21 a22 \<Rightarrow>
         (let a20 = a20 + p_x v;
              a21 = a21 + p_y v
          in CMatrix3x3 a00 a01 a02 a10 a11 a12 a20 a21 a22))"

definition MoveX2D :: "float32 \<Rightarrow> matrix3 \<Rightarrow> matrix3" where
  "MoveX2D x this =
     (case this of CMatrix3x3 a00 a01 a02 a10 a11 a12 a20 a21 a22 \<Rightarrow>
         (let a20 = a20 + x
          in CMatrix3x3 a00 a01 a02 a10 a11 a12 a20 a21 a22))"

definition MoveY2D :: "float32 \<Rightarrow> matrix3 \<Rightarrow> matrix3" where
  "MoveY2D y this =
     (case this of CMatrix3x3 a00 a01 a02 a10 a11 a12 a20 a21 a22 \<Rightarrow>
         (let a21 = a21 + y
          in CMatrix3x3 a00 a01 a02 a10 a11 a12 a20 a21 a22))"

definition MoveLocal2D :: "vector2 \<Rightarrow> matrix3 \<Rightarrow> matrix3" where
  "MoveLocal2D v this =
     (case this of CMatrix3x3 a00 a01 a02 a10 a11 a12 a20 a21 a22 \<Rightarrow>
         (let scaledX = p_x v * InvSqrt (a00 * a00 + a01 * a01);
              scaledY = p_y v * InvSqrt (a10 * a10 + a11 * a11);
              a20 = a20 + scaledX * a00 + scaledY * a10;
              a21 = a21 + scaledX * a01 + scaledY * a11
          in CMatrix3x3 a00 a01 a02 a10 a11 a12 a20 a21 a22))"

definition MoveLocal2DWithScaling :: "vector2 \<Rightarrow> matrix3 \<Rightarrow> matrix3" where
  "MoveLocal2DWithScaling v this =
     (case this of CMatrix3x3 a00 a01 a02 a10 a11 a12 a20 a21 a22 \<Rightarrow>
         (let a20 = a20 + p_x v * a00 + p_y v * a10;
              a21 = a21 + p_x v * a01 + p_y v * a11
          in CMatrix3x3 a00 a01 a02 a10 a11 a12 a20 a21 a22))"

definition MoveLocalX2D :: "float32 \<Rightarrow> matrix3 \<Rightarrow> matrix3" where
  "MoveLocalX2D x this =
     (case this of CMatrix3x3 a00 a01 a02 a10 a11 a12 a20 a21 a22 \<Rightarrow>
         (let scaledX = x * InvSqrt (a00 * a00 + a01 * a01);
              a20 = a20 + scaledX * a00;
              a21 = a21 + scaledX * a01
          in CMatrix3x3 a00 a01 a02 a10 a11 a12 a20 a21 a22))"

definition MoveLocalX2DWithScaling :: "float32 \<Rightarrow> matrix3 \<Rightarrow> matrix3" where
  "MoveLocalX2DWithScaling x this =
     (case this of CMatrix3x3 a00 a01 a02 a10 a11 a12 a20 a21 a22 \<Rightarrow>
         (let a20 = a20 + x * a00;
              a21 = a21 + x * a01
          in CMatrix3x3 a00 a01 a02 a10 a11 a12 a20 a21 a22))"

definition MoveLocalY2D :: "float32 \<Rightarrow> matrix3 \<Rightarrow> matrix3" where
  "MoveLocalY2D y this =
     (case this of CMatrix3x3 a00 a01 a02 a10 a11 a12 a20 a21 a22 \<Rightarrow>
         (let scaledY = y * InvSqrt (a10 * a10 + a11 * a11);
              a20 = a20 + scaledY * a10;
              a21 = a21 + scaledY * a11
          in CMatrix3x3 a00 a01 a02 a10 a11 a12 a20 a21 a22))"

definition MoveLocalY2DWithScaling :: "float32 \<Rightarrow> matrix3 \<Rightarrow> matrix3" where
  "MoveLocalY2DWithScaling y this =
     (case this of CMatrix3x3 a00 a01 a02 a10 a11 a12 a20 a21 a22 \<Rightarrow>
         (let a20 = a20 + y * a10;
              a21 = a21 + y * a11
          in CMatrix3x3 a00 a01 a02 a10 a11 a12 a20 a21 a22))"

definition Rotate2D :: "float32 \<Rightarrow> matrix3 \<Rightarrow> matrix3" where
  "Rotate2D fAngle this =
     (case this of CMatrix3x3 a00 a01 a02 a10 a11 a12 a20 a21 a22 \<Rightarrow>
         (let (s, c) = SinCos fAngle;
              t = a00 * s + a01 * c;
              a00 = a00 * c - a01 * s;
              a01 = t;
              t = a10 * s + a11 * c;
              a10 = a10 * c - a11 * s;
              a11 = t;
              t = a20 * s + a21 * c;
              a20 = a20 * c - a21 * s;
              a21 = t
          in CMatrix3x3 a00 a01 a02 a10 a11 a12 a20 a21 a22))"

definition RotateLocal2D :: "float32 \<Rightarrow> matrix3 \<Rightarrow> matrix3" where
  "RotateLocal2D fAngle this =
     (case this of CMatrix3x3 a00 a01 a02 a10 a11 a12 a20 a21 a22 \<Rightarrow>
         (let scaleSqX = a00 * a00 + a01 * a01;
              scaleSqY = a10 * a10 + a11 * a11;
              scaleXY = sqrt scaleSqX * InvSqrt scaleSqY;
              (s, c) = SinCos fAngle;
              sX = s * scaleXY;
              sY = s / scaleXY;
              t = a00 * c + a10 * sX;
              a10 = a10 * c - a00 * sY;
              a00 = t;
              t = a01 * c + a11 * sX;
              a11 = a11 * c - a01 * sY;
              a01 = t
          in CMatrix3x3 a00 a01 a02 a10 a11 a12 a20 a21 a22))"

definition RotateLocal2DUnscaled :: "float32 \<Rightarrow> matrix3 \<Rightarrow> matrix3" where
  "RotateLocal2DUnscaled fAngle this =
     (case this of CMatrix3x3 a00 a01 a02 a10 a11 a12 a20 a21 a22 \<Rightarrow>
         (let (s, c) = SinCos fAngle;
              t = a00 * c + a10 * s;
              a10 = a10 * c - a00 * s;
              a00 = t;
              t = a01 * c + a11 * s;
              a11 = a11 * c - a01 * s;
              a01 = t
          in CMatrix3x3 a00 a01 a02 a10 a11 a12 a20 a21 a22))"

section \<open>Tests\<close>

definition IsOrthogonal2x2 :: "matrix3 \<Rightarrow> bool" where
  "IsOrthogonal2x2 this \<longleftrightarrow>
     IsZero (f00 this * f10 this + f01 this * f11 this) \<and>
     IsZero (f10 this * f20 this + f11 this * f21 this)"

definition IsOrthonormal2x2 :: "matrix3 \<Rightarrow> bool" where
  "IsOrthonormal2x2 this \<longleftrightarrow>
     IsZero (f00 this * f00 this + f01 this * f01 this - 1) \<and>
     IsZero (f10 this * f10 this + f11 this * f11 this - 1) \<and>
     IsZero (f00 this * f10 this + f01 this * f11 this) \<and>
     IsZero (f10 this * f20 this + f11 this * f21 this)"

definition Orthogonalise2x2_assign :: "vector2 \<Rightarrow> matrix3 \<Rightarrow> matrix3 res" where
  "Orthogonalise2x2_assign scale this =
     (case this of CMatrix3x3 a00 a01 a02 a10 a11 a12 a20 a21 a22 \<Rightarrow>
         (let origScaleX = a00 * a00 + a01 * a01
          in if IsZero origScaleX then Inl Fatal_Exception
             else
             (let invOrigScaleX = InvSqrt origScaleX;
                  a00 = a00 * invOrigScaleX;
                  a01 = a01 * invOrigScaleX;
                  ccwPerpDot = a00 * a11 - a01 * a10;
                  (a11, a10) = (if ccwPerpDot \<ge> 0 then
                     (let a11 = a00;
                          a10 = - a01
                      in (a11, a10))
                     else
                     (let a11 = - a00;
                          a10 = a01
                      in (a11, a10)));
                  a00 = a00 * p_x scale;
                  a01 = a01 * p_x scale;
                  a10 = a10 * p_y scale;
                  a11 = a11 * p_y scale
              in Inr (CMatrix3x3 a00 a01 a02 a10 a11 a12 a20 a21 a22))))"

text \<open>The copy starts as memory nobody has written, \<open>mOut\<close>; only its upper left elements are assigned.\<close>

definition Orthogonalise2x2 :: "matrix3 \<Rightarrow> vector2 \<Rightarrow> matrix3 \<Rightarrow> matrix3 res" where
  "Orthogonalise2x2 m scale mOut =
     (let origScaleX = f00 m * f00 m + f01 m * f01 m
      in if IsZero origScaleX then Inl Fatal_Exception
         else
         (let invOrigScaleX = InvSqrt origScaleX;
              o00 = f00 m * invOrigScaleX;
              o01 = f01 m * invOrigScaleX;
              ccwPerpDot = o00 * f11 m - o01 * f10 m;
              (o11, o10) = (if ccwPerpDot \<ge> 0 then 
                 (let o11 = o00;
                      o10 = - o01
                  in (o11, o10))
                 else 
                 (let o11 = - o00;
                      o10 = o01
                  in (o11, o10)));
              o00 = o00 * p_x scale;
              o01 = o01 * p_x scale;
              o10 = o10 * p_y scale;
              o11 = o11 * p_y scale
          in Inr (CMatrix3x3 o00 o01 (f02 mOut) o10 o11 (f12 mOut) (f20 mOut) (f21 mOut) (f22 mOut))))"

section \<open>Inverses\<close>

definition InvertAffine2D :: "matrix3 \<Rightarrow> matrix3 res" where
  "InvertAffine2D this =
     (case this of CMatrix3x3 a00 a01 a02 a10 a11 a12 a20 a21 a22 \<Rightarrow>
         (let det = a00 * a11 - a01 * a10
          in if IsZero det then Inl Fatal_Exception
             else
             (let invDet = 1 / det;
                  t = invDet * a00;
                  a00 = invDet * a11;
                  a11 = t;
                  a01 = a01 * invDet;
                  a10 = a10 * invDet;
                  a20 = - a20 * a00 - a21 * a10;
                  a21 = - a20 * a01 - a21 * a11
              in Inr (CMatrix3x3 a00 a01 a02 a10 a11 a12 a20 a21 a22))))"

definition InverseAffine2D :: "matrix3 \<Rightarrow> matrix3 res" where
  "InverseAffine2D m =
     (let det = f00 m * f11 m - f01 m * f10 m
      in if IsZero det then Inl Fatal_Exception
         else
         (let invDet = 1 / det;
              o00 = invDet * f11 m;
              o01 = invDet * f01 m;
              o02 = 0;
              o10 = invDet * f10 m;
              o11 = invDet * f00 m;
              o12 = 0;
              o20 = - f20 m * o00 - f21 m * o10;
              o21 = - f20 m * o01 - f21 m * o11;
              o22 = 1
          in Inr (CMatrix3x3 o00 o01 o02 o10 o11 o12 o20 o21 o22)))"

section \<open>Elementary transformations\<close>

definition MakeTranslation2D :: "vector2 \<Rightarrow> matrix3 \<Rightarrow> matrix3" where
  "MakeTranslation2D translate this =
     (case this of CMatrix3x3 a00 a01 a02 a10 a11 a12 a20 a21 a22 \<Rightarrow>
         (let a00 = 1;
              a01 = 0;
              a02 = 0;
              a10 = 0;
              a11 = 1;
              a12 = 0;
              a20 = p_x translate;
              a21 = p_y translate;
              a22 = 1
          in CMatrix3x3 a00 a01 a02 a10 a11 a12 a20 a21 a22))"

definition MakeRotation2D :: "float32 \<Rightarrow> matrix3 \<Rightarrow> matrix3" where
  "MakeRotation2D fAngle this =
     (case this of CMatrix3x3 a00 a01 a02 a10 a11 a12 a20 a21 a22 \<Rightarrow>
         (let (s, c) = SinCos fAngle;
              a00 = c;
              a01 = s;
              a02 = 0;
              a10 = - s;
              a11 = c;
              a12 = 0;
              a20 = 0;
              a21 = 0;
              a22 = 1
          in CMatrix3x3 a00 a01 a02 a10 a11 a12 a20 a21 a22))"

definition MakeScaling2D :: "vector2 \<Rightarrow> matrix3 \<Rightarrow> matrix3" where
  "MakeScaling2D scale this =
     (case this of CMatrix3x3 a00 a01 a02 a10 a11 a12 a20 a21 a22 \<Rightarrow>
         (let a00 = p_x scale;
              a01 = 0;
              a02 = 0;
              a10 = 0;
              a11 = p_y scale;
              a12 = 0;
              a20 = 0;
              a21 = 0;
              a22 = 1
          in CMatrix3x3 a00 a01 a02 a10 a11 a12 a20 a21 a22))"

definition MakeScaling2D_uniform :: "float32 \<Rightarrow> matrix3 \<Rightarrow> matrix3" where
  "MakeScaling2D_uniform fScale this =
     (case this of CMatrix3x3 a00 a01 a02 a10 a11 a12 a20 a21 a22 \<Rightarrow>
         (let a00 = fScale;
              a01 = 0;
              a02 = 0;
              a10 = 0;
              a11 = fScale;
              a12 = 0;
              a20 = 0;
              a21 = 0;
              a22 = 1
          in CMatrix3x3 a00 a01 a02 a10 a11 a12 a20 a21 a22))"

definition MatrixTranslation2D :: "vector2 \<Rightarrow> matrix3" where
  "MatrixTranslation2D translate =
     (let o00 = 1;
          o01 = 0;
          o02 = 0;
          o10 = 0;
          o11 = 1;
          o12 = 0;
          o20 = p_x translate;
          o21 = p_y translate;
          o22 = 1
      in CMatrix3x3 o00 o01 o02 o10 o11 o12 o20 o21 o22)"

definition MatrixRotation2D :: "float32 \<Rightarrow> matrix3" where
  "MatrixRotation2D fAngle =
     (let (s, c) = SinCos fAngle;
          o00 = c;
          o01 = s;
          o02 = 0;
          o10 = - s;
          o11 = c;
          o12 = 0;
          o20 = 0;
          o21 = 0;
          o22 = 1
      in CMatrix3x3 o00 o01 o02 o10 o11 o12 o20 o21 o22)"

definition MatrixScaling2D :: "vector2 \<Rightarrow> matrix3" where
  "MatrixScaling2D scale =
     (let o00 = p_x scale;
          o01 = 0;
          o02 = 0;
          o10 = 0;
          o11 = p_y scale;
          o12 = 0;
          o20 = 0;
          o21 = 0;
          o22 = 1
      in CMatrix3x3 o00 o01 o02 o10 o11 o12 o20 o21 o22)"

definition MatrixScaling2D_uniform :: "float32 \<Rightarrow> matrix3" where
  "MatrixScaling2D_uniform fScale =
     (let o00 = fScale;
          o01 = 0;
          o02 = 0;
          o10 = 0;
          o11 = fScale;
          o12 = 0;
          o20 = 0;
          o21 = 0;
          o22 = 1
      in CMatrix3x3 o00 o01 o02 o10 o11 o12 o20 o21 o22)"

section \<open>Facing a point or a direction\<close>

definition FaceTarget2D :: "vector2 \<Rightarrow> bool \<Rightarrow> bool \<Rightarrow> matrix3 \<Rightarrow> matrix3" where
  "FaceTarget2D target bUseYAxis bLH this =
     (case this of CMatrix3x3 a00 a01 a02 a10 a11 a12 a20 a21 a22 \<Rightarrow>
         (let scale = GetScale2D this;
              axis = vec2_Normalise (vec2_sub target (GetPosition2D this))
          in if vec2_IsZero axis then CMatrix3x3 a00 a01 a02 a10 a11 a12 a20 a21 a22
             else
             (let (a10, a11, a00, a01) = (if bUseYAxis then
                     (let a10 = p_x axis * p_y scale;
                          a11 = p_y axis * p_y scale;
                          (a00, a01) = (if bLH then
                             (let a00 = a11 * p_x scale;
                                  a01 = - a10 * p_x scale
                              in (a00, a01))
                             else
                             (let a00 = - a11 * p_x scale;
                                  a01 = a10 * p_x scale
                              in (a00, a01)))
                      in (a10, a11, a00, a01))
                     else
                     (let a00 = p_x axis * p_x scale;
                          a01 = p_y axis * p_x scale;
                          (a11, a10) = (if bLH then
                             (let a11 = - a00 * p_y scale;
                                  a10 = a01 * p_y scale
                              in (a11, a10))
                             else
                             (let a11 = a00 * p_y scale;
                                  a10 = - a01 * p_y scale
                              in (a11, a10)))
                      in (a10, a11, a00, a01)))
              in CMatrix3x3 a00 a01 a02 a10 a11 a12 a20 a21 a22)))"

definition FaceDirection2D :: "vector2 \<Rightarrow> bool \<Rightarrow> bool \<Rightarrow> matrix3 \<Rightarrow> matrix3" where
  "FaceDirection2D direction bUseYAxis bLH this =
     (case this of CMatrix3x3 a00 a01 a02 a10 a11 a12 a20 a21 a22 \<Rightarrow>
         (let scale = GetScale2D this;
              axis = vec2_Normalise direction
          in if vec2_IsZero axis then CMatrix3x3 a00 a01 a02 a10 a11 a12 a20 a21 a22
             else
             (let (a10, a11, a00, a01) = (if bUseYAxis then
                     (let a10 = p_x axis * p_y scale;
                          a11 = p_y axis * p_y scale;
                          (a00, a01) = (if bLH then
                             (let a00 = a11 * p_x scale;
                                  a01 = - a10 * p_x scale
                              in (a00, a01))
                             else
                             (let a00 = - a11 * p_x scale;
                                  a01 = a10 * p_x scale
                              in (a00, a01)))
                      in (a10, a11, a00, a01))
                     else
                     (let a00 = p_x axis * p_x scale;
                          a01 = p_y axis * p_x scale;
                          (a11, a10) = (if bLH then
                             (let a11 = - a00 * p_y scale;
                                  a10 = a01 * p_y scale
                              in (a11, a10))
                             else
                             (let a11 = a00 * p_y scale;
                                  a10 = - a01 * p_y scale
                              in (a11, a10)))
                      in (a10, a11, a00, a01)))
              in CMatrix3x3 a00 a01 a02 a10 a11 a12 a20 a21 a22)))"

definition MatrixFaceTarget2D :: "vector2 \<Rightarrow> vector2 \<Rightarrow> bool \<Rightarrow> bool \<Rightarrow> matrix3 \<Rightarrow> matrix3" where
  "MatrixFaceTarget2D position target bUseYAxis bLH mOut =
     (let axis = vec2_Normalise (vec2_sub target position)
      in if vec2_IsZero axis then mat3_position2D position mOut
         else
         (let (o10, o11, o12, o00, o01, o02) = (if bUseYAxis then
                 (let o10 = p_x axis;
                      o11 = p_y axis;
                      o12 = 0;
                      (o00, o01) = (if bLH then
                         (let o00 = o11;
                              o01 = - o10
                          in (o00, o01))
                         else
                         (let o00 = - o11;
                              o01 = o10
                          in (o00, o01)));
                      o02 = 0
                  in (o10, o11, o12, o00, o01, o02))
                 else
                 (let o00 = p_x axis;
                      o01 = p_y axis;
                      o02 = 0;
                      (o11, o10) = (if bLH then
                         (let o11 = - o00;
                              o10 = o01
                          in (o11, o10))
                         else
                         (let o11 = o00;
                              o10 = - o01
                          in (o11, o10)));
                      o12 = 0
                  in (o10, o11, o12, o00, o01, o02)));
              o20 = p_x position;
              o21 = p_y position;
              o22 = 1
          in CMatrix3x3 o00 o01 o02 o10 o11 o12 o20 o21 o22))"

definition MatrixFaceDirection2D :: "vector2 \<Rightarrow> vector2 \<Rightarrow> bool \<Rightarrow> bool \<Rightarrow> matrix3 \<Rightarrow> matrix3" where
  "MatrixFaceDirection2D position direction bUseYAxis bLH mOut =
     (let axis = vec2_Normalise direction
      in if vec2_IsZero axis then mat3_position2D position mOut
         else
         (let (o10, o11, o12, o00, o01, o02) = (if bUseYAxis then
                 (let o10 = p_x axis;
                      o11 = p_y axis;
                      o12 = 0;
                      (o00, o01) = (if bLH then
                         (let o00 = o11;
                              o01 = - o10
                          in (o00, o01))
                         else
                         (let o00 = - o11;
                              o01 = o10
                          in (o00, o01)));
                      o02 = 0
                  in (o10, o11, o12, o00, o01, o02))
                 else
                 (let o00 = p_x axis;
                      o01 = p_y axis;
                      o02 = 0;
                      (o11, o10) = (if bLH then
                         (let o11 = - o00;
                              o10 = o01
                          in (o11, o10))
                         else
                         (let o11 = o00;
                              o10 = - o01
                          in (o11, o10)));
                      o12 = 0
                  in (o10, o11, o12, o00, o01, o02)));
              o20 = p_x position;
              o21 = p_y position;
              o22 = 1
          in CMatrix3x3 o00 o01 o02 o10 o11 o12 o20 o21 o22))"

section \<open>Products\<close>

definition TransformVector2D :: "vector2 \<Rightarrow> matrix3 \<Rightarrow> vector2" where
  "TransformVector2D v this =
     (let vOut_x = p_x v * f00 this + p_y v * f10 this;
          vOut_y = p_x v * f01 this + p_y v * f11 this
      in CVector2 vOut_x vOut_y)"

definition TransformPoint2D :: "vector2 \<Rightarrow> matrix3 \<Rightarrow> vector2" where
  "TransformPoint2D p this =
     (let pOut_x = p_x p * f00 this + p_y p * f10 this + f20 this;
          pOut_y = p_x p * f01 this + p_y p * f11 this + f21 this
      in CVector2 pOut_x pOut_y)"

definition MultiplyAffine2D :: "matrix3 \<Rightarrow> matrix3 \<Rightarrow> matrix3" where
  "MultiplyAffine2D m1 m2 =
     (let o00 = f00 m1 * f00 m2 + f01 m1 * f10 m2;
          o01 = f00 m1 * f01 m2 + f01 m1 * f11 m2;
          o02 = 0;
          o10 = f10 m1 * f00 m2 + f11 m1 * f10 m2;
          o11 = f10 m1 * f01 m2 + f11 m1 * f11 m2;
          o12 = 0;
          o20 = f20 m1 * f00 m2 + f21 m1 * f10 m2 + f20 m2;
          o21 = f20 m1 * f01 m2 + f21 m1 * f11 m2 + f21 m2;
          o22 = 1
      in CMatrix3x3 o00 o01 o02 o10 o11 o12 o20 o21 o22)"

definition MultiplyAffine2D_assign :: "bool \<Rightarrow> matrix3 \<Rightarrow> matrix3 \<Rightarrow> matrix3" where
  "MultiplyAffine2D_assign self this m =
     (if self then MultiplyAffine2D m m else
      case this of CMatrix3x3 a00 a01 a02 a10 a11 a12 a20 a21 a22 \<Rightarrow>
         (let t = a00 * f00 m + a01 * f10 m;
              a01 = a00 * f01 m + a01 * f11 m;
              a00 = t;
              t = a10 * f00 m + a11 * f10 m;
              a11 = a10 * f01 m + a11 * f11 m;
              a10 = t;
              t = a20 * f00 m + a21 * f10 m + f20 m;
              a21 = a20 * f01 m + a21 * f11 m + f21 m;
              a20 = t
          in CMatrix3x3 a00 a01 a02 a10 a11 a12 a20 a21 a22))"

end
