(* ===== verification/Matrix3_Decompose.thy ===== *)
theory Matrix3_Decompose
  imports Affine2D
begin

text \<open>
  Taking a linear map of space apart (CMatrix3x3.cpp) into a scale and a rotation, as three angles, a
  quaternion, or an axis and an angle. A pointer the caller may leave null is a flag where it decides
  whether the assertion on the scale runs; the axis and its angle have one flag, since either pointer
  makes the code compute both. \<open>arccos\<close> has no specified value outside the interval from -1 to 1,
  where the platform's \<open>acosf\<close> returns no number.
\<close>

definition DecomposeTransformEuler :: "matrix3 \<Rightarrow> rotation_order \<Rightarrow> bool \<Rightarrow> (vector3 option \<times> vector3) res" where
  "DecomposeTransformEuler this eRotOrder wantAngles =
     (let scaleX = sqrt (f00 this * f00 this + f01 this * f01 this + f02 this * f02 this);
          scaleY = sqrt (f10 this * f10 this + f11 this * f11 this + f12 this * f12 this);
          scaleZ = sqrt (f20 this * f20 this + f21 this * f21 this + f22 this * f22 this)
      in if \<not> wantAngles then Inr (None, CVector3 scaleX scaleY scaleZ)
         else
         if \<not> (\<not> IsZero scaleX \<and> \<not> IsZero scaleY \<and> \<not> IsZero scaleZ) then Inl Fatal_Exception
          else
         (let invScaleX = 1 / scaleX;
              invScaleY = 1 / scaleY;
              invScaleZ = 1 / scaleZ;
              (sY, cY, sZ, cZ, sX, cX) = (case eRotOrder of
                 kZYX \<Rightarrow>
                   (let sY = f20 this * invScaleX;
                        cY = sqrt (1 - sY * sY);
                        (sZ, cZ, sX, cX) = (if \<not> IsZero cY then
                           (let invCY = 1 / cY;
                                sZ = - f10 this * invCY * invScaleY;
                                cZ = f00 this * invCY * invScaleX;
                                sX = - f21 this * invCY * invScaleZ;
                                cX = f22 this * invCY * invScaleZ
                            in (sZ, cZ, sX, cX))
                           else
                           (let sZ = 0;
                                cZ = 1;
                                sX = f12 this * invScaleY;
                                cX = f11 this * invScaleY
                            in (sZ, cZ, sX, cX)))
                    in (sY, cY, sZ, cZ, sX, cX))
               | kYZX \<Rightarrow>
                   (let sZ = - f10 this * invScaleY;
                        cZ = sqrt (1 - sZ * sZ);
                        (sY, cY, sX, cX) = (if \<not> IsZero cZ then
                           (let invCZ = 1 / cZ;
                                sY = f20 this * invCZ * invScaleZ;
                                cY = f00 this * invCZ * invScaleX;
                                sX = f12 this * invCZ * invScaleY;
                                cX = f11 this * invCZ * invScaleY
                            in (sY, cY, sX, cX))
                           else
                           (let sY = 0;
                                cY = 1;
                                sX = - f21 this * invScaleZ;
                                cX = f22 this * invScaleZ
                            in (sY, cY, sX, cX)))
                    in (sY, cY, sZ, cZ, sX, cX))
               | kXZY \<Rightarrow>
                   (let sZ = f01 this * invScaleX;
                        cZ = sqrt (1 - sZ * sZ);
                        (sX, cX, sY, cY) = (if \<not> IsZero cZ then
                           (let invCZ = 1 / cZ;
                                sX = - f21 this * invCZ * invScaleZ;
                                cX = f11 this * invCZ * invScaleY;
                                sY = - f02 this * invCZ * invScaleX;
                                cY = f00 this * invCZ * invScaleX
                            in (sX, cX, sY, cY))
                           else
                           (let sX = 0;
                                cX = 1;
                                sY = f20 this * invScaleZ;
                                cY = f22 this * invScaleZ
                            in (sX, cX, sY, cY)))
                    in (sY, cY, sZ, cZ, sX, cX))
               | kZXY \<Rightarrow>
                   (let sX = - f21 this * invScaleZ;
                        cX = sqrt (1 - sX * sX);
                        (sZ, cZ, sY, cY) = (if \<not> IsZero cX then
                           (let invCX = 1 / cX;
                                sZ = f01 this * invCX * invScaleX;
                                cZ = f11 this * invCX * invScaleY;
                                sY = f20 this * invCX * invScaleZ;
                                cY = f22 this * invCX * invScaleZ
                            in (sZ, cZ, sY, cY))
                           else
                           (let sZ = 0;
                                cZ = 1;
                                sY = - f02 this * invScaleX;
                                cY = f00 this * invScaleX
                            in (sZ, cZ, sY, cY)))
                    in (sY, cY, sZ, cZ, sX, cX))
               | kYXZ \<Rightarrow>
                   (let sX = f12 this * invScaleY;
                        cX = sqrt (1 - sX * sX);
                        (sY, cY, sZ, cZ) = (if \<not> IsZero cX then
                           (let invCX = 1 / cX;
                                sY = - f02 this * invCX * invScaleX;
                                cY = f22 this * invCX * invScaleZ;
                                sZ = - f10 this * invCX * invScaleY;
                                cZ = f11 this * invCX * invScaleY
                            in (sY, cY, sZ, cZ))
                           else
                           (let sY = 0;
                                cY = 1;
                                sZ = f01 this * invScaleX;
                                cZ = f00 this * invScaleX
                            in (sY, cY, sZ, cZ)))
                    in (sY, cY, sZ, cZ, sX, cX))
               | kXYZ \<Rightarrow>
                   (let sY = - f02 this * invScaleX;
                        cY = sqrt (1 - sY * sY);
                        (sX, cX, sZ, cZ) = (if \<not> IsZero cY then
                           (let invCY = 1 / cY;
                                sX = f12 this * invCY * invScaleY;
                                cX = f22 this * invCY * invScaleZ;
                                sZ = f01 this * invCY * invScaleX;
                                cZ = f00 this * invCY * invScaleX
                            in (sX, cX, sZ, cZ))
                           else
                           (let sX = 0;
                                cX = 1;
                                sZ = - f10 this * invScaleY;
                                cZ = f11 this * invScaleY
                            in (sX, cX, sZ, cZ)))
                    in (sY, cY, sZ, cZ, sX, cX)));
              pAngles_x = ATan sX cX;
              pAngles_y = ATan sY cY;
              pAngles_z = ATan sZ cZ
          in Inr (Some (CVector3 pAngles_x pAngles_y pAngles_z), CVector3 scaleX scaleY scaleZ)))"

definition DecomposeTransformQuaternion :: "matrix3 \<Rightarrow> bool \<Rightarrow> (quaternion option \<times> vector3) res" where
  "DecomposeTransformQuaternion this wantQuat =
     (let scaleX = sqrt (f00 this * f00 this + f01 this * f01 this + f02 this * f02 this);
          scaleY = sqrt (f10 this * f10 this + f11 this * f11 this + f12 this * f12 this);
          scaleZ = sqrt (f20 this * f20 this + f21 this * f21 this + f22 this * f22 this)
      in if \<not> wantQuat then Inr (None, CVector3 scaleX scaleY scaleZ)
         else
         if \<not> (\<not> IsZero scaleX \<and> \<not> IsZero scaleY \<and> \<not> IsZero scaleZ) then Inl Fatal_Exception
          else
         (let invScaleX = 1 / scaleX;
              invScaleY = 1 / scaleY;
              invScaleZ = 1 / scaleZ;
              diagX = f00 this * invScaleX;
              diagY = f11 this * invScaleY;
              diagZ = f22 this * invScaleZ;
              trace = diagX + diagY + diagZ;
              (pQuat_w, pQuat_x, pQuat_y, pQuat_z) = (if trace > 0 then
                 (let cosAng = sqrt (trace + 1);
                      pQuat_w = cosAng * (1 / 2);
                      invCosAng = (1 / 2) / cosAng;
                      pQuat_x = (f12 this * invScaleY - f21 this * invScaleZ) * invCosAng;
                      pQuat_y = (f20 this * invScaleZ - f02 this * invScaleX) * invCosAng;
                      pQuat_z = (f01 this * invScaleX - f10 this * invScaleY) * invCosAng
                  in (pQuat_w, pQuat_x, pQuat_y, pQuat_z))
                 else
                 (if diagX > diagY then
                    (if diagX > diagZ then
                       (let maxAxis = sqrt (diagX - diagY - diagZ + 1);
                            pQuat_x = (1 / 2) * maxAxis;
                            invMaxAxis = (1 / 2) / maxAxis;
                            pQuat_y = (f01 this * invScaleX + f10 this * invScaleY) * invMaxAxis;
                            pQuat_z = (f20 this * invScaleZ + f02 this * invScaleX) * invMaxAxis;
                            pQuat_w = (f12 this * invScaleY - f21 this * invScaleZ) * invMaxAxis
                        in (pQuat_w, pQuat_x, pQuat_y, pQuat_z))
                     else
                       (let maxAxis = sqrt (diagZ - diagX - diagY + 1);
                            pQuat_z = (1 / 2) * maxAxis;
                            invMaxAxis = (1 / 2) / maxAxis;
                            pQuat_x = (f20 this * invScaleZ + f02 this * invScaleX) * invMaxAxis;
                            pQuat_y = (f12 this * invScaleY + f21 this * invScaleZ) * invMaxAxis;
                            pQuat_w = (f01 this * invScaleX - f10 this * invScaleY) * invMaxAxis
                        in (pQuat_w, pQuat_x, pQuat_y, pQuat_z)))
                  else
                    (if diagY > diagZ then
                       (let maxAxis = sqrt (diagY - diagZ - diagX + 1);
                            pQuat_y = (1 / 2) * maxAxis;
                            invMaxAxis = (1 / 2) / maxAxis;
                            pQuat_z = (f12 this * invScaleY + f21 this * invScaleZ) * invMaxAxis;
                            pQuat_x = (f01 this * invScaleX + f10 this * invScaleY) * invMaxAxis;
                            pQuat_w = (f20 this * invScaleZ - f02 this * invScaleX) * invMaxAxis
                        in (pQuat_w, pQuat_x, pQuat_y, pQuat_z))
                     else
                       (let maxAxis = sqrt (diagZ - diagX - diagY + 1);
                            pQuat_z = (1 / 2) * maxAxis;
                            invMaxAxis = (1 / 2) / maxAxis;
                            pQuat_x = (f20 this * invScaleZ + f02 this * invScaleX) * invMaxAxis;
                            pQuat_y = (f12 this * invScaleY + f21 this * invScaleZ) * invMaxAxis;
                            pQuat_w = (f01 this * invScaleX - f10 this * invScaleY) * invMaxAxis
                        in (pQuat_w, pQuat_x, pQuat_y, pQuat_z)))))
          in Inr (Some (CQuaternion pQuat_w pQuat_x pQuat_y pQuat_z), CVector3 scaleX scaleY scaleZ)))"

definition DecomposeTransformAxisAngle :: "matrix3 \<Rightarrow> bool \<Rightarrow> ((vector3 \<times> float32) option \<times> vector3) res" where
  "DecomposeTransformAxisAngle this wantRotation =
     (let scaleX = sqrt (f00 this * f00 this + f01 this * f01 this + f02 this * f02 this);
          scaleY = sqrt (f10 this * f10 this + f11 this * f11 this + f12 this * f12 this);
          scaleZ = sqrt (f20 this * f20 this + f21 this * f21 this + f22 this * f22 this)
      in if \<not> wantRotation then Inr (None, CVector3 scaleX scaleY scaleZ)
         else
         if \<not> (\<not> IsZero scaleX \<and> \<not> IsZero scaleY \<and> \<not> IsZero scaleZ) then Inl Fatal_Exception
          else
         (let invScaleX = 1 / scaleX;
              invScaleY = 1 / scaleY;
              invScaleZ = 1 / scaleZ;
              diagX = f00 this * invScaleX;
              diagY = f11 this * invScaleY;
              diagZ = f22 this * invScaleZ;
              cosAngle = (diagX + diagY + diagZ - 1) * (1 / 2);
              angle = arccos cosAngle;
              axis = (if IsZero angle then
                 (let axis = CVector3 0 0 1
                  in axis)
                 else
                 (let axis = (if \<not> IsZero (angle - kfPi) then
                         (let axis = vec_Normalise (CVector3 (f12 this * invScaleY - f21 this * invScaleZ)
                            (f20 this * invScaleZ - f02 this * invScaleX)
                            (f01 this * invScaleX - f10 this * invScaleY))
                          in axis)
                         else
                         (let (pAxis_x, pAxis_y, pAxis_z) = (if diagX > diagY then
                                 (if diagX > diagZ then
                                    (let maxAxis = sqrt (diagX - diagY - diagZ + 1);
                                         pAxis_x = (1 / 2) * maxAxis;
                                         invMaxAxis = 1 / maxAxis;
                                         pAxis_y = f01 this * invMaxAxis;
                                         pAxis_z = f02 this * invMaxAxis
                                     in (pAxis_x, pAxis_y, pAxis_z))
                                  else
                                    (let maxAxis = sqrt (diagZ - diagX - diagY + 1);
                                         pAxis_z = (1 / 2) * maxAxis;
                                         invMaxAxis = 1 / maxAxis;
                                         pAxis_x = f02 this * invMaxAxis;
                                         pAxis_y = f12 this * invMaxAxis
                                     in (pAxis_x, pAxis_y, pAxis_z)))
                                 else
                                 (if diagY > diagZ then
                                    (let maxAxis = sqrt (diagY - diagZ - diagX + 1);
                                         pAxis_y = (1 / 2) * maxAxis;
                                         invMaxAxis = 1 / maxAxis;
                                         pAxis_x = f01 this * invMaxAxis;
                                         pAxis_z = f12 this * invMaxAxis
                                     in (pAxis_x, pAxis_y, pAxis_z))
                                  else
                                    (let maxAxis = sqrt (diagZ - diagX - diagY + 1);
                                         pAxis_z = (1 / 2) * maxAxis;
                                         invMaxAxis = 1 / maxAxis;
                                         pAxis_x = f02 this * invMaxAxis;
                                         pAxis_y = f12 this * invMaxAxis
                                     in (pAxis_x, pAxis_y, pAxis_z))));
                              axis = CVector3 pAxis_x pAxis_y pAxis_z
                          in axis))
                  in axis))
          in Inr (Some (axis, angle), CVector3 scaleX scaleY scaleZ)))"

end
