(* ===== verification/Matrix_Members.thy ===== *)
theory Matrix_Members
  imports Matrix_Moves Matrix3_Decompose
begin

text \<open>
  The rest of \<open>CMatrix4x4\<close> (CMatrix4x4.h, CMatrix4x4.cpp): constructors from vectors and from smaller
  matrices, rows and columns, the members that make a matrix an elementary or a composed
  transformation, the remaining products; and \<open>CVector4\<close> (CVector4.h, CVector4.cpp), a row or column of
  such a matrix.
\<close>

section \<open>Vectors of four elements\<close>

datatype vector4 = CVector4 (h_x: float32) (h_y: float32) (h_z: float32) (h_w: float32)

definition vec4_set :: "float32 list \<Rightarrow> vector4 res" where
  "vec4_set pfElts =
     (case pfElts of x # y # z # w # _ \<Rightarrow> Inr (CVector4 x y z w) | _ \<Rightarrow> Inl Undefined)"

definition vec4_between :: "vector3 \<Rightarrow> vector3 \<Rightarrow> float32 \<Rightarrow> vector4" where
  "vec4_between p1 p2 wIn = CVector4 (v_x p2 - v_x p1) (v_y p2 - v_y p1) (v_z p2 - v_z p1) wIn"

definition vec4_of_vec2 :: "vector2 \<Rightarrow> float32 \<Rightarrow> float32 \<Rightarrow> vector4" where
  "vec4_of_vec2 v zIn wIn = CVector4 (p_x v) (p_y v) zIn wIn"

definition vec4_of_vec3 :: "vector3 \<Rightarrow> float32 \<Rightarrow> vector4" where
  "vec4_of_vec3 v wIn = CVector4 (v_x v) (v_y v) (v_z v) wIn"

definition vec4_eq :: "vector4 \<Rightarrow> vector4 \<Rightarrow> bool res" where
  "vec4_eq v1 v2 =
     res_and (AreEqual (h_x v1) (h_x v2)) (res_and (AreEqual (h_y v1) (h_y v2))
       (res_and (AreEqual (h_z v1) (h_z v2)) (AreEqual (h_w v1) (h_w v2))))"

definition vec4_neq :: "vector4 \<Rightarrow> vector4 \<Rightarrow> bool res" where
  "vec4_neq v1 v2 =
     res_or (differ (h_x v1) (h_x v2)) (res_or (differ (h_y v1) (h_y v2))
       (res_or (differ (h_z v1) (h_z v2)) (differ (h_w v1) (h_w v2))))"

definition vec4_add :: "vector4 \<Rightarrow> vector4 \<Rightarrow> vector4" where
  "vec4_add v1 v2 = CVector4 (h_x v1 + h_x v2) (h_y v1 + h_y v2) (h_z v1 + h_z v2) (h_w v1 + h_w v2)"

definition vec4_sub :: "vector4 \<Rightarrow> vector4 \<Rightarrow> vector4" where
  "vec4_sub v1 v2 = CVector4 (h_x v1 - h_x v2) (h_y v1 - h_y v2) (h_z v1 - h_z v2) (h_w v1 - h_w v2)"

definition vec4_neg :: "vector4 \<Rightarrow> vector4" where
  "vec4_neg v = CVector4 (- h_x v) (- h_y v) (- h_z v) (- h_w v)"

definition vec4_scale :: "float32 \<Rightarrow> vector4 \<Rightarrow> vector4" where
  "vec4_scale s v = CVector4 (h_x v * s) (h_y v * s) (h_z v * s) (h_w v * s)"

definition vec4_div :: "vector4 \<Rightarrow> float32 \<Rightarrow> vector4" where
  "vec4_div v s = CVector4 (h_x v / s) (h_y v / s) (h_z v / s) (h_w v / s)"

definition Dot4 :: "vector4 \<Rightarrow> vector4 \<Rightarrow> float32" where
  "Dot4 v1 v2 = h_x v1 * h_x v2 + h_y v1 * h_y v2 + h_z v1 * h_z v2 + h_w v1 * h_w v2"

definition Cross4 :: "vector4 \<Rightarrow> vector4 \<Rightarrow> vector4" where
  "Cross4 v1 v2 = CVector4 (h_y v1 * h_z v2 - h_z v1 * h_y v2) (h_z v1 * h_w v2 - h_w v1 * h_z v2)
     (h_w v1 * h_x v2 - h_x v1 * h_w v2) (h_x v1 * h_y v2 - h_y v1 * h_x v2)"

definition Length4 :: "vector4 \<Rightarrow> float32" where
  "Length4 v = sqrt (h_x v * h_x v + h_y v * h_y v + h_z v * h_z v + h_w v * h_w v)"

definition LengthSquared4 :: "vector4 \<Rightarrow> float32" where
  "LengthSquared4 v = h_x v * h_x v + h_y v * h_y v + h_z v * h_z v + h_w v * h_w v"

definition vec4_IsZero :: "vector4 \<Rightarrow> bool" where
  "vec4_IsZero v \<longleftrightarrow> IsZero (h_x v * h_x v + h_y v * h_y v + h_z v * h_z v + h_w v * h_w v)"

definition vec4_IsUnit :: "vector4 \<Rightarrow> bool" where
  "vec4_IsUnit v \<longleftrightarrow> IsZero (h_x v * h_x v + h_y v * h_y v + h_z v * h_z v + h_w v * h_w v - 1)"

definition vec4_Normalise :: "vector4 \<Rightarrow> vector4" where
  "vec4_Normalise v =
     (let lengthSq = h_x v * h_x v + h_y v * h_y v + h_z v * h_z v + h_w v * h_w v in
      if IsZero lengthSq then CVector4 0 0 0 0
      else let invLength = InvSqrt lengthSq in
        CVector4 (h_x v * invLength) (h_y v * invLength) (h_z v * invLength) (h_w v * invLength))"

definition vec4_Normalise_assign :: "vector4 \<Rightarrow> vector4" where
  "vec4_Normalise_assign this =
     (case this of CVector4 x y z w \<Rightarrow>
       (let lengthSq = x * x + y * y + z * z + w * w in
        if IsZero lengthSq then CVector4 0 0 0 0
        else let invLength = InvSqrt lengthSq;
                 x = x * invLength; y = y * invLength; z = z * invLength; w = w * invLength
             in CVector4 x y z w))"

section \<open>Constructors and setters\<close>

definition mat4_rows :: "vector4 \<Rightarrow> vector4 \<Rightarrow> vector4 \<Rightarrow> vector4 \<Rightarrow> bool \<Rightarrow> matrix4 \<Rightarrow> matrix4" where
  "mat4_rows v0 v1 v2 v3 bRows this =
     (case this of CMatrix4x4 a00 a01 a02 a03 a10 a11 a12 a13 a20 a21 a22 a23 a30 a31 a32 a33 \<Rightarrow>
         (let (a00, a01, a02, a03, a10, a11, a12, a13, a20, a21, a22, a23, a30, a31, a32, a33) = (if bRows then
                 (let a00 = h_x v0;
                      a01 = h_y v0;
                      a02 = h_z v0;
                      a03 = h_w v0;
                      a10 = h_x v1;
                      a11 = h_y v1;
                      a12 = h_z v1;
                      a13 = h_w v1;
                      a20 = h_x v2;
                      a21 = h_y v2;
                      a22 = h_z v2;
                      a23 = h_w v2;
                      a30 = h_x v3;
                      a31 = h_y v3;
                      a32 = h_z v3;
                      a33 = h_w v3
                  in (a00, a01, a02, a03, a10, a11, a12, a13, a20, a21, a22, a23, a30, a31, a32, a33))
                 else
                 (let a00 = h_x v0;
                      a10 = h_y v0;
                      a20 = h_z v0;
                      a30 = h_w v0;
                      a01 = h_x v1;
                      a11 = h_y v1;
                      a21 = h_z v1;
                      a31 = h_w v1;
                      a02 = h_x v2;
                      a12 = h_y v2;
                      a22 = h_z v2;
                      a32 = h_w v2;
                      a03 = h_x v3;
                      a13 = h_y v3;
                      a23 = h_z v3;
                      a33 = h_w v3
                  in (a00, a01, a02, a03, a10, a11, a12, a13, a20, a21, a22, a23, a30, a31, a32, a33)))
          in CMatrix4x4 a00 a01 a02 a03 a10 a11 a12 a13 a20 a21 a22 a23 a30 a31 a32 a33))"

definition mat4_position :: "vector3 \<Rightarrow> matrix4 \<Rightarrow> matrix4" where
  "mat4_position position this =
     (case this of CMatrix4x4 a00 a01 a02 a03 a10 a11 a12 a13 a20 a21 a22 a23 a30 a31 a32 a33 \<Rightarrow>
         (let a00 = 1;
              a01 = 0;
              a02 = 0;
              a03 = 0;
              a10 = 0;
              a11 = 1;
              a12 = 0;
              a13 = 0;
              a20 = 0;
              a21 = 0;
              a22 = 1;
              a23 = 0;
              a30 = v_x position;
              a31 = v_y position;
              a32 = v_z position;
              a33 = 1
          in CMatrix4x4 a00 a01 a02 a03 a10 a11 a12 a13 a20 a21 a22 a23 a30 a31 a32 a33))"

definition mat4_of_mat2 :: "matrix2 \<Rightarrow> vector2 \<Rightarrow> matrix4 \<Rightarrow> matrix4" where
  "mat4_of_mat2 m position this =
     (case this of CMatrix4x4 a00 a01 a02 a03 a10 a11 a12 a13 a20 a21 a22 a23 a30 a31 a32 a33 \<Rightarrow>
         (let a00 = g00 m;
              a01 = g01 m;
              a02 = 0;
              a03 = 0;
              a10 = g10 m;
              a11 = g11 m;
              a12 = 0;
              a13 = 0;
              a20 = 0;
              a21 = 0;
              a22 = 1;
              a23 = 0;
              a30 = p_x position;
              a31 = p_y position;
              a32 = 0;
              a33 = 1
          in CMatrix4x4 a00 a01 a02 a03 a10 a11 a12 a13 a20 a21 a22 a23 a30 a31 a32 a33))"

definition mat4_of_mat3 :: "matrix3 \<Rightarrow> vector3 \<Rightarrow> matrix4 \<Rightarrow> matrix4" where
  "mat4_of_mat3 m position this =
     (case this of CMatrix4x4 a00 a01 a02 a03 a10 a11 a12 a13 a20 a21 a22 a23 a30 a31 a32 a33 \<Rightarrow>
         (let a00 = f00 m;
              a01 = f01 m;
              a02 = f02 m;
              a03 = 0;
              a10 = f10 m;
              a11 = f11 m;
              a12 = f12 m;
              a13 = 0;
              a20 = f20 m;
              a21 = f21 m;
              a22 = f22 m;
              a23 = 0;
              a30 = v_x position;
              a31 = v_y position;
              a32 = v_z position;
              a33 = 1
          in CMatrix4x4 a00 a01 a02 a03 a10 a11 a12 a13 a20 a21 a22 a23 a30 a31 a32 a33))"

definition Set4 :: "float32 \<Rightarrow> float32 \<Rightarrow> float32 \<Rightarrow> float32 \<Rightarrow> float32 \<Rightarrow> float32 \<Rightarrow> float32 \<Rightarrow> float32 \<Rightarrow> float32 \<Rightarrow> float32 \<Rightarrow> float32 \<Rightarrow> float32 \<Rightarrow> float32 \<Rightarrow> float32 \<Rightarrow> float32 \<Rightarrow> float32 \<Rightarrow> matrix4 \<Rightarrow> matrix4" where
  "Set4 elt00 elt01 elt02 elt03 elt10 elt11 elt12 elt13 elt20 elt21 elt22 elt23 elt30 elt31 elt32 elt33 this =
     (case this of CMatrix4x4 a00 a01 a02 a03 a10 a11 a12 a13 a20 a21 a22 a23 a30 a31 a32 a33 \<Rightarrow>
         (let a00 = elt00;
              a01 = elt01;
              a02 = elt02;
              a03 = elt03;
              a10 = elt10;
              a11 = elt11;
              a12 = elt12;
              a13 = elt13;
              a20 = elt20;
              a21 = elt21;
              a22 = elt22;
              a23 = elt23;
              a30 = elt30;
              a31 = elt31;
              a32 = elt32;
              a33 = elt33
          in CMatrix4x4 a00 a01 a02 a03 a10 a11 a12 a13 a20 a21 a22 a23 a30 a31 a32 a33))"

definition Set4_pointer :: "float32 list \<Rightarrow> bool \<Rightarrow> matrix4 \<Rightarrow> matrix4 res" where
  "Set4_pointer pfElts bRows this =
     (if length pfElts < 16 then Inl Undefined else
     (case this of CMatrix4x4 a00 a01 a02 a03 a10 a11 a12 a13 a20 a21 a22 a23 a30 a31 a32 a33 \<Rightarrow>
         (let (a00, a01, a02, a03, a10, a11, a12, a13, a20, a21, a22, a23, a30, a31, a32, a33) = (if bRows then
                 (let a00 = pfElts ! 0;
                      a01 = pfElts ! 1;
                      a02 = pfElts ! 2;
                      a03 = pfElts ! 3;
                      a10 = pfElts ! 4;
                      a11 = pfElts ! 5;
                      a12 = pfElts ! 6;
                      a13 = pfElts ! 7;
                      a20 = pfElts ! 8;
                      a21 = pfElts ! 9;
                      a22 = pfElts ! 10;
                      a23 = pfElts ! 11;
                      a30 = pfElts ! 12;
                      a31 = pfElts ! 13;
                      a32 = pfElts ! 14;
                      a33 = pfElts ! 15
                  in (a00, a01, a02, a03, a10, a11, a12, a13, a20, a21, a22, a23, a30, a31, a32, a33))
                 else
                 (let a00 = pfElts ! 0;
                      a10 = pfElts ! 1;
                      a20 = pfElts ! 2;
                      a30 = pfElts ! 3;
                      a01 = pfElts ! 4;
                      a11 = pfElts ! 5;
                      a21 = pfElts ! 6;
                      a31 = pfElts ! 7;
                      a02 = pfElts ! 8;
                      a12 = pfElts ! 9;
                      a22 = pfElts ! 10;
                      a32 = pfElts ! 11;
                      a03 = pfElts ! 12;
                      a13 = pfElts ! 13;
                      a23 = pfElts ! 14;
                      a33 = pfElts ! 15
                  in (a00, a01, a02, a03, a10, a11, a12, a13, a20, a21, a22, a23, a30, a31, a32, a33)))
          in Inr (CMatrix4x4 a00 a01 a02 a03 a10 a11 a12 a13 a20 a21 a22 a23 a30 a31 a32 a33))))"

text \<open>Rows and columns by index; one beyond the fourth is outside the matrix.\<close>

definition GetRow4 :: "nat \<Rightarrow> matrix4 \<Rightarrow> vector4 res" where
  "GetRow4 iRow this =
     (if 4 \<le> iRow then Inl Undefined
      else Inr (CVector4 (mat_at this iRow 0) (mat_at this iRow 1) (mat_at this iRow 2) (mat_at this iRow 3)))"

definition GetColumn4 :: "nat \<Rightarrow> matrix4 \<Rightarrow> vector4 res" where
  "GetColumn4 iCol this =
     (if 4 \<le> iCol then Inl Undefined
      else Inr (CVector4 (mat_at this 0 iCol) (mat_at this 1 iCol) (mat_at this 2 iCol) (mat_at this 3 iCol)))"

definition SetRow4 :: "nat \<Rightarrow> vector4 \<Rightarrow> matrix4 \<Rightarrow> matrix4 res" where
  "SetRow4 iRow v this =
     (if 4 \<le> iRow then Inl Undefined
      else Inr (mat_fill (\<lambda>i j. if i = iRow then [h_x v, h_y v, h_z v, h_w v] ! j else mat_at this i j)))"

definition SetColumn4 :: "nat \<Rightarrow> vector4 \<Rightarrow> matrix4 \<Rightarrow> matrix4 res" where
  "SetColumn4 iCol v this =
     (if 4 \<le> iCol then Inl Undefined
      else Inr (mat_fill (\<lambda>i j. if j = iCol then [h_x v, h_y v, h_z v, h_w v] ! i else mat_at this i j)))"

definition SetColumn4_vec3 :: "nat \<Rightarrow> vector3 \<Rightarrow> matrix4 \<Rightarrow> matrix4 res" where
  "SetColumn4_vec3 iCol v this =
     (if 4 \<le> iCol then Inl Undefined
      else Inr (mat_fill (\<lambda>i j. if j = iCol \<and> i < 3 then [v_x v, v_y v, v_z v] ! i else mat_at this i j)))"

definition SetRows4 :: "vector4 \<Rightarrow> vector4 \<Rightarrow> vector4 \<Rightarrow> vector4 \<Rightarrow> matrix4 \<Rightarrow> matrix4" where
  "SetRows4 v0 v1 v2 v3 this =
     (case this of CMatrix4x4 a00 a01 a02 a03 a10 a11 a12 a13 a20 a21 a22 a23 a30 a31 a32 a33 \<Rightarrow>
         (let a00 = h_x v0;
              a01 = h_y v0;
              a02 = h_z v0;
              a03 = h_w v0;
              a10 = h_x v1;
              a11 = h_y v1;
              a12 = h_z v1;
              a13 = h_w v1;
              a20 = h_x v2;
              a21 = h_y v2;
              a22 = h_z v2;
              a23 = h_w v2;
              a30 = h_x v3;
              a31 = h_y v3;
              a32 = h_z v3;
              a33 = h_w v3
          in CMatrix4x4 a00 a01 a02 a03 a10 a11 a12 a13 a20 a21 a22 a23 a30 a31 a32 a33))"

definition SetRows4_vec3 :: "vector3 \<Rightarrow> vector3 \<Rightarrow> vector3 \<Rightarrow> vector3 \<Rightarrow> matrix4 \<Rightarrow> matrix4" where
  "SetRows4_vec3 v0 v1 v2 v3 this =
     (case this of CMatrix4x4 a00 a01 a02 a03 a10 a11 a12 a13 a20 a21 a22 a23 a30 a31 a32 a33 \<Rightarrow>
         (let a00 = v_x v0;
              a01 = v_y v0;
              a02 = v_z v0;
              a03 = 0;
              a10 = v_x v1;
              a11 = v_y v1;
              a12 = v_z v1;
              a13 = 0;
              a20 = v_x v2;
              a21 = v_y v2;
              a22 = v_z v2;
              a23 = 0;
              a30 = v_x v3;
              a31 = v_y v3;
              a32 = v_z v3;
              a33 = 1
          in CMatrix4x4 a00 a01 a02 a03 a10 a11 a12 a13 a20 a21 a22 a23 a30 a31 a32 a33))"

definition SetColumns4 :: "vector4 \<Rightarrow> vector4 \<Rightarrow> vector4 \<Rightarrow> vector4 \<Rightarrow> matrix4 \<Rightarrow> matrix4" where
  "SetColumns4 v0 v1 v2 v3 this =
     (case this of CMatrix4x4 a00 a01 a02 a03 a10 a11 a12 a13 a20 a21 a22 a23 a30 a31 a32 a33 \<Rightarrow>
         (let a00 = h_x v0;
              a10 = h_y v0;
              a20 = h_z v0;
              a30 = h_w v0;
              a01 = h_x v1;
              a11 = h_y v1;
              a21 = h_z v1;
              a31 = h_w v1;
              a02 = h_x v2;
              a12 = h_y v2;
              a22 = h_z v2;
              a32 = h_w v2;
              a03 = h_x v3;
              a13 = h_y v3;
              a23 = h_z v3;
              a33 = h_w v3
          in CMatrix4x4 a00 a01 a02 a03 a10 a11 a12 a13 a20 a21 a22 a23 a30 a31 a32 a33))"

definition SetColumns4_vec3 :: "vector3 \<Rightarrow> vector3 \<Rightarrow> vector3 \<Rightarrow> vector3 \<Rightarrow> matrix4 \<Rightarrow> matrix4" where
  "SetColumns4_vec3 v0 v1 v2 v3 this =
     (case this of CMatrix4x4 a00 a01 a02 a03 a10 a11 a12 a13 a20 a21 a22 a23 a30 a31 a32 a33 \<Rightarrow>
         (let a00 = v_x v0;
              a10 = v_y v0;
              a20 = v_z v0;
              a01 = v_x v1;
              a11 = v_y v1;
              a21 = v_z v1;
              a02 = v_x v2;
              a12 = v_y v2;
              a22 = v_z v2;
              a03 = v_x v3;
              a13 = v_y v3;
              a23 = v_z v3;
              a30 = 0;
              a31 = 0;
              a32 = 0;
              a33 = 1
          in CMatrix4x4 a00 a01 a02 a03 a10 a11 a12 a13 a20 a21 a22 a23 a30 a31 a32 a33))"

definition SetX4 :: "float32 \<Rightarrow> matrix4 \<Rightarrow> matrix4" where
  "SetX4 x this =
     (case this of CMatrix4x4 a00 a01 a02 a03 a10 a11 a12 a13 a20 a21 a22 a23 a30 a31 a32 a33 \<Rightarrow>
         (let a30 = x
          in CMatrix4x4 a00 a01 a02 a03 a10 a11 a12 a13 a20 a21 a22 a23 a30 a31 a32 a33))"

definition SetY4 :: "float32 \<Rightarrow> matrix4 \<Rightarrow> matrix4" where
  "SetY4 y this =
     (case this of CMatrix4x4 a00 a01 a02 a03 a10 a11 a12 a13 a20 a21 a22 a23 a30 a31 a32 a33 \<Rightarrow>
         (let a31 = y
          in CMatrix4x4 a00 a01 a02 a03 a10 a11 a12 a13 a20 a21 a22 a23 a30 a31 a32 a33))"

definition SetZ4 :: "float32 \<Rightarrow> matrix4 \<Rightarrow> matrix4" where
  "SetZ4 z this =
     (case this of CMatrix4x4 a00 a01 a02 a03 a10 a11 a12 a13 a20 a21 a22 a23 a30 a31 a32 a33 \<Rightarrow>
         (let a32 = z
          in CMatrix4x4 a00 a01 a02 a03 a10 a11 a12 a13 a20 a21 a22 a23 a30 a31 a32 a33))"

section \<open>Elementary transformations\<close>

definition MakeIdentity4 :: "matrix4 \<Rightarrow> matrix4" where
  "MakeIdentity4 this =
     (case this of CMatrix4x4 a00 a01 a02 a03 a10 a11 a12 a13 a20 a21 a22 a23 a30 a31 a32 a33 \<Rightarrow>
         (let a00 = 1;
              a01 = 0;
              a02 = 0;
              a03 = 0;
              a10 = 0;
              a11 = 1;
              a12 = 0;
              a13 = 0;
              a20 = 0;
              a21 = 0;
              a22 = 1;
              a23 = 0;
              a30 = 0;
              a31 = 0;
              a32 = 0;
              a33 = 1
          in CMatrix4x4 a00 a01 a02 a03 a10 a11 a12 a13 a20 a21 a22 a23 a30 a31 a32 a33))"

definition MakeTranslation4 :: "vector3 \<Rightarrow> matrix4 \<Rightarrow> matrix4" where
  "MakeTranslation4 translate this =
     (case this of CMatrix4x4 a00 a01 a02 a03 a10 a11 a12 a13 a20 a21 a22 a23 a30 a31 a32 a33 \<Rightarrow>
         (let a00 = 1;
              a01 = 0;
              a02 = 0;
              a03 = 0;
              a10 = 0;
              a11 = 1;
              a12 = 0;
              a13 = 0;
              a20 = 0;
              a21 = 0;
              a22 = 1;
              a23 = 0;
              a30 = v_x translate;
              a31 = v_y translate;
              a32 = v_z translate;
              a33 = 1
          in CMatrix4x4 a00 a01 a02 a03 a10 a11 a12 a13 a20 a21 a22 a23 a30 a31 a32 a33))"

definition MakeRotationX4 :: "float32 \<Rightarrow> matrix4 \<Rightarrow> matrix4" where
  "MakeRotationX4 x this =
     (case this of CMatrix4x4 a00 a01 a02 a03 a10 a11 a12 a13 a20 a21 a22 a23 a30 a31 a32 a33 \<Rightarrow>
         (let (sX, cX) = SinCos x;
              a00 = 1;
              a01 = 0;
              a02 = 0;
              a03 = 0;
              a10 = 0;
              a11 = cX;
              a12 = sX;
              a13 = 0;
              a20 = 0;
              a21 = - sX;
              a22 = cX;
              a23 = 0;
              a30 = 0;
              a31 = 0;
              a32 = 0;
              a33 = 1
          in CMatrix4x4 a00 a01 a02 a03 a10 a11 a12 a13 a20 a21 a22 a23 a30 a31 a32 a33))"

definition MakeRotationY4 :: "float32 \<Rightarrow> matrix4 \<Rightarrow> matrix4" where
  "MakeRotationY4 y this =
     (case this of CMatrix4x4 a00 a01 a02 a03 a10 a11 a12 a13 a20 a21 a22 a23 a30 a31 a32 a33 \<Rightarrow>
         (let (sY, cY) = SinCos y;
              a00 = cY;
              a01 = 0;
              a02 = - sY;
              a03 = 0;
              a10 = 0;
              a11 = 1;
              a12 = 0;
              a13 = 0;
              a20 = sY;
              a21 = 0;
              a22 = cY;
              a23 = 0;
              a30 = 0;
              a31 = 0;
              a32 = 0;
              a33 = 1
          in CMatrix4x4 a00 a01 a02 a03 a10 a11 a12 a13 a20 a21 a22 a23 a30 a31 a32 a33))"

definition MakeRotationZ4 :: "float32 \<Rightarrow> matrix4 \<Rightarrow> matrix4" where
  "MakeRotationZ4 z this =
     (case this of CMatrix4x4 a00 a01 a02 a03 a10 a11 a12 a13 a20 a21 a22 a23 a30 a31 a32 a33 \<Rightarrow>
         (let (sZ, cZ) = SinCos z;
              a00 = cZ;
              a01 = sZ;
              a02 = 0;
              a03 = 0;
              a10 = - sZ;
              a11 = cZ;
              a12 = 0;
              a13 = 0;
              a20 = 0;
              a21 = 0;
              a22 = 1;
              a23 = 0;
              a30 = 0;
              a31 = 0;
              a32 = 0;
              a33 = 1
          in CMatrix4x4 a00 a01 a02 a03 a10 a11 a12 a13 a20 a21 a22 a23 a30 a31 a32 a33))"

definition MakeRotation4 :: "vector3 \<Rightarrow> rotation_order \<Rightarrow> matrix4 \<Rightarrow> matrix4" where
  "MakeRotation4 angles eRotOrder this =
     (case this of CMatrix4x4 a00 a01 a02 a03 a10 a11 a12 a13 a20 a21 a22 a23 a30 a31 a32 a33 \<Rightarrow>
         (let (sX, cX) = SinCos (v_x angles);
              (sY, cY) = SinCos (v_y angles);
              (sZ, cZ) = SinCos (v_z angles);
              (a00, a01, a02, a03, a10, a11, a12, a13, a20, a21, a22) = (case eRotOrder of
                 kZYX \<Rightarrow>
                   (let a00 = cZ * cY;
                        a01 = sZ * cX + cZ * sY * sX;
                        a02 = sZ * sX + - cZ * sY * cX;
                        a03 = 0;
                        a10 = - sZ * cY;
                        a11 = cZ * cX + - sZ * sY * sX;
                        a12 = cZ * sX + sZ * sY * cX;
                        a13 = 0;
                        a20 = sY;
                        a21 = - cY * sX;
                        a22 = cY * cX
                    in (a00, a01, a02, a03, a10, a11, a12, a13, a20, a21, a22))
               | kYZX \<Rightarrow>
                   (let a00 = cY * cZ;
                        a01 = cY * sZ * cX + sY * sX;
                        a02 = cY * sZ * sX + - sY * cX;
                        a03 = 0;
                        a10 = - sZ;
                        a11 = cZ * cX;
                        a12 = cZ * sX;
                        a13 = 0;
                        a20 = sY * cZ;
                        a21 = sY * sZ * cX + - cY * sX;
                        a22 = sY * sZ * sX + cY * cX
                    in (a00, a01, a02, a03, a10, a11, a12, a13, a20, a21, a22))
               | kXZY \<Rightarrow>
                   (let a00 = cZ * cY;
                        a01 = sZ;
                        a02 = - cZ * sY;
                        a03 = 0;
                        a10 = - cX * sZ * cY + sX * sY;
                        a11 = cX * cZ;
                        a12 = cX * sZ * sY + sX * cY;
                        a13 = 0;
                        a20 = sX * sZ * cY + cX * sY;
                        a21 = - sX * cZ;
                        a22 = - sX * sZ * sY + cX * cY
                    in (a00, a01, a02, a03, a10, a11, a12, a13, a20, a21, a22))
               | kZXY \<Rightarrow>
                   (let a00 = cZ * cY + sZ * sX * sY;
                        a01 = sZ * cX;
                        a02 = - cZ * sY + sZ * sX * cY;
                        a03 = 0;
                        a10 = - sZ * cY + cZ * sX * sY;
                        a11 = cZ * cX;
                        a12 = sZ * sY + cZ * sX * cY;
                        a13 = 0;
                        a20 = cX * sY;
                        a21 = - sX;
                        a22 = cX * cY
                    in (a00, a01, a02, a03, a10, a11, a12, a13, a20, a21, a22))
               | kYXZ \<Rightarrow>
                   (let a00 = cY * cZ + - sY * sX * sZ;
                        a01 = cY * sZ + sY * sX * cZ;
                        a02 = - sY * cX;
                        a03 = 0;
                        a10 = - cX * sZ;
                        a11 = cX * cZ;
                        a12 = sX;
                        a13 = 0;
                        a20 = sY * cZ + cY * sX * sZ;
                        a21 = sY * sZ + - cY * sX * cZ;
                        a22 = cY * cX
                    in (a00, a01, a02, a03, a10, a11, a12, a13, a20, a21, a22))
               | kXYZ \<Rightarrow>
                   (let a00 = cY * cZ;
                        a01 = cY * sZ;
                        a02 = - sY;
                        a03 = 0;
                        a10 = sX * sY * cZ + - cX * sZ;
                        a11 = sX * sY * sZ + cX * cZ;
                        a12 = sX * cY;
                        a13 = 0;
                        a20 = cX * sY * cZ + sX * sZ;
                        a21 = cX * sY * sZ + - sX * cZ;
                        a22 = cX * cY
                    in (a00, a01, a02, a03, a10, a11, a12, a13, a20, a21, a22)));
              a23 = 0;
              a30 = 0;
              a31 = 0;
              a32 = 0;
              a33 = 1
          in CMatrix4x4 a00 a01 a02 a03 a10 a11 a12 a13 a20 a21 a22 a23 a30 a31 a32 a33))"

definition MakeRotation4_axis :: "vector3 \<Rightarrow> float32 \<Rightarrow> matrix4 \<Rightarrow> matrix4 res" where
  "MakeRotation4_axis axis fAngle this =
     (case this of CMatrix4x4 a00 a01 a02 a03 a10 a11 a12 a13 a20 a21 a22 a23 a30 a31 a32 a33 \<Rightarrow>
         (let (s, c) = SinCos fAngle;
              t = 1 - c;
              axisNorm = vec_Normalise axis
          in if vec_IsZero axisNorm then Inl Fatal_Exception
             else
             (let sx = s * v_x axisNorm;
                  sy = s * v_y axisNorm;
                  sz = s * v_z axisNorm;
                  tx = t * v_x axisNorm;
                  ty = t * v_y axisNorm;
                  tz = t * v_z axisNorm;
                  txy = ty * v_x axisNorm;
                  tyz = tz * v_y axisNorm;
                  tzx = tx * v_z axisNorm;
                  a00 = tx * v_x axisNorm + c;
                  a01 = txy + sz;
                  a02 = tzx - sy;
                  a03 = 0;
                  a10 = txy - sz;
                  a11 = ty * v_y axisNorm + c;
                  a12 = tyz + sx;
                  a13 = 0;
                  a20 = tzx + sy;
                  a21 = tyz - sx;
                  a22 = tz * v_z axisNorm + c;
                  a23 = 0;
                  a30 = 0;
                  a31 = 0;
                  a32 = 0;
                  a33 = 1
              in Inr (CMatrix4x4 a00 a01 a02 a03 a10 a11 a12 a13 a20 a21 a22 a23 a30 a31 a32 a33))))"

definition MakeScaling4 :: "vector3 \<Rightarrow> matrix4 \<Rightarrow> matrix4" where
  "MakeScaling4 scale this =
     (case this of CMatrix4x4 a00 a01 a02 a03 a10 a11 a12 a13 a20 a21 a22 a23 a30 a31 a32 a33 \<Rightarrow>
         (let a00 = v_x scale;
              a01 = 0;
              a02 = 0;
              a03 = 0;
              a10 = 0;
              a11 = v_y scale;
              a12 = 0;
              a13 = 0;
              a20 = 0;
              a21 = 0;
              a22 = v_z scale;
              a23 = 0;
              a30 = 0;
              a31 = 0;
              a32 = 0;
              a33 = 1
          in CMatrix4x4 a00 a01 a02 a03 a10 a11 a12 a13 a20 a21 a22 a23 a30 a31 a32 a33))"

definition MakeScaling4_uniform :: "float32 \<Rightarrow> matrix4 \<Rightarrow> matrix4" where
  "MakeScaling4_uniform fScale this =
     (case this of CMatrix4x4 a00 a01 a02 a03 a10 a11 a12 a13 a20 a21 a22 a23 a30 a31 a32 a33 \<Rightarrow>
         (let a00 = fScale;
              a01 = 0;
              a02 = 0;
              a03 = 0;
              a10 = 0;
              a11 = fScale;
              a12 = 0;
              a13 = 0;
              a20 = 0;
              a21 = 0;
              a22 = fScale;
              a23 = 0;
              a30 = 0;
              a31 = 0;
              a32 = 0;
              a33 = 1
          in CMatrix4x4 a00 a01 a02 a03 a10 a11 a12 a13 a20 a21 a22 a23 a30 a31 a32 a33))"

definition MatrixIdentity :: "matrix4" where
  "MatrixIdentity =
     (let o00 = 1;
          o01 = 0;
          o02 = 0;
          o03 = 0;
          o10 = 0;
          o11 = 1;
          o12 = 0;
          o13 = 0;
          o20 = 0;
          o21 = 0;
          o22 = 1;
          o23 = 0;
          o30 = 0;
          o31 = 0;
          o32 = 0;
          o33 = 1
      in CMatrix4x4 o00 o01 o02 o03 o10 o11 o12 o13 o20 o21 o22 o23 o30 o31 o32 o33)"

definition MatrixScaling_uniform :: "float32 \<Rightarrow> matrix4" where
  "MatrixScaling_uniform fScale =
     (let o00 = fScale;
          o01 = 0;
          o02 = 0;
          o03 = 0;
          o10 = 0;
          o11 = fScale;
          o12 = 0;
          o13 = 0;
          o20 = 0;
          o21 = 0;
          o22 = fScale;
          o23 = 0;
          o30 = 0;
          o31 = 0;
          o32 = 0;
          o33 = 1
      in CMatrix4x4 o00 o01 o02 o03 o10 o11 o12 o13 o20 o21 o22 o23 o30 o31 o32 o33)"

section \<open>Transformations\<close>

definition MakeAffineEuler ::
  "vector3 \<Rightarrow> vector3 \<Rightarrow> rotation_order \<Rightarrow> vector3 \<Rightarrow> matrix4 \<Rightarrow> matrix4" where
  "MakeAffineEuler position angles eRotOrder scale this =
     (case MakeRotation4 angles eRotOrder this of CMatrix4x4 a00 a01 a02 a03 a10 a11 a12 a13 a20 a21 a22 a23 a30 a31 a32 a33 \<Rightarrow>
         (let a00 = a00 * v_x scale;
              a01 = a01 * v_x scale;
              a02 = a02 * v_x scale;
              a10 = a10 * v_y scale;
              a11 = a11 * v_y scale;
              a12 = a12 * v_y scale;
              a20 = a20 * v_z scale;
              a21 = a21 * v_z scale;
              a22 = a22 * v_z scale;
              a30 = v_x position;
              a31 = v_y position;
              a32 = v_z position
          in CMatrix4x4 a00 a01 a02 a03 a10 a11 a12 a13 a20 a21 a22 a23 a30 a31 a32 a33))"

definition MakeAffineQuaternion :: "quaternion \<Rightarrow> vector3 \<Rightarrow> vector3 \<Rightarrow> matrix4 \<Rightarrow> matrix4" where
  "MakeAffineQuaternion quat position scale this =
     (case this of CMatrix4x4 a00 a01 a02 a03 a10 a11 a12 a13 a20 a21 a22 a23 a30 a31 a32 a33 \<Rightarrow>
         (let xx = 2 * q_x quat;
              yy = 2 * q_y quat;
              zz = 2 * q_z quat;
              xy = xx * q_y quat;
              yz = yy * q_z quat;
              zx = zz * q_x quat;
              wx = q_w quat * xx;
              wy = q_w quat * yy;
              wz = q_w quat * zz;
              xx = xx * q_x quat;
              yy = yy * q_y quat;
              zz = zz * q_z quat;
              a00 = v_x scale * (1 - yy - zz);
              a01 = v_x scale * (xy + wz);
              a02 = v_x scale * (zx - wy);
              a03 = 0;
              a10 = v_y scale * (xy - wz);
              a11 = v_y scale * (1 - xx - zz);
              a12 = v_y scale * (yz + wx);
              a13 = 0;
              a20 = v_z scale * (zx + wy);
              a21 = v_z scale * (yz - wx);
              a22 = v_z scale * (1 - xx - yy);
              a23 = 0;
              a30 = v_x position;
              a31 = v_y position;
              a32 = v_z position;
              a33 = 1
          in CMatrix4x4 a00 a01 a02 a03 a10 a11 a12 a13 a20 a21 a22 a23 a30 a31 a32 a33))"

definition MakeAffineAxisAngle ::
  "vector3 \<Rightarrow> float32 \<Rightarrow> vector3 \<Rightarrow> vector3 \<Rightarrow> matrix4 \<Rightarrow> matrix4 res" where
  "MakeAffineAxisAngle axis fAngle position scale this =
     res_bind (MakeRotation4_axis axis fAngle this) (\<lambda>m. case m of CMatrix4x4 a00 a01 a02 a03 a10 a11 a12 a13 a20 a21 a22 a23 a30 a31 a32 a33 \<Rightarrow>
         (let a00 = a00 * v_x scale;
              a01 = a01 * v_x scale;
              a02 = a02 * v_x scale;
              a10 = a10 * v_y scale;
              a11 = a11 * v_y scale;
              a12 = a12 * v_y scale;
              a20 = a20 * v_z scale;
              a21 = a21 * v_z scale;
              a22 = a22 * v_z scale;
              a30 = v_x position;
              a31 = v_y position;
              a32 = v_z position
          in Inr (CMatrix4x4 a00 a01 a02 a03 a10 a11 a12 a13 a20 a21 a22 a23 a30 a31 a32 a33)))"

definition SetScaleX4 :: "float32 \<Rightarrow> matrix4 \<Rightarrow> matrix4" where
  "SetScaleX4 x this =
     (case this of CMatrix4x4 a00 a01 a02 a03 a10 a11 a12 a13 a20 a21 a22 a23 a30 a31 a32 a33 \<Rightarrow>
         (let scaleSq = sqrt (a00 * a00 + a01 * a01 + a02 * a02);
              (a00, a01, a02) = (if \<not> IsZero scaleSq then
                 (let rescale = x * InvSqrt scaleSq;
                      a00 = a00 * rescale;
                      a01 = a01 * rescale;
                      a02 = a02 * rescale
                  in (a00, a01, a02))
                 else (a00, a01, a02))
          in CMatrix4x4 a00 a01 a02 a03 a10 a11 a12 a13 a20 a21 a22 a23 a30 a31 a32 a33))"

definition SetScaleY4 :: "float32 \<Rightarrow> matrix4 \<Rightarrow> matrix4" where
  "SetScaleY4 y this =
     (case this of CMatrix4x4 a00 a01 a02 a03 a10 a11 a12 a13 a20 a21 a22 a23 a30 a31 a32 a33 \<Rightarrow>
         (let scaleSq = sqrt (a10 * a10 + a11 * a11 + a12 * a12);
              (a10, a11, a12) = (if \<not> IsZero scaleSq then
                 (let rescale = y * InvSqrt scaleSq;
                      a10 = a10 * rescale;
                      a11 = a11 * rescale;
                      a12 = a12 * rescale
                  in (a10, a11, a12))
                 else (a10, a11, a12))
          in CMatrix4x4 a00 a01 a02 a03 a10 a11 a12 a13 a20 a21 a22 a23 a30 a31 a32 a33))"

definition SetScaleZ4 :: "float32 \<Rightarrow> matrix4 \<Rightarrow> matrix4" where
  "SetScaleZ4 z this =
     (case this of CMatrix4x4 a00 a01 a02 a03 a10 a11 a12 a13 a20 a21 a22 a23 a30 a31 a32 a33 \<Rightarrow>
         (let scaleSq = sqrt (a20 * a20 + a21 * a21 + a22 * a22);
              (a20, a21, a22) = (if \<not> IsZero scaleSq then
                 (let rescale = z * InvSqrt scaleSq;
                      a20 = a20 * rescale;
                      a21 = a21 * rescale;
                      a22 = a22 * rescale
                  in (a20, a21, a22))
                 else (a20, a21, a22))
          in CMatrix4x4 a00 a01 a02 a03 a10 a11 a12 a13 a20 a21 a22 a23 a30 a31 a32 a33))"

definition SetScale4_uniform :: "float32 \<Rightarrow> matrix4 \<Rightarrow> matrix4" where
  "SetScale4_uniform fScale this =
     (case this of CMatrix4x4 a00 a01 a02 a03 a10 a11 a12 a13 a20 a21 a22 a23 a30 a31 a32 a33 \<Rightarrow>
         (let scaleSq = sqrt (a00 * a00 + a01 * a01 + a02 * a02);
              (a00, a01, a02) = (if \<not> IsZero scaleSq then
                 (let rescale = fScale * InvSqrt scaleSq;
                      a00 = a00 * rescale;
                      a01 = a01 * rescale;
                      a02 = a02 * rescale
                  in (a00, a01, a02))
                 else (a00, a01, a02));
              scaleSq = sqrt (a10 * a10 + a11 * a11 + a12 * a12);
              (a10, a11, a12) = (if \<not> IsZero scaleSq then
                 (let rescale = fScale * InvSqrt scaleSq;
                      a10 = a10 * rescale;
                      a11 = a11 * rescale;
                      a12 = a12 * rescale
                  in (a10, a11, a12))
                 else (a10, a11, a12));
              scaleSq = sqrt (a20 * a20 + a21 * a21 + a22 * a22);
              (a20, a21, a22) = (if \<not> IsZero scaleSq then
                 (let rescale = fScale * InvSqrt scaleSq;
                      a20 = a20 * rescale;
                      a21 = a21 * rescale;
                      a22 = a22 * rescale
                  in (a20, a21, a22))
                 else (a20, a21, a22))
          in CMatrix4x4 a00 a01 a02 a03 a10 a11 a12 a13 a20 a21 a22 a23 a30 a31 a32 a33))"

definition Orthogonalise3x3_assign :: "vector3 \<Rightarrow> matrix4 \<Rightarrow> matrix4 res" where
  "Orthogonalise3x3_assign scale this =
     (case this of CMatrix4x4 a00 a01 a02 a03 a10 a11 a12 a13 a20 a21 a22 a23 a30 a31 a32 a33 \<Rightarrow>
         (let origScaleX = a00 * a00 + a01 * a01 + a02 * a02
          in if IsZero origScaleX then Inl Fatal_Exception
             else
             (let invOrigScaleX = InvSqrt origScaleX;
                  a00 = a00 * invOrigScaleX;
                  a01 = a01 * invOrigScaleX;
                  a02 = a02 * invOrigScaleX;
                  proj10 = a10 * a00 + a11 * a01 + a12 * a02;
                  a10 = a10 - proj10 * a00;
                  a11 = a11 - proj10 * a01;
                  a12 = a12 - proj10 * a02;
                  origScaleY = a10 * a10 + a11 * a11 + a12 * a12
              in if IsZero origScaleY then Inl Fatal_Exception
                 else
                 (let invOrigScaleY = InvSqrt origScaleY;
                      a10 = a10 * invOrigScaleY;
                      a11 = a11 * invOrigScaleY;
                      a12 = a12 * invOrigScaleY;
                      a20 = a01 * a12 - a02 * a11;
                      a21 = a02 * a10 - a00 * a12;
                      a22 = a00 * a11 - a01 * a10;
                      a00 = a00 * v_x scale;
                      a01 = a01 * v_x scale;
                      a02 = a02 * v_x scale;
                      a10 = a10 * v_y scale;
                      a11 = a11 * v_y scale;
                      a12 = a12 * v_y scale;
                      a20 = a20 * v_z scale;
                      a21 = a21 * v_z scale;
                      a22 = a22 * v_z scale
                  in Inr (CMatrix4x4 a00 a01 a02 a03 a10 a11 a12 a13 a20 a21 a22 a23 a30 a31 a32 a33)))))"

definition InvertAffine :: "matrix4 \<Rightarrow> matrix4 res" where
  "InvertAffine this = InverseAffine this"

definition Invert4 :: "matrix4 \<Rightarrow> matrix4 res" where
  "Invert4 this = Inverse this"

section \<open>Products\<close>

definition mat4_eq :: "matrix4 \<Rightarrow> matrix4 \<Rightarrow> bool res" where
  "mat4_eq m1 m2 =
     (res_and (AreEqual (e00 m1) (e00 m2)) (res_and (AreEqual (e01 m1) (e01 m2)) (
       res_and (AreEqual (e02 m1) (e02 m2)) (res_and (AreEqual (e03 m1) (e03 m2)) (
       res_and (AreEqual (e10 m1) (e10 m2)) (res_and (AreEqual (e11 m1) (e11 m2)) (
       res_and (AreEqual (e12 m1) (e12 m2)) (res_and (AreEqual (e13 m1) (e13 m2)) (
       res_and (AreEqual (e20 m1) (e20 m2)) (res_and (AreEqual (e21 m1) (e21 m2)) (
       res_and (AreEqual (e22 m1) (e22 m2)) (res_and (AreEqual (e23 m1) (e23 m2)) (
       res_and (AreEqual (e30 m1) (e30 m2)) (res_and (AreEqual (e31 m1) (e31 m2)) (
       res_and (AreEqual (e32 m1) (e32 m2)) (AreEqual (e33 m1) (e33 m2)))))))))))))))))"

definition mat4_neq :: "matrix4 \<Rightarrow> matrix4 \<Rightarrow> bool res" where
  "mat4_neq m1 m2 =
     (res_or (differ (e00 m1) (e00 m2)) (res_or (differ (e01 m1) (e01 m2)) (
       res_or (differ (e02 m1) (e02 m2)) (res_or (differ (e03 m1) (e03 m2)) (
       res_or (differ (e10 m1) (e10 m2)) (res_or (differ (e11 m1) (e11 m2)) (
       res_or (differ (e12 m1) (e12 m2)) (res_or (differ (e13 m1) (e13 m2)) (
       res_or (differ (e20 m1) (e20 m2)) (res_or (differ (e21 m1) (e21 m2)) (
       res_or (differ (e22 m1) (e22 m2)) (res_or (differ (e23 m1) (e23 m2)) (
       res_or (differ (e30 m1) (e30 m2)) (res_or (differ (e31 m1) (e31 m2)) (
       res_or (differ (e32 m1) (e32 m2)) (differ (e33 m1) (e33 m2)))))))))))))))))"

definition mat4_scale_assign :: "float32 \<Rightarrow> matrix4 \<Rightarrow> matrix4" where
  "mat4_scale_assign s this =
     (case this of CMatrix4x4 a00 a01 a02 a03 a10 a11 a12 a13 a20 a21 a22 a23 a30 a31 a32 a33 \<Rightarrow>
         (let a00 = a00 * s;
              a01 = a01 * s;
              a02 = a02 * s;
              a03 = a03 * s;
              a10 = a10 * s;
              a11 = a11 * s;
              a12 = a12 * s;
              a13 = a13 * s;
              a20 = a20 * s;
              a21 = a21 * s;
              a22 = a22 * s;
              a23 = a23 * s;
              a30 = a30 * s;
              a31 = a31 * s;
              a32 = a32 * s;
              a33 = a33 * s
          in CMatrix4x4 a00 a01 a02 a03 a10 a11 a12 a13 a20 a21 a22 a23 a30 a31 a32 a33))"

definition mat4_scale_left :: "float32 \<Rightarrow> matrix4 \<Rightarrow> matrix4" where
  "mat4_scale_left s m =
     (let o00 = e00 m * s;
          o01 = e01 m * s;
          o02 = e02 m * s;
          o03 = e03 m * s;
          o10 = e10 m * s;
          o11 = e11 m * s;
          o12 = e12 m * s;
          o13 = e13 m * s;
          o20 = e20 m * s;
          o21 = e21 m * s;
          o22 = e22 m * s;
          o23 = e23 m * s;
          o30 = e30 m * s;
          o31 = e31 m * s;
          o32 = e32 m * s;
          o33 = e33 m * s
      in CMatrix4x4 o00 o01 o02 o03 o10 o11 o12 o13 o20 o21 o22 o23 o30 o31 o32 o33)"

definition mat4_div_assign :: "float32 \<Rightarrow> matrix4 \<Rightarrow> matrix4" where
  "mat4_div_assign s this =
     (case this of CMatrix4x4 a00 a01 a02 a03 a10 a11 a12 a13 a20 a21 a22 a23 a30 a31 a32 a33 \<Rightarrow>
         (let a00 = a00 / s;
              a01 = a01 / s;
              a02 = a02 / s;
              a03 = a03 / s;
              a10 = a10 / s;
              a11 = a11 / s;
              a12 = a12 / s;
              a13 = a13 / s;
              a20 = a20 / s;
              a21 = a21 / s;
              a22 = a22 / s;
              a23 = a23 / s;
              a30 = a30 / s;
              a31 = a31 / s;
              a32 = a32 / s;
              a33 = a33 / s
          in CMatrix4x4 a00 a01 a02 a03 a10 a11 a12 a13 a20 a21 a22 a23 a30 a31 a32 a33))"

definition vec4_mul_mat :: "vector4 \<Rightarrow> matrix4 \<Rightarrow> vector4" where
  "vec4_mul_mat v m =
     (let vOut_x = h_x v * e00 m + h_y v * e10 m + h_z v * e20 m + h_w v * e30 m;
          vOut_y = h_x v * e01 m + h_y v * e11 m + h_z v * e21 m + h_w v * e31 m;
          vOut_z = h_x v * e02 m + h_y v * e12 m + h_z v * e22 m + h_w v * e32 m;
          vOut_w = h_x v * e03 m + h_y v * e13 m + h_z v * e23 m + h_w v * e33 m
      in CVector4 vOut_x vOut_y vOut_z vOut_w)"

definition mat_mul_vec4 :: "matrix4 \<Rightarrow> vector4 \<Rightarrow> vector4" where
  "mat_mul_vec4 m v =
     (let vOut_x = e00 m * h_x v + e01 m * h_y v + e02 m * h_z v + e03 m * h_w v;
          vOut_y = e10 m * h_x v + e11 m * h_y v + e12 m * h_z v + e13 m * h_w v;
          vOut_z = e20 m * h_x v + e21 m * h_y v + e22 m * h_z v + e23 m * h_w v;
          vOut_w = e30 m * h_x v + e31 m * h_y v + e32 m * h_z v + e33 m * h_w v
      in CVector4 vOut_x vOut_y vOut_z vOut_w)"

definition Transform4 :: "vector4 \<Rightarrow> matrix4 \<Rightarrow> vector4" where
  "Transform4 v this =
     (let vOut_x = h_x v * e00 this + h_y v * e10 this + h_z v * e20 this + h_w v * e30 this;
          vOut_y = h_x v * e01 this + h_y v * e11 this + h_z v * e21 this + h_w v * e31 this;
          vOut_z = h_x v * e02 this + h_y v * e12 this + h_z v * e22 this + h_w v * e32 this;
          vOut_w = h_x v * e03 this + h_y v * e13 this + h_z v * e23 this + h_w v * e33 this
      in CVector4 vOut_x vOut_y vOut_z vOut_w)"

section \<open>Decomposition into an axis and an angle\<close>

definition DecomposeAffineAxisAngle :: "matrix4 \<Rightarrow> bool \<Rightarrow> (vector3 \<times> (vector3 \<times> float32) option \<times> vector3) res" where
  "DecomposeAffineAxisAngle this wantRotation =
     (let scaleX = sqrt (e00 this * e00 this + e01 this * e01 this + e02 this * e02 this);
          scaleY = sqrt (e10 this * e10 this + e11 this * e11 this + e12 this * e12 this);
          scaleZ = sqrt (e20 this * e20 this + e21 this * e21 this + e22 this * e22 this)
      in if \<not> wantRotation then Inr (GetPosition this, None, CVector3 scaleX scaleY scaleZ)
         else
         if \<not> (\<not> IsZero scaleX \<and> \<not> IsZero scaleY \<and> \<not> IsZero scaleZ) then Inl Fatal_Exception
          else
         (let invScaleX = 1 / scaleX;
              invScaleY = 1 / scaleY;
              invScaleZ = 1 / scaleZ;
              diagX = e00 this * invScaleX;
              diagY = e11 this * invScaleY;
              diagZ = e22 this * invScaleZ;
              cosAngle = (diagX + diagY + diagZ - 1) * (1 / 2);
              angle = arccos cosAngle;
              axis = (if IsZero angle then
                 (let axis = CVector3 0 0 1
                  in axis)
                 else
                 (let axis = (if \<not> IsZero (angle - kfPi) then
                         (let axis = vec_Normalise (CVector3 (e12 this * invScaleY - e21 this * invScaleZ)
                            (e20 this * invScaleZ - e02 this * invScaleX)
                            (e01 this * invScaleX - e10 this * invScaleY))
                          in axis)
                         else
                         (let (pAxis_x, pAxis_y, pAxis_z) = (if diagX > diagY then
                                 (if diagX > diagZ then
                                    (let maxAxis = sqrt (diagX - diagY - diagZ + 1);
                                         pAxis_x = (1 / 2) * maxAxis;
                                         invMaxAxis = 1 / maxAxis;
                                         pAxis_y = e01 this * invMaxAxis;
                                         pAxis_z = e02 this * invMaxAxis
                                     in (pAxis_x, pAxis_y, pAxis_z))
                                  else
                                    (let maxAxis = sqrt (diagZ - diagX - diagY + 1);
                                         pAxis_z = (1 / 2) * maxAxis;
                                         invMaxAxis = 1 / maxAxis;
                                         pAxis_x = e02 this * invMaxAxis;
                                         pAxis_y = e12 this * invMaxAxis
                                     in (pAxis_x, pAxis_y, pAxis_z)))
                                 else
                                 (if diagY > diagZ then
                                    (let maxAxis = sqrt (diagY - diagZ - diagX + 1);
                                         pAxis_y = (1 / 2) * maxAxis;
                                         invMaxAxis = 1 / maxAxis;
                                         pAxis_x = e01 this * invMaxAxis;
                                         pAxis_z = e12 this * invMaxAxis
                                     in (pAxis_x, pAxis_y, pAxis_z))
                                  else
                                    (let maxAxis = sqrt (diagZ - diagX - diagY + 1);
                                         pAxis_z = (1 / 2) * maxAxis;
                                         invMaxAxis = 1 / maxAxis;
                                         pAxis_x = e02 this * invMaxAxis;
                                         pAxis_y = e12 this * invMaxAxis
                                     in (pAxis_x, pAxis_y, pAxis_z))));
                              axis = CVector3 pAxis_x pAxis_y pAxis_z
                          in axis))
                  in axis))
          in Inr (GetPosition this, Some (axis, angle), CVector3 scaleX scaleY scaleZ)))"

end
