(* ===== verification/Matrix3_Properties.thy ===== *)
theory Matrix3_Properties
  imports Matrix_Members
begin

text \<open>
  The 3x3 matrices refine the linear part of the 4x4 ones, so that what holds for those holds here;
  the variants of an operation agree; and the decomposition the larger type does not share, into an
  axis and an angle, returns what a matrix was built from.
\<close>


section \<open>Linear maps of space as affine ones\<close>

definition linear4 :: "matrix3 \<Rightarrow> matrix4" where
  "linear4 m = CMatrix4x4
     (f00 m) (f01 m) (f02 m) 0
     (f10 m) (f11 m) (f12 m) 0
     (f20 m) (f21 m) (f22 m) 0
     0 0 0 1"

lemma linear4_inject [simp]: "linear4 a = linear4 b \<longleftrightarrow> a = b"
  by (cases a; cases b) (simp add: linear4_def)

lemma linear4_products:
  "linear4 mat3_identity = mat_identity"
  "linear4 (mat3_mul a b) = mat_mul (linear4 a) (linear4 b)"
  "linear4 (Transpose3 a) = Transpose (linear4 a)"
  "Transform3 v a = TransformVector (linear4 a) v"
  "vec_mul_mat3 v a = TransformVector (linear4 a) v"
  "mat3_mul_vec a v = TransformVector (linear4 (Transpose3 a)) v"
  by (simp_all add: linear4_def mat3_identity_def mat_identity_def mat3_mul_def mat_mul_def Transpose3_def
      Transpose_def Transform3_def vec_mul_mat3_def mat3_mul_vec_def TransformVector_def Let_def mult.commute)

lemma linear4_inverses:
  "res_map linear4 (Inverse3 m) = InverseAffine (linear4 m)"
  "res_map linear4 (InverseRotScale m) = InverseRotTransScale (linear4 m)"
proof -
  have det: "f00 m * (f11 m * f22 m - f21 m * f12 m) + f01 m * (f12 m * f20 m - f22 m * f10 m) + f02 m * (f10 m * f21 m - f20 m * f11 m)
    = det3 (linear4 m)" by (simp add: det3_def linear4_def algebra_simps)
  show "res_map linear4 (Inverse3 m) = InverseAffine (linear4 m)"
    unfolding InverseAffine_adjugate Inverse3_def Let_def det
    by (simp add: linear4_def adjugate_def algebra_simps)
  show "res_map linear4 (InverseRotScale m) = InverseRotTransScale (linear4 m)"
    by (simp add: InverseRotScale_def InverseRotTransScale_def linear4_def Let_def)
qed

lemma linear4_rotations:
  "linear4 Matrix3x3Identity = mat_identity"
  "linear4 (Matrix3x3RotationX a) = MatrixRotationX a"
  "linear4 (Matrix3x3RotationY a) = MatrixRotationY a"
  "linear4 (Matrix3x3RotationZ a) = MatrixRotationZ a"
  "linear4 (Matrix3x3Rotation v r) = MatrixRotation v r"
  "linear4 (Matrix3x3Scaling v) = MatrixScaling v"
  "linear4 (Matrix3x3Scaling_uniform s) = MatrixScaling (CVector3 s s s)"
  by (simp_all add: linear4_def Matrix3x3Identity_def mat_identity_def Matrix3x3RotationX_def Matrix3x3RotationY_def
     Matrix3x3RotationZ_def MatrixRotationX_def MatrixRotationY_def MatrixRotationZ_def Matrix3x3Scaling_def
     MatrixScaling_def Matrix3x3Scaling_uniform_def Let_def split: prod.split)
   (cases r; simp add: Matrix3x3Rotation_def MatrixRotation_def SinCos_def Let_def)

lemma linear4_axis: "res_map linear4 (Matrix3x3Rotation_axis v a) = MatrixRotation_axis v a"
  by (simp add: linear4_def Matrix3x3Rotation_axis_def MatrixRotation_axis_def SinCos_def Let_def)

section \<open>Variants of an operation\<close>

lemmas make3 = MakeIdentity3_def MakeRotationX3_def MakeRotationY3_def MakeRotationZ3_def MakeScaling3_def
  MakeScaling3_uniform_def Matrix3x3Identity_def Matrix3x3RotationX_def Matrix3x3RotationY_def Matrix3x3RotationZ_def
  Matrix3x3Scaling_def Matrix3x3Scaling_uniform_def

lemma make3_elementary:
  "MakeIdentity3 this = mat3_identity" "Matrix3x3Identity = mat3_identity"
  "MakeRotationX3 a this = Matrix3x3RotationX a" "MakeRotationY3 a this = Matrix3x3RotationY a"
  "MakeRotationZ3 a this = Matrix3x3RotationZ a"
  "MakeScaling3 v this = Matrix3x3Scaling v" "MakeScaling3_uniform a this = Matrix3x3Scaling_uniform a"
  by (cases this; simp add: make3 mat3_identity_def SinCos_def Let_def)+

lemma make3_angles: "MakeRotation3 v r this = Matrix3x3Rotation v r"
  by (cases this; cases r) (simp_all add: MakeRotation3_def Matrix3x3Rotation_def SinCos_def Let_def)

lemma make3_axis: "MakeRotation3_axis v a this = Matrix3x3Rotation_axis v a"
  by (cases this) (simp add: MakeRotation3_axis_def Matrix3x3Rotation_axis_def SinCos_def Let_def)

lemmas make3_variants = make3_elementary make3_angles make3_axis

lemma inplace3_variants:
  "mat3_mul_assign self this m = mat3_mul (if self then m else this) m"
  "mat3_scale_assign a this = mat3_scale this a" "mat3_scale_left a m = mat3_scale m a"
  "mat3_div_assign a this = mat3_div this a" "Transpose3_assign this = Transpose3 this"
  "InvertRotScale this = InverseRotScale this" "Invert3 this = Inverse3 this"
  "Orthogonalise3_assign v this = Orthogonalise3 this v"
  by (cases this; simp add: mat3_mul_assign_def mat3_mul_def mat3_scale_assign_def mat3_scale_def mat3_scale_left_def
     mat3_div_assign_def mat3_div_def Transpose3_assign_def Transpose3_def InvertRotScale_def InverseRotScale_def
     Invert3_def Orthogonalise3_assign_def Orthogonalise3_def Let_def)+

lemma transform3_variants:
  "MakeTransformEuler v r s this = mat3_euler v r s this" 
  "MakeTransformQuaternion q s this = mat3_quaternion q s this"
  "MakeTransformAxisAngle v a s this = mat3_axis_angle v a s this"
  "SetRows3 x y z this = mat3_rows x y z True this" "SetColumns3 x y z this = mat3_rows x y z False this"
  "Set3_pointer xs b this = mat3_set xs b this"
  by (simp_all add: MakeTransformEuler_def mat3_euler_def MakeTransformQuaternion_def mat3_quaternion_def
    MakeTransformAxisAngle_def mat3_axis_angle_def SetRows3_def SetColumns3_def mat3_rows_def Set3_pointer_def mat3_set_def split: matrix3.split)

section \<open>Transformations and their decompositions\<close>

lemma linear4_transforms:
  "linear4 (mat3_euler v r s this) = mat_euler kZero v r s"
  "linear4 (mat3_quaternion q s this) = mat_quaternion q kZero s"
  "res_map linear4 (mat3_axis_angle v a s this) = mat_axis_angle v a kZero s"
proof -
  have rows: "linear4 (case m of CMatrix3x3 a00 a01 a02 a10 a11 a12 a20 a21 a22 \<Rightarrow>
      CMatrix3x3 (a00 * v_x s) (a01 * v_x s) (a02 * v_x s) (a10 * v_y s) (a11 * v_y s) (a12 * v_y s)
        (a20 * v_z s) (a21 * v_z s) (a22 * v_z s)) = scale_rows kZero s (linear4 m)" for m
    by (cases m) (simp add: linear4_def scale_rows_def)
  show "linear4 (mat3_euler v r s this) = mat_euler kZero v r s"
    unfolding mat3_euler_def mat_euler_def make3_variants Let_def rows linear4_rotations ..
  show "linear4 (mat3_quaternion q s this) = mat_quaternion q kZero s"
    by (cases this) (simp add: mat3_quaternion_def mat_quaternion_def linear4_def Let_def)
  show "res_map linear4 (mat3_axis_angle v a s this) = mat_axis_angle v a kZero s"
    unfolding mat_axis_angle_def linear4_axis [symmetric] mat3_axis_angle_def make3_variants Let_def
    by (cases "Matrix3x3Rotation_axis v a") (simp_all flip: rows split: matrix3.split)
qed

lemma linear4_scale:
  "GetScale3 m = GetScale (linear4 m)"
  "linear4 (SetScale3 v m) = SetScale v (linear4 m)"
  by (simp add: linear4_def GetScale3_def GetScale_def Let_def)
    (cases m; simp add: linear4_def SetScale3_def SetScale_def rescale_factor_def Let_def)

lemma linear4_tests:
  "IsIdentity3 m = IsIdentity (linear4 m)"
  "IsOrthogonal3 m = IsOrthogonal3x3 (linear4 m)"
  "IsOrthonormal3 m = IsOrthonormal3x3 (linear4 m)"
  by (auto simp: linear4_def IsIdentity3_def IsIdentity_def IsZero_def kfEpsilon_def IsOrthogonal3_def
    IsOrthogonal3x3_def IsOrthonormal3_def IsOrthonormal3x3_def)

lemma linear4_orthogonalise: "res_map linear4 (Orthogonalise3 m v) = Orthogonalise3x3 (linear4 m) v"
  by (simp add: linear4_def Orthogonalise3_def Orthogonalise3x3_def Let_def)


lemma linear4_elements [simp]:
  "e00 (linear4 m) = f00 m" "e01 (linear4 m) = f01 m" "e02 (linear4 m) = f02 m" "e03 (linear4 m) = 0"
  "e10 (linear4 m) = f10 m" "e11 (linear4 m) = f11 m" "e12 (linear4 m) = f12 m" "e13 (linear4 m) = 0"
  "e20 (linear4 m) = f20 m" "e21 (linear4 m) = f21 m" "e22 (linear4 m) = f22 m" "e23 (linear4 m) = 0"
  "e30 (linear4 m) = 0" "e31 (linear4 m) = 0" "e32 (linear4 m) = 0" "e33 (linear4 m) = 1"
  "GetPosition (linear4 m) = kZero"
  by (simp_all add: linear4_def GetPosition_def kZero_def)

lemma linear4_euler:
  "DecomposeAffineEuler (linear4 m) r w = res_map (\<lambda>(a, s). (kZero, a, s)) (DecomposeTransformEuler m r w)"
  unfolding DecomposeTransformEuler_def DecomposeAffineEuler_def GetScale_def linear4_elements Let_def
  by (cases r; simp)

lemma linear4_quaternion:
  "DecomposeAffineQuaternion (linear4 m) w = res_map (\<lambda>(q, s). (kZero, q, s)) (DecomposeTransformQuaternion m w)"
  unfolding DecomposeTransformQuaternion_def DecomposeAffineQuaternion_def extract_quat_def GetScale_def linear4_elements Let_def
  by (simp add: not_less)

lemma linear4_axis_angle:
  "DecomposeAffineAxisAngle (linear4 m) w = res_map (\<lambda>(x, s). (kZero, x, s)) (DecomposeTransformAxisAngle m w)"
  unfolding DecomposeTransformAxisAngle_def DecomposeAffineAxisAngle_def linear4_elements Let_def by simp

text \<open>The embedding is the constructor of the larger type from the smaller one, at the origin.\<close>

lemma mat4_of_mat3: "mat4_of_mat3 m kZero this = linear4 m"
  by (cases this) (simp add: mat4_of_mat3_def linear4_def)

lemma Normalise_stretched:
  assumes "Length n = 1" "0 < k"
  shows "vec_Normalise (CVector3 (k * v_x n) (k * v_y n) (k * v_z n)) = n"
proof -
  have n: "CVector3 (k * v_x n) (k * v_y n) (k * v_z n) = vec_scale k n"
    by (simp add: vec_scale_def mult.commute)
  have "Length (vec_scale k n) = k" using assms by (simp add: Length_scale)
  then have "vec_scale k n \<noteq> kZero" using assms(2) by (auto simp: Length_def kZero_def)
  then show ?thesis unfolding n using assms
    by (simp add: Normalise_scale Length_scale) (simp add: vec_scale_def)
qed


lemma axis_angle_element_rows:
  fixes x y z s c :: real
  assumes n: "x * x + y * y + z * z = 1" and sc: "s * s + c * c = 1"
  shows "((1 - c) * x * x + c) * ((1 - c) * x * x + c) + ((1 - c) * y * x + s * z) * ((1 - c) * y * x + s * z) +
      ((1 - c) * x * z - s * y) * ((1 - c) * x * z - s * y) = 1"
    "((1 - c) * y * x - s * z) * ((1 - c) * y * x - s * z) + ((1 - c) * y * y + c) * ((1 - c) * y * y + c) +
      ((1 - c) * z * y + s * x) * ((1 - c) * z * y + s * x) = 1"
    "((1 - c) * x * z + s * y) * ((1 - c) * x * z + s * y) + ((1 - c) * z * y - s * x) * ((1 - c) * z * y - s * x) +
      ((1 - c) * z * z + c) * ((1 - c) * z * z + c) = 1"
  using n sc by algebra+

lemma scaled_length: "0 \<le> t \<Longrightarrow> a * a + b * b + c * c = 1 \<Longrightarrow> sqrt (a * t * (a * t) + b * t * (b * t) + c * t * (c * t)) = t"
  using row_length [of t a b c] by (simp add: mult.commute)

section \<open>Properties\<close>

text \<open>
  C36. A 3x3 matrix is the linear part of an affine 4x4 matrix: placed there, its operations are those
  of the larger type. Products, transposition, the inverses, orthogonalisation and the constructors
  commute with the embedding, failures included; vectors are transformed alike; the decompositions
  into angles, into a quaternion and into an axis and an angle are those of the larger matrix with
  the position left out. So every law of the 4x4 matrices that speaks of the linear part holds for the 3x3 ones.
\<close>

theorem matrix3_refines:
  "mat4_of_mat3 a kZero old = linear4 a \<and>
   linear4 (mat3_mul a b) = mat_mul (linear4 a) (linear4 b) \<and>
   linear4 mat3_identity = mat_identity \<and>
   linear4 (Transpose3 a) = Transpose (linear4 a) \<and>
   res_map linear4 (Inverse3 a) = InverseAffine (linear4 a) \<and>
   res_map linear4 (InverseRotScale a) = InverseRotTransScale (linear4 a) \<and>
   res_map linear4 (Orthogonalise3 a s) = Orthogonalise3x3 (linear4 a) s \<and>
   linear4 (SetScale3 s a) = SetScale s (linear4 a) \<and> GetScale3 a = GetScale (linear4 a) \<and>
   Transform3 v a = TransformVector (linear4 a) v \<and>
   linear4 (mat3_euler angles r s this) = mat_euler kZero angles r s \<and>
   linear4 (mat3_quaternion q s this) = mat_quaternion q kZero s \<and>
   res_map linear4 (mat3_axis_angle axis x s this) = mat_axis_angle axis x kZero s \<and>
   DecomposeAffineEuler (linear4 a) r w = res_map (\<lambda>(x, s). (kZero, x, s)) (DecomposeTransformEuler a r w) \<and>
   DecomposeAffineQuaternion (linear4 a) w = res_map (\<lambda>(x, s). (kZero, x, s)) (DecomposeTransformQuaternion a w) \<and>
   DecomposeAffineAxisAngle (linear4 a) w = res_map (\<lambda>(x, s). (kZero, x, s)) (DecomposeTransformAxisAngle a w)"
  by (simp add: mat4_of_mat3 linear4_products linear4_inverses linear4_scale linear4_orthogonalise
      linear4_transforms linear4_euler linear4_quaternion linear4_axis_angle)

text \<open>
  A 3x3 matrix built from an axis, an angle strictly between no and half a turn, and positive
  scales is taken apart into the axis at length one, the angle and the scales.
\<close>

lemma axis_angle_round_trip:
  assumes s: "positive_scale s" and n: "\<not> vec_IsZero (vec_Normalise axis)"
    and a: "kfEpsilon \<le> a" "a < pi" "kfEpsilon \<le> kfPi - a"
  shows "res_bind (mat3_axis_angle axis a s this) (\<lambda>m. DecomposeTransformAxisAngle m True) =
    Inr (Some (vec_Normalise axis, a), s)"
proof -
  obtain x y z where v: "vec_Normalise axis = CVector3 x y z" by (cases "vec_Normalise axis")
  obtain p q r where sv: "s = CVector3 p q r" by (cases s)
  have L: "Length (CVector3 x y z) = 1" using Normalise_Length [OF n] by (simp add: v)
  then have e: "x * x + y * y + z * z = 1" by (simp add: Length_def)
  have sc: "sin a * sin a + cos a * cos a = 1" by (rule sin_cos_one)
  have pos: "0 < p" "0 < q" "0 < r" "\<not> IsZero p" "\<not> IsZero q" "\<not> IsZero r" using positive_scaleD [OF s] by (simp_all add: sv)
  note len = axis_angle_element_rows [OF e sc, THEN scaled_length [rotated]]
  have 0: "0 < a" using a(1) by (rule less_le_trans [rotated]) (simp add: kfEpsilon_def)
  have tr: "(3 * cos a + ((1 - cos a) * x * x + ((1 - cos a) * y * y + (1 - cos a) * z * z)) - 1) / 2 = cos a"
    using e by (simp add: field_simps) algebra
  have ac: "arccos (cos a) = a" using 0 a(2) by (simp add: arccos_cos)
  have st: "vec_Normalise (CVector3 (2 * (x * sin a)) (2 * (y * sin a)) (2 * (z * sin a))) = CVector3 x y z"
    using Normalise_stretched [OF L, of "2 * sin a"] sin_gt_zero [OF 0 a(2)] by (simp add: mult_ac)
  have g: "\<not> IsZero a" "\<not> IsZero (a - kfPi)" using a by (auto simp: IsZero_def)
  show ?thesis
    using pos n
    by (simp add: mat3_axis_angle_def make3_axis Matrix3x3Rotation_axis_def SinCos_def Let_def v
      DecomposeTransformAxisAngle_def sv len tr ac st g)
qed

end
