(* ===== verification/Vector_Members.thy ===== *)
theory Vector_Members
  imports Matrix_Moves Matrix_Members Affine2D
begin

text \<open>
  The members of the vectors and of the quaternion that the non-member operators have beside them
  (CVector2.h, CVector3.h, CVector4.h, CQuaternion.h): copies, setters and compound assignments. And the
  accessors that return a reference into an object: the part of a vector, a quaternion or a matrix they
  refer to, and the object after a write through the reference. A pointer argument is the list of the
  floats it points at; the flag of an assignment tells whether both sides are the same object.
\<close>

section \<open>Members\<close>

subsection \<open>\<open>CVector2\<close>\<close>

definition vec2_copy :: "vector2 \<Rightarrow> vector2" where
  "vec2_copy v = CVector2 (p_x v) (p_y v)"

definition vec2_assign :: "bool \<Rightarrow> vector2 \<Rightarrow> vector2 \<Rightarrow> vector2" where
  "vec2_assign self v this = (if self then this else CVector2 (p_x v) (p_y v))"

definition vec2_Set :: "float32 \<Rightarrow> float32 \<Rightarrow> vector2 \<Rightarrow> vector2" where
  "vec2_Set xIn yIn this = CVector2 xIn yIn"

definition vec2_Set_pointer :: "float32 list \<Rightarrow> vector2 \<Rightarrow> vector2 res" where
  "vec2_Set_pointer pfElts this =
     (if length pfElts < 2 then Inl Undefined
      else Inr (CVector2 (pfElts ! 0) (pfElts ! 1)))"

definition vec2_Set_between :: "vector2 \<Rightarrow> vector2 \<Rightarrow> vector2 \<Rightarrow> vector2" where
  "vec2_Set_between p1 p2 this = CVector2 (p_x p2 - p_x p1) (p_y p2 - p_y p1)"

definition vec2_SetZero :: "vector2 \<Rightarrow> vector2" where
  "vec2_SetZero this = CVector2 0 0"

definition vec2_add_assign :: "vector2 \<Rightarrow> vector2 \<Rightarrow> vector2" where
  "vec2_add_assign v this = CVector2 (p_x this + p_x v) (p_y this + p_y v)"

definition vec2_sub_assign :: "vector2 \<Rightarrow> vector2 \<Rightarrow> vector2" where
  "vec2_sub_assign v this = CVector2 (p_x this - p_x v) (p_y this - p_y v)"

definition vec2_scale_assign :: "float32 \<Rightarrow> vector2 \<Rightarrow> vector2" where
  "vec2_scale_assign s this = CVector2 (p_x this * s) (p_y this * s)"

definition vec2_div_assign :: "float32 \<Rightarrow> vector2 \<Rightarrow> vector2" where
  "vec2_div_assign s this = CVector2 (p_x this / s) (p_y this / s)"

definition vec2_Dot_member :: "vector2 \<Rightarrow> vector2 \<Rightarrow> float32" where
  "vec2_Dot_member this v = p_x this * p_x v + p_y this * p_y v"

definition vec2_Length_member :: "vector2 \<Rightarrow> float32" where
  "vec2_Length_member this = sqrt (p_x this * p_x this + p_y this * p_y this)"

definition vec2_LengthSquared_member :: "vector2 \<Rightarrow> float32" where
  "vec2_LengthSquared_member this = p_x this * p_x this + p_y this * p_y this"

definition vec2_plus :: "vector2 \<Rightarrow> vector2" where
  "vec2_plus v = v"

subsection \<open>\<open>CVector3\<close>\<close>

definition vec_copy :: "vector3 \<Rightarrow> vector3" where
  "vec_copy v = CVector3 (v_x v) (v_y v) (v_z v)"

definition vec_assign :: "bool \<Rightarrow> vector3 \<Rightarrow> vector3 \<Rightarrow> vector3" where
  "vec_assign self v this = (if self then this else CVector3 (v_x v) (v_y v) (v_z v))"

definition vec_Set :: "float32 \<Rightarrow> float32 \<Rightarrow> float32 \<Rightarrow> vector3 \<Rightarrow> vector3" where
  "vec_Set xIn yIn zIn this = CVector3 xIn yIn zIn"

definition vec_pointer :: "float32 list \<Rightarrow> vector3 res" where
  "vec_pointer pfElts =
     (if length pfElts < 3 then Inl Undefined
      else Inr (CVector3 (pfElts ! 0) (pfElts ! 1) (pfElts ! 2)))"

definition vec_points :: "vector3 \<Rightarrow> vector3 \<Rightarrow> vector3" where
  "vec_points p1 p2 = CVector3 (v_x p2 - v_x p1) (v_y p2 - v_y p1) (v_z p2 - v_z p1)"

definition vec_neq :: "vector3 \<Rightarrow> vector3 \<Rightarrow> bool" where
  "vec_neq v1 v2 \<longleftrightarrow> v_x v1 \<noteq> v_x v2 \<or> v_y v1 \<noteq> v_y v2 \<or> v_z v1 \<noteq> v_z v2"

definition vec_add_assign :: "vector3 \<Rightarrow> vector3 \<Rightarrow> vector3" where
  "vec_add_assign v this = CVector3 (v_x this + v_x v) (v_y this + v_y v) (v_z this + v_z v)"

definition vec_sub_assign :: "vector3 \<Rightarrow> vector3 \<Rightarrow> vector3" where
  "vec_sub_assign v this = CVector3 (v_x this - v_x v) (v_y this - v_y v) (v_z this - v_z v)"

definition vec_scale_assign :: "float32 \<Rightarrow> vector3 \<Rightarrow> vector3" where
  "vec_scale_assign s this = CVector3 (v_x this * s) (v_y this * s) (v_z this * s)"

definition vec_div_assign :: "float32 \<Rightarrow> vector3 \<Rightarrow> vector3" where
  "vec_div_assign s this = CVector3 (v_x this / s) (v_y this / s) (v_z this / s)"

definition vec_Dot_member :: "vector3 \<Rightarrow> vector3 \<Rightarrow> float32" where
  "vec_Dot_member this v = v_x this * v_x v + v_y this * v_y v + v_z this * v_z v"

definition vec_Length_member :: "vector3 \<Rightarrow> float32" where
  "vec_Length_member this = sqrt (v_x this * v_x this + v_y this * v_y this + v_z this * v_z this)"

definition vec_LengthSquared_member :: "vector3 \<Rightarrow> float32" where
  "vec_LengthSquared_member this = v_x this * v_x this + v_y this * v_y this + v_z this * v_z this"

definition vec_plus :: "vector3 \<Rightarrow> vector3" where
  "vec_plus v = v"

subsection \<open>\<open>CVector4\<close>\<close>

definition vec4_copy :: "vector4 \<Rightarrow> vector4" where
  "vec4_copy v = CVector4 (h_x v) (h_y v) (h_z v) (h_w v)"

definition vec4_assign :: "bool \<Rightarrow> vector4 \<Rightarrow> vector4 \<Rightarrow> vector4" where
  "vec4_assign self v this = (if self then this else CVector4 (h_x v) (h_y v) (h_z v) (h_w v))"

definition vec4_Set :: "float32 \<Rightarrow> float32 \<Rightarrow> float32 \<Rightarrow> float32 \<Rightarrow> vector4 \<Rightarrow> vector4" where
  "vec4_Set xIn yIn zIn wIn this = CVector4 xIn yIn zIn wIn"

definition vec4_Set_pointer :: "float32 list \<Rightarrow> vector4 \<Rightarrow> vector4 res" where
  "vec4_Set_pointer pfElts this =
     (if length pfElts < 4 then Inl Undefined
      else Inr (CVector4 (pfElts ! 0) (pfElts ! 1) (pfElts ! 2) (pfElts ! 3)))"

definition vec4_Set_between :: "vector3 \<Rightarrow> vector3 \<Rightarrow> float32 \<Rightarrow> vector4 \<Rightarrow> vector4" where
  "vec4_Set_between p1 p2 wIn this = CVector4 (v_x p2 - v_x p1) (v_y p2 - v_y p1) (v_z p2 - v_z p1) wIn"

definition vec4_SetZero :: "vector4 \<Rightarrow> vector4" where
  "vec4_SetZero this = CVector4 0 0 0 0"

definition vec4_add_assign :: "vector4 \<Rightarrow> vector4 \<Rightarrow> vector4" where
  "vec4_add_assign v this = CVector4 (h_x this + h_x v) (h_y this + h_y v) (h_z this + h_z v) (h_w this + h_w v)"

definition vec4_sub_assign :: "vector4 \<Rightarrow> vector4 \<Rightarrow> vector4" where
  "vec4_sub_assign v this = CVector4 (h_x this - h_x v) (h_y this - h_y v) (h_z this - h_z v) (h_w this - h_w v)"

definition vec4_scale_assign :: "float32 \<Rightarrow> vector4 \<Rightarrow> vector4" where
  "vec4_scale_assign s this = CVector4 (h_x this * s) (h_y this * s) (h_z this * s) (h_w this * s)"

definition vec4_div_assign :: "float32 \<Rightarrow> vector4 \<Rightarrow> vector4" where
  "vec4_div_assign s this = CVector4 (h_x this / s) (h_y this / s) (h_z this / s) (h_w this / s)"

definition vec4_Dot_member :: "vector4 \<Rightarrow> vector4 \<Rightarrow> float32" where
  "vec4_Dot_member this v = h_x this * h_x v + h_y this * h_y v + h_z this * h_z v + h_w this * h_w v"

definition vec4_Length_member :: "vector4 \<Rightarrow> float32" where
  "vec4_Length_member this = sqrt (h_x this * h_x this + h_y this * h_y this + h_z this * h_z this + h_w this * h_w this)"

definition vec4_LengthSquared_member :: "vector4 \<Rightarrow> float32" where
  "vec4_LengthSquared_member this = h_x this * h_x this + h_y this * h_y this + h_z this * h_z this + h_w this * h_w this"

definition vec4_plus :: "vector4 \<Rightarrow> vector4" where
  "vec4_plus v = v"

definition vec2_Perpendicular_member :: "vector2 \<Rightarrow> vector2" where
  "vec2_Perpendicular_member this = CVector2 (- p_y this) (p_x this)"

definition vec2_Cross3D_member :: "vector2 \<Rightarrow> vector2 \<Rightarrow> vector2" where
  "vec2_Cross3D_member this v =
     CVector2 (p_y this * p_x v - p_x this * p_y v) (p_x this * p_y v - p_y this * p_x v)"

definition vec_Cross_member :: "vector3 \<Rightarrow> vector3 \<Rightarrow> vector3" where
  "vec_Cross_member this v = CVector3 (v_y this * v_z v - v_z this * v_y v)
     (v_z this * v_x v - v_x this * v_z v) (v_x this * v_y v - v_y this * v_x v)"

definition vec4_Cross_member :: "vector4 \<Rightarrow> vector4 \<Rightarrow> vector4" where
  "vec4_Cross_member this v = CVector4 (h_y this * h_z v - h_z this * h_y v) (h_z this * h_w v - h_w this * h_z v)
     (h_w this * h_x v - h_x this * h_w v) (h_x this * h_y v - h_y this * h_x v)"

subsection \<open>\<open>CQuaternion\<close>\<close>

definition quat_pointer :: "float32 list \<Rightarrow> quaternion res" where
  "quat_pointer pWXYZ =
     (if length pWXYZ < 4 then Inl Undefined
      else Inr (CQuaternion (pWXYZ ! 0) (pWXYZ ! 1) (pWXYZ ! 2) (pWXYZ ! 3)))"

definition quat_copy :: "quaternion \<Rightarrow> quaternion" where
  "quat_copy src = CQuaternion (q_w src) (q_x src) (q_y src) (q_z src)"

definition quat_assign :: "bool \<Rightarrow> quaternion \<Rightarrow> quaternion \<Rightarrow> quaternion" where
  "quat_assign self src this = (if self then this else CQuaternion (q_w src) (q_x src) (q_y src) (q_z src))"

definition quat_Set_values :: "float32 \<Rightarrow> float32 \<Rightarrow> float32 \<Rightarrow> float32 \<Rightarrow> quaternion \<Rightarrow> quaternion" where
  "quat_Set_values setW setX setY setZ this = CQuaternion setW setX setY setZ"

definition quat_Set_parts :: "float32 \<Rightarrow> vector3 \<Rightarrow> quaternion \<Rightarrow> quaternion" where
  "quat_Set_parts setW setV this = CQuaternion setW (v_x setV) (v_y setV) (v_z setV)"

definition quat_SetZero :: "quaternion \<Rightarrow> quaternion" where
  "quat_SetZero this = CQuaternion 0 0 0 0"

definition quat_SetIdentity :: "quaternion \<Rightarrow> quaternion" where
  "quat_SetIdentity this = CQuaternion 1 0 0 0"

definition quat_cast :: "quaternion \<Rightarrow> vector3" where
  "quat_cast this = CVector3 (q_x this) (q_y this) (q_z this)"

definition quat_add_assign :: "quaternion \<Rightarrow> quaternion \<Rightarrow> quaternion" where
  "quat_add_assign quat this = CQuaternion (q_w this + q_w quat) (q_x this + q_x quat) (q_y this + q_y quat) (q_z this + q_z quat)"

definition quat_sub_assign :: "quaternion \<Rightarrow> quaternion \<Rightarrow> quaternion" where
  "quat_sub_assign quat this = CQuaternion (q_w this - q_w quat) (q_x this - q_x quat) (q_y this - q_y quat) (q_z this - q_z quat)"

definition quat_scale_assign :: "float32 \<Rightarrow> quaternion \<Rightarrow> quaternion" where
  "quat_scale_assign scalar this = CQuaternion (q_w this * scalar) (q_x this * scalar) (q_y this * scalar) (q_z this * scalar)"

definition quat_div_assign :: "float32 \<Rightarrow> quaternion \<Rightarrow> quaternion" where
  "quat_div_assign scalar this = CQuaternion (q_w this / scalar) (q_x this / scalar) (q_y this / scalar) (q_z this / scalar)"

definition quat_mul_assign :: "quaternion \<Rightarrow> quaternion \<Rightarrow> quaternion" where
  "quat_mul_assign quat this = quat_mul this quat"

definition quat_Dot_member :: "quaternion \<Rightarrow> quaternion \<Rightarrow> float32" where
  "quat_Dot_member this quat =
     q_w this * q_w quat + q_x this * q_x quat + q_y this * q_y quat + q_z this * q_z quat"

definition quat_Norm_member :: "quaternion \<Rightarrow> float32" where
  "quat_Norm_member this = sqrt (q_w this * q_w this + q_x this * q_x this + q_y this * q_y this + q_z this * q_z this)"

definition quat_NormSquared_member :: "quaternion \<Rightarrow> float32" where
  "quat_NormSquared_member this = q_w this * q_w this + q_x this * q_x this + q_y this * q_y this + q_z this * q_z this"

definition quat_SetInverse :: "quaternion \<Rightarrow> quaternion" where
  "quat_SetInverse this = CQuaternion (q_w this) (- q_x this) (- q_y this) (- q_z this)"

definition quat_neq :: "quaternion \<Rightarrow> quaternion \<Rightarrow> bool res" where
  "quat_neq cmp1 cmp2 =
     res_bind (AreEqual (q_w cmp1) (q_w cmp2)) (\<lambda>e0. if \<not> e0 then Inr True else
     res_bind (AreEqual (q_x cmp1) (q_x cmp2)) (\<lambda>e1. if \<not> e1 then Inr True else
     res_bind (AreEqual (q_y cmp1) (q_y cmp2)) (\<lambda>e2. if \<not> e2 then Inr True else
     res_map Not (AreEqual (q_z cmp1) (q_z cmp2)))))"

definition quat_plus :: "quaternion \<Rightarrow> quaternion" where
  "quat_plus quat = quat_copy quat"

section \<open>References into an object\<close>

text \<open>
  A \<open>_put\<close> definition is the object after a write through the reference that the accessor returns.
\<close>

definition Vector2 :: "vector4 \<Rightarrow> vector2" where
  "Vector2 m = CVector2 (h_x m) (h_y m)"

definition Vector2_put :: "vector2 \<Rightarrow> vector4 \<Rightarrow> vector4" where
  "Vector2_put v m = CVector4
     (p_x v) (p_y v) (h_z m) (h_w m)"

definition Vector3 :: "vector4 \<Rightarrow> vector3" where
  "Vector3 m = CVector3 (h_x m) (h_y m) (h_z m)"

definition Vector3_put :: "vector3 \<Rightarrow> vector4 \<Rightarrow> vector4" where
  "Vector3_put v m = CVector4
     (v_x v) (v_y v) (v_z v) (h_w m)"

definition XAxis :: "matrix4 \<Rightarrow> vector3" where
  "XAxis m = CVector3 (e00 m) (e01 m) (e02 m)"

definition XAxis_put :: "vector3 \<Rightarrow> matrix4 \<Rightarrow> matrix4" where
  "XAxis_put v m = CMatrix4x4
     (v_x v) (v_y v) (v_z v) (e03 m)
     (e10 m) (e11 m) (e12 m) (e13 m)
     (e20 m) (e21 m) (e22 m) (e23 m)
     (e30 m) (e31 m) (e32 m) (e33 m)"

definition YAxis :: "matrix4 \<Rightarrow> vector3" where
  "YAxis m = CVector3 (e10 m) (e11 m) (e12 m)"

definition YAxis_put :: "vector3 \<Rightarrow> matrix4 \<Rightarrow> matrix4" where
  "YAxis_put v m = CMatrix4x4
     (e00 m) (e01 m) (e02 m) (e03 m)
     (v_x v) (v_y v) (v_z v) (e13 m)
     (e20 m) (e21 m) (e22 m) (e23 m)
     (e30 m) (e31 m) (e32 m) (e33 m)"

definition ZAxis :: "matrix4 \<Rightarrow> vector3" where
  "ZAxis m = CVector3 (e20 m) (e21 m) (e22 m)"

definition ZAxis_put :: "vector3 \<Rightarrow> matrix4 \<Rightarrow> matrix4" where
  "ZAxis_put v m = CMatrix4x4
     (e00 m) (e01 m) (e02 m) (e03 m)
     (e10 m) (e11 m) (e12 m) (e13 m)
     (v_x v) (v_y v) (v_z v) (e23 m)
     (e30 m) (e31 m) (e32 m) (e33 m)"

definition Position :: "matrix4 \<Rightarrow> vector3" where
  "Position m = CVector3 (e30 m) (e31 m) (e32 m)"

definition Position_put :: "vector3 \<Rightarrow> matrix4 \<Rightarrow> matrix4" where
  "Position_put v m = CMatrix4x4
     (e00 m) (e01 m) (e02 m) (e03 m)
     (e10 m) (e11 m) (e12 m) (e13 m)
     (e20 m) (e21 m) (e22 m) (e23 m)
     (v_x v) (v_y v) (v_z v) (e33 m)"

definition XAxis2D :: "matrix3 \<Rightarrow> vector2" where
  "XAxis2D m = CVector2 (f00 m) (f01 m)"

definition XAxis2D_put :: "vector2 \<Rightarrow> matrix3 \<Rightarrow> matrix3" where
  "XAxis2D_put v m = CMatrix3x3
     (p_x v) (p_y v) (f02 m)
     (f10 m) (f11 m) (f12 m)
     (f20 m) (f21 m) (f22 m)"

definition YAxis2D :: "matrix3 \<Rightarrow> vector2" where
  "YAxis2D m = CVector2 (f10 m) (f11 m)"

definition YAxis2D_put :: "vector2 \<Rightarrow> matrix3 \<Rightarrow> matrix3" where
  "YAxis2D_put v m = CMatrix3x3
     (f00 m) (f01 m) (f02 m)
     (p_x v) (p_y v) (f12 m)
     (f20 m) (f21 m) (f22 m)"

definition Position2D :: "matrix3 \<Rightarrow> vector2" where
  "Position2D m = CVector2 (f20 m) (f21 m)"

definition Position2D_put :: "vector2 \<Rightarrow> matrix3 \<Rightarrow> matrix3" where
  "Position2D_put v m = CMatrix3x3
     (f00 m) (f01 m) (f02 m)
     (f10 m) (f11 m) (f12 m)
     (p_x v) (p_y v) (f22 m)"

definition Vector_put :: "vector3 \<Rightarrow> quaternion \<Rightarrow> quaternion" where
  "Vector_put v q = CQuaternion (q_w q) (v_x v) (v_y v) (v_z v)"

definition quat_index :: "quaternion \<Rightarrow> nat \<Rightarrow> float32 res" where
  "quat_index q index = (let xs = [q_x q, q_y q, q_z q] in
     if index < length xs then Inr (xs ! index) else Inl Undefined)"

definition quat_index_put :: "nat \<Rightarrow> float32 \<Rightarrow> quaternion \<Rightarrow> quaternion res" where
  "quat_index_put index f q =
     (if index = 0 then Inr (CQuaternion (q_w q) f (q_y q) (q_z q))
      else if index = 1 then Inr (CQuaternion (q_w q) (q_x q) f (q_z q))
      else if index = 2 then Inr (CQuaternion (q_w q) (q_x q) (q_y q) f)
      else Inl Undefined)"

definition vec4_index :: "vector4 \<Rightarrow> nat \<Rightarrow> float32 res" where
  "vec4_index v index = (let xs = [h_x v, h_y v, h_z v, h_w v] in
     if index < length xs then Inr (xs ! index) else Inl Undefined)"

definition vec4_index_put :: "nat \<Rightarrow> float32 \<Rightarrow> vector4 \<Rightarrow> vector4 res" where
  "vec4_index_put index f v =
     (if index = 0 then Inr (CVector4 f (h_y v) (h_z v) (h_w v))
      else if index = 1 then Inr (CVector4 (h_x v) f (h_z v) (h_w v))
      else if index = 2 then Inr (CVector4 (h_x v) (h_y v) f (h_w v))
      else if index = 3 then Inr (CVector4 (h_x v) (h_y v) (h_z v) f)
      else Inl Undefined)"

definition mat2_row :: "matrix2 \<Rightarrow> nat \<Rightarrow> vector2 res" where
  "mat2_row m iRow =
     (if iRow = 0 then Inr (CVector2 (g00 m) (g01 m))
     else if iRow = 1 then Inr (CVector2 (g10 m) (g11 m))
     else Inl Undefined)"

definition mat2_row_put :: "nat \<Rightarrow> vector2 \<Rightarrow> matrix2 \<Rightarrow> matrix2 res" where
  "mat2_row_put iRow v m =
     (if iRow = 0 then Inr (CMatrix2x2 (p_x v) (p_y v) (g10 m) (g11 m))
     else if iRow = 1 then Inr (CMatrix2x2 (g00 m) (g01 m) (p_x v) (p_y v))
     else Inl Undefined)"

definition mat4_row_put :: "nat \<Rightarrow> vector4 \<Rightarrow> matrix4 \<Rightarrow> matrix4 res" where
  "mat4_row_put iRow v m =
     (if iRow = 0 then Inr (CMatrix4x4 (h_x v) (h_y v) (h_z v) (h_w v) (e10 m) (e11 m) (e12 m) (e13 m) (e20 m) (e21 m) (e22 m) (e23 m) (e30 m) (e31 m) (e32 m) (e33 m))
      else if iRow = 1 then Inr (CMatrix4x4 (e00 m) (e01 m) (e02 m) (e03 m) (h_x v) (h_y v) (h_z v) (h_w v) (e20 m) (e21 m) (e22 m) (e23 m) (e30 m) (e31 m) (e32 m) (e33 m))
      else if iRow = 2 then Inr (CMatrix4x4 (e00 m) (e01 m) (e02 m) (e03 m) (e10 m) (e11 m) (e12 m) (e13 m) (h_x v) (h_y v) (h_z v) (h_w v) (e30 m) (e31 m) (e32 m) (e33 m))
      else if iRow = 3 then Inr (CMatrix4x4 (e00 m) (e01 m) (e02 m) (e03 m) (e10 m) (e11 m) (e12 m) (e13 m) (e20 m) (e21 m) (e22 m) (e23 m) (h_x v) (h_y v) (h_z v) (h_w v))
      else Inl Undefined)"

definition mat3_row_put :: "nat \<Rightarrow> vector3 \<Rightarrow> matrix3 \<Rightarrow> matrix3 res" where
  "mat3_row_put iRow v m =
     (if iRow = 0 then Inr (CMatrix3x3 (v_x v) (v_y v) (v_z v) (f10 m) (f11 m) (f12 m) (f20 m) (f21 m) (f22 m))
      else if iRow = 1 then Inr (CMatrix3x3 (f00 m) (f01 m) (f02 m) (v_x v) (v_y v) (v_z v) (f20 m) (f21 m) (f22 m))
      else if iRow = 2 then Inr (CMatrix3x3 (f00 m) (f01 m) (f02 m) (f10 m) (f11 m) (f12 m) (v_x v) (v_y v) (v_z v))
      else Inl Undefined)"

definition GetX4 :: "matrix4 \<Rightarrow> float32" where
  "GetX4 m = e30 m"

definition GetY4 :: "matrix4 \<Rightarrow> float32" where
  "GetY4 m = e31 m"

definition GetZ4 :: "matrix4 \<Rightarrow> float32" where
  "GetZ4 m = e32 m"

definition GetScaleX4 :: "matrix4 \<Rightarrow> float32" where
  "GetScaleX4 m = sqrt (e00 m * e00 m + e01 m * e01 m + e02 m * e02 m)"

definition GetScaleY4 :: "matrix4 \<Rightarrow> float32" where
  "GetScaleY4 m = sqrt (e10 m * e10 m + e11 m * e11 m + e12 m * e12 m)"

definition GetScaleZ4 :: "matrix4 \<Rightarrow> float32" where
  "GetScaleZ4 m = sqrt (e20 m * e20 m + e21 m * e21 m + e22 m * e22 m)"

definition GetX2D :: "matrix3 \<Rightarrow> float32" where
  "GetX2D m = f20 m"

definition GetY2D :: "matrix3 \<Rightarrow> float32" where
  "GetY2D m = f21 m"

definition GetScaleX3 :: "matrix3 \<Rightarrow> float32" where
  "GetScaleX3 m = sqrt (f00 m * f00 m + f01 m * f01 m + f02 m * f02 m)"

definition GetScaleY3 :: "matrix3 \<Rightarrow> float32" where
  "GetScaleY3 m = sqrt (f10 m * f10 m + f11 m * f11 m + f12 m * f12 m)"

definition GetScaleZ3 :: "matrix3 \<Rightarrow> float32" where
  "GetScaleZ3 m = sqrt (f20 m * f20 m + f21 m * f21 m + f22 m * f22 m)"

definition GetScaleX2D :: "matrix3 \<Rightarrow> float32" where
  "GetScaleX2D m = sqrt (f00 m * f00 m + f01 m * f01 m)"

definition GetScaleY2D :: "matrix3 \<Rightarrow> float32" where
  "GetScaleY2D m = sqrt (f10 m * f10 m + f11 m * f11 m)"

definition GetScaleX2 :: "matrix2 \<Rightarrow> float32" where
  "GetScaleX2 m = sqrt (g00 m * g00 m + g01 m * g01 m)"

definition GetScaleY2 :: "matrix2 \<Rightarrow> float32" where
  "GetScaleY2 m = sqrt (g10 m * g10 m + g11 m * g11 m)"

definition mat4_copy :: "matrix4 \<Rightarrow> matrix4" where
  "mat4_copy m = CMatrix4x4 (e00 m) (e01 m) (e02 m) (e03 m) (e10 m) (e11 m) (e12 m) (e13 m) (e20 m) (e21 m) (e22 m) (e23 m) (e30 m) (e31 m) (e32 m) (e33 m)"

definition mat4_assign :: "bool \<Rightarrow> matrix4 \<Rightarrow> matrix4 \<Rightarrow> matrix4" where
  "mat4_assign self m this = (if self then this else CMatrix4x4 (e00 m) (e01 m) (e02 m) (e03 m) (e10 m) (e11 m) (e12 m) (e13 m) (e20 m) (e21 m) (e22 m) (e23 m) (e30 m) (e31 m) (e32 m) (e33 m))"

definition mat3_copy :: "matrix3 \<Rightarrow> matrix3" where
  "mat3_copy m = CMatrix3x3 (f00 m) (f01 m) (f02 m) (f10 m) (f11 m) (f12 m) (f20 m) (f21 m) (f22 m)"

definition mat3_assign :: "bool \<Rightarrow> matrix3 \<Rightarrow> matrix3 \<Rightarrow> matrix3" where
  "mat3_assign self m this = (if self then this else CMatrix3x3 (f00 m) (f01 m) (f02 m) (f10 m) (f11 m) (f12 m) (f20 m) (f21 m) (f22 m))"

definition mat2_copy :: "matrix2 \<Rightarrow> matrix2" where
  "mat2_copy m = CMatrix2x2 (g00 m) (g01 m) (g10 m) (g11 m)"

definition mat2_assign :: "bool \<Rightarrow> matrix2 \<Rightarrow> matrix2 \<Rightarrow> matrix2" where
  "mat2_assign self m this = (if self then this else CMatrix2x2 (g00 m) (g01 m) (g10 m) (g11 m))"


section \<open>The members are the non-member operators\<close>

lemma vec2_members:
  "vec2_add_assign v this = vec2_add this v" "vec2_sub_assign v this = vec2_sub this v"
  "vec2_scale_assign s this = vec2_scale s this" "vec2_div_assign s this = vec2_div this s"
  "vec2_Set_between p1 p2 this = vec2_between p1 p2" "vec2_Set_pointer xs this = vec2_set xs"
  by (simp_all add: vec2_add_assign_def vec2_sub_assign_def vec2_scale_assign_def vec2_div_assign_def
    vec2_Set_between_def vec2_Set_pointer_def vec2_add_def vec2_sub_def vec2_scale_def vec2_div_def
    vec2_between_def vec2_set_def mult.commute split: list.split)

lemma vec_members:
  "vec_add_assign v this = vec_add this v" "vec_sub_assign v this = vec_sub this v"
  "vec_scale_assign s this = vec_scale s this" "vec_div_assign s this = vec_div this s"
  "vec_points p1 p2 = vec_between p1 p2" "vec_pointer xs = vec_set xs"
  "vec_Dot_member this v = Dot this v" "vec_Cross_member this v = Cross this v"
  "vec_neq this v \<longleftrightarrow> \<not> vec_eq this v"
  by (simp_all add: vec_add_assign_def vec_sub_assign_def vec_scale_assign_def vec_div_assign_def
    vec_points_def vec_pointer_def vec_add_def vec_sub_def vec_scale_def vec_div_def vec_between_def vec_set_def
    vec_Dot_member_def Dot_def vec_Cross_member_def Cross_def vec_neq_def vec_eq_def mult.commute
    split: list.split)

lemma vec4_members:
  "vec4_add_assign v this = vec4_add this v" "vec4_sub_assign v this = vec4_sub this v"
  "vec4_scale_assign s this = vec4_scale s this" "vec4_div_assign s this = vec4_div this s"
  "vec4_Set_between p1 p2 w this = vec4_between p1 p2 w" "vec4_Set_pointer xs this = vec4_set xs"
  by (simp_all add: vec4_add_assign_def vec4_sub_assign_def vec4_scale_assign_def vec4_div_assign_def
    vec4_Set_between_def vec4_Set_pointer_def vec4_add_def vec4_sub_def vec4_scale_def vec4_div_def
    vec4_between_def vec4_set_def mult.commute split: list.split)

lemma quat_members:
  "quat_add_assign q this = quat_add this q" "quat_sub_assign q this = quat_sub this q"
  "quat_scale_assign s this = quat_scale s this" "quat_div_assign s this = quat_div this s"
  "quat_Set_parts w v this = quat_parts w v" "quat_pointer xs = quat_set xs" "quat_cast this = Vector this"
  "quat_Dot_member this q = quat_Dot this q" "quat_SetInverse this = quat_Inverse this"
  "quat_SetZero this = quat_zero" "quat_SetIdentity this = quat_identity"
  by (simp_all add: quat_add_assign_def quat_sub_assign_def quat_scale_assign_def quat_div_assign_def
    quat_Set_parts_def quat_pointer_def quat_cast_def quat_Dot_member_def quat_SetInverse_def
    quat_SetZero_def quat_SetIdentity_def quat_add_def quat_sub_def quat_scale_def quat_div_def
    quat_parts_def quat_set_def Vector_def quat_Dot_def quat_Inverse_def quat_zero_def
    quat_identity_def mult.commute split: list.split)

lemma product_members:
  "vec2_Dot_member p q = Dot2 p q" "vec2_Perpendicular_member p = Perpendicular p"
  "vec2_Cross3D_member p q = Cross3D p q" "vec4_Dot_member a b = Dot4 a b" "vec4_Cross_member a b = Cross4 a b"
  by (simp_all add: vec2_Dot_member_def Dot2_def vec2_Perpendicular_member_def Perpendicular_def
    vec2_Cross3D_member_def Cross3D_def vec4_Dot_member_def Dot4_def vec4_Cross_member_def Cross4_def)

lemma length_members:
  "vec2_Length_member p = Length2 p" "vec2_LengthSquared_member p = LengthSquared2 p"
  "vec_Length_member v = Length v" "vec_LengthSquared_member v = LengthSquared v"
  "vec4_Length_member a = Length4 a" "vec4_LengthSquared_member a = LengthSquared4 a"
  "quat_Norm_member q = Norm q" "quat_NormSquared_member q = NormSquared q"
  by (simp_all add: vec2_Length_member_def vec2_LengthSquared_member_def vec_Length_member_def
    vec_LengthSquared_member_def vec4_Length_member_def vec4_LengthSquared_member_def
    quat_Norm_member_def quat_NormSquared_member_def Length2_def LengthSquared2_def Length_def
    LengthSquared_def Length4_def LengthSquared4_def Norm_def NormSquared_def)

lemma quat_neq_eq: "quat_neq p q = res_map Not (quat_eq p q)"
  by (auto simp: quat_neq_def quat_eq_def res_bind_def split: sum.splits)

text \<open>A copy, and an assignment whatever its operands are, gives the value copied.\<close>

lemma copies:
  "vec2_copy p = p" "vec_copy v = v" "vec4_copy a = a" "quat_copy q = q"
  "mat2_copy c = c" "mat3_copy b = b" "mat4_copy m = m"
  by (simp_all add: vec2_copy_def vec_copy_def vec4_copy_def quat_copy_def mat2_copy_def mat3_copy_def mat4_copy_def)

lemma assignments:
  "self \<longrightarrow> p0 = p \<Longrightarrow> vec2_assign self p p0 = p" "self \<longrightarrow> v0 = v \<Longrightarrow> vec_assign self v v0 = v"
  "self \<longrightarrow> a0 = a \<Longrightarrow> vec4_assign self a a0 = a" "self \<longrightarrow> q0 = q \<Longrightarrow> quat_assign self q q0 = q"
  "self \<longrightarrow> c0 = c \<Longrightarrow> mat2_assign self c c0 = c" "self \<longrightarrow> b0 = b \<Longrightarrow> mat3_assign self b b0 = b"
  "self \<longrightarrow> m0 = m \<Longrightarrow> mat4_assign self m m0 = m"
  by (simp_all add: vec2_assign_def vec_assign_def vec4_assign_def quat_assign_def mat2_assign_def
    mat3_assign_def mat4_assign_def)

section \<open>The laws of a reference\<close>

text \<open>
  Reading through a reference after a write through it gives what was written, writing back what was read
  changes nothing, and of two writes the second remains.
\<close>

locale reference_to =
  fixes get :: "'s \<Rightarrow> 'v" and put :: "'v \<Rightarrow> 's \<Rightarrow> 's"
  assumes get_put: "get (put v s) = v"
    and put_get: "put (get s) s = s"
    and put_put: "put w (put v s) = put w s"
begin

lemma put_inject: "put v s = put w s \<longleftrightarrow> v = w"
  by (metis get_put)

lemma put_same: "put v s = s \<longleftrightarrow> v = get s"
  by (metis get_put put_get)

text \<open>A compound assignment through the reference.\<close>

lemma update_twice: "put (g (get (put (f (get s)) s))) (put (f (get s)) s) = put (g (f (get s))) s"
  by (simp add: get_put put_put)

end

interpretation quat_ref: reference_to Vector Vector_put
  by unfold_locales (simp_all add: Vector_def Vector_put_def)

interpretation vec4_ref2: reference_to Vector2 Vector2_put
  by unfold_locales (simp_all add: Vector2_def Vector2_put_def)

interpretation vec4_ref3: reference_to Vector3 Vector3_put
  by unfold_locales (simp_all add: Vector3_def Vector3_put_def)

interpretation x_ref: reference_to XAxis XAxis_put
  by unfold_locales (simp_all add: XAxis_def XAxis_put_def)

interpretation y_ref: reference_to YAxis YAxis_put
  by unfold_locales (simp_all add: YAxis_def YAxis_put_def)

interpretation z_ref: reference_to ZAxis ZAxis_put
  by unfold_locales (simp_all add: ZAxis_def ZAxis_put_def)

interpretation position_ref: reference_to Position Position_put
  by unfold_locales (simp_all add: Position_def Position_put_def)

interpretation x2_ref: reference_to XAxis2D XAxis2D_put
  by unfold_locales (simp_all add: XAxis2D_def XAxis2D_put_def)

interpretation y2_ref: reference_to YAxis2D YAxis2D_put
  by unfold_locales (simp_all add: YAxis2D_def YAxis2D_put_def)

interpretation position2_ref: reference_to Position2D Position2D_put
  by unfold_locales (simp_all add: Position2D_def Position2D_put_def)

text \<open>The references, against the getters and setters by value.\<close>

lemma references_agree:
  "Position m = GetPosition m" "Position_put v m = SetPosition v m"
  "Position2D b = GetPosition2D b" "Position2D_put p b = SetPosition2D p b"
  by (simp_all add: Position_def GetPosition_def Position_put_def SetPosition_def
    Position2D_def GetPosition2D_def Position2D_put_def SetPosition2D_def split: matrix4.split matrix3.split)

lemma rows_agree:
  "mat2_row c i = GetRow2 i c" "mat2_row_put i p c = SetRow2 i p c"
  "mat3_row_put i v b = SetRow3 i v b" "mat4_row_put i a m = SetRow4 i a m"
  by (auto simp: mat2_row_def GetRow2_def mat2_row_put_def SetRow2_def mat3_row_put_def SetRow3_def
    mat4_row_put_def SetRow4_def mat_fill_def mat_at_def mat_rows_def mat3_fill_def mat3_at_def mat3_rows_def numeral_nat
    less_Suc_eq_le le_Suc_eq)

text \<open>What is read by index is what was written; other elements keep their values; out of range is undefined.\<close>

lemma vec4_index_written:
  assumes "vec4_index_put i f v = Inr w"
  shows "vec4_index w j = (if j = i then Inr f else vec4_index v j)"
  using assms by (auto simp: vec4_index_put_def vec4_index_def Let_def less_Suc_eq numeral_nat split: if_splits)

lemma quat_index_written:
  assumes "quat_index_put i f q = Inr r"
  shows "quat_index r j = (if j = i then Inr f else quat_index q j)" "q_w r = q_w q"
  using assms by (auto simp: quat_index_put_def quat_index_def Let_def less_Suc_eq numeral_nat split: if_splits)

lemma element_getters:
  "GetPosition m = CVector3 (GetX4 m) (GetY4 m) (GetZ4 m)"
  "GetScale m = CVector3 (GetScaleX4 m) (GetScaleY4 m) (GetScaleZ4 m)"
  "GetPosition2D b = CVector2 (GetX2D b) (GetY2D b)"
  "GetScale3 b = CVector3 (GetScaleX3 b) (GetScaleY3 b) (GetScaleZ3 b)"
  "GetScale2D b = CVector2 (GetScaleX2D b) (GetScaleY2D b)"
  "GetScale2 c = CVector2 (GetScaleX2 c) (GetScaleY2 c)"
  by (simp_all add: GetPosition_def GetX4_def GetY4_def GetZ4_def GetScale_def GetScaleX4_def
    GetScaleY4_def GetScaleZ4_def GetPosition2D_def GetX2D_def GetY2D_def GetScale3_def GetScaleX3_def
    GetScaleY3_def GetScaleZ3_def GetScale2D_def GetScaleX2D_def GetScaleY2D_def GetScale2_def
    GetScaleX2_def GetScaleY2_def)

end
