(* ===== verification/Affine2D_Properties.thy ===== *)
theory Affine2D_Properties
  imports Matrix3_Properties Vector_Members
begin

text \<open>
  The transformations of the plane refine those of space that leave the third axis alone, and the 2x2
  matrices refine them; what the inverses and the facing operations of the plane really compute; and
  the agreement of the variants of an operation, over all sizes of matrix.
\<close>

section \<open>Transformations of the plane as transformations of space\<close>

definition planar :: "matrix3 \<Rightarrow> matrix4" where
  "planar m = CMatrix4x4
     (f00 m) (f01 m) 0 0
     (f10 m) (f11 m) 0 0
     0 0 1 0
     (f20 m) (f21 m) 0 1"

definition lift2 :: "float32 \<Rightarrow> vector2 \<Rightarrow> vector3" where
  "lift2 z v = CVector3 (p_x v) (p_y v) z"

definition affine2D :: "matrix3 \<Rightarrow> bool" where
  "affine2D m \<longleftrightarrow> f02 m = 0 \<and> f12 m = 0 \<and> f22 m = 1"

lemma planar_products:
  "planar (MultiplyAffine2D a b) = MultiplyAffine (planar a) (planar b)"
  "affine2D a \<Longrightarrow> affine2D b \<Longrightarrow> MultiplyAffine2D a b = mat3_mul a b"
  "TransformPoint (planar m) (lift2 0 p) = lift2 0 (TransformPoint2D p m)"
  "TransformVector (planar m) (lift2 0 v) = lift2 0 (TransformVector2D v m)"
  by (simp_all add: planar_def MultiplyAffine2D_def MultiplyAffine_def mat3_mul_def affine2D_def
     TransformPoint_def TransformVector_def TransformPoint2D_def TransformVector2D_def lift2_def Let_def)

lemma planar_elementary:
  "planar (MatrixTranslation2D t) = MatrixTranslation (lift2 0 t)"
  "planar (MatrixRotation2D a) = MatrixRotationZ a"
  "planar (MatrixScaling2D s) = MatrixScaling (lift2 1 s)"
  "planar (MatrixScaling2D_uniform x) = MatrixScaling (CVector3 x x 1)"
  "planar (mat3_position2D t this) = MatrixTranslation (lift2 0 t)"
  by (cases this; simp add: planar_def MatrixTranslation2D_def MatrixTranslation_def lift2_def MatrixRotation2D_def
     MatrixRotationZ_def MatrixScaling2D_def MatrixScaling_def MatrixScaling2D_uniform_def mat3_position2D_def
     SinCos_def Let_def)+

lemma planar_affine:
  "planar (MakeAffine2D t a s this) = mat_euler (lift2 0 t) (CVector3 0 0 a) r (lift2 1 s)"
  by (cases this; cases r; simp add: planar_def MakeAffine2D_def mat_euler_def scale_rows_def MatrixRotation_def
    SinCos_def lift2_def Let_def)

lemma planar_steps:
  "planar (Move2D v m) = mat_mul (planar m) (MatrixTranslation (lift2 0 v))"
  "planar (MoveLocal2DWithScaling v m) = mat_mul (MatrixTranslation (lift2 0 v)) (planar m)"
  "planar (Scale2D v m) = mat_mul (MatrixScaling (lift2 1 v)) (planar m)"
  "planar (Rotate2D a m) = mat_mul (planar m) (MatrixRotationZ a)"
  "planar (RotateLocal2DUnscaled a m) = mat_mul (MatrixRotationZ a) (planar m)"
  by (cases m; simp add: planar_def Move2D_def MoveLocal2DWithScaling_def Scale2D_def Rotate2D_def RotateLocal2DUnscaled_def
     mat_mul_def MatrixTranslation_def MatrixScaling_def MatrixRotationZ_def SinCos_def lift2_def Let_def algebra_simps)+

lemma plane_round_trip:
  assumes "kfEpsilon \<le> p_x s" "kfEpsilon \<le> p_y s" "- pi < a" "a \<le> pi"
  shows "DecomposeAffine2D True (MakeAffine2D t a s this) = Inr (t, Some a, s)"
proof -
  obtain p q where s: "s = CVector2 p q" by (cases s)
  have pos: "0 < p" "0 < q" "\<not> IsZero p" "\<not> IsZero q" using assms by (auto simp: s IsZero_def kfEpsilon_def)
  have l: "0 \<le> p \<Longrightarrow> sqrt (cos a * p * (cos a * p) + sin a * p * (sin a * p)) = p"
    "0 \<le> p \<Longrightarrow> sqrt (sin a * p * (sin a * p) + cos a * p * (cos a * p)) = p" for p
    using scaled_length [of p "cos a" "sin a" 0] scaled_length [of p "sin a" "cos a" 0] sin_cos_one [of a]
    by (simp_all add: add.commute)
  show ?thesis using pos ATan_angle [OF assms(3,4)]
    by (cases this) (simp add: MakeAffine2D_def DecomposeAffine2D_def SinCos_def Let_def s l)
qed

section \<open>Matrices of the plane as its transformations\<close>

definition linear3 :: "matrix2 \<Rightarrow> matrix3" where
  "linear3 m = CMatrix3x3 (g00 m) (g01 m) 0 (g10 m) (g11 m) 0 0 0 1"

lemma linear3_products:
  "linear3 (mat2_mul a b) = mat3_mul (linear3 a) (linear3 b)"
  "linear3 (Transpose2 a) = Transpose3 (linear3 a)"
  "Transform2 v a = TransformVector2D v (linear3 a)"
  "res_map linear3 (Inverse2 a) = InverseAffine2D (linear3 a)"
  by (simp_all add: linear3_def mat2_mul_def mat3_mul_def Transpose2_def Transpose3_def Transform2_def
    TransformVector2D_def Inverse2_def InverseAffine2D_def Let_def)

lemma linear3_elementary:
  "linear3 Matrix2x2Identity = mat3_identity"
  "linear3 (Matrix2x2Rotation x) = MatrixRotation2D x"
  "linear3 (Matrix2x2Scaling s) = MatrixScaling2D s"
  "mat3_of_mat2 a (CVector2 0 0) this = linear3 a"
  "linear3 (MakeTransform2 x s a) = MakeAffine2D (CVector2 0 0) x s this"
  by (cases a; cases this; simp add: linear3_def Matrix2x2Identity_def mat3_identity_def Matrix2x2Rotation_def
    MatrixRotation2D_def Matrix2x2Scaling_def MatrixScaling2D_def mat3_of_mat2_def MakeTransform2_def
    MakeAffine2D_def SinCos_def Let_def)+

lemma linear3_scale:
  "GetScale2 a = GetScale2D (linear3 a)"
  "linear3 (SetScale2 s a) = SetScale2D s (linear3 a)"
  "linear3 (Rotate2 x a) = Rotate2D x (linear3 a)"
  "res_map linear3 (Orthogonalise2 a s) = Orthogonalise2x2 (linear3 a) s mat3_identity"
  by (cases a; simp add: linear3_def GetScale2_def GetScale2D_def SetScale2_def SetScale2D_def Rotate2_def Rotate2D_def
    Orthogonalise2_def Orthogonalise2x2_def mat3_identity_def SinCos_def Let_def)+

section \<open>Inverses of the plane\<close>

lemma InverseAffine2D_shape:
  assumes "affine2D m"
  obtains a b c d x y k where "m = CMatrix3x3 a b 0 c d 0 x y 1"
    "InverseAffine2D m = Inr n \<Longrightarrow> k * (a * d - b * c) = 1"
    "InverseAffine2D m = Inr n \<Longrightarrow> n = CMatrix3x3 (k * d) (k * b) 0 (k * c) (k * a) 0
      (- x * (k * d) - y * (k * c)) (- x * (k * b) - y * (k * a)) 1"
proof -
  obtain a b c d x y where m: "m = CMatrix3x3 a b 0 c d 0 x y 1" using assms by (cases m) (simp add: affine2D_def)
  show ?thesis
  proof (rule that [OF m])
    assume i: "InverseAffine2D m = Inr n"
    then have "\<not> IsZero (a * d - b * c)" by (auto simp: m InverseAffine2D_def Let_def split: if_splits)
    then have "a * d - b * c \<noteq> 0" by (rule nonzero)
    then show "1 / (a * d - b * c) * (a * d - b * c) = 1" by simp
    show "n = CMatrix3x3 (1 / (a * d - b * c) * d) (1 / (a * d - b * c) * b) 0 (1 / (a * d - b * c) * c)
      (1 / (a * d - b * c) * a) 0 (- x * (1 / (a * d - b * c) * d) - y * (1 / (a * d - b * c) * c))
      (- x * (1 / (a * d - b * c) * b) - y * (1 / (a * d - b * c) * a)) 1"
      using i by (auto simp: m InverseAffine2D_def Let_def split: if_splits)
  qed
qed

lemma InverseAffine2D_inverse:
  assumes "affine2D m" "InverseAffine2D m = Inr n"
  shows "mat3_mul m n = mat3_identity \<longleftrightarrow> f01 m = 0 \<and> f10 m = 0"
proof -
  obtain a b c d x y k where m: "m = CMatrix3x3 a b 0 c d 0 x y 1" and kd: "k * (a * d - b * c) = 1"
    and n: "n = CMatrix3x3 (k * d) (k * b) 0 (k * c) (k * a) 0 (- x * (k * d) - y * (k * c)) (- x * (k * b) - y * (k * a)) 1"
    using InverseAffine2D_shape [OF assms(1), of n] assms(2) by metis
  have "k \<noteq> 0" using kd by auto
  have "b = 0 \<and> c = 0" if h: "a * (k * d) + b * (k * c) = 1" "a = 0 \<or> b = 0 \<or> k = 0" "c = 0 \<or> d = 0 \<or> k = 0"
  proof -
    have "a * k * d = 1" using h(1) kd by algebra
    then show ?thesis using h(2,3) \<open>k \<noteq> 0\<close> by auto
  qed
  moreover have "a * (k * d) + b * (k * c) = 1 \<and> c * (k * b) + d * (k * a) = 1" if "b = 0 \<and> c = 0"
    using kd that by (simp add: ac_simps)
  moreover have "mat3_mul m n = mat3_identity \<longleftrightarrow> a * (k * d) + b * (k * c) = 1 \<and> (a = 0 \<or> b = 0 \<or> k = 0) \<and>
      (c = 0 \<or> d = 0 \<or> k = 0) \<and> c * (k * b) + d * (k * a) = 1"
    by (simp add: m n mat3_mul_def mat3_identity_def Let_def)
  ultimately show ?thesis by (simp only: m matrix3.sel) blast
qed

text \<open>The in-place inverse reads \<open>e20\<close> for the second element of the position after it has been overwritten.\<close>

lemma InvertAffine2D_order:
  "InvertAffine2D (CMatrix3x3 0 1 0 (- 1) 0 0 1 0 1) \<noteq> InverseAffine2D (CMatrix3x3 0 1 0 (- 1) 0 0 1 0 1)"
  by (simp add: InvertAffine2D_def InverseAffine2D_def Let_def IsZero_def kfEpsilon_def)

section \<open>Facing in the plane\<close>

definition det2D :: "matrix3 \<Rightarrow> float32" where
  "det2D m = f00 m * f11 m - f01 m * f10 m"

lemma vec2_Normalise_unit:
  assumes "\<not> vec2_IsZero (vec2_Normalise v)"
  shows "p_x (vec2_Normalise v) * p_x (vec2_Normalise v) + p_y (vec2_Normalise v) * p_y (vec2_Normalise v) = 1"
proof -
  obtain x y where v: "v = CVector2 x y" by (cases v)
  have nz: "\<not> IsZero (x * x + y * y)"
    using assms by (auto simp: v vec2_Normalise_def vec2_IsZero_def IsZero_def kfEpsilon_def Let_def split: if_splits)
  then have "InvSqrt (x * x + y * y) * InvSqrt (x * x + y * y) * (x * x + y * y) = 1"
    by (intro InvSqrt_inverse not_IsZero_pos) simp_all
  then show ?thesis using nz by (simp add: v vec2_Normalise_def Let_def) algebra
qed

text \<open>The four shapes of the result, for an axis \<open>(a, b)\<close> and the scale \<open>(p, q)\<close> the matrix had.\<close>

definition faced2D :: "bool \<Rightarrow> bool \<Rightarrow> float32 \<times> float32 \<Rightarrow> float32 \<times> float32 \<Rightarrow> matrix3 \<Rightarrow> matrix3" where
  "faced2D y lh axis scale m =
     (let (a, b) = axis; (p, q) = scale; u = (if y = lh then 1 else - 1)
      in if y then CMatrix3x3 (u * (b * q * p)) (- u * (a * q * p)) (f02 m) (a * q) (b * q) (f12 m) (f20 m) (f21 m) (f22 m)
         else CMatrix3x3 (a * p) (b * p) (f02 m) (- u * (b * p * q)) (u * (a * p * q)) (f12 m) (f20 m) (f21 m) (f22 m))"

lemma FaceDirection2D_faced:
  assumes "\<not> vec2_IsZero (vec2_Normalise d)"
  shows "FaceDirection2D d y lh m = faced2D y lh (p_x (vec2_Normalise d), p_y (vec2_Normalise d))
    (p_x (GetScale2D m), p_y (GetScale2D m)) m"
proof -
  obtain a b p q where "vec2_Normalise d = CVector2 a b" "GetScale2D m = CVector2 p q" using vector2.exhaust by metis
  then show ?thesis using assms
    by (cases m; cases y; cases lh) (simp_all add: FaceDirection2D_def faced2D_def Let_def)
qed

lemma FaceTarget2D_FaceDirection2D: "FaceTarget2D t y lh m = FaceDirection2D (vec2_sub t (GetPosition2D m)) y lh m"
  by (simp add: FaceTarget2D_def FaceDirection2D_def)

lemma faced2D:
  assumes "a * a + b * b = 1" "0 < p" "0 < q"
  shows "GetScale2D (faced2D y lh (a, b) (p, q) m) = (if y then CVector2 (p * q) q else CVector2 p (p * q))"
    "GetPosition2D (faced2D y lh (a, b) (p, q) m) = GetPosition2D m"
    "0 < det2D (faced2D y lh (a, b) (p, q) m) \<longleftrightarrow> y = lh"
proof -
  have l: "sqrt ((a * t) * (a * t) + (b * t) * (b * t)) = t" "sqrt ((b * t) * (b * t) + (a * t) * (a * t)) = t" if "0 < t" for t
    using scaled_length [of t a b 0] scaled_length [of t b a 0] assms(1) that by (simp_all add: add.commute)
  show "GetScale2D (faced2D y lh (a, b) (p, q) m) = (if y then CVector2 (p * q) q else CVector2 p (p * q))"
    using l [of p] l [of q] l [of "p * q"] assms(2,3)
    by (cases y; cases lh) (simp_all add: faced2D_def GetScale2D_def Let_def mult_ac)
  show "GetPosition2D (faced2D y lh (a, b) (p, q) m) = GetPosition2D m"
    by (simp add: faced2D_def GetPosition2D_def Let_def)
  have "det2D (faced2D y lh (a, b) (p, q) m) = (if y = lh then 1 else - 1) * (if y then p * q * q else p * p * q)"
    unfolding det2D_def faced2D_def using assms(1) by (cases y; cases lh; simp add: Let_def; algebra)
  moreover have "0 < p * q * q" "0 < p * p * q" using assms(2,3) by simp_all
  ultimately show "0 < det2D (faced2D y lh (a, b) (p, q) m) \<longleftrightarrow> y = lh" by auto
qed

section \<open>Comparison\<close>

text \<open>Two 2x2 matrices that differ in one element beside the diagonal are neither equal nor unequal.\<close>

lemma mat2_neq_gap:
  assumes "AreEqual b c = Inr False"
  shows "mat2_eq (CMatrix2x2 a b d e) (CMatrix2x2 a c d e) = Inr False"
    "mat2_neq (CMatrix2x2 a b d e) (CMatrix2x2 a c d e) = Inr False"
  using assms by (simp_all add: mat2_eq_def mat2_neq_def res_and_def res_or_def differ_def)

section \<open>Variants of an operation\<close>

lemmas make4 = MakeIdentity4_def MakeTranslation4_def MakeRotationX4_def MakeRotationY4_def MakeRotationZ4_def
  MakeScaling4_def MakeScaling4_uniform_def MatrixIdentity_def mat_identity_def MatrixTranslation_def MatrixRotationX_def
  MatrixRotationY_def MatrixRotationZ_def MatrixScaling_def MatrixScaling_uniform_def mat4_position_def

lemma make4_elementary:
  "MakeIdentity4 t = mat_identity" "MatrixIdentity = mat_identity" "MakeTranslation4 v t = MatrixTranslation v"
  "mat4_position v t = MatrixTranslation v" "MakeRotationX4 x t = MatrixRotationX x"
  "MakeRotationY4 x t = MatrixRotationY x" "MakeRotationZ4 x t = MatrixRotationZ x"
  "MakeScaling4 v t = MatrixScaling v" "MakeScaling4_uniform x t = MatrixScaling (CVector3 x x x)"
  "MatrixScaling_uniform x = MatrixScaling (CVector3 x x x)"
  by (cases t; simp add: make4 SinCos_def Let_def)+

lemma make4_angles: "MakeRotation4 v r t = MatrixRotation v r"
  by (cases t; cases r) (simp_all add: MakeRotation4_def MatrixRotation_def SinCos_def Let_def)

lemma make4_axis: "MakeRotation4_axis v x t = MatrixRotation_axis v x"
  by (cases t) (simp add: MakeRotation4_axis_def MatrixRotation_axis_def SinCos_def Let_def)

lemma scale_rows_case: "(case m of CMatrix4x4 a00 a01 a02 a03 a10 a11 a12 a13 a20 a21 a22 a23 a30 a31 a32 a33 \<Rightarrow>
    CMatrix4x4 (a00 * v_x s) (a01 * v_x s) (a02 * v_x s) a03 (a10 * v_y s) (a11 * v_y s) (a12 * v_y s) a13
      (a20 * v_z s) (a21 * v_z s) (a22 * v_z s) a23 (v_x p) (v_y p) (v_z p) a33) = scale_rows p s m"
  by (cases m) (simp add: scale_rows_def)

lemma make4_affine:
  "MakeAffineEuler p v r s t = mat_euler p v r s" "MakeAffineQuaternion q p s t = mat_quaternion q p s"
  "MakeAffineAxisAngle v x p s t = mat_axis_angle v x p s"
proof -
  show "MakeAffineEuler p v r s t = mat_euler p v r s"
    unfolding MakeAffineEuler_def make4_angles Let_def scale_rows_case mat_euler_def ..
  show "MakeAffineQuaternion q p s t = mat_quaternion q p s"
    by (cases t) (simp add: MakeAffineQuaternion_def mat_quaternion_def Let_def)
  show "MakeAffineAxisAngle v x p s t = mat_axis_angle v x p s"
    unfolding MakeAffineAxisAngle_def make4_axis Let_def mat_axis_angle_def
    by (cases "MatrixRotation_axis v x") (simp_all add: scale_rows_def split: matrix4.split)
qed

lemma inplace4_variants:
  "mat4_scale_assign x t = mat_scale x t" "mat4_scale_left x t = mat_scale x t" "mat4_div_assign x t = mat_div t x"
  "Orthogonalise3x3_assign s t = Orthogonalise3x3 t s" "SetScale4_uniform x t = SetScale (CVector3 x x x) t"
  "SetScaleZ4 (v_z s) (SetScaleY4 (v_y s) (SetScaleX4 (v_x s) t)) = SetScale s t"
  "SetRows4_vec3 a b c d t = mat_rows3 a b c d True" "SetColumns4_vec3 a b c d t = mat_rows3 a b c d False"
  "SetRows4 k l m n t = mat4_rows k l m n True t" "SetColumns4 k l m n t = mat4_rows k l m n False t"
  by (cases t; simp add: mat4_scale_assign_def mat_scale_def mat4_scale_left_def mat4_div_assign_def mat_div_def
    Orthogonalise3x3_assign_def Orthogonalise3x3_def SetScale4_uniform_def SetScale_def SetScaleX4_def SetScaleY4_def
    SetScaleZ4_def rescale_factor_def SetRows4_vec3_def SetColumns4_vec3_def mat_rows3_def SetRows4_def SetColumns4_def
    mat4_rows_def Let_def)+

lemma Set4_pointer: "Set4_pointer xs b t = mat_set xs b"
  by (cases t) (simp add: Set4_pointer_def mat_set_def mat_fill_def numeral_2_eq_2)

lemma Transform4_affine:
  "vec4_mul_mat v m = Transform4 v m" "mat_mul_vec4 m v = Transform4 v (Transpose m)"
  "affine m \<Longrightarrow> Transform4 (vec4_of_vec3 u 1) m = vec4_of_vec3 (TransformPoint m u) 1"
  "affine m \<Longrightarrow> Transform4 (vec4_of_vec3 u 0) m = vec4_of_vec3 (TransformVector m u) 0"
  by (simp_all add: vec4_mul_mat_def Transform4_def mat_mul_vec4_def Transpose_def affine_def vec4_of_vec3_def
    TransformPoint_def TransformVector_def Let_def mult.commute)

lemma inplace2_variants:
  "mat2_mul_assign self t m = mat2_mul (if self then m else t) m"
  "mat2_scale_assign x t = mat2_scale t x" "mat2_scale_left x t = mat2_scale t x" "mat2_div_assign x t = mat2_div t x"
  "Transpose2_assign t = Transpose2 t" "Invert2 t = Inverse2 t" "Orthogonalise2_assign s t = Orthogonalise2 t s"
  "MakeIdentity2 t = Matrix2x2Identity" "MakeRotation2 x t = Matrix2x2Rotation x" "MakeScaling2 s t = Matrix2x2Scaling s"
  by (cases t; simp add: mat2_mul_assign_def mat2_mul_def mat2_scale_assign_def mat2_scale_def mat2_scale_left_def
    mat2_div_assign_def mat2_div_def Transpose2_assign_def Transpose2_def Invert2_def Inverse2_def Orthogonalise2_assign_def
    Orthogonalise2_def MakeIdentity2_def Matrix2x2Identity_def MakeRotation2_def Matrix2x2Rotation_def MakeScaling2_def
    Matrix2x2Scaling_def SinCos_def Let_def)+

lemma fill3_variants:
  "mat3_euler v r s t = mat3_euler v r s u" "mat3_quaternion q s t = mat3_quaternion q s u"
  by (simp_all only: linear4_transforms flip: linear4_inject)

lemma plane_variants:
  "affine2D t \<Longrightarrow> affine2D m \<Longrightarrow> MultiplyAffine2D_assign self t m = mat3_mul (if self then m else t) m"
  "Orthogonalise2x2_assign s t = Orthogonalise2x2 t s t"
  "MakeTranslation2D v t = MatrixTranslation2D v" "MakeRotation2D x t = MatrixRotation2D x"
  "MakeScaling2D s t = MatrixScaling2D s" "MakeAffine2D v x s t = mat3_affine2D v x s u"
  by (cases t; cases u; simp add: MultiplyAffine2D_assign_def MultiplyAffine2D_def mat3_mul_def affine2D_def
    Orthogonalise2x2_assign_def Orthogonalise2x2_def MakeTranslation2D_def MatrixTranslation2D_def MakeRotation2D_def
    MatrixRotation2D_def MakeScaling2D_def MatrixScaling2D_def MakeAffine2D_def mat3_affine2D_def SinCos_def Let_def)+

section \<open>Properties\<close>

text \<open>
  The affine transformations of the plane are transformations of space that leave the third axis
  alone, for points, vectors, products, the elementary transformations, the constructor from position,
  angle and scale in any order of rotations, and the steps in place; and the 2x2 matrices are the
  transformations of the plane that keep the origin, for their products, inverses, scales and
  constructors.
\<close>

lemma plane_refines:
  "planar (MultiplyAffine2D a b) = MultiplyAffine (planar a) (planar b) \<and>
   TransformPoint (planar a) (lift2 0 p) = lift2 0 (TransformPoint2D p a) \<and>
   TransformVector (planar a) (lift2 0 p) = lift2 0 (TransformVector2D p a) \<and>
   planar (MatrixTranslation2D p) = MatrixTranslation (lift2 0 p) \<and>
   planar (MatrixRotation2D x) = MatrixRotationZ x \<and>
   planar (MatrixScaling2D p) = MatrixScaling (lift2 1 p) \<and>
   planar (MakeAffine2D p x s this) = mat_euler (lift2 0 p) (CVector3 0 0 x) order (lift2 1 s) \<and>
   planar (Move2D p a) = mat_mul (planar a) (MatrixTranslation (lift2 0 p)) \<and>
   planar (MoveLocal2DWithScaling p a) = mat_mul (MatrixTranslation (lift2 0 p)) (planar a) \<and>
   planar (Scale2D p a) = mat_mul (MatrixScaling (lift2 1 p)) (planar a) \<and>
   planar (Rotate2D x a) = mat_mul (planar a) (MatrixRotationZ x) \<and>
   planar (RotateLocal2DUnscaled x a) = mat_mul (MatrixRotationZ x) (planar a) \<and>
   linear3 (mat2_mul c d) = mat3_mul (linear3 c) (linear3 d) \<and>
   linear3 (Transpose2 c) = Transpose3 (linear3 c) \<and>
   res_map linear3 (Inverse2 c) = InverseAffine2D (linear3 c) \<and>
   linear3 (Matrix2x2Rotation x) = MatrixRotation2D x \<and>
   linear3 (SetScale2 p c) = SetScale2D p (linear3 c) \<and> GetScale2 c = GetScale2D (linear3 c) \<and>
   Transform2 p c = TransformVector2D p (linear3 c)"
  by (intro conjI planar_products planar_elementary planar_affine planar_steps linear3_products linear3_elementary linear3_scale)

text \<open>
  The inverse of a transformation of the plane, and that of a 2x2 matrix, forgets to negate the two
  elements beside the diagonal: what it returns is an inverse exactly when both are zero, so never for
  a rotation or a shear.
\<close>

lemma plane_inverse:
  assumes "affine2D m" "InverseAffine2D m = Inr n" and "Inverse2 c = Inr d"
  shows "(mat3_mul m n = mat3_identity) = (f01 m = 0 \<and> f10 m = 0) \<and>
    (mat2_mul c d = mat2_identity) = (g01 c = 0 \<and> g10 c = 0)"
proof
  show "(mat3_mul m n = mat3_identity) = (f01 m = 0 \<and> f10 m = 0)"
    using assms(1,2) by (rule InverseAffine2D_inverse)
  have "InverseAffine2D (linear3 c) = Inr (linear3 d)" using linear3_products(4) [of c] assms(3) by simp
  moreover have "affine2D (linear3 c)" by (simp add: affine2D_def linear3_def)
  moreover have "mat2_mul c d = mat2_identity \<longleftrightarrow> linear3 (mat2_mul c d) = mat3_identity"
    by (simp add: linear3_def mat2_identity_def mat3_identity_def) (cases "mat2_mul c d"; simp)
  ultimately show "(mat2_mul c d = mat2_identity) = (g01 c = 0 \<and> g10 c = 0)"
    using InverseAffine2D_inverse [of "linear3 c" "linear3 d"] by (simp add: linear3_products) (simp add: linear3_def)
qed

text \<open>
  \<open>FaceTarget2D\<close> keeps the position but not the scale, which its comment promises: the axis that is
  derived from the facing one is scaled by both factors. And the flag for the handedness means the
  opposite for the two axes: the result preserves the orientation exactly when it faces with the
  second axis in a left-handed or with the first in a right-handed system.
\<close>

lemma face_plane:
  assumes "\<not> vec2_IsZero (vec2_Normalise (vec2_sub t (GetPosition2D m)))"
    and "GetScale2D m = CVector2 p q" "0 < p" "0 < q"
  shows "(let n = FaceTarget2D t bUseYAxis bLH m in
    GetPosition2D n = GetPosition2D m \<and>
    GetScale2D n = (if bUseYAxis then CVector2 (p * q) q else CVector2 p (p * q)) \<and>
    (0 < f00 n * f11 n - f01 n * f10 n) = (bUseYAxis = bLH))"
  using faced2D [OF vec2_Normalise_unit [OF assms(1)] assms(3,4), of bUseYAxis bLH m] assms(2)
  by (simp add: FaceTarget2D_FaceDirection2D FaceDirection2D_faced [OF assms(1)] det2D_def Let_def)

text \<open>
  The variants of an operation agree, over all sizes of matrix: one that changes a matrix in place
  computes what the one that returns a new matrix does, also when the argument is the matrix itself;
  one that fills a matrix does not depend on what it held; setting the three scales one after the other
  is setting them at once; writing a row or the position through a reference is setting it; and on
  affine matrices the short products, inverses and transformations are the general ones, failures
  included.
\<close>

lemma variants_agree:
  assumes "affine k" "affine l" "affine2D t" "affine2D m"
  shows "mat_mul_assign self k l = mat_mul (if self then l else k) l \<and>
    MultiplyAffine_assign self k l = mat_mul (if self then l else k) l \<and>
    MultiplyAffine k l = mat_mul k l \<and> InverseAffine l = Inverse l \<and>
    InvertRotTrans l = InverseRotTrans l \<and> InvertRotTransScale l = InverseRotTransScale l \<and>
    Transpose_assign l = Transpose l \<and> Orthogonalise3x3_assign s l = Orthogonalise3x3 l s \<and>
    SetScaleZ4 (v_z s) (SetScaleY4 (v_y s) (SetScaleX4 (v_x s) l)) = SetScale s l \<and>
    MakeRotation4 angles order k = MatrixRotation angles order \<and>
    MakeRotation4_axis axis x k = MatrixRotation_axis axis x \<and>
    MakeAffineEuler p angles order s k = mat_euler p angles order s \<and>
    MakeAffineQuaternion q p s k = mat_quaternion q p s \<and>
    MakeAffineAxisAngle axis x p s k = mat_axis_angle axis x p s \<and>
    Transform4 (vec4_of_vec3 p 1) l = vec4_of_vec3 (TransformPoint l p) 1 \<and>
    mat3_mul_assign self a b = mat3_mul (if self then b else a) b \<and>
    InvertRotScale a = InverseRotScale a \<and> Invert3 a = Inverse3 a \<and> Transpose3_assign a = Transpose3 a \<and>
    Orthogonalise3_assign s a = Orthogonalise3 a s \<and>
    MakeRotation3 angles order a = Matrix3x3Rotation angles order \<and>
    MakeRotation3_axis axis x a = Matrix3x3Rotation_axis axis x \<and>
    MakeTransformEuler angles order s a = mat3_euler angles order s b \<and>
    MakeTransformQuaternion q s a = mat3_quaternion q s b \<and>
    MultiplyAffine2D_assign self t m = mat3_mul (if self then m else t) m \<and>
    MakeAffine2D v x z a = mat3_affine2D v x z b \<and>
    mat2_mul_assign self c d = mat2_mul (if self then d else c) d \<and>
    Transpose2_assign c = Transpose2 c \<and> Invert2 c = Inverse2 c \<and> Orthogonalise2_assign v c = Orthogonalise2 c v \<and>
    Position_put p l = SetPosition p l \<and> mat4_row_put i r l = SetRow4 i r l \<and>
    mat3_row_put i s a = SetRow3 i s a \<and> mat2_row_put i v c = SetRow2 i v c \<and>
    Position2D_put v m = SetPosition2D v m"
  using matrix_variants [OF assms(1,2), of self] plane_variants(1) [OF assms(3,4), of self]
    fill3_variants(1) [of angles order s a b] fill3_variants(2) [of q s a b] Transform4_affine(3) [OF assms(2), of p]
  by (simp add: make4_angles make4_axis make4_affine inplace4_variants inplace3_variants make3_variants transform3_variants plane_variants inplace2_variants
    references_agree rows_agree)

end
