(* ===== verification/Timers.thy ===== *)
theory Timers
  imports Base_Math World
begin

text \<open>
  The timers (FrameTimer.h/.cpp, SynchronousTimer.h/.cpp) and the thread object of the controller
  (INetworkThread.h/.cpp). What the clocks of the platform return is an argument of each operation that
  reads them: the 64-bit counter of \<open>QueryPerformanceCounter\<close>, which does not overflow, and the
  wrapping milliseconds of \<open>timeGetTime\<close>; quotients are the real ones.
\<close>

section \<open>The frame timer\<close>

record frame_timer =
  ft_bUseHighRes :: bool
  ft_bRunning :: bool
  ft_HighResFreq :: int
  ft_HighResStart :: int
  ft_HighResLap :: int
  ft_HighResStop :: int
  ft_LowResStart :: u32
  ft_LowResLap :: u32
  ft_LowResStop :: u32

definition timer_Start :: "int \<Rightarrow> u32 \<Rightarrow> frame_timer \<Rightarrow> frame_timer" where
  "timer_Start hi lo t =
     (if ft_bRunning t then t
      else
        let t = t\<lparr>ft_bRunning := True\<rparr> in
        if ft_bUseHighRes t then
          t\<lparr>ft_HighResStart := ft_HighResStart t + (hi - ft_HighResStop t),
            ft_HighResLap := ft_HighResLap t + (hi - ft_HighResStop t)\<rparr>
        else
          t\<lparr>ft_LowResStart := ft_LowResStart t + (lo - ft_LowResStop t),
            ft_LowResLap := ft_LowResLap t + (lo - ft_LowResStop t)\<rparr>)"

definition timer_Stop :: "int \<Rightarrow> u32 \<Rightarrow> frame_timer \<Rightarrow> frame_timer" where
  "timer_Stop hi lo t =
     (if ft_bUseHighRes t then t\<lparr>ft_HighResStop := hi\<rparr> else t\<lparr>ft_LowResStop := lo\<rparr>)"

definition GetFrequency :: "frame_timer \<Rightarrow> float32" where
  "GetFrequency t = (if ft_bUseHighRes t then of_int (ft_HighResFreq t) else 1000)"

definition GetTime :: "int \<Rightarrow> u32 \<Rightarrow> frame_timer \<Rightarrow> float32" where
  "GetTime hi lo t =
     (if ft_bUseHighRes t then
        let newHighResTime = (if ft_bRunning t then hi else ft_HighResStop t)
        in of_int (newHighResTime - ft_HighResStart t) / GetFrequency t
      else
        let newLowResTime = (if ft_bRunning t then lo else ft_LowResStop t)
        in of_int (uint (newLowResTime - ft_LowResStart t)) / GetFrequency t)"

text \<open>Only the high resolution branch remembers the lap.\<close>

definition GetLapTime :: "int \<Rightarrow> u32 \<Rightarrow> frame_timer \<Rightarrow> float32 \<times> frame_timer" where
  "GetLapTime hi lo t =
     (if ft_bUseHighRes t then
        let newHighResTime = (if ft_bRunning t then hi else ft_HighResStop t)
        in (of_int (newHighResTime - ft_HighResLap t) / GetFrequency t, t\<lparr>ft_HighResLap := newHighResTime\<rparr>)
      else
        let newLowResTime = (if ft_bRunning t then lo else ft_LowResStop t)
        in (of_int (uint (newLowResTime - ft_LowResLap t)) / GetFrequency t, t))"

definition timer_Reset :: "int \<Rightarrow> u32 \<Rightarrow> frame_timer \<Rightarrow> frame_timer" where
  "timer_Reset hi lo t =
     (if ft_bUseHighRes t then t\<lparr>ft_HighResStart := hi, ft_HighResLap := hi, ft_HighResStop := hi\<rparr>
      else t\<lparr>ft_LowResStart := lo, ft_LowResLap := lo, ft_LowResStop := lo\<rparr>)"

text \<open>\<open>freq\<close> is what \<open>QueryPerformanceFrequency\<close> found; \<open>junk\<close> is the memory the object is built in.\<close>

definition timer_new :: "int option \<Rightarrow> frame_timer \<Rightarrow> int \<Rightarrow> u32 \<Rightarrow> frame_timer" where
  "timer_new freq junk hi lo =
     (let t = (case freq of None \<Rightarrow> junk\<lparr>ft_bUseHighRes := False\<rparr>
                | Some f \<Rightarrow> junk\<lparr>ft_bUseHighRes := True, ft_HighResFreq := f\<rparr>)
      in (timer_Reset hi lo t)\<lparr>ft_bRunning := True\<rparr>)"

section \<open>The synchronous timer\<close>

text \<open>
  A frame that took \<open>loop_time\<close> milliseconds: how long the destructor sleeps, with the rate as the divisor
  of a second. A wait that is not positive returns at once. The length of the frame is the sum.
\<close>

definition sync_sleep :: "u32 \<Rightarrow> int \<Rightarrow> int res" where
  "sync_sleep iRate loop_time =
     (if iRate = 0 then Inl Undefined
      else let desired_time = uint (1000 div iRate) in Inr (max 0 (desired_time - loop_time)))"

definition sync_frame :: "u32 \<Rightarrow> int \<Rightarrow> int res" where
  "sync_frame iRate loop_time = res_bind (sync_sleep iRate loop_time) (\<lambda>s. Inr (loop_time + s))"

lemma sync_frame_length:
  "iRate \<noteq> 0 \<Longrightarrow> sync_frame iRate loop_time = Inr (max loop_time (uint (1000 div iRate)))"
  by (simp add: sync_frame_def sync_sleep_def Let_def)

text \<open>Rates above a thousand per second do not wait at all.\<close>

lemma sync_frame_fast: "1000 < iRate \<Longrightarrow> 0 \<le> loop_time \<Longrightarrow> sync_frame iRate loop_time = Inr loop_time"
  by (subst sync_frame_length) (auto simp: word_less_nat_alt word_arith_nat_div)

section \<open>The thread object over time\<close>

inductive thread_reach :: "nat \<Rightarrow> net_thread \<Rightarrow> bool" where
  new: "thread_reach 0 (thread_new proc)"
| start: "thread_reach n t \<Longrightarrow> thread_Start created t = (c, u) \<Longrightarrow> thread_reach (if c then Suc n else n) u"
| finish: "thread_reach n t \<Longrightarrow> nt_hThread t \<Longrightarrow> thread_reach n (thread_finish t)"

text \<open>Whatever happens, at most one thread is ever created, and none after it once it has ended.\<close>

lemma thread_started_once: "thread_reach n t \<Longrightarrow> n = (if nt_hThread t then 1 else 0)"
  by (induction rule: thread_reach.induct) (auto simp: thread_new_def thread_Start_def thread_finish_def split: if_splits)

text \<open>A system that cannot create the thread leaves the object marked as running: it never tries again.\<close>

lemma thread_failed_start:
  assumes "thread_Start False (thread_new proc) = (c, t)"
  shows "\<not> c \<and> thread_Start created t = (False, t) \<and> nt_bRunning t"
  using assms by (auto simp: thread_Start_def thread_new_def)

section \<open>Properties\<close>

inductive timer_step :: "frame_timer \<Rightarrow> frame_timer \<Rightarrow> bool" where
  start: "timer_step t (timer_Start hi lo t)"
| stop: "timer_step t (timer_Stop hi lo t)"
| lap: "timer_step t (snd (GetLapTime hi lo t))"
| reset: "timer_step t (timer_Reset hi lo t)"

lemma timer_step_running: "timer_step t u \<Longrightarrow> ft_bRunning t \<Longrightarrow> ft_bRunning u"
  by (induction rule: timer_step.induct)
    (auto simp: timer_Start_def timer_Stop_def GetLapTime_def timer_Reset_def Let_def)

text \<open>
  The frame timer cannot be stopped: no operation clears its running mark, so in every state it can
  reach, stopping it changes neither the time nor the lap time that is read later, and starting it does nothing.
\<close>

lemma timer_never_stops:
  assumes "timer_step\<^sup>*\<^sup>* (timer_new freq junk h0 l0) t"
  shows "ft_bRunning t \<and> timer_Start hi lo t = t \<and>
    GetTime hi' lo' (timer_Stop hi lo t) = GetTime hi' lo' t \<and>
    fst (GetLapTime hi' lo' (timer_Stop hi lo t)) = fst (GetLapTime hi' lo' t)"
proof -
  have "ft_bRunning t"
    using assms
  proof (induction rule: rtranclp_induct)
    case base
    show ?case by (simp add: timer_new_def Let_def)
  next
    case (step t u)
    then show ?case by (simp add: timer_step_running)
  qed
  then show ?thesis
    by (simp add: timer_Start_def timer_Stop_def GetTime_def GetLapTime_def GetFrequency_def Let_def)
qed

definition blank_timer :: frame_timer where
  "blank_timer = \<lparr>ft_bUseHighRes = False, ft_bRunning = False, ft_HighResFreq = 0, ft_HighResStart = 0,
     ft_HighResLap = 0, ft_HighResStop = 0, ft_LowResStart = 0, ft_LowResLap = 0, ft_LowResStop = 0\<rparr>"

end
