(* ===== verification/Support.thy ===== *)
theory Support
  imports Prelude
begin

text \<open>
  Small helpers of the library: delimited strings (Utility.h/.cpp), the call stack of a fatal exception
  (CFatalException.h/.cpp), the vector with a lock (LockableVector.h) and the queue of messages for the
  application (MessageDispatcher.h/.cpp).
\<close>

section \<open>Delimited strings\<close>

text \<open>The first and the last position of a character of the second string in the first.\<close>

fun find_first_of :: "string \<Rightarrow> string \<Rightarrow> nat option" where
  "find_first_of [] cs = None"
| "find_first_of (x # xs) cs = (if x \<in> set cs then Some 0 else map_option Suc (find_first_of xs cs))"

definition find_last_of :: "string \<Rightarrow> string \<Rightarrow> nat option" where
  "find_last_of xs cs = map_option (\<lambda>i. length xs - 1 - i) (find_first_of (rev xs) cs)"

definition substr :: "string \<Rightarrow> size_t \<Rightarrow> string res" where
  "substr s pos = (if length s < unat pos then Inl Out_Of_Range else Inr (drop (unat pos) s))"

definition FirstDelimitedSubstr :: "string \<Rightarrow> string \<Rightarrow> string res" where
  "FirstDelimitedSubstr sList sDelimiter =
     (case find_first_of sList sDelimiter of
        None \<Rightarrow> Inr sList
      | Some firstDelimiter \<Rightarrow> substr sList (of_nat firstDelimiter - of_nat (length sDelimiter) + 1))"

definition LastDelimitedSubstr :: "string \<Rightarrow> string \<Rightarrow> string res" where
  "LastDelimitedSubstr sList sDelimiter =
     (case find_last_of sList sDelimiter of
        None \<Rightarrow> Inr sList
      | Some lastDelimiter \<Rightarrow> substr sList (of_nat lastDelimiter + 1))"

text \<open>
  The templates: \<open>ToString\<close> and \<open>FromString\<close> go through the operators \<open><<\<close> and \<open>>>\<close> of the type, which
  are arguments (a stream is what has been written, or what is left to read), and the default value.
\<close>

definition Swap_values :: "'a \<times> 'a \<Rightarrow> 'a \<times> 'a" where
  "Swap_values p = (let temp = fst p; s1 = snd p; s2 = temp in (s1, s2))"

definition ToString :: "('a \<Rightarrow> string \<Rightarrow> string) \<Rightarrow> 'a \<Rightarrow> string" where
  "ToString put convertFrom = put convertFrom []"

definition ToString_string :: "string \<Rightarrow> string" where
  "ToString_string convertFrom = convertFrom"

definition FromString :: "(string \<Rightarrow> 'a \<Rightarrow> 'a \<times> string) \<Rightarrow> 'a \<Rightarrow> string \<Rightarrow> 'a" where
  "FromString extract default_value convertFrom = fst (extract convertFrom default_value)"

lemma FromString_ToString:
  assumes "\<And>v d. fst (extract (put v []) d) = v"
  shows "FromString extract d (ToString put v) = v"
  by (simp add: FromString_def ToString_def assms)

lemma find_first_of_None: "find_first_of xs cs = None \<longleftrightarrow> set xs \<inter> set cs = {}"
  by (induction xs) auto

lemma find_first_of_append:
  "set ys \<inter> set cs = {} \<Longrightarrow> c \<in> set cs \<Longrightarrow> find_first_of (ys @ c # zs) cs = Some (length ys)"
  by (induction ys) auto

lemma find_last_of_append:
  "set zs \<inter> set cs = {} \<Longrightarrow> c \<in> set cs \<Longrightarrow> find_last_of (ys @ c # zs) cs = Some (length ys)"
  using find_first_of_append [of "rev zs" cs c "rev ys"] by (simp add: find_last_of_def)

lemma substr_Suc: "n < length s \<Longrightarrow> length s < 2 ^ 32 \<Longrightarrow> substr s (of_nat n + 1) = Inr (drop (Suc n) s)"
proof -
  assume n: "n < length s" "length s < 2 ^ 32"
  have "of_nat n + 1 = (of_nat (Suc n) :: size_t)" by simp
  moreover have "unat (of_nat (Suc n) :: size_t) = Suc n"
    using n by (simp add: unat_of_nat take_bit_nat_eq_self del: of_nat_Suc)
  ultimately show ?thesis using n by (simp add: substr_def del: of_nat_Suc)
qed

text \<open>The last part of a list is what follows the last delimiter.\<close>

lemma last_delimited:
  assumes "set zs \<inter> set cs = {}" "c \<in> set cs" "length ys + length zs + 1 < 2 ^ 32"
  shows "LastDelimitedSubstr (ys @ c # zs) cs = Inr zs"
  using assms substr_Suc [of "length ys" "ys @ c # zs"] by (simp add: LastDelimitedSubstr_def find_last_of_append)

text \<open>The first part of a list is not what comes before the first delimiter: it is all the rest instead.\<close>

lemma first_delimited_single:
  assumes "c \<notin> set ys" "length ys + length zs + 1 < 2 ^ 32"
  shows "FirstDelimitedSubstr (ys @ c # zs) [c] = Inr (c # zs)"
proof -
  have "unat (of_nat (length ys) :: size_t) = length ys" using assms(2) by (simp add: unat_of_nat)
  then show ?thesis
    using assms find_first_of_append [of ys "[c]" c zs] by (simp add: FirstDelimitedSubstr_def substr_def)
qed

text \<open>With several delimiters the position can fall below zero and wrap.\<close>

lemma first_delimited_wraps: "FirstDelimitedSubstr ''a,b'' '',;:'' = Inl Out_Of_Range"
  by (simp add: FirstDelimitedSubstr_def substr_def unsigned_minus_1_eq_mask mask_eq_exp_minus_1)

section \<open>The call stack of a fatal exception\<close>

record fatal_exception =
  fe_sDescription :: string
  fe_sFileName :: string
  fe_iLineNum :: int
  fe_sCallStack :: string

definition exception_new :: "string \<Rightarrow> string \<Rightarrow> int \<Rightarrow> fatal_exception" where
  "exception_new sDescription sFileName iLineNum =
     \<lparr>fe_sDescription = sDescription, fe_sFileName = sFileName, fe_iLineNum = iLineNum, fe_sCallStack = ''''\<rparr>"

definition AppendToCallStack :: "string \<Rightarrow> string \<Rightarrow> bool \<Rightarrow> fatal_exception \<Rightarrow> fatal_exception" where
  "AppendToCallStack sFunction sObject bRoot e =
     e\<lparr>fe_sCallStack := fe_sCallStack e @ sFunction @
        (if sObject \<noteq> '''' then ''['' @ sObject @ '']'' else '''') @ (if bRoot then '''' else '' <- '')\<rparr>"

definition exception_unhandled :: "string \<Rightarrow> string \<Rightarrow> string \<Rightarrow> fatal_exception" where
  "exception_unhandled sFileName sFunction sObject =
     AppendToCallStack sFunction sObject False (exception_new ''Unhandled Exception'' sFileName (- 1))"

text \<open>An exception passes the guards of the functions it leaves, innermost first; the sentry is the root.\<close>

fun unwind :: "(string \<times> string) list \<Rightarrow> fatal_exception \<Rightarrow> fatal_exception" where
  "unwind [] e = e"
| "unwind [(f, ob)] e = AppendToCallStack f ob True e"
| "unwind ((f, ob) # calls) e = unwind calls (AppendToCallStack f ob False e)"

definition frame_text :: "string \<times> string \<Rightarrow> string" where
  "frame_text c = fst c @ (if snd c \<noteq> '''' then ''['' @ snd c @ '']'' else '''')"

lemma AppendToCallStack_text:
  "fe_sCallStack (AppendToCallStack f ob r e) = fe_sCallStack e @ frame_text (f, ob) @ (if r then '''' else '' <- '')"
  by (simp add: AppendToCallStack_def frame_text_def)

fun joined :: "string list \<Rightarrow> string" where
  "joined [] = ''''"
| "joined [x] = x"
| "joined (x # xs) = x @ '' <- '' @ joined xs"

lemma unwind_text: "fe_sCallStack (unwind calls e) = fe_sCallStack e @ joined (map frame_text calls)"
  by (induction calls e rule: unwind.induct) (simp_all add: AppendToCallStack_text)

section \<open>The vector with a lock\<close>

text \<open>
  The lock is recursive: it counts how often its owner holds it. An operation of another thread
  waits for it, which is \<open>None\<close> here; giving up a lock one does not hold, and taking the
  last element of an empty vector, are undefined.
\<close>

record 'a lockable =
  lv_contents :: "'a list"
  lv_mutex :: "(nat \<times> nat) option"

definition lv_new :: "'a lockable" where
  "lv_new = \<lparr>lv_contents = [], lv_mutex = None\<rparr>"

definition safe_lock :: "nat \<Rightarrow> 'a lockable \<Rightarrow> 'a lockable option" where
  "safe_lock t v =
     (case lv_mutex v of
        None \<Rightarrow> Some (v\<lparr>lv_mutex := Some (t, 1)\<rparr>)
      | Some (owner, n) \<Rightarrow> if owner = t then Some (v\<lparr>lv_mutex := Some (t, n + 1)\<rparr>) else None)"

definition safe_unlock :: "nat \<Rightarrow> 'a lockable \<Rightarrow> 'a lockable res" where
  "safe_unlock t v =
     (case lv_mutex v of
        None \<Rightarrow> Inl Undefined
      | Some (owner, n) \<Rightarrow>
          if owner \<noteq> t then Inl Undefined
          else Inr (v\<lparr>lv_mutex := if n \<le> 1 then None else Some (t, n - 1)\<rparr>))"

text \<open>An operation under a \<open>lock_guard\<close>: the guard gives the lock up also when the operation throws.\<close>

definition guarded :: "nat \<Rightarrow> ('a list \<Rightarrow> ('b \<times> 'a list) res) \<Rightarrow> 'a lockable \<Rightarrow> (('b res \<times> 'a lockable) res) option" where
  "guarded t f v =
     map_option (\<lambda>v1.
       let (r, v2) = (case f (lv_contents v1) of
                        Inl e \<Rightarrow> (Inl e, v1)
                      | Inr (x, xs) \<Rightarrow> (Inr x, v1\<lparr>lv_contents := xs\<rparr>))
       in res_bind (safe_unlock t v2) (\<lambda>v3. Inr (r, v3))) (safe_lock t v)"

definition lv_push_back :: "'a \<Rightarrow> 'a list \<Rightarrow> (unit \<times> 'a list) res" where
  "lv_push_back x xs = Inr ((), xs @ [x])"

definition lv_back :: "'a list \<Rightarrow> ('a \<times> 'a list) res" where
  "lv_back xs = (if xs = [] then Inl Undefined else Inr (last xs, xs))"

text \<open>The argument of \<open>pop_back\<close> is not used.\<close>

definition lv_pop_back :: "'a \<Rightarrow> 'a list \<Rightarrow> (unit \<times> 'a list) res" where
  "lv_pop_back x xs = (if xs = [] then Inl Undefined else Inr ((), butlast xs))"

definition lv_at :: "nat \<Rightarrow> 'a list \<Rightarrow> ('a \<times> 'a list) res" where
  "lv_at i xs = (if i < length xs then Inr (xs ! i, xs) else Inl Out_Of_Range)"

definition lv_clear :: "'a list \<Rightarrow> (unit \<times> 'a list) res" where
  "lv_clear xs = Inr ((), [])"

definition lv_get_copy :: "'a list \<Rightarrow> ('a list \<times> 'a list) res" where
  "lv_get_copy xs = Inr (xs, xs)"

definition lock_free_for :: "nat \<Rightarrow> 'a lockable \<Rightarrow> bool" where
  "lock_free_for t v \<longleftrightarrow> (case lv_mutex v of None \<Rightarrow> True | Some (owner, n) \<Rightarrow> owner = t \<and> 0 < n)"

text \<open>
  An operation of a thread that may have the lock is the operation on the contents and leaves the lock as
  it was, on its exceptions too; any other thread has to wait. The note in the header that the vector must not be used
  while it is locked is about another kind of lock.
\<close>

lemma guarded_free:
  assumes "lock_free_for t v"
  shows "guarded t f v = Some (Inr (case f (lv_contents v) of
    Inl e \<Rightarrow> (Inl e, v) | Inr (x, xs) \<Rightarrow> (Inr x, v\<lparr>lv_contents := xs\<rparr>)))"
  using assms
  by (auto simp: guarded_def safe_lock_def safe_unlock_def lock_free_for_def Let_def split: option.splits sum.splits prod.splits)

lemma guarded_waits: "lv_mutex v = Some (owner, n) \<Longrightarrow> owner \<noteq> t \<Longrightarrow> guarded t f v = None"
  by (simp add: guarded_def safe_lock_def)

lemma lock_nests: "lock_free_for t v \<Longrightarrow> safe_lock t v = Some v' \<Longrightarrow> lock_free_for t v' \<and> safe_unlock t v' = Inr v"
  by (cases v) (auto simp: lock_free_for_def safe_lock_def safe_unlock_def split: option.splits if_splits)

section \<open>The message dispatcher\<close>

datatype message_type = kMessageType_Print | kMessageType_Warn | kMessageType_Error

type_synonym message = "message_type \<times> string"

record dispatcher =
  md_Messages :: "message list"

definition dispatcher_Add :: "message_type \<Rightarrow> string \<Rightarrow> dispatcher \<Rightarrow> dispatcher" where
  "dispatcher_Add ty msg d = d\<lparr>md_Messages := md_Messages d @ [(ty, msg)]\<rparr>"

text \<open>
  The static variant with a format: \<open>format\<close> stands for the formatting of the platform, the controller's
  queue is \<open>None\<close> when there is no controller, and then the text goes to the console.
\<close>

definition dispatcher_Add_static ::
  "(string \<Rightarrow> string) \<Rightarrow> message_type \<Rightarrow> string \<Rightarrow> dispatcher option \<Rightarrow> string list \<Rightarrow> dispatcher option \<times> string list" where
  "dispatcher_Add_static format ty psFormat queue console =
     (let msg = format psFormat in
      case queue of
        Some d \<Rightarrow> (Some (dispatcher_Add ty msg d), console)
      | None \<Rightarrow> (None, console @ [''[NETF] '' @ msg]))"

definition GetNextMessage :: "dispatcher \<Rightarrow> message option" where
  "GetNextMessage d = (case md_Messages d of [] \<Rightarrow> None | m # _ \<Rightarrow> Some m)"

definition PopMessageQueue :: "dispatcher \<Rightarrow> dispatcher res" where
  "PopMessageQueue d = (case md_Messages d of [] \<Rightarrow> Inl Undefined | _ # ms \<Rightarrow> Inr (d\<lparr>md_Messages := ms\<rparr>))"

text \<open>
  The contract of a queue: what is put in comes out in the same order. The application's loop, which takes
  the next message and then pops it, is the client; it is not part of the repository.
\<close>

locale fifo =
  fixes put :: "'a \<Rightarrow> 'q \<Rightarrow> 'q"
    and front :: "'q \<Rightarrow> 'a option"
    and pop :: "'q \<Rightarrow> 'q res"
    and items :: "'q \<Rightarrow> 'a list"
  assumes put_items: "items (put x q) = items q @ [x]"
    and front_items: "front q = (case items q of [] \<Rightarrow> None | x # _ \<Rightarrow> Some x)"
    and pop_items: "items q = x # xs \<Longrightarrow> \<exists>q'. pop q = Inr q' \<and> items q' = xs"
begin

lemma puts_items: "items (fold put xs q) = items q @ xs"
  by (induction xs arbitrary: q) (simp_all add: put_items)

lemma pops_items: "n \<le> length (items q) \<Longrightarrow> \<exists>q'. ((\<lambda>r. res_bind r pop) ^^ n) (Inr q) = Inr q' \<and> items q' = drop n (items q)"
proof (induction n)
  case (Suc n)
  then obtain q' where q': "((\<lambda>r. res_bind r pop) ^^ n) (Inr q) = Inr q'" "items q' = drop n (items q)" by auto
  have "items q' = items q ! n # drop (Suc n) (items q)" using Suc.prems q'(2) by (simp add: Cons_nth_drop_Suc)
  from pop_items [OF this] q'(1) show ?case by simp
qed simp

lemma in_order:
  assumes "i < length xs"
  shows "\<exists>q'. ((\<lambda>r. res_bind r pop) ^^ (length (items q) + i)) (Inr (fold put xs q)) = Inr q' \<and> front q' = Some (xs ! i)"
proof -
  from pops_items [of "length (items q) + i" "fold put xs q"] assms
  obtain q' where "((\<lambda>r. res_bind r pop) ^^ (length (items q) + i)) (Inr (fold put xs q)) = Inr q'"
    and "items q' = drop i xs" by (auto simp: puts_items)
  moreover have "drop i xs = xs ! i # drop (Suc i) xs" using assms by (simp add: Cons_nth_drop_Suc)
  ultimately show ?thesis by (simp add: front_items)
qed

end

interpretation messages: fifo "\<lambda>(ty, msg). dispatcher_Add ty msg" GetNextMessage PopMessageQueue md_Messages
  by unfold_locales (auto simp: dispatcher_Add_def GetNextMessage_def PopMessageQueue_def)

text \<open>The messages of a controller reach the application in the order they were added.\<close>

lemma messages_in_order:
  "i < length ms \<Longrightarrow> \<exists>d'. ((\<lambda>r. res_bind r PopMessageQueue) ^^ (length (md_Messages d) + i))
     (Inr (fold (\<lambda>(ty, msg). dispatcher_Add ty msg) ms d)) = Inr d' \<and> GetNextMessage d' = Some (ms ! i)"
  by (rule messages.in_order)

end
