(* ===== verification/Coded_Stream.thy ===== *)
theory Coded_Stream
  imports Prelude
begin

text \<open>
  The part of the Protocol Buffers runtime that the generated messages of EntityMessages.pb.cc
  inline: string members (arenastring.h), the coded streams (io/coded_stream.h) and the wire format
  (wire_format_lite.h, wire_format_lite_inl.h), all under src/include/google/protobuf. What those
  headers only declare is the record \<open>pb_lib\<close>, with the behaviour the headers document as the laws
  of two locales.
\<close>

unbundle bit_operations_syntax

section \<open>String members\<close>

text \<open>
  An \<open>ArenaStringPtr\<close> points to the shared empty string (\<open>None\<close>) or to a string of its own. The
  messages are never on an arena, so only the variants without one are used.
\<close>

type_synonym arena_string = "bytes option"

definition UnsafeSetDefault :: arena_string where
  "UnsafeSetDefault = None"

definition GetNoArena :: "arena_string \<Rightarrow> bytes" where
  "GetNoArena p = (case p of None \<Rightarrow> [] | Some s \<Rightarrow> s)"

definition SetNoArena :: "bytes \<Rightarrow> arena_string \<Rightarrow> arena_string" where
  "SetNoArena value p = (case p of None \<Rightarrow> Some value | Some s \<Rightarrow> Some value)"

definition MutableNoArena :: "arena_string \<Rightarrow> arena_string" where
  "MutableNoArena p = (case p of None \<Rightarrow> Some [] | Some s \<Rightarrow> Some s)"

definition ReleaseNoArena :: "arena_string \<Rightarrow> bytes option \<times> arena_string" where
  "ReleaseNoArena p = (case p of None \<Rightarrow> (None, p) | Some released \<Rightarrow> (Some released, None))"

definition SetAllocatedNoArena :: "bytes option \<Rightarrow> arena_string \<Rightarrow> arena_string" where
  "SetAllocatedNoArena value p = (case value of Some s \<Rightarrow> Some s | None \<Rightarrow> None)"

definition ClearToEmptyNoArena :: "arena_string \<Rightarrow> arena_string" where
  "ClearToEmptyNoArena p = (case p of None \<Rightarrow> None | Some s \<Rightarrow> Some [])"

definition SwapStrings :: "arena_string \<Rightarrow> arena_string \<Rightarrow> arena_string \<times> arena_string" where
  "SwapStrings p q = (q, p)"

lemma GetNoArena_simps [simp]:
  "GetNoArena None = []" "GetNoArena (Some s) = s"
  "GetNoArena UnsafeSetDefault = []"
  "GetNoArena (SetNoArena s p) = s"
  "GetNoArena (MutableNoArena p) = GetNoArena p"
  "GetNoArena (ClearToEmptyNoArena p) = []"
  by (simp_all add: GetNoArena_def UnsafeSetDefault_def SetNoArena_def MutableNoArena_def
      ClearToEmptyNoArena_def split: option.splits)

section \<open>Streams over an array\<close>

text \<open>
  A \<open>CodedInputStream\<close> over an array: the bytes from \<open>buffer_\<close> to \<open>buffer_end_\<close>, the
  \<open>buffer_size_after_limit_\<close> bytes behind them, and the counters. The integers are C++ \<open>int\<close>s whose
  overflow is undefined; they stay within the size of the array and the recursion limit.
\<close>

record coded_input =
  ci_buffer :: bytes
  ci_after :: bytes
  ci_total :: int
  ci_limit :: int
  ci_last_tag :: u32
  ci_end :: bool
  ci_budget :: int
  ci_recursion_limit :: int

text \<open>
  What the headers declare and leave to the library: the slow paths of reading, the limits, the
  length-delimited fields, the fields no message knows, and the writers.
\<close>

record pb_lib =
  lib_default_recursion_limit :: int
  lib_ReadVarint32Fallback :: "u32 \<Rightarrow> coded_input \<Rightarrow> int \<times> coded_input"
  lib_ReadTagFallback :: "u32 \<Rightarrow> coded_input \<Rightarrow> u32 \<times> coded_input"
  lib_IncrementRecursionDepthAndPushLimit :: "int \<Rightarrow> coded_input \<Rightarrow> (int \<times> int) \<times> coded_input"
  lib_DecrementRecursionDepthAndPopLimit :: "int \<Rightarrow> coded_input \<Rightarrow> bool \<times> coded_input"
  lib_ReadBytes :: "coded_input \<Rightarrow> bytes \<Rightarrow> bool \<times> bytes \<times> coded_input"
  lib_SkipField :: "coded_input \<Rightarrow> u32 \<Rightarrow> bool \<times> coded_input"
  lib_VarintSize32Fallback :: "u32 \<Rightarrow> int"
  lib_WriteStringWithSizeToArray :: "bytes \<Rightarrow> bytes \<Rightarrow> bytes"
  lib_WriteUInt32 :: "int \<Rightarrow> u32 \<Rightarrow> bytes \<Rightarrow> bytes"
  lib_WriteStringMaybeAliased :: "int \<Rightarrow> bytes \<Rightarrow> bytes \<Rightarrow> bytes"
  lib_WriteBytesMaybeAliased :: "int \<Rightarrow> bytes \<Rightarrow> bytes \<Rightarrow> bytes"
  lib_WriteMessageMaybeToArray :: "int \<Rightarrow> int \<Rightarrow> (bytes \<Rightarrow> bytes) \<Rightarrow> bytes \<Rightarrow> bytes"
  lib_AssignWithDefault :: "arena_string \<Rightarrow> arena_string \<Rightarrow> arena_string"

definition CodedInputStream :: "pb_lib \<Rightarrow> bytes \<Rightarrow> coded_input" where
  "CodedInputStream L buffer =
     \<lparr>ci_buffer = buffer, ci_after = [], ci_total = int (length buffer),
      ci_limit = int (length buffer), ci_last_tag = 0, ci_end = False,
      ci_budget = lib_default_recursion_limit L,
      ci_recursion_limit = lib_default_recursion_limit L\<rparr>"

definition BufferSize :: "coded_input \<Rightarrow> nat" where
  "BufferSize s = length (ci_buffer s)"

definition Advance :: "nat \<Rightarrow> coded_input \<Rightarrow> coded_input" where
  "Advance amount s = s\<lparr>ci_buffer := drop amount (ci_buffer s)\<rparr>"

definition CurrentPosition :: "coded_input \<Rightarrow> int" where
  "CurrentPosition s = ci_total s - int (BufferSize s + length (ci_after s))"

definition LastTagWas :: "u32 \<Rightarrow> coded_input \<Rightarrow> bool" where
  "LastTagWas expected s \<longleftrightarrow> ci_last_tag s = expected"

definition ConsumedEntireMessage :: "coded_input \<Rightarrow> bool" where
  "ConsumedEntireMessage s = ci_end s"

definition SetRecursionLimit :: "int \<Rightarrow> coded_input \<Rightarrow> coded_input" where
  "SetRecursionLimit limit s =
     s\<lparr>ci_budget := ci_budget s + (limit - ci_recursion_limit s), ci_recursion_limit := limit\<rparr>"

definition IncrementRecursionDepth :: "coded_input \<Rightarrow> bool \<times> coded_input" where
  "IncrementRecursionDepth s =
     (let s1 = s\<lparr>ci_budget := ci_budget s - 1\<rparr> in (0 \<le> ci_budget s1, s1))"

definition DecrementRecursionDepth :: "coded_input \<Rightarrow> coded_input" where
  "DecrementRecursionDepth s =
     (if ci_budget s < ci_recursion_limit s then s\<lparr>ci_budget := ci_budget s + 1\<rparr> else s)"

section \<open>Reading\<close>

definition ReadVarint32 :: "pb_lib \<Rightarrow> coded_input \<Rightarrow> bool \<times> u32 \<times> coded_input" where
  "ReadVarint32 L s =
     (if 0 < BufferSize s \<and> (ucast (ci_buffer s ! 0) :: u32) < 0x80
      then (True, ucast (ci_buffer s ! 0), Advance 1 s)
      else let v = (if 0 < BufferSize s then ucast (ci_buffer s ! 0) else 0);
               (result, s1) = lib_ReadVarint32Fallback L v s
           in (0 \<le> result, word_of_int result, s1))"

definition ReadTagWithCutoff ::
  "pb_lib \<Rightarrow> u32 \<Rightarrow> coded_input \<Rightarrow> (u32 \<times> bool) \<times> coded_input" where
  "ReadTagWithCutoff L cutoff s =
     (let b0 = ci_buffer s ! 0; b1 = ci_buffer s ! 1 in
      if 0 < BufferSize s \<and> 0 < sint b0
      then let tag = ucast b0
           in ((tag, 0x7f \<le> cutoff \<or> tag \<le> cutoff), Advance 1 (s\<lparr>ci_last_tag := tag\<rparr>))
      else if 0 < BufferSize s \<and> 0x80 \<le> cutoff \<and> 1 < BufferSize s \<and> 0x80 \<le> b0 AND NOT b1
      then let tag = 0x80 * ucast b1 + (ucast b0 - 0x80)
           in ((tag, 0x3fff \<le> cutoff \<or> tag \<le> cutoff), Advance 2 (s\<lparr>ci_last_tag := tag\<rparr>))
      else let first_byte_or_zero = (if 0 < BufferSize s then ucast b0 else 0);
               (tag, s1) = lib_ReadTagFallback L first_byte_or_zero s
           in ((tag, tag - 1 < cutoff), s1\<lparr>ci_last_tag := tag\<rparr>))"

definition ExpectTag :: "u32 \<Rightarrow> coded_input \<Rightarrow> bool \<times> coded_input" where
  "ExpectTag expected s =
     (if expected < 0x80
      then if 0 < BufferSize s \<and> ucast (ci_buffer s ! 0) = expected
           then (True, Advance 1 s) else (False, s)
      else if expected < 0x4000
      then if 2 \<le> BufferSize s \<and> ci_buffer s ! 0 = ucast (expected OR 0x80) \<and>
              ci_buffer s ! 1 = ucast (drop_bit 7 expected)
           then (True, Advance 2 s) else (False, s)
      else (False, s))"

definition ExpectAtEnd :: "coded_input \<Rightarrow> bool \<times> coded_input" where
  "ExpectAtEnd s =
     (if BufferSize s = 0 \<and> (ci_after s \<noteq> [] \<or> ci_total s = ci_limit s)
      then (True, s\<lparr>ci_last_tag := 0, ci_end := True\<rparr>) else (False, s))"

section \<open>Writing\<close>

text \<open>The \<open>ToArray\<close> functions append to the bytes written so far.\<close>

function WriteVarint32ToArray :: "u32 \<Rightarrow> bytes \<Rightarrow> bytes" where
  "WriteVarint32ToArray value target =
     (if 0x80 \<le> value
      then WriteVarint32ToArray (drop_bit 7 value) (target @ [ucast (value OR 0x80)])
      else target @ [ucast value])"
  by pat_completeness auto

lemma unat_drop7: "unat (drop_bit 7 (v :: u32)) = unat v div 128"
  by (simp only: unat_drop_bit_eq) (simp add: drop_bit_eq_div)

termination WriteVarint32ToArray
proof (relation "measure (\<lambda>(value, target). unat value)")
  fix v :: u32 and t :: bytes
  assume "0x80 \<le> v"
  then have "128 \<le> unat v"
    by (simp add: word_le_nat_alt)
  then show "((drop_bit 7 v, t @ [ucast (v OR 0x80)]), v, t)
      \<in> measure (\<lambda>(value, target). unat value)"
    by (simp add: unat_drop7)
qed simp

declare WriteVarint32ToArray.simps [simp del]

definition WriteTagToArray :: "u32 \<Rightarrow> bytes \<Rightarrow> bytes" where
  "WriteTagToArray value target = WriteVarint32ToArray value target"

definition VarintSize32 :: "pb_lib \<Rightarrow> u32 \<Rightarrow> int" where
  "VarintSize32 L value = (if value < 0x80 then 1 else lib_VarintSize32Fallback L value)"

definition StaticVarintSize32 :: "u32 \<Rightarrow> int" where
  "StaticVarintSize32 v =
     (if v < 0x80 then 1 else if v < 0x4000 then 2 else if v < 0x200000 then 3
      else if v < 0x10000000 then 4 else 5)"

section \<open>The encoding of a number\<close>

text \<open>The bytes the writing loop produces, seven bits each, and their number.\<close>

definition varint :: "u32 \<Rightarrow> bytes" where
  "varint v = WriteVarint32ToArray v []"

lemma WriteVarint32ToArray_app: "WriteVarint32ToArray v (t @ u) = t @ WriteVarint32ToArray v u"
proof (induction v u rule: WriteVarint32ToArray.induct)
  case (1 v u)
  then show ?case
    by (subst (1 2) WriteVarint32ToArray.simps) simp
qed

lemma WriteVarint32ToArray_eq: "WriteVarint32ToArray v t = t @ varint v"
  using WriteVarint32ToArray_app [of v t "[]"] by (simp add: varint_def)

lemma varint_small: "v < 0x80 \<Longrightarrow> varint v = [ucast v]"
  using WriteVarint32ToArray.simps [of v "[]"] by (simp add: varint_def not_le [symmetric])

lemma varint_large: "0x80 \<le> v \<Longrightarrow> varint v = ucast (v OR 0x80) # varint (drop_bit 7 v)"
  using WriteVarint32ToArray.simps [of v "[]"]
  by (simp add: varint_def WriteVarint32ToArray_eq [of _ "[_]", unfolded varint_def])

lemma varint_not_Nil [simp]: "varint v \<noteq> []"
  by (cases "v < 0x80") (simp_all add: varint_small varint_large not_less)

lemma length_varint_nat:
  "length (varint v) = (if unat v < 2 ^ 7 then 1 else Suc (length (varint (drop_bit 7 v))))"
  using varint_small [of v] varint_large [of v] by (simp add: word_less_nat_alt word_le_nat_alt)

lemma length_varint_from:
  "unat v < 2 ^ 7 \<Longrightarrow> length (varint v) = 1"
  "2 ^ 7 \<le> unat v \<Longrightarrow> length (varint v) = Suc (length (varint (drop_bit 7 v)))"
  using length_varint_nat [of v] by simp_all

lemma length_varint: "int (length (varint v)) = StaticVarintSize32 v"
proof -
  have one: "unat (w :: u32) < 2 ^ 7 \<Longrightarrow> length (varint w) = 1" for w
    by (simp add: length_varint_from)
  have two: "2 ^ 7 \<le> unat w \<Longrightarrow> unat w < 2 ^ 14 \<Longrightarrow> length (varint w) = 2" for w
    using one [of "drop_bit 7 w"] by (simp add: length_varint_from unat_drop7 div_less_iff_less_mult)
  have three: "2 ^ 14 \<le> unat w \<Longrightarrow> unat w < 2 ^ 21 \<Longrightarrow> length (varint w) = 3" for w
    using two [of "drop_bit 7 w"]
    by (simp add: length_varint_from unat_drop7 div_less_iff_less_mult less_eq_div_iff_mult_less_eq)
  have four: "2 ^ 21 \<le> unat w \<Longrightarrow> unat w < 2 ^ 28 \<Longrightarrow> length (varint w) = 4" for w
    using three [of "drop_bit 7 w"]
    by (simp add: length_varint_from unat_drop7 div_less_iff_less_mult less_eq_div_iff_mult_less_eq)
  have five: "2 ^ 28 \<le> unat w \<Longrightarrow> length (varint w) = 5" for w
    using four [of "drop_bit 7 w"] unsigned_less [of w, where 'a = nat]
    by (simp add: length_varint_from unat_drop7 div_less_iff_less_mult less_eq_div_iff_mult_less_eq)
  show ?thesis
    using one [of v] two [of v] three [of v] four [of v] five [of v]
    by (auto simp: StaticVarintSize32_def word_less_nat_alt not_less)
qed
end
