(* ===== verification/Wire_Format.thy ===== *)
theory Wire_Format
  imports Coded_Stream
begin

text \<open>
  The helpers of \<open>WireFormatLite\<close> (wire_format_lite.h, wire_format_lite_inl.h) the generated messages
  call, and the two interfaces of the library behind them: \<open>wire_progress\<close> (reading never gives bytes
  back) and \<open>wire_format\<close> (what is written is read again).
\<close>

unbundle bit_operations_syntax

section \<open>Tags\<close>

datatype wire_type =
  WIRETYPE_VARINT | WIRETYPE_FIXED64 | WIRETYPE_LENGTH_DELIMITED | WIRETYPE_START_GROUP
  | WIRETYPE_END_GROUP | WIRETYPE_FIXED32

fun wire_code :: "wire_type \<Rightarrow> u32" where
  "wire_code WIRETYPE_VARINT = 0"
| "wire_code WIRETYPE_FIXED64 = 1"
| "wire_code WIRETYPE_LENGTH_DELIMITED = 2"
| "wire_code WIRETYPE_START_GROUP = 3"
| "wire_code WIRETYPE_END_GROUP = 4"
| "wire_code WIRETYPE_FIXED32 = 5"

definition MakeTag :: "int \<Rightarrow> wire_type \<Rightarrow> u32" where
  "MakeTag field_number type = push_bit 3 (word_of_int field_number) OR wire_code type"

definition GetTagWireType :: "u32 \<Rightarrow> u32" where
  "GetTagWireType tag = tag AND (push_bit 3 1 - 1)"

definition GetTagFieldNumber :: "u32 \<Rightarrow> int" where
  "GetTagFieldNumber tag = sint (drop_bit 3 tag)"

section \<open>Reading fields\<close>

definition ReadPrimitive_uint32 :: "pb_lib \<Rightarrow> coded_input \<Rightarrow> bool \<times> u32 \<times> coded_input" where
  "ReadPrimitive_uint32 L s = ReadVarint32 L s"

definition ReadString :: "pb_lib \<Rightarrow> coded_input \<Rightarrow> bytes \<Rightarrow> bool \<times> bytes \<times> coded_input" where
  "ReadString L s v = lib_ReadBytes L s v"

text \<open>
  The parser of an embedded message is a parameter here; \<open>None\<close> is a parse that does not return.
\<close>

definition ReadMessageNoVirtual ::
  "pb_lib \<Rightarrow> ('m \<Rightarrow> coded_input \<Rightarrow> (bool \<times> 'm \<times> coded_input) option) \<Rightarrow> 'm \<Rightarrow> coded_input
     \<Rightarrow> (bool \<times> 'm \<times> coded_input) option" where
  "ReadMessageNoVirtual L parse m s =
     (let (ok, len, s1) = ReadVarint32 L s in
      if \<not> ok then Some (False, m, s1)
      else let ((limit, depth), s2) = lib_IncrementRecursionDepthAndPushLimit L (sint len) s1 in
        if depth < 0 then Some (False, m, s2)
        else Option.bind (parse m s2) (\<lambda>(ok', m', s3).
          if \<not> ok' then Some (False, m', s3)
          else let (r, s4) = lib_DecrementRecursionDepthAndPopLimit L limit s3 in Some (r, m', s4)))"

section \<open>Writing fields\<close>

definition WriteTagToArray_field :: "int \<Rightarrow> wire_type \<Rightarrow> bytes \<Rightarrow> bytes" where
  "WriteTagToArray_field field_number type target =
     WriteTagToArray (MakeTag field_number type) target"

definition WriteUInt32NoTagToArray :: "u32 \<Rightarrow> bytes \<Rightarrow> bytes" where
  "WriteUInt32NoTagToArray v target = WriteVarint32ToArray v target"

definition WriteUInt32ToArray :: "int \<Rightarrow> u32 \<Rightarrow> bytes \<Rightarrow> bytes" where
  "WriteUInt32ToArray field_number v target =
     WriteUInt32NoTagToArray v (WriteTagToArray_field field_number WIRETYPE_VARINT target)"

definition WriteStringToArray :: "pb_lib \<Rightarrow> int \<Rightarrow> bytes \<Rightarrow> bytes \<Rightarrow> bytes" where
  "WriteStringToArray L field_number v target =
     lib_WriteStringWithSizeToArray L v
       (WriteTagToArray_field field_number WIRETYPE_LENGTH_DELIMITED target)"

definition WriteBytesToArray :: "pb_lib \<Rightarrow> int \<Rightarrow> bytes \<Rightarrow> bytes \<Rightarrow> bytes" where
  "WriteBytesToArray L field_number v target =
     lib_WriteStringWithSizeToArray L v
       (WriteTagToArray_field field_number WIRETYPE_LENGTH_DELIMITED target)"

definition WriteMessageNoVirtualToArray ::
  "int \<Rightarrow> int \<Rightarrow> (bytes \<Rightarrow> bytes) \<Rightarrow> bytes \<Rightarrow> bytes" where
  "WriteMessageNoVirtualToArray field_number cached_size serialize target =
     serialize (WriteVarint32ToArray (word_of_int cached_size)
       (WriteTagToArray_field field_number WIRETYPE_LENGTH_DELIMITED target))"

section \<open>Sizes\<close>

definition UInt32Size :: "pb_lib \<Rightarrow> u32 \<Rightarrow> int" where
  "UInt32Size L v = VarintSize32 L v"

definition StringSize :: "pb_lib \<Rightarrow> bytes \<Rightarrow> int" where
  "StringSize L v =
     sint (word_of_int (VarintSize32 L (of_nat (length v))) + of_nat (length v) :: size_t)"

definition BytesSize :: "pb_lib \<Rightarrow> bytes \<Rightarrow> int" where
  "BytesSize L v =
     sint (word_of_int (VarintSize32 L (of_nat (length v))) + of_nat (length v) :: size_t)"

definition LengthDelimitedSize :: "pb_lib \<Rightarrow> int \<Rightarrow> int" where
  "LengthDelimitedSize L len = VarintSize32 L (word_of_int len) + len"

section \<open>The interfaces of the library\<close>

text \<open>The bytes a stream still has, before and behind its limit.\<close>

definition unread :: "coded_input \<Rightarrow> nat" where
  "unread s = length (ci_buffer s) + length (ci_after s)"

text \<open>
  No call gives back bytes it has read, and a tag other than the zero that stands for failure has
  been read from the stream.
\<close>

locale wire_progress =
  fixes L :: pb_lib
  assumes varint_progress: "lib_ReadVarint32Fallback L v s = (r, s') \<Longrightarrow> unread s' \<le> unread s"
    and tag_progress: "lib_ReadTagFallback L v s = (0, s') \<Longrightarrow> unread s' \<le> unread s"
    and tag_consumes: "lib_ReadTagFallback L v s = (t, s') \<Longrightarrow> t \<noteq> 0 \<Longrightarrow> unread s' < unread s"
    and bytes_progress: "lib_ReadBytes L s b = (ok, b', s') \<Longrightarrow> unread s' \<le> unread s"
    and skip_progress: "lib_SkipField L s t = (ok, s') \<Longrightarrow> unread s' \<le> unread s"
    and push_progress: "lib_IncrementRecursionDepthAndPushLimit L n s = (p, s') \<Longrightarrow> unread s' \<le> unread s"
    and pop_progress: "lib_DecrementRecursionDepthAndPopLimit L n s = (ok, s') \<Longrightarrow> unread s' \<le> unread s"

text \<open>
  A stream over an array whose bytes behind the limit are those that do not fit under it, no larger
  than the total the library reads (64 MB by default).
\<close>

definition at_limit :: "coded_input \<Rightarrow> bool" where
  "at_limit s \<longleftrightarrow> ci_limit s = ci_total s - int (length (ci_after s)) \<and> ci_total s \<le> 64 * 2 ^ 20 \<and>
     int (unread s) \<le> ci_total s"

text \<open>
  The documented behaviour: a number longer than one byte is read as it was written; at the end of
  the input the tag is zero and the end is recorded; a length-delimited value is its length and its
  bytes; a limit hides what lies behind it until it is popped; the sizes are those of the encoding;
  the writers of a stream write what those of an array write.
\<close>

locale wire_format = wire_progress +
  assumes recursion_default: "lib_default_recursion_limit L = 100"
    and varint_read: "0x80 \<le> v \<Longrightarrow> ci_buffer s = varint v @ rest \<Longrightarrow>
      lib_ReadVarint32Fallback L (ucast (hd (ci_buffer s))) s = (uint v, s\<lparr>ci_buffer := rest\<rparr>)"
    and tag_at_end: "ci_buffer s = [] \<Longrightarrow> at_limit s \<Longrightarrow>
      lib_ReadTagFallback L 0 s = (0, s\<lparr>ci_end := True\<rparr>)"
    and bytes_read: "length b < 2 ^ 31 \<Longrightarrow> ci_buffer s = varint (of_nat (length b)) @ b @ rest \<Longrightarrow>
      lib_ReadBytes L s old = (True, b, s\<lparr>ci_buffer := rest\<rparr>)"
    and limit_pushed: "k \<le> length (ci_buffer s) \<Longrightarrow> at_limit s \<Longrightarrow>
      lib_IncrementRecursionDepthAndPushLimit L (int k) s = ((ci_limit s, ci_budget s - 1),
        s\<lparr>ci_buffer := take k (ci_buffer s), ci_after := drop k (ci_buffer s) @ ci_after s,
          ci_limit := ci_total s - int (length (drop k (ci_buffer s) @ ci_after s)),
          ci_budget := ci_budget s - 1\<rparr>)"
    and limit_popped: "at_limit s \<Longrightarrow> ci_after s = hidden @ behind \<Longrightarrow>
      limit = ci_total s - int (length behind) \<Longrightarrow>
      \<exists>e. lib_DecrementRecursionDepthAndPopLimit L limit s = (ci_end s,
        s\<lparr>ci_buffer := ci_buffer s @ hidden, ci_after := behind, ci_limit := limit,
          ci_budget := ci_budget s + 1, ci_end := e\<rparr>)"
    and size_fallback: "0x80 \<le> v \<Longrightarrow> lib_VarintSize32Fallback L v = StaticVarintSize32 v"
    and string_written: "length b < 2 ^ 32 \<Longrightarrow>
      lib_WriteStringWithSizeToArray L b target = target @ varint (of_nat (length b)) @ b"
    and uint32_streamed: "lib_WriteUInt32 L n v target = WriteUInt32ToArray n v target"
    and string_streamed: "lib_WriteStringMaybeAliased L n b target = WriteStringToArray L n b target"
    and bytes_streamed: "lib_WriteBytesMaybeAliased L n b target = WriteBytesToArray L n b target"
    and message_streamed: "lib_WriteMessageMaybeToArray L n len f target =
      WriteMessageNoVirtualToArray n len f target"
    and string_assigned: "GetNoArena (lib_AssignWithDefault L p q) = GetNoArena q"

section \<open>Progress\<close>

lemma unread_Advance: "unread (Advance n s) = unread s - min n (BufferSize s)"
  by (simp add: unread_def Advance_def BufferSize_def)

context wire_progress
begin

lemma ReadVarint32_progress: "ReadVarint32 L s = (ok, v, s') \<Longrightarrow> unread s' \<le> unread s"
  by (auto simp: ReadVarint32_def unread_Advance Let_def varint_progress
      split: if_splits prod.splits)

lemma ReadTag_progress:
  assumes "ReadTagWithCutoff L c s = ((t, b), s')"
  shows "unread s' \<le> unread s \<and> (t \<noteq> 0 \<longrightarrow> unread s' < unread s)"
proof -
  have adv: "unread (Advance n (s\<lparr>ci_last_tag := x\<rparr>)) = unread s - min n (BufferSize s)" for n x
    by (simp add: unread_def Advance_def BufferSize_def)
  have tag: "unread (s1\<lparr>ci_last_tag := x\<rparr>) = unread s1" for s1 x
    by (simp add: unread_def)
  have pos: "0 < BufferSize s \<Longrightarrow> 0 < unread s"
    by (simp add: unread_def BufferSize_def)
  show ?thesis
    using assms pos tag_progress tag_consumes
    by (fastforce simp: ReadTagWithCutoff_def adv tag Let_def less_imp_le split: if_splits prod.splits)
qed

lemma ExpectTag_progress: "ExpectTag t s = (b, s') \<Longrightarrow> unread s' \<le> unread s"
  by (auto simp: ExpectTag_def unread_Advance split: if_splits)

lemma ExpectAtEnd_progress: "ExpectAtEnd s = (b, s') \<Longrightarrow> unread s' = unread s"
  by (auto simp: ExpectAtEnd_def unread_def split: if_splits)

lemma ReadMessage_progress:
  assumes inner: "\<And>m s1. \<exists>ok m' s'. parse m s1 = Some (ok, m', s') \<and> unread s' \<le> unread s1"
  shows "\<exists>ok m' s'. ReadMessageNoVirtual L parse m s = Some (ok, m', s') \<and> unread s' \<le> unread s"
proof -
  obtain ok len s1 where rv: "ReadVarint32 L s = (ok, len, s1)"
    by (metis prod_cases3)
  obtain limit depth s2 where pu: "lib_IncrementRecursionDepthAndPushLimit L (sint len) s1 = ((limit, depth), s2)"
    by (metis prod.exhaust)
  obtain ok' m' s3 where pa: "parse m s2 = Some (ok', m', s3)" and le3: "unread s3 \<le> unread s2"
    using inner by blast
  obtain r s4 where po: "lib_DecrementRecursionDepthAndPopLimit L limit s3 = (r, s4)"
    by (metis prod.exhaust)
  show ?thesis
    using ReadVarint32_progress [OF rv] push_progress [OF pu] pop_progress [OF po] le3
    by (auto simp: ReadMessageNoVirtual_def rv pu pa po)
qed

end

section \<open>Reading what was written\<close>

lemma MakeTag_simps [simp]:
  "MakeTag 1 WIRETYPE_LENGTH_DELIMITED = 10" "MakeTag 2 WIRETYPE_LENGTH_DELIMITED = 18"
  "MakeTag 3 WIRETYPE_LENGTH_DELIMITED = 26" "MakeTag 2 WIRETYPE_VARINT = 16"
  "MakeTag 3 WIRETYPE_VARINT = 24" "MakeTag 4 WIRETYPE_VARINT = 32"
  by (simp_all add: MakeTag_def)

lemma unat_byte: "unat (ucast x :: u32) = unat x" for x :: u8
  using unsigned_less [of x, where 'a = nat]
  by (simp add: unsigned_ucast_eq unsigned_take_bit_eq take_bit_nat_eq_self)

lemma low_byte:
  assumes "v < 0x80"
  shows "(ucast (ucast v :: u8) :: u32) = v"
proof -
  have "unat v < 2 ^ 8"
    using assms by (simp add: word_less_nat_alt)
  then have "unat (ucast (ucast v :: u8) :: u32) = unat v"
    by (simp add: unsigned_ucast_eq unsigned_take_bit_eq take_bit_nat_eq_self)
  then show ?thesis
    by (simp only: word_unat_eq_iff)
qed

lemma high_byte: "0x80 \<le> (ucast (ucast (v OR 0x80) :: u8) :: u32)" for v :: u32
proof -
  let ?x = "ucast (ucast (v OR 0x80) :: u8) :: u32"
  have "bit (0x80 :: u32) 7"
    by simp
  then have "bit ?x 7"
    by (simp add: bit_simps)
  then have "bit (unat ?x) 7"
    by (simp only: bit_unsigned_iff) simp
  then have "odd (unat ?x div 2 ^ 7)"
    by (rule bit_iff_odd [THEN iffD1])
  then have "2 ^ 7 \<le> unat ?x"
    by (metis div_less even_zero not_le)
  then show ?thesis
    by (simp add: word_le_nat_alt)
qed

context wire_format
begin

lemma VarintSize32_eq: "VarintSize32 L v = int (length (varint v))"
  by (simp add: VarintSize32_def length_varint size_fallback not_less)
    (simp add: StaticVarintSize32_def)

lemma ReadVarint32_written:
  assumes "ci_buffer s = varint v @ rest"
  shows "ReadVarint32 L s = (True, v, s\<lparr>ci_buffer := rest\<rparr>)"
proof (cases "v < 0x80")
  case True
  then have "(ucast (ucast v :: u8) :: u32) = v"
    by (rule low_byte)
  then show ?thesis
    using True assms
    by (simp add: ReadVarint32_def BufferSize_def Advance_def varint_small)
next
  case False
  then have *: "0x80 \<le> v" and **: "ci_buffer s \<noteq> []"
    using assms by auto
  have "hd (ci_buffer s) = ucast (v OR 0x80)"
    using * assms by (simp add: varint_large)
  then have "\<not> (ucast (ci_buffer s ! 0) :: u32) < 0x80"
    using ** high_byte [of v] by (simp add: hd_conv_nth)
  moreover have "0 \<le> uint v"
    by simp
  ultimately show ?thesis
    using varint_read [OF * assms] **
    by (simp add: ReadVarint32_def BufferSize_def hd_conv_nth)
qed

end
end
