(* ===== verification/Entity_Messages.thy ===== *)
theory Entity_Messages
  imports Wire_Format
begin

text \<open>
  The message \<open>INetworkAssociatedObject\<close> (EntityMessages.pb.h, EntityMessages.pb.cc, generated from
  EntityMessages.proto) and the parse loop every message of the file has. \<open>_internal_metadata_\<close>
  (no operation here writes it) and the UTF-8 checks, which only log, are left out; a self-merge by
  address is a parameter of the merges.
\<close>

section \<open>The parse loop\<close>

text \<open>
  One round of \<open>for (;;)\<close> goes on with the next tag or leaves the function with its result. The loop
  itself has no bound, so not returning is \<open>None\<close>.
\<close>

datatype 'm outcome = Again 'm coded_input | Done bool 'm coded_input

definition handle_unusual :: "pb_lib \<Rightarrow> u32 \<Rightarrow> 'm \<Rightarrow> coded_input \<Rightarrow> 'm outcome" where
  "handle_unusual L tag m s =
     (if tag = 0 \<or> GetTagWireType tag = wire_code WIRETYPE_END_GROUP then Done True m s
      else let (ok, s1) = lib_SkipField L s tag in if \<not> ok then Done False m s1 else Again m s1)"

partial_function (option) parse_loop ::
  "('m \<Rightarrow> coded_input \<Rightarrow> 'm outcome option) \<Rightarrow> 'm \<Rightarrow> coded_input
     \<Rightarrow> (bool \<times> 'm \<times> coded_input) option" where
  "parse_loop step m s =
     Option.bind (step m s) (\<lambda>r. case r of
         Again m1 s1 \<Rightarrow> parse_loop step m1 s1
       | Done ok m1 s1 \<Rightarrow> Some (ok, m1, s1))"

section \<open>Associated objects\<close>

record AssociatedObject =
  ob_is_default :: bool
  ob_instance_name :: arena_string
  ob_manager_name :: arena_string
  ob_network_code :: u32
  ob_cached_size :: int

definition AssociatedObject_New :: "AssociatedObject" where
  "AssociatedObject_New =
     \<lparr>ob_is_default = False, ob_instance_name = UnsafeSetDefault, ob_manager_name = UnsafeSetDefault, ob_network_code = 0, ob_cached_size = 0\<rparr>"

definition AssociatedObject_InitAsDefaultInstance :: "AssociatedObject \<Rightarrow> AssociatedObject" where
  "AssociatedObject_InitAsDefaultInstance m = m\<lparr>ob_is_default := True\<rparr>"

definition AssociatedObject_default_instance :: "AssociatedObject" where
  "AssociatedObject_default_instance = AssociatedObject_InitAsDefaultInstance AssociatedObject_New"

definition AssociatedObject_SetCachedSize :: "int \<Rightarrow> AssociatedObject \<Rightarrow> AssociatedObject" where
  "AssociatedObject_SetCachedSize sz m = m\<lparr>ob_cached_size := sz\<rparr>"

definition AssociatedObject_clear_instance_name :: "AssociatedObject \<Rightarrow> AssociatedObject" where
  "AssociatedObject_clear_instance_name m = m\<lparr>ob_instance_name := ClearToEmptyNoArena (ob_instance_name m)\<rparr>"

definition AssociatedObject_instance_name :: "AssociatedObject \<Rightarrow> bytes" where
  "AssociatedObject_instance_name m = GetNoArena (ob_instance_name m)"

definition AssociatedObject_set_instance_name :: "bytes \<Rightarrow> AssociatedObject \<Rightarrow> AssociatedObject" where
  "AssociatedObject_set_instance_name v m = m\<lparr>ob_instance_name := SetNoArena v (ob_instance_name m)\<rparr>"

definition AssociatedObject_set_instance_name_chars :: "bytes \<Rightarrow> AssociatedObject \<Rightarrow> AssociatedObject res" where
  "AssociatedObject_set_instance_name_chars mem m =
     res_map (\<lambda>s. m\<lparr>ob_instance_name := SetNoArena s (ob_instance_name m)\<rparr>) (c_str mem)"

definition AssociatedObject_set_instance_name_sized :: "bytes \<Rightarrow> nat \<Rightarrow> AssociatedObject \<Rightarrow> AssociatedObject res" where
  "AssociatedObject_set_instance_name_sized mem n m =
     res_map (\<lambda>s. m\<lparr>ob_instance_name := SetNoArena s (ob_instance_name m)\<rparr>) (peeks mem 0 n)"

definition AssociatedObject_mutable_instance_name :: "AssociatedObject \<Rightarrow> AssociatedObject" where
  "AssociatedObject_mutable_instance_name m = m\<lparr>ob_instance_name := MutableNoArena (ob_instance_name m)\<rparr>"

definition AssociatedObject_release_instance_name :: "AssociatedObject \<Rightarrow> bytes option \<times> AssociatedObject" where
  "AssociatedObject_release_instance_name m =
     (let (released, p) = ReleaseNoArena (ob_instance_name m) in (released, m\<lparr>ob_instance_name := p\<rparr>))"

definition AssociatedObject_set_allocated_instance_name :: "bytes option \<Rightarrow> AssociatedObject \<Rightarrow> AssociatedObject" where
  "AssociatedObject_set_allocated_instance_name v m = m\<lparr>ob_instance_name := SetAllocatedNoArena v (ob_instance_name m)\<rparr>"

definition AssociatedObject_clear_manager_name :: "AssociatedObject \<Rightarrow> AssociatedObject" where
  "AssociatedObject_clear_manager_name m = m\<lparr>ob_manager_name := ClearToEmptyNoArena (ob_manager_name m)\<rparr>"

definition AssociatedObject_manager_name :: "AssociatedObject \<Rightarrow> bytes" where
  "AssociatedObject_manager_name m = GetNoArena (ob_manager_name m)"

definition AssociatedObject_set_manager_name :: "bytes \<Rightarrow> AssociatedObject \<Rightarrow> AssociatedObject" where
  "AssociatedObject_set_manager_name v m = m\<lparr>ob_manager_name := SetNoArena v (ob_manager_name m)\<rparr>"

definition AssociatedObject_set_manager_name_chars :: "bytes \<Rightarrow> AssociatedObject \<Rightarrow> AssociatedObject res" where
  "AssociatedObject_set_manager_name_chars mem m =
     res_map (\<lambda>s. m\<lparr>ob_manager_name := SetNoArena s (ob_manager_name m)\<rparr>) (c_str mem)"

definition AssociatedObject_set_manager_name_sized :: "bytes \<Rightarrow> nat \<Rightarrow> AssociatedObject \<Rightarrow> AssociatedObject res" where
  "AssociatedObject_set_manager_name_sized mem n m =
     res_map (\<lambda>s. m\<lparr>ob_manager_name := SetNoArena s (ob_manager_name m)\<rparr>) (peeks mem 0 n)"

definition AssociatedObject_mutable_manager_name :: "AssociatedObject \<Rightarrow> AssociatedObject" where
  "AssociatedObject_mutable_manager_name m = m\<lparr>ob_manager_name := MutableNoArena (ob_manager_name m)\<rparr>"

definition AssociatedObject_release_manager_name :: "AssociatedObject \<Rightarrow> bytes option \<times> AssociatedObject" where
  "AssociatedObject_release_manager_name m =
     (let (released, p) = ReleaseNoArena (ob_manager_name m) in (released, m\<lparr>ob_manager_name := p\<rparr>))"

definition AssociatedObject_set_allocated_manager_name :: "bytes option \<Rightarrow> AssociatedObject \<Rightarrow> AssociatedObject" where
  "AssociatedObject_set_allocated_manager_name v m = m\<lparr>ob_manager_name := SetAllocatedNoArena v (ob_manager_name m)\<rparr>"

definition AssociatedObject_clear_network_code :: "AssociatedObject \<Rightarrow> AssociatedObject" where
  "AssociatedObject_clear_network_code m = m\<lparr>ob_network_code := 0\<rparr>"

definition AssociatedObject_network_code :: "AssociatedObject \<Rightarrow> u32" where
  "AssociatedObject_network_code m = ob_network_code m"

definition AssociatedObject_set_network_code :: "u32 \<Rightarrow> AssociatedObject \<Rightarrow> AssociatedObject" where
  "AssociatedObject_set_network_code v m = m\<lparr>ob_network_code := v\<rparr>"

definition AssociatedObject_Clear :: "AssociatedObject \<Rightarrow> AssociatedObject" where
  "AssociatedObject_Clear m =
     m\<lparr>ob_instance_name := ClearToEmptyNoArena (ob_instance_name m),
       ob_manager_name := ClearToEmptyNoArena (ob_manager_name m),
       ob_network_code := 0\<rparr>"

definition AssociatedObject_SerializeWithCachedSizes :: "pb_lib \<Rightarrow> AssociatedObject \<Rightarrow> bytes \<Rightarrow> bytes" where
  "AssociatedObject_SerializeWithCachedSizes L m output =
     (let
       output1 = (if 0 < length (AssociatedObject_instance_name m)
          then lib_WriteStringMaybeAliased L 1 (AssociatedObject_instance_name m) output else output);
       output2 = (if 0 < length (AssociatedObject_manager_name m)
          then lib_WriteStringMaybeAliased L 2 (AssociatedObject_manager_name m) output1 else output1);
       output3 = (if AssociatedObject_network_code m \<noteq> 0
          then lib_WriteUInt32 L 3 (AssociatedObject_network_code m) output2 else output2)
      in output3)"

definition AssociatedObject_SerializeWithCachedSizesToArray :: "pb_lib \<Rightarrow> AssociatedObject \<Rightarrow> bytes \<Rightarrow> bytes" where
  "AssociatedObject_SerializeWithCachedSizesToArray L m target =
     (let
       target1 = (if 0 < length (AssociatedObject_instance_name m)
          then WriteStringToArray L 1 (AssociatedObject_instance_name m) target else target);
       target2 = (if 0 < length (AssociatedObject_manager_name m)
          then WriteStringToArray L 2 (AssociatedObject_manager_name m) target1 else target1);
       target3 = (if AssociatedObject_network_code m \<noteq> 0
          then WriteUInt32ToArray 3 (AssociatedObject_network_code m) target2 else target2)
      in target3)"

definition AssociatedObject_ByteSize :: "pb_lib \<Rightarrow> AssociatedObject \<Rightarrow> int \<times> AssociatedObject" where
  "AssociatedObject_ByteSize L m =
     (let
       total_size1 = (if 0 < length (AssociatedObject_instance_name m)
          then 0 + (1 + StringSize L (AssociatedObject_instance_name m)) else 0);
       total_size2 = (if 0 < length (AssociatedObject_manager_name m)
          then total_size1 + (1 + StringSize L (AssociatedObject_manager_name m)) else total_size1);
       total_size3 = (if AssociatedObject_network_code m \<noteq> 0
          then total_size2 + (1 + UInt32Size L (AssociatedObject_network_code m)) else total_size2)
      in (total_size3, m\<lparr>ob_cached_size := total_size3\<rparr>))"

definition AssociatedObject_MergeFrom :: "pb_lib \<Rightarrow> bool \<Rightarrow> AssociatedObject \<Rightarrow> AssociatedObject \<Rightarrow> AssociatedObject res" where
  "AssociatedObject_MergeFrom L same src m =
     (if same then Inl Fatal_Exception else
      let
       m1 = (if 0 < length (AssociatedObject_instance_name src)
          then m\<lparr>ob_instance_name := lib_AssignWithDefault L (ob_instance_name m)
            (ob_instance_name src)\<rparr> else m);
       m2 = (if 0 < length (AssociatedObject_manager_name src)
          then m1\<lparr>ob_manager_name := lib_AssignWithDefault L (ob_manager_name m1)
            (ob_manager_name src)\<rparr> else m1);
       m3 = (if AssociatedObject_network_code src \<noteq> 0
          then AssociatedObject_set_network_code (AssociatedObject_network_code src) m2 else m2)
      in Inr m3)"

definition AssociatedObject_CopyFrom :: "pb_lib \<Rightarrow> bool \<Rightarrow> AssociatedObject \<Rightarrow> AssociatedObject \<Rightarrow> AssociatedObject res" where
  "AssociatedObject_CopyFrom L same src m =
     (if same then Inr m else AssociatedObject_MergeFrom L False src (AssociatedObject_Clear m))"

definition AssociatedObject_copy :: "pb_lib \<Rightarrow> AssociatedObject \<Rightarrow> AssociatedObject res" where
  "AssociatedObject_copy L src = AssociatedObject_MergeFrom L False src AssociatedObject_New"

definition AssociatedObject_InternalSwap :: "AssociatedObject \<Rightarrow> AssociatedObject \<Rightarrow> AssociatedObject \<times> AssociatedObject" where
  "AssociatedObject_InternalSwap m other =
     (m\<lparr>ob_instance_name := ob_instance_name other, ob_manager_name := ob_manager_name other, ob_network_code := ob_network_code other, ob_cached_size := ob_cached_size other\<rparr>,
      other\<lparr>ob_instance_name := ob_instance_name m, ob_manager_name := ob_manager_name m, ob_network_code := ob_network_code m, ob_cached_size := ob_cached_size m\<rparr>)"

definition AssociatedObject_parse_network_code :: "pb_lib \<Rightarrow> AssociatedObject \<Rightarrow> coded_input \<Rightarrow> AssociatedObject outcome" where
  "AssociatedObject_parse_network_code L m s =
     (let (ok, v, s1) = ReadPrimitive_uint32 L s;
          m1 = m\<lparr>ob_network_code := v\<rparr> in
      if \<not> ok then Done False m1 s1
      else let (at_end, s2) = ExpectAtEnd s1 in
        if at_end then Done True m1 s2 else Again m1 s2)"

definition AssociatedObject_parse_manager_name :: "pb_lib \<Rightarrow> AssociatedObject \<Rightarrow> coded_input \<Rightarrow> AssociatedObject outcome" where
  "AssociatedObject_parse_manager_name L m s =
     (let m0 = AssociatedObject_mutable_manager_name m;
          (ok, v, s1) = ReadString L s (AssociatedObject_manager_name m0);
          m1 = m0\<lparr>ob_manager_name := Some v\<rparr> in
      if \<not> ok then Done False m1 s1
      else let (next, s2) = ExpectTag 24 s1 in
        if next then AssociatedObject_parse_network_code L m1 s2 else Again m1 s2)"

definition AssociatedObject_parse_instance_name :: "pb_lib \<Rightarrow> AssociatedObject \<Rightarrow> coded_input \<Rightarrow> AssociatedObject outcome" where
  "AssociatedObject_parse_instance_name L m s =
     (let m0 = AssociatedObject_mutable_instance_name m;
          (ok, v, s1) = ReadString L s (AssociatedObject_instance_name m0);
          m1 = m0\<lparr>ob_instance_name := Some v\<rparr> in
      if \<not> ok then Done False m1 s1
      else let (next, s2) = ExpectTag 18 s1 in
        if next then AssociatedObject_parse_manager_name L m1 s2 else Again m1 s2)"

definition AssociatedObject_parse_step :: "pb_lib \<Rightarrow> AssociatedObject \<Rightarrow> coded_input \<Rightarrow> AssociatedObject outcome" where
  "AssociatedObject_parse_step L m s =
     (let ((tag, ok), s1) = ReadTagWithCutoff L 127 s in
      if \<not> ok then handle_unusual L tag m s1
      else if GetTagFieldNumber tag = 1
        then if tag = 10 then AssociatedObject_parse_instance_name L m s1 else handle_unusual L tag m s1
      else if GetTagFieldNumber tag = 2
        then if tag = 18 then AssociatedObject_parse_manager_name L m s1 else handle_unusual L tag m s1
      else if GetTagFieldNumber tag = 3
        then if tag = 24 then AssociatedObject_parse_network_code L m s1 else handle_unusual L tag m s1
      else handle_unusual L tag m s1)"

definition AssociatedObject_MergePartialFromCodedStream :: "pb_lib \<Rightarrow> AssociatedObject \<Rightarrow> coded_input \<Rightarrow> (bool \<times> AssociatedObject \<times> coded_input) option" where
  "AssociatedObject_MergePartialFromCodedStream L m s =
     parse_loop (\<lambda>m s. Some (AssociatedObject_parse_step L m s)) m s"

end
