(* ===== verification/Map_Messages.thy ===== *)
theory Map_Messages
  imports Entity_Messages
begin

text \<open>
  The messages \<open>INetworkMapAdd\<close>, \<open>INetworkMapUpdate\<close> and \<open>INetworkMapRemove\<close> (EntityMessages.pb.h,
  EntityMessages.pb.cc). The first two classes have the same members, so their states share a record;
  their operations are translated each from its own text.
\<close>

record map_entry =
  me_is_default :: bool
  me_target_object :: "AssociatedObject option"
  me_value :: arena_string
  me_key :: u32
  me_list_id :: u32
  me_cached_size :: int

record map_key =
  mk_is_default :: bool
  mk_target_object :: "AssociatedObject option"
  mk_key :: u32
  mk_list_id :: u32
  mk_cached_size :: int

section \<open>Adding an entry\<close>

definition MapAdd_New :: "map_entry" where
  "MapAdd_New =
     \<lparr>me_is_default = False, me_target_object = None, me_value = UnsafeSetDefault, me_key = 0, me_list_id = 0, me_cached_size = 0\<rparr>"

definition MapAdd_InitAsDefaultInstance :: "map_entry \<Rightarrow> map_entry" where
  "MapAdd_InitAsDefaultInstance m =
     m\<lparr>me_is_default := True, me_target_object := Some AssociatedObject_default_instance\<rparr>"

definition MapAdd_default_instance :: "map_entry" where
  "MapAdd_default_instance = MapAdd_InitAsDefaultInstance MapAdd_New"

definition MapAdd_SetCachedSize :: "int \<Rightarrow> map_entry \<Rightarrow> map_entry" where
  "MapAdd_SetCachedSize sz m = m\<lparr>me_cached_size := sz\<rparr>"

definition MapAdd_has_target_object :: "map_entry \<Rightarrow> bool" where
  "MapAdd_has_target_object m \<longleftrightarrow> \<not> me_is_default m \<and> me_target_object m \<noteq> None"

definition MapAdd_clear_target_object :: "map_entry \<Rightarrow> map_entry" where
  "MapAdd_clear_target_object m = m\<lparr>me_target_object := None\<rparr>"

definition MapAdd_target_object :: "map_entry \<Rightarrow> AssociatedObject" where
  "MapAdd_target_object m =
     (case me_target_object m of Some ob \<Rightarrow> ob | None \<Rightarrow> AssociatedObject_default_instance)"

definition MapAdd_mutable_target_object :: "map_entry \<Rightarrow> map_entry" where
  "MapAdd_mutable_target_object m =
     (case me_target_object m of Some ob \<Rightarrow> m | None \<Rightarrow> m\<lparr>me_target_object := Some AssociatedObject_New\<rparr>)"

definition MapAdd_release_target_object :: "map_entry \<Rightarrow> AssociatedObject option \<times> map_entry" where
  "MapAdd_release_target_object m = (me_target_object m, m\<lparr>me_target_object := None\<rparr>)"

definition MapAdd_set_allocated_target_object :: "AssociatedObject option \<Rightarrow> map_entry \<Rightarrow> map_entry" where
  "MapAdd_set_allocated_target_object ob m = m\<lparr>me_target_object := ob\<rparr>"

definition MapAdd_clear_key :: "map_entry \<Rightarrow> map_entry" where
  "MapAdd_clear_key m = m\<lparr>me_key := 0\<rparr>"

definition MapAdd_key :: "map_entry \<Rightarrow> u32" where
  "MapAdd_key m = me_key m"

definition MapAdd_set_key :: "u32 \<Rightarrow> map_entry \<Rightarrow> map_entry" where
  "MapAdd_set_key v m = m\<lparr>me_key := v\<rparr>"

definition MapAdd_clear_value :: "map_entry \<Rightarrow> map_entry" where
  "MapAdd_clear_value m = m\<lparr>me_value := ClearToEmptyNoArena (me_value m)\<rparr>"

definition MapAdd_value :: "map_entry \<Rightarrow> bytes" where
  "MapAdd_value m = GetNoArena (me_value m)"

definition MapAdd_set_value :: "bytes \<Rightarrow> map_entry \<Rightarrow> map_entry" where
  "MapAdd_set_value v m = m\<lparr>me_value := SetNoArena v (me_value m)\<rparr>"

definition MapAdd_set_value_chars :: "bytes \<Rightarrow> map_entry \<Rightarrow> map_entry res" where
  "MapAdd_set_value_chars mem m =
     res_map (\<lambda>s. m\<lparr>me_value := SetNoArena s (me_value m)\<rparr>) (c_str mem)"

definition MapAdd_set_value_sized :: "bytes \<Rightarrow> nat \<Rightarrow> map_entry \<Rightarrow> map_entry res" where
  "MapAdd_set_value_sized mem n m =
     res_map (\<lambda>s. m\<lparr>me_value := SetNoArena s (me_value m)\<rparr>) (peeks mem 0 n)"

definition MapAdd_mutable_value :: "map_entry \<Rightarrow> map_entry" where
  "MapAdd_mutable_value m = m\<lparr>me_value := MutableNoArena (me_value m)\<rparr>"

definition MapAdd_release_value :: "map_entry \<Rightarrow> bytes option \<times> map_entry" where
  "MapAdd_release_value m =
     (let (released, p) = ReleaseNoArena (me_value m) in (released, m\<lparr>me_value := p\<rparr>))"

definition MapAdd_set_allocated_value :: "bytes option \<Rightarrow> map_entry \<Rightarrow> map_entry" where
  "MapAdd_set_allocated_value v m = m\<lparr>me_value := SetAllocatedNoArena v (me_value m)\<rparr>"

definition MapAdd_clear_list_id :: "map_entry \<Rightarrow> map_entry" where
  "MapAdd_clear_list_id m = m\<lparr>me_list_id := 0\<rparr>"

definition MapAdd_list_id :: "map_entry \<Rightarrow> u32" where
  "MapAdd_list_id m = me_list_id m"

definition MapAdd_set_list_id :: "u32 \<Rightarrow> map_entry \<Rightarrow> map_entry" where
  "MapAdd_set_list_id v m = m\<lparr>me_list_id := v\<rparr>"

definition MapAdd_Clear :: "map_entry \<Rightarrow> map_entry" where
  "MapAdd_Clear m =
     m\<lparr>me_target_object := None,
       me_key := 0,
       me_value := ClearToEmptyNoArena (me_value m),
       me_list_id := 0\<rparr>"

definition MapAdd_SerializeWithCachedSizes :: "pb_lib \<Rightarrow> map_entry \<Rightarrow> bytes \<Rightarrow> bytes" where
  "MapAdd_SerializeWithCachedSizes L m output =
     (let
       output1 = (if MapAdd_has_target_object m
          then lib_WriteMessageMaybeToArray L 1 (ob_cached_size (the (me_target_object m)))
            (AssociatedObject_SerializeWithCachedSizes L (the (me_target_object m))) output else output);
       output2 = (if MapAdd_key m \<noteq> 0
          then lib_WriteUInt32 L 2 (MapAdd_key m) output1 else output1);
       output3 = (if 0 < length (MapAdd_value m)
          then lib_WriteBytesMaybeAliased L 3 (MapAdd_value m) output2 else output2);
       output4 = (if MapAdd_list_id m \<noteq> 0
          then lib_WriteUInt32 L 4 (MapAdd_list_id m) output3 else output3)
      in output4)"

definition MapAdd_SerializeWithCachedSizesToArray :: "pb_lib \<Rightarrow> map_entry \<Rightarrow> bytes \<Rightarrow> bytes" where
  "MapAdd_SerializeWithCachedSizesToArray L m target =
     (let
       target1 = (if MapAdd_has_target_object m
          then WriteMessageNoVirtualToArray 1 (ob_cached_size (the (me_target_object m)))
            (AssociatedObject_SerializeWithCachedSizesToArray L (the (me_target_object m))) target else target);
       target2 = (if MapAdd_key m \<noteq> 0
          then WriteUInt32ToArray 2 (MapAdd_key m) target1 else target1);
       target3 = (if 0 < length (MapAdd_value m)
          then WriteBytesToArray L 3 (MapAdd_value m) target2 else target2);
       target4 = (if MapAdd_list_id m \<noteq> 0
          then WriteUInt32ToArray 4 (MapAdd_list_id m) target3 else target3)
      in target4)"

definition MapAdd_ByteSize :: "pb_lib \<Rightarrow> map_entry \<Rightarrow> int \<times> map_entry" where
  "MapAdd_ByteSize L m =
     (let
       (total_size1, m1) =
         (if MapAdd_has_target_object m
          then let (size, ob) = AssociatedObject_ByteSize L (the (me_target_object m))
               in (1 + LengthDelimitedSize L size, m\<lparr>me_target_object := Some ob\<rparr>)
          else (0, m));
       total_size2 = (if MapAdd_key m \<noteq> 0
          then total_size1 + (1 + UInt32Size L (MapAdd_key m)) else total_size1);
       total_size3 = (if 0 < length (MapAdd_value m)
          then total_size2 + (1 + BytesSize L (MapAdd_value m)) else total_size2);
       total_size4 = (if MapAdd_list_id m \<noteq> 0
          then total_size3 + (1 + UInt32Size L (MapAdd_list_id m)) else total_size3)
      in (total_size4, m1\<lparr>me_cached_size := total_size4\<rparr>))"

definition MapAdd_MergeFrom :: "pb_lib \<Rightarrow> bool \<Rightarrow> map_entry \<Rightarrow> map_entry \<Rightarrow> map_entry res" where
  "MapAdd_MergeFrom L same src m =
     (if same then Inl Fatal_Exception
      else res_bind (if MapAdd_has_target_object src
        then let m1a = MapAdd_mutable_target_object m in
        res_bind (AssociatedObject_MergeFrom L False (MapAdd_target_object src) (the (me_target_object m1a)))
          (\<lambda>ob. Inr (m1a\<lparr>me_target_object := Some ob\<rparr>))
        else Inr m) (\<lambda>m1.
      let
       m2 = (if MapAdd_key src \<noteq> 0
          then MapAdd_set_key (MapAdd_key src) m1 else m1);
       m3 = (if 0 < length (MapAdd_value src)
          then m2\<lparr>me_value := lib_AssignWithDefault L (me_value m2)
            (me_value src)\<rparr> else m2);
       m4 = (if MapAdd_list_id src \<noteq> 0
          then MapAdd_set_list_id (MapAdd_list_id src) m3 else m3)
      in Inr m4))"

definition MapAdd_CopyFrom :: "pb_lib \<Rightarrow> bool \<Rightarrow> map_entry \<Rightarrow> map_entry \<Rightarrow> map_entry res" where
  "MapAdd_CopyFrom L same src m =
     (if same then Inr m else MapAdd_MergeFrom L False src (MapAdd_Clear m))"

definition MapAdd_copy :: "pb_lib \<Rightarrow> map_entry \<Rightarrow> map_entry res" where
  "MapAdd_copy L src = MapAdd_MergeFrom L False src MapAdd_New"

definition MapAdd_InternalSwap :: "map_entry \<Rightarrow> map_entry \<Rightarrow> map_entry \<times> map_entry" where
  "MapAdd_InternalSwap m other =
     (m\<lparr>me_target_object := me_target_object other, me_key := me_key other, me_value := me_value other, me_list_id := me_list_id other, me_cached_size := me_cached_size other\<rparr>,
      other\<lparr>me_target_object := me_target_object m, me_key := me_key m, me_value := me_value m, me_list_id := me_list_id m, me_cached_size := me_cached_size m\<rparr>)"

definition MapAdd_parse_list_id :: "pb_lib \<Rightarrow> map_entry \<Rightarrow> coded_input \<Rightarrow> map_entry outcome option" where
  "MapAdd_parse_list_id L m s =
     (let (ok, v, s1) = ReadPrimitive_uint32 L s;
          m1 = m\<lparr>me_list_id := v\<rparr> in
      if \<not> ok then Some (Done False m1 s1)
      else let (at_end, s2) = ExpectAtEnd s1 in
        Some (if at_end then Done True m1 s2 else Again m1 s2))"

definition MapAdd_parse_value :: "pb_lib \<Rightarrow> map_entry \<Rightarrow> coded_input \<Rightarrow> map_entry outcome option" where
  "MapAdd_parse_value L m s =
     (let m0 = MapAdd_mutable_value m;
          (ok, v, s1) = lib_ReadBytes L s (MapAdd_value m0);
          m1 = m0\<lparr>me_value := Some v\<rparr> in
      if \<not> ok then Some (Done False m1 s1)
      else let (next, s2) = ExpectTag 32 s1 in
        if next then MapAdd_parse_list_id L m1 s2 else Some (Again m1 s2))"

definition MapAdd_parse_key :: "pb_lib \<Rightarrow> map_entry \<Rightarrow> coded_input \<Rightarrow> map_entry outcome option" where
  "MapAdd_parse_key L m s =
     (let (ok, v, s1) = ReadPrimitive_uint32 L s;
          m1 = m\<lparr>me_key := v\<rparr> in
      if \<not> ok then Some (Done False m1 s1)
      else let (next, s2) = ExpectTag 26 s1 in
        if next then MapAdd_parse_value L m1 s2 else Some (Again m1 s2))"

definition MapAdd_parse_target_object :: "pb_lib \<Rightarrow> map_entry \<Rightarrow> coded_input \<Rightarrow> map_entry outcome option" where
  "MapAdd_parse_target_object L m s =
     (let m0 = MapAdd_mutable_target_object m in
      Option.bind (ReadMessageNoVirtual L (AssociatedObject_MergePartialFromCodedStream L)
          (the (me_target_object m0)) s)
        (\<lambda>(ok, ob, s1). let m1 = m0\<lparr>me_target_object := Some ob\<rparr> in
      if \<not> ok then Some (Done False m1 s1)
      else let (next, s2) = ExpectTag 16 s1 in
        if next then MapAdd_parse_key L m1 s2 else Some (Again m1 s2)))"

definition MapAdd_parse_step :: "pb_lib \<Rightarrow> map_entry \<Rightarrow> coded_input \<Rightarrow> map_entry outcome option" where
  "MapAdd_parse_step L m s =
     (let ((tag, ok), s1) = ReadTagWithCutoff L 127 s in
      if \<not> ok then Some (handle_unusual L tag m s1)
      else if GetTagFieldNumber tag = 1
        then if tag = 10 then MapAdd_parse_target_object L m s1 else Some (handle_unusual L tag m s1)
      else if GetTagFieldNumber tag = 2
        then if tag = 16 then MapAdd_parse_key L m s1 else Some (handle_unusual L tag m s1)
      else if GetTagFieldNumber tag = 3
        then if tag = 26 then MapAdd_parse_value L m s1 else Some (handle_unusual L tag m s1)
      else if GetTagFieldNumber tag = 4
        then if tag = 32 then MapAdd_parse_list_id L m s1 else Some (handle_unusual L tag m s1)
      else Some (handle_unusual L tag m s1))"

definition MapAdd_MergePartialFromCodedStream :: "pb_lib \<Rightarrow> map_entry \<Rightarrow> coded_input \<Rightarrow> (bool \<times> map_entry \<times> coded_input) option" where
  "MapAdd_MergePartialFromCodedStream L m s = parse_loop (MapAdd_parse_step L) m s"

section \<open>Updating an entry\<close>

definition MapUpdate_New :: "map_entry" where
  "MapUpdate_New =
     \<lparr>me_is_default = False, me_target_object = None, me_value = UnsafeSetDefault, me_key = 0, me_list_id = 0, me_cached_size = 0\<rparr>"

definition MapUpdate_InitAsDefaultInstance :: "map_entry \<Rightarrow> map_entry" where
  "MapUpdate_InitAsDefaultInstance m =
     m\<lparr>me_is_default := True, me_target_object := Some AssociatedObject_default_instance\<rparr>"

definition MapUpdate_default_instance :: "map_entry" where
  "MapUpdate_default_instance = MapUpdate_InitAsDefaultInstance MapUpdate_New"

definition MapUpdate_SetCachedSize :: "int \<Rightarrow> map_entry \<Rightarrow> map_entry" where
  "MapUpdate_SetCachedSize sz m = m\<lparr>me_cached_size := sz\<rparr>"

definition MapUpdate_has_target_object :: "map_entry \<Rightarrow> bool" where
  "MapUpdate_has_target_object m \<longleftrightarrow> \<not> me_is_default m \<and> me_target_object m \<noteq> None"

definition MapUpdate_clear_target_object :: "map_entry \<Rightarrow> map_entry" where
  "MapUpdate_clear_target_object m = m\<lparr>me_target_object := None\<rparr>"

definition MapUpdate_target_object :: "map_entry \<Rightarrow> AssociatedObject" where
  "MapUpdate_target_object m =
     (case me_target_object m of Some ob \<Rightarrow> ob | None \<Rightarrow> AssociatedObject_default_instance)"

definition MapUpdate_mutable_target_object :: "map_entry \<Rightarrow> map_entry" where
  "MapUpdate_mutable_target_object m =
     (case me_target_object m of Some ob \<Rightarrow> m | None \<Rightarrow> m\<lparr>me_target_object := Some AssociatedObject_New\<rparr>)"

definition MapUpdate_release_target_object :: "map_entry \<Rightarrow> AssociatedObject option \<times> map_entry" where
  "MapUpdate_release_target_object m = (me_target_object m, m\<lparr>me_target_object := None\<rparr>)"

definition MapUpdate_set_allocated_target_object :: "AssociatedObject option \<Rightarrow> map_entry \<Rightarrow> map_entry" where
  "MapUpdate_set_allocated_target_object ob m = m\<lparr>me_target_object := ob\<rparr>"

definition MapUpdate_clear_key :: "map_entry \<Rightarrow> map_entry" where
  "MapUpdate_clear_key m = m\<lparr>me_key := 0\<rparr>"

definition MapUpdate_key :: "map_entry \<Rightarrow> u32" where
  "MapUpdate_key m = me_key m"

definition MapUpdate_set_key :: "u32 \<Rightarrow> map_entry \<Rightarrow> map_entry" where
  "MapUpdate_set_key v m = m\<lparr>me_key := v\<rparr>"

definition MapUpdate_clear_value :: "map_entry \<Rightarrow> map_entry" where
  "MapUpdate_clear_value m = m\<lparr>me_value := ClearToEmptyNoArena (me_value m)\<rparr>"

definition MapUpdate_value :: "map_entry \<Rightarrow> bytes" where
  "MapUpdate_value m = GetNoArena (me_value m)"

definition MapUpdate_set_value :: "bytes \<Rightarrow> map_entry \<Rightarrow> map_entry" where
  "MapUpdate_set_value v m = m\<lparr>me_value := SetNoArena v (me_value m)\<rparr>"

definition MapUpdate_set_value_chars :: "bytes \<Rightarrow> map_entry \<Rightarrow> map_entry res" where
  "MapUpdate_set_value_chars mem m =
     res_map (\<lambda>s. m\<lparr>me_value := SetNoArena s (me_value m)\<rparr>) (c_str mem)"

definition MapUpdate_set_value_sized :: "bytes \<Rightarrow> nat \<Rightarrow> map_entry \<Rightarrow> map_entry res" where
  "MapUpdate_set_value_sized mem n m =
     res_map (\<lambda>s. m\<lparr>me_value := SetNoArena s (me_value m)\<rparr>) (peeks mem 0 n)"

definition MapUpdate_mutable_value :: "map_entry \<Rightarrow> map_entry" where
  "MapUpdate_mutable_value m = m\<lparr>me_value := MutableNoArena (me_value m)\<rparr>"

definition MapUpdate_release_value :: "map_entry \<Rightarrow> bytes option \<times> map_entry" where
  "MapUpdate_release_value m =
     (let (released, p) = ReleaseNoArena (me_value m) in (released, m\<lparr>me_value := p\<rparr>))"

definition MapUpdate_set_allocated_value :: "bytes option \<Rightarrow> map_entry \<Rightarrow> map_entry" where
  "MapUpdate_set_allocated_value v m = m\<lparr>me_value := SetAllocatedNoArena v (me_value m)\<rparr>"

definition MapUpdate_clear_list_id :: "map_entry \<Rightarrow> map_entry" where
  "MapUpdate_clear_list_id m = m\<lparr>me_list_id := 0\<rparr>"

definition MapUpdate_list_id :: "map_entry \<Rightarrow> u32" where
  "MapUpdate_list_id m = me_list_id m"

definition MapUpdate_set_list_id :: "u32 \<Rightarrow> map_entry \<Rightarrow> map_entry" where
  "MapUpdate_set_list_id v m = m\<lparr>me_list_id := v\<rparr>"

definition MapUpdate_Clear :: "map_entry \<Rightarrow> map_entry" where
  "MapUpdate_Clear m =
     m\<lparr>me_target_object := None,
       me_key := 0,
       me_value := ClearToEmptyNoArena (me_value m),
       me_list_id := 0\<rparr>"

definition MapUpdate_SerializeWithCachedSizes :: "pb_lib \<Rightarrow> map_entry \<Rightarrow> bytes \<Rightarrow> bytes" where
  "MapUpdate_SerializeWithCachedSizes L m output =
     (let
       output1 = (if MapUpdate_has_target_object m
          then lib_WriteMessageMaybeToArray L 1 (ob_cached_size (the (me_target_object m)))
            (AssociatedObject_SerializeWithCachedSizes L (the (me_target_object m))) output else output);
       output2 = (if MapUpdate_key m \<noteq> 0
          then lib_WriteUInt32 L 2 (MapUpdate_key m) output1 else output1);
       output3 = (if 0 < length (MapUpdate_value m)
          then lib_WriteBytesMaybeAliased L 3 (MapUpdate_value m) output2 else output2);
       output4 = (if MapUpdate_list_id m \<noteq> 0
          then lib_WriteUInt32 L 4 (MapUpdate_list_id m) output3 else output3)
      in output4)"

definition MapUpdate_SerializeWithCachedSizesToArray :: "pb_lib \<Rightarrow> map_entry \<Rightarrow> bytes \<Rightarrow> bytes" where
  "MapUpdate_SerializeWithCachedSizesToArray L m target =
     (let
       target1 = (if MapUpdate_has_target_object m
          then WriteMessageNoVirtualToArray 1 (ob_cached_size (the (me_target_object m)))
            (AssociatedObject_SerializeWithCachedSizesToArray L (the (me_target_object m))) target else target);
       target2 = (if MapUpdate_key m \<noteq> 0
          then WriteUInt32ToArray 2 (MapUpdate_key m) target1 else target1);
       target3 = (if 0 < length (MapUpdate_value m)
          then WriteBytesToArray L 3 (MapUpdate_value m) target2 else target2);
       target4 = (if MapUpdate_list_id m \<noteq> 0
          then WriteUInt32ToArray 4 (MapUpdate_list_id m) target3 else target3)
      in target4)"

definition MapUpdate_ByteSize :: "pb_lib \<Rightarrow> map_entry \<Rightarrow> int \<times> map_entry" where
  "MapUpdate_ByteSize L m =
     (let
       (total_size1, m1) =
         (if MapUpdate_has_target_object m
          then let (size, ob) = AssociatedObject_ByteSize L (the (me_target_object m))
               in (1 + LengthDelimitedSize L size, m\<lparr>me_target_object := Some ob\<rparr>)
          else (0, m));
       total_size2 = (if MapUpdate_key m \<noteq> 0
          then total_size1 + (1 + UInt32Size L (MapUpdate_key m)) else total_size1);
       total_size3 = (if 0 < length (MapUpdate_value m)
          then total_size2 + (1 + BytesSize L (MapUpdate_value m)) else total_size2);
       total_size4 = (if MapUpdate_list_id m \<noteq> 0
          then total_size3 + (1 + UInt32Size L (MapUpdate_list_id m)) else total_size3)
      in (total_size4, m1\<lparr>me_cached_size := total_size4\<rparr>))"

definition MapUpdate_MergeFrom :: "pb_lib \<Rightarrow> bool \<Rightarrow> map_entry \<Rightarrow> map_entry \<Rightarrow> map_entry res" where
  "MapUpdate_MergeFrom L same src m =
     (if same then Inl Fatal_Exception
      else res_bind (if MapUpdate_has_target_object src
        then let m1a = MapUpdate_mutable_target_object m in
        res_bind (AssociatedObject_MergeFrom L False (MapUpdate_target_object src) (the (me_target_object m1a)))
          (\<lambda>ob. Inr (m1a\<lparr>me_target_object := Some ob\<rparr>))
        else Inr m) (\<lambda>m1.
      let
       m2 = (if MapUpdate_key src \<noteq> 0
          then MapUpdate_set_key (MapUpdate_key src) m1 else m1);
       m3 = (if 0 < length (MapUpdate_value src)
          then m2\<lparr>me_value := lib_AssignWithDefault L (me_value m2)
            (me_value src)\<rparr> else m2);
       m4 = (if MapUpdate_list_id src \<noteq> 0
          then MapUpdate_set_list_id (MapUpdate_list_id src) m3 else m3)
      in Inr m4))"

definition MapUpdate_CopyFrom :: "pb_lib \<Rightarrow> bool \<Rightarrow> map_entry \<Rightarrow> map_entry \<Rightarrow> map_entry res" where
  "MapUpdate_CopyFrom L same src m =
     (if same then Inr m else MapUpdate_MergeFrom L False src (MapUpdate_Clear m))"

definition MapUpdate_copy :: "pb_lib \<Rightarrow> map_entry \<Rightarrow> map_entry res" where
  "MapUpdate_copy L src = MapUpdate_MergeFrom L False src MapUpdate_New"

definition MapUpdate_InternalSwap :: "map_entry \<Rightarrow> map_entry \<Rightarrow> map_entry \<times> map_entry" where
  "MapUpdate_InternalSwap m other =
     (m\<lparr>me_target_object := me_target_object other, me_key := me_key other, me_value := me_value other, me_list_id := me_list_id other, me_cached_size := me_cached_size other\<rparr>,
      other\<lparr>me_target_object := me_target_object m, me_key := me_key m, me_value := me_value m, me_list_id := me_list_id m, me_cached_size := me_cached_size m\<rparr>)"

definition MapUpdate_parse_list_id :: "pb_lib \<Rightarrow> map_entry \<Rightarrow> coded_input \<Rightarrow> map_entry outcome option" where
  "MapUpdate_parse_list_id L m s =
     (let (ok, v, s1) = ReadPrimitive_uint32 L s;
          m1 = m\<lparr>me_list_id := v\<rparr> in
      if \<not> ok then Some (Done False m1 s1)
      else let (at_end, s2) = ExpectAtEnd s1 in
        Some (if at_end then Done True m1 s2 else Again m1 s2))"

definition MapUpdate_parse_value :: "pb_lib \<Rightarrow> map_entry \<Rightarrow> coded_input \<Rightarrow> map_entry outcome option" where
  "MapUpdate_parse_value L m s =
     (let m0 = MapUpdate_mutable_value m;
          (ok, v, s1) = lib_ReadBytes L s (MapUpdate_value m0);
          m1 = m0\<lparr>me_value := Some v\<rparr> in
      if \<not> ok then Some (Done False m1 s1)
      else let (next, s2) = ExpectTag 32 s1 in
        if next then MapUpdate_parse_list_id L m1 s2 else Some (Again m1 s2))"

definition MapUpdate_parse_key :: "pb_lib \<Rightarrow> map_entry \<Rightarrow> coded_input \<Rightarrow> map_entry outcome option" where
  "MapUpdate_parse_key L m s =
     (let (ok, v, s1) = ReadPrimitive_uint32 L s;
          m1 = m\<lparr>me_key := v\<rparr> in
      if \<not> ok then Some (Done False m1 s1)
      else let (next, s2) = ExpectTag 26 s1 in
        if next then MapUpdate_parse_value L m1 s2 else Some (Again m1 s2))"

definition MapUpdate_parse_target_object :: "pb_lib \<Rightarrow> map_entry \<Rightarrow> coded_input \<Rightarrow> map_entry outcome option" where
  "MapUpdate_parse_target_object L m s =
     (let m0 = MapUpdate_mutable_target_object m in
      Option.bind (ReadMessageNoVirtual L (AssociatedObject_MergePartialFromCodedStream L)
          (the (me_target_object m0)) s)
        (\<lambda>(ok, ob, s1). let m1 = m0\<lparr>me_target_object := Some ob\<rparr> in
      if \<not> ok then Some (Done False m1 s1)
      else let (next, s2) = ExpectTag 16 s1 in
        if next then MapUpdate_parse_key L m1 s2 else Some (Again m1 s2)))"

definition MapUpdate_parse_step :: "pb_lib \<Rightarrow> map_entry \<Rightarrow> coded_input \<Rightarrow> map_entry outcome option" where
  "MapUpdate_parse_step L m s =
     (let ((tag, ok), s1) = ReadTagWithCutoff L 127 s in
      if \<not> ok then Some (handle_unusual L tag m s1)
      else if GetTagFieldNumber tag = 1
        then if tag = 10 then MapUpdate_parse_target_object L m s1 else Some (handle_unusual L tag m s1)
      else if GetTagFieldNumber tag = 2
        then if tag = 16 then MapUpdate_parse_key L m s1 else Some (handle_unusual L tag m s1)
      else if GetTagFieldNumber tag = 3
        then if tag = 26 then MapUpdate_parse_value L m s1 else Some (handle_unusual L tag m s1)
      else if GetTagFieldNumber tag = 4
        then if tag = 32 then MapUpdate_parse_list_id L m s1 else Some (handle_unusual L tag m s1)
      else Some (handle_unusual L tag m s1))"

definition MapUpdate_MergePartialFromCodedStream :: "pb_lib \<Rightarrow> map_entry \<Rightarrow> coded_input \<Rightarrow> (bool \<times> map_entry \<times> coded_input) option" where
  "MapUpdate_MergePartialFromCodedStream L m s = parse_loop (MapUpdate_parse_step L) m s"

section \<open>Removing an entry\<close>

definition MapRemove_New :: "map_key" where
  "MapRemove_New =
     \<lparr>mk_is_default = False, mk_target_object = None, mk_key = 0, mk_list_id = 0, mk_cached_size = 0\<rparr>"

definition MapRemove_InitAsDefaultInstance :: "map_key \<Rightarrow> map_key" where
  "MapRemove_InitAsDefaultInstance m =
     m\<lparr>mk_is_default := True, mk_target_object := Some AssociatedObject_default_instance\<rparr>"

definition MapRemove_default_instance :: "map_key" where
  "MapRemove_default_instance = MapRemove_InitAsDefaultInstance MapRemove_New"

definition MapRemove_SetCachedSize :: "int \<Rightarrow> map_key \<Rightarrow> map_key" where
  "MapRemove_SetCachedSize sz m = m\<lparr>mk_cached_size := sz\<rparr>"

definition MapRemove_has_target_object :: "map_key \<Rightarrow> bool" where
  "MapRemove_has_target_object m \<longleftrightarrow> \<not> mk_is_default m \<and> mk_target_object m \<noteq> None"

definition MapRemove_clear_target_object :: "map_key \<Rightarrow> map_key" where
  "MapRemove_clear_target_object m = m\<lparr>mk_target_object := None\<rparr>"

definition MapRemove_target_object :: "map_key \<Rightarrow> AssociatedObject" where
  "MapRemove_target_object m =
     (case mk_target_object m of Some ob \<Rightarrow> ob | None \<Rightarrow> AssociatedObject_default_instance)"

definition MapRemove_mutable_target_object :: "map_key \<Rightarrow> map_key" where
  "MapRemove_mutable_target_object m =
     (case mk_target_object m of Some ob \<Rightarrow> m | None \<Rightarrow> m\<lparr>mk_target_object := Some AssociatedObject_New\<rparr>)"

definition MapRemove_release_target_object :: "map_key \<Rightarrow> AssociatedObject option \<times> map_key" where
  "MapRemove_release_target_object m = (mk_target_object m, m\<lparr>mk_target_object := None\<rparr>)"

definition MapRemove_set_allocated_target_object :: "AssociatedObject option \<Rightarrow> map_key \<Rightarrow> map_key" where
  "MapRemove_set_allocated_target_object ob m = m\<lparr>mk_target_object := ob\<rparr>"

definition MapRemove_clear_key :: "map_key \<Rightarrow> map_key" where
  "MapRemove_clear_key m = m\<lparr>mk_key := 0\<rparr>"

definition MapRemove_key :: "map_key \<Rightarrow> u32" where
  "MapRemove_key m = mk_key m"

definition MapRemove_set_key :: "u32 \<Rightarrow> map_key \<Rightarrow> map_key" where
  "MapRemove_set_key v m = m\<lparr>mk_key := v\<rparr>"

definition MapRemove_clear_list_id :: "map_key \<Rightarrow> map_key" where
  "MapRemove_clear_list_id m = m\<lparr>mk_list_id := 0\<rparr>"

definition MapRemove_list_id :: "map_key \<Rightarrow> u32" where
  "MapRemove_list_id m = mk_list_id m"

definition MapRemove_set_list_id :: "u32 \<Rightarrow> map_key \<Rightarrow> map_key" where
  "MapRemove_set_list_id v m = m\<lparr>mk_list_id := v\<rparr>"

definition MapRemove_Clear :: "map_key \<Rightarrow> map_key" where
  "MapRemove_Clear m =
     m\<lparr>mk_target_object := None,
       mk_key := 0,
       mk_list_id := 0\<rparr>"

definition MapRemove_SerializeWithCachedSizes :: "pb_lib \<Rightarrow> map_key \<Rightarrow> bytes \<Rightarrow> bytes" where
  "MapRemove_SerializeWithCachedSizes L m output =
     (let
       output1 = (if MapRemove_has_target_object m
          then lib_WriteMessageMaybeToArray L 1 (ob_cached_size (the (mk_target_object m)))
            (AssociatedObject_SerializeWithCachedSizes L (the (mk_target_object m))) output else output);
       output2 = (if MapRemove_key m \<noteq> 0
          then lib_WriteUInt32 L 2 (MapRemove_key m) output1 else output1);
       output3 = (if MapRemove_list_id m \<noteq> 0
          then lib_WriteUInt32 L 3 (MapRemove_list_id m) output2 else output2)
      in output3)"

definition MapRemove_SerializeWithCachedSizesToArray :: "pb_lib \<Rightarrow> map_key \<Rightarrow> bytes \<Rightarrow> bytes" where
  "MapRemove_SerializeWithCachedSizesToArray L m target =
     (let
       target1 = (if MapRemove_has_target_object m
          then WriteMessageNoVirtualToArray 1 (ob_cached_size (the (mk_target_object m)))
            (AssociatedObject_SerializeWithCachedSizesToArray L (the (mk_target_object m))) target else target);
       target2 = (if MapRemove_key m \<noteq> 0
          then WriteUInt32ToArray 2 (MapRemove_key m) target1 else target1);
       target3 = (if MapRemove_list_id m \<noteq> 0
          then WriteUInt32ToArray 3 (MapRemove_list_id m) target2 else target2)
      in target3)"

definition MapRemove_ByteSize :: "pb_lib \<Rightarrow> map_key \<Rightarrow> int \<times> map_key" where
  "MapRemove_ByteSize L m =
     (let
       (total_size1, m1) =
         (if MapRemove_has_target_object m
          then let (size, ob) = AssociatedObject_ByteSize L (the (mk_target_object m))
               in (1 + LengthDelimitedSize L size, m\<lparr>mk_target_object := Some ob\<rparr>)
          else (0, m));
       total_size2 = (if MapRemove_key m \<noteq> 0
          then total_size1 + (1 + UInt32Size L (MapRemove_key m)) else total_size1);
       total_size3 = (if MapRemove_list_id m \<noteq> 0
          then total_size2 + (1 + UInt32Size L (MapRemove_list_id m)) else total_size2)
      in (total_size3, m1\<lparr>mk_cached_size := total_size3\<rparr>))"

definition MapRemove_MergeFrom :: "pb_lib \<Rightarrow> bool \<Rightarrow> map_key \<Rightarrow> map_key \<Rightarrow> map_key res" where
  "MapRemove_MergeFrom L same src m =
     (if same then Inl Fatal_Exception
      else res_bind (if MapRemove_has_target_object src
        then let m1a = MapRemove_mutable_target_object m in
        res_bind (AssociatedObject_MergeFrom L False (MapRemove_target_object src) (the (mk_target_object m1a)))
          (\<lambda>ob. Inr (m1a\<lparr>mk_target_object := Some ob\<rparr>))
        else Inr m) (\<lambda>m1.
      let
       m2 = (if MapRemove_key src \<noteq> 0
          then MapRemove_set_key (MapRemove_key src) m1 else m1);
       m3 = (if MapRemove_list_id src \<noteq> 0
          then MapRemove_set_list_id (MapRemove_list_id src) m2 else m2)
      in Inr m3))"

definition MapRemove_CopyFrom :: "pb_lib \<Rightarrow> bool \<Rightarrow> map_key \<Rightarrow> map_key \<Rightarrow> map_key res" where
  "MapRemove_CopyFrom L same src m =
     (if same then Inr m else MapRemove_MergeFrom L False src (MapRemove_Clear m))"

definition MapRemove_copy :: "pb_lib \<Rightarrow> map_key \<Rightarrow> map_key res" where
  "MapRemove_copy L src = MapRemove_MergeFrom L False src MapRemove_New"

definition MapRemove_InternalSwap :: "map_key \<Rightarrow> map_key \<Rightarrow> map_key \<times> map_key" where
  "MapRemove_InternalSwap m other =
     (m\<lparr>mk_target_object := mk_target_object other, mk_key := mk_key other, mk_list_id := mk_list_id other, mk_cached_size := mk_cached_size other\<rparr>,
      other\<lparr>mk_target_object := mk_target_object m, mk_key := mk_key m, mk_list_id := mk_list_id m, mk_cached_size := mk_cached_size m\<rparr>)"

definition MapRemove_parse_list_id :: "pb_lib \<Rightarrow> map_key \<Rightarrow> coded_input \<Rightarrow> map_key outcome option" where
  "MapRemove_parse_list_id L m s =
     (let (ok, v, s1) = ReadPrimitive_uint32 L s;
          m1 = m\<lparr>mk_list_id := v\<rparr> in
      if \<not> ok then Some (Done False m1 s1)
      else let (at_end, s2) = ExpectAtEnd s1 in
        Some (if at_end then Done True m1 s2 else Again m1 s2))"

definition MapRemove_parse_key :: "pb_lib \<Rightarrow> map_key \<Rightarrow> coded_input \<Rightarrow> map_key outcome option" where
  "MapRemove_parse_key L m s =
     (let (ok, v, s1) = ReadPrimitive_uint32 L s;
          m1 = m\<lparr>mk_key := v\<rparr> in
      if \<not> ok then Some (Done False m1 s1)
      else let (next, s2) = ExpectTag 24 s1 in
        if next then MapRemove_parse_list_id L m1 s2 else Some (Again m1 s2))"

definition MapRemove_parse_target_object :: "pb_lib \<Rightarrow> map_key \<Rightarrow> coded_input \<Rightarrow> map_key outcome option" where
  "MapRemove_parse_target_object L m s =
     (let m0 = MapRemove_mutable_target_object m in
      Option.bind (ReadMessageNoVirtual L (AssociatedObject_MergePartialFromCodedStream L)
          (the (mk_target_object m0)) s)
        (\<lambda>(ok, ob, s1). let m1 = m0\<lparr>mk_target_object := Some ob\<rparr> in
      if \<not> ok then Some (Done False m1 s1)
      else let (next, s2) = ExpectTag 16 s1 in
        if next then MapRemove_parse_key L m1 s2 else Some (Again m1 s2)))"

definition MapRemove_parse_step :: "pb_lib \<Rightarrow> map_key \<Rightarrow> coded_input \<Rightarrow> map_key outcome option" where
  "MapRemove_parse_step L m s =
     (let ((tag, ok), s1) = ReadTagWithCutoff L 127 s in
      if \<not> ok then Some (handle_unusual L tag m s1)
      else if GetTagFieldNumber tag = 1
        then if tag = 10 then MapRemove_parse_target_object L m s1 else Some (handle_unusual L tag m s1)
      else if GetTagFieldNumber tag = 2
        then if tag = 16 then MapRemove_parse_key L m s1 else Some (handle_unusual L tag m s1)
      else if GetTagFieldNumber tag = 3
        then if tag = 24 then MapRemove_parse_list_id L m s1 else Some (handle_unusual L tag m s1)
      else Some (handle_unusual L tag m s1))"

definition MapRemove_MergePartialFromCodedStream :: "pb_lib \<Rightarrow> map_key \<Rightarrow> coded_input \<Rightarrow> (bool \<times> map_key \<times> coded_input) option" where
  "MapRemove_MergePartialFromCodedStream L m s = parse_loop (MapRemove_parse_step L) m s"

end
