(* ===== verification/Message_Progress.thy ===== *)
theory Message_Progress
  imports Map_Messages
begin

text \<open>
  Parsing ends on every input: each round of a parse loop that goes on has read a tag, so the unread
  bytes decrease. The classes \<open>INetworkMapAdd\<close> and \<open>INetworkMapUpdate\<close> read and write alike.
\<close>


section \<open>Termination\<close>

fun out_state :: "'m outcome \<Rightarrow> coded_input" where
  "out_state (Again m s) = s"
| "out_state (Done ok m s) = s"

definition goes_down :: "('m \<Rightarrow> coded_input \<Rightarrow> 'm outcome option) \<Rightarrow> bool" where
  "goes_down step \<longleftrightarrow> (\<forall>m s. \<exists>r. step m s = Some r \<and> unread (out_state r) \<le> unread s \<and>
     (\<forall>m1 s1. r = Again m1 s1 \<longrightarrow> unread s1 < unread s))"

lemma parse_loop_returns:
  assumes "goes_down step"
  shows "\<exists>ok m' s'. parse_loop step m s = Some (ok, m', s') \<and> unread s' \<le> unread s"
proof (induction "unread s" arbitrary: m s rule: less_induct)
  case less
  obtain r where r: "step m s = Some r" "unread (out_state r) \<le> unread s"
      "\<And>m1 s1. r = Again m1 s1 \<Longrightarrow> unread s1 < unread s"
    using assms unfolding goes_down_def by metis
  show ?case
  proof (cases r)
    case (Again m1 s1)
    then show ?thesis
      using r less [of s1 m1] by (subst parse_loop.simps) (fastforce simp: less_imp_le)
  next
    case (Done ok m1 s1)
    then show ?thesis
      using r by (subst parse_loop.simps) simp
  qed
qed

definition down :: "'m outcome option \<Rightarrow> coded_input \<Rightarrow> bool" where
  "down x s \<longleftrightarrow> (\<exists>r. x = Some r \<and> unread (out_state r) \<le> unread s)"

lemma down_trans: "down x s1 \<Longrightarrow> unread s1 \<le> unread s \<Longrightarrow> down x s"
  by (auto simp: down_def)

lemma down_Some: "down (Some r) s \<longleftrightarrow> unread (out_state r) \<le> unread s"
  by (simp add: down_def)

context wire_progress
begin

lemma goes_downI:
  assumes "\<And>m s t b s1. ReadTagWithCutoff L 127 s = ((t, b), s1) \<Longrightarrow>
      down (step m s) s1 \<and> (t = 0 \<longrightarrow> (\<exists>ok m2 s2. step m s = Some (Done ok m2 s2)))"
  shows "goes_down step"
  unfolding goes_down_def
proof (intro allI)
  fix m s
  obtain t b s1 where t: "ReadTagWithCutoff L 127 s = ((t, b), s1)"
    by (metis prod.exhaust)
  show "\<exists>r. step m s = Some r \<and> unread (out_state r) \<le> unread s \<and>
      (\<forall>m1 s1. r = Again m1 s1 \<longrightarrow> unread s1 < unread s)"
    using assms [OF t, of m] ReadTag_progress [OF t] by (fastforce simp: down_def)
qed

lemma unusual_down: "down (Some (handle_unusual L t m s)) s"
  by (auto simp: down_Some handle_unusual_def Let_def skip_progress split: prod.splits if_splits)

lemma unusual_zero: "handle_unusual L 0 m s = Done True m s"
  by (simp add: handle_unusual_def)

lemmas read_progress = ReadVarint32_progress ExpectAtEnd_progress ExpectTag_progress bytes_progress

lemma object_code_down: "down (Some (AssociatedObject_parse_network_code L m s)) s"
  by (auto simp: down_Some AssociatedObject_parse_network_code_def ReadPrimitive_uint32_def Let_def
      dest!: read_progress split: prod.splits)

lemma object_manager_down: "down (Some (AssociatedObject_parse_manager_name L m s)) s"
  using down_trans [OF object_code_down]
  by (fastforce simp: down_Some AssociatedObject_parse_manager_name_def ReadString_def Let_def
      dest!: read_progress split: prod.splits)

lemma object_instance_down: "down (Some (AssociatedObject_parse_instance_name L m s)) s"
  using down_trans [OF object_manager_down]
  by (fastforce simp: down_Some AssociatedObject_parse_instance_name_def ReadString_def Let_def
      dest!: read_progress split: prod.splits)

lemma object_step_down: "goes_down (\<lambda>m s. Some (AssociatedObject_parse_step L m s))"
  by (rule goes_downI) (auto simp: AssociatedObject_parse_step_def unusual_down unusual_zero
      object_code_down object_manager_down object_instance_down)

lemma object_returns:
  "\<exists>ok m' s'. AssociatedObject_MergePartialFromCodedStream L m s = Some (ok, m', s') \<and>
     unread s' \<le> unread s"
  unfolding AssociatedObject_MergePartialFromCodedStream_def
  by (rule parse_loop_returns) (rule object_step_down)

lemma object_field_returns:
  "\<exists>ok ob s'. ReadMessageNoVirtual L (AssociatedObject_MergePartialFromCodedStream L) m s
     = Some (ok, ob, s') \<and> unread s' \<le> unread s"
  by (rule ReadMessage_progress) (rule object_returns)

lemma add_list_down: "down (MapAdd_parse_list_id L m s) s"
  by (auto simp: down_Some MapAdd_parse_list_id_def ReadPrimitive_uint32_def Let_def
      dest!: read_progress split: prod.splits)

lemma add_value_down: "down (MapAdd_parse_value L m s) s"
  using down_trans [OF add_list_down]
  by (fastforce simp: down_Some MapAdd_parse_value_def Let_def dest!: read_progress
      split: prod.splits)

lemma add_key_down: "down (MapAdd_parse_key L m s) s"
  using down_trans [OF add_value_down]
  by (fastforce simp: down_Some MapAdd_parse_key_def ReadPrimitive_uint32_def Let_def
      dest!: read_progress split: prod.splits)

lemma add_target_down: "down (MapAdd_parse_target_object L m s) s"
proof -
  obtain ok ob s1 where o: "ReadMessageNoVirtual L (AssociatedObject_MergePartialFromCodedStream L)
      (the (me_target_object (MapAdd_mutable_target_object m))) s = Some (ok, ob, s1)"
    "unread s1 \<le> unread s"
    using object_field_returns by blast
  show ?thesis
    using down_trans [OF add_key_down] o(2)
    by (fastforce simp: down_Some MapAdd_parse_target_object_def o(1) Let_def
        dest!: read_progress split: prod.splits)
qed

lemma add_returns:
  "\<exists>ok m' s'. MapAdd_MergePartialFromCodedStream L m s = Some (ok, m', s') \<and>
     unread s' \<le> unread s"
  unfolding MapAdd_MergePartialFromCodedStream_def
  by (rule parse_loop_returns, rule goes_downI) (auto simp: MapAdd_parse_step_def unusual_down
      unusual_zero add_list_down add_value_down add_key_down add_target_down)

lemma remove_list_down: "down (MapRemove_parse_list_id L m s) s"
  by (auto simp: down_Some MapRemove_parse_list_id_def ReadPrimitive_uint32_def Let_def
      dest!: read_progress split: prod.splits)

lemma remove_key_down: "down (MapRemove_parse_key L m s) s"
  using down_trans [OF remove_list_down]
  by (fastforce simp: down_Some MapRemove_parse_key_def ReadPrimitive_uint32_def Let_def
      dest!: read_progress split: prod.splits)

lemma remove_target_down: "down (MapRemove_parse_target_object L m s) s"
proof -
  obtain ok ob s1 where o: "ReadMessageNoVirtual L (AssociatedObject_MergePartialFromCodedStream L)
      (the (mk_target_object (MapRemove_mutable_target_object m))) s = Some (ok, ob, s1)"
    "unread s1 \<le> unread s"
    using object_field_returns by blast
  show ?thesis
    using down_trans [OF remove_key_down] o(2)
    by (fastforce simp: down_Some MapRemove_parse_target_object_def o(1) Let_def
        dest!: read_progress split: prod.splits)
qed

lemma remove_returns:
  "\<exists>ok m' s'. MapRemove_MergePartialFromCodedStream L m s = Some (ok, m', s') \<and>
     unread s' \<le> unread s"
  unfolding MapRemove_MergePartialFromCodedStream_def
  by (rule parse_loop_returns, rule goes_downI) (auto simp: MapRemove_parse_step_def unusual_down
      unusual_zero remove_list_down remove_key_down remove_target_down)

end

section \<open>Updates are read and written like additions\<close>

lemma update_accessors:
  "MapUpdate_has_target_object = MapAdd_has_target_object" "MapUpdate_key = MapAdd_key"
  "MapUpdate_value = MapAdd_value" "MapUpdate_list_id = MapAdd_list_id"
  "MapUpdate_mutable_target_object = MapAdd_mutable_target_object"
  "MapUpdate_mutable_value = MapAdd_mutable_value"
  by (simp_all add: fun_eq_iff MapUpdate_has_target_object_def MapAdd_has_target_object_def
      MapUpdate_key_def MapAdd_key_def MapUpdate_value_def MapAdd_value_def
      MapUpdate_list_id_def MapAdd_list_id_def MapUpdate_mutable_target_object_def
      MapAdd_mutable_target_object_def MapUpdate_mutable_value_def MapAdd_mutable_value_def)

lemma update_parsers:
  "MapUpdate_parse_list_id = MapAdd_parse_list_id" "MapUpdate_parse_value = MapAdd_parse_value"
  "MapUpdate_parse_key = MapAdd_parse_key"
  "MapUpdate_parse_target_object = MapAdd_parse_target_object"
proof -
  show l: "MapUpdate_parse_list_id = MapAdd_parse_list_id"
    by (simp add: fun_eq_iff MapUpdate_parse_list_id_def MapAdd_parse_list_id_def)
  show v: "MapUpdate_parse_value = MapAdd_parse_value"
    unfolding fun_eq_iff MapUpdate_parse_value_def MapAdd_parse_value_def l update_accessors by simp
  show k: "MapUpdate_parse_key = MapAdd_parse_key"
    unfolding fun_eq_iff MapUpdate_parse_key_def MapAdd_parse_key_def v by simp
  show "MapUpdate_parse_target_object = MapAdd_parse_target_object"
    unfolding fun_eq_iff MapUpdate_parse_target_object_def MapAdd_parse_target_object_def k
      update_accessors by simp
qed

lemma update_reads_like_add:
  "MapUpdate_MergePartialFromCodedStream = MapAdd_MergePartialFromCodedStream"
proof -
  have *: "MapUpdate_parse_step = MapAdd_parse_step"
    unfolding fun_eq_iff MapUpdate_parse_step_def MapAdd_parse_step_def update_parsers by simp
  show ?thesis
    unfolding fun_eq_iff MapUpdate_MergePartialFromCodedStream_def
      MapAdd_MergePartialFromCodedStream_def * by simp
qed

lemma update_writes_like_add:
  "MapUpdate_SerializeWithCachedSizesToArray = MapAdd_SerializeWithCachedSizesToArray"
  "MapUpdate_SerializeWithCachedSizes = MapAdd_SerializeWithCachedSizes"
  "MapUpdate_ByteSize = MapAdd_ByteSize"
  by (simp_all add: fun_eq_iff MapUpdate_SerializeWithCachedSizesToArray_def
      MapAdd_SerializeWithCachedSizesToArray_def MapUpdate_SerializeWithCachedSizes_def
      MapAdd_SerializeWithCachedSizes_def MapUpdate_ByteSize_def MapAdd_ByteSize_def update_accessors)

end
