(* ===== verification/Object_Laws.thy ===== *)
theory Object_Laws
  imports Message_Progress World
begin

text \<open>
  What \<open>INetworkAssociatedObject\<close> puts on the wire, and that the library's interface reads it back:
  parsing the bytes of a message onto another is merging the two. The encodings and the merge are
  stated on the values of the messages, the records the other components use.
\<close>


section \<open>Fields on the wire\<close>

definition string_field :: "u8 \<Rightarrow> bytes \<Rightarrow> bytes" where
  "string_field t b = (if b = [] then [] else t # varint (of_nat (length b)) @ b)"

definition number_field :: "u8 \<Rightarrow> u32 \<Rightarrow> bytes" where
  "number_field t v = (if v = 0 then [] else t # varint v)"

definition object_bytes :: "assoc_object \<Rightarrow> bytes" where
  "object_bytes v = string_field 10 (ao_instance_name v) @ string_field 18 (ao_manager_name v) @
     number_field 24 (ao_network_code v)"

definition object_value :: "AssociatedObject \<Rightarrow> assoc_object" where
  "object_value m = \<lparr>ao_instance_name = GetNoArena (ob_instance_name m),
     ao_manager_name = GetNoArena (ob_manager_name m), ao_network_code = ob_network_code m\<rparr>"

definition merge_object :: "assoc_object \<Rightarrow> assoc_object \<Rightarrow> assoc_object" where
  "merge_object v w = \<lparr>
     ao_instance_name = (if ao_instance_name w = [] then ao_instance_name v else ao_instance_name w),
     ao_manager_name = (if ao_manager_name w = [] then ao_manager_name v else ao_manager_name w),
     ao_network_code = (if ao_network_code w = 0 then ao_network_code v else ao_network_code w)\<rparr>"

definition object_fits :: "assoc_object \<Rightarrow> bool" where
  "object_fits v \<longleftrightarrow> length (object_bytes v) < 2 ^ 31"

text \<open>The stream at the end of its input, where a parse leaves it.\<close>

definition at_end :: "coded_input \<Rightarrow> coded_input" where
  "at_end s = s\<lparr>ci_buffer := [], ci_last_tag := 0, ci_end := True\<rparr>"

lemma at_end_simps [simp]:
  "at_end (s\<lparr>ci_buffer := b\<rparr>) = at_end s" "at_end (s\<lparr>ci_last_tag := t\<rparr>) = at_end s"
  "at_end (s\<lparr>ci_end := e\<rparr>) = at_end s"
  by (simp_all add: at_end_def)

lemma at_limit_simps [simp]:
  "at_limit (s\<lparr>ci_last_tag := t\<rparr>) = at_limit s" "at_limit (s\<lparr>ci_end := e\<rparr>) = at_limit s"
  by (simp_all add: at_limit_def unread_def)

lemma at_limit_shorter:
  "at_limit s \<Longrightarrow> length b \<le> length (ci_buffer s) \<Longrightarrow> at_limit (s\<lparr>ci_buffer := b\<rparr>)"
  by (simp add: at_limit_def unread_def)

definition onward ::
  "('m \<Rightarrow> coded_input \<Rightarrow> 'm outcome option) \<Rightarrow> 'm outcome option
     \<Rightarrow> (bool \<times> 'm \<times> coded_input) option" where
  "onward step x = Option.bind x (\<lambda>r. case r of
      Again m1 s1 \<Rightarrow> parse_loop step m1 s1 | Done ok m1 s1 \<Rightarrow> Some (ok, m1, s1))"

lemma onward_Again: "onward step (Some (Again m s)) = parse_loop step m s"
  by (simp add: onward_def)

lemma onward_Done [simp]: "onward step (Some (Done ok m s)) = Some (ok, m, s)"
  by (simp add: onward_def)

lemma parse_loop_onward: "parse_loop step m s = onward step (step m s)"
  by (subst parse_loop.simps) (simp add: onward_def)

lemma ucast_byte_eq: "(ucast a :: u32) = ucast b \<longleftrightarrow> a = b" for a b :: u8
  by (metis unat_byte word_unat_eq_iff)

lemma ExpectTag_hit:
  "ci_buffer s = t # rest \<Longrightarrow> ucast t < (0x80 :: u32) \<Longrightarrow>
     ExpectTag (ucast t) s = (True, s\<lparr>ci_buffer := rest\<rparr>)"
  by (simp add: ExpectTag_def BufferSize_def Advance_def)

lemma ExpectTag_miss:
  "(\<And>rest. ci_buffer s \<noteq> t # rest) \<Longrightarrow> ucast t < (0x80 :: u32) \<Longrightarrow>
     ExpectTag (ucast t) s = (False, s)"
  by (cases "ci_buffer s") (auto simp: ExpectTag_def BufferSize_def ucast_byte_eq)

lemma ExpectAtEnd_hit: "ci_buffer s = [] \<Longrightarrow> at_limit s \<Longrightarrow> ExpectAtEnd s = (True, at_end s)"
  by (auto simp: ExpectAtEnd_def BufferSize_def at_limit_def at_end_def)

context wire_format
begin

lemma ReadTag_written:
  assumes "ci_buffer s = t # rest" and "0 < sint t"
  shows "ReadTagWithCutoff L 127 s = ((ucast t, True), s\<lparr>ci_last_tag := ucast t, ci_buffer := rest\<rparr>)"
  using assms by (simp add: ReadTagWithCutoff_def BufferSize_def Advance_def Let_def)

lemma ReadTag_at_end:
  assumes "ci_buffer s = []" and "at_limit s"
  shows "ReadTagWithCutoff L 127 s = ((0, False), at_end s)"
  using assms tag_at_end [OF assms]
  by (simp add: ReadTagWithCutoff_def BufferSize_def at_end_def)

lemma unusual_at_end [simp]: "handle_unusual L 0 m s = Done True m s"
  by (simp add: handle_unusual_def)

lemma object_at_end:
  assumes "ci_buffer s = []" and "at_limit s"
  shows "AssociatedObject_MergePartialFromCodedStream L m s = Some (True, m, at_end s)"
  unfolding AssociatedObject_MergePartialFromCodedStream_def
  by (subst parse_loop_onward) (simp add: AssociatedObject_parse_step_def ReadTag_at_end [OF assms])

abbreviation "object_onward \<equiv> onward (\<lambda>m s. Some (AssociatedObject_parse_step L m s))"

lemma object_onward_Again:
  "object_onward (Some (Again m s)) = AssociatedObject_MergePartialFromCodedStream L m s"
  by (simp add: AssociatedObject_MergePartialFromCodedStream_def onward_Again)

lemma object_unfold:
  "AssociatedObject_MergePartialFromCodedStream L m s =
     object_onward (Some (AssociatedObject_parse_step L m s))"
  unfolding AssociatedObject_MergePartialFromCodedStream_def
  by (subst parse_loop_onward) simp

lemma object_code_read:
  assumes "ci_buffer s = varint v" and "at_limit s"
  shows "object_onward (Some (AssociatedObject_parse_network_code L m s)) =
    Some (True, m\<lparr>ob_network_code := v\<rparr>, at_end s)"
  using ReadVarint32_written [of s v "[]"] assms
  by (simp add: AssociatedObject_parse_network_code_def ReadPrimitive_uint32_def
      ExpectAtEnd_hit at_limit_shorter)

definition put_code :: "u32 \<Rightarrow> AssociatedObject \<Rightarrow> AssociatedObject" where
  "put_code v m = (if v = 0 then m else m\<lparr>ob_network_code := v\<rparr>)"

lemma object_code_loop:
  assumes "ci_buffer s = number_field 24 v" and "at_limit s"
  shows "AssociatedObject_MergePartialFromCodedStream L m s = Some (True, put_code v m, at_end s)"
proof (cases "v = 0")
  case True
  then show ?thesis
    using assms by (simp add: number_field_def put_code_def object_at_end)
next
  case False
  then have b: "ci_buffer s = 24 # varint v"
    using assms by (simp add: number_field_def)
  let ?s = "s\<lparr>ci_last_tag := 24, ci_buffer := varint v\<rparr>"
  have "at_limit ?s"
    using assms(2) b by (intro at_limit_shorter) simp_all
  then show ?thesis
    using False object_code_read [of ?s v m] ReadTag_written [OF b]
    by (simp add: object_unfold AssociatedObject_parse_step_def GetTagFieldNumber_def put_code_def)
qed

lemma object_manager_read:
  assumes "ci_buffer s = varint (of_nat (length b)) @ b @ number_field 24 v" and "at_limit s"
    and "length b < 2 ^ 31"
  shows "object_onward (Some (AssociatedObject_parse_manager_name L m s)) =
    Some (True, put_code v (m\<lparr>ob_manager_name := Some b\<rparr>), at_end s)"
proof -
  let ?s = "s\<lparr>ci_buffer := number_field 24 v\<rparr>"
  let ?m = "m\<lparr>ob_manager_name := Some b\<rparr>"
  have l: "at_limit ?s"
    using assms by (simp add: at_limit_shorter)
  have r: "lib_ReadBytes L s old = (True, b, ?s)" for old
    using bytes_read [OF assms(3, 1)] by simp
  show ?thesis
  proof (cases "v = 0")
    case True
    then have "ExpectTag 24 ?s = (False, ?s)"
      using ExpectTag_miss [of ?s 24] by (simp add: number_field_def)
    then show ?thesis
      using object_code_loop [of ?s v ?m] l True
      by (simp add: AssociatedObject_parse_manager_name_def ReadString_def r object_onward_Again
          AssociatedObject_mutable_manager_name_def)
  next
    case False
    then have "ExpectTag 24 ?s = (True, s\<lparr>ci_buffer := varint v\<rparr>)"
      using ExpectTag_hit [of ?s 24 "varint v"] by (simp add: number_field_def)
    moreover have "at_limit (s\<lparr>ci_buffer := varint v\<rparr>)"
      using False assms by (intro at_limit_shorter) (simp_all add: number_field_def)
    ultimately show ?thesis
      using object_code_read [of "s\<lparr>ci_buffer := varint v\<rparr>" v ?m] False
      by (simp add: AssociatedObject_parse_manager_name_def ReadString_def r put_code_def
          AssociatedObject_mutable_manager_name_def)
  qed
qed

definition put_manager :: "bytes \<Rightarrow> AssociatedObject \<Rightarrow> AssociatedObject" where
  "put_manager b m = (if b = [] then m else m\<lparr>ob_manager_name := Some b\<rparr>)"

definition put_instance :: "bytes \<Rightarrow> AssociatedObject \<Rightarrow> AssociatedObject" where
  "put_instance b m = (if b = [] then m else m\<lparr>ob_instance_name := Some b\<rparr>)"

lemma object_manager_loop:
  assumes "ci_buffer s = string_field 18 b @ number_field 24 v" and "at_limit s"
    and "length b < 2 ^ 31"
  shows "AssociatedObject_MergePartialFromCodedStream L m s =
    Some (True, put_code v (put_manager b m), at_end s)"
proof (cases "b = []")
  case True
  then show ?thesis
    using assms by (simp add: string_field_def put_manager_def object_code_loop)
next
  case False
  let ?rest = "varint (of_nat (length b)) @ b @ number_field 24 v"
  have b: "ci_buffer s = 18 # ?rest"
    using False assms by (simp add: string_field_def)
  let ?s = "s\<lparr>ci_last_tag := 18, ci_buffer := ?rest\<rparr>"
  have "at_limit ?s"
    using assms(2) b by (intro at_limit_shorter) simp_all
  then show ?thesis
    using False object_manager_read [of ?s b v m] ReadTag_written [OF b] assms(3)
    by (simp add: object_unfold AssociatedObject_parse_step_def GetTagFieldNumber_def put_manager_def)
qed

lemma object_instance_read:
  assumes "ci_buffer s = varint (of_nat (length a)) @ a @ string_field 18 b @ number_field 24 v"
    and "at_limit s" and "length a < 2 ^ 31" and "length b < 2 ^ 31"
  shows "object_onward (Some (AssociatedObject_parse_instance_name L m s)) =
    Some (True, put_code v (put_manager b (m\<lparr>ob_instance_name := Some a\<rparr>)), at_end s)"
proof -
  let ?next = "varint (of_nat (length b)) @ b @ number_field 24 v"
  let ?s = "s\<lparr>ci_buffer := string_field 18 b @ number_field 24 v\<rparr>"
  let ?m = "m\<lparr>ob_instance_name := Some a\<rparr>"
  have l: "at_limit ?s"
    using assms by (simp add: at_limit_shorter)
  have r: "lib_ReadBytes L s old = (True, a, ?s)" for old
    using bytes_read [OF assms(3, 1)] by simp
  show ?thesis
  proof (cases "b = []")
    case True
    then have "ExpectTag 18 ?s = (False, ?s)"
      using ExpectTag_miss [of ?s 18] by (simp add: number_field_def string_field_def)
    then show ?thesis
      using object_manager_loop [of ?s b v ?m] l True
      by (simp add: AssociatedObject_parse_instance_name_def ReadString_def r object_onward_Again
          AssociatedObject_mutable_instance_name_def)
  next
    case False
    then have "ExpectTag 18 ?s = (True, s\<lparr>ci_buffer := ?next\<rparr>)"
      using ExpectTag_hit [of ?s 18 ?next] by (simp add: string_field_def)
    moreover have "at_limit (s\<lparr>ci_buffer := ?next\<rparr>)"
      using False assms by (intro at_limit_shorter) (simp_all add: string_field_def)
    ultimately show ?thesis
      using object_manager_read [of "s\<lparr>ci_buffer := ?next\<rparr>" b v ?m] False assms(4)
      by (simp add: AssociatedObject_parse_instance_name_def ReadString_def r put_manager_def
          AssociatedObject_mutable_instance_name_def)
  qed
qed

lemma object_loop:
  assumes "ci_buffer s = string_field 10 a @ string_field 18 b @ number_field 24 v"
    and "at_limit s" and "length a < 2 ^ 31" and "length b < 2 ^ 31"
  shows "AssociatedObject_MergePartialFromCodedStream L m s =
    Some (True, put_code v (put_manager b (put_instance a m)), at_end s)"
proof (cases "a = []")
  case True
  then show ?thesis
    using assms by (simp add: string_field_def [of 10] put_instance_def object_manager_loop)
next
  case False
  let ?rest = "varint (of_nat (length a)) @ a @ string_field 18 b @ number_field 24 v"
  have b: "ci_buffer s = 10 # ?rest"
    using False assms by (simp add: string_field_def)
  let ?s = "s\<lparr>ci_last_tag := 10, ci_buffer := ?rest\<rparr>"
  have "at_limit ?s"
    using assms(2) b by (intro at_limit_shorter) simp_all
  then show ?thesis
    using False object_instance_read [of ?s a b v m] ReadTag_written [OF b] assms(3, 4)
    by (simp add: object_unfold AssociatedObject_parse_step_def GetTagFieldNumber_def put_instance_def)
qed

lemma fits_lengths:
  assumes "object_fits v"
  shows "length (ao_instance_name v) < 2 ^ 31" "length (ao_manager_name v) < 2 ^ 31"
  using assms by (auto simp: object_fits_def object_bytes_def string_field_def split: if_splits)

text \<open>An object message is read back onto a message the way it would be merged into it.\<close>

lemma object_read_back:
  assumes "ci_buffer s = object_bytes v" and "at_limit s" and "object_fits v"
  obtains m' where "AssociatedObject_MergePartialFromCodedStream L m s = Some (True, m', at_end s)"
    and "object_value m' = merge_object (object_value m) v"
proof
  show "AssociatedObject_MergePartialFromCodedStream L m s = Some (True,
      put_code (ao_network_code v) (put_manager (ao_manager_name v) (put_instance (ao_instance_name v) m)),
      at_end s)"
    using object_loop fits_lengths [OF assms(3)] assms(1, 2) by (simp add: object_bytes_def)
  show "object_value (put_code (ao_network_code v) (put_manager (ao_manager_name v)
      (put_instance (ao_instance_name v) m))) = merge_object (object_value m) v"
    by (simp add: object_value_def merge_object_def put_code_def put_manager_def put_instance_def)
qed

section \<open>What is written\<close>

lemma written_string:
  assumes "b \<noteq> []" and "length b < 2 ^ 32"
  shows "WriteStringToArray L 1 b t = t @ string_field 10 b"
    and "WriteStringToArray L 2 b t = t @ string_field 18 b"
    and "WriteBytesToArray L 3 b t = t @ string_field 26 b"
  using assms by (simp_all add: WriteStringToArray_def WriteBytesToArray_def string_written
      WriteTagToArray_field_def WriteTagToArray_def WriteVarint32ToArray_eq varint_small string_field_def)

lemma written_number:
  assumes "v \<noteq> 0"
  shows "WriteUInt32ToArray 2 v t = t @ number_field 16 v"
    and "WriteUInt32ToArray 3 v t = t @ number_field 24 v"
    and "WriteUInt32ToArray 4 v t = t @ number_field 32 v"
  using assms by (simp_all add: WriteUInt32ToArray_def WriteUInt32NoTagToArray_def
      WriteTagToArray_field_def WriteTagToArray_def WriteVarint32ToArray_eq varint_small number_field_def)

lemma object_written:
  assumes "object_fits (object_value m)"
  shows "AssociatedObject_SerializeWithCachedSizesToArray L m t = t @ object_bytes (object_value m)"
  using fits_lengths [OF assms]
  by (simp add: AssociatedObject_SerializeWithCachedSizesToArray_def Let_def object_value_def
      AssociatedObject_instance_name_def AssociatedObject_manager_name_def
      AssociatedObject_network_code_def written_string written_number object_bytes_def)
    (simp add: string_field_def number_field_def)

lemma StringSize_eq:
  assumes "length (string_field t b) < 2 ^ 31" and "b \<noteq> []"
  shows "1 + StringSize L b = int (length (string_field t b))"
proof -
  have "sint (word_of_int (int n) :: u32) = int n" if "n < 2 ^ 31" for n
    using that by (simp add: signed_of_nat signed_take_bit_int_eq_self)
  from this [of "length (varint (of_nat (length b))) + length b"] show ?thesis
    using assms by (simp add: StringSize_def VarintSize32_eq string_field_def)
qed

lemma UInt32Size_eq: "v \<noteq> 0 \<Longrightarrow> 1 + UInt32Size L v = int (length (number_field t v))"
  by (simp add: UInt32Size_def VarintSize32_eq number_field_def)

lemma object_size:
  assumes "object_fits (object_value m)"
  shows "AssociatedObject_ByteSize L m = (int (length (object_bytes (object_value m))),
    m\<lparr>ob_cached_size := int (length (object_bytes (object_value m)))\<rparr>)"
proof -
  have a: "length (string_field 10 (AssociatedObject_instance_name m)) < 2 ^ 31"
    and b: "length (string_field 18 (AssociatedObject_manager_name m)) < 2 ^ 31"
    using assms by (simp_all add: object_fits_def object_bytes_def object_value_def
        AssociatedObject_instance_name_def AssociatedObject_manager_name_def)
  show ?thesis
    using StringSize_eq [OF a] StringSize_eq [OF b]
      UInt32Size_eq [of "AssociatedObject_network_code m" 24]
    by (simp add: AssociatedObject_ByteSize_def Let_def object_bytes_def object_value_def
        AssociatedObject_instance_name_def AssociatedObject_manager_name_def
        AssociatedObject_network_code_def)
      (simp add: string_field_def number_field_def)
qed

lemma object_streamed:
  "AssociatedObject_SerializeWithCachedSizes L = AssociatedObject_SerializeWithCachedSizesToArray L"
  by (simp add: fun_eq_iff AssociatedObject_SerializeWithCachedSizes_def
      AssociatedObject_SerializeWithCachedSizesToArray_def string_streamed uint32_streamed)

lemma object_merged:
  obtains m' where "AssociatedObject_MergeFrom L False src m = Inr m'"
    and "object_value m' = merge_object (object_value m) (object_value src)"
    and "ob_is_default m' = ob_is_default m"
  by (simp add: AssociatedObject_MergeFrom_def Let_def object_value_def merge_object_def
      AssociatedObject_instance_name_def AssociatedObject_manager_name_def
      AssociatedObject_network_code_def AssociatedObject_set_network_code_def string_assigned)
end
end
