(* ===== verification/Entry_Laws.thy ===== *)
theory Entry_Laws
  imports Object_Laws
begin

text \<open>
  What \<open>INetworkMapAdd\<close> (and with it \<open>INetworkMapUpdate\<close>) puts on the wire, its size, its merge, and
  that the bytes are read back field by field, each read jumping to the field the writer puts next.
\<close>


section \<open>Values of the map messages\<close>

type_synonym entry_parts = "assoc_object option \<times> u32 \<times> bytes \<times> u32"

definition entry_value :: "map_entry \<Rightarrow> entry_parts" where
  "entry_value m =
     (map_option object_value (me_target_object m), me_key m, GetNoArena (me_value m), me_list_id m)"

definition target_field :: "assoc_object option \<Rightarrow> bytes" where
  "target_field t = (case t of None \<Rightarrow> []
     | Some v \<Rightarrow> 10 # varint (of_nat (length (object_bytes v))) @ object_bytes v)"

definition merge_target ::
  "assoc_object option \<Rightarrow> assoc_object option \<Rightarrow> assoc_object option" where
  "merge_target t u = (case u of None \<Rightarrow> t
     | Some w \<Rightarrow> Some (merge_object (case t of Some v \<Rightarrow> v | None \<Rightarrow> assoc_default) w))"

fun entry_bytes :: "entry_parts \<Rightarrow> bytes" where
  "entry_bytes (t, k, b, l) =
     target_field t @ number_field 16 k @ string_field 26 b @ number_field 32 l"

fun merge_entry :: "entry_parts \<Rightarrow> entry_parts \<Rightarrow> entry_parts" where
  "merge_entry (t, k, b, l) (t', k', b', l') =
     (merge_target t t', if k' = 0 then k else k', if b' = [] then b else b',
      if l' = 0 then l else l')"

definition entry_fits :: "entry_parts \<Rightarrow> bool" where
  "entry_fits v \<longleftrightarrow> length (entry_bytes v) < 2 ^ 31"

lemma object_value_New: "object_value AssociatedObject_New = assoc_default"
  by (simp add: object_value_def AssociatedObject_New_def assoc_default_def)

definition readable :: "coded_input \<Rightarrow> bool" where
  "readable s \<longleftrightarrow> at_limit s \<and> 0 < ci_budget s"

lemma readable_simps [simp]:
  "readable (s\<lparr>ci_last_tag := t\<rparr>) = readable s" "readable (s\<lparr>ci_end := e\<rparr>) = readable s"
  by (simp_all add: readable_def)

lemma readable_shorter:
  "readable s \<Longrightarrow> length b \<le> length (ci_buffer s) \<Longrightarrow> readable (s\<lparr>ci_buffer := b\<rparr>)"
  by (simp add: readable_def at_limit_shorter)

lemma sint_of_nat: "n < 2 ^ 31 \<Longrightarrow> sint (word_of_nat n :: u32) = int n"
  by (simp add: signed_of_nat signed_take_bit_int_eq_self)

context wire_format
begin

lemma object_field_read:
  assumes b: "ci_buffer s = varint (of_nat (length (object_bytes v))) @ object_bytes v @ rest"
    and s: "readable s" and fits: "object_fits v"
  obtains ob' e where
    "ReadMessageNoVirtual L (AssociatedObject_MergePartialFromCodedStream L) ob s =
       Some (True, ob', s\<lparr>ci_last_tag := 0, ci_end := e, ci_buffer := rest\<rparr>)"
    "object_value ob' = merge_object (object_value ob) v"
proof -
  let ?n = "length (object_bytes v)"
  let ?s1 = "s\<lparr>ci_buffer := object_bytes v @ rest\<rparr>"
  let ?s2 = "s\<lparr>ci_buffer := object_bytes v, ci_after := rest @ ci_after s,
      ci_limit := ci_total s - (int (length rest) + int (length (ci_after s))),
      ci_budget := ci_budget s - 1\<rparr>"
  have l1: "at_limit ?s1"
    using b s by (intro at_limit_shorter) (simp_all add: readable_def)
  have push: "lib_IncrementRecursionDepthAndPushLimit L (int ?n) ?s1 =
      ((ci_limit s, ci_budget s - 1), ?s2)"
    using limit_pushed [of ?n ?s1] l1 by simp
  have l2: "at_limit ?s2"
    using l1 by (simp add: at_limit_def unread_def)
  obtain ob' where ob': "AssociatedObject_MergePartialFromCodedStream L ob ?s2 =
      Some (True, ob', at_end ?s2)" "object_value ob' = merge_object (object_value ob) v"
    using object_read_back [of ?s2 v ob] l2 fits by auto
  have "at_limit (at_end ?s2)"
    using l2 by (simp add: at_limit_def unread_def at_end_def)
  moreover have "ci_limit s = ci_total s - int (length (ci_after s))"
    using s by (simp add: readable_def at_limit_def)
  ultimately obtain e where pop: "lib_DecrementRecursionDepthAndPopLimit L (ci_limit s) (at_end ?s2) =
      (True, s\<lparr>ci_last_tag := 0, ci_end := e, ci_buffer := rest\<rparr>)"
    using limit_popped [of "at_end ?s2" rest "ci_after s" "ci_limit s"]
    by (cases s) (auto simp: at_end_def)
  have "sint (word_of_nat ?n :: u32) = int ?n"
    using fits by (intro sint_of_nat) (simp add: object_fits_def)
  then show ?thesis
    using that [OF _ ob'(2), of e] s
    by (simp add: ReadMessageNoVirtual_def ReadVarint32_written [OF b] push ob'(1) pop readable_def)
qed

abbreviation "add_onward \<equiv> onward (MapAdd_parse_step L)"

lemma add_onward_Again:
  "add_onward (Some (Again m s)) = MapAdd_MergePartialFromCodedStream L m s"
  by (simp add: MapAdd_MergePartialFromCodedStream_def onward_Again)

lemma add_unfold:
  "MapAdd_MergePartialFromCodedStream L m s = add_onward (MapAdd_parse_step L m s)"
  unfolding MapAdd_MergePartialFromCodedStream_def by (subst parse_loop_onward) simp

lemma add_at_end:
  assumes "ci_buffer s = []" and "readable s"
  shows "MapAdd_MergePartialFromCodedStream L m s = Some (True, m, at_end s)"
  using ReadTag_at_end [OF assms(1)] assms(2)
  by (simp add: add_unfold MapAdd_parse_step_def readable_def)

lemma add_list_read:
  assumes "ci_buffer s = varint l" and "readable s"
  shows "add_onward (MapAdd_parse_list_id L m s) = Some (True, m\<lparr>me_list_id := l\<rparr>, at_end s)"
  using ReadVarint32_written [of s l "[]"] assms
  by (simp add: MapAdd_parse_list_id_def ReadPrimitive_uint32_def ExpectAtEnd_hit at_limit_shorter
      readable_def)

definition put_list :: "u32 \<Rightarrow> map_entry \<Rightarrow> map_entry" where
  "put_list l m = (if l = 0 then m else m\<lparr>me_list_id := l\<rparr>)"

definition put_value :: "bytes \<Rightarrow> map_entry \<Rightarrow> map_entry" where
  "put_value b m = (if b = [] then m else m\<lparr>me_value := Some b\<rparr>)"

definition put_key :: "u32 \<Rightarrow> map_entry \<Rightarrow> map_entry" where
  "put_key k m = (if k = 0 then m else m\<lparr>me_key := k\<rparr>)"

lemma add_list_loop:
  assumes "ci_buffer s = number_field 32 l" and "readable s"
  shows "MapAdd_MergePartialFromCodedStream L m s = Some (True, put_list l m, at_end s)"
proof (cases "l = 0")
  case True
  then show ?thesis
    using assms by (simp add: number_field_def put_list_def add_at_end)
next
  case False
  then have b: "ci_buffer s = 32 # varint l"
    using assms by (simp add: number_field_def)
  have "readable (s\<lparr>ci_last_tag := 32, ci_buffer := varint l\<rparr>)"
    using assms(2) b by (intro readable_shorter) simp_all
  from add_list_read [OF _ this] show ?thesis
    using False ReadTag_written [OF b]
    by (simp add: add_unfold MapAdd_parse_step_def GetTagFieldNumber_def put_list_def)
qed

lemma add_value_read:
  assumes "ci_buffer s = varint (of_nat (length b)) @ b @ number_field 32 l" and "readable s"
    and "length b < 2 ^ 31"
  shows "add_onward (MapAdd_parse_value L m s) =
    Some (True, put_list l (m\<lparr>me_value := Some b\<rparr>), at_end s)"
proof -
  let ?s = "s\<lparr>ci_buffer := number_field 32 l\<rparr>"
  let ?m = "m\<lparr>me_value := Some b\<rparr>"
  have r: "lib_ReadBytes L s old = (True, b, ?s)" for old
    using bytes_read [OF assms(3, 1)] by simp
  show ?thesis
  proof (cases "l = 0")
    case True
    then have "ExpectTag 32 ?s = (False, ?s)"
      using ExpectTag_miss [of ?s 32] by (simp add: number_field_def)
    moreover have "readable ?s"
      using assms by (simp add: readable_shorter)
    ultimately show ?thesis
      using add_list_loop [of ?s l ?m] True
      by (simp add: MapAdd_parse_value_def r add_onward_Again MapAdd_mutable_value_def)
  next
    case False
    then have "ExpectTag 32 ?s = (True, s\<lparr>ci_buffer := varint l\<rparr>)"
      using ExpectTag_hit [of ?s 32 "varint l"] by (simp add: number_field_def)
    moreover have "readable (s\<lparr>ci_buffer := varint l\<rparr>)"
      using False assms by (intro readable_shorter) (simp_all add: number_field_def)
    ultimately show ?thesis
      using add_list_read [of "s\<lparr>ci_buffer := varint l\<rparr>" l ?m] False
      by (simp add: MapAdd_parse_value_def r put_list_def MapAdd_mutable_value_def)
  qed
qed

lemma add_value_loop:
  assumes "ci_buffer s = string_field 26 b @ number_field 32 l" and "readable s"
    and "length b < 2 ^ 31"
  shows "MapAdd_MergePartialFromCodedStream L m s =
    Some (True, put_list l (put_value b m), at_end s)"
proof (cases "b = []")
  case True
  then show ?thesis
    using assms by (simp add: string_field_def put_value_def add_list_loop)
next
  case False
  let ?rest = "varint (of_nat (length b)) @ b @ number_field 32 l"
  have b: "ci_buffer s = 26 # ?rest"
    using False assms by (simp add: string_field_def)
  have "readable (s\<lparr>ci_last_tag := 26, ci_buffer := ?rest\<rparr>)"
    using assms(2) b by (intro readable_shorter) simp_all
  from add_value_read [OF _ this assms(3)] show ?thesis
    using False ReadTag_written [OF b]
    by (simp add: add_unfold MapAdd_parse_step_def GetTagFieldNumber_def put_value_def)
qed

lemma add_key_read:
  assumes "ci_buffer s = varint k @ string_field 26 b @ number_field 32 l" and "readable s"
    and "length b < 2 ^ 31"
  shows "add_onward (MapAdd_parse_key L m s) =
    Some (True, put_list l (put_value b (m\<lparr>me_key := k\<rparr>)), at_end s)"
proof -
  let ?next = "varint (of_nat (length b)) @ b @ number_field 32 l"
  let ?s = "s\<lparr>ci_buffer := string_field 26 b @ number_field 32 l\<rparr>"
  let ?m = "m\<lparr>me_key := k\<rparr>"
  show ?thesis
  proof (cases "b = []")
    case True
    then have "ExpectTag 26 ?s = (False, ?s)"
      using ExpectTag_miss [of ?s 26] by (simp add: number_field_def string_field_def)
    moreover have "readable ?s"
      using assms by (simp add: readable_shorter)
    ultimately show ?thesis
      using add_value_loop [of ?s b l ?m] assms(3) True
      by (simp add: MapAdd_parse_key_def ReadPrimitive_uint32_def ReadVarint32_written [OF assms(1)]
          add_onward_Again)
  next
    case False
    then have "ExpectTag 26 ?s = (True, s\<lparr>ci_buffer := ?next\<rparr>)"
      using ExpectTag_hit [of ?s 26 ?next] by (simp add: string_field_def)
    moreover have "readable (s\<lparr>ci_buffer := ?next\<rparr>)"
      using False assms by (intro readable_shorter) (simp_all add: string_field_def)
    ultimately show ?thesis
      using add_value_read [of "s\<lparr>ci_buffer := ?next\<rparr>" b l ?m] False assms(3)
      by (simp add: MapAdd_parse_key_def ReadPrimitive_uint32_def ReadVarint32_written [OF assms(1)]
          put_value_def)
  qed
qed

lemma add_key_loop:
  assumes "ci_buffer s = number_field 16 k @ string_field 26 b @ number_field 32 l"
    and "readable s" and "length b < 2 ^ 31"
  shows "MapAdd_MergePartialFromCodedStream L m s =
    Some (True, put_list l (put_value b (put_key k m)), at_end s)"
proof (cases "k = 0")
  case True
  then show ?thesis
    using assms by (simp add: number_field_def [of 16] put_key_def add_value_loop)
next
  case False
  let ?rest = "varint k @ string_field 26 b @ number_field 32 l"
  have b: "ci_buffer s = 16 # ?rest"
    using False assms by (simp add: number_field_def)
  have "readable (s\<lparr>ci_last_tag := 16, ci_buffer := ?rest\<rparr>)"
    using assms(2) b by (intro readable_shorter) simp_all
  from add_key_read [OF _ this assms(3)] show ?thesis
    using False ReadTag_written [OF b]
    by (simp add: add_unfold MapAdd_parse_step_def GetTagFieldNumber_def put_key_def)
qed

lemma add_target_read:
  assumes b: "ci_buffer s = varint (of_nat (length (object_bytes v))) @ object_bytes v @
      number_field 16 k @ string_field 26 b @ number_field 32 l"
    and s: "readable s" and fits: "length b < 2 ^ 31" "object_fits v"
  obtains ob where "object_value ob =
      merge_object (object_value (the (me_target_object (MapAdd_mutable_target_object m)))) v"
    and "add_onward (MapAdd_parse_target_object L m s) =
      Some (True, put_list l (put_value b (put_key k (m\<lparr>me_target_object := Some ob\<rparr>))), at_end s)"
proof -
  let ?rest = "string_field 26 b @ number_field 32 l"
  obtain ob e where
    r: "ReadMessageNoVirtual L (AssociatedObject_MergePartialFromCodedStream L)
          (the (me_target_object (MapAdd_mutable_target_object m))) s =
       Some (True, ob, s\<lparr>ci_last_tag := 0, ci_end := e, ci_buffer := number_field 16 k @ ?rest\<rparr>)"
    and v: "object_value ob =
      merge_object (object_value (the (me_target_object (MapAdd_mutable_target_object m)))) v"
    using object_field_read [OF b s fits(2)] by blast
  have m: "MapAdd_mutable_target_object m\<lparr>me_target_object := Some ob\<rparr> = m\<lparr>me_target_object := Some ob\<rparr>"
    by (simp add: MapAdd_mutable_target_object_def split: option.splits)
  let ?s0 = "s\<lparr>ci_last_tag := 0, ci_end := e\<rparr>"
  let ?s = "?s0\<lparr>ci_buffer := number_field 16 k @ ?rest\<rparr>"
  let ?m = "m\<lparr>me_target_object := Some ob\<rparr>"
  have "add_onward (MapAdd_parse_target_object L m s) =
      Some (True, put_list l (put_value b (put_key k ?m)), at_end s)"
  proof (cases "k = 0")
    case True
    then have "ExpectTag 16 ?s = (False, ?s)"
      using ExpectTag_miss [of ?s 16] by (simp add: number_field_def string_field_def)
    moreover have "readable ?s"
      using b s by (intro readable_shorter) simp_all
    ultimately show ?thesis
      using add_key_loop [of ?s k b l ?m] fits True
      by (simp add: MapAdd_parse_target_object_def r m add_onward_Again)
  next
    case False
    then have "ExpectTag 16 ?s = (True, ?s0\<lparr>ci_buffer := varint k @ ?rest\<rparr>)"
      using ExpectTag_hit [of ?s 16 "varint k @ ?rest"] by (simp add: number_field_def)
    moreover have "readable (?s0\<lparr>ci_buffer := varint k @ ?rest\<rparr>)"
      using False b s by (intro readable_shorter) (simp_all add: number_field_def)
    ultimately show ?thesis
      using add_key_read [of "?s0\<lparr>ci_buffer := varint k @ ?rest\<rparr>" k b l ?m] False fits
      by (simp add: MapAdd_parse_target_object_def r m put_key_def)
  qed
  with v show ?thesis
    using that by blast
qed

lemma entry_fits_parts:
  assumes "entry_fits (t, k, b, l)"
  shows "length b < 2 ^ 31" and "t = Some v \<Longrightarrow> object_fits v"
  using assms
  by (auto simp: entry_fits_def object_fits_def string_field_def target_field_def split: if_splits)

lemma add_read_back:
  assumes "ci_buffer s = entry_bytes v" and "readable s" and "entry_fits v"
  obtains m' where "MapAdd_MergePartialFromCodedStream L m s = Some (True, m', at_end s)"
    and "entry_value m' = merge_entry (entry_value m) v"
proof -
  obtain t k b l where v: "v = (t, k, b, l)"
    by (cases v)
  note fits = entry_fits_parts [OF assms(3) [unfolded v]]
  show ?thesis
  proof (cases t)
    case None
    show ?thesis
      by (rule that [of "put_list l (put_value b (put_key k m))"])
        (use assms(1, 2) fits None in \<open>simp_all add: v target_field_def add_key_loop entry_value_def
          put_list_def put_value_def put_key_def merge_target_def\<close>)
  next
    case (Some w)
    let ?rest = "varint (of_nat (length (object_bytes w))) @ object_bytes w @
      number_field 16 k @ string_field 26 b @ number_field 32 l"
    have b: "ci_buffer s = 10 # ?rest"
      using assms(1) by (simp add: v Some target_field_def)
    let ?s = "s\<lparr>ci_last_tag := 10, ci_buffer := ?rest\<rparr>"
    have "readable ?s"
      using assms(2) b by (intro readable_shorter) simp_all
    then obtain ob where ob:
        "object_value ob = merge_object (object_value (the (me_target_object
           (MapAdd_mutable_target_object m)))) w"
        "add_onward (MapAdd_parse_target_object L m ?s) =
          Some (True, put_list l (put_value b (put_key k (m\<lparr>me_target_object := Some ob\<rparr>))), at_end ?s)"
      using add_target_read [of ?s w k b l m] fits Some by auto
    have "object_value (the (me_target_object (MapAdd_mutable_target_object m))) =
        (case map_option object_value (me_target_object m) of Some v \<Rightarrow> v | None \<Rightarrow> assoc_default)"
      by (simp add: MapAdd_mutable_target_object_def object_value_New split: option.splits)
    then show ?thesis
      by (intro that [of "put_list l (put_value b (put_key k (m\<lparr>me_target_object := Some ob\<rparr>)))"])
        (use ob ReadTag_written [OF b] in \<open>simp_all add: add_unfold MapAdd_parse_step_def
          GetTagFieldNumber_def v Some entry_value_def put_list_def put_value_def put_key_def
          merge_target_def\<close>)
  qed
qed

section \<open>Writing map messages\<close>

definition target_sized :: "AssociatedObject option \<Rightarrow> bool" where
  "target_sized t \<longleftrightarrow> (\<forall>ob. t = Some ob \<longrightarrow> ob_cached_size ob = int (length (object_bytes (object_value ob))))"

lemma target_written:
  assumes "object_fits (object_value ob)" and "target_sized (Some ob)"
  shows "WriteMessageNoVirtualToArray 1 (ob_cached_size ob)
      (AssociatedObject_SerializeWithCachedSizesToArray L ob) t = t @ target_field (Some (object_value ob))"
  using assms
  by (simp add: WriteMessageNoVirtualToArray_def object_written target_sized_def target_field_def
      WriteTagToArray_field_def WriteTagToArray_def WriteVarint32ToArray_eq varint_small)

lemma add_written:
  assumes "entry_fits (entry_value m)" and "target_sized (me_target_object m)" and "\<not> me_is_default m"
  shows "MapAdd_SerializeWithCachedSizesToArray L m t = t @ entry_bytes (entry_value m)"
proof -
  note fits = entry_fits_parts [OF assms(1) [unfolded entry_value_def]]
  have "(if MapAdd_has_target_object m
      then WriteMessageNoVirtualToArray 1 (ob_cached_size (the (me_target_object m)))
        (AssociatedObject_SerializeWithCachedSizesToArray L (the (me_target_object m))) t else t) =
      t @ target_field (map_option object_value (me_target_object m))"
    using assms fits(2)
    by (cases "me_target_object m")
      (simp_all add: MapAdd_has_target_object_def target_written target_field_def)
  then show ?thesis
    using fits(1)
    by (simp add: MapAdd_SerializeWithCachedSizesToArray_def Let_def entry_value_def MapAdd_key_def
        MapAdd_value_def MapAdd_list_id_def written_string written_number)
      (simp add: string_field_def number_field_def)
qed

lemma target_size:
  assumes "object_fits v" and "length (target_field (Some v)) < 2 ^ 31"
  shows "1 + LengthDelimitedSize L (int (length (object_bytes v))) = int (length (target_field (Some v)))"
  by (simp add: LengthDelimitedSize_def VarintSize32_eq target_field_def)

lemma add_size:
  assumes "entry_fits (entry_value m)" and "\<not> me_is_default m"
  obtains m' where "MapAdd_ByteSize L m = (int (length (entry_bytes (entry_value m))), m')"
    and "entry_value m' = entry_value m" and "target_sized (me_target_object m')"
    and "\<not> me_is_default m'"
    and "me_cached_size m' = int (length (entry_bytes (entry_value m)))"
proof -
  note fits = entry_fits_parts [OF assms(1) [unfolded entry_value_def]]
  have b: "length (string_field 26 (MapAdd_value m)) < 2 ^ 31"
    using assms(1) by (simp add: entry_fits_def entry_value_def MapAdd_value_def)
  let ?n = "\<lambda>ob. int (length (object_bytes (object_value ob)))"
  let ?t = "map_option (\<lambda>ob. ob\<lparr>ob_cached_size := ?n ob\<rparr>) (me_target_object m)"
  have v: "object_value (ob\<lparr>ob_cached_size := n\<rparr>) = object_value ob" for ob n
    by (simp add: object_value_def)
  have t: "(if MapAdd_has_target_object m
      then let (n, ob) = AssociatedObject_ByteSize L (the (me_target_object m))
           in (1 + LengthDelimitedSize L n, m\<lparr>me_target_object := Some ob\<rparr>)
      else (0, m)) =
      (int (length (target_field (map_option object_value (me_target_object m)))),
       m\<lparr>me_target_object := ?t\<rparr>)"
    using assms fits(2)
    by (cases "me_target_object m")
      (simp_all add: MapAdd_has_target_object_def target_size object_size entry_fits_def
        entry_value_def target_field_def [of None])
  let ?N = "int (length (entry_bytes (entry_value m)))"
  show ?thesis
  proof
    show "MapAdd_ByteSize L m = (?N, m\<lparr>me_target_object := ?t, me_cached_size := ?N\<rparr>)"
      using StringSize_eq [OF b] UInt32Size_eq [of "MapAdd_key m" 16]
        UInt32Size_eq [of "MapAdd_list_id m" 32]
      unfolding MapAdd_ByteSize_def t
      by (simp add: Let_def entry_value_def MapAdd_key_def MapAdd_value_def MapAdd_list_id_def
          BytesSize_def StringSize_def)
        (simp add: string_field_def number_field_def)
  qed (use assms in \<open>auto simp: entry_value_def target_sized_def v option.map_comp o_def\<close>)
qed

lemma add_streamed:
  "MapAdd_SerializeWithCachedSizes L = MapAdd_SerializeWithCachedSizesToArray L"
  by (simp add: fun_eq_iff MapAdd_SerializeWithCachedSizes_def bytes_streamed message_streamed
      MapAdd_SerializeWithCachedSizesToArray_def uint32_streamed object_streamed)

lemma target_merged:
  obtains ob where "AssociatedObject_MergeFrom L False src m = Inr ob"
    and "object_value ob = merge_object (object_value m) (object_value src)"
  using object_merged [of src m] by blast

lemma add_merged:
  assumes "\<not> me_is_default src"
  obtains m' where "MapAdd_MergeFrom L False src m = Inr m'"
    and "entry_value m' = merge_entry (entry_value m) (entry_value src)"
    and "me_is_default m' = me_is_default m"
proof -
  define x where "x = (if MapAdd_has_target_object src
        then let m1a = MapAdd_mutable_target_object m in
        res_bind (AssociatedObject_MergeFrom L False (MapAdd_target_object src)
            (the (me_target_object m1a)))
          (\<lambda>ob. Inr (m1a\<lparr>me_target_object := Some ob\<rparr>))
        else Inr m)"
  have x: "\<exists>m1. x = Inr m1 \<and> me_is_default m1 = me_is_default m \<and> me_key m1 = me_key m \<and>
      me_value m1 = me_value m \<and> me_list_id m1 = me_list_id m \<and>
      map_option object_value (me_target_object m1) = merge_target
        (map_option object_value (me_target_object m)) (map_option object_value (me_target_object src))"
  proof (cases "me_target_object src")
    case None
    then show ?thesis
      by (simp add: x_def MapAdd_has_target_object_def merge_target_def)
  next
    case (Some w)
    obtain ob where "AssociatedObject_MergeFrom L False w
        (the (me_target_object (MapAdd_mutable_target_object m))) = Inr ob"
      "object_value ob = merge_object (object_value (the (me_target_object
        (MapAdd_mutable_target_object m)))) (object_value w)"
      using target_merged by blast
    then show ?thesis
      using Some assms
      by (auto simp: x_def MapAdd_has_target_object_def MapAdd_target_object_def merge_target_def
          MapAdd_mutable_target_object_def object_value_New split: option.splits)
  qed
  then obtain m1 where "x = Inr m1" and m1: "me_is_default m1 = me_is_default m"
      "me_key m1 = me_key m" "me_value m1 = me_value m" "me_list_id m1 = me_list_id m"
      "map_option object_value (me_target_object m1) = merge_target
        (map_option object_value (me_target_object m)) (map_option object_value (me_target_object src))"
    by blast
  then show ?thesis
    using that by (simp add: MapAdd_MergeFrom_def x_def [symmetric] Let_def MapAdd_key_def
        MapAdd_value_def MapAdd_list_id_def MapAdd_set_key_def MapAdd_set_list_id_def
        entry_value_def string_assigned)
qed
end
end
