(* ===== verification/Key_Laws.thy ===== *)
theory Key_Laws
  imports Entry_Laws
begin

text \<open>
  What \<open>INetworkMapRemove\<close> puts on the wire, its size, its merge, and that the bytes are read back.
\<close>


section \<open>Values\<close>

type_synonym key_parts = "assoc_object option \<times> u32 \<times> u32"

definition key_value :: "map_key \<Rightarrow> key_parts" where
  "key_value m = (map_option object_value (mk_target_object m), mk_key m, mk_list_id m)"

fun key_bytes :: "key_parts \<Rightarrow> bytes" where
  "key_bytes (t, k, l) = target_field t @ number_field 16 k @ number_field 24 l"

fun merge_key :: "key_parts \<Rightarrow> key_parts \<Rightarrow> key_parts" where
  "merge_key (t, k, l) (t', k', l') =
     (merge_target t t', if k' = 0 then k else k', if l' = 0 then l else l')"

definition key_fits :: "key_parts \<Rightarrow> bool" where
  "key_fits v \<longleftrightarrow> length (key_bytes v) < 2 ^ 31"

section \<open>Reading\<close>

context wire_format
begin

abbreviation "remove_onward \<equiv> onward (MapRemove_parse_step L)"

lemma remove_onward_Again:
  "remove_onward (Some (Again m s)) = MapRemove_MergePartialFromCodedStream L m s"
  by (simp add: MapRemove_MergePartialFromCodedStream_def onward_Again)

lemma remove_unfold:
  "MapRemove_MergePartialFromCodedStream L m s = remove_onward (MapRemove_parse_step L m s)"
  unfolding MapRemove_MergePartialFromCodedStream_def by (subst parse_loop_onward) simp

lemma remove_at_end:
  assumes "ci_buffer s = []" and "readable s"
  shows "MapRemove_MergePartialFromCodedStream L m s = Some (True, m, at_end s)"
  using ReadTag_at_end [OF assms(1)] assms(2)
  by (simp add: remove_unfold MapRemove_parse_step_def readable_def)

lemma remove_list_read:
  assumes "ci_buffer s = varint l" and "readable s"
  shows "remove_onward (MapRemove_parse_list_id L m s) = Some (True, m\<lparr>mk_list_id := l\<rparr>, at_end s)"
  using ReadVarint32_written [of s l "[]"] assms
  by (simp add: MapRemove_parse_list_id_def ReadPrimitive_uint32_def ExpectAtEnd_hit at_limit_shorter
      readable_def)

definition put_key_list :: "u32 \<Rightarrow> map_key \<Rightarrow> map_key" where
  "put_key_list l m = (if l = 0 then m else m\<lparr>mk_list_id := l\<rparr>)"

definition put_key_key :: "u32 \<Rightarrow> map_key \<Rightarrow> map_key" where
  "put_key_key k m = (if k = 0 then m else m\<lparr>mk_key := k\<rparr>)"

lemma remove_list_loop:
  assumes "ci_buffer s = number_field 24 l" and "readable s"
  shows "MapRemove_MergePartialFromCodedStream L m s = Some (True, put_key_list l m, at_end s)"
proof (cases "l = 0")
  case True
  then show ?thesis
    using assms by (simp add: number_field_def put_key_list_def remove_at_end)
next
  case False
  then have b: "ci_buffer s = 24 # varint l"
    using assms by (simp add: number_field_def)
  have "readable (s\<lparr>ci_last_tag := 24, ci_buffer := varint l\<rparr>)"
    using assms(2) b by (intro readable_shorter) simp_all
  from remove_list_read [OF _ this] show ?thesis
    using False ReadTag_written [OF b]
    by (simp add: remove_unfold MapRemove_parse_step_def GetTagFieldNumber_def put_key_list_def)
qed

lemma remove_key_read:
  assumes "ci_buffer s = varint k @ number_field 24 l" and "readable s"
  shows "remove_onward (MapRemove_parse_key L m s) =
    Some (True, put_key_list l (m\<lparr>mk_key := k\<rparr>), at_end s)"
proof -
  let ?s = "s\<lparr>ci_buffer := number_field 24 l\<rparr>"
  let ?m = "m\<lparr>mk_key := k\<rparr>"
  show ?thesis
  proof (cases "l = 0")
    case True
    then have "ExpectTag 24 ?s = (False, ?s)"
      using ExpectTag_miss [of ?s 24] by (simp add: number_field_def)
    moreover have "readable ?s"
      using assms by (simp add: readable_shorter)
    ultimately show ?thesis
      using remove_list_loop [of ?s l ?m] True
      by (simp add: MapRemove_parse_key_def ReadPrimitive_uint32_def
          ReadVarint32_written [OF assms(1)] remove_onward_Again)
  next
    case False
    then have "ExpectTag 24 ?s = (True, s\<lparr>ci_buffer := varint l\<rparr>)"
      using ExpectTag_hit [of ?s 24 "varint l"] by (simp add: number_field_def)
    moreover have "readable (s\<lparr>ci_buffer := varint l\<rparr>)"
      using False assms by (intro readable_shorter) (simp_all add: number_field_def)
    ultimately show ?thesis
      using remove_list_read [of "s\<lparr>ci_buffer := varint l\<rparr>" l ?m] False
      by (simp add: MapRemove_parse_key_def ReadPrimitive_uint32_def
          ReadVarint32_written [OF assms(1)] put_key_list_def)
  qed
qed

lemma remove_key_loop:
  assumes "ci_buffer s = number_field 16 k @ number_field 24 l"
    and "readable s"
  shows "MapRemove_MergePartialFromCodedStream L m s =
    Some (True, put_key_list l (put_key_key k m), at_end s)"
proof (cases "k = 0")
  case True
  then show ?thesis
    using assms by (simp add: number_field_def [of 16] put_key_key_def remove_list_loop)
next
  case False
  let ?rest = "varint k @ number_field 24 l"
  have b: "ci_buffer s = 16 # ?rest"
    using False assms by (simp add: number_field_def)
  have "readable (s\<lparr>ci_last_tag := 16, ci_buffer := ?rest\<rparr>)"
    using assms(2) b by (intro readable_shorter) simp_all
  from remove_key_read [OF _ this] show ?thesis
    using False ReadTag_written [OF b]
    by (simp add: remove_unfold MapRemove_parse_step_def GetTagFieldNumber_def put_key_key_def)
qed

lemma remove_target_read:
  assumes b: "ci_buffer s = varint (of_nat (length (object_bytes v))) @ object_bytes v @
      number_field 16 k @ number_field 24 l"
    and s: "readable s" and fits: "object_fits v"
  obtains ob where "object_value ob =
      merge_object (object_value (the (mk_target_object (MapRemove_mutable_target_object m)))) v"
    and "remove_onward (MapRemove_parse_target_object L m s) =
      Some (True, put_key_list l (put_key_key k (m\<lparr>mk_target_object := Some ob\<rparr>)), at_end s)"
proof -
  let ?rest = "number_field 24 l"
  obtain ob e where
    r: "ReadMessageNoVirtual L (AssociatedObject_MergePartialFromCodedStream L)
          (the (mk_target_object (MapRemove_mutable_target_object m))) s =
       Some (True, ob, s\<lparr>ci_last_tag := 0, ci_end := e, ci_buffer := number_field 16 k @ ?rest\<rparr>)"
    and v: "object_value ob =
      merge_object (object_value (the (mk_target_object (MapRemove_mutable_target_object m)))) v"
    using object_field_read [OF b s fits] by blast
  have m: "MapRemove_mutable_target_object m\<lparr>mk_target_object := Some ob\<rparr> = m\<lparr>mk_target_object := Some ob\<rparr>"
    by (simp add: MapRemove_mutable_target_object_def split: option.splits)
  let ?s0 = "s\<lparr>ci_last_tag := 0, ci_end := e\<rparr>"
  let ?s = "?s0\<lparr>ci_buffer := number_field 16 k @ ?rest\<rparr>"
  let ?m = "m\<lparr>mk_target_object := Some ob\<rparr>"
  have "remove_onward (MapRemove_parse_target_object L m s) =
      Some (True, put_key_list l (put_key_key k ?m), at_end s)"
  proof (cases "k = 0")
    case True
    then have "ExpectTag 16 ?s = (False, ?s)"
      using ExpectTag_miss [of ?s 16] by (simp add: number_field_def)
    moreover have "readable ?s"
      using b s by (intro readable_shorter) simp_all
    ultimately show ?thesis
      using remove_key_loop [of ?s k l ?m] fits True
      by (simp add: MapRemove_parse_target_object_def r m remove_onward_Again)
  next
    case False
    then have "ExpectTag 16 ?s = (True, ?s0\<lparr>ci_buffer := varint k @ ?rest\<rparr>)"
      using ExpectTag_hit [of ?s 16 "varint k @ ?rest"] by (simp add: number_field_def)
    moreover have "readable (?s0\<lparr>ci_buffer := varint k @ ?rest\<rparr>)"
      using False b s by (intro readable_shorter) (simp_all add: number_field_def)
    ultimately show ?thesis
      using remove_key_read [of "?s0\<lparr>ci_buffer := varint k @ ?rest\<rparr>" k l ?m] False fits
      by (simp add: MapRemove_parse_target_object_def r m put_key_key_def)
  qed
  with v show ?thesis
    using that by blast
qed

lemma key_fits_parts:
  assumes "key_fits (t, k, l)"
  shows "t = Some v \<Longrightarrow> object_fits v"
  using assms
  by (auto simp: key_fits_def object_fits_def target_field_def split: if_splits)

lemma remove_read_back:
  assumes "ci_buffer s = key_bytes v" and "readable s" and "key_fits v"
  obtains m' where "MapRemove_MergePartialFromCodedStream L m s = Some (True, m', at_end s)"
    and "key_value m' = merge_key (key_value m) v"
proof -
  obtain t k l where v: "v = (t, k, l)"
    by (cases v)
  note fits = key_fits_parts [OF assms(3) [unfolded v]]
  show ?thesis
  proof (cases t)
    case None
    show ?thesis
      by (rule that [of "put_key_list l (put_key_key k m)"])
        (use assms(1, 2) fits None in \<open>simp_all add: v target_field_def remove_key_loop key_value_def
          put_key_list_def put_key_key_def merge_target_def\<close>)
  next
    case (Some w)
    let ?rest = "varint (of_nat (length (object_bytes w))) @ object_bytes w @
      number_field 16 k @ number_field 24 l"
    have b: "ci_buffer s = 10 # ?rest"
      using assms(1) by (simp add: v Some target_field_def)
    let ?s = "s\<lparr>ci_last_tag := 10, ci_buffer := ?rest\<rparr>"
    have "readable ?s"
      using assms(2) b by (intro readable_shorter) simp_all
    then obtain ob where ob:
        "object_value ob = merge_object (object_value (the (mk_target_object
           (MapRemove_mutable_target_object m)))) w"
        "remove_onward (MapRemove_parse_target_object L m ?s) =
          Some (True, put_key_list l (put_key_key k (m\<lparr>mk_target_object := Some ob\<rparr>)), at_end ?s)"
      using remove_target_read [of ?s w k l m] fits Some by auto
    have "object_value (the (mk_target_object (MapRemove_mutable_target_object m))) =
        (case map_option object_value (mk_target_object m) of Some v \<Rightarrow> v | None \<Rightarrow> assoc_default)"
      by (simp add: MapRemove_mutable_target_object_def object_value_New split: option.splits)
    then show ?thesis
      by (intro that [of "put_key_list l (put_key_key k (m\<lparr>mk_target_object := Some ob\<rparr>))"])
        (use ob ReadTag_written [OF b] in \<open>simp_all add: remove_unfold MapRemove_parse_step_def
          GetTagFieldNumber_def v Some key_value_def put_key_list_def put_key_key_def
          merge_target_def\<close>)
  qed
qed

section \<open>Writing\<close>

lemma remove_written:
  assumes "key_fits (key_value m)" and "target_sized (mk_target_object m)" and "\<not> mk_is_default m"
  shows "MapRemove_SerializeWithCachedSizesToArray L m t = t @ key_bytes (key_value m)"
proof -
  note fits = key_fits_parts [OF assms(1) [unfolded key_value_def]]
  have "(if MapRemove_has_target_object m
      then WriteMessageNoVirtualToArray 1 (ob_cached_size (the (mk_target_object m)))
        (AssociatedObject_SerializeWithCachedSizesToArray L (the (mk_target_object m))) t else t) =
      t @ target_field (map_option object_value (mk_target_object m))"
    using assms fits
    by (cases "mk_target_object m")
      (simp_all add: MapRemove_has_target_object_def target_written target_field_def)
  then show ?thesis
    by (simp add: MapRemove_SerializeWithCachedSizesToArray_def Let_def key_value_def MapRemove_key_def
        MapRemove_list_id_def written_number)
      (simp add: number_field_def)
qed

lemma remove_size:
  assumes "key_fits (key_value m)" and "\<not> mk_is_default m"
  obtains m' where "MapRemove_ByteSize L m = (int (length (key_bytes (key_value m))), m')"
    and "key_value m' = key_value m" and "target_sized (mk_target_object m')"
    and "\<not> mk_is_default m'"
    and "mk_cached_size m' = int (length (key_bytes (key_value m)))"
proof -
  note fits = key_fits_parts [OF assms(1) [unfolded key_value_def]]
  let ?n = "\<lambda>ob. int (length (object_bytes (object_value ob)))"
  let ?t = "map_option (\<lambda>ob. ob\<lparr>ob_cached_size := ?n ob\<rparr>) (mk_target_object m)"
  have v: "object_value (ob\<lparr>ob_cached_size := n\<rparr>) = object_value ob" for ob n
    by (simp add: object_value_def)
  have t: "(if MapRemove_has_target_object m
      then let (n, ob) = AssociatedObject_ByteSize L (the (mk_target_object m))
           in (1 + LengthDelimitedSize L n, m\<lparr>mk_target_object := Some ob\<rparr>)
      else (0, m)) =
      (int (length (target_field (map_option object_value (mk_target_object m)))),
       m\<lparr>mk_target_object := ?t\<rparr>)"
    using assms fits
    by (cases "mk_target_object m")
      (simp_all add: MapRemove_has_target_object_def target_size object_size key_fits_def
        key_value_def target_field_def [of None])
  let ?N = "int (length (key_bytes (key_value m)))"
  show ?thesis
  proof
    show "MapRemove_ByteSize L m = (?N, m\<lparr>mk_target_object := ?t, mk_cached_size := ?N\<rparr>)"
      using UInt32Size_eq [of "MapRemove_key m" 16]
        UInt32Size_eq [of "MapRemove_list_id m" 32]
      unfolding MapRemove_ByteSize_def t
      by (simp add: Let_def key_value_def MapRemove_key_def MapRemove_list_id_def
)
        (simp add: number_field_def)
  qed (use assms in \<open>auto simp: key_value_def target_sized_def v option.map_comp o_def\<close>)
qed

lemma remove_streamed:
  "MapRemove_SerializeWithCachedSizes L = MapRemove_SerializeWithCachedSizesToArray L"
  by (simp add: fun_eq_iff MapRemove_SerializeWithCachedSizes_def message_streamed
      MapRemove_SerializeWithCachedSizesToArray_def uint32_streamed object_streamed)

lemma remove_merged:
  assumes "\<not> mk_is_default src"
  obtains m' where "MapRemove_MergeFrom L False src m = Inr m'"
    and "key_value m' = merge_key (key_value m) (key_value src)"
    and "mk_is_default m' = mk_is_default m"
proof -
  define x where "x = (if MapRemove_has_target_object src
        then let m1a = MapRemove_mutable_target_object m in
        res_bind (AssociatedObject_MergeFrom L False (MapRemove_target_object src)
            (the (mk_target_object m1a)))
          (\<lambda>ob. Inr (m1a\<lparr>mk_target_object := Some ob\<rparr>))
        else Inr m)"
  have x: "\<exists>m1. x = Inr m1 \<and> mk_is_default m1 = mk_is_default m \<and> mk_key m1 = mk_key m \<and>
      mk_list_id m1 = mk_list_id m \<and>
      map_option object_value (mk_target_object m1) = merge_target
        (map_option object_value (mk_target_object m)) (map_option object_value (mk_target_object src))"
  proof (cases "mk_target_object src")
    case None
    then show ?thesis
      by (simp add: x_def MapRemove_has_target_object_def merge_target_def)
  next
    case (Some w)
    obtain ob where "AssociatedObject_MergeFrom L False w
        (the (mk_target_object (MapRemove_mutable_target_object m))) = Inr ob"
      "object_value ob = merge_object (object_value (the (mk_target_object
        (MapRemove_mutable_target_object m)))) (object_value w)"
      using target_merged by blast
    then show ?thesis
      using Some assms
      by (auto simp: x_def MapRemove_has_target_object_def MapRemove_target_object_def merge_target_def
          MapRemove_mutable_target_object_def object_value_New split: option.splits)
  qed
  then obtain m1 where "x = Inr m1" and m1: "mk_is_default m1 = mk_is_default m"
      "mk_key m1 = mk_key m" "mk_list_id m1 = mk_list_id m"
      "map_option object_value (mk_target_object m1) = merge_target
        (map_option object_value (mk_target_object m)) (map_option object_value (mk_target_object src))"
    by blast
  then show ?thesis
    using that by (simp add: MapRemove_MergeFrom_def x_def [symmetric] Let_def MapRemove_key_def
        MapRemove_list_id_def MapRemove_set_key_def MapRemove_set_list_id_def
        key_value_def)
qed
end
end
