(* ===== verification/Wire_Reference.thy ===== *)
theory Wire_Reference
  imports Wire_Format
begin

text \<open>
  An implementation of what coded_stream.h and wire_format_lite.h declare, read off their comments,
  and the proof that it satisfies the interfaces \<open>wire_progress\<close> and \<open>wire_format\<close>: their laws can
  hold together.
\<close>

unbundle bit_operations_syntax

section \<open>Numbers\<close>

fun ref_varint :: "nat \<Rightarrow> nat \<Rightarrow> bytes \<Rightarrow> (u32 \<times> bytes) option" where
  "ref_varint 0 k bs = None"
| "ref_varint (Suc n) k [] = None"
| "ref_varint (Suc n) k (b # bs) =
     (if b < 0x80 then Some (push_bit k (ucast b), bs)
      else map_option (\<lambda>(v, rest). (push_bit k (ucast (b AND 0x7f)) OR v, rest))
        (ref_varint n (k + 7) bs))"

lemma ref_varint_shorter: "ref_varint n k bs = Some (v, rest) \<Longrightarrow> length rest < length bs"
  by (induction n k bs arbitrary: v rest rule: ref_varint.induct) (fastforce split: if_splits)+

lemma low_seven: "(ucast (ucast (v OR 0x80) AND 0x7f :: u8) :: u32) = take_bit 7 v"
proof -
  have "(0x7f :: u8) = mask 7"
    by (simp add: mask_eq_exp_minus_1)
  then have "ucast (v OR 0x80) AND 0x7f = take_bit 7 (ucast (v OR 0x80) :: u8)"
    by (simp add: take_bit_eq_mask)
  moreover have "(ucast (take_bit 7 (ucast w :: u8)) :: u32) = take_bit 7 w" for w :: u32
    by (intro bit_word_eqI) (auto simp: bit_simps)
  ultimately show ?thesis
    by simp
qed

lemma seven_bits: "push_bit k (take_bit 7 v) OR push_bit (k + 7) (drop_bit 7 v) = push_bit k v"
  for v :: u32
proof (rule bit_word_eqI)
  fix n
  show "bit (push_bit k (take_bit 7 v) OR push_bit (k + 7) (drop_bit 7 v)) n = bit (push_bit k v) n"
  proof (cases "n < k + 7")
    case True
    then show ?thesis
      by (auto simp: bit_simps)
  next
    case False
    then have "7 + (n - (k + 7)) = n - k"
      by simp
    with False show ?thesis
      by (auto simp: bit_simps)
  qed
qed

lemma ref_varint_written:
  "unat v < 2 ^ (7 * Suc n) \<Longrightarrow> ref_varint (Suc n) k (varint v @ rest) = Some (push_bit k v, rest)"
proof (induction n arbitrary: v k)
  case 0
  then have "v < 0x80"
    by (simp add: word_less_nat_alt)
  moreover have "(ucast v :: u8) < 0x80"
    using low_byte [OF calculation] calculation unat_byte [of "ucast v"] by (simp add: word_less_nat_alt)
  ultimately show ?case
    by (simp add: varint_small low_byte)
next
  case (Suc n)
  show ?case
  proof (cases "v < 0x80")
    case True
    moreover have "(ucast v :: u8) < 0x80"
      using low_byte [OF True] True unat_byte [of "ucast v"] by (simp add: word_less_nat_alt)
    ultimately show ?thesis
      by (simp add: varint_small low_byte)
  next
    case False
    moreover have "\<not> (ucast (v OR 0x80) :: u8) < 0x80"
      using high_byte [of v] unat_byte [of "ucast (v OR 0x80)"]
      by (simp add: word_less_nat_alt word_le_nat_alt)
    moreover have "unat (drop_bit 7 v) < 2 ^ (7 * Suc n)"
      using Suc.prems by (simp add: unat_drop7 power_add div_less_iff_less_mult mult.commute)
    ultimately show ?thesis
      using Suc.IH [of "drop_bit 7 v" "k + 7"]
      by (simp add: varint_large not_less low_seven seven_bits del: ref_varint.simps)
        (simp add: ref_varint.simps(3) [of "Suc n"] low_seven seven_bits del: ref_varint.simps)
  qed
qed

section \<open>The library\<close>

text \<open>The limit is kept in \<open>ci_limit\<close>; \<open>split_at\<close> lays the bytes out on its two sides.\<close>

definition split_at :: "int \<Rightarrow> coded_input \<Rightarrow> coded_input" where
  "split_at limit s =
     (let bytes = ci_buffer s @ ci_after s;
          keep = nat (limit - (ci_total s - int (length bytes)))
      in s\<lparr>ci_buffer := take keep bytes, ci_after := drop keep bytes, ci_limit := limit\<rparr>)"

definition ref_ReadVarint32Fallback :: "u32 \<Rightarrow> coded_input \<Rightarrow> int \<times> coded_input" where
  "ref_ReadVarint32Fallback first s =
     (case ref_varint 10 0 (ci_buffer s) of None \<Rightarrow> (- 1, s)
      | Some (v, rest) \<Rightarrow> (uint v, s\<lparr>ci_buffer := rest\<rparr>))"

definition ref_ReadTagFallback :: "u32 \<Rightarrow> coded_input \<Rightarrow> u32 \<times> coded_input" where
  "ref_ReadTagFallback first s =
     (if ci_buffer s = [] then (0, s\<lparr>ci_end := True\<rparr>)
      else case ref_varint 10 0 (ci_buffer s) of None \<Rightarrow> (0, s)
        | Some (v, rest) \<Rightarrow> (v, s\<lparr>ci_buffer := rest\<rparr>))"

definition ref_PushLimit :: "int \<Rightarrow> coded_input \<Rightarrow> (int \<times> int) \<times> coded_input" where
  "ref_PushLimit n s =
     (let position = ci_total s - int (unread s);
          limit = (if n < 0 then ci_limit s else min (ci_limit s) (position + n));
          s1 = split_at limit (s\<lparr>ci_budget := ci_budget s - 1\<rparr>)
      in ((ci_limit s, ci_budget s1), s1))"

definition ref_PopLimit :: "int \<Rightarrow> coded_input \<Rightarrow> bool \<times> coded_input" where
  "ref_PopLimit limit s =
     (ci_end s, split_at limit (s\<lparr>ci_end := False, ci_budget := ci_budget s + 1\<rparr>))"

definition ref_ReadBytes :: "coded_input \<Rightarrow> bytes \<Rightarrow> bool \<times> bytes \<times> coded_input" where
  "ref_ReadBytes s old =
     (case ref_varint 10 0 (ci_buffer s) of None \<Rightarrow> (False, old, s)
      | Some (n, rest) \<Rightarrow>
          if sint n < 0 \<or> length rest < unat n then (False, old, s\<lparr>ci_buffer := rest\<rparr>)
          else (True, take (unat n) rest, s\<lparr>ci_buffer := drop (unat n) rest\<rparr>))"

text \<open>Groups, which these messages never contain, are refused.\<close>

definition ref_SkipField :: "coded_input \<Rightarrow> u32 \<Rightarrow> bool \<times> coded_input" where
  "ref_SkipField s tag =
     (let skip = (\<lambda>n b. if length b < n then (False, s)
          else (True, s\<lparr>ci_buffer := drop n b\<rparr>)) in
      if GetTagWireType tag = wire_code WIRETYPE_VARINT
      then (case ref_varint 10 0 (ci_buffer s) of None \<Rightarrow> (False, s) | Some (v, rest) \<Rightarrow> skip 0 rest)
      else if GetTagWireType tag = wire_code WIRETYPE_FIXED64 then skip 8 (ci_buffer s)
      else if GetTagWireType tag = wire_code WIRETYPE_LENGTH_DELIMITED
      then (case ref_varint 10 0 (ci_buffer s) of None \<Rightarrow> (False, s)
        | Some (v, rest) \<Rightarrow> skip (unat v) rest)
      else if GetTagWireType tag = wire_code WIRETYPE_FIXED32 then skip 4 (ci_buffer s)
      else (False, s))"

definition ref_WriteString :: "bytes \<Rightarrow> bytes \<Rightarrow> bytes" where
  "ref_WriteString b target = WriteVarint32ToArray (of_nat (length b)) target @ b"

definition ref_WriteBytes :: "int \<Rightarrow> bytes \<Rightarrow> bytes \<Rightarrow> bytes" where
  "ref_WriteBytes n b target =
     ref_WriteString b (WriteTagToArray_field n WIRETYPE_LENGTH_DELIMITED target)"

definition reference_lib :: pb_lib where
  "reference_lib = \<lparr>lib_default_recursion_limit = 100,
     lib_ReadVarint32Fallback = ref_ReadVarint32Fallback,
     lib_ReadTagFallback = ref_ReadTagFallback,
     lib_IncrementRecursionDepthAndPushLimit = ref_PushLimit,
     lib_DecrementRecursionDepthAndPopLimit = ref_PopLimit,
     lib_ReadBytes = ref_ReadBytes, lib_SkipField = ref_SkipField,
     lib_VarintSize32Fallback = StaticVarintSize32,
     lib_WriteStringWithSizeToArray = ref_WriteString, lib_WriteUInt32 = WriteUInt32ToArray,
     lib_WriteStringMaybeAliased = ref_WriteBytes, lib_WriteBytesMaybeAliased = ref_WriteBytes,
     lib_WriteMessageMaybeToArray = WriteMessageNoVirtualToArray,
     lib_AssignWithDefault = (\<lambda>p q. q)\<rparr>"

lemma unread_split_at [simp]: "unread (split_at n s) = unread s"
proof -
  have "length (take k b) + length (drop k b) = length b" for k and b :: bytes
    by simp
  from this [of "nat (n - (ci_total s - int (length (ci_buffer s @ ci_after s))))"
      "ci_buffer s @ ci_after s"]
  show ?thesis
    by (simp add: split_at_def unread_def Let_def
        del: length_take length_drop take_append drop_append)
qed

lemma ref_varint_progress:
  "ref_varint n k (ci_buffer s) = Some (v, rest) \<Longrightarrow> unread (s\<lparr>ci_buffer := rest\<rparr>) < unread s"
  by (simp add: unread_def ref_varint_shorter)

lemma ref_varint_drop:
  "ref_varint n k (ci_buffer s) = Some (v, rest) \<Longrightarrow> unread (s\<lparr>ci_buffer := drop i rest\<rparr>) < unread s"
  using ref_varint_shorter [of n k "ci_buffer s" v rest] by (simp add: unread_def)

lemma unread_counters [simp]:
  "unread (s\<lparr>ci_end := e\<rparr>) = unread s" "unread (s\<lparr>ci_budget := b\<rparr>) = unread s"
  by (simp_all add: unread_def)

lemma reference_progress: "wire_progress reference_lib"
proof
  show "unread s' \<le> unread s" if "lib_SkipField reference_lib s t = (ok, s')" for s t ok s'
    using that by (auto simp: reference_lib_def ref_SkipField_def Let_def unread_def
        dest!: ref_varint_shorter split: if_splits option.splits)
qed (auto simp: reference_lib_def ref_ReadVarint32Fallback_def ref_ReadTagFallback_def
    ref_PushLimit_def ref_PopLimit_def ref_ReadBytes_def Let_def less_imp_le
    dest: ref_varint_progress intro: ref_varint_drop [THEN less_imp_le] ref_varint_progress [THEN less_imp_le]
    split: option.splits if_splits)

lemma ref_varint_read: "ref_varint 10 0 (varint v @ rest) = Some (v, rest)"
proof -
  have "unat v < 2 ^ (7 * Suc 9)"
    using unsigned_less [of v, where 'a = nat] by simp
  from ref_varint_written [OF this, of 0 rest] show ?thesis
    by (simp add: numeral_eq_Suc)
qed

lemma reference_pop:
  assumes "ci_total s - int (length behind) = limit" and "ci_after s = hidden @ behind"
  shows "split_at limit s = s\<lparr>ci_buffer := ci_buffer s @ hidden, ci_after := behind, ci_limit := limit\<rparr>"
proof -
  have "nat (limit - (ci_total s - int (length (ci_buffer s @ ci_after s)))) =
      length (ci_buffer s @ hidden)"
    using assms by simp
  then show ?thesis
    using assms by (simp add: split_at_def Let_def)
qed

lemma reference_format: "wire_format reference_lib"
proof (rule wire_format.intro [OF reference_progress], unfold_locales)
  fix k :: nat and s :: coded_input
  assume k: "k \<le> length (ci_buffer s)" and s: "at_limit s"
  have "min (ci_limit s) (ci_total s - int (unread s) + int k) = ci_total s - int (unread s) + int k"
    using k s by (simp add: at_limit_def unread_def)
  moreover have "split_at (ci_total s - int (unread s) + int k) (s\<lparr>ci_budget := ci_budget s - 1\<rparr>) =
      s\<lparr>ci_buffer := take k (ci_buffer s), ci_after := drop k (ci_buffer s) @ ci_after s,
        ci_limit := ci_total s - int (length (drop k (ci_buffer s) @ ci_after s)),
        ci_budget := ci_budget s - 1\<rparr>"
    using k by (simp add: split_at_def Let_def unread_def of_nat_diff)
  ultimately show "lib_IncrementRecursionDepthAndPushLimit reference_lib (int k) s =
      ((ci_limit s, ci_budget s - 1),
        s\<lparr>ci_buffer := take k (ci_buffer s), ci_after := drop k (ci_buffer s) @ ci_after s,
          ci_limit := ci_total s - int (length (drop k (ci_buffer s) @ ci_after s)),
          ci_budget := ci_budget s - 1\<rparr>)"
    by (simp add: reference_lib_def ref_PushLimit_def Let_def)
next
  fix b rest old :: bytes and s :: coded_input
  assume len: "length b < 2 ^ 31" and b: "ci_buffer s = varint (of_nat (length b)) @ b @ rest"
  have "unat (of_nat (length b) :: u32) = length b" "sint (of_nat (length b) :: u32) = int (length b)"
    using len by (simp_all add: unat_of_nat_small signed_of_nat signed_take_bit_int_eq_self)
  then show "lib_ReadBytes reference_lib s old = (True, b, s\<lparr>ci_buffer := rest\<rparr>)"
    by (simp add: reference_lib_def ref_ReadBytes_def b ref_varint_read)
next
  fix s :: coded_input and hidden behind :: bytes and limit
  assume "ci_after s = hidden @ behind" and "limit = ci_total s - int (length behind)"
  then show "\<exists>e. lib_DecrementRecursionDepthAndPopLimit reference_lib limit s = (ci_end s,
      s\<lparr>ci_buffer := ci_buffer s @ hidden, ci_after := behind, ci_limit := limit,
        ci_budget := ci_budget s + 1, ci_end := e\<rparr>)"
    by (intro exI [of _ False]) (simp add: reference_lib_def ref_PopLimit_def
        reference_pop [of _ behind _ hidden])
qed (simp_all add: reference_lib_def ref_ReadVarint32Fallback_def ref_ReadTagFallback_def
    ref_varint_read ref_WriteString_def ref_WriteBytes_def WriteVarint32ToArray_eq
    WriteStringToArray_def WriteBytesToArray_def)

interpretation reference: wire_format reference_lib
  by (rule reference_format)
end
