(* ===== verification/Message_Codec.thy ===== *)
theory Message_Codec
  imports Key_Laws Wire_Reference Packet_Factory
begin

text \<open>
  Whole messages: serialising and parsing as the library wraps them around the generated functions,
  and the two functions as the serialisation the packet factory uses.
\<close>


section \<open>Whole messages\<close>

text \<open>
  \<open>SerializeToString\<close> and \<open>ParseFromArray\<close> are the library's wrappers around the generated functions:
  \<open>ByteSize\<close> and then the writer; \<open>Clear\<close>, the parser on a stream over the array, and the check that
  the whole array was read (message_lite.h).
\<close>

definition MapAdd_to_bytes :: "pb_lib \<Rightarrow> map_entry \<Rightarrow> bytes" where
  "MapAdd_to_bytes L m =
     MapAdd_SerializeWithCachedSizesToArray L (snd (MapAdd_ByteSize L m)) []"

definition MapUpdate_to_bytes :: "pb_lib \<Rightarrow> map_entry \<Rightarrow> bytes" where
  "MapUpdate_to_bytes L m =
     MapUpdate_SerializeWithCachedSizesToArray L (snd (MapUpdate_ByteSize L m)) []"

definition MapRemove_to_bytes :: "pb_lib \<Rightarrow> map_key \<Rightarrow> bytes" where
  "MapRemove_to_bytes L m =
     MapRemove_SerializeWithCachedSizesToArray L (snd (MapRemove_ByteSize L m)) []"

definition MapAdd_from_bytes :: "pb_lib \<Rightarrow> bytes \<Rightarrow> map_entry \<Rightarrow> (bool \<times> map_entry) option" where
  "MapAdd_from_bytes L b m =
     map_option (\<lambda>(ok, m', s). (ok \<and> ConsumedEntireMessage s, m'))
       (MapAdd_MergePartialFromCodedStream L (MapAdd_Clear m) (CodedInputStream L b))"

definition MapUpdate_from_bytes :: "pb_lib \<Rightarrow> bytes \<Rightarrow> map_entry \<Rightarrow> (bool \<times> map_entry) option" where
  "MapUpdate_from_bytes L b m =
     map_option (\<lambda>(ok, m', s). (ok \<and> ConsumedEntireMessage s, m'))
       (MapUpdate_MergePartialFromCodedStream L (MapUpdate_Clear m) (CodedInputStream L b))"

definition MapRemove_from_bytes :: "pb_lib \<Rightarrow> bytes \<Rightarrow> map_key \<Rightarrow> (bool \<times> map_key) option" where
  "MapRemove_from_bytes L b m =
     map_option (\<lambda>(ok, m', s). (ok \<and> ConsumedEntireMessage s, m'))
       (MapRemove_MergePartialFromCodedStream L (MapRemove_Clear m) (CodedInputStream L b))"

text \<open>The library refuses to read more than 64 MB.\<close>

definition readable_size :: "bytes \<Rightarrow> bool" where
  "readable_size b \<longleftrightarrow> length b \<le> 64 * 2 ^ 20"

lemma update_wraps_add:
  "MapUpdate_to_bytes = MapAdd_to_bytes" "MapUpdate_from_bytes = MapAdd_from_bytes"
  by (simp_all add: fun_eq_iff MapUpdate_to_bytes_def MapAdd_to_bytes_def update_writes_like_add
      MapUpdate_from_bytes_def MapAdd_from_bytes_def update_reads_like_add MapUpdate_Clear_def
      MapAdd_Clear_def)

lemma entry_value_Clear: "entry_value (MapAdd_Clear m) = (None, 0, [], 0)"
  by (simp add: entry_value_def MapAdd_Clear_def)

lemma key_value_Clear: "key_value (MapRemove_Clear m) = (None, 0, 0)"
  by (simp add: key_value_def MapRemove_Clear_def)

lemma merge_default: "merge_object assoc_default w = w"
  by (cases w) (simp add: merge_object_def assoc_default_def)

lemma merge_target_None: "merge_target None t = t"
  by (simp add: merge_target_def merge_default split: option.splits)

lemma merge_blank:
  "merge_entry (None, 0, [], 0) v = v" "merge_key (None, 0, 0) w = w"
  by (cases v; simp add: merge_target_None) (cases w; simp add: merge_target_None)

context wire_format
begin

lemma stream_readable:
  assumes "readable_size b"
  shows "readable (CodedInputStream L b)" and "ci_buffer (CodedInputStream L b) = b"
  using assms by (simp_all add: readable_def at_limit_def unread_def CodedInputStream_def
      readable_size_def recursion_default)

lemma add_to_bytes:
  assumes "\<not> me_is_default m" and "entry_fits (entry_value m)"
  shows "MapAdd_to_bytes L m = entry_bytes (entry_value m)"
proof -
  obtain m' where "MapAdd_ByteSize L m = (int (length (entry_bytes (entry_value m))), m')"
    and "entry_value m' = entry_value m" "target_sized (me_target_object m')" "\<not> me_is_default m'"
    using add_size assms by blast
  then show ?thesis
    using assms add_written [of m' "[]"] by (simp add: MapAdd_to_bytes_def)
qed

lemma remove_to_bytes:
  assumes "\<not> mk_is_default m" and "key_fits (key_value m)"
  shows "MapRemove_to_bytes L m = key_bytes (key_value m)"
proof -
  obtain m' where "MapRemove_ByteSize L m = (int (length (key_bytes (key_value m))), m')"
    and "key_value m' = key_value m" "target_sized (mk_target_object m')" "\<not> mk_is_default m'"
    using remove_size assms by blast
  then show ?thesis
    using assms remove_written [of m' "[]"] by (simp add: MapRemove_to_bytes_def)
qed

lemma add_from_bytes:
  assumes "readable_size (entry_bytes v)"
  obtains m' where "MapAdd_from_bytes L (entry_bytes v) m = Some (True, m')" and "entry_value m' = v"
proof -
  have "entry_fits v"
    using assms by (simp add: readable_size_def entry_fits_def)
  then obtain m' where "MapAdd_MergePartialFromCodedStream L (MapAdd_Clear m)
        (CodedInputStream L (entry_bytes v)) =
      Some (True, m', at_end (CodedInputStream L (entry_bytes v)))"
    and "entry_value m' = v"
    using add_read_back [OF stream_readable(2) [OF assms] stream_readable(1) [OF assms], of "MapAdd_Clear m"]
    by (auto simp: entry_value_Clear merge_blank)
  then show ?thesis
    using that by (simp add: MapAdd_from_bytes_def ConsumedEntireMessage_def at_end_def)
qed

lemma remove_from_bytes:
  assumes "readable_size (key_bytes v)"
  obtains m' where "MapRemove_from_bytes L (key_bytes v) m = Some (True, m')" and "key_value m' = v"
proof -
  have "key_fits v"
    using assms by (simp add: readable_size_def key_fits_def)
  then obtain m' where "MapRemove_MergePartialFromCodedStream L (MapRemove_Clear m)
        (CodedInputStream L (key_bytes v)) =
      Some (True, m', at_end (CodedInputStream L (key_bytes v)))"
    and "key_value m' = v"
    using remove_read_back [OF stream_readable(2) [OF assms] stream_readable(1) [OF assms], of "MapRemove_Clear m"]
    by (auto simp: key_value_Clear merge_blank)
  then show ?thesis
    using that by (simp add: MapRemove_from_bytes_def ConsumedEntireMessage_def at_end_def)
qed

end

section \<open>The messages of the packet factory\<close>

definition object_message :: "assoc_object \<Rightarrow> AssociatedObject" where
  "object_message v = AssociatedObject_set_network_code (ao_network_code v)
     (AssociatedObject_set_manager_name (ao_manager_name v)
       (AssociatedObject_set_instance_name (ao_instance_name v) AssociatedObject_New))"

fun entry_message :: "entry_parts \<Rightarrow> map_entry" where
  "entry_message (t, k, b, l) = MapAdd_set_list_id l (MapAdd_set_value b (MapAdd_set_key k
     (MapAdd_set_allocated_target_object (map_option object_message t) MapAdd_New)))"

fun key_message :: "key_parts \<Rightarrow> map_key" where
  "key_message (t, k, l) = MapRemove_set_list_id l (MapRemove_set_key k
     (MapRemove_set_allocated_target_object (map_option object_message t) MapRemove_New))"

fun message_bytes :: "pb_lib \<Rightarrow> proto_msg \<Rightarrow> bytes" where
  "message_bytes L (INetworkMapAdd t k b l) = MapAdd_to_bytes L (entry_message (t, k, b, l))"
| "message_bytes L (INetworkMapUpdate t k b l) = MapUpdate_to_bytes L (entry_message (t, k, b, l))"
| "message_bytes L (INetworkMapRemove t k l) = MapRemove_to_bytes L (key_message (t, k, l))"

definition add_of :: "map_entry \<Rightarrow> proto_msg" where
  "add_of m = (let (t, k, b, l) = entry_value m in INetworkMapAdd t k b l)"

definition update_of :: "map_entry \<Rightarrow> proto_msg" where
  "update_of m = (let (t, k, b, l) = entry_value m in INetworkMapUpdate t k b l)"

definition remove_of :: "map_key \<Rightarrow> proto_msg" where
  "remove_of m = (let (t, k, l) = key_value m in INetworkMapRemove t k l)"

fun read_message :: "pb_lib \<Rightarrow> bytes \<Rightarrow> proto_msg \<Rightarrow> proto_msg" where
  "read_message L bs (INetworkMapAdd t k b l) =
     (case MapAdd_from_bytes L bs (entry_message (t, k, b, l)) of
        Some (ok, m) \<Rightarrow> add_of m | None \<Rightarrow> INetworkMapAdd t k b l)"
| "read_message L bs (INetworkMapUpdate t k b l) =
     (case MapUpdate_from_bytes L bs (entry_message (t, k, b, l)) of
        Some (ok, m) \<Rightarrow> update_of m | None \<Rightarrow> INetworkMapUpdate t k b l)"
| "read_message L bs (INetworkMapRemove t k l) =
     (case MapRemove_from_bytes L bs (key_message (t, k, l)) of
        Some (ok, m) \<Rightarrow> remove_of m | None \<Rightarrow> INetworkMapRemove t k l)"

definition library_app :: "pb_lib \<Rightarrow> app \<Rightarrow> app" where
  "library_app L A = A\<lparr>ap_serialize := message_bytes L, ap_parse := read_message L\<rparr>"

fun wire_bytes :: "proto_msg \<Rightarrow> bytes" where
  "wire_bytes (INetworkMapAdd t k b l) = entry_bytes (t, k, b, l)"
| "wire_bytes (INetworkMapUpdate t k b l) = entry_bytes (t, k, b, l)"
| "wire_bytes (INetworkMapRemove t k l) = key_bytes (t, k, l)"

fun same_kind :: "proto_msg \<Rightarrow> proto_msg \<Rightarrow> bool" where
  "same_kind (INetworkMapAdd _ _ _ _) (INetworkMapAdd _ _ _ _) \<longleftrightarrow> True"
| "same_kind (INetworkMapUpdate _ _ _ _) (INetworkMapUpdate _ _ _ _) \<longleftrightarrow> True"
| "same_kind (INetworkMapRemove _ _ _) (INetworkMapRemove _ _ _) \<longleftrightarrow> True"
| "same_kind _ _ \<longleftrightarrow> False"

lemma object_value_message: "object_value (object_message v) = v"
  by (simp add: object_value_def object_message_def AssociatedObject_set_network_code_def
      AssociatedObject_set_manager_name_def AssociatedObject_set_instance_name_def)

lemma entry_value_message [simp]: "entry_value (entry_message v) = v"
  by (cases v) (simp add: entry_value_def MapAdd_set_list_id_def MapAdd_set_value_def
      MapAdd_set_key_def MapAdd_set_allocated_target_object_def option.map_comp o_def
      object_value_message option.map_ident)

lemma key_value_message [simp]: "key_value (key_message v) = v"
  by (cases v) (simp add: key_value_def MapRemove_set_list_id_def MapRemove_set_key_def
      MapRemove_set_allocated_target_object_def option.map_comp o_def object_value_message
      option.map_ident)

lemma message_not_default [simp]: "\<not> me_is_default (entry_message v)" "\<not> mk_is_default (key_message w)"
  by (cases v, simp add: MapAdd_set_list_id_def MapAdd_set_value_def MapAdd_set_key_def
      MapAdd_set_allocated_target_object_def MapAdd_New_def)
    (cases w, simp add: MapRemove_set_list_id_def MapRemove_set_key_def
      MapRemove_set_allocated_target_object_def MapRemove_New_def)

context wire_format
begin

lemma message_written:
  assumes "readable_size (wire_bytes msg)"
  shows "message_bytes L msg = wire_bytes msg"
  using assms by (cases msg) (simp_all add: add_to_bytes remove_to_bytes update_wraps_add
      entry_fits_def key_fits_def readable_size_def del: entry_message.simps key_message.simps
      entry_bytes.simps key_bytes.simps)

lemma message_read:
  assumes "readable_size (wire_bytes msg)" and "same_kind blank msg"
  shows "read_message L (wire_bytes msg) blank = msg"
proof -
  have add: "read_message L (entry_bytes v) (INetworkMapAdd t' k' b' l') = add_of m'"
    if "MapAdd_from_bytes L (entry_bytes v) (entry_message (t', k', b', l')) = Some (True, m')"
    for v t' k' b' l' m'
    using that by simp
  have update: "read_message L (entry_bytes v) (INetworkMapUpdate t' k' b' l') = update_of m'"
    if "MapAdd_from_bytes L (entry_bytes v) (entry_message (t', k', b', l')) = Some (True, m')"
    for v t' k' b' l' m'
    using that by (simp add: update_wraps_add)
  have remove: "read_message L (key_bytes v) (INetworkMapRemove t' k' l') = remove_of m'"
    if "MapRemove_from_bytes L (key_bytes v) (key_message (t', k', l')) = Some (True, m')"
    for v t' k' l' m'
    using that by simp
  show ?thesis
  proof (cases msg)
    case (INetworkMapAdd t k b l)
    then obtain t' k' b' l' where "blank = INetworkMapAdd t' k' b' l'"
      using assms(2) by (cases blank) auto
    then show ?thesis
      using add_from_bytes [of "(t, k, b, l)" "entry_message (t', k', b', l')"] add [of "(t, k, b, l)"]
        assms(1) INetworkMapAdd unfolding add_of_def by fastforce
  next
    case (INetworkMapUpdate t k b l)
    then obtain t' k' b' l' where "blank = INetworkMapUpdate t' k' b' l'"
      using assms(2) by (cases blank) auto
    then show ?thesis
      using add_from_bytes [of "(t, k, b, l)" "entry_message (t', k', b', l')"] update [of "(t, k, b, l)"]
        assms(1) INetworkMapUpdate unfolding update_of_def by fastforce
  next
    case (INetworkMapRemove t k l)
    then obtain t' k' l' where "blank = INetworkMapRemove t' k' l'"
      using assms(2) by (cases blank) auto
    then show ?thesis
      using remove_from_bytes [of "(t, k, l)" "key_message (t', k', l')"] remove [of "(t, k, l)"]
        assms(1) INetworkMapRemove unfolding remove_of_def by fastforce
  qed
qed

end
end
