(* ===== verification/Message_Properties.thy ===== *)
theory Message_Properties
  imports Message_Codec Samples
begin

text \<open>
  What the messages of EntityMessages.proto promise: parsing returns, messages survive the wire, their
  sizes are exact and parsing is merging; with samples the witnesses use.
\<close>

definition sample_entry :: map_entry where
  "sample_entry = entry_message (Some \<lparr>ao_instance_name = [119], ao_manager_name = [112],
     ao_network_code = 300\<rparr>, 7, [5, 6], 1)"

lemma sample_varint: "varint 300 = [172, 2]"
  by (simp add: varint_large varint_small)

lemma sample_entry_bytes:
  "entry_bytes (entry_value sample_entry) =
     [10, 9, 10, 1, 119, 18, 1, 112, 24, 172, 2, 16, 7, 26, 2, 5, 6, 32, 1]"
  by (simp add: sample_entry_def target_field_def object_bytes_def string_field_def number_field_def
      sample_varint varint_small del: entry_message.simps)

text \<open>
  C9. Parsing a list message returns, whatever bytes a peer has sent: no call of the library gives
  back bytes it has read and a tag other than zero has been read from the stream, so each round of
  the parse loops, the loop of the embedded object included, leaves fewer unread bytes.
\<close>

theorem messages_return:
  assumes "wire_progress L"
  shows "\<exists>r1 r2 r3. MapAdd_MergePartialFromCodedStream L m s = Some r1 \<and>
    MapUpdate_MergePartialFromCodedStream L m s = Some r2 \<and>
    MapRemove_MergePartialFromCodedStream L n s = Some r3"
  using wire_progress.add_returns [OF assms, of m s] wire_progress.remove_returns [OF assms, of n s]
  by (auto simp: update_reads_like_add)

theorem messages_return_witness:
  "\<exists>r1 r2 r3.
    MapAdd_MergePartialFromCodedStream reference_lib sample_entry
      (CodedInputStream reference_lib [10, 255, 1, 8, 8]) = Some r1 \<and>
    MapUpdate_MergePartialFromCodedStream reference_lib sample_entry
      (CodedInputStream reference_lib [10, 255, 1, 8, 8]) = Some r2 \<and>
    MapRemove_MergePartialFromCodedStream reference_lib MapRemove_New
      (CodedInputStream reference_lib [10, 255, 1, 8, 8]) = Some r3"
  by (rule messages_return [OF reference_progress])

text \<open>
  C8. A list message survives the wire: the bytes the packet factory builds for it, read by a packet
  of the same kind at the receiver, give the message back, whichever of the optional fields are set.
\<close>

theorem list_packet_delivered:
  assumes "wire_format L" and "length (wire_bytes msg) \<le> 64 * 2 ^ 20" and "same_kind blank msg"
  shows "res_map pk_msg (packet_read (library_app L A) blank (wire_packet (library_app L A) msg code))
    = Inr msg"
proof -
  have "readable_size (wire_bytes msg)"
    using assms(2) by (simp add: readable_size_def)
  then show ?thesis
    using wire_format.message_written [OF assms(1)] wire_format.message_read [OF assms(1) _ assms(3)]
    by (simp add: packet_read_def wire_packet_def library_app_def Disable_def)
qed

theorem list_packet_delivered_witness:
  "res_map pk_msg (packet_read (library_app reference_lib sample_app) (INetworkMapRemove None 0 0)
     (wire_packet (library_app reference_lib sample_app) (INetworkMapRemove (Some assoc_default) 300 0) 5))
   = Inr (INetworkMapRemove (Some assoc_default) 300 0)"
  by (rule list_packet_delivered [OF reference_format])
    (simp_all add: target_field_def object_bytes_def assoc_default_def string_field_def
      number_field_def sample_varint varint_small)

text \<open>
  C10. \<open>ByteSize\<close> is exact: it returns the number of bytes the writer then puts into the array, which is
  what makes writing without bounds checks safe. The size of the embedded object is the one
  \<open>ByteSize\<close> has cached.
\<close>

theorem byte_size_exact:
  assumes "wire_format L"
    and "\<not> me_is_default m" and "length (entry_bytes (entry_value m)) < 2 ^ 31"
    and "\<not> mk_is_default n" and "length (key_bytes (key_value n)) < 2 ^ 31"
  shows "fst (MapAdd_ByteSize L m) = int (length (MapAdd_to_bytes L m)) \<and>
    fst (MapUpdate_ByteSize L m) = int (length (MapUpdate_to_bytes L m)) \<and>
    fst (MapRemove_ByteSize L n) = int (length (MapRemove_to_bytes L n))"
proof -
  have fits: "entry_fits (entry_value m)" "key_fits (key_value n)"
    using assms(3, 5) by (simp_all add: entry_fits_def key_fits_def)
  obtain m' n' where "MapAdd_ByteSize L m = (int (length (entry_bytes (entry_value m))), m')"
    and "MapRemove_ByteSize L n = (int (length (key_bytes (key_value n))), n')"
    using wire_format.add_size [OF assms(1) fits(1) assms(2)]
      wire_format.remove_size [OF assms(1) fits(2) assms(4)] by metis
  then show ?thesis
    using wire_format.add_to_bytes [OF assms(1, 2) fits(1)]
      wire_format.remove_to_bytes [OF assms(1, 4) fits(2)]
    by (simp add: update_wraps_add update_writes_like_add)
qed

theorem byte_size_exact_witness:
  "fst (MapAdd_ByteSize reference_lib sample_entry) =
     int (length (MapAdd_to_bytes reference_lib sample_entry)) \<and>
   fst (MapUpdate_ByteSize reference_lib sample_entry) =
     int (length (MapUpdate_to_bytes reference_lib sample_entry)) \<and>
   fst (MapRemove_ByteSize reference_lib MapRemove_New) =
     int (length (MapRemove_to_bytes reference_lib MapRemove_New))"
proof (rule byte_size_exact [OF reference_format])
  show "length (entry_bytes (entry_value sample_entry)) < 2 ^ 31"
    by (simp add: sample_entry_bytes)
qed (simp_all add: sample_entry_def MapRemove_New_def key_value_def target_field_def number_field_def
    del: entry_message.simps)

text \<open>The merging operations, message by message.\<close>

lemma update_merges_like_add: "MapUpdate_MergeFrom = MapAdd_MergeFrom"
proof -
  have *: "MapUpdate_target_object = MapAdd_target_object" "MapUpdate_set_key = MapAdd_set_key"
    "MapUpdate_set_list_id = MapAdd_set_list_id"
    by (simp_all add: fun_eq_iff MapUpdate_target_object_def MapAdd_target_object_def MapUpdate_set_key_def
        MapAdd_set_key_def MapUpdate_set_list_id_def MapAdd_set_list_id_def)
  show ?thesis by (intro ext) (simp only: MapUpdate_MergeFrom_def MapAdd_MergeFrom_def update_accessors *)
qed

lemma add_parse_merges:
  assumes "wire_format L" and "\<not> me_is_default src" and "length (entry_bytes (entry_value src)) \<le> 64 * 2 ^ 20"
  shows "\<exists>p s q. MapAdd_MergePartialFromCodedStream L m (CodedInputStream L (MapAdd_to_bytes L src)) = Some (True, p, s) \<and>
    ConsumedEntireMessage s \<and> MapAdd_MergeFrom L False src m = Inr q \<and> entry_value p = entry_value q"
proof -
  let ?b = "entry_bytes (entry_value src)"
  have size: "readable_size ?b" "entry_fits (entry_value src)"
    using assms(3) by (simp_all add: readable_size_def entry_fits_def)
  obtain p where "MapAdd_MergePartialFromCodedStream L m (CodedInputStream L ?b) = Some (True, p, at_end (CodedInputStream L ?b))"
    and "entry_value p = merge_entry (entry_value m) (entry_value src)"
    using wire_format.add_read_back [OF assms(1) wire_format.stream_readable(2) [OF assms(1) size(1)]
        wire_format.stream_readable(1) [OF assms(1) size(1)] size(2), of m] by metis
  moreover obtain q where "MapAdd_MergeFrom L False src m = Inr q"
    and "entry_value q = merge_entry (entry_value m) (entry_value src)"
    using wire_format.add_merged [OF assms(1, 2), of m] by metis
  ultimately show ?thesis
    using wire_format.add_to_bytes [OF assms(1, 2) size(2)] by (auto simp: ConsumedEntireMessage_def at_end_def)
qed

lemma remove_parse_merges:
  assumes "wire_format L" and "\<not> mk_is_default src" and "length (key_bytes (key_value src)) \<le> 64 * 2 ^ 20"
  shows "\<exists>p s q. MapRemove_MergePartialFromCodedStream L m (CodedInputStream L (MapRemove_to_bytes L src)) = Some (True, p, s) \<and>
    ConsumedEntireMessage s \<and> MapRemove_MergeFrom L False src m = Inr q \<and> key_value p = key_value q"
proof -
  let ?b = "key_bytes (key_value src)"
  have size: "readable_size ?b" "key_fits (key_value src)"
    using assms(3) by (simp_all add: readable_size_def key_fits_def)
  obtain p where "MapRemove_MergePartialFromCodedStream L m (CodedInputStream L ?b) = Some (True, p, at_end (CodedInputStream L ?b))"
    and "key_value p = merge_key (key_value m) (key_value src)"
    using wire_format.remove_read_back [OF assms(1) wire_format.stream_readable(2) [OF assms(1) size(1)]
        wire_format.stream_readable(1) [OF assms(1) size(1)] size(2), of m] by metis
  moreover obtain q where "MapRemove_MergeFrom L False src m = Inr q"
    and "key_value q = merge_key (key_value m) (key_value src)"
    using wire_format.remove_merged [OF assms(1, 2), of m] by metis
  ultimately show ?thesis
    using wire_format.remove_to_bytes [OF assms(1, 2) size(2)] by (auto simp: ConsumedEntireMessage_def at_end_def)
qed

lemma object_parse_merges:
  assumes "wire_format L" and "length (object_bytes (object_value src)) \<le> 64 * 2 ^ 20"
  shows "\<exists>p s q. AssociatedObject_MergePartialFromCodedStream L m
      (CodedInputStream L (AssociatedObject_SerializeWithCachedSizesToArray L src [])) = Some (True, p, s) \<and>
    ConsumedEntireMessage s \<and> AssociatedObject_MergeFrom L False src m = Inr q \<and> object_value p = object_value q"
proof -
  let ?b = "object_bytes (object_value src)"
  have size: "readable_size ?b" "object_fits (object_value src)"
    using assms(2) by (simp_all add: readable_size_def object_fits_def)
  have "at_limit (CodedInputStream L ?b)"
    using wire_format.stream_readable(1) [OF assms(1) size(1)] by (simp add: readable_def)
  then obtain p where "AssociatedObject_MergePartialFromCodedStream L m (CodedInputStream L ?b) =
      Some (True, p, at_end (CodedInputStream L ?b))" and "object_value p = merge_object (object_value m) (object_value src)"
    using wire_format.object_read_back [OF assms(1) wire_format.stream_readable(2) [OF assms(1) size(1)] _ size(2), of m] by metis
  moreover obtain q where "AssociatedObject_MergeFrom L False src m = Inr q"
    and "object_value q = merge_object (object_value m) (object_value src)"
    using wire_format.object_merged [OF assms(1), of src m] by metis
  ultimately show ?thesis
    using wire_format.object_written [OF assms(1) size(2), of "[]"] by (auto simp: ConsumedEntireMessage_def at_end_def)
qed

text \<open>
  C19. For each of the four messages, additions, updates, removals and the object they name: parsing the
  bytes of one message into another one of its kind consumes them all and is merging the two; the fields
  the message has replace those of the other, unset fields leave them, and the embedded objects are
  merged in turn. The message that is written is not the immutable default instance, whose embedded
  object nobody may write, and its bytes are at most the 64 MB the library reads.
\<close>

theorem parse_is_merge:
  assumes "wire_format L" and "\<not> me_is_default src" and "length (entry_bytes (entry_value src)) \<le> 64 * 2 ^ 20"
    and "\<not> mk_is_default ksrc" and "length (key_bytes (key_value ksrc)) \<le> 64 * 2 ^ 20"
    and "length (object_bytes (object_value osrc)) \<le> 64 * 2 ^ 20"
  shows "(\<exists>p s q. MapAdd_MergePartialFromCodedStream L m (CodedInputStream L (MapAdd_to_bytes L src)) = Some (True, p, s) \<and>
      ConsumedEntireMessage s \<and> MapAdd_MergeFrom L False src m = Inr q \<and> entry_value p = entry_value q) \<and>
    (\<exists>p s q. MapUpdate_MergePartialFromCodedStream L m (CodedInputStream L (MapUpdate_to_bytes L src)) = Some (True, p, s) \<and>
      ConsumedEntireMessage s \<and> MapUpdate_MergeFrom L False src m = Inr q \<and> entry_value p = entry_value q) \<and>
    (\<exists>p s q. MapRemove_MergePartialFromCodedStream L k (CodedInputStream L (MapRemove_to_bytes L ksrc)) = Some (True, p, s) \<and>
      ConsumedEntireMessage s \<and> MapRemove_MergeFrom L False ksrc k = Inr q \<and> key_value p = key_value q) \<and>
    (\<exists>p s q. AssociatedObject_MergePartialFromCodedStream L ob
        (CodedInputStream L (AssociatedObject_SerializeWithCachedSizesToArray L osrc [])) = Some (True, p, s) \<and>
      ConsumedEntireMessage s \<and> AssociatedObject_MergeFrom L False osrc ob = Inr q \<and> object_value p = object_value q)"
  using add_parse_merges [OF assms(1-3), of m] remove_parse_merges [OF assms(1,4,5), of k]
    object_parse_merges [OF assms(1,6), of ob]
  by (simp add: update_wraps_add update_reads_like_add update_merges_like_add)

theorem parse_is_merge_witness:
  "\<exists>p s q p' s' q'. MapAdd_MergePartialFromCodedStream reference_lib MapAdd_New
      (CodedInputStream reference_lib (MapAdd_to_bytes reference_lib sample_entry)) = Some (True, p, s) \<and>
    MapAdd_MergeFrom reference_lib False sample_entry MapAdd_New = Inr q \<and> entry_value p = entry_value q \<and>
    MapRemove_MergePartialFromCodedStream reference_lib MapRemove_New
      (CodedInputStream reference_lib (MapRemove_to_bytes reference_lib MapRemove_New)) = Some (True, p', s') \<and>
    MapRemove_MergeFrom reference_lib False MapRemove_New MapRemove_New = Inr q' \<and> key_value p' = key_value q'"
proof -
  have e: "\<not> me_is_default sample_entry" by (simp add: sample_entry_def del: entry_message.simps)
  have el: "length (entry_bytes (entry_value sample_entry)) \<le> 64 * 2 ^ 20" by (simp add: sample_entry_bytes)
  have k: "\<not> mk_is_default MapRemove_New" by (simp add: MapRemove_New_def)
  have kl: "length (key_bytes (key_value MapRemove_New)) \<le> 64 * 2 ^ 20"
    by (simp add: MapRemove_New_def key_value_def target_field_def number_field_def)
  have ol: "length (object_bytes (object_value AssociatedObject_New)) \<le> 64 * 2 ^ 20"
    by (simp add: object_value_New object_bytes_def assoc_default_def string_field_def number_field_def)
  show ?thesis
    using parse_is_merge [OF reference_format e el k kl ol, of MapAdd_New MapRemove_New] by blast
qed

end
