(* ===== verification/List_Replication.thy ===== *)
theory List_Replication
  imports Message_Codec List_Properties
begin

text \<open>
  Replication of a list from end to end. What the local operations queue, \<open>UpdateListDelta\<close> sends and
  the receiver's network loop takes are the same messages, and a message is the operation it was sent
  for: so the receiver's list follows the sender's.
\<close>

section \<open>Messages as operations on a map\<close>

fun replay :: "proto_msg \<Rightarrow> (u32 \<Rightarrow> bytes option) \<Rightarrow> u32 \<Rightarrow> bytes option" where
  "replay (INetworkMapAdd _ k d _) m = m(k \<mapsto> d)"
| "replay (INetworkMapUpdate _ k d _) m = (if m k = None then m else m(k \<mapsto> d))"
| "replay (INetworkMapRemove _ k _) m = m(k := None)"

lemma replay_twice: "replay msg (replay msg m) = replay msg m"
  by (cases msg) auto

lemma replay_repeated: "(replay msg ^^ Suc n) m = replay msg m"
  by (induction n) (simp_all add: replay_twice)

lemma replay_repeats:
  assumes "0 < n"
  shows "fold replay (concat (map (replicate n) msgs)) m = fold replay msgs m"
proof (induction msgs arbitrary: m)
  case (Cons msg msgs)
  have "(replay msg ^^ n) m = replay msg m"
    using replay_repeated [where n = "n - 1"] assms by simp
  with Cons show ?case by simp
qed simp

section \<open>Local operations\<close>

datatype list_op = Create u32 bytes | Set u32 bytes | Remove u32

fun apply_op :: "net_object \<Rightarrow> list_op \<Rightarrow> netlist \<Rightarrow> netlist res" where
  "apply_op ob (Create k d) nl = list_create ob k d nl"
| "apply_op ob (Set k d) nl = list_set ob k d nl"
| "apply_op ob (Remove k) nl = res_map snd (list_remove ob k nl)"

fun apply_ops :: "net_object \<Rightarrow> list_op list \<Rightarrow> netlist \<Rightarrow> netlist res" where
  "apply_ops ob [] nl = Inr nl"
| "apply_ops ob (op # ops) nl = res_bind (apply_op ob op nl) (apply_ops ob ops)"

fun op_sized :: "nat \<Rightarrow> list_op \<Rightarrow> bool" where
  "op_sized n (Create k d) \<longleftrightarrow> length d = n"
| "op_sized n (Set k d) \<longleftrightarrow> length d = n"
| "op_sized n (Remove k) \<longleftrightarrow> True"

text \<open>The packet of a message, as the three constructing functions make it.\<close>

fun msg_packet :: "proto_msg \<Rightarrow> packet" where
  "msg_packet (INetworkMapAdd obj k d i) = construct_protoadd obj k d i"
| "msg_packet (INetworkMapUpdate obj k d i) = construct_protoupdate obj k d i"
| "msg_packet (INetworkMapRemove obj k i) = construct_protoremove obj k i"

text \<open>A message about the list \<open>i\<close>, of elements of \<open>n\<close> bytes, of the object \<open>a\<close>.\<close>

definition about :: "assoc_object \<Rightarrow> u32 \<Rightarrow> nat \<Rightarrow> proto_msg \<Rightarrow> bool" where
  "about a i n msg \<longleftrightarrow> (\<exists>k d. length d = n \<and> (msg = INetworkMapAdd (Some a) k d i \<or>
     msg = INetworkMapUpdate (Some a) k d i \<or> msg = INetworkMapRemove (Some a) k i))"

definition queue_of :: "proto_msg list \<Rightarrow> (packet \<times> peer option) list" where
  "queue_of msgs = map (\<lambda>msg. (msg_packet msg, None)) msgs"

lemma apply_op_queues:
  assumes "parent_ref ob = Inr a" and "op_sized (nl_DataSize nl) op"
  obtains nl' msgs where "apply_op ob op nl = Inr nl'"
    and "nl_UpdateQueue nl' = nl_UpdateQueue nl @ queue_of msgs"
    and "\<forall>msg \<in> set msgs. about a (nl_ListID nl) (nl_DataSize nl) msg"
    and "items nl' = fold replay msgs (items nl)"
    and "nl_DataSize nl' = nl_DataSize nl" and "nl_ListID nl' = nl_ListID nl"
    and "nl_Callbacks nl' = nl_Callbacks nl"
proof (cases op)
  case (Create k d)
  show thesis
  proof (cases "items nl k")
    case None
    with Create assms list_create_absent [OF None assms(1), of d] show thesis
      by (intro that [of "queue_packet (construct_protoadd (Some a) k d (nl_ListID nl)) None
            (nl\<lparr>nl_Data := nl_Data nl @ [(k, d)]\<rparr>)" "[INetworkMapAdd (Some a) k d (nl_ListID nl)]"])
        (auto simp: queue_of_def about_def items_append_new)
  next
    case (Some x)
    with Create list_create_present [of nl k ob d] show thesis
      by (intro that [of nl "[]"]) (simp_all add: queue_of_def)
  qed
next
  case (Set k d)
  show thesis
  proof (cases "items nl k")
    case None
    with Set list_set_absent [OF None, of ob d] show thesis
      by (intro that [of nl "[]"]) (simp_all add: queue_of_def)
  next
    case (Some x)
    with Set assms list_set_present [OF _ assms(1), of nl k d] show thesis
      by (intro that [of "queue_packet (construct_protoupdate (Some a) k d (nl_ListID nl)) None
            (nl\<lparr>nl_Data := amap k (\<lambda>_. d) (nl_Data nl)\<rparr>)" "[INetworkMapUpdate (Some a) k d (nl_ListID nl)]"])
        (auto simp: queue_of_def about_def items_amap)
  qed
next
  case (Remove k)
  show thesis
  proof (cases "items nl k")
    case None
    with Remove list_remove_absent [OF None, of ob] show thesis
      by (intro that [of nl "[]"]) (simp_all add: queue_of_def)
  next
    case (Some x)
    have "about a (nl_ListID nl) (nl_DataSize nl) (INetworkMapRemove (Some a) k (nl_ListID nl))"
      by (auto simp: about_def intro: exI [of _ "replicate (nl_DataSize nl) 0"])
    with Some Remove list_remove_present [OF _ assms(1), of nl k] show thesis
      by (intro that [of "queue_packet (construct_protoremove (Some a) k (nl_ListID nl)) None
            (nl\<lparr>nl_Data := adel k (nl_Data nl)\<rparr>)" "[INetworkMapRemove (Some a) k (nl_ListID nl)]"])
        (auto simp: queue_of_def)
  qed
qed

lemma queue_of_append: "queue_of (xs @ ys) = queue_of xs @ queue_of ys"
  by (simp add: queue_of_def)

lemma apply_ops_queues:
  assumes "parent_ref ob = Inr a" and "\<forall>op \<in> set ops. op_sized (nl_DataSize nl) op"
  obtains nl' msgs where "apply_ops ob ops nl = Inr nl'"
    and "nl_UpdateQueue nl' = nl_UpdateQueue nl @ queue_of msgs"
    and "\<forall>msg \<in> set msgs. about a (nl_ListID nl) (nl_DataSize nl) msg"
    and "items nl' = fold replay msgs (items nl)"
    and "nl_DataSize nl' = nl_DataSize nl" and "nl_ListID nl' = nl_ListID nl"
    and "nl_Callbacks nl' = nl_Callbacks nl"
  using assms(2)
proof (induction ops arbitrary: nl thesis)
  case Nil
  show ?case by (rule Nil.prems(1) [of nl "[]"]) (simp_all add: queue_of_def)
next
  case (Cons op ops)
  from Cons.prems(2) have s: "op_sized (nl_DataSize nl) op" by simp
  from apply_op_queues [OF assms(1) s] obtain nl1 m1 where 1: "apply_op ob op nl = Inr nl1"
    "nl_UpdateQueue nl1 = nl_UpdateQueue nl @ queue_of m1"
    "\<forall>msg \<in> set m1. about a (nl_ListID nl) (nl_DataSize nl) msg"
    "items nl1 = fold replay m1 (items nl)"
    "nl_DataSize nl1 = nl_DataSize nl" "nl_ListID nl1 = nl_ListID nl" "nl_Callbacks nl1 = nl_Callbacks nl" .
  have "\<forall>op \<in> set ops. op_sized (nl_DataSize nl1) op" using Cons.prems(2) 1(5) by simp
  from Cons.IH [OF _ this] obtain nl2 m2 where 2: "apply_ops ob ops nl1 = Inr nl2"
    "nl_UpdateQueue nl2 = nl_UpdateQueue nl1 @ queue_of m2"
    "\<forall>msg \<in> set m2. about a (nl_ListID nl1) (nl_DataSize nl1) msg"
    "items nl2 = fold replay m2 (items nl1)"
    "nl_DataSize nl2 = nl_DataSize nl1" "nl_ListID nl2 = nl_ListID nl1" "nl_Callbacks nl2 = nl_Callbacks nl1" .
  with 1 show ?case
    by (intro Cons.prems(1) [of nl2 "m1 @ m2"]) (auto simp: queue_of_append)
qed


section \<open>Sending\<close>

text \<open>The messages as packets for the players, after \<open>SendDelta\<close>.\<close>

definition addressed :: "peer list \<Rightarrow> proto_msg list \<Rightarrow> (packet \<times> peer option) list" where
  "addressed players msgs = map (\<lambda>msg. ((msg_packet msg)\<lparr>pk_PeerList := map Some players\<rparr>, None)) msgs"

definition msg_code :: "proto_msg \<Rightarrow> u16" where
  "msg_code msg = (case msg of INetworkMapAdd _ _ _ _ \<Rightarrow> internal_evt_list_add
     | INetworkMapUpdate _ _ _ _ \<Rightarrow> internal_evt_list_data
     | INetworkMapRemove _ _ _ \<Rightarrow> internal_evt_list_remove)"

lemma msg_packet_fields:
  "pk_msg (msg_packet msg) = msg" "pk_Code (msg_packet msg) = msg_code msg"
  "pk_Status (msg_packet msg) = kPacket_Pending" "pk_PeerList (msg_packet msg) = []"
  by (cases msg; simp add: msg_code_def construct_protoadd_def construct_protoupdate_def
      construct_protoremove_def SetReliable_def packet_new_def Let_def)+

lemma addressed_eq:
  "map (\<lambda>(p, flt). (add_targets players flt p, flt)) (queue_of msgs) = addressed players msgs"
  by (simp add: addressed_def queue_of_def add_targets_eq msg_packet_fields)

text \<open>What reaches one peer.\<close>

fun packets_to :: "peer \<Rightarrow> transport_call list \<Rightarrow> bytes list" where
  "packets_to q [] = []"
| "packets_to q (Peer_Send p data flags ch # cs) = (if p = q then data # packets_to q cs else packets_to q cs)"
| "packets_to q (_ # cs) = packets_to q cs"

lemma packets_to_append [simp]: "packets_to q (xs @ ys) = packets_to q xs @ packets_to q ys"
proof (induction xs)
  case (Cons x xs)
  then show ?case by (cases x) auto
qed simp

lemma packets_to_calls:
  "packets_to q (packet_calls A p (map Some players)) =
     replicate (count_list players q) (wire_packet A (pk_msg p) (pk_Code p))"
  by (induction players) (simp_all add: packet_calls_def)

lemma packets_to_queue:
  assumes "q \<in> set players"
  shows "packets_to q (queue_calls A first (addressed players msgs)) =
    concat (map (replicate (count_list players q)) (map (\<lambda>msg. wire_packet A msg (msg_code msg)) msgs))"
  using assms by (induction msgs)
    (auto simp: queue_calls_def addressed_def msg_packet_fields packets_to_calls)

lemma queue_calls_empty [simp]: "queue_calls A first [] = []"
  by (simp add: queue_calls_def)

text \<open>
  \<open>UpdateListDelta\<close> of an object in which one list has queued messages.
\<close>

lemma update_lists_quiet:
  assumes "\<forall>nl \<in> set nls. constructed nl \<and> nl_UpdateQueue nl = []"
    and "get_players w (no_Manager ob) = Inr players"
  shows "update_lists A ob nls w = Inr (nls, w)"
  using assms(1)
proof (induction nls)
  case (Cons nl nls)
  then have "nl\<lparr>nl_UpdateQueue := []\<rparr> = nl" by (cases nl) simp
  with Cons assms(2) show ?case
    by (simp add: SendDelta_def Flush_def dispatcher_think_def constructed_def)
qed simp


lemma get_players_out [simp]: "get_players (w\<lparr>w_Out := cs\<rparr>) m = get_players w m"
proof -
  have "collect_peers (w\<lparr>w_Out := cs\<rparr>) rs = collect_peers w rs" for rs
    by (induction rs) (simp_all add: deref_def)
  then show ?thesis
    by (auto simp: get_players_def find_manager_def get_instance_def split: option.split)
qed

lemma update_lists_one:
  assumes "\<forall>nl \<in> set (xs @ ys). constructed nl \<and> nl_UpdateQueue nl = []"
    and "constructed nl" and "nl_UpdateQueue nl = queue_of msgs"
    and "\<forall>msg \<in> set msgs. length (ap_serialize A msg) + 2 < 2 ^ 32"
    and "get_players w (no_Manager ob) = Inr players" and "w_Running w"
  shows "update_lists A ob (xs @ nl # ys) w = Inr (xs @ nl\<lparr>nl_UpdateQueue := []\<rparr> # ys,
    w\<lparr>w_Out := w_Out w @ queue_calls A (GetFirstPeer w) (addressed players msgs)\<rparr>)"
  using assms(1)
proof (induction xs)
  case Nil
  have whole: "\<forall>q \<in> set (addressed players msgs). sent_whole A (fst q)"
    using assms(4) by (auto simp: addressed_def sent_whole_def msg_packet_fields)
  have quiet: "update_lists A ob ys (w\<lparr>w_Out := cs\<rparr>) = Inr (ys, w\<lparr>w_Out := cs\<rparr>)" for cs
    using Nil assms(5) by (intro update_lists_quiet) simp_all
  have "dispatcher_think A w1 ob (nl\<lparr>nl_UpdateQueue := []\<rparr>) = Inr (nl\<lparr>nl_UpdateQueue := []\<rparr>)" for w1
    using assms(2) by (simp add: dispatcher_think_def constructed_def)
  then show ?case
    using assms(3, 5) destroy_packets_whole [OF whole assms(6)] quiet
    by (simp add: SendDelta_def Flush_def addressed_eq)
next
  case (Cons x xs)
  then have "x\<lparr>nl_UpdateQueue := []\<rparr> = x" by (cases x) simp
  with Cons assms(5) show ?case
    by (simp add: SendDelta_def Flush_def dispatcher_think_def constructed_def)
qed

lemma UpdateListDelta_one:
  assumes "w_heap w r = Some ob" and "j < length (no_MapList ob)" and "no_MapList ob ! j = nl"
    and "\<forall>i < length (no_MapList ob). i \<noteq> j \<longrightarrow>
      constructed (no_MapList ob ! i) \<and> nl_UpdateQueue (no_MapList ob ! i) = []"
    and "constructed nl" and "nl_UpdateQueue nl = queue_of msgs"
    and "\<forall>msg \<in> set msgs. length (ap_serialize A msg) + 2 < 2 ^ 32"
    and "get_players w (no_Manager ob) = Inr players" and "w_Running w"
  shows "UpdateListDelta A r w = Inr (upd_list r j (nl\<lparr>nl_UpdateQueue := []\<rparr>)
    (w\<lparr>w_Out := w_Out w @ queue_calls A (GetFirstPeer w) (addressed players msgs)\<rparr>))"
proof -
  let ?xs = "take j (no_MapList ob)" and ?ys = "drop (Suc j) (no_MapList ob)"
  have split: "no_MapList ob = ?xs @ nl # ?ys"
    using id_take_nth_drop [OF assms(2)] assms(3) by simp
  have "constructed l \<and> nl_UpdateQueue l = []" if "l \<in> set (?xs @ ?ys)" for l
    using that assms(2, 4) by (fastforce simp: in_set_conv_nth)
  then have "update_lists A ob (no_MapList ob) w = Inr (?xs @ nl\<lparr>nl_UpdateQueue := []\<rparr> # ?ys,
      w\<lparr>w_Out := w_Out w @ queue_calls A (GetFirstPeer w) (addressed players msgs)\<rparr>)"
    using update_lists_one [of ?xs ?ys nl msgs A w ob players] assms(5-9) split by auto
  then show ?thesis
    using assms(1, 2) by (simp add: UpdateListDelta_def deref_def upd_list_def upd_object_def
        upd_conv_take_nth_drop fun_eq_iff)
qed


section \<open>Receiving\<close>

text \<open>
  \<open>holds w r ob j nl\<close>: the object \<open>r\<close> answers to the reference \<open>a\<close>, its list \<open>j\<close> is \<open>nl\<close>, and it is
  under a manager whose objects are alive.
\<close>

definition holds :: "assoc_object \<Rightarrow> u32 \<Rightarrow> world \<Rightarrow> oref \<Rightarrow> netlist \<Rightarrow> bool" where
  "holds a i w r nl \<longleftrightarrow> (\<exists>ob b players. DecodeObject w a = Inr (Some r) \<and> w_heap w r = Some ob \<and>
     unat i < length (no_MapList ob) \<and> no_MapList ob ! unat i = nl \<and> list_ok nl \<and> constructed nl \<and>
     parent_ref ob = Inr b \<and> get_players w (no_Manager ob) = Inr players)"

definition listening :: "world \<Rightarrow> bool" where
  "listening w \<longleftrightarrow> w_Running w \<and> w_Host w \<and> map_of (w_EventCallbacks w) EVENT_RECEIVE = None \<and>
     map_of (w_Callbacks w) internal_evt_list_add = Some [H_List_Add] \<and>
     map_of (w_Callbacks w) internal_evt_list_data = Some [H_List_Update] \<and>
     map_of (w_Callbacks w) internal_evt_list_remove = Some [H_List_Remove]"

lemma upd_list_world:
  "listening (upd_list r j nl w) = listening w"
  "get_players (upd_list r j nl w) m = get_players w m"
  "DecodeObject (upd_list r j nl w) a = DecodeObject w a"
proof -
  have deref: "deref (upd_list r j nl w) r' = (if r' = r
      then res_map (\<lambda>ob. ob\<lparr>no_MapList := (no_MapList ob)[j := nl]\<rparr>) (deref w r) else deref w r')" for r'
    by (simp add: deref_def upd_list_def split: option.split)
  show "listening (upd_list r j nl w) = listening w"
    by (simp add: listening_def upd_list_def upd_object_def)
  have "collect_peers (upd_list r j nl w) rs = collect_peers w rs" for rs
    by (induction rs) (auto simp: deref res_map_def res_bind_def split: sum.split)
  then show "get_players (upd_list r j nl w) m = get_players w m"
    by (auto simp: get_players_def upd_list_def split: option.split)
  have "find_netid (upd_list r j nl w) rs nid = find_netid w rs nid" for rs nid
    by (induction rs) (auto simp: deref res_map_def res_bind_def split: sum.split)
  then show "DecodeObject (upd_list r j nl w) a = DecodeObject w a"
    by (auto simp: DecodeObject_def GetByNetID_def upd_list_def split: option.split)
qed

lemma holds_upd_list:
  assumes "holds a i w r nl" and "list_ok nl'" and "constructed nl'"
  shows "holds a i (upd_list r (unat i) nl' w) r nl'"
proof -
  obtain ob b players where h: "DecodeObject w a = Inr (Some r)" "w_heap w r = Some ob"
    "unat i < length (no_MapList ob)" "parent_ref ob = Inr b" "get_players w (no_Manager ob) = Inr players"
    using assms(1) unfolding holds_def by blast
  let ?ob = "ob\<lparr>no_MapList := (no_MapList ob)[unat i := nl']\<rparr>"
  have "w_heap (upd_list r (unat i) nl' w) r = Some ?ob"
    using h(2) by (simp add: upd_list_def)
  moreover have "parent_ref ?ob = Inr b"
    using h(4) by (auto simp: parent_ref_def split: option.splits)
  ultimately show ?thesis
    unfolding holds_def using h assms(2, 3)
    by (intro exI [of _ ?ob] exI [of _ b] exI [of _ players]) (simp add: upd_list_world)
qed

lemma holds_target:
  assumes "holds a i w r nl" and "target_object msg = a" and "msg_list_id msg = i"
  obtains ob b players where "remote_target True msg w = Inr (Some (r, ob, unat i))"
    and "no_MapList ob ! unat i = nl" and "list_ok nl" and "constructed nl"
    and "parent_ref ob = Inr b" and "get_players w (no_Manager ob) = Inr players"
  using assms unfolding holds_def remote_target_def FetchObjectList_def deref_def by auto

definition take_message :: "app \<Rightarrow> peer option \<Rightarrow> proto_msg \<Rightarrow> world \<Rightarrow> world res" where
  "take_message A pr msg w = (case msg of
     INetworkMapAdd _ _ _ _ \<Rightarrow> on_remote_add A True pr msg w
   | INetworkMapUpdate _ _ _ _ \<Rightarrow> on_remote_update A True pr msg w
   | INetworkMapRemove _ _ _ \<Rightarrow> on_remote_remove A True pr msg w)"

lemma message_taken:
  assumes "holds a i w r nl" and "listening w" and "about a i (nl_DataSize nl) msg"
  obtains w' nl' where "take_message A pr msg w = Inr w'" and "holds a i w' r nl'" and "listening w'"
    and "nl_DataSize nl' = nl_DataSize nl" and "items nl' = replay msg (items nl)"
proof -
  have m: "target_object msg = a" "msg_list_id msg = i"
    using assms(3) by (auto simp: about_def)
  obtain ob b players where t: "remote_target True msg w = Inr (Some (r, ob, unat i))"
    "no_MapList ob ! unat i = nl" "list_ok nl" "constructed nl" "parent_ref ob = Inr b"
    "get_players w (no_Manager ob) = Inr players"
    using holds_target [OF assms(1) m] .
  note result = that
  have taken: thesis if "take_message A pr msg w = Inr (upd_list r (unat i) nl' w)" "list_ok nl'"
    "constructed nl'" "nl_DataSize nl' = nl_DataSize nl" "items nl' = replay msg (items nl)" for nl'
    using that holds_upd_list [OF assms(1)] assms(2) by (intro result [of "upd_list r (unat i) nl' w" nl']) (simp_all add: upd_list_world)
  show thesis
  proof (cases msg)
    case (INetworkMapAdd obj k d l)
    then have "length (msg_value msg) = nl_DataSize nl" using assms(3) by (auto simp: about_def)
    from add_taken [OF t this, of A pr] obtain nl' where "on_remote_add A True pr msg w = Inr (upd_list r (unat i) nl' w)"
      "list_ok nl'" "constructed nl'" "nl_DataSize nl' = nl_DataSize nl"
      "items nl' = (items nl)(msg_key msg \<mapsto> msg_value msg)" .
    with INetworkMapAdd show thesis
      by (intro taken [of nl']) (simp_all add: take_message_def)
  next
    case (INetworkMapUpdate obj k d l)
    then have v: "length (msg_value msg) = nl_DataSize nl" using assms(3) by (auto simp: about_def)
    show thesis
    proof (cases "items nl k")
      case None
      with update_refused [OF t(1, 2)] INetworkMapUpdate assms(1, 2) show thesis
        by (intro that [of w nl]) (simp_all add: take_message_def)
    next
      case (Some x)
      then have "items nl (msg_key msg) \<noteq> None" using INetworkMapUpdate by simp
      from update_taken [OF t this v, of A] obtain nl' where
        "on_remote_update A True pr msg w = Inr (upd_list r (unat i) nl' w)"
        "list_ok nl'" "constructed nl'" "nl_DataSize nl' = nl_DataSize nl"
        "items nl' = (items nl)(msg_key msg \<mapsto> msg_value msg)" by blast
      with INetworkMapUpdate Some show thesis
        by (intro taken [of nl']) (simp_all add: take_message_def)
    qed
  next
    case (INetworkMapRemove obj k l)
    from remove_taken [OF t, of A pr] obtain nl' where
      "on_remote_remove A True pr msg w = Inr (upd_list r (unat i) nl' w)"
      "list_ok nl'" "constructed nl'" "nl_DataSize nl' = nl_DataSize nl"
      "items nl' = (items nl)(msg_key msg := None)" .
    with INetworkMapRemove show thesis
      by (intro taken [of nl']) (simp_all add: take_message_def)
  qed
qed


section \<open>The wire\<close>

text \<open>A message about an object with short names and a list of small elements is small.\<close>

definition names_small :: "assoc_object \<Rightarrow> nat \<Rightarrow> bool" where
  "names_small a n \<longleftrightarrow> length (ao_instance_name a) + length (ao_manager_name a) + n \<le> 2 ^ 24"

lemma field_lengths:
  "length (string_field t b) \<le> length b + 6" "length (number_field t v) \<le> 6"
proof -
  have "length (varint v) \<le> 5" for v
    using length_varint [of v] by (simp add: StaticVarintSize32_def split: if_splits)
  then show "length (string_field t b) \<le> length b + 6" "length (number_field t v) \<le> 6"
    by (simp_all add: string_field_def number_field_def)
qed


lemma about_small:
  assumes "about a i n msg" and "names_small a n"
  shows "readable_size (wire_bytes msg)"
proof -
  note f = field_lengths
  have o: "length (object_bytes a) \<le> length (ao_instance_name a) + length (ao_manager_name a) + 18"
    using f(1) [of 10 "ao_instance_name a"] f(1) [of 18 "ao_manager_name a"] f(2) [of 24 "ao_network_code a"]
    by (simp add: object_bytes_def)
  have t: "length (target_field (Some a)) \<le> length (object_bytes a) + 6"
    using f(1) [of 10 "object_bytes a"] by (auto simp: target_field_def string_field_def varint_small split: if_splits)
  have e: "length (entry_bytes (Some a, k, d, i)) \<le> length (target_field (Some a)) + length d + 18"
    and r: "length (key_bytes (Some a, k, i)) \<le> length (target_field (Some a)) + 12" for k d
    using f(2) [of 16 k] f(1) [of 26 d] f(2) [of 32 i] f(2) [of 24 i] by simp_all
  obtain k d where d: "length d = n" and "msg = INetworkMapAdd (Some a) k d i \<or>
      msg = INetworkMapUpdate (Some a) k d i \<or> msg = INetworkMapRemove (Some a) k i"
    using assms(1) unfolding about_def by blast
  then have "wire_bytes msg = entry_bytes (Some a, k, d, i) \<or> wire_bytes msg = key_bytes (Some a, k, i)"
    by (auto simp del: entry_bytes.simps key_bytes.simps)
  then have "length (wire_bytes msg) \<le> length (target_field (Some a)) + n + 18"
    using e [of k d] r [of k] d by (auto simp del: entry_bytes.simps key_bytes.simps)
  also have "\<dots> \<le> 64 * 2 ^ 20"
    using o t assms(2) by (simp add: names_small_def)
  finally show ?thesis by (simp add: readable_size_def)
qed

definition handler_of :: "proto_msg \<Rightarrow> handler" where
  "handler_of msg = (case msg of INetworkMapAdd _ _ _ _ \<Rightarrow> H_List_Add
     | INetworkMapUpdate _ _ _ _ \<Rightarrow> H_List_Update | INetworkMapRemove _ _ _ \<Rightarrow> H_List_Remove)"

definition received :: "peer \<Rightarrow> bytes \<Rightarrow> net_event" where
  "received p data = \<lparr>ev_type = EVENT_RECEIVE, ev_peer = p, ev_data = data\<rparr>"

lemma received_fields [simp]:
  "ev_type (received p data) = EVENT_RECEIVE" "ev_peer (received p data) = p" "ev_data (received p data) = data"
  by (simp_all add: received_def)

lemma run_one_handler: "run_handlers run [h] data pr w = run h data pr w"
  by (cases "run h data pr w") simp_all

lemma message_arrives:
  assumes "wire_format L" and "wire_format L'" and "readable_size (wire_bytes msg)" and "listening w"
  shows "process_event (run_handler (library_app L' B) True)
      (received p (wire_packet (library_app L A) msg (msg_code msg))) w =
    take_message (library_app L' B) (Some p) msg w"
proof -
  have b: "wire_packet (library_app L A) msg (msg_code msg) = le16 (msg_code msg) @ wire_bytes msg"
    using wire_format.message_written [OF assms(1, 3)] by (simp add: wire_packet_def library_app_def)
  have "same_kind (H_blank (handler_of msg)) msg"
    by (cases msg) (simp_all add: H_blank_def handler_of_def)
  then have "packet_read (library_app L' B) (H_blank (handler_of msg)) (le16 (msg_code msg) @ wire_bytes msg) =
      Inr (Disable \<lparr>pk_msg = msg, pk_Code = 0, pk_Status = kPacket_Disabled, pk_Channel = 0,
        pk_Flags = 0, pk_PeerList = []\<rparr>)"
    using wire_format.message_read [OF assms(2, 3)] by (simp add: packet_read_def library_app_def)
  then have "run_handler (library_app L' B) True (handler_of msg) (le16 (msg_code msg) @ wire_bytes msg) (Some p) w =
      take_message (library_app L' B) (Some p) msg w"
    by (cases msg) (simp_all add: run_handler_def handler_of_def take_message_def Disable_def)
  moreover have "map_of (w_Callbacks w) (msg_code msg) = Some [handler_of msg]"
    using assms(4) by (cases msg) (simp_all add: listening_def msg_code_def handler_of_def)
  ultimately show ?thesis
    using assms(4) by (simp add: process_event_def ProcessRecv_def b of_le16_le16 listening_def run_one_handler
        del: run_handlers.simps)
qed

lemma messages_arrive:
  assumes "wire_format L" and "wire_format L'" and "names_small a n"
    and "holds a i w r nl" and "listening w" and "nl_DataSize nl = n" and "\<forall>msg \<in> set msgs. about a i n msg"
  obtains w' nl' where "process_events (run_handler (library_app L' B) True) (run_event_handler (library_app L' B))
      (map (received p) (map (\<lambda>msg. wire_packet (library_app L A) msg (msg_code msg)) msgs)) w = Inr (True, w')"
    and "holds a i w' r nl'" and "listening w'" and "nl_DataSize nl' = n"
    and "items nl' = fold replay msgs (items nl)"
  using assms(4-7)
proof (induction msgs arbitrary: w nl thesis)
  case Nil
  then show ?case by simp
next
  case (Cons msg msgs)
  from Cons.prems have about: "about a i (nl_DataSize nl) msg" by simp
  from message_taken [OF Cons.prems(2, 3) about, of "library_app L' B" "Some p"] obtain w1 nl1 where
    1: "take_message (library_app L' B) (Some p) msg w = Inr w1" "holds a i w1 r nl1" "listening w1"
    "nl_DataSize nl1 = nl_DataSize nl" "items nl1 = replay msg (items nl)" .
  have n: "nl_DataSize nl1 = n" "\<forall>msg \<in> set msgs. about a i n msg"
    using Cons.prems 1(4) by simp_all
  from Cons.IH [OF _ 1(2, 3) n] obtain w2 nl2 where
    2: "process_events (run_handler (library_app L' B) True) (run_event_handler (library_app L' B))
      (map (received p) (map (\<lambda>msg. wire_packet (library_app L A) msg (msg_code msg)) msgs)) w1 = Inr (True, w2)"
    "holds a i w2 r nl2" "listening w2" "nl_DataSize nl2 = n" "items nl2 = fold replay msgs (items nl1)" .
  have "readable_size (wire_bytes msg)"
    using about_small [OF about] assms(3) Cons.prems(4) by simp
  from message_arrives [OF assms(1, 2) this Cons.prems(3), of B p A] 1(1)
  have "process_event (run_handler (library_app L' B) True)
      (received p (wire_packet (library_app L A) msg (msg_code msg))) w = Inr w1" by simp
  then show ?case
    using 2 1(5) Cons.prems(3)
    by (intro Cons.prems(1) [of w2 nl2]) (simp_all add: FireEvent_def listening_def)
qed


section \<open>End to end\<close>

lemma updated_list:
  assumes "w_heap w r = Some ob" and "j < length (no_MapList ob)"
  obtains ob' where "w_heap (upd_list r j nl w) r = Some ob'" and "no_MapList ob' = (no_MapList ob)[j := nl]"
    and "parent_ref ob' = parent_ref ob" and "no_Manager ob' = no_Manager ob"
  using assms by (auto simp: upd_list_def parent_ref_def split: option.splits)

text \<open>The sender's half: the messages that reach a player are the operations made.\<close>

lemma operations_sent:
  assumes lib: "wire_format L"
    and ob: "w_heap ws r = Some ob" "j < length (no_MapList ob)" "no_MapList ob ! j = nl" "w_Running ws"
    and lists: "\<forall>l \<in> set (no_MapList ob). constructed l \<and> nl_UpdateQueue l = []"
    and a: "parent_ref ob = Inr a" "names_small a (nl_DataSize nl)"
    and q: "get_players ws (no_Manager ob) = Inr players" "q \<in> set players"
    and ops: "\<forall>op \<in> set ops. op_sized (nl_DataSize nl) op"
  obtains nl' ws' cs ob' msgs where "apply_ops ob ops nl = Inr nl'"
    and "UpdateListDelta (library_app L A) r (upd_list r j nl' ws) = Inr ws'" and "w_Out ws' = w_Out ws @ cs"
    and "w_heap ws' r = Some ob'" and "no_MapList ob' ! j = nl'\<lparr>nl_UpdateQueue := []\<rparr>"
    and "packets_to q cs = map (\<lambda>msg. wire_packet (library_app L A) msg (msg_code msg)) msgs"
    and "\<forall>msg \<in> set msgs. about a (nl_ListID nl) (nl_DataSize nl) msg"
    and "items nl' = fold replay msgs (items nl)"
proof -
  let ?A = "library_app L A"
  from apply_ops_queues [OF a(1) ops] obtain nl' msgs where n: "apply_ops ob ops nl = Inr nl'"
    "nl_UpdateQueue nl' = nl_UpdateQueue nl @ queue_of msgs"
    "\<forall>msg \<in> set msgs. about a (nl_ListID nl) (nl_DataSize nl) msg"
    "items nl' = fold replay msgs (items nl)" "nl_Callbacks nl' = nl_Callbacks nl" .
  have nl: "constructed nl" "nl_UpdateQueue nl = []" using lists ob(2, 3) by auto
  have small: "\<forall>msg \<in> set msgs. length (ap_serialize ?A msg) + 2 < 2 ^ 32"
    using about_small [OF _ a(2)] n(3) wire_format.message_written [OF lib]
    by (fastforce simp: library_app_def readable_size_def)
  let ?w = "upd_list r j nl' ws"
  obtain ob1 where o: "w_heap ?w r = Some ob1" "no_MapList ob1 = (no_MapList ob)[j := nl']"
    "parent_ref ob1 = parent_ref ob" "no_Manager ob1 = no_Manager ob"
    using updated_list [OF ob(1, 2)] .
  let ?cs = "queue_calls ?A (GetFirstPeer ?w) (addressed players msgs)"
  let ?ws = "upd_list r j (nl'\<lparr>nl_UpdateQueue := []\<rparr>) (?w\<lparr>w_Out := w_Out ?w @ ?cs\<rparr>)"
  have d: "UpdateListDelta ?A r ?w = Inr ?ws"
  proof (rule UpdateListDelta_one [OF o(1)])
    show "\<forall>i < length (no_MapList ob1). i \<noteq> j \<longrightarrow>
        constructed (no_MapList ob1 ! i) \<and> nl_UpdateQueue (no_MapList ob1 ! i) = []"
      using lists o(2) by simp
    show "get_players ?w (no_Manager ob1) = Inr players"
      using q(1) o(4) by (simp add: upd_list_world)
    show "w_Running ?w" using ob(4) by (simp add: upd_list_def frame_simps)
  qed (use o(2) ob(2) nl n(2, 5) small in \<open>simp_all add: constructed_def\<close>)
  have "w_heap (?w\<lparr>w_Out := w_Out ?w @ ?cs\<rparr>) r = Some ob1" "j < length (no_MapList ob1)"
    using o ob(2) by simp_all
  from updated_list [OF this] obtain ob2 where o2: "w_heap ?ws r = Some ob2"
    "no_MapList ob2 = (no_MapList ob1)[j := nl'\<lparr>nl_UpdateQueue := []\<rparr>]" .
  let ?ms = "concat (map (replicate (count_list players q)) msgs)"
  have "packets_to q ?cs = map (\<lambda>msg. wire_packet ?A msg (msg_code msg)) ?ms"
    by (simp add: packets_to_queue [OF q(2)] map_concat comp_def)
  moreover have "items nl' = fold replay ?ms (items nl)"
    using n(4) q(2) by (simp add: replay_repeats count_list_0_iff neq0_conv [symmetric] del: neq0_conv)
  ultimately show thesis
    using n(1, 3) d o2 o(2) ob(2)
    by (intro that [of nl' ?ws ?cs ob2 ?ms]) (simp_all add: upd_list_def frame_simps)
qed

text \<open>
  C3. A list is replicated from end to end: whatever operations the application makes on it, the packets
  that the next \<open>UpdateListDelta\<close> sends to a player, taken by the network loop of a receiver whose copy
  had the same elements, leave that copy with the same elements again. This holds for any values of
  the element size, also when a player owns several objects of the manager and is sent every packet
  several times.
\<close>

theorem list_end_to_end:
  assumes lib: "wire_format L" "wire_format L'"
    and ob: "w_heap ws r = Some ob" "j < length (no_MapList ob)" "no_MapList ob ! j = nl" "w_Running ws"
    and lists: "\<forall>l \<in> set (no_MapList ob). constructed l \<and> nl_UpdateQueue l = []"
    and a: "parent_ref ob = Inr a" "names_small a (nl_DataSize nl)"
    and q: "get_players ws (no_Manager ob) = Inr players" "q \<in> set players"
    and ops: "\<forall>op \<in> set ops. op_sized (nl_DataSize nl) op"
    and rc: "holds a (nl_ListID nl) wc rc nlc" "listening wc" "nl_DataSize nlc = nl_DataSize nl" "items nlc = items nl"
  shows "\<exists>nl' ws' cs ob' wc' nlc'. apply_ops ob ops nl = Inr nl' \<and>
    UpdateListDelta (library_app L A) r (upd_list r j nl' ws) = Inr ws' \<and> w_Out ws' = w_Out ws @ cs \<and>
    w_heap ws' r = Some ob' \<and> no_MapList ob' ! j = nl'\<lparr>nl_UpdateQueue := []\<rparr> \<and>
    process_events (run_handler (library_app L' B) True) (run_event_handler (library_app L' B))
      (map (received p) (packets_to q cs)) wc = Inr (True, wc') \<and>
    holds a (nl_ListID nl) wc' rc nlc' \<and> items nlc' = items nl'"
proof -
  from operations_sent [OF lib(1) ob lists a q ops] obtain nl' ws' cs ob' msgs where
    s: "apply_ops ob ops nl = Inr nl'" "UpdateListDelta (library_app L A) r (upd_list r j nl' ws) = Inr ws'"
    "w_Out ws' = w_Out ws @ cs" "w_heap ws' r = Some ob'" "no_MapList ob' ! j = nl'\<lparr>nl_UpdateQueue := []\<rparr>"
    "packets_to q cs = map (\<lambda>msg. wire_packet (library_app L A) msg (msg_code msg)) msgs"
    "\<forall>msg \<in> set msgs. about a (nl_ListID nl) (nl_DataSize nl) msg"
    "items nl' = fold replay msgs (items nl)" .
  from messages_arrive [OF lib a(2) rc(1-3) s(7)] obtain wc' nlc' where
    "process_events (run_handler (library_app L' B) True) (run_event_handler (library_app L' B))
      (map (received p) (packets_to q cs)) wc = Inr (True, wc')"
    "holds a (nl_ListID nl) wc' rc nlc'" "items nlc' = fold replay msgs (items nlc)"
    unfolding s(6) .
  then show ?thesis
    using s(1-5, 8) rc(4)
    by (intro exI [of _ nl'] exI [of _ ws'] exI [of _ cs] exI [of _ ob'] exI [of _ wc'] exI [of _ nlc']) simp
qed

section \<open>A peer that joins late\<close>

lemma send_items_out:
  assumes "\<forall>msg \<in> set (map (\<lambda>(k, d). INetworkMapAdd (Some a) k d i) kds). length (ap_serialize A msg) + 2 < 2 ^ 32"
    and "w_Running w"
  shows "\<exists>cs. send_items A a i q kds w = w\<lparr>w_Out := w_Out w @ cs\<rparr> \<and>
    packets_to q cs = map (\<lambda>(k, d). wire_packet A (INetworkMapAdd (Some a) k d i) internal_evt_list_add) kds"
  using assms
proof (induction kds arbitrary: w)
  case Nil
  then show ?case by (intro exI [of _ "[]"]) simp
next
  case (Cons kd kds)
  obtain k d where kd: "kd = (k, d)" by (cases kd)
  let ?p = "AddPeer (Some q) (construct_protoadd (Some a) k d i)"
  let ?c = "packet_calls A ?p (map Some [q])"
  have p: "pk_PeerList ?p = map Some [q]" "pk_msg ?p = INetworkMapAdd (Some a) k d i" "pk_Code ?p = internal_evt_list_add"
    by (simp_all add: AddPeer_def construct_protoadd_def SetReliable_def packet_new_def Let_def)
  then have "sent_whole A ?p"
    using Cons.prems(1) kd by (simp add: sent_whole_def)
  then have "snd (Dispatch A ?p w) = w\<lparr>w_Out := w_Out w @ ?c\<rparr>"
    using p(1) Cons.prems(2) by (simp add: Dispatch_def AllocateDefaultPeer_def dispatch_loop_whole Let_def del: dispatch_loop.simps)
  moreover obtain cs where "send_items A a i q kds (w\<lparr>w_Out := w_Out w @ ?c\<rparr>) = w\<lparr>w_Out := w_Out w @ ?c @ cs\<rparr>"
    "packets_to q cs = map (\<lambda>(k, d). wire_packet A (INetworkMapAdd (Some a) k d i) internal_evt_list_add) kds"
    using Cons.IH [of "w\<lparr>w_Out := w_Out w @ ?c\<rparr>"] Cons.prems by auto
  moreover have "packets_to q ?c = [wire_packet A (INetworkMapAdd (Some a) k d i) internal_evt_list_add]"
    using packets_to_calls [of q A ?p "[q]"] p by simp
  ultimately show ?case
    using kd by (intro exI [of _ "?c @ cs"]) simp
qed

lemma replay_contents:
  assumes "distinct (map fst kds)"
  shows "fold replay (map (\<lambda>(k, d). INetworkMapAdd (Some a) k d i) kds) m = m ++ map_of kds"
  using assms
proof (induction kds arbitrary: m)
  case (Cons kd kds)
  then have "map_of kds (fst kd) = None" by (simp add: map_of_eq_None_iff)
  with Cons show ?case by (cases kd) (auto simp: map_add_def fun_eq_iff split: option.split)
qed simp

text \<open>
  C24. A peer that joins late: what \<open>SendContents\<close> sends it makes its copy of the list have every element
  of the list, and keep only those of its own that the list has no element for; an empty copy becomes
  the same list.
\<close>

theorem late_joiner_list:
  assumes lib: "wire_format L" "wire_format L'" and run: "w_Running ws" and nl: "list_ok nl"
    and a: "parent_ref ob = Inr a" "names_small a (nl_DataSize nl)"
    and rc: "holds a (nl_ListID nl) wc rc nlc" "listening wc" "nl_DataSize nlc = nl_DataSize nl"
  shows "\<exists>cs wc' nlc'. SendContents_peer (library_app L A) ob nl (Some q) ws = Inr (ws\<lparr>w_Out := w_Out ws @ cs\<rparr>) \<and>
    process_events (run_handler (library_app L' B) True) (run_event_handler (library_app L' B))
      (map (received p) (packets_to q cs)) wc = Inr (True, wc') \<and>
    holds a (nl_ListID nl) wc' rc nlc' \<and> items nlc' = items nlc ++ items nl"
proof -
  let ?A = "library_app L A" let ?i = "nl_ListID nl"
  let ?ms = "map (\<lambda>(k, d). INetworkMapAdd (Some a) k d ?i) (nl_Data nl)"
  have about: "\<forall>msg \<in> set ?ms. about a ?i (nl_DataSize nl) msg"
    using nl by (fastforce simp: list_ok_def about_def)
  then have "\<forall>msg \<in> set ?ms. length (ap_serialize ?A msg) + 2 < 2 ^ 32"
    using about_small [OF _ a(2)] wire_format.message_written [OF lib(1)]
    by (fastforce simp: library_app_def readable_size_def)
  from send_items_out [OF this run, of q] obtain cs where
    cs: "send_items ?A a ?i q (nl_Data nl) ws = ws\<lparr>w_Out := w_Out ws @ cs\<rparr>"
    "packets_to q cs = map (\<lambda>msg. wire_packet ?A msg (msg_code msg)) ?ms"
    by (auto simp: msg_code_def comp_def case_prod_unfold)
  from messages_arrive [OF lib a(2) rc about] obtain wc' nlc' where
    "process_events (run_handler (library_app L' B) True) (run_event_handler (library_app L' B))
      (map (received p) (packets_to q cs)) wc = Inr (True, wc')"
    "holds a ?i wc' rc nlc'" "items nlc' = fold replay ?ms (items nlc)"
    unfolding cs(2) .
  then show ?thesis
    using cs(1) a(1) nl replay_contents [of "nl_Data nl" a ?i "items nlc"]
    by (intro exI [of _ cs] exI [of _ wc'] exI [of _ nlc'])
      (simp add: SendContents_peer_def list_ok_def items_def)
qed

definition sample_listener :: world where
  "sample_listener = sample_client\<lparr>w_Host := True\<rparr>"

lemma sample_listening: "listening sample_listener"
  by (simp add: listening_def sample_listener_def sample_client_def NetSystem_new_def
      bind_controller_def on_def Let_def internal_evt_list_add_def internal_evt_list_data_def
      internal_evt_list_remove_def aput_def amap_def)

lemma sample_holds: "holds sample_ref 0 sample_listener 0 sample_list"
proof -
  let ?ob = "sample_object\<lparr>no_Peer := None, no_Controller := NET_CONTROLLER_NONE,
    no_Vars := [sample_var\<lparr>nv_Data := [9, 9, 9, 9]\<rparr>]\<rparr>"
  have h: "w_heap sample_listener 0 = Some ?ob"
    "w_heap sample_listener (Suc 0) = Some (sample_object\<lparr>no_Peer := None, no_NetCode := 4,
      no_Controller := NET_CONTROLLER_NONE\<rparr>)"
    by (simp_all add: sample_listener_def sample_client_def)
  have i: "w_Instances sample_listener = [([119], sample_instance (sample_manager [0, 1] []))]"
    by (simp add: sample_listener_def)
  have "DecodeObject sample_listener sample_ref = Inr (Some 0)"
    by (simp add: DecodeObject_def sample_ref_def get_instance_def get_manager_def i sample_instance_def
        sample_manager_def GetByNetID_def deref_def h) (simp add: sample_object_def)
  moreover have "get_players sample_listener (no_Manager ?ob) = Inr []"
    by (simp add: get_players_def find_manager_def get_instance_def get_manager_def i
        sample_instance_def sample_manager_def deref_def h sample_object_def)
  moreover have "parent_ref ?ob = Inr sample_ref"
    by (simp add: parent_ref_def sample_ref_def sample_object_def)
  ultimately show ?thesis
    unfolding holds_def using h(1) sample_list_ok sample_target_list(1, 2)
    by (intro exI [of _ ?ob] exI [of _ sample_ref] exI [of _ "[]"]) (simp add: sample_object_def)
qed

theorem list_end_to_end_witness:
  "\<exists>nl' ws' cs ob' wc' nlc'.
    apply_ops sample_object [Create 9 [5, 6], Set 7 [3, 3], Remove 8] sample_list = Inr nl' \<and>
    UpdateListDelta (library_app reference_lib sample_app) 0 (upd_list 0 0 nl' sample_server) = Inr ws' \<and>
    w_Out ws' = w_Out sample_server @ cs \<and>
    w_heap ws' 0 = Some ob' \<and> no_MapList ob' ! 0 = nl'\<lparr>nl_UpdateQueue := []\<rparr> \<and>
    process_events (run_handler (library_app reference_lib sample_app) True)
      (run_event_handler (library_app reference_lib sample_app))
      (map (received 1) (packets_to 2 cs)) sample_listener = Inr (True, wc') \<and>
    holds sample_ref (nl_ListID sample_list) wc' 0 nlc' \<and> items nlc' = items nl'"
proof (rule list_end_to_end [OF reference_format reference_format])
  show "parent_ref sample_object = Inr sample_ref"
    using sample_parent by (simp add: sample_ref_def)
  show "get_players sample_server (no_Manager sample_object) = Inr [1, 2]"
    by (rule sample_target_list(3))
  show "names_small sample_ref (nl_DataSize sample_list)"
    by (simp add: names_small_def sample_ref_def sample_list_def)
  show "holds sample_ref (nl_ListID sample_list) sample_listener 0 sample_list"
    using sample_holds by (simp add: sample_list_def)
qed (use sample_listening sample_target_list in \<open>simp_all add: sample_object_def, simp_all add: sample_list_def\<close>)


theorem late_joiner_list_witness:
  "\<exists>cs wc' nlc'. SendContents_peer (library_app reference_lib sample_app) sample_object sample_list (Some 2) sample_server =
      Inr (sample_server\<lparr>w_Out := w_Out sample_server @ cs\<rparr>) \<and>
    process_events (run_handler (library_app reference_lib sample_app) True)
      (run_event_handler (library_app reference_lib sample_app))
      (map (received 1) (packets_to 2 cs)) sample_listener = Inr (True, wc') \<and>
    holds sample_ref (nl_ListID sample_list) wc' 0 nlc' \<and> items nlc' = items sample_list ++ items sample_list"
proof (rule late_joiner_list [OF reference_format reference_format])
  show "parent_ref sample_object = Inr sample_ref"
    using sample_parent by (simp add: sample_ref_def)
  show "names_small sample_ref (nl_DataSize sample_list)"
    by (simp add: names_small_def sample_ref_def sample_list_def)
  show "holds sample_ref (nl_ListID sample_list) sample_listener 0 sample_list"
    using sample_holds by (simp add: sample_list_def)
qed (use sample_listening sample_list_ok in simp_all)

end
