(* ===== verification/Base_Math64.thy ===== *)
theory Base_Math64
  imports Base_Math
begin

text \<open>
  The rest of BaseMath.h and BaseMath.cpp: the overloads for 64-bit numbers and the random numbers.
  \<open>rand()\<close> is a parameter: the number it returned, between 0 and \<open>RAND_MAX\<close>.
\<close>

type_synonym u64 = "64 word"
type_synonym float64 = real

section \<open>Constants and integers\<close>

definition kfPi64 :: float64 where "kfPi64 = 31415926535897932384626433832795 / 10 ^ 31"
definition kfEpsilon64 :: float64 where "kfEpsilon64 = 5 / 10 ^ 16"

definition s64 :: "int \<Rightarrow> u64 res" where
  "s64 i = (if - (2 ^ 63) \<le> i \<and> i < 2 ^ 63 then Inr (word_of_int i) else Inl Undefined)"

definition Abs_int64 :: "u64 \<Rightarrow> u64 res" where
  "Abs_int64 x = s64 \<bar>sint x\<bar>"

definition Mod_int64 :: "u64 \<Rightarrow> u64 \<Rightarrow> u64 res" where
  "Mod_int64 x y = (if y = 0 then Inl Undefined else s64 (sint x smod sint y))"

text \<open>The mixed overloads widen the 32-bit operand.\<close>

definition Mod_int32_64 :: "u32 \<Rightarrow> u64 \<Rightarrow> u64 res" where
  "Mod_int32_64 x y = Mod_int64 (scast x) y"

definition Mod_int64_32 :: "u64 \<Rightarrow> u32 \<Rightarrow> u64 res" where
  "Mod_int64_32 x y = Mod_int64 x (scast y)"

section \<open>Comparison\<close>

definition IsZero64 :: "float64 \<Rightarrow> float64 \<Rightarrow> bool" where
  "IsZero64 x fEpsilon \<longleftrightarrow> \<bar>x\<bar> < fEpsilon"

definition AreEqualAbsolute64 :: "float64 \<Rightarrow> float64 \<Rightarrow> float64 \<Rightarrow> bool" where
  "AreEqualAbsolute64 x y fEpsilon \<longleftrightarrow> \<bar>x - y\<bar> < fEpsilon"

definition AreEqualRelative64 :: "float64 \<Rightarrow> float64 \<Rightarrow> float64 \<Rightarrow> bool" where
  "AreEqualRelative64 x y fEpsilon =
     (if 0 \<le> x \<and> 0 \<le> y
      then if y < x then x * (1 - fEpsilon) < y else y * (1 - fEpsilon) < x
      else if x < 0 \<and> y < 0
      then if x < y then y < x * (1 - fEpsilon) else x < y * (1 - fEpsilon)
      else False)"

text \<open>The bits of a 64-bit float, reordered when the sign is set.\<close>

definition ordered_bits64 :: "u64 \<Rightarrow> u64" where
  "ordered_bits64 x = (if sint x < 0 then 0x8000000000000000 - x else x)"

definition AreEqual_bits64 :: "u64 \<Rightarrow> u64 \<Rightarrow> u32 \<Rightarrow> bool res" where
  "AreEqual_bits64 x y iEpsilonFrac =
     res_bind (s64 (sint (ordered_bits64 x) - sint (ordered_bits64 y))) (\<lambda>d.
     res_bind (Abs_int64 d) (\<lambda>a. Inr (a < ucast iEpsilonFrac)))"

section \<open>Floats\<close>

definition InvSqrt64 :: "float64 \<Rightarrow> float64" where "InvSqrt64 x = 1 / sqrt x"

definition SinCos64 :: "float64 \<Rightarrow> float64 \<times> float64" where "SinCos64 x = (sin x, cos x)"

definition ToDegrees64 :: "float64 \<Rightarrow> float64" where "ToDegrees64 r = (r * 180) / kfPi64"
definition ToRadians64 :: "float64 \<Rightarrow> float64" where "ToRadians64 d = (d * kfPi64) / 180"

definition Round_float64 :: "float64 \<Rightarrow> rounding_method \<Rightarrow> float64 \<Rightarrow> float64 res" where
  "Round_float64 fValue eRounding fMultipleOf =
     (let fPosMultipleOf = \<bar>fMultipleOf\<bar> in
      if fPosMultipleOf = 1 then
        Inr (of_int (case eRounding of
            kRoundNearest \<Rightarrow> \<lfloor>fValue + 1 / 2\<rfloor>
          | kRoundTowards0 \<Rightarrow> if 0 \<le> fValue then \<lfloor>fValue\<rfloor> else \<lceil>fValue\<rceil>
          | kRoundDown \<Rightarrow> \<lfloor>fValue\<rfloor>
          | kRoundAwayFrom0 \<Rightarrow> if 0 \<le> fValue then \<lceil>fValue\<rceil> else \<lfloor>fValue\<rfloor>
          | kRoundUp \<Rightarrow> \<lceil>fValue\<rceil>))
      else if fMultipleOf = 0 then Inl Fatal_Exception
      else
        Inr (fPosMultipleOf * of_int (case eRounding of
            kRoundNearest \<Rightarrow> \<lfloor>(fValue + 1 / 2) / fPosMultipleOf\<rfloor>
          | kRoundTowards0 \<Rightarrow> if 0 \<le> fValue then \<lfloor>fValue / fPosMultipleOf\<rfloor> else \<lceil>fValue / fPosMultipleOf\<rceil>
          | kRoundDown \<Rightarrow> \<lfloor>fValue / fPosMultipleOf\<rfloor>
          | kRoundAwayFrom0 \<Rightarrow> if 0 \<le> fValue then \<lceil>fValue / fPosMultipleOf\<rceil> else \<lfloor>fValue / fPosMultipleOf\<rfloor>
          | kRoundUp \<Rightarrow> \<lceil>fValue / fPosMultipleOf\<rceil>)))"

section \<open>The functions of the C library\<close>

text \<open>
  The overloads for floats, over the reals; \<open>None\<close> is a result that is not a finite number. An integer
  operand is converted first.
\<close>

definition Abs_float :: "real \<Rightarrow> real" where "Abs_float x = \<bar>x\<bar>"

definition truncated :: "real \<Rightarrow> int" where "truncated x = (if 0 \<le> x then \<lfloor>x\<rfloor> else \<lceil>x\<rceil>)"

definition Mod_float :: "real \<Rightarrow> real \<Rightarrow> real option" where
  "Mod_float x y = (if y = 0 then None else Some (x - of_int (truncated (x / y)) * y))"

definition Mod_int_float :: "'a::len word \<Rightarrow> real \<Rightarrow> real option" where
  "Mod_int_float x y = Mod_float (of_int (sint x)) y"

definition Mod_float_int :: "real \<Rightarrow> 'a::len word \<Rightarrow> real option" where
  "Mod_float_int x y = Mod_float x (of_int (sint y))"

definition Floor_float :: "real \<Rightarrow> real" where "Floor_float x = of_int \<lfloor>x\<rfloor>"
definition Ceil_float :: "real \<Rightarrow> real" where "Ceil_float x = of_int \<lceil>x\<rceil>"

definition Sqrt_float :: "real \<Rightarrow> real option" where
  "Sqrt_float x = (if x < 0 then None else Some (sqrt x))"

definition Sqrt_int :: "'a::len word \<Rightarrow> real option" where
  "Sqrt_int x = Sqrt_float (of_int (sint x))"

definition Pow_float :: "real \<Rightarrow> real \<Rightarrow> real option" where
  "Pow_float x y =
     (if y = 0 then Some 1
      else if 0 < x then Some (x powr y)
      else if x = 0 then if 0 < y then Some 0 else None
      else if of_int \<lfloor>y\<rfloor> = y then Some (x powi \<lfloor>y\<rfloor>)
      else None)"

definition Pow_int_float :: "'a::len word \<Rightarrow> real \<Rightarrow> real option" where
  "Pow_int_float x y = Pow_float (of_int (sint x)) y"

definition Pow_float_int :: "real \<Rightarrow> 'a::len word \<Rightarrow> real option" where
  "Pow_float_int x y = Pow_float x (of_int (sint y))"

definition Pow_int_int :: "'a::len word \<Rightarrow> 'b::len word \<Rightarrow> real option" where
  "Pow_int_int x y = Pow_float (of_int (sint x)) (of_int (sint y))"

definition Sin_float :: "real \<Rightarrow> real" where "Sin_float x = sin x"
definition Cos_float :: "real \<Rightarrow> real" where "Cos_float x = cos x"
definition Tan_float :: "real \<Rightarrow> real option" where "Tan_float x = (if cos x = 0 then None else Some (tan x))"
definition ASin_float :: "real \<Rightarrow> real option" where "ASin_float x = (if \<bar>x\<bar> \<le> 1 then Some (arcsin x) else None)"
definition ACos_float :: "real \<Rightarrow> real option" where "ACos_float x = (if \<bar>x\<bar> \<le> 1 then Some (arccos x) else None)"
definition ATan_float :: "real \<Rightarrow> real" where "ATan_float x = arctan x"

definition InvSqrt_int :: "'a::len word \<Rightarrow> float64" where "InvSqrt_int x = InvSqrt64 (of_int (sint x))"

definition ToDegrees_int :: "u32 \<Rightarrow> float32" where "ToDegrees_int r = ToDegrees (of_int (sint r))"
definition ToDegrees_int64 :: "u64 \<Rightarrow> float64" where "ToDegrees_int64 r = ToDegrees64 (of_int (sint r))"
definition ToRadians_int :: "u32 \<Rightarrow> float32" where "ToRadians_int d = ToRadians (of_int (sint d))"
definition ToRadians_int64 :: "u64 \<Rightarrow> float64" where "ToRadians_int64 d = ToRadians64 (of_int (sint d))"

text \<open>
  The remainder of floats is what a whole multiple of the divisor leaves, has the sign of the dividend and
  is smaller than the divisor.
\<close>

lemma Mod_float_remainder:
  assumes "Mod_float x y = Some r"
  shows "\<exists>q. x = of_int q * y + r" "\<bar>r\<bar> < \<bar>y\<bar>" "0 \<le> x \<Longrightarrow> 0 \<le> r" "x \<le> 0 \<Longrightarrow> r \<le> 0"
proof -
  have y: "y \<noteq> 0" and r: "r = (x / y - of_int (truncated (x / y))) * y"
    using assms by (auto simp: Mod_float_def algebra_simps split: if_splits)
  define d where "d = x / y - of_int (truncated (x / y))"
  have d: "\<bar>d\<bar> < 1" "0 \<le> x / y \<Longrightarrow> 0 \<le> d" "x / y \<le> 0 \<Longrightarrow> d \<le> 0"
    unfolding d_def truncated_def by (simp_all add: abs_less_iff split: if_splits) linarith+
  have rd: "r = d * y" using r by (simp add: d_def)
  have "x = of_int (truncated (x / y)) * y + r" using assms by (auto simp: Mod_float_def split: if_splits)
  then show "\<exists>q. x = of_int q * y + r" ..
  show "\<bar>r\<bar> < \<bar>y\<bar>" using d(1) y by (simp add: rd abs_mult)
  show "0 \<le> r" if "0 \<le> x"
    using that d(2,3) y by (cases "0 < y") (auto simp: rd zero_le_mult_iff zero_le_divide_iff divide_le_0_iff)
  show "r \<le> 0" if "x \<le> 0"
    using that d(2,3) y by (cases "0 < y") (auto simp: rd mult_le_0_iff zero_le_divide_iff divide_le_0_iff)
qed

section \<open>Random numbers\<close>

definition Random_int :: "int \<Rightarrow> int \<Rightarrow> u32 \<Rightarrow> u32 \<Rightarrow> u32 res" where
  "Random_int rand_max rand a b =
     res_bind (s32 (sint b - sint a)) (\<lambda>d.
     res_bind (s32 (sint d + 1)) (\<lambda>n.
     res_bind (s32 (sint n * rand)) (\<lambda>t.
       if t = 0 then Inr a
       else res_bind (s32 (sint t - 1)) (\<lambda>u.
            res_bind (s32 (sint u sdiv rand_max)) (\<lambda>q. s32 (sint a + sint q))))))"

definition Random_float :: "int \<Rightarrow> int \<Rightarrow> float32 \<Rightarrow> float32 \<Rightarrow> float32" where
  "Random_float rand_max rand a b = a + (b - a) * (of_int rand / of_int rand_max)"

definition Random_float64 :: "int \<Rightarrow> int \<Rightarrow> float64 \<Rightarrow> float64 \<Rightarrow> float64" where
  "Random_float64 rand_max rand a b = a + (b - a) * (of_int rand / of_int rand_max)"

section \<open>Laws\<close>

lemma s64_sint [simp]: "s64 (sint x) = Inr x"
  using sint_ge [of x] sint_lt [of x] by (simp add: s64_def)

lemma s32_defined:
  assumes "- (2 ^ 31) \<le> i" and "i < 2 ^ 31"
  shows "\<exists>x. s32 i = Inr x \<and> sint x = i"
  using assms by (intro exI [of _ "word_of_int i"])
    (simp add: s32_def sint_sbintrunc' signed_take_bit_int_eq_self)

lemma random_quotient:
  fixes n r m :: int
  assumes "0 < n" "0 < m" "0 \<le> r" "r \<le> m" "n * r \<noteq> 0"
  shows "0 \<le> (n * r - 1) sdiv m" "(n * r - 1) sdiv m \<le> n - 1"
proof -
  have "0 \<le> n * r" "n * r \<le> n * m"
    using assms by (simp_all add: mult_left_mono)
  then have "0 \<le> n * r - 1" and "n * r - 1 < n * m"
    using assms(5) by linarith+
  moreover have "(n * r - 1) div m < n"
  proof (rule ccontr)
    assume "\<not> (n * r - 1) div m < n"
    then have "n * m \<le> (n * r - 1) div m * m" using assms(2) by (simp add: mult_right_mono)
    also have "\<dots> \<le> n * r - 1" using pos_mod_sign [OF assms(2), of "n * r - 1"] by (simp add: minus_mod_eq_div_mult [symmetric])
    finally show False using \<open>n * r - 1 < n * m\<close> by simp
  qed
  ultimately show "0 \<le> (n * r - 1) sdiv m" "(n * r - 1) sdiv m \<le> n - 1"
    using assms(2) by (auto simp: signed_divide_int_def pos_imp_zdiv_nonneg_iff sgn_if)
qed

text \<open>
  The comment promises numbers from \<open>a\<close> to \<open>b\<close> also for ranges larger than \<open>RAND_MAX\<close>: that holds as
  long as the product of the two fits into an integer, beyond it the multiplication can overflow.
\<close>

lemma random_in_range:
  assumes "sint a \<le> sint b" and "(sint b - sint a + 1) * rand_max < 2 ^ 31"
    and "0 < rand_max" and "0 \<le> rand" and "rand \<le> rand_max"
  obtains x where "Random_int rand_max rand a b = Inr x" and "sint a \<le> sint x" and "sint x \<le> sint b"
proof -
  let ?n = "sint b - sint a + 1"
  have n: "0 < ?n" using assms(1) by simp
  have "?n * 1 \<le> ?n * rand_max" using assms(3) n by (intro mult_left_mono) simp_all
  then have small: "?n < 2 ^ 31" using assms(2) by simp
  have "?n * rand \<le> ?n * rand_max" "0 \<le> ?n * rand"
    using assms(4, 5) n by (simp_all add: mult_left_mono)
  then have t: "?n * rand < 2 ^ 31" "0 \<le> ?n * rand" using assms(2) by simp_all
  let ?q = "(?n * rand - 1) sdiv rand_max"
  have bounds: "- (2 ^ 31) \<le> sint a" "sint b < 2 ^ 31"
    using sint_ge [of a] sint_lt [of b] by simp_all
  obtain d where d: "s32 (sint b - sint a) = Inr d" "sint d = sint b - sint a"
    using s32_defined [of "sint b - sint a"] n small by auto
  obtain n' where n': "s32 ?n = Inr n'" "sint n' = ?n"
    using s32_defined [of ?n] n small by auto
  obtain t' where t': "s32 (?n * rand) = Inr t'" "sint t' = ?n * rand"
    using s32_defined [of "?n * rand"] t by auto
  show thesis
  proof (cases "?n * rand = 0")
    case True
    then have "t' = 0" using t'(2) by (metis signed_0 signed_word_eqI)
    then show thesis using d n' t' assms(1) by (intro that [of a]) (simp_all add: Random_int_def)
  next
    case False
    note q = random_quotient [OF n assms(3-5) False]
    have nz: "t' \<noteq> 0" using False t'(2) by auto
    obtain u where u: "s32 (?n * rand - 1) = Inr u" "sint u = ?n * rand - 1"
      using s32_defined [of "?n * rand - 1"] t by auto
    obtain q' where q': "s32 ?q = Inr q'" "sint q' = ?q"
      using s32_defined [of ?q] q small by auto
    obtain x where "s32 (sint a + ?q) = Inr x" "sint x = sint a + ?q"
      using s32_defined [of "sint a + ?q"] q bounds by auto
    then show thesis
      using d n' t' nz u q' q by (intro that [of x]) (simp_all add: Random_int_def)
  qed
qed

text \<open>The range may not exceed \<open>RAND_MAX\<close> by far: the product overflows then.\<close>

lemma random_overflows: "Random_int 32767 32767 0 99999 = Inl Undefined"
  by (simp add: Random_int_def s32_def res_bind_def)

end
