(* ===== verification/Controller_Life.thy ===== *)
theory Controller_Life
  imports Net_Sides Support
begin

text \<open>
  The life of controllers in a process (NetSystem.h, NetSystem.cpp, NetSystemServer.cpp,
  NetSystemClient.cpp, LoggingUtil.cpp): the global pointer \<open>s_PeerSingleton\<close>, construction and
  destruction, the loop of the network thread, messages that go to whichever controller the pointer
  names. A controller is an identifier; one that is not in the table is a freed object, and following a
  pointer to it is undefined.
\<close>

section \<open>The process\<close>

type_synonym cid = nat

record address =
  ad_host :: "u32 option"
  ad_port :: "u16 option"

record controller =
  c_world :: world
  c_NetworkRate :: u32
  c_ChannelCount :: u32
  c_DumpMode :: bool
  c_Address :: address
  c_Dispatcher :: dispatcher

text \<open>\<open>pr_junk_host\<close> is what the memory of the next controller holds where its host pointer will be.\<close>

record process =
  pr_controllers :: "cid \<Rightarrow> controller option"
  pr_singleton :: "cid option"
  pr_enet :: int
  pr_next :: cid
  pr_console :: "string list"
  pr_junk_host :: bool

definition ENET_HOST_ANY :: u32 where "ENET_HOST_ANY = 0"

text \<open>A member that no initialiser sets is \<open>None\<close>; the controller's world is what its members hold.\<close>

definition controller_new :: "bool \<Rightarrow> u32 \<Rightarrow> u32 \<Rightarrow> controller" where
  "controller_new host tickRate tot =
     \<lparr>c_world = NetSystem_new host False tot, c_NetworkRate = tickRate, c_ChannelCount = 2, c_DumpMode = False,
      c_Address = \<lparr>ad_host = None, ad_port = None\<rparr>, c_Dispatcher = \<lparr>md_Messages = []\<rparr>\<rparr>"

definition controller_of :: "cid \<Rightarrow> process \<Rightarrow> controller res" where
  "controller_of c p = (case pr_controllers p c of None \<Rightarrow> Inl Undefined | Some ct \<Rightarrow> Inr ct)"

definition upd_controller :: "cid \<Rightarrow> (controller \<Rightarrow> controller) \<Rightarrow> process \<Rightarrow> process res" where
  "upd_controller c f p =
     res_bind (controller_of c p) (\<lambda>ct. Inr (p\<lparr>pr_controllers := (pr_controllers p)(c \<mapsto> f ct)\<rparr>))"

section \<open>Accessors\<close>

definition SetChannelCount :: "u32 \<Rightarrow> controller \<Rightarrow> controller" where
  "SetChannelCount iChannels ct = ct\<lparr>c_ChannelCount := iChannels\<rparr>"

definition GetChannelCount :: "controller \<Rightarrow> u32" where
  "GetChannelCount ct = c_ChannelCount ct"

definition SetNetworkRate :: "u32 \<Rightarrow> controller \<Rightarrow> controller" where
  "SetNetworkRate netRate ct = ct\<lparr>c_NetworkRate := netRate\<rparr>"

definition GetNetworkRate :: "controller \<Rightarrow> u32" where
  "GetNetworkRate ct = c_NetworkRate ct"

definition IsRunning :: "controller \<Rightarrow> bool" where
  "IsRunning ct = w_Running (c_world ct)"

definition IsServer :: "controller \<Rightarrow> bool" where
  "IsServer ct = w_Server (c_world ct)"

definition GetHost :: "controller \<Rightarrow> bool" where
  "GetHost ct = w_Host (c_world ct)"

definition GetQueue :: "controller \<Rightarrow> dispatcher" where
  "GetQueue ct = c_Dispatcher ct"

text \<open>\<open>lookup\<close> is what \<open>enet_address_get_host_ip\<close> writes, \<open>None\<close> for a negative result.\<close>

definition GetIPAddress :: "(address \<Rightarrow> string option) \<Rightarrow> address \<Rightarrow> string" where
  "GetIPAddress lookup addr = (case lookup addr of None \<Rightarrow> ''?.?.?.?'' | Some s \<Rightarrow> takeWhile (\<lambda>ch. ch \<noteq> CHR 0x00) s)"

section \<open>The global pointer\<close>

definition GetSingleton :: "process \<Rightarrow> cid option" where
  "GetSingleton p = pr_singleton p"

text \<open>The templated variant: a \<open>dynamic_cast\<close> to the server or the client class.\<close>

definition GetSingleton_as :: "bool \<Rightarrow> process \<Rightarrow> cid option res" where
  "GetSingleton_as server p =
     (case pr_singleton p of
        None \<Rightarrow> Inr None
      | Some c \<Rightarrow> res_bind (controller_of c p) (\<lambda>ct. Inr (if IsServer ct = server then Some c else None)))"

definition DeletePeerSingleton :: "process \<Rightarrow> process res" where
  "DeletePeerSingleton p =
     (case pr_singleton p of
        None \<Rightarrow> Inl Nettik_Exception
      | Some _ \<Rightarrow> Inr (p\<lparr>pr_singleton := None\<rparr>))"

text \<open>
  The destructor. It is \<open>noexcept\<close>, so that the exception of \<open>DeletePeerSingleton\<close> ends the process;
  it stops neither of the threads.
\<close>

definition NetSystem_delete :: "app \<Rightarrow> cid \<Rightarrow> process \<Rightarrow> process res" where
  "NetSystem_delete A c p =
     res_bind (controller_of c p) (\<lambda>ct.
     res_bind (DeletePeerSingleton (p\<lparr>pr_enet := pr_enet p - 1\<rparr>)) (\<lambda>p1.
     res_bind (NetSystem_destroy A (c_world ct)) (\<lambda>_.
       Inr (p1\<lparr>pr_controllers := (pr_controllers p1)(c := None)\<rparr>))))"

definition SetPeerSingleton :: "app \<Rightarrow> cid option \<Rightarrow> process \<Rightarrow> process res" where
  "SetPeerSingleton A peer p =
     res_bind (case pr_singleton p of None \<Rightarrow> Inr p | Some c \<Rightarrow> NetSystem_delete A c p) (\<lambda>p1.
       Inr (p1\<lparr>pr_singleton := peer\<rparr>))"

section \<open>Construction\<close>

text \<open>
  An exception leaves the process as it is at the throw: the result has the process beside the
  exception or the new controller. The memory of an object whose constructor throws is freed, and the
  destructor of \<open>NetSystem\<close> does not run for an exception of its own constructor. \<open>enet_ok\<close> is whether
  \<open>enet_initialize\<close> succeeds.
\<close>

definition NetSystem_construct ::
  "app \<Rightarrow> bool \<Rightarrow> u32 \<Rightarrow> u32 \<Rightarrow> process \<Rightarrow> process \<times> cid res" where
  "NetSystem_construct A enet_ok tickRate tot p =
     (let c = pr_next p;
          p0 = p\<lparr>pr_next := c + 1\<rparr>
      in case SetPeerSingleton A (Some c) p0 of
           Inl e \<Rightarrow> (p0, Inl e)
         | Inr p1 \<Rightarrow>
             if \<not> enet_ok then (p1, Inl Nettik_Exception)
             else (p1\<lparr>pr_enet := pr_enet p1 + 1,
                      pr_controllers := (pr_controllers p1)(c \<mapsto> controller_new (pr_junk_host p1) tickRate tot)\<rparr>, Inr c))"

definition NetSystemServer_construct ::
  "app \<Rightarrow> bool \<Rightarrow> u32 \<Rightarrow> u32 \<Rightarrow> process \<Rightarrow> process \<times> cid res" where
  "NetSystemServer_construct A enet_ok rate tot p =
     (case NetSystem_construct A enet_ok rate tot p of
        (p1, Inl e) \<Rightarrow> (p1, Inl e)
      | (p1, Inr c) \<Rightarrow>
          case upd_controller c (\<lambda>ct. ct\<lparr>c_world := on OBJECT_FRAME H_ClientEntSnapshot
                 ((c_world ct)\<lparr>w_Server := True\<rparr>)\<rparr>) p1 of
            Inl e \<Rightarrow> (p1, Inl e)
          | Inr p2 \<Rightarrow> (p2, Inr c))"

text \<open>The client creates its host in the constructor; when that fails the base object is destroyed.\<close>

definition NetSystemClient_construct ::
  "app \<Rightarrow> bool \<Rightarrow> bool \<Rightarrow> u32 \<Rightarrow> u32 \<Rightarrow> process \<Rightarrow> process \<times> cid res" where
  "NetSystemClient_construct A enet_ok host_ok rate tot p =
     (case NetSystem_construct A enet_ok rate tot p of
        (p1, Inl e) \<Rightarrow> (p1, Inl e)
      | (p1, Inr c) \<Rightarrow>
          if \<not> host_ok then
            (case NetSystem_delete A c p1 of
               Inl e \<Rightarrow> (p1, Inl e)
             | Inr p2 \<Rightarrow> (p2, Inl Nettik_Exception))
          else
            (case upd_controller c (\<lambda>ct. ct\<lparr>c_world := (c_world ct)\<lparr>w_Host := True, w_Server := False\<rparr>\<rparr>) p1 of
               Inl e \<Rightarrow> (p1, Inl e)
             | Inr p2 \<Rightarrow> (p2, Inr c)))"

definition NetSystemClient_construct_default ::
  "app \<Rightarrow> bool \<Rightarrow> bool \<Rightarrow> u32 \<Rightarrow> process \<Rightarrow> process \<times> cid res" where
  "NetSystemClient_construct_default A enet_ok host_ok tot p =
     NetSystemClient_construct A enet_ok host_ok 60 tot p"

text \<open>Addresses: \<open>resolve\<close> is \<open>enet_address_set_host\<close>, whose failure leaves the host as it was.\<close>

definition server_InitializeAddress ::
  "(string \<Rightarrow> u32 option) \<Rightarrow> string option \<Rightarrow> u16 \<Rightarrow> controller \<Rightarrow> bool \<times> controller" where
  "server_InitializeAddress resolve hostname port ct =
     (let a = c_Address ct;
          a1 = (case hostname of
                  None \<Rightarrow> a\<lparr>ad_host := Some ENET_HOST_ANY\<rparr>
                | Some h \<Rightarrow> (case resolve h of None \<Rightarrow> a | Some x \<Rightarrow> a\<lparr>ad_host := Some x\<rparr>))
      in (True, ct\<lparr>c_Address := a1\<lparr>ad_port := Some port\<rparr>\<rparr>))"

definition client_InitializeAddress ::
  "(string \<Rightarrow> u32 option) \<Rightarrow> string \<Rightarrow> u16 \<Rightarrow> controller \<Rightarrow> bool \<times> controller" where
  "client_InitializeAddress resolve hostname port ct =
     (let a = c_Address ct;
          a1 = (case resolve hostname of None \<Rightarrow> a | Some x \<Rightarrow> a\<lparr>ad_host := Some x\<rparr>)
      in (True, ct\<lparr>c_Address := a1\<lparr>ad_port := Some port\<rparr>\<rparr>))"

text \<open>\<open>host_ok\<close> is whether \<open>enet_host_create\<close> returned a host.\<close>

definition InitializeHost :: "bool \<Rightarrow> controller \<Rightarrow> bool \<times> controller" where
  "InitializeHost host_ok ct = (host_ok, ct\<lparr>c_world := (c_world ct)\<lparr>w_Host := host_ok\<rparr>\<rparr>)"

section \<open>The network thread\<close>

text \<open>
  The body of the network thread, one element of the schedule per round: the thread's own flag when
  the round starts, and the events that are there for it. The flags live in the controller, so a round
  after its destruction reads freed memory.
\<close>

datatype loop_end = Waiting | Returned | Terminated

fun Run :: "app \<Rightarrow> bool \<Rightarrow> cid \<Rightarrow> (bool \<times> net_event list) list \<Rightarrow> process \<Rightarrow> (loop_end \<times> process) res" where
  "Run A lock_ok c [] p = Inr (Waiting, p)"
| "Run A lock_ok c ((bThreadStatus, events) # rounds) p =
     res_bind (controller_of c p) (\<lambda>ct.
       if \<not> (bThreadStatus \<and> IsRunning ct) then Inr (Returned, p)
       else res_bind (client_server_step A lock_ok events (c_world ct)) (\<lambda>(alive, w).
            res_bind (upd_controller c (\<lambda>ct. ct\<lparr>c_world := w\<rparr>) p) (\<lambda>p1.
              if \<not> alive then Inr (Terminated, p1) else Run A lock_ok c rounds p1)))"

text \<open>
  \<open>Destroy\<close> stops the controller and waits while the flag is up; this thread changes it no more, so
  the first component is whether the wait ends without another thread.
\<close>

definition Destroy :: "controller \<Rightarrow> bool \<times> controller" where
  "Destroy ct =
     (let ct' = ct\<lparr>c_world := Stop (c_world ct)\<rparr>
      in (\<not> w_ShuttingDown (c_world ct'), ct'))"

section \<open>Messages\<close>

text \<open>\<open>std::to_string\<close> and the output of a stream for an unsigned number.\<close>

fun decimal :: "nat \<Rightarrow> string" where
  "decimal n = (if n < 10 then [char_of (48 + n)] else decimal (n div 10) @ [char_of (48 + n mod 10)])"

declare decimal.simps [simp del]

definition decimal_int :: "int \<Rightarrow> string" where
  "decimal_int i = (if i < 0 then ''-'' @ decimal (nat (- i)) else decimal (nat i))"

definition PrintHostStatistics :: "u32 \<Rightarrow> u32 \<Rightarrow> u32 \<Rightarrow> controller \<Rightarrow> controller" where
  "PrintHostStatistics mtu totalSentPackets totalReceivedPackets ct =
     (if \<not> GetHost ct then ct
      else ct\<lparr>c_Dispatcher :=
        dispatcher_Add kMessageType_Warn (''TRP: '' @ decimal (unat totalReceivedPackets))
          (dispatcher_Add kMessageType_Warn (''TSP: '' @ decimal (unat totalSentPackets))
            (dispatcher_Add kMessageType_Warn (''MTU: '' @ decimal (unat mtu)) (c_Dispatcher ct)))\<rparr>)"

text \<open>
  The static \<open>CMessageDispatcher::Add\<close> goes through the global pointer; \<open>format\<close> is the platform's
  formatting.
\<close>

definition Add_message :: "(string \<Rightarrow> string) \<Rightarrow> message_type \<Rightarrow> string \<Rightarrow> process \<Rightarrow> process res" where
  "Add_message format ty psFormat p =
     (case GetSingleton p of
        Some c \<Rightarrow> upd_controller c (\<lambda>ct. ct\<lparr>c_Dispatcher := dispatcher_Add ty (format psFormat) (c_Dispatcher ct)\<rparr>) p
      | None \<Rightarrow> Inr (p\<lparr>pr_console := pr_console p @ [''[NETF] '' @ format psFormat]\<rparr>))"

definition Dump :: "(string \<Rightarrow> string) \<Rightarrow> cid \<Rightarrow> process \<Rightarrow> process res" where
  "Dump format c p =
     res_bind (Add_message format kMessageType_Warn ''NetSystem is now in dump mode.'' p)
       (upd_controller c (\<lambda>ct. ct\<lparr>c_DumpMode := True\<rparr>))"

text \<open>The exception of the library: its text, and its report to the controller or the error stream.\<close>

definition issue_text :: "string \<Rightarrow> string \<Rightarrow> u32 \<Rightarrow> string" where
  "issue_text error file line = file @ [CHR 0x0A] @ ''Line: '' @ decimal (unat line) @ '': '' @ error"

definition CNETTIK_Issue :: "string \<Rightarrow> string \<Rightarrow> u32 \<Rightarrow> process \<Rightarrow> process res" where
  "CNETTIK_Issue error file line p =
     (let m_sErrorMessage = issue_text error file line
      in case GetSingleton p of
           Some c \<Rightarrow> upd_controller c (\<lambda>ct. ct\<lparr>c_Dispatcher :=
             dispatcher_Add kMessageType_Error m_sErrorMessage (c_Dispatcher ct)\<rparr>) p
         | None \<Rightarrow> Inr (p\<lparr>pr_console := pr_console p @ [m_sErrorMessage]\<rparr>))"

text \<open>
  The text of the box that \<open>CFatalException::Display\<close> shows. The path separator is a backslash; a
  negative line number is one that is not known.
\<close>

definition Display_text :: "fatal_exception \<Rightarrow> string res" where
  "Display_text e =
     res_map (\<lambda>sFile. fe_sDescription e @ [CHR 0x0A] @ [CHR 0x0A] @ ''File: '' @ sFile @
         (if 0 \<le> fe_iLineNum e then '',  Line: '' @ decimal_int (fe_iLineNum e) else []) @
         [CHR 0x0A] @ [CHR 0x0A] @ ''Call stack: '' @ fe_sCallStack e)
       (LastDelimitedSubstr (fe_sFileName e) [CHR 0x5C])"

section \<open>Laws\<close>

text \<open>Numbers are printed so that they can be read back.\<close>

definition read_decimal :: "string \<Rightarrow> nat" where
  "read_decimal cs = foldl (\<lambda>a ch. 10 * a + (of_char ch - 48)) 0 cs"

lemma read_decimal_decimal [simp]: "read_decimal (decimal n) = n"
proof (induction n rule: decimal.induct)
  case (1 n)
  show ?case
  proof (cases "n < 10")
    case True
    then show ?thesis by (subst decimal.simps) (simp add: read_decimal_def)
  next
    case False
    then show ?thesis using 1 by (subst decimal.simps) (simp add: read_decimal_def)
  qed
qed

lemma decimal_inject [simp]: "decimal m = decimal n \<longleftrightarrow> m = n"
  by (metis read_decimal_decimal)

lemma controller_of_Inr [simp]: "controller_of c p = Inr ct \<longleftrightarrow> pr_controllers p c = Some ct"
  by (simp add: controller_of_def split: option.split)

lemma upd_controller_Inr:
  "upd_controller c f p = Inr p' \<longleftrightarrow>
   (\<exists>ct. pr_controllers p c = Some ct \<and> p' = p\<lparr>pr_controllers := (pr_controllers p)(c \<mapsto> f ct)\<rparr>)"
  by (auto simp: upd_controller_def res_bind_Inr_iff)

lemma NetSystem_delete_Inr:
  "NetSystem_delete A c p = Inr p' \<longleftrightarrow>
   (\<exists>ct s w. pr_controllers p c = Some ct \<and> pr_singleton p = Some s \<and> NetSystem_destroy A (c_world ct) = Inr w \<and>
     p' = p\<lparr>pr_enet := pr_enet p - 1, pr_singleton := None, pr_controllers := (pr_controllers p)(c := None)\<rparr>)"
  by (auto simp: NetSystem_delete_def DeletePeerSingleton_def res_bind_Inr_iff split: option.split)

text \<open>The box names the file without its path.\<close>

lemma Display_text_file:
  assumes "fe_sFileName e = path @ CHR 0x5C # file" "CHR 0x5C \<notin> set file" "length path + length file + 1 < 2 ^ 32"
    "0 \<le> fe_iLineNum e"
  shows "Display_text e = Inr (fe_sDescription e @ [CHR 0x0A, CHR 0x0A] @ ''File: '' @ file @ '',  Line: '' @
    decimal (nat (fe_iLineNum e)) @ [CHR 0x0A, CHR 0x0A] @ ''Call stack: '' @ fe_sCallStack e)"
  using assms last_delimited [of "file" "[CHR 0x5C]" "CHR 0x5C" "path"]
  by (simp add: Display_text_def decimal_int_def)

subsection \<open>One controller at a time\<close>

text \<open>
  What the application can do with controllers while \<open>enet_initialize\<close> succeeds: construct one, delete
  one, and change the members of one.
\<close>

definition process_start :: process where
  "process_start = \<lparr>pr_controllers = (\<lambda>_. None), pr_singleton = None, pr_enet = 0, pr_next = 0, pr_console = [], pr_junk_host = False\<rparr>"

inductive lives :: "app \<Rightarrow> process \<Rightarrow> bool" for A where
  lives_start: "lives A process_start"
| lives_server: "lives A p \<Longrightarrow> NetSystemServer_construct A True rate tot p = (p', r) \<Longrightarrow> lives A p'"
| lives_client: "lives A p \<Longrightarrow> NetSystemClient_construct A True host_ok rate tot p = (p', r) \<Longrightarrow> lives A p'"
| lives_delete: "lives A p \<Longrightarrow> NetSystem_delete A c p = Inr p' \<Longrightarrow> lives A p'"
| lives_change: "lives A p \<Longrightarrow> upd_controller c f p = Inr p' \<Longrightarrow> lives A p'"
| lives_print: "lives A p \<Longrightarrow> lives A (p\<lparr>pr_console := con, pr_junk_host := junk\<rparr>)"

definition one_controller :: "process \<Rightarrow> bool" where
  "one_controller p \<longleftrightarrow> dom (pr_controllers p) = set_option (pr_singleton p) \<and>
     (\<forall>c. pr_singleton p = Some c \<longrightarrow> c < pr_next p) \<and>
     pr_enet p = (if pr_singleton p = None then 0 else 1)"

lemma one_controllerD:
  "one_controller p \<Longrightarrow> pr_controllers p c = Some ct \<Longrightarrow> pr_singleton p = Some c"
  "one_controller p \<Longrightarrow> pr_singleton p = Some c \<Longrightarrow> \<exists>ct. pr_controllers p c = Some ct"
  by (auto simp: one_controller_def set_eq_iff elem_set)

lemma one_controller_delete:
  assumes "one_controller p" and "NetSystem_delete A c p = Inr p'"
  shows "p' = p\<lparr>pr_enet := 0, pr_singleton := None, pr_controllers := (\<lambda>_. None)\<rparr>" "one_controller p'"
proof -
  obtain ct where "pr_controllers p c = Some ct" using assms(2) by (auto simp: NetSystem_delete_Inr)
  then have s: "pr_singleton p = Some c" by (rule one_controllerD(1) [OF assms(1)])
  then have "pr_controllers p d = None" if "d \<noteq> c" for d
    using assms(1) that by (metis one_controllerD(1) option.exhaust option.inject)
  then have "(pr_controllers p)(c := None) = (\<lambda>_. None)" by auto
  then show "p' = p\<lparr>pr_enet := 0, pr_singleton := None, pr_controllers := (\<lambda>_. None)\<rparr>"
    using assms s by (auto simp: one_controller_def NetSystem_delete_Inr)
  then show "one_controller p'" by (simp add: one_controller_def)
qed

lemma one_controller_change:
  assumes "one_controller p" and "upd_controller c f p = Inr p'"
  shows "one_controller p'"
proof -
  obtain ct where ct: "pr_controllers p c = Some ct"
    and p': "p' = p\<lparr>pr_controllers := (pr_controllers p)(c \<mapsto> f ct)\<rparr>"
    using assms(2) by (auto simp: upd_controller_Inr)
  have "pr_singleton p = Some c" using ct by (rule one_controllerD(1) [OF assms(1)])
  then show ?thesis using assms(1) by (simp add: one_controller_def p')
qed

text \<open>A construction is from a process without a controller, the old one having been deleted.\<close>

lemma SetPeerSingleton_one:
  assumes "one_controller p" and "SetPeerSingleton A (Some c) p = Inr q"
  shows "q = p\<lparr>pr_enet := 0, pr_singleton := Some c, pr_controllers := (\<lambda>_. None)\<rparr>"
proof (cases "pr_singleton p")
  case None
  then have "pr_controllers p = (\<lambda>_. None)" "pr_enet p = 0" using assms(1) by (auto simp: one_controller_def)
  then show ?thesis using assms(2) None
    by (auto simp: SetPeerSingleton_def intro!: process.equality)
next
  case (Some d)
  then obtain p1 where p1: "NetSystem_delete A d p = Inr p1" "q = p1\<lparr>pr_singleton := Some c\<rparr>"
    using assms(2) by (auto simp: SetPeerSingleton_def res_bind_Inr_iff)
  then show ?thesis using one_controller_delete(1) [OF assms(1) p1(1)] by simp
qed

lemma one_controller_construct:
  assumes "one_controller p" and "NetSystem_construct A True rate tot p = (p', r)"
  shows "one_controller p'"
proof -
  let ?p0 = "p\<lparr>pr_next := pr_next p + 1\<rparr>"
  have p0: "one_controller ?p0" using assms(1) by (auto simp: one_controller_def less_Suc_eq)
  show ?thesis
  proof (cases "SetPeerSingleton A (Some (pr_next p)) ?p0")
    case (Inl e)
    then show ?thesis using assms(2) p0 by (simp add: NetSystem_construct_def Let_def)
  next
    case (Inr q)
    have "p' = q\<lparr>pr_enet := pr_enet q + 1, pr_controllers := (pr_controllers q)(pr_next p \<mapsto> controller_new (pr_junk_host q) rate tot)\<rparr>"
      using assms(2) Inr by (simp add: NetSystem_construct_def Let_def)
    then show ?thesis using SetPeerSingleton_one [OF p0 Inr] by (simp add: one_controller_def)
  qed
qed

lemma one_controller_server:
  assumes "one_controller p" and "NetSystemServer_construct A True rate tot p = (p', r)"
  shows "one_controller p'"
proof -
  obtain p1 r1 where c: "NetSystem_construct A True rate tot p = (p1, r1)" by (cases "NetSystem_construct A True rate tot p")
  have "one_controller p1" using one_controller_construct [OF assms(1) c] .
  then show ?thesis
    using assms(2) c by (auto simp: NetSystemServer_construct_def dest: one_controller_change split: sum.splits)
qed

lemma one_controller_client:
  assumes "one_controller p" and "NetSystemClient_construct A True host_ok rate tot p = (p', r)"
  shows "one_controller p'"
proof -
  obtain p1 r1 where c: "NetSystem_construct A True rate tot p = (p1, r1)" by (cases "NetSystem_construct A True rate tot p")
  have "one_controller p1" using one_controller_construct [OF assms(1) c] .
  then show ?thesis
    using assms(2) c by (auto simp: NetSystemClient_construct_def dest: one_controller_change one_controller_delete(2)
      split: sum.splits if_splits)
qed

lemma one_controller_lives: "lives A p \<Longrightarrow> one_controller p"
proof (induction rule: lives.induct)
  case lives_start
  show ?case by (simp add: one_controller_def process_start_def)
next
  case (lives_print p con)
  then show ?case by (simp add: one_controller_def)
qed (auto dest: one_controller_delete(2) one_controller_change one_controller_server one_controller_client)

text \<open>So no use of the global pointer follows a dangling pointer.\<close>

lemma singleton_defined:
  assumes "lives A p"
  shows "GetSingleton_as server p \<noteq> Inl Undefined" "Add_message format ty psFormat p \<noteq> Inl Undefined"
    "CNETTIK_Issue error file line p \<noteq> Inl Undefined"
proof -
  have "pr_singleton p = None \<or> (\<exists>c ct. pr_singleton p = Some c \<and> pr_controllers p c = Some ct)"
    using one_controllerD(2) [OF one_controller_lives [OF assms]] by (cases "pr_singleton p") auto
  then show "GetSingleton_as server p \<noteq> Inl Undefined" "Add_message format ty psFormat p \<noteq> Inl Undefined"
    "CNETTIK_Issue error file line p \<noteq> Inl Undefined"
    by (auto simp: GetSingleton_as_def Add_message_def CNETTIK_Issue_def GetSingleton_def
      upd_controller_def controller_of_def Let_def)
qed

text \<open>When ENet cannot be initialised the pointer dangles, and the next construction deletes through it.\<close>

lemma failed_initialisation:
  assumes "pr_singleton p = None" "\<forall>c\<ge>pr_next p. pr_controllers p c = None"
  obtains p1 where "NetSystem_construct A False rate tot p = (p1, Inl Nettik_Exception)"
    and "snd (NetSystem_construct A enet_ok rate' tot' p1) = Inl Undefined"
  using assms by (intro that [OF _]) (auto simp: NetSystem_construct_def SetPeerSingleton_def Let_def
    NetSystem_delete_def controller_of_def)

text \<open>The destructor stops no thread: the next round of the network thread reads the freed object.\<close>

lemma deleted_under_thread:
  "NetSystem_delete A c p = Inr p' \<Longrightarrow> Run A lock_ok c (r # rounds) p' = Inl Undefined"
  by (cases r) (auto simp: NetSystem_delete_Inr controller_of_def)

subsection \<open>The parts against the rest of the model\<close>

lemma on_sides:
  "on code h (w\<lparr>w_Server := b\<rparr>) = (on code h w)\<lparr>w_Server := b\<rparr>"
  "on code h (w\<lparr>w_Host := b\<rparr>) = (on code h w)\<lparr>w_Host := b\<rparr>"
  "w_Server (on code h w) = w_Server w"
  by (simp_all add: on_def Let_def)

lemma NetSystem_new_server: "(NetSystem_new h b tot)\<lparr>w_Server := b'\<rparr> = NetSystem_new h b' tot"
  by (simp add: NetSystem_new_def bind_controller_def flip: on_sides)

lemma NetSystem_construct_fresh:
  assumes "pr_singleton p = None"
  shows "NetSystem_construct A True rate tot p =
    (p\<lparr>pr_next := pr_next p + 1, pr_singleton := Some (pr_next p), pr_enet := pr_enet p + 1,
       pr_controllers := (pr_controllers p)(pr_next p \<mapsto> controller_new (pr_junk_host p) rate tot)\<rparr>, Inr (pr_next p))"
  using assms by (simp add: NetSystem_construct_def SetPeerSingleton_def Let_def)

lemma server_constructed:
  assumes "pr_singleton p = None"
  shows "\<exists>p' ct. NetSystemServer_construct A True rate tot p = (p', Inr (pr_next p)) \<and>
    pr_controllers p' (pr_next p) = Some ct \<and> c_world ct = NetSystemServer_new (pr_junk_host p) tot"
  by (simp add: NetSystemServer_construct_def NetSystem_construct_fresh [OF assms]
    upd_controller_def controller_of_def controller_new_def NetSystemServer_new_def NetSystem_new_server)

lemma client_constructed:
  assumes "pr_singleton p = None" "NetSystemClient_new True tot = Inr w"
  shows "\<exists>p' ct. NetSystemClient_construct A True True rate tot p = (p', Inr (pr_next p)) \<and>
    pr_controllers p' (pr_next p) = Some ct \<and> c_world ct = w"
proof -
  have "w = (NetSystem_new (pr_junk_host p) False tot)\<lparr>w_Server := False\<rparr>\<lparr>w_Host := True\<rparr>"
    using assms(2) by (auto simp: NetSystemClient_new_def NetSystem_new_server NetSystem_new_def bind_controller_def simp flip: on_sides)
  then show ?thesis
    by (simp add: NetSystemClient_construct_def NetSystem_construct_fresh [OF assms(1)]
      upd_controller_def controller_of_def controller_new_def)
qed

lemma disconnect_all_running [simp]: "w_Running (disconnect_all ps w) = w_Running w"
  by (induction ps arbitrary: w) (simp_all add: transport_def)

lemma Stop_flags: "w_Running w \<Longrightarrow> \<not> w_ShuttingDown (Stop w) \<and> \<not> w_Running (Stop w)"
  by (simp add: Stop_def Stop_on_def Let_def transport_def)

lemma Destroy_returns:
  assumes "w_Running (c_world ct) \<or> \<not> w_ShuttingDown (c_world ct)"
  shows "fst (Destroy ct)" "\<not> IsRunning (snd (Destroy ct))"
  using assms Stop_flags [of "c_world ct"]
  by (auto simp: Destroy_def Let_def IsRunning_def Stop_def Stop_on_def split: if_splits)

lemma Run_stopped:
  assumes "pr_controllers p c = Some ct" "\<not> IsRunning ct"
  shows "Run A lock_ok c (r # rounds) p = Inr (Returned, p)"
  using assms by (cases r) (simp add: controller_of_def)

end
