(* ===== verification/Announcements.thy ===== *)
theory Announcements
  imports Creation Session
begin

text \<open>
  What the packets of a server tell a client about the objects of a manager: a frame announces a
  creation, a deletion or an update. A client handles every packet of announcements, and the set of
  identifiers it knows changes as they say.
\<close>

section \<open>Announcements\<close>

text \<open>What a frame of the server tells about the objects of one manager.\<close>

datatype announcement = Created u32 | Deleted u32 | Updated u32 netvar bool

definition frame_of :: "bytes \<Rightarrow> bytes \<Rightarrow> announcement \<Rightarrow> bytes" where
  "frame_of i m a =
     (case a of
        Created nid \<Rightarrow> frame_image kFRAME_Alloc nid NET_CONTROLLER_NONE 0 0 m (name_data i)
      | Deleted nid \<Rightarrow> frame_image kFRAME_Dealloc nid NET_CONTROLLER_NONE 0 0 m (name_data i)
      | Updated nid v forced \<Rightarrow> var_frame nid v forced)"

definition entry_of :: "bytes \<Rightarrow> bytes \<Rightarrow> announcement \<Rightarrow> entry" where
  "entry_of i m a =
     (case a of
        Created nid \<Rightarrow> frame_entry kFRAME_Alloc nid NET_CONTROLLER_NONE 0 0 m (name_data i)
      | Deleted nid \<Rightarrow> frame_entry kFRAME_Dealloc nid NET_CONTROLLER_NONE 0 0 m (name_data i)
      | Updated nid v forced \<Rightarrow> var_entry nid v forced)"

definition announcement_ok :: "announcement \<Rightarrow> bool" where
  "announcement_ok a = (case a of Updated nid v forced \<Rightarrow> nv_ok v | _ \<Rightarrow> True)"

text \<open>The meaning of an announcement for the set of known identifiers.\<close>

definition announced :: "announcement \<Rightarrow> u32 set \<Rightarrow> u32 set" where
  "announced a S = (case a of Created nid \<Rightarrow> insert nid S | Deleted nid \<Rightarrow> S - {nid} | Updated nid v forced \<Rightarrow> S)"

definition all_announced :: "announcement list \<Rightarrow> u32 set \<Rightarrow> u32 set" where
  "all_announced as S = fold announced as S"

lemma all_announced_simps [simp]:
  "all_announced [] S = S"
  "all_announced (a # as) S = all_announced as (announced a S)"
  "all_announced (as @ bs) S = all_announced bs (all_announced as S)"
  by (simp_all add: all_announced_def)

definition updates_only :: "announcement list \<Rightarrow> bool" where
  "updates_only as \<longleftrightarrow> (\<forall>a \<in> set as. \<exists>nid v forced. a = Updated nid v forced)"

lemma updates_only_announced: "updates_only as \<Longrightarrow> all_announced as S = S"
  by (induction as) (auto simp: updates_only_def announced_def)

text \<open>A packet that carries announcements.\<close>

definition carries :: "bytes \<Rightarrow> bytes \<Rightarrow> announcement list \<Rightarrow> bytes \<Rightarrow> bool" where
  "carries i m as p \<longleftrightarrow> list_all announcement_ok as \<and> length as < 2 ^ 16 \<and>
     (\<exists>sq mx. p = snapshot_packet sq mx (map (frame_of i m) as) \<and> 146 \<le> unat mx \<and> unat mx \<le> 209 \<and>
        (\<forall>a \<in> set as. length (frame_of i m a) \<le> unat mx))"

lemma frame_of_length:
  assumes "names_fit i m" and "announcement_ok a"
  shows "146 \<le> length (frame_of i m a)" "length (frame_of i m a) \<le> 209"
  using assms by (auto simp: frame_of_def announcement_ok_def names_fit_def wire_simps name_data_def
    var_frame_length nv_ok_def split: announcement.splits)

lemma frame_of_decodes:
  assumes "names_fit i m" and "announcement_ok a" and "146 \<le> unat mx" and "unat mx \<le> 209"
  shows "decodes junk mx (pad_buffer mx (frame_of i m a)) (entry_of i m a)"
proof (cases a)
  case (Updated nid v forced)
  then have "nv_ok v" using assms(2) by (simp add: announcement_ok_def)
  then show ?thesis using assms(3,4) unfolding Updated frame_of_def entry_of_def var_frame_def var_entry_def announcement.case
    by (intro frame_decodes) (simp_all add: padded_data_length nv_ok_def)
qed (use assms in \<open>auto simp: frame_of_def entry_of_def names_fit_def name_data_def intro!: frame_decodes\<close>)

lemma receive_carried:
  assumes "names_fit i m" and "carries i m as p"
  shows "HandleEntSnapshot A p w = apply_frames (client_frame A) (map (entry_of i m) as) w"
proof -
  obtain sq mx where p: "p = snapshot_packet sq mx (map (frame_of i m) as)" and mx: "146 \<le> unat mx" "unat mx \<le> 209"
    and len: "\<forall>a \<in> set as. length (frame_of i m a) \<le> unat mx" and ok: "list_all announcement_ok as" "length as < 2 ^ 16"
    using assms(2) by (auto simp: carries_def)
  have "list_all2 (decodes (ap_junk A) mx) (map (pad_buffer mx) (map (frame_of i m) as)) (map (entry_of i m) as)"
    using ok(1) frame_of_decodes [OF assms(1) _ mx]
    by (simp add: list_all2_map1 list_all2_map2 list_all_iff list_all2_same)
  from receive_packet(1) [OF _ _ _ this] show ?thesis using p mx len ok(2) by simp
qed

section \<open>A client that handles announcements\<close>

definition known :: "bytes \<Rightarrow> bytes \<Rightarrow> world \<Rightarrow> u32 set" where
  "known i m w = {nid. \<exists>r. object_lookup i m w nid = Inr (Some r)}"

text \<open>A client that controls no object, as every client does that only heard of creations by \<open>Build\<close>.\<close>

definition client_fit :: "bytes \<Rightarrow> bytes \<Rightarrow> world \<Rightarrow> bool" where
  "client_fit i m w \<longleftrightarrow> client_store i m w \<and> world_ok w \<and> w_Controlled w = []"

subsection \<open>Steps inside the objects\<close>

text \<open>
  A step that changes what objects contain, their variables and their lists, and sends to single peers
  only. Everything that travels to all clients, and everything that says which objects there are, is as
  before.
\<close>

fun personal :: "transport_call \<Rightarrow> bool" where
  "personal (Peer_Send p data flags channel) = True"
| "personal c = False"

definition inner :: "world \<Rightarrow> world \<Rightarrow> bool" where
  "inner w w' \<longleftrightarrow> control_part w' = control_part w \<and>
     (\<exists>cs. w_Out w' = w_Out w @ cs \<and> list_all personal cs) \<and>
     (\<forall>r. case w_heap w r of None \<Rightarrow> w_heap w' r = None
        | Some ob \<Rightarrow> \<exists>ob'. w_heap w' r = Some ob' \<and> identity_part ob' = identity_part ob \<and>
            (object_ok ob \<longrightarrow> object_ok ob'))"

lemma inner_refl [simp]: "inner w w"
  by (auto simp: inner_def split: option.split intro: exI [of _ "[]"])

lemma inner_trans [trans]:
  assumes "inner w v" "inner v u"
  shows "inner w u"
proof -
  have "case w_heap w r of None \<Rightarrow> w_heap u r = None
      | Some ob \<Rightarrow> \<exists>ob'. w_heap u r = Some ob' \<and> identity_part ob' = identity_part ob \<and> (object_ok ob \<longrightarrow> object_ok ob')" for r
    using assms [unfolded inner_def, THEN conjunct2, THEN conjunct2, rule_format, of r] by (auto split: option.splits)
  moreover obtain cs ds where "w_Out v = w_Out w @ cs" "list_all personal cs" "w_Out u = w_Out v @ ds" "list_all personal ds"
    using assms by (auto simp: inner_def)
  then have "w_Out u = w_Out w @ (cs @ ds)" "list_all personal (cs @ ds)" by simp_all
  ultimately show ?thesis using assms unfolding inner_def by (intro conjI) (auto simp del: append_assoc)
qed

lemma inner_heap:
  assumes "inner w w'"
  shows "w_heap w' r = None \<longleftrightarrow> w_heap w r = None"
    and "w_heap w' r = Some ob' \<Longrightarrow> \<exists>ob. w_heap w r = Some ob \<and> identity_part ob' = identity_part ob \<and> (object_ok ob \<longrightarrow> object_ok ob')"
  using assms [unfolded inner_def, THEN conjunct2, THEN conjunct2, rule_format, of r] by (auto split: option.splits)

lemma identity_manager: "identity_part ob' = identity_part ob \<Longrightarrow> no_Manager ob' = no_Manager ob"
  unfolding identity_part_def by (drule arg_cong [of _ _ no_Manager]) simp

lemma inner_fields:
  assumes "inner w w'"
  shows "w_Instances w' = w_Instances w" "w_Running w' = w_Running w" "w_Server w' = w_Server w"
    "w_NextRef w' = w_NextRef w" "w_TotalEntities w' = w_TotalEntities w" "w_Controlled w' = w_Controlled w"
    "w_extern w' = w_extern w" "find_manager w' i m = find_manager w i m" "get_instance w' i = get_instance w i"
    "use_count w' = use_count w"
proof -
  have c: "control_part w' = control_part w" using assms by (simp add: inner_def)
  from control_fields(1,2) [OF c] show i: "w_Instances w' = w_Instances w" "w_Running w' = w_Running w" .
  have "w_Server (control_part w') = w_Server (control_part w)" "w_NextRef (control_part w') = w_NextRef (control_part w)"
    "w_TotalEntities (control_part w') = w_TotalEntities (control_part w)"
    "w_Controlled (control_part w') = w_Controlled (control_part w)" "w_extern (control_part w') = w_extern (control_part w)"
    using c by simp_all
  then show "w_Server w' = w_Server w" "w_NextRef w' = w_NextRef w" "w_TotalEntities w' = w_TotalEntities w"
    "w_Controlled w' = w_Controlled w" "w_extern w' = w_extern w" by (simp_all add: control_part_def)
  then show "find_manager w' i m = find_manager w i m" "get_instance w' i = get_instance w i" "use_count w' = use_count w"
    by (simp_all add: find_manager_def get_instance_def use_count_def fun_eq_iff i)
qed

lemma inner_netid:
  assumes "inner w w'"
  shows "netid_of w' = netid_of w"
proof
  fix r
  show "netid_of w' r = netid_of w r"
    using inner_heap [OF assms, of r] by (cases "w_heap w' r") (auto simp: netid_of_def dest: identity_fields(2))
qed

lemma world_okI:
  assumes "\<And>r ob. w_heap w r = Some ob \<Longrightarrow> object_ok ob"
    and "\<And>j vi k mg. (j, vi) \<in> set (w_Instances w) \<Longrightarrow> (k, mg) \<in> set (vi_EntManagers vi) \<Longrightarrow> live w (mg_Objects mg)"
  shows "world_ok w"
  using assms by (auto simp: world_ok_def)

lemma world_okD:
  assumes "world_ok w"
  shows "w_heap w r = Some ob \<Longrightarrow> object_ok ob"
    and "(j, vi) \<in> set (w_Instances w) \<Longrightarrow> (k, mg) \<in> set (vi_EntManagers vi) \<Longrightarrow> live w (mg_Objects mg)"
  using assms by (auto simp: world_ok_def)

lemma inner_world_ok:
  assumes "inner w w'" and "world_ok w"
  shows "world_ok w'"
proof -
  have "live w' = live w" by (rule ext) (simp only: live_def inner_heap(1) [OF assms(1)])
  moreover have "object_ok ob'" if "w_heap w' r = Some ob'" for r ob'
    using inner_heap(2) [OF assms(1) that] world_okD(1) [OF assms(2)] by blast
  ultimately show ?thesis
    using world_okD(2) [OF assms(2)] inner_fields(1) [OF assms(1)] by (intro world_okI) simp_all
qed

lemma inner_session_ok: "inner w w' \<Longrightarrow> session_ok w \<Longrightarrow> session_ok w'"
  unfolding session_ok_def using inner_world_ok inner_fields(1) by metis

lemma kept_inner:
  assumes "kept P w w'" and "w_Out w' = w_Out w @ cs" and "list_all personal cs"
  shows "inner w w'"
proof -
  have "case w_heap w r of None \<Rightarrow> w_heap w' r = None
      | Some ob \<Rightarrow> \<exists>ob'. w_heap w' r = Some ob' \<and> identity_part ob' = identity_part ob \<and> (object_ok ob \<longrightarrow> object_ok ob')" for r
    using assms(1) [unfolded kept_def, THEN conjunct2, rule_format, of r] same_object_ok
    by (auto simp: kept_object_def same_object_def split: option.splits)
  then show ?thesis using assms unfolding inner_def kept_def by blast
qed

text \<open>The client's side of it.\<close>

lemma inner_client:
  assumes "inner w w'" and "client_fit i m w"
  shows "client_fit i m w' \<and> known i m w' = known i m w"
proof -
  note f = inner_fields [OF assms(1)]
  have codes: "map_option no_NetCode (w_heap w' r) = map_option no_NetCode (w_heap w r)" for r
    using inner_heap [OF assms(1), of r] by (cases "w_heap w' r") (auto dest: identity_fields(2))
  have "object_in i m w' r = object_in i m w r" for r
    using inner_heap [OF assms(1), of r] f(4)
    by (cases "w_heap w' r") (auto simp: object_in_def dest: identity_manager identity_fields(3))
  then have at: "netid_of w' = netid_of w" "object_in i m w' = object_in i m w"
    using inner_netid [OF assms(1)] by (simp_all add: fun_eq_iff)
  have "lists_ok i m w' rs ls = lists_ok i m w rs ls" for rs ls by (simp add: lists_ok_def at)
  then have "client_store i m w' = client_store i m w" by (simp add: client_store_def f split: option.splits)
  moreover have "object_lookup i m w' = object_lookup i m w"
    by (auto simp: fun_eq_iff object_lookup_def f GetByNetID_def find_netid_code [OF codes] split: option.splits)
  ultimately show ?thesis
    using assms(2) inner_world_ok [OF assms(1)] f(6) by (simp add: client_fit_def known_def)
qed

text \<open>
  An application whose constructors build sound variables and whose callbacks work inside the objects:
  they write variables and lists, also of other objects, and send to single peers.
\<close>

definition tame_app :: "app \<Rightarrow> bool" where
  "tame_app A \<longleftrightarrow> (\<forall>n. object_ok (ap_construct A n)) \<and> (\<forall>n r w. inner w (ap_create A n r w)) \<and>
     (\<forall>r w. inner w (ap_initialize A r w)) \<and> (\<forall>n t w. inner w (ap_delete A n t w)) \<and>
     (\<forall>r b c w. inner w (ap_network_update A r b c w)) \<and> (\<forall>w. inner w (ap_post_update A w))"

definition without_callbacks :: "app \<Rightarrow> app" where
  "without_callbacks A = A\<lparr>ap_create := (\<lambda>_ _ w. w), ap_initialize := (\<lambda>_ w. w)\<rparr>"

lemma quiet_without_callbacks: "quiet (without_callbacks A)"
  by (simp add: quiet_def without_callbacks_def)

lemma insert_without_callbacks: "insert_object (without_callbacks A) i m nid c w = insert_object A i m nid c w"
  by (simp add: insert_object_def without_callbacks_def split: option.split)

text \<open>The callbacks of a creation run after the object is in place.\<close>

lemma EntAllocate_callbacks:
  assumes A: "tame_app A" and e: "get_controller e \<noteq> NET_CONTROLLER_LOCAL"
    and v: "EntAllocate (without_callbacks A) e w = Inr v"
  shows "\<exists>w'. EntAllocate A e w = Inr w' \<and> inner v w'"
proof (cases "EntAllocate A e w = Inr v")
  case False
  from v obtain i m mg known where
    f: "frame_manager e w = Inr (i, m, mg)" "GetByNetID w mg (get_netid e) = Inr known"
    by (auto simp: EntAllocate_def Let_def res_bind_Inr_iff)
  have "known = None" using False v f by (cases known) (auto simp: EntAllocate_def)
  with v e f obtain r where "BuildLocal (without_callbacks A) i m (get_netid e) (get_controller e) w = Inr (r, v)"
    by (auto simp: EntAllocate_def res_bind_Inr_iff)
  then obtain mg' where b: "insert_object A i m (get_netid e) (get_controller e) w = Inr (r, v)" "find_manager v i m = Some mg'"
    by (auto simp: BuildLocal_def res_bind_Inr_iff insert_without_callbacks)
      (auto simp: without_callbacks_def split: option.splits)
  define u where "u = (case mg_cbCreate mg' of None \<Rightarrow> v | Some n \<Rightarrow> ap_create A n r v)"
  have "inner v u" "inner u (ap_initialize A r u)" using A by (auto simp: tame_app_def u_def split: option.split)
  moreover have "EntAllocate A e w = Inr (ap_initialize A r u)"
    using e f \<open>known = None\<close> b by (simp add: EntAllocate_def BuildLocal_def u_def)
  ultimately show ?thesis using inner_trans by blast
qed auto

subsection \<open>Updates\<close>

text \<open>An update changes the variables of objects and nothing else.\<close>

definition same_but_vars :: "world \<Rightarrow> world \<Rightarrow> bool" where
  "same_but_vars w w' \<longleftrightarrow> w' = w\<lparr>w_heap := w_heap w'\<rparr> \<and>
     (\<forall>r. case w_heap w r of None \<Rightarrow> w_heap w' r = None | Some ob \<Rightarrow> \<exists>vs. w_heap w' r = Some (ob\<lparr>no_Vars := vs\<rparr>))"

lemma some_vars [simp]: "\<exists>vs. ob = ob\<lparr>no_Vars := vs\<rparr>"
  by (rule exI [of _ "no_Vars ob"]) simp

lemma same_but_vars_refl [simp]: "same_but_vars w w"
  by (simp add: same_but_vars_def split: option.split)

lemma same_but_vars_store:
  assumes "same_but_vars w w'"
  shows "client_store i m w' = client_store i m w" "object_lookup i m w' = object_lookup i m w"
    "w_Controlled w' = w_Controlled w"
proof -
  have w': "w' = w\<lparr>w_heap := w_heap w'\<rparr>" using assms by (simp add: same_but_vars_def)
  have heap: "case w_heap w r of None \<Rightarrow> w_heap w' r = None | Some ob \<Rightarrow> \<exists>vs. w_heap w' r = Some (ob\<lparr>no_Vars := vs\<rparr>)" for r
    using assms by (simp add: same_but_vars_def)
  have codes: "map_option no_NetCode (w_heap w' r) = map_option no_NetCode (w_heap w r)" for r
    using heap [of r] by (auto split: option.splits)
  have fields: "find_manager w' i m = find_manager w i m" "w_Server w' = w_Server w" "w_NextRef w' = w_NextRef w"
    "w_Controlled w' = w_Controlled w" by (subst w', simp add: find_manager_def get_instance_def)+
  have "netid_of w' r = netid_of w r \<and> object_in i m w' r = object_in i m w r" for r
    using heap [of r] fields(3) by (auto simp: netid_of_def object_in_def split: option.splits)
  then have at: "netid_of w' = netid_of w" "object_in i m w' = object_in i m w" by (simp_all add: fun_eq_iff)
  have "lists_ok i m w' rs ls = lists_ok i m w rs ls" for rs ls
    by (simp add: lists_ok_def at)
  then show "client_store i m w' = client_store i m w"
    by (simp add: client_store_def fields split: option.splits)
  show "object_lookup i m w' = object_lookup i m w"
    by (auto simp: fun_eq_iff object_lookup_def fields GetByNetID_def find_netid_code [OF codes] split: option.splits)
  show "w_Controlled w' = w_Controlled w" by (rule fields(4))
qed

lemma ReadEntityUpdate_same:
  assumes "ReadEntityUpdate frame owner w = Inr w'"
  shows "same_but_vars w w'"
proof (cases "w' = w")
  case False
  with assms obtain r f where "w' = upd_object r (\<lambda>ob. ob\<lparr>no_Vars := f ob\<rparr>) w"
    by (auto simp: ReadEntityUpdate_def Let_def res_bind_Inr_iff split: option.splits if_splits)
  then show ?thesis by (auto simp: same_but_vars_def upd_object_def split: option.splits)
qed simp

lemma var_entry_read: "nv_ok v \<Longrightarrow> frame_read (var_entry nid v forced)"
  using frame_decodes [of "padded_data v" "nv_Name v" 209] read_data_frame [OF entry_new_ok]
  by (fastforce simp: decodes_def var_entry_def padded_data_length nv_ok_def)

lemma client_updated:
  assumes "client_fit i m w" and "nv_ok v"
  shows "\<exists>w'. client_frame A (var_entry nid v forced) w = Inr w' \<and> client_fit i m w' \<and> known i m w' = known i m w"
proof -
  have ft: "get_frametype (var_entry nid v forced) = kFRAME_Data"
    using assms(2) by (simp add: var_entry_def frame_entry_members padded_data_length nv_ok_def)
  obtain w' where w': "ReadEntityUpdate (var_entry nid v forced) None w = Inr w'" "world_ok w'"
    using ReadEntityUpdate_total [OF _ var_entry_read [OF assms(2)], of w _ _ None] assms(1) by (auto simp: client_fit_def)
  then show ?thesis
    using assms(1) ft same_but_vars_store [OF ReadEntityUpdate_same [OF w'(1)]]
    by (auto simp: client_frame_def client_fit_def known_def)
qed

subsection \<open>What keeps a state sound\<close>

lemma amap_all:
  "\<forall>(_, v) \<in> set xs. P v \<Longrightarrow> (\<And>v. P v \<Longrightarrow> P (f v)) \<Longrightarrow> \<forall>(_, v) \<in> set (amap k f xs). P v"
  by (auto simp: amap_def)

lemma all_managers_upd:
  assumes "\<forall>(_, vi) \<in> set (w_Instances w). \<forall>(_, mg) \<in> set (vi_EntManagers vi). P mg"
    and "\<And>mg. P mg \<Longrightarrow> P (f mg)"
  shows "\<forall>(_, vi) \<in> set (w_Instances (upd_manager i m f w)). \<forall>(_, mg) \<in> set (vi_EntManagers vi). P mg"
  unfolding upd_manager_def upd_instance_def
  by (simp, rule amap_all, rule assms(1), simp, rule amap_all, assumption, rule assms(2))

lemma world_ok_upd_manager:
  assumes "world_ok w" and "\<And>mg. live w (mg_Objects mg) \<Longrightarrow> live w (mg_Objects (f mg))"
  shows "world_ok (upd_manager i m f w)"
proof -
  have "live (upd_manager i m f w) = live w" by (simp add: fun_eq_iff live_def frame_simps)
  then show ?thesis
    using all_managers_upd [of w "\<lambda>mg. live w (mg_Objects mg)" f i m] assms
    by (simp add: world_ok_def frame_simps)
qed

text \<open>A reference nothing counts is in no list.\<close>

lemma use_count_zero:
  assumes "use_count w r = 0" and "(i, vi) \<in> set (w_Instances w)" and "(m, mg) \<in> set (vi_EntManagers vi)"
  shows "r \<notin> set (mg_Objects mg)" "r \<notin> set (mg_Local mg)"
proof -
  have "instance_refs r vi = 0" using assms(1,2) by (auto simp: use_count_def)
  then have "manager_refs r mg = 0" using assms(3) by (auto simp: instance_refs_def)
  then show "r \<notin> set (mg_Objects mg)" "r \<notin> set (mg_Local mg)" by (simp_all add: manager_refs_def count_list_0_iff)
qed

lemma world_ok_remove:
  assumes w: "world_ok w" and "use_count w r = 0"
  shows "world_ok (w\<lparr>w_heap := (w_heap w)(r := None)\<rparr>)" (is "world_ok ?w")
proof (rule world_okI)
  show "object_ok ob" if "w_heap ?w q = Some ob" for q ob
    using that world_okD(1) [OF w] by (simp split: if_splits)
  show "live ?w (mg_Objects mg)" if "(j, vi) \<in> set (w_Instances ?w)" "(k, mg) \<in> set (vi_EntManagers vi)" for j vi k mg
    using that world_okD(2) [OF w, of j vi k mg] use_count_zero(1) [OF assms(2), of j vi k mg] by (auto simp: live_def)
qed

lemma world_ok_fields [simp]:
  "world_ok (w\<lparr>w_Controlled := c\<rparr>) = world_ok w" "world_ok (w\<lparr>w_extern := x\<rparr>) = world_ok w"
  "world_ok (w\<lparr>w_Out := cs\<rparr>) = world_ok w" "world_ok (w\<lparr>w_TotalEntities := n\<rparr>) = world_ok w"
  "world_ok (hold r w) = world_ok w" "world_ok (unhold r w) = world_ok w"
  by (simp_all add: world_ok_def live_def hold_def unhold_def)

lemma world_ok_new:
  assumes w: "world_ok w" and "object_ok ob"
  shows "world_ok (w\<lparr>w_heap := (w_heap w)(r \<mapsto> ob), w_NextRef := n\<rparr>)" (is "world_ok ?w")
proof (rule world_okI)
  show "object_ok ob'" if "w_heap ?w q = Some ob'" for q ob'
    using that assms(2) world_okD(1) [OF w] by (simp split: if_splits)
  show "live ?w (mg_Objects mg)" if "(j, vi) \<in> set (w_Instances ?w)" "(k, mg) \<in> set (vi_EntManagers vi)" for j vi k mg
    using that world_okD(2) [OF w, of j vi k mg] by (auto simp: live_def)
qed

subsection \<open>Creation and deletion\<close>

lemma EntAllocate_sound:
  assumes "EntAllocate A e w = Inr w'" and "quiet A" and "\<And>n. object_ok (ap_construct A n)"
    and "get_controller e \<noteq> NET_CONTROLLER_LOCAL" and "world_ok w"
  shows "world_ok w' \<and> w_Controlled w' = w_Controlled w"
proof (cases "w' = w")
  case False
  from assms False obtain i m nid r where b: "BuildLocal A i m nid (get_controller e) w = Inr (r, w')"
    by (auto simp: EntAllocate_def Let_def res_bind_Inr_iff split: option.splits)
  then obtain v where ins: "insert_object A i m nid (get_controller e) w = Inr (r, v)" and w': "w' = v"
    using assms(2) by (auto simp: BuildLocal_def res_bind_Inr_iff quiet_def Let_def split: option.splits)
  then obtain mg where mg: "find_manager w i m = Some mg" by (auto simp: insert_object_def split: option.splits)
  define ob where "ob = SetIsReplicated True (SetController (get_controller e)
    ((SetNetID nid (ap_construct A (mg_Type mg)))\<lparr>no_Instance := Some i, no_Manager := Some (i, m)\<rparr>))"
  have "object_ok ob"
    using assms(3) by (simp add: ob_def object_ok_def SetIsReplicated_def SetController_def SetNetID_def)
  define w1 where "w1 = w\<lparr>w_heap := (w_heap w)(w_NextRef w := Some ob), w_NextRef := w_NextRef w + 1\<rparr>"
  have w1: "world_ok w1" "w_heap w1 (w_NextRef w) \<noteq> None" "w_Controlled w1 = w_Controlled w"
    using world_ok_new [OF assms(5) \<open>object_ok ob\<close>] by (simp_all add: w1_def)
  have "\<not> IsNetworkLocal ob" using assms(4) by (simp add: ob_def IsNetworkLocal_def SetIsReplicated_def SetController_def)
  then have "v = upd_manager i m (\<lambda>mg. mg\<lparr>mg_Objects := mg_Objects mg @ [w_NextRef w]\<rparr>) w1"
    using ins mg by (auto simp: insert_object_def Let_def ob_def [symmetric] w1_def)
  then show ?thesis
    using w1 by (auto simp: w' frame_simps live_def intro!: world_ok_upd_manager)
qed (use assms in simp)

lemma release_on_client:
  assumes "release A r w = Inr w'" and "\<not> w_Server w"
  shows "w' = w \<or> use_count w r = 0 \<and> w' = w\<lparr>w_heap := (w_heap w)(r := None)\<rparr>"
  using assms by (auto simp: release_def destroy_object_def DestroyNetworkedEntity_def FreeEntity_def res_bind_Inr_iff
    split: if_splits option.splits)

lemma release_sound:
  assumes "release A r w = Inr w'" and "\<not> w_Server w" and "world_ok w"
  shows "world_ok w' \<and> w_Controlled w' = w_Controlled w \<and> \<not> w_Server w'"
  using release_on_client [OF assms(1,2)] assms(2,3) by (auto simp: world_ok_remove)

lemma FreeListEnt_sound:
  assumes "FreeListEnt A i m rd wr nid w = Inr w'" and "\<not> w_Server w" and "world_ok w"
    and "\<And>rs mg. mg_Objects (wr (remove1 rs (rd mg)) mg) = mg_Objects mg \<or>
      mg_Objects (wr (remove1 rs (rd mg)) mg) = remove1 rs (mg_Objects mg)"
  shows "world_ok w' \<and> w_Controlled w' = w_Controlled w \<and> \<not> w_Server w'"
proof (cases "w' = w")
  case False
  with assms(1) obtain r where r: "release A r (upd_manager i m (\<lambda>mg. wr (remove1 r (rd mg)) mg) w) = Inr w'"
    by (auto simp: FreeListEnt_def res_bind_Inr_iff split: option.splits)
  have "live w (mg_Objects (wr (remove1 r (rd mg)) mg))" if "live w (mg_Objects mg)" for mg
    using that assms(4) [of r mg] set_remove1_subset [of r "mg_Objects mg"] by (auto simp: live_def)
  then have "world_ok (upd_manager i m (\<lambda>mg. wr (remove1 r (rd mg)) mg) w)"
    by (rule world_ok_upd_manager [OF assms(3)])
  then show ?thesis using release_sound [OF r] assms(2) by (simp add: frame_simps)
qed (use assms in simp)

lemma FreeLocal_sound:
  assumes "FreeLocal A i m nid w = Inr w'" and "\<not> w_Server w" and "world_ok w"
  shows "world_ok w' \<and> w_Controlled w' = w_Controlled w \<and> \<not> w_Server w'"
proof -
  obtain w1 where 1: "FreeListEnt A i m mg_Objects (\<lambda>rs mg. mg\<lparr>mg_Objects := rs\<rparr>) nid w = Inr w1"
    and 2: "FreeListEnt A i m mg_Local (\<lambda>rs mg. mg\<lparr>mg_Local := rs\<rparr>) nid w1 = Inr w'"
    using assms(1) by (auto simp: FreeLocal_def res_bind_Inr_iff)
  have "world_ok w1 \<and> w_Controlled w1 = w_Controlled w \<and> \<not> w_Server w1"
    by (rule FreeListEnt_sound [OF 1 assms(2,3)]) simp
  then show ?thesis using FreeListEnt_sound [OF 2] by simp
qed

lemma EntDeallocate_sound:
  assumes "EntDeallocate A e w = Inr w'" and "\<not> w_Server w" and "world_ok w" and "w_Controlled w = []"
  shows "world_ok w' \<and> w_Controlled w' = []"
proof (cases "w' = w")
  case False
  with assms obtain i m r w4 where f: "FreeLocal A i m (get_netid e) (hold r w) = Inr w4" and l: "release A r (unhold r w4) = Inr w'"
    by (auto simp: EntDeallocate_def Let_def res_bind_Inr_iff hold_def split: option.splits)
  have "world_ok w4 \<and> w_Controlled w4 = [] \<and> \<not> w_Server w4"
    using FreeLocal_sound [OF f] assms(2-4) by (simp add: hold_def world_ok_fields(5) [unfolded hold_def])
  then show ?thesis using release_sound [OF l] by (simp add: unhold_def world_ok_fields(6) [unfolded unhold_def])
qed (use assms in simp)

lemma known_lookup:
  assumes "client_store i m w"
  shows "nid \<in> known i m w \<longleftrightarrow> object_lookup i m w nid \<noteq> Inr None"
proof -
  obtain x where "object_lookup i m w nid = Inr x" using entities.look_total [OF assms] by blast
  then show ?thesis by (cases x) (simp_all add: known_def)
qed

lemma manager_entry:
  assumes "names_fit i m" and "client_store i m w" and "ft \<in> {kFRAME_Alloc, kFRAME_Dealloc}"
  obtains mg where "frame_manager (frame_entry ft nid NET_CONTROLLER_NONE 0 0 m (name_data i)) w = Inr (i, m, mg)"
  using manager_frame_received(4) [OF assms(1)] client_storeE [OF assms(2)] by metis

lemma client_created:
  assumes fit: "names_fit i m" and A: "tame_app A" and w: "client_fit i m w"
  shows "\<exists>w'. client_frame A (entry_of i m (Created nid)) w = Inr w' \<and> client_fit i m w' \<and>
    known i m w' = insert nid (known i m w)"
proof -
  let ?e = "entry_of i m (Created nid)"
  have cs: "client_store i m w" and ok: "world_ok w" and ctl: "w_Controlled w = []"
    using w by (simp_all add: client_fit_def)
  have e: "?e = frame_entry kFRAME_Alloc nid NET_CONTROLLER_NONE 0 0 m (name_data i)" by (simp add: entry_of_def)
  have mem: "get_frametype ?e = kFRAME_Alloc" "get_netid ?e = nid" "get_controller ?e = NET_CONTROLLER_NONE"
    unfolding e by (rule manager_frame_received [OF fit])+
  obtain mg where fm: "frame_manager ?e w = Inr (i, m, mg)"
    using manager_entry [OF fit cs] unfolding e by blast
  have step: "client_frame A ?e w = EntAllocate A ?e w"
    by (simp add: client_frame_def mem kFRAME_Alloc_def kFRAME_Data_def)
  show ?thesis
  proof (cases "nid \<in> known i m w")
    case True
    then obtain r where "GetByNetID w mg nid = Inr (Some r)"
      using fm by (auto simp: known_def object_lookup_def frame_manager_Inr)
    then have "EntAllocate A ?e w = Inr w" by (simp add: EntAllocate_def fm mem)
    then show ?thesis using step w True by (simp add: insert_absorb)
  next
    case False
    then have "object_lookup i m w (get_netid ?e) = Inr None" by (simp add: known_lookup [OF cs] mem)
    from EntAllocate_new [OF quiet_without_callbacks [of A] fm cs this] ctl obtain v r where
      v: "EntAllocate (without_callbacks A) ?e w = Inr v" "client_store i m v"
      and look: "object_lookup i m v nid = Inr (Some r)"
        "\<forall>x. x \<noteq> nid \<longrightarrow> object_lookup i m v x = object_lookup i m w x"
      by (auto simp: mem)
    have c: "get_controller ?e \<noteq> NET_CONTROLLER_LOCAL" by (simp add: mem NET_CONTROLLER_NONE_def NET_CONTROLLER_LOCAL_def)
    have "object_ok (ap_construct (without_callbacks A) n)" for n using A by (simp add: tame_app_def without_callbacks_def)
    from EntAllocate_sound [OF v(1) quiet_without_callbacks this c ok] have "client_fit i m v"
      using v(2) ctl by (simp add: client_fit_def)
    moreover have "known i m v = insert nid (known i m w)"
      using look by (auto simp: known_def)
    moreover obtain w' where "EntAllocate A ?e w = Inr w'" "inner v w'"
      using EntAllocate_callbacks [OF A c v(1)] by blast
    ultimately show ?thesis using step inner_client by metis
  qed
qed

lemma client_deleted:
  assumes fit: "names_fit i m" and w: "client_fit i m w"
  shows "\<exists>w'. client_frame A (entry_of i m (Deleted nid)) w = Inr w' \<and> client_fit i m w' \<and>
    known i m w' = known i m w - {nid}"
proof -
  let ?e = "entry_of i m (Deleted nid)"
  have cs: "client_store i m w" and ok: "world_ok w" and ctl: "w_Controlled w = []"
    using w by (simp_all add: client_fit_def)
  have e: "?e = frame_entry kFRAME_Dealloc nid NET_CONTROLLER_NONE 0 0 m (name_data i)" by (simp add: entry_of_def)
  have mem: "get_frametype ?e = kFRAME_Dealloc" "get_netid ?e = nid"
    unfolding e by (rule manager_frame_received [OF fit])+
  obtain mg where fm: "frame_manager ?e w = Inr (i, m, mg)"
    using manager_entry [OF fit cs] unfolding e by blast
  have step: "client_frame A ?e w = EntDeallocate A ?e w"
    by (simp add: client_frame_def mem kFRAME_Alloc_def kFRAME_Data_def kFRAME_Dealloc_def)
  obtain w' where w': "EntDeallocate A ?e w = Inr w'" "client_store i m w'"
    and look: "object_lookup i m w' nid = Inr None"
      "\<forall>x. x \<noteq> nid \<longrightarrow> object_lookup i m w' x = object_lookup i m w x"
    using EntDeallocate_known [OF fm cs, of A] ctl by (auto simp: mem)
  have "\<not> w_Server w" using cs by (rule client_storeE)
  then have "world_ok w' \<and> w_Controlled w' = []" using EntDeallocate_sound [OF w'(1) _ ok ctl] by simp
  moreover have "x \<in> known i m w' \<longleftrightarrow> x \<in> known i m w - {nid}" for x
    using look by (cases "x = nid") (simp_all add: known_def)
  then have "known i m w' = known i m w - {nid}" by blast
  ultimately show ?thesis using step w' by (simp add: client_fit_def)
qed

lemma client_announced:
  assumes "names_fit i m" "tame_app A" "client_fit i m w" "announcement_ok a"
  shows "\<exists>w'. client_frame A (entry_of i m a) w = Inr w' \<and> client_fit i m w' \<and> known i m w' = announced a (known i m w)"
proof (cases a)
  case (Created nid)
  then show ?thesis using client_created [OF assms(1-3)] by (simp add: announced_def)
next
  case (Deleted nid)
  then show ?thesis using client_deleted [OF assms(1,3)] by (simp add: announced_def)
next
  case (Updated nid v forced)
  then show ?thesis using client_updated [OF assms(3)] assms(4)
    by (simp add: announced_def announcement_ok_def entry_of_def)
qed

lemma client_all_announced:
  assumes "names_fit i m" "tame_app A"
  shows "client_fit i m w \<Longrightarrow> list_all announcement_ok as \<Longrightarrow>
    \<exists>w'. apply_frames (client_frame A) (map (entry_of i m) as) w = Inr w' \<and> client_fit i m w' \<and>
      known i m w' = all_announced as (known i m w)"
proof (induction as arbitrary: w)
  case (Cons a as)
  from client_announced [OF assms Cons.prems(1), of a] Cons.prems(2) obtain v where
    v: "client_frame A (entry_of i m a) w = Inr v" "client_fit i m v" "known i m v = announced a (known i m w)" by auto
  with Cons.IH [OF v(2)] Cons.prems(2) show ?case by simp
qed simp

text \<open>A client handles every packet of announcements, and learns just what they say.\<close>

lemma client_handles:
  assumes "names_fit i m" "tame_app A" "client_fit i m w" "carries i m as p"
  shows "\<exists>w'. HandleEntSnapshot A p w = Inr w' \<and> client_fit i m w' \<and> known i m w' = all_announced as (known i m w)"
  using client_all_announced [OF assms(1-3), of as] assms(4) receive_carried [OF assms(1,4)] by (simp add: carries_def)

end
