(* ===== verification/Server_Tells.thy ===== *)
theory Server_Tells
  imports Announcements "HOL-Library.Multiset"
begin

text \<open>
  What a server tells its clients: every operation of a manager or of a session sends, in order, the
  announcements of what it did to the set of objects, and the packets that may get lost carry updates
  of variables only.
\<close>

section \<open>The server's objects\<close>

definition live_ids :: "world \<Rightarrow> u32 set" where
  "live_ids w = {nid. \<exists>r. netid_of w r = Some nid}"

text \<open>The names of instances, and of the managers of each, are keys.\<close>

definition keys_ok :: "world \<Rightarrow> bool" where
  "keys_ok w \<longleftrightarrow> distinct (map fst (w_Instances w)) \<and>
     (\<forall>(_, vi) \<in> set (w_Instances w). distinct (map fst (vi_EntManagers vi)))"

text \<open>
  A running server all of whose objects belong to one manager. Identifiers are below the counter, and
  no two objects share one.
\<close>

definition server_ok :: "bytes \<Rightarrow> bytes \<Rightarrow> world \<Rightarrow> bool" where
  "server_ok i m w \<longleftrightarrow> w_Server w \<and> w_Running w \<and> session_ok w \<and> keys_ok w \<and>
     (case find_manager w i m of None \<Rightarrow> False | Some mg \<Rightarrow> mg_Name mg = m) \<and>
     (\<forall>r ob. w_heap w r = Some ob \<longrightarrow> no_Manager ob = Some (i, m) \<and> r < w_NextRef w \<and>
        unat (no_NetCode ob) < unat (w_TotalEntities w)) \<and>
     (\<forall>r r' nid. netid_of w r = Some nid \<longrightarrow> netid_of w r' = Some nid \<longrightarrow> r = r')"

lemma server_okD:
  assumes "server_ok i m w"
  shows "w_Server w" "w_Running w" "session_ok w" "world_ok w"
    "w_heap w r = Some ob \<Longrightarrow> no_Manager ob = Some (i, m) \<and> r < w_NextRef w \<and> unat (no_NetCode ob) < unat (w_TotalEntities w)"
    "netid_of w r = Some nid \<Longrightarrow> netid_of w r' = Some nid \<Longrightarrow> r = r'"
    "keys_ok w"
  using assms unfolding server_ok_def by (auto simp: session_ok_def)

lemma server_manager:
  assumes "server_ok i m w"
  obtains mg where "find_manager w i m = Some mg" "mg_Name mg = m"
  using assms by (auto simp: server_ok_def split: option.splits)

text \<open>What is sent and who holds a reference is no part of what the server knows.\<close>

lemma netid_fields [simp]:
  "netid_of (w\<lparr>w_Out := cs\<rparr>) = netid_of w" "netid_of (hold r w) = netid_of w" "netid_of (unhold r w) = netid_of w"
  "live_ids (w\<lparr>w_Out := cs\<rparr>) = live_ids w" "live_ids (hold r w) = live_ids w" "live_ids (unhold r w) = live_ids w"
  by (simp_all add: live_ids_def netid_of_def hold_def unhold_def fun_eq_iff)

lemma session_fields [simp]:
  "session_ok (w\<lparr>w_Out := cs\<rparr>) = session_ok w" "session_ok (hold r w) = session_ok w" "session_ok (unhold r w) = session_ok w"
  by (simp_all add: session_ok_def) (simp_all add: hold_def unhold_def)

lemma server_fields [simp]:
  "server_ok i m (w\<lparr>w_Out := cs\<rparr>) = server_ok i m w" "server_ok i m (hold r w) = server_ok i m w"
  "server_ok i m (unhold r w) = server_ok i m w"
  unfolding server_ok_def by simp_all (simp_all add: hold_def unhold_def keys_ok_def find_manager_def get_instance_def)

section \<open>What the server tells\<close>

definition reliable_packets :: "transport_call list \<Rightarrow> bytes list" where
  "reliable_packets cs = concat (map (\<lambda>c. case c of
     Host_Broadcast p flags ch \<Rightarrow> if flags = PACKET_FLAG_RELIABLE then [p] else [] | _ \<Rightarrow> []) cs)"

definition unreliable_packets :: "transport_call list \<Rightarrow> bytes list" where
  "unreliable_packets cs = concat (map (\<lambda>c. case c of
     Host_Broadcast p flags ch \<Rightarrow> if flags = PACKET_FLAG_RELIABLE then [] else [p] | _ \<Rightarrow> []) cs)"

lemma packets_append [simp]:
  "reliable_packets (cs @ ds) = reliable_packets cs @ reliable_packets ds"
  "unreliable_packets (cs @ ds) = unreliable_packets cs @ unreliable_packets ds"
  by (simp_all add: reliable_packets_def unreliable_packets_def)

lemma packets_simps [simp]:
  "reliable_packets [] = []" "unreliable_packets [] = []"
  "reliable_packets [Host_Broadcast p PACKET_FLAG_RELIABLE ch] = [p]"
  "unreliable_packets [Host_Broadcast p PACKET_FLAG_RELIABLE ch] = []"
  "reliable_packets [Host_Broadcast p PACKET_FLAG_UNSEQUENCED ch] = []"
  "unreliable_packets [Host_Broadcast p PACKET_FLAG_UNSEQUENCED ch] = [p]"
  by (simp_all add: reliable_packets_def unreliable_packets_def PACKET_FLAG_RELIABLE_def PACKET_FLAG_UNSEQUENCED_def)

text \<open>
  What a step of the server sends tells its effect: the reliable packets, in their order, announce the
  change of the set of objects, and unreliable packets carry updates.
\<close>

definition tells :: "bytes \<Rightarrow> bytes \<Rightarrow> world \<Rightarrow> world \<Rightarrow> bool" where
  "tells i m w w' \<longleftrightarrow> (\<exists>cs ass. w_Out w' = w_Out w @ cs \<and> list_all2 (carries i m) ass (reliable_packets cs) \<and>
     (\<forall>p \<in> set (unreliable_packets cs). \<exists>us. carries i m us p \<and> updates_only us) \<and>
     live_ids w' = all_announced (concat ass) (live_ids w))"

lemma tells_silent: "w_Out w' = w_Out w \<Longrightarrow> live_ids w' = live_ids w \<Longrightarrow> tells i m w w'"
  unfolding tells_def by (intro exI [of _ "[]"]) simp

lemma tells_trans:
  assumes "tells i m w v" "tells i m v u"
  shows "tells i m w u"
proof -
  obtain cs as ds bs where "w_Out v = w_Out w @ cs" "list_all2 (carries i m) as (reliable_packets cs)"
    "\<forall>p \<in> set (unreliable_packets cs). \<exists>us. carries i m us p \<and> updates_only us"
    "live_ids v = all_announced (concat as) (live_ids w)"
    "w_Out u = w_Out v @ ds" "list_all2 (carries i m) bs (reliable_packets ds)"
    "\<forall>p \<in> set (unreliable_packets ds). \<exists>us. carries i m us p \<and> updates_only us"
    "live_ids u = all_announced (concat bs) (live_ids v)"
    using assms unfolding tells_def by blast
  then show ?thesis
    unfolding tells_def by (intro exI [of _ "cs @ ds"] exI [of _ "as @ bs"]) (auto intro: list_all2_appendI)
qed

lemma tells_reliable:
  assumes "w_Out w' = w_Out w @ [Host_Broadcast p PACKET_FLAG_RELIABLE 0]" "carries i m as p"
    "live_ids w' = all_announced as (live_ids w)"
  shows "tells i m w w'"
  unfolding tells_def using assms
  by (intro exI [of _ "[Host_Broadcast p PACKET_FLAG_RELIABLE 0]"] exI [of _ "[as]"]) simp

lemma tells_unreliable:
  assumes "w_Out w' = w_Out w @ [Host_Broadcast p PACKET_FLAG_UNSEQUENCED 0]" "carries i m us p" "updates_only us"
    "live_ids w' = live_ids w"
  shows "tells i m w w'"
  unfolding tells_def using assms
  by (intro exI [of _ "[Host_Broadcast p PACKET_FLAG_UNSEQUENCED 0]"] exI [of _ "[]"]) auto

text \<open>
  A step that keeps the server sound, tells its effect, and leaves the instances and the deletions
  scheduled in them in place.
\<close>

definition shape_of :: "world \<Rightarrow> (bytes \<times> bytes option list) list" where
  "shape_of w = map (\<lambda>(j, vi). (j, vi_PendingDeletes vi)) (w_Instances w)"

lemma shape_of_simps [simp]:
  "shape_of (w\<lparr>w_Out := cs\<rparr>) = shape_of w" "shape_of (w\<lparr>w_heap := h\<rparr>) = shape_of w"
  "shape_of (upd_manager i m f w) = shape_of w"
  by (auto simp: shape_of_def upd_manager_def upd_instance_def amap_def)

definition serves :: "bytes \<Rightarrow> bytes \<Rightarrow> world \<Rightarrow> world \<Rightarrow> bool" where
  "serves i m w w' \<longleftrightarrow> server_ok i m w' \<and> tells i m w w' \<and> shape_of w' = shape_of w"

lemma serves_ok: "serves i m w w' \<Longrightarrow> server_ok i m w'"
  by (simp add: serves_def)

lemma serves_refl: "server_ok i m w \<Longrightarrow> serves i m w w"
  by (simp add: serves_def tells_silent)

lemma serves_trans [trans]: "serves i m w v \<Longrightarrow> serves i m v u \<Longrightarrow> serves i m w u"
  unfolding serves_def using tells_trans by (metis (full_types))

section \<open>Steps that only change variables\<close>

lemma same_but_vars_ids:
  assumes "same_but_vars w w'"
  shows "netid_of w' = netid_of w" "live_ids w' = live_ids w" "w_Out w' = w_Out w"
    "find_manager w' i m = find_manager w i m" "w_Instances w' = w_Instances w"
    "w_Server w' = w_Server w" "w_Running w' = w_Running w" "w_NextRef w' = w_NextRef w"
    "w_TotalEntities w' = w_TotalEntities w" "get_instance w' i = get_instance w i"
proof -
  have w': "w' = w\<lparr>w_heap := w_heap w'\<rparr>" using assms by (simp add: same_but_vars_def)
  have heap: "case w_heap w r of None \<Rightarrow> w_heap w' r = None | Some ob \<Rightarrow> \<exists>vs. w_heap w' r = Some (ob\<lparr>no_Vars := vs\<rparr>)" for r
    using assms by (simp add: same_but_vars_def)
  have "netid_of w' r = netid_of w r" for r using heap [of r] by (auto simp: netid_of_def split: option.splits)
  then show n: "netid_of w' = netid_of w" by blast
  show "live_ids w' = live_ids w" by (simp add: live_ids_def n)
  show "w_Out w' = w_Out w" "find_manager w' i m = find_manager w i m" "w_Instances w' = w_Instances w"
    "w_Server w' = w_Server w" "w_Running w' = w_Running w" "w_NextRef w' = w_NextRef w"
    "w_TotalEntities w' = w_TotalEntities w" "get_instance w' i = get_instance w i"
    by (subst w', simp add: find_manager_def get_instance_def)+
qed

lemma same_but_vars_server:
  assumes "same_but_vars w w'" "session_ok w'" "server_ok i m w"
  shows "server_ok i m w' \<and> tells i m w w'"
proof -
  note f = same_but_vars_ids [OF assms(1)]
  have "\<exists>ob0. w_heap w r = Some ob0 \<and> no_Manager ob = no_Manager ob0 \<and> no_NetCode ob = no_NetCode ob0"
    if "w_heap w' r = Some ob" for r ob
    using that assms(1) [unfolded same_but_vars_def, THEN conjunct2, rule_format, of r] by (auto split: option.splits)
  then have "no_Manager ob = Some (i, m) \<and> r < w_NextRef w \<and> unat (no_NetCode ob) < unat (w_TotalEntities w)"
    if "w_heap w' r = Some ob" for r ob
    using that server_okD(5) [OF assms(3)] by metis
  moreover have "keys_ok w'" using server_okD(7) [OF assms(3)] by (simp add: keys_ok_def f)
  ultimately have "server_ok i m w'"
    using assms(2,3) unfolding server_ok_def f by blast
  then show ?thesis using f(2,3) by (simp add: tells_silent)
qed

lemma peer_changes_same:
  assumes "peer_changes q w w'"
  shows "same_but_vars w w'"
proof -
  have "case w_heap w r of None \<Rightarrow> w_heap w' r = None | Some ob \<Rightarrow> \<exists>vs. w_heap w' r = Some (ob\<lparr>no_Vars := vs\<rparr>)" for r
  proof (cases "w_heap w' r = w_heap w r")
    case True
    then show ?thesis by (simp split: option.split)
  next
    case False
    with assms obtain ob ob' where "w_heap w r = Some ob" "w_heap w' r = Some ob'" "vars_changed ob ob'"
      unfolding peer_changes_def by blast
    then show ?thesis unfolding vars_changed_def by (simp, blast)
  qed
  then show ?thesis using assms by (simp add: same_but_vars_def peer_changes_def)
qed

text \<open>A step inside the objects tells nobody anything about which objects there are.\<close>

lemma personal_packets [simp]:
  "list_all personal cs \<Longrightarrow> reliable_packets cs = []" "list_all personal cs \<Longrightarrow> unreliable_packets cs = []"
proof (induction cs)
  case (Cons c cs)
  { case 1 then show ?case using Cons by (cases c) (simp_all add: reliable_packets_def) }
  { case 2 then show ?case using Cons by (cases c) (simp_all add: unreliable_packets_def) }
qed simp_all

lemma inner_server:
  assumes "inner w w'" and "server_ok i m w"
  shows "serves i m w w'"
proof -
  note f = inner_fields [OF assms(1)] and n = inner_netid [OF assms(1)]
  have "no_Manager ob = Some (i, m) \<and> r < w_NextRef w \<and> unat (no_NetCode ob) < unat (w_TotalEntities w)"
    if "w_heap w' r = Some ob" for r ob
    using inner_heap(2) [OF assms(1) that] server_okD(5) [OF assms(2)] by (metis identity_manager identity_fields(2))
  moreover have "keys_ok w'" using server_okD(7) [OF assms(2)] by (simp add: keys_ok_def f)
  moreover have "session_ok w'" by (rule inner_session_ok [OF assms(1) server_okD(3) [OF assms(2)]])
  ultimately have "server_ok i m w'" using assms(2) unfolding server_ok_def f n by blast
  moreover obtain cs where cs: "w_Out w' = w_Out w @ cs" "list_all personal cs" using assms(1) by (auto simp: inner_def)
  then have "tells i m w w'"
    unfolding tells_def by (intro exI [of _ cs] exI [of _ "[]"]) (simp add: live_ids_def n)
  ultimately show ?thesis by (simp add: serves_def shape_of_def f(1))
qed

lemma snap_world_same: "same_but_vars w (snap_world rs rel forced w)"
  by (auto simp: same_but_vars_def snap_world_def snap_obj_def split: option.split)

lemma snap_world_inner: "inner w (snap_world rs rel forced w)"
  by (rule kept_inner [OF snap_world_kept [of "{}"], of _ _ _ _ "[]"]) (simp_all add: snap_world_def)

lemma snap_world_session: "session_ok w \<Longrightarrow> session_ok (snap_world rs rel forced w)"
  by (rule kept_session_ok [OF snap_world_kept])

section \<open>Deleting\<close>

lemma single_carried:
  assumes "names_fit i m" and "announcement_ok a"
  shows "carries i m [a] (snapshot_packet sq (vsize (frame_of i m a)) [frame_of i m a])"
proof -
  note len = frame_of_length [OF assms]
  then have "unat (vsize (frame_of i m a)) = length (frame_of i m a)" by (intro unat_vsize) simp
  then show ?thesis
    unfolding carries_def using len assms(2)
    by (intro conjI exI [of _ sq] exI [of _ "vsize (frame_of i m a)"]) simp_all
qed

text \<open>The last reference to an object goes: the object is deleted and the client told.\<close>

lemma release_server:
  assumes fit: "names_fit i m" and A: "tame_app A" and w: "server_ok i m w" and rel: "release A r w = Inr w'"
  shows "serves i m w w'"
proof (cases "use_count w r = 0")
  case False
  then show ?thesis using w rel by (simp add: release_def serves_refl)
next
  case True
  with rel obtain ob where ob: "w_heap w r = Some ob" by (auto simp: release_def destroy_object_def res_bind_Inr_iff deref_Inr)
  obtain mg where mg: "find_manager w i m = Some mg" "mg_Name mg = m" using w by (rule server_manager)
  have man: "no_Manager ob = Some (i, m)" using server_okD(5) [OF w] ob by blast
  define v where "v = (case mg_cbDelete mg of None \<Rightarrow> w | Some n \<Rightarrow> ap_delete A n None w)"
  have wv: "inner w v" using A by (auto simp: tame_app_def v_def split: option.split)
  note v = inner_server [OF wv w] and d = server_okD [OF serves_ok [OF inner_server [OF wv w]]]
  define f where "f = frame_of i m (Deleted (no_NetCode ob))"
  define p where "p = snapshot_packet 0 (vsize f) [f]"
  have "FreeEntity A i m (no_NetCode ob) None w = Inr (True, v\<lparr>w_Out := w_Out v @ [Host_Broadcast p PACKET_FLAG_RELIABLE 0]\<rparr>)"
    using FreeEntity_called_back [OF server_okD(1) [OF w] d(2) mg(1) v_def, of f "no_NetCode ob"] fit mg(2)
    by (simp add: f_def frame_of_def p_def)
  then have w': "w' = v\<lparr>w_Out := w_Out v @ [Host_Broadcast p PACKET_FLAG_RELIABLE 0], w_heap := (w_heap v)(r := None)\<rparr>"
    using rel True ob man by (simp add: release_def destroy_object_def deref_def DestroyNetworkedEntity_def)
  have ids: "netid_of w' x = Some y \<longleftrightarrow> x \<noteq> r \<and> netid_of v x = Some y" for x y by (simp add: w' netid_of_def)
  have at: "netid_of v r = Some (no_NetCode ob)" using ob by (simp add: inner_netid [OF wv] netid_of_def)
  have "(\<exists>q. q \<noteq> r \<and> netid_of v q = Some x) \<longleftrightarrow> (\<exists>q. netid_of v q = Some x) \<and> x \<noteq> no_NetCode ob" for x
    using at d(6) by (metis option.inject)
  then have "live_ids w' = live_ids v - {no_NetCode ob}"
    by (auto simp: live_ids_def ids)
  then have "tells i m v w'"
    using single_carried [OF fit, of "Deleted (no_NetCode ob)" 0]
    by (intro tells_reliable [where p = p and as = "[Deleted (no_NetCode ob)]"])
      (simp_all add: w' p_def f_def announced_def announcement_ok_def)
  moreover have "session_ok w'"
    using world_ok_remove [OF d(4), of r] True d(3) by (simp add: w' inner_fields(10) [OF wv] session_ok_def world_ok_def live_def)
  then have "server_ok i m w'"
    using serves_ok [OF v] d(6) unfolding server_ok_def by (auto simp: ids) (auto simp: w' find_manager_def get_instance_def keys_ok_def split: if_splits)
  ultimately have "serves i m v w'" by (simp add: serves_def) (simp add: w' )
  then show ?thesis by (rule serves_trans [OF v])
qed

text \<open>Shrinking the lists of the manager.\<close>

lemma distinct_submset: "mset xs \<subseteq># mset ys \<Longrightarrow> distinct ys \<Longrightarrow> distinct xs"
  by (metis ex_mset mset_append subset_mset.le_iff_add mset_eq_imp_distinct_iff distinct_append)

lemma keys_ok_upd: "keys_ok w \<Longrightarrow> keys_ok (upd_manager i m f w)"
  unfolding keys_ok_def upd_manager_def upd_instance_def by (simp, intro amap_all) simp_all

lemma distinct_refs_upd:
  assumes "\<forall>(_, vi) \<in> set (w_Instances w). distinct (all_refs vi)"
    and "\<And>mg. mset (mg_Objects (f mg)) \<subseteq># mset (mg_Objects mg)"
  shows "\<forall>(_, vi) \<in> set (w_Instances (upd_manager i m f w)). distinct (all_refs vi)"
proof -
  have "mset (concat (map (\<lambda>(_, mg). mg_Objects mg) (amap m f ms))) \<subseteq># mset (concat (map (\<lambda>(_, mg). mg_Objects mg) ms))" for ms
    using assms(2) by (induction ms) (auto simp: amap_def intro: subset_mset.add_mono)
  then have "mset (all_refs (vi\<lparr>vi_EntManagers := amap m f (vi_EntManagers vi)\<rparr>)) \<subseteq># mset (all_refs vi)" for vi
    by (simp add: all_refs_def)
  then have "distinct (all_refs vi) \<Longrightarrow> distinct (all_refs (vi\<lparr>vi_EntManagers := amap m f (vi_EntManagers vi)\<rparr>))" for vi
    by (rule distinct_submset)
  then show ?thesis
    unfolding upd_manager_def upd_instance_def using assms(1)
    by (simp, intro amap_all) simp_all
qed

lemma server_ok_shrink:
  assumes w: "server_ok i m w" and f: "\<And>mg. mset (mg_Objects (f mg)) \<subseteq># mset (mg_Objects mg)"
    "\<And>mg. mg_Name (f mg) = mg_Name mg"
  shows "serves i m w (upd_manager j k f w)"
proof -
  let ?w = "upd_manager j k f w"
  note d = server_okD [OF w]
  have "set (mg_Objects (f mg)) \<subseteq> set (mg_Objects mg)" for mg using f(1) [of mg] set_mset_mono by fastforce
  then have "live w (mg_Objects mg) \<Longrightarrow> live w (mg_Objects (f mg))" for mg by (auto simp: live_def)
  then have "session_ok ?w"
    using world_ok_upd_manager [OF d(4), of f j k] distinct_refs_upd [OF d(3) [unfolded session_ok_def, THEN conjunct2] f(1), of j k]
    by (simp only: session_ok_def)
  moreover have n: "netid_of ?w = netid_of w" "w_TotalEntities ?w = w_TotalEntities w"
    by (simp_all add: fun_eq_iff netid_of_def frame_simps upd_manager_def upd_instance_def)
  moreover obtain mg where mg: "find_manager w i m = Some mg" "mg_Name mg = m" using w by (rule server_manager)
  ultimately have "server_ok i m ?w"
    using w keys_ok_upd [OF d(7)] f(2) unfolding server_ok_def n
    by (cases "j = i \<and> k = m") (auto simp: frame_simps find_manager_upd_manager)
  then show ?thesis by (simp add: serves_def tells_silent frame_simps live_ids_def n)
qed

lemma FreeListEnt_server:
  assumes fit: "names_fit i m" and A: "tame_app A" and w: "server_ok i m w" and free: "FreeListEnt A i m rd wr nid w = Inr w'"
    and wr: "\<And>r mg. mset (mg_Objects (wr (remove1 r (rd mg)) mg)) \<subseteq># mset (mg_Objects mg)"
      "\<And>rs mg. mg_Name (wr rs mg) = mg_Name mg"
  shows "serves i m w w'"
proof (cases "w' = w")
  case False
  with free obtain r where r: "release A r (upd_manager i m (\<lambda>mg. wr (remove1 r (rd mg)) mg) w) = Inr w'"
    by (auto simp: FreeListEnt_def res_bind_Inr_iff split: option.splits)
  have s: "serves i m w (upd_manager i m (\<lambda>mg. wr (remove1 r (rd mg)) mg) w)"
    by (rule server_ok_shrink [OF w]) (simp_all add: wr)
  then show ?thesis using release_server [OF fit A serves_ok [OF s] r] serves_trans by blast
qed (use w in \<open>simp add: serves_refl\<close>)

lemma FreeLocal_server:
  assumes "names_fit i m" and "tame_app A" and "server_ok i m w" and "FreeLocal A i m nid w = Inr w'"
  shows "serves i m w w'"
proof -
  obtain w1 where 1: "FreeListEnt A i m mg_Objects (\<lambda>rs mg. mg\<lparr>mg_Objects := rs\<rparr>) nid w = Inr w1"
    and 2: "FreeListEnt A i m mg_Local (\<lambda>rs mg. mg\<lparr>mg_Local := rs\<rparr>) nid w1 = Inr w'"
    using assms(4) by (auto simp: FreeLocal_def res_bind_Inr_iff)
  have s: "serves i m w w1"
    by (rule FreeListEnt_server [OF assms(1-3) 1]) simp_all
  moreover have "serves i m w1 w'"
    by (rule FreeListEnt_server [OF assms(1,2) serves_ok [OF s] 2]) simp_all
  ultimately show ?thesis by (rule serves_trans)
qed

section \<open>Snapshots\<close>

definition update_announcements :: "bool \<Rightarrow> update list \<Rightarrow> announcement list" where
  "update_announcements forced us = map (\<lambda>(nid, v). Updated nid v forced) us"

lemma update_announcements_frames: "map (frame_of i m) (update_announcements forced us) = update_frames forced us"
  by (simp add: update_announcements_def update_frames_def frame_of_def case_prod_unfold comp_def)

lemma updates_only_update [simp]: "updates_only (update_announcements forced us)"
  by (auto simp: updates_only_def update_announcements_def)

lemma update_announcements_ok:
  "objects_ok w rs \<Longrightarrow> list_all announcement_ok (update_announcements forced (due_updates w rel f rs))"
  using due_updates_ok [of w rs] by (auto simp: update_announcements_def list_all_iff announcement_ok_def)

text \<open>Frames of announcements in a packet whose frames have the size of the longest.\<close>

lemma announcements_carried:
  assumes fit: "names_fit i m" and as: "list_all announcement_ok as" "as \<noteq> []" "length as < 2 ^ 16"
  shows "carries i m as (snapshot_packet sq (raise_max 0 (map (frame_of i m) as)) (map (frame_of i m) as))"
proof -
  let ?fs = "map (frame_of i m) as" let ?m = "raise_max 0 ?fs"
  have len: "146 \<le> length f \<and> length f \<le> 209" if "f \<in> set ?fs" for f
    using that as(1) frame_of_length [OF fit] by (auto simp: list_all_iff)
  have us: "unat (vsize f) = length f" if "f \<in> set ?fs" for f
    using len [OF that] by (intro unat_vsize) simp
  have le: "length f \<le> unat ?m" if "f \<in> set ?fs" for f
  proof -
    have "vsize f \<le> ?m" using raise_max_upper [of 0 ?fs] that by blast
    then show ?thesis using us [OF that] by (simp add: word_le_nat_alt)
  qed
  obtain f where f: "f \<in> set ?fs" using as(2) by (cases as) auto
  then have "146 \<le> unat ?m" using le len by (meson order_trans)
  moreover from raise_max_cases [of 0 ?fs] have "?m = 0 \<or> (\<exists>g \<in> set ?fs. ?m = vsize g)" by auto
  then have "unat ?m \<le> 209" using us len by auto
  ultimately show ?thesis
    unfolding carries_def using as le
    by (intro conjI exI [of _ sq] exI [of _ ?m]) simp_all
qed

lemma vsize_raise: "0 < length f \<Longrightarrow> length f < 2 ^ 32 \<Longrightarrow> raise_max (vsize f) fs = raise_max 0 (f # fs)"
  using unat_vsize [of f] by (simp add: word_less_nat_alt)

text \<open>A snapshot of the instance, into a fresh stream or behind a frame that is already there.\<close>

lemma DoSnapshot_behind:
  assumes w: "get_instance w i = Some vi" "w_Running w" "objects_ok w (all_refs vi)"
    and f: "0 < length f" "length f < 2 ^ 32" and fs: "instance_frames w rel False vi = fs" "Suc (length fs) < 2 ^ 16"
  shows "\<exists>s s'. DoSnapshot A i (stream_push stream_new f) rel False w = Inr (s, snap_world (all_refs vi) rel False w) \<and>
    stream_modified s \<and> stream_result s = Inr (snapshot_packet (vi_SequenceID vi) (raise_max 0 (f # fs)) (f # fs), s')"
proof -
  let ?s = "stream_extend (stream_push stream_new f) fs"
  have d: "strm_data (stream_push stream_new f) = [[], f]" by (simp add: stream_push_def stream_new_def)
  have d': "strm_data ?s = [] # f # fs" "\<not> strm_Finished ?s"
    by (simp_all add: stream_extend_def stream_push_def stream_new_def)
  have n: "(of_nat (length [[], f]) :: u16) - 1 + of_nat (length fs) = of_nat (length (f # fs))" by simp
  have nz: "(of_nat (length (f # fs)) :: u16) \<noteq> 0" using fs(2) by (intro of_nat_u16_nonzero) simp_all
  have "0 < vsize f" using f unat_vsize [OF f(2)] by (simp add: word_less_nat_alt)
  then have mx: "stream_max (stream_push stream_new f) = vsize f" by (simp add: stream_max_def d vsize_def)
  let ?h = "header_image \<lparr>hd_message_code = OBJECT_FRAME, hd_count = of_nat (length (f # fs)),
      hd_sequence = vi_SequenceID vi, hd_max_message_length = raise_max (vsize f) fs\<rparr>"
  define s where "s = ?s\<lparr>strm_data := ?h # map (pad_buffer (raise_max (vsize f) fs)) (f # fs)\<rparr>"
  have "DoSnapshot A i (stream_push stream_new f) rel False w = Inr (s, snap_world (all_refs vi) rel False w)"
    using DoSnapshot_eq [OF w, of A "stream_push stream_new f" rel False] header_generate_eq [OF d'(1)] nz
    unfolding d mx fs(1) Let_def n by (simp add: s_def)
  moreover have "stream_modified s" by (simp add: s_def stream_modified_def)
  moreover have "stream_result s = Inr (?h @ concat (map (pad_buffer (raise_max (vsize f) fs)) (f # fs)),
      \<lparr>strm_data = (?h @ concat (map (pad_buffer (raise_max (vsize f) fs)) (f # fs))) #
        map (pad_buffer (raise_max (vsize f) fs)) (f # fs), strm_Finished = True\<rparr>)"
    using d'(2) by (intro stream_result_first) (simp_all add: s_def)
  ultimately show ?thesis by (simp add: snapshot_packet_def vsize_raise [OF f, symmetric] del: raise_max.simps)
qed

text \<open>A snapshot into a fresh stream, which is sent when it has a frame: as one packet of updates.\<close>

lemma DoSnapshot_updates:
  assumes fit: "names_fit i m" and w: "get_instance w i = Some vi" "w_Running w" "objects_ok w (all_refs vi)"
    and n: "length (due_updates w rel forced (all_refs vi)) < 2 ^ 16"
  shows "\<exists>s. DoSnapshot A i stream_new rel forced w = Inr (s, snap_world (all_refs vi) rel forced w) \<and>
    (stream_modified s \<longrightarrow> (\<exists>p t us. stream_result s = Inr (p, t) \<and> p \<noteq> [] \<and> carries i m us p \<and> updates_only us))"
proof -
  let ?us = "due_updates w rel forced (all_refs vi)" let ?as = "update_announcements forced ?us"
  have fs: "instance_frames w rel forced vi = map (frame_of i m) ?as"
    by (simp add: instance_frames_def update_frames_due update_announcements_frames)
  show ?thesis
  proof (cases "?us = []")
    case True
    then have "instance_frames w rel forced vi = []" by (simp add: fs update_announcements_def)
    from DoSnapshot_quiet [OF w this, of A] show ?thesis by (simp add: stream_modified_def stream_new_def)
  next
    case False
    then have ne: "map (frame_of i m) ?as \<noteq> []" "length (map (frame_of i m) ?as) < 2 ^ 16"
      using n by (simp_all add: update_announcements_def)
    have "carries i m ?as (snapshot_packet (vi_SequenceID vi) (raise_max 0 (map (frame_of i m) ?as)) (map (frame_of i m) ?as))"
      using ne by (intro announcements_carried [OF fit update_announcements_ok [OF w(3)]]) simp_all
    moreover obtain s where "DoSnapshot A i stream_new rel forced w = Inr (s, snap_world (all_refs vi) rel forced w)"
      "stream_result s = Inr (snapshot_packet (vi_SequenceID vi) (raise_max 0 (map (frame_of i m) ?as)) (map (frame_of i m) ?as),
        \<lparr>strm_data = snapshot_packet (vi_SequenceID vi) (raise_max 0 (map (frame_of i m) ?as)) (map (frame_of i m) ?as) #
           map (pad_buffer (raise_max 0 (map (frame_of i m) ?as))) (map (frame_of i m) ?as), strm_Finished = True\<rparr>)"
      using DoSnapshot_fresh [OF w fs ne, of A] by blast
    ultimately show ?thesis using packet_nonempty updates_only_update by (smt (verit))
  qed
qed

text \<open>How many variables an instance may have; the count of frames in a packet has sixteen bits.\<close>

definition var_count :: "world \<Rightarrow> oref \<Rightarrow> nat" where
  "var_count w r = (case w_heap w r of None \<Rightarrow> 0 | Some ob \<Rightarrow> length (no_Vars ob))"

definition var_total :: "world \<Rightarrow> oref list \<Rightarrow> nat" where
  "var_total w rs = sum_list (map (var_count w) rs)"

definition countable_updates :: "bytes \<Rightarrow> world \<Rightarrow> bool" where
  "countable_updates i w \<longleftrightarrow> (case get_instance w i of None \<Rightarrow> False
     | Some vi \<Rightarrow> Suc (var_total w (all_refs vi)) < 2 ^ 16)"

lemma due_updates_total: "length (due_updates w rel forced rs) \<le> var_total w rs"
  by (induction rs) (auto simp: due_updates_def var_total_def var_count_def split: option.split intro: add_mono trans_le_add2
    order_trans [OF length_filter_le])

lemma var_total_cong: "(\<And>r. r \<in> set rs \<Longrightarrow> var_count w' r = var_count w r) \<Longrightarrow> var_total w' rs = var_total w rs"
  unfolding var_total_def by (rule arg_cong [of _ _ sum_list]) simp

lemma var_total_snap [simp]: "var_total (snap_world rs' rel forced w) rs = var_total w rs"
  by (rule var_total_cong) (simp add: var_count_def snap_world_def snap_obj_def split: option.split)

lemma server_instance:
  assumes "server_ok i m w"
  obtains vi where "get_instance w i = Some vi" "objects_ok w (all_refs vi)"
proof -
  obtain mg where "find_manager w i m = Some mg" using assms by (rule server_manager)
  then obtain vi where "get_instance w i = Some vi" by (auto simp: find_manager_def bind_eq_Some_conv)
  then show thesis using that session_ok_objects [OF server_okD(3) [OF assms]] by blast
qed

lemma broadcast_tells:
  assumes w: "server_ok i m w" and b: "if stream_modified s then BroadcastStream s reliable w = Inr (s', w') else w' = w"
    and p: "stream_modified s \<longrightarrow> (\<exists>p t us. stream_result s = Inr (p, t) \<and> p \<noteq> [] \<and> carries i m us p \<and> updates_only us)"
  shows "serves i m w w'"
proof (cases "stream_modified s")
  case True
  then obtain p t us where pt: "stream_result s = Inr (p, t)" "p \<noteq> []" and us: "carries i m us p" "updates_only us"
    using p by blast
  have w': "w' = w\<lparr>w_Out := w_Out w @ [Host_Broadcast p (if reliable then PACKET_FLAG_RELIABLE else PACKET_FLAG_UNSEQUENCED) 0]\<rparr>"
    using b True BroadcastStream_eq [OF pt, of reliable w] server_okD(2) [OF w] by (simp add: Broadcast_def transport_def)
  have ids: "live_ids w' = live_ids w" by (simp add: w')
  have "tells i m w w'"
  proof (cases reliable)
    case True
    then show ?thesis using us ids by (intro tells_reliable [where p = p and as = us]) (simp_all add: w' updates_only_announced)
  next
    case False
    then show ?thesis using us ids by (intro tells_unreliable [where p = p and us = us]) (simp_all add: w')
  qed
  then show ?thesis using w by (simp add: serves_def) (simp add: w')
qed (use w b in \<open>simp add: serves_refl\<close>)

lemma snapshot_taken:
  assumes fit: "names_fit i m" and w: "server_ok i m w" and n: "countable_updates i w"
    and snap: "DoSnapshot A i stream_new rel forced w = Inr (s, w1)"
  shows "inner w w1" "countable_updates i w1"
    "stream_modified s \<longrightarrow> (\<exists>p t us. stream_result s = Inr (p, t) \<and> p \<noteq> [] \<and> carries i m us p \<and> updates_only us)"
proof -
  obtain vi where vi: "get_instance w i = Some vi" "objects_ok w (all_refs vi)" using w by (rule server_instance)
  have "length (due_updates w rel forced (all_refs vi)) < 2 ^ 16"
    using n vi(1) due_updates_total [of w rel forced "all_refs vi"] by (simp add: countable_updates_def)
  from DoSnapshot_updates [OF fit vi(1) server_okD(2) [OF w] vi(2) this, of A] snap have w1: "w1 = snap_world (all_refs vi) rel forced w"
    and "stream_modified s \<longrightarrow> (\<exists>p t us. stream_result s = Inr (p, t) \<and> p \<noteq> [] \<and> carries i m us p \<and> updates_only us)"
    by auto
  then show "stream_modified s \<longrightarrow> (\<exists>p t us. stream_result s = Inr (p, t) \<and> p \<noteq> [] \<and> carries i m us p \<and> updates_only us)"
    by blast
  show "inner w w1" unfolding w1 by (rule snap_world_inner)
  then show "countable_updates i w1" using n inner_fields(9) by (simp add: countable_updates_def w1 vi(1))
qed

lemma send_snapshot_server:
  assumes w: "server_ok i m w" and send: "send_snapshot s w = Inr (s', w')"
    and p: "stream_modified s \<longrightarrow> (\<exists>p t us. stream_result s = Inr (p, t) \<and> p \<noteq> [] \<and> carries i m us p \<and> updates_only us)"
  shows "serves i m w w'"
  by (rule broadcast_tells [OF w _ p]) (use send server_okD(1) [OF w] in \<open>simp add: send_snapshot_def split: if_splits\<close>)

section \<open>Messages to single peers\<close>

definition sends_personally :: "world \<Rightarrow> world \<Rightarrow> bool" where
  "sends_personally w w' \<longleftrightarrow> (\<exists>cs. w' = w\<lparr>w_Out := w_Out w @ cs\<rparr> \<and> list_all personal cs)"

lemma personally_refl [simp]: "sends_personally w w"
  unfolding sends_personally_def by (rule exI [of _ "[]"]) simp

lemma personally_trans [trans]:
  assumes "sends_personally w v" "sends_personally v u"
  shows "sends_personally w u"
proof -
  obtain cs ds where "v = w\<lparr>w_Out := w_Out w @ cs\<rparr>" "list_all personal cs" "u = v\<lparr>w_Out := w_Out v @ ds\<rparr>" "list_all personal ds"
    using assms by (auto simp: sends_personally_def)
  then show ?thesis unfolding sends_personally_def by (intro exI [of _ "cs @ ds"]) simp
qed

lemma personally_inner: "sends_personally w w' \<Longrightarrow> inner w w'"
  by (auto simp: sends_personally_def intro!: kept_inner [of "{}"] kept_only_sends) (auto simp: only_sends_def)

lemma personally_Send [simp]: "sends_personally w (Send data pr flags ch w)"
  by (auto simp: sends_personally_def Send_def transport_def split: option.split intro: exI [of _ "[]"])

lemma personally_SendStream: "SendStream s reliable pr w = Inr (s', w') \<Longrightarrow> sends_personally w w'"
  by (auto simp: SendStream_def Let_def res_bind_Inr_iff split: prod.splits)

lemma personally_Dispatch [simp]:
  "sends_personally w (dispatch_loop A p prs w)" "sends_personally w (snd (Dispatch A p w))" "sends_personally w (packet_destroy A p w)"
proof -
  have l: "sends_personally w (dispatch_loop A p prs w)" for p prs w
  proof (induction prs arbitrary: w)
    case (Cons pr prs)
    have "sends_personally w (DispatchPacket A (pk_msg p) (pk_Code p) pr (pk_Flags p) (pk_Channel p) w)"
      by (simp add: DispatchPacket_def split: prod.split)
    then show ?case unfolding dispatch_loop.simps by (rule personally_trans [OF _ Cons.IH])
  qed simp
  then show "sends_personally w (dispatch_loop A p prs w)" "sends_personally w (snd (Dispatch A p w))" "sends_personally w (packet_destroy A p w)"
    by (simp_all add: packet_destroy_def Dispatch_def Let_def)
qed

lemma personally_destroy_packets [simp]: "sends_personally w (destroy_packets A ps w)"
proof (induction ps arbitrary: w)
  case (Cons x ps)
  obtain q f where x: "x = (q, f)" by (cases x)
  show ?case unfolding x destroy_packets.simps by (rule personally_trans [OF personally_Dispatch(3) Cons.IH])
qed simp

lemma personally_send_items [simp]: "sends_personally w (send_items A obj l p kvs w)"
proof (induction kvs arbitrary: w)
  case (Cons x kvs)
  obtain k d where x: "x = (k, d)" by (cases x)
  show ?case unfolding x send_items.simps by (rule personally_trans [OF personally_Dispatch(2) Cons.IH])
qed simp

lemma personally_send_lists: "send_lists A ob nls pr w = Inr w' \<Longrightarrow> sends_personally w w'"
proof (induction nls arbitrary: w)
  case (Cons nl nls)
  then obtain v where v: "SendContents_peer A ob nl pr w = Inr v" "send_lists A ob nls pr v = Inr w'" by (auto simp: res_bind_Inr_iff)
  then have "sends_personally w v" by (auto simp: SendContents_peer_def res_bind_Inr_iff split: option.splits)
  then show ?case using Cons.IH [OF v(2)] by (rule personally_trans)
qed simp

lemma personally_send_object_lists: "send_object_lists A e pr rs w = Inr w' \<Longrightarrow> sends_personally w w'"
proof (induction rs arbitrary: w e)
  case (Cons r rs)
  then obtain s s' e' v u where "SendStream s True pr w = Inr (s', v)" "SendLists A r pr v = Inr u"
    and rest: "send_object_lists A e' pr rs u = Inr w'" by (auto simp: res_bind_Inr_iff Let_def)
  then have "sends_personally w v" "sends_personally v u"
    by (auto simp: SendLists_def res_bind_Inr_iff intro: personally_SendStream personally_send_lists)
  then show ?case using Cons.IH [OF rest] personally_trans by blast
qed simp

lemma SendObjectLists_inner: "SendObjectLists A i mg pr w = Inr w' \<Longrightarrow> inner w w'"
  by (auto simp: SendObjectLists_def res_bind_Inr_iff intro: personally_inner personally_send_object_lists)

lemma send_all_lists_inner: "send_all_lists A i ms pr w = Inr w' \<Longrightarrow> inner w w'"
proof (induction ms arbitrary: w)
  case (Cons x ms)
  then obtain v where "SendObjectLists A i (snd x) pr w = Inr v" "send_all_lists A i ms pr v = Inr w'"
    by (cases x) (auto simp: res_bind_Inr_iff)
  then show ?case using Cons.IH SendObjectLists_inner inner_trans by blast
qed simp

lemma SendAllObjectLists_inner: "SendAllObjectLists A i pr w = Inr w' \<Longrightarrow> inner w w'"
  by (auto simp: SendAllObjectLists_def intro: send_all_lists_inner split: option.splits)

lemma send_if_modified_inner: "send_if_modified s pr w = Inr (s', w') \<Longrightarrow> inner w w'"
  by (auto simp: send_if_modified_def intro: personally_inner personally_SendStream split: if_splits)

text \<open>The queued messages of the lists.\<close>

lemma update_lists_personally: "update_lists A ob nls w = Inr (nls', w') \<Longrightarrow> sends_personally w w'"
proof (induction nls arbitrary: nls' w)
  case (Cons nl nls)
  then obtain nl1 rest where rest: "update_lists A ob nls (snd (Flush A nl1 w)) = Inr (rest, w')"
    by (auto simp: res_bind_Inr_iff Let_def split_beta)
  have "sends_personally w (snd (Flush A nl1 w))" by (simp add: Flush_def)
  then show ?case using Cons.IH [OF rest] by (rule personally_trans)
qed simp

lemma UpdateListDelta_inner:
  assumes "UpdateListDelta A r w = Inr w'"
  shows "inner w w'"
proof -
  obtain ob nls w1 where u: "update_lists A ob (no_MapList ob) w = Inr (nls, w1)"
    and w': "w' = upd_object r (\<lambda>ob. ob\<lparr>no_MapList := nls\<rparr>) w1"
    using assms by (auto simp: UpdateListDelta_def res_bind_Inr_iff)
  have "inner w w1" by (rule personally_inner [OF update_lists_personally [OF u]])
  moreover have "inner w1 w'" unfolding w' by (rule kept_inner [OF kept_lists [of "{}"], of _ _ _ "[]"]) (simp_all add: frame_simps)
  ultimately show ?thesis by (rule inner_trans)
qed

lemma update_list_deltas_inner: "update_list_deltas A rs w = Inr w' \<Longrightarrow> inner w w'"
proof (induction rs arbitrary: w)
  case (Cons r rs)
  then obtain v where "UpdateListDelta A r w = Inr v" "update_list_deltas A rs v = Inr w'" by (auto simp: res_bind_Inr_iff)
  then show ?case using Cons.IH UpdateListDelta_inner inner_trans by blast
qed simp

lemma DoListUpdate_inner: "DoListUpdate A i w = Inr w' \<Longrightarrow> inner w w'"
  by (auto simp: DoListUpdate_def intro: update_list_deltas_inner split: option.splits)

text \<open>What a peer's messages about lists change.\<close>

lemma upd_list_inner: "inner w (upd_list r j nl w)"
  unfolding upd_list_def by (rule kept_inner [OF kept_lists [of "{}"], of _ _ _ "[]"]) (simp_all add: frame_simps)

lemma remote_lists_inner:
  "on_remote_add A lk pr msg w = Inr w' \<Longrightarrow> inner w w'"
  "on_remote_update A lk pr msg w = Inr w' \<Longrightarrow> inner w w'"
  "on_remote_remove A lk pr msg w = Inr w' \<Longrightarrow> inner w w'"
  by (auto dest!: remote_lists_change simp: one_list_def upd_list_inner)

text \<open>A snapshot behind any stream.\<close>

lemma running_snapshot_inner:
  assumes "w_Running w" "session_ok w" and "DoSnapshot A j s rel forced w = Inr (s', w')"
  shows "inner w w'"
proof -
  obtain vi where vi: "get_instance w j = Some vi" using assms(3) by (auto simp: DoSnapshot_def split: option.splits)
  have "w' = snap_world (all_refs vi) rel forced w"
    using assms(3) unfolding DoSnapshot_eq [OF vi assms(1) session_ok_objects [OF assms(2) vi]]
    by (auto simp: Let_def res_bind_Inr_iff split: if_splits)
  then show ?thesis by (simp add: snap_world_inner)
qed

lemma DoSnapshot_inner: "server_ok i m w \<Longrightarrow> DoSnapshot A j s rel forced w = Inr (s', w') \<Longrightarrow> inner w w'"
  by (rule running_snapshot_inner [OF server_okD(2,3)])

section \<open>Creating\<close>

lemma amap_absent: "k \<notin> fst ` set xs \<Longrightarrow> amap k f xs = xs"
  by (induction xs) (auto simp: amap_def)

definition listed :: "(bytes \<times> manager) list \<Rightarrow> oref list" where
  "listed ms = concat (map (\<lambda>(_, mg). mg_Objects mg) ms)"

lemma listed_simps [simp]: "listed [] = []" "listed (x # ms) = mg_Objects (snd x) @ listed ms"
  by (simp_all add: listed_def case_prod_unfold)

lemma distinct_refs_append:
  assumes "distinct (map fst ms)" "distinct (listed ms)" "r \<notin> set (listed ms)"
  defines "f \<equiv> \<lambda>mg. mg\<lparr>mg_Objects := mg_Objects mg @ [r]\<rparr>"
  shows "distinct (listed (amap m f ms)) \<and> set (listed (amap m f ms)) \<subseteq> insert r (set (listed ms))"
  using assms(1-3)
proof (induction ms)
  case (Cons x ms)
  obtain k mg where x: "x = (k, mg)" by (cases x)
  show ?case
  proof (cases "k = m")
    case True
    then have "amap m f ms = ms" using Cons.prems(1) x by (intro amap_absent) simp
    then have "amap m f (x # ms) = (k, f mg) # ms" using True by (simp add: amap_def x)
    then show ?thesis using Cons.prems x by (auto simp: f_def)
  next
    case False
    then have "amap m f (x # ms) = x # amap m f ms" by (simp add: amap_def x)
    then show ?thesis using Cons.IH Cons.prems x by auto
  qed
qed (simp add: amap_def)

lemma amap_entry: "(j, v') \<in> set (amap k g xs) \<Longrightarrow> \<exists>v. (j, v) \<in> set xs \<and> (v' = v \<or> v' = g v)"
  by (auto simp: amap_def split: if_splits)

lemma session_ok_append:
  assumes w: "session_ok w" "keys_ok w" and r: "w_heap w r \<noteq> None"
    and fresh: "\<And>j vi. (j, vi) \<in> set (w_Instances w) \<Longrightarrow> r \<notin> set (all_refs vi)"
  shows "session_ok (upd_manager i m (\<lambda>mg. mg\<lparr>mg_Objects := mg_Objects mg @ [r]\<rparr>) w)"
proof -
  let ?f = "\<lambda>mg. mg\<lparr>mg_Objects := mg_Objects mg @ [r]\<rparr>"
  have "world_ok (upd_manager i m ?f w)"
    using w(1) r by (intro world_ok_upd_manager) (auto simp: session_ok_def live_def)
  moreover have "distinct (all_refs vi')" if "(j, vi') \<in> set (w_Instances (upd_manager i m ?f w))" for j vi'
  proof -
    have "(j, vi') \<in> set (amap i (\<lambda>vi. vi\<lparr>vi_EntManagers := amap m ?f (vi_EntManagers vi)\<rparr>) (w_Instances w))"
      using that by (simp add: upd_manager_def upd_instance_def)
    then obtain vi where vi: "(j, vi) \<in> set (w_Instances w)"
      and vi': "vi' = vi \<or> vi' = vi\<lparr>vi_EntManagers := amap m ?f (vi_EntManagers vi)\<rparr>"
      by (auto dest: amap_entry)
    have "distinct (listed (vi_EntManagers vi))" "distinct (map fst (vi_EntManagers vi))" "r \<notin> set (listed (vi_EntManagers vi))"
      using w vi fresh by (auto simp: session_ok_def keys_ok_def all_refs_def listed_def)
    then show ?thesis
      using vi' distinct_refs_append [of "vi_EntManagers vi" r m] by (auto simp: all_refs_def listed_def)
  qed
  ultimately show ?thesis by (auto simp: session_ok_def)
qed

text \<open>The world in which \<open>Build\<close> takes its snapshots: the new object exists and is in no list yet.\<close>

definition built :: "app \<Rightarrow> bytes \<Rightarrow> bytes \<Rightarrow> manager \<Rightarrow> peer option \<Rightarrow> world \<Rightarrow> world" where
  "built A i m mg pOwner w = hold (w_NextRef w) (w\<lparr>w_TotalEntities := w_TotalEntities w + 1,
     w_heap := (w_heap w)(w_NextRef w := Some ((SetController NET_CONTROLLER_LOCAL (SetNetID (w_TotalEntities w)
       (ap_construct A (mg_Type mg))))\<lparr>no_Instance := Some i, no_Manager := Some (i, m), no_Peer := pOwner\<rparr>)),
     w_NextRef := Suc (w_NextRef w)\<rparr>)"

lemma built_fields [simp]:
  "w_Server (built A i m mg pOwner w) = w_Server w" "w_Running (built A i m mg pOwner w) = w_Running w"
  "w_Instances (built A i m mg pOwner w) = w_Instances w" "w_Out (built A i m mg pOwner w) = w_Out w"
  "find_manager (built A i m mg pOwner w) i' m' = find_manager w i' m'" "get_instance (built A i m mg pOwner w) i' = get_instance w i'"
  "w_TotalEntities (built A i m mg pOwner w) = w_TotalEntities w + 1" "w_NextRef (built A i m mg pOwner w) = Suc (w_NextRef w)"
  "r \<noteq> w_NextRef w \<Longrightarrow> w_heap (built A i m mg pOwner w) r = w_heap w r" "w_heap (built A i m mg pOwner w) (w_NextRef w) \<noteq> None"
  by (simp_all add: built_def hold_def find_manager_def get_instance_def)

lemma built_netid:
  "netid_of (built A i m mg pOwner w) r = (if r = w_NextRef w then Some (w_TotalEntities w) else netid_of w r)"
  by (simp add: netid_of_def built_def hold_def SetNetID_def SetController_def)

lemma server_refs:
  assumes "server_ok i m w" and "(j, vi) \<in> set (w_Instances w)" and "r \<in> set (all_refs vi)"
  shows "r < w_NextRef w"
proof -
  obtain k mg where "(k, mg) \<in> set (vi_EntManagers vi)" "r \<in> set (mg_Objects mg)" using assms(3) by (auto simp: all_refs_def)
  then have "w_heap w r \<noteq> None" using world_okD(2) [OF server_okD(4) [OF assms(1)] assms(2)] by (auto simp: live_def)
  then show ?thesis using server_okD(5) [OF assms(1)] by auto
qed

lemma server_ok_built:
  assumes A: "tame_app A" and w: "server_ok i m w" and room: "unat (w_TotalEntities w) + 1 < 2 ^ 32"
  shows "server_ok i m (built A i m mg pOwner w) \<and> live_ids (built A i m mg pOwner w) = insert (w_TotalEntities w) (live_ids w)"
proof -
  let ?w = "built A i m mg pOwner w" and ?r = "w_NextRef w" and ?n = "w_TotalEntities w"
  note d = server_okD [OF w]
  have tot: "unat (?n + 1) = unat ?n + 1" using room by (simp add: unat_word_ariths)
  have new: "netid_of w ?r = None" using d(5) [of ?r] by (cases "w_heap w ?r") (auto simp: netid_of_def)
  have unused: "netid_of w r \<noteq> Some ?n" for r using d(5) [of r] by (auto simp: netid_of_def)
  define ob where "ob = (SetController NET_CONTROLLER_LOCAL (SetNetID ?n (ap_construct A (mg_Type mg))))
    \<lparr>no_Instance := Some i, no_Manager := Some (i, m), no_Peer := pOwner\<rparr>"
  have ob: "?w = hold ?r (w\<lparr>w_heap := (w_heap w)(?r \<mapsto> ob), w_NextRef := Suc ?r\<rparr>\<lparr>w_TotalEntities := ?n + 1\<rparr>)"
    using A by (intro world.equality) (simp_all add: ob_def built_def hold_def)
  have ob': "object_ok ob" "no_Manager ob = Some (i, m)" "no_NetCode ob = ?n"
    using A by (simp_all add: ob_def tame_app_def object_ok_def SetNetID_def SetController_def)
  have h: "w_heap ?w = (w_heap w)(?r \<mapsto> ob)" by (simp add: ob hold_def)
  have "world_ok ?w" using world_ok_new [OF d(4) ob'(1)] by (simp add: ob)
  then have "session_ok ?w" using d(3) by (simp add: session_ok_def)
  moreover have "keys_ok ?w" using d(7) by (simp add: keys_ok_def)
  moreover have "no_Manager ob' = Some (i, m) \<and> r < w_NextRef ?w \<and> unat (no_NetCode ob') < unat (w_TotalEntities ?w)"
    if "w_heap ?w r = Some ob'" for r ob'
    using that d(5) [of r ob'] ob'(2,3) tot by (auto simp: h split: if_splits)
  moreover have "r = r'" if "netid_of ?w r = Some nid" "netid_of ?w r' = Some nid" for r r' nid
    using that d(6) unused by (auto simp: built_netid split: if_splits)
  ultimately have "server_ok i m ?w" using w unfolding server_ok_def by (simp split: option.splits)
  moreover have "netid_of ?w r = Some x \<longleftrightarrow> r = ?r \<and> x = ?n \<or> netid_of w r = Some x" for r x
    using new by (auto simp: built_netid)
  then have "x \<in> live_ids ?w \<longleftrightarrow> x = ?n \<or> x \<in> live_ids w" for x by (auto simp: live_ids_def)
  then have "live_ids ?w = insert ?n (live_ids w)" by blast
  ultimately show ?thesis by simp
qed

lemma server_ok_listed:
  assumes w: "server_ok i m w" and r: "w_heap w r \<noteq> None"
    and fresh: "\<And>j vi. (j, vi) \<in> set (w_Instances w) \<Longrightarrow> r \<notin> set (all_refs vi)"
  shows "server_ok i m (upd_manager i m (\<lambda>mg. mg\<lparr>mg_Objects := mg_Objects mg @ [r]\<rparr>) w)" (is "server_ok i m ?w")
proof -
  note d = server_okD [OF w]
  have n: "netid_of ?w = netid_of w" "w_TotalEntities ?w = w_TotalEntities w"
    by (simp_all add: fun_eq_iff netid_of_def frame_simps upd_manager_def upd_instance_def)
  show ?thesis
    using w keys_ok_upd [OF d(7)] session_ok_append [OF d(3,7) r fresh] unfolding server_ok_def n
    by (simp add: frame_simps find_manager_upd_manager split: option.splits)
qed

lemma same_but_vars_trans:
  assumes "same_but_vars w v" "same_but_vars v u"
  shows "same_but_vars w u"
proof -
  have v: "v = w\<lparr>w_heap := w_heap v\<rparr>" and u: "u = v\<lparr>w_heap := w_heap u\<rparr>"
    using assms by (simp_all add: same_but_vars_def)
  have "case w_heap w r of None \<Rightarrow> w_heap u r = None | Some ob \<Rightarrow> \<exists>vs. w_heap u r = Some (ob\<lparr>no_Vars := vs\<rparr>)" for r
    using assms [unfolded same_but_vars_def, THEN conjunct2, rule_format, of r] by (auto split: option.splits)
  moreover have "u = w\<lparr>w_heap := w_heap v, w_heap := w_heap u\<rparr>" using u v by metis
  then have "u = w\<lparr>w_heap := w_heap u\<rparr>" by simp
  ultimately show ?thesis by (simp add: same_but_vars_def)
qed

text \<open>The two snapshots of \<open>Build\<close>: the reliable one goes behind the creation frame.\<close>

lemma Build_snapshots:
  assumes fit: "names_fit i m" and w: "server_ok i m w" and vi: "get_instance w i = Some vi"
    and n: "Suc (var_total w (all_refs vi)) < 2 ^ 16"
  shows "\<exists>s p t us u w3 w4. DoSnapshot A i (stream_push stream_new (frame_of i m (Created nid))) True False w = Inr (s, w3) \<and>
    stream_modified s \<and> stream_result s = Inr (p, t) \<and> p \<noteq> [] \<and> carries i m (Created nid # us) p \<and> updates_only us \<and>
    DoSnapshot A i stream_new False False w3 = Inr (u, w4) \<and>
    (stream_modified u \<longrightarrow> (\<exists>p t us. stream_result u = Inr (p, t) \<and> p \<noteq> [] \<and> carries i m us p \<and> updates_only us)) \<and>
    same_but_vars w w4 \<and> session_ok w4"
proof -
  define f where "f = frame_of i m (Created nid)"
  have fl: "146 \<le> length f" "length f \<le> 209"
    using frame_of_length [OF fit, of "Created nid"] by (simp_all add: f_def announcement_ok_def)
  then have f: "0 < length f \<and> length f < 2 ^ 32" by auto
  have ok: "objects_ok w (all_refs vi)" using session_ok_objects [OF server_okD(3) [OF w] vi] .
  have few: "Suc (length (due_updates v rel forced (all_refs vi))) < 2 ^ 16" if "var_total v (all_refs vi) = var_total w (all_refs vi)" for v rel forced
    using due_updates_total [of v rel forced "all_refs vi"] that n by simp
  let ?us = "update_announcements False (due_updates w True False (all_refs vi))"
  have fs: "instance_frames w True False vi = map (frame_of i m) ?us"
    by (simp add: instance_frames_def update_frames_due update_announcements_frames)
  have len: "Suc (length (map (frame_of i m) ?us)) < 2 ^ 16" using few by (simp add: update_announcements_def)
  define p where "p = snapshot_packet (vi_SequenceID vi) (raise_max 0 (f # map (frame_of i m) ?us)) (f # map (frame_of i m) ?us)"
  have "carries i m (Created nid # ?us) p"
    using announcements_carried [OF fit, of "Created nid # ?us" "vi_SequenceID vi"] update_announcements_ok [OF ok] len
    by (simp add: p_def f_def announcement_ok_def)
  moreover have "p \<noteq> []" using packet_nonempty by (simp add: p_def)
  moreover obtain s t where "DoSnapshot A i (stream_push stream_new f) True False w = Inr (s, snap_world (all_refs vi) True False w)"
    "stream_modified s" "stream_result s = Inr (p, t)"
    using DoSnapshot_behind [OF vi server_okD(2) [OF w] ok conjunct1 [OF f] conjunct2 [OF f] fs len, of A] unfolding p_def by blast
  moreover define w3 where "w3 = snap_world (all_refs vi) True False w"
  have w3: "get_instance w3 i = Some vi" "w_Running w3" "var_total w3 (all_refs vi) = var_total w (all_refs vi)" "session_ok w3"
    using vi server_okD(2) [OF w] same_but_vars_ids(7,10) [OF snap_world_same] snap_world_session [OF server_okD(3) [OF w]]
    by (auto simp: w3_def)
  moreover obtain u where "DoSnapshot A i stream_new False False w3 = Inr (u, snap_world (all_refs vi) False False w3)"
    "stream_modified u \<longrightarrow> (\<exists>p t us. stream_result u = Inr (p, t) \<and> p \<noteq> [] \<and> carries i m us p \<and> updates_only us)"
    using DoSnapshot_updates [OF fit w3(1,2) session_ok_objects [OF w3(4,1)] Suc_lessD [OF few [OF w3(3)]], of A] by blast
  moreover have "same_but_vars w (snap_world (all_refs vi) False False w3)"
    using same_but_vars_trans [OF snap_world_same snap_world_same] by (simp add: w3_def)
  ultimately show ?thesis
    using updates_only_update snap_world_session [OF w3(4)] unfolding f_def w3_def by blast
qed

text \<open>What is sent after the new object is listed, and its lists were sent to its owner.\<close>

lemma Build_sends:
  assumes w: "server_ok i m v" and s: "stream_modified s" "stream_result s = Inr (p, t)" "p \<noteq> []"
      "carries i m (Created nid # us) p" "updates_only us"
    and um: "stream_modified u \<longrightarrow> (\<exists>p t us. stream_result u = Inr (p, t) \<and> p \<noteq> [] \<and> carries i m us p \<and> updates_only us)"
    and out: "w_Out v = w_Out w @ cs" "list_all personal cs" "live_ids v = insert nid (live_ids w)"
  shows "\<exists>w1 u' w2. broadcast_if_modified s True v = Inr (t, w1) \<and> broadcast_if_modified u False w1 = Inr (u', w2) \<and>
    server_ok i m w2 \<and> tells i m w w2 \<and> live_ids w2 = live_ids v"
proof -
  define w1 where "w1 = v\<lparr>w_Out := w_Out v @ [Host_Broadcast p PACKET_FLAG_RELIABLE 0]\<rparr>"
  have b1: "broadcast_if_modified s True v = Inr (t, w1)"
    using BroadcastStream_eq [OF s(2,3), of True v] s(1) server_okD(2) [OF w]
    by (simp add: broadcast_if_modified_def w1_def Broadcast_def transport_def)
  have 1: "server_ok i m w1" "live_ids w1 = live_ids v" using w by (simp_all add: w1_def)
  have t1: "tells i m w w1" unfolding tells_def
    using s(4,5) out by (intro exI [of _ "cs @ [Host_Broadcast p PACKET_FLAG_RELIABLE 0]"] exI [of _ "[Created nid # us]"])
      (simp add: w1_def announced_def updates_only_announced)
  obtain u' w2 where b2: "broadcast_if_modified u False w1 = Inr (u', w2)"
    using um BroadcastStream_eq [of u _ _ False w1] by (cases "stream_modified u") (auto simp: broadcast_if_modified_def)
  then have "serves i m w1 w2"
    by (intro broadcast_tells [OF 1(1) _ um]) (auto simp: broadcast_if_modified_def split: if_splits)
  moreover have "w_heap w2 = w_heap w1"
    using b2 by (auto simp: broadcast_if_modified_def BroadcastStream_def res_bind_Inr_iff Broadcast_def transport_def
      split: if_splits prod.splits)
  then have "live_ids w2 = live_ids w1" by (simp add: live_ids_def netid_of_def)
  ultimately show ?thesis using b1 b2 t1 tells_trans 1(2) unfolding serves_def by metis
qed

text \<open>The owner is sent the lists of all objects, and snapshots of everything in the end.\<close>

definition owner_lists :: "app \<Rightarrow> bytes \<Rightarrow> manager \<Rightarrow> peer option \<Rightarrow> world \<Rightarrow> world res" where
  "owner_lists A i mg pOwner w = (case pOwner of None \<Rightarrow> Inr w | Some p \<Rightarrow> SendObjectLists A i mg (Some p) w)"

definition owner_snapshots :: "app \<Rightarrow> bytes \<Rightarrow> peer option \<Rightarrow> world \<Rightarrow> world res" where
  "owner_snapshots A i pOwner w =
     (case pOwner of None \<Rightarrow> Inr w | Some p \<Rightarrow>
        res_bind (DoSnapshot A i stream_new True True w) (\<lambda>(rs, w9).
        res_bind (DoSnapshot A i stream_new False True w9) (\<lambda>(us, w10).
        res_bind (send_if_modified rs (Some p) w10) (\<lambda>(_, w11).
        res_bind (send_if_modified us (Some p) w11) (\<lambda>(_, w12). Inr w12)))))"

lemma owner_lists_inner: "owner_lists A i mg pOwner w = Inr w' \<Longrightarrow> inner w w'"
  by (auto simp: owner_lists_def intro: SendObjectLists_inner split: option.splits)

lemma owner_snapshots_inner:
  assumes "server_ok i m w" and "owner_snapshots A i pOwner w = Inr w'"
  shows "inner w w'"
proof (cases pOwner)
  case (Some p)
  with assms(2) obtain rs a us b rs' c us' where
    s: "DoSnapshot A i stream_new True True w = Inr (rs, a)" "DoSnapshot A i stream_new False True a = Inr (us, b)"
    "send_if_modified rs (Some p) b = Inr (rs', c)" "send_if_modified us (Some p) c = Inr (us', w')"
    by (auto simp: owner_snapshots_def res_bind_Inr_iff)
  have "inner w a" by (rule DoSnapshot_inner [OF assms(1) s(1)])
  moreover from this have "inner a b" using DoSnapshot_inner [OF serves_ok [OF inner_server [OF _ assms(1)]] s(2)] by blast
  moreover have "inner b c" "inner c w'" using s(3,4) by (auto intro: send_if_modified_inner)
  ultimately show ?thesis using inner_trans by blast
qed (use assms(2) in \<open>simp add: owner_snapshots_def\<close>)

text \<open>\<open>Build\<close> up to the point where the new object is listed: its snapshots are taken, nothing is sent.\<close>

lemma Build_prefix:
  assumes fit: "names_fit i m" and A: "tame_app A" and w: "server_ok i m w" and n: "countable_updates i w"
    and room: "unat (w_TotalEntities w) + 1 < 2 ^ 32"
  shows "\<exists>cb mg s p t us u v. server_ok i m v \<and> w_Out v = w_Out w \<and> live_ids v = insert (w_TotalEntities w) (live_ids w) \<and>
    stream_modified s \<and> stream_result s = Inr (p, t) \<and> p \<noteq> [] \<and> carries i m (Created (w_TotalEntities w) # us) p \<and> updates_only us \<and>
    (stream_modified u \<longrightarrow> (\<exists>p t us. stream_result u = Inr (p, t) \<and> p \<noteq> [] \<and> carries i m us p \<and> updates_only us)) \<and>
    Build A i m pOwner w =
      res_bind (owner_lists A i mg pOwner v) (\<lambda>w6.
      res_bind (broadcast_if_modified s True w6) (\<lambda>(_, w7).
      res_bind (broadcast_if_modified u False w7) (\<lambda>(_, w8).
      res_bind (owner_snapshots A i pOwner w8) (\<lambda>w13.
      let w14 = (case cb of None \<Rightarrow> w13 | Some n \<Rightarrow> ap_create A n (w_NextRef w) w13)
      in Inr (Some (w_NextRef w), ap_initialize A (w_NextRef w) w14)))))"
proof -
  let ?r = "w_NextRef w" and ?nid = "w_TotalEntities w"
  obtain mg where mg: "find_manager w i m = Some mg" "mg_Name mg = m" using w by (rule server_manager)
  obtain vi where vi: "get_instance w i = Some vi" using w by (rule server_instance)
  define w2 where "w2 = built A i m mg pOwner w"
  note 2 = server_ok_built [OF A w room, of mg pOwner, folded w2_def]
  have in_i: "(i, vi) \<in> set (w_Instances w)" using vi by (simp add: get_instance_def map_of_SomeD)
  then have "r \<noteq> ?r" if "r \<in> set (all_refs vi)" for r using server_refs [OF w in_i that] by simp
  then have "var_total w2 (all_refs vi) = var_total w (all_refs vi)"
    by (intro var_total_cong) (simp add: w2_def var_count_def)
  then have "get_instance w2 i = Some vi" "Suc (var_total w2 (all_refs vi)) < 2 ^ 16"
    using n vi by (simp_all add: countable_updates_def w2_def)
  from Build_snapshots [OF fit conjunct1 [OF 2] this, of A ?nid] obtain s p t us u w3 w4 where
    rs: "DoSnapshot A i (stream_push stream_new (frame_of i m (Created ?nid))) True False w2 = Inr (s, w3)"
    and s: "stream_modified s" "stream_result s = Inr (p, t)" "p \<noteq> []" "carries i m (Created ?nid # us) p" "updates_only us"
    and us: "DoSnapshot A i stream_new False False w3 = Inr (u, w4)"
    and um: "stream_modified u \<longrightarrow> (\<exists>p t us. stream_result u = Inr (p, t) \<and> p \<noteq> [] \<and> carries i m us p \<and> updates_only us)"
    and w4: "same_but_vars w2 w4" "session_ok w4" by blast
  note 4 = same_but_vars_server [OF w4 conjunct1 [OF 2]] same_but_vars_ids [OF w4(1)]
  define w5 where "w5 = upd_manager i m (\<lambda>mg. mg\<lparr>mg_Objects := mg_Objects mg @ [?r]\<rparr>) w4"
  have "netid_of w4 ?r = Some ?nid" by (simp add: 4(2) w2_def built_netid)
  then have "w_heap w4 ?r \<noteq> None" by (auto simp: netid_of_def)
  moreover have "w_Instances w4 = w_Instances w" by (simp add: 4 w2_def)
  ultimately have 5: "server_ok i m w5" unfolding w5_def using 4(1) server_refs [OF w]
    by (intro server_ok_listed) fastforce+
  have "netid_of w5 = netid_of w4" by (simp add: w5_def fun_eq_iff netid_of_def frame_simps)
  then have live5: "live_ids w5 = insert ?nid (live_ids w)" using 2 4(2) by (simp add: live_ids_def)
  have out5: "w_Out w5 = w_Out w" by (simp add: w5_def frame_simps 4 w2_def)
  have B: "Build A i m pOwner w =
      res_bind (owner_lists A i (mg\<lparr>mg_Objects := mg_Objects mg @ [?r]\<rparr>) pOwner w5) (\<lambda>w6.
      res_bind (broadcast_if_modified s True w6) (\<lambda>(_, w7).
      res_bind (broadcast_if_modified u False w7) (\<lambda>(_, w8).
      res_bind (owner_snapshots A i pOwner w8) (\<lambda>w13.
      let w14 = (case mg_cbCreate mg of None \<Rightarrow> w13 | Some n \<Rightarrow> ap_create A n ?r w13)
      in Inr (Some ?r, ap_initialize A ?r w14)))))"
    using mg fit server_okD(1) [OF w] rs us
    by (simp add: Build_def GetNextID_def Let_def creation_frame_image frame_of_def owner_lists_def [symmetric]
        owner_snapshots_def [symmetric] built_def [symmetric] w2_def [symmetric] w5_def [symmetric]
        cong: option.case_cong)
  show ?thesis using B 5 live5 out5 s um by blast
qed

text \<open>\<open>Build\<close> tells the clients of the new object. For no owner it succeeds.\<close>

lemma Build_server:
  assumes fit: "names_fit i m" and A: "tame_app A" and w: "server_ok i m w" and n: "countable_updates i w"
    and room: "unat (w_TotalEntities w) + 1 < 2 ^ 32"
  shows "pOwner = None \<Longrightarrow> \<exists>w'. Build A i m pOwner w = Inr (Some (w_NextRef w), w')"
    and "Build A i m pOwner w = Inr (x, w') \<Longrightarrow> server_ok i m w' \<and> tells i m w w' \<and>
      live_ids w' = insert (w_TotalEntities w) (live_ids w)"
proof -
  let ?r = "w_NextRef w"
  obtain cb mg s p t us u v where v: "server_ok i m v" "w_Out v = w_Out w" "live_ids v = insert (w_TotalEntities w) (live_ids w)"
    and s: "stream_modified s" "stream_result s = Inr (p, t)" "p \<noteq> []" "carries i m (Created (w_TotalEntities w) # us) p" "updates_only us"
    and um: "stream_modified u \<longrightarrow> (\<exists>p t us. stream_result u = Inr (p, t) \<and> p \<noteq> [] \<and> carries i m us p \<and> updates_only us)"
    and B: "Build A i m pOwner w = res_bind (owner_lists A i mg pOwner v) (\<lambda>w6.
      res_bind (broadcast_if_modified s True w6) (\<lambda>(_, w7). res_bind (broadcast_if_modified u False w7) (\<lambda>(_, w8).
      res_bind (owner_snapshots A i pOwner w8) (\<lambda>w13.
      let w14 = (case cb of None \<Rightarrow> w13 | Some n \<Rightarrow> ap_create A n ?r w13)
      in Inr (Some ?r, ap_initialize A ?r w14)))))"
    using Build_prefix [OF assms, of pOwner] by blast
  have sends: "\<exists>w1 u' w2. broadcast_if_modified s True w6 = Inr (t, w1) \<and> broadcast_if_modified u False w1 = Inr (u', w2) \<and>
      server_ok i m w2 \<and> tells i m w w2 \<and> live_ids w2 = insert (w_TotalEntities w) (live_ids w)" if i: "inner v w6" for w6
  proof -
    obtain cs where "w_Out w6 = w_Out v @ cs" "list_all personal cs" using i unfolding inner_def by blast
    then have "w_Out w6 = w_Out w @ cs" "list_all personal cs" by (simp_all add: v(2))
    moreover have "live_ids w6 = live_ids v" by (simp add: live_ids_def inner_netid [OF i])
    ultimately show ?thesis
      using Build_sends [OF serves_ok [OF inner_server [OF i v(1)]] s um, of w cs] v(3) by simp
  qed
  show "\<exists>w'. Build A i m pOwner w = Inr (Some ?r, w')" if "pOwner = None"
    unfolding B using sends [OF inner_refl] that by (auto simp: owner_lists_def owner_snapshots_def Let_def)
  assume "Build A i m pOwner w = Inr (x, w')"
  then obtain w6 w7 w8 w13 where o: "owner_lists A i mg pOwner v = Inr w6" "owner_snapshots A i pOwner w8 = Inr w13"
    and b: "\<exists>a. broadcast_if_modified s True w6 = Inr (a, w7)" "\<exists>a. broadcast_if_modified u False w7 = Inr (a, w8)"
    and w': "w' = ap_initialize A ?r (case cb of None \<Rightarrow> w13 | Some n \<Rightarrow> ap_create A n ?r w13)"
    by (auto simp: B res_bind_Inr_iff Let_def)
  have 8: "server_ok i m w8" "tells i m w w8" "live_ids w8 = insert (w_TotalEntities w) (live_ids w)"
  proof -
    obtain w1 u' w2 where "broadcast_if_modified s True w6 = Inr (t, w1)" "broadcast_if_modified u False w1 = Inr (u', w2)"
      and 2: "server_ok i m w2" "tells i m w w2" "live_ids w2 = insert (w_TotalEntities w) (live_ids w)"
      using sends [OF owner_lists_inner [OF o(1)]] by blast
    then have "w8 = w2" using b by simp
    then show "server_ok i m w8" "tells i m w w8" "live_ids w8 = insert (w_TotalEntities w) (live_ids w)" using 2 by simp_all
  qed
  have "inner w8 w13" by (rule owner_snapshots_inner [OF 8(1) o(2)])
  also have "inner w13 (case cb of None \<Rightarrow> w13 | Some n \<Rightarrow> ap_create A n ?r w13)"
    using A by (auto simp: tame_app_def split: option.split)
  also have "inner \<dots> w'" using A by (simp add: w' tame_app_def)
  finally have i: "inner w8 w'" .
  from inner_server [OF i 8(1)] show "server_ok i m w' \<and> tells i m w w' \<and> live_ids w' = insert (w_TotalEntities w) (live_ids w)"
    using 8 tells_trans by (auto simp: serves_def live_ids_def inner_netid [OF i])
qed

section \<open>The tick and the welcome\<close>

text \<open>
  \<open>PostUpdate\<close> deletes the objects only the manager's list still refers to, and tells so; the others
  are told their role.
\<close>

lemma post_update_objects_server:
  assumes fit: "names_fit i m" and A: "tame_app A"
  shows "server_ok i m w \<Longrightarrow> post_update_objects A j nm rs w = Inr w' \<Longrightarrow> serves i m w w'"
proof (induction rs arbitrary: w)
  case (Cons r rs)
  then obtain ob where ob: "deref w r = Inr ob" by (auto simp: res_bind_Inr_iff)
  show ?case
  proof (cases "use_count w r = 1 \<and> w_Server w")
    case True
    define v where "v = upd_manager j nm (\<lambda>mg. mg\<lparr>mg_Objects := remove1 r (mg_Objects mg)\<rparr>) w"
    have wv: "serves i m w v" unfolding v_def by (rule server_ok_shrink [OF Cons.prems(1)]) simp_all
    obtain u where u: "release A r v = Inr u" "post_update_objects A j nm rs u = Inr w'"
      using Cons.prems(2) True ob by (auto simp: v_def Let_def res_bind_Inr_iff)
    have vu: "serves i m v u" by (rule release_server [OF fit A serves_ok [OF wv] u(1)])
    show ?thesis using wv vu Cons.IH [OF serves_ok [OF vu] u(2)] serves_trans by blast
  next
    case False
    then obtain a b where u: "post_update_objects A j nm rs (ap_network_update A r a b w) = Inr w'"
      using Cons.prems(2) ob by (auto simp: Let_def)
    have wu: "serves i m w (ap_network_update A r a b w)"
      using A by (intro inner_server [OF _ Cons.prems(1)]) (simp add: tame_app_def)
    show ?thesis using wu Cons.IH [OF serves_ok [OF wu] u] by (rule serves_trans)
  qed
qed (simp add: serves_refl)

lemma post_update_managers_server:
  assumes fit: "names_fit i m" and A: "tame_app A"
  shows "server_ok i m w \<Longrightarrow> post_update_managers A j nms w = Inr w' \<Longrightarrow> serves i m w w'"
proof (induction nms arbitrary: w)
  case (Cons nm nms)
  then obtain v where v: "ent_PostUpdate A j nm w = Inr v" "post_update_managers A j nms v = Inr w'"
    by (auto simp: res_bind_Inr_iff)
  then have "serves i m w v"
    using post_update_objects_server [OF fit A Cons.prems(1)] server_okD(2) [OF Cons.prems(1)]
    by (auto simp: ent_PostUpdate_def split: option.splits)
  then show ?case using Cons.IH [OF _ v(2)] serves_ok serves_trans by blast
qed (simp add: serves_refl)

lemma shape_instance:
  assumes "shape_of w = [(i, [])]"
  shows "map fst (w_Instances w) = [i]" "\<exists>vi. get_instance w i = Some vi \<and> vi_PendingDeletes vi = []"
  using assms by (auto simp: shape_of_def get_instance_def)

lemma DoPostUpdate_server:
  assumes fit: "names_fit i m" and A: "tame_app A" and w: "server_ok i m w" and shape: "shape_of w = [(i, [])]"
    and p: "DoPostUpdate A i w = Inr w'"
  shows "serves i m w w'"
proof -
  obtain v vi u where v: "DoListUpdate A i w = Inr v" "get_instance v i = Some vi"
    and u: "process_deletes A i (vi_PendingDeletes vi) v = Inr u" "post_update_managers A i (manager_names u i) u = Inr w'"
    using p by (auto simp: DoPostUpdate_def res_bind_Inr_iff split: option.splits)
  have wv: "serves i m w v" by (rule inner_server [OF DoListUpdate_inner [OF v(1)] w])
  then have "u = v" using shape_instance(2) [of v i] shape v(2) u(1) by (auto simp: serves_def)
  with u(2) have "serves i m v w'" using post_update_managers_server [OF fit A serves_ok [OF wv]] by blast
  then show ?thesis by (rule serves_trans [OF wv])
qed

text \<open>Both snapshots of the instance, then what was due is sent.\<close>

lemma snapshot_instances_server:
  assumes fit: "names_fit i m" and w: "server_ok i m w" and n: "countable_updates i w"
    and s: "snapshot_instances A [i] stream_new stream_new w = Inr w'"
  shows "serves i m w w'"
proof -
  obtain r a u b r' c u' where
    r: "DoSnapshot A i stream_new True False w = Inr (r, a)" and u: "DoSnapshot A i stream_new False False a = Inr (u, b)"
    and send: "send_snapshot r b = Inr (r', c)" "send_snapshot u c = Inr (u', w')"
    using s by (auto simp: res_bind_Inr_iff)
  note 1 = snapshot_taken [OF fit w n r]
  have wa: "serves i m w a" by (rule inner_server [OF 1(1) w])
  note 2 = snapshot_taken [OF fit serves_ok [OF wa] 1(2) u]
  have ab: "serves i m a b" by (rule inner_server [OF 2(1) serves_ok [OF wa]])
  have bc: "serves i m b c" by (rule send_snapshot_server [OF serves_ok [OF ab] send(1) 1(3)])
  have "serves i m c w'" by (rule send_snapshot_server [OF serves_ok [OF bc] send(2) 2(3)])
  with wa ab bc show ?thesis using serves_trans by blast
qed

lemma Update_server:
  assumes fit: "names_fit i m" and A: "tame_app A" and w: "server_ok i m w" and n: "countable_updates i w"
    and shape: "shape_of w = [(i, [])]" and up: "Update A w = Inr w'"
  shows "serves i m w w'"
proof -
  obtain a b d where a: "snapshot_instances A [i] stream_new stream_new w = Inr a"
    and b: "post_update_instances A (map fst (w_Instances a)) a = Inr b"
    and d: "post_update_instances A (map fst (w_Instances (ap_post_update A b))) (ap_post_update A b) = Inr d"
    and w': "w' = ap_post_update A d"
    using up server_okD(2) [OF w] shape_instance(1) [OF shape]
    by (auto simp: Update_def SnapshotUpdate_def ControllerUpdate_def res_bind_Inr_iff)
  have post: "serves i m x (ap_post_update A x)" if "server_ok i m x" for x
    using A by (intro inner_server [OF _ that]) (simp add: tame_app_def)
  have wa: "serves i m w a" by (rule snapshot_instances_server [OF fit w n a])
  then have "shape_of a = [(i, [])]" by (simp add: serves_def shape)
  then have ab: "serves i m a b"
    using b shape_instance(1) DoPostUpdate_server [OF fit A serves_ok [OF wa]] by (auto simp: res_bind_Inr_iff)
  have bc: "serves i m b (ap_post_update A b)" by (rule post [OF serves_ok [OF ab]])
  have "shape_of (ap_post_update A b) = [(i, [])]" using wa ab bc shape by (simp add: serves_def)
  then have cd: "serves i m (ap_post_update A b) d"
    using d shape_instance(1) DoPostUpdate_server [OF fit A serves_ok [OF bc]] by (auto simp: res_bind_Inr_iff)
  have "serves i m d w'" unfolding w' by (rule post [OF serves_ok [OF cd]])
  with wa ab bc cd show ?thesis using serves_trans by blast
qed

text \<open>\<open>SendWorld\<close> sends to the peer it welcomes and to nobody else.\<close>

lemma SendWorld_inner:
  assumes "server_ok i m w" and "SendWorld A pr w = Inr w'"
  shows "inner w w'"
proof -
  have "server_ok i m w \<Longrightarrow> send_world A pr js r u w = Inr w' \<Longrightarrow> inner w w'" for js r u w
  proof (induction js arbitrary: r u w)
    case (Cons j js)
    then obtain a r1 b u1 c r2 d u2 e where
      s: "SendAllObjectLists A j pr w = Inr a" "DoSnapshot A j r True True a = Inr (r1, b)"
      "DoSnapshot A j u False True b = Inr (u1, c)" "send_if_modified r1 pr c = Inr (r2, d)"
      "send_if_modified u1 pr d = Inr (u2, e)" and rest: "send_world A pr js r2 u2 e = Inr w'"
      by (auto simp: res_bind_Inr_iff)
    have ok: "server_ok i m y" if "inner w y" for y using serves_ok [OF inner_server [OF that Cons.prems(1)]] .
    have a: "inner w a" by (rule SendAllObjectLists_inner [OF s(1)])
    also have "inner a b" by (rule DoSnapshot_inner [OF ok [OF a] s(2)])
    finally have b: "inner w b" .
    also have "inner b c" by (rule DoSnapshot_inner [OF ok [OF b] s(3)])
    also have "inner c d" by (rule send_if_modified_inner [OF s(4)])
    also have "inner d e" by (rule send_if_modified_inner [OF s(5)])
    finally have e: "inner w e" .
    show ?case using e Cons.IH [OF ok [OF e] rest] by (rule inner_trans)
  qed simp
  then show ?thesis using assms by (simp add: SendWorld_def)
qed

end
