(* ===== verification/Convergence.thy ===== *)
theory Convergence
  imports Server_Tells
begin

text \<open>
  A server and a client over time. The reliable packets of the server reach the client in their order;
  its unreliable packets are lost, repeated or overtaken. Whatever the server creates and deletes, and
  whatever else happens in between, the client's set of objects is the server's once the reliable
  packets that are still on their way have been delivered.
\<close>

section \<open>The server\<close>

text \<open>
  The steps of a running server with peers of which \<open>q\<close> is the client that is watched: an object is
  created, for no owner or for another peer; one is freed; the application takes or drops a handle; the
  controller's whole tick \<open>Update\<close>, which sends the snapshots, flushes the lists and deletes the objects
  nobody holds any more; a snapshot of its own; the lists of an object are flushed; the packet of a
  peer is handled; a peer comes or goes; another peer is welcomed with \<open>SendWorld\<close>; the application writes
  into its objects.
\<close>

inductive server_step :: "app \<Rightarrow> bytes \<Rightarrow> bytes \<Rightarrow> peer \<Rightarrow> world \<Rightarrow> world \<Rightarrow> bool" for A i m q where
  build: "countable_updates i w \<Longrightarrow> unat (w_TotalEntities w) + 1 < 2 ^ 32 \<Longrightarrow> pOwner \<noteq> Some q \<Longrightarrow>
    Build A i m pOwner w = Inr (r, w') \<Longrightarrow> server_step A i m q w w'"
| free: "FreeLocal A i m nid w = Inr w' \<Longrightarrow> server_step A i m q w w'"
| take: "server_step A i m q w (hold r w)"
| drop: "release A r (unhold r w) = Inr w' \<Longrightarrow> server_step A i m q w w'"
| tick: "countable_updates i w \<Longrightarrow> shape_of w = [(i, [])] \<Longrightarrow> Update A w = Inr w' \<Longrightarrow> server_step A i m q w w'"
| snapshot: "countable_updates i w \<Longrightarrow> DoSnapshot A i stream_new reliable forced w = Inr (s, v) \<Longrightarrow>
    send_snapshot s v = Inr (s', w') \<Longrightarrow> server_step A i m q w w'"
| post_update: "ent_PostUpdate A j nm w = Inr w' \<Longrightarrow> server_step A i m q w w'"
| flush: "UpdateListDelta A r w = Inr w' \<Longrightarrow> server_step A i m q w w'"
| packet: "h \<in> peer_handlers \<Longrightarrow> run_handler A lock_ok h data (Some p) w = Inr w' \<Longrightarrow> server_step A i m q w w'"
| peers: "ev_type e \<noteq> EVENT_RECEIVE \<Longrightarrow> process_event run e w = Inr w' \<Longrightarrow> server_step A i m q w w'"
| greet: "p \<noteq> q \<Longrightarrow> SendWorld A (Some p) w = Inr w' \<Longrightarrow> server_step A i m q w w'"
| assign: "inner w w' \<Longrightarrow> server_step A i m q w w'"

lemma server_frames_inner:
  assumes "HandleClientEntSnapshot A data (Some p) w = Inr w'" and "session_ok w"
  shows "inner w w'"
proof -
  have c: "peer_changes p w w'"
    using assms(1) by (auto simp: HandleClientEntSnapshot_def res_bind_Inr_iff peer_changes_refl
      intro: frame_loop_changes split: if_splits)
  then have "w_Out w' = w_Out w @ []" using same_but_vars_ids(3) [OF peer_changes_same] by simp
  then show ?thesis by (rule kept_inner [OF peer_changes_kept [OF c]]) simp
qed

lemma peer_packet_inner:
  assumes "h \<in> peer_handlers" "run_handler A lk h data (Some p) w = Inr w'" "session_ok w"
  shows "inner w w'"
  using assms by (auto simp: peer_handlers_def run_handler_def res_bind_Inr_iff intro: server_frames_inner remote_lists_inner)

lemma peers_server:
  assumes "ev_type e \<noteq> EVENT_RECEIVE" "process_event run e w = Inr w'" "server_ok i m w"
  shows "serves i m w w'"
proof -
  obtain ps c where "w' = w\<lparr>w_PeerList := ps, w_Connected := c\<rparr>"
    using assms(1,2) by (auto simp: process_event_def split: event_type.splits)
  then show ?thesis
    using assms(3) by (simp add: serves_def tells_silent live_ids_def netid_of_def shape_of_def server_ok_def session_ok_def
      world_ok_def live_def keys_ok_def find_manager_def get_instance_def cong: option.case_cong)
qed

lemma server_step_tells:
  assumes fit: "names_fit i m" and A: "tame_app A" and w: "server_ok i m w" and step: "server_step A i m q w w'"
  shows "server_ok i m w' \<and> tells i m w w'"
proof -
  note ok = server_okD(3) [OF w]
  from step have "serves i m w w' \<or> server_ok i m w' \<and> tells i m w w'"
  proof cases
    case (build pOwner r)
    then show ?thesis using Build_server(2) [OF fit A w] by blast
  next
    case (free nid)
    then show ?thesis using FreeLocal_server [OF fit A w] by blast
  next
    case (take r)
    moreover have "tells i m w (hold r w)" by (rule tells_silent) (simp add: hold_def, simp)
    ultimately show ?thesis using w by simp
  next
    case (drop r)
    have "serves i m (unhold r w) w'" using w by (intro release_server [OF fit A _ drop]) simp
    moreover have "tells i m w (unhold r w)" by (rule tells_silent) (simp add: unhold_def, simp)
    ultimately show ?thesis using tells_trans unfolding serves_def by blast
  next
    case tick
    then show ?thesis using Update_server [OF fit A w] by blast
  next
    case (snapshot reliable forced s v s')
    note 1 = snapshot_taken [OF fit w snapshot(1,2)]
    have wv: "serves i m w v" by (rule inner_server [OF 1(1) w])
    then show ?thesis using send_snapshot_server [OF serves_ok [OF wv] snapshot(3) 1(3)] serves_trans by blast
  next
    case (post_update j nm)
    then show ?thesis using post_update_managers_server [OF fit A w, of j "[nm]"] by simp
  next
    case (flush r)
    then show ?thesis using inner_server [OF UpdateListDelta_inner w] by blast
  next
    case (packet h lk data p)
    then show ?thesis using inner_server [OF peer_packet_inner [OF _ _ ok] w] by blast
  next
    case (peers e run)
    then show ?thesis using peers_server w by blast
  next
    case (greet p)
    then show ?thesis using inner_server [OF SendWorld_inner [OF w] w] by blast
  next
    case assign
    then show ?thesis using inner_server w by blast
  qed
  then show ?thesis by (auto simp: serves_def)
qed

section \<open>The client\<close>

text \<open>
  What a client does beside handling snapshots stays inside its objects: the messages about lists and
  the ownership messages it is sent, and its own tick, whose snapshots go to the server.
\<close>

definition client_handlers :: "handler set" where
  "client_handlers = {H_List_Add, H_List_Update, H_List_Remove, H_EntOwnership}"

lemma client_packet_inner:
  assumes "h \<in> client_handlers" "run_handler A lk h data pr w = Inr w'"
  shows "inner w w'"
  using assms by (auto simp: client_handlers_def run_handler_def res_bind_Inr_iff HandleEntOwnership_def
      intro: remote_lists_inner split: if_splits)

lemma client_send_inner: "send_snapshot s w = Inr (s', w') \<Longrightarrow> \<not> w_Server w \<Longrightarrow> inner w w'"
  by (auto simp: send_snapshot_def intro: personally_inner personally_SendStream split: if_splits)

lemma client_post_update_objects:
  assumes A: "tame_app A"
  shows "\<not> w_Server w \<Longrightarrow> post_update_objects A j nm rs w = Inr w' \<Longrightarrow> inner w w'"
proof (induction rs arbitrary: w)
  case (Cons r rs)
  then obtain a b where u: "post_update_objects A j nm rs (ap_network_update A r a b w) = Inr w'"
    by (auto simp: Let_def res_bind_Inr_iff)
  have i: "inner w (ap_network_update A r a b w)" using A by (simp add: tame_app_def)
  show ?case using i Cons.IH [OF _ u] Cons.prems(1) inner_fields(3) [OF i] inner_trans by blast
qed simp

lemma client_post_update_managers:
  assumes A: "tame_app A"
  shows "\<not> w_Server w \<Longrightarrow> post_update_managers A j nms w = Inr w' \<Longrightarrow> inner w w'"
proof (induction nms arbitrary: w)
  case (Cons nm nms)
  then obtain v where v: "ent_PostUpdate A j nm w = Inr v" "post_update_managers A j nms v = Inr w'"
    by (auto simp: res_bind_Inr_iff)
  then have i: "inner w v"
    using client_post_update_objects [OF A Cons.prems(1)] by (auto simp: ent_PostUpdate_def split: option.splits if_splits)
  show ?case using i Cons.IH [OF _ v(2)] Cons.prems(1) inner_fields(3) [OF i] inner_trans by blast
qed simp

text \<open>No manager is about to be deleted.\<close>

definition managers_stay :: "world \<Rightarrow> bool" where
  "managers_stay w \<longleftrightarrow> (\<forall>(j, vi) \<in> set (w_Instances w). vi_PendingDeletes vi = [])"

definition client_runs :: "world \<Rightarrow> bool" where
  "client_runs w \<longleftrightarrow> \<not> w_Server w \<and> session_ok w \<and> managers_stay w"

lemma client_runs_inner: "inner w w' \<Longrightarrow> client_runs w \<Longrightarrow> client_runs w'"
  using inner_session_ok inner_fields(1,3) by (auto simp: client_runs_def managers_stay_def)

lemma client_post_update_instances:
  assumes A: "tame_app A"
  shows "client_runs w \<Longrightarrow> post_update_instances A js w = Inr w' \<Longrightarrow> inner w w'"
proof (induction js arbitrary: w)
  case (Cons j js)
  then obtain x where x: "DoPostUpdate A j w = Inr x" "post_update_instances A js x = Inr w'" by (auto simp: res_bind_Inr_iff)
  then obtain v vi u where v: "DoListUpdate A j w = Inr v" "get_instance v j = Some vi"
    and u: "process_deletes A j (vi_PendingDeletes vi) v = Inr u" "post_update_managers A j (manager_names u j) u = Inr x"
    by (auto simp: DoPostUpdate_def res_bind_Inr_iff split: option.splits)
  note wv = DoListUpdate_inner [OF v(1)]
  have cv: "client_runs v" by (rule client_runs_inner [OF wv Cons.prems(1)])
  then have "vi_PendingDeletes vi = []" using v(2) by (auto simp: client_runs_def managers_stay_def get_instance_def dest: map_of_SomeD)
  then have "inner v x" using u client_post_update_managers [OF A] cv by (auto simp: client_runs_def)
  with wv have wx: "inner w x" by (rule inner_trans)
  show ?case using wx Cons.IH [OF client_runs_inner [OF wx Cons.prems(1)] x(2)] by (rule inner_trans)
qed simp

lemma client_snapshot_instances: "client_runs w \<Longrightarrow> w_Running w \<Longrightarrow> snapshot_instances A js r u w = Inr w' \<Longrightarrow> inner w w'"
proof (induction js arbitrary: r u w)
  case (Cons j js)
  then obtain r1 a u1 b r2 c u2 d where
    s: "DoSnapshot A j r True False w = Inr (r1, a)" "DoSnapshot A j u False False a = Inr (u1, b)"
    "send_snapshot r1 b = Inr (r2, c)" "send_snapshot u1 c = Inr (u2, d)" and rest: "snapshot_instances A js r2 u2 d = Inr w'"
    by (auto simp: res_bind_Inr_iff)
  have runs: "client_runs y \<and> w_Running y \<and> session_ok y \<and> \<not> w_Server y" if "inner w y" for y
    using client_runs_inner [OF that Cons.prems(1)] Cons.prems(2) inner_fields(2) [OF that] by (simp add: client_runs_def)
  have a: "inner w a" using running_snapshot_inner [OF _ _ s(1)] runs [OF inner_refl] by blast
  also have "inner a b" using running_snapshot_inner [OF _ _ s(2)] runs [OF a] by blast
  finally have b: "inner w b" .
  also have "inner b c" using client_send_inner [OF s(3)] runs [OF b] by blast
  finally have c: "inner w c" .
  also have "inner c d" using client_send_inner [OF s(4)] runs [OF c] by blast
  finally have d: "inner w d" .
  show ?case using d Cons.IH [OF _ _ rest] runs [OF d] inner_trans by blast
qed simp

lemma client_Update_inner:
  assumes A: "tame_app A" and w: "client_runs w" and up: "Update A w = Inr w'"
  shows "inner w w'"
proof (cases "w_Running w")
  case True
  with up obtain a b d where a: "snapshot_instances A (map fst (w_Instances w)) stream_new stream_new w = Inr a"
    and b: "post_update_instances A (map fst (w_Instances a)) a = Inr b"
    and d: "post_update_instances A (map fst (w_Instances (ap_post_update A b))) (ap_post_update A b) = Inr d"
    and w': "w' = ap_post_update A d"
    by (auto simp: Update_def SnapshotUpdate_def ControllerUpdate_def res_bind_Inr_iff)
  have post: "inner x (ap_post_update A x)" for x using A by (simp add: tame_app_def)
  have wa: "inner w a" by (rule client_snapshot_instances [OF w True a])
  also have "inner a b" by (rule client_post_update_instances [OF A client_runs_inner [OF wa w] b])
  also note post [of b]
  finally have c: "inner w (ap_post_update A b)" .
  also have "inner (ap_post_update A b) d" by (rule client_post_update_instances [OF A client_runs_inner [OF c w] d])
  also note post [of d]
  finally show ?thesis by (simp add: w')
qed (use up in \<open>simp add: Update_def\<close>)

section \<open>Server, channels and client\<close>

record cluster =
  cl_server :: world
  cl_reliable :: "bytes list"
  cl_unreliable :: "bytes list"
  cl_client :: world

text \<open>What a step sent: the calls to the transport since the state before it.\<close>

definition new_calls :: "world \<Rightarrow> world \<Rightarrow> transport_call list" where
  "new_calls w w' = List.drop (length (w_Out w)) (w_Out w')"

inductive cluster_step :: "app \<Rightarrow> app \<Rightarrow> bytes \<Rightarrow> bytes \<Rightarrow> peer \<Rightarrow> cluster \<Rightarrow> cluster \<Rightarrow> bool" for A B i m q where
  serve: "server_step A i m q (cl_server z) w' \<Longrightarrow> cluster_step A B i m q z
    (z\<lparr>cl_server := w', cl_reliable := cl_reliable z @ reliable_packets (new_calls (cl_server z) w'),
       cl_unreliable := cl_unreliable z @ unreliable_packets (new_calls (cl_server z) w')\<rparr>)"
| deliver: "cl_reliable z = p # ps \<Longrightarrow> HandleEntSnapshot B p (cl_client z) = Inr c \<Longrightarrow>
    cluster_step A B i m q z (z\<lparr>cl_reliable := ps, cl_client := c\<rparr>)"
| stray: "p \<in> set (cl_unreliable z) \<Longrightarrow> HandleEntSnapshot B p (cl_client z) = Inr c \<Longrightarrow>
    cluster_step A B i m q z (z\<lparr>cl_client := c\<rparr>)"
| other: "h \<in> client_handlers \<Longrightarrow> run_handler B lock_ok h data pr (cl_client z) = Inr c \<Longrightarrow>
    cluster_step A B i m q z (z\<lparr>cl_client := c\<rparr>)"
| client_tick: "client_runs (cl_client z) \<Longrightarrow> Update B (cl_client z) = Inr c \<Longrightarrow> cluster_step A B i m q z (z\<lparr>cl_client := c\<rparr>)"
| local: "inner (cl_client z) c \<Longrightarrow> cluster_step A B i m q z (z\<lparr>cl_client := c\<rparr>)"

inductive cluster_run :: "app \<Rightarrow> app \<Rightarrow> bytes \<Rightarrow> bytes \<Rightarrow> peer \<Rightarrow> cluster \<Rightarrow> cluster \<Rightarrow> bool" for A B i m q where
  start: "cluster_run A B i m q z z"
| step: "cluster_run A B i m q z y \<Longrightarrow> cluster_step A B i m q y x \<Longrightarrow> cluster_run A B i m q z x"

text \<open>
  The invariant: the client lags behind the server by the announcements that are still on their way.
\<close>

definition lagging :: "bytes \<Rightarrow> bytes \<Rightarrow> cluster \<Rightarrow> bool" where
  "lagging i m z \<longleftrightarrow> server_ok i m (cl_server z) \<and> client_fit i m (cl_client z) \<and>
     (\<exists>ass. list_all2 (carries i m) ass (cl_reliable z) \<and>
        live_ids (cl_server z) = all_announced (concat ass) (known i m (cl_client z))) \<and>
     (\<forall>p \<in> set (cl_unreliable z). \<exists>us. carries i m us p \<and> updates_only us)"

lemma lagging_serve:
  assumes fit: "names_fit i m" "tame_app A" and z: "lagging i m z" and step: "server_step A i m q (cl_server z) w'"
  shows "lagging i m (z\<lparr>cl_server := w', cl_reliable := cl_reliable z @ reliable_packets (new_calls (cl_server z) w'),
    cl_unreliable := cl_unreliable z @ unreliable_packets (new_calls (cl_server z) w')\<rparr>)"
proof -
  obtain ass where 1: "list_all2 (carries i m) ass (cl_reliable z)"
    "live_ids (cl_server z) = all_announced (concat ass) (known i m (cl_client z))"
    and s: "server_ok i m (cl_server z)" using z by (auto simp: lagging_def)
  have w': "server_ok i m w'" "tells i m (cl_server z) w'" using server_step_tells [OF fit s step] by simp_all
  then obtain cs bss where 2: "w_Out w' = w_Out (cl_server z) @ cs" "list_all2 (carries i m) bss (reliable_packets cs)"
    "\<forall>p \<in> set (unreliable_packets cs). \<exists>us. carries i m us p \<and> updates_only us"
    "live_ids w' = all_announced (concat bss) (live_ids (cl_server z))"
    by (auto simp: tells_def)
  have "new_calls (cl_server z) w' = cs" by (simp add: new_calls_def 2(1))
  moreover have "list_all2 (carries i m) (ass @ bss) (cl_reliable z @ reliable_packets cs)"
    using 1(1) 2(2) by (rule list_all2_appendI)
  moreover have "live_ids w' = all_announced (concat (ass @ bss)) (known i m (cl_client z))"
    using 1(2) 2(4) by simp
  ultimately show ?thesis using z w'(1) 2(3) unfolding lagging_def by auto
qed

lemma lagging_inner:
  assumes "lagging i m z" and "inner (cl_client z) c"
  shows "lagging i m (z\<lparr>cl_client := c\<rparr>)"
  using assms inner_client [OF assms(2), of i m] by (auto simp: lagging_def)

lemma lagging_step:
  assumes fit: "names_fit i m" "tame_app A" "tame_app B" and z: "lagging i m z" and step: "cluster_step A B i m q z y"
  shows "lagging i m y"
  using step
proof cases
  case (serve w')
  then show ?thesis using lagging_serve [OF fit(1,2) z] by simp
next
  case (deliver p ps c)
  then obtain as ass where a: "carries i m as p" "list_all2 (carries i m) ass ps"
    "live_ids (cl_server z) = all_announced (concat (as # ass)) (known i m (cl_client z))"
    using z by (auto simp: lagging_def list_all2_Cons2)
  have "client_fit i m (cl_client z)" using z by (simp add: lagging_def)
  from client_handles [OF fit(1,3) this a(1)] deliver have "client_fit i m c \<and> known i m c = all_announced as (known i m (cl_client z))"
    by auto
  then show ?thesis using z a deliver(1) by (auto simp: lagging_def)
next
  case (stray p c)
  then obtain us where u: "carries i m us p" "updates_only us" using z by (auto simp: lagging_def)
  have "client_fit i m (cl_client z)" using z by (simp add: lagging_def)
  from client_handles [OF fit(1,3) this u(1)] stray have "client_fit i m c \<and> known i m c = known i m (cl_client z)"
    by (auto simp: updates_only_announced [OF u(2)])
  then show ?thesis using z stray(1) by (auto simp: lagging_def)
next
  case (other h lk data pr c)
  then show ?thesis using lagging_inner [OF z] client_packet_inner by blast
next
  case (client_tick c)
  then show ?thesis using lagging_inner [OF z] client_Update_inner [OF fit(3)] by blast
next
  case (local c)
  then show ?thesis using lagging_inner [OF z] by blast
qed

lemma cluster_run_lagging:
  assumes "names_fit i m" "tame_app A" "tame_app B"
  shows "cluster_run A B i m q z y \<Longrightarrow> lagging i m z \<Longrightarrow> lagging i m y"
  by (induction rule: cluster_run.induct) (auto intro: lagging_step [OF assms])

fun deliver_all :: "app \<Rightarrow> bytes list \<Rightarrow> world \<Rightarrow> world res" where
  "deliver_all B [] c = Inr c"
| "deliver_all B (p # ps) c = res_bind (HandleEntSnapshot B p c) (deliver_all B ps)"

lemma deliver_all_carried:
  assumes "names_fit i m" "tame_app B"
  shows "client_fit i m c \<Longrightarrow> list_all2 (carries i m) ass ps \<Longrightarrow>
    \<exists>c'. deliver_all B ps c = Inr c' \<and> known i m c' = all_announced (concat ass) (known i m c)"
proof (induction ps arbitrary: c ass)
  case (Cons p ps)
  then obtain as bss where a: "ass = as # bss" "carries i m as p" "list_all2 (carries i m) bss ps"
    by (auto simp: list_all2_Cons2)
  from client_handles [OF assms Cons.prems(1) a(2)] obtain d where
    "HandleEntSnapshot B p c = Inr d" "client_fit i m d" "known i m d = all_announced as (known i m c)" by blast
  with Cons.IH [OF _ a(3), of d] show ?case by (simp add: a(1))
qed simp

text \<open>
  C1. Convergence of a server and one of its clients on the objects of one manager. The server is running
  and all its objects belong to that manager; the client controls no object; both know the same objects
  and nothing is on its way. From then on the server takes any number of steps in any order: \<open>Build\<close> for no
  owner or for another peer, \<open>FreeLocal\<close>, handles taken and dropped, its whole tick \<open>Update\<close> with snapshots,
  list messages and \<open>PostUpdate\<close>, which deletes what nobody holds, further snapshots and list messages, the
  packets peers send, peers that come and go, \<open>SendWorld\<close> for another peer, and writes into objects. The
  client meanwhile handles list and ownership messages, runs its own tick and writes into its objects.
  Callbacks of either application may change what objects contain, and send to single peers; they create
  and delete nothing. No manager or instance is created or deleted, the controllers keep running, and the
  counts of variables and of identifiers stay below what their fields hold. Then, however many of the
  unreliable packets are lost, repeated or overtaken: handling the reliable broadcasts that are still on
  their way succeeds and leaves the client with exactly the server's objects; an unreliable packet at any
  time does not change which objects the client knows; and the next \<open>Build\<close> for no owner succeeds and adds the
  identifier of the counter to the server's objects.
\<close>

theorem cluster_converges:
  assumes "names_fit i m" and "tame_app A" and "tame_app B"
    and "server_ok i m s" and "client_fit i m c" and "known i m c = live_ids s"
    and "cluster_run A B i m q \<lparr>cl_server = s, cl_reliable = [], cl_unreliable = [], cl_client = c\<rparr> z"
  shows "(\<exists>c'. deliver_all B (cl_reliable z) (cl_client z) = Inr c' \<and> known i m c' = live_ids (cl_server z)) \<and>
    (\<forall>p \<in> set (cl_unreliable z). \<exists>c'. HandleEntSnapshot B p (cl_client z) = Inr c' \<and> known i m c' = known i m (cl_client z)) \<and>
    (countable_updates i (cl_server z) \<longrightarrow> unat (w_TotalEntities (cl_server z)) + 1 < 2 ^ 32 \<longrightarrow>
      (\<exists>w'. Build A i m None (cl_server z) = Inr (Some (w_NextRef (cl_server z)), w') \<and>
        live_ids w' = insert (w_TotalEntities (cl_server z)) (live_ids (cl_server z))))"
proof -
  have "lagging i m \<lparr>cl_server = s, cl_reliable = [], cl_unreliable = [], cl_client = c\<rparr>"
    using assms(4-6) by (auto simp: lagging_def intro: exI [of _ "[]"])
  with cluster_run_lagging [OF assms(1-3,7)] have z: "lagging i m z" .
  then obtain ass where s: "server_ok i m (cl_server z)" and c: "client_fit i m (cl_client z)"
    and l: "list_all2 (carries i m) ass (cl_reliable z)" "live_ids (cl_server z) = all_announced (concat ass) (known i m (cl_client z))"
    and u: "\<forall>p \<in> set (cl_unreliable z). \<exists>us. carries i m us p \<and> updates_only us" by (auto simp: lagging_def)
  have "\<exists>c'. HandleEntSnapshot B p (cl_client z) = Inr c' \<and> known i m c' = known i m (cl_client z)"
    if "p \<in> set (cl_unreliable z)" for p
    using u that client_handles [OF assms(1,3) c] by (fastforce simp: updates_only_announced)
  moreover have "\<exists>w'. Build A i m None (cl_server z) = Inr (Some (w_NextRef (cl_server z)), w') \<and>
      live_ids w' = insert (w_TotalEntities (cl_server z)) (live_ids (cl_server z))"
    if "countable_updates i (cl_server z)" "unat (w_TotalEntities (cl_server z)) + 1 < 2 ^ 32"
    using Build_server [OF assms(1,2) s that, of None] by blast
  ultimately show ?thesis using deliver_all_carried [OF assms(1,3) c l(1)] l(2) by (intro conjI) auto
qed

lemma sample_tame: "tame_app sample_app"
  using sample_object_ok by (simp add: tame_app_def sample_app_def object_ok_def)

lemma sample_live_ids: "live_ids sample_server = {3, 4}"
  by (auto simp: live_ids_def netid_of_def sample_server_def NetSystem_new_def sample_object_def split: option.splits if_splits)

lemma sample_known: "known [119] [112] sample_client = {3, 4}"
  using sample_client_lookup by (auto simp: known_def split: if_splits)

lemma sample_server_heap:
  "w_heap sample_server r = Some ob \<Longrightarrow> r = 0 \<and> ob = sample_object \<or>
     r = 1 \<and> ob = sample_object\<lparr>no_Peer := Some 2, no_NetCode := 4, no_Vars := []\<rparr>"
  by (auto simp: sample_server_def split: if_splits)

lemma sample_cluster_server: "server_ok [119] [112] sample_server"
proof -
  have "no_Manager ob = Some ([119], [112]) \<and> r < w_NextRef sample_server \<and>
      unat (no_NetCode ob) < unat (w_TotalEntities sample_server)" if "w_heap sample_server r = Some ob" for r ob
    using sample_server_heap [OF that] by (auto simp: sample_worlds sample_object_def)
  moreover have "r = r'" if "netid_of sample_server r = Some nid" "netid_of sample_server r' = Some nid" for r r' nid
    using that sample_server_heap [of r] sample_server_heap [of r']
    by (auto simp: netid_of_def sample_object_def split: option.splits)
  ultimately show ?thesis
    using sample_session_ok unfolding server_ok_def
    by (simp add: keys_ok_def find_manager_def get_instance_def get_manager_def
      sample_instance_def instance_new_def sample_manager_def)
qed

lemma sample_cluster_client: "client_fit [119] [112] sample_client"
proof -
  have "world_ok sample_client"
  proof (rule world_okI)
    show "object_ok ob" if "w_heap sample_client r = Some ob" for r ob
      using that sample_object_ok sample_var_ok by (auto simp: sample_client_def object_ok_def nv_ok_def max_entvar_data_def split: if_splits)
    show "live sample_client (mg_Objects mg)"
      if "(j, vi) \<in> set (w_Instances sample_client)" "(k, mg) \<in> set (vi_EntManagers vi)" for j vi k mg
      using that by (auto simp: sample_worlds live_def)
  qed
  then show ?thesis using sample_client_store by (simp add: client_fit_def) (simp add: sample_worlds)
qed

text \<open>One object more on the server, and the packet that tells the client is on its way.\<close>

theorem cluster_converges_witness:
  "\<exists>(z :: cluster) c'. live_ids (cl_server z) = {3, 4, 10} \<and> known [119] [112] (cl_client z) = {3, 4} \<and>
     deliver_all sample_app (cl_reliable z) (cl_client z) = Inr c' \<and> known [119] [112] c' = {3, 4, 10}"
proof -
  let ?z = "\<lparr>cl_server = sample_server, cl_reliable = [], cl_unreliable = [], cl_client = sample_client\<rparr>"
  have fit: "names_fit [119] [112]" by (simp add: names_fit_def)
  have c: "countable_updates [119] sample_server"
    by (simp add: countable_updates_def get_instance_def sample_worlds all_refs_def var_total_def var_count_def sample_object_def)
  have n: "w_TotalEntities sample_server = 10" by (simp add: sample_worlds)
  obtain w' where w': "Build sample_app [119] [112] None sample_server = Inr (Some (w_NextRef sample_server), w')"
    "live_ids w' = insert 10 (live_ids sample_server)"
    using Build_server [OF fit sample_tame sample_cluster_server c, of None] n by fastforce
  have "server_step sample_app [119] [112] 7 sample_server w'"
    using server_step.build [OF c _ _ w'(1)] n by simp
  then have "server_step sample_app [119] [112] 7 (cl_server ?z) w'" by simp
  then obtain z where step: "cluster_step sample_app sample_app [119] [112] 7 ?z z"
    and z: "cl_server z = w'" "cl_client z = sample_client"
    using cluster_step.serve [of sample_app "[119]" "[112]" 7 ?z w' sample_app] that by fastforce
  have run: "cluster_run sample_app sample_app [119] [112] 7 ?z z" by (rule cluster_run.step [OF cluster_run.start step])
  have "known [119] [112] sample_client = live_ids sample_server" by (simp add: sample_known sample_live_ids)
  from cluster_converges [OF fit sample_tame sample_tame sample_cluster_server sample_cluster_client this run]
  obtain c' where "deliver_all sample_app (cl_reliable z) (cl_client z) = Inr c'"
    "known [119] [112] c' = live_ids (cl_server z)" by blast
  moreover have "live_ids (cl_server z) = {3, 4, 10}" using z(1) w'(2) sample_live_ids by auto
  ultimately show ?thesis using z(2) sample_known by (intro exI [of _ z] exI [of _ c']) simp
qed

end
