(* ===== verification/Repeated_Field.thy ===== *)
theory Repeated_Field
  imports Prelude
begin

text \<open>
  \<open>RepeatedField\<close> of the Protocol Buffers runtime (src/include/google/protobuf/repeated_field.h), the
  growing array every repeated field of numbers of a message is. A field owns a block with the pointer
  of the arena it lies in and \<open>total_size_\<close> elements, of which the first \<open>current_size_\<close> are in use.
  Debug checks are gone, as in the release build; a failed \<open>GOOGLE_CHECK\<close> is \<open>Fatal_Exception\<close>.
\<close>

section \<open>The representation\<close>

text \<open>An element type: the value of \<open>Element()\<close>, its size and its alignment.\<close>

record 'e element_type =
  et_default :: 'e
  et_sizeof :: nat
  et_align :: nat

text \<open>An arena is named by a number; \<open>None\<close> is the heap.\<close>

type_synonym arena = "nat option"

record 'e rep =
  rep_arena :: arena
  rep_elements :: "'e list"

record 'e repeated_field =
  rf_current_size :: int
  rf_total_size :: int
  rf_rep :: "'e rep option"

definition kMinRepeatedFieldAllocationSize :: int where
  "kMinRepeatedFieldAllocationSize = 4"

text \<open>The elements follow a pointer, at the next address their alignment allows.\<close>

definition kRepHeaderSize :: "'e element_type \<Rightarrow> nat" where
  "kRepHeaderSize E = (4 + et_align E - 1) div et_align E * et_align E"

text \<open>The value of a signed expression, whose overflow is undefined.\<close>

definition int_value :: "int \<Rightarrow> int res" where
  "int_value x = (if - (2 ^ 31) \<le> x \<and> x < 2 ^ 31 then Inr x else Inl Undefined)"

text \<open>Reading and writing \<open>rep_->elements[index]\<close>.\<close>

definition element_at :: "int \<Rightarrow> 'e repeated_field \<Rightarrow> 'e res" where
  "element_at index f =
     (case rf_rep f of
        None \<Rightarrow> Inl Undefined
      | Some p \<Rightarrow> if 0 \<le> index \<and> nat index < length (rep_elements p) then Inr (rep_elements p ! nat index)
                  else Inl Undefined)"

definition put_element :: "int \<Rightarrow> 'e \<Rightarrow> 'e repeated_field \<Rightarrow> 'e repeated_field res" where
  "put_element index v f =
     (case rf_rep f of
        None \<Rightarrow> Inl Undefined
      | Some p \<Rightarrow> if 0 \<le> index \<and> nat index < length (rep_elements p)
                  then Inr (f\<lparr>rf_rep := Some (p\<lparr>rep_elements := (rep_elements p)[nat index := v]\<rparr>)\<rparr>)
                  else Inl Undefined)"

text \<open>
  A field that is passed to an operation of a field: the field itself or another one. An element that
  is passed by reference: an object outside, or an element of the field itself.
\<close>

datatype 'a operand = Itself | Another 'a

datatype 'e argument = Outside 'e | Inside int

section \<open>Construction and capacity\<close>

definition RepeatedField :: "'e repeated_field" where
  "RepeatedField = \<lparr>rf_current_size = 0, rf_total_size = 0, rf_rep = None\<rparr>"

definition RepeatedField_on :: "arena \<Rightarrow> 'e repeated_field" where
  "RepeatedField_on a =
     \<lparr>rf_current_size = 0, rf_total_size = 0,
      rf_rep = (case a of None \<Rightarrow> None | Some _ \<Rightarrow> Some \<lparr>rep_arena = a, rep_elements = []\<rparr>)\<rparr>"

definition RepeatedField_GetArenaNoVirtual :: "'e repeated_field \<Rightarrow> arena" where
  "RepeatedField_GetArenaNoVirtual f = (case rf_rep f of None \<Rightarrow> None | Some p \<Rightarrow> rep_arena p)"

definition RepeatedField_GetArena :: "'e repeated_field \<Rightarrow> arena" where
  "RepeatedField_GetArena f = RepeatedField_GetArenaNoVirtual f"

definition RepeatedField_empty :: "'e repeated_field \<Rightarrow> bool" where
  "RepeatedField_empty f \<longleftrightarrow> rf_current_size f = 0"

definition RepeatedField_size :: "'e repeated_field \<Rightarrow> int" where
  "RepeatedField_size f = rf_current_size f"

definition RepeatedField_Capacity :: "'e repeated_field \<Rightarrow> int" where
  "RepeatedField_Capacity f = rf_total_size f"

text \<open>\<open>CopyArray\<close> copies the first elements of one array into another, from an offset on.\<close>

definition CopyArray :: "'e list \<Rightarrow> nat \<Rightarrow> 'e list \<Rightarrow> int \<Rightarrow> 'e list res" where
  "CopyArray to at from array_size =
     (if 0 \<le> array_size \<and> at + nat array_size \<le> length to \<and> nat array_size \<le> length from
      then Inr (take at to @ take (nat array_size) from @ drop (at + nat array_size) to)
      else Inl Undefined)"

definition MoveArray :: "'e list \<Rightarrow> 'e list \<Rightarrow> int \<Rightarrow> 'e list res" where
  "MoveArray to from array_size = CopyArray to 0 from array_size"

text \<open>
  \<open>Reserve\<close> allocates the larger block, constructs its elements and moves the used ones. The new size
  is computed before the check that it fits. The loop that destroys the elements of the old block is left
  out: the elements are of primitive types, whose destructor does nothing.
\<close>

definition RepeatedField_Reserve :: "'e element_type \<Rightarrow> int \<Rightarrow> 'e repeated_field \<Rightarrow> 'e repeated_field res" where
  "RepeatedField_Reserve E new_size f =
     (if new_size \<le> rf_total_size f then Inr f
      else
        let old_rep = rf_rep f; arena = RepeatedField_GetArenaNoVirtual f
        in res_bind (int_value (rf_total_size f * 2)) (\<lambda>doubled.
           let new_size = max kMinRepeatedFieldAllocationSize (max doubled new_size)
           in if \<not> nat new_size \<le> (2 ^ 32 - 1 - kRepHeaderSize E) div et_sizeof E then Inl Fatal_Exception
              else
                let elements = replicate (nat new_size) (et_default E)
                in res_bind
                     (if 0 < rf_current_size f
                      then case old_rep of
                             None \<Rightarrow> Inl Undefined
                           | Some p \<Rightarrow> MoveArray elements (rep_elements p) (rf_current_size f)
                      else Inr elements)
                     (\<lambda>moved. Inr (f\<lparr>rf_total_size := new_size,
                        rf_rep := Some \<lparr>rep_arena = arena, rep_elements = moved\<rparr>\<rparr>))))"

text \<open>
  The value of an argument after \<open>Reserve\<close>: a reference into the field dangles when the block was
  replaced and the old one deleted; the old block of an arena stays.
\<close>

definition argument_value :: "'e argument \<Rightarrow> 'e repeated_field \<Rightarrow> 'e repeated_field \<Rightarrow> 'e res" where
  "argument_value value before after =
     (case value of
        Outside v \<Rightarrow> Inr v
      | Inside index \<Rightarrow>
          if rf_total_size after \<noteq> rf_total_size before \<and> RepeatedField_GetArenaNoVirtual before = None
          then Inl Undefined
          else element_at index before)"

section \<open>Elements\<close>

definition RepeatedField_Get :: "int \<Rightarrow> 'e repeated_field \<Rightarrow> 'e res" where
  "RepeatedField_Get index f = element_at index f"

text \<open>A pointer to an element is its index.\<close>

definition RepeatedField_Mutable :: "int \<Rightarrow> 'e repeated_field \<Rightarrow> int res" where
  "RepeatedField_Mutable index f = res_map (\<lambda>_. index) (element_at index f)"

definition RepeatedField_Set :: "int \<Rightarrow> 'e \<Rightarrow> 'e repeated_field \<Rightarrow> 'e repeated_field res" where
  "RepeatedField_Set index v f = put_element index v f"

definition RepeatedField_AddAlreadyReserved :: "'e \<Rightarrow> 'e repeated_field \<Rightarrow> 'e repeated_field res" where
  "RepeatedField_AddAlreadyReserved v f =
     res_map (\<lambda>f1. f1\<lparr>rf_current_size := rf_current_size f1 + 1\<rparr>) (put_element (rf_current_size f) v f)"

definition RepeatedField_AddAlreadyReserved_new :: "'e repeated_field \<Rightarrow> (int \<times> 'e repeated_field) res" where
  "RepeatedField_AddAlreadyReserved_new f =
     res_map (\<lambda>_. (rf_current_size f, f\<lparr>rf_current_size := rf_current_size f + 1\<rparr>)) (element_at (rf_current_size f) f)"

definition grow_for_one :: "'e element_type \<Rightarrow> 'e repeated_field \<Rightarrow> 'e repeated_field res" where
  "grow_for_one E f =
     (if rf_current_size f = rf_total_size f
      then res_bind (int_value (rf_total_size f + 1)) (\<lambda>n. RepeatedField_Reserve E n f)
      else Inr f)"

definition RepeatedField_Add :: "'e element_type \<Rightarrow> 'e argument \<Rightarrow> 'e repeated_field \<Rightarrow> 'e repeated_field res" where
  "RepeatedField_Add E value f =
     res_bind (grow_for_one E f) (\<lambda>f1.
     res_bind (argument_value value f f1) (\<lambda>v.
     res_map (\<lambda>f2. f2\<lparr>rf_current_size := rf_current_size f2 + 1\<rparr>) (put_element (rf_current_size f1) v f1)))"

definition RepeatedField_Add_new :: "'e element_type \<Rightarrow> 'e repeated_field \<Rightarrow> (int \<times> 'e repeated_field) res" where
  "RepeatedField_Add_new E f =
     res_bind (grow_for_one E f) (\<lambda>f1.
     res_map (\<lambda>_. (rf_current_size f1, f1\<lparr>rf_current_size := rf_current_size f1 + 1\<rparr>))
       (element_at (rf_current_size f1) f1))"

definition RepeatedField_RemoveLast :: "'e repeated_field \<Rightarrow> 'e repeated_field" where
  "RepeatedField_RemoveLast f = f\<lparr>rf_current_size := rf_current_size f - 1\<rparr>"

definition RepeatedField_Truncate :: "int \<Rightarrow> 'e repeated_field \<Rightarrow> 'e repeated_field" where
  "RepeatedField_Truncate new_size f = (if 0 < rf_current_size f then f\<lparr>rf_current_size := new_size\<rparr> else f)"

definition RepeatedField_Clear :: "'e repeated_field \<Rightarrow> 'e repeated_field" where
  "RepeatedField_Clear f = f\<lparr>rf_current_size := 0\<rparr>"

text \<open>\<open>std::fill\<close> from one index up to another.\<close>

fun fill_elements :: "int list \<Rightarrow> 'e \<Rightarrow> 'e repeated_field \<Rightarrow> 'e repeated_field res" where
  "fill_elements [] v f = Inr f"
| "fill_elements (i # is) v f = res_bind (put_element i v f) (fill_elements is v)"

definition RepeatedField_Resize ::
  "'e element_type \<Rightarrow> int \<Rightarrow> 'e argument \<Rightarrow> 'e repeated_field \<Rightarrow> 'e repeated_field res" where
  "RepeatedField_Resize E new_size value f =
     res_bind
       (if rf_current_size f < new_size
        then res_bind (RepeatedField_Reserve E new_size f) (\<lambda>f1.
             res_bind (argument_value value f f1) (\<lambda>v.
             fill_elements [rf_current_size f1..new_size - 1] v f1))
        else Inr f)
       (\<lambda>f2. Inr (f2\<lparr>rf_current_size := new_size\<rparr>))"

definition RepeatedField_SwapElements :: "int \<Rightarrow> int \<Rightarrow> 'e repeated_field \<Rightarrow> 'e repeated_field res" where
  "RepeatedField_SwapElements index1 index2 f =
     res_bind (element_at index1 f) (\<lambda>a.
     res_bind (element_at index2 f) (\<lambda>b.
     res_bind (put_element index1 b f) (put_element index2 a)))"

section \<open>Ranges\<close>

text \<open>The loop that saves elements, and the loop that slides elements down by a distance.\<close>

fun save_elements :: "int list \<Rightarrow> int \<Rightarrow> 'e repeated_field \<Rightarrow> 'e list res" where
  "save_elements [] start f = Inr []"
| "save_elements (i # is) start f =
     res_bind (RepeatedField_Get (i + start) f) (\<lambda>v. res_map ((#) v) (save_elements is start f))"

fun slide_elements :: "int list \<Rightarrow> int \<Rightarrow> 'e repeated_field \<Rightarrow> 'e repeated_field res" where
  "slide_elements [] num f = Inr f"
| "slide_elements (i # is) num f =
     res_bind (RepeatedField_Get i f) (\<lambda>v. res_bind (RepeatedField_Set (i - num) v f) (slide_elements is num))"

text \<open>\<open>wanted\<close> says that the caller passed an array for the removed elements.\<close>

definition RepeatedField_ExtractSubrange ::
  "int \<Rightarrow> int \<Rightarrow> bool \<Rightarrow> 'e repeated_field \<Rightarrow> ('e list \<times> 'e repeated_field) res" where
  "RepeatedField_ExtractSubrange start num wanted f =
     res_bind (if wanted then save_elements [0..num - 1] start f else Inr []) (\<lambda>elements.
     res_bind
       (if 0 < num
        then res_map (\<lambda>f1. RepeatedField_Truncate (rf_current_size f1 - num) f1)
               (slide_elements [start + num..rf_current_size f - 1] num f)
        else Inr f)
       (\<lambda>f1. Inr (elements, f1)))"

text \<open>An iterator is the distance to \<open>begin()\<close>, or null in a field without a block.\<close>

definition RepeatedField_begin :: "'e repeated_field \<Rightarrow> int option" where
  "RepeatedField_begin f = (case rf_rep f of None \<Rightarrow> None | Some _ \<Rightarrow> Some 0)"

definition RepeatedField_end :: "'e repeated_field \<Rightarrow> int option" where
  "RepeatedField_end f = (case rf_rep f of None \<Rightarrow> None | Some _ \<Rightarrow> Some (rf_current_size f))"

definition RepeatedField_data :: "'e repeated_field \<Rightarrow> int option" where
  "RepeatedField_data f = (case rf_rep f of None \<Rightarrow> None | Some _ \<Rightarrow> Some 0)"

definition RepeatedField_erase_range ::
  "int \<Rightarrow> int \<Rightarrow> 'e repeated_field \<Rightarrow> (int \<times> 'e repeated_field) res" where
  "RepeatedField_erase_range first last_it f =
     (let first_offset = first
      in res_bind
           (if first \<noteq> last_it
            then res_map (RepeatedField_Truncate (first_offset + (rf_current_size f - last_it)))
                   (slide_elements [last_it..rf_current_size f - 1] (last_it - first_offset) f)
            else Inr f)
           (\<lambda>f1. Inr (first_offset, f1)))"

definition RepeatedField_erase :: "int \<Rightarrow> 'e repeated_field \<Rightarrow> (int \<times> 'e repeated_field) res" where
  "RepeatedField_erase position f = RepeatedField_erase_range position (position + 1) f"

section \<open>Two fields\<close>

definition RepeatedField_MergeFrom ::
  "'e element_type \<Rightarrow> 'e repeated_field operand \<Rightarrow> 'e repeated_field \<Rightarrow> 'e repeated_field res" where
  "RepeatedField_MergeFrom E arg f =
     (case arg of
        Itself \<Rightarrow> Inl Fatal_Exception
      | Another other \<Rightarrow>
          if rf_current_size other \<noteq> 0
          then res_bind (int_value (rf_current_size f + rf_current_size other)) (\<lambda>n.
               res_bind (RepeatedField_Reserve E n f) (\<lambda>f1.
               case (rf_rep f1, rf_rep other) of
                 (Some p, Some q) \<Rightarrow>
                   res_bind (if 0 \<le> rf_current_size f1
                             then CopyArray (rep_elements p) (nat (rf_current_size f1)) (rep_elements q) (rf_current_size other)
                             else Inl Undefined) (\<lambda>es.
                   Inr (f1\<lparr>rf_rep := Some (p\<lparr>rep_elements := es\<rparr>),
                      rf_current_size := rf_current_size f1 + rf_current_size other\<rparr>))
               | _ \<Rightarrow> Inl Undefined))
          else Inr f)"

definition RepeatedField_CopyFrom ::
  "'e element_type \<Rightarrow> 'e repeated_field operand \<Rightarrow> 'e repeated_field \<Rightarrow> 'e repeated_field res" where
  "RepeatedField_CopyFrom E arg f =
     (case arg of Itself \<Rightarrow> Inr f | Another other \<Rightarrow> RepeatedField_MergeFrom E arg (RepeatedField_Clear f))"

definition RepeatedField_assign ::
  "'e element_type \<Rightarrow> 'e repeated_field operand \<Rightarrow> 'e repeated_field \<Rightarrow> 'e repeated_field res" where
  "RepeatedField_assign E arg f =
     (case arg of Itself \<Rightarrow> Inr f | Another other \<Rightarrow> RepeatedField_CopyFrom E arg f)"

definition RepeatedField_copy :: "'e element_type \<Rightarrow> 'e repeated_field \<Rightarrow> 'e repeated_field res" where
  "RepeatedField_copy E other = RepeatedField_CopyFrom E (Another other) RepeatedField"

text \<open>\<open>InternalSwap\<close> exchanges everything; \<open>UnsafeArenaSwap\<close> leaves out only the same field.\<close>

definition RepeatedField_InternalSwap ::
  "'e repeated_field \<Rightarrow> 'e repeated_field \<Rightarrow> 'e repeated_field \<times> 'e repeated_field" where
  "RepeatedField_InternalSwap f other =
     (f\<lparr>rf_rep := rf_rep other, rf_current_size := rf_current_size other, rf_total_size := rf_total_size other\<rparr>,
      other\<lparr>rf_rep := rf_rep f, rf_current_size := rf_current_size f, rf_total_size := rf_total_size f\<rparr>)"

definition RepeatedField_UnsafeArenaSwap ::
  "'e repeated_field operand \<Rightarrow> 'e repeated_field \<Rightarrow> 'e repeated_field \<times> 'e repeated_field operand" where
  "RepeatedField_UnsafeArenaSwap arg f =
     (case arg of
        Itself \<Rightarrow> (f, Itself)
      | Another other \<Rightarrow> let (f1, other1) = RepeatedField_InternalSwap f other in (f1, Another other1))"

definition RepeatedField_Swap ::
  "'e element_type \<Rightarrow> 'e repeated_field operand \<Rightarrow> 'e repeated_field \<Rightarrow>
     ('e repeated_field \<times> 'e repeated_field operand) res" where
  "RepeatedField_Swap E arg f =
     (case arg of
        Itself \<Rightarrow> Inr (f, Itself)
      | Another other \<Rightarrow>
          if RepeatedField_GetArenaNoVirtual f = RepeatedField_GetArenaNoVirtual other
          then let (f1, other1) = RepeatedField_InternalSwap f other in Inr (f1, Another other1)
          else
            res_bind (RepeatedField_MergeFrom E (Another f) (RepeatedField_on (RepeatedField_GetArenaNoVirtual other)))
              (\<lambda>temp.
            res_bind (RepeatedField_CopyFrom E (Another other) f) (\<lambda>f1.
            let (other1, temp1) = RepeatedField_InternalSwap other temp in Inr (f1, Another other1))))"

section \<open>Ranges of iterators, and memory\<close>

text \<open>The distance of two iterators is known when they are forward iterators.\<close>

definition CalculateReserve :: "bool \<Rightarrow> 'e list \<Rightarrow> int" where
  "CalculateReserve forward rng = (if forward then int (length rng) else - 1)"

fun add_range :: "('e \<Rightarrow> 'f \<Rightarrow> 'f res) \<Rightarrow> 'e list \<Rightarrow> 'f \<Rightarrow> 'f res" where
  "add_range add [] f = Inr f"
| "add_range add (v # vs) f = res_bind (add v f) (add_range add vs)"

definition RepeatedField_range :: "'e element_type \<Rightarrow> bool \<Rightarrow> 'e list \<Rightarrow> 'e repeated_field res" where
  "RepeatedField_range E forward rng =
     (let reserve = CalculateReserve forward rng
      in if reserve \<noteq> - 1
         then res_bind (RepeatedField_Reserve E reserve RepeatedField) (add_range RepeatedField_AddAlreadyReserved rng)
         else add_range (\<lambda>v. RepeatedField_Add E (Outside v)) rng RepeatedField)"

text \<open>The destructor destroys every element of the block and says whether it deletes the block.\<close>

definition RepeatedField_destroy :: "'e repeated_field \<Rightarrow> 'e list \<times> bool" where
  "RepeatedField_destroy f =
     (case rf_rep f of
        None \<Rightarrow> ([], False)
      | Some p \<Rightarrow> (take (nat (rf_total_size f)) (rep_elements p), rep_arena p = None))"

definition RepeatedField_SpaceUsedExcludingSelf :: "'e element_type \<Rightarrow> 'e repeated_field \<Rightarrow> int" where
  "RepeatedField_SpaceUsedExcludingSelf E f =
     (case rf_rep f of
        None \<Rightarrow> 0
      | Some _ \<Rightarrow>
          sint ((word_of_int (rf_total_size f) :: 32 word) * of_nat (et_sizeof E) + of_nat (kRepHeaderSize E)))"

text \<open>The back inserter: an assignment through it is \<open>Add\<close>, moving it does nothing.\<close>

definition RepeatedFieldBackInsertIterator_assign ::
  "'e element_type \<Rightarrow> 'e argument \<Rightarrow> 'e repeated_field \<Rightarrow> 'e repeated_field res" where
  "RepeatedFieldBackInsertIterator_assign E value f = RepeatedField_Add E value f"

end
