(* ===== verification/Repeated_Laws.thy ===== *)
theory Repeated_Laws
  imports Repeated_Field
begin

text \<open>
  A repeated field as a list: its contents are the elements in use, and on the fields that are well
  formed each operation is the operation on lists, as long as the sizes fit. The locale \<open>appendable\<close> is
  the contract of everything that appends.
\<close>

section \<open>Contents\<close>

definition block :: "'e repeated_field \<Rightarrow> 'e list" where
  "block f = (case rf_rep f of None \<Rightarrow> [] | Some p \<Rightarrow> rep_elements p)"

definition set_block :: "'e list \<Rightarrow> 'e repeated_field \<Rightarrow> 'e repeated_field" where
  "set_block es f = f\<lparr>rf_rep := map_option (rep_elements_update (\<lambda>_. es)) (rf_rep f)\<rparr>"

definition field_contents :: "'e repeated_field \<Rightarrow> 'e list" where
  "field_contents f = take (nat (rf_current_size f)) (block f)"

text \<open>The size in bytes of a block.\<close>

definition block_bytes :: "'e element_type \<Rightarrow> int \<Rightarrow> int" where
  "block_bytes E n = int (kRepHeaderSize E) + int (et_sizeof E) * n"

definition field_ok :: "'e element_type \<Rightarrow> 'e repeated_field \<Rightarrow> bool" where
  "field_ok E f \<longleftrightarrow> 0 \<le> rf_current_size f \<and> rf_current_size f \<le> rf_total_size f \<and> rf_total_size f < 2 ^ 31 \<and>
     block_bytes E (rf_total_size f) < 2 ^ 32 \<and> int (length (block f)) = rf_total_size f"

text \<open>A number of elements that can be reached by doubling.\<close>

definition reachable_size :: "'e element_type \<Rightarrow> int \<Rightarrow> bool" where
  "reachable_size E N \<longleftrightarrow> 2 \<le> N \<and> 2 * N < 2 ^ 31 \<and> 0 < et_sizeof E \<and> block_bytes E (2 * N) < 2 ^ 32"

lemma block_simps [simp]:
  "block (f\<lparr>rf_current_size := n\<rparr>) = block f" "block (f\<lparr>rf_total_size := n\<rparr>) = block f"
  "block (f\<lparr>rf_rep := Some p\<rparr>) = rep_elements p"
  by (simp_all add: block_def)

lemma block_set [simp]: "block f \<noteq> [] \<Longrightarrow> block (set_block es f) = es"
  by (auto simp: block_def set_block_def split: option.splits)

lemma set_block_fields [simp]:
  "rf_current_size (set_block es f) = rf_current_size f" "rf_total_size (set_block es f) = rf_total_size f"
  "RepeatedField_GetArenaNoVirtual (set_block es f) = RepeatedField_GetArenaNoVirtual f"
  "RepeatedField_GetArenaNoVirtual (f\<lparr>rf_current_size := n\<rparr>) = RepeatedField_GetArenaNoVirtual f"
  by (auto simp: set_block_def RepeatedField_GetArenaNoVirtual_def split: option.split)

lemma set_block_same [simp]: "set_block (block f) f = f" "set_block es (set_block es' f) = set_block es f"
  by (auto simp: set_block_def block_def option.map_comp comp_def split: option.splits)

lemma element_at_block:
  "element_at i f = (if 0 \<le> i \<and> nat i < length (block f) then Inr (block f ! nat i) else Inl Undefined)"
  by (auto simp: element_at_def block_def split: option.split)

lemma put_element_block:
  "put_element i v f =
     (if 0 \<le> i \<and> nat i < length (block f) then Inr (set_block ((block f)[nat i := v]) f) else Inl Undefined)"
  by (auto simp: put_element_def block_def set_block_def split: option.split)

lemma field_okD:
  assumes "field_ok E f"
  shows "0 \<le> rf_current_size f" "rf_current_size f \<le> rf_total_size f" "nat (rf_current_size f) \<le> length (block f)"
    "length (field_contents f) = nat (rf_current_size f)" "int (length (field_contents f)) = rf_current_size f"
  using assms by (auto simp: field_ok_def field_contents_def)

lemma field_contents_simps [simp]: "field_contents RepeatedField = []" "field_contents (RepeatedField_on a) = []"
  by (simp_all add: field_contents_def RepeatedField_def RepeatedField_on_def)

text \<open>Shrinking, and writing behind the elements in use.\<close>

lemma field_ok_shrink:
  assumes "field_ok E f" "0 \<le> n" "n \<le> rf_current_size f"
  shows "field_ok E (f\<lparr>rf_current_size := n\<rparr>) \<and> field_contents (f\<lparr>rf_current_size := n\<rparr>) = take (nat n) (field_contents f)"
  using assms by (simp add: field_ok_def field_contents_def min_def)

lemma field_ok_block:
  assumes "field_ok E f" "length es = length (block f)" "block f \<noteq> []" "0 \<le> n" "n \<le> rf_total_size f"
  shows "field_ok E ((set_block es f)\<lparr>rf_current_size := n\<rparr>) \<and>
    field_contents ((set_block es f)\<lparr>rf_current_size := n\<rparr>) = take (nat n) es"
  using assms by (simp add: field_ok_def field_contents_def)

section \<open>Capacity\<close>

lemma MoveArray_eq:
  "0 \<le> n \<Longrightarrow> nat n \<le> length to \<Longrightarrow> nat n \<le> length from \<Longrightarrow> MoveArray to from n = Inr (take (nat n) from @ drop (nat n) to)"
  by (simp add: MoveArray_def CopyArray_def)

lemma Reserve_total:
  assumes f: "field_ok E f" and N: "reachable_size E N" and n: "n \<le> N"
  shows "\<exists>f'. RepeatedField_Reserve E n f = Inr f' \<and> field_ok E f' \<and> field_contents f' = field_contents f \<and>
    rf_current_size f' = rf_current_size f \<and> n \<le> rf_total_size f' \<and>
    RepeatedField_GetArenaNoVirtual f' = RepeatedField_GetArenaNoVirtual f \<and>
    (f' = f \<or> 2 * rf_total_size f \<le> rf_total_size f' \<and> rf_total_size f < rf_total_size f')"
proof (cases "n \<le> rf_total_size f")
  case True
  then show ?thesis using f by (simp add: RepeatedField_Reserve_def)
next
  case False
  define m where "m = max kMinRepeatedFieldAllocationSize (max (rf_total_size f * 2) n)"
  have m: "rf_total_size f < m" "n \<le> m" "2 * rf_total_size f \<le> m" "m \<le> 2 * N" "0 < m"
    using False n N f by (auto simp: m_def reachable_size_def kMinRepeatedFieldAllocationSize_def field_ok_def)
  have "block_bytes E m \<le> block_bytes E (2 * N)"
    using m(4) by (simp add: block_bytes_def mult_left_mono)
  then have bytes: "block_bytes E m < 2 ^ 32" using N by (simp add: reachable_size_def)
  then have "int (kRepHeaderSize E + et_sizeof E * nat m) < 2 ^ 32" using m(5) by (simp add: block_bytes_def)
  then have "kRepHeaderSize E + et_sizeof E * nat m < 2 ^ 32"
    by (simp only: of_nat_less_iff [symmetric, where 'a = int]) simp
  then have "et_sizeof E * nat m \<le> 2 ^ 32 - 1 - kRepHeaderSize E" by simp
  then have fits: "nat m \<le> (2 ^ 32 - 1 - kRepHeaderSize E) div et_sizeof E"
    using N by (simp add: reachable_size_def less_eq_div_iff_mult_less_eq mult.commute)
  have "int_value (rf_total_size f * 2) = Inr (rf_total_size f * 2)"
    using m(3,4) N f by (auto simp: int_value_def reachable_size_def field_ok_def)
  moreover define es where "es = take (nat (rf_current_size f)) (block f) @ drop (nat (rf_current_size f)) (replicate (nat m) (et_default E))"
  have "(if 0 < rf_current_size f then case rf_rep f of None \<Rightarrow> Inl Undefined
      | Some p \<Rightarrow> MoveArray (replicate (nat m) (et_default E)) (rep_elements p) (rf_current_size f)
      else Inr (replicate (nat m) (et_default E))) = Inr es"
    using f m(1) by (auto simp: es_def field_ok_def block_def MoveArray_eq split: option.splits)
  ultimately have "RepeatedField_Reserve E n f = Inr (f\<lparr>rf_total_size := m,
      rf_rep := Some \<lparr>rep_arena = RepeatedField_GetArenaNoVirtual f, rep_elements = es\<rparr>\<rparr>)"
    using False fits by (simp add: RepeatedField_Reserve_def Let_def m_def [symmetric])
  moreover have "nat (rf_current_size f) \<le> nat m" using field_okD(2) [OF f] m(1) by simp
  then have "length es = nat m" using field_okD(3) [OF f] by (simp add: es_def)
  ultimately show ?thesis
    using f m bytes N
    by (auto simp: field_ok_def field_contents_def RepeatedField_GetArenaNoVirtual_def es_def reachable_size_def min_def)
qed

section \<open>Loops\<close>

lemma put_elements_next:
  assumes "field_ok E f" "rf_current_size f < rf_total_size f"
  shows "\<exists>f'. put_element (rf_current_size f) v f = Inr f' \<and> field_ok E (f'\<lparr>rf_current_size := rf_current_size f' + 1\<rparr>) \<and>
    field_contents (f'\<lparr>rf_current_size := rf_current_size f' + 1\<rparr>) = field_contents f @ [v]"
proof -
  have b: "nat (rf_current_size f) < length (block f)" "block f \<noteq> []" "0 \<le> rf_current_size f"
    using assms by (auto simp: field_ok_def)
  have "take (nat (rf_current_size f + 1)) ((block f)[nat (rf_current_size f) := v]) = field_contents f @ [v]"
    using b by (simp add: field_contents_def nat_add_distrib take_Suc_conv_app_nth)
  then show ?thesis
    using field_ok_block [OF assms(1) _ b(2), of "(block f)[nat (rf_current_size f) := v]" "rf_current_size f + 1"] assms(2) b
    by (simp add: put_element_block)
qed

lemma upto_first: "i < n \<Longrightarrow> [i..n - 1] = i # [i + 1..n - 1]" for i n :: int
  by (simp add: upto_rec1)

lemma slide_elements_eq:
  assumes "0 < num" "num \<le> a" "a \<le> c" "nat c \<le> length (block f)"
  shows "\<exists>es. slide_elements [a..c - 1] num f = Inr (set_block es f) \<and> length es = length (block f) \<and>
    take (nat (c - num)) es = take (nat (a - num)) (block f) @ drop (nat a) (take (nat c) (block f))"
  using assms
proof (induction "nat (c - a)" arbitrary: a f)
  case 0
  then show ?case by (intro exI [of _ "block f"]) simp
next
  case (Suc k)
  let ?b = "block f" let ?b' = "?b[nat (a - num) := ?b ! nat a]"
  have k: "k = nat (c - (a + 1))" using Suc.hyps(2) by linarith
  have a: "a < c" "nat a < length ?b" "nat (a - num) < length ?b" "?b \<noteq> []" using Suc by auto
  have "slide_elements [a..c - 1] num f = slide_elements [a + 1..c - 1] num (set_block ?b' f)"
    using a Suc.prems by (simp add: upto_first RepeatedField_Get_def RepeatedField_Set_def element_at_block put_element_block)
  moreover obtain es where es: "slide_elements [a + 1..c - 1] num (set_block ?b' f) = Inr (set_block es (set_block ?b' f))"
    "length es = length ?b'" "take (nat (c - num)) es = take (nat (a + 1 - num)) ?b' @ drop (nat (a + 1)) (take (nat c) ?b')"
    using Suc.hyps(1) [OF k, of "set_block ?b' f"] Suc.prems a by auto
  have "take (nat (a + 1 - num)) ?b' = take (nat (a - num)) ?b @ [?b ! nat a]"
  proof -
    have "nat (a + 1 - num) = Suc (nat (a - num))" using Suc.prems by linarith
    then show ?thesis using a by (simp add: take_Suc_conv_app_nth)
  qed
  moreover have "drop (nat (a + 1)) (take (nat c) ?b') = drop (nat (a + 1)) (take (nat c) ?b)"
    using Suc.prems by (simp add: take_update_swap drop_update_cancel)
  moreover have "drop (nat a) (take (nat c) ?b) = ?b ! nat a # drop (nat (a + 1)) (take (nat c) ?b)"
  proof -
    have "nat a < length (take (nat c) ?b)" "nat (a + 1) = Suc (nat a)" using Suc.prems a by auto
    then show ?thesis by (simp add: Cons_nth_drop_Suc [symmetric])
  qed
  ultimately show ?case using es by (intro exI [of _ es]) simp
qed

lemma fill_elements_eq:
  assumes "0 \<le> a" "a \<le> n" "nat n \<le> length (block f)"
  shows "\<exists>es. fill_elements [a..n - 1] v f = Inr (set_block es f) \<and> length es = length (block f) \<and>
    take (nat n) es = take (nat a) (block f) @ replicate (nat (n - a)) v"
  using assms
proof (induction "nat (n - a)" arbitrary: a f)
  case 0
  then show ?case by (intro exI [of _ "block f"]) simp
next
  case (Suc k)
  let ?b = "(block f)[nat a := v]"
  have k: "k = nat (n - (a + 1))" using Suc.hyps(2) by linarith
  have a: "a < n" "nat a < length (block f)" "block f \<noteq> []" using Suc by auto
  have "fill_elements [a..n - 1] v f = fill_elements [a + 1..n - 1] v (set_block ?b f)"
    using a Suc.prems by (simp add: upto_first put_element_block)
  moreover obtain es where es: "fill_elements [a + 1..n - 1] v (set_block ?b f) = Inr (set_block es (set_block ?b f))"
    "length es = length ?b" "take (nat n) es = take (nat (a + 1)) ?b @ replicate (nat (n - (a + 1))) v"
    using Suc.hyps(1) [OF k, of "set_block ?b f"] Suc.prems a by auto
  moreover have "take (nat (a + 1)) ?b = take (nat a) (block f) @ [v]"
    using a Suc.prems by (simp add: nat_add_distrib take_Suc_conv_app_nth)
  moreover have "nat (n - a) = Suc (nat (n - (a + 1)))" using a by linarith
  ultimately show ?case by (intro exI [of _ es]) simp
qed

lemma save_elements_eq:
  assumes "0 \<le> start" "0 \<le> i" "i \<le> num" "nat (start + num) \<le> length (block f)"
  shows "save_elements [i..num - 1] start f = Inr (take (nat (num - i)) (drop (nat (start + i)) (block f)))"
  using assms
proof (induction "nat (num - i)" arbitrary: i)
  case (Suc k)
  then have i: "i < num" "nat (start + i) < length (block f)" "nat (num - i) = Suc (nat (num - (i + 1)))"
    "nat (start + (i + 1)) = Suc (nat (start + i))" by auto
  have "save_elements [i + 1..num - 1] start f = Inr (take (nat (num - (i + 1))) (drop (nat (start + (i + 1))) (block f)))"
    using Suc.hyps(2) Suc.prems i by (intro Suc.hyps(1)) auto
  then show ?case
    using i Suc.prems by (simp add: upto_first RepeatedField_Get_def element_at_block add.commute Cons_nth_drop_Suc [symmetric])
qed simp

section \<open>Operations\<close>

lemma grow_total:
  assumes "field_ok E f" "reachable_size E N" "rf_current_size f < N"
  shows "\<exists>f'. grow_for_one E f = Inr f' \<and> field_ok E f' \<and> field_contents f' = field_contents f \<and>
    rf_current_size f' = rf_current_size f \<and> rf_current_size f' < rf_total_size f'"
proof (cases "rf_current_size f = rf_total_size f")
  case True
  then have "int_value (rf_total_size f + 1) = Inr (rf_total_size f + 1)"
    using assms by (simp add: int_value_def reachable_size_def field_ok_def)
  then show ?thesis
    using Reserve_total [OF assms(1,2), of "rf_total_size f + 1"] assms(3) True by (auto simp: grow_for_one_def)
next
  case False
  then show ?thesis using assms(1) by (simp add: grow_for_one_def field_ok_def)
qed

lemma Add_total:
  assumes "field_ok E f" "reachable_size E N" "rf_current_size f < N"
  shows "\<exists>f'. RepeatedField_Add E (Outside v) f = Inr f' \<and> field_ok E f' \<and> field_contents f' = field_contents f @ [v]"
proof -
  obtain f1 where 1: "grow_for_one E f = Inr f1" "field_ok E f1" "field_contents f1 = field_contents f" "rf_current_size f1 < rf_total_size f1"
    using grow_total [OF assms] by blast
  from put_elements_next [OF 1(2,4), of v] 1(1,3) show ?thesis
    by (auto simp: RepeatedField_Add_def argument_value_def)
qed

lemma AddAlreadyReserved_total:
  assumes "field_ok E f" "rf_current_size f < rf_total_size f"
  shows "\<exists>f'. RepeatedField_AddAlreadyReserved v f = Inr f' \<and> field_ok E f' \<and> field_contents f' = field_contents f @ [v] \<and>
    rf_current_size f' = rf_current_size f + 1 \<and> rf_total_size f' = rf_total_size f"
  using put_elements_next [OF assms, of v] assms
  by (auto simp: RepeatedField_AddAlreadyReserved_def put_element_block split: if_splits)

lemma Set_total:
  assumes "field_ok E f" "0 \<le> i" "i < rf_current_size f"
  shows "\<exists>f'. RepeatedField_Set i v f = Inr f' \<and> field_ok E f' \<and> field_contents f' = (field_contents f)[nat i := v] \<and>
    rf_current_size f' = rf_current_size f"
proof -
  have b: "nat i < length (block f)" "block f \<noteq> []" using field_okD(3) [OF assms(1)] assms(2,3) by auto
  have "field_ok E (set_block ((block f)[nat i := v]) f)"
    using assms(1) b by (simp add: field_ok_def)
  moreover have "field_contents (set_block ((block f)[nat i := v]) f) = (field_contents f)[nat i := v]"
    using b by (simp add: field_contents_def take_update_swap)
  ultimately show ?thesis using b assms(2) by (simp add: RepeatedField_Set_def put_element_block)
qed

lemma Get_total:
  assumes "field_ok E f" "0 \<le> i" "i < rf_current_size f"
  shows "RepeatedField_Get i f = Inr (field_contents f ! nat i)"
  using field_okD(3) [OF assms(1)] assms(2,3) by (simp add: RepeatedField_Get_def element_at_block field_contents_def)

lemma SwapElements_total:
  assumes f: "field_ok E f" and i: "0 \<le> i" "i < rf_current_size f" and j: "0 \<le> j" "j < rf_current_size f"
  shows "\<exists>f'. RepeatedField_SwapElements i j f = Inr f' \<and> field_ok E f' \<and>
    field_contents f' = (field_contents f)[nat i := field_contents f ! nat j, nat j := field_contents f ! nat i]"
proof -
  obtain f1 where 1: "put_element i (field_contents f ! nat j) f = Inr f1" "field_ok E f1"
    "field_contents f1 = (field_contents f)[nat i := field_contents f ! nat j]" "rf_current_size f1 = rf_current_size f"
    using Set_total [OF f i] by (auto simp: RepeatedField_Set_def)
  from Set_total [OF 1(2) j(1)] j(2) 1 obtain f2 where 2: "put_element j (field_contents f ! nat i) f1 = Inr f2" "field_ok E f2"
    "field_contents f2 = (field_contents f1)[nat j := field_contents f ! nat i]"
    by (auto simp: RepeatedField_Set_def)
  show ?thesis
    using Get_total [OF f i] Get_total [OF f j] 1 2 by (simp add: RepeatedField_SwapElements_def RepeatedField_Get_def)
qed

lemma RemoveLast_total:
  assumes "field_ok E f" "0 < rf_current_size f"
  shows "field_ok E (RepeatedField_RemoveLast f) \<and> field_contents (RepeatedField_RemoveLast f) = butlast (field_contents f)"
proof -
  have "length (field_contents f) - 1 = nat (rf_current_size f - 1)" using field_okD(4) [OF assms(1)] assms(2) by simp
  then show ?thesis
    using field_ok_shrink [OF assms(1), of "rf_current_size f - 1"] assms(2)
    by (simp add: RepeatedField_RemoveLast_def butlast_conv_take)
qed

lemma Truncate_total:
  assumes "field_ok E f" "0 \<le> n" "n \<le> rf_current_size f"
  shows "field_ok E (RepeatedField_Truncate n f) \<and> field_contents (RepeatedField_Truncate n f) = take (nat n) (field_contents f)"
  using field_ok_shrink [OF assms] assms by (auto simp: RepeatedField_Truncate_def field_contents_def)

lemma Clear_total:
  assumes "field_ok E f"
  shows "field_ok E (RepeatedField_Clear f) \<and> field_contents (RepeatedField_Clear f) = []"
  using field_ok_shrink [OF assms, of 0] field_okD(1) [OF assms] by (simp add: RepeatedField_Clear_def)

lemma Resize_total:
  assumes f: "field_ok E f" and N: "reachable_size E N" and n: "0 \<le> n" "n \<le> N"
  shows "\<exists>f'. RepeatedField_Resize E n (Outside v) f = Inr f' \<and> field_ok E f' \<and>
    field_contents f' = take (nat n) (field_contents f) @ replicate (nat (n - rf_current_size f)) v"
proof (cases "rf_current_size f < n")
  case True
  obtain f1 where 1: "RepeatedField_Reserve E n f = Inr f1" "field_ok E f1" "field_contents f1 = field_contents f"
    "rf_current_size f1 = rf_current_size f" "n \<le> rf_total_size f1"
    using Reserve_total [OF f N n(2)] by blast
  have b: "nat n \<le> length (block f1)" "block f1 \<noteq> []" using 1(2,5) True field_okD(1) [OF f] by (auto simp: field_ok_def)
  obtain es where es: "fill_elements [rf_current_size f1..n - 1] v f1 = Inr (set_block es f1)"
    "length es = length (block f1)" "take (nat n) es = field_contents f @ replicate (nat (n - rf_current_size f)) v"
    using fill_elements_eq [of "rf_current_size f1" n f1 v] b(1) 1(3,4) True field_okD(1) [OF f] by (auto simp: field_contents_def)
  have "take (nat n) (field_contents f) = field_contents f" using True field_okD(4) [OF f] by simp
  then show ?thesis
    using field_ok_block [OF 1(2) es(2) b(2) n(1)] 1 es True by (simp add: RepeatedField_Resize_def argument_value_def)
next
  case False
  then show ?thesis using field_ok_shrink [OF f n(1)] by (simp add: RepeatedField_Resize_def)
qed

lemma slide_total:
  assumes f: "field_ok E f" and r: "0 \<le> a" "a < b" "b \<le> rf_current_size f"
  shows "\<exists>f'. slide_elements [b..rf_current_size f - 1] (b - a) f = Inr f' \<and> rf_current_size f' = rf_current_size f \<and>
    field_ok E (RepeatedField_Truncate (rf_current_size f - (b - a)) f') \<and>
    field_contents (RepeatedField_Truncate (rf_current_size f - (b - a)) f') = take (nat a) (field_contents f) @ drop (nat b) (field_contents f)"
proof -
  have c: "nat (rf_current_size f) \<le> length (block f)" "block f \<noteq> []" using field_okD(3) [OF f] r by auto
  from slide_elements_eq [of "b - a" b "rf_current_size f" f] c(1) r obtain es where
    es: "slide_elements [b..rf_current_size f - 1] (b - a) f = Inr (set_block es f)" "length es = length (block f)"
    "take (nat (rf_current_size f - (b - a))) es = take (nat a) (block f) @ drop (nat b) (field_contents f)"
    by (auto simp: field_contents_def)
  have "take (nat a) (block f) = take (nat a) (field_contents f)" using r by (simp add: field_contents_def min_def)
  then show ?thesis
    using field_ok_block [OF f es(2) c(2), of "rf_current_size f - (b - a)"] es r f
    by (simp add: RepeatedField_Truncate_def field_ok_def)
qed

lemma Extract_total:
  assumes f: "field_ok E f" and r: "0 \<le> s" "0 \<le> n" "s + n \<le> rf_current_size f"
  shows "\<exists>f'. RepeatedField_ExtractSubrange s n True f = Inr (take (nat n) (drop (nat s) (field_contents f)), f') \<and>
    field_ok E f' \<and> field_contents f' = take (nat s) (field_contents f) @ drop (nat (s + n)) (field_contents f)"
proof -
  have "save_elements [0..n - 1] s f = Inr (take (nat n) (drop (nat s) (block f)))"
    using save_elements_eq [of s 0 n f] r field_okD(3) [OF f] by simp
  moreover have "take (nat n) (drop (nat s) (block f)) = take (nat n) (drop (nat s) (field_contents f))"
    using r by (simp add: field_contents_def drop_take min_def)
  ultimately have s: "save_elements [0..n - 1] s f = Inr (take (nat n) (drop (nat s) (field_contents f)))" by simp
  show ?thesis
  proof (cases "0 < n")
    case True
    then show ?thesis using slide_total [OF f, of s "s + n"] r s by (auto simp: RepeatedField_ExtractSubrange_def)
  next
    case False
    then have "n = 0" using r by simp
    then show ?thesis using f s by (simp add: RepeatedField_ExtractSubrange_def)
  qed
qed

lemma erase_total:
  assumes f: "field_ok E f" and r: "0 \<le> a" "a \<le> b" "b \<le> rf_current_size f"
  shows "\<exists>f'. RepeatedField_erase_range a b f = Inr (a, f') \<and> field_ok E f' \<and>
    field_contents f' = take (nat a) (field_contents f) @ drop (nat b) (field_contents f)"
proof (cases "a = b")
  case True
  then show ?thesis using f by (simp add: RepeatedField_erase_range_def)
next
  case False
  have e: "a + (rf_current_size f - b) = rf_current_size f - (b - a)" by simp
  then show ?thesis
    using slide_total [OF f r(1) _ r(3)] False r(2) by (auto simp: RepeatedField_erase_range_def e)
qed

lemma MergeFrom_total:
  assumes f: "field_ok E f" and g: "field_ok E g" and N: "reachable_size E N" "rf_current_size f + rf_current_size g \<le> N"
  shows "\<exists>f'. RepeatedField_MergeFrom E (Another g) f = Inr f' \<and> field_ok E f' \<and> field_contents f' = field_contents f @ field_contents g \<and>
    RepeatedField_GetArenaNoVirtual f' = RepeatedField_GetArenaNoVirtual f"
proof (cases "rf_current_size g = 0")
  case True
  then show ?thesis using f by (simp add: RepeatedField_MergeFrom_def field_contents_def)
next
  case False
  let ?c = "rf_current_size f" and ?d = "rf_current_size g"
  have i: "int_value (?c + ?d) = Inr (?c + ?d)"
    using N field_okD(1) [OF f] field_okD(1) [OF g] by (simp add: int_value_def reachable_size_def)
  obtain f1 where 1: "RepeatedField_Reserve E (?c + ?d) f = Inr f1" "field_ok E f1" "field_contents f1 = field_contents f"
    "rf_current_size f1 = ?c" "?c + ?d \<le> rf_total_size f1"
    "RepeatedField_GetArenaNoVirtual f1 = RepeatedField_GetArenaNoVirtual f"
    using Reserve_total [OF f N] by blast
  have pos: "0 \<le> ?c" "0 < ?d" using field_okD(1) [OF f] field_okD(1) [OF g] False by auto
  have b: "nat ?d \<le> length (block g)" "nat ?c + nat ?d \<le> length (block f1)" "block g \<noteq> []" "block f1 \<noteq> []"
    using field_okD(3) [OF g] 1(2,5) pos by (auto simp: field_ok_def)
  then obtain p q where p: "rf_rep f1 = Some p" "rf_rep g = Some q" by (auto simp: block_def split: option.splits)
  have cf: "field_contents f = take (nat ?c) (block f1)" using 1(3,4) by (simp add: field_contents_def [of f1])
  define es where "es = take (nat ?c) (block f1) @ take (nat ?d) (block g) @ drop (nat ?c + nat ?d) (block f1)"
  have "RepeatedField_MergeFrom E (Another g) f = Inr ((set_block es f1)\<lparr>rf_current_size := ?c + ?d\<rparr>)"
    using False i 1 b pos p by (simp add: RepeatedField_MergeFrom_def CopyArray_def block_def es_def set_block_def)
  moreover have "length es = length (block f1)" "take (nat (?c + ?d)) es = field_contents f @ field_contents g"
    using b pos field_okD(4) [OF f] field_okD(4) [OF g]
    by (simp_all add: es_def cf [symmetric] nat_add_distrib field_contents_def [of g])
  ultimately show ?thesis
    using field_ok_block [OF 1(2) _ b(4), of es "?c + ?d"] 1(5,6) pos by simp
qed

lemma CopyFrom_total:
  assumes "field_ok E f" "field_ok E g" "reachable_size E N" "rf_current_size g \<le> N"
  shows "\<exists>f'. RepeatedField_CopyFrom E (Another g) f = Inr f' \<and> field_ok E f' \<and> field_contents f' = field_contents g \<and>
    RepeatedField_GetArenaNoVirtual f' = RepeatedField_GetArenaNoVirtual f"
proof -
  have "field_ok E (RepeatedField_Clear f)" "field_contents (RepeatedField_Clear f) = []" "rf_current_size (RepeatedField_Clear f) = 0"
    "RepeatedField_GetArenaNoVirtual (RepeatedField_Clear f) = RepeatedField_GetArenaNoVirtual f"
    using Clear_total [OF assms(1)] by (simp_all add: RepeatedField_Clear_def RepeatedField_GetArenaNoVirtual_def)
  with MergeFrom_total [OF this(1) assms(2,3)] assms(4) show ?thesis by (simp add: RepeatedField_CopyFrom_def)
qed

section \<open>Appending\<close>

text \<open>
  The contract of an operation that appends to a sequence, as long as there is room for one more. A
  range is appended element by element.
\<close>

locale appendable =
  fixes add :: "'v \<Rightarrow> 's \<Rightarrow> 's res" and ok :: "'s \<Rightarrow> bool" and seq :: "'s \<Rightarrow> 'v list" and room :: "'s \<Rightarrow> int"
  assumes append: "ok s \<Longrightarrow> 0 < room s \<Longrightarrow>
    \<exists>s'. add v s = Inr s' \<and> ok s' \<and> seq s' = seq s @ [v] \<and> room s - 1 \<le> room s'"
begin

lemma append_range:
  "ok s \<Longrightarrow> int (length vs) \<le> room s \<Longrightarrow> \<exists>s'. add_range add vs s = Inr s' \<and> ok s' \<and> seq s' = seq s @ vs"
proof (induction vs arbitrary: s)
  case (Cons v vs)
  then obtain s1 where 1: "add v s = Inr s1" "ok s1" "seq s1 = seq s @ [v]" "room s - 1 \<le> room s1"
    using append [of s v] by auto
  with Cons.IH [OF 1(2)] Cons.prems(2) show ?case by auto
qed simp

end

interpretation reserved: appendable RepeatedField_AddAlreadyReserved "field_ok E" field_contents
  "\<lambda>f. rf_total_size f - rf_current_size f" for E
proof
  fix f :: "'a repeated_field" and v
  assume "field_ok E f" "0 < rf_total_size f - rf_current_size f"
  from AddAlreadyReserved_total [OF this(1), of v] this(2)
  show "\<exists>f'. RepeatedField_AddAlreadyReserved v f = Inr f' \<and> field_ok E f' \<and> field_contents f' = field_contents f @ [v] \<and>
    rf_total_size f - rf_current_size f - 1 \<le> rf_total_size f' - rf_current_size f'" by fastforce
qed

interpretation growing: appendable "\<lambda>v. RepeatedField_Add E (Outside v)" "\<lambda>f. field_ok E f \<and> reachable_size E N" field_contents
  "\<lambda>f. N - rf_current_size f" for E N
proof
  fix f :: "'a repeated_field" and v
  assume f: "field_ok E f \<and> reachable_size E N" "0 < N - rf_current_size f"
  then obtain f' where 1: "RepeatedField_Add E (Outside v) f = Inr f'" "field_ok E f'" "field_contents f' = field_contents f @ [v]"
    using Add_total [of E f N v] by auto
  then have "rf_current_size f' = rf_current_size f + 1"
    using field_okD(5) [OF 1(2)] field_okD(5) [of E f] f by simp
  then show "\<exists>f'. RepeatedField_Add E (Outside v) f = Inr f' \<and> (field_ok E f' \<and> reachable_size E N) \<and>
    field_contents f' = field_contents f @ [v] \<and> N - rf_current_size f - 1 \<le> N - rf_current_size f'" using 1 f by auto
qed

lemma field_ok_new: "reachable_size E N \<Longrightarrow> field_ok E RepeatedField"
proof -
  assume N: "reachable_size E N"
  then have "0 \<le> int (et_sizeof E) * (2 * N)" by (simp add: reachable_size_def)
  then have "block_bytes E 0 < 2 ^ 32" using N unfolding reachable_size_def block_bytes_def by linarith
  then show ?thesis by (simp add: field_ok_def RepeatedField_def block_def)
qed

lemma range_total:
  assumes N: "reachable_size E N" "int (length vs) \<le> N"
  shows "\<exists>f. RepeatedField_range E forward vs = Inr f \<and> field_ok E f \<and> field_contents f = vs"
proof (cases forward)
  case True
  obtain f1 where 1: "RepeatedField_Reserve E (int (length vs)) RepeatedField = Inr f1" "field_ok E f1" "field_contents f1 = []"
    "rf_current_size f1 = 0" "int (length vs) \<le> rf_total_size f1"
    using Reserve_total [OF field_ok_new [OF N(1)] N] by (auto simp: RepeatedField_def field_contents_def)
  then show ?thesis
    using reserved.append_range [OF 1(2), of vs] True by (simp add: RepeatedField_range_def CalculateReserve_def)
next
  case False
  then show ?thesis
    using growing.append_range [of E RepeatedField N vs] N field_ok_new [OF N(1)]
    by (auto simp: RepeatedField_range_def CalculateReserve_def RepeatedField_def field_contents_def)
qed

end
