(* ===== verification/Repeated_Properties.thy ===== *)
theory Repeated_Properties
  imports Repeated_Laws
begin

text \<open>
  The properties of repeated fields: any sequence of operations is the same sequence on lists, a swap
  exchanges the contents across arenas, and the argument of \<open>Add\<close> may not lie in the field itself when
  the field has to grow.
\<close>

section \<open>Sequences of operations\<close>

datatype 'e field_op =
    F_Add 'e | F_Set int 'e | F_RemoveLast | F_Truncate int | F_Clear | F_Resize int 'e | F_Swap int int
  | F_Extract int int | F_Erase int int | F_Merge "'e repeated_field" | F_Copy "'e repeated_field" | F_Reserve int

fun perform :: "'e element_type \<Rightarrow> 'e field_op \<Rightarrow> 'e repeated_field \<Rightarrow> 'e repeated_field res" where
  "perform E (F_Add v) f = RepeatedField_Add E (Outside v) f"
| "perform E (F_Set i v) f = RepeatedField_Set i v f"
| "perform E F_RemoveLast f = Inr (RepeatedField_RemoveLast f)"
| "perform E (F_Truncate n) f = Inr (RepeatedField_Truncate n f)"
| "perform E F_Clear f = Inr (RepeatedField_Clear f)"
| "perform E (F_Resize n v) f = RepeatedField_Resize E n (Outside v) f"
| "perform E (F_Swap i j) f = RepeatedField_SwapElements i j f"
| "perform E (F_Extract s n) f = res_map snd (RepeatedField_ExtractSubrange s n True f)"
| "perform E (F_Erase a b) f = res_map snd (RepeatedField_erase_range a b f)"
| "perform E (F_Merge g) f = RepeatedField_MergeFrom E (Another g) f"
| "perform E (F_Copy g) f = RepeatedField_CopyFrom E (Another g) f"
| "perform E (F_Reserve n) f = RepeatedField_Reserve E n f"

fun perform_list :: "'e field_op \<Rightarrow> 'e list \<Rightarrow> 'e list" where
  "perform_list (F_Add v) xs = xs @ [v]"
| "perform_list (F_Set i v) xs = xs[nat i := v]"
| "perform_list F_RemoveLast xs = butlast xs"
| "perform_list (F_Truncate n) xs = take (nat n) xs"
| "perform_list F_Clear xs = []"
| "perform_list (F_Resize n v) xs = take (nat n) xs @ replicate (nat n - length xs) v"
| "perform_list (F_Swap i j) xs = xs[nat i := xs ! nat j, nat j := xs ! nat i]"
| "perform_list (F_Extract s n) xs = take (nat s) xs @ drop (nat (s + n)) xs"
| "perform_list (F_Erase a b) xs = take (nat a) xs @ drop (nat b) xs"
| "perform_list (F_Merge g) xs = xs @ field_contents g"
| "perform_list (F_Copy g) xs = field_contents g"
| "perform_list (F_Reserve n) xs = xs"

text \<open>What the header asks of the caller, with \<open>N\<close> the largest size the field may reach.\<close>

fun allowed :: "'e element_type \<Rightarrow> int \<Rightarrow> 'e field_op \<Rightarrow> 'e list \<Rightarrow> bool" where
  "allowed E N (F_Add v) xs \<longleftrightarrow> int (length xs) < N"
| "allowed E N (F_Set i v) xs \<longleftrightarrow> 0 \<le> i \<and> i < int (length xs)"
| "allowed E N F_RemoveLast xs \<longleftrightarrow> xs \<noteq> []"
| "allowed E N (F_Truncate n) xs \<longleftrightarrow> 0 \<le> n \<and> n \<le> int (length xs)"
| "allowed E N F_Clear xs \<longleftrightarrow> True"
| "allowed E N (F_Resize n v) xs \<longleftrightarrow> 0 \<le> n \<and> n \<le> N"
| "allowed E N (F_Swap i j) xs \<longleftrightarrow> 0 \<le> i \<and> i < int (length xs) \<and> 0 \<le> j \<and> j < int (length xs)"
| "allowed E N (F_Extract s n) xs \<longleftrightarrow> 0 \<le> s \<and> 0 \<le> n \<and> s + n \<le> int (length xs)"
| "allowed E N (F_Erase a b) xs \<longleftrightarrow> 0 \<le> a \<and> a \<le> b \<and> b \<le> int (length xs)"
| "allowed E N (F_Merge g) xs \<longleftrightarrow> field_ok E g \<and> int (length xs) + int (length (field_contents g)) \<le> N"
| "allowed E N (F_Copy g) xs \<longleftrightarrow> field_ok E g \<and> int (length (field_contents g)) \<le> N"
| "allowed E N (F_Reserve n) xs \<longleftrightarrow> n \<le> N"

fun perform_all :: "'e element_type \<Rightarrow> 'e field_op list \<Rightarrow> 'e repeated_field \<Rightarrow> 'e repeated_field res" where
  "perform_all E [] f = Inr f"
| "perform_all E (op # ops) f = res_bind (perform E op f) (perform_all E ops)"

fun all_allowed :: "'e element_type \<Rightarrow> int \<Rightarrow> 'e field_op list \<Rightarrow> 'e list \<Rightarrow> bool" where
  "all_allowed E N [] xs \<longleftrightarrow> True"
| "all_allowed E N (op # ops) xs \<longleftrightarrow> allowed E N op xs \<and> all_allowed E N ops (perform_list op xs)"

lemma perform_total:
  assumes N: "reachable_size E N" and f: "field_ok E f" and a: "allowed E N op (field_contents f)"
  shows "\<exists>f'. perform E op f = Inr f' \<and> field_ok E f' \<and> field_contents f' = perform_list op (field_contents f)"
proof (cases op)
  case (F_Resize n v)
  have "nat (n - rf_current_size f) = nat n - length (field_contents f)"
    using field_okD(1,4) [OF f] a F_Resize by (simp add: nat_diff_distrib')
  then show ?thesis using Resize_total [OF f N, of n v] a F_Resize by simp
next
  case F_RemoveLast
  have "0 < rf_current_size f" using a field_okD(5) [OF f] F_RemoveLast by (cases "field_contents f") auto
  then show ?thesis using RemoveLast_total [OF f] F_RemoveLast by simp
next
  case (F_Merge g)
  then show ?thesis using MergeFrom_total [OF f _ N] a field_okD(5) [OF f] field_okD(5) [of E g] by fastforce
next
  case (F_Copy g)
  then show ?thesis using CopyFrom_total [OF f _ N] a field_okD(5) [of E g] by fastforce
next
  case (F_Extract s n)
  then show ?thesis using Extract_total [OF f, of s n] a field_okD(5) [OF f] by auto
next
  case (F_Erase b c)
  then show ?thesis using erase_total [OF f, of b c] a field_okD(5) [OF f] by auto
next
  case (F_Swap i j)
  then show ?thesis using SwapElements_total [OF f, of i j] a field_okD(5) [OF f] by simp
next
  case (F_Add v)
  then show ?thesis using Add_total [OF f N] a field_okD(5) [OF f] by simp
next
  case (F_Set i v)
  then show ?thesis using Set_total [OF f, of i v] a field_okD(5) [OF f] by auto
next
  case (F_Truncate n)
  then show ?thesis using Truncate_total [OF f] a field_okD(5) [OF f] by simp
next
  case (F_Reserve n)
  then show ?thesis using Reserve_total [OF f N, of n] a by auto
qed (use Clear_total [OF f] in simp)

text \<open>
  C20. A repeated field is a list. Whatever sequence of its operations a caller performs within what the
  header asks of it - appending, overwriting, removing the last, truncating, clearing, resizing,
  swapping, extracting and erasing ranges, merging and copying other fields, reserving - none of them
  fails, and the elements afterwards are those of the same operations on a list.
\<close>

theorem repeated_field_is_a_list:
  assumes "reachable_size E N" and "field_ok E f" and "all_allowed E N ops (field_contents f)"
  shows "\<exists>f'. perform_all E ops f = Inr f' \<and> field_ok E f' \<and> field_contents f' = fold perform_list ops (field_contents f) \<and>
    RepeatedField_size f' = int (length (field_contents f')) \<and>
    (\<forall>i. 0 \<le> i \<longrightarrow> i < RepeatedField_size f' \<longrightarrow> RepeatedField_Get i f' = Inr (field_contents f' ! nat i))"
  using assms(2,3)
proof (induction ops arbitrary: f)
  case Nil
  then show ?case using Get_total [of E f] field_okD(5) [of E f] by (simp add: RepeatedField_size_def)
next
  case (Cons op ops)
  then obtain f1 where "perform E op f = Inr f1" "field_ok E f1" "field_contents f1 = perform_list op (field_contents f)"
    using perform_total [OF assms(1)] by fastforce
  with Cons.IH [of f1] Cons.prems(2) show ?case by simp
qed

text \<open>Numbers of four bytes: an empty field is filled, thinned out and merged with itself as it was.\<close>

definition sample_element :: "nat element_type" where
  "sample_element = \<lparr>et_default = 0, et_sizeof = 4, et_align = 4\<rparr>"

lemma sample_reachable: "reachable_size sample_element 1000"
  by (simp add: reachable_size_def block_bytes_def kRepHeaderSize_def sample_element_def)

lemma sample_field_ok: "field_ok sample_element RepeatedField"
  by (rule field_ok_new [OF sample_reachable])

theorem repeated_field_is_a_list_witness:
  "\<exists>f. perform_all sample_element
       [F_Add 7, F_Add 8, F_Add 9, F_Add 10, F_Add 11, F_Erase 1 3, F_Set 0 5, F_Resize 5 1, F_Swap 0 4] RepeatedField = Inr f \<and>
     field_contents f = [1, 10, 11, 1, 5] \<and> RepeatedField_size f = 5 \<and> RepeatedField_Get 1 f = Inr 10"
proof -
  let ?ops = "[F_Add 7, F_Add 8, F_Add 9, F_Add 10, F_Add 11, F_Erase 1 3, F_Set 0 5, F_Resize 5 1, F_Swap 0 4]"
  have "all_allowed sample_element 1000 ?ops (field_contents RepeatedField)"
    by simp
  from repeated_field_is_a_list [OF sample_reachable sample_field_ok this] obtain f where
    f: "perform_all sample_element ?ops RepeatedField = Inr f" "field_contents f = fold perform_list ?ops (field_contents RepeatedField)"
      "RepeatedField_size f = int (length (field_contents f))"
      "\<forall>i. 0 \<le> i \<longrightarrow> i < RepeatedField_size f \<longrightarrow> RepeatedField_Get i f = Inr (field_contents f ! nat i)" by blast
  have c: "field_contents f = [1, 10, 11, 1, 5]" unfolding f(2) by (simp add: numeral_2_eq_2)
  then show ?thesis using f(1,3,4) by simp
qed

section \<open>Arguments that lie in the field\<close>

text \<open>
  C23. \<open>Add\<close> takes its argument by reference and reads it after it has made room. When the argument is an
  element of the field itself, on the heap, and the field is full, the element has been deleted with the
  old block by then: the behaviour is undefined. In every other case the element is appended. On an
  arena the old block stays, so nothing goes wrong there.
\<close>

theorem add_own_element:
  assumes "reachable_size E N" and "field_ok E f" and "rf_current_size f < N" and "0 \<le> i" and "i < rf_current_size f"
  shows "if rf_current_size f = rf_total_size f \<and> RepeatedField_GetArena f = None
    then RepeatedField_Add E (Inside i) f = Inl Undefined
    else \<exists>f'. RepeatedField_Add E (Inside i) f = Inr f' \<and> field_ok E f' \<and> field_contents f' = field_contents f @ [field_contents f ! nat i]"
proof -
  obtain f1 where 1: "grow_for_one E f = Inr f1" "field_ok E f1" "field_contents f1 = field_contents f"
    "rf_current_size f1 = rf_current_size f" "rf_current_size f1 < rf_total_size f1"
    using grow_total [OF assms(2,1,3)] by blast
  have v: "element_at i f = Inr (field_contents f ! nat i)"
    using Get_total [OF assms(2,4,5)] by (simp add: RepeatedField_Get_def)
  show ?thesis
  proof (cases "rf_current_size f = rf_total_size f \<and> RepeatedField_GetArena f = None")
    case True
    then show ?thesis
      using 1 by (simp add: RepeatedField_Add_def argument_value_def RepeatedField_GetArena_def)
  next
    case False
    have "argument_value (Inside i) f f1 = Inr (field_contents f ! nat i)"
      using False v 1 by (auto simp: argument_value_def RepeatedField_GetArena_def grow_for_one_def)
    then show ?thesis
      using put_elements_next [OF 1(2,5), of "field_contents f ! nat i"] 1(1,3) False by (auto simp: RepeatedField_Add_def)
  qed
qed

theorem add_own_element_witness:
  "RepeatedField_Add sample_element (Inside 0)
     \<lparr>rf_current_size = 4, rf_total_size = 4, rf_rep = Some \<lparr>rep_arena = None, rep_elements = [1, 2, 3, 4]\<rparr>\<rparr> = Inl Undefined"
  using add_own_element [OF sample_reachable, of "\<lparr>rf_current_size = 4, rf_total_size = 4,
    rf_rep = Some \<lparr>rep_arena = None, rep_elements = [1, 2, 3, 4]\<rparr>\<rparr>" 0]
  by (simp add: field_ok_def block_bytes_def kRepHeaderSize_def sample_element_def block_def RepeatedField_GetArena_def
    RepeatedField_GetArenaNoVirtual_def)

section \<open>Swapping\<close>

lemma field_ok_on: "reachable_size E N \<Longrightarrow> field_ok E (RepeatedField_on a)"
  using field_ok_new [of E N] by (auto simp: field_ok_def RepeatedField_def RepeatedField_on_def block_def split: option.split)

lemma GetArena_on [simp]: "RepeatedField_GetArenaNoVirtual (RepeatedField_on a) = a"
  by (simp add: RepeatedField_GetArenaNoVirtual_def RepeatedField_on_def split: option.split)

lemma InternalSwap_eq: "RepeatedField_InternalSwap f g = (g, f)"
  by (cases f, cases g) (simp add: RepeatedField_InternalSwap_def)

text \<open>
  \<open>Swap\<close> exchanges the contents of two fields, wherever they lie: on one arena, on two, on the heap.
  Each field stays on its arena.
\<close>

lemma swap_exchanges:
  assumes "reachable_size E N" and "field_ok E f" and "field_ok E g" and "RepeatedField_size f \<le> N" and "RepeatedField_size g \<le> N"
  shows "\<exists>f' g'. RepeatedField_Swap E (Another g) f = Inr (f', Another g') \<and> field_ok E f' \<and> field_ok E g' \<and>
    field_contents f' = field_contents g \<and> field_contents g' = field_contents f \<and>
    RepeatedField_GetArena f' = RepeatedField_GetArena f \<and> RepeatedField_GetArena g' = RepeatedField_GetArena g"
proof (cases "RepeatedField_GetArenaNoVirtual f = RepeatedField_GetArenaNoVirtual g")
  case True
  then show ?thesis
    using assms(2,3) by (simp add: RepeatedField_Swap_def InternalSwap_eq RepeatedField_GetArena_def)
next
  case False
  let ?on = "RepeatedField_on (RepeatedField_GetArenaNoVirtual g)"
  have on: "field_ok E ?on" "rf_current_size ?on + rf_current_size f \<le> N"
    using field_ok_on [OF assms(1)] assms(4) by (simp_all add: RepeatedField_size_def RepeatedField_on_def)
  obtain t where t: "RepeatedField_MergeFrom E (Another f) ?on = Inr t" "field_ok E t" "field_contents t = field_contents f"
    "RepeatedField_GetArenaNoVirtual t = RepeatedField_GetArenaNoVirtual g"
    using MergeFrom_total [OF on(1) assms(2,1) on(2)] by auto
  obtain f1 where "RepeatedField_CopyFrom E (Another g) f = Inr f1" "field_ok E f1" "field_contents f1 = field_contents g"
    "RepeatedField_GetArenaNoVirtual f1 = RepeatedField_GetArenaNoVirtual f"
    using CopyFrom_total [OF assms(2,3,1)] assms(5) by (auto simp: RepeatedField_size_def)
  then show ?thesis
    using t False by (simp add: RepeatedField_Swap_def InternalSwap_eq RepeatedField_GetArena_def)
qed

section \<open>Limits\<close>

text \<open>
  The check that a size fits comes after the size has been doubled in signed arithmetic, so it never
  fires for a field that is large already.
\<close>

lemma Reserve_overflow:
  "2 ^ 30 \<le> rf_total_size f \<Longrightarrow> rf_total_size f < n \<Longrightarrow> RepeatedField_Reserve E n f = Inl Undefined"
  by (simp add: RepeatedField_Reserve_def int_value_def Let_def)

lemma Merge_itself: "RepeatedField_MergeFrom E Itself f = Inl Fatal_Exception"
  by (simp add: RepeatedField_MergeFrom_def)

lemma space_used:
  assumes "field_ok E f" "rf_rep f \<noteq> None" "block_bytes E (rf_total_size f) < 2 ^ 31"
  shows "RepeatedField_SpaceUsedExcludingSelf E f = block_bytes E (RepeatedField_Capacity f)"
proof -
  have z: "0 \<le> block_bytes E (rf_total_size f)"
    using assms(1) by (simp add: block_bytes_def field_ok_def)
  have "(word_of_int (rf_total_size f) :: 32 word) * of_nat (et_sizeof E) + of_nat (kRepHeaderSize E) =
      word_of_int (block_bytes E (rf_total_size f))"
    by (simp add: block_bytes_def mult.commute add.commute)
  then show ?thesis
    using assms z by (auto simp: RepeatedField_SpaceUsedExcludingSelf_def RepeatedField_Capacity_def sint_sbintrunc'
      signed_take_bit_int_eq_self split: option.split)
qed

end
