(* ===== verification/Repeated_Ptr.thy ===== *)
theory Repeated_Ptr
  imports Repeated_Field
begin

text \<open>
  \<open>RepeatedPtrFieldBase\<close> and \<open>RepeatedPtrField\<close> (repeated_field.h): arrays of pointers to strings or
  messages. A field owns the first \<open>allocated_size\<close> objects of its block; the first \<open>current_size_\<close> of
  them are its elements, the others are cleared and wait to be used again. What the header only
  declares, \<open>Reserve\<close>, \<open>InternalExtend\<close> and \<open>CloseGap\<close>, is the record \<open>ptr_lib\<close>.
\<close>

section \<open>Objects\<close>

type_synonym ptr = nat

record 'm cell =
  cell_value :: 'm
  cell_arena :: arena

text \<open>\<open>st_owned\<close> lists the heap objects an arena has taken with \<open>Own\<close>; it deletes them in the end.\<close>

record 'm store =
  st_heap :: "ptr \<Rightarrow> 'm cell option"
  st_next :: ptr
  st_owned :: "ptr list"

text \<open>
  A \<open>TypeHandler\<close>: the value of a new object, \<open>Clear\<close>, \<open>Merge(from, to)\<close>, \<open>SpaceUsed\<close>, whether an
  object knows its arena, and whether the type has \<open>MergeFrom\<close>.
\<close>

record 'm type_handler =
  th_new :: 'm
  th_clear :: "'m \<Rightarrow> 'm"
  th_merge :: "'m \<Rightarrow> 'm \<Rightarrow> 'm"
  th_space :: "'m \<Rightarrow> int"
  th_knows_arena :: bool
  th_has_merge :: bool

definition StringTypeHandler :: "(bytes \<Rightarrow> int) \<Rightarrow> bytes type_handler" where
  "StringTypeHandler space =
     \<lparr>th_new = [], th_clear = (\<lambda>value. []), th_merge = (\<lambda>from to. from), th_space = space,
      th_knows_arena = False, th_has_merge = True\<rparr>"

definition GenericTypeHandler ::
  "'m \<Rightarrow> ('m \<Rightarrow> 'm) \<Rightarrow> ('m \<Rightarrow> 'm \<Rightarrow> 'm) \<Rightarrow> ('m \<Rightarrow> int) \<Rightarrow> 'm type_handler" where
  "GenericTypeHandler new_value Clear_value MergeFrom_value space =
     \<lparr>th_new = new_value, th_clear = Clear_value, th_merge = MergeFrom_value, th_space = space,
      th_knows_arena = True, th_has_merge = True\<rparr>"

definition fetch :: "ptr \<Rightarrow> 'm store \<Rightarrow> 'm cell res" where
  "fetch p s = (case st_heap s p of None \<Rightarrow> Inl Undefined | Some c \<Rightarrow> Inr c)"

definition New :: "'m type_handler \<Rightarrow> arena \<Rightarrow> 'm store \<Rightarrow> ptr \<times> 'm store" where
  "New H a s =
     (st_next s, s\<lparr>st_heap := (st_heap s)(st_next s := Some \<lparr>cell_value = th_new H, cell_arena = a\<rparr>),
        st_next := st_next s + 1\<rparr>)"

definition NewFromPrototype :: "'m type_handler \<Rightarrow> arena \<Rightarrow> 'm store \<Rightarrow> ptr \<times> 'm store" where
  "NewFromPrototype H a s = New H a s"

text \<open>
  \<open>delete\<close> is undefined for what is not a live object of the heap, and for what an arena is going to
  delete itself.
\<close>

definition Delete_object :: "ptr \<Rightarrow> arena \<Rightarrow> 'm store \<Rightarrow> 'm store res" where
  "Delete_object p a s =
     (if a = None
      then res_bind (fetch p s) (\<lambda>c.
           if cell_arena c \<noteq> None \<or> p \<in> set (st_owned s) then Inl Undefined
           else Inr (s\<lparr>st_heap := (st_heap s)(p := None)\<rparr>))
      else Inr s)"

definition Clear_object :: "'m type_handler \<Rightarrow> ptr \<Rightarrow> 'm store \<Rightarrow> 'm store res" where
  "Clear_object H p s =
     res_map (\<lambda>c. s\<lparr>st_heap := (st_heap s)(p := Some (c\<lparr>cell_value := th_clear H (cell_value c)\<rparr>))\<rparr>) (fetch p s)"

definition Merge_object :: "'m type_handler \<Rightarrow> ptr \<Rightarrow> ptr \<Rightarrow> 'm store \<Rightarrow> 'm store res" where
  "Merge_object H from to s =
     res_bind (fetch from s) (\<lambda>c. res_bind (fetch to s) (\<lambda>d.
       Inr (s\<lparr>st_heap := (st_heap s)(to := Some (d\<lparr>cell_value := th_merge H (cell_value c) (cell_value d)\<rparr>))\<rparr>)))"

definition GetArena_object :: "'m type_handler \<Rightarrow> ptr \<Rightarrow> 'm store \<Rightarrow> arena res" where
  "GetArena_object H p s = (if th_knows_arena H then res_map cell_arena (fetch p s) else Inr None)"

definition Own :: "ptr \<Rightarrow> 'm store \<Rightarrow> 'm store" where
  "Own p s = s\<lparr>st_owned := p # st_owned s\<rparr>"

section \<open>The representation\<close>

text \<open>A slot that was never written holds \<open>None\<close>.\<close>

record ptr_rep =
  pr_allocated_size :: int
  pr_elements :: "ptr option list"

record ptr_field =
  pf_arena :: arena
  pf_current_size :: int
  pf_total_size :: int
  pf_rep :: "ptr_rep option"

record ptr_lib =
  pl_Reserve :: "int \<Rightarrow> ptr_field \<Rightarrow> ptr_field res"
  pl_InternalExtend :: "int \<Rightarrow> ptr_field \<Rightarrow> (int \<times> ptr_field) res"
  pl_CloseGap :: "int \<Rightarrow> int \<Rightarrow> ptr_field \<Rightarrow> ptr_field res"

definition RepeatedPtrFieldBase :: "arena \<Rightarrow> ptr_field" where
  "RepeatedPtrFieldBase a = \<lparr>pf_arena = a, pf_current_size = 0, pf_total_size = 0, pf_rep = None\<rparr>"

definition PtrField_GetArenaNoVirtual :: "ptr_field \<Rightarrow> arena" where
  "PtrField_GetArenaNoVirtual f = pf_arena f"

definition PtrField_empty :: "ptr_field \<Rightarrow> bool" where
  "PtrField_empty f \<longleftrightarrow> pf_current_size f = 0"

definition PtrField_size :: "ptr_field \<Rightarrow> int" where
  "PtrField_size f = pf_current_size f"

definition PtrField_Capacity :: "ptr_field \<Rightarrow> int" where
  "PtrField_Capacity f = pf_total_size f"

text \<open>\<open>rep_->allocated_size\<close> and \<open>rep_->elements[index]\<close>.\<close>

definition rep_of :: "ptr_field \<Rightarrow> ptr_rep res" where
  "rep_of f = (case pf_rep f of None \<Rightarrow> Inl Undefined | Some r \<Rightarrow> Inr r)"

definition slot_at :: "int \<Rightarrow> ptr_field \<Rightarrow> ptr option res" where
  "slot_at index f =
     res_bind (rep_of f) (\<lambda>r.
       if 0 \<le> index \<and> nat index < length (pr_elements r) then Inr (pr_elements r ! nat index) else Inl Undefined)"

definition put_slot :: "int \<Rightarrow> ptr option \<Rightarrow> ptr_field \<Rightarrow> ptr_field res" where
  "put_slot index p f =
     res_bind (rep_of f) (\<lambda>r.
       if 0 \<le> index \<and> nat index < length (pr_elements r)
       then Inr (f\<lparr>pf_rep := Some (r\<lparr>pr_elements := (pr_elements r)[nat index := p]\<rparr>)\<rparr>)
       else Inl Undefined)"

definition add_allocated :: "int \<Rightarrow> ptr_field \<Rightarrow> ptr_field res" where
  "add_allocated n f =
     res_bind (rep_of f) (\<lambda>r. Inr (f\<lparr>pf_rep := Some (r\<lparr>pr_allocated_size := pr_allocated_size r + n\<rparr>)\<rparr>))"

text \<open>The pointer in a slot that the code follows or hands out.\<close>

definition pointer_at :: "int \<Rightarrow> ptr_field \<Rightarrow> ptr res" where
  "pointer_at index f =
     res_bind (slot_at index f) (\<lambda>x. case x of None \<Rightarrow> Inl Undefined | Some p \<Rightarrow> Inr p)"

definition PtrField_raw_data :: "ptr_field \<Rightarrow> int option" where
  "PtrField_raw_data f = (case pf_rep f of None \<Rightarrow> None | Some _ \<Rightarrow> Some 0)"

definition PtrField_ClearedCount :: "ptr_field \<Rightarrow> int" where
  "PtrField_ClearedCount f = (case pf_rep f of None \<Rightarrow> 0 | Some r \<Rightarrow> pr_allocated_size r - pf_current_size f)"

section \<open>Elements\<close>

definition PtrField_Get :: "int \<Rightarrow> ptr_field \<Rightarrow> 'm store \<Rightarrow> 'm res" where
  "PtrField_Get index f s = res_bind (pointer_at index f) (\<lambda>p. res_map cell_value (fetch p s))"

definition PtrField_Mutable :: "int \<Rightarrow> ptr_field \<Rightarrow> ptr res" where
  "PtrField_Mutable index f = pointer_at index f"

definition PtrField_Delete :: "int \<Rightarrow> ptr_field \<Rightarrow> 'm store \<Rightarrow> 'm store res" where
  "PtrField_Delete index f s = res_bind (pointer_at index f) (\<lambda>p. Delete_object p (pf_arena f) s)"

text \<open>The cleared objects are used before a new one is made.\<close>

definition has_cleared :: "ptr_field \<Rightarrow> bool" where
  "has_cleared f \<longleftrightarrow> (case pf_rep f of None \<Rightarrow> False | Some r \<Rightarrow> pf_current_size f < pr_allocated_size r)"

definition grow_if_full :: "ptr_lib \<Rightarrow> ptr_field \<Rightarrow> ptr_field res" where
  "grow_if_full L f =
     (if case pf_rep f of None \<Rightarrow> True | Some r \<Rightarrow> pr_allocated_size r = pf_total_size f
      then res_bind (int_value (pf_total_size f + 1)) (\<lambda>n. pl_Reserve L n f)
      else Inr f)"

definition next_cleared :: "ptr_field \<Rightarrow> (ptr \<times> ptr_field) res" where
  "next_cleared f =
     res_map (\<lambda>p. (p, f\<lparr>pf_current_size := pf_current_size f + 1\<rparr>)) (pointer_at (pf_current_size f) f)"

definition PtrField_Add ::
  "ptr_lib \<Rightarrow> 'm type_handler \<Rightarrow> ptr_field \<Rightarrow> 'm store \<Rightarrow> (ptr \<times> ptr_field \<times> 'm store) res" where
  "PtrField_Add L H f s =
     (if has_cleared f then res_map (\<lambda>(p, f1). (p, f1, s)) (next_cleared f)
      else
        res_bind (grow_if_full L f) (\<lambda>f1.
        res_bind (add_allocated 1 f1) (\<lambda>f2.
        let (result, s1) = NewFromPrototype H (pf_arena f2) s
        in res_bind (put_slot (pf_current_size f2) (Some result) f2) (\<lambda>f3.
           Inr (result, f3\<lparr>pf_current_size := pf_current_size f3 + 1\<rparr>, s1)))))"

definition PtrField_AddFromCleared :: "ptr_field \<Rightarrow> (ptr option \<times> ptr_field) res" where
  "PtrField_AddFromCleared f =
     (if has_cleared f then res_map (\<lambda>(p, f1). (Some p, f1)) (next_cleared f) else Inr (None, f))"

definition PtrField_RemoveLast ::
  "'m type_handler \<Rightarrow> ptr_field \<Rightarrow> 'm store \<Rightarrow> (ptr_field \<times> 'm store) res" where
  "PtrField_RemoveLast H f s =
     (let f1 = f\<lparr>pf_current_size := pf_current_size f - 1\<rparr>
      in res_bind (pointer_at (pf_current_size f1) f1) (\<lambda>p.
         res_map (\<lambda>s1. (f1, s1)) (Clear_object H p s)))"

fun clear_elements :: "'m type_handler \<Rightarrow> int list \<Rightarrow> ptr_field \<Rightarrow> 'm store \<Rightarrow> 'm store res" where
  "clear_elements H [] f s = Inr s"
| "clear_elements H (i # is) f s =
     res_bind (pointer_at i f) (\<lambda>p. res_bind (Clear_object H p s) (clear_elements H is f))"

definition PtrField_Clear :: "'m type_handler \<Rightarrow> ptr_field \<Rightarrow> 'm store \<Rightarrow> (ptr_field \<times> 'm store) res" where
  "PtrField_Clear H f s =
     (let n = pf_current_size f
      in if 0 < n
         then res_map (\<lambda>s1. (f\<lparr>pf_current_size := 0\<rparr>, s1)) (clear_elements H [0..n - 1] f s)
         else Inr (f, s))"

definition PtrField_SwapElements :: "int \<Rightarrow> int \<Rightarrow> ptr_field \<Rightarrow> ptr_field res" where
  "PtrField_SwapElements index1 index2 f =
     res_bind (slot_at index1 f) (\<lambda>a. res_bind (slot_at index2 f) (\<lambda>b.
       res_bind (put_slot index1 b f) (put_slot index2 a)))"

section \<open>Merging\<close>

text \<open>The two loops of \<open>MergeFromInnerLoop\<close>: over cleared objects, then over new ones.\<close>

fun merge_allocated ::
  "'m type_handler \<Rightarrow> int list \<Rightarrow> int \<Rightarrow> ptr_field \<Rightarrow> ptr_field \<Rightarrow> 'm store \<Rightarrow> 'm store res" where
  "merge_allocated H [] our_elems other f s = Inr s"
| "merge_allocated H (i # is) our_elems other f s =
     res_bind (pointer_at i other) (\<lambda>other_elem.
     res_bind (pointer_at (our_elems + i) f) (\<lambda>new_elem.
     res_bind (Merge_object H other_elem new_elem s) (merge_allocated H is our_elems other f)))"

fun merge_fresh ::
  "'m type_handler \<Rightarrow> int list \<Rightarrow> int \<Rightarrow> ptr_field \<Rightarrow> ptr_field \<Rightarrow> 'm store \<Rightarrow> (ptr_field \<times> 'm store) res" where
  "merge_fresh H [] our_elems other f s = Inr (f, s)"
| "merge_fresh H (i # is) our_elems other f s =
     res_bind (pointer_at i other) (\<lambda>other_elem.
     let (new_elem, s1) = NewFromPrototype H (pf_arena f) s
     in res_bind (Merge_object H other_elem new_elem s1) (\<lambda>s2.
        res_bind (put_slot (our_elems + i) (Some new_elem) f) (\<lambda>f1.
        merge_fresh H is our_elems other f1 s2)))"

definition MergeFromInnerLoop ::
  "'m type_handler \<Rightarrow> int \<Rightarrow> ptr_field \<Rightarrow> int \<Rightarrow> int \<Rightarrow> ptr_field \<Rightarrow> 'm store \<Rightarrow> (ptr_field \<times> 'm store) res" where
  "MergeFromInnerLoop H our_elems other len already_allocated f s =
     res_bind (merge_allocated H [0..min already_allocated len - 1] our_elems other f s)
       (merge_fresh H [already_allocated..len - 1] our_elems other f)"

definition MergeFromInternal ::
  "ptr_lib \<Rightarrow> 'm type_handler \<Rightarrow> ptr_field \<Rightarrow> ptr_field \<Rightarrow> 'm store \<Rightarrow> (ptr_field \<times> 'm store) res" where
  "MergeFromInternal L H other f s =
     (let other_size = pf_current_size other
      in res_bind (rep_of other) (\<lambda>_.
         res_bind (pl_InternalExtend L other_size f) (\<lambda>(new_elements, f1).
         res_bind (rep_of f1) (\<lambda>r.
         let allocated_elems = pr_allocated_size r - pf_current_size f1
         in res_bind (MergeFromInnerLoop H new_elements other other_size allocated_elems f1 s) (\<lambda>(f2, s1).
            let f3 = f2\<lparr>pf_current_size := pf_current_size f2 + other_size\<rparr>
            in res_bind (rep_of f3) (\<lambda>r3.
               if pr_allocated_size r3 < pf_current_size f3
               then Inr (f3\<lparr>pf_rep := Some (r3\<lparr>pr_allocated_size := pf_current_size f3\<rparr>)\<rparr>, s1)
               else Inr (f3, s1)))))))"

definition PtrField_MergeFrom ::
  "ptr_lib \<Rightarrow> 'm type_handler \<Rightarrow> ptr_field \<Rightarrow> ptr_field \<Rightarrow> 'm store \<Rightarrow> (ptr_field \<times> 'm store) res" where
  "PtrField_MergeFrom L H other f s =
     (if pf_current_size other = 0 then Inr (f, s) else MergeFromInternal L H other f s)"

definition PtrField_CopyFrom ::
  "ptr_lib \<Rightarrow> 'm type_handler \<Rightarrow> ptr_field operand \<Rightarrow> ptr_field \<Rightarrow> 'm store \<Rightarrow> (ptr_field \<times> 'm store) res" where
  "PtrField_CopyFrom L H arg f s =
     (case arg of
        Itself \<Rightarrow> Inr (f, s)
      | Another other \<Rightarrow> res_bind (PtrField_Clear H f s) (\<lambda>(f1, s1). PtrField_MergeFrom L H other f1 s1))"

section \<open>Ownership\<close>

fun delete_elements :: "int list \<Rightarrow> ptr_field \<Rightarrow> 'm store \<Rightarrow> 'm store res" where
  "delete_elements [] f s = Inr s"
| "delete_elements (i # is) f s = res_bind (PtrField_Delete i f s) (delete_elements is f)"

text \<open>The sizes are left as they are: only a field that is not used again is destroyed.\<close>

definition PtrField_Destroy :: "ptr_field \<Rightarrow> 'm store \<Rightarrow> (ptr_field \<times> 'm store) res" where
  "PtrField_Destroy f s =
     (case pf_rep f of
        None \<Rightarrow> Inr (f, s)
      | Some r \<Rightarrow>
          res_map (\<lambda>s1. (f\<lparr>pf_rep := None\<rparr>, s1)) (delete_elements [0..pr_allocated_size r - 1] f s))"

text \<open>A value takes the first slot behind the elements; a cleared object there moves to the end.\<close>

definition take_slot :: "ptr \<Rightarrow> ptr_field \<Rightarrow> ptr_field res" where
  "take_slot p f =
     res_map (\<lambda>f1. f1\<lparr>pf_current_size := pf_current_size f1 + 1\<rparr>) (put_slot (pf_current_size f) (Some p) f)"

definition move_cleared :: "ptr_field \<Rightarrow> ptr_field res" where
  "move_cleared f =
     res_bind (rep_of f) (\<lambda>r.
       if pf_current_size f < pr_allocated_size r
       then res_bind (slot_at (pf_current_size f) f) (\<lambda>x. put_slot (pr_allocated_size r) x f)
       else Inr f)"

definition UnsafeArenaAddAllocated :: "ptr_lib \<Rightarrow> ptr \<Rightarrow> ptr_field \<Rightarrow> 'm store \<Rightarrow> (ptr_field \<times> 'm store) res" where
  "UnsafeArenaAddAllocated L p f s =
     res_bind
       (if pf_rep f = None \<or> pf_current_size f = pf_total_size f
        then res_bind (int_value (pf_total_size f + 1)) (\<lambda>n.
             res_bind (pl_Reserve L n f) (\<lambda>f1.
             res_bind (add_allocated 1 f1) (\<lambda>f2. Inr (f2, s))))
        else
          res_bind (rep_of f) (\<lambda>r.
          if pr_allocated_size r = pf_total_size f
          then res_bind (PtrField_Delete (pf_current_size f) f s) (\<lambda>s1. Inr (f, s1))
          else if pf_current_size f < pr_allocated_size r
          then res_bind (move_cleared f) (\<lambda>f1. res_bind (add_allocated 1 f1) (\<lambda>f2. Inr (f2, s)))
          else res_bind (add_allocated 1 f) (\<lambda>f2. Inr (f2, s))))
       (\<lambda>(f1, s1). res_map (\<lambda>f2. (f2, s1)) (take_slot p f1))"

definition AddAllocatedSlowWithCopy ::
  "ptr_lib \<Rightarrow> 'm type_handler \<Rightarrow> ptr \<Rightarrow> arena \<Rightarrow> arena \<Rightarrow> ptr_field \<Rightarrow> 'm store \<Rightarrow> (ptr_field \<times> 'm store) res" where
  "AddAllocatedSlowWithCopy L H p value_arena my_arena f s =
     (if my_arena \<noteq> None \<and> value_arena = None then UnsafeArenaAddAllocated L p f (Own p s)
      else if my_arena \<noteq> value_arena
      then
        let (new_value, s1) = NewFromPrototype H my_arena s
        in res_bind (Merge_object H p new_value s1) (\<lambda>s2.
           res_bind (Delete_object p value_arena s2) (\<lambda>s3.
           UnsafeArenaAddAllocated L new_value f s3))
      else UnsafeArenaAddAllocated L p f s)"

definition room_for_one :: "ptr_field \<Rightarrow> bool" where
  "room_for_one f \<longleftrightarrow> (case pf_rep f of None \<Rightarrow> False | Some r \<Rightarrow> pr_allocated_size r < pf_total_size f)"

definition fast_add_allocated :: "ptr \<Rightarrow> ptr_field \<Rightarrow> ptr_field res" where
  "fast_add_allocated p f =
     res_bind (move_cleared f) (\<lambda>f1. res_bind (take_slot p f1) (add_allocated 1))"

text \<open>The variants for types with and without \<open>MergeFrom\<close>.\<close>

definition AddAllocatedInternal_merge ::
  "ptr_lib \<Rightarrow> 'm type_handler \<Rightarrow> ptr \<Rightarrow> ptr_field \<Rightarrow> 'm store \<Rightarrow> (ptr_field \<times> 'm store) res" where
  "AddAllocatedInternal_merge L H p f s =
     res_bind (GetArena_object H p s) (\<lambda>element_arena.
     if pf_arena f = element_arena \<and> room_for_one f
     then res_map (\<lambda>f1. (f1, s)) (fast_add_allocated p f)
     else res_bind (GetArena_object H p s) (\<lambda>value_arena.
          AddAllocatedSlowWithCopy L H p value_arena (pf_arena f) f s))"

definition AddAllocatedInternal_plain :: "ptr_lib \<Rightarrow> ptr \<Rightarrow> ptr_field \<Rightarrow> 'm store \<Rightarrow> (ptr_field \<times> 'm store) res" where
  "AddAllocatedInternal_plain L p f s =
     (if room_for_one f then res_map (\<lambda>f1. (f1, s)) (fast_add_allocated p f)
      else UnsafeArenaAddAllocated L p f s)"

definition PtrField_AddAllocated ::
  "ptr_lib \<Rightarrow> 'm type_handler \<Rightarrow> ptr \<Rightarrow> ptr_field \<Rightarrow> 'm store \<Rightarrow> (ptr_field \<times> 'm store) res" where
  "PtrField_AddAllocated L H p f s =
     (if th_has_merge H then AddAllocatedInternal_merge L H p f s else AddAllocatedInternal_plain L p f s)"

definition UnsafeArenaReleaseLast :: "ptr_field \<Rightarrow> (ptr \<times> ptr_field) res" where
  "UnsafeArenaReleaseLast f =
     (let f1 = f\<lparr>pf_current_size := pf_current_size f - 1\<rparr>
      in res_bind (pointer_at (pf_current_size f1) f1) (\<lambda>result.
         res_bind (add_allocated (- 1) f1) (\<lambda>f2.
         res_bind (rep_of f2) (\<lambda>r.
         if pf_current_size f2 < pr_allocated_size r
         then res_bind (slot_at (pr_allocated_size r) f2) (\<lambda>x.
              res_map (\<lambda>f3. (result, f3)) (put_slot (pf_current_size f2) x f2))
         else Inr (result, f2)))))"

definition ReleaseLastInternal_merge ::
  "'m type_handler \<Rightarrow> ptr_field \<Rightarrow> 'm store \<Rightarrow> (ptr \<times> ptr_field \<times> 'm store) res" where
  "ReleaseLastInternal_merge H f s =
     res_bind (UnsafeArenaReleaseLast f) (\<lambda>(result, f1).
     if pf_arena f1 = None then Inr (result, f1, s)
     else
       let (new_result, s1) = NewFromPrototype H None s
       in res_bind (Merge_object H result new_result s1) (\<lambda>s2. Inr (new_result, f1, s2)))"

definition ReleaseLastInternal_plain :: "ptr_field \<Rightarrow> 'm store \<Rightarrow> (ptr \<times> ptr_field \<times> 'm store) res" where
  "ReleaseLastInternal_plain f s = res_map (\<lambda>(result, f1). (result, f1, s)) (UnsafeArenaReleaseLast f)"

definition PtrField_ReleaseLast ::
  "'m type_handler \<Rightarrow> ptr_field \<Rightarrow> 'm store \<Rightarrow> (ptr \<times> ptr_field \<times> 'm store) res" where
  "PtrField_ReleaseLast H f s =
     (if th_has_merge H then ReleaseLastInternal_merge H f s else ReleaseLastInternal_plain f s)"

definition PtrField_AddCleared :: "ptr_lib \<Rightarrow> ptr \<Rightarrow> ptr_field \<Rightarrow> ptr_field res" where
  "PtrField_AddCleared L p f =
     res_bind (grow_if_full L f) (\<lambda>f1.
     res_bind (rep_of f1) (\<lambda>r.
     res_bind (put_slot (pr_allocated_size r) (Some p) f1) (add_allocated 1)))"

definition PtrField_ReleaseCleared :: "ptr_field \<Rightarrow> (ptr \<times> ptr_field) res" where
  "PtrField_ReleaseCleared f =
     res_bind (add_allocated (- 1) f) (\<lambda>f1.
     res_bind (rep_of f1) (\<lambda>r.
     res_map (\<lambda>p. (p, f1)) (pointer_at (pr_allocated_size r) f1)))"

section \<open>Two fields\<close>

text \<open>The arenas are not exchanged.\<close>

definition PtrField_InternalSwap :: "ptr_field \<Rightarrow> ptr_field \<Rightarrow> ptr_field \<times> ptr_field" where
  "PtrField_InternalSwap f other =
     (f\<lparr>pf_rep := pf_rep other, pf_current_size := pf_current_size other, pf_total_size := pf_total_size other\<rparr>,
      other\<lparr>pf_rep := pf_rep f, pf_current_size := pf_current_size f, pf_total_size := pf_total_size f\<rparr>)"

definition PtrField_SwapFallback ::
  "ptr_lib \<Rightarrow> 'm type_handler \<Rightarrow> ptr_field \<Rightarrow> ptr_field \<Rightarrow> 'm store \<Rightarrow> (ptr_field \<times> ptr_field \<times> 'm store) res" where
  "PtrField_SwapFallback L H other f s =
     (let temp = RepeatedPtrFieldBase (pf_arena other)
      in res_bind (PtrField_MergeFrom L H f temp s) (\<lambda>(temp1, s1).
         res_bind (PtrField_Clear H f s1) (\<lambda>(f1, s2).
         res_bind (PtrField_MergeFrom L H other f1 s2) (\<lambda>(f2, s3).
         res_bind (PtrField_Clear H other s3) (\<lambda>(other1, s4).
         let (other2, temp2) = PtrField_InternalSwap other1 temp1
         in res_bind (PtrField_Destroy temp2 s4) (\<lambda>(_, s5). Inr (f2, other2, s5)))))))"

definition PtrField_Swap ::
  "ptr_lib \<Rightarrow> 'm type_handler \<Rightarrow> ptr_field \<Rightarrow> ptr_field \<Rightarrow> 'm store \<Rightarrow> (ptr_field \<times> ptr_field \<times> 'm store) res" where
  "PtrField_Swap L H other f s =
     (if PtrField_GetArenaNoVirtual other = PtrField_GetArenaNoVirtual f
      then let (f1, other1) = PtrField_InternalSwap f other in Inr (f1, other1, s)
      else PtrField_SwapFallback L H other f s)"

section \<open>Ranges\<close>

fun pointers_at :: "int list \<Rightarrow> int \<Rightarrow> ptr_field \<Rightarrow> ptr list res" where
  "pointers_at [] start f = Inr []"
| "pointers_at (i # is) start f =
     res_bind (PtrField_Mutable (i + start) f) (\<lambda>p. res_map ((#) p) (pointers_at is start f))"

fun copies_at :: "'m type_handler \<Rightarrow> int list \<Rightarrow> int \<Rightarrow> ptr_field \<Rightarrow> 'm store \<Rightarrow> (ptr list \<times> 'm store) res" where
  "copies_at H [] start f s = Inr ([], s)"
| "copies_at H (i # is) start f s =
     res_bind (PtrField_Mutable (i + start) f) (\<lambda>element.
     let (new_value, s1) = NewFromPrototype H None s
     in res_bind (Merge_object H element new_value s1) (\<lambda>s2.
        res_map (\<lambda>(ps, s3). (new_value # ps, s3)) (copies_at H is start f s2)))"

definition UnsafeArenaExtractSubrange ::
  "ptr_lib \<Rightarrow> int \<Rightarrow> int \<Rightarrow> bool \<Rightarrow> ptr_field \<Rightarrow> (ptr list \<times> ptr_field) res" where
  "UnsafeArenaExtractSubrange L start num wanted f =
     (if 0 < num
      then res_bind (if wanted then pointers_at [0..num - 1] start f else Inr []) (\<lambda>elements.
           res_map (\<lambda>f1. (elements, f1)) (pl_CloseGap L start num f))
      else Inr ([], f))"

definition ExtractSubrangeInternal_merge ::
  "ptr_lib \<Rightarrow> 'm type_handler \<Rightarrow> int \<Rightarrow> int \<Rightarrow> bool \<Rightarrow> ptr_field \<Rightarrow> 'm store \<Rightarrow> (ptr list \<times> ptr_field \<times> 'm store) res" where
  "ExtractSubrangeInternal_merge L H start num wanted f s =
     (if 0 < num
      then res_bind
             (if wanted
              then if pf_arena f \<noteq> None then copies_at H [0..num - 1] start f s
                   else res_map (\<lambda>ps. (ps, s)) (pointers_at [0..num - 1] start f)
              else Inr ([], s)) (\<lambda>(elements, s1).
           res_map (\<lambda>f1. (elements, f1, s1)) (pl_CloseGap L start num f))
      else Inr ([], f, s))"

definition ExtractSubrangeInternal_plain ::
  "ptr_lib \<Rightarrow> int \<Rightarrow> int \<Rightarrow> bool \<Rightarrow> ptr_field \<Rightarrow> 'm store \<Rightarrow> (ptr list \<times> ptr_field \<times> 'm store) res" where
  "ExtractSubrangeInternal_plain L start num wanted f s =
     res_map (\<lambda>(elements, f1). (elements, f1, s)) (UnsafeArenaExtractSubrange L start num wanted f)"

definition PtrField_ExtractSubrange ::
  "ptr_lib \<Rightarrow> 'm type_handler \<Rightarrow> int \<Rightarrow> int \<Rightarrow> bool \<Rightarrow> ptr_field \<Rightarrow> 'm store \<Rightarrow> (ptr list \<times> ptr_field \<times> 'm store) res" where
  "PtrField_ExtractSubrange L H start num wanted f s =
     (if th_has_merge H then ExtractSubrangeInternal_merge L H start num wanted f s
      else ExtractSubrangeInternal_plain L start num wanted f s)"

definition PtrField_DeleteSubrange ::
  "ptr_lib \<Rightarrow> 'm type_handler \<Rightarrow> int \<Rightarrow> int \<Rightarrow> ptr_field \<Rightarrow> 'm store \<Rightarrow> (ptr_field \<times> 'm store) res" where
  "PtrField_DeleteSubrange L H start num f s =
     res_bind (delete_elements (map (\<lambda>i. start + i) [0..num - 1]) f s) (\<lambda>s1.
     res_map (\<lambda>(_, f1, s2). (f1, s2)) (PtrField_ExtractSubrange L H start num False f s1))"

text \<open>An iterator is its distance to \<open>begin()\<close>.\<close>

definition PtrField_begin :: "ptr_field \<Rightarrow> int" where
  "PtrField_begin f = 0"

definition PtrField_end :: "ptr_field \<Rightarrow> int" where
  "PtrField_end f = PtrField_size f"

definition RepeatedPtrIterator_deref :: "int \<Rightarrow> ptr_field \<Rightarrow> 'm store \<Rightarrow> 'm res" where
  "RepeatedPtrIterator_deref it f s = res_bind (pointer_at it f) (\<lambda>p. res_map cell_value (fetch p s))"

definition RepeatedPtrOverPtrsIterator_deref :: "int \<Rightarrow> ptr_field \<Rightarrow> ptr res" where
  "RepeatedPtrOverPtrsIterator_deref it f = pointer_at it f"

definition PtrField_erase_range ::
  "ptr_lib \<Rightarrow> 'm type_handler \<Rightarrow> int \<Rightarrow> int \<Rightarrow> ptr_field \<Rightarrow> 'm store \<Rightarrow> (int \<times> ptr_field \<times> 'm store) res" where
  "PtrField_erase_range L H first last_it f s =
     (let pos_offset = first - PtrField_begin f; last_offset = last_it - PtrField_begin f
      in res_bind (PtrField_DeleteSubrange L H pos_offset (last_offset - pos_offset) f s) (\<lambda>(f1, s1).
         Inr (PtrField_begin f1 + pos_offset, f1, s1)))"

definition PtrField_erase ::
  "ptr_lib \<Rightarrow> 'm type_handler \<Rightarrow> int \<Rightarrow> ptr_field \<Rightarrow> 'm store \<Rightarrow> (int \<times> ptr_field \<times> 'm store) res" where
  "PtrField_erase L H position f s = PtrField_erase_range L H position (position + 1) f s"

section \<open>Construction, destruction and space\<close>

text \<open>\<open>*Add() = value\<close>.\<close>

definition add_value ::
  "ptr_lib \<Rightarrow> 'm type_handler \<Rightarrow> 'm \<Rightarrow> ptr_field \<times> 'm store \<Rightarrow> (ptr_field \<times> 'm store) res" where
  "add_value L H v fs =
     res_bind (PtrField_Add L H (fst fs) (snd fs)) (\<lambda>(p, f1, s1).
     res_map (\<lambda>c. (f1, s1\<lparr>st_heap := (st_heap s1)(p := Some (c\<lparr>cell_value := v\<rparr>))\<rparr>)) (fetch p s1))"

definition PtrField_range ::
  "ptr_lib \<Rightarrow> 'm type_handler \<Rightarrow> bool \<Rightarrow> 'm list \<Rightarrow> 'm store \<Rightarrow> (ptr_field \<times> 'm store) res" where
  "PtrField_range L H forward rng s =
     (let reserve = CalculateReserve forward rng; f = RepeatedPtrFieldBase None
      in res_bind (if reserve \<noteq> - 1 then pl_Reserve L reserve f else Inr f) (\<lambda>f1.
         add_range (add_value L H) rng (f1, s)))"

definition PtrField_copy ::
  "ptr_lib \<Rightarrow> 'm type_handler \<Rightarrow> ptr_field \<Rightarrow> 'm store \<Rightarrow> (ptr_field \<times> 'm store) res" where
  "PtrField_copy L H other s = PtrField_CopyFrom L H (Another other) (RepeatedPtrFieldBase None) s"

definition PtrField_assign ::
  "ptr_lib \<Rightarrow> 'm type_handler \<Rightarrow> ptr_field operand \<Rightarrow> ptr_field \<Rightarrow> 'm store \<Rightarrow> (ptr_field \<times> 'm store) res" where
  "PtrField_assign L H arg f s =
     (case arg of Itself \<Rightarrow> Inr (f, s) | Another other \<Rightarrow> PtrField_CopyFrom L H arg f s)"

definition ptr_kRepHeaderSize :: nat where
  "ptr_kRepHeaderSize = 4"

fun space_of_elements :: "'m type_handler \<Rightarrow> int list \<Rightarrow> ptr_field \<Rightarrow> 'm store \<Rightarrow> int \<Rightarrow> int res" where
  "space_of_elements H [] f s allocated_bytes = Inr allocated_bytes"
| "space_of_elements H (i # is) f s allocated_bytes =
     res_bind (PtrField_Get i f s) (\<lambda>v.
     res_bind (int_value (allocated_bytes + th_space H v)) (space_of_elements H is f s))"

definition PtrField_SpaceUsedExcludingSelf :: "'m type_handler \<Rightarrow> ptr_field \<Rightarrow> 'm store \<Rightarrow> int res" where
  "PtrField_SpaceUsedExcludingSelf H f s =
     (let allocated_bytes = sint ((word_of_int (pf_total_size f) :: 32 word) * 4)
      in case pf_rep f of
           None \<Rightarrow> Inr allocated_bytes
         | Some r \<Rightarrow>
             res_map (\<lambda>n. sint ((word_of_int n :: 32 word) + of_nat ptr_kRepHeaderSize))
               (space_of_elements H [0..pr_allocated_size r - 1] f s allocated_bytes))"

text \<open>Assignments through the back inserters.\<close>

definition RepeatedPtrFieldBackInsertIterator_assign ::
  "ptr_lib \<Rightarrow> 'm type_handler \<Rightarrow> 'm \<Rightarrow> ptr_field \<times> 'm store \<Rightarrow> (ptr_field \<times> 'm store) res" where
  "RepeatedPtrFieldBackInsertIterator_assign L H v fs = add_value L H v fs"

definition AllocatedRepeatedPtrFieldBackInsertIterator_assign ::
  "ptr_lib \<Rightarrow> 'm type_handler \<Rightarrow> ptr \<Rightarrow> ptr_field \<times> 'm store \<Rightarrow> (ptr_field \<times> 'm store) res" where
  "AllocatedRepeatedPtrFieldBackInsertIterator_assign L H p fs = PtrField_AddAllocated L H p (fst fs) (snd fs)"

end
