(* ===== verification/Ptr_Laws.thy ===== *)
theory Ptr_Laws
  imports Repeated_Ptr "HOL-Library.Multiset"
begin

text \<open>
  A field of pointers as two lists, its elements and its cleared objects, and what each operation does
  to them and to the objects. The locale \<open>ptr_library\<close> is the contract of what the header only
  declares, \<open>element_handler\<close> that of the types that can be elements.
\<close>

section \<open>The lists of a field\<close>

definition field_of :: "arena \<Rightarrow> ptr list \<Rightarrow> ptr list \<Rightarrow> ptr option list \<Rightarrow> ptr_field" where
  "field_of a es cs pad =
     \<lparr>pf_arena = a, pf_current_size = int (length es), pf_total_size = int (length es + length cs + length pad),
      pf_rep = Some \<lparr>pr_allocated_size = int (length es + length cs), pr_elements = map Some (es @ cs) @ pad\<rparr>\<rparr>"

definition is_field :: "ptr_field \<Rightarrow> arena \<Rightarrow> ptr list \<Rightarrow> ptr list \<Rightarrow> bool" where
  "is_field f a es cs \<longleftrightarrow> pf_total_size f < 2 ^ 31 \<and>
     (f = RepeatedPtrFieldBase a \<and> es = [] \<and> cs = [] \<or> (\<exists>pad. f = field_of a es cs pad))"

lemma is_field_sizes:
  assumes "is_field f a es cs"
  shows "pf_arena f = a" "pf_current_size f = int (length es)" "int (length es + length cs) \<le> pf_total_size f"
    "PtrField_ClearedCount f = int (length cs)" "has_cleared f \<longleftrightarrow> cs \<noteq> []"
  using assms by (auto simp: is_field_def RepeatedPtrFieldBase_def field_of_def PtrField_ClearedCount_def has_cleared_def)

lemma is_field_of: "is_field (field_of a es cs pad) a es cs \<longleftrightarrow> int (length es + length cs + length pad) < 2 ^ 31"
  by (auto simp: is_field_def field_of_def RepeatedPtrFieldBase_def)

lemma is_fieldE:
  assumes "is_field f a es cs" "0 < pf_total_size f"
  obtains pad where "f = field_of a es cs pad" "int (length es + length cs + length pad) < 2 ^ 31"
  using assms by (auto simp: is_field_def RepeatedPtrFieldBase_def field_of_def)

text \<open>Slots.\<close>

lemma slot_at_field:
  "slot_at i (field_of a es cs pad) =
     (if 0 \<le> i \<and> nat i < length es + length cs + length pad then Inr ((map Some (es @ cs) @ pad) ! nat i) else Inl Undefined)"
  by (simp add: slot_at_def rep_of_def field_of_def add.assoc)

lemma pointer_at_field:
  assumes "0 \<le> i" "nat i < length es + length cs"
  shows "pointer_at i (field_of a es cs pad) = Inr ((es @ cs) ! nat i)"
proof -
  have "(map Some (es @ cs) @ pad) ! nat i = Some ((es @ cs) ! nat i)"
    using assms(2) by (subst nth_append_left) (simp_all del: map_append)
  then show ?thesis using assms by (simp add: pointer_at_def slot_at_field del: map_append)
qed

text \<open>The slot in the middle of two parts of the block.\<close>

lemma slot_mid:
  assumes "pf_rep f = Some r" "pr_elements r = xs @ y # ys" "i = int (length xs)"
  shows "slot_at i f = Inr y" "put_slot i p f = Inr (f\<lparr>pf_rep := Some (r\<lparr>pr_elements := xs @ p # ys\<rparr>)\<rparr>)"
  using assms by (simp_all add: slot_at_def put_slot_def rep_of_def)

lemma field_rep:
  "pf_rep (field_of a es cs pad) = Some \<lparr>pr_allocated_size = int (length es + length cs), pr_elements = map Some (es @ cs) @ pad\<rparr>"
  by (simp add: field_of_def)

lemma add_allocated_rep:
  "pf_rep f = Some r \<Longrightarrow> add_allocated n f = Inr (f\<lparr>pf_rep := Some (r\<lparr>pr_allocated_size := pr_allocated_size r + n\<rparr>)\<rparr>)"
  by (simp add: add_allocated_def rep_of_def)

lemma pointer_at_is:
  assumes "is_field f a es cs" "0 \<le> i" "nat i < length es + length cs"
  shows "pointer_at i f = Inr ((es @ cs) ! nat i)"
proof -
  have "0 < pf_total_size f" using is_field_sizes(3) [OF assms(1)] assms(3) by linarith
  then show ?thesis using is_fieldE [OF assms(1)] pointer_at_field assms(2,3) by metis
qed

section \<open>What the library provides\<close>

text \<open>
  \<open>Reserve\<close> and \<open>InternalExtend\<close> make room and keep the pointers, within a bound on the sizes;
  \<open>CloseGap\<close> removes a range of pointers.
\<close>

locale ptr_library =
  fixes L :: ptr_lib and bound :: int
  assumes bound: "bound < 2 ^ 31"
    and Reserve: "is_field f a es cs \<Longrightarrow> n \<le> bound \<Longrightarrow>
      \<exists>f'. pl_Reserve L n f = Inr f' \<and> is_field f' a es cs \<and> n \<le> pf_total_size f'"
    and InternalExtend: "is_field f a es cs \<Longrightarrow> 0 < n \<Longrightarrow> int (length es) + n \<le> bound \<Longrightarrow>
      \<exists>f'. pl_InternalExtend L n f = Inr (int (length es), f') \<and> is_field f' a es cs \<and> int (length es) + n \<le> pf_total_size f'"
    and CloseGap: "is_field f a (es1 @ es2 @ es3) cs \<Longrightarrow> es2 \<noteq> [] \<Longrightarrow>
      \<exists>f'. pl_CloseGap L (int (length es1)) (int (length es2)) f = Inr f' \<and> is_field f' a (es1 @ es3) cs"

text \<open>An element type whose cleared objects look like new ones, and whose merge into a new object is a copy.\<close>

locale element_handler =
  fixes H :: "'m type_handler" and view :: "'m \<Rightarrow> 'v"
  assumes clear: "view (th_clear H x) = view (th_new H)"
    and merge: "view y = view (th_new H) \<Longrightarrow> view (th_merge H x y) = view x"

section \<open>Operations on the pointers\<close>

lemma next_cleared_is:
  assumes "is_field f a es (c # cs)"
  shows "\<exists>f'. next_cleared f = Inr (c, f') \<and> is_field f' a (es @ [c]) cs"
proof -
  have "0 < pf_total_size f" using is_field_sizes(3) [OF assms] by simp
  then obtain pad where f: "f = field_of a es (c # cs) pad" "int (length es + length (c # cs) + length pad) < 2 ^ 31"
    using is_fieldE [OF assms] by blast
  have "pointer_at (pf_current_size f) f = Inr c"
    using pointer_at_is [OF assms, of "int (length es)"] is_field_sizes(2) [OF assms] by simp
  then have "next_cleared f = Inr (c, field_of a (es @ [c]) cs pad)"
    by (simp add: next_cleared_def f(1)) (simp add: field_of_def)
  then show ?thesis using f(2) by (simp add: is_field_of)
qed

text \<open>A new pointer behind the allocated objects is one more cleared object.\<close>

lemma put_behind:
  assumes "is_field f a es cs" "int (length es + length cs) < pf_total_size f"
  shows "\<exists>f1 f'. put_slot (int (length es + length cs)) (Some p) f = Inr f1 \<and> add_allocated 1 f1 = Inr f' \<and>
      is_field f' a es (cs @ [p])"
    "\<exists>r. pf_rep f = Some r \<and> pr_allocated_size r = int (length es + length cs)"
proof -
  have "0 < pf_total_size f" using assms(2) by linarith
  then obtain pad where f: "f = field_of a es cs pad" "int (length es + length cs + length pad) < 2 ^ 31"
    by (rule is_fieldE [OF assms(1)])
  then obtain x pad' where pad: "pad = x # pad'" using assms(2) by (cases pad) (auto simp: field_of_def)
  let ?r = "\<lparr>pr_allocated_size = int (length es + length cs), pr_elements = map Some (es @ cs) @ Some p # pad'\<rparr>"
  have "put_slot (int (length es + length cs)) (Some p) f = Inr (f\<lparr>pf_rep := Some ?r\<rparr>)"
    using slot_mid(2) [OF field_rep, where xs = "map Some (es @ cs)" and y = x and ys = pad' and p = "Some p"] by (simp add: f(1) pad)
  moreover have "add_allocated 1 (f\<lparr>pf_rep := Some ?r\<rparr>) = Inr (field_of a es (cs @ [p]) pad')"
    by (subst add_allocated_rep) (auto simp: f(1) pad field_of_def)
  moreover have "is_field (field_of a es (cs @ [p]) pad') a es (cs @ [p])" using f(2) pad by (simp add: is_field_of)
  ultimately show "\<exists>f1 f'. put_slot (int (length es + length cs)) (Some p) f = Inr f1 \<and> add_allocated 1 f1 = Inr f' \<and>
      is_field f' a es (cs @ [p])" by blast
  show "\<exists>r. pf_rep f = Some r \<and> pr_allocated_size r = int (length es + length cs)" by (simp add: f(1) field_of_def)
qed

text \<open>A new pointer behind the elements, when nothing is cleared, is one more element.\<close>

lemma take_slot_is:
  assumes "is_field f a es [p]"
  shows "is_field (f\<lparr>pf_current_size := pf_current_size f + 1\<rparr>) a (es @ [p]) []"
proof -
  have "0 < pf_total_size f" using is_field_sizes(3) [OF assms] by simp
  then obtain pad where f: "f = field_of a es [p] pad" "int (length es + length [p] + length pad) < 2 ^ 31"
    using is_fieldE [OF assms] by blast
  have "f\<lparr>pf_current_size := pf_current_size f + 1\<rparr> = field_of a (es @ [p]) [] pad" by (simp add: f(1) field_of_def)
  then show ?thesis using f(2) by (simp add: is_field_of)
qed

text \<open>Replacing the first cleared pointer by an element, and by an element with the cleared one moved to the end.\<close>

lemma replace_cleared:
  assumes "is_field f a es (c # cs)"
  shows "\<exists>f'. take_slot p f = Inr f' \<and> is_field f' a (es @ [p]) cs"
proof -
  have "0 < pf_total_size f" using is_field_sizes(3) [OF assms] by simp
  then obtain pad where f: "f = field_of a es (c # cs) pad" "int (length es + length (c # cs) + length pad) < 2 ^ 31"
    using is_fieldE [OF assms] by blast
  have "put_slot (int (length (map Some es))) (Some p) (field_of a es (c # cs) pad) =
      Inr ((field_of a es (c # cs) pad)\<lparr>pf_rep := Some
      \<lparr>pr_allocated_size = int (length es + length (c # cs)), pr_elements = map Some es @ Some p # map Some cs @ pad\<rparr>\<rparr>)"
    by (rule trans [OF slot_mid(2) [OF field_rep _ refl, where y = "Some c" and ys = "map Some cs @ pad"]]) simp_all
  then have "put_slot (pf_current_size f) (Some p) f = Inr (f\<lparr>pf_rep := Some
      \<lparr>pr_allocated_size = int (length es + length (c # cs)), pr_elements = map Some es @ Some p # map Some cs @ pad\<rparr>\<rparr>)"
    unfolding f(1) by (simp only: field_of_def ptr_field.simps length_map)
  then have "take_slot p f = Inr (field_of a (es @ [p]) cs pad)"
    by (simp add: take_slot_def) (simp add: f(1) field_of_def)
  then show ?thesis using f(2) by (simp add: is_field_of)
qed

lemma move_cleared_is:
  assumes "is_field f a es (c # cs)" "int (length es + length (c # cs)) < pf_total_size f"
  shows "\<exists>f1 f'. move_cleared f = Inr f1 \<and> add_allocated 1 f1 = Inr f' \<and> is_field f' a es (c # cs @ [c])"
proof -
  obtain r where r: "pf_rep f = Some r" "pr_allocated_size r = int (length es + length (c # cs))"
    using put_behind(2) [OF assms] by blast
  obtain f1 f' where 1: "put_slot (int (length es + length (c # cs))) (Some c) f = Inr f1" "add_allocated 1 f1 = Inr f'"
    "is_field f' a es ((c # cs) @ [c])" using put_behind(1) [OF assms] by blast
  have "pointer_at (int (length es)) f = Inr c" using pointer_at_is [OF assms(1), of "int (length es)"] by simp
  then have "slot_at (int (length es)) f = Inr (Some c)"
    by (auto simp: pointer_at_def res_bind_def split: sum.splits option.splits)
  then show ?thesis using r 1 is_field_sizes(2) [OF assms(1)] by (simp add: move_cleared_def rep_of_def)
qed

lemma put_add_commute:
  "put_slot i x f = Inr f1 \<Longrightarrow> add_allocated n f1 = Inr f2 \<Longrightarrow> \<exists>g. add_allocated n f = Inr g \<and> put_slot i x g = Inr f2"
  by (auto simp: put_slot_def add_allocated_def rep_of_def split: option.splits if_splits)

lemma add_take_commute:
  "add_allocated n f1 = Inr f2 \<Longrightarrow> take_slot p f2 = Inr f3 \<Longrightarrow> \<exists>g. take_slot p f1 = Inr g \<and> add_allocated n g = Inr f3"
  by (auto simp: take_slot_def put_slot_def add_allocated_def rep_of_def res_map_def split: option.splits if_splits)

lemma shrink_is:
  assumes "is_field f a (es1 @ es2) cs"
  shows "is_field (f\<lparr>pf_current_size := int (length es1)\<rparr>) a es1 (es2 @ cs)"
proof (cases "pf_rep f")
  case None
  then show ?thesis using assms by (auto simp: is_field_def field_of_def RepeatedPtrFieldBase_def)
next
  case Some
  then obtain pad where f: "f = field_of a (es1 @ es2) cs pad" "pf_total_size f < 2 ^ 31"
    using assms by (auto simp: is_field_def RepeatedPtrFieldBase_def)
  have "f\<lparr>pf_current_size := int (length es1)\<rparr> = field_of a es1 (es2 @ cs) pad" by (simp add: f(1) field_of_def)
  then show ?thesis using f by (auto simp: is_field_def field_of_def)
qed

text \<open>Taking the last allocated pointer away.\<close>

lemma drop_cleared:
  assumes "is_field f a es (cs @ [c])"
  shows "\<exists>f'. add_allocated (- 1) f = Inr f' \<and> is_field f' a es cs \<and> pf_current_size f' = int (length es) \<and>
    rep_of f' = Inr (the (pf_rep f')) \<and> pr_allocated_size (the (pf_rep f')) = int (length es + length cs) \<and>
    slot_at (int (length es + length cs)) f' = Inr (Some c)"
proof -
  have "0 < pf_total_size f" using is_field_sizes(3) [OF assms] by simp
  then obtain pad where f: "f = field_of a es (cs @ [c]) pad" "int (length es + length (cs @ [c]) + length pad) < 2 ^ 31"
    using is_fieldE [OF assms] by blast
  have "add_allocated (- 1) f = Inr (field_of a es cs (Some c # pad))"
    by (simp add: f(1) add_allocated_rep [OF field_rep]) (simp add: field_of_def)
  moreover have "slot_at (int (length (map Some (es @ cs)))) (field_of a es cs (Some c # pad)) = Inr (Some c)"
    by (rule slot_mid(1) [OF field_rep _ refl]) simp
  ultimately show ?thesis using f(2) by (simp add: is_field_of) (simp add: field_of_def rep_of_def)
qed

lemma ReleaseCleared_is:
  assumes "is_field f a es (cs @ [c])"
  shows "\<exists>f'. PtrField_ReleaseCleared f = Inr (c, f') \<and> is_field f' a es cs"
  using drop_cleared [OF assms] by (auto simp: PtrField_ReleaseCleared_def pointer_at_def)

lemma ReleaseLast_is:
  assumes "is_field f a (es @ [x]) cs"
  shows "\<exists>f' cs'. UnsafeArenaReleaseLast f = Inr (x, f') \<and> is_field f' a es cs' \<and> mset cs' = mset cs"
proof -
  let ?f = "f\<lparr>pf_current_size := pf_current_size f - 1\<rparr>"
  have c: "pf_current_size f - 1 = int (length es)" using is_field_sizes(2) [OF assms] by simp
  then have f: "is_field ?f a es (x # cs)" using shrink_is [OF assms] by simp
  have x: "pointer_at (int (length es)) ?f = Inr x" using pointer_at_is [OF f, of "int (length es)"] by simp
  show ?thesis
  proof (cases cs rule: rev_cases)
    case Nil
    with drop_cleared [of ?f a es "[]" x] f x c show ?thesis by (auto simp: UnsafeArenaReleaseLast_def Let_def)
  next
    case (snoc cs' y)
    obtain f2 where 2: "add_allocated (- 1) ?f = Inr f2" "is_field f2 a es (x # cs')" "pf_current_size f2 = int (length es)"
      "rep_of f2 = Inr (the (pf_rep f2))" "pr_allocated_size (the (pf_rep f2)) = int (length es + length (x # cs'))"
      "slot_at (int (length es + length (x # cs'))) f2 = Inr (Some y)"
      using drop_cleared [of ?f a es "x # cs'" y] f snoc by auto
    obtain f3 where 3: "take_slot y f2 = Inr f3" "is_field f3 a (es @ [y]) cs'" using replace_cleared [OF 2(2)] by blast
    then obtain g where g: "put_slot (int (length es)) (Some y) f2 = Inr g" "f3 = g\<lparr>pf_current_size := pf_current_size g + 1\<rparr>"
      using 2(3) by (auto simp: take_slot_def res_map_def res_bind_Inr_iff)
    have "pf_current_size g = int (length es)" using is_field_sizes(2) [OF 3(2)] g(2) by simp
    then have "g = f3\<lparr>pf_current_size := int (length es)\<rparr>" using g(2) by simp
    then have "is_field g a es (y # cs')" using shrink_is [OF 3(2)] by simp
    then show ?thesis using 2 g(1) x c snoc by (auto simp: UnsafeArenaReleaseLast_def Let_def)
  qed
qed

lemma SwapElements_is:
  assumes f: "is_field f a es cs" and "i < length es" "j < length es"
  shows "\<exists>f'. PtrField_SwapElements (int i) (int j) f = Inr f' \<and> is_field f' a (es[i := es ! j, j := es ! i]) cs"
proof -
  have "0 < pf_total_size f" using is_field_sizes(3) [OF f] assms(2) by linarith
  then obtain pad where p: "f = field_of a es cs pad" "int (length es + length cs + length pad) < 2 ^ 31"
    using is_fieldE [OF f] by blast
  have "slot_at (int k) f = Inr (Some (es ! k))" if "k < length es" for k
    using that by (simp add: p(1) slot_at_field nth_append)
  moreover have put: "put_slot (int k) (Some x) (field_of a es' cs pad) = Inr (field_of a (es'[k := x]) cs pad)"
    if "k < length es'" for k x es'
    using that by (simp add: put_slot_def rep_of_def field_of_def list_update_append map_update)
  ultimately have "PtrField_SwapElements (int i) (int j) f = Inr (field_of a (es[i := es ! j, j := es ! i]) cs pad)"
    using assms(2,3) by (simp add: PtrField_SwapElements_def p(1))
  then show ?thesis using p(2) by (simp add: is_field_of)
qed

section \<open>Growing\<close>

context ptr_library
begin

lemma grow_is:
  assumes f: "is_field f a es cs" and n: "int (length es + length cs) < bound"
  shows "\<exists>f'. grow_if_full L f = Inr f' \<and> is_field f' a es cs \<and> int (length es + length cs) < pf_total_size f'"
proof (cases "case pf_rep f of None \<Rightarrow> True | Some r \<Rightarrow> pr_allocated_size r = pf_total_size f")
  case True
  then have t: "pf_total_size f = int (length es + length cs)"
    using f by (auto simp: is_field_def RepeatedPtrFieldBase_def field_of_def)
  then have "int_value (pf_total_size f + 1) = Inr (pf_total_size f + 1)" using n bound by (simp add: int_value_def)
  moreover obtain f' where "pl_Reserve L (pf_total_size f + 1) f = Inr f'" "is_field f' a es cs" "pf_total_size f + 1 \<le> pf_total_size f'"
    using Reserve [OF f, of "pf_total_size f + 1"] t n by auto
  ultimately show ?thesis using True t by (simp add: grow_if_full_def)
next
  case False
  then have "int (length es + length cs) < pf_total_size f"
    using f by (auto simp: is_field_def RepeatedPtrFieldBase_def field_of_def)
  then show ?thesis using False f by (simp add: grow_if_full_def)
qed

lemma Add_is:
  assumes f: "is_field f a es cs" and n: "int (length es) < bound"
  shows "\<exists>f'. PtrField_Add L H f s =
      (case cs of c # cs' \<Rightarrow> Inr (c, f', s) | [] \<Rightarrow> Inr (st_next s, f', snd (New H a s))) \<and>
    is_field f' a (es @ [case cs of c # cs' \<Rightarrow> c | [] \<Rightarrow> st_next s]) (tl cs)"
proof (cases cs)
  case (Cons c cs')
  then show ?thesis
    using next_cleared_is [of f a es c cs'] is_field_sizes(5) [OF f] f by (auto simp: PtrField_Add_def)
next
  case Nil
  obtain f1 where 1: "grow_if_full L f = Inr f1" "is_field f1 a es []" "int (length es + length ([] :: ptr list)) < pf_total_size f1"
    using grow_is [of f a es "[]"] f n Nil by auto
  obtain f2 f3 where "put_slot (int (length es)) (Some (st_next s)) f1 = Inr f2" "add_allocated 1 f2 = Inr f3"
    "is_field f3 a es [st_next s]" using put_behind(1) [OF 1(2,3), of "st_next s"] by auto
  then obtain g where "add_allocated 1 f1 = Inr g" "put_slot (int (length es)) (Some (st_next s)) g = Inr f3"
    "is_field f3 a es [st_next s]" using put_add_commute by blast
  moreover from this(1) have "pf_current_size g = int (length es)" "pf_arena g = a"
    using is_field_sizes(1,2) [OF 1(2)] by (auto simp: add_allocated_def rep_of_def split: option.splits)
  ultimately show ?thesis
    using 1(1) Nil is_field_sizes(5) [OF f] take_slot_is [of f3 a es "st_next s"]
    by (simp add: PtrField_Add_def NewFromPrototype_def New_def)
qed

lemma AddCleared_is:
  assumes f: "is_field f a es cs" and n: "int (length es + length cs) < bound"
  shows "\<exists>f'. PtrField_AddCleared L p f = Inr f' \<and> is_field f' a es (cs @ [p])"
proof -
  obtain f1 where 1: "grow_if_full L f = Inr f1" "is_field f1 a es cs" "int (length es + length cs) < pf_total_size f1"
    using grow_is [OF f n] by blast
  obtain r where "pf_rep f1 = Some r" "pr_allocated_size r = int (length es + length cs)" using put_behind(2) [OF 1(2,3)] by blast
  then show ?thesis using 1(1) put_behind(1) [OF 1(2,3), of p] by (auto simp: PtrField_AddCleared_def rep_of_def)
qed

lemma put_next_is:
  assumes "is_field f a es []" "int (length es) < pf_total_size f"
  shows "\<exists>f1 f'. add_allocated 1 f = Inr f1 \<and> take_slot p f1 = Inr f' \<and> is_field f' a (es @ [p]) []"
proof -
  obtain f2 f3 where 2: "put_slot (int (length es)) (Some p) f = Inr f2" "add_allocated 1 f2 = Inr f3" "is_field f3 a es [p]"
    using put_behind(1) [OF assms(1), of p] assms(2) by auto
  then obtain g where g: "add_allocated 1 f = Inr g" "put_slot (int (length es)) (Some p) g = Inr f3"
    using put_add_commute by blast
  then have "pf_current_size g = int (length es)"
    using is_field_sizes(2) [OF assms(1)] by (auto simp: add_allocated_def rep_of_def split: option.splits)
  then show ?thesis using g take_slot_is [OF 2(3)] by (simp add: take_slot_def)
qed

text \<open>
  A pointer that is added takes the place of the first cleared one, which moves to the end or, when
  there is no room, is deleted.
\<close>

lemma UnsafeArenaAddAllocated_is:
  assumes f: "is_field f a es cs" and n: "int (length es) < bound"
    and del: "\<And>c cs'. cs = c # cs' \<Longrightarrow> Delete_object c a s = Inr s1"
  shows "\<exists>f' cs' s'. UnsafeArenaAddAllocated L p f s = Inr (f', s') \<and> is_field f' a (es @ [p]) cs' \<and>
    (s' = s \<and> mset cs' = mset cs \<or> cs \<noteq> [] \<and> s' = s1 \<and> cs' = tl cs)"
proof (cases "pf_rep f = None \<or> pf_current_size f = pf_total_size f")
  case True
  then have t: "pf_total_size f = int (length es)"
    using f is_field_sizes(2) [OF f] by (auto simp: is_field_def RepeatedPtrFieldBase_def field_rep)
  then have cs: "cs = []" using is_field_sizes(3) [OF f] by simp
  have i: "int_value (pf_total_size f + 1) = Inr (pf_total_size f + 1)" using t n bound by (simp add: int_value_def)
  obtain f1 where 1: "pl_Reserve L (pf_total_size f + 1) f = Inr f1" "is_field f1 a es []" "int (length es) < pf_total_size f1"
    using Reserve [OF f, of "pf_total_size f + 1"] t n cs by auto
  then show ?thesis
    using put_next_is [OF 1(2,3), of p] True i cs by (auto simp: UnsafeArenaAddAllocated_def)
next
  case False
  then obtain r where r: "pf_rep f = Some r" "pr_allocated_size r = int (length es + length cs)"
    using f by (auto simp: is_field_def RepeatedPtrFieldBase_def field_of_def)
  show ?thesis
  proof (cases "pr_allocated_size r = pf_total_size f")
    case True
    with False r is_field_sizes(2) [OF f] obtain c cs' where cs: "cs = c # cs'" by (cases cs) auto
    have "pointer_at (pf_current_size f) f = Inr c"
      using pointer_at_is [OF f, of "int (length es)"] is_field_sizes(2) [OF f] cs by simp
    then have "PtrField_Delete (pf_current_size f) f s = Inr s1"
      using del [OF cs] is_field_sizes(1) [OF f] by (simp add: PtrField_Delete_def)
    then show ?thesis
      using replace_cleared [of f a es c cs' p] f False True r cs by (auto simp: UnsafeArenaAddAllocated_def rep_of_def)
  next
    case room: False
    show ?thesis
    proof (cases cs)
      case Nil
      then have "int (length es) < pf_total_size f" using room r is_field_sizes(3) [OF f] by simp
      then show ?thesis
        using put_next_is [of f a es p] f False room r Nil is_field_sizes(2) [OF f]
        by (auto simp: UnsafeArenaAddAllocated_def rep_of_def)
    next
      case (Cons c cs')
      then have "int (length es + length (c # cs')) < pf_total_size f" using room r is_field_sizes(3) [OF f] by simp
      then obtain f1 f2 where "move_cleared f = Inr f1" "add_allocated 1 f1 = Inr f2" "is_field f2 a es (c # cs' @ [c])"
        using move_cleared_is [of f a es c cs'] f Cons by auto
      moreover from this(3) obtain f3 where "take_slot p f2 = Inr f3" "is_field f3 a (es @ [p]) (cs' @ [c])"
        using replace_cleared by blast
      ultimately show ?thesis
        using False room r Cons is_field_sizes(2) [OF f]
        by (intro exI [of _ f3] exI [of _ "cs' @ [c]"] exI [of _ s]) (auto simp: UnsafeArenaAddAllocated_def rep_of_def)
    qed
  qed
qed

lemma fast_add_is:
  assumes f: "is_field f a es cs" and room: "room_for_one f"
  shows "\<exists>f' cs'. fast_add_allocated p f = Inr f' \<and> is_field f' a (es @ [p]) cs' \<and> mset cs' = mset cs"
proof -
  have r: "int (length es + length cs) < pf_total_size f"
    using f room by (auto simp: is_field_def RepeatedPtrFieldBase_def field_of_def room_for_one_def)
  show ?thesis
  proof (cases cs)
    case Nil
    then obtain f1 f' where "add_allocated 1 f = Inr f1" "take_slot p f1 = Inr f'" "is_field f' a (es @ [p]) []"
      using put_next_is [of f a es p] f r by auto
    moreover have "move_cleared f = Inr f"
      using put_behind(2) [OF f r] is_field_sizes(2) [OF f] Nil by (auto simp: move_cleared_def rep_of_def)
    ultimately show ?thesis using add_take_commute [of 1 f f1 p f'] Nil by (auto simp: fast_add_allocated_def)
  next
    case (Cons c cs')
    then obtain f1 f2 where 1: "move_cleared f = Inr f1" "add_allocated 1 f1 = Inr f2" "is_field f2 a es (c # cs' @ [c])"
      using move_cleared_is [of f a es c cs'] f r by auto
    obtain f3 where "take_slot p f2 = Inr f3" "is_field f3 a (es @ [p]) (cs' @ [c])" using replace_cleared [OF 1(3)] by blast
    then show ?thesis
      using add_take_commute [of 1 f1 f2 p f3] 1 Cons by (intro exI [of _ f3] exI [of _ "cs' @ [c]"]) (auto simp: fast_add_allocated_def)
  qed
qed

end

end
