(* ===== verification/Ptr_Objects.thy ===== *)
theory Ptr_Objects
  imports Ptr_Laws
begin

text \<open>
  What the loops of a field of pointers do to the objects: clearing, deleting, copying out and merging
  in, for lists of live objects.
\<close>

section \<open>Changing some objects\<close>

definition val :: "'m store \<Rightarrow> ptr \<Rightarrow> 'm" where
  "val s p = cell_value (the (st_heap s p))"

definition live_object :: "'m store \<Rightarrow> ptr \<Rightarrow> bool" where
  "live_object s p \<longleftrightarrow> st_heap s p \<noteq> None"

text \<open>Only the values of the objects of a set change.\<close>

definition touches :: "ptr set \<Rightarrow> 'm store \<Rightarrow> 'm store \<Rightarrow> bool" where
  "touches P s s' \<longleftrightarrow> st_next s' = st_next s \<and> st_owned s' = st_owned s \<and>
     (\<forall>p. map_option cell_arena (st_heap s' p) = map_option cell_arena (st_heap s p)) \<and>
     (\<forall>p. p \<notin> P \<longrightarrow> st_heap s' p = st_heap s p)"

lemma touches_refl [simp]: "touches P s s"
  by (simp add: touches_def)

lemma touches_trans: "touches P s s' \<Longrightarrow> touches Q s' s'' \<Longrightarrow> touches (P \<union> Q) s s''"
  by (simp add: touches_def)

lemma touches_mono: "touches P s s' \<Longrightarrow> P \<subseteq> Q \<Longrightarrow> touches Q s s'"
  by (auto simp: touches_def)

lemma touches_live: "touches P s s' \<Longrightarrow> live_object s' p \<longleftrightarrow> live_object s p"
  unfolding touches_def live_object_def by (metis option.map_disc_iff)

lemma touches_val: "touches P s s' \<Longrightarrow> p \<notin> P \<Longrightarrow> val s' p = val s p"
  by (simp add: touches_def val_def)

lemma touches_dom: "touches P s s' \<Longrightarrow> dom (st_heap s') = dom (st_heap s)"
  using touches_live [of P s s'] by (auto simp: live_object_def)

lemma upd_value:
  assumes "st_heap s p = Some c"
  shows "touches {p} s (s\<lparr>st_heap := (st_heap s)(p := Some (c\<lparr>cell_value := v\<rparr>))\<rparr>)"
    "val (s\<lparr>st_heap := (st_heap s)(p := Some (c\<lparr>cell_value := v\<rparr>))\<rparr>) p = v"
  using assms by (simp_all add: touches_def val_def)

lemma Clear_object_live:
  assumes "live_object s p"
  shows "\<exists>s'. Clear_object H p s = Inr s' \<and> touches {p} s s' \<and> val s' p = th_clear H (val s p)"
proof -
  obtain c where c: "st_heap s p = Some c" using assms by (auto simp: live_object_def)
  then show ?thesis using upd_value [OF c, of "th_clear H (cell_value c)"]
    by (simp add: Clear_object_def fetch_def) (simp add: val_def)
qed

lemma Merge_object_live:
  assumes "live_object s q" "live_object s p"
  shows "\<exists>s'. Merge_object H q p s = Inr s' \<and> touches {p} s s' \<and> val s' p = th_merge H (val s q) (val s p)"
proof -
  obtain c d where c: "st_heap s q = Some c" "st_heap s p = Some d" using assms by (auto simp: live_object_def)
  then show ?thesis using upd_value [OF c(2), of "th_merge H (cell_value c) (cell_value d)"]
    by (simp add: Merge_object_def fetch_def) (simp add: val_def)
qed

section \<open>Loops over the elements\<close>

text \<open>The pointers a loop that starts at an index meets.\<close>

definition meets :: "ptr_field \<Rightarrow> int \<Rightarrow> ptr list \<Rightarrow> bool" where
  "meets f i ps \<longleftrightarrow> (\<forall>k < length ps. pointer_at (i + int k) f = Inr (ps ! k))"

lemma meets_Cons: "meets f i (p # ps) \<longleftrightarrow> pointer_at i f = Inr p \<and> meets f (i + 1) ps"
  by (auto simp: meets_def less_Suc_eq_0_disj add.assoc nth_Cons split: nat.split)

lemma meets_Nil [simp]: "meets f i []"
  by (simp add: meets_def)

lemma loop_step: "[i..i + int (length (p # ps)) - 1] = i # [i + 1..i + 1 + int (length ps) - 1]"
proof -
  have "i + int (length (p # ps)) - 1 = i + 1 + int (length ps) - 1" "i \<le> i + int (length (p # ps)) - 1" by simp_all
  then show ?thesis using upto_rec1 by metis
qed

lemma loop_end: "[i..i + int (length ([] :: 'a list)) - 1] = []"
  by simp

lemma meets_field:
  assumes "is_field f a es cs" "es @ cs = xs @ ps @ ys"
  shows "meets f (int (length xs)) ps"
proof -
  have "pointer_at (int (length xs) + int k) f = Inr (ps ! k)" if k: "k < length ps" for k
  proof -
    have "length es + length cs = length xs + length ps + length ys" using assms(2) by (metis length_append add.assoc)
    then have "pointer_at (int (length xs + k)) f = Inr ((es @ cs) ! (length xs + k))"
      using pointer_at_is [OF assms(1), of "int (length xs + k)"] k by (simp del: of_nat_add)
    then show ?thesis using k by (simp add: assms(2) nth_append)
  qed
  then show ?thesis by (simp add: meets_def)
qed

lemma clear_elements_live:
  "meets f i ps \<Longrightarrow> (\<And>p. p \<in> set ps \<Longrightarrow> live_object s p) \<Longrightarrow> distinct ps \<Longrightarrow>
   \<exists>s'. clear_elements H [i..i + int (length ps) - 1] f s = Inr s' \<and> touches (set ps) s s' \<and>
     (\<forall>p \<in> set ps. val s' p = th_clear H (val s p))"
proof (induction ps arbitrary: i s)
  case (Cons p ps)
  obtain s1 where 1: "Clear_object H p s = Inr s1" "touches {p} s s1" "val s1 p = th_clear H (val s p)"
    using Clear_object_live [of s p H] Cons.prems(2) by auto
  have "live_object s1 q" if "q \<in> set ps" for q using touches_live [OF 1(2)] Cons.prems(2) that by simp
  with Cons.IH [of "i + 1" s1] Cons.prems obtain s2 where 2: "clear_elements H [i + 1..i + 1 + int (length ps) - 1] f s1 = Inr s2"
    "touches (set ps) s1 s2" "\<forall>q \<in> set ps. val s2 q = th_clear H (val s1 q)" by (auto simp: meets_Cons)
  have "clear_elements H [i..i + int (length (p # ps)) - 1] f s = Inr s2"
    unfolding loop_step using 1 2 Cons.prems(1) by (simp add: meets_Cons)
  moreover have "touches (set (p # ps)) s s2" using touches_trans [OF 1(2) 2(2)] by simp
  moreover have "val s2 q = th_clear H (val s q)" if "q \<in> set (p # ps)" for q
    using that 1(3) 2(3) touches_val [OF 1(2)] touches_val [OF 2(2)] Cons.prems(3) by (cases "q = p") auto
  ultimately show ?case by blast
qed simp

text \<open>Deleting.\<close>

definition without :: "'m store \<Rightarrow> ptr set \<Rightarrow> 'm store" where
  "without s P = s\<lparr>st_heap := (\<lambda>p. if p \<in> P then None else st_heap s p)\<rparr>"

lemma without_simps [simp]: "without s {} = s" "without (without s P) Q = without s (P \<union> Q)"
  "st_next (without s P) = st_next s" "st_owned (without s P) = st_owned s" "dom (st_heap (without s P)) = dom (st_heap s) - P"
  by (auto simp: without_def split: if_splits intro!: store.equality)

lemma val_without: "p \<notin> P \<Longrightarrow> val (without s P) p = val s p"
  by (simp add: val_def without_def)

text \<open>A store in which everything lies on the heap and what is new is fresh.\<close>

definition heap_only :: "'m store \<Rightarrow> bool" where
  "heap_only s \<longleftrightarrow> st_owned s = [] \<and> (\<forall>p c. st_heap s p = Some c \<longrightarrow> cell_arena c = None \<and> p < st_next s)"

lemma heap_only_without: "heap_only s \<Longrightarrow> heap_only (without s P)"
  by (simp add: heap_only_def) (simp add: without_def)

lemma heap_only_touches: "touches P s s' \<Longrightarrow> heap_only s \<Longrightarrow> heap_only s'"
  unfolding touches_def heap_only_def by (metis option.map_disc_iff option.map_sel option.sel option.exhaust_sel option.simps(3))

lemma Delete_object_live:
  assumes "heap_only s" "live_object s p"
  shows "Delete_object p None s = Inr (without s {p})"
  using assms by (auto simp: Delete_object_def fetch_def live_object_def heap_only_def without_def fun_eq_iff intro!: store.equality)

lemma delete_elements_live:
  "meets f i ps \<Longrightarrow> pf_arena f = None \<Longrightarrow> heap_only s \<Longrightarrow> (\<And>p. p \<in> set ps \<Longrightarrow> live_object s p) \<Longrightarrow> distinct ps \<Longrightarrow>
   delete_elements [i..i + int (length ps) - 1] f s = Inr (without s (set ps))"
proof (induction ps arbitrary: i s)
  case (Cons p ps)
  have "live_object (without s {p}) q" if "q \<in> set ps" for q
    using Cons.prems(4) [of q] Cons.prems(5) that by (auto simp: live_object_def without_def)
  then have "delete_elements [i + 1..i + 1 + int (length ps) - 1] f (without s {p}) = Inr (without (without s {p}) (set ps))"
    using Cons.prems by (intro Cons.IH) (auto simp: meets_Cons heap_only_without)
  moreover have "PtrField_Delete i f s = Inr (without s {p})"
    using Cons.prems Delete_object_live [of s p] by (simp add: PtrField_Delete_def meets_Cons)
  ultimately show ?case unfolding loop_step by simp
qed simp

lemma pointers_at_meets:
  "meets f (i + start) ps \<Longrightarrow> pointers_at [i..i + int (length ps) - 1] start f = Inr ps"
proof (induction ps arbitrary: i)
  case (Cons p ps)
  have "i + start + 1 = i + 1 + start" by simp
  with Cons.prems have "pointers_at [i + 1..i + 1 + int (length ps) - 1] start f = Inr ps"
    by (intro Cons.IH) (simp add: meets_Cons)
  with Cons.prems show ?case unfolding loop_step by (simp add: PtrField_Mutable_def meets_Cons)
qed simp

section \<open>Merging\<close>

lemma merge_allocated_live:
  "meets other i qs \<Longrightarrow> meets f (our + i) ps \<Longrightarrow> length qs = length ps \<Longrightarrow>
   (\<And>p. p \<in> set qs \<union> set ps \<Longrightarrow> live_object s p) \<Longrightarrow> distinct ps \<Longrightarrow> set ps \<inter> set qs = {} \<Longrightarrow>
   \<exists>s'. merge_allocated H [i..i + int (length ps) - 1] our other f s = Inr s' \<and> touches (set ps) s s' \<and>
     (\<forall>k < length ps. val s' (ps ! k) = th_merge H (val s (qs ! k)) (val s (ps ! k)))"
proof (induction ps arbitrary: i s qs)
  case (Cons p ps)
  then obtain q qs' where qs: "qs = q # qs'" by (cases qs) auto
  obtain s1 where 1: "Merge_object H q p s = Inr s1" "touches {p} s s1" "val s1 p = th_merge H (val s q) (val s p)"
    using Merge_object_live [of s q p H] Cons.prems(4) qs by auto
  have live: "live_object s1 x" if "x \<in> set qs' \<union> set ps" for x using touches_live [OF 1(2)] Cons.prems(4) qs that by auto
  have m: "meets other (i + 1) qs'" "meets f (our + (i + 1)) ps"
    using Cons.prems(1,2) qs by (simp_all add: meets_Cons add.assoc)
  obtain s2 where 2: "merge_allocated H [i + 1..i + 1 + int (length ps) - 1] our other f s1 = Inr s2" "touches (set ps) s1 s2"
    "\<forall>k < length ps. val s2 (ps ! k) = th_merge H (val s1 (qs' ! k)) (val s1 (ps ! k))"
    using Cons.IH [OF m _ live] Cons.prems(3,5,6) qs by auto
  have "merge_allocated H [i..i + int (length (p # ps)) - 1] our other f s = Inr s2"
    unfolding loop_step using 1 2 Cons.prems(1,2) qs by (simp add: meets_Cons)
  moreover have "touches (set (p # ps)) s s2" using touches_trans [OF 1(2) 2(2)] by simp
  moreover have "val s2 ((p # ps) ! k) = th_merge H (val s (qs ! k)) (val s ((p # ps) ! k))" if k: "k < length (p # ps)" for k
  proof (cases k)
    case 0
    then show ?thesis using 1(3) touches_val [OF 2(2), of p] Cons.prems(5) qs by simp
  next
    case (Suc j)
    then have j: "j < length ps" "j < length qs'" using k Cons.prems(3) qs by auto
    then have "qs' ! j \<noteq> p" "ps ! j \<noteq> p" using Cons.prems(5,6) qs by (auto dest: nth_mem)
    then show ?thesis using 2(3) j Suc qs touches_val [OF 1(2)] by simp
  qed
  ultimately show ?case by blast
qed simp

text \<open>New objects at the end of the store.\<close>

definition extended :: "'m store \<Rightarrow> arena \<Rightarrow> 'm list \<Rightarrow> 'm store" where
  "extended s a vs = s\<lparr>st_heap := (\<lambda>p. if st_next s \<le> p \<and> p < st_next s + length vs
     then Some \<lparr>cell_value = vs ! (p - st_next s), cell_arena = a\<rparr> else st_heap s p), st_next := st_next s + length vs\<rparr>"

definition fresh :: "'m store \<Rightarrow> bool" where
  "fresh s \<longleftrightarrow> (\<forall>p. live_object s p \<longrightarrow> p < st_next s)"

lemma extended_simps [simp]:
  "extended s a [] = s" "st_next (extended s a vs) = st_next s + length vs" "st_owned (extended s a vs) = st_owned s"
  by (auto simp: extended_def fun_eq_iff intro!: store.equality)

lemma extended_Cons: "extended (extended s a [v]) a vs = extended s a (v # vs)"
proof -
  have "(v # vs) ! (p - st_next s) = vs ! (p - (st_next s + 1))" if "st_next s + 1 \<le> p" for p
  proof -
    have "p - st_next s = Suc (p - (st_next s + 1))" using that by simp
    then show ?thesis by simp
  qed
  then show ?thesis by (auto simp: extended_def fun_eq_iff intro!: store.equality)
qed

lemma New_extended: "New H a s = (st_next s, extended s a [th_new H])"
  by (auto simp: New_def extended_def fun_eq_iff intro!: store.equality)

lemma extended_old: "p < st_next s \<Longrightarrow> st_heap (extended s a vs) p = st_heap s p"
  by (simp add: extended_def)

lemma extended_new: "k < length vs \<Longrightarrow> st_heap (extended s a vs) (st_next s + k) = Some \<lparr>cell_value = vs ! k, cell_arena = a\<rparr>"
  by (simp add: extended_def)

lemma extended_live:
  "fresh s \<Longrightarrow> dom (st_heap (extended s a vs)) = dom (st_heap s) \<union> {st_next s..<st_next s + length vs}"
  "fresh s \<Longrightarrow> fresh (extended s a vs)"
  by (auto simp: extended_def fresh_def live_object_def split: if_splits)

lemma Merge_new:
  assumes "live_object s q" "fresh s"
  shows "Merge_object H q (st_next s) (extended s a [th_new H]) = Inr (extended s a [th_merge H (val s q) (th_new H)])"
proof -
  obtain c where c: "st_heap s q = Some c" using assms(1) by (auto simp: live_object_def)
  then have "q < st_next s" using assms(2) by (auto simp: fresh_def live_object_def)
  then show ?thesis
    using c by (auto simp: Merge_object_def fetch_def extended_def val_def fun_eq_iff intro!: store.equality)
qed

lemma put_pad:
  "put_slot (int (length es) + int (length cs + length fr)) (Some p) (field_of a es cs (map Some fr @ x # pad)) =
     Inr (field_of a es cs (map Some (fr @ [p]) @ pad))"
proof -
  have "put_slot (int (length (map Some (es @ cs) @ map Some fr))) (Some p) (field_of a es cs (map Some fr @ x # pad)) =
      Inr ((field_of a es cs (map Some fr @ x # pad))\<lparr>pf_rep := Some \<lparr>pr_allocated_size = int (length es + length cs),
        pr_elements = (map Some (es @ cs) @ map Some fr) @ Some p # pad\<rparr>\<rparr>)"
    by (rule trans [OF slot_mid(2) [OF field_rep _ refl, where y = x and ys = pad]]) simp_all
  then show ?thesis by (simp add: field_of_def add.assoc)
qed

lemma merge_fresh_live:
  "meets other i qs \<Longrightarrow> i = int (length cs + length fr) \<Longrightarrow> length qs \<le> length pad \<Longrightarrow> fresh s \<Longrightarrow>
   (\<And>q. q \<in> set qs \<Longrightarrow> live_object s q) \<Longrightarrow>
   merge_fresh H [i..i + int (length qs) - 1] (int (length es)) other (field_of a es cs (map Some fr @ pad)) s =
     Inr (field_of a es cs (map Some (fr @ [st_next s..<st_next s + length qs]) @ drop (length qs) pad),
       extended s a (map (\<lambda>q. th_merge H (val s q) (th_new H)) qs))"
proof (induction qs arbitrary: i fr pad s)
  case (Cons q qs)
  then obtain x pad' where pad: "pad = x # pad'" by (cases pad) auto
  let ?v = "th_merge H (val s q) (th_new H)" let ?s = "extended s a [?v]"
  have "put_slot (int (length es) + i) (Some (st_next s)) (field_of a es cs (map Some fr @ pad)) =
      Inr (field_of a es cs (map Some (fr @ [st_next s]) @ pad'))"
    unfolding pad Cons.prems(2) by (rule put_pad)
  moreover have "pf_arena (field_of a es cs (map Some fr @ pad)) = a" by (simp add: field_of_def)
  ultimately have step: "merge_fresh H [i..i + int (length (q # qs)) - 1] (int (length es)) other (field_of a es cs (map Some fr @ pad)) s =
      merge_fresh H [i + 1..i + 1 + int (length qs) - 1] (int (length es)) other (field_of a es cs (map Some (fr @ [st_next s]) @ pad')) ?s"
    unfolding loop_step
    using Cons.prems(1) Merge_new [of s q H a] Cons.prems(4,5)
    by (simp add: meets_Cons NewFromPrototype_def New_extended)
  have old: "p < st_next s" if "p \<in> set qs" for p using Cons.prems(4,5) that by (auto simp: fresh_def)
  have "live_object ?s p" if "p \<in> set qs" for p
    using Cons.prems(5) [of p] extended_old [OF old [OF that]] that by (simp add: live_object_def)
  then have "merge_fresh H [i + 1..i + 1 + int (length qs) - 1] (int (length es)) other (field_of a es cs (map Some (fr @ [st_next s]) @ pad')) ?s =
      Inr (field_of a es cs (map Some ((fr @ [st_next s]) @ [st_next ?s..<st_next ?s + length qs]) @ drop (length qs) pad'),
        extended ?s a (map (\<lambda>q. th_merge H (val ?s q) (th_new H)) qs))"
    using Cons.prems pad extended_live(2) by (intro Cons.IH) (auto simp: meets_Cons)
  moreover have "map (\<lambda>q. th_merge H (val ?s q) (th_new H)) qs = map (\<lambda>q. th_merge H (val s q) (th_new H)) qs"
    using extended_old [OF old] by (simp add: val_def)
  moreover have "[st_next s..<st_next s + length (q # qs)] = st_next s # [st_next ?s..<st_next ?s + length qs]"
    by (simp add: upt_conv_Cons del: upt_Suc)
  ultimately show ?case unfolding step by (simp add: pad extended_Cons del: upt_Suc)
qed simp

lemma touches_fresh: "touches P s s' \<Longrightarrow> fresh s \<Longrightarrow> fresh s'"
  using touches_live [of P s s'] by (auto simp: fresh_def touches_def)

text \<open>The elements that come out of cleared objects, and those that are new.\<close>

lemma inner_loop_live:
  assumes g: "is_field g b qs ds" and f: "f = field_of a es cs pad" "int (length es + length cs + length pad) < 2 ^ 31"
    and room: "length qs \<le> length cs + length pad"
    and live: "\<And>p. p \<in> set qs \<union> set cs \<Longrightarrow> live_object s p" and dis: "distinct cs" "set cs \<inter> set qs = {}" and s: "fresh s"
  defines "n \<equiv> min (length cs) (length qs)"
  shows "\<exists>s1. MergeFromInnerLoop H (int (length es)) g (int (length qs)) (int (length cs)) f s =
      Inr (field_of a es cs (map Some [st_next s..<st_next s + (length qs - n)] @ drop (length qs - n) pad),
        extended s1 a (map (\<lambda>q. th_merge H (val s q) (th_new H)) (drop n qs))) \<and>
    touches (set (take n cs)) s s1 \<and> (\<forall>k < n. val s1 (cs ! k) = th_merge H (val s (qs ! k)) (val s (cs ! k)))"
proof -
  have ff: "is_field f a es cs" using f by (simp add: is_field_of)
  have m1: "meets g 0 (take n qs)" using meets_field [OF g, of "[]" "take n qs" "drop n qs @ ds"] by simp
  have m2: "meets f (int (length es) + 0) (take n cs)" using meets_field [OF ff, of es "take n cs" "drop n cs"] by simp
  have len: "length (take n qs) = length (take n cs)" "length (take n cs) = n" by (simp_all add: n_def)
  have "live_object s p" if "p \<in> set (take n qs) \<union> set (take n cs)" for p
    using that live by (auto dest: in_set_takeD)
  moreover have "set (take n cs) \<inter> set (take n qs) = {}" using dis(2) by (auto dest: in_set_takeD)
  ultimately obtain s1 where 1: "merge_allocated H [0..int n - 1] (int (length es)) g f s = Inr s1"
    "touches (set (take n cs)) s s1" "\<forall>k < n. val s1 (cs ! k) = th_merge H (val s (qs ! k)) (val s (cs ! k))"
    using merge_allocated_live [OF m1 m2 len(1), of s H] dis(1) len by auto
  have same: "val s1 q = val s q" if "q \<in> set qs" for q
    using touches_val [OF 1(2)] dis(2) that by (auto dest: in_set_takeD)
  have "merge_fresh H [int (length cs)..int (length qs) - 1] (int (length es)) g f s1 =
      Inr (field_of a es cs (map Some [st_next s..<st_next s + (length qs - n)] @ drop (length qs - n) pad),
        extended s1 a (map (\<lambda>q. th_merge H (val s q) (th_new H)) (drop n qs)))"
  proof (cases "length cs < length qs")
    case True
    have n: "n = length cs" "length (drop n qs) = length qs - n" using True by (simp_all add: n_def)
    have m: "meets g (int (length cs)) (drop n qs)"
      using meets_field [OF g, of "take n qs" "drop n qs" ds] n True by (simp add: min_def)
    have e: "int (length cs) + int (length (drop n qs)) - 1 = int (length qs) - 1" using True n by simp
    have "live_object s1 q" if "q \<in> set (drop n qs)" for q
      using touches_live [OF 1(2)] live that by (auto dest: in_set_dropD)
    from merge_fresh_live [OF m, of cs "[]" pad s1 H es a] this True room n touches_fresh [OF 1(2) s] 1(2)
    show ?thesis unfolding e f(1)
      by (simp add: touches_def same in_set_dropD cong: map_cong)
  next
    case False
    then have "n = length qs" by (simp add: n_def)
    then show ?thesis using False f(1) by simp
  qed
  moreover have "min (int (length cs)) (int (length qs)) = int n" by (simp add: n_def of_nat_min)
  ultimately show ?thesis using 1 by (auto simp: MergeFromInnerLoop_def)
qed

context ptr_library
begin

lemma MergeFrom_is:
  assumes f: "is_field f a es cs" and g: "is_field g b qs ds" and n: "int (length es + length qs) \<le> bound"
    and live: "\<And>p. p \<in> set qs \<union> set cs \<Longrightarrow> live_object s p" and dis: "distinct cs" "set cs \<inter> set qs = {}" and s: "fresh s"
  defines "k \<equiv> min (length cs) (length qs)"
  shows "\<exists>f' s1. PtrField_MergeFrom L H g f s =
      Inr (f', extended s1 a (map (\<lambda>q. th_merge H (val s q) (th_new H)) (drop k qs))) \<and>
    touches (set (take k cs)) s s1 \<and> (\<forall>i < k. val s1 (cs ! i) = th_merge H (val s (qs ! i)) (val s (cs ! i))) \<and>
    is_field f' a (es @ take k cs @ [st_next s..<st_next s + (length qs - k)]) (drop k cs)"
proof (cases "qs = []")
  case True
  then show ?thesis using f is_field_sizes(2) [OF g] by (intro exI [of _ f] exI [of _ s]) (simp add: PtrField_MergeFrom_def k_def)
next
  case False
  obtain f1 where 1: "pl_InternalExtend L (int (length qs)) f = Inr (int (length es), f1)" "is_field f1 a es cs"
    "int (length es) + int (length qs) \<le> pf_total_size f1"
    using InternalExtend [OF f, of "int (length qs)"] n False by auto
  have "0 < length qs" using False by simp
  then have "0 < pf_total_size f1" using 1(3) by linarith
  then obtain pad where f1: "f1 = field_of a es cs pad" "int (length es + length cs + length pad) < 2 ^ 31"
    by (rule is_fieldE [OF 1(2)])
  have room: "length qs \<le> length cs + length pad" using 1(3) by (simp add: f1 field_of_def)
  let ?ns = "[st_next s..<st_next s + (length qs - k)]" let ?pad = "map Some ?ns @ drop (length qs - k) pad"
  obtain s1 where 2: "MergeFromInnerLoop H (int (length es)) g (int (length qs)) (int (length cs)) f1 s =
      Inr (field_of a es cs ?pad, extended s1 a (map (\<lambda>q. th_merge H (val s q) (th_new H)) (drop k qs)))"
    "touches (set (take k cs)) s s1" "\<forall>i < k. val s1 (cs ! i) = th_merge H (val s (qs ! i)) (val s (cs ! i))"
    using inner_loop_live [OF g f1 room live dis s] unfolding k_def by blast
  have g': "pf_current_size g = int (length qs)" "\<exists>r. rep_of g = Inr r"
    using g False by (auto simp: is_field_def RepeatedPtrFieldBase_def field_of_def rep_of_def)
  have rep: "rep_of (field_of a es cs p) = Inr \<lparr>pr_allocated_size = int (length es + length cs), pr_elements = map Some (es @ cs) @ p\<rparr>" for p
    by (simp add: rep_of_def field_rep)
  define f2 where "f2 = (field_of a es cs ?pad)\<lparr>pf_current_size := int (length es + length qs)\<rparr>"
  define f3 where "f3 = (if length cs < length qs then f2\<lparr>pf_rep := Some \<lparr>pr_allocated_size = int (length es + length qs),
    pr_elements = map Some (es @ cs) @ ?pad\<rparr>\<rparr> else f2)"
  have "PtrField_MergeFrom L H g f s = Inr (f3, extended s1 a (map (\<lambda>q. th_merge H (val s q) (th_new H)) (drop k qs)))"
    using g' 1(1) 2(1) False
    by (auto simp: PtrField_MergeFrom_def MergeFromInternal_def f1 rep Let_def f3_def f2_def) (auto simp: field_of_def rep_of_def)
  moreover have "is_field f3 a (es @ take k cs @ ?ns) (drop k cs)"
  proof (cases "length cs < length qs")
    case True
    then have "f3 = field_of a (es @ cs @ ?ns) [] (drop (length qs - k) pad)"
      using room by (simp add: f3_def f2_def k_def) (simp add: field_of_def)
    then show ?thesis using True room f1(2) by (simp add: k_def is_field_of)
  next
    case False
    then have "f3 = field_of a (es @ take k cs) (drop k cs) pad"
      by (simp add: f3_def f2_def k_def) (simp add: field_of_def flip: map_append)
    then show ?thesis using False f1(2) by (simp add: k_def is_field_of)
  qed
  ultimately show ?thesis using 2(2,3) by blast
qed

end

end
