(* ===== verification/Ptr_Ownership.thy ===== *)
theory Ptr_Ownership
  imports Ptr_Objects
begin

text \<open>
  Who owns the objects of a field of pointers on the heap: the field owns its elements and its cleared
  objects, the caller the objects it holds, nobody owns anything twice, and nothing is lost. Seen from
  outside, a field is the list of the values of its elements.
\<close>

section \<open>Operations of a caller\<close>

text \<open>The caller holds a set of objects; operations take objects from it and give objects to it.\<close>

type_synonym 'm ptr_state = "ptr_field \<times> 'm store \<times> ptr set"

datatype 'm ptr_op =
    P_New 'm | P_Add | P_AddAllocated ptr | P_ReleaseLast | P_RemoveLast | P_Clear | P_AddCleared ptr | P_ReleaseCleared
  | P_Swap nat nat | P_Extract nat nat | P_Delete nat nat | P_Merge ptr_field

fun execute :: "ptr_lib \<Rightarrow> 'm type_handler \<Rightarrow> 'm ptr_op \<Rightarrow> 'm ptr_state \<Rightarrow> 'm ptr_state res" where
  "execute L H (P_New v) (f, s, hand) = Inr (f, extended s None [v], insert (st_next s) hand)"
| "execute L H P_Add (f, s, hand) = res_map (\<lambda>(p, f', s'). (f', s', hand)) (PtrField_Add L H f s)"
| "execute L H (P_AddAllocated p) (f, s, hand) =
     res_map (\<lambda>(f', s'). (f', s', hand - {p})) (PtrField_AddAllocated L H p f s)"
| "execute L H P_ReleaseLast (f, s, hand) =
     res_map (\<lambda>(p, f', s'). (f', s', insert p hand)) (PtrField_ReleaseLast H f s)"
| "execute L H P_RemoveLast (f, s, hand) = res_map (\<lambda>(f', s'). (f', s', hand)) (PtrField_RemoveLast H f s)"
| "execute L H P_Clear (f, s, hand) = res_map (\<lambda>(f', s'). (f', s', hand)) (PtrField_Clear H f s)"
| "execute L H (P_AddCleared p) (f, s, hand) = res_map (\<lambda>f'. (f', s, hand - {p})) (PtrField_AddCleared L p f)"
| "execute L H P_ReleaseCleared (f, s, hand) = res_map (\<lambda>(p, f'). (f', s, insert p hand)) (PtrField_ReleaseCleared f)"
| "execute L H (P_Swap i j) (f, s, hand) = res_map (\<lambda>f'. (f', s, hand)) (PtrField_SwapElements (int i) (int j) f)"
| "execute L H (P_Extract a n) (f, s, hand) =
     res_map (\<lambda>(ps, f', s'). (f', s', hand \<union> set ps)) (PtrField_ExtractSubrange L H (int a) (int n) True f s)"
| "execute L H (P_Delete a n) (f, s, hand) =
     res_map (\<lambda>(f', s'). (f', s', hand)) (PtrField_DeleteSubrange L H (int a) (int n) f s)"
| "execute L H (P_Merge g) (f, s, hand) = res_map (\<lambda>(f', s'). (f', s', hand)) (PtrField_MergeFrom L H g f s)"

text \<open>What the header asks of the caller. The elements of a field that is merged are the caller's.\<close>

definition pointers :: "ptr_field \<Rightarrow> ptr list" where
  "pointers f = (case pf_rep f of None \<Rightarrow> [] | Some r \<Rightarrow> map the (take (nat (pf_current_size f)) (pr_elements r)))"

fun permitted :: "int \<Rightarrow> 'm type_handler \<Rightarrow> ('m \<Rightarrow> 'v) \<Rightarrow> 'm ptr_op \<Rightarrow> 'm ptr_state \<Rightarrow> bool" where
  "permitted bound H view (P_New v) (f, s, hand) \<longleftrightarrow> True"
| "permitted bound H view P_Add (f, s, hand) \<longleftrightarrow> PtrField_size f < bound"
| "permitted bound H view (P_AddAllocated p) (f, s, hand) \<longleftrightarrow> p \<in> hand \<and> PtrField_size f < bound"
| "permitted bound H view P_ReleaseLast (f, s, hand) \<longleftrightarrow> 0 < PtrField_size f"
| "permitted bound H view P_RemoveLast (f, s, hand) \<longleftrightarrow> 0 < PtrField_size f"
| "permitted bound H view P_Clear (f, s, hand) \<longleftrightarrow> True"
| "permitted bound H view (P_AddCleared p) (f, s, hand) \<longleftrightarrow> p \<in> hand \<and> view (val s p) = view (th_new H) \<and>
     PtrField_size f + PtrField_ClearedCount f < bound"
| "permitted bound H view P_ReleaseCleared (f, s, hand) \<longleftrightarrow> 0 < PtrField_ClearedCount f"
| "permitted bound H view (P_Swap i j) (f, s, hand) \<longleftrightarrow> int i < PtrField_size f \<and> int j < PtrField_size f"
| "permitted bound H view (P_Extract a n) (f, s, hand) \<longleftrightarrow> int (a + n) \<le> PtrField_size f"
| "permitted bound H view (P_Delete a n) (f, s, hand) \<longleftrightarrow> int (a + n) \<le> PtrField_size f"
| "permitted bound H view (P_Merge g) (f, s, hand) \<longleftrightarrow> set (pointers g) \<subseteq> hand \<and>
     (\<exists>b ds. is_field g b (pointers g) ds) \<and> PtrField_size f + PtrField_size g \<le> bound"

section \<open>What the caller sees\<close>

text \<open>The values of the elements, and the values of the objects the caller holds.\<close>

type_synonym 'v seen = "'v list \<times> (ptr \<Rightarrow> 'v option)"

definition held :: "('m \<Rightarrow> 'v) \<Rightarrow> 'm store \<Rightarrow> ptr set \<Rightarrow> ptr \<Rightarrow> 'v option" where
  "held view s hand p = (if p \<in> hand then Some (view (val s p)) else None)"

definition seen :: "('m \<Rightarrow> 'v) \<Rightarrow> 'm ptr_state \<Rightarrow> 'v seen" where
  "seen view st = (case st of (f, s, hand) \<Rightarrow> (map (\<lambda>p. view (val s p)) (pointers f), held view s hand))"

text \<open>What an operation means for it. An object the caller gets is one it did not hold.\<close>

inductive means :: "'m type_handler \<Rightarrow> ('m \<Rightarrow> 'v) \<Rightarrow> 'm ptr_op \<Rightarrow> 'v seen \<Rightarrow> 'v seen \<Rightarrow> bool" for H view where
  "hv p = None \<Longrightarrow> means H view (P_New v) (vs, hv) (vs, hv(p \<mapsto> view v))"
| "means H view P_Add (vs, hv) (vs @ [view (th_new H)], hv)"
| "hv p = Some v \<Longrightarrow> means H view (P_AddAllocated p) (vs, hv) (vs @ [v], hv(p := None))"
| "hv p = None \<Longrightarrow> means H view P_ReleaseLast (vs @ [v], hv) (vs, hv(p \<mapsto> v))"
| "means H view P_RemoveLast (vs @ [v], hv) (vs, hv)"
| "means H view P_Clear (vs, hv) ([], hv)"
| "means H view (P_AddCleared p) (vs, hv) (vs, hv(p := None))"
| "hv p = None \<Longrightarrow> means H view P_ReleaseCleared (vs, hv) (vs, hv(p \<mapsto> view (th_new H)))"
| "means H view (P_Swap i j) (vs, hv) (vs[i := vs ! j, j := vs ! i], hv)"
| "length vs1 = a \<Longrightarrow> length vs2 = n \<Longrightarrow> length ps = n \<Longrightarrow> distinct ps \<Longrightarrow> set ps \<inter> dom hv = {} \<Longrightarrow>
   means H view (P_Extract a n) (vs1 @ vs2 @ vs3, hv) (vs1 @ vs3, hv ++ map_of (zip ps vs2))"
| "length vs1 = a \<Longrightarrow> length vs2 = n \<Longrightarrow> means H view (P_Delete a n) (vs1 @ vs2 @ vs3, hv) (vs1 @ vs3, hv)"
| "means H view (P_Merge g) (vs, hv) (vs @ map (\<lambda>p. the (hv p)) (pointers g), hv)"

section \<open>Ownership\<close>

definition owns :: "'m type_handler \<Rightarrow> ('m \<Rightarrow> 'v) \<Rightarrow> 'm ptr_state \<Rightarrow> ptr list \<Rightarrow> ptr list \<Rightarrow> bool" where
  "owns H view st es cs \<longleftrightarrow> (case st of (f, s, hand) \<Rightarrow>
     is_field f None es cs \<and> distinct (es @ cs) \<and> set (es @ cs) \<inter> hand = {} \<and>
     dom (st_heap s) = set (es @ cs) \<union> hand \<and> heap_only s \<and> (\<forall>c \<in> set cs. view (val s c) = view (th_new H)))"

definition accounted :: "'m type_handler \<Rightarrow> ('m \<Rightarrow> 'v) \<Rightarrow> 'm ptr_state \<Rightarrow> bool" where
  "accounted H view st \<longleftrightarrow> (\<exists>es cs. owns H view st es cs)"

lemma pointers_is: "is_field f a es cs \<Longrightarrow> pointers f = es"
  by (auto simp: is_field_def RepeatedPtrFieldBase_def field_of_def pointers_def)

lemma owns_seen: "owns H view (f, s, hand) es cs \<Longrightarrow> seen view (f, s, hand) = (map (\<lambda>p. view (val s p)) es, held view s hand)"
  using pointers_is by (auto simp: owns_def seen_def)

lemma ownsD:
  assumes "owns H view (f, s, hand) es cs"
  shows "is_field f None es cs" "distinct es" "distinct cs" "set es \<inter> set cs = {}" "set es \<inter> hand = {}" "set cs \<inter> hand = {}"
    "dom (st_heap s) = set es \<union> set cs \<union> hand" "heap_only s" "c \<in> set cs \<Longrightarrow> view (val s c) = view (th_new H)"
    "fresh s" "p \<in> set es \<union> set cs \<union> hand \<Longrightarrow> live_object s p" "st_next s \<notin> set es \<union> set cs \<union> hand"
    "p \<in> set es \<union> set cs \<union> hand \<Longrightarrow> p < st_next s"
    "PtrField_size f = int (length es)" "PtrField_ClearedCount f = int (length cs)"
proof -
  show *: "is_field f None es cs" "distinct es" "distinct cs" "set es \<inter> set cs = {}" "set es \<inter> hand = {}" "set cs \<inter> hand = {}"
    "dom (st_heap s) = set es \<union> set cs \<union> hand" "heap_only s" "c \<in> set cs \<Longrightarrow> view (val s c) = view (th_new H)"
    using assms by (auto simp: owns_def)
  have l: "live_object s q \<longleftrightarrow> q \<in> set es \<union> set cs \<union> hand" for q
    unfolding *(7) [symmetric] by (simp add: live_object_def dom_def)
  show fr: "fresh s" using *(8) by (auto simp: fresh_def heap_only_def live_object_def)
  show "p \<in> set es \<union> set cs \<union> hand \<Longrightarrow> live_object s p" "p \<in> set es \<union> set cs \<union> hand \<Longrightarrow> p < st_next s"
    "st_next s \<notin> set es \<union> set cs \<union> hand"
    using fr unfolding l [symmetric] fresh_def by auto
  show "PtrField_size f = int (length es)" "PtrField_ClearedCount f = int (length cs)"
    using is_field_sizes [OF *(1)] by (simp_all add: PtrField_size_def)
qed

text \<open>The field gives objects away or takes them, and the store stays as it is.\<close>

lemma owns_move:
  assumes "owns H view (f, s, hand) es cs" "is_field f' None es' cs'" "distinct (es' @ cs')" "set (es' @ cs') \<inter> hand' = {}"
    "set es' \<union> set cs' \<union> hand' = set es \<union> set cs \<union> hand" "\<And>c. c \<in> set cs' \<Longrightarrow> view (val s c) = view (th_new H)"
  shows "owns H view (f', s, hand') es' cs'"
  using assms by (auto simp: owns_def)

lemma held_upd: "p \<notin> hand \<Longrightarrow> held view s (insert p hand) = (held view s hand)(p \<mapsto> view (val s p))"
  "held view s (hand - {p}) = (held view s hand)(p := None)"
  by (auto simp: held_def fun_eq_iff)

lemma held_same: "(\<And>p. p \<in> hand \<Longrightarrow> val s' p = val s p) \<Longrightarrow> held view s' hand = held view s hand"
  by (auto simp: held_def fun_eq_iff)

text \<open>The result of a step, in the words of the invariant.\<close>

definition steps_to ::
  "ptr_lib \<Rightarrow> 'm type_handler \<Rightarrow> ('m \<Rightarrow> 'v) \<Rightarrow> 'm ptr_op \<Rightarrow> 'm ptr_state \<Rightarrow> bool" where
  "steps_to L H view op st \<longleftrightarrow> (\<exists>st'. execute L H op st = Inr st' \<and> accounted H view st' \<and> means H view op (seen view st) (seen view st'))"

lemma steps_toI:
  assumes "execute L H op (f, s, hand) = Inr (f', s', hand')" "owns H view (f, s, hand) es cs" "owns H view (f', s', hand') es' cs'"
    "means H view op (map (\<lambda>p. view (val s p)) es, held view s hand) (map (\<lambda>p. view (val s' p)) es', held view s' hand')"
  shows "steps_to L H view op (f, s, hand)"
  using assms owns_seen [OF assms(2)] owns_seen [OF assms(3)] by (auto simp: steps_to_def accounted_def)

lemma steps_moveI:
  assumes "execute L H op (f, s, hand) = Inr (f', s, hand')"
    "means H view op (map (\<lambda>p. view (val s p)) es, held view s hand) (map (\<lambda>p. view (val s p)) es', held view s hand')"
    "owns H view (f, s, hand) es cs" "is_field f' None es' cs'" "distinct (es' @ cs')" "set (es' @ cs') \<inter> hand' = {}"
    "set es' \<union> set cs' \<union> hand' = set es \<union> set cs \<union> hand" "\<And>c. c \<in> set cs' \<Longrightarrow> view (val s c) = view (th_new H)"
  shows "steps_to L H view op (f, s, hand)"
  by (rule steps_toI [OF assms(1,3) owns_move [OF assms(3-8)] assms(2)])

subsection \<open>Releasing and clearing\<close>

lemma held_None [simp]: "held view s hand p = None \<longleftrightarrow> p \<notin> hand"
  by (simp add: held_def)

lemma release_owned:
  assumes w: "owns H view (f, s, hand) es cs" and "es \<noteq> []"
  shows "steps_to L H view P_ReleaseLast (f, s, hand)"
proof -
  note d = ownsD [OF w]
  obtain es' x where es: "es = es' @ [x]" using assms(2) by (cases es rule: rev_cases) auto
  obtain f' cs' where f': "UnsafeArenaReleaseLast f = Inr (x, f')" "is_field f' None es' cs'" "mset cs' = mset cs"
    using ReleaseLast_is [of f None es' x cs] d(1) es by auto
  have cs': "set cs' = set cs" "distinct cs'" using f'(3) d(3) by (metis set_mset_mset, metis mset_eq_imp_distinct_iff)
  have "execute L H P_ReleaseLast (f, s, hand) = Inr (f', s, insert x hand)"
    using f' is_field_sizes(1) [OF f'(2)]
    by (simp add: PtrField_ReleaseLast_def ReleaseLastInternal_merge_def ReleaseLastInternal_plain_def)
  moreover have "means H view P_ReleaseLast (map (\<lambda>p. view (val s p)) es, held view s hand)
      (map (\<lambda>p. view (val s p)) es', held view s (insert x hand))"
    using d(5) es by (simp add: held_upd means.intros)
  ultimately show ?thesis
    by (rule steps_moveI [OF _ _ w f'(2)]) (use d es cs' in auto)
qed

lemma remove_owned:
  assumes w: "owns H view (f, s, hand) es cs" and "es \<noteq> []" and clear: "\<And>x. view (th_clear H x) = view (th_new H)"
  shows "steps_to L H view P_RemoveLast (f, s, hand)"
proof -
  note d = ownsD [OF w]
  obtain es' x where es: "es = es' @ [x]" using assms(2) by (cases es rule: rev_cases) auto
  let ?f = "f\<lparr>pf_current_size := pf_current_size f - 1\<rparr>"
  have c: "pf_current_size f - 1 = int (length es')" using is_field_sizes(2) [OF d(1)] es by simp
  then have f: "is_field ?f None es' (x # cs)" using shrink_is [of f None es' "[x]" cs] d(1) es by simp
  have "pointer_at (int (length es')) ?f = Inr x" using pointer_at_is [OF f, of "int (length es')"] by simp
  moreover obtain s' where s': "Clear_object H x s = Inr s'" "touches {x} s s'" "val s' x = th_clear H (val s x)"
    using Clear_object_live [of s x H] d(11) [of x] es by auto
  ultimately have ex: "execute L H P_RemoveLast (f, s, hand) = Inr (?f, s', hand)"
    using c by (simp add: PtrField_RemoveLast_def Let_def)
  have v: "val s' p = val s p" if "p \<noteq> x" for p using touches_val [OF s'(2)] that by simp
  have "view (val s' p) = view (th_new H)" if "p \<in> set (x # cs)" for p
  proof (cases "p = x")
    case False
    then show ?thesis using d(9) [of p] that v by simp
  qed (use s'(3) clear in simp)
  then have "owns H view (?f, s', hand) es' (x # cs)"
    using f d es s'(3) clear v touches_dom [OF s'(2)] heap_only_touches [OF s'(2)] by (auto simp: owns_def)
  moreover have n: "x \<notin> set es'" "x \<notin> hand" using d(2,5) es by auto
  have "val s' p = val s p" if "p \<in> set es' \<union> hand" for p using n that by (intro v) auto
  then have m: "map (\<lambda>p. view (val s' p)) es' = map (\<lambda>p. view (val s p)) es'" "held view s' hand = held view s hand"
    by (auto intro!: held_same)
  have "means H view P_RemoveLast (map (\<lambda>p. view (val s p)) es, held view s hand) (map (\<lambda>p. view (val s' p)) es', held view s' hand)"
    unfolding m es map_append list.map by (rule means.intros)
  ultimately show ?thesis by (rule steps_toI [OF ex w])
qed

lemma clear_owned:
  assumes w: "owns H view (f, s, hand) es cs" and clear: "\<And>x. view (th_clear H x) = view (th_new H)"
  shows "steps_to L H view P_Clear (f, s, hand)"
proof -
  note d = ownsD [OF w]
  have m: "meets f 0 es" using meets_field [OF d(1), of "[]" es cs] by simp
  obtain s' where s': "clear_elements H [0..int (length es) - 1] f s = Inr s'" "touches (set es) s s'"
    "\<forall>p \<in> set es. val s' p = th_clear H (val s p)"
    using clear_elements_live [OF m _ d(2), of s H] d(11) by auto
  let ?f = "f\<lparr>pf_current_size := 0\<rparr>"
  have f: "is_field ?f None [] (es @ cs)" using shrink_is [of f None "[]" es cs] d(1) by simp
  have c: "pf_current_size f = int (length es)" by (rule is_field_sizes(2) [OF d(1)])
  have ex: "execute L H P_Clear (f, s, hand) = Inr (?f, s', hand)"
  proof (cases "es = []")
    case True
    then have "?f = f" using c by (cases f) simp
    then show ?thesis using True c s'(1) by (simp add: PtrField_Clear_def)
  next
    case False
    then show ?thesis using c s'(1) by (simp add: PtrField_Clear_def)
  qed
  have v: "val s' p = val s p" if "p \<notin> set es" for p using touches_val [OF s'(2)] that by simp
  have "view (val s' p) = view (th_new H)" if "p \<in> set cs" for p
  proof -
    have "p \<notin> set es" using d(4) that by blast
    then show ?thesis using d(9) [OF that] by (simp add: v)
  qed
  then have "owns H view (?f, s', hand) [] (es @ cs)"
    using f d s'(3) clear touches_dom [OF s'(2)] heap_only_touches [OF s'(2)] by (auto simp: owns_def)
  moreover have "held view s' hand = held view s hand" using v d(5) by (intro held_same) auto
  then have "means H view P_Clear (map (\<lambda>p. view (val s p)) es, held view s hand) (map (\<lambda>p. view (val s' p)) [], held view s' hand)"
    using means.intros(6) by simp
  ultimately show ?thesis by (rule steps_toI [OF ex w])
qed

lemma release_cleared_owned:
  assumes w: "owns H view (f, s, hand) es cs" and "cs \<noteq> []"
  shows "steps_to L H view P_ReleaseCleared (f, s, hand)"
proof -
  note d = ownsD [OF w]
  obtain cs' x where cs: "cs = cs' @ [x]" using assms(2) by (cases cs rule: rev_cases) auto
  obtain f' where f': "PtrField_ReleaseCleared f = Inr (x, f')" "is_field f' None es cs'"
    using ReleaseCleared_is [of f None es cs' x] d(1) cs by auto
  have "execute L H P_ReleaseCleared (f, s, hand) = Inr (f', s, insert x hand)" using f' by simp
  moreover have "means H view P_ReleaseCleared (map (\<lambda>p. view (val s p)) es, held view s hand)
      (map (\<lambda>p. view (val s p)) es, held view s (insert x hand))"
    using d(6) d(9) [of x] cs by (simp add: held_upd means.intros)
  ultimately show ?thesis
    by (rule steps_moveI [OF _ _ w f'(2)]) (use d cs in auto)
qed

lemma swap_owned:
  assumes w: "owns H view (f, s, hand) es cs" and "i < length es" "j < length es"
  shows "steps_to L H view (P_Swap i j) (f, s, hand)"
proof -
  note d = ownsD [OF w]
  let ?es = "es[i := es ! j, j := es ! i]"
  obtain f' where f': "PtrField_SwapElements (int i) (int j) f = Inr f'" "is_field f' None ?es cs"
    using SwapElements_is [OF d(1) assms(2,3)] by blast
  have "mset ?es = mset es" by (rule mset_swap [OF assms(3,2)])
  then have es: "set ?es = set es" "distinct ?es" using d(2) by (metis set_mset_mset, metis mset_eq_imp_distinct_iff)
  have "execute L H (P_Swap i j) (f, s, hand) = Inr (f', s, hand)" using f' by simp
  moreover have "means H view (P_Swap i j) (map (\<lambda>p. view (val s p)) es, held view s hand) (map (\<lambda>p. view (val s p)) ?es, held view s hand)"
    using means.intros(9) [of H view i j "map (\<lambda>p. view (val s p)) es"] assms(2,3) by (simp add: map_update)
  ultimately show ?thesis
    by (rule steps_moveI [OF _ _ w f'(2)]) (use d es in auto)
qed

lemma new_owned:
  assumes w: "owns H view (f, s, hand) es cs"
  shows "steps_to L H view (P_New v) (f, s, hand)"
proof -
  note d = ownsD [OF w]
  let ?s = "extended s None [v]"
  have old: "val ?s p = val s p" if "p \<in> set es \<union> set cs \<union> hand" for p
    using extended_old [OF d(13) [OF that]] by (simp add: val_def)
  have new: "val ?s (st_next s) = v" using extended_new [of 0 "[v]" s None] by (simp add: val_def)
  have "heap_only ?s" using d(8) by (fastforce simp: heap_only_def extended_def split: if_splits)
  then have "owns H view (f, ?s, insert (st_next s) hand) es cs"
    using d extended_live(1) [OF d(10), of None "[v]"] old by (auto simp: owns_def)
  moreover have m: "map (\<lambda>p. view (val ?s p)) es = map (\<lambda>p. view (val s p)) es"
    "held view ?s (insert (st_next s) hand) = (held view s hand)(st_next s \<mapsto> view v)"
    using old new by (auto simp: held_def fun_eq_iff)
  have "means H view (P_New v) (map (\<lambda>p. view (val s p)) es, held view s hand)
      (map (\<lambda>p. view (val ?s p)) es, held view ?s (insert (st_next s) hand))"
    unfolding m using d(12) by (intro means.intros) simp
  ultimately show ?thesis by (intro steps_toI [OF _ w]) simp_all
qed

subsection \<open>Adding\<close>

locale ptr_owner = ptr_library L bound + element_handler H view
  for L :: ptr_lib and bound :: int and H :: "'m type_handler" and view :: "'m \<Rightarrow> 'v"
begin

lemma add_owned:
  assumes w: "owns H view (f, s, hand) es cs" and n: "int (length es) < bound"
  shows "steps_to L H view P_Add (f, s, hand)"
proof -
  note d = ownsD [OF w]
  show ?thesis
  proof (cases cs)
    case (Cons c cs')
    obtain f' where f': "PtrField_Add L H f s = Inr (c, f', s)" "is_field f' None (es @ [c]) cs'"
      using Add_is [OF d(1) n, of H s] Cons by auto
    have "execute L H P_Add (f, s, hand) = Inr (f', s, hand)" using f' by simp
    moreover have "means H view P_Add (map (\<lambda>p. view (val s p)) es, held view s hand)
        (map (\<lambda>p. view (val s p)) (es @ [c]), held view s hand)"
      using d(9) [of c] Cons means.intros(2) [of H view] by simp
    ultimately show ?thesis by (rule steps_moveI [OF _ _ w f'(2)]) (use d Cons in auto)
  next
    case Nil
    let ?p = "st_next s" let ?s = "extended s None [th_new H]"
    obtain f' where f': "PtrField_Add L H f s = Inr (?p, f', ?s)" "is_field f' None (es @ [?p]) []"
      using Add_is [OF d(1) n, of H s] Nil by (auto simp: New_extended)
    have ex: "execute L H P_Add (f, s, hand) = Inr (f', ?s, hand)" using f' by simp
    have old: "val ?s p = val s p" if "p \<in> set es \<union> hand" for p
      using extended_old [OF d(13) [of p]] that by (auto simp: val_def)
    have new: "val ?s ?p = th_new H" using extended_new [of 0 "[th_new H]" s None] by (simp add: val_def)
    have "heap_only ?s" using d(8) by (fastforce simp: heap_only_def extended_def split: if_splits)
    then have o': "owns H view (f', ?s, hand) (es @ [?p]) []"
      using f'(2) d Nil extended_live(1) [OF d(10), of None "[th_new H]"] by (auto simp: owns_def)
    have m: "map (\<lambda>p. view (val ?s p)) (es @ [?p]) = map (\<lambda>p. view (val s p)) es @ [view (th_new H)]"
      "held view ?s hand = held view s hand" using old new by (auto intro!: held_same)
    show ?thesis by (rule steps_toI [OF ex w o']) (unfold m, rule means.intros)
  qed
qed

lemma add_allocated_result:
  assumes w: "owns H view (f, s, hand) es cs" and p: "p \<in> hand" and n: "int (length es) < bound"
  shows "\<exists>f' cs' s'. PtrField_AddAllocated L H p f s = Inr (f', s') \<and> is_field f' None (es @ [p]) cs' \<and>
    (s' = s \<and> mset cs' = mset cs \<or> cs \<noteq> [] \<and> s' = without s {hd cs} \<and> cs' = tl cs)"
proof -
  note d = ownsD [OF w]
  have "Delete_object c None s = Inr (without s {hd cs})" if "cs = c # cs'" for c cs'
    using Delete_object_live [OF d(8), of c] d(11) [of c] that by simp
  note slow = UnsafeArenaAddAllocated_is [OF d(1) n this, where p = p]
  have a: "pf_arena f = None" by (rule is_field_sizes(1) [OF d(1)])
  have "GetArena_object H p s = Inr None"
    using d(8) d(11) [of p] p by (auto simp: GetArena_object_def fetch_def live_object_def heap_only_def)
  then have "PtrField_AddAllocated L H p f s =
      (if room_for_one f then res_map (\<lambda>f1. (f1, s)) (fast_add_allocated p f) else UnsafeArenaAddAllocated L p f s)"
    using a by (simp add: PtrField_AddAllocated_def AddAllocatedInternal_merge_def AddAllocatedInternal_plain_def
      AddAllocatedSlowWithCopy_def)
  then show ?thesis using slow fast_add_is [OF d(1), of p] by (cases "room_for_one f") (fastforce, simp)
qed

lemma add_allocated_owned:
  assumes w: "owns H view (f, s, hand) es cs" and p: "p \<in> hand" and n: "int (length es) < bound"
  shows "steps_to L H view (P_AddAllocated p) (f, s, hand)"
proof -
  note d = ownsD [OF w]
  obtain f' cs' s' where f': "PtrField_AddAllocated L H p f s = Inr (f', s')" "is_field f' None (es @ [p]) cs'"
    and c: "s' = s \<and> mset cs' = mset cs \<or> cs \<noteq> [] \<and> s' = without s {hd cs} \<and> cs' = tl cs"
    using add_allocated_result [OF assms] by blast
  have ex: "execute L H (P_AddAllocated p) (f, s, hand) = Inr (f', s', hand - {p})" using f'(1) by simp
  have k: "distinct cs' \<and> (s' = s \<and> set cs' = set cs \<or> (\<exists>x xs. cs = x # xs \<and> s' = without s {x} \<and> cs' = xs))"
    using c
  proof
    assume "s' = s \<and> mset cs' = mset cs"
    then show ?thesis using d(3) by (metis mset_eq_imp_distinct_iff set_mset_mset)
  next
    assume "cs \<noteq> [] \<and> s' = without s {hd cs} \<and> cs' = tl cs"
    then show ?thesis using d(3) by (cases cs) auto
  qed
  then have same: "val s' q = val s q" if "q \<in> set es \<union> hand \<union> set cs'" for q
    using that d(3,4,6) by (auto intro!: val_without)
  have "distinct cs' \<and> set cs' \<subseteq> set cs" using k by auto
  moreover have "dom (st_heap s') = set (es @ [p]) \<union> set cs' \<union> (hand - {p})"
  proof -
    have "dom (st_heap s') = set es \<union> set cs' \<union> hand"
      using k
    proof (elim conjE disjE exE)
      fix x xs assume x: "cs = x # xs" "s' = without s {x}" "cs' = xs"
      then have "dom (st_heap s') = (set es \<union> set cs \<union> hand) - {x}" using d(7) by simp
      then show ?thesis using x d(3,4,6) by auto
    qed (use d(7) in simp)
    then show ?thesis using p by auto
  qed
  moreover have "heap_only s'" using c d(8) heap_only_without by auto
  ultimately have o': "owns H view (f', s', hand - {p}) (es @ [p]) cs'"
    using f'(2) d p same by (auto simp: owns_def)
  have m: "map (\<lambda>q. view (val s' q)) (es @ [p]) = map (\<lambda>q. view (val s q)) es @ [view (val s p)]"
    "held view s' (hand - {p}) = (held view s hand)(p := None)"
    using same p by (auto simp: held_upd(2) [symmetric] held_def fun_eq_iff)
  show ?thesis
    by (rule steps_toI [OF ex w o'], unfold m, rule means.intros) (simp add: held_def p)
qed

lemma add_cleared_owned:
  assumes w: "owns H view (f, s, hand) es cs" and p: "p \<in> hand" "view (val s p) = view (th_new H)"
    and n: "int (length es + length cs) < bound"
  shows "steps_to L H view (P_AddCleared p) (f, s, hand)"
proof -
  note d = ownsD [OF w]
  obtain f' where f': "PtrField_AddCleared L p f = Inr f'" "is_field f' None es (cs @ [p])"
    using AddCleared_is [OF d(1) n] by blast
  have "execute L H (P_AddCleared p) (f, s, hand) = Inr (f', s, hand - {p})" using f' by simp
  moreover have "means H view (P_AddCleared p) (map (\<lambda>p. view (val s p)) es, held view s hand)
      (map (\<lambda>p. view (val s p)) es, held view s (hand - {p}))"
    by (simp add: held_upd means.intros)
  ultimately show ?thesis by (rule steps_moveI [OF _ _ w f'(2)]) (use d p in auto)
qed

subsection \<open>Ranges\<close>

lemma split_range:
  assumes "a + n \<le> length es"
  shows "\<exists>e1 e2 e3. es = e1 @ e2 @ e3 \<and> length e1 = a \<and> length e2 = n"
proof -
  have "es = take a es @ take n (drop a es) @ drop n (drop a es)" by (simp only: append_take_drop_id)
  moreover have "length (take a es) = a" "length (take n (drop a es)) = n" using assms by simp_all
  ultimately show ?thesis by blast
qed

lemma extract_owned:
  assumes w: "owns H view (f, s, hand) es cs" and r: "a + n \<le> length es"
  shows "steps_to L H view (P_Extract a n) (f, s, hand)"
proof -
  note d = ownsD [OF w]
  obtain e1 e2 e3 where es: "es = e1 @ e2 @ e3" "length e1 = a" "length e2 = n" using split_range [OF r] by blast
  have m: "meets f (0 + int a) e2" using meets_field [OF d(1), of e1 e2 "e3 @ cs"] es by simp
  have pts: "pointers_at [0..int n - 1] (int a) f = Inr e2" using pointers_at_meets [OF m] es(3) by simp
  have "\<exists>f'. PtrField_ExtractSubrange L H (int a) (int n) True f s = Inr (e2, f', s) \<and> is_field f' None (e1 @ e3) cs"
  proof (cases "n = 0")
    case True
    then show ?thesis
      using d(1) es by (simp add: PtrField_ExtractSubrange_def ExtractSubrangeInternal_merge_def ExtractSubrangeInternal_plain_def
        UnsafeArenaExtractSubrange_def)
  next
    case False
    then obtain f' where "pl_CloseGap L (int a) (int n) f = Inr f'" "is_field f' None (e1 @ e3) cs"
      using CloseGap [of f None e1 e2 e3 cs] d(1) es by auto
    then show ?thesis
      using pts False is_field_sizes(1) [OF d(1)]
      by (simp add: PtrField_ExtractSubrange_def ExtractSubrangeInternal_merge_def ExtractSubrangeInternal_plain_def
        UnsafeArenaExtractSubrange_def)
  qed
  then obtain f' where f': "PtrField_ExtractSubrange L H (int a) (int n) True f s = Inr (e2, f', s)" "is_field f' None (e1 @ e3) cs"
    by blast
  have ex: "execute L H (P_Extract a n) (f, s, hand) = Inr (f', s, hand \<union> set e2)" using f'(1) by simp
  have dis: "distinct e2" "set e2 \<inter> hand = {}" using d(2,5) es by auto
  have "held view s (hand \<union> set e2) = held view s hand ++ map_of (zip e2 (map (\<lambda>p. view (val s p)) e2))"
    using dis by (auto simp: held_def fun_eq_iff map_add_def map_of_zip_map split: option.split)
  moreover have "set e2 \<inter> dom (held view s hand) = {}" using dis(2) by (auto simp: held_def split: if_splits)
  ultimately have "means H view (P_Extract a n) (map (\<lambda>p. view (val s p)) es, held view s hand)
      (map (\<lambda>p. view (val s p)) (e1 @ e3), held view s (hand \<union> set e2))"
    using es dis(1) by (simp add: means.intros)
  with ex show ?thesis by (rule steps_moveI [OF _ _ w f'(2)]) (use d es in auto)
qed

lemma delete_owned:
  assumes w: "owns H view (f, s, hand) es cs" and r: "a + n \<le> length es"
  shows "steps_to L H view (P_Delete a n) (f, s, hand)"
proof -
  note d = ownsD [OF w]
  obtain e1 e2 e3 where es: "es = e1 @ e2 @ e3" "length e1 = a" "length e2 = n" using split_range [OF r] by blast
  have m: "meets f (int a) e2" using meets_field [OF d(1), of e1 e2 "e3 @ cs"] es by simp
  have a: "pf_arena f = None" by (rule is_field_sizes(1) [OF d(1)])
  have "map (\<lambda>i. int a + i) [0..int n - 1] = [int a..int a + int n - 1]"
    by (rule nth_equalityI) (simp_all add: nth_upto)
  then have del: "delete_elements (map (\<lambda>i. int a + i) [0..int n - 1]) f s = Inr (without s (set e2))"
    using delete_elements_live [OF m a d(8)] d(2,11) es by auto
  have "\<exists>f'. PtrField_ExtractSubrange L H (int a) (int n) False f (without s (set e2)) = Inr ([], f', without s (set e2)) \<and>
      is_field f' None (e1 @ e3) cs"
  proof (cases "n = 0")
    case True
    then show ?thesis
      using d(1) es by (simp add: PtrField_ExtractSubrange_def ExtractSubrangeInternal_merge_def ExtractSubrangeInternal_plain_def
        UnsafeArenaExtractSubrange_def)
  next
    case False
    then obtain f' where "pl_CloseGap L (int a) (int n) f = Inr f'" "is_field f' None (e1 @ e3) cs"
      using CloseGap [of f None e1 e2 e3 cs] d(1) es by auto
    then show ?thesis
      using False by (simp add: PtrField_ExtractSubrange_def ExtractSubrangeInternal_merge_def ExtractSubrangeInternal_plain_def
        UnsafeArenaExtractSubrange_def)
  qed
  then obtain f' where f': "PtrField_ExtractSubrange L H (int a) (int n) False f (without s (set e2)) = Inr ([], f', without s (set e2))"
    "is_field f' None (e1 @ e3) cs" by blast
  let ?s = "without s (set e2)"
  have ex: "execute L H (P_Delete a n) (f, s, hand) = Inr (f', ?s, hand)" using f'(1) del by (simp add: PtrField_DeleteSubrange_def)
  have "dom (st_heap ?s) = set (e1 @ e3) \<union> set cs \<union> hand" using d(2,4,5,7) es by auto
  moreover have same: "val ?s p = val s p" if "p \<in> set (e1 @ e3) \<union> set cs \<union> hand" for p
    using that d(2,4,5) es by (intro val_without) auto
  moreover have "distinct ((e1 @ e3) @ cs)" "set ((e1 @ e3) @ cs) \<inter> hand = {}" using d(2-6) es(1) by auto
  moreover have "heap_only ?s" by (rule heap_only_without [OF d(8)])
  moreover have "view (val ?s c) = view (th_new H)" if "c \<in> set cs" for c using d(9) [OF that] same [of c] that by simp
  ultimately have o': "owns H view (f', ?s, hand) (e1 @ e3) cs"
    unfolding owns_def using f'(2) by (simp only: prod.case set_append) blast
  have same1: "val ?s p = val s p" if "p \<in> set (e1 @ e3) \<union> hand" for p using that by (intro same) auto
  have m: "map (\<lambda>p. view (val ?s p)) (e1 @ e3) = map (\<lambda>p. view (val s p)) (e1 @ e3)" "held view ?s hand = held view s hand"
    using same1 by (auto intro!: held_same)
  have "means H view (P_Delete a n) (map (\<lambda>p. view (val s p)) es, held view s hand)
      (map (\<lambda>p. view (val s p)) (e1 @ e3), held view s hand)"
    using es by (simp add: means.intros)
  then have "means H view (P_Delete a n) (map (\<lambda>p. view (val s p)) es, held view s hand)
      (map (\<lambda>p. view (val ?s p)) (e1 @ e3), held view ?s hand)"
    by (simp only: m)
  then show ?thesis by (rule steps_toI [OF ex w o'])
qed

lemma merge_owned:
  assumes w: "owns H view (f, s, hand) es cs" and g: "is_field g b qs ds" "set qs \<subseteq> hand"
    and n: "int (length es + length qs) \<le> bound"
  shows "steps_to L H view (P_Merge g) (f, s, hand)"
proof -
  note d = ownsD [OF w]
  define k where "k = min (length cs) (length qs)"
  have "live_object s p" if "p \<in> set qs \<union> set cs" for p using that g(2) d(11) by auto
  moreover have "set cs \<inter> set qs = {}" using d(6) g(2) by auto
  ultimately obtain f' s1 where ex0: "PtrField_MergeFrom L H g f s =
      Inr (f', extended s1 None (map (\<lambda>q. th_merge H (val s q) (th_new H)) (drop k qs)))"
    and t: "touches (set (take k cs)) s s1"
    and v: "\<forall>i < k. val s1 (cs ! i) = th_merge H (val s (qs ! i)) (val s (cs ! i))"
    and f': "is_field f' None (es @ take k cs @ [st_next s..<st_next s + (length qs - k)]) (drop k cs)"
    using MergeFrom_is [OF d(1) g(1) n _ d(3) _ d(10), of H] unfolding k_def by blast
  define xs where "xs = map (\<lambda>q. th_merge H (val s q) (th_new H)) (drop k qs)"
  define ns where "ns = [st_next s..<st_next s + (length qs - k)]"
  define s' where "s' = extended s1 None xs"
  have nx: "st_next s1 = st_next s" using t by (simp add: touches_def)
  have lx: "length xs = length qs - k" by (simp add: xs_def)
  have ex: "execute L H (P_Merge g) (f, s, hand) = Inr (f', s', hand)" using ex0 by (simp add: s'_def xs_def)
  have old1: "val s' p = val s1 p" if "p \<in> set es \<union> set cs \<union> hand" for p
    using extended_old [of p s1 None xs] d(13) [OF that] nx by (simp add: val_def s'_def)
  have old: "val s' p = val s p" if "p \<in> set es \<union> set (drop k cs) \<union> hand" for p
  proof -
    have "p \<in> set es \<union> set cs \<union> hand" using that by (auto dest: in_set_dropD)
    moreover have "p \<notin> set (take k cs)"
      using that d(3,4,6) set_take_disj_set_drop_if_distinct [OF d(3), of k k] by (auto dest: in_set_takeD)
    ultimately show ?thesis using old1 touches_val [OF t] by simp
  qed
  have "fresh s1" by (rule touches_fresh [OF t d(10)])
  then have "dom (st_heap s') = set es \<union> set cs \<union> hand \<union> set ns"
    using extended_live(1) [of s1 None xs] touches_dom [OF t] d(7) nx lx by (auto simp: s'_def ns_def)
  moreover have "set cs = set (take k cs) \<union> set (drop k cs)" by (metis append_take_drop_id set_append)
  ultimately have dom: "dom (st_heap s') = set (es @ take k cs @ ns) \<union> set (drop k cs) \<union> hand" by auto
  have "heap_only s'"
    using heap_only_touches [OF t d(8)] by (fastforce simp: heap_only_def s'_def extended_def split: if_splits)
  moreover have "set ns \<inter> (set es \<union> set cs \<union> hand) = {}" using d(13) by (fastforce simp: ns_def)
  moreover have "distinct (take k cs @ drop k cs)" using d(3) by simp
  moreover have split: "set (take k cs) \<inter> set (drop k cs) = {}" using set_take_disj_set_drop_if_distinct [OF d(3), of k k] by simp
  have sub: "set (take k cs) \<subseteq> set cs" "set (drop k cs) \<subseteq> set cs" by (auto dest: in_set_takeD in_set_dropD)
  have "distinct ((es @ take k cs @ ns) @ drop k cs)" "set ((es @ take k cs @ ns) @ drop k cs) \<inter> hand = {}"
    using d(2-6) sub split calculation(2,3) by (auto simp: ns_def)
  moreover have "view (val s' c) = view (th_new H)" if "c \<in> set (drop k cs)" for c
    using d(9) [of c] old [of c] sub that by auto
  ultimately have o': "owns H view (f', s', hand) (es @ take k cs @ ns) (drop k cs)"
    using f' dom by (simp add: owns_def ns_def Un_ac)
  have "map (\<lambda>p. view (val s' p)) (take k cs @ ns) = map (\<lambda>q. view (val s q)) qs"
  proof (rule nth_equalityI)
    fix i assume "i < length (map (\<lambda>p. view (val s' p)) (take k cs @ ns))"
    then have i: "i < length qs" by (auto simp: ns_def k_def)
    show "map (\<lambda>p. view (val s' p)) (take k cs @ ns) ! i = map (\<lambda>q. view (val s q)) qs ! i"
    proof (cases "i < k")
      case True
      then have c: "cs ! i \<in> set cs" "i < length cs" by (auto simp: k_def)
      then show ?thesis using True i v old1 [of "cs ! i"] merge [OF d(9) [OF c(1)]] by (simp add: nth_append)
    next
      case False
      then have ki: "k = length cs" "i - k < length xs" using i by (auto simp: k_def lx)
      then have "xs ! (i - k) = th_merge H (val s (qs ! i)) (th_new H)" using False i by (simp add: xs_def)
      moreover have "val s' (st_next s + (i - k)) = xs ! (i - k)"
        using extended_new [OF ki(2), of s1 None] nx by (simp add: val_def s'_def)
      ultimately have "val s' (st_next s + (i - k)) = th_merge H (val s (qs ! i)) (th_new H)" by simp
      then show ?thesis using ki False i lx merge [OF refl] by (simp add: nth_append ns_def)
    qed
  qed (auto simp: ns_def k_def)
  moreover have "map (\<lambda>q. the (held view s hand q)) (pointers g) = map (\<lambda>q. view (val s q)) qs"
    using pointers_is [OF g(1)] g(2) by (auto simp: held_def)
  moreover have same: "val s' p = val s p" if "p \<in> set es \<union> hand" for p using that by (intro old) auto
  then have "map (\<lambda>p. view (val s' p)) es = map (\<lambda>p. view (val s p)) es" "held view s' hand = held view s hand"
    by (auto intro!: held_same)
  ultimately have "means H view (P_Merge g) (map (\<lambda>p. view (val s p)) es, held view s hand)
      (map (\<lambda>p. view (val s' p)) (es @ take k cs @ ns), held view s' hand)"
    using means.intros(12) [of H view g "map (\<lambda>p. view (val s p)) es" "held view s hand"] by (simp del: map_eq_conv)
  then show ?thesis by (rule steps_toI [OF ex w o'])
qed

end

end
