(* ===== verification/Ptr_Properties.thy ===== *)
theory Ptr_Properties
  imports Ptr_Ownership Entry_Laws Wire_Reference
begin

text \<open>
  Runs of a caller and the end of a field: every permitted operation succeeds and means what the list
  operations say, and the destructor frees what the caller does not hold. The contract of the library is
  shown to be met by a growing block, that of the elements by strings.
\<close>

section \<open>Runs\<close>

fun execute_all :: "ptr_lib \<Rightarrow> 'm type_handler \<Rightarrow> 'm ptr_op list \<Rightarrow> 'm ptr_state \<Rightarrow> 'm ptr_state res" where
  "execute_all L H [] st = Inr st"
| "execute_all L H (op # ops) st = res_bind (execute L H op st) (execute_all L H ops)"

fun all_permitted ::
  "ptr_lib \<Rightarrow> int \<Rightarrow> 'm type_handler \<Rightarrow> ('m \<Rightarrow> 'v) \<Rightarrow> 'm ptr_op list \<Rightarrow> 'm ptr_state \<Rightarrow> bool" where
  "all_permitted L bound H view [] st \<longleftrightarrow> True"
| "all_permitted L bound H view (op # ops) st \<longleftrightarrow> permitted bound H view op st \<and>
     (case execute L H op st of Inl _ \<Rightarrow> True | Inr st' \<Rightarrow> all_permitted L bound H view ops st')"

inductive means_all :: "'m type_handler \<Rightarrow> ('m \<Rightarrow> 'v) \<Rightarrow> 'm ptr_op list \<Rightarrow> 'v seen \<Rightarrow> 'v seen \<Rightarrow> bool" for H view where
  "means_all H view [] o1 o1"
| "means H view op o1 o2 \<Longrightarrow> means_all H view ops o2 o3 \<Longrightarrow> means_all H view (op # ops) o1 o3"

section \<open>Every operation succeeds\<close>

text \<open>The destructor deletes the objects of the field, and no other.\<close>

lemma destroy_owned:
  assumes w: "owns H view (f, s, hand) es cs"
  shows "\<exists>f'. PtrField_Destroy f s = Inr (f', without s (set es \<union> set cs))"
proof -
  note d = ownsD [OF w]
  show ?thesis
  proof (cases "pf_rep f")
    case None
    then have "es = [] \<and> cs = []" using d(1) by (auto simp: is_field_def field_of_def)
    then show ?thesis using None by (simp add: PtrField_Destroy_def)
  next
    case (Some r)
    have m: "meets f 0 (es @ cs)" using meets_field [OF d(1), of "[]" "es @ cs" "[]"] by simp
    have r: "pr_allocated_size r = int (length (es @ cs))"
      using Some d(1) by (auto simp: is_field_def RepeatedPtrFieldBase_def field_of_def)
    have "delete_elements [0..0 + int (length (es @ cs)) - 1] f s = Inr (without s (set (es @ cs)))"
      by (rule delete_elements_live [OF m is_field_sizes(1) [OF d(1)] d(8)]) (use d in auto)
    then show ?thesis using Some r by (simp add: PtrField_Destroy_def)
  qed
qed

context ptr_owner
begin

lemma step_total:
  assumes "accounted H view (f, s, hand)" "permitted bound H view op (f, s, hand)"
  shows "steps_to L H view op (f, s, hand)"
proof -
  obtain es cs where w: "owns H view (f, s, hand) es cs" using assms(1) by (auto simp: accounted_def)
  note n = ownsD(14,15) [OF w]
  show ?thesis
  proof (cases op)
    case (P_Merge g)
    then obtain b ds where "is_field g b (pointers g) ds" "set (pointers g) \<subseteq> hand"
      "int (length es) + PtrField_size g \<le> bound" using assms(2) n by auto
    then show ?thesis
      using merge_owned [OF w, of g b "pointers g" ds] is_field_sizes(2) [of g b] P_Merge by (simp add: PtrField_size_def)
  qed (use w n assms(2) clear in \<open>auto intro: new_owned add_owned add_allocated_owned release_owned remove_owned clear_owned
    add_cleared_owned release_cleared_owned swap_owned extract_owned delete_owned\<close>)
qed

lemma run_total:
  "accounted H view st \<Longrightarrow> all_permitted L bound H view ops st \<Longrightarrow>
   \<exists>st'. execute_all L H ops st = Inr st' \<and> accounted H view st' \<and> means_all H view ops (seen view st) (seen view st')"
proof (induction ops arbitrary: st)
  case (Cons op ops)
  obtain f s hand where st: "st = (f, s, hand)" by (cases st) auto
  have "steps_to L H view op st" using step_total Cons.prems st by auto
  then obtain st1 where 1: "execute L H op st = Inr st1" "accounted H view st1" "means H view op (seen view st) (seen view st1)"
    by (auto simp: steps_to_def)
  then show ?case using Cons.IH [OF 1(2)] Cons.prems(2) by (fastforce intro: means_all.intros)
qed (auto intro: means_all.intros)

end

section \<open>A block that grows\<close>

text \<open>What repeated_field.h promises of its functions, with blocks that grow to exactly the size asked for.\<close>

definition with_room :: "int \<Rightarrow> ptr_field \<Rightarrow> ptr_field" where
  "with_room n f =
     (if n \<le> pf_total_size f then f
      else f\<lparr>pf_total_size := n, pf_rep := Some (case pf_rep f of
          None \<Rightarrow> \<lparr>pr_allocated_size = 0, pr_elements = replicate (nat n) None\<rparr>
        | Some r \<Rightarrow> r\<lparr>pr_elements := pr_elements r @ replicate (nat (n - pf_total_size f)) None\<rparr>)\<rparr>)"

definition close_gap :: "nat \<Rightarrow> nat \<Rightarrow> ptr_field \<Rightarrow> ptr_field" where
  "close_gap start num f =
     f\<lparr>pf_current_size := pf_current_size f - int num,
       pf_rep := map_option (\<lambda>r. r\<lparr>pr_allocated_size := pr_allocated_size r - int num,
         pr_elements := take start (pr_elements r) @ drop (start + num) (pr_elements r) @ replicate num None\<rparr>) (pf_rep f)\<rparr>"

definition reference_ptr_lib :: ptr_lib where
  "reference_ptr_lib = \<lparr>
     pl_Reserve = (\<lambda>n f. Inr (with_room n f)),
     pl_InternalExtend = (\<lambda>n f. Inr (pf_current_size f, with_room (pf_current_size f + n) f)),
     pl_CloseGap = (\<lambda>start num f. Inr (close_gap (nat start) (nat num) f))\<rparr>"

lemma with_room_is:
  assumes f: "is_field f a es cs" and n: "n \<le> 2 ^ 31 - 1"
  shows "is_field (with_room n f) a es cs" "n \<le> pf_total_size (with_room n f)"
proof -
  show "is_field (with_room n f) a es cs"
  proof (cases "n \<le> pf_total_size f")
    case False
    show ?thesis
    proof (cases "pf_rep f")
      case None
      then have "with_room n f = field_of a [] [] (replicate (nat n) None)" "es = []" "cs = []"
        using f False by (auto simp: is_field_def RepeatedPtrFieldBase_def field_of_def with_room_def)
      then show ?thesis using n by (simp add: is_field_of)
    next
      case (Some r)
      then obtain pad where p: "f = field_of a es cs pad" using f by (auto simp: is_field_def RepeatedPtrFieldBase_def)
      then have "with_room n f = field_of a es cs (pad @ replicate (nat (n - pf_total_size f)) None)"
        using False by (simp add: with_room_def) (simp add: field_of_def)
      then show ?thesis using n False p by (simp add: is_field_of) (simp add: field_of_def)
    qed
  qed (use f in \<open>simp add: with_room_def\<close>)
  show "n \<le> pf_total_size (with_room n f)" by (simp add: with_room_def)
qed

lemma close_gap_is:
  assumes f: "is_field f a (es1 @ es2 @ es3) cs" and "es2 \<noteq> []"
  shows "is_field (close_gap (length es1) (length es2) f) a (es1 @ es3) cs"
proof -
  obtain pad where p: "f = field_of a (es1 @ es2 @ es3) cs pad" "pf_total_size f < 2 ^ 31"
    using assms by (auto simp: is_field_def RepeatedPtrFieldBase_def)
  then have "close_gap (length es1) (length es2) f = field_of a (es1 @ es3) cs (pad @ replicate (length es2) None)"
    by (simp add: close_gap_def field_of_def)
  then show ?thesis using p by (simp add: is_field_of) (simp add: field_of_def)
qed

interpretation growing_block: ptr_library reference_ptr_lib "2 ^ 31 - 1"
  by unfold_locales (use with_room_is close_gap_is in \<open>auto simp: reference_ptr_lib_def is_field_sizes\<close>)

section \<open>Elements\<close>

text \<open>Strings.\<close>

interpretation string_elements: element_handler "StringTypeHandler space" "\<lambda>v. v"
  by unfold_locales (simp_all add: StringTypeHandler_def)

text \<open>A message of this program: a merge that is not a merge with itself succeeds.\<close>

definition AssociatedObject_handler :: "pb_lib \<Rightarrow> (AssociatedObject \<Rightarrow> int) \<Rightarrow> AssociatedObject type_handler" where
  "AssociatedObject_handler L space = GenericTypeHandler AssociatedObject_New AssociatedObject_Clear
     (\<lambda>from to. case AssociatedObject_MergeFrom L False from to of Inr m \<Rightarrow> m | Inl _ \<Rightarrow> to) space"

lemma object_handler:
  assumes "wire_format L"
  shows "element_handler (AssociatedObject_handler L space) object_value"
proof
  show "object_value (th_clear (AssociatedObject_handler L space) m) = object_value (th_new (AssociatedObject_handler L space))" for m
    by (simp add: AssociatedObject_handler_def GenericTypeHandler_def AssociatedObject_Clear_def AssociatedObject_New_def
      object_value_def)
next
  fix to src assume to: "object_value to = object_value (th_new (AssociatedObject_handler L space))"
  obtain m where "AssociatedObject_MergeFrom L False src to = Inr m"
    "object_value m = merge_object (object_value to) (object_value src)"
    using wire_format.object_merged [OF assms, of src to] by blast
  then show "object_value (th_merge (AssociatedObject_handler L space) src to) = object_value src"
    using to by (simp add: AssociatedObject_handler_def GenericTypeHandler_def object_value_New merge_object_def assoc_default_def)
qed

interpretation object_elements: element_handler "AssociatedObject_handler reference_lib space" object_value
  by (rule object_handler [OF reference_format])

interpretation string_owner: ptr_owner reference_ptr_lib "2 ^ 31 - 1" "StringTypeHandler space" "\<lambda>v. v" ..

interpretation object_owner: ptr_owner reference_ptr_lib "2 ^ 31 - 1" "AssociatedObject_handler reference_lib space" object_value ..

section \<open>The properties\<close>

text \<open>A caller's run over strings, from an empty field: two strings, one of them merged in and one added.\<close>

definition no_objects :: "'m store" where
  "no_objects = \<lparr>st_heap = \<lambda>_. None, st_next = 0, st_owned = []\<rparr>"

definition sample_other :: ptr_field where
  "sample_other = field_of None [0] [] []"

definition sample_ops :: "bytes ptr_op list" where
  "sample_ops = [P_New [1], P_New [2, 3], P_Merge sample_other, P_AddAllocated 1, P_Swap 0 1, P_RemoveLast, P_Add,
     P_ReleaseLast, P_Clear]"

lemma nothing_accounted: "accounted H view (RepeatedPtrFieldBase None, no_objects, {})"
  unfolding accounted_def owns_def
  by (rule exI [of _ "[]"])+ (auto simp: is_field_def RepeatedPtrFieldBase_def heap_only_def no_objects_def)

lemma sample_other:
  "pointers sample_other = [0]" "\<exists>b ds. is_field sample_other b [0] ds" "PtrField_size sample_other = 1"
  "pf_current_size sample_other = 1" "pf_rep sample_other = Some \<lparr>pr_allocated_size = 1, pr_elements = [Some 0]\<rparr>"
proof -
  have f: "is_field sample_other None [0] []" by (simp add: sample_other_def is_field_of)
  show "pointers sample_other = [0]" "\<exists>b ds. is_field sample_other b [0] ds" using f pointers_is by blast+
qed (simp_all add: sample_other_def field_of_def PtrField_size_def)

lemma sample_permitted:
  "all_permitted reference_ptr_lib (2 ^ 31 - 1) (StringTypeHandler (\<lambda>_. 0)) (\<lambda>v. v) sample_ops
     (RepeatedPtrFieldBase None, no_objects, {})"
  by (simp add: sample_ops_def no_objects_def RepeatedPtrFieldBase_def sample_other)
    (simp add: sample_other extended_def val_def PtrField_size_def PtrField_ClearedCount_def StringTypeHandler_def
      PtrField_MergeFrom_def MergeFromInternal_def MergeFromInnerLoop_def reference_ptr_lib_def with_room_def rep_of_def
      slot_at_def put_slot_def pointer_at_def add_allocated_def Let_def Merge_object_def fetch_def NewFromPrototype_def New_def
      PtrField_AddAllocated_def AddAllocatedInternal_merge_def GetArena_object_def room_for_one_def fast_add_allocated_def
      AddAllocatedSlowWithCopy_def UnsafeArenaAddAllocated_def take_slot_def move_cleared_def int_value_def
      PtrField_SwapElements_def PtrField_RemoveLast_def Clear_object_def PtrField_Add_def has_cleared_def next_cleared_def
      grow_if_full_def PtrField_ReleaseLast_def ReleaseLastInternal_merge_def UnsafeArenaReleaseLast_def PtrField_Clear_def)

text \<open>
  C21. A field of pointers on the heap owns its objects. Whatever a caller does within the rules of the
  header, no call fails or touches a dead object, no object is owned twice or lost, and the values the
  caller sees change as those of a list and of the objects in its hands.
\<close>

theorem ownership_kept:
  assumes "ptr_library L bound" and "element_handler H view" and "accounted H view st"
    and "all_permitted L bound H view ops st"
  shows "\<exists>st'. execute_all L H ops st = Inr st' \<and> accounted H view st' \<and>
    means_all H view ops (seen view st) (seen view st')"
  by (rule ptr_owner.run_total [OF ptr_owner.intro [OF assms(1,2)] assms(3,4)])

theorem ownership_kept_witness:
  "\<exists>st'. execute_all reference_ptr_lib (StringTypeHandler (\<lambda>_. 0)) sample_ops (RepeatedPtrFieldBase None, no_objects, {}) = Inr st' \<and>
    accounted (StringTypeHandler (\<lambda>_. 0)) (\<lambda>v. v) st' \<and>
    means_all (StringTypeHandler (\<lambda>_. 0)) (\<lambda>v. v) sample_ops
      (seen (\<lambda>v. v) (RepeatedPtrFieldBase None, no_objects, {})) (seen (\<lambda>v. v) st')"
  by (rule ownership_kept [OF growing_block.ptr_library_axioms string_elements.element_handler_axioms
    nothing_accounted sample_permitted])

text \<open>
  C22. Nothing leaks: after any such run the destructor of the field succeeds and leaves exactly the
  objects in the caller's hands, with their values.
\<close>

theorem nothing_leaks:
  assumes "ptr_library L bound" and "element_handler H view" and "accounted H view st"
    and "all_permitted L bound H view ops st"
  shows "\<exists>f s hand g t. execute_all L H ops st = Inr (f, s, hand) \<and> PtrField_Destroy f s = Inr (g, t) \<and>
    dom (st_heap t) = hand \<and> held view t hand = held view s hand"
proof -
  obtain f s hand es cs where r: "execute_all L H ops st = Inr (f, s, hand)" "owns H view (f, s, hand) es cs"
    using ptr_owner.run_total [OF ptr_owner.intro [OF assms(1,2)] assms(3,4)] by (auto simp: accounted_def)
  note d = ownsD [OF r(2)]
  obtain g where "PtrField_Destroy f s = Inr (g, without s (set es \<union> set cs))" using destroy_owned [OF r(2)] by blast
  moreover have "dom (st_heap (without s (set es \<union> set cs))) = hand" using d(5-7) by auto
  moreover have "held view (without s (set es \<union> set cs)) hand = held view s hand"
    using d(5,6) by (intro held_same val_without) auto
  ultimately show ?thesis using r(1) by blast
qed

theorem nothing_leaks_witness:
  "\<exists>f s hand g t. execute_all reference_ptr_lib (StringTypeHandler (\<lambda>_. 0)) sample_ops (RepeatedPtrFieldBase None, no_objects, {}) =
      Inr (f, s, hand) \<and> PtrField_Destroy f s = Inr (g, t) \<and>
    dom (st_heap t) = hand \<and> held (\<lambda>v. v) t hand = held (\<lambda>v. v) s hand"
  by (rule nothing_leaks [OF growing_block.ptr_library_axioms string_elements.element_handler_axioms
    nothing_accounted sample_permitted])

end
