(* ===== verification/Wire_Fields.thy ===== *)
theory Wire_Fields
  imports Wire_Format Repeated_Field
begin

text \<open>
  The rest of the inline runtime of fields: coded streams (io/coded_stream.h), the scalar types and the
  readers and writers of repeated fields, groups and messages (wire_format_lite.h,
  wire_format_lite_inl.h).
\<close>

unbundle bit_operations_syntax

chapter \<open>Coded streams\<close>

text \<open>
  The rest of the inline functions of io/coded_stream.h: numbers of 64 bits and of fixed width, tags in
  an array, and \<open>CodedOutputStream\<close>. What the header only declares of it is the record \<open>wide_lib\<close>, beside
  the \<open>pb_lib\<close> of the other functions. The target is little-endian (\<open>PROTOBUF_LITTLE_ENDIAN\<close>).
\<close>

type_synonym u64 = "64 word"

section \<open>Little-endian numbers of 64 bits\<close>

definition le64 :: "u64 \<Rightarrow> bytes" where
  "le64 w = le32 (ucast w) @ le32 (ucast (drop_bit 32 w))"

definition of_le64 :: "bytes \<Rightarrow> u64" where
  "of_le64 bs = ucast (of_le32 (take 4 bs)) OR push_bit 32 (ucast (of_le32 (drop 4 bs)))"

lemma le64_halves:
  "(ucast (ucast a OR push_bit 32 (ucast b) :: u64) :: u32) = a"
  "(ucast (drop_bit 32 (ucast a OR push_bit 32 (ucast b) :: u64)) :: u32) = b"
  "ucast (ucast w :: u32) OR push_bit 32 (ucast (ucast (drop_bit 32 w) :: u32)) = w"
  for a b :: u32 and w :: u64
  by (rule bit_word_eqI, auto simp: bit_simps dest: bit_imp_le_length)+

interpretation le64: byte_codec 8 le64 of_le64
proof
  show "length (le64 w) = 8" for w by (simp add: le64_def)
  show "of_le64 (le64 w) = w" for w by (simp add: of_le64_def le64_def of_le32_le32 le64_halves)
  show "le64 (of_le64 bs) = bs" if "length bs = 8" for bs
    using that by (simp only: of_le64_def le64_def le64_halves) (simp add: le32_of_le32)
qed

section \<open>The library\<close>

record wide_lib =
  wl_lib :: pb_lib
  wl_ReadVarint64Fallback :: "coded_input \<Rightarrow> (u64 \<times> bool) \<times> coded_input"
  wl_ReadLittleEndian32Fallback :: "coded_input \<Rightarrow> bool \<times> u32 \<times> coded_input"
  wl_ReadLittleEndian64Fallback :: "coded_input \<Rightarrow> bool \<times> u64 \<times> coded_input"
  wl_ReadRaw :: "int \<Rightarrow> coded_input \<Rightarrow> bool \<times> bytes \<times> coded_input"
  wl_Skip :: "int \<Rightarrow> coded_input \<Rightarrow> bool \<times> coded_input"
  wl_PushLimit :: "int \<Rightarrow> coded_input \<Rightarrow> int \<times> coded_input"
  wl_PopLimit :: "int \<Rightarrow> coded_input \<Rightarrow> coded_input"
  wl_BytesUntilLimit :: "coded_input \<Rightarrow> int"
  wl_BytesUntilTotalBytesLimit :: "coded_input \<Rightarrow> int"
  wl_ReadLengthAndPushLimit :: "coded_input \<Rightarrow> int \<times> coded_input"
  wl_CheckEntireMessageConsumedAndPopLimit :: "int \<Rightarrow> coded_input \<Rightarrow> bool \<times> coded_input"
  wl_WriteVarint64ToArray :: "u64 \<Rightarrow> bytes \<Rightarrow> bytes"
  wl_VarintSize64 :: "u64 \<Rightarrow> int"

section \<open>Reading\<close>

definition ReadVarint64 :: "wide_lib \<Rightarrow> coded_input \<Rightarrow> bool \<times> u64 \<times> coded_input" where
  "ReadVarint64 W s =
     (if 0 < BufferSize s \<and> ci_buffer s ! 0 < 0x80 then (True, ucast (ci_buffer s ! 0), Advance 1 s)
      else let ((v, ok), s1) = wl_ReadVarint64Fallback W s in (ok, v, s1))"

definition ReadLittleEndian32FromArray :: "bytes \<Rightarrow> (u32 \<times> bytes) res" where
  "ReadLittleEndian32FromArray buffer =
     (if 4 \<le> length buffer then Inr (of_le32 (take 4 buffer), drop 4 buffer) else Inl Undefined)"

definition ReadLittleEndian64FromArray :: "bytes \<Rightarrow> (u64 \<times> bytes) res" where
  "ReadLittleEndian64FromArray buffer =
     (if 8 \<le> length buffer then Inr (of_le64 (take 8 buffer), drop 8 buffer) else Inl Undefined)"

definition ReadLittleEndian32 :: "wide_lib \<Rightarrow> coded_input \<Rightarrow> bool \<times> u32 \<times> coded_input" where
  "ReadLittleEndian32 W s =
     (if 4 \<le> BufferSize s then (True, of_le32 (take 4 (ci_buffer s)), Advance 4 s)
      else wl_ReadLittleEndian32Fallback W s)"

definition ReadLittleEndian64 :: "wide_lib \<Rightarrow> coded_input \<Rightarrow> bool \<times> u64 \<times> coded_input" where
  "ReadLittleEndian64 W s =
     (if 8 \<le> BufferSize s then (True, of_le64 (take 8 (ci_buffer s)), Advance 8 s)
      else wl_ReadLittleEndian64Fallback W s)"

definition ReadTag :: "pb_lib \<Rightarrow> coded_input \<Rightarrow> u32 \<times> coded_input" where
  "ReadTag L s =
     (if 0 < BufferSize s \<and> (ucast (ci_buffer s ! 0) :: u32) < 0x80
      then let v = ucast (ci_buffer s ! 0) in (v, Advance 1 (s\<lparr>ci_last_tag := v\<rparr>))
      else let v = (if 0 < BufferSize s then ucast (ci_buffer s ! 0) else 0);
               (tag, s1) = lib_ReadTagFallback L v s
           in (tag, s1\<lparr>ci_last_tag := tag\<rparr>))"

text \<open>The rest of the array behind the tag, or null.\<close>

definition ExpectTagFromArray :: "bytes \<Rightarrow> u32 \<Rightarrow> bytes option res" where
  "ExpectTagFromArray buffer expected =
     (if expected < 0x80
      then if buffer = [] then Inl Undefined
           else if ucast (buffer ! 0) = expected then Inr (Some (drop 1 buffer)) else Inr None
      else if expected < 0x4000
      then if buffer = [] then Inl Undefined
           else if buffer ! 0 \<noteq> ucast (expected OR 0x80) then Inr None
           else if length buffer < 2 then Inl Undefined
           else if buffer ! 1 = ucast (drop_bit 7 expected) then Inr (Some (drop 2 buffer)) else Inr None
      else Inr None)"

definition GetDirectBufferPointerInline :: "coded_input \<Rightarrow> bytes \<times> int" where
  "GetDirectBufferPointerInline s = (ci_buffer s, int (length (ci_buffer s)))"

definition UnsafeDecrementRecursionDepth :: "coded_input \<Rightarrow> coded_input" where
  "UnsafeDecrementRecursionDepth s = s\<lparr>ci_budget := ci_budget s + 1\<rparr>"

section \<open>Writing to an array\<close>

definition WriteVarint32SignExtendedToArray :: "wide_lib \<Rightarrow> u32 \<Rightarrow> bytes \<Rightarrow> bytes" where
  "WriteVarint32SignExtendedToArray W v target =
     (if sint v < 0 then wl_WriteVarint64ToArray W (scast v) target else WriteVarint32ToArray v target)"

definition WriteLittleEndian32ToArray :: "u32 \<Rightarrow> bytes \<Rightarrow> bytes" where
  "WriteLittleEndian32ToArray v target = target @ le32 v"

definition WriteLittleEndian64ToArray :: "u64 \<Rightarrow> bytes \<Rightarrow> bytes" where
  "WriteLittleEndian64ToArray v target = target @ le64 v"

definition VarintSize32SignExtended :: "pb_lib \<Rightarrow> u32 \<Rightarrow> int" where
  "VarintSize32SignExtended L v = (if sint v < 0 then 10 else VarintSize32 L v)"

section \<open>Output streams\<close>

text \<open>
  A \<open>CodedOutputStream\<close>: everything written so far, the room in the current buffer, and the sum of the
  sizes of all buffers. The functions it only declares are the record \<open>out_lib\<close>.
\<close>

record coded_output =
  co_written :: bytes
  co_buffer_size :: int
  co_total_bytes :: int
  co_aliasing :: bool

record out_lib =
  ol_WriteVarint32SlowPath :: "u32 \<Rightarrow> coded_output \<Rightarrow> coded_output"
  ol_WriteVarint64 :: "u64 \<Rightarrow> coded_output \<Rightarrow> coded_output"
  ol_WriteLittleEndian32 :: "u32 \<Rightarrow> coded_output \<Rightarrow> coded_output"
  ol_WriteLittleEndian64 :: "u64 \<Rightarrow> coded_output \<Rightarrow> coded_output"
  ol_WriteRaw :: "bytes \<Rightarrow> coded_output \<Rightarrow> coded_output"
  ol_WriteAliasedRaw :: "bytes \<Rightarrow> coded_output \<Rightarrow> coded_output"

definition output_Advance :: "int \<Rightarrow> coded_output \<Rightarrow> coded_output" where
  "output_Advance amount o1 = o1\<lparr>co_buffer_size := co_buffer_size o1 - amount\<rparr>"

definition ByteCount :: "coded_output \<Rightarrow> int" where
  "ByteCount o1 = co_total_bytes o1 - co_buffer_size o1"

text \<open>The bytes the caller then writes to the returned part of the buffer are an argument here.\<close>

definition GetDirectBufferForNBytesAndAdvance :: "bytes \<Rightarrow> coded_output \<Rightarrow> bool \<times> coded_output" where
  "GetDirectBufferForNBytesAndAdvance bs o1 =
     (if co_buffer_size o1 < int (length bs) then (False, o1)
      else (True, output_Advance (int (length bs)) (o1\<lparr>co_written := co_written o1 @ bs\<rparr>)))"

definition WriteVarint32 :: "out_lib \<Rightarrow> u32 \<Rightarrow> coded_output \<Rightarrow> coded_output" where
  "WriteVarint32 L v o1 =
     (if 5 \<le> co_buffer_size o1
      then let target = WriteVarint32ToArray v []
           in output_Advance (int (length target)) (o1\<lparr>co_written := co_written o1 @ target\<rparr>)
      else ol_WriteVarint32SlowPath L v o1)"

definition output_WriteTag :: "out_lib \<Rightarrow> u32 \<Rightarrow> coded_output \<Rightarrow> coded_output" where
  "output_WriteTag L v o1 = WriteVarint32 L v o1"

definition WriteVarint32SignExtended :: "out_lib \<Rightarrow> u32 \<Rightarrow> coded_output \<Rightarrow> coded_output" where
  "WriteVarint32SignExtended L v o1 =
     (if sint v < 0 then ol_WriteVarint64 L (scast v) o1 else WriteVarint32 L v o1)"

definition output_WriteString :: "out_lib \<Rightarrow> bytes \<Rightarrow> coded_output \<Rightarrow> coded_output" where
  "output_WriteString L str o1 = ol_WriteRaw L str o1"

definition WriteRawMaybeAliased :: "out_lib \<Rightarrow> bytes \<Rightarrow> coded_output \<Rightarrow> coded_output" where
  "WriteRawMaybeAliased L bs o1 = (if co_aliasing o1 then ol_WriteAliasedRaw L bs o1 else ol_WriteRaw L bs o1)"

chapter \<open>Scalar types\<close>

text \<open>
  The scalar types of the wire format (wire_format_lite.h, wire_format_lite_inl.h): reading, writing to an
  array and to a stream, and sizes, for each declared type. A signed number is the word
  of its width, a \<open>float\<close> or \<open>double\<close> the word of its bits, an enumerator an \<open>int\<close>.
\<close>

section \<open>Types\<close>

datatype field_type =
    TYPE_DOUBLE | TYPE_FLOAT | TYPE_INT64 | TYPE_UINT64 | TYPE_INT32 | TYPE_FIXED64 | TYPE_FIXED32 | TYPE_BOOL
  | TYPE_STRING | TYPE_GROUP | TYPE_MESSAGE | TYPE_BYTES | TYPE_UINT32 | TYPE_ENUM | TYPE_SFIXED32 | TYPE_SFIXED64
  | TYPE_SINT32 | TYPE_SINT64

definition TagSize :: "pb_lib \<Rightarrow> int \<Rightarrow> field_type \<Rightarrow> int" where
  "TagSize L field_number type =
     (let result = VarintSize32 L (push_bit 3 (word_of_int field_number))
      in if type = TYPE_GROUP then result * 2 else result)"

definition EncodeFloat :: "u32 \<Rightarrow> u32" where
  "EncodeFloat f = f"

definition DecodeFloat :: "u32 \<Rightarrow> u32" where
  "DecodeFloat i = i"

definition EncodeDouble :: "u64 \<Rightarrow> u64" where
  "EncodeDouble f = f"

definition DecodeDouble :: "u64 \<Rightarrow> u64" where
  "DecodeDouble i = i"

definition ZigZagEncode32 :: "u32 \<Rightarrow> u32" where
  "ZigZagEncode32 n = push_bit 1 n XOR signed_drop_bit 31 n"

definition ZigZagDecode32 :: "u32 \<Rightarrow> u32" where
  "ZigZagDecode32 n = drop_bit 1 n XOR - (n AND 1)"

definition ZigZagEncode64 :: "u64 \<Rightarrow> u64" where
  "ZigZagEncode64 n = push_bit 1 n XOR signed_drop_bit 63 n"

definition ZigZagDecode64 :: "u64 \<Rightarrow> u64" where
  "ZigZagDecode64 n = drop_bit 1 n XOR - (n AND 1)"

section \<open>Reading\<close>

definition ReadPrimitive_int32 :: "wide_lib \<Rightarrow> coded_input \<Rightarrow> bool \<times> u32 \<times> coded_input" where
  "ReadPrimitive_int32 W s = (let (ok, temp, s1) = ReadVarint32 (wl_lib W) s in (ok, temp, s1))"

definition ReadPrimitive_int64 :: "wide_lib \<Rightarrow> coded_input \<Rightarrow> bool \<times> u64 \<times> coded_input" where
  "ReadPrimitive_int64 W s = (let (ok, temp, s1) = ReadVarint64 W s in (ok, temp, s1))"

definition ReadPrimitive_uint64 :: "wide_lib \<Rightarrow> coded_input \<Rightarrow> bool \<times> u64 \<times> coded_input" where
  "ReadPrimitive_uint64 W s = ReadVarint64 W s"

definition ReadPrimitive_sint32 :: "wide_lib \<Rightarrow> coded_input \<Rightarrow> bool \<times> u32 \<times> coded_input" where
  "ReadPrimitive_sint32 W s = (let (ok, temp, s1) = ReadVarint32 (wl_lib W) s in (ok, ZigZagDecode32 temp, s1))"

definition ReadPrimitive_sint64 :: "wide_lib \<Rightarrow> coded_input \<Rightarrow> bool \<times> u64 \<times> coded_input" where
  "ReadPrimitive_sint64 W s = (let (ok, temp, s1) = ReadVarint64 W s in (ok, ZigZagDecode64 temp, s1))"

definition ReadPrimitive_fixed32 :: "wide_lib \<Rightarrow> coded_input \<Rightarrow> bool \<times> u32 \<times> coded_input" where
  "ReadPrimitive_fixed32 W s = ReadLittleEndian32 W s"

definition ReadPrimitive_fixed64 :: "wide_lib \<Rightarrow> coded_input \<Rightarrow> bool \<times> u64 \<times> coded_input" where
  "ReadPrimitive_fixed64 W s = ReadLittleEndian64 W s"

definition ReadPrimitive_sfixed32 :: "wide_lib \<Rightarrow> coded_input \<Rightarrow> bool \<times> u32 \<times> coded_input" where
  "ReadPrimitive_sfixed32 W s = (let (ok, temp, s1) = ReadLittleEndian32 W s in (ok, temp, s1))"

definition ReadPrimitive_sfixed64 :: "wide_lib \<Rightarrow> coded_input \<Rightarrow> bool \<times> u64 \<times> coded_input" where
  "ReadPrimitive_sfixed64 W s = (let (ok, temp, s1) = ReadLittleEndian64 W s in (ok, temp, s1))"

definition ReadPrimitive_float :: "wide_lib \<Rightarrow> coded_input \<Rightarrow> bool \<times> u32 \<times> coded_input" where
  "ReadPrimitive_float W s = (let (ok, temp, s1) = ReadLittleEndian32 W s in (ok, DecodeFloat temp, s1))"

definition ReadPrimitive_double :: "wide_lib \<Rightarrow> coded_input \<Rightarrow> bool \<times> u64 \<times> coded_input" where
  "ReadPrimitive_double W s = (let (ok, temp, s1) = ReadLittleEndian64 W s in (ok, DecodeDouble temp, s1))"

definition ReadPrimitive_bool :: "wide_lib \<Rightarrow> coded_input \<Rightarrow> bool \<times> bool \<times> coded_input" where
  "ReadPrimitive_bool W s = (let (ok, temp, s1) = ReadVarint64 W s in (ok, temp \<noteq> 0, s1))"

definition ReadPrimitive_enum :: "wide_lib \<Rightarrow> coded_input \<Rightarrow> bool \<times> u32 \<times> coded_input" where
  "ReadPrimitive_enum W s = (let (ok, temp, s1) = ReadVarint32 (wl_lib W) s in (ok, temp, s1))"

text \<open>The types of fixed width can be read from an array.\<close>

definition ReadPrimitiveFromArray_fixed32 :: "bytes \<Rightarrow> (u32 \<times> bytes) res" where
  "ReadPrimitiveFromArray_fixed32 buffer = ReadLittleEndian32FromArray buffer"

definition ReadPrimitiveFromArray_fixed64 :: "bytes \<Rightarrow> (u64 \<times> bytes) res" where
  "ReadPrimitiveFromArray_fixed64 buffer = ReadLittleEndian64FromArray buffer"

definition ReadPrimitiveFromArray_sfixed32 :: "bytes \<Rightarrow> (u32 \<times> bytes) res" where
  "ReadPrimitiveFromArray_sfixed32 buffer = res_map (\<lambda>(temp, rest). (temp, rest)) (ReadLittleEndian32FromArray buffer)"

definition ReadPrimitiveFromArray_sfixed64 :: "bytes \<Rightarrow> (u64 \<times> bytes) res" where
  "ReadPrimitiveFromArray_sfixed64 buffer = res_map (\<lambda>(temp, rest). (temp, rest)) (ReadLittleEndian64FromArray buffer)"

definition ReadPrimitiveFromArray_float :: "bytes \<Rightarrow> (u32 \<times> bytes) res" where
  "ReadPrimitiveFromArray_float buffer = res_map (\<lambda>(temp, rest). (DecodeFloat temp, rest)) (ReadLittleEndian32FromArray buffer)"

definition ReadPrimitiveFromArray_double :: "bytes \<Rightarrow> (u64 \<times> bytes) res" where
  "ReadPrimitiveFromArray_double buffer = res_map (\<lambda>(temp, rest). (DecodeDouble temp, rest)) (ReadLittleEndian64FromArray buffer)"

section \<open>Writing to an array\<close>

definition WriteInt32NoTagToArray :: "wide_lib \<Rightarrow> u32 \<Rightarrow> bytes \<Rightarrow> bytes" where
  "WriteInt32NoTagToArray W v target = WriteVarint32SignExtendedToArray W v target"

definition WriteInt64NoTagToArray :: "wide_lib \<Rightarrow> u64 \<Rightarrow> bytes \<Rightarrow> bytes" where
  "WriteInt64NoTagToArray W v target = wl_WriteVarint64ToArray W v target"

definition WriteUInt64NoTagToArray :: "wide_lib \<Rightarrow> u64 \<Rightarrow> bytes \<Rightarrow> bytes" where
  "WriteUInt64NoTagToArray W v target = wl_WriteVarint64ToArray W v target"

definition WriteSInt32NoTagToArray :: "u32 \<Rightarrow> bytes \<Rightarrow> bytes" where
  "WriteSInt32NoTagToArray v target = WriteVarint32ToArray (ZigZagEncode32 v) target"

definition WriteSInt64NoTagToArray :: "wide_lib \<Rightarrow> u64 \<Rightarrow> bytes \<Rightarrow> bytes" where
  "WriteSInt64NoTagToArray W v target = wl_WriteVarint64ToArray W (ZigZagEncode64 v) target"

definition WriteFixed32NoTagToArray :: "u32 \<Rightarrow> bytes \<Rightarrow> bytes" where
  "WriteFixed32NoTagToArray v target = WriteLittleEndian32ToArray v target"

definition WriteFixed64NoTagToArray :: "u64 \<Rightarrow> bytes \<Rightarrow> bytes" where
  "WriteFixed64NoTagToArray v target = WriteLittleEndian64ToArray v target"

definition WriteSFixed32NoTagToArray :: "u32 \<Rightarrow> bytes \<Rightarrow> bytes" where
  "WriteSFixed32NoTagToArray v target = WriteLittleEndian32ToArray v target"

definition WriteSFixed64NoTagToArray :: "u64 \<Rightarrow> bytes \<Rightarrow> bytes" where
  "WriteSFixed64NoTagToArray v target = WriteLittleEndian64ToArray v target"

definition WriteFloatNoTagToArray :: "u32 \<Rightarrow> bytes \<Rightarrow> bytes" where
  "WriteFloatNoTagToArray v target = WriteLittleEndian32ToArray (EncodeFloat v) target"

definition WriteDoubleNoTagToArray :: "u64 \<Rightarrow> bytes \<Rightarrow> bytes" where
  "WriteDoubleNoTagToArray v target = WriteLittleEndian64ToArray (EncodeDouble v) target"

definition WriteBoolNoTagToArray :: "bool \<Rightarrow> bytes \<Rightarrow> bytes" where
  "WriteBoolNoTagToArray v target = WriteVarint32ToArray (if v then 1 else 0) target"

definition WriteEnumNoTagToArray :: "wide_lib \<Rightarrow> u32 \<Rightarrow> bytes \<Rightarrow> bytes" where
  "WriteEnumNoTagToArray W v target = WriteVarint32SignExtendedToArray W v target"

definition WriteInt32ToArray :: "wide_lib \<Rightarrow> int \<Rightarrow> u32 \<Rightarrow> bytes \<Rightarrow> bytes" where
  "WriteInt32ToArray W field_number v target =
     WriteInt32NoTagToArray W v (WriteTagToArray_field field_number WIRETYPE_VARINT target)"

definition WriteInt64ToArray :: "wide_lib \<Rightarrow> int \<Rightarrow> u64 \<Rightarrow> bytes \<Rightarrow> bytes" where
  "WriteInt64ToArray W field_number v target =
     WriteInt64NoTagToArray W v (WriteTagToArray_field field_number WIRETYPE_VARINT target)"

definition WriteUInt64ToArray :: "wide_lib \<Rightarrow> int \<Rightarrow> u64 \<Rightarrow> bytes \<Rightarrow> bytes" where
  "WriteUInt64ToArray W field_number v target =
     WriteUInt64NoTagToArray W v (WriteTagToArray_field field_number WIRETYPE_VARINT target)"

definition WriteSInt32ToArray :: "int \<Rightarrow> u32 \<Rightarrow> bytes \<Rightarrow> bytes" where
  "WriteSInt32ToArray field_number v target =
     WriteSInt32NoTagToArray v (WriteTagToArray_field field_number WIRETYPE_VARINT target)"

definition WriteSInt64ToArray :: "wide_lib \<Rightarrow> int \<Rightarrow> u64 \<Rightarrow> bytes \<Rightarrow> bytes" where
  "WriteSInt64ToArray W field_number v target =
     WriteSInt64NoTagToArray W v (WriteTagToArray_field field_number WIRETYPE_VARINT target)"

definition WriteFixed32ToArray :: "int \<Rightarrow> u32 \<Rightarrow> bytes \<Rightarrow> bytes" where
  "WriteFixed32ToArray field_number v target =
     WriteFixed32NoTagToArray v (WriteTagToArray_field field_number WIRETYPE_FIXED32 target)"

definition WriteFixed64ToArray :: "int \<Rightarrow> u64 \<Rightarrow> bytes \<Rightarrow> bytes" where
  "WriteFixed64ToArray field_number v target =
     WriteFixed64NoTagToArray v (WriteTagToArray_field field_number WIRETYPE_FIXED64 target)"

definition WriteSFixed32ToArray :: "int \<Rightarrow> u32 \<Rightarrow> bytes \<Rightarrow> bytes" where
  "WriteSFixed32ToArray field_number v target =
     WriteSFixed32NoTagToArray v (WriteTagToArray_field field_number WIRETYPE_FIXED32 target)"

definition WriteSFixed64ToArray :: "int \<Rightarrow> u64 \<Rightarrow> bytes \<Rightarrow> bytes" where
  "WriteSFixed64ToArray field_number v target =
     WriteSFixed64NoTagToArray v (WriteTagToArray_field field_number WIRETYPE_FIXED64 target)"

definition WriteFloatToArray :: "int \<Rightarrow> u32 \<Rightarrow> bytes \<Rightarrow> bytes" where
  "WriteFloatToArray field_number v target =
     WriteFloatNoTagToArray v (WriteTagToArray_field field_number WIRETYPE_FIXED32 target)"

definition WriteDoubleToArray :: "int \<Rightarrow> u64 \<Rightarrow> bytes \<Rightarrow> bytes" where
  "WriteDoubleToArray field_number v target =
     WriteDoubleNoTagToArray v (WriteTagToArray_field field_number WIRETYPE_FIXED64 target)"

definition WriteBoolToArray :: "int \<Rightarrow> bool \<Rightarrow> bytes \<Rightarrow> bytes" where
  "WriteBoolToArray field_number v target =
     WriteBoolNoTagToArray v (WriteTagToArray_field field_number WIRETYPE_VARINT target)"

definition WriteEnumToArray :: "wide_lib \<Rightarrow> int \<Rightarrow> u32 \<Rightarrow> bytes \<Rightarrow> bytes" where
  "WriteEnumToArray W field_number v target =
     WriteEnumNoTagToArray W v (WriteTagToArray_field field_number WIRETYPE_VARINT target)"

section \<open>Writing to a stream\<close>

definition WireFormat_WriteTag :: "out_lib \<Rightarrow> int \<Rightarrow> wire_type \<Rightarrow> coded_output \<Rightarrow> coded_output" where
  "WireFormat_WriteTag L field_number type output = output_WriteTag L (MakeTag field_number type) output"

definition WriteInt32NoTag :: "out_lib \<Rightarrow> u32 \<Rightarrow> coded_output \<Rightarrow> coded_output" where
  "WriteInt32NoTag L v output = WriteVarint32SignExtended L v output"

definition WriteInt64NoTag :: "out_lib \<Rightarrow> u64 \<Rightarrow> coded_output \<Rightarrow> coded_output" where
  "WriteInt64NoTag L v output = ol_WriteVarint64 L v output"

definition WriteUInt32NoTag :: "out_lib \<Rightarrow> u32 \<Rightarrow> coded_output \<Rightarrow> coded_output" where
  "WriteUInt32NoTag L v output = WriteVarint32 L v output"

definition WriteUInt64NoTag :: "out_lib \<Rightarrow> u64 \<Rightarrow> coded_output \<Rightarrow> coded_output" where
  "WriteUInt64NoTag L v output = ol_WriteVarint64 L v output"

definition WriteSInt32NoTag :: "out_lib \<Rightarrow> u32 \<Rightarrow> coded_output \<Rightarrow> coded_output" where
  "WriteSInt32NoTag L v output = WriteVarint32 L (ZigZagEncode32 v) output"

definition WriteSInt64NoTag :: "out_lib \<Rightarrow> u64 \<Rightarrow> coded_output \<Rightarrow> coded_output" where
  "WriteSInt64NoTag L v output = ol_WriteVarint64 L (ZigZagEncode64 v) output"

definition WriteFixed32NoTag :: "out_lib \<Rightarrow> u32 \<Rightarrow> coded_output \<Rightarrow> coded_output" where
  "WriteFixed32NoTag L v output = ol_WriteLittleEndian32 L v output"

definition WriteFixed64NoTag :: "out_lib \<Rightarrow> u64 \<Rightarrow> coded_output \<Rightarrow> coded_output" where
  "WriteFixed64NoTag L v output = ol_WriteLittleEndian64 L v output"

definition WriteSFixed32NoTag :: "out_lib \<Rightarrow> u32 \<Rightarrow> coded_output \<Rightarrow> coded_output" where
  "WriteSFixed32NoTag L v output = ol_WriteLittleEndian32 L v output"

definition WriteSFixed64NoTag :: "out_lib \<Rightarrow> u64 \<Rightarrow> coded_output \<Rightarrow> coded_output" where
  "WriteSFixed64NoTag L v output = ol_WriteLittleEndian64 L v output"

definition WriteFloatNoTag :: "out_lib \<Rightarrow> u32 \<Rightarrow> coded_output \<Rightarrow> coded_output" where
  "WriteFloatNoTag L v output = ol_WriteLittleEndian32 L (EncodeFloat v) output"

definition WriteDoubleNoTag :: "out_lib \<Rightarrow> u64 \<Rightarrow> coded_output \<Rightarrow> coded_output" where
  "WriteDoubleNoTag L v output = ol_WriteLittleEndian64 L (EncodeDouble v) output"

definition WriteBoolNoTag :: "out_lib \<Rightarrow> bool \<Rightarrow> coded_output \<Rightarrow> coded_output" where
  "WriteBoolNoTag L v output = WriteVarint32 L (if v then 1 else 0) output"

definition WriteEnumNoTag :: "out_lib \<Rightarrow> u32 \<Rightarrow> coded_output \<Rightarrow> coded_output" where
  "WriteEnumNoTag L v output = WriteVarint32SignExtended L v output"

section \<open>Sizes\<close>

definition Int32Size :: "wide_lib \<Rightarrow> u32 \<Rightarrow> int" where
  "Int32Size W v = VarintSize32SignExtended (wl_lib W) v"

definition Int64Size :: "wide_lib \<Rightarrow> u64 \<Rightarrow> int" where
  "Int64Size W v = wl_VarintSize64 W v"

definition UInt64Size :: "wide_lib \<Rightarrow> u64 \<Rightarrow> int" where
  "UInt64Size W v = wl_VarintSize64 W v"

definition SInt32Size :: "wide_lib \<Rightarrow> u32 \<Rightarrow> int" where
  "SInt32Size W v = VarintSize32 (wl_lib W) (ZigZagEncode32 v)"

definition SInt64Size :: "wide_lib \<Rightarrow> u64 \<Rightarrow> int" where
  "SInt64Size W v = wl_VarintSize64 W (ZigZagEncode64 v)"

definition EnumSize :: "wide_lib \<Rightarrow> u32 \<Rightarrow> int" where
  "EnumSize W v = VarintSize32SignExtended (wl_lib W) v"

definition kFixed32Size :: "int" where
  "kFixed32Size = 4"

definition kFixed64Size :: "int" where
  "kFixed64Size = 8"

definition kSFixed32Size :: "int" where
  "kSFixed32Size = 4"

definition kSFixed64Size :: "int" where
  "kSFixed64Size = 8"

definition kFloatSize :: "int" where
  "kFloatSize = 4"

definition kDoubleSize :: "int" where
  "kDoubleSize = 8"

definition kBoolSize :: "int" where
  "kBoolSize = 1"

chapter \<open>Repeated fields, groups and messages\<close>

text \<open>
  Reading repeated fields of scalars (wire_format_lite_inl.h): one value after another with their tags,
  packed values, and the variants for types of fixed width that work on the buffer directly. The
  instance of \<open>ReadPrimitive\<close> for the type is an argument.
\<close>

section \<open>Values with tags\<close>

text \<open>The loop that goes on while there is room and the same tag follows.\<close>

fun read_reserved ::
  "(coded_input \<Rightarrow> bool \<times> 'e \<times> coded_input) \<Rightarrow> u32 \<Rightarrow> nat \<Rightarrow> coded_input \<Rightarrow> 'e repeated_field \<Rightarrow>
     (bool \<times> coded_input \<times> 'e repeated_field) res" where
  "read_reserved read tag 0 s f = Inr (True, s, f)"
| "read_reserved read tag (Suc elements_already_reserved) s f =
     (let (expected, s1) = ExpectTag tag s
      in if \<not> expected then Inr (True, s1, f)
         else let (ok, value, s2) = read s1
           in if \<not> ok then Inr (False, s2, f)
              else res_bind (RepeatedField_AddAlreadyReserved value f)
                     (read_reserved read tag elements_already_reserved s2))"

definition ReadRepeatedPrimitive ::
  "(coded_input \<Rightarrow> bool \<times> 'e \<times> coded_input) \<Rightarrow> 'e element_type \<Rightarrow> u32 \<Rightarrow> coded_input \<Rightarrow> 'e repeated_field \<Rightarrow>
     (bool \<times> coded_input \<times> 'e repeated_field) res" where
  "ReadRepeatedPrimitive read E tag s values =
     (let (ok, value, s1) = read s
      in if \<not> ok then Inr (False, s1, values)
         else res_bind (RepeatedField_Add E (Outside value) values) (\<lambda>f1.
              read_reserved read tag (nat (RepeatedField_Capacity f1 - RepeatedField_size f1)) s1 f1))"

text \<open>The loop over the buffer; it yields the number of values read.\<close>

fun read_from_buffer ::
  "(bytes \<Rightarrow> ('e \<times> bytes) res) \<Rightarrow> u32 \<Rightarrow> nat \<Rightarrow> bytes \<Rightarrow> 'e repeated_field \<Rightarrow> (nat \<times> 'e repeated_field) res" where
  "read_from_buffer from_array tag 0 buffer f = Inr (0, f)"
| "read_from_buffer from_array tag (Suc elements_available) buffer f =
     res_bind (ExpectTagFromArray buffer tag) (\<lambda>r.
     case r of
       None \<Rightarrow> Inr (0, f)
     | Some buffer1 \<Rightarrow>
         res_bind (from_array buffer1) (\<lambda>(value, buffer2).
         res_bind (RepeatedField_AddAlreadyReserved value f) (\<lambda>f1.
         res_map (\<lambda>(num_read, f2). (num_read + 1, f2))
           (read_from_buffer from_array tag elements_available buffer2 f1))))"

definition ReadRepeatedFixedSizePrimitive ::
  "wide_lib \<Rightarrow> (coded_input \<Rightarrow> bool \<times> 'e \<times> coded_input) \<Rightarrow> (bytes \<Rightarrow> ('e \<times> bytes) res) \<Rightarrow> 'e element_type \<Rightarrow>
     int \<Rightarrow> u32 \<Rightarrow> coded_input \<Rightarrow> 'e repeated_field \<Rightarrow> (bool \<times> coded_input \<times> 'e repeated_field) res" where
  "ReadRepeatedFixedSizePrimitive W read from_array E tag_size tag s values =
     (let (ok, value, s1) = read s
      in if \<not> ok then Inr (False, s1, values)
         else res_bind (RepeatedField_Add E (Outside value) values) (\<lambda>f1.
           let (buffer, size) = GetDirectBufferPointerInline s1
           in if 0 < size
              then
                let per_value_size = tag_size + int (et_sizeof E);
                    elements_available = min (RepeatedField_Capacity f1 - RepeatedField_size f1) (size div per_value_size)
                in res_bind (read_from_buffer from_array tag (nat elements_available) buffer f1) (\<lambda>(num_read, f2).
                   let read_bytes = int num_read * per_value_size
                   in Inr (True, if 0 < read_bytes then snd (wl_Skip W read_bytes s1) else s1, f2))
              else Inr (True, s1, f1)))"

text \<open>For the types of fixed width \<open>ReadRepeatedPrimitive\<close> is specialised to this reader.\<close>

definition ReadRepeatedPrimitive_fixed32 ::
  "wide_lib \<Rightarrow> u32 element_type \<Rightarrow> int \<Rightarrow> u32 \<Rightarrow> coded_input \<Rightarrow> u32 repeated_field \<Rightarrow>
     (bool \<times> coded_input \<times> u32 repeated_field) res" where
  "ReadRepeatedPrimitive_fixed32 W E tag_size tag s values =
     ReadRepeatedFixedSizePrimitive W (ReadPrimitive_fixed32 W) ReadPrimitiveFromArray_fixed32 E tag_size tag s values"

definition ReadRepeatedPrimitive_fixed64 ::
  "wide_lib \<Rightarrow> u64 element_type \<Rightarrow> int \<Rightarrow> u32 \<Rightarrow> coded_input \<Rightarrow> u64 repeated_field \<Rightarrow>
     (bool \<times> coded_input \<times> u64 repeated_field) res" where
  "ReadRepeatedPrimitive_fixed64 W E tag_size tag s values =
     ReadRepeatedFixedSizePrimitive W (ReadPrimitive_fixed64 W) ReadPrimitiveFromArray_fixed64 E tag_size tag s values"

definition ReadRepeatedPrimitive_sfixed32 ::
  "wide_lib \<Rightarrow> u32 element_type \<Rightarrow> int \<Rightarrow> u32 \<Rightarrow> coded_input \<Rightarrow> u32 repeated_field \<Rightarrow>
     (bool \<times> coded_input \<times> u32 repeated_field) res" where
  "ReadRepeatedPrimitive_sfixed32 W E tag_size tag s values =
     ReadRepeatedFixedSizePrimitive W (ReadPrimitive_sfixed32 W) ReadPrimitiveFromArray_sfixed32 E tag_size tag s values"

definition ReadRepeatedPrimitive_sfixed64 ::
  "wide_lib \<Rightarrow> u64 element_type \<Rightarrow> int \<Rightarrow> u32 \<Rightarrow> coded_input \<Rightarrow> u64 repeated_field \<Rightarrow>
     (bool \<times> coded_input \<times> u64 repeated_field) res" where
  "ReadRepeatedPrimitive_sfixed64 W E tag_size tag s values =
     ReadRepeatedFixedSizePrimitive W (ReadPrimitive_sfixed64 W) ReadPrimitiveFromArray_sfixed64 E tag_size tag s values"

definition ReadRepeatedPrimitive_float ::
  "wide_lib \<Rightarrow> u32 element_type \<Rightarrow> int \<Rightarrow> u32 \<Rightarrow> coded_input \<Rightarrow> u32 repeated_field \<Rightarrow>
     (bool \<times> coded_input \<times> u32 repeated_field) res" where
  "ReadRepeatedPrimitive_float W E tag_size tag s values =
     ReadRepeatedFixedSizePrimitive W (ReadPrimitive_float W) ReadPrimitiveFromArray_float E tag_size tag s values"

definition ReadRepeatedPrimitive_double ::
  "wide_lib \<Rightarrow> u64 element_type \<Rightarrow> int \<Rightarrow> u32 \<Rightarrow> coded_input \<Rightarrow> u64 repeated_field \<Rightarrow>
     (bool \<times> coded_input \<times> u64 repeated_field) res" where
  "ReadRepeatedPrimitive_double W E tag_size tag s values =
     ReadRepeatedFixedSizePrimitive W (ReadPrimitive_double W) ReadPrimitiveFromArray_double E tag_size tag s values"

text \<open>The instance of \<open>ReadRepeatedPrimitive\<close> for the type is an argument.\<close>

definition ReadRepeatedPrimitiveNoInline ::
  "(int \<Rightarrow> u32 \<Rightarrow> coded_input \<Rightarrow> 'e repeated_field \<Rightarrow> (bool \<times> coded_input \<times> 'e repeated_field) res) \<Rightarrow>
     int \<Rightarrow> u32 \<Rightarrow> coded_input \<Rightarrow> 'e repeated_field \<Rightarrow> (bool \<times> coded_input \<times> 'e repeated_field) res" where
  "ReadRepeatedPrimitiveNoInline inline_reader tag_size tag s value = inline_reader tag_size tag s value"

section \<open>Packed values\<close>

partial_function (option) packed_loop ::
  "wide_lib \<Rightarrow> (coded_input \<Rightarrow> bool \<times> 'e \<times> coded_input) \<Rightarrow> 'e element_type \<Rightarrow> coded_input \<Rightarrow> 'e repeated_field \<Rightarrow>
     (bool \<times> coded_input \<times> 'e repeated_field) res option" where
  "packed_loop W read E s f =
     (if 0 < wl_BytesUntilLimit W s
      then case read s of (ok, value, s1) \<Rightarrow>
             if \<not> ok then Some (Inr (False, s1, f))
             else case RepeatedField_Add E (Outside value) f of
                    Inl e \<Rightarrow> Some (Inl e)
                  | Inr f1 \<Rightarrow> packed_loop W read E s1 f1
      else Some (Inr (True, s, f)))"

text \<open>The general template, for the types that are varints. \<open>None\<close> would be a call that does not return.\<close>

definition ReadPackedPrimitive ::
  "wide_lib \<Rightarrow> (coded_input \<Rightarrow> bool \<times> 'e \<times> coded_input) \<Rightarrow> 'e element_type \<Rightarrow> coded_input \<Rightarrow> 'e repeated_field \<Rightarrow>
     (bool \<times> coded_input \<times> 'e repeated_field) res option" where
  "ReadPackedPrimitive W read E s values =
     (let (ok, length, s1) = ReadVarint32 (wl_lib W) s
      in if \<not> ok then Some (Inr (False, s1, values))
         else let (limit, s2) = wl_PushLimit W (sint length) s1
           in map_option (res_map (\<lambda>(ok, s3, f). (ok, if ok then wl_PopLimit W limit s3 else s3, f)))
                (packed_loop W read E s2 values))"

text \<open>The loop over a known number of values.\<close>

fun read_each ::
  "(coded_input \<Rightarrow> bool \<times> 'e \<times> coded_input) \<Rightarrow> 'e element_type \<Rightarrow> nat \<Rightarrow> coded_input \<Rightarrow> 'e repeated_field \<Rightarrow>
     (bool \<times> coded_input \<times> 'e repeated_field) res" where
  "read_each read E 0 s f = Inr (True, s, f)"
| "read_each read E (Suc n) s f =
     (let (ok, value, s1) = read s
      in if \<not> ok then Inr (False, s1, f)
         else res_bind (RepeatedField_Add E (Outside value) f) (read_each read E n s1))"

text \<open>
  The values in memory: \<open>ReadRaw\<close> overwrites the bytes of the elements from an index on, as many as it
  copies; \<open>to_bytes\<close> and \<open>of_bytes\<close> relate an element to its bytes.
\<close>

definition overwrite ::
  "'e element_type \<Rightarrow> ('e \<Rightarrow> bytes) \<Rightarrow> (bytes \<Rightarrow> 'e) \<Rightarrow> nat \<Rightarrow> bytes \<Rightarrow> 'e list \<Rightarrow> 'e list" where
  "overwrite E to_bytes of_bytes start bs es =
     (let old = concat (map to_bytes (drop start es)); new = bs @ drop (length bs) old
      in take start es @
           map (\<lambda>k. of_bytes (take (et_sizeof E) (drop (k * et_sizeof E) new))) [0..<length es - start])"

definition ReadPackedFixedSizePrimitive ::
  "wide_lib \<Rightarrow> (coded_input \<Rightarrow> bool \<times> 'e \<times> coded_input) \<Rightarrow> ('e \<Rightarrow> bytes) \<Rightarrow> (bytes \<Rightarrow> 'e) \<Rightarrow> 'e element_type \<Rightarrow> 'e \<Rightarrow>
     coded_input \<Rightarrow> 'e repeated_field \<Rightarrow> (bool \<times> coded_input \<times> 'e repeated_field) res" where
  "ReadPackedFixedSizePrimitive W read to_bytes of_bytes E zero s values =
     (let (ok, length1, s1) = ReadVarint32 (wl_lib W) s
      in if \<not> ok then Inr (False, s1, values)
         else
           let old_entries = word_of_int (RepeatedField_size values) :: u32;
               new_entries = length1 div of_nat (et_sizeof E);
               new_bytes = new_entries * of_nat (et_sizeof E)
           in if new_bytes \<noteq> length1 then Inr (False, s1, values)
              else
                let total = wl_BytesUntilTotalBytesLimit W s1;
                    bytes_limit = (if total = - 1 then wl_BytesUntilLimit W s1 else min total (wl_BytesUntilLimit W s1))
                in if uint new_bytes \<le> bytes_limit
                   then res_bind (RepeatedField_Resize E (sint (old_entries + new_entries)) (Outside zero) values) (\<lambda>f1.
                     let (ok1, bs, s2) = wl_ReadRaw W (sint new_bytes) s1;
                         f2 = f1\<lparr>rf_rep := map_option (\<lambda>p. p\<lparr>rep_elements :=
                           overwrite E to_bytes of_bytes (unat old_entries) bs (rep_elements p)\<rparr>) (rf_rep f1)\<rparr>
                     in if \<not> ok1 then Inr (False, s2, RepeatedField_Truncate (sint old_entries) f2)
                        else Inr (True, s2, f2))
                   else read_each read E (unat new_entries) s1 values)"

text \<open>
  For the types of fixed width \<open>ReadPackedPrimitive\<close> is specialised to this reader; it always returns.
\<close>

definition ReadPackedPrimitive_fixed32 ::
  "wide_lib \<Rightarrow> u32 element_type \<Rightarrow> coded_input \<Rightarrow> u32 repeated_field \<Rightarrow>
     (bool \<times> coded_input \<times> u32 repeated_field) res option" where
  "ReadPackedPrimitive_fixed32 W E s values =
     Some (ReadPackedFixedSizePrimitive W (ReadPrimitive_fixed32 W) le32 of_le32 E 0 s values)"

definition ReadPackedPrimitive_fixed64 ::
  "wide_lib \<Rightarrow> u64 element_type \<Rightarrow> coded_input \<Rightarrow> u64 repeated_field \<Rightarrow>
     (bool \<times> coded_input \<times> u64 repeated_field) res option" where
  "ReadPackedPrimitive_fixed64 W E s values =
     Some (ReadPackedFixedSizePrimitive W (ReadPrimitive_fixed64 W) le64 of_le64 E 0 s values)"

definition ReadPackedPrimitive_sfixed32 ::
  "wide_lib \<Rightarrow> u32 element_type \<Rightarrow> coded_input \<Rightarrow> u32 repeated_field \<Rightarrow>
     (bool \<times> coded_input \<times> u32 repeated_field) res option" where
  "ReadPackedPrimitive_sfixed32 W E s values =
     Some (ReadPackedFixedSizePrimitive W (ReadPrimitive_sfixed32 W) le32 of_le32 E 0 s values)"

definition ReadPackedPrimitive_sfixed64 ::
  "wide_lib \<Rightarrow> u64 element_type \<Rightarrow> coded_input \<Rightarrow> u64 repeated_field \<Rightarrow>
     (bool \<times> coded_input \<times> u64 repeated_field) res option" where
  "ReadPackedPrimitive_sfixed64 W E s values =
     Some (ReadPackedFixedSizePrimitive W (ReadPrimitive_sfixed64 W) le64 of_le64 E 0 s values)"

definition ReadPackedPrimitive_float ::
  "wide_lib \<Rightarrow> u32 element_type \<Rightarrow> coded_input \<Rightarrow> u32 repeated_field \<Rightarrow>
     (bool \<times> coded_input \<times> u32 repeated_field) res option" where
  "ReadPackedPrimitive_float W E s values =
     Some (ReadPackedFixedSizePrimitive W (ReadPrimitive_float W) le32 of_le32 E 0 s values)"

definition ReadPackedPrimitive_double ::
  "wide_lib \<Rightarrow> u64 element_type \<Rightarrow> coded_input \<Rightarrow> u64 repeated_field \<Rightarrow>
     (bool \<times> coded_input \<times> u64 repeated_field) res option" where
  "ReadPackedPrimitive_double W E s values =
     Some (ReadPackedFixedSizePrimitive W (ReadPrimitive_double W) le64 of_le64 E 0 s values)"

text \<open>The instance of \<open>ReadPackedPrimitive\<close> for the type is an argument.\<close>

definition ReadPackedPrimitiveNoInline ::
  "(coded_input \<Rightarrow> 'e repeated_field \<Rightarrow> (bool \<times> coded_input \<times> 'e repeated_field) res option) \<Rightarrow>
     coded_input \<Rightarrow> 'e repeated_field \<Rightarrow> (bool \<times> coded_input \<times> 'e repeated_field) res option" where
  "ReadPackedPrimitiveNoInline inline_reader s value = inline_reader s value"

section \<open>Groups and messages\<close>

text \<open>
  The parser of the value and its writer are arguments; \<open>None\<close> is a parse that does not return.
\<close>

definition ReadGroup ::
  "('m \<Rightarrow> coded_input \<Rightarrow> (bool \<times> 'm \<times> coded_input) option) \<Rightarrow> int \<Rightarrow> 'm \<Rightarrow> coded_input \<Rightarrow>
     (bool \<times> 'm \<times> coded_input) option" where
  "ReadGroup parse field_number m s =
     (let (ok, s1) = IncrementRecursionDepth s
      in if \<not> ok then Some (False, m, s1)
         else Option.bind (parse m s1) (\<lambda>(ok', m', s2).
           if \<not> ok' then Some (False, m', s2)
           else let s3 = DecrementRecursionDepth s2
             in Some (LastTagWas (MakeTag field_number WIRETYPE_END_GROUP) s3, m', s3)))"

definition ReadMessage ::
  "pb_lib \<Rightarrow> ('m \<Rightarrow> coded_input \<Rightarrow> (bool \<times> 'm \<times> coded_input) option) \<Rightarrow> 'm \<Rightarrow> coded_input \<Rightarrow>
     (bool \<times> 'm \<times> coded_input) option" where
  "ReadMessage L parse m s =
     (let (ok, len, s1) = ReadVarint32 L s in
      if \<not> ok then Some (False, m, s1)
      else let ((limit, depth), s2) = lib_IncrementRecursionDepthAndPushLimit L (sint len) s1 in
        if depth < 0 then Some (False, m, s2)
        else Option.bind (parse m s2) (\<lambda>(ok', m', s3).
          if \<not> ok' then Some (False, m', s3)
          else let (r, s4) = lib_DecrementRecursionDepthAndPopLimit L limit s3 in Some (r, m', s4)))"

definition ReadGroupNoVirtual ::
  "('m \<Rightarrow> coded_input \<Rightarrow> (bool \<times> 'm \<times> coded_input) option) \<Rightarrow> int \<Rightarrow> 'm \<Rightarrow> coded_input \<Rightarrow>
     (bool \<times> 'm \<times> coded_input) option" where
  "ReadGroupNoVirtual parse field_number m s =
     (let (ok, s1) = IncrementRecursionDepth s
      in if \<not> ok then Some (False, m, s1)
         else Option.bind (parse m s1) (\<lambda>(ok', m', s2).
           if \<not> ok' then Some (False, m', s2)
           else let s3 = UnsafeDecrementRecursionDepth s2
             in Some (LastTagWas (MakeTag field_number WIRETYPE_END_GROUP) s3, m', s3)))"

definition ReadGroupNoVirtualNoRecursionDepth ::
  "('m \<Rightarrow> coded_input \<Rightarrow> (bool \<times> 'm \<times> coded_input) option) \<Rightarrow> int \<Rightarrow> 'm \<Rightarrow> coded_input \<Rightarrow>
     (bool \<times> 'm \<times> coded_input) option" where
  "ReadGroupNoVirtualNoRecursionDepth parse field_number m s =
     Option.bind (parse m s) (\<lambda>(ok, m', s1).
       Some (ok \<and> LastTagWas (MakeTag field_number WIRETYPE_END_GROUP) s1, m', s1))"

definition ReadMessageNoVirtualNoRecursionDepth ::
  "wide_lib \<Rightarrow> ('m \<Rightarrow> coded_input \<Rightarrow> (bool \<times> 'm \<times> coded_input) option) \<Rightarrow> 'm \<Rightarrow> coded_input \<Rightarrow>
     (bool \<times> 'm \<times> coded_input) option" where
  "ReadMessageNoVirtualNoRecursionDepth W parse m s =
     (let (old_limit, s1) = wl_ReadLengthAndPushLimit W s
      in Option.bind (parse m s1) (\<lambda>(ok, m', s2).
           if \<not> ok then Some (False, m', s2)
           else let (r, s3) = wl_CheckEntireMessageConsumedAndPopLimit W old_limit s2 in Some (r, m', s3)))"

text \<open>Writing: the serialiser of the message and its cached size are arguments.\<close>

definition WriteGroupNoVirtual ::
  "out_lib \<Rightarrow> int \<Rightarrow> (coded_output \<Rightarrow> coded_output) \<Rightarrow> coded_output \<Rightarrow> coded_output" where
  "WriteGroupNoVirtual L field_number serialize output =
     WireFormat_WriteTag L field_number WIRETYPE_END_GROUP
       (serialize (WireFormat_WriteTag L field_number WIRETYPE_START_GROUP output))"

definition WriteMessageNoVirtual ::
  "out_lib \<Rightarrow> int \<Rightarrow> int \<Rightarrow> (coded_output \<Rightarrow> coded_output) \<Rightarrow> coded_output \<Rightarrow> coded_output" where
  "WriteMessageNoVirtual L field_number cached_size serialize output =
     serialize (WriteVarint32 L (word_of_int cached_size)
       (WireFormat_WriteTag L field_number WIRETYPE_LENGTH_DELIMITED output))"

definition WriteGroupToArray :: "int \<Rightarrow> (bytes \<Rightarrow> bytes) \<Rightarrow> bytes \<Rightarrow> bytes" where
  "WriteGroupToArray field_number serialize target =
     WriteTagToArray_field field_number WIRETYPE_END_GROUP
       (serialize (WriteTagToArray_field field_number WIRETYPE_START_GROUP target))"

definition WriteMessageToArray :: "int \<Rightarrow> int \<Rightarrow> (bytes \<Rightarrow> bytes) \<Rightarrow> bytes \<Rightarrow> bytes" where
  "WriteMessageToArray field_number cached_size serialize target =
     serialize (WriteVarint32ToArray (word_of_int cached_size)
       (WriteTagToArray_field field_number WIRETYPE_LENGTH_DELIMITED target))"

definition WriteGroupNoVirtualToArray :: "int \<Rightarrow> (bytes \<Rightarrow> bytes) \<Rightarrow> bytes \<Rightarrow> bytes" where
  "WriteGroupNoVirtualToArray field_number serialize target =
     WriteTagToArray_field field_number WIRETYPE_END_GROUP
       (serialize (WriteTagToArray_field field_number WIRETYPE_START_GROUP target))"

definition GroupSize :: "int \<Rightarrow> int" where
  "GroupSize byte_size = byte_size"

definition MessageSize :: "pb_lib \<Rightarrow> int \<Rightarrow> int" where
  "MessageSize L byte_size = LengthDelimitedSize L byte_size"

definition GroupSizeNoVirtual :: "int \<Rightarrow> int" where
  "GroupSizeNoVirtual byte_size = byte_size"

definition MessageSizeNoVirtual :: "pb_lib \<Rightarrow> int \<Rightarrow> int" where
  "MessageSizeNoVirtual L byte_size = LengthDelimitedSize L byte_size"

end
