(* ===== verification/Field_Laws.thy ===== *)
theory Field_Laws
  imports Wire_Fields Repeated_Laws Object_Laws
begin

text \<open>
  The laws of fields on the wire: what a scalar type offers (\<open>scalar_codec\<close>) and what the library behind
  it promises (\<open>wide_format\<close>), and from these the loops over repeated and packed values.
\<close>

unbundle bit_operations_syntax

chapter \<open>Scalar types\<close>

text \<open>
  The encodings of the scalar types. The zigzag code is the arithmetic one the header describes; a
  number takes seven bits a byte; the locale \<open>scalar_codec\<close> is what every scalar type offers to the
  readers of fields, and \<open>wide_format\<close> the documented behaviour of the library behind them.
\<close>

section \<open>Zigzag\<close>

text \<open>The code at any width.\<close>

definition zigzag :: "'a::len word \<Rightarrow> 'a word" where
  "zigzag n = push_bit 1 n XOR signed_drop_bit (LENGTH('a) - 1) n"

definition zagzig :: "'a::len word \<Rightarrow> 'a word" where
  "zagzig n = drop_bit 1 n XOR - (n AND 1)"

lemma sign_mask: "signed_drop_bit (LENGTH('a) - 1) n = (if sint n < 0 then - 1 else 0)" for n :: "'a::len word"
proof (rule bit_word_eqI)
  fix k assume "k < LENGTH('a)"
  then show "bit (signed_drop_bit (LENGTH('a) - 1) n) k = bit (if sint n < 0 then - 1 else 0 :: 'a word) k"
    by (cases "k = 0") (simp_all add: bit_signed_drop_bit_iff flip: bit_last_iff)
qed

lemma uint_zigzag: "uint (zigzag n) = (if sint n < 0 then - 2 * sint n - 1 else 2 * sint n)" for n :: "'a::len word"
proof -
  let ?x = "if sint n < 0 then - 2 * sint n - 1 else 2 * sint n"
  have "push_bit 1 n = word_of_int (2 * sint n)" by (simp add: push_bit_eq_mult)
  then have "zigzag n = word_of_int ?x"
    unfolding zigzag_def sign_mask by (simp add: not_eq_complement)
  moreover have "0 \<le> ?x \<and> ?x < 2 ^ LENGTH('a)"
  proof -
    have "(2::int) ^ LENGTH('a) = 2 * 2 ^ (LENGTH('a) - 1)" by (simp flip: power_Suc)
    then show ?thesis using sint_greater_eq [of n] sint_less [of n] by (auto split: if_splits)
  qed
  moreover have "uint (word_of_int y :: 'a word) = y" if "0 \<le> y \<and> y < 2 ^ LENGTH('a)" for y
    using that by (simp add: unsigned_of_int take_bit_int_eq_self)
  ultimately show ?thesis by (simp only:)
qed

lemma zagzig_zigzag: "zagzig (zigzag n) = n" for n :: "'a::len word"
proof (rule bit_word_eqI)
  fix k assume k: "k < LENGTH('a)"
  have b: "bit (zigzag n) i \<longleftrightarrow> (0 < i \<and> bit n (i - 1)) \<noteq> (sint n < 0)" if "i < LENGTH('a)" for i
    using that unfolding zigzag_def sign_mask bit_xor_iff bit_push_bit_iff by (auto simp: Suc_le_eq)
  have "- (zigzag n AND 1) = (if sint n < 0 then - 1 else 0)"
    using b [of 0] by (auto simp: and_one_eq bit_0 mod_2_eq_odd)
  moreover have "bit (drop_bit 1 (zigzag n)) k \<longleftrightarrow> k + 1 < LENGTH('a) \<and> (bit n k \<noteq> (sint n < 0))"
    using b [of "k + 1"] by (auto simp: bit_simps dest: bit_imp_le_length)
  moreover have "k + 1 = LENGTH('a) \<Longrightarrow> bit n k \<longleftrightarrow> sint n < 0"
    using bit_last_iff [of n] by (metis add_diff_cancel_right' Suc_eq_plus1 One_nat_def)
  ultimately show "bit (zagzig (zigzag n)) k = bit n k"
    using k by (auto simp: zagzig_def bit_xor_iff bit_simps split: if_splits)
qed

lemma zigzag_zagzig: "zigzag (zagzig n) = n" for n :: "'a::len word"
proof -
  have "inj (zigzag :: 'a word \<Rightarrow> 'a word)" by (metis injI zagzig_zigzag)
  then obtain m where "n = zigzag m" using finite_UNIV_inj_surj [of "zigzag :: 'a word \<Rightarrow> 'a word"] by (auto simp: surj_def)
  then show ?thesis by (simp add: zagzig_zigzag)
qed

lemma ZigZag_eq: "ZigZagEncode32 = zigzag" "ZigZagDecode32 = zagzig" "ZigZagEncode64 = zigzag" "ZigZagDecode64 = zagzig"
  by (simp_all add: fun_eq_iff ZigZagEncode32_def ZigZagDecode32_def ZigZagEncode64_def ZigZagDecode64_def zigzag_def zagzig_def)

section \<open>Numbers of 64 bits\<close>

text \<open>Seven bits a byte, the lowest first, with a mark on every byte but the last (coded_stream.h).\<close>

lemma unat_drop7_64: "unat (drop_bit 7 (v :: u64)) = unat v div 128"
  by (simp only: unat_drop_bit_eq) (simp add: drop_bit_eq_div)

function varint64 :: "u64 \<Rightarrow> bytes" where
  "varint64 v = (if 0x80 \<le> v then ucast (v OR 0x80) # varint64 (drop_bit 7 v) else [ucast v])"
  by pat_completeness auto

termination varint64
proof (relation "measure unat")
  fix v :: u64
  assume "0x80 \<le> v"
  then have "128 \<le> unat v" by (simp add: word_le_nat_alt)
  then show "(drop_bit 7 v, v) \<in> measure unat" by (simp add: unat_drop7_64)
qed simp

declare varint64.simps [simp del]

lemma varint64_small: "\<not> 0x80 \<le> v \<Longrightarrow> varint64 v = [ucast v]"
  by (simp add: varint64.simps [of v])

lemma varint64_large: "0x80 \<le> v \<Longrightarrow> varint64 v = ucast (v OR 0x80) # varint64 (drop_bit 7 v)"
  by (simp add: varint64.simps [of v])

lemma varint64_not_Nil [simp]: "varint64 v \<noteq> []"
  by (simp add: varint64.simps [of v])

lemma ucast_le_80: "0x80 \<le> (ucast v :: u64) \<longleftrightarrow> 0x80 \<le> v" for v :: u32
proof -
  have "unat (ucast v :: u64) = unat v"
    using unsigned_less [of v, where 'a = nat] by (simp add: unsigned_ucast_eq unsigned_take_bit_eq take_bit_nat_eq_self)
  then show ?thesis by (simp add: word_le_nat_alt)
qed

lemma ucast_bytes:
  "(ucast (ucast v OR 0x80 :: u64) :: u8) = ucast (v OR 0x80)" "(drop_bit 7 (ucast v) :: u64) = ucast (drop_bit 7 v)"
  "(ucast (ucast v :: u64) :: u8) = ucast v" for v :: u32
  by (rule bit_word_eqI, auto simp: bit_simps dest: bit_imp_le_length)+

lemma varint64_ucast: "varint64 (ucast v) = varint v"
proof (induction "unat v" arbitrary: v rule: less_induct)
  case less
  show ?case
  proof (cases "0x80 \<le> v")
    case True
    then have "unat (drop_bit 7 v) < unat v" by (simp add: unat_drop7 word_le_nat_alt)
    then show ?thesis
      using less True by (simp add: varint64_large varint_large ucast_le_80 ucast_bytes)
  next
    case False
    then show ?thesis
      by (subst varint64_small) (simp_all add: varint_small ucast_le_80 ucast_bytes)
  qed
qed

lemma length_varint64:
  "(k = 0 \<or> 2 ^ (7 * k) \<le> unat v) \<Longrightarrow> unat v < 2 ^ (7 * Suc k) \<Longrightarrow> length (varint64 v) = Suc k"
proof (induction k arbitrary: v)
  case 0
  then show ?case by (simp add: varint64_small word_le_nat_alt)
next
  case (Suc k)
  have p: "(2::nat) ^ (7 * Suc k) = 2 ^ (7 * k) * 128" "(2::nat) ^ (7 * Suc (Suc k)) = 2 ^ (7 * Suc k) * 128"
    by (simp_all add: power_add)
  have "1 * 128 \<le> (2::nat) ^ (7 * k) * 128" by (rule mult_le_mono1) simp
  moreover have "2 ^ (7 * k) * 128 \<le> unat v" using p(1) Suc.prems(1) by simp
  ultimately have "128 \<le> unat v" by linarith
  then have v: "0x80 \<le> v" by (simp add: word_le_nat_alt)
  have "2 ^ (7 * k) \<le> unat (drop_bit 7 v)" "unat (drop_bit 7 v) < 2 ^ (7 * Suc k)"
    using Suc.prems unfolding p by (simp_all add: unat_drop7_64 less_eq_div_iff_mult_less_eq div_less_iff_less_mult)
  then show ?case using Suc.IH [of "drop_bit 7 v"] v by (simp add: varint64_large)
qed

lemma bit_le_unat: "bit w k \<Longrightarrow> 2 ^ k \<le> unat w" for w :: "'a::len word"
proof -
  assume "bit w k"
  then have "bit (unat w) k" by (simp add: bit_unsigned_iff bit_imp_le_length)
  then have "odd (unat w div 2 ^ k)" by (rule bit_iff_odd [THEN iffD1])
  then show ?thesis by (metis div_less even_zero not_le)
qed

lemma length_varint64_negative: "sint v < 0 \<Longrightarrow> length (varint64 (scast v)) = 10" for v :: u32
proof -
  assume v: "sint v < 0"
  have "bit (scast v :: u64) 63" using v by (simp add: bit_simps flip: bit_last_iff)
  then have "2 ^ 63 \<le> unat (scast v :: u64)" by (rule bit_le_unat)
  moreover have "unat (scast v :: u64) < 2 ^ 64" using unsigned_less [of "scast v :: u64", where 'a = nat] by simp
  ultimately show ?thesis using length_varint64 [of 9 "scast v"] by simp
qed

lemma scast_positive: "\<not> sint v < 0 \<Longrightarrow> scast v = (ucast v :: u64)" for v :: u32
proof -
  assume v: "\<not> sint v < 0"
  have "\<not> bit v n" if "31 \<le> n" for n
    using that v bit_imp_le_length [of v n] bit_last_iff [of v] by (cases "n = 31") auto
  then show ?thesis by (intro bit_word_eqI) (auto simp: bit_simps min_def)
qed

lemma varint64_hd: "0x80 \<le> v \<Longrightarrow> \<not> hd (varint64 v) < 0x80"
proof -
  assume "0x80 \<le> v"
  then have "hd (varint64 v) = ucast (v OR 0x80)" by (simp add: varint64_large)
  then have "bit (hd (varint64 v)) 7" by (simp add: bit_simps)
  then have "2 ^ 7 \<le> unat (hd (varint64 v))" by (rule bit_le_unat)
  then show ?thesis by (simp add: word_less_nat_alt)
qed

section \<open>The interfaces\<close>

text \<open>Reading a scalar value gives no bytes back, and takes some when it succeeds.\<close>

locale scalar_reader =
  fixes read :: "coded_input \<Rightarrow> bool \<times> 'e \<times> coded_input"
  assumes consumes: "read s = (ok, v, s') \<Longrightarrow> unread s' \<le> unread s \<and> (ok \<longrightarrow> unread s' < unread s)"

text \<open>A scalar type: its encoding is appended to the array, has the size announced, and is read back.\<close>

locale scalar_codec = scalar_reader read for read :: "coded_input \<Rightarrow> bool \<times> 'e \<times> coded_input" +
  fixes enc :: "'e \<Rightarrow> bytes \<Rightarrow> bytes" and size_of :: "'e \<Rightarrow> int"
  assumes enc_app: "enc v target = target @ enc v []"
    and enc_not_Nil: "enc v [] \<noteq> []"
    and size_eq: "size_of v = int (length (enc v []))"
    and read_back: "ci_buffer s = enc v [] @ rest \<Longrightarrow> read s = (True, v, s\<lparr>ci_buffer := rest\<rparr>)"

text \<open>The library: what it reads it takes from the stream.\<close>

locale wide_progress = wire_progress "wl_lib W" for W :: wide_lib +
  assumes varint32_consumes: "lib_ReadVarint32Fallback (wl_lib W) b s = (r, s') \<Longrightarrow> 0 \<le> r \<Longrightarrow> unread s' < unread s"
    and varint64_consumes: "wl_ReadVarint64Fallback W s = ((v, ok), s') \<Longrightarrow>
      unread s' \<le> unread s \<and> (ok \<longrightarrow> unread s' < unread s)"
    and fixed32_consumes: "wl_ReadLittleEndian32Fallback W s = (ok, u, s') \<Longrightarrow>
      unread s' \<le> unread s \<and> (ok \<longrightarrow> unread s' < unread s)"
    and fixed64_consumes: "wl_ReadLittleEndian64Fallback W s = (ok, v, s') \<Longrightarrow>
      unread s' \<le> unread s \<and> (ok \<longrightarrow> unread s' < unread s)"

text \<open>
  The documented behaviour: reading a number of 32 bits is reading one of 64 bits and casting it; the
  bytes of a range are those of the stream; a limit hides what lies behind it; and there is an announced
  number of bytes up to it.
\<close>

locale wide_format = wide_progress W + format: wire_format "wl_lib W" for W :: wide_lib +
  assumes varint64_read: "0x80 \<le> v \<Longrightarrow> ci_buffer s = varint64 v @ rest \<Longrightarrow>
      wl_ReadVarint64Fallback W s = ((v, True), s\<lparr>ci_buffer := rest\<rparr>)"
    and varint64_truncated: "0x80 \<le> v \<Longrightarrow> ci_buffer s = varint64 v @ rest \<Longrightarrow>
      lib_ReadVarint32Fallback (wl_lib W) (ucast (hd (ci_buffer s))) s = (uint (ucast v :: u32), s\<lparr>ci_buffer := rest\<rparr>)"
    and varint64_written: "wl_WriteVarint64ToArray W v target = target @ varint64 v"
    and varint64_size: "wl_VarintSize64 W v = int (length (varint64 v))"
    and tag_read: "0x80 \<le> t \<Longrightarrow> ci_buffer s = varint t @ rest \<Longrightarrow>
      lib_ReadTagFallback (wl_lib W) (ucast (hd (ci_buffer s))) s = (t, s\<lparr>ci_buffer := rest\<rparr>)"
    and raw_read: "n \<le> length (ci_buffer s) \<Longrightarrow>
      wl_ReadRaw W (int n) s = (True, take n (ci_buffer s), s\<lparr>ci_buffer := drop n (ci_buffer s)\<rparr>)"
    and skipped: "n \<le> length (ci_buffer s) \<Longrightarrow> wl_Skip W (int n) s = (True, s\<lparr>ci_buffer := drop n (ci_buffer s)\<rparr>)"
    and fixed_at_end: "BufferSize s < 4 \<Longrightarrow> \<not> fst (wl_ReadLittleEndian32Fallback W s)"
      "BufferSize s < 8 \<Longrightarrow> \<not> fst (wl_ReadLittleEndian64Fallback W s)"
    and limit_pushed64: "k \<le> length (ci_buffer s) \<Longrightarrow> at_limit s \<Longrightarrow>
      wl_PushLimit W (int k) s = (ci_limit s,
        s\<lparr>ci_buffer := take k (ci_buffer s), ci_after := drop k (ci_buffer s) @ ci_after s,
          ci_limit := ci_total s - int (length (drop k (ci_buffer s) @ ci_after s))\<rparr>)"
    and limit_popped64: "at_limit s \<Longrightarrow> ci_after s = hidden @ behind \<Longrightarrow>
      limit = ci_total s - int (length behind) \<Longrightarrow>
      \<exists>e. wl_PopLimit W limit s =
        s\<lparr>ci_buffer := ci_buffer s @ hidden, ci_after := behind, ci_limit := limit, ci_end := e\<rparr>"
    and until_limit: "at_limit s \<Longrightarrow> wl_BytesUntilLimit W s = int (length (ci_buffer s))"
    and until_total: "at_limit s \<Longrightarrow> wl_BytesUntilTotalBytesLimit W s = - 1 \<or>
      int (length (ci_buffer s)) \<le> wl_BytesUntilTotalBytesLimit W s"

text \<open>
  Copying bytes out takes them from the stream, all of them when it succeeds, and a limit hides bytes and
  shows them again, but makes none.
\<close>

locale wide_bounded = wide_progress W for W :: wide_lib +
  assumes raw_consumes: "wl_ReadRaw W n s = (ok, bs, s') \<Longrightarrow>
      unread s' \<le> unread s \<and> (ok \<longrightarrow> unread s' + nat n \<le> unread s)"
    and limit_bounded: "unread (snd (wl_PushLimit W n s)) \<le> unread s" "unread (wl_PopLimit W limit s) \<le> unread s"

section \<open>The scalar types\<close>

lemma fixed_consumes: "0 < n \<Longrightarrow> n \<le> BufferSize s \<Longrightarrow> unread (Advance n s) < unread s"
  unfolding unread_Advance by (simp add: unread_def BufferSize_def)

context wide_progress
begin

lemma ReadVarint32_consumes:
  "ReadVarint32 (wl_lib W) s = (ok, v, s') \<Longrightarrow> unread s' \<le> unread s \<and> (ok \<longrightarrow> unread s' < unread s)"
  using ReadVarint32_progress [of s ok v s'] fixed_consumes [of 1 s] varint32_consumes
  by (auto simp: ReadVarint32_def Let_def split: if_splits prod.splits)

lemma ReadVarint64_consumes:
  "ReadVarint64 W s = (ok, v, s') \<Longrightarrow> unread s' \<le> unread s \<and> (ok \<longrightarrow> unread s' < unread s)"
  using fixed_consumes [of 1 s] varint64_consumes by (auto simp: ReadVarint64_def split: if_splits prod.splits)

lemma ReadLittleEndian_consumes:
  "ReadLittleEndian32 W s = (ok, u, s') \<Longrightarrow> unread s' \<le> unread s \<and> (ok \<longrightarrow> unread s' < unread s)"
  "ReadLittleEndian64 W s = (ok, v, s') \<Longrightarrow> unread s' \<le> unread s \<and> (ok \<longrightarrow> unread s' < unread s)"
  using fixed_consumes [of 4 s] fixed_consumes [of 8 s] fixed32_consumes fixed64_consumes
  by (auto simp: ReadLittleEndian32_def ReadLittleEndian64_def split: if_splits prod.splits)

lemmas primitive_consumes = ReadVarint32_consumes ReadVarint64_consumes ReadLittleEndian_consumes

end

context wide_format
begin

lemma ReadVarint64_written:
  assumes "ci_buffer s = varint64 v @ rest"
  shows "ReadVarint64 W s = (True, v, s\<lparr>ci_buffer := rest\<rparr>)"
proof (cases "0x80 \<le> v")
  case True
  then have "\<not> ci_buffer s ! 0 < 0x80" using varint64_hd [OF True] assms by (simp add: hd_append hd_conv_nth [symmetric])
  then show ?thesis using varint64_read [OF True assms] by (simp add: ReadVarint64_def)
next
  case False
  then have "unat v < 0x80" by (simp add: word_le_nat_alt)
  then have b: "(ucast v :: u8) < 0x80" "ucast (ucast v :: u8) = v"
    by (simp_all add: word_less_nat_alt word_unat_eq_iff unsigned_ucast_eq unsigned_take_bit_eq take_bit_nat_eq_self)
  show ?thesis using assms b False by (simp add: ReadVarint64_def varint64_small BufferSize_def Advance_def)
qed

lemma ReadVarint32_truncated:
  assumes "ci_buffer s = varint64 v @ rest"
  shows "ReadVarint32 (wl_lib W) s = (True, ucast v, s\<lparr>ci_buffer := rest\<rparr>)"
proof (cases "0x80 \<le> v")
  case True
  have c: "ci_buffer s \<noteq> []" "hd (ci_buffer s) = ci_buffer s ! 0" using assms by (auto simp: hd_conv_nth)
  have "\<not> (ucast (ci_buffer s ! 0) :: u32) < 0x80"
    using varint64_hd [OF True] assms unat_byte [of "ci_buffer s ! 0"] c
    by (simp add: word_less_nat_alt flip: c(2))
  then show ?thesis using varint64_truncated [OF True assms] c by (simp add: ReadVarint32_def BufferSize_def)
next
  case False
  then have "unat v < 0x80" by (simp add: word_le_nat_alt)
  then have "v = ucast (ucast v :: u32)"
    by (simp add: word_unat_eq_iff unsigned_ucast_eq unsigned_take_bit_eq take_bit_nat_eq_self)
  then have "ci_buffer s = varint (ucast v) @ rest" using assms by (metis varint64_ucast)
  then show ?thesis by (rule format.ReadVarint32_written)
qed

end

lemmas read_defs = ReadPrimitive_int32_def
  ReadPrimitive_int64_def
  ReadPrimitive_uint32_def
  ReadPrimitive_uint64_def
  ReadPrimitive_sint32_def
  ReadPrimitive_sint64_def
  ReadPrimitive_fixed32_def
  ReadPrimitive_fixed64_def
  ReadPrimitive_sfixed32_def
  ReadPrimitive_sfixed64_def
  ReadPrimitive_float_def
  ReadPrimitive_double_def
  ReadPrimitive_bool_def
  ReadPrimitive_enum_def

lemmas write_defs = WriteInt32NoTagToArray_def
  WriteInt64NoTagToArray_def
  WriteUInt32NoTagToArray_def
  WriteUInt64NoTagToArray_def
  WriteSInt32NoTagToArray_def
  WriteSInt64NoTagToArray_def
  WriteFixed32NoTagToArray_def
  WriteFixed64NoTagToArray_def
  WriteSFixed32NoTagToArray_def
  WriteSFixed64NoTagToArray_def
  WriteFloatNoTagToArray_def
  WriteDoubleNoTagToArray_def
  WriteBoolNoTagToArray_def
  WriteEnumNoTagToArray_def
  WriteLittleEndian32ToArray_def WriteLittleEndian64ToArray_def EncodeFloat_def EncodeDouble_def DecodeFloat_def DecodeDouble_def

lemmas size_defs = Int32Size_def Int64Size_def UInt32Size_def UInt64Size_def SInt32Size_def SInt64Size_def EnumSize_def
  kFixed32Size_def kFixed64Size_def kSFixed32Size_def kSFixed64Size_def kFloatSize_def kDoubleSize_def kBoolSize_def

sublocale wide_progress \<subseteq> int32_reader: scalar_reader "ReadPrimitive_int32 W"
  by unfold_locales (auto simp: read_defs dest!: primitive_consumes split: prod.splits)

sublocale wide_progress \<subseteq> int64_reader: scalar_reader "ReadPrimitive_int64 W"
  by unfold_locales (auto simp: read_defs dest!: primitive_consumes split: prod.splits)

sublocale wide_progress \<subseteq> uint32_reader: scalar_reader "ReadPrimitive_uint32 (wl_lib W)"
  by unfold_locales (auto simp: read_defs dest!: primitive_consumes split: prod.splits)

sublocale wide_progress \<subseteq> uint64_reader: scalar_reader "ReadPrimitive_uint64 W"
  by unfold_locales (auto simp: read_defs dest!: primitive_consumes split: prod.splits)

sublocale wide_progress \<subseteq> sint32_reader: scalar_reader "ReadPrimitive_sint32 W"
  by unfold_locales (auto simp: read_defs dest!: primitive_consumes split: prod.splits)

sublocale wide_progress \<subseteq> sint64_reader: scalar_reader "ReadPrimitive_sint64 W"
  by unfold_locales (auto simp: read_defs dest!: primitive_consumes split: prod.splits)

sublocale wide_progress \<subseteq> fixed32_reader: scalar_reader "ReadPrimitive_fixed32 W"
  by unfold_locales (auto simp: read_defs dest!: primitive_consumes split: prod.splits)

sublocale wide_progress \<subseteq> fixed64_reader: scalar_reader "ReadPrimitive_fixed64 W"
  by unfold_locales (auto simp: read_defs dest!: primitive_consumes split: prod.splits)

sublocale wide_progress \<subseteq> sfixed32_reader: scalar_reader "ReadPrimitive_sfixed32 W"
  by unfold_locales (auto simp: read_defs dest!: primitive_consumes split: prod.splits)

sublocale wide_progress \<subseteq> sfixed64_reader: scalar_reader "ReadPrimitive_sfixed64 W"
  by unfold_locales (auto simp: read_defs dest!: primitive_consumes split: prod.splits)

sublocale wide_progress \<subseteq> float_reader: scalar_reader "ReadPrimitive_float W"
  by unfold_locales (auto simp: read_defs dest!: primitive_consumes split: prod.splits)

sublocale wide_progress \<subseteq> double_reader: scalar_reader "ReadPrimitive_double W"
  by unfold_locales (auto simp: read_defs dest!: primitive_consumes split: prod.splits)

sublocale wide_progress \<subseteq> bool_reader: scalar_reader "ReadPrimitive_bool W"
  by unfold_locales (auto simp: read_defs dest!: primitive_consumes split: prod.splits)

sublocale wide_progress \<subseteq> enum_reader: scalar_reader "ReadPrimitive_enum W"
  by unfold_locales (auto simp: read_defs dest!: primitive_consumes split: prod.splits)

context wide_format
begin

lemma sign_extended:
  "WriteVarint32SignExtendedToArray W v target = target @ varint64 (scast v)"
  "VarintSize32SignExtended (wl_lib W) v = int (length (varint64 (scast v)))"
  using scast_positive [of v]
  by (simp_all add: WriteVarint32SignExtendedToArray_def VarintSize32SignExtended_def varint64_written varint64_ucast
    WriteVarint32ToArray_eq length_varint64_negative format.VarintSize32_eq)

lemma ucast_scast: "ucast (scast v :: u64) = v" for v :: u32
  by (rule bit_word_eqI) (auto simp: bit_simps)

lemma fixed_written:
  "ci_buffer s = le32 u @ rest \<Longrightarrow> ReadLittleEndian32 W s = (True, u, s\<lparr>ci_buffer := rest\<rparr>)"
  "ci_buffer s = le64 v @ rest \<Longrightarrow> ReadLittleEndian64 W s = (True, v, s\<lparr>ci_buffer := rest\<rparr>)"
  using le64.enc_width le64.dec_enc
  by (simp_all add: ReadLittleEndian32_def ReadLittleEndian64_def BufferSize_def Advance_def of_le32_le32)

lemma ReadVarint64_small: "ci_buffer s = varint u @ rest \<Longrightarrow> ReadVarint64 W s = (True, ucast u, s\<lparr>ci_buffer := rest\<rparr>)"
  by (rule ReadVarint64_written) (simp add: varint64_ucast)

lemma small_encodings: "le32 u \<noteq> []" "le64 v \<noteq> []" "length (varint (if b then 1 else 0)) = 1"
  using length_le(2) [of u] le64.enc_width [of v] by (auto simp: varint_small simp del: length_le)

lemmas scalar_written = WriteVarint32ToArray_eq varint64_written sign_extended format.VarintSize32_eq varint64_size ZigZag_eq

lemmas scalar_read = ReadVarint64_written ReadVarint64_small ReadVarint32_truncated format.ReadVarint32_written fixed_written ucast_scast
  zagzig_zigzag

end

sublocale wide_format \<subseteq> int32: scalar_codec "ReadPrimitive_int32 W" "WriteInt32NoTagToArray W" "Int32Size W"
  by unfold_locales (auto simp: read_defs write_defs size_defs scalar_written scalar_read le64.enc_width small_encodings)

sublocale wide_format \<subseteq> int64: scalar_codec "ReadPrimitive_int64 W" "WriteInt64NoTagToArray W" "Int64Size W"
  by unfold_locales (auto simp: read_defs write_defs size_defs scalar_written scalar_read le64.enc_width small_encodings)

sublocale wide_format \<subseteq> uint32: scalar_codec "ReadPrimitive_uint32 (wl_lib W)" WriteUInt32NoTagToArray "UInt32Size (wl_lib W)"
  by unfold_locales (auto simp: read_defs write_defs size_defs scalar_written scalar_read le64.enc_width small_encodings)

sublocale wide_format \<subseteq> uint64: scalar_codec "ReadPrimitive_uint64 W" "WriteUInt64NoTagToArray W" "UInt64Size W"
  by unfold_locales (auto simp: read_defs write_defs size_defs scalar_written scalar_read le64.enc_width small_encodings)

sublocale wide_format \<subseteq> sint32: scalar_codec "ReadPrimitive_sint32 W" WriteSInt32NoTagToArray "SInt32Size W"
  by unfold_locales (auto simp: read_defs write_defs size_defs scalar_written scalar_read le64.enc_width small_encodings)

sublocale wide_format \<subseteq> sint64: scalar_codec "ReadPrimitive_sint64 W" "WriteSInt64NoTagToArray W" "SInt64Size W"
  by unfold_locales (auto simp: read_defs write_defs size_defs scalar_written scalar_read le64.enc_width small_encodings)

sublocale wide_format \<subseteq> fixed32: scalar_codec "ReadPrimitive_fixed32 W" WriteFixed32NoTagToArray "\<lambda>_. kFixed32Size"
  by unfold_locales (auto simp: read_defs write_defs size_defs scalar_written scalar_read le64.enc_width small_encodings)

sublocale wide_format \<subseteq> fixed64: scalar_codec "ReadPrimitive_fixed64 W" WriteFixed64NoTagToArray "\<lambda>_. kFixed64Size"
  by unfold_locales (auto simp: read_defs write_defs size_defs scalar_written scalar_read le64.enc_width small_encodings)

sublocale wide_format \<subseteq> sfixed32: scalar_codec "ReadPrimitive_sfixed32 W" WriteSFixed32NoTagToArray "\<lambda>_. kSFixed32Size"
  by unfold_locales (auto simp: read_defs write_defs size_defs scalar_written scalar_read le64.enc_width small_encodings)

sublocale wide_format \<subseteq> sfixed64: scalar_codec "ReadPrimitive_sfixed64 W" WriteSFixed64NoTagToArray "\<lambda>_. kSFixed64Size"
  by unfold_locales (auto simp: read_defs write_defs size_defs scalar_written scalar_read le64.enc_width small_encodings)

sublocale wide_format \<subseteq> float: scalar_codec "ReadPrimitive_float W" WriteFloatNoTagToArray "\<lambda>_. kFloatSize"
  by unfold_locales (auto simp: read_defs write_defs size_defs scalar_written scalar_read le64.enc_width small_encodings)

sublocale wide_format \<subseteq> double: scalar_codec "ReadPrimitive_double W" WriteDoubleNoTagToArray "\<lambda>_. kDoubleSize"
  by unfold_locales (auto simp: read_defs write_defs size_defs scalar_written scalar_read le64.enc_width small_encodings)

sublocale wide_format \<subseteq> bool: scalar_codec "ReadPrimitive_bool W" WriteBoolNoTagToArray "\<lambda>_. kBoolSize"
  by unfold_locales (auto simp: read_defs write_defs size_defs scalar_written scalar_read le64.enc_width small_encodings)

sublocale wide_format \<subseteq> enum: scalar_codec "ReadPrimitive_enum W" "WriteEnumNoTagToArray W" "EnumSize W"
  by unfold_locales (auto simp: read_defs write_defs size_defs scalar_written scalar_read le64.enc_width small_encodings)

text \<open>The instances collected.\<close>

context wide_progress
begin

lemmas scalar_readers = int32_reader.scalar_reader_axioms
  int64_reader.scalar_reader_axioms
  uint32_reader.scalar_reader_axioms
  uint64_reader.scalar_reader_axioms
  sint32_reader.scalar_reader_axioms
  sint64_reader.scalar_reader_axioms
  fixed32_reader.scalar_reader_axioms
  fixed64_reader.scalar_reader_axioms
  sfixed32_reader.scalar_reader_axioms
  sfixed64_reader.scalar_reader_axioms
  float_reader.scalar_reader_axioms
  double_reader.scalar_reader_axioms
  bool_reader.scalar_reader_axioms
  enum_reader.scalar_reader_axioms

end

context wide_format
begin

lemmas scalar_codecs = int32.scalar_codec_axioms
  int64.scalar_codec_axioms
  uint32.scalar_codec_axioms
  uint64.scalar_codec_axioms
  sint32.scalar_codec_axioms
  sint64.scalar_codec_axioms
  fixed32.scalar_codec_axioms
  fixed64.scalar_codec_axioms
  sfixed32.scalar_codec_axioms
  sfixed64.scalar_codec_axioms
  float.scalar_codec_axioms
  double.scalar_codec_axioms
  bool.scalar_codec_axioms
  enum.scalar_codec_axioms

end

chapter \<open>Packed fields\<close>

text \<open>
  Reading packed fields: the loop returns on every input, values are appended as they were written, and
  the reader for types of fixed width, which copies their bytes, appends the same.
\<close>

section \<open>The packed loop\<close>

text \<open>A field that takes more values.\<close>

definition takes :: "'e element_type \<Rightarrow> int \<Rightarrow> 'e repeated_field \<Rightarrow> nat \<Rightarrow> bool" where
  "takes E N f n \<longleftrightarrow> field_ok E f \<and> reachable_size E N \<and> rf_current_size f + int n \<le> N"

lemma takes_Add:
  assumes "takes E N f (Suc n)"
  shows "\<exists>f'. RepeatedField_Add E (Outside v) f = Inr f' \<and> takes E N f' n \<and> field_contents f' = field_contents f @ [v]"
proof -
  obtain f' where f': "RepeatedField_Add E (Outside v) f = Inr f'" "field_ok E f'" "field_contents f' = field_contents f @ [v]"
    using Add_total [of E f N v] assms by (auto simp: takes_def)
  have "rf_current_size f' = rf_current_size f + 1"
    using field_okD(5) [OF f'(2)] field_okD(5) [of E f] f'(3) assms by (simp add: takes_def)
  then show ?thesis using f' assms by (auto simp: takes_def)
qed

text \<open>
  What reading may do to a field, whatever the bytes: it returns, the field stays well formed and keeps
  its elements, and it gets at most as many new ones as bytes were read.
\<close>

definition bounded_read ::
  "'e element_type \<Rightarrow> coded_input \<Rightarrow> 'e repeated_field \<Rightarrow> (bool \<times> coded_input \<times> 'e repeated_field) res option \<Rightarrow> bool" where
  "bounded_read E s f r \<longleftrightarrow> (\<exists>ok s' f' vs. r = Some (Inr (ok, s', f')) \<and> field_ok E f' \<and>
     field_contents f' = field_contents f @ vs \<and> length vs + unread s' \<le> unread s)"

lemma bounded_readI:
  "field_ok E f' \<Longrightarrow> field_contents f' = field_contents f @ vs \<Longrightarrow> length vs + unread s' \<le> unread s \<Longrightarrow>
    bounded_read E s f (Some (Inr (ok, s', f')))"
  by (auto simp: bounded_read_def)

lemma bounded_read_same: "field_ok E f \<Longrightarrow> unread s' \<le> unread s \<Longrightarrow> bounded_read E s f (Some (Inr (ok, s', f)))"
  by (rule bounded_readI [of _ _ _ "[]"]) simp_all

lemma bounded_read_after:
  assumes "bounded_read E s1 f1 r" "field_contents f1 = field_contents f @ us" "length us + unread s1 \<le> unread s"
  shows "bounded_read E s f r"
  using assms unfolding bounded_read_def by (elim exE conjE) (intro exI conjI, assumption, assumption, simp, simp)

context scalar_reader
begin

lemma packed_loop_returns: "\<exists>r. packed_loop W read E s f = Some r"
proof (induction "unread s" arbitrary: s f rule: less_induct)
  case less
  obtain ok v s1 where r: "read s = (ok, v, s1)" by (metis prod_cases3)
  show ?case
  proof (cases "0 < wl_BytesUntilLimit W s \<and> ok")
    case True
    then have "unread s1 < unread s" using consumes [OF r] by simp
    then show ?thesis using less r True by (subst packed_loop.simps) (auto split: sum.split)
  qed (subst packed_loop.simps, auto simp: r)
qed

lemma packed_loop_bounded:
  "takes E N f (unread s) \<Longrightarrow> bounded_read E s f (packed_loop W read E s f)"
proof (induction "unread s" arbitrary: s f rule: less_induct)
  case less
  obtain ok v s1 where r: "read s = (ok, v, s1)" by (metis prod_cases3)
  note c = consumes [OF r]
  have f: "field_ok E f" using less.prems by (simp add: takes_def)
  show ?case
  proof (cases "0 < wl_BytesUntilLimit W s \<and> ok")
    case True
    then have "Suc (unread s1) \<le> unread s" using c by simp
    then have t: "takes E N f (Suc (unread s1))" using less.prems by (simp add: takes_def)
    obtain f1 where f1: "RepeatedField_Add E (Outside v) f = Inr f1" "takes E N f1 (unread s1)"
      "field_contents f1 = field_contents f @ [v]" using takes_Add [OF t] by blast
    have "bounded_read E s1 f1 (packed_loop W read E s1 f1)" using less.hyps [of s1 f1] f1(2) True c by simp
    moreover have "packed_loop W read E s f = packed_loop W read E s1 f1"
      using r True f1(1) by (subst packed_loop.simps) simp
    ultimately show ?thesis using bounded_read_after [of E s1 f1 _ f "[v]" s] f1(3) True c by simp
  next
    case False
    then have "packed_loop W read E s f = Some (Inr (if 0 < wl_BytesUntilLimit W s then (False, s1, f) else (True, s, f)))"
      using r by (subst packed_loop.simps) auto
    then show ?thesis using c f by (auto intro: bounded_read_same)
  qed
qed

lemma read_each_bounded:
  "takes E N f (unread s) \<Longrightarrow> bounded_read E s f (Some (read_each read E n s f))"
proof (induction n arbitrary: s f)
  case (Suc n)
  obtain ok v s1 where r: "read s = (ok, v, s1)" by (metis prod_cases3)
  note c = consumes [OF r]
  show ?case
  proof (cases ok)
    case True
    then have t: "takes E N f (Suc (unread s1))" using Suc.prems c by (simp add: takes_def)
    obtain f1 where f1: "RepeatedField_Add E (Outside v) f = Inr f1" "takes E N f1 (unread s1)"
      "field_contents f1 = field_contents f @ [v]" using takes_Add [OF t] by blast
    then show ?thesis using bounded_read_after [OF Suc.IH [OF f1(2)], of f "[v]" s] True r c by simp
  qed (use r c Suc.prems in \<open>simp add: takes_def bounded_read_same\<close>)
qed (simp add: takes_def bounded_read_same)

lemma packed_bounded:
  assumes "wide_bounded W" and "takes E N f (unread s)"
  shows "bounded_read E s f (ReadPackedPrimitive W read E s f)"
proof -
  obtain ok n s1 where r: "ReadVarint32 (wl_lib W) s = (ok, n, s1)" by (metis prod_cases3)
  have s1: "unread s1 \<le> unread s"
    using wide_progress.ReadVarint32_consumes [OF wide_bounded.axioms(1) [OF assms(1)] r] by simp
  obtain limit s2 where p: "wl_PushLimit W (sint n) s1 = (limit, s2)" by fastforce
  have s2: "unread s2 \<le> unread s1" using wide_bounded.limit_bounded(1) [OF assms(1), of "sint n" s1] p by simp
  have "takes E N f (unread s2)" using assms(2) s1 s2 by (simp add: takes_def)
  then have "bounded_read E s2 f (packed_loop W read E s2 f)" by (rule packed_loop_bounded)
  then obtain ok' s3 f' vs where l: "packed_loop W read E s2 f = Some (Inr (ok', s3, f'))" "field_ok E f'"
    "field_contents f' = field_contents f @ vs" "length vs + unread s3 \<le> unread s2"
    unfolding bounded_read_def by blast
  have "unread (if ok' then wl_PopLimit W limit s3 else s3) \<le> unread s3"
    using wide_bounded.limit_bounded(2) [OF assms(1)] by simp
  then show ?thesis
    using r p l s1 s2 assms(2) by (cases ok) (simp_all add: ReadPackedPrimitive_def takes_def bounded_read_same bounded_readI [of _ _ _ vs])
qed

end

lemma at_limit_eats: "at_limit s \<Longrightarrow> ci_buffer s = a @ b \<Longrightarrow> at_limit (s\<lparr>ci_buffer := b\<rparr>)"
  by (rule at_limit_shorter) simp_all

text \<open>The values one after another.\<close>

definition encoded :: "('e \<Rightarrow> bytes \<Rightarrow> bytes) \<Rightarrow> 'e list \<Rightarrow> bytes" where
  "encoded enc vs = concat (map (\<lambda>v. enc v []) vs)"

lemma encoded_simps [simp]: "encoded enc [] = []" "encoded enc (v # vs) = enc v [] @ encoded enc vs"
  by (simp_all add: encoded_def)

context scalar_codec
begin

lemma packed_loop_all:
  assumes until: "\<And>s. at_limit s \<Longrightarrow> wl_BytesUntilLimit W s = int (length (ci_buffer s))"
  shows "ci_buffer s = encoded enc vs \<Longrightarrow> at_limit s \<Longrightarrow> takes E N f (length vs) \<Longrightarrow>
    \<exists>f'. packed_loop W read E s f = Some (Inr (True, s\<lparr>ci_buffer := []\<rparr>, f')) \<and> field_ok E f' \<and>
      field_contents f' = field_contents f @ vs"
proof (induction vs arbitrary: s f)
  case Nil
  then show ?case using until [of s] by (subst packed_loop.simps) (auto simp: takes_def)
next
  case (Cons v vs)
  have r: "read s = (True, v, s\<lparr>ci_buffer := encoded enc vs\<rparr>)" using Cons.prems(1) by (intro read_back) simp
  have "0 < length (enc v [])" using enc_not_Nil [of v] by simp
  then have "0 < wl_BytesUntilLimit W s" using until [OF Cons.prems(2)] Cons.prems(1) by (simp add: add_pos_nonneg)
  moreover obtain f1 where f1: "RepeatedField_Add E (Outside v) f = Inr f1" "takes E N f1 (length vs)"
    "field_contents f1 = field_contents f @ [v]" using takes_Add [of E N f "length vs" v] Cons.prems(3) by auto
  moreover have "at_limit (s\<lparr>ci_buffer := encoded enc vs\<rparr>)"
    using at_limit_eats [OF Cons.prems(2)] Cons.prems(1) by simp
  ultimately show ?case
    using Cons.IH [of "s\<lparr>ci_buffer := encoded enc vs\<rparr>" f1] r by (subst packed_loop.simps) auto
qed

lemma read_each_all:
  "ci_buffer s = encoded enc vs @ rest \<Longrightarrow> takes E N f (length vs) \<Longrightarrow>
    \<exists>f'. read_each read E (length vs) s f = Inr (True, s\<lparr>ci_buffer := rest\<rparr>, f') \<and> field_ok E f' \<and>
      field_contents f' = field_contents f @ vs"
proof (induction vs arbitrary: s f)
  case (Cons v vs)
  have r: "read s = (True, v, s\<lparr>ci_buffer := encoded enc vs @ rest\<rparr>)" using Cons.prems(1) by (intro read_back) simp
  obtain f1 where f1: "RepeatedField_Add E (Outside v) f = Inr f1" "takes E N f1 (length vs)"
    "field_contents f1 = field_contents f @ [v]" using takes_Add [of E N f "length vs" v] Cons.prems(2) by auto
  then show ?case using Cons.IH [of "s\<lparr>ci_buffer := encoded enc vs @ rest\<rparr>" f1] r by auto
qed (auto simp: takes_def)

end

text \<open>The whole field: its length, its values under a limit, and the limit taken away.\<close>

context wide_format
begin

lemma packed_read:
  assumes C: "scalar_codec read enc size_of" and s: "at_limit s"
    and b: "ci_buffer s = varint (of_nat (length (encoded enc vs))) @ encoded enc vs @ rest"
    and len: "length (encoded enc vs) < 2 ^ 31" and f: "takes E N f (length vs)"
  shows "\<exists>e f'. ReadPackedPrimitive W read E s f = Some (Inr (True, s\<lparr>ci_buffer := rest, ci_end := e\<rparr>, f')) \<and>
    field_ok E f' \<and> field_contents f' = field_contents f @ vs"
proof -
  let ?n = "length (encoded enc vs)" let ?s1 = "s\<lparr>ci_buffer := encoded enc vs @ rest\<rparr>"
  let ?s2 = "?s1\<lparr>ci_buffer := encoded enc vs, ci_after := rest @ ci_after s,
    ci_limit := ci_total s - int (length (rest @ ci_after s))\<rparr>"
  have r: "ReadVarint32 (wl_lib W) s = (True, of_nat ?n, ?s1)" by (rule format.ReadVarint32_written [OF b])
  have n: "sint (of_nat ?n :: u32) = int ?n" using len by (simp add: signed_of_nat signed_take_bit_int_eq_self)
  have s1: "at_limit ?s1" by (rule at_limit_eats [OF s b])
  have p: "wl_PushLimit W (int ?n) ?s1 = (ci_limit s, ?s2)" using limit_pushed64 [of ?n ?s1] s1 by simp
  have s2: "at_limit ?s2" using s1 by (simp add: at_limit_def unread_def)
  obtain f' where f': "packed_loop W read E ?s2 f = Some (Inr (True, ?s2\<lparr>ci_buffer := []\<rparr>, f'))" "field_ok E f'"
    "field_contents f' = field_contents f @ vs"
    using scalar_codec.packed_loop_all [OF C until_limit, of ?s2 vs E N f] s2 f by auto
  have "at_limit (?s2\<lparr>ci_buffer := []\<rparr>)" by (rule at_limit_shorter [OF s2]) simp
  moreover have limit: "ci_limit s = ci_total s - int (length (ci_after s))" using s by (simp add: at_limit_def)
  ultimately obtain e where "wl_PopLimit W (ci_limit s) (?s2\<lparr>ci_buffer := []\<rparr>) =
      s\<lparr>ci_buffer := rest, ci_limit := ci_limit s, ci_end := e\<rparr>"
    using limit_popped64 [of "?s2\<lparr>ci_buffer := []\<rparr>" rest "ci_after s" "ci_limit s"] by auto
  then have "wl_PopLimit W (ci_limit s) (?s2\<lparr>ci_buffer := []\<rparr>) = s\<lparr>ci_buffer := rest, ci_end := e\<rparr>" by simp
  then show ?thesis using r n p f' by (auto simp: ReadPackedPrimitive_def)
qed

end

section \<open>Packed values of fixed width\<close>

lemma chunk:
  assumes "byte_codec w to_bytes of_bytes"
  shows "k < length vs \<Longrightarrow> of_bytes (take w (drop (k * w) (concat (map to_bytes vs) @ x))) = vs ! k"
proof (induction vs arbitrary: k)
  case (Cons v vs)
  note l = byte_codec.enc_width [OF assms] byte_codec.dec_enc [OF assms]
  then show ?case using Cons by (cases k) simp_all
qed simp

lemma length_chunks: "byte_codec w to_bytes of_bytes \<Longrightarrow> length (concat (map to_bytes vs)) = length vs * w"
  by (induction vs) (simp_all add: byte_codec.enc_width)

lemma overwrite_values:
  assumes B: "byte_codec (et_sizeof E) to_bytes of_bytes" and n: "start + length vs \<le> length es"
  shows "take (start + length vs) (overwrite E to_bytes of_bytes start (concat (map to_bytes vs)) es) = take start es @ vs"
    "length (overwrite E to_bytes of_bytes start (concat (map to_bytes vs)) es) = length es"
proof -
  define x where "x = drop (length (concat (map to_bytes vs))) (concat (map to_bytes (drop start es)))"
  have "overwrite E to_bytes of_bytes start (concat (map to_bytes vs)) es = take start es @
      map (\<lambda>k. of_bytes (take (et_sizeof E) (drop (k * et_sizeof E) (concat (map to_bytes vs) @ x)))) [0..<length es - start]"
    by (simp only: overwrite_def Let_def x_def)
  moreover have "take (length vs) (map (\<lambda>k. of_bytes (take (et_sizeof E) (drop (k * et_sizeof E) (concat (map to_bytes vs) @ x))))
      [0..<length es - start]) = vs"
    using n by (intro nth_equalityI) (simp_all add: chunk [OF B] take_map del: take_append drop_append)
  ultimately show "take (start + length vs) (overwrite E to_bytes of_bytes start (concat (map to_bytes vs)) es) = take start es @ vs"
    "length (overwrite E to_bytes of_bytes start (concat (map to_bytes vs)) es) = length es"
    using n add_leD1 [OF n] by (simp_all add: min.absorb2)
qed

lemma overwrite_field:
  assumes B: "byte_codec (et_sizeof E) to_bytes of_bytes" and f: "field_ok E f" "field_contents f = xs @ ys" "length ys = length vs"
  defines "g \<equiv> f\<lparr>rf_rep := map_option (\<lambda>p. p\<lparr>rep_elements :=
    overwrite E to_bytes of_bytes (length xs) (concat (map to_bytes vs)) (rep_elements p)\<rparr>) (rf_rep f)\<rparr>"
  shows "field_ok E g" "field_contents g = xs @ vs"
proof -
  have n: "length xs + length vs \<le> length (block f)" "nat (rf_current_size f) = length xs + length vs"
    using field_okD(3,4) [OF f(1)] f(2,3) by simp_all
  have b: "block g = (if rf_rep f = None then [] else overwrite E to_bytes of_bytes (length xs) (concat (map to_bytes vs)) (block f))"
    "rf_current_size g = rf_current_size f" "rf_total_size g = rf_total_size f"
    by (auto simp: g_def block_def)
  have l: "length (block g) = length (block f)"
    using overwrite_values(2) [OF B n(1)] by (simp add: b) (simp add: block_def)
  then show "field_ok E g" using f(1) b by (simp add: field_ok_def)
  have "take (length xs) (block f) = xs" using f(2) n(2) by (simp add: field_contents_def) (metis append_eq_conv_conj min.absorb1 le_add1 take_take)
  moreover have "rf_rep f = None \<Longrightarrow> xs = [] \<and> vs = []" using n(1) by (simp add: block_def)
  ultimately show "field_contents g = xs @ vs"
    using overwrite_values(1) [OF B n(1)] n(2) by (auto simp: field_contents_def b)
qed

lemma entry_count:
  assumes "0 < w" "w < 2 ^ 32" "n * w < 2 ^ 32"
  shows "(of_nat (n * w) :: u32) div of_nat w = of_nat n" "unat (of_nat n :: u32) = n"
proof -
  have "n \<le> n * w" using assms(1) by simp
  then have "n < 2 ^ 32" using assms(3) by (rule le_less_trans)
  then have u: "unat (of_nat n :: u32) = n" "unat (of_nat (n * w) :: u32) = n * w" "unat (of_nat w :: u32) = w"
    using assms by (simp_all add: unsigned_of_nat take_bit_nat_eq_self del: of_nat_mult)
  then have "unat ((of_nat (n * w) :: u32) div of_nat w) = n" using assms(1) by (simp add: unat_div del: of_nat_mult)
  then show "(of_nat (n * w) :: u32) div of_nat w = of_nat n" "unat (of_nat n :: u32) = n"
    using u by (metis word_unat_eq_iff, simp)
qed

context wide_format
begin

lemma packed_fixed_read:
  assumes B: "byte_codec (et_sizeof E) to_bytes of_bytes" and s: "at_limit s"
    and b: "ci_buffer s = varint (of_nat (length (concat (map to_bytes vs)))) @ concat (map to_bytes vs) @ rest"
    and len: "length (concat (map to_bytes vs)) < 2 ^ 31" and f: "takes E N f (length vs)"
  shows "\<exists>f'. ReadPackedFixedSizePrimitive W read to_bytes of_bytes E zero s f = Inr (True, s\<lparr>ci_buffer := rest\<rparr>, f') \<and>
    field_ok E f' \<and> field_contents f' = field_contents f @ vs"
proof -
  let ?bs = "concat (map to_bytes vs)" let ?n = "length ?bs" let ?w = "et_sizeof E" let ?s1 = "s\<lparr>ci_buffer := ?bs @ rest\<rparr>"
  have l: "?n = length vs * ?w" by (rule length_chunks [OF B])
  have N: "reachable_size E N" "field_ok E f" "rf_current_size f + int (length vs) \<le> N" using f by (simp_all add: takes_def)
  have w: "0 < ?w" "?w < 2 ^ 32"
  proof -
    have "int ?w * 1 \<le> int ?w * (2 * N)" using N(1) by (intro mult_left_mono) (simp_all add: reachable_size_def)
    moreover have "int (kRepHeaderSize E) + int ?w * (2 * N) < 2 ^ 32" using N(1) by (simp add: reachable_size_def block_bytes_def)
    ultimately have "int ?w < 2 ^ 32" by linarith
    then show "?w < 2 ^ 32" by simp
    show "0 < ?w" using N(1) by (simp add: reachable_size_def)
  qed
  have r: "ReadVarint32 (wl_lib W) s = (True, of_nat ?n, ?s1)" by (rule format.ReadVarint32_written [OF b])
  have c: "(of_nat ?n :: u32) div of_nat ?w = of_nat (length vs)" "of_nat (length vs) * of_nat ?w = (of_nat ?n :: u32)"
    using entry_count(1) [OF w, of "length vs"] len l by simp_all
  have s1: "at_limit ?s1" by (rule at_limit_eats [OF s b])
  have u: "uint (of_nat ?n :: u32) = int ?n" "sint (of_nat ?n :: u32) = int ?n"
    using len by (simp_all add: unsigned_of_nat take_bit_nat_eq_self signed_of_nat signed_take_bit_int_eq_self)
  have lim: "uint (of_nat ?n :: u32) \<le> (if wl_BytesUntilTotalBytesLimit W ?s1 = - 1 then wl_BytesUntilLimit W ?s1
      else min (wl_BytesUntilTotalBytesLimit W ?s1) (wl_BytesUntilLimit W ?s1))"
    using until_limit [OF s1] until_total [OF s1] unfolding u(1) by auto
  have z: "0 \<le> rf_current_size f" "rf_current_size f < 2 ^ 31" "rf_current_size f + int (length vs) < 2 ^ 31"
    using N field_okD(1) [OF N(2)] by (simp_all add: reachable_size_def)
  have e: "sint (word_of_int (RepeatedField_size f) + of_nat (length vs) :: u32) = rf_current_size f + int (length vs)"
    "unat (word_of_int (RepeatedField_size f) :: u32) = length (field_contents f)"
  proof -
    have "word_of_int (RepeatedField_size f) + of_nat (length vs) = (word_of_int (rf_current_size f + int (length vs)) :: u32)"
      by (simp add: RepeatedField_size_def)
    then show "sint (word_of_int (RepeatedField_size f) + of_nat (length vs) :: u32) = rf_current_size f + int (length vs)"
      using z by (simp only: signed_of_int) (simp add: signed_take_bit_int_eq_self)
    show "unat (word_of_int (RepeatedField_size f) :: u32) = length (field_contents f)"
      using z field_okD(4) [OF N(2)] by (simp add: RepeatedField_size_def unsigned_of_int take_bit_int_eq_self)
  qed
  obtain f1 where f1: "RepeatedField_Resize E (rf_current_size f + int (length vs)) (Outside zero) f = Inr f1" "field_ok E f1"
    "field_contents f1 = field_contents f @ replicate (length vs) zero"
    using Resize_total [OF N(2,1) _ N(3), of zero] z(1) field_okD(4) [OF N(2)] by auto
  have "wl_ReadRaw W (int ?n) ?s1 = (True, ?bs, s\<lparr>ci_buffer := rest\<rparr>)" using raw_read [of ?n ?s1] by simp
  then have "ReadPackedFixedSizePrimitive W read to_bytes of_bytes E zero s f = Inr (True, s\<lparr>ci_buffer := rest\<rparr>,
      f1\<lparr>rf_rep := map_option (\<lambda>p. p\<lparr>rep_elements :=
        overwrite E to_bytes of_bytes (length (field_contents f)) ?bs (rep_elements p)\<rparr>) (rf_rep f1)\<rparr>)"
    using r c lim f1(1) unfolding ReadPackedFixedSizePrimitive_def by (simp only: Let_def prod.case c u e if_True simp_thms
      if_False res_bind_simps not_True_eq_False)
  then show ?thesis using overwrite_field [OF B f1(2,3)] by simp
qed

end

text \<open>
  On any bytes: the length may promise too much. Where the limit in force lies within the bytes that are
  there the field is not made larger than these.
\<close>

lemma overwrite_keeps:
  fixes f :: "'e repeated_field" and to_bytes of_bytes bs
  assumes "field_ok E f" "field_contents f = xs @ ys"
  defines "g \<equiv> f\<lparr>rf_rep := map_option (\<lambda>p. p\<lparr>rep_elements :=
    overwrite E to_bytes of_bytes (length xs) bs (rep_elements p)\<rparr>) (rf_rep f)\<rparr>"
  shows "field_ok E g" "\<exists>vs. length vs = length ys \<and> field_contents g = xs @ vs" "rf_current_size g = rf_current_size f"
proof -
  have n: "length xs + length ys = nat (rf_current_size f)" "length xs + length ys \<le> length (block f)"
    using field_okD(3,4) [OF assms(1)] assms(2) by simp_all
  have b: "block g = (if rf_rep f = None then [] else overwrite E to_bytes of_bytes (length xs) bs (block f))"
    by (auto simp: g_def block_def)
  have o: "length (overwrite E to_bytes of_bytes k bs es) = max k (length es)" if "k \<le> length es" for k and es :: "'e list"
    using that by (simp add: overwrite_def Let_def)
  have "length (block g) = length (block f)" using b o [of "length xs" "block f"] n(2) by (simp add: block_def)
  then show ok: "field_ok E g" using assms(1) by (simp add: field_ok_def g_def)
  show c: "rf_current_size g = rf_current_size f" by (simp add: g_def)
  have "take (length xs) (block f) = xs"
    using assms(2) n by (simp add: field_contents_def) (metis append_eq_conv_conj min.absorb1 le_add1 take_take)
  moreover have "rf_rep f = None \<Longrightarrow> xs = []" using n(2) by (simp add: block_def)
  ultimately have "take (length xs) (block g) = xs" by (auto simp: b overwrite_def Let_def min_def)
  then have "take (length xs) (field_contents g) = xs" using n(1) c by (simp add: field_contents_def min_def)
  then have "field_contents g = xs @ drop (length xs) (field_contents g)" by (metis append_take_drop_id)
  moreover have "length (field_contents g) = length xs + length ys" using field_okD(4) [OF ok] c n(1) by simp
  ultimately show "\<exists>vs. length vs = length ys \<and> field_contents g = xs @ vs"
    by (intro exI [of _ "drop (length xs) (field_contents g)"]) simp
qed

lemma small_sint: "0 \<le> x \<Longrightarrow> x < 2 ^ 31 \<Longrightarrow> sint (word_of_int x :: u32) = x"
  by (simp add: signed_of_int signed_take_bit_int_eq_self)

lemma small_entries:
  assumes "0 \<le> rf_current_size f" "rf_current_size f + int (unat n) < 2 ^ 31"
  shows "unat (word_of_int (RepeatedField_size f) :: u32) = nat (rf_current_size f)"
    "sint (word_of_int (RepeatedField_size f) :: u32) = rf_current_size f"
    "sint (word_of_int (RepeatedField_size f) + n :: u32) = rf_current_size f + int (unat n)"
proof -
  have b: "rf_current_size f < 2 ^ 31" using assms by linarith
  show "unat (word_of_int (RepeatedField_size f) :: u32) = nat (rf_current_size f)"
    using b assms(1) by (simp add: RepeatedField_size_def unsigned_of_int take_bit_int_eq_self)
  show "sint (word_of_int (RepeatedField_size f) :: u32) = rf_current_size f"
    using small_sint [OF assms(1) b] by (simp add: RepeatedField_size_def)
  have "word_of_int (RepeatedField_size f) + n = word_of_int (rf_current_size f + int (unat n))" by (simp add: RepeatedField_size_def)
  then show "sint (word_of_int (RepeatedField_size f) + n) = rf_current_size f + int (unat n)"
    using assms small_sint [of "rf_current_size f + int (unat n)"] by simp
qed

text \<open>Making room for a number of elements that is within bounds.\<close>

lemma Resize_more:
  assumes "takes E N f k" and "n \<le> k"
  shows "\<exists>f'. RepeatedField_Resize E (rf_current_size f + int n) (Outside zero) f = Inr f' \<and> field_ok E f' \<and>
    field_contents f' = field_contents f @ replicate n zero"
proof -
  have N: "reachable_size E N" "field_ok E f" "rf_current_size f + int k \<le> N" using assms(1) by (simp_all add: takes_def)
  note z = field_okD(1) [OF N(2)]
  have b: "0 \<le> rf_current_size f + int n" "rf_current_size f + int n \<le> N" using N(3) z assms(2) by linarith+
  have "take (nat (rf_current_size f + int n)) (field_contents f) = field_contents f"
    using z field_okD(4) [OF N(2)] by (simp only: nat_add_distrib) simp
  then show ?thesis using Resize_total [OF N(2,1) b, of zero] by auto
qed

context wide_bounded
begin

lemma packed_copy_bounded:
  fixes l n :: u32
  assumes f: "takes E N f (unread s)" and s1: "unread s1 \<le> unread s" and n: "unat n \<le> unat l" and small: "unat l \<le> unread s"
  shows "bounded_read E s f (Some (res_bind (RepeatedField_Resize E (sint (word_of_int (RepeatedField_size f) + n :: u32)) (Outside zero) f) (\<lambda>f1.
      let (ok1, bs, s2) = wl_ReadRaw W (sint l) s1;
          f2 = f1\<lparr>rf_rep := map_option (\<lambda>p. p\<lparr>rep_elements :=
            overwrite E to_bytes of_bytes (unat (word_of_int (RepeatedField_size f) :: u32)) bs (rep_elements p)\<rparr>) (rf_rep f1)\<rparr>
      in if \<not> ok1 then Inr (False, s2, RepeatedField_Truncate (sint (word_of_int (RepeatedField_size f) :: u32)) f2)
         else Inr (True, s2, f2))))"
proof -
  have N: "reachable_size E N" "field_ok E f" "rf_current_size f + int (unread s) \<le> N" using f by (simp_all add: takes_def)
  note z = field_okD(1) [OF N(2)]
  let ?k = "length (field_contents f)"
  have k: "nat (rf_current_size f) = ?k" "int ?k = rf_current_size f" using field_okD(4,5) [OF N(2)] by simp_all
  have N31: "2 * N < 2 ^ 31" using N(1) by (simp add: reachable_size_def)
  have i: "unat n \<le> unread s" using n small by (rule le_trans)
  then have "int (unat n) \<le> int (unread s)" "int (unat l) \<le> int (unread s)" using small by (simp_all only: of_nat_le_iff)
  then have l: "int (unat l) < 2 ^ 31" and b: "rf_current_size f + int (unat n) < 2 ^ 31" using N(3) N31 z by linarith+
  have s: "sint l = int (unat l)" using small_sint [of "int (unat l)"] l by simp
  note c = small_entries [OF z b, unfolded k(1)]
  obtain f1 where f1: "RepeatedField_Resize E (rf_current_size f + int (unat n)) (Outside zero) f = Inr f1" "field_ok E f1"
    "field_contents f1 = field_contents f @ replicate (unat n) zero" using Resize_more [OF f i] by blast
  obtain ok1 bs s2 where raw: "wl_ReadRaw W (int (unat l)) s1 = (ok1, bs, s2)" by (metis prod_cases3)
  note eat = raw_consumes [OF raw]
  let ?g = "f1\<lparr>rf_rep := map_option (\<lambda>p. p\<lparr>rep_elements := overwrite E to_bytes of_bytes ?k bs (rep_elements p)\<rparr>) (rf_rep f1)\<rparr>"
  note g = overwrite_keeps [OF f1(2,3), of to_bytes of_bytes bs]
  show ?thesis
  proof (cases ok1)
    case True
    then show ?thesis using g(1,2) f1(1) raw s c eat s1 n by (auto intro!: bounded_readI)
  next
    case False
    obtain vs where vs: "field_contents ?g = field_contents f @ vs" using g(2) by blast
    then have le: "rf_current_size f \<le> rf_current_size ?g" using field_okD(5) [OF g(1)] k(2) by simp
    have "field_ok E (RepeatedField_Truncate (rf_current_size f) ?g)"
      "field_contents (RepeatedField_Truncate (rf_current_size f) ?g) = field_contents f"
      using Truncate_total [OF g(1) z le] vs k(1) by simp_all
    then show ?thesis using False f1(1) raw s c eat s1 by (auto intro!: bounded_readI [of _ _ _ "[]"])
  qed
qed

lemma packed_fixed_bounded:
  assumes C: "scalar_reader read" and w: "et_sizeof E < 2 ^ 32" and f: "takes E N f (unread s)"
    and lim: "wl_BytesUntilLimit W (snd (snd (ReadVarint32 (wl_lib W) s))) \<le> int (unread s)"
  shows "bounded_read E s f (Some (ReadPackedFixedSizePrimitive W read to_bytes of_bytes E zero s f))"
proof -
  obtain ok l s1 where r: "ReadVarint32 (wl_lib W) s = (ok, l, s1)" by (metis prod_cases3)
  have s1: "unread s1 \<le> unread s" using ReadVarint32_consumes [OF r] by simp
  define n where "n = l div of_nat (et_sizeof E)"
  have n: "unat n \<le> unat l" using w by (simp add: n_def unat_div unsigned_of_nat take_bit_nat_eq_self)
  show ?thesis
  proof (cases "ok \<and> n * of_nat (et_sizeof E) = l")
    case True
    let ?limit = "if wl_BytesUntilTotalBytesLimit W s1 = - 1 then wl_BytesUntilLimit W s1
      else min (wl_BytesUntilTotalBytesLimit W s1) (wl_BytesUntilLimit W s1)"
    have "bounded_read E s f (Some (read_each read E k s1 f))" for k
      using bounded_read_after [OF scalar_reader.read_each_bounded [OF C], of E N f s1 f "[]" s k] f s1 by (simp add: takes_def)
    moreover have "unat l \<le> unread s" if "uint l \<le> ?limit"
    proof -
      have "uint l \<le> int (unread s)" using that lim r by (simp split: if_splits)
      then show ?thesis by (simp only: unat_eq_nat_uint nat_le_iff)
    qed
    ultimately show ?thesis
      using r True packed_copy_bounded [OF f s1 n] by (simp add: ReadPackedFixedSizePrimitive_def Let_def flip: n_def)
  next
    case False
    then show ?thesis
      using r s1 f by (auto simp: ReadPackedFixedSizePrimitive_def Let_def bounded_read_same takes_def simp flip: n_def)
  qed
qed

end

chapter \<open>Repeated values with tags\<close>

text \<open>
  The readers of repeated values with tags. The reader for types of fixed width takes the values out of
  the buffer itself and then skips their bytes; what the general reader accepts it reads just the same.
\<close>

section \<open>Types of fixed width\<close>

text \<open>Reading from the stream and reading from the array give the same value and stop at the same place.\<close>

locale fixed_reader =
  fixes read :: "coded_input \<Rightarrow> bool \<times> 'e \<times> coded_input"
    and from_array :: "bytes \<Rightarrow> ('e \<times> bytes) res" and dec :: "bytes \<Rightarrow> 'e" and w :: nat
  assumes width: "0 < w"
    and near: "w \<le> length (ci_buffer s) \<Longrightarrow>
      read s = (True, dec (take w (ci_buffer s)), s\<lparr>ci_buffer := drop w (ci_buffer s)\<rparr>)"
    and far: "length (ci_buffer s) < w \<Longrightarrow> \<not> fst (read s)"
    and array: "w \<le> length b \<Longrightarrow> from_array b = Inr (dec (take w b), drop w b)"

text \<open>The number of bytes of a tag that is compared at all.\<close>

definition tag_bytes :: "u32 \<Rightarrow> nat" where
  "tag_bytes tag = (if tag < 0x80 then 1 else 2)"

lemma tag_bytes_pos [simp]: "0 < tag_bytes tag"
  by (simp add: tag_bytes_def)

lemma ExpectTag_cases:
  assumes "ExpectTag tag s = (ok, s1)"
  shows "if ok then tag_bytes tag \<le> length (ci_buffer s) \<and> s1 = s\<lparr>ci_buffer := drop (tag_bytes tag) (ci_buffer s)\<rparr> else s1 = s"
  using assms by (auto simp: ExpectTag_def tag_bytes_def BufferSize_def Advance_def Suc_le_eq split: if_splits)

lemma ExpectTag_array:
  assumes "tag_bytes tag \<le> length (ci_buffer s)" and "ExpectTag tag s = (ok, s1)"
  shows "ExpectTagFromArray (ci_buffer s) tag =
    Inr (if ok then Some (drop (tag_bytes tag) (ci_buffer s)) else None)"
  using assms by (auto simp: ExpectTag_def ExpectTagFromArray_def tag_bytes_def BufferSize_def split: if_splits)

context fixed_reader
begin

lemma reserved_from_buffer:
  "read_reserved read tag n s f = Inr (True, s', f') \<Longrightarrow>
    \<exists>k. read_from_buffer from_array tag (min n (length (ci_buffer s) div (tag_bytes tag + w))) (ci_buffer s) f = Inr (k, f') \<and>
      k * (tag_bytes tag + w) \<le> length (ci_buffer s) \<and>
      s' = s\<lparr>ci_buffer := drop (k * (tag_bytes tag + w)) (ci_buffer s)\<rparr>"
proof (induction n arbitrary: s f)
  case (Suc n)
  let ?t = "tag_bytes tag" and ?b = "ci_buffer s" let ?per = "?t + w" let ?s1 = "s\<lparr>ci_buffer := drop ?t ?b\<rparr>"
  obtain ok s1 where e: "ExpectTag tag s = (ok, s1)" by fastforce
  note c = ExpectTag_cases [OF e]
  show ?case
  proof (cases ok)
    case False
    then have r: "s' = s" "f' = f" using Suc.prems e c by auto
    show ?thesis
    proof (cases "?per \<le> length ?b")
      case True
      then have "0 < length ?b div ?per" by (simp add: div_greater_zero_iff)
      then obtain m where "min (Suc n) (length ?b div ?per) = Suc m" by (metis gr0_conv_Suc min_Suc_Suc)
      moreover have "ExpectTagFromArray ?b tag = Inr None" using ExpectTag_array [OF _ e] True False by simp
      ultimately show ?thesis using r by (auto intro!: exI [of _ 0])
    qed (use r in \<open>auto intro!: exI [of _ 0]\<close>)
  next
    case True
    then have s1: "s1 = ?s1" "?t \<le> length ?b" using c by simp_all
    have w: "?per \<le> length ?b"
    proof (rule ccontr)
      assume "\<not> ?per \<le> length ?b"
      then have "\<not> fst (read ?s1)" by (intro far) (use s1 in simp)
      then show False using Suc.prems e True s1 by (auto split: prod.splits)
    qed
    let ?v = "dec (take w (drop ?t ?b))" and ?s2 = "s\<lparr>ci_buffer := drop ?per ?b\<rparr>"
    have "read ?s1 = (True, ?v, ?s2)" using near [of ?s1] w by (simp add: add.commute)
    then obtain f1 where f1: "RepeatedField_AddAlreadyReserved ?v f = Inr f1" "read_reserved read tag n ?s2 f1 = Inr (True, s', f')"
      using Suc.prems e True s1 by (auto simp: res_bind_Inr_iff)
    have d: "length ?b div ?per = Suc (length (drop ?per ?b) div ?per)"
      using w width by (simp add: div_if)
    obtain k where k: "read_from_buffer from_array tag (min n (length (drop ?per ?b) div ?per)) (drop ?per ?b) f1 = Inr (k, f')"
      "k * ?per \<le> length ?b - ?per" "s' = s\<lparr>ci_buffer := drop (k * ?per) (drop ?per ?b)\<rparr>"
      using Suc.IH [OF f1(2)] by auto
    have "ExpectTagFromArray ?b tag = Inr (Some (drop ?t ?b))" using ExpectTag_array [OF s1(2) e] True by simp
    moreover have "from_array (drop ?t ?b) = Inr (?v, drop ?per ?b)" using array [of "drop ?t ?b"] w by (simp add: add.commute)
    ultimately show ?thesis
      using f1(1) k w unfolding d min_Suc_Suc by (intro exI [of _ "k + 1"]) (simp add: add.commute algebra_simps)
  qed
qed simp

lemma read_equal:
  assumes g: "ReadRepeatedPrimitive read E tag s f = Inr (True, s', f')"
    and E: "et_sizeof E = w"
    and skip: "\<And>n s. n \<le> length (ci_buffer s) \<Longrightarrow> wl_Skip W (int n) s = (True, s\<lparr>ci_buffer := drop n (ci_buffer s)\<rparr>)"
  shows "ReadRepeatedFixedSizePrimitive W read from_array E (int (tag_bytes tag)) tag s f = Inr (True, s', f')"
proof -
  obtain v s1 f1 where r: "read s = (True, v, s1)" and a: "RepeatedField_Add E (Outside v) f = Inr f1"
    and l: "read_reserved read tag (nat (RepeatedField_Capacity f1 - RepeatedField_size f1)) s1 f1 = Inr (True, s', f')"
    using g by (auto simp: ReadRepeatedPrimitive_def res_bind_Inr_iff split: prod.splits if_splits)
  let ?room = "RepeatedField_Capacity f1 - RepeatedField_size f1" and ?b = "ci_buffer s1" and ?per = "tag_bytes tag + w"
  obtain k where k: "read_from_buffer from_array tag (min (nat ?room) (length ?b div ?per)) ?b f1 = Inr (k, f')"
    "k * ?per \<le> length ?b" "s' = s1\<lparr>ci_buffer := drop (k * ?per) ?b\<rparr>"
    using reserved_from_buffer [OF l] by auto
  have c: "nat (min ?room (int (length ?b) div (int (tag_bytes tag) + int w))) = min (nat ?room) (length ?b div ?per)"
    by (simp add: min_def nat_le_iff flip: of_nat_add zdiv_int)
  have m: "int k * (int (tag_bytes tag) + int w) = int (k * ?per)" by simp
  have s: "(if 0 < int (k * ?per) then snd (wl_Skip W (int (k * ?per)) s1) else s1) = s'"
    using skip [OF k(2)] k(3) unfolding of_nat_0_less_iff by (cases "k * ?per = 0") (auto simp del: of_nat_mult of_nat_add)
  show ?thesis
  proof (cases "?b = []")
    case True
    then show ?thesis using r a k by (simp add: ReadRepeatedFixedSizePrimitive_def GetDirectBufferPointerInline_def)
  next
    case False
    then show ?thesis using r a k(1) s unfolding ReadRepeatedFixedSizePrimitive_def GetDirectBufferPointerInline_def
      by (simp add: E c m del: of_nat_mult of_nat_add)
  qed
qed

text \<open>A tag of more than two bytes is never compared: both readers take one value.\<close>

lemma read_equal_long:
  assumes tag: "0x4000 \<le> tag" and g: "ReadRepeatedPrimitive read E tag s f = Inr (True, s', f')"
  shows "ReadRepeatedFixedSizePrimitive W read from_array E tag_size tag s f = Inr (True, s', f')"
proof -
  have t: "\<not> tag < 0x80" "\<not> tag < 0x4000" using tag by (simp_all add: word_less_nat_alt word_le_nat_alt)
  have "read_reserved read tag n s1 f1 = Inr (True, s1, f1)" for n s1 f1
    by (cases n) (simp_all add: ExpectTag_def t)
  moreover have "read_from_buffer from_array tag n b f1 = Inr (0, f1)" for n b f1
    by (cases n) (simp_all add: ExpectTagFromArray_def t)
  ultimately show ?thesis
    using g by (auto simp: ReadRepeatedPrimitive_def ReadRepeatedFixedSizePrimitive_def GetDirectBufferPointerInline_def Let_def
      res_bind_Inr_iff split: prod.splits if_splits)
qed

end

text \<open>The six types of fixed width.\<close>

lemmas array_defs = ReadPrimitiveFromArray_fixed32_def ReadPrimitiveFromArray_fixed64_def ReadPrimitiveFromArray_sfixed32_def
  ReadPrimitiveFromArray_sfixed64_def ReadPrimitiveFromArray_float_def ReadPrimitiveFromArray_double_def
  ReadLittleEndian32FromArray_def ReadLittleEndian64FromArray_def ReadLittleEndian32_def ReadLittleEndian64_def
  DecodeFloat_def DecodeDouble_def BufferSize_def Advance_def

sublocale wide_format \<subseteq> fixed32_array: fixed_reader "ReadPrimitive_fixed32 W" ReadPrimitiveFromArray_fixed32 of_le32 4
  by unfold_locales (use fixed_at_end in \<open>auto simp: array_defs read_defs BufferSize_def split: prod.splits\<close>)

sublocale wide_format \<subseteq> fixed64_array: fixed_reader "ReadPrimitive_fixed64 W" ReadPrimitiveFromArray_fixed64 of_le64 8
  by unfold_locales (use fixed_at_end in \<open>auto simp: array_defs read_defs BufferSize_def split: prod.splits\<close>)

sublocale wide_format \<subseteq> sfixed32_array: fixed_reader "ReadPrimitive_sfixed32 W" ReadPrimitiveFromArray_sfixed32 of_le32 4
  by unfold_locales (use fixed_at_end in \<open>auto simp: array_defs read_defs BufferSize_def split: prod.splits\<close>)

sublocale wide_format \<subseteq> sfixed64_array: fixed_reader "ReadPrimitive_sfixed64 W" ReadPrimitiveFromArray_sfixed64 of_le64 8
  by unfold_locales (use fixed_at_end in \<open>auto simp: array_defs read_defs BufferSize_def split: prod.splits\<close>)

sublocale wide_format \<subseteq> float_array: fixed_reader "ReadPrimitive_float W" ReadPrimitiveFromArray_float of_le32 4
  by unfold_locales (use fixed_at_end in \<open>auto simp: array_defs read_defs BufferSize_def split: prod.splits\<close>)

sublocale wide_format \<subseteq> double_array: fixed_reader "ReadPrimitive_double W" ReadPrimitiveFromArray_double of_le64 8
  by unfold_locales (use fixed_at_end in \<open>auto simp: array_defs read_defs BufferSize_def split: prod.splits\<close>)

end
