(* ===== verification/Field_Properties.thy ===== *)
theory Field_Properties
  imports Wire_Reference Field_Laws
begin

text \<open>
  An implementation of the library, the promise of output streams, and the properties of fields on the
  wire.
\<close>

unbundle bit_operations_syntax

chapter \<open>A reference\<close>

text \<open>
  An implementation of the rest of coded_stream.h, read off its comments, and the proof that it satisfies
  the interfaces \<open>wide_progress\<close> and \<open>wide_format\<close>.
\<close>

section \<open>Numbers of 64 bits\<close>

fun ref_varint64 :: "nat \<Rightarrow> nat \<Rightarrow> bytes \<Rightarrow> (u64 \<times> bytes) option" where
  "ref_varint64 0 k bs = None"
| "ref_varint64 (Suc n) k [] = None"
| "ref_varint64 (Suc n) k (b # bs) =
     (if b < 0x80 then Some (push_bit k (ucast b), bs)
      else map_option (\<lambda>(v, rest). (push_bit k (ucast (b AND 0x7f)) OR v, rest))
        (ref_varint64 n (k + 7) bs))"

lemma ref_varint64_shorter: "ref_varint64 n k bs = Some (v, rest) \<Longrightarrow> length rest < length bs"
  by (induction n k bs arbitrary: v rest rule: ref_varint64.induct) (fastforce split: if_splits)+

lemma ref_varint_cast: "ref_varint n k bs = map_option (\<lambda>(v, rest). (ucast v, rest)) (ref_varint64 n k bs)"
proof (induction n k bs rule: ref_varint64.induct)
  case (3 n k b bs)
  have c: "(ucast (push_bit k (ucast x) :: u64) :: u32) = push_bit k (ucast x)" for x :: u8
    by (rule bit_word_eqI) (auto simp: bit_simps)
  have o: "(ucast (x OR y) :: u32) = ucast x OR ucast y" for x y :: u64
    by (rule bit_word_eqI) (auto simp: bit_simps)
  show ?case using 3 by (cases "ref_varint64 n (k + 7) bs") (auto simp: c o)
qed simp_all

lemma low_seven64: "(ucast (ucast (v OR 0x80) AND 0x7f :: u8) :: u64) = take_bit 7 v"
proof -
  have "(0x7f :: u8) = mask 7" by (simp add: mask_eq_exp_minus_1)
  then have "ucast (v OR 0x80) AND 0x7f = take_bit 7 (ucast (v OR 0x80) :: u8)" by (simp add: take_bit_eq_mask)
  moreover have "(ucast (take_bit 7 (ucast w :: u8)) :: u64) = take_bit 7 w" for w :: u64
    by (rule bit_word_eqI) (auto simp: bit_simps)
  ultimately show ?thesis by simp
qed

lemma seven_bits64: "push_bit k (take_bit 7 v) OR push_bit (k + 7) (drop_bit 7 v) = push_bit k v" for v :: u64
proof (rule bit_word_eqI)
  fix n
  have "\<not> n < k + 7 \<Longrightarrow> 7 + (n - (k + 7)) = n - k" by simp
  then show "bit (push_bit k (take_bit 7 v) OR push_bit (k + 7) (drop_bit 7 v)) n = bit (push_bit k v) n"
    by (cases "n < k + 7") (auto simp: bit_simps)
qed

lemma small_byte: "\<not> 0x80 \<le> v \<Longrightarrow> (ucast v :: u8) < 0x80 \<and> ucast (ucast v :: u8) = v" for v :: u64
  by (simp add: word_le_nat_alt word_less_nat_alt word_unat_eq_iff unsigned_ucast_eq unsigned_take_bit_eq take_bit_nat_eq_self)

lemma ref_varint64_written:
  "unat v < 2 ^ (7 * Suc n) \<Longrightarrow> ref_varint64 (Suc n) k (varint64 v @ rest) = Some (push_bit k v, rest)"
proof (induction n arbitrary: v k)
  case 0
  then show ?case using small_byte [of v] by (simp add: word_le_nat_alt varint64_small)
next
  case (Suc n)
  show ?case
  proof (cases "0x80 \<le> v")
    case True
    have "unat (drop_bit 7 v) < 2 ^ (7 * Suc n)"
      using Suc.prems by (simp add: unat_drop7_64 power_add div_less_iff_less_mult mult.commute)
    then show ?thesis
      using Suc.IH [of "drop_bit 7 v" "k + 7"] varint64_hd [OF True] True
      by (simp add: varint64_large ref_varint64.simps(3) [of "Suc n"] low_seven64 seven_bits64 del: ref_varint64.simps)
  qed (use small_byte [of v] in \<open>simp add: varint64_small\<close>)
qed

lemma ref_varint64_read:
  "ref_varint64 10 0 (varint64 v @ rest) = Some (v, rest)"
  "ref_varint 10 0 (varint64 v @ rest) = Some (ucast v, rest)"
proof -
  have "unat v < 2 ^ (7 * Suc 9)" using unsigned_less [of v, where 'a = nat] by simp
  from ref_varint64_written [OF this, of 0 rest] show "ref_varint64 10 0 (varint64 v @ rest) = Some (v, rest)"
    by (simp add: numeral_eq_Suc)
  then show "ref_varint 10 0 (varint64 v @ rest) = Some (ucast v, rest)" by (simp add: ref_varint_cast)
qed

section \<open>The library\<close>

definition ref_ReadVarint64Fallback :: "coded_input \<Rightarrow> (u64 \<times> bool) \<times> coded_input" where
  "ref_ReadVarint64Fallback s =
     (case ref_varint64 10 0 (ci_buffer s) of None \<Rightarrow> ((0, False), s)
      | Some (v, rest) \<Rightarrow> ((v, True), s\<lparr>ci_buffer := rest\<rparr>))"

definition ref_ReadRaw :: "int \<Rightarrow> coded_input \<Rightarrow> bool \<times> bytes \<times> coded_input" where
  "ref_ReadRaw n s =
     (0 \<le> n \<and> n \<le> int (length (ci_buffer s)), take (nat n) (ci_buffer s), s\<lparr>ci_buffer := drop (nat n) (ci_buffer s)\<rparr>)"

definition ref_Skip :: "int \<Rightarrow> coded_input \<Rightarrow> bool \<times> coded_input" where
  "ref_Skip n s = (0 \<le> n \<and> n \<le> int (length (ci_buffer s)), s\<lparr>ci_buffer := drop (nat n) (ci_buffer s)\<rparr>)"

definition ref_PushLimit64 :: "int \<Rightarrow> coded_input \<Rightarrow> int \<times> coded_input" where
  "ref_PushLimit64 n s =
     (let position = ci_total s - int (unread s)
      in (ci_limit s, split_at (if n < 0 then ci_limit s else min (ci_limit s) (position + n)) s))"

definition ref_PopLimit64 :: "int \<Rightarrow> coded_input \<Rightarrow> coded_input" where
  "ref_PopLimit64 limit s = split_at limit (s\<lparr>ci_end := False\<rparr>)"

definition ref_ReadLength :: "coded_input \<Rightarrow> int \<times> coded_input" where
  "ref_ReadLength s =
     (case ref_varint 10 0 (ci_buffer s) of None \<Rightarrow> ref_PushLimit64 0 s
      | Some (n, rest) \<Rightarrow> ref_PushLimit64 (sint n) (s\<lparr>ci_buffer := rest\<rparr>))"

definition reference_wide :: wide_lib where
  "reference_wide = \<lparr>wl_lib = reference_lib, wl_ReadVarint64Fallback = ref_ReadVarint64Fallback,
     wl_ReadLittleEndian32Fallback = (\<lambda>s. (False, 0, s)), wl_ReadLittleEndian64Fallback = (\<lambda>s. (False, 0, s)),
     wl_ReadRaw = ref_ReadRaw, wl_Skip = ref_Skip, wl_PushLimit = ref_PushLimit64, wl_PopLimit = ref_PopLimit64,
     wl_BytesUntilLimit = (\<lambda>s. int (length (ci_buffer s))),
     wl_BytesUntilTotalBytesLimit = (\<lambda>s. 2 ^ 26 - (ci_total s - int (unread s))),
     wl_ReadLengthAndPushLimit = ref_ReadLength,
     wl_CheckEntireMessageConsumedAndPopLimit = (\<lambda>limit s. (ci_end s, ref_PopLimit64 limit s)),
     wl_WriteVarint64ToArray = (\<lambda>v target. target @ varint64 v), wl_VarintSize64 = (\<lambda>v. int (length (varint64 v)))\<rparr>"

lemma reference_wide_simps:
  "wl_lib reference_wide = reference_lib" "wl_ReadVarint64Fallback reference_wide = ref_ReadVarint64Fallback"
  "wl_ReadLittleEndian32Fallback reference_wide s = (False, 0, s)" "wl_ReadLittleEndian64Fallback reference_wide s = (False, 0, s)"
  by (simp_all add: reference_wide_def)

lemma wide_reference_progress: "wide_progress reference_wide"
proof (rule wide_progress.intro, unfold reference_wide_simps)
  show "wire_progress reference_lib" by (rule reference_progress)
  show "wide_progress_axioms reference_wide"
    by unfold_locales (auto simp: reference_wide_simps reference_lib_def ref_ReadVarint32Fallback_def ref_ReadVarint64Fallback_def
      unread_def less_imp_le dest: ref_varint_shorter ref_varint64_shorter split: option.splits)
qed

lemma ref_PushLimit64_read:
  assumes "k \<le> length (ci_buffer s)" "at_limit s"
  shows "ref_PushLimit64 (int k) s = (ci_limit s,
        s\<lparr>ci_buffer := take k (ci_buffer s), ci_after := drop k (ci_buffer s) @ ci_after s,
          ci_limit := ci_total s - int (length (drop k (ci_buffer s) @ ci_after s))\<rparr>)"
proof -
  have "min (ci_limit s) (ci_total s - int (unread s) + int k) = ci_total s - int (unread s) + int k"
    using assms by (simp add: at_limit_def unread_def)
  then show ?thesis using assms by (simp add: ref_PushLimit64_def split_at_def Let_def unread_def of_nat_diff)
qed

lemma wide_reference_format: "wide_format reference_wide"
proof (intro wide_format.intro wide_reference_progress, unfold reference_wide_simps)
  show "wire_format reference_lib" by (rule reference_format)
  show "wide_format_axioms reference_wide"
  proof
    show "\<exists>e. wl_PopLimit reference_wide limit s =
        s\<lparr>ci_buffer := ci_buffer s @ hidden, ci_after := behind, ci_limit := limit, ci_end := e\<rparr>"
      if "at_limit s" "ci_after s = hidden @ behind" "limit = ci_total s - int (length behind)" for s hidden behind limit
      using that by (intro exI [of _ False]) (simp add: reference_wide_def ref_PopLimit64_def reference_pop [of _ behind _ hidden])
    show "wl_BytesUntilTotalBytesLimit reference_wide s = - 1 \<or>
      int (length (ci_buffer s)) \<le> wl_BytesUntilTotalBytesLimit reference_wide s" if "at_limit s" for s
      using that by (simp add: reference_wide_def at_limit_def unread_def)
  qed (auto simp: reference_wide_def reference_lib_def ref_ReadVarint64Fallback_def ref_ReadVarint32Fallback_def
    ref_ReadTagFallback_def ref_varint64_read ref_varint_read ref_ReadRaw_def ref_Skip_def ref_PushLimit64_read BufferSize_def)
qed

interpretation wide_reference: wide_format reference_wide
  by (rule wide_reference_format)

lemma wide_reference_bounded: "wide_bounded reference_wide"
  by (intro wide_bounded.intro wide_reference_progress, unfold_locales)
    (auto simp: reference_wide_def ref_ReadRaw_def ref_PushLimit64_def ref_PopLimit64_def Let_def, auto simp: unread_def)

interpretation wide_reference: wide_bounded reference_wide
  by (rule wide_reference_bounded)

chapter \<open>Writing fields\<close>

text \<open>
  What an output stream promises (the locale \<open>output_stream\<close>), the tag of a field, and the scalar types
  put together: reader, writers and size of each type agree.
\<close>

section \<open>Output streams\<close>

text \<open>A call that writes: the bytes are appended, counted, and nothing else is seen.\<close>

definition writes :: "bytes \<Rightarrow> (coded_output \<Rightarrow> coded_output) \<Rightarrow> bool" where
  "writes bs f \<longleftrightarrow> (\<forall>o1. co_written (f o1) = co_written o1 @ bs \<and>
     ByteCount (f o1) = ByteCount o1 + int (length bs) \<and> co_aliasing (f o1) = co_aliasing o1)"

lemma writes_comp: "writes bs f \<Longrightarrow> writes cs g \<Longrightarrow> writes (bs @ cs) (\<lambda>o1. g (f o1))"
  by (simp add: writes_def)

lemma writes_if: "(\<And>o1. c o1 \<Longrightarrow> co_written (f o1) = co_written o1 @ bs \<and> ByteCount (f o1) = ByteCount o1 + int (length bs) \<and>
    co_aliasing (f o1) = co_aliasing o1) \<Longrightarrow> writes bs g \<Longrightarrow> writes bs (\<lambda>o1. if c o1 then f o1 else g o1)"
  by (simp add: writes_def)

text \<open>The functions the header declares write their number, or the bytes given.\<close>

locale output_stream =
  fixes L :: out_lib
  assumes slow_path: "writes (varint u) (ol_WriteVarint32SlowPath L u)"
    and varint64_out: "writes (varint64 v) (ol_WriteVarint64 L v)"
    and fixed32_out: "writes (le32 u) (ol_WriteLittleEndian32 L u)"
    and fixed64_out: "writes (le64 v) (ol_WriteLittleEndian64 L v)"
    and raw_out: "writes bs (ol_WriteRaw L bs)"
    and aliased_out: "writes bs (ol_WriteAliasedRaw L bs)"
begin

lemma varint32_out: "writes (varint v) (WriteVarint32 L v)"
  unfolding WriteVarint32_def [abs_def]
  by (rule writes_if [OF _ slow_path]) (simp add: WriteVarint32ToArray_eq output_Advance_def ByteCount_def Let_def)

lemma sign_extended_out: "writes (varint64 (scast v)) (WriteVarint32SignExtended L v)"
proof (cases "sint v < 0")
  case True
  then show ?thesis using varint64_out by (simp add: WriteVarint32SignExtended_def [abs_def])
next
  case False
  then show ?thesis
    using varint32_out [of v] by (simp add: WriteVarint32SignExtended_def [abs_def] varint64_ucast scast_positive)
qed

lemma tag_out: "writes (varint (MakeTag n t)) (WireFormat_WriteTag L n t)"
  using varint32_out by (simp add: WireFormat_WriteTag_def [abs_def] output_WriteTag_def [abs_def])

lemma string_out: "writes bs (output_WriteString L bs)" "writes bs (WriteRawMaybeAliased L bs)"
  using raw_out [of bs] aliased_out [of bs]
  by (simp_all add: output_WriteString_def [abs_def] WriteRawMaybeAliased_def [abs_def] writes_def)

text \<open>Messages and groups: the stream gets what the array gets.\<close>

lemma message_out:
  assumes "writes body serialize"
  shows "writes (WriteMessageToArray n size_of (\<lambda>t. t @ body) []) (WriteMessageNoVirtual L n size_of serialize)"
    "writes (WriteGroupToArray n (\<lambda>t. t @ body) []) (WriteGroupNoVirtual L n serialize)"
  using writes_comp [OF writes_comp [OF tag_out varint32_out] assms] writes_comp [OF writes_comp [OF tag_out assms] tag_out]
  by (simp_all add: WriteMessageNoVirtual_def [abs_def] WriteGroupNoVirtual_def [abs_def] WriteMessageToArray_def
    WriteGroupToArray_def WriteTagToArray_field_def WriteTagToArray_def WriteVarint32ToArray_eq)

end

text \<open>A stream that takes a new buffer of the right size for every write that is not inline.\<close>

definition ref_put :: "bytes \<Rightarrow> coded_output \<Rightarrow> coded_output" where
  "ref_put bs o1 = o1\<lparr>co_written := co_written o1 @ bs, co_total_bytes := co_total_bytes o1 + int (length bs)\<rparr>"

definition reference_out :: out_lib where
  "reference_out = \<lparr>ol_WriteVarint32SlowPath = (\<lambda>v. ref_put (varint v)), ol_WriteVarint64 = (\<lambda>v. ref_put (varint64 v)),
     ol_WriteLittleEndian32 = (\<lambda>v. ref_put (le32 v)), ol_WriteLittleEndian64 = (\<lambda>v. ref_put (le64 v)),
     ol_WriteRaw = ref_put, ol_WriteAliasedRaw = ref_put\<rparr>"

lemma reference_out_stream: "output_stream reference_out"
  by unfold_locales (simp_all add: reference_out_def writes_def ref_put_def ByteCount_def)

interpretation reference_out: output_stream reference_out
  by (rule reference_out_stream)

section \<open>Tags\<close>

lemma MakeTag_bits: "drop_bit 3 (MakeTag n t) = take_bit 29 (word_of_int n)" "GetTagWireType (MakeTag n t) = wire_code t"
proof -
  have m: "push_bit 3 1 - 1 = (mask 3 :: u32)" by (simp add: mask_eq_exp_minus_1)
  have t: "take_bit 3 (wire_code t) = wire_code t" "drop_bit 3 (wire_code t) = 0" by (cases t; simp)+
  have "drop_bit 3 (push_bit 3 w) = take_bit 29 w" "take_bit 3 (push_bit 3 w) = 0" for w :: u32
    by (rule bit_word_eqI, auto simp: bit_simps)+
  then show "drop_bit 3 (MakeTag n t) = take_bit 29 (word_of_int n)" "GetTagWireType (MakeTag n t) = wire_code t"
    unfolding GetTagWireType_def MakeTag_def m take_bit_eq_mask [symmetric] drop_bit_or take_bit_or t by simp_all
qed

lemma GetTagFieldNumber_MakeTag: "0 \<le> n \<Longrightarrow> n < 2 ^ 29 \<Longrightarrow> GetTagFieldNumber (MakeTag n t) = n"
proof -
  assume n: "0 \<le> n" "n < 2 ^ 29"
  have "take_bit 29 (word_of_int n) = (word_of_int n :: u32)"
    using n by (simp add: word_uint_eq_iff unsigned_take_bit_eq unsigned_of_int take_bit_int_eq_self)
  then show ?thesis using n by (simp add: GetTagFieldNumber_def MakeTag_bits signed_of_int signed_take_bit_int_eq_self)
qed

context wide_format
begin

lemma UInt32Size_eq: "UInt32Size (wl_lib W) v = int (length (varint v))"
  by (simp add: UInt32Size_def format.VarintSize32_eq)

lemma ReadTag_written:
  assumes "ci_buffer s = varint t @ rest"
  shows "ReadTag (wl_lib W) s = (t, s\<lparr>ci_buffer := rest, ci_last_tag := t\<rparr>)"
proof (cases "t < 0x80")
  case True
  then show ?thesis using assms low_byte [OF True]
    by (simp add: ReadTag_def BufferSize_def Advance_def varint_small Let_def)
next
  case False
  then have t: "0x80 \<le> t" by simp
  then have h: "hd (ci_buffer s) = ucast (t OR 0x80)" "ci_buffer s \<noteq> []" using assms by (simp_all add: varint_large)
  then have "\<not> (ucast (ci_buffer s ! 0) :: u32) < 0x80" using high_byte [of t] by (simp add: hd_conv_nth not_less)
  then show ?thesis using tag_read [OF t assms] h(2) by (simp add: ReadTag_def BufferSize_def Let_def hd_conv_nth)
qed

end

section \<open>The scalar types\<close>

text \<open>
  What is meant by a type being carried: a value written without a tag is read again and the rest is left;
  it has the size announced; with the tag, the tag stands before it; and a stream gets the same bytes.
\<close>

definition carried ::
  "wire_type \<Rightarrow> (coded_input \<Rightarrow> bool \<times> 'e \<times> coded_input) \<Rightarrow> ('e \<Rightarrow> bytes \<Rightarrow> bytes) \<Rightarrow> (int \<Rightarrow> 'e \<Rightarrow> bytes \<Rightarrow> bytes) \<Rightarrow>
     ('e \<Rightarrow> coded_output \<Rightarrow> coded_output) \<Rightarrow> ('e \<Rightarrow> int) \<Rightarrow> bool" where
  "carried t read no_tag with_tag stream size_of \<longleftrightarrow>
     (\<forall>v s rest n target.
        read (s\<lparr>ci_buffer := no_tag v [] @ rest\<rparr>) = (True, v, s\<lparr>ci_buffer := rest\<rparr>) \<and>
        size_of v = int (length (no_tag v [])) \<and>
        no_tag v target = target @ no_tag v [] \<and>
        with_tag n v target = target @ varint (MakeTag n t) @ no_tag v [] \<and>
        writes (no_tag v []) (stream v))"

chapter \<open>Properties\<close>

text \<open>
  The properties of the scalar types and of repeated fields on the wire: a value is read as it was
  written, packed values are appended in order, reading packed values returns, and the readers for types
  of fixed width agree with the general ones.
\<close>

section \<open>Scalar values\<close>

lemma carriedI:
  assumes C: "scalar_codec read no_tag size_of"
    and T: "\<And>n v target. with_tag n v target = no_tag v (WriteTagToArray_field n t target)"
    and S: "\<And>v. writes (no_tag v []) (stream v)"
  shows "carried t read no_tag with_tag stream size_of"
proof -
  note app = scalar_codec.enc_app [OF C]
  have "with_tag n v target = target @ varint (MakeTag n t) @ no_tag v []" for n v target
    using app [of v "target @ varint (MakeTag n t)"]
    by (simp add: T WriteTagToArray_field_def WriteTagToArray_def WriteVarint32ToArray_eq)
  moreover have "read (s\<lparr>ci_buffer := no_tag v [] @ rest\<rparr>) = (True, v, s\<lparr>ci_buffer := rest\<rparr>)" for s v rest
    using scalar_codec.read_back [OF C, of "s\<lparr>ci_buffer := no_tag v [] @ rest\<rparr>" v rest] by simp
  ultimately show ?thesis
    unfolding carried_def by (intro allI conjI scalar_codec.size_eq [OF C] S app)
qed

lemmas field_writers = WriteInt32ToArray_def WriteInt64ToArray_def WriteUInt32ToArray_def WriteUInt64ToArray_def WriteSInt32ToArray_def WriteSInt64ToArray_def WriteFixed32ToArray_def WriteFixed64ToArray_def WriteSFixed32ToArray_def WriteSFixed64ToArray_def WriteFloatToArray_def WriteDoubleToArray_def WriteBoolToArray_def WriteEnumToArray_def

lemmas stream_writers = WriteInt32NoTag_def [abs_def] WriteInt64NoTag_def [abs_def] WriteUInt32NoTag_def [abs_def] WriteUInt64NoTag_def [abs_def] WriteSInt32NoTag_def [abs_def] WriteSInt64NoTag_def [abs_def] WriteFixed32NoTag_def [abs_def] WriteFixed64NoTag_def [abs_def] WriteSFixed32NoTag_def [abs_def] WriteSFixed64NoTag_def [abs_def] WriteFloatNoTag_def [abs_def] WriteDoubleNoTag_def [abs_def] WriteBoolNoTag_def [abs_def] WriteEnumNoTag_def [abs_def]

text \<open>
  C25. Every field of a scalar type goes through. For a library and an output stream that behave as
  documented: a tag is read by \<open>ReadTag\<close>, recorded as the last tag, and taken apart into the field number
  and wire type it was made of; and for each of the fourteen types a value is read as it was written and
  what follows is left alone, its announced size is the number of its bytes, the writer with a tag puts
  the tag with the wire type of the format before the value, and a stream is given, and counts, the same
  bytes as an array.
\<close>

theorem scalars_carried:
  assumes "wide_format W" and "output_stream L"
  shows "(\<forall>t rest s. \<forall>n\<in>{0..<2 ^ 29}.
      ReadTag (wl_lib W) (s\<lparr>ci_buffer := WriteTagToArray_field n t [] @ rest\<rparr>) =
        (MakeTag n t, s\<lparr>ci_buffer := rest, ci_last_tag := MakeTag n t\<rparr>) \<and>
      GetTagFieldNumber (MakeTag n t) = n \<and> GetTagWireType (MakeTag n t) = wire_code t) \<and>
    carried WIRETYPE_VARINT (ReadPrimitive_int32 W) (WriteInt32NoTagToArray W) (WriteInt32ToArray W) (WriteInt32NoTag L) (Int32Size W) \<and>
    carried WIRETYPE_VARINT (ReadPrimitive_int64 W) (WriteInt64NoTagToArray W) (WriteInt64ToArray W) (WriteInt64NoTag L) (Int64Size W) \<and>
    carried WIRETYPE_VARINT (ReadPrimitive_uint32 (wl_lib W)) WriteUInt32NoTagToArray WriteUInt32ToArray (WriteUInt32NoTag L) (UInt32Size (wl_lib W)) \<and>
    carried WIRETYPE_VARINT (ReadPrimitive_uint64 W) (WriteUInt64NoTagToArray W) (WriteUInt64ToArray W) (WriteUInt64NoTag L) (UInt64Size W) \<and>
    carried WIRETYPE_VARINT (ReadPrimitive_sint32 W) WriteSInt32NoTagToArray WriteSInt32ToArray (WriteSInt32NoTag L) (SInt32Size W) \<and>
    carried WIRETYPE_VARINT (ReadPrimitive_sint64 W) (WriteSInt64NoTagToArray W) (WriteSInt64ToArray W) (WriteSInt64NoTag L) (SInt64Size W) \<and>
    carried WIRETYPE_FIXED32 (ReadPrimitive_fixed32 W) WriteFixed32NoTagToArray WriteFixed32ToArray (WriteFixed32NoTag L) (\<lambda>_. kFixed32Size) \<and>
    carried WIRETYPE_FIXED64 (ReadPrimitive_fixed64 W) WriteFixed64NoTagToArray WriteFixed64ToArray (WriteFixed64NoTag L) (\<lambda>_. kFixed64Size) \<and>
    carried WIRETYPE_FIXED32 (ReadPrimitive_sfixed32 W) WriteSFixed32NoTagToArray WriteSFixed32ToArray (WriteSFixed32NoTag L) (\<lambda>_. kSFixed32Size) \<and>
    carried WIRETYPE_FIXED64 (ReadPrimitive_sfixed64 W) WriteSFixed64NoTagToArray WriteSFixed64ToArray (WriteSFixed64NoTag L) (\<lambda>_. kSFixed64Size) \<and>
    carried WIRETYPE_FIXED32 (ReadPrimitive_float W) WriteFloatNoTagToArray WriteFloatToArray (WriteFloatNoTag L) (\<lambda>_. kFloatSize) \<and>
    carried WIRETYPE_FIXED64 (ReadPrimitive_double W) WriteDoubleNoTagToArray WriteDoubleToArray (WriteDoubleNoTag L) (\<lambda>_. kDoubleSize) \<and>
    carried WIRETYPE_VARINT (ReadPrimitive_bool W) WriteBoolNoTagToArray WriteBoolToArray (WriteBoolNoTag L) (\<lambda>_. kBoolSize) \<and>
    carried WIRETYPE_VARINT (ReadPrimitive_enum W) (WriteEnumNoTagToArray W) (WriteEnumToArray W) (WriteEnumNoTag L) (EnumSize W)"
proof -
  have "ReadTag (wl_lib W) (s\<lparr>ci_buffer := WriteTagToArray_field n t [] @ rest\<rparr>) =
      (MakeTag n t, s\<lparr>ci_buffer := rest, ci_last_tag := MakeTag n t\<rparr>)" for s n t rest
    using wide_format.ReadTag_written [OF assms(1), of "s\<lparr>ci_buffer := WriteTagToArray_field n t [] @ rest\<rparr>" "MakeTag n t" rest]
    by (simp add: WriteTagToArray_field_def WriteTagToArray_def WriteVarint32ToArray_eq)
  moreover note out = output_stream.varint32_out [OF assms(2)] output_stream.sign_extended_out [OF assms(2)]
    output_stream.varint64_out [OF assms(2)] output_stream.fixed32_out [OF assms(2)] output_stream.fixed64_out [OF assms(2)]
  note written = wide_format.scalar_written [OF assms(1)]
  note codecs = wide_format.scalar_codecs [OF assms(1)]
  ultimately show ?thesis
    by (intro conjI allI ballI codecs [THEN carriedI])
      (simp_all add: GetTagFieldNumber_MakeTag MakeTag_bits field_writers stream_writers write_defs written out)
qed

text \<open>A zigzag number of 64 bits.\<close>

theorem scalars_carried_witness:
  "ReadPrimitive_sint64 reference_wide ((CodedInputStream reference_lib [])\<lparr>ci_buffer := WriteSInt64NoTagToArray reference_wide (- 3) [] @ [7]\<rparr>) =
    (True, - 3, (CodedInputStream reference_lib [])\<lparr>ci_buffer := [7]\<rparr>)"
proof -
  have "carried WIRETYPE_VARINT (ReadPrimitive_sint64 reference_wide) (WriteSInt64NoTagToArray reference_wide)
      (WriteSInt64ToArray reference_wide) (WriteSInt64NoTag reference_out) (SInt64Size reference_wide)"
    using scalars_carried [OF wide_reference_format reference_out_stream] by (elim conjE)
  then show ?thesis unfolding carried_def by (elim allE conjE)
qed

section \<open>Packed fields\<close>

definition word_element :: "u32 element_type" where
  "word_element = \<lparr>et_default = 0, et_sizeof = 4, et_align = 4\<rparr>"

lemma word_reachable: "reachable_size word_element 1000"
  by (simp add: reachable_size_def block_bytes_def kRepHeaderSize_def word_element_def)

definition long_element :: "u64 element_type" where
  "long_element = \<lparr>et_default = 0, et_sizeof = 8, et_align = 8\<rparr>"

lemma long_reachable: "reachable_size long_element 1000"
  by (simp add: reachable_size_def block_bytes_def kRepHeaderSize_def long_element_def)

definition bool_element :: "bool element_type" where
  "bool_element = \<lparr>et_default = False, et_sizeof = 1, et_align = 1\<rparr>"

lemma bool_reachable: "reachable_size bool_element 1000"
  by (simp add: reachable_size_def block_bytes_def kRepHeaderSize_def bool_element_def)

lemma takes_new: "reachable_size E N \<Longrightarrow> int n \<le> N \<Longrightarrow> takes E N RepeatedField n"
  using field_ok_new [of E N] by (simp add: takes_def RepeatedField_def)

lemmas packed_fixed_defs = ReadPackedPrimitive_fixed32_def ReadPackedPrimitive_fixed64_def ReadPackedPrimitive_sfixed32_def
  ReadPackedPrimitive_sfixed64_def ReadPackedPrimitive_float_def ReadPackedPrimitive_double_def

text \<open>
  C26. Reading a packed field is safe on any bytes. For each of the fourteen scalar types, with the reader
  the type really has (the general loop, or for the types of fixed width the one that copies the bytes),
  the call returns without a failed check, the field stays well formed and keeps the elements it had, and
  it gets at most as many new ones as bytes were taken from the stream, whether reading succeeds or not.
  The field must have room, within what its size may reach, for as many elements as there are bytes; for
  the types of fixed width the limit in force behind the length must lie within the bytes that are there,
  since the field is made as large as the length says before the bytes are looked for.
\<close>

theorem packed_returns:
  assumes "wide_bounded W" and "et_sizeof E32 = 4" and "et_sizeof E64 = 8"
    and "takes E32 N32 f32 (unread s)" and "takes E64 N64 f64 (unread s)" and "takes Eb Nb fb (unread s)"
  shows "bounded_read E32 s f32 (ReadPackedPrimitive W (ReadPrimitive_int32 W) E32 s f32) \<and>
    bounded_read E64 s f64 (ReadPackedPrimitive W (ReadPrimitive_int64 W) E64 s f64) \<and>
    bounded_read E32 s f32 (ReadPackedPrimitive W (ReadPrimitive_uint32 (wl_lib W)) E32 s f32) \<and>
    bounded_read E64 s f64 (ReadPackedPrimitive W (ReadPrimitive_uint64 W) E64 s f64) \<and>
    bounded_read E32 s f32 (ReadPackedPrimitive W (ReadPrimitive_sint32 W) E32 s f32) \<and>
    bounded_read E64 s f64 (ReadPackedPrimitive W (ReadPrimitive_sint64 W) E64 s f64) \<and>
    bounded_read Eb s fb (ReadPackedPrimitive W (ReadPrimitive_bool W) Eb s fb) \<and>
    bounded_read E32 s f32 (ReadPackedPrimitive W (ReadPrimitive_enum W) E32 s f32) \<and>
    (wl_BytesUntilLimit W (snd (snd (ReadVarint32 (wl_lib W) s))) \<le> int (unread s) \<longrightarrow>
      bounded_read E32 s f32 (ReadPackedPrimitive_fixed32 W E32 s f32) \<and>
      bounded_read E64 s f64 (ReadPackedPrimitive_fixed64 W E64 s f64) \<and>
      bounded_read E32 s f32 (ReadPackedPrimitive_sfixed32 W E32 s f32) \<and>
      bounded_read E64 s f64 (ReadPackedPrimitive_sfixed64 W E64 s f64) \<and>
      bounded_read E32 s f32 (ReadPackedPrimitive_float W E32 s f32) \<and>
      bounded_read E64 s f64 (ReadPackedPrimitive_double W E64 s f64))"
proof -
  note readers = wide_progress.scalar_readers [OF wide_bounded.axioms(1) [OF assms(1)]]
  note general = scalar_reader.packed_bounded [OF _ assms(1)] and copying = wide_bounded.packed_fixed_bounded [OF assms(1)]
  show ?thesis
    unfolding packed_fixed_defs
    by (intro conjI impI general copying readers) (rule assms(4-6) | simp add: assms(2,3))+
qed

text \<open>A length that promises more bytes than there are, and a number without an end.\<close>

theorem packed_returns_witness:
  "\<exists>ok s' f' vs. ReadPackedPrimitive reference_wide (ReadPrimitive_int32 reference_wide) word_element
      (CodedInputStream reference_lib [5, 255, 255]) RepeatedField = Some (Inr (ok, s', f')) \<and>
    field_contents f' = vs \<and> length vs + unread s' \<le> 3"
proof -
  let ?s = "CodedInputStream reference_lib [5, 255, 255]"
  have u: "unread ?s = 3" by (simp add: unread_def CodedInputStream_def)
  have t: "takes word_element 1000 RepeatedField (unread ?s)" "takes long_element 1000 RepeatedField (unread ?s)"
    "takes bool_element 1000 RepeatedField (unread ?s)"
    unfolding u by (rule takes_new, rule word_reachable long_reachable bool_reachable, simp)+
  have "bounded_read word_element ?s RepeatedField
      (ReadPackedPrimitive reference_wide (ReadPrimitive_int32 reference_wide) word_element ?s RepeatedField)"
    using packed_returns [OF wide_reference_bounded _ _ t] by (simp add: word_element_def long_element_def)
  then show ?thesis unfolding bounded_read_def u by auto
qed

text \<open>
  What is meant by a packed field being carried: the length of the encodings and these one after another
  are read as the values, behind the elements of a field that has room for them.
\<close>

definition packed_carried ::
  "(coded_input \<Rightarrow> 'e repeated_field \<Rightarrow> (bool \<times> coded_input \<times> 'e repeated_field) res option) \<Rightarrow> ('e \<Rightarrow> bytes \<Rightarrow> bytes) \<Rightarrow>
     'e element_type \<Rightarrow> bool" where
  "packed_carried reader enc E \<longleftrightarrow> (\<forall>vs rest s N f.
     at_limit s \<longrightarrow> length (encoded enc vs) < 2 ^ 31 \<longrightarrow> takes E N f (length vs) \<longrightarrow>
     ci_buffer s = WriteVarint32ToArray (of_nat (length (encoded enc vs))) [] @ encoded enc vs @ rest \<longrightarrow>
     (\<exists>e f'. reader s f = Some (Inr (True, s\<lparr>ci_buffer := rest, ci_end := e\<rparr>, f')) \<and>
       field_ok E f' \<and> field_contents f' = field_contents f @ vs))"

lemma packed_carriedI:
  assumes "wide_format W" "scalar_codec read enc size_of"
  shows "packed_carried (ReadPackedPrimitive W read E) enc E"
  using wide_format.packed_read [OF assms] unfolding packed_carried_def by (simp add: WriteVarint32ToArray_eq)

lemma packed_carried_fixed:
  assumes W: "wide_format W" and B: "byte_codec (et_sizeof E) to_bytes of_bytes" and enc: "\<And>v. enc v [] = to_bytes v"
  shows "packed_carried (\<lambda>s f. Some (ReadPackedFixedSizePrimitive W read to_bytes of_bytes E zero s f)) enc E"
proof -
  have e: "encoded enc vs = concat (map to_bytes vs)" for vs by (simp add: encoded_def enc)
  have "\<exists>x. s\<lparr>ci_buffer := rest\<rparr> = s\<lparr>ci_buffer := rest, ci_end := x\<rparr>" for rest and s :: coded_input
    by (rule exI [of _ "ci_end s"]) simp
  then show ?thesis
    using wide_format.packed_fixed_read [OF W B, where read = read and zero = zero]
    unfolding packed_carried_def e by (simp add: WriteVarint32ToArray_eq) metis
qed

text \<open>
  C27. A packed field is read as it was written. For each of the fourteen scalar types, with the reader
  the type really has, and any list of values, the length of their encodings followed by these is read
  into a field that has room for them: the values stand behind the old elements, in order, the stream is
  left where the field ends, under the limit it had, and the field is well formed.
\<close>

theorem packed_round_trip:
  assumes "wide_format W" and "et_sizeof E32 = 4" and "et_sizeof E64 = 8"
  shows "packed_carried (ReadPackedPrimitive W (ReadPrimitive_int32 W) E32) (WriteInt32NoTagToArray W) E32 \<and>
    packed_carried (ReadPackedPrimitive W (ReadPrimitive_int64 W) E64) (WriteInt64NoTagToArray W) E64 \<and>
    packed_carried (ReadPackedPrimitive W (ReadPrimitive_uint32 (wl_lib W)) E32) WriteUInt32NoTagToArray E32 \<and>
    packed_carried (ReadPackedPrimitive W (ReadPrimitive_uint64 W) E64) (WriteUInt64NoTagToArray W) E64 \<and>
    packed_carried (ReadPackedPrimitive W (ReadPrimitive_sint32 W) E32) WriteSInt32NoTagToArray E32 \<and>
    packed_carried (ReadPackedPrimitive W (ReadPrimitive_sint64 W) E64) (WriteSInt64NoTagToArray W) E64 \<and>
    packed_carried (ReadPackedPrimitive W (ReadPrimitive_bool W) Eb) WriteBoolNoTagToArray Eb \<and>
    packed_carried (ReadPackedPrimitive W (ReadPrimitive_enum W) E32) (WriteEnumNoTagToArray W) E32 \<and>
    packed_carried (ReadPackedPrimitive_fixed32 W E32) WriteFixed32NoTagToArray E32 \<and>
    packed_carried (ReadPackedPrimitive_fixed64 W E64) WriteFixed64NoTagToArray E64 \<and>
    packed_carried (ReadPackedPrimitive_sfixed32 W E32) WriteSFixed32NoTagToArray E32 \<and>
    packed_carried (ReadPackedPrimitive_sfixed64 W E64) WriteSFixed64NoTagToArray E64 \<and>
    packed_carried (ReadPackedPrimitive_float W E32) WriteFloatNoTagToArray E32 \<and>
    packed_carried (ReadPackedPrimitive_double W E64) WriteDoubleNoTagToArray E64"
proof -
  note codecs = wide_format.scalar_codecs [OF assms(1)]
  have b: "byte_codec (et_sizeof E32) le32 of_le32" "byte_codec (et_sizeof E64) le64 of_le64"
    using le32.byte_codec_axioms le64.byte_codec_axioms by (simp_all add: assms(2,3))
  show ?thesis
    unfolding packed_fixed_defs [abs_def]
    by (intro conjI packed_carriedI [OF assms(1)] packed_carried_fixed [OF assms(1)] b) (rule codecs | simp add: write_defs)+
qed

text \<open>Two zigzag numbers, \<open>- 3\<close> and \<open>150\<close>, read into an empty field, and two numbers of fixed width.\<close>

theorem packed_round_trip_witness:
  "(\<exists>s f. ReadPackedPrimitive reference_wide (ReadPrimitive_sint32 reference_wide) word_element
      (CodedInputStream reference_lib [3, 5, 172, 2, 9]) RepeatedField = Some (Inr (True, s, f)) \<and>
    ci_buffer s = [9] \<and> field_contents f = [- 3, 150]) \<and>
   (\<exists>s f. ReadPackedPrimitive_fixed32 reference_wide word_element
      (CodedInputStream reference_lib [8, 1, 0, 0, 0, 2, 0, 0, 0, 9]) RepeatedField = Some (Inr (True, s, f)) \<and>
    ci_buffer s = [9] \<and> field_contents f = [1, 2])"
proof -
  have e: "WriteSInt32NoTagToArray (- 3) [] = [5]" "WriteSInt32NoTagToArray 150 [] = [172, 2]"
    by (simp_all add: WriteSInt32NoTagToArray_def ZigZagEncode32_def WriteVarint32ToArray.simps)
  have e32: "WriteFixed32NoTagToArray 1 [] = [1, 0, 0, 0]" "WriteFixed32NoTagToArray 2 [] = [2, 0, 0, 0]"
    by code_simp+
  have l: "at_limit (CodedInputStream reference_lib [3, 5, 172, 2, 9])"
    "at_limit (CodedInputStream reference_lib [8, 1, 0, 0, 0, 2, 0, 0, 0, 9])"
    by (simp_all add: at_limit_def unread_def CodedInputStream_def)
  have t: "takes word_element 1000 RepeatedField (Suc (Suc 0))" by (rule takes_new [OF word_reachable]) simp
  have s: "et_sizeof word_element = 4" "et_sizeof long_element = 8" by (simp_all add: word_element_def long_element_def)
  note P = packed_round_trip [OF wide_reference_format s, of bool_element]
  have "packed_carried (ReadPackedPrimitive reference_wide (ReadPrimitive_sint32 reference_wide) word_element) WriteSInt32NoTagToArray word_element"
    "packed_carried (ReadPackedPrimitive_fixed32 reference_wide word_element) WriteFixed32NoTagToArray word_element"
    using P by blast+
  note P = this [unfolded packed_carried_def]
  show ?thesis
    using P(1) [rule_format, OF l(1), of "[- 3, 150]" 1000 RepeatedField "[9]"] P(2) [rule_format, OF l(2), of "[1, 2]" 1000 RepeatedField "[9]"] t
    by (auto simp: e e32 CodedInputStream_def WriteVarint32ToArray.simps)
qed

section \<open>Repeated values of fixed width\<close>

text \<open>
  C28. The reader that works on the buffer agrees with the general one. Whatever the bytes, the tag and
  the field, if reading value after value with \<open>ExpectTag\<close> and \<open>ReadPrimitive\<close> succeeds, the reader for
  types of fixed width, which takes the values out of the buffer unchecked and skips their bytes at the
  end, succeeds with the same field and leaves the stream at the same place, when it is called, as it
  demands, with the size of the tag. In particular its accesses stay within the buffer.
\<close>

theorem fixed_width_agrees:
  assumes "wide_format W" and "fixed_reader read from_array dec (et_sizeof E)"
    and "tag_size = UInt32Size (wl_lib W) tag" and "ReadRepeatedPrimitive read E tag s f = Inr (True, s', f')"
  shows "ReadRepeatedFixedSizePrimitive W read from_array E tag_size tag s f = Inr (True, s', f')"
proof (cases "0x4000 \<le> tag")
  case False
  then have "tag < 0x4000" by simp
  then have "tag_size = int (tag_bytes tag)"
    using wide_format.UInt32Size_eq [OF assms(1)] assms(3) by (simp add: length_varint StaticVarintSize32_def tag_bytes_def)
  then show ?thesis
    using fixed_reader.read_equal [OF assms(2,4) refl, of W] wide_format.skipped [OF assms(1)] by blast
qed (rule fixed_reader.read_equal_long [OF assms(2) _ assms(4)])

text \<open>Three floats, given by their bits, in a field with room for four.\<close>

definition four_words :: "u32 repeated_field" where
  "four_words = \<lparr>rf_current_size = 0, rf_total_size = 4, rf_rep = Some \<lparr>rep_arena = None, rep_elements = [0, 0, 0, 0]\<rparr>\<rparr>"

lemma of_le32_small: "of_le32 [1, 0, 0, 0] = 1" "of_le32 [2, 0, 0, 0] = 2" "of_le32 [3, 0, 0, 0] = 3"
  by code_simp+

theorem fixed_width_agrees_witness:
  "ReadRepeatedFixedSizePrimitive reference_wide (ReadPrimitive_float reference_wide) ReadPrimitiveFromArray_float
      word_element 1 13 (CodedInputStream reference_lib [1, 0, 0, 0, 13, 2, 0, 0, 0, 13, 3, 0, 0, 0, 16]) four_words =
    Inr (True, (CodedInputStream reference_lib [1, 0, 0, 0, 13, 2, 0, 0, 0, 13, 3, 0, 0, 0, 16])\<lparr>ci_buffer := [16]\<rparr>,
      four_words\<lparr>rf_current_size := 3, rf_rep := Some \<lparr>rep_arena = None, rep_elements = [1, 2, 3, 0]\<rparr>\<rparr>)"
proof -
  let ?s = "CodedInputStream reference_lib [1, 0, 0, 0, 13, 2, 0, 0, 0, 13, 3, 0, 0, 0, 16]"
    and ?f = "four_words\<lparr>rf_current_size := 3, rf_rep := Some \<lparr>rep_arena = None, rep_elements = [1, 2, 3, 0]\<rparr>\<rparr>"
  have g: "ReadRepeatedPrimitive (ReadPrimitive_float reference_wide) word_element 13 ?s four_words =
      Inr (True, ?s\<lparr>ci_buffer := [16]\<rparr>, ?f)"
    by (simp add: ReadRepeatedPrimitive_def ReadPrimitive_float_def ReadLittleEndian32_def BufferSize_def CodedInputStream_def
      Advance_def of_le32_small DecodeFloat_def RepeatedField_Add_def grow_for_one_def four_words_def argument_value_def
      put_element_def RepeatedField_Capacity_def RepeatedField_size_def numeral_3_eq_3 RepeatedField_AddAlreadyReserved_def ExpectTag_def)
  have t: "UInt32Size (wl_lib reference_wide) 13 = 1" "et_sizeof word_element = 4"
    by (simp_all add: UInt32Size_def VarintSize32_def word_element_def)
  show ?thesis
    using fixed_width_agrees [OF wide_reference_format _ _ g, of ReadPrimitiveFromArray_float of_le32 1]
      wide_reference.float_array.fixed_reader_axioms by (simp add: t)
qed

section \<open>The zigzag code and groups\<close>

text \<open>
  The code the header describes: the numbers 0, -1, 1, -2, ... are numbered from 0 on, over the whole
  range of the type, and the decoder is the inverse of the encoder.
\<close>

lemma zigzag_code:
  "uint (ZigZagEncode32 m) = (if sint m < 0 then - 2 * sint m - 1 else 2 * sint m)"
  "uint (ZigZagEncode64 n) = (if sint n < 0 then - 2 * sint n - 1 else 2 * sint n)"
  "ZigZagDecode32 (ZigZagEncode32 m) = m" "ZigZagEncode32 (ZigZagDecode32 m) = m"
  "ZigZagDecode64 (ZigZagEncode64 n) = n" "ZigZagEncode64 (ZigZagDecode64 n) = n"
  by (simp_all only: ZigZag_eq uint_zigzag zagzig_zigzag zigzag_zagzig)

text \<open>
  The two readers of a group count the recursion differently; they agree when the parser leaves the count
  as it found it.
\<close>

lemma group_readers_agree:
  assumes "\<And>s1 ok m' s2. parse m s1 = Some (ok, m', s2) \<Longrightarrow>
      ci_budget s2 = ci_budget s1 \<and> ci_recursion_limit s2 = ci_recursion_limit s1"
    and "ci_budget s \<le> ci_recursion_limit s"
  shows "ReadGroupNoVirtual parse n m s = ReadGroup parse n m s"
proof (cases "parse m (s\<lparr>ci_budget := ci_budget s - 1\<rparr>)")
  case (Some r)
  obtain ok m' s2 where r: "r = (ok, m', s2)" by (cases r)
  show ?thesis
    using assms(1) [OF Some [unfolded r]] assms(2) Some r
    by (simp add: ReadGroup_def ReadGroupNoVirtual_def IncrementRecursionDepth_def DecrementRecursionDepth_def
      UnsafeDecrementRecursionDepth_def Let_def)
qed (simp add: ReadGroup_def ReadGroupNoVirtual_def IncrementRecursionDepth_def Let_def)

end
