(* ===== verification/Arenas.thy ===== *)
theory Arenas
  imports Prelude "HOL-Library.Multiset"
begin

text \<open>
  Arenas (arena.h): which objects are created where, and which the arena destroys or deletes in the end.
  The allocation of blocks, the list of clean-up functions and the run through it are only declared in
  the header; they are the record \<open>arena_lib\<close>. A constructor is the value it yields; where the type
  follows the protocol of \<open>CreateMessage\<close> it is given the arena.
\<close>

section \<open>Objects and memory\<close>

type_synonym address = nat

text \<open>What the templates ask of a type: its size and its traits.\<close>

record class_type =
  ty_sizeof :: nat
  ty_trivial_destructor :: bool
  ty_InternalArenaConstructable :: bool
  ty_DestructorSkippable :: bool
  ty_is_Message :: bool

datatype place = On_heap | On_arena nat

record 'v placed =
  ob_place :: place
  ob_type :: class_type
  ob_value :: 'v

text \<open>
  The pointee of a deleter: one type, or the base class \<open>Message\<close>, whose destructor is virtual. A node of
  the clean-up list is an address and a function; user functions are named by numbers. Address 0 is null.
\<close>

datatype pointee = Exactly class_type | Any_message
datatype cleanup = Destruct class_type | Delete pointee | Custom nat

record 'v memory =
  mm_next :: address
  mm_objects :: "address \<Rightarrow> 'v placed option"
  mm_nodes :: "nat \<Rightarrow> (address \<times> cleanup) list"
  mm_destroyed :: "address list"

fun points_to :: "pointee \<Rightarrow> class_type \<Rightarrow> bool" where
  "points_to (Exactly T) U \<longleftrightarrow> U = T"
| "points_to Any_message U \<longleftrightarrow> ty_is_Message U"

definition construct :: "address \<Rightarrow> place \<Rightarrow> class_type \<Rightarrow> 'v \<Rightarrow> 'v memory \<Rightarrow> 'v memory" where
  "construct p pl T v s =
     s\<lparr>mm_objects := (mm_objects s)(p := Some \<lparr>ob_place = pl, ob_type = T, ob_value = v\<rparr>)\<rparr>"

definition heap_new :: "class_type \<Rightarrow> 'v \<Rightarrow> 'v memory \<Rightarrow> address \<times> 'v memory" where
  "heap_new T v s = (mm_next s, construct (mm_next s) On_heap T v (s\<lparr>mm_next := mm_next s + 1\<rparr>))"

definition end_object :: "address \<Rightarrow> 'v memory \<Rightarrow> 'v memory" where
  "end_object p s = s\<lparr>mm_objects := (mm_objects s)(p := None), mm_destroyed := p # mm_destroyed s\<rparr>"

section \<open>Clean-up functions\<close>

text \<open>Destroying what is not a live object of the type, or deleting what is not on the heap, is undefined.\<close>

definition arena_destruct_object :: "class_type \<Rightarrow> address \<Rightarrow> 'v memory \<Rightarrow> 'v memory res" where
  "arena_destruct_object T object s =
     (case mm_objects s object of
        None \<Rightarrow> Inl Undefined
      | Some ob \<Rightarrow> if ob_type ob = T then Inr (end_object object s) else Inl Undefined)"

definition arena_delete_object :: "pointee \<Rightarrow> address \<Rightarrow> 'v memory \<Rightarrow> 'v memory res" where
  "arena_delete_object T object s =
     (case mm_objects s object of
        None \<Rightarrow> Inl Undefined
      | Some ob \<Rightarrow> if ob_place ob = On_heap \<and> points_to T (ob_type ob) then Inr (end_object object s)
                  else Inl Undefined)"

type_synonym 'v custom = "nat \<Rightarrow> address \<Rightarrow> 'v memory \<Rightarrow> 'v memory res"

fun run_cleanup :: "'v custom \<Rightarrow> address \<times> cleanup \<Rightarrow> 'v memory \<Rightarrow> 'v memory res" where
  "run_cleanup C (p, Destruct T) s = arena_destruct_object T p s"
| "run_cleanup C (p, Delete t) s = arena_delete_object t p s"
| "run_cleanup C (p, Custom k) s = C k p s"

fun run_cleanups :: "'v custom \<Rightarrow> (address \<times> cleanup) list \<Rightarrow> 'v memory \<Rightarrow> 'v memory res" where
  "run_cleanups C [] s = Inr s"
| "run_cleanups C (n # ns) s = res_bind (run_cleanup C n s) (run_cleanups C ns)"

section \<open>The library\<close>

record 'v arena_lib =
  al_AllocateAligned :: "nat \<Rightarrow> nat \<Rightarrow> 'v memory \<Rightarrow> address \<times> 'v memory"
  al_AddListNode :: "nat \<Rightarrow> address \<Rightarrow> cleanup \<Rightarrow> 'v memory \<Rightarrow> 'v memory"
  al_CleanupList :: "'v custom \<Rightarrow> nat \<Rightarrow> 'v memory \<Rightarrow> 'v memory res"

text \<open>
  The documented behaviour: memory from an arena is new; a node is added to the list of its arena; the
  clean-up runs every function of the list once, in some order, and leaves the list empty.
\<close>

locale arena_library =
  fixes L :: "'v arena_lib"
  assumes allocated: "al_AllocateAligned L a n s = (p, s') \<Longrightarrow>
      mm_next s \<le> p \<and> (\<exists>k. p < k \<and> s' = s\<lparr>mm_next := k\<rparr>)"
    and added: "al_AddListNode L a p c s = s\<lparr>mm_nodes := (mm_nodes s)(a := (p, c) # mm_nodes s a)\<rparr>"
    and cleaned: "\<exists>ns. mset ns = mset (mm_nodes s a) \<and> al_CleanupList L C a s =
      res_map (\<lambda>s'. s'\<lparr>mm_nodes := (mm_nodes s')(a := [])\<rparr>) (run_cleanups C ns s)"

text \<open>A simple arena: one address after another, the last function first.\<close>

definition reference_arena :: "'v arena_lib" where
  "reference_arena = \<lparr>al_AllocateAligned = (\<lambda>a n s. (mm_next s, s\<lparr>mm_next := mm_next s + max 1 n\<rparr>)),
     al_AddListNode = (\<lambda>a p c s. s\<lparr>mm_nodes := (mm_nodes s)(a := (p, c) # mm_nodes s a)\<rparr>),
     al_CleanupList = (\<lambda>C a s. res_map (\<lambda>s'. s'\<lparr>mm_nodes := (mm_nodes s')(a := [])\<rparr>) (run_cleanups C (mm_nodes s a) s))\<rparr>"

lemma reference_arena_library: "arena_library reference_arena"
proof
  show "mm_next s \<le> p \<and> (\<exists>k. p < k \<and> s' = s\<lparr>mm_next := k\<rparr>)"
    if "al_AllocateAligned reference_arena a n s = (p, s')" for a n p and s s' :: "'v memory"
    using that by (auto simp: reference_arena_def intro!: exI [of _ "mm_next s + max 1 n"])
qed (auto simp: reference_arena_def)

interpretation reference_arena: arena_library reference_arena
  by (rule reference_arena_library)

section \<open>Creating objects\<close>

definition SkipDeleteList :: "class_type \<Rightarrow> bool" where
  "SkipDeleteList T = (if ty_DestructorSkippable T then True else ty_trivial_destructor T)"

definition is_arena_constructable :: "class_type \<Rightarrow> bool" where
  "is_arena_constructable T = ty_InternalArenaConstructable T"

definition is_destructor_skippable :: "class_type \<Rightarrow> bool" where
  "is_destructor_skippable T \<longleftrightarrow> ty_DestructorSkippable T \<or> ty_trivial_destructor T"

definition CreateInternal ::
  "'v arena_lib \<Rightarrow> nat \<Rightarrow> bool \<Rightarrow> class_type \<Rightarrow> 'v \<Rightarrow> 'v memory \<Rightarrow> address \<times> 'v memory" where
  "CreateInternal L a skip_explicit_ownership T v s =
     (let (t, s1) = al_AllocateAligned L a (ty_sizeof T) s; s2 = construct t (On_arena a) T v s1
      in (t, if \<not> skip_explicit_ownership then al_AddListNode L a t (Destruct T) s2 else s2))"

definition CreateMessageInternal ::
  "'v arena_lib \<Rightarrow> nat \<Rightarrow> class_type \<Rightarrow> (nat option \<Rightarrow> 'v) \<Rightarrow> 'v memory \<Rightarrow> address \<times> 'v memory" where
  "CreateMessageInternal L a T ctor s = CreateInternal L a (SkipDeleteList T) T (ctor (Some a)) s"

text \<open>The overloads differ in the arguments the constructor gets.\<close>

definition CreateMessage ::
  "'v arena_lib \<Rightarrow> nat option \<Rightarrow> class_type \<Rightarrow> (nat option \<Rightarrow> 'v) \<Rightarrow> 'v memory \<Rightarrow> address \<times> 'v memory" where
  "CreateMessage L arena T ctor s =
     (case arena of None \<Rightarrow> heap_new T (ctor None) s | Some a \<Rightarrow> CreateMessageInternal L a T ctor s)"

definition Arena_Create ::
  "'v arena_lib \<Rightarrow> nat option \<Rightarrow> class_type \<Rightarrow> 'v \<Rightarrow> 'v memory \<Rightarrow> address \<times> 'v memory" where
  "Arena_Create L arena T v s =
     (case arena of None \<Rightarrow> heap_new T v s | Some a \<Rightarrow> CreateInternal L a (ty_trivial_destructor T) T v s)"

definition CreateMaybeMessage ::
  "'v arena_lib \<Rightarrow> nat option \<Rightarrow> class_type \<Rightarrow> (nat option \<Rightarrow> 'v) \<Rightarrow> 'v \<Rightarrow> 'v memory \<Rightarrow> address \<times> 'v memory" where
  "CreateMaybeMessage L arena T ctor v s =
     (if ty_InternalArenaConstructable T then CreateMessage L arena T ctor s else Arena_Create L arena T v s)"

text \<open>Arrays are raw memory: nothing is constructed.\<close>

definition CreateInternalRawArray ::
  "'v arena_lib \<Rightarrow> nat \<Rightarrow> class_type \<Rightarrow> nat \<Rightarrow> 'v memory \<Rightarrow> (address \<times> 'v memory) res" where
  "CreateInternalRawArray L a T num_elements s =
     (if (2 ^ 32 - 1) div ty_sizeof T < num_elements then Inl Fatal_Exception
      else Inr (al_AllocateAligned L a (ty_sizeof T * num_elements) s))"

definition CreateArray ::
  "'v arena_lib \<Rightarrow> nat option \<Rightarrow> class_type \<Rightarrow> nat \<Rightarrow> 'v memory \<Rightarrow> (address \<times> 'v memory) res" where
  "CreateArray L arena T num_elements s =
     (if (2 ^ 32 - 1) div ty_sizeof T < num_elements then Inl Fatal_Exception
      else case arena of
             None \<Rightarrow> Inr (mm_next s, s\<lparr>mm_next := mm_next s + max 1 (num_elements * ty_sizeof T)\<rparr>)
           | Some a \<Rightarrow> CreateInternalRawArray L a T num_elements s)"

section \<open>Ownership\<close>

definition OwnInternal ::
  "'v arena_lib \<Rightarrow> nat \<Rightarrow> bool \<Rightarrow> class_type \<Rightarrow> address \<Rightarrow> 'v memory \<Rightarrow> 'v memory" where
  "OwnInternal L a is_message T object s =
     (if object \<noteq> 0 then al_AddListNode L a object (Delete (if is_message then Any_message else Exactly T)) s else s)"

definition Arena_Own :: "'v arena_lib \<Rightarrow> nat \<Rightarrow> class_type \<Rightarrow> address \<Rightarrow> 'v memory \<Rightarrow> 'v memory" where
  "Arena_Own L a T object s = OwnInternal L a (ty_is_Message T) T object s"

definition OwnDestructor :: "'v arena_lib \<Rightarrow> nat \<Rightarrow> class_type \<Rightarrow> address \<Rightarrow> 'v memory \<Rightarrow> 'v memory" where
  "OwnDestructor L a T object s = (if object \<noteq> 0 then al_AddListNode L a object (Destruct T) s else s)"

definition OwnCustomDestructor :: "'v arena_lib \<Rightarrow> nat \<Rightarrow> address \<Rightarrow> nat \<Rightarrow> 'v memory \<Rightarrow> 'v memory" where
  "OwnCustomDestructor L a object destruct s = al_AddListNode L a object (Custom destruct) s"

text \<open>The arena a message was constructed with is an argument.\<close>

definition GetArenaInternal :: "('v \<Rightarrow> nat option) \<Rightarrow> class_type \<Rightarrow> 'v \<Rightarrow> nat option" where
  "GetArenaInternal GetArenaNoVirtual T v = (if ty_InternalArenaConstructable T then GetArenaNoVirtual v else None)"

definition Arena_GetArena :: "('v \<Rightarrow> nat option) \<Rightarrow> class_type \<Rightarrow> 'v \<Rightarrow> nat option" where
  "Arena_GetArena GetArenaNoVirtual T v = GetArenaInternal GetArenaNoVirtual T v"

text \<open>An object constructed in memory of the arena that is already there; a null arena is followed.\<close>

definition CreateInArenaStorageInternal ::
  "bool \<Rightarrow> class_type \<Rightarrow> address \<Rightarrow> nat option \<Rightarrow> (nat option \<Rightarrow> 'v) \<Rightarrow> 'v \<Rightarrow> 'v memory \<Rightarrow> 'v memory" where
  "CreateInArenaStorageInternal constructable T p arena ctor v s =
     construct p (case arena of None \<Rightarrow> On_heap | Some a \<Rightarrow> On_arena a) T (if constructable then ctor arena else v) s"

definition RegisterDestructorInternal ::
  "'v arena_lib \<Rightarrow> bool \<Rightarrow> class_type \<Rightarrow> address \<Rightarrow> nat option \<Rightarrow> 'v memory \<Rightarrow> 'v memory res" where
  "RegisterDestructorInternal L skippable T p arena s =
     (if skippable then Inr s
      else case arena of None \<Rightarrow> Inl Undefined | Some a \<Rightarrow> Inr (OwnDestructor L a T p s))"

definition CreateInArenaStorage ::
  "'v arena_lib \<Rightarrow> class_type \<Rightarrow> address \<Rightarrow> nat option \<Rightarrow> (nat option \<Rightarrow> 'v) \<Rightarrow> 'v \<Rightarrow> 'v memory \<Rightarrow> 'v memory res" where
  "CreateInArenaStorage L T p arena ctor v s =
     RegisterDestructorInternal L (is_destructor_skippable T) T p arena
       (CreateInArenaStorageInternal (is_arena_constructable T) T p arena ctor v s)"

section \<open>Options and blocks\<close>

record arena_options =
  ao_start_block_size :: nat
  ao_max_block_size :: nat
  ao_initial_block :: "address option"
  ao_initial_block_size :: nat

definition kDefaultStartBlockSize :: nat where "kDefaultStartBlockSize = 256"
definition kDefaultMaxBlockSize :: nat where "kDefaultMaxBlockSize = 8192"

text \<open>The hooks are null and the block functions those of the C library.\<close>

definition ArenaOptions :: arena_options where
  "ArenaOptions = \<lparr>ao_start_block_size = kDefaultStartBlockSize, ao_max_block_size = kDefaultMaxBlockSize,
     ao_initial_block = None, ao_initial_block_size = 0\<rparr>"

definition block_avail :: "size_t \<Rightarrow> size_t \<Rightarrow> size_t" where
  "block_avail size_of pos = size_of - pos"

section \<open>What a caller may do\<close>

text \<open>
  The operations on one arena and on the heap, with what the comments ask: an object handed over with
  \<open>Own\<close> is on the heap, one whose destructor is registered lies on the arena, neither is registered
  already, and storage lies on the arena and holds nothing.
\<close>

datatype 'v arena_op =
    A_Create "nat option" class_type 'v
  | A_CreateMessage "nat option" class_type "nat option \<Rightarrow> 'v"
  | A_CreateMaybeMessage "nat option" class_type "nat option \<Rightarrow> 'v" 'v
  | A_CreateArray "nat option" class_type nat
  | A_Own class_type address
  | A_OwnDestructor class_type address
  | A_CreateInArenaStorage class_type address "nat option \<Rightarrow> 'v" 'v

text \<open>The result has the address of what was created; a call that creates nothing gives back its argument.\<close>

fun arena_do :: "'v arena_lib \<Rightarrow> nat \<Rightarrow> 'v arena_op \<Rightarrow> 'v memory \<Rightarrow> (address \<times> 'v memory) res" where
  "arena_do L a (A_Create arena T v) s = Inr (Arena_Create L arena T v s)"
| "arena_do L a (A_CreateMessage arena T ctor) s = Inr (CreateMessage L arena T ctor s)"
| "arena_do L a (A_CreateMaybeMessage arena T ctor v) s = Inr (CreateMaybeMessage L arena T ctor v s)"
| "arena_do L a (A_CreateArray arena T n) s = CreateArray L arena T n s"
| "arena_do L a (A_Own T p) s = Inr (p, Arena_Own L a T p s)"
| "arena_do L a (A_OwnDestructor T p) s = Inr (p, OwnDestructor L a T p s)"
| "arena_do L a (A_CreateInArenaStorage T p ctor v) s = res_map (Pair p) (CreateInArenaStorage L T p (Some a) ctor v s)"

text \<open>
  What a call leaves to the arena, by the comments of the header and not by what the arena notes down:
  what \<open>Create\<close> makes on it, unless the destructor is trivial; what \<open>CreateMessage\<close> and
  \<open>CreateInArenaStorage\<close> make on it, unless the destructor is trivial or may be skipped; what is handed
  over. \<open>p\<close> is the address the call gave back.
\<close>

fun entrusted :: "'v arena_op \<Rightarrow> address \<Rightarrow> address list" where
  "entrusted (A_Create arena T v) p = (if arena \<noteq> None \<and> \<not> ty_trivial_destructor T then [p] else [])"
| "entrusted (A_CreateMessage arena T ctor) p =
     (if arena \<noteq> None \<and> \<not> ty_trivial_destructor T \<and> \<not> ty_DestructorSkippable T then [p] else [])"
| "entrusted (A_CreateMaybeMessage arena T ctor v) p =
     (if arena \<noteq> None \<and> \<not> ty_trivial_destructor T \<and> \<not> (ty_InternalArenaConstructable T \<and> ty_DestructorSkippable T)
      then [p] else [])"
| "entrusted (A_CreateArray arena T n) p = []"
| "entrusted (A_Own T q) p = (if q \<noteq> 0 then [q] else [])"
| "entrusted (A_OwnDestructor T q) p = (if q \<noteq> 0 then [q] else [])"
| "entrusted (A_CreateInArenaStorage T q ctor v) p =
     (if \<not> ty_trivial_destructor T \<and> \<not> ty_DestructorSkippable T then [q] else [])"

fun may_do :: "nat \<Rightarrow> address set \<Rightarrow> 'v memory \<Rightarrow> 'v arena_op \<Rightarrow> bool" where
  "may_do a H s (A_Create arena T v) \<longleftrightarrow> arena = None \<or> arena = Some a"
| "may_do a H s (A_CreateMessage arena T ctor) \<longleftrightarrow> arena = None \<or> arena = Some a"
| "may_do a H s (A_CreateMaybeMessage arena T ctor v) \<longleftrightarrow> arena = None \<or> arena = Some a"
| "may_do a H s (A_CreateArray arena T n) \<longleftrightarrow> (arena = None \<or> arena = Some a) \<and> n \<le> (2 ^ 32 - 1) div ty_sizeof T"
| "may_do a H s (A_Own T p) \<longleftrightarrow> p = 0 \<or> p \<notin> H \<and> (case mm_objects s p of None \<Rightarrow> False
     | Some ob \<Rightarrow> ob_place ob = On_heap \<and> points_to (if ty_is_Message T then Any_message else Exactly T) (ob_type ob))"
| "may_do a H s (A_OwnDestructor T p) \<longleftrightarrow> p = 0 \<or> p \<notin> H \<and> (case mm_objects s p of None \<Rightarrow> False
     | Some ob \<Rightarrow> ob_place ob = On_arena a \<and> ob_type ob = T)"
| "may_do a H s (A_CreateInArenaStorage T p ctor v) \<longleftrightarrow>
     p \<noteq> 0 \<and> p < mm_next s \<and> mm_objects s p = None \<and> p \<notin> H"

text \<open>From a memory in which the arena is empty; \<open>H\<close> is what has been left to the arena so far.\<close>

inductive arena_reach :: "'v arena_lib \<Rightarrow> nat \<Rightarrow> address list \<Rightarrow> 'v memory \<Rightarrow> bool" for L a where
  start: "0 < mm_next s \<Longrightarrow> mm_nodes s a = [] \<Longrightarrow> mm_objects s 0 = None \<Longrightarrow> (\<And>p. mm_next s \<le> p \<Longrightarrow> mm_objects s p = None) \<Longrightarrow>
    (\<And>p ob. mm_objects s p = Some ob \<Longrightarrow> ob_place ob \<noteq> On_arena a) \<Longrightarrow> arena_reach L a [] s"
| step: "arena_reach L a H s \<Longrightarrow> may_do a (set H) s op \<Longrightarrow> arena_do L a op s = Inr (p, s') \<Longrightarrow>
    arena_reach L a (entrusted op p @ H) s'"

section \<open>The invariant\<close>

definition registered :: "nat \<Rightarrow> 'v memory \<Rightarrow> address set" where
  "registered a s = fst ` set (mm_nodes s a)"

text \<open>
  Every node has its own object, live and of the kind its function expects; every object on the arena
  whose destructor must run has a node.
\<close>

fun node_fits :: "nat \<Rightarrow> 'v memory \<Rightarrow> address \<times> cleanup \<Rightarrow> bool" where
  "node_fits a s (p, c) \<longleftrightarrow> (case mm_objects s p of None \<Rightarrow> False | Some ob \<Rightarrow>
     (case c of Destruct T \<Rightarrow> ob_place ob = On_arena a \<and> ob_type ob = T
        | Delete t \<Rightarrow> ob_place ob = On_heap \<and> points_to t (ob_type ob) | Custom k \<Rightarrow> False))"

definition must_run :: "nat \<Rightarrow> 'v placed \<Rightarrow> bool" where
  "must_run a ob \<longleftrightarrow> ob_place ob = On_arena a \<and> \<not> ty_trivial_destructor (ob_type ob) \<and> \<not> ty_DestructorSkippable (ob_type ob)"

definition arena_inv :: "nat \<Rightarrow> 'v memory \<Rightarrow> bool" where
  "arena_inv a s \<longleftrightarrow> 0 < mm_next s \<and> mm_objects s 0 = None \<and> (\<forall>p. mm_next s \<le> p \<longrightarrow> mm_objects s p = None) \<and>
     distinct (map fst (mm_nodes s a)) \<and> (\<forall>n \<in> set (mm_nodes s a). node_fits a s n) \<and>
     (\<forall>p ob. mm_objects s p = Some ob \<longrightarrow> must_run a ob \<longrightarrow> p \<in> registered a s)"

lemma fits_live: "node_fits a s (p, c) \<Longrightarrow> mm_objects s p \<noteq> None"
  by (auto split: option.splits)

lemma fits_other: "node_fits a s (q, c) \<Longrightarrow> mm_objects s' q = mm_objects s q \<Longrightarrow> node_fits a s' (q, c)"
  by simp

text \<open>A new object, with or without a node.\<close>

lemma inv_construct:
  assumes inv: "arena_inv a s" and p: "p \<noteq> 0" "mm_objects s p = None" "mm_next s \<le> k" "p < k"
    and reg: "must_run a \<lparr>ob_place = pl, ob_type = T, ob_value = v\<rparr> \<Longrightarrow> node \<noteq> []"
    and node: "node = [] \<or> node = [(p, Destruct T)] \<and> pl = On_arena a"
  shows "arena_inv a ((construct p pl T v (s\<lparr>mm_next := k\<rparr>))\<lparr>mm_nodes := (mm_nodes s)(a := node @ mm_nodes s a)\<rparr>)"
proof -
  let ?s' = "(construct p pl T v (s\<lparr>mm_next := k\<rparr>))\<lparr>mm_nodes := (mm_nodes s)(a := node @ mm_nodes s a)\<rparr>"
  have o: "mm_objects ?s' q = (if q = p then Some \<lparr>ob_place = pl, ob_type = T, ob_value = v\<rparr> else mm_objects s q)" for q
    by (simp add: construct_def)
  have old: "q \<noteq> p" if "(q, c) \<in> set (mm_nodes s a)" for q c
  proof -
    have "node_fits a s (q, c)" using inv that by (auto simp: arena_inv_def)
    then show ?thesis using fits_live p(2) by blast
  qed
  have "node_fits a ?s' (q, c)" if "(q, c) \<in> set (mm_nodes s a)" for q c
    using that inv old [OF that] o [of q] fits_other [of a s q c ?s'] by (auto simp: arena_inv_def)
  moreover have "node_fits a ?s' n" if "n \<in> set node" for n
    using that node by (auto simp: construct_def)
  moreover have "p \<notin> fst ` set (mm_nodes s a)" using old by fastforce
  then have "distinct (map fst (node @ mm_nodes s a))" using inv node by (elim disjE) (simp_all add: arena_inv_def)
  moreover have "q \<in> registered a ?s'" if "mm_objects ?s' q = Some ob" "must_run a ob" for q ob
  proof (cases "q = p")
    case True
    then show ?thesis using that reg node by (auto simp: construct_def registered_def)
  next
    case False
    then show ?thesis using that inv by (simp add: construct_def arena_inv_def registered_def image_Un)
  qed
  moreover have "mm_objects ?s' q = None" if "k \<le> q" for q
    using that inv p by (auto simp: construct_def arena_inv_def)
  ultimately show ?thesis
    using inv p by (auto simp: arena_inv_def o simp del: node_fits.simps) (simp_all add: construct_def)
qed

text \<open>A node for a live object.\<close>

lemma inv_register:
  assumes inv: "arena_inv a s" and p: "p \<notin> registered a s" "node_fits a s (p, c)"
  shows "arena_inv a (s\<lparr>mm_nodes := (mm_nodes s)(a := (p, c) # mm_nodes s a)\<rparr>)"
proof -
  have "node_fits a (s\<lparr>mm_nodes := x\<rparr>) n = node_fits a s n" for x n
    by (cases n) simp
  then show ?thesis
    using assms by (simp add: arena_inv_def registered_def)
qed

lemma inv_more: "arena_inv a s \<Longrightarrow> mm_next s \<le> k \<Longrightarrow> arena_inv a (s\<lparr>mm_next := k\<rparr>)"
proof -
  assume "arena_inv a s" "mm_next s \<le> k"
  moreover have "node_fits a (s\<lparr>mm_next := k\<rparr>) n = node_fits a s n" for n
    by (cases n) simp
  ultimately show ?thesis by (auto simp: arena_inv_def registered_def)
qed

context arena_library
begin

lemma inv_heap_new: "arena_inv a s \<Longrightarrow> arena_inv a (snd (heap_new T v s))"
  using inv_construct [of a s "mm_next s" "mm_next s + 1" On_heap T v "[]"]
  by (simp add: heap_new_def must_run_def arena_inv_def) (simp add: construct_def)

lemma inv_CreateInternal:
  assumes inv: "arena_inv a s" and skip: "skip \<longrightarrow> ty_trivial_destructor T \<or> ty_DestructorSkippable T"
  shows "arena_inv a (snd (CreateInternal L a skip T v s))"
proof -
  obtain t s1 where t: "al_AllocateAligned L a (ty_sizeof T) s = (t, s1)" by fastforce
  then obtain k where k: "mm_next s \<le> t" "t < k" "s1 = s\<lparr>mm_next := k\<rparr>" using allocated by blast
  have "mm_objects s t = None" "t \<noteq> 0" using inv k(1) by (auto simp: arena_inv_def)
  then show ?thesis
    using inv_construct [OF inv, of t k "On_arena a" T v "if skip then [] else [(t, Destruct T)]"] skip t k
    by (cases skip) (auto simp: CreateInternal_def added must_run_def construct_def Let_def)
qed

lemma inv_Create: "arena_inv a s \<Longrightarrow> arena = None \<or> arena = Some a \<Longrightarrow> arena_inv a (snd (Arena_Create L arena T v s))"
  by (auto simp: Arena_Create_def intro: inv_heap_new inv_CreateInternal)

lemma inv_CreateMessage: "arena_inv a s \<Longrightarrow> arena = None \<or> arena = Some a \<Longrightarrow> arena_inv a (snd (CreateMessage L arena T ctor s))"
  by (auto simp: CreateMessage_def CreateMessageInternal_def SkipDeleteList_def intro: inv_heap_new inv_CreateInternal)

lemma CreateArray_total:
  assumes "arena_inv a s" "arena = None \<or> arena = Some a" "n \<le> (2 ^ 32 - 1) div ty_sizeof T"
  shows "\<exists>p s'. CreateArray L arena T n s = Inr (p, s') \<and> arena_inv a s'"
proof -
  obtain p s1 where p: "al_AllocateAligned L a (ty_sizeof T * n) s = (p, s1)" by fastforce
  then obtain k where "mm_next s \<le> p" "p < k" "s1 = s\<lparr>mm_next := k\<rparr>" using allocated by blast
  then have "arena_inv a s1" using inv_more [OF assms(1), of k] by simp
  moreover have "arena_inv a (s\<lparr>mm_next := mm_next s + max 1 (n * ty_sizeof T)\<rparr>)"
    by (rule inv_more [OF assms(1)]) simp
  ultimately show ?thesis
    using assms(2,3) p by (auto simp: CreateArray_def CreateInternalRawArray_def)
qed

lemma inv_Storage:
  assumes inv: "arena_inv a s" and p: "p \<noteq> 0" "p < mm_next s" "mm_objects s p = None" "p \<notin> registered a s"
  shows "\<exists>s'. CreateInArenaStorage L T p (Some a) ctor v s = Inr s' \<and> arena_inv a s'"
  using inv_construct [OF inv p(1,3) order_refl p(2), where node = "if is_destructor_skippable T then [] else [(p, Destruct T)]"
      and pl = "On_arena a" and T = T and v = "if is_arena_constructable T then ctor (Some a) else v"] p(1)
  by (auto simp: CreateInArenaStorage_def CreateInArenaStorageInternal_def RegisterDestructorInternal_def OwnDestructor_def added
    must_run_def is_destructor_skippable_def construct_def)

lemma may_do_total:
  assumes inv: "arena_inv a s" and m: "may_do a (registered a s) s op"
  shows "\<exists>p s'. arena_do L a op s = Inr (p, s') \<and> arena_inv a s'"
proof (cases op)
  case (A_Create arena T v)
  then have "arena_inv a (snd (Arena_Create L arena T v s))" using inv_Create [OF inv] m by simp
  then show ?thesis using A_Create by (cases "Arena_Create L arena T v s") simp
next
  case (A_CreateMessage arena T ctor)
  then have "arena_inv a (snd (CreateMessage L arena T ctor s))" using inv_CreateMessage [OF inv] m by simp
  then show ?thesis using A_CreateMessage by (cases "CreateMessage L arena T ctor s") simp
next
  case (A_CreateMaybeMessage arena T ctor v)
  then have "arena_inv a (snd (CreateMaybeMessage L arena T ctor v s))"
    using inv_Create [OF inv] inv_CreateMessage [OF inv] m by (simp add: CreateMaybeMessage_def)
  then show ?thesis using A_CreateMaybeMessage by (cases "CreateMaybeMessage L arena T ctor v s") simp
next
  case (A_CreateArray arena T n)
  then show ?thesis using CreateArray_total [OF inv, of arena n T] m by auto
next
  case (A_Own T p)
  then show ?thesis
    using inv m inv_register [OF inv, of p "Delete (if ty_is_Message T then Any_message else Exactly T)"]
    by (auto simp: Arena_Own_def OwnInternal_def added split: option.splits if_splits)
next
  case (A_OwnDestructor T p)
  then show ?thesis
    using inv m inv_register [OF inv, of p "Destruct T"] by (auto simp: OwnDestructor_def added split: option.splits)
next
  case (A_CreateInArenaStorage T p ctor v)
  then show ?thesis using inv_Storage [OF inv, of p T ctor v] m by auto
qed

text \<open>What is left to the arena is noted down there, and nothing else is.\<close>

lemma nodes_CreateInternal:
  assumes "CreateInternal L a skip T v s = (p, s')"
  shows "map fst (mm_nodes s' a) = (if skip then [] else [p]) @ map fst (mm_nodes s a)"
proof -
  obtain t s1 where t: "al_AllocateAligned L a (ty_sizeof T) s = (t, s1)" by fastforce
  then obtain k where "s1 = s\<lparr>mm_next := k\<rparr>" using allocated by blast
  then show ?thesis using assms t by (auto simp: CreateInternal_def added construct_def split: if_splits)
qed

lemma nodes_Create:
  assumes "Arena_Create L arena T v s = (p, s')" "arena = None \<or> arena = Some a"
  shows "map fst (mm_nodes s' a) = (if arena \<noteq> None \<and> \<not> ty_trivial_destructor T then [p] else []) @ map fst (mm_nodes s a)"
  using assms nodes_CreateInternal [of a _ T v s p s']
  by (auto simp: Arena_Create_def heap_new_def construct_def)

lemma nodes_CreateMessage:
  assumes "CreateMessage L arena T ctor s = (p, s')" "arena = None \<or> arena = Some a"
  shows "map fst (mm_nodes s' a) =
    (if arena \<noteq> None \<and> \<not> ty_trivial_destructor T \<and> \<not> ty_DestructorSkippable T then [p] else []) @ map fst (mm_nodes s a)"
  using assms nodes_CreateInternal [of a _ T _ s p s']
  by (auto simp: CreateMessage_def CreateMessageInternal_def SkipDeleteList_def heap_new_def construct_def)

lemma arena_do_nodes:
  assumes "arena_do L a op s = Inr (p, s')" and "may_do a H s op"
  shows "map fst (mm_nodes s' a) = entrusted op p @ map fst (mm_nodes s a)"
proof (cases op)
  case (A_Create arena T v)
  then show ?thesis using assms nodes_Create [of arena T v s p s' a] by auto
next
  case (A_CreateMessage arena T ctor)
  then show ?thesis using assms nodes_CreateMessage [of arena T ctor s p s' a] by auto
next
  case (A_CreateMaybeMessage arena T ctor v)
  then show ?thesis
    using assms nodes_Create [of arena T v s p s' a] nodes_CreateMessage [of arena T ctor s p s' a]
    by (auto simp: CreateMaybeMessage_def split: if_splits)
next
  case (A_CreateArray arena T n)
  have "mm_nodes (snd (al_AllocateAligned L a k s)) = mm_nodes s" for k
    using allocated [of a k s] by (cases "al_AllocateAligned L a k s") auto
  from this [of "ty_sizeof T * n"] A_CreateArray show ?thesis
    using assms by (auto simp: CreateArray_def CreateInternalRawArray_def split: if_splits)
next
  case (A_Own T q)
  then show ?thesis using assms by (auto simp: Arena_Own_def OwnInternal_def added)
next
  case (A_OwnDestructor T q)
  then show ?thesis using assms by (auto simp: OwnDestructor_def added)
next
  case (A_CreateInArenaStorage T q ctor v)
  then show ?thesis
    using assms by (auto simp: CreateInArenaStorage_def RegisterDestructorInternal_def CreateInArenaStorageInternal_def
      OwnDestructor_def added construct_def is_destructor_skippable_def split: if_splits)
qed

lemma reach_inv: "arena_reach L a H s \<Longrightarrow> arena_inv a s \<and> map fst (mm_nodes s a) = H"
proof (induction rule: arena_reach.induct)
  case (start s)
  then show ?case by (auto simp: arena_inv_def must_run_def)
next
  case (step H s op p s')
  then have "registered a s = set H" by (metis registered_def set_map)
  then show ?case
    using may_do_total [of a s op] arena_do_nodes [OF step.hyps(3,2)] step by auto
qed

end

section \<open>The clean-up\<close>

lemma run_cleanup_fits:
  assumes "node_fits a s (p, c)"
  shows "run_cleanup C (p, c) s = Inr (end_object p s)"
  using assms by (cases c) (auto simp: arena_destruct_object_def arena_delete_object_def split: option.splits)

lemma run_cleanups_all:
  "distinct (map fst ns) \<Longrightarrow> \<forall>n \<in> set ns. node_fits a s n \<Longrightarrow>
    \<exists>s'. run_cleanups C ns s = Inr s' \<and> mset (mm_destroyed s') = mset (map fst ns) + mset (mm_destroyed s) \<and>
      (\<forall>p. mm_objects s' p = (if p \<in> fst ` set ns then None else mm_objects s p)) \<and> mm_nodes s' = mm_nodes s"
proof (induction ns arbitrary: s)
  case (Cons n ns)
  obtain p c where n: "n = (p, c)" by fastforce
  let ?s1 = "end_object p s"
  have "node_fits a ?s1 m" if "m \<in> set ns" for m
  proof -
    obtain q d where m: "m = (q, d)" by fastforce
    have "q \<noteq> p" using Cons.prems(1) that m n by force
    then show ?thesis
      using fits_other [of a s q d ?s1] Cons.prems(2) that m by (simp add: end_object_def del: node_fits.simps)
  qed
  then obtain s' where s': "run_cleanups C ns ?s1 = Inr s'" "mset (mm_destroyed s') = mset (map fst ns) + mset (mm_destroyed ?s1)"
    "\<forall>q. mm_objects s' q = (if q \<in> fst ` set ns then None else mm_objects ?s1 q)" "mm_nodes s' = mm_nodes ?s1"
    using Cons.IH [of ?s1] Cons.prems(1) by auto
  have "run_cleanup C n s = Inr ?s1" using run_cleanup_fits [of a s p c C] Cons.prems(2) n by simp
  then show ?case using s' n by (auto simp: end_object_def)
qed simp

section \<open>The property\<close>

text \<open>
  C29. An arena cleans up after its objects. Take any sequence of the calls by which objects are created on
  the arena or the heap or in storage of the arena, and handed over with \<open>Own\<close> and \<open>OwnDestructor\<close>, within
  the rules of the header; user functions registered with \<open>OwnCustomDestructor\<close> are not among them. Every
  such call succeeds. When the arena is destroyed the clean-up succeeds and ends exactly once each object
  the calls left to the arena: those handed over, those \<open>Create\<close> made on it whose destructor is not trivial,
  and those \<open>CreateMessage\<close> and \<open>CreateInArenaStorage\<close> made on it whose destructor may not be skipped
  either. All others stay as they were, and what is left on the arena has a destructor that may be skipped.
\<close>

theorem arena_cleans_up:
  assumes "arena_library L" and "arena_reach L a H s"
  shows "(\<forall>op. may_do a (set H) s op \<longrightarrow> (\<exists>p s'. arena_do L a op s = Inr (p, s'))) \<and>
    (\<exists>s'. al_CleanupList L C a s = Inr s' \<and> mm_nodes s' a = [] \<and>
      (\<forall>p. mm_objects s' p = (if p \<in> set H then None else mm_objects s p)) \<and>
      (\<forall>p. count (mset (mm_destroyed s')) p = count (mset (mm_destroyed s)) p + (if p \<in> set H then 1 else 0)) \<and>
      (\<forall>p ob. mm_objects s' p = Some ob \<longrightarrow> ob_place ob = On_arena a \<longrightarrow> is_destructor_skippable (ob_type ob)))"
proof -
  have inv: "arena_inv a s" and H: "map fst (mm_nodes s a) = H" using arena_library.reach_inv [OF assms] by simp_all
  obtain ns where ns: "mset ns = mset (mm_nodes s a)" "al_CleanupList L C a s =
      res_map (\<lambda>s'. s'\<lparr>mm_nodes := (mm_nodes s')(a := [])\<rparr>) (run_cleanups C ns s)"
    using arena_library.cleaned [OF assms(1), of s a C] by blast
  have m: "mset (map fst ns) = mset H" by (simp add: ns(1) flip: H)
  have reg: "fst ` set ns = set H" "registered a s = set H"
    using mset_eq_setD [OF m] H by (metis set_map, metis registered_def set_map)
  have d: "distinct (map fst ns)"
    using inv H mset_eq_imp_distinct_iff [OF m] by (simp add: arena_inv_def)
  have "\<forall>n \<in> set ns. node_fits a s n" using inv mset_eq_setD [OF ns(1)] by (simp add: arena_inv_def)
  then obtain s' where s': "run_cleanups C ns s = Inr s'" "mset (mm_destroyed s') = mset (map fst ns) + mset (mm_destroyed s)"
    "\<forall>p. mm_objects s' p = (if p \<in> fst ` set ns then None else mm_objects s p)"
    using run_cleanups_all [OF d, of a s C] by blast
  have "count (mset (map fst ns)) p = (if p \<in> set H then 1 else 0)" for p
    using d [unfolded distinct_count_atmost_1] reg(1) by (simp only: set_map)
  moreover have "\<forall>p ob. mm_objects s p = Some ob \<longrightarrow> must_run a ob \<longrightarrow> p \<in> set H"
    using inv reg(2) by (simp add: arena_inv_def)
  moreover have "\<forall>op. may_do a (set H) s op \<longrightarrow> (\<exists>p s'. arena_do L a op s = Inr (p, s'))"
    using arena_library.may_do_total [OF assms(1) inv] reg(2) by metis
  ultimately show ?thesis
    using s' ns(2) reg(1) by (simp add: must_run_def is_destructor_skippable_def split: if_splits) auto
qed

text \<open>
  A string made on the arena, a message there whose destructor may be skipped, and a string of the heap
  handed over: the two strings are ended, the message stays. A message made with \<open>Create\<close> instead is ended.
\<close>

definition string_class :: class_type where
  "string_class = \<lparr>ty_sizeof = 24, ty_trivial_destructor = False, ty_InternalArenaConstructable = False,
     ty_DestructorSkippable = False, ty_is_Message = False\<rparr>"

definition message_class :: class_type where
  "message_class = \<lparr>ty_sizeof = 40, ty_trivial_destructor = False, ty_InternalArenaConstructable = True,
     ty_DestructorSkippable = True, ty_is_Message = True\<rparr>"

definition empty_memory :: "nat memory" where
  "empty_memory = \<lparr>mm_next = 1, mm_objects = (\<lambda>_. None), mm_nodes = (\<lambda>_. []), mm_destroyed = []\<rparr>"

definition four_objects :: "nat memory" where
  "four_objects = \<lparr>mm_next = 106, mm_objects = (\<lambda>_. None)(1 \<mapsto> \<lparr>ob_place = On_arena 0, ob_type = string_class, ob_value = 7\<rparr>,
     25 \<mapsto> \<lparr>ob_place = On_arena 0, ob_type = message_class, ob_value = 8\<rparr>,
     65 \<mapsto> \<lparr>ob_place = On_arena 0, ob_type = message_class, ob_value = 6\<rparr>,
     105 \<mapsto> \<lparr>ob_place = On_heap, ob_type = string_class, ob_value = 9\<rparr>),
     mm_nodes = (\<lambda>_. [])(0 := [(105, Delete (Exactly string_class)), (65, Destruct message_class), (1, Destruct string_class)]),
     mm_destroyed = []\<rparr>"

lemma four_objects_reached: "arena_reach reference_arena 0 [105, 65, 1] four_objects"
proof -
  let ?do = "\<lambda>op s. arena_do reference_arena 0 op s"
  note defs = Arena_Create_def CreateMessage_def CreateMessageInternal_def CreateInternal_def heap_new_def construct_def
    reference_arena_def SkipDeleteList_def string_class_def message_class_def empty_memory_def
  have 0: "arena_reach reference_arena 0 [] empty_memory"
    by (rule arena_reach.start) (simp_all add: empty_memory_def)
  obtain s1 where s1: "?do (A_Create (Some 0) string_class 7) empty_memory = Inr (1, s1)" by (simp add: defs)
  obtain s2 where s2: "?do (A_CreateMessage (Some 0) message_class (\<lambda>_. 8)) s1 = Inr (25, s2)" using s1 by (auto simp: defs)
  obtain s3 where s3: "?do (A_Create (Some 0) message_class 6) s2 = Inr (65, s3)" using s1 s2 by (auto simp: defs)
  obtain s4 where s4: "?do (A_Create None string_class 9) s3 = Inr (105, s4)" using s1 s2 s3 by (auto simp: defs)
  have "arena_reach reference_arena 0 [1] s1"
    using arena_reach.step [OF 0 _ s1] by (simp add: string_class_def)
  from arena_reach.step [OF this _ s2] have "arena_reach reference_arena 0 [1] s2" by (simp add: message_class_def)
  from arena_reach.step [OF this _ s3] have "arena_reach reference_arena 0 [65, 1] s3" by (simp add: message_class_def)
  from arena_reach.step [OF this _ s4] have 4: "arena_reach reference_arena 0 [65, 1] s4" by simp
  have s: "s4 = four_objects\<lparr>mm_nodes := (\<lambda>_. [])(0 := [(65, Destruct message_class), (1, Destruct string_class)])\<rparr>"
    using s1 s2 s3 s4 by (auto simp: defs four_objects_def fun_eq_iff)
  have "?do (A_Own string_class 105) s4 = Inr (105, four_objects)"
    by (simp add: s Arena_Own_def OwnInternal_def reference_arena_def) (simp add: four_objects_def string_class_def)
  moreover have "may_do 0 (set [65, 1]) s4 (A_Own string_class 105)" by (simp add: s four_objects_def string_class_def)
  ultimately show ?thesis using arena_reach.step [OF 4] by fastforce
qed

theorem arena_cleans_up_witness:
  "\<exists>s'. al_CleanupList reference_arena (\<lambda>k p s. Inl Undefined) 0 four_objects = Inr s' \<and> mm_nodes s' 0 = [] \<and>
     mm_objects s' 1 = None \<and> mm_objects s' 25 = mm_objects four_objects 25 \<and> mm_objects s' 65 = None \<and> mm_objects s' 105 = None"
  using arena_cleans_up [OF reference_arena_library four_objects_reached, of "\<lambda>k p s. Inl Undefined"] by auto

end
