(* ===== verification/Spec2Isabelle.thy ===== *)
theory Spec2Isabelle
  imports Creation Session Player_Realm Buffered_Arrival Affine2D_Properties Timers Support
    Net_Var Message_Properties List_Replication Base_Math64 Vector_Members
    Controller_Life Convergence Repeated_Properties Ptr_Properties Field_Properties Arenas
begin

text \<open>
  \<^bold>\<open>NETTIK networking: a model of the replication library and its properties\<close>

  The library replicates C++ objects from a game server to its clients over ENet. A controller
  (\<open>NetSystem\<close>, with the subclasses \<open>NetSystemServer\<close> and \<open>NetSystemClient\<close>) holds virtual
  instances (\<open>VirtualInstance\<close>); an instance holds one entity manager (\<open>CEntities\<close>) for each type of
  object; a manager holds networked objects (\<open>NetObject\<close>); an object holds network variables
  (\<open>NetVar\<close> and its templates) and networked lists (\<open>CNetVarList\<close>). Periodically the controller takes
  a snapshot of every instance: every changed variable becomes a frame (\<open>SnapshotEntList\<close>) in a stream
  (\<open>SnapshotStream\<close>) behind a header (\<open>SnapshotHeader\<close>), and the packet is broadcast or sent to the
  server. The receiver decodes the frames and writes the variables. Creation and deletion of objects
  and changes of lists travel as packets of their own.

  \<^bold>\<open>Theories, in the order they build on each other\<close> (files under \<open>src/NETTIK_Networking\<close>)

  \<^item> \<open>Prelude\<close>: machine words of the 32-bit target, faults as the left side of a sum, byte memory with
    explicit out-of-range accesses, little-endian integers, the locale \<open>byte_codec\<close> of fixed-width
    encodings, the collections \<open>wire_simps\<close> and \<open>frame_simps\<close>.
  \<^item> \<open>Snapshot_Stream\<close> (SnapshotStream.h), \<open>Snapshot_Header\<close> (SnapshotHeader.h/.cpp, NETIDReserved.h),
    \<open>Snapshot_Entry\<close> and \<open>Frame_Codec\<close> (SnapshotEntList.h, Constraints.h, ControllerFlags.h): the wire
    format. \<open>Snapshot_Entry\<close> is the flat structure of the code with its offsets; \<open>Frame_Codec\<close> proves
    what the setters, \<open>write\<close> and \<open>read_data\<close> do in terms of the members.
  \<^item> \<open>Net_Var\<close> (NetVar.h/.cpp, CNetVarBase.h, cnetvarstring.h): variables; \<open>World\<close>: the records of
    objects, managers, instances and the controller, and the access paths between them; \<open>Transport\<close>
    and \<open>Net_System\<close> (NetSystem.h/.cpp, NETRPC.h): the controller; \<open>Net_Object\<close> (NetObject.h/.cpp,
    ReplicationInfo.h); \<open>Packet_Factory\<close> (INetworkPacketFactory, INetworkCodes.hpp,
    EntityMessages.proto); \<open>Net_List\<close> and \<open>List_Remote\<close> (CNetVarList.h, NetVarListBase.h/.cpp);
    \<open>Ent_Manager\<close> (CEntities.h, IEntityManager.cpp); \<open>Virtual_Instance\<close> (VirtualInstance.h/.cpp and
    \<open>CEntities::Build\<close>); \<open>Net_Sides\<close> (NetSystemServer, NetSystemClient).
  \<^item> \<open>Net_List_Laws\<close> and \<open>Ent_Laws\<close>: the contracts \<open>remote_store\<close> of a list (the virtual interface
    of \<open>NetVarListBase\<close>) and \<open>entity_store\<close> of an entity manager as locales, with interpretations on
    the code's operations. \<open>Snapshot_Laws\<close>, \<open>Replication\<close> and \<open>Creation\<close>: what a snapshot, a packet
    and a receiving side compute, from one variable up to a whole instance. \<open>Samples\<close>: small concrete
    states.
  \<^item> \<open>Wire_Properties\<close>, \<open>List_Properties\<close>, \<open>System_Properties\<close>, \<open>Entity_Properties\<close> and this theory:
    the properties, each with an evaluated instance where it has a premise.
  \<^item> \<open>Player_Realm\<close> (CPlayerRealm.h/.cpp): the application's table of players, with its invariant as
    an inductive step relation.
  \<^item> \<open>Controller_Life\<close> (NetSystem.h/.cpp, LoggingUtil.cpp): controllers in a process, the global
    pointer to one, construction, destruction, the loop of the network thread and messages. Its
    invariant is that the pointer names the one living controller.
  \<^item> \<open>Session\<close>: a server over time as a step relation, with its invariant. \<open>Announcements\<close>,
    \<open>Server_Tells\<close> and \<open>Convergence\<close>: a server and a client over time. Either side is abstracted to the
    set of identifiers it knows; \<open>tells\<close> says that what a step of the server sends announces its effect
    on that set, \<open>inner\<close> that a step only changes what objects contain and sends to single peers,
    \<open>carries\<close> that a packet has given announcements, and \<open>lagging\<close> is the invariant of server, channels
    and client. The steps of the server are \<open>Build\<close>, \<open>FreeLocal\<close>, the whole \<open>Update\<close>, \<open>SendWorld\<close>, the list
    messages, the packets and events of peers; what a callback of the application may do is \<open>tame_app\<close>.
  \<^item> \<open>Timers\<close> (FrameTimer, SynchronousTimer, the states of a thread object) and \<open>Support\<close> (Utility, CFatalException,
    LockableVector.h, MessageDispatcher): helpers; the locale \<open>fifo\<close> is the contract of a queue.
  \<^item> The mathematics library, over real numbers in place of floats: \<open>Base_Math\<close> and \<open>Base_Math64\<close> (BaseMath.h/.cpp),
    \<open>Vectors\<close> (CVector3.h/.cpp), \<open>Quaternions\<close> (CQuaternion.h/.cpp), \<open>Matrices\<close> (CMatrix4x4.h/.cpp:
    products, inverses, rotations, facing), \<open>Matrix_Decompose\<close> (decomposition into position, rotation and
    scale), \<open>Matrix_Moves\<close> (the in-place steps of CMatrix4x4.h) and \<open>Matrix_Members\<close> (the rest of
    CMatrix4x4, and CVector4). \<open>Matrix_Laws\<close> is their algebra: the vectors are a real vector space, the
    quaternions a ring, the matrices a monoid, with the code's own operations. \<open>Matrix_Properties\<close> has the
    properties.
  \<^item> The smaller matrices: \<open>Plane\<close> (CVector2, CMatrix2x2), \<open>Matrices3\<close> (CMatrix3x3 as a linear map of
    space), \<open>Affine2D\<close> (CMatrix3x3 as a transformation of the plane), \<open>Matrix3_Decompose\<close>.
    \<open>Matrix3_Properties\<close> and \<open>Affine2D_Properties\<close> relate them to the 4x4 matrices by the embeddings
    \<open>linear4\<close>, \<open>planar\<close> and \<open>linear3\<close>, so that their laws carry over. \<open>Vector_Members\<close> has the
    compound assignments of all vectors and the accessors that return a reference into an object, with
    the locale \<open>reference_to\<close> (the laws of reading and writing through one) interpreted on each.
  \<^item> \<open>Buffered_Var\<close> (NetVarBufferBase.h/.cpp, CNetVarBufferedVector, CNetVarBufferedQuat): interpolated
    variables; \<open>Buffered_Laws\<close> has their common part as the locale \<open>blending\<close> with the vector and the
    quaternion as interpretations, \<open>Buffered_Properties\<close> and \<open>Buffered_Arrival\<close> the properties.
  \<^item> The list messages on the wire: \<open>Coded_Stream\<close> (arenastring.h, io/coded_stream.h) and
    \<open>Wire_Format\<close> (wire_format_lite.h, wire_format_lite_inl.h), the inline part of the Protocol Buffers
    runtime under src/include/google/protobuf; \<open>Entity_Messages\<close> and \<open>Map_Messages\<close>
    (EntityMessages.pb.h, EntityMessages.pb.cc). What the runtime only declares is the record
    \<open>pb_lib\<close>; the locales \<open>wire_progress\<close> (no call gives back bytes it has read) and its extension
    \<open>wire_format\<close> (the documented encoding) are its contract, and \<open>Wire_Reference\<close> is an
    implementation that satisfies both. \<open>Message_Progress\<close> shows that the parse loops end,
    \<open>Object_Laws\<close>, \<open>Entry_Laws\<close> and \<open>Key_Laws\<close> relate the fields of each message to its bytes,
    \<open>Message_Codec\<close> makes them the serialisation of \<open>Packet_Factory\<close>, and \<open>Message_Properties\<close> has the
    properties. \<open>List_Replication\<close> composes all of it: local operations, queue, targets, serialisation,
    network loop, handlers.
  \<^item> The repeated fields of the runtime (repeated_field.h). \<open>Repeated_Field\<close>: arrays of values;
    \<open>Repeated_Laws\<close> shows what each operation does to the list of the elements, with the locale
    \<open>appendable\<close> for the two ways to append, and \<open>Repeated_Properties\<close> that any sequence of operations
    is the same sequence on lists. \<open>Repeated_Ptr\<close>: arrays of pointers to objects in a store. What is
    only declared, \<open>Reserve\<close>, \<open>InternalExtend\<close> and \<open>CloseGap\<close>, is the record \<open>ptr_lib\<close> with the contract
    \<open>ptr_library\<close>; \<open>element_handler\<close> is the contract of an element type, met by strings and by
    \<open>INetworkAssociatedObject\<close>. \<open>Ptr_Laws\<close> has the laws of the pointers, \<open>Ptr_Objects\<close> those of the loops
    over the objects, \<open>Ptr_Ownership\<close> the invariant that every object has one owner, \<open>Ptr_Properties\<close>
    the properties and a growing block that meets the contract.
  \<^item> Scalar types and repeated fields on the wire (the rest of io/coded_stream.h, wire_format_lite.h and
    wire_format_lite_inl.h). \<open>Wire_Fields\<close>: numbers of 64 bits and of fixed width, output streams,
    reader, writers and size of the fourteen scalar types, repeated and packed fields, groups and
    messages. The library behind them is \<open>wide_lib\<close> and \<open>out_lib\<close>, with the contracts
    \<open>wide_progress\<close>, \<open>wide_format\<close> and \<open>output_stream\<close>. In \<open>Field_Laws\<close> every scalar type is shown to
    be a \<open>scalar_reader\<close> under the first and a \<open>scalar_codec\<close> under the second, those of fixed width a
    \<open>fixed_reader\<close>; for these the code specialises the readers of repeated and packed values, and so does
    the model (\<open>ReadPackedPrimitive_fixed32\<close> and its like). \<open>wide_bounded\<close> adds that copying takes bytes from
    the stream, \<open>bounded_read\<close> is what reading any bytes may do to a field, and the loops over values are proved once for all of them. \<open>Field_Properties\<close> holds
    an implementation of the library that meets the contracts, and the properties. \<open>packed_loop\<close> is a
    \<open>partial_function\<close>: that it returns is a theorem.
  \<^item> \<open>Arenas\<close> (arena.h): creating objects on an arena or the heap, handing them over, and the clean-up.
    Blocks and the list of clean-up functions are only declared: the record \<open>arena_lib\<close> with the contract
    \<open>arena_library\<close>, met by a simple arena; \<open>arena_reach\<close> is what a caller can do, with
    the history of what the calls left to the arena by the comments of the header (\<open>entrusted\<close>), and
    \<open>arena_inv\<close> its invariant.

  \<^bold>\<open>Conventions\<close>

  \<^item> The target is x86: \<open>size_t\<close> and pointers have 32 bits, the header 12 and the frame structure 212
    bytes, as the static assertions of the code say. Integers keep their width and wrap.
  \<^item> An operation that can fail returns \<open>fault + result\<close>. \<open>Undefined\<close> is behaviour the language leaves
    undefined (an access outside a block, a null or dangling pointer); the exceptions of the code and
    of the standard library are faults of their own. A fault ends the operation.
  \<^item> Objects live in a heap; a shared pointer is a reference. The count of references is computed from
    the manager lists, the controlled objects and the references of the application, and an object is
    destroyed when the last one goes (\<open>release\<close>). A manager or instance pointer is the name the
    manager or instance is registered under; following it when nothing is registered is \<open>Undefined\<close>.
  \<^item> An unordered map is an association list whose order is the iteration order; \<open>std::map\<close> is sorted by
    key. A loop over a manager's list runs over the list as it was when the loop began: a callback that
    changes the list would invalidate the iterator of the code.
  \<^item> Handlers are atomic steps of one thread. The locks that order them are not modelled; where the
    result of \<open>try_lock\<close> decides a branch it is the argument \<open>lock_ok\<close>. The two thread objects of a controller
    are part of its state (\<open>net_thread\<close>, INetworkThread.h/.cpp); \<open>Stop_on\<close> is \<open>Stop\<close> called from one of their
    threads or from elsewhere, and ends where the destructor terminates the calling thread.
  \<^item> What is not in the repository is a parameter: the application's constructors and callbacks, the
    serialisation of Protocol Buffers (both in \<open>app\<close>), the results of ENet's calls; a callback of a
    list acts through the pointer it is given, on its own element; ENet's events are the input list of \<open>process_events\<close>, the calls to ENet are recorded in \<open>w_Out\<close>. The properties of
    packets hold for every serialisation; \<open>library_app\<close> is the one the generated messages give.
  \<^item> Loops are structural recursions over lists or over a length, or have a measure. The parse loop of
    the messages has no bound of its own and is a \<open>partial_function (option)\<close>: not returning is
    \<open>None\<close>, and that it returns is a property. No fuel is used, but for the ten bytes a number of the
    reference implementation can have.

  \<^bold>\<open>What the properties show\<close>

  End to end: a snapshot taken on one side makes every changed variable equal on a receiving side and
  nothing else different there; a server with one manager and its client agree on which objects there are
  once the reliable packets have arrived, whatever steps came before, as long as the callbacks of the
  application create and delete nothing; building and freeing an object on the server
  creates and removes it on a client; a list at a receiver follows the operations made on the list of
  the sender. Safety: the server lets a peer's snapshot change only variables of that peer's own objects
  and handles packets with long enough frames without leaving the packet. Functional behaviour and
  round trips of frames, headers, streams, variables, lists, managers and realms, errors included. A
  repeated field is a list; a field of pointers owns each object once, and nothing leaks; an
  arena ends each object the calls left to it exactly once. The list
  messages are written without leaving their array, parsed in a bounded number of rounds whatever the
  bytes, and read back as they were, parsing into another message being merging; so are values of every
  scalar type and packed fields, the bytes of a packed field bound what is read from it, and the two ways
  to read repeated values of fixed width agree. A third group states the behaviours where the code
  departs from its purpose: packets read past their end, the second instance whose snapshot is lost, a
  filter of a packet that is defeated, a shutdown that ends its own thread, and others.

  \<^bold>\<open>Not modelled\<close>

  Log output and message boxes, operating system threads and mutexes, the unit tests, ENet, and
  Protocol Buffers but for the inline functions above: a coded stream reads from an array, never from a
  \<open>ZeroCopyInputStream\<close>; a float on the wire is the word of its bits; the target is little-endian;
  registration of descriptors, reflection, the blocks of an arena, unknown-field metadata and the logging
  of invalid UTF-8 are left out; the reference implementation refuses groups, which no message here has;
  the merge of a field of pointers with itself, which only the debug build refuses. The rest of the
  bundled headers (descriptors, reflection, extensions, maps, compiler, googletest) is used by no code of
  the repository but the registration above. The rounding of floats, their overflow, infinities and values
  that are not a number are idealised away, and durations in milliseconds are integers without a bound: a
  result about the mathematics or the interpolation is about the formulas in exact arithmetic. The laws
  that hold only there, inverses and decompositions and the bound on interpolated points, are lemmas of
  the theories and not among the properties of the program.
\<close>

section \<open>Replication of variables\<close>

text \<open>
  C2. Replication from end to end: the snapshot of an instance on one side, turned into a packet and
  broadcast, makes every due variable of every local object have the sender's value on a receiving
  side that is ready for them; no other variable changes there, and on the sending side nothing of
  that reliability is left to send.
\<close>

theorem replication_end_to_end:
  assumes vi: "get_instance ws i = Some vi" and run: "w_Running ws" "w_Server ws"
    and ok: "objects_ok ws (all_refs vi)"
    and us: "us = due_updates ws rel forced (all_refs vi)" "us \<noteq> []" "length us < 2 ^ 16"
    and keys: "distinct (map update_key us)"
    and rdy: "\<forall>(nid, v) \<in> set us. ready wc nid v forced"
  shows "\<exists>s ws' s' p wc'. DoSnapshot A i stream_new rel forced ws = Inr (s, ws') \<and>
    send_snapshot s ws' = Inr (s', ws'\<lparr>w_Out := w_Out ws @ [Host_Broadcast p PACKET_FLAG_RELIABLE 0]\<rparr>) \<and>
    HandleEntSnapshot B p wc = Inr wc' \<and>
    (\<forall>(nid, v) \<in> set us. view wc' nid (nv_Name v) = Some (nv_Data v)) \<and>
    (\<forall>k. k \<notin> update_key ` set us \<longrightarrow> view wc' (fst k) (snd k) = view wc (fst k) (snd k)) \<and>
    instance_frames ws' rel False vi = []"
proof -
  let ?fs = "update_frames forced us" let ?mx = "raise_max 0 ?fs"
  let ?p = "snapshot_packet (vi_SequenceID vi) ?mx ?fs"
  let ?ws = "snap_world (all_refs vi) rel forced ws"
  have fs: "instance_frames ws rel forced vi = ?fs" "?fs \<noteq> []" "length ?fs < 2 ^ 16"
    using us by (simp_all add: instance_frames_def update_frames_due) (simp_all add: update_frames_def)
  define s' where "s' = \<lparr>strm_data = ?p # map (pad_buffer ?mx) ?fs, strm_Finished = True\<rparr>"
  from DoSnapshot_fresh [OF vi run(1) ok fs, folded s'_def] obtain s where
    snap: "DoSnapshot A i stream_new rel forced ws = Inr (s, ?ws)" and m: "stream_modified s"
    and res: "stream_result s = Inr (?p, s')" by blast
  have "?p \<noteq> []" by (simp add: snapshot_packet_def header_image_def le16_def)
  then have send: "send_snapshot s ?ws = Inr (s', ?ws\<lparr>w_Out := w_Out ws @ [Host_Broadcast ?p PACKET_FLAG_RELIABLE 0]\<rparr>)"
    using BroadcastStream_eq [OF res] m run
    by (simp add: send_snapshot_def frame_simps Broadcast_def transport_def)
  have "\<forall>(nid, v) \<in> set us. nv_ok v" using us(1) due_updates_ok [OF ok] by blast
  from replicate_updates [OF this us(2,3) rdy keys refl] obtain wc' where
    "HandleEntSnapshot B ?p wc = Inr wc'"
    "\<forall>(nid, v) \<in> set us. view wc' nid (nv_Name v) = Some (nv_Data v)"
    "\<forall>k. k \<notin> update_key ` set us \<longrightarrow> view wc' (fst k) (snd k) = view wc (fst k) (snd k)" by blast
  moreover have "instance_frames ?ws rel False vi = []" by (rule instance_frames_after) simp
  ultimately show ?thesis using snap send by blast
qed

lemma sample_due: "due_updates sample_server True False [0, 1] = [(3, sample_var)]"
  by (simp add: due_updates_def sample_server_def sample_object_def IsNetworkLocal_def due_def)
    (simp add: sample_var_def)

lemma sample_ready: "ready sample_client 3 sample_var False"
proof -
  have "find_object sample_client 3 = Inr (Some 0)"
    using sample_client_lookup [of 3] sample_client_manager
    by (simp add: find_object_def sample_instance_def instance_new_def FindObject_def object_lookup_def)
  then show ?thesis
    unfolding ready_def
    by (intro exI [of _ 0] exI conjI) (assumption | simp add: sample_client_def sample_object_def
        sample_var_def object_var_def accepts_def CheckSequence_def IsNetworkLocal_def
        NET_CONTROLLER_NONE_def NET_CONTROLLER_LOCAL_def)+
qed

lemma sample_objects: "objects_ok sample_server [0, 1]"
  using sample_object_ok by (simp add: objects_ok_def) (simp add: sample_server_def object_ok_def)

theorem replication_end_to_end_witness:
  "\<exists>s ws' s' p wc'. DoSnapshot sample_app [119] stream_new True False sample_server = Inr (s, ws') \<and>
    send_snapshot s ws' = Inr (s', ws'\<lparr>w_Out := w_Out sample_server @ [Host_Broadcast p PACKET_FLAG_RELIABLE 0]\<rparr>) \<and>
    HandleEntSnapshot sample_app p sample_client = Inr wc' \<and>
    (\<forall>(nid, v) \<in> set [(3, sample_var)]. view wc' nid (nv_Name v) = Some (nv_Data v)) \<and>
    (\<forall>k. k \<notin> update_key ` set [(3, sample_var)] \<longrightarrow> view wc' (fst k) (snd k) = view sample_client (fst k) (snd k)) \<and>
    instance_frames ws' True False (sample_instance (sample_manager [0, 1] [])) = []"
  by (rule replication_end_to_end)
    (use sample_due sample_ready sample_objects in \<open>simp_all add: get_instance_def update_key_def\<close>)

text \<open>
  C31. The streams that \<open>SnapshotUpdate\<close> shares between the instances lose the second one: when
  the first instance had something to send, the next packet is the first packet again with a
  second header behind it, so every receiver drops it for its size, while the second instance's
  variables count as sent.
\<close>

theorem second_instance_lost:
  assumes i: "get_instance w i = Some vi" and j: "get_instance w j = Some vj" and run: "w_Running w"
    and ok: "objects_ok w (all_refs vi @ all_refs vj)"
    and us: "due_updates w rel forced (all_refs vi) \<noteq> []"
      "length (due_updates w rel forced (all_refs vi)) + length (due_updates w rel forced (all_refs vj)) < 2 ^ 16"
  shows "\<exists>s1 w1 p t1 s2 w2 h t2. DoSnapshot A i stream_new rel forced w = Inr (s1, w1) \<and>
    stream_result s1 = Inr (p, t1) \<and> DoSnapshot A j t1 rel forced w1 = Inr (s2, w2) \<and>
    stream_result s2 = Inr (p @ header_image h, t2) \<and>
    HandleEntSnapshot B (p @ header_image h) wc = Inr wc \<and> instance_frames w2 rel False vj = []"
proof -
  let ?us = "due_updates w rel forced (all_refs vi)" and ?vs = "due_updates w rel forced (all_refs vj)"
  let ?fs = "update_frames forced ?us" and ?gs = "update_frames forced ?vs"
  let ?mx = "raise_max 0 ?fs" let ?ps = "map (pad_buffer ?mx) ?fs"
  let ?p = "snapshot_packet (vi_SequenceID vi) ?mx ?fs"
  let ?t1 = "\<lparr>strm_data = ?p # ?ps, strm_Finished = True\<rparr>"
  let ?w1 = "snap_world (all_refs vi) rel forced w"
  have oki: "objects_ok w (all_refs vi)" and okj: "objects_ok w (all_refs vj)"
    and dj: "set (all_refs vi) \<inter> set (all_refs vj) = {}" using ok by (simp_all add: objects_ok_append)
  have fs: "instance_frames w rel forced vi = ?fs" "?fs \<noteq> []" "length ?fs < 2 ^ 16"
    using us by (simp_all add: instance_frames_def update_frames_due) (simp_all add: update_frames_def)
  from DoSnapshot_fresh [OF i run oki fs, of A] obtain s1 where
    s1: "DoSnapshot A i stream_new rel forced w = Inr (s1, ?w1)" "stream_result s1 = Inr (?p, ?t1)" by blast
  have j1: "get_instance ?w1 j = Some vj" using j by (simp add: get_instance_def frame_simps)
  have r1: "w_Running ?w1" using run by (simp add: frame_simps)
  have gs: "instance_frames ?w1 rel forced vj = ?gs"
    using ref_frames_snap [OF dj] by (simp add: instance_frames_def update_frames_due)
  let ?n = "length ?fs + length ?gs"
  have n: "(of_nat (length ?fs) + of_nat (length ?gs) :: u16) = of_nat ?n" by simp
  have "?n < 2 ^ 16" "0 < ?n" using us by (simp_all add: update_frames_def)
  then have n0: "(of_nat ?n :: u16) \<noteq> 0" by (intro of_nat_u16_nonzero)
  have d: "strm_data (stream_extend ?t1 ?gs) = ?p # (?ps @ ?gs)" by simp
  let ?w2 = "snap_world (all_refs vj) rel forced ?w1"
  have step: "DoSnapshot A j ?t1 rel forced ?w1 =
      res_bind (header_generate (stream_extend ?t1 ?gs) (vi_SequenceID vj) (of_nat ?n)
        (raise_max (stream_max ?t1) ?gs)) (\<lambda>s2. Inr (s2, ?w2))"
    using DoSnapshot_eq [OF j1 r1 objects_ok_snap [OF okj], of A ?t1] n0
    by (simp add: gs Let_def n [simplified] update_frames_def)
  let ?h = "\<lparr>hd_message_code = OBJECT_FRAME, hd_count = of_nat ?n, hd_sequence = vi_SequenceID vj,
      hd_max_message_length = raise_max (stream_max ?t1) ?gs\<rparr>"
  let ?s2 = "(stream_extend ?t1 ?gs)\<lparr>strm_data := (?p @ header_image ?h) #
      map (pad_buffer (raise_max (stream_max ?t1) ?gs)) (?ps @ ?gs)\<rparr>"
  have s2: "DoSnapshot A j ?t1 rel forced ?w1 = Inr (?s2, ?w2)"
    using step header_generate_eq [OF d] by simp
  have r2: "stream_result ?s2 = Inr (?p @ header_image ?h, ?s2)"
    by (rule stream_result_finished) simp_all
  have "\<forall>(nid, v) \<in> set ?us. nv_ok v" using due_updates_ok [OF oki] by blast
  note m = frames_max [OF this us(1), of forced]
  have pad: "padded_to ?mx ?ps" using m(3) by (rule padded_pad)
  have "HandleEntSnapshot B (?p @ header_image ?h) wc = Inr wc"
    using m(2) \<open>?n < 2 ^ 16\<close> by (intro longer_packet_dropped [OF fs(3) _ pad]) simp_all
  moreover have "instance_frames ?w2 rel False vj = []" by (rule instance_frames_after) simp
  ultimately show ?thesis using s1 s2 r2 by blast
qed

lemma sample_two_due:
  "due_updates sample_two True False [0] = [(3, sample_var)]"
  "due_updates sample_two True False [1] = [(4, sample_var)]"
  by (simp_all add: due_updates_def sample_two_def sample_object_def IsNetworkLocal_def due_def)
    (simp_all add: sample_var_def)

theorem second_instance_lost_witness:
  "\<exists>s1 w1 p t1 s2 w2 h t2. DoSnapshot sample_app [119] stream_new True False sample_two = Inr (s1, w1) \<and>
    stream_result s1 = Inr (p, t1) \<and> DoSnapshot sample_app [118] t1 True False w1 = Inr (s2, w2) \<and>
    stream_result s2 = Inr (p @ header_image h, t2) \<and>
    HandleEntSnapshot sample_app (p @ header_image h) sample_client = Inr sample_client \<and>
    instance_frames w2 True False (sample_instance (sample_manager [1] [])) = []"
proof -
  have i: "get_instance sample_two [119] = Some (sample_instance (sample_manager [0] []))"
    and j: "get_instance sample_two [118] = Some (sample_instance (sample_manager [1] []))"
    and r: "w_Running sample_two"
    by (simp_all add: sample_two_def get_instance_def)
  have "objects_ok sample_two [0, 1]"
    using sample_object_ok by (simp add: objects_ok_def sample_two_def object_ok_def)
  then show ?thesis
    by (intro second_instance_lost [OF i j r]) (simp_all add: sample_two_due [simplified])
qed

section \<open>Creation and deletion of objects\<close>

text \<open>
  Creation from end to end: building an object without an owner on a server with nothing else to
  send broadcasts exactly one reliable packet; a client that has the named instance and manager and
  does not know the identifier finds a new object under it after that packet, and looks every other
  identifier up as before. The identifier is consumed.
\<close>

lemma creation_end_to_end:
  assumes A: "quiet A" and idle: "idle_instance i vi ws" and mg: "find_manager ws i m = Some mg"
    and fit: "names_fit i m" "mg_Name mg = m" and B: "quiet B" and wc: "client_store i m wc"
    and unknown: "object_lookup i m wc (w_TotalEntities ws) = Inr None"
      "map_of (w_Controlled wc) (w_TotalEntities ws) = None"
  shows "\<exists>ws' p wc' r. Build A i m None ws = Inr (Some (w_NextRef ws), ws') \<and>
    w_Out ws' = w_Out ws @ [Host_Broadcast p PACKET_FLAG_RELIABLE 0] \<and>
    w_TotalEntities ws' = w_TotalEntities ws + 1 \<and>
    HandleEntSnapshot B p wc = Inr wc' \<and> client_store i m wc' \<and>
    object_lookup i m wc' (w_TotalEntities ws) = Inr (Some r) \<and>
    (\<forall>nid. nid \<noteq> w_TotalEntities ws \<longrightarrow> object_lookup i m wc' nid = object_lookup i m wc nid)"
proof -
  let ?nid = "w_TotalEntities ws"
  define f where "f = frame_image kFRAME_Alloc ?nid NET_CONTROLLER_NONE 0 0 m (name_data i)"
  define e where "e = frame_entry kFRAME_Alloc ?nid NET_CONTROLLER_NONE 0 0 m (name_data i)"
  note mem = manager_frame_received [OF fit(1), of kFRAME_Alloc ?nid NET_CONTROLLER_NONE, folded e_def]
  from Build_idle [OF A idle mg, of f] fit obtain ws' where
    b: "Build A i m None ws = Inr (Some (w_NextRef ws), ws')"
      "w_Out ws' = w_Out ws @ [Host_Broadcast (snapshot_packet (vi_SequenceID vi) (vsize f) [f]) PACKET_FLAG_RELIABLE 0]"
      "w_TotalEntities ws' = ?nid + 1" by (auto simp: f_def)
  obtain mgc where "find_manager wc i m = Some mgc" using wc by (rule client_storeE)
  then have fm: "frame_manager e wc = Inr (i, m, mgc)" using mem(4) by blast
  have "HandleEntSnapshot B (snapshot_packet (vi_SequenceID vi) (vsize f) [f]) wc = client_frame B e wc"
    unfolding e_def using fit(1)
    by (intro receive_single) (simp_all add: f_def name_data_def names_fit_def)
  also have "\<dots> = EntAllocate B e wc"
    by (simp add: client_frame_def mem(1) kFRAME_Alloc_def kFRAME_Data_def)
  finally show ?thesis
    using EntAllocate_new [OF B fm wc] unknown b by (auto simp: mem(2))
qed

definition sample_idle :: world where
  "sample_idle = sample_server\<lparr>w_heap := [0 \<mapsto> sample_object\<lparr>no_Vars := []\<rparr>,
     1 \<mapsto> sample_object\<lparr>no_NetCode := 4, no_Vars := []\<rparr>]\<rparr>"

lemma sample_idle_idle: "idle_instance [119] (sample_instance (sample_manager [0, 1] [])) sample_idle"
  by (simp add: idle_instance_def get_instance_def objects_ok_def ref_frames_def obj_frames_def
      due_frames_def object_ok_def sample_idle_def)

lemma sample_idle_manager: "find_manager sample_idle [119] [112] = Some (sample_manager [0, 1] [])"
  by (simp add: sample_idle_def find_manager_def get_instance_def get_manager_def sample_instance_def)

lemma sample_names: "names_fit [119] [112]" "mg_Name (sample_manager rs ls) = [112]"
  by (simp_all add: names_fit_def sample_manager_def)

lemma sample_idle_total: "w_TotalEntities sample_idle = 10" "w_Controlled sample_client = []"
  by (simp_all add: sample_idle_def sample_worlds)

text \<open>
  Deletion from end to end: freeing an object on the server broadcasts exactly one reliable
  packet and changes nothing else there; a client that knows the identifier forgets it with that
  packet and keeps every other object.
\<close>

lemma deletion_end_to_end:
  assumes ws: "w_Server ws" "w_Running ws" and mg: "find_manager ws i m = Some mg"
    and cb: "mg_cbDelete mg = None" and fit: "names_fit i m" "mg_Name mg = m"
    and wc: "client_store i m wc"
    and ctl: "map_of (w_Controlled wc) nid = None \<or>
      (\<exists>r. map_of (w_Controlled wc) nid = Some r \<and> object_lookup i m wc nid = Inr (Some r))"
  shows "\<exists>p wc'. FreeEntity A i m nid t ws =
      Inr (True, ws\<lparr>w_Out := w_Out ws @ [Host_Broadcast p PACKET_FLAG_RELIABLE 0]\<rparr>) \<and>
    HandleEntSnapshot B p wc = Inr wc' \<and> client_store i m wc' \<and>
    object_lookup i m wc' nid = Inr None \<and>
    (\<forall>nid'. nid' \<noteq> nid \<longrightarrow> object_lookup i m wc' nid' = object_lookup i m wc nid')"
proof -
  define f where "f = frame_image kFRAME_Dealloc nid NET_CONTROLLER_NONE 0 0 m (name_data i)"
  define e where "e = frame_entry kFRAME_Dealloc nid NET_CONTROLLER_NONE 0 0 m (name_data i)"
  note mem = manager_frame_received [OF fit(1), of kFRAME_Dealloc nid NET_CONTROLLER_NONE, folded e_def]
  have free: "FreeEntity A i m nid t ws = Inr (True, ws\<lparr>w_Out := w_Out ws @
      [Host_Broadcast (snapshot_packet 0 (vsize f) [f]) PACKET_FLAG_RELIABLE 0]\<rparr>)"
    by (rule FreeEntity_server [OF ws mg cb]) (simp_all add: fit f_def)
  obtain mgc where "find_manager wc i m = Some mgc" using wc by (rule client_storeE)
  then have fm: "frame_manager e wc = Inr (i, m, mgc)" using mem(4) by blast
  have "HandleEntSnapshot B (snapshot_packet 0 (vsize f) [f]) wc = client_frame B e wc"
    unfolding e_def using fit(1)
    by (intro receive_single) (simp_all add: f_def name_data_def names_fit_def)
  also have "\<dots> = EntDeallocate B e wc"
    by (simp add: client_frame_def mem(1) kFRAME_Alloc_def kFRAME_Data_def kFRAME_Dealloc_def)
  finally have step: "HandleEntSnapshot B (snapshot_packet 0 (vsize f) [f]) wc = EntDeallocate B e wc" .
  from EntDeallocate_known [OF fm wc, of B, unfolded mem(2), OF ctl] obtain wc' where
    "EntDeallocate B e wc = Inr wc'" "client_store i m wc'" "object_lookup i m wc' nid = Inr None"
    "\<forall>nid'. nid' \<noteq> nid \<longrightarrow> object_lookup i m wc' nid' = object_lookup i m wc nid'" by blast
  with step free show ?thesis by metis
qed

end
